(* ===== verification/Prelude.thy ===== *)
theory Prelude
  imports Main "HOL-Library.List_Lexorder" "HOL-Library.Char_ord"
begin

text \<open>
  What the components share: the named collections of the development, the
  result type of fallible Python code, dictionaries, and facts on lists,
  options and maps that the component proofs use.

  Python strings are \<^typ>\<open>string\<close>: lists of characters, here the code points
  below 256. A dictionary whose order is not observed is a map
  \<^typ>\<open>string \<rightharpoonup> 'v\<close>; one whose insertion order is observed is an association
  list. An exception is the left part of a sum.
\<close>

named_theorems cmcp_simps \<open>unfolding rules of small model operations\<close>
named_theorems cmcp_inv \<open>preservation facts of the component invariants\<close>

type_synonym 'v dict = "string \<rightharpoonup> 'v"
type_synonym ('e, 'a) result = "'e + 'a"

abbreviation Raise :: "'e \<Rightarrow> 'e + 'a" where "Raise e \<equiv> Inl e"
abbreviation Ok :: "'a \<Rightarrow> 'e + 'a" where "Ok a \<equiv> Inr a"

definition is_ok :: "'e + 'a \<Rightarrow> bool" where
  "is_ok r = (case r of Inl _ \<Rightarrow> False | Inr _ \<Rightarrow> True)"

definition bind_result :: "'e + 'a \<Rightarrow> ('a \<Rightarrow> 'e + 'b) \<Rightarrow> 'e + 'b" where
  "bind_result r f = (case r of Inl e \<Rightarrow> Inl e | Inr a \<Rightarrow> f a)"

lemma is_ok_simps [simp]: "is_ok (Inl e) = False" "is_ok (Inr a) = True"
  by (simp_all add: is_ok_def)

lemma is_ok_iff: "is_ok r \<longleftrightarrow> (\<exists>a. r = Inr a)"
  by (cases r) auto

lemma bind_result_simps [simp]:
  "bind_result (Inl e) f = Inl e" "bind_result (Inr a) f = f a"
  by (simp_all add: bind_result_def)

lemma bind_result_eq_Inr:
  "bind_result r f = Inr b \<longleftrightarrow> (\<exists>a. r = Inr a \<and> f a = Inr b)"
  by (cases r) auto

text \<open>A guard that raises, passed.\<close>

lemma guard_eq_Inr [cmcp_simps]: "(if c then Inl e else r) = Inr a \<longleftrightarrow> \<not> c \<and> r = Inr a"
  by simp

lemma bind_result_eq_Inl:
  "bind_result r f = Inl e \<longleftrightarrow> r = Inl e \<or> (\<exists>a. r = Inr a \<and> f a = Inl e)"
  by (cases r) auto

text \<open>Two given inputs with one image. The results on hashes name the two inputs that would have
  to collide; that some inputs collide holds of every hash.\<close>

definition collides :: "('a \<Rightarrow> 'b) \<Rightarrow> 'a \<Rightarrow> 'a \<Rightarrow> bool" where
  "collides f x y \<longleftrightarrow> x \<noteq> y \<and> f x = f y"

lemma collides_intro: "f x = f y \<Longrightarrow> x = y \<or> collides f x y"
  by (simp add: collides_def)

lemma collides_irrefl [simp]: "\<not> collides f x x" "\<not> collides id x y"
  by (simp_all add: collides_def)

text \<open>\<open>dict.get(k, d)\<close>.\<close>

definition dict_get :: "'v dict \<Rightarrow> string \<Rightarrow> 'v \<Rightarrow> 'v" where
  "dict_get m k d = (case m k of Some v \<Rightarrow> v | None \<Rightarrow> d)"

lemma dict_get_simps [simp]:
  "m k = Some v \<Longrightarrow> dict_get m k d = v" "m k = None \<Longrightarrow> dict_get m k d = d"
  by (simp_all add: dict_get_def)

text \<open>The last element satisfying a predicate, as \<open>next(x for x in reversed(xs) if p(x))\<close>.\<close>

definition find_last :: "('a \<Rightarrow> bool) \<Rightarrow> 'a list \<Rightarrow> 'a option" where
  "find_last p xs = find p (rev xs)"

lemma map_of_filter_key: "map_of (filter (\<lambda>r. fst r \<noteq> a) rows) b = (if b = a then None else map_of rows b)"
  by (induction rows) auto

lemma find_last_snoc:
  "find_last p (xs @ [x]) = (if p x then Some x else find_last p xs)"
  by (simp add: find_last_def)

lemma find_last_Some: "find_last p xs = Some x \<Longrightarrow> x \<in> set xs \<and> p x"
  by (induction xs rule: rev_induct) (auto simp: find_last_snoc find_last_def split: if_splits)

lemma find_last_None: "find_last p xs = None \<longleftrightarrow> (\<forall>x\<in>set xs. \<not> p x)"
  by (auto simp: find_last_def find_None_iff)

text \<open>Counting elements, as \<open>sum(1 for x in xs if p(x))\<close>.\<close>

definition count_if :: "('a \<Rightarrow> bool) \<Rightarrow> 'a list \<Rightarrow> nat" where
  "count_if p xs = length (filter p xs)"

lemma count_if_simps [simp]:
  "count_if p [] = 0"
  "count_if p (x # xs) = (if p x then Suc (count_if p xs) else count_if p xs)"
  by (simp_all add: count_if_def)

lemma count_if_append [simp]: "count_if p (xs @ ys) = count_if p xs + count_if p ys"
  by (simp add: count_if_def)

lemma count_if_le_length [simp]: "count_if p xs \<le> length xs"
  by (simp add: count_if_def)

lemma count_if_disjoint:
  assumes "\<And>x. \<not> (p x \<and> q x)"
  shows "count_if p xs + count_if q xs = count_if (\<lambda>x. p x \<or> q x) xs"
  using assms by (induction xs) auto

lemma count_if_partition: "count_if p xs + count_if (\<lambda>x. \<not> p x) xs = length xs"
  by (induction xs) auto

lemma count_if_filter: "count_if p (filter q xs) = count_if (\<lambda>x. q x \<and> p x) xs"
  by (induction xs) auto

text \<open>\<open>sorted(set(xs))\<close> on strings: code point order, which the lexicographic order is.\<close>

definition sorted_set :: "string list \<Rightarrow> string list" where
  "sorted_set xs = sort (remdups xs)"

lemma set_sorted_set [simp]: "set (sorted_set xs) = set xs"
  by (simp add: sorted_set_def)

lemma distinct_sorted_set [simp]: "distinct (sorted_set xs)"
  by (simp add: sorted_set_def)

lemma sorted_sorted_set [simp]: "sorted (sorted_set xs)"
  by (simp add: sorted_set_def)

lemma sorted_set_cong: "set xs = set ys \<Longrightarrow> sorted_set xs = sorted_set ys"
  by (metis distinct_sorted_set set_sorted_set sorted_distinct_set_unique sorted_sorted_set)

text \<open>Writing one key of an ordered dictionary or of a table with a primary key: in place when the
  key exists, at the end otherwise.\<close>

fun upsert :: "(string \<times> 'v) list \<Rightarrow> string \<Rightarrow> 'v \<Rightarrow> (string \<times> 'v) list" where
  "upsert [] k v = [(k, v)]"
| "upsert ((k', v') # rows) k v = (if k' = k then (k, v) # rows else (k', v') # upsert rows k v)"

lemma map_of_upsert [simp]: "map_of (upsert rows k v) = (map_of rows)(k \<mapsto> v)"
  by (induction rows k v rule: upsert.induct) (auto simp: fun_eq_iff)

lemma upsert_new: "k \<notin> fst ` set rows \<Longrightarrow> upsert rows k v = rows @ [(k, v)]"
  by (induction rows k v rule: upsert.induct) auto

lemma distinct_upsert: "distinct (map fst rows) \<Longrightarrow> distinct (map fst (upsert rows k v))"
proof -
  have "fst ` set (upsert rows k v) = insert k (fst ` set rows)" for rows :: "(string \<times> 'a) list"
    by (induction rows k v rule: upsert.induct) auto
  then show "distinct (map fst rows) \<Longrightarrow> distinct (map fst (upsert rows k v))"
    by (induction rows k v rule: upsert.induct) auto
qed

text \<open>\<open>dict.update\<close>.\<close>

definition dict_update :: "(string \<times> 'v) list \<Rightarrow> (string \<times> 'v) list \<Rightarrow> (string \<times> 'v) list" where
  "dict_update d e = foldl (\<lambda>d (k, v). upsert d k v) d e"

lemma map_of_dict_update:
  "distinct (map fst e) \<Longrightarrow> map_of (dict_update d e) = map_of d ++ map_of e"
proof (induction e arbitrary: d)
  case (Cons kv e)
  obtain k v where kv: "kv = (k, v)" by (cases kv)
  with Cons have "map_of (dict_update (upsert d k v) e) = (map_of d)(k \<mapsto> v) ++ map_of e"
    by simp
  moreover have "map_of e k = None"
    using Cons.prems kv by (simp add: map_of_eq_None_iff)
  ultimately show ?case
    by (auto simp: dict_update_def kv fun_eq_iff map_add_def split: option.splits)
qed (simp add: dict_update_def)

subsection \<open>Text operations of \<open>str\<close>\<close>

text \<open>Case mapping and white space for the code points below 256.\<close>

definition lower_char :: "char \<Rightarrow> char" where
  "lower_char c =
     (let n = (of_char c :: nat) in
      if (65 \<le> n \<and> n \<le> 90) \<or> (192 \<le> n \<and> n \<le> 222 \<and> n \<noteq> 215) then char_of (n + 32) else c)"

definition str_lower :: "string \<Rightarrow> string" where
  "str_lower s = map lower_char s"

definition upper_ascii :: "char \<Rightarrow> char" where
  "upper_ascii c = (let n = (of_char c :: nat) in if 97 \<le> n \<and> n \<le> 122 then char_of (n - 32) else c)"

definition str_space :: "char \<Rightarrow> bool" where
  "str_space c \<longleftrightarrow> (let n = (of_char c :: nat) in (9 \<le> n \<and> n \<le> 13) \<or> (28 \<le> n \<and> n \<le> 32) \<or> n = 133 \<or> n = 160)"

definition str_strip :: "string \<Rightarrow> string" where
  "str_strip s = rev (dropWhile str_space (rev (dropWhile str_space s)))"

fun str_split :: "char \<Rightarrow> string \<Rightarrow> string list" where
  "str_split c [] = [[]]"
| "str_split c (x # xs) =
     (if x = c then [] # str_split c xs
      else case str_split c xs of [] \<Rightarrow> [[x]] | w # ws \<Rightarrow> (x # w) # ws)"

definition starts_with :: "string \<Rightarrow> string \<Rightarrow> bool" where
  "starts_with p s \<longleftrightarrow> take (length p) s = p"

definition removeprefix :: "string \<Rightarrow> string \<Rightarrow> string" where
  "removeprefix p s = (if starts_with p s then drop (length p) s else s)"

text \<open>\<open>s.replace(old, new)\<close> for a non-empty \<open>old\<close>: left to right, without overlap.\<close>

function str_replace :: "string \<Rightarrow> string \<Rightarrow> string \<Rightarrow> string" where
  "str_replace old new [] = []"
| "str_replace old new (c # s) =
     (if old \<noteq> [] \<and> starts_with old (c # s)
      then new @ str_replace old new (drop (length old) (c # s))
      else c # str_replace old new s)"
  by pat_completeness auto
termination
  by (relation "measure (\<lambda>(old, new, s). length s)") (auto simp: Suc_diff_le Suc_le_eq diff_less_Suc)

declare str_replace.simps(2) [simp del]

lemma str_strip_Nil [simp]: "str_strip [] = []" and str_lower_Nil [simp]: "str_lower [] = []"
  by (simp_all add: str_strip_def str_lower_def)

lemma str_split_nonempty [simp]: "str_split c s \<noteq> []"
  by (cases s) (auto split: list.splits)

lemma starts_with_append [simp]: "starts_with p (p @ s)"
  by (simp add: starts_with_def)

lemma removeprefix_append [simp]: "removeprefix p (p @ s) = s"
  by (simp add: removeprefix_def)

lemma lower_char_idem [simp]: "lower_char (lower_char c) = lower_char c"
  by (auto simp: lower_char_def Let_def)

lemma str_lower_idem [simp]: "str_lower (str_lower s) = str_lower s"
  by (simp add: str_lower_def)

end
