(* ===== verification/Json.thy ===== *)
theory Json
  imports Prelude
begin

text \<open>
  The part of Python's \<open>json\<close> module the runtime uses: values, and the canonical
  text \<open>json.dumps(v, sort_keys=True, separators=(",", ":"), ensure_ascii=True)\<close>
  that every hash and signature of the gateway is taken over. \<open>render\<close> is the
  text of a value whose objects are already in order, \<open>norm_json\<close> sorts every
  object by key, and \<open>dumps\<close> composes the two. A float is carried by the text
  \<open>float.__repr__\<close> (or \<open>NaN\<close>, \<open>Infinity\<close>) gives it.

  The main result is that the text determines the value: two values with the
  same canonical text differ at most in the order of their objects' keys.
\<close>

datatype json =
    JNull
  | JBool bool
  | JInt int
  | JFloat string
  | JStr string
  | JArr "json list"
  | JObj "(string \<times> json) list"

subsection \<open>Numbers and strings\<close>

definition digit_char :: "nat \<Rightarrow> char" where
  "digit_char n = char_of (48 + n)"

fun nat_str :: "nat \<Rightarrow> string" where
  "nat_str n = (if n < 10 then [digit_char n] else nat_str (n div 10) @ [digit_char (n mod 10)])"

declare nat_str.simps [simp del]

definition int_str :: "int \<Rightarrow> string" where
  "int_str i = (if i < 0 then CHR ''-'' # nat_str (nat (- i)) else nat_str (nat i))"

definition hex_digit :: "nat \<Rightarrow> char" where
  "hex_digit n = (if n < 10 then char_of (48 + n) else char_of (87 + n))"

abbreviation backslash :: char where "backslash \<equiv> CHR 0x5C"
abbreviation dquote :: char where "dquote \<equiv> CHR 0x22"

text \<open>\<open>json.encoder.ESCAPE_ASCII\<close>: the quote, the backslash and everything outside
  space to tilde are escaped.\<close>

definition escape_char :: "char \<Rightarrow> string" where
  "escape_char c =
     (let n = (of_char c :: nat) in
      if c = dquote then [backslash, dquote]
      else if c = backslash then [backslash, backslash]
      else if n = 10 then [backslash, CHR ''n'']
      else if n = 13 then [backslash, CHR ''r'']
      else if n = 9 then [backslash, CHR ''t'']
      else if n = 12 then [backslash, CHR ''f'']
      else if n = 8 then [backslash, CHR ''b'']
      else if 32 \<le> n \<and> n \<le> 126 then [c]
      else [backslash, CHR ''u'', CHR ''0'', CHR ''0'', hex_digit (n div 16), hex_digit (n mod 16)])"

definition json_str :: "string \<Rightarrow> string" where
  "json_str s = dquote # concat (map escape_char s) @ [dquote]"

subsection \<open>Values\<close>

fun join :: "string \<Rightarrow> string list \<Rightarrow> string" where
  "join sep [] = []"
| "join sep [x] = x"
| "join sep (x # y # ys) = x @ sep @ join sep (y # ys)"

fun render :: "json \<Rightarrow> string" where
  "render JNull = ''null''"
| "render (JBool b) = (if b then ''true'' else ''false'')"
| "render (JInt i) = int_str i"
| "render (JFloat t) = t"
| "render (JStr s) = json_str s"
| "render (JArr xs) = ''['' @ join '','' (map render xs) @ '']''"
| "render (JObj kvs) = ''{'' @ join '','' (map (\<lambda>(k, v). json_str k @ '':'' @ render v) kvs) @ ''}''"

fun norm_json :: "json \<Rightarrow> json" where
  "norm_json (JArr xs) = JArr (map norm_json xs)"
| "norm_json (JObj kvs) = JObj (sort_key fst (map (\<lambda>(k, v). (k, norm_json v)) kvs))"
| "norm_json v = v"

definition dumps :: "json \<Rightarrow> string" where
  "dumps v = render (norm_json v)"

text \<open>The texts \<open>float.__repr__\<close> and \<open>json\<close>'s \<open>floatstr\<close> can give: they start like a
  number and hold a character no integer has.\<close>

definition is_digit :: "char \<Rightarrow> bool" where
  "is_digit c \<longleftrightarrow> 48 \<le> (of_char c :: nat) \<and> (of_char c :: nat) \<le> 57"

definition num_char :: "char \<Rightarrow> bool" where
  "num_char c \<longleftrightarrow> c = CHR ''-'' \<or> is_digit c"

definition float_text :: "string \<Rightarrow> bool" where
  "float_text t \<longleftrightarrow> t \<noteq> [] \<and> (\<forall>c\<in>set t. c \<notin> set '',:]}[{'' \<and> c \<noteq> dquote) \<and>
     (num_char (hd t) \<or> hd t = CHR ''N'' \<or> hd t = CHR ''I'') \<and> \<not> list_all num_char t"

fun wf_json :: "json \<Rightarrow> bool" where
  "wf_json (JFloat t) = float_text t"
| "wf_json (JArr xs) = list_all wf_json xs"
| "wf_json (JObj kvs) = list_all (\<lambda>(k, v). wf_json v) kvs"
| "wf_json v = True"

subsection \<open>Decimal and escaped texts determine what they encode\<close>

lemma char_of_inject_small:
  "n < 256 \<Longrightarrow> m < 256 \<Longrightarrow> (char_of n :: char) = char_of (m::nat) \<longleftrightarrow> n = m"
  by (metis of_char_of mod_less)

lemma of_char_digit [simp]: "n < 10 \<Longrightarrow> of_char (digit_char n) = (48 + n :: nat)"
  by (simp add: digit_char_def)

lemma nat_str_nonempty [simp]: "nat_str n \<noteq> []"
  by (subst nat_str.simps) simp

lemma set_nat_str: "c \<in> set (nat_str n) \<Longrightarrow> is_digit c"
proof (induction n rule: nat_str.induct)
  case (1 n)
  then show ?case
    by (cases "n < 10") (auto simp: nat_str.simps [of n] is_digit_def)
qed

fun str_nat :: "string \<Rightarrow> nat" where
  "str_nat s = foldl (\<lambda>a c. 10 * a + (of_char c - 48)) 0 s"

lemma str_nat_nat_str: "str_nat (nat_str n) = n"
proof (induction n rule: nat_str.induct)
  case (1 n)
  then show ?case
    by (cases "n < 10") (simp_all add: nat_str.simps [of n])
qed

lemma nat_str_inject [simp]: "nat_str m = nat_str n \<longleftrightarrow> m = n"
  by (metis str_nat_nat_str)

lemma nat_str_no_minus: "nat_str n \<noteq> CHR ''-'' # xs"
proof
  assume "nat_str n = CHR ''-'' # xs"
  then have "is_digit (CHR ''-'')"
    by (intro set_nat_str [of _ n]) simp
  then show False by (simp add: is_digit_def)
qed

lemma int_str_nonempty [simp]: "int_str i \<noteq> []"
  by (simp add: int_str_def)

lemma int_str_chars: "c \<in> set (int_str i) \<Longrightarrow> num_char c"
  using set_nat_str by (auto simp: int_str_def num_char_def split: if_splits)

lemma int_str_inject [simp]: "int_str i = int_str j \<longleftrightarrow> i = j"
proof
  assume eq: "int_str i = int_str j"
  then show "i = j"
    using nat_str_no_minus nat_str_no_minus [symmetric]
    by (auto simp: int_str_def split: if_splits)
qed simp

definition hex_val :: "char \<Rightarrow> nat" where
  "hex_val c = (if of_char c < (58::nat) then of_char c - 48 else of_char c - 87)"

lemma hex_val_digit [simp]: "n < 16 \<Longrightarrow> hex_val (hex_digit n) = n"
  by (auto simp: hex_digit_def hex_val_def)

fun unescape :: "string \<Rightarrow> (char \<times> string) option" where
  "unescape [] = None"
| "unescape (c # r) =
     (if c \<noteq> backslash then Some (c, r)
      else case r of
        [] \<Rightarrow> None
      | d # r' \<Rightarrow>
          if d = CHR ''n'' then Some (char_of (10::nat), r')
          else if d = CHR ''r'' then Some (char_of (13::nat), r')
          else if d = CHR ''t'' then Some (char_of (9::nat), r')
          else if d = CHR ''f'' then Some (char_of (12::nat), r')
          else if d = CHR ''b'' then Some (char_of (8::nat), r')
          else if d = CHR ''u'' then
            Some (char_of (16 * hex_val (r' ! 2) + hex_val (r' ! 3)), drop 4 r')
          else Some (d, r'))"

lemma unescape_escape [simp]: "unescape (escape_char c @ r) = Some (c, r)"
proof -
  define n where "n = (of_char c :: nat)"
  have c: "c = char_of n" and n: "n < 256"
    by (simp_all add: n_def)
  have rebuild: "char_of (16 * (n div 16) + n mod 16) = c"
    using c by simp
  show ?thesis
    unfolding escape_char_def Let_def n_def [symmetric]
    using n rebuild by (auto simp: c)
qed

lemma escape_nonempty [simp]: "escape_char c \<noteq> []"
  by (auto simp: escape_char_def Let_def)

lemma hd_escape [simp]: "hd (escape_char c) \<noteq> dquote" "dquote \<noteq> hd (escape_char c)"
  by (auto simp: escape_char_def Let_def)

lemma escaped_unique:
  "concat (map escape_char s) @ dquote # r = concat (map escape_char t) @ dquote # r' \<Longrightarrow>
   s = t \<and> r = r'"
proof (induction s arbitrary: t)
  case Nil
  then show ?case
    by (cases t) (auto dest!: arg_cong [where f = hd])
next
  case (Cons c s)
  show ?case
  proof (cases t)
    case Nil
    with Cons.prems show ?thesis
      by (auto dest!: arg_cong [where f = hd])
  next
    case (Cons d t')
    with Cons.prems have "unescape (escape_char c @ concat (map escape_char s) @ dquote # r)
        = unescape (escape_char d @ concat (map escape_char t') @ dquote # r')"
      by simp
    then have "c = d"
      and "concat (map escape_char s) @ dquote # r = concat (map escape_char t') @ dquote # r'"
      by simp_all
    with Cons.IH Cons show ?thesis by blast
  qed
qed

lemma json_str_unique:
  assumes "json_str s @ r = json_str t @ r'"
  shows "s = t \<and> r = r'"
proof -
  from assms have "concat (map escape_char s) @ dquote # r = concat (map escape_char t) @ dquote # r'"
    by (simp add: json_str_def)
  then show ?thesis by (rule escaped_unique)
qed

lemma json_str_inject [simp]: "json_str s = json_str t \<longleftrightarrow> s = t"
  by (metis append_Nil2 json_str_unique)

subsection \<open>The rendered text determines the value\<close>

text \<open>What may follow a value inside a text: the end, a comma or a closing bracket.\<close>

definition delimited :: "string \<Rightarrow> bool" where
  "delimited r \<longleftrightarrow> (case r of [] \<Rightarrow> True | c # _ \<Rightarrow> c \<in> set '',]}'')"

lemma delimited_simps [simp]:
  "delimited []" "delimited (c # r) \<longleftrightarrow> c \<in> set '',]}''"
  by (simp_all add: delimited_def)

lemma token_unique:
  assumes "\<forall>c\<in>set a. c \<notin> set '',]}''" and "\<forall>c\<in>set b. c \<notin> set '',]}''"
    and "delimited r" and "delimited s" and "a @ r = b @ s"
  shows "a = b \<and> r = s"
  using assms
proof (induction a arbitrary: b)
  case Nil
  then show ?case by (cases b; cases r) auto
next
  case (Cons x a)
  then show ?case by (cases b; cases s) auto
qed

text \<open>A comma-separated sequence closed by a bracket is uniquely readable when its items are.\<close>

lemma join_unique:
  assumes "\<And>x y r s. x \<in> set xs \<Longrightarrow> P y \<Longrightarrow> delimited r \<Longrightarrow> delimited s \<Longrightarrow>
      f x @ r = f y @ s \<Longrightarrow> x = y \<and> r = s"
    and "\<forall>y\<in>set ys. P y"
    and "\<And>z. z \<in> set xs \<union> set ys \<Longrightarrow> f z \<noteq> [] \<and> hd (f z) \<notin> set '',]}''"
    and "close \<in> set '']}''"
    and "join '','' (map f xs) @ close # r = join '','' (map f ys) @ close # s"
  shows "xs = ys \<and> r = s"
  using assms
proof (induction xs arbitrary: ys)
  case Nil
  show ?case
  proof (cases ys)
    case Nil
    with Nil.prems show ?thesis by simp
  next
    case (Cons y ys')
    with Nil.prems(3) [of y] have "f y \<noteq> []" "hd (f y) \<noteq> close"
      using Nil.prems(4) by auto
    moreover have "hd (join '','' (map f ys) @ close # s) = hd (f y)"
      using Cons \<open>f y \<noteq> []\<close> by (cases ys') auto
    moreover have "hd (join '','' (map f ys) @ close # s) = close"
      using Nil.prems(5) by (metis append_Nil join.simps(1) list.sel(1) list.simps(8))
    ultimately show ?thesis by simp
  qed
next
  case (Cons x xs)
  have fx: "f x \<noteq> []" "hd (f x) \<noteq> close"
    using Cons.prems(3) [of x] Cons.prems(4) by auto
  show ?case
  proof (cases ys)
    case Nil
    have "hd (join '','' (map f (x # xs)) @ close # r) = hd (f x)"
      using fx by (cases xs) auto
    with Nil Cons.prems(5) fx show ?thesis by simp
  next
    case (Cons y ys')
    define rx where "rx = (if xs = [] then close # r else '','' @ join '','' (map f xs) @ close # r)"
    define ry where "ry = (if ys' = [] then close # s else '','' @ join '','' (map f ys') @ close # s)"
    have eq: "f x @ rx = f y @ ry"
      using Cons.prems(5) Cons by (cases xs; cases ys') (auto simp: rx_def ry_def)
    have "delimited rx" "delimited ry"
      using Cons.prems(4) by (auto simp: rx_def ry_def)
    then have xy: "x = y" "rx = ry"
      using Cons.prems(1) [of x y rx ry] Cons.prems(2) eq Cons by auto
    show ?thesis
    proof (cases "xs = [] \<or> ys' = []")
      case True
      with xy Cons.prems(4) Cons show ?thesis
        by (auto simp: rx_def ry_def split: if_splits)
    next
      case False
      with xy have tl: "join '','' (map f xs) @ close # r = join '','' (map f ys') @ close # s"
        by (simp add: rx_def ry_def)
      have "xs = ys' \<and> r = s"
      proof (rule Cons.IH)
        show "\<forall>y\<in>set ys'. P y" using Cons.prems(2) Cons by simp
        show "join '','' (map f xs) @ close # r = join '','' (map f ys') @ close # s" by (rule tl)
        show "close \<in> set '']}''" by (rule Cons.prems(4))
        show "f z \<noteq> [] \<and> hd (f z) \<notin> set '',]}''" if "z \<in> set xs \<union> set ys'" for z
          using Cons.prems(3) [of z] that Cons by auto
      qed (use Cons.prems(1) in auto)
      with xy Cons show ?thesis by simp
    qed
  qed
qed

text \<open>The first character of a text tells scalars, strings, arrays and objects apart.\<close>

fun scalar :: "json \<Rightarrow> bool" where
  "scalar (JStr s) = False"
| "scalar (JArr xs) = False"
| "scalar (JObj kvs) = False"
| "scalar v = True"

lemma num_char_not_special:
  "num_char c \<Longrightarrow> c \<notin> set '',:]}[{ntfNI'' \<and> c \<noteq> dquote"
  by (auto simp: num_char_def is_digit_def)

lemma scalar_chars:
  assumes "scalar v" "wf_json v" "c \<in> set (render v)"
  shows "c \<notin> set '',:]}[{'' \<and> c \<noteq> dquote"
proof (cases v)
  case (JInt i)
  with assms have "num_char c" using int_str_chars by simp
  then show ?thesis using num_char_not_special by auto
qed (use assms in \<open>auto simp: float_text_def split: if_splits\<close>)

lemma scalar_nonempty: "scalar v \<Longrightarrow> wf_json v \<Longrightarrow> render v \<noteq> []"
  by (cases v) (auto simp: float_text_def)

lemma scalar_hd: "scalar v \<Longrightarrow> wf_json v \<Longrightarrow> hd (render v) \<notin> set '',:]}[{'' \<and> hd (render v) \<noteq> dquote"
  using scalar_chars scalar_nonempty by (meson hd_in_set)

lemma hd_int_str: "num_char (hd (int_str i))"
  using int_str_chars int_str_nonempty hd_in_set by blast

lemma float_not_int: "float_text t \<Longrightarrow> t \<noteq> int_str i"
  using int_str_chars by (auto simp: float_text_def list_all_iff)

lemma scalar_inject:
  assumes "scalar v" "scalar w" "wf_json v" "wf_json w" "render v = render w"
  shows "v = w"
proof -
  have hds: "num_char (hd (int_str i))" "hd (int_str i) \<noteq> CHR ''n''" "hd (int_str i) \<noteq> CHR ''t''"
    "hd (int_str i) \<noteq> CHR ''f''" for i
    using hd_int_str [of i] num_char_not_special by auto
  have ints: "int_str i \<noteq> ''null''" "int_str i \<noteq> ''true''" "int_str i \<noteq> ''false''" for i
    using hds [of i] by auto
  have floats: "\<not> float_text ''null''" "\<not> float_text ''true''" "\<not> float_text ''false''"
    by (simp_all add: float_text_def num_char_def is_digit_def)
  show ?thesis
    using assms
    by (cases v; cases w)
       (auto simp: ints ints [symmetric] float_not_int float_not_int [symmetric] floats
             split: if_splits)
qed

lemma hd_render: "wf_json v \<Longrightarrow> render v \<noteq> [] \<and> hd (render v) \<notin> set '',]}''"
  using scalar_hd [of v] scalar_nonempty [of v]
  by (cases v) (auto simp: json_str_def)

lemma render_not_scalar:
  "\<not> scalar w \<Longrightarrow> hd (render w) = dquote \<or> hd (render w) = CHR ''['' \<or> hd (render w) = CHR ''{''"
  by (cases w) (auto simp: json_str_def)

lemma scalar_unique:
  assumes "scalar v" "wf_json v" "wf_json w" "delimited r" "delimited s" "render v @ r = render w @ s"
  shows "v = w \<and> r = s"
proof -
  have "hd (render v) = hd (render w)"
    using assms scalar_nonempty hd_render by (metis hd_append2)
  then have w: "scalar w"
    using render_not_scalar [of w] scalar_hd [of v] assms by auto
  have "render v = render w \<and> r = s"
    by (rule token_unique) (use scalar_chars [of v] scalar_chars [of w] w assms in auto)
  with scalar_inject w assms show ?thesis by blast
qed

lemma pair_unique:
  assumes "\<And>w r s. wf_json w \<Longrightarrow> delimited r \<Longrightarrow> delimited s \<Longrightarrow> render v @ r = render w @ s \<Longrightarrow>
      v = w \<and> r = s"
    and "wf_json w" "delimited r" "delimited s"
    and "(json_str k @ '':'' @ render v) @ r = (json_str k' @ '':'' @ render w) @ s"
  shows "(k, v) = (k', w) \<and> r = s"
  using assms(1) [OF assms(2-4)] assms(5) json_str_unique
  by (metis append_assoc append_eq_Cons_conv append_same_eq list.inject append_Cons append_Nil)

lemma render_unique:
  "wf_json v \<Longrightarrow> wf_json w \<Longrightarrow> delimited r \<Longrightarrow> delimited s \<Longrightarrow> render v @ r = render w @ s \<Longrightarrow>
   v = w \<and> r = s"
proof (induction v arbitrary: w r s rule: render.induct)
  case (5 t)
  then have "hd (render w) = dquote"
    using hd_render [of w] by (metis hd_append2 list.sel(1) json_str_def render.simps(5) append_Cons)
  then obtain u where w: "w = JStr u"
    using scalar_hd [of w] 5(2) by (cases w) (auto simp:)
  with 5 json_str_unique [of t r u s] show ?case by auto
next
  case (6 xs)
  have "hd (render w) = CHR ''[''"
    using 6(6) hd_render [OF 6(3)] by (metis hd_append2 list.sel(1) render.simps(6) append_Cons)
  then obtain ys where w: "w = JArr ys"
    using scalar_hd [of w] 6(3) by (cases w) (auto simp: json_str_def)
  have "xs = ys \<and> r = s"
  proof (rule join_unique [where P = wf_json and f = render and close = "CHR '']''"])
    fix x y r s
    assume "x \<in> set xs" "wf_json y" "delimited r" "delimited s" "render x @ r = render y @ s"
    then show "x = y \<and> r = s"
      using 6(1) [of x y r s] 6(2) by (auto simp: list_all_iff)
  next
    show "render z \<noteq> [] \<and> hd (render z) \<notin> set '',]}''" if "z \<in> set xs \<union> set ys" for z
      using hd_render [of z] that 6(2,3) w by (auto simp: list_all_iff)
  qed (use 6 w in \<open>auto simp: list_all_iff\<close>)
  with w show ?case by simp
next
  case (7 kvs)
  let ?f = "\<lambda>(k, v). json_str k @ '':'' @ render v"
  have "hd (render w) = CHR ''{''"
    using 7(6) hd_render [OF 7(3)] by (metis hd_append2 list.sel(1) render.simps(7) append_Cons)
  then obtain lvs where w: "w = JObj lvs"
    using scalar_hd [of w] 7(3) by (cases w) (auto simp: json_str_def)
  have "kvs = lvs \<and> r = s"
  proof (rule join_unique [where P = "\<lambda>(k, v). wf_json v" and f = ?f and close = "CHR ''}''"])
    fix x y r s
    assume x: "x \<in> set kvs" and y: "case y of (k, v) \<Rightarrow> wf_json v" and ds: "delimited r" "delimited s"
      and eq: "?f x @ r = ?f y @ s"
    obtain k v k' v' where xy: "x = (k, v)" "y = (k', v')" by (cases x, cases y)
    have wv: "wf_json v" using 7(2) x xy by (auto simp: list_all_iff)
    have "(k, v) = (k', v') \<and> r = s"
    proof (rule pair_unique)
      show "wf_json v'" using y xy by simp
      show "(json_str k @ '':'' @ render v) @ r = (json_str k' @ '':'' @ render v') @ s"
        using eq xy by simp
      show "v = u \<and> r = s" if "wf_json u" "delimited r" "delimited s" "render v @ r = render u @ s" for u r s
        by (rule 7(1) [OF x xy(1) [symmetric] wv that])
    qed (rule ds)+
    with xy show "x = y \<and> r = s" by simp
  next
    show "?f z \<noteq> [] \<and> hd (?f z) \<notin> set '',]}''" for z
      by (cases z) (auto simp: json_str_def)
  qed (use 7 w in \<open>auto simp: list_all_iff\<close>)
  with w show ?case by simp
qed (rule scalar_unique; simp)+

lemma render_inject: "wf_json v \<Longrightarrow> wf_json w \<Longrightarrow> render v = render w \<Longrightarrow> v = w"
  using render_unique [of v w "[]" "[]"] by simp

lemma wf_norm_json: "wf_json v \<Longrightarrow> wf_json (norm_json v)"
  by (induction v rule: norm_json.induct) (force simp: list_all_iff)+

lemma dumps_inject:
  "wf_json v \<Longrightarrow> wf_json w \<Longrightarrow> dumps v = dumps w \<longleftrightarrow> norm_json v = norm_json w"
  using render_inject wf_norm_json by (auto simp: dumps_def)

text \<open>A key with a unique entry keeps its value through \<open>norm_json\<close>.\<close>

lemma map_of_sort_key:
  assumes "distinct (map fst kvs)"
  shows "map_of (sort_key fst kvs) = map_of kvs"
  using assms by (subst map_of_inject_set) (auto simp: distinct_map)

lemma norm_json_obj_lookup:
  "distinct (map fst kvs) \<Longrightarrow>
   map_of (sort_key fst (map (\<lambda>(k, v). (k, norm_json v)) kvs)) k = map_option norm_json (map_of kvs k)"
  by (subst map_of_sort_key) (auto simp: map_of_map o_def case_prod_beta)

lemma norm_json_obj_eq_lookup:
  assumes "norm_json (JObj kvs) = norm_json (JObj lvs)"
    and "distinct (map fst kvs)" "distinct (map fst lvs)"
  shows "map_option norm_json (map_of kvs k) = map_option norm_json (map_of lvs k)"
proof -
  from assms(1) have "sort_key fst (map (\<lambda>(k, v). (k, norm_json v)) kvs)
      = sort_key fst (map (\<lambda>(k, v). (k, norm_json v)) lvs)"
    by simp
  then show ?thesis
    using assms(2,3) by (metis norm_json_obj_lookup)
qed

subsection \<open>Properties\<close>

text \<open>The canonical JSON text that is hashed and signed throughout the runtime identifies the
  document: two well-formed values have the same sorted-key compact rendering exactly when they are
  the same up to the order of object keys.\<close>

theorem canonical_json_injective:
  assumes "wf_json v" "wf_json w"
  shows "dumps v = dumps w \<longleftrightarrow> norm_json v = norm_json w"
  by (rule dumps_inject [OF assms])

theorem canonical_json_injective_witness:
  "dumps (JObj [(''b'', JInt 1), (''a'', JStr ''x'')]) = dumps (JObj [(''a'', JStr ''x''), (''b'', JInt 1)])
   \<and> dumps (JStr ''1'') \<noteq> dumps (JInt 1)"
  using canonical_json_injective [of "JObj [(''b'', JInt 1), (''a'', JStr ''x'')]" "JObj [(''a'', JStr ''x''), (''b'', JInt 1)]"]
    canonical_json_injective [of "JStr ''1''" "JInt 1"]
  by simp

end
