(* ===== verification/Datetime.thy ===== *)
theory Datetime
  imports Json
begin

text \<open>
  UTC \<open>datetime\<close> values as the fields Python keeps, their order, and the ISO
  texts \<open>isoformat\<close> writes and \<open>fromisoformat\<close> reads back.
\<close>

record datetime =
  dt_year :: nat
  dt_month :: nat
  dt_day :: nat
  dt_hour :: nat
  dt_minute :: nat
  dt_second :: nat
  dt_microsecond :: nat

definition dt_fields :: "datetime \<Rightarrow> nat list" where
  "dt_fields t = [dt_year t, dt_month t, dt_day t, dt_hour t, dt_minute t, dt_second t, dt_microsecond t]"

definition dt_less :: "datetime \<Rightarrow> datetime \<Rightarrow> bool" where
  "dt_less a b \<longleftrightarrow> dt_fields a < dt_fields b"

text \<open>The field ranges every \<open>datetime\<close> object satisfies (the day's bound by month is not needed here).\<close>

definition wf_datetime :: "datetime \<Rightarrow> bool" where
  "wf_datetime t \<longleftrightarrow> dt_year t < 10000 \<and> dt_month t < 100 \<and> dt_day t < 100 \<and> dt_hour t < 100 \<and>
     dt_minute t < 100 \<and> dt_second t < 100 \<and> dt_microsecond t < 1000000"

fun pad :: "nat \<Rightarrow> nat \<Rightarrow> string" where
  "pad 0 n = []"
| "pad (Suc w) n = pad w (n div 10) @ [digit_char (n mod 10)]"

definition isoformat :: "datetime \<Rightarrow> string" where
  "isoformat t =
     pad 4 (dt_year t) @ ''-'' @ pad 2 (dt_month t) @ ''-'' @ pad 2 (dt_day t) @ ''T'' @
     pad 2 (dt_hour t) @ '':'' @ pad 2 (dt_minute t) @ '':'' @ pad 2 (dt_second t) @
     (if dt_microsecond t = 0 then [] else ''.'' @ pad 6 (dt_microsecond t)) @ ''+00:00''"

definition read_digits :: "string \<Rightarrow> nat option" where
  "read_digits s = (if list_all is_digit s then Some (str_nat s) else None)"

text \<open>\<open>fromisoformat\<close> on the two layouts \<open>isoformat\<close> produces for UTC values; every
  other text is rejected.\<close>

definition fromisoformat :: "string \<Rightarrow> datetime option" where
  "fromisoformat s =
     (let frac = (length s = 32) in
      if (length s = 25 \<or> frac) \<and> s ! 4 = CHR ''-'' \<and> s ! 7 = CHR ''-'' \<and> s ! 10 = CHR ''T'' \<and>
         s ! 13 = CHR '':'' \<and> s ! 16 = CHR '':'' \<and> (frac \<longrightarrow> s ! 19 = CHR ''.'') \<and>
         drop (length s - 6) s = ''+00:00''
      then (case (read_digits (take 4 s), read_digits (take 2 (drop 5 s)), read_digits (take 2 (drop 8 s)),
                  read_digits (take 2 (drop 11 s)), read_digits (take 2 (drop 14 s)),
                  read_digits (take 2 (drop 17 s)),
                  (if frac then read_digits (take 6 (drop 20 s)) else Some 0)) of
              (Some y, Some mo, Some d, Some h, Some mi, Some sec, Some us) \<Rightarrow>
                Some \<lparr>dt_year = y, dt_month = mo, dt_day = d, dt_hour = h, dt_minute = mi,
                      dt_second = sec, dt_microsecond = us\<rparr>
            | _ \<Rightarrow> None)
      else None)"

lemma length_pad [simp]: "length (pad w n) = w"
  by (induction w arbitrary: n) auto

lemma pad_digits: "list_all is_digit (pad w n)"
  by (induction w arbitrary: n) (auto simp: is_digit_def)

lemma str_nat_pad: "n < 10 ^ w \<Longrightarrow> str_nat (pad w n) = n"
proof (induction w arbitrary: n)
  case (Suc w)
  then have "n div 10 < 10 ^ w" by (simp add: less_mult_imp_div_less mult.commute)
  with Suc.IH [of "n div 10"] show ?case by simp
qed simp

lemma read_pad [simp]: "n < 10 ^ w \<Longrightarrow> read_digits (pad w n) = Some n"
  by (simp only: read_digits_def pad_digits str_nat_pad if_True)

lemma fromisoformat_isoformat: "wf_datetime t \<Longrightarrow> fromisoformat (isoformat t) = Some t"
  by (cases "dt_microsecond t = 0")
     (simp_all add: wf_datetime_def fromisoformat_def isoformat_def nth_append)

lemma isoformat_inject:
  "wf_datetime a \<Longrightarrow> wf_datetime b \<Longrightarrow> isoformat a = isoformat b \<longleftrightarrow> a = b"
  by (metis fromisoformat_isoformat option.inject)

lemma dt_less_irrefl [simp]: "\<not> dt_less t t"
  by (simp add: dt_less_def)

lemma dt_less_trans: "dt_less a b \<Longrightarrow> dt_less b c \<Longrightarrow> dt_less a c"
  by (auto simp: dt_less_def)

lemma dt_not_less_trans: "\<not> dt_less b a \<Longrightarrow> \<not> dt_less c b \<Longrightarrow> \<not> dt_less c a"
  by (auto simp: dt_less_def)

subsection \<open>Elapsed time\<close>

text \<open>The proleptic Gregorian day number \<open>toordinal\<close> gives, and the microseconds a difference of two
  values holds.\<close>

definition is_leap :: "nat \<Rightarrow> bool" where
  "is_leap y \<longleftrightarrow> y mod 4 = 0 \<and> (y mod 100 \<noteq> 0 \<or> y mod 400 = 0)"

definition month_lengths :: "nat \<Rightarrow> nat list" where
  "month_lengths y = [31, if is_leap y then 29 else 28, 31, 30, 31, 30, 31, 31, 30, 31, 30, 31]"

definition toordinal :: "nat \<Rightarrow> nat \<Rightarrow> nat \<Rightarrow> int" where
  "toordinal y m d =
     (let p = int y - 1 in
      p * 365 + p div 4 - p div 100 + p div 400 + int (sum_list (take (m - 1) (month_lengths y))) + int d)"

definition dt_micros :: "datetime \<Rightarrow> int" where
  "dt_micros t =
     (((toordinal (dt_year t) (dt_month t) (dt_day t) * 24 + int (dt_hour t)) * 60 + int (dt_minute t)) * 60
      + int (dt_second t)) * 1000000 + int (dt_microsecond t)"

text \<open>A time for the concrete runs.\<close>

definition sample_time :: datetime where
  "sample_time = \<lparr>dt_year = 2026, dt_month = 1, dt_day = 1, dt_hour = 0, dt_minute = 0, dt_second = 0,
     dt_microsecond = 0\<rparr>"

end
