(* ===== verification/Session_State.thy ===== *)
theory Session_State
  imports Datetime
begin

text \<open>
  The session sensitivity state machine (\<open>session/state.py\<close>) and the stores that
  share its value between gateway instances (\<open>session/store.py\<close>). A store is the
  record of operations of the \<open>SessionStateStore\<close> protocol over its own state
  type, so that the state machine is defined once and the in-memory and SQLite
  stores are two instances of it. \<open>exclusive\<close> serialises the store's
  read-modify-write, so one call of \<open>apply_inspection\<close> or \<open>apply_reset\<close> is one
  atomic step; the SQLite transaction behind it is modelled in \<open>Sqlite_Session\<close>.
  Clock readings and fresh identifiers are arguments.
\<close>

subsection \<open>Vocabularies\<close>

definition SENSITIVITY_ORDER :: "int dict" where
  "SENSITIVITY_ORDER = map_of
     [(''public'', 0), (''pii'', 1), (''confidential'', 2), (''hipaa_phi'', 3), (''mnpi'', 3),
      (''trade_secret'', 3)]"

definition COMPLIANCE_DOMAINS :: "bool dict" where
  "COMPLIANCE_DOMAINS = map_of
     [(''hipaa_phi'', True), (''pci_data'', True), (''mnpi'', True), (''pii'', True),
      (''internal'', False), (''external'', False), (''public'', False)]"

definition effective_compliance_domains :: "bool dict option \<Rightarrow> bool dict" where
  "effective_compliance_domains extra =
     (case extra of None \<Rightarrow> Map.empty | Some m \<Rightarrow> m) ++ COMPLIANCE_DOMAINS"

definition effective_sensitivity_order :: "int dict option \<Rightarrow> int dict" where
  "effective_sensitivity_order extra =
     (case extra of None \<Rightarrow> Map.empty | Some m \<Rightarrow> m) ++ SENSITIVITY_ORDER"

text \<open>\<open>order.get(label, 0)\<close>.\<close>

definition rank :: "int dict \<Rightarrow> string \<Rightarrow> int" where
  "rank order label = dict_get order label 0"

definition max_sensitivity :: "string \<Rightarrow> string \<Rightarrow> int dict \<Rightarrow> string" where
  "max_sensitivity a b order = (if rank order a < rank order b then b else a)"

subsection \<open>State\<close>

record injection_event =
  ie_call_id :: string
  ie_timestamp :: string

record closed_session_record =
  cr_session_id :: string
  cr_max_sensitivity :: string
  cr_sensitivity_raised_at :: "string option"
  cr_sensitivity_raised_by_call :: "string option"
  cr_reset_count :: nat
  cr_closed_at :: string
  cr_reason :: string
  cr_authorized_by :: string

datatype kill_trigger = Deny_rate | Operator

record session_state =
  ss_session_id :: string
  ss_max_sensitivity :: string
  ss_sensitivity_raised_at :: "string option"
  ss_sensitivity_raised_by_call :: "string option"
  ss_injection_events :: "injection_event list"
  ss_reset_count :: nat
  ss_suspicious_sequences :: nat
  ss_attestation_stale :: bool
  ss_catalog_drift :: bool
  ss_upstream_drift_tools :: "string list"
  ss_kill_switch_triggered :: bool
  ss_kill_switch_trigger :: "kill_trigger option"
  ss_kill_switch_observed_calls :: "string set"
  ss_sensitivity_order :: "int dict"

definition new_session_state :: "string \<Rightarrow> int dict \<Rightarrow> session_state" where
  "new_session_state sid order =
     \<lparr>ss_session_id = sid, ss_max_sensitivity = ''public'', ss_sensitivity_raised_at = None,
      ss_sensitivity_raised_by_call = None, ss_injection_events = [], ss_reset_count = 0,
      ss_suspicious_sequences = 0, ss_attestation_stale = False, ss_catalog_drift = False,
      ss_upstream_drift_tools = [], ss_kill_switch_triggered = False, ss_kill_switch_trigger = None,
      ss_kill_switch_observed_calls = {}, ss_sensitivity_order = order\<rparr>"

record stored_sensitivity =
  st_max_sensitivity :: string
  st_sensitivity_raised_at :: "string option"
  st_sensitivity_raised_by_call :: "string option"
  st_reset_count :: nat

subsection \<open>Operations on one instance\<close>

text \<open>One iteration of the loop of \<open>update_from_inspection\<close>.\<close>

definition raise_by_tag :: "string \<Rightarrow> datetime \<Rightarrow> session_state \<Rightarrow> string \<Rightarrow> session_state" where
  "raise_by_tag call_id now s tag =
     (let new_max = max_sensitivity (ss_max_sensitivity s) tag (ss_sensitivity_order s) in
      if new_max \<noteq> ss_max_sensitivity s
      then s\<lparr>ss_max_sensitivity := new_max, ss_sensitivity_raised_at := Some (isoformat now),
             ss_sensitivity_raised_by_call := Some call_id\<rparr>
      else s)"

definition update_from_inspection ::
  "datetime \<Rightarrow> session_state \<Rightarrow> string \<Rightarrow> string list \<Rightarrow> bool \<Rightarrow> bool \<Rightarrow> nat option \<Rightarrow> bool \<times> session_state" where
  "update_from_inspection now s call_id sensitivity_tags injection_detected response_allowed for_reset_count =
     (if for_reset_count \<noteq> None \<and> for_reset_count \<noteq> Some (ss_reset_count s) then (False, s)
      else let s1 = foldl (raise_by_tag call_id now) s sensitivity_tags in
           (True,
            if injection_detected
            then s1\<lparr>ss_injection_events := ss_injection_events s1
                     @ [\<lparr>ie_call_id = call_id, ie_timestamp = isoformat now\<rparr>]\<rparr>
            else s1))"

definition snapshot_for_close :: "datetime \<Rightarrow> session_state \<Rightarrow> string \<Rightarrow> string \<Rightarrow> closed_session_record" where
  "snapshot_for_close now s reason authorized_by =
     \<lparr>cr_session_id = ss_session_id s, cr_max_sensitivity = ss_max_sensitivity s,
      cr_sensitivity_raised_at = ss_sensitivity_raised_at s,
      cr_sensitivity_raised_by_call = ss_sensitivity_raised_by_call s,
      cr_reset_count = ss_reset_count s, cr_closed_at = isoformat now,
      cr_reason = reason, cr_authorized_by = authorized_by\<rparr>"

text \<open>\<open>uuid\<close> is the fresh identifier \<open>uuid4()\<close> gives; the result pairs the closed and the
  successor identifier with the new state.\<close>

definition reset_session :: "string \<Rightarrow> session_state \<Rightarrow> (string \<times> string) \<times> session_state" where
  "reset_session uuid s =
     ((ss_session_id s, uuid),
      s\<lparr>ss_session_id := uuid, ss_max_sensitivity := ''public'', ss_sensitivity_raised_at := None,
        ss_sensitivity_raised_by_call := None, ss_suspicious_sequences := 0,
        ss_upstream_drift_tools := [], ss_reset_count := ss_reset_count s + 1,
        ss_attestation_stale := False, ss_catalog_drift := False\<rparr>)"

definition upgrade_attestation :: "string \<Rightarrow> session_state \<Rightarrow> (string \<times> string) \<times> session_state" where
  "upgrade_attestation uuid s =
     ((ss_session_id s, uuid), s\<lparr>ss_session_id := uuid, ss_attestation_stale := False\<rparr>)"

definition stored :: "session_state \<Rightarrow> stored_sensitivity" where
  "stored s =
     \<lparr>st_max_sensitivity = ss_max_sensitivity s, st_sensitivity_raised_at = ss_sensitivity_raised_at s,
      st_sensitivity_raised_by_call = ss_sensitivity_raised_by_call s, st_reset_count = ss_reset_count s\<rparr>"

definition adopt :: "session_state \<Rightarrow> stored_sensitivity option \<Rightarrow> session_state" where
  "adopt s v =
     (case v of
        None \<Rightarrow> s
      | Some st \<Rightarrow>
          let s1 = s\<lparr>ss_max_sensitivity :=
                       max_sensitivity (ss_max_sensitivity s) (st_max_sensitivity st) (ss_sensitivity_order s)\<rparr>;
              s2 = (if ss_max_sensitivity s1 = st_max_sensitivity st
                    then s1\<lparr>ss_sensitivity_raised_at := st_sensitivity_raised_at st,
                            ss_sensitivity_raised_by_call := st_sensitivity_raised_by_call st\<rparr>
                    else s1)
          in s2\<lparr>ss_reset_count := max (ss_reset_count s2) (st_reset_count st)\<rparr>)"

subsection \<open>Operations against a store\<close>

text \<open>The \<open>SessionStateStore\<close> protocol over a store state \<open>'s\<close>.\<close>

record 's store_ops =
  so_load :: "'s \<Rightarrow> string \<Rightarrow> stored_sensitivity option"
  so_save :: "'s \<Rightarrow> string \<Rightarrow> stored_sensitivity \<Rightarrow> 's"
  so_record_closed :: "'s \<Rightarrow> string \<Rightarrow> closed_session_record \<Rightarrow> 's"
  so_is_shared :: bool

definition apply_inspection ::
  "'s store_ops \<Rightarrow> datetime \<Rightarrow> 's option \<Rightarrow> session_state \<Rightarrow> string \<Rightarrow> string list \<Rightarrow> bool \<Rightarrow> bool \<Rightarrow> nat option
   \<Rightarrow> bool \<times> session_state \<times> 's option" where
  "apply_inspection ops now store s call_id tags injection allowed for_reset_count =
     (case store of
        None \<Rightarrow>
          (let (applied, s') = update_from_inspection now s call_id tags injection allowed for_reset_count
           in (applied, s', None))
      | Some st \<Rightarrow>
          (let s1 = adopt s (so_load ops st (ss_session_id s));
               (applied, s2) = update_from_inspection now s1 call_id tags injection allowed for_reset_count
           in (applied, s2,
               Some (if applied then so_save ops st (ss_session_id s) (stored s2) else st))))"

definition apply_reset ::
  "'s store_ops \<Rightarrow> datetime \<Rightarrow> string \<Rightarrow> 's option \<Rightarrow> session_state \<Rightarrow> string \<Rightarrow> string
   \<Rightarrow> (string \<times> string \<times> closed_session_record) \<times> session_state \<times> 's option" where
  "apply_reset ops now uuid store s reason authorized_by =
     (case store of
        None \<Rightarrow>
          (let closed = snapshot_for_close now s reason authorized_by;
               ((old_id, new_id), s') = reset_session uuid s
           in ((old_id, new_id, closed), s', None))
      | Some st \<Rightarrow>
          (let s1 = adopt s (so_load ops st (ss_session_id s));
               closed = snapshot_for_close now s1 reason authorized_by;
               ((old_id, new_id), s2) = reset_session uuid s1;
               st1 = so_record_closed ops st old_id closed;
               st2 = so_save ops st1 old_id
                       \<lparr>st_max_sensitivity = cr_max_sensitivity closed,
                        st_sensitivity_raised_at = cr_sensitivity_raised_at closed,
                        st_sensitivity_raised_by_call = cr_sensitivity_raised_by_call closed,
                        st_reset_count = ss_reset_count s2\<rparr>;
               st3 = so_save ops st2 new_id (stored s2)
           in ((old_id, new_id, closed), s2, Some st3)))"

definition hydrate :: "'s store_ops \<Rightarrow> 's option \<Rightarrow> session_state \<Rightarrow> bool \<times> session_state \<times> 's option" where
  "hydrate ops store s =
     (case store of
        None \<Rightarrow> (False, s, None)
      | Some st \<Rightarrow>
          (case so_load ops st (ss_session_id s) of
             None \<Rightarrow> (False, s, Some (so_save ops st (ss_session_id s) (stored s)))
           | Some v \<Rightarrow> (True, adopt s (Some v), Some st)))"

subsection \<open>The two stores\<close>

text \<open>\<open>InMemorySessionStateStore\<close>: two dictionaries.\<close>

record memory_store =
  ms_values :: "stored_sensitivity dict"
  ms_closed :: "closed_session_record dict"

definition InMemorySessionStateStore :: "memory_store store_ops" where
  "InMemorySessionStateStore =
     \<lparr>so_load = (\<lambda>st sid. ms_values st sid),
      so_save = (\<lambda>st sid v. st\<lparr>ms_values := (ms_values st)(sid \<mapsto> v)\<rparr>),
      so_record_closed = (\<lambda>st sid r. st\<lparr>ms_closed := (ms_closed st)(sid \<mapsto> r)\<rparr>),
      so_is_shared = False\<rparr>"

definition memory_closed :: "memory_store \<Rightarrow> string \<Rightarrow> closed_session_record option" where
  "memory_closed st sid = ms_closed st sid"

text \<open>\<open>SqliteSessionStateStore\<close>: tables with a primary key, written by
  \<open>INSERT ... ON CONFLICT DO UPDATE\<close>.\<close>

record sqlite_tables =
  tb_session_state :: "(string \<times> stored_sensitivity) list"
  tb_closed_sessions :: "(string \<times> closed_session_record) list"

definition SqliteSessionStateStore :: "sqlite_tables store_ops" where
  "SqliteSessionStateStore =
     \<lparr>so_load = (\<lambda>db sid. map_of (tb_session_state db) sid),
      so_save = (\<lambda>db sid v. db\<lparr>tb_session_state := upsert (tb_session_state db) sid v\<rparr>),
      so_record_closed = (\<lambda>db sid r. db\<lparr>tb_closed_sessions := upsert (tb_closed_sessions db) sid r\<rparr>),
      so_is_shared = True\<rparr>"

definition sqlite_closed :: "sqlite_tables \<Rightarrow> string \<Rightarrow> closed_session_record option" where
  "sqlite_closed db sid = map_of (tb_closed_sessions db) sid"

subsection \<open>Ranks\<close>

lemma max_sensitivity_rank [simp]:
  "rank order (max_sensitivity a b order) = max (rank order a) (rank order b)"
  by (simp add: max_sensitivity_def max_def)

lemma max_sensitivity_ge: "rank order a \<le> rank order (max_sensitivity a b order)"
  by simp

lemma max_sensitivity_cases: "max_sensitivity a b order = a \<or> max_sensitivity a b order = b"
  by (simp add: max_sensitivity_def)

lemma effective_order_builtin:
  "SENSITIVITY_ORDER k = Some n \<Longrightarrow> effective_sensitivity_order extra k = Some n"
  by (simp add: effective_sensitivity_order_def map_add_Some_iff)

lemma effective_order_extra:
  "SENSITIVITY_ORDER k = None \<Longrightarrow> effective_sensitivity_order (Some m) k = m k"
  by (simp add: effective_sensitivity_order_def map_add_def)

lemma effective_domains_builtin:
  "COMPLIANCE_DOMAINS k = Some b \<Longrightarrow> effective_compliance_domains extra k = Some b"
  by (simp add: effective_compliance_domains_def map_add_Some_iff)

subsection \<open>The ratchet on one instance\<close>

lemma raise_by_tag_rank:
  "rank (ss_sensitivity_order s) (ss_max_sensitivity (raise_by_tag c now s t))
     = max (rank (ss_sensitivity_order s) (ss_max_sensitivity s)) (rank (ss_sensitivity_order s) t)"
  by (simp add: raise_by_tag_def Let_def) (metis max_sensitivity_rank)

lemma raise_by_tag_frame [simp]:
  "ss_sensitivity_order (raise_by_tag c now s t) = ss_sensitivity_order s"
  "ss_session_id (raise_by_tag c now s t) = ss_session_id s"
  "ss_reset_count (raise_by_tag c now s t) = ss_reset_count s"
  "ss_injection_events (raise_by_tag c now s t) = ss_injection_events s"
  "ss_kill_switch_triggered (raise_by_tag c now s t) = ss_kill_switch_triggered s"
  by (simp_all add: raise_by_tag_def Let_def)

lemma raise_tags_frame [simp]:
  "ss_sensitivity_order (foldl (raise_by_tag c now) s ts) = ss_sensitivity_order s"
  "ss_session_id (foldl (raise_by_tag c now) s ts) = ss_session_id s"
  "ss_reset_count (foldl (raise_by_tag c now) s ts) = ss_reset_count s"
  "ss_injection_events (foldl (raise_by_tag c now) s ts) = ss_injection_events s"
  "ss_kill_switch_triggered (foldl (raise_by_tag c now) s ts) = ss_kill_switch_triggered s"
  by (induction ts arbitrary: s) simp_all

lemma raise_tags_rank:
  "rank (ss_sensitivity_order s) (ss_max_sensitivity (foldl (raise_by_tag c now) s ts))
     = foldl max (rank (ss_sensitivity_order s) (ss_max_sensitivity s)) (map (rank (ss_sensitivity_order s)) ts)"
proof (induction ts arbitrary: s)
  case (Cons t ts)
  show ?case
    using Cons.IH [of "raise_by_tag c now s t"] by (simp add: raise_by_tag_rank)
qed simp

lemma foldl_max_ge: "(a :: int) \<le> foldl max a xs" and foldl_max_mem: "x \<in> set xs \<Longrightarrow> (x :: int) \<le> foldl max a xs"
proof (induction xs arbitrary: a)
  case (Cons y xs)
  { case 1 show ?case using Cons.IH(1) [of "max a y"] by simp }
  { case 2 then show ?case using Cons.IH(1) [of "max a y"] Cons.IH(2) [of "max a y"] by auto }
qed simp_all

lemma update_from_inspection_rank:
  assumes "update_from_inspection now s c ts ij al frc = (True, s')"
  shows "rank (ss_sensitivity_order s) (ss_max_sensitivity s')
     = foldl max (rank (ss_sensitivity_order s) (ss_max_sensitivity s)) (map (rank (ss_sensitivity_order s)) ts)"
  using assms
  by (auto simp: update_from_inspection_def Let_def raise_tags_rank split: if_splits)

lemma update_from_inspection_dropped:
  "update_from_inspection now s c ts ij al frc = (False, s') \<longleftrightarrow>
     s' = s \<and> (\<exists>n. frc = Some n \<and> n \<noteq> ss_reset_count s)"
  by (auto simp: update_from_inspection_def Let_def)

lemma update_from_inspection_frame:
  assumes "update_from_inspection now s c ts ij al frc = (b, s')"
  shows "ss_sensitivity_order s' = ss_sensitivity_order s" "ss_session_id s' = ss_session_id s"
    "ss_reset_count s' = ss_reset_count s" "ss_kill_switch_triggered s' = ss_kill_switch_triggered s"
  using assms by (auto simp: update_from_inspection_def Let_def split: if_splits)

lemma adopt_frame [simp]:
  "ss_sensitivity_order (adopt s v) = ss_sensitivity_order s" "ss_session_id (adopt s v) = ss_session_id s"
  "ss_injection_events (adopt s v) = ss_injection_events s"
  by (simp_all add: adopt_def Let_def split: option.split)

lemma adopt_rank [simp]:
  "rank (ss_sensitivity_order s) (ss_max_sensitivity (adopt s (Some v)))
     = max (rank (ss_sensitivity_order s) (ss_max_sensitivity s))
           (rank (ss_sensitivity_order s) (st_max_sensitivity v))"
  "ss_reset_count (adopt s (Some v)) = max (ss_reset_count s) (st_reset_count v)"
  by (simp_all add: adopt_def Let_def max_sensitivity_def max_def)

lemma adopt_None [simp]: "adopt s None = s"
  by (simp add: adopt_def)

lemma stored_sel [simp]:
  "st_max_sensitivity (stored s) = ss_max_sensitivity s" "st_reset_count (stored s) = ss_reset_count s"
  "st_sensitivity_raised_at (stored s) = ss_sensitivity_raised_at s"
  "st_sensitivity_raised_by_call (stored s) = ss_sensitivity_raised_by_call s"
  by (simp_all add: stored_def)

subsection \<open>The store interface and what the state machine gets from it\<close>

locale session_store =
  fixes ops :: "'s store_ops"
  assumes load_save: "so_load ops (so_save ops st k v) k' = (if k' = k then Some v else so_load ops st k')"
    and load_record_closed: "so_load ops (so_record_closed ops st k r) k' = so_load ops st k'"
begin

lemma inspection_other_session:
  assumes "apply_inspection ops now (Some st) s c ts ij al frc = (b, s', Some st')" "sid \<noteq> ss_session_id s"
  shows "so_load ops st' sid = so_load ops st sid"
  using assms by (auto simp: apply_inspection_def Let_def load_save split: prod.splits)

lemma inspection_applied:
  assumes "apply_inspection ops now (Some st) s c ts ij al frc = (True, s', Some st')"
  shows "so_load ops st' (ss_session_id s) = Some (stored s')"
    and "ss_session_id s' = ss_session_id s" and "ss_sensitivity_order s' = ss_sensitivity_order s"
    and "ss_reset_count s' = ss_reset_count (adopt s (so_load ops st (ss_session_id s)))"
    and "rank (ss_sensitivity_order s) (ss_max_sensitivity s')
      = foldl max (rank (ss_sensitivity_order s) (ss_max_sensitivity (adopt s (so_load ops st (ss_session_id s)))))
          (map (rank (ss_sensitivity_order s)) ts)"
  using assms update_from_inspection_rank [of now "adopt s (so_load ops st (ss_session_id s))" c ts ij al frc s']
    update_from_inspection_frame [of now "adopt s (so_load ops st (ss_session_id s))" c ts ij al frc True s']
  by (auto simp: apply_inspection_def Let_def load_save split: prod.splits)

lemma inspection_dropped:
  assumes "apply_inspection ops now (Some st) s c ts ij al frc = (False, s', Some st')"
  shows "st' = st" and "s' = adopt s (so_load ops st (ss_session_id s))"
  using assms by (auto simp: apply_inspection_def Let_def update_from_inspection_dropped split: prod.splits)

text \<open>Whatever happens, the stored value of a session only rises.\<close>

definition above :: "int dict \<Rightarrow> 's \<Rightarrow> 's \<Rightarrow> bool" where
  "above order st st' \<longleftrightarrow>
     (\<forall>sid v. so_load ops st sid = Some v \<longrightarrow>
        (\<exists>v'. so_load ops st' sid = Some v' \<and> rank order (st_max_sensitivity v) \<le> rank order (st_max_sensitivity v')
            \<and> st_reset_count v \<le> st_reset_count v'))"

lemma above_refl: "above order st st"
  by (auto simp: above_def)

lemma above_trans: "above order a b \<Longrightarrow> above order b c \<Longrightarrow> above order a c"
  unfolding above_def by (meson order_trans)

lemma inspection_above:
  assumes "apply_inspection ops now (Some st) s c ts ij al frc = (b, s', Some st')"
    and "ss_sensitivity_order s = order"
  shows "above order st st'"
proof (cases b)
  case False
  with assms(1) have "st' = st" by (intro inspection_dropped(1)) simp
  then show ?thesis by (simp add: above_refl)
next
  case True
  with assms(1) have "apply_inspection ops now (Some st) s c ts ij al frc = (True, s', Some st')"
    by simp
  note ap = inspection_applied [OF this]
  show ?thesis
    unfolding above_def
  proof (intro allI impI)
    fix sid v
    assume v: "so_load ops st sid = Some v"
    show "\<exists>v'. so_load ops st' sid = Some v' \<and> rank order (st_max_sensitivity v) \<le> rank order (st_max_sensitivity v')
        \<and> st_reset_count v \<le> st_reset_count v'"
    proof (cases "sid = ss_session_id s")
      case True
      have "rank order (st_max_sensitivity v) \<le> rank order (ss_max_sensitivity (adopt s (Some v)))"
        using adopt_rank(1) [of s v] assms(2) by simp
      also have "\<dots> \<le> rank order (ss_max_sensitivity s')"
        using ap(5) True v assms(2) foldl_max_ge by simp
      finally show ?thesis
        using ap(1,4) True v by simp
    next
      case False
      with inspection_other_session [OF assms(1)] v show ?thesis by auto
    qed
  qed
qed

lemma reset_applied:
  assumes "apply_reset ops now uuid (Some st) s reason auth = ((old_id, new_id, closed), s', Some st')"
    and "uuid \<noteq> ss_session_id s"
  defines "s1 \<equiv> adopt s (so_load ops st (ss_session_id s))"
  shows "old_id = ss_session_id s" "new_id = uuid" "ss_session_id s' = uuid"
    and "ss_max_sensitivity s' = ''public''" "ss_reset_count s' = ss_reset_count s1 + 1"
    and "closed = snapshot_for_close now s1 reason auth"
    and "so_load ops st' uuid = Some (stored s')"
    and "\<exists>v. so_load ops st' (ss_session_id s) = Some v \<and> st_max_sensitivity v = ss_max_sensitivity s1
       \<and> st_reset_count v = ss_reset_count s1 + 1"
    and "\<And>sid. sid \<noteq> uuid \<Longrightarrow> sid \<noteq> ss_session_id s \<Longrightarrow> so_load ops st' sid = so_load ops st sid"
    and "ss_sensitivity_order s' = ss_sensitivity_order s"
  using assms
  by (auto simp: apply_reset_def Let_def reset_session_def load_save load_record_closed snapshot_for_close_def)

lemma reset_above:
  assumes "apply_reset ops now uuid (Some st) s reason auth = (r, s', Some st')"
    and "uuid \<noteq> ss_session_id s" "so_load ops st uuid = None" "ss_sensitivity_order s = order"
  shows "above order st st'"
proof -
  obtain old_id new_id closed where r: "r = (old_id, new_id, closed)" by (cases r)
  note ap = reset_applied [OF assms(1) [unfolded r] assms(2)]
  show ?thesis
    unfolding above_def
  proof (intro allI impI)
    fix sid v
    assume v: "so_load ops st sid = Some v"
    show "\<exists>v'. so_load ops st' sid = Some v' \<and> rank order (st_max_sensitivity v) \<le> rank order (st_max_sensitivity v')
        \<and> st_reset_count v \<le> st_reset_count v'"
    proof (cases "sid = ss_session_id s")
      case True
      with ap(8) v assms(4) show ?thesis by auto
    next
      case False
      with ap(9) [of sid] v assms(3) show ?thesis by (cases "sid = uuid") auto
    qed
  qed
qed

lemma hydrate_above:
  assumes "hydrate ops (Some st) s = (b, s', Some st')"
  shows "above order st st'"
  using assms by (auto simp: hydrate_def above_def load_save split: option.splits)

text \<open>A response captured before the generation the store holds is dropped and writes nothing.\<close>

lemma stale_response_dropped:
  assumes "so_load ops st (ss_session_id s) = Some v" "n < st_reset_count v"
  shows "\<exists>s'. apply_inspection ops now (Some st) s c ts ij al (Some n) = (False, s', Some st)"
  using assms by (auto simp: apply_inspection_def Let_def update_from_inspection_def)

end

interpretation memory: session_store InMemorySessionStateStore
  by unfold_locales (simp_all add: InMemorySessionStateStore_def)

interpretation sqlite: session_store SqliteSessionStateStore
  by unfold_locales (simp_all add: SqliteSessionStateStore_def)

subsection \<open>Several instances on one SQLite store\<close>

text \<open>A deployment: the shared tables and the session object each instance holds. A step is
  one serialised operation of one instance. Fresh identifiers are not in use.\<close>

record cluster =
  cl_db :: sqlite_tables
  cl_inst :: "nat \<Rightarrow> session_state"

inductive cluster_step :: "int dict \<Rightarrow> cluster \<Rightarrow> cluster \<Rightarrow> bool" for order where
  inspect: "ss_sensitivity_order (cl_inst cl i) = order \<Longrightarrow>
     apply_inspection SqliteSessionStateStore now (Some (cl_db cl)) (cl_inst cl i) c ts ij al frc
       = (b, s', Some db') \<Longrightarrow>
     cluster_step order cl (cl\<lparr>cl_db := db', cl_inst := (cl_inst cl)(i := s')\<rparr>)"
| reset: "ss_sensitivity_order (cl_inst cl i) = order \<Longrightarrow>
     map_of (tb_session_state (cl_db cl)) uuid = None \<Longrightarrow> (\<forall>j. ss_session_id (cl_inst cl j) \<noteq> uuid) \<Longrightarrow>
     apply_reset SqliteSessionStateStore now uuid (Some (cl_db cl)) (cl_inst cl i) reason auth
       = (r, s', Some db') \<Longrightarrow>
     cluster_step order cl (cl\<lparr>cl_db := db', cl_inst := (cl_inst cl)(i := s')\<rparr>)"
| hydrate: "ss_sensitivity_order (cl_inst cl i) = order \<Longrightarrow>
     hydrate SqliteSessionStateStore (Some (cl_db cl)) (cl_inst cl i) = (b, s', Some db') \<Longrightarrow>
     cluster_step order cl (cl\<lparr>cl_db := db', cl_inst := (cl_inst cl)(i := s')\<rparr>)"
| join: "cluster_step order cl (cl\<lparr>cl_inst := (cl_inst cl)(i := new_session_state sid order)\<rparr>)"

inductive_cases cluster_stepE: "cluster_step order cl cl'"

lemma sqlite_load [simp]: "so_load SqliteSessionStateStore db = map_of (tb_session_state db)"
  by (simp add: SqliteSessionStateStore_def fun_eq_iff)

lemma cluster_step_above: "cluster_step order cl cl' \<Longrightarrow> sqlite.above order (cl_db cl) (cl_db cl')"
proof (induction rule: cluster_step.induct)
  case (inspect cl i now c ts ij al frc b s' db')
  then show ?case by (simp add: sqlite.inspection_above)
next
  case (reset cl i uuid now reason auth r s' db')
  then have "uuid \<noteq> ss_session_id (cl_inst cl i)" by metis
  with reset show ?case by (simp add: sqlite.reset_above)
next
  case (hydrate cl i b s' db')
  then show ?case by (simp add: sqlite.hydrate_above)
qed (simp add: sqlite.above_refl)

lemma cluster_steps_above:
  "(cluster_step order)\<^sup>*\<^sup>* cl cl' \<Longrightarrow> sqlite.above order (cl_db cl) (cl_db cl')"
  by (induction rule: rtranclp_induct)
     (auto intro: sqlite.above_refl sqlite.above_trans cluster_step_above)

lemma cluster_steps_stored:
  assumes "(cluster_step order)\<^sup>*\<^sup>* cl cl'" "map_of (tb_session_state (cl_db cl)) sid = Some v"
  obtains v' where "map_of (tb_session_state (cl_db cl')) sid = Some v'"
    "rank order (st_max_sensitivity v) \<le> rank order (st_max_sensitivity v')"
    "st_reset_count v \<le> st_reset_count v'"
  using cluster_steps_above [OF assms(1)] assms(2) by (auto simp: sqlite.above_def)

subsection \<open>Properties\<close>

lemma foldl_max_Max: "foldl max (a :: int) xs = Max (insert a (set xs))"
proof (induction xs arbitrary: a)
  case (Cons x xs)
  have "foldl max a (x # xs) = Max (insert (max a x) (set xs))" by (simp add: Cons.IH)
  also have "\<dots> = Max (insert a (set (x # xs)))"
    by (cases "xs = []") (simp_all add: Max_insert ac_simps max.assoc)
  finally show ?case .
qed simp

lemma update_from_inspection_label:
  assumes "update_from_inspection now s c ts ij al frc = (True, s')"
  shows "ss_max_sensitivity s' \<in> insert (ss_max_sensitivity s) (set ts)"
proof -
  have "ss_max_sensitivity (foldl (raise_by_tag c now) s ts) \<in> insert (ss_max_sensitivity s) (set ts)" for s
  proof (induction ts arbitrary: s)
    case (Cons t ts)
    have "ss_max_sensitivity (raise_by_tag c now s t) \<in> {ss_max_sensitivity s, t}"
      using max_sensitivity_cases by (auto simp: raise_by_tag_def Let_def)
    with Cons.IH [of "raise_by_tag c now s t"] show ?case by auto
  qed simp
  from this [of s] show ?thesis using assms by (auto simp: update_from_inspection_def Let_def split: if_splits)
qed

text \<open>The session sensitivity is a ratchet. When an inspected response is applied, the session's
  level afterwards is its old label or one of the response's tags, and its rank is exactly the
  highest of the old rank and the ranks of the tags; a response of another session generation
  changes nothing.\<close>

theorem sensitivity_is_ratchet:
  assumes "update_from_inspection now s c ts ij al frc = (applied, s')"
  shows "(applied \<longleftrightarrow> frc = None \<or> frc = Some (ss_reset_count s))
    \<and> (if applied
       then ss_max_sensitivity s' \<in> insert (ss_max_sensitivity s) (set ts)
         \<and> rank (ss_sensitivity_order s) (ss_max_sensitivity s')
           = Max (insert (rank (ss_sensitivity_order s) (ss_max_sensitivity s)) (rank (ss_sensitivity_order s) ` set ts))
       else s' = s)"
proof (cases applied)
  case True
  with assms have ap: "update_from_inspection now s c ts ij al frc = (True, s')" by simp
  from True ap show ?thesis
    using update_from_inspection_rank [OF ap] update_from_inspection_label [OF ap]
    by (auto simp: foldl_max_Max update_from_inspection_def split: if_splits)
next
  case False
  with assms have "update_from_inspection now s c ts ij al frc = (False, s')" by simp
  with False show ?thesis by (auto simp: update_from_inspection_dropped)
qed

theorem sensitivity_is_ratchet_witness:
  "let s = new_session_state ''s'' SENSITIVITY_ORDER;
       (applied, s') = update_from_inspection sample_time s ''c'' [''pii'', ''mnpi'', ''public''] False True (Some 0)
   in applied \<and> rank SENSITIVITY_ORDER (ss_max_sensitivity s') = rank SENSITIVITY_ORDER ''mnpi''"
proof -
  let ?s = "new_session_state ''s'' SENSITIVITY_ORDER"
  obtain ap s' where u: "update_from_inspection sample_time ?s ''c'' [''pii'', ''mnpi'', ''public''] False True (Some 0) = (ap, s')"
    by (cases "update_from_inspection sample_time ?s ''c'' [''pii'', ''mnpi'', ''public''] False True (Some 0)")
  have o: "ss_sensitivity_order ?s = SENSITIVITY_ORDER" "ss_max_sensitivity ?s = ''public''" "ss_reset_count ?s = 0"
    by (simp_all add: new_session_state_def)
  have r: "rank SENSITIVITY_ORDER ''public'' \<le> rank SENSITIVITY_ORDER ''mnpi''"
    "rank SENSITIVITY_ORDER ''pii'' \<le> rank SENSITIVITY_ORDER ''mnpi''"
    by (simp_all add: rank_def dict_get_def SENSITIVITY_ORDER_def)
  have "ap" and "rank SENSITIVITY_ORDER (ss_max_sensitivity s') = rank SENSITIVITY_ORDER ''mnpi''"
    using sensitivity_is_ratchet [OF u] r unfolding o by (auto simp: max_def)
  then show ?thesis using u by simp
qed

text \<open>C32: Across gateway instances that share a SQLite store, the stored sensitivity rank and reset
  count of a session never go down, in any interleaving of inspections, resets, hydrations and
  instances joining.\<close>

theorem cluster_ratchet:
  assumes "(cluster_step order)\<^sup>*\<^sup>* cl cl'" "map_of (tb_session_state (cl_db cl)) sid = Some v"
  shows "\<exists>v'. map_of (tb_session_state (cl_db cl')) sid = Some v'
    \<and> rank order (st_max_sensitivity v) \<le> rank order (st_max_sensitivity v')
    \<and> st_reset_count v \<le> st_reset_count v'"
  using cluster_steps_stored [OF assms] by metis

definition sample_cluster :: cluster where
  "sample_cluster =
     \<lparr>cl_db = \<lparr>tb_session_state = [(''s'', stored (new_session_state ''s'' SENSITIVITY_ORDER))], tb_closed_sessions = []\<rparr>,
      cl_inst = (\<lambda>_. new_session_state ''s'' SENSITIVITY_ORDER)\<rparr>"

theorem cluster_ratchet_witness:
  "\<exists>b s' db'. apply_inspection SqliteSessionStateStore sample_time (Some (cl_db sample_cluster))
       (cl_inst sample_cluster 1) ''c'' [''pii''] False True (Some 0) = (b, s', Some db')
     \<and> (\<exists>v'. map_of (tb_session_state db') ''s'' = Some v'
          \<and> rank SENSITIVITY_ORDER ''public'' \<le> rank SENSITIVITY_ORDER (st_max_sensitivity v'))"
proof -
  obtain b s' db' where a: "apply_inspection SqliteSessionStateStore sample_time (Some (cl_db sample_cluster))
       (cl_inst sample_cluster 1) ''c'' [''pii''] False True (Some 0) = (b, s', Some db')"
    using that by (fastforce simp: apply_inspection_def Let_def split: prod.splits)
  have "cluster_step SENSITIVITY_ORDER sample_cluster
      (sample_cluster\<lparr>cl_db := db', cl_inst := (cl_inst sample_cluster)(1 := s')\<rparr>)"
    by (rule cluster_step.inspect [OF _ a]) (simp add: sample_cluster_def new_session_state_def)
  then have "(cluster_step SENSITIVITY_ORDER)\<^sup>*\<^sup>* sample_cluster
      (sample_cluster\<lparr>cl_db := db', cl_inst := (cl_inst sample_cluster)(1 := s')\<rparr>)" by blast
  from cluster_ratchet [OF this, of "''s''"] a show ?thesis
    by (auto simp: sample_cluster_def new_session_state_def)
qed

text \<open>A reset on one instance stops late responses everywhere. After \<open>apply_reset\<close> through the
  shared store, a response captured in the generation before the reset, or earlier, and applied by
  any instance that still holds the old session is dropped, and the store is left as it was.\<close>

theorem reset_drops_late_responses:
  assumes "apply_reset SqliteSessionStateStore now uuid (Some st) s reason auth = (r, s', Some st')"
    and "uuid \<noteq> ss_session_id s" "ss_session_id t = ss_session_id s" "n < ss_reset_count s'"
  shows "\<exists>t'. apply_inspection SqliteSessionStateStore now' (Some st') t c ts ij al (Some n) = (False, t', Some st')"
proof -
  obtain old_id new_id closed where "r = (old_id, new_id, closed)" by (cases r)
  note ap = sqlite.reset_applied [OF assms(1) [unfolded this] assms(2)]
  from ap(5,8) obtain v where v: "so_load SqliteSessionStateStore st' (ss_session_id t) = Some v"
    "n < st_reset_count v" using assms(3,4) by auto
  show ?thesis by (rule sqlite.stale_response_dropped [OF v])
qed

theorem reset_drops_late_responses_witness:
  "\<exists>r s' st'. apply_reset SqliteSessionStateStore sample_time ''t'' (Some (cl_db sample_cluster))
       (cl_inst sample_cluster 0) ''r'' ''op'' = (r, s', Some st')
     \<and> (\<exists>t'. apply_inspection SqliteSessionStateStore sample_time (Some st') (cl_inst sample_cluster 1) ''c'' [''pii'']
          False True (Some 0) = (False, t', Some st'))"
proof -
  obtain r s' st' where a: "apply_reset SqliteSessionStateStore sample_time ''t'' (Some (cl_db sample_cluster))
       (cl_inst sample_cluster 0) ''r'' ''op'' = (r, s', Some st')" and n: "0 < ss_reset_count s'"
    by (auto simp: apply_reset_def Let_def reset_session_def)
  have id: "''t'' \<noteq> ss_session_id (cl_inst sample_cluster 0)"
    "ss_session_id (cl_inst sample_cluster 1) = ss_session_id (cl_inst sample_cluster 0)"
    by (simp_all add: sample_cluster_def new_session_state_def)
  from reset_drops_late_responses [OF a id n] a show ?thesis by blast
qed

end
