(* ===== verification/Sqlite_Session.thy ===== *)
theory Sqlite_Session
  imports Session_State
begin

text \<open>
  The transaction behind \<open>SqliteSessionStateStore.exclusive\<close> (\<open>session/store.py\<close>):
  a thread lock, \<open>BEGIN IMMEDIATE\<close>, the body on the transaction's working copy,
  then \<open>COMMIT\<close> or \<open>ROLLBACK\<close>, with task cancellation arriving while a worker
  runs. What SQLite and the event loop do in one run is the input record
  \<open>sqlite_io\<close>.
\<close>

record conn =
  cn_locked :: bool
  cn_committed :: sqlite_tables
  cn_txn :: "sqlite_tables option"

datatype 'e store_error = Sqlite_error | Cancelled | Would_block | Body_error 'e

text \<open>Whether each statement fails, and how many cancellations arrive while the worker of
  \<open>BEGIN\<close> or \<open>COMMIT\<close> is awaited.\<close>

record sqlite_io =
  io_busy :: bool
  io_commit_fails :: bool
  io_rollback_fails :: bool
  io_cancel_begin :: nat
  io_cancel_commit :: nat

text \<open>\<open>BEGIN IMMEDIATE\<close> also fails inside an open transaction.\<close>

definition begin_immediate :: "sqlite_io \<Rightarrow> conn \<Rightarrow> ('e store_error + unit) \<times> conn" where
  "begin_immediate io c =
     (if cn_locked c then (Inl Would_block, c)
      else let c1 = c\<lparr>cn_locked := True\<rparr> in
        if io_busy io \<or> cn_txn c1 \<noteq> None then (Inl Sqlite_error, c1\<lparr>cn_locked := False\<rparr>)
        else (Inr (), c1\<lparr>cn_txn := Some (cn_committed c1)\<rparr>))"

definition commit :: "sqlite_io \<Rightarrow> conn \<Rightarrow> ('e store_error + unit) \<times> conn" where
  "commit io c =
     (if io_commit_fails io then (Inl Sqlite_error, c\<lparr>cn_locked := False\<rparr>)
      else (Inr (), c\<lparr>cn_committed := (case cn_txn c of None \<Rightarrow> cn_committed c | Some db \<Rightarrow> db),
                      cn_txn := None, cn_locked := False\<rparr>))"

definition rollback :: "sqlite_io \<Rightarrow> conn \<Rightarrow> ('e store_error + unit) \<times> conn" where
  "rollback io c =
     (if io_rollback_fails io then (Inl Sqlite_error, c\<lparr>cn_locked := False\<rparr>)
      else (Inr (), c\<lparr>cn_txn := None, cn_locked := False\<rparr>))"

text \<open>\<open>_finish_sqlite_operation\<close>: the loop absorbs \<open>k\<close> cancellations and then gives the
  worker's outcome, with the first cancellation retained.\<close>

fun finish_sqlite_operation :: "nat \<Rightarrow> bool \<Rightarrow> ('e store_error + unit) \<times> conn \<Rightarrow> ('e store_error + bool) \<times> conn" where
  "finish_sqlite_operation 0 cancelled (Inl e, c) = (Inl e, c)"
| "finish_sqlite_operation 0 cancelled (Inr u, c) = (Inr cancelled, c)"
| "finish_sqlite_operation (Suc k) cancelled r = finish_sqlite_operation k True r"

definition exclusive ::
  "sqlite_io \<Rightarrow> (sqlite_tables \<Rightarrow> 'e + 'r \<times> sqlite_tables) \<Rightarrow> conn \<Rightarrow> ('e store_error + 'r) \<times> conn" where
  "exclusive io body c =
     (case finish_sqlite_operation (io_cancel_begin io) False (begin_immediate io c) of
        (Inl e, c1) \<Rightarrow> (Inl e, c1)
      | (Inr True, c1) \<Rightarrow>
          (case rollback io c1 of (Inl e, c2) \<Rightarrow> (Inl e, c2) | (Inr _, c2) \<Rightarrow> (Inl Cancelled, c2))
      | (Inr False, c1) \<Rightarrow>
          (case body (case cn_txn c1 of None \<Rightarrow> cn_committed c1 | Some db \<Rightarrow> db) of
             Inl e \<Rightarrow>
               (case rollback io c1 of (Inl e', c2) \<Rightarrow> (Inl e', c2) | (Inr _, c2) \<Rightarrow> (Inl (Body_error e), c2))
           | Inr (r, db) \<Rightarrow>
               (case finish_sqlite_operation (io_cancel_commit io) False (commit io (c1\<lparr>cn_txn := Some db\<rparr>)) of
                  (Inl e, c2) \<Rightarrow> (Inl e, c2)
                | (Inr True, c2) \<Rightarrow> (Inl Cancelled, c2)
                | (Inr False, c2) \<Rightarrow> (Inr r, c2))))"

lemma finish_sqlite_operation_eq:
  "finish_sqlite_operation k b r =
     (case r of (Inl e, c) \<Rightarrow> (Inl e, c) | (Inr u, c) \<Rightarrow> (Inr (b \<or> 0 < k), c))"
  by (induction k b r rule: finish_sqlite_operation.induct) (auto split: sum.splits prod.splits)

lemmas transaction_defs =
  exclusive_def finish_sqlite_operation_eq begin_immediate_def commit_def rollback_def Let_def

text \<open>One section on an idle connection, as one equation.\<close>

lemma exclusive_idle:
  assumes "\<not> cn_locked c" "cn_txn c = None"
  shows "exclusive io body c =
    (if io_busy io then (Inl Sqlite_error, c)
     else if 0 < io_cancel_begin io then
       (if io_rollback_fails io then (Inl Sqlite_error, c\<lparr>cn_txn := Some (cn_committed c)\<rparr>)
        else (Inl Cancelled, c))
     else case body (cn_committed c) of
       Inl e \<Rightarrow> (if io_rollback_fails io then (Inl Sqlite_error, c\<lparr>cn_txn := Some (cn_committed c)\<rparr>)
                 else (Inl (Body_error e), c))
     | Inr (r, db) \<Rightarrow>
         (if io_commit_fails io then (Inl Sqlite_error, c\<lparr>cn_txn := Some db\<rparr>)
          else (if 0 < io_cancel_commit io then Inl Cancelled else Inr r, c\<lparr>cn_committed := db\<rparr>)))"
proof -
  obtain committed where c: "c = \<lparr>cn_locked = False, cn_committed = committed, cn_txn = None\<rparr>"
    using assms by (cases c) auto
  show ?thesis
    by (cases "body committed") (auto simp: c transaction_defs)
qed

text \<open>What a section may commit, and that the lock is free again.\<close>

lemma exclusive_outcome:
  assumes "exclusive io body c = (r, c')" "\<not> cn_locked c" "cn_txn c = None"
  shows "\<not> cn_locked c'"
    and "cn_committed c' = cn_committed c \<or>
       (\<exists>x. body (cn_committed c) = Inr (x, cn_committed c') \<and> (r = Inr x \<or> r = Inl Cancelled))"
    and "r = Inr x \<Longrightarrow> body (cn_committed c) = Inr (x, cn_committed c')"
    and "r = Inl (Body_error e) \<Longrightarrow> cn_committed c' = cn_committed c \<and> body (cn_committed c) = Inl e"
    and "\<not> io_commit_fails io \<Longrightarrow> \<not> io_rollback_fails io \<Longrightarrow> cn_txn c' = None"
  using assms unfolding exclusive_idle [OF assms(2,3)]
  by (auto split: if_splits sum.splits)

text \<open>A failed \<open>COMMIT\<close> leaves the transaction open, and every later section then fails at
  \<open>BEGIN\<close>.\<close>

lemma exclusive_open_txn:
  "\<not> cn_locked c \<Longrightarrow> cn_txn c \<noteq> None \<Longrightarrow> exclusive io body c = (Inl Sqlite_error, c)"
  by (cases c) (simp add: transaction_defs)

lemma exclusive_commit_failure:
  assumes "\<not> cn_locked c" "cn_txn c = None" "\<not> io_busy io" "io_cancel_begin io = 0"
    "io_commit_fails io" "body (cn_committed c) = Inr (x, db)"
  shows "exclusive io body c = (Inl Sqlite_error, c\<lparr>cn_txn := Some db\<rparr>)"
  using assms by (simp add: exclusive_idle)

subsection \<open>Properties\<close>

text \<open>The critical section of the SQLite store is atomic and always releases its lock. Whatever
  fails and whenever the task is cancelled, afterwards the lock is free and the database holds either what it
  held before or exactly what the body produced; a normal result means the body's changes are committed, an
  error of the body means nothing of it is, and unless COMMIT or ROLLBACK itself failed no transaction is
  left open.\<close>

theorem exclusive_atomic:
  assumes "exclusive io body c = (r, c')" "\<not> cn_locked c" "cn_txn c = None"
  shows "\<not> cn_locked c'
    \<and> (cn_committed c' = cn_committed c \<or>
       (\<exists>x. body (cn_committed c) = Inr (x, cn_committed c') \<and> (r = Inr x \<or> r = Inl Cancelled)))
    \<and> (\<forall>x. r = Inr x \<longrightarrow> body (cn_committed c) = Inr (x, cn_committed c'))
    \<and> (\<forall>e. r = Inl (Body_error e) \<longrightarrow> cn_committed c' = cn_committed c \<and> body (cn_committed c) = Inl e)
    \<and> (\<not> io_commit_fails io \<longrightarrow> \<not> io_rollback_fails io \<longrightarrow> cn_txn c' = None)"
  using exclusive_outcome [OF assms] by blast

definition sample_io :: sqlite_io where
  "sample_io = \<lparr>io_busy = False, io_commit_fails = False, io_rollback_fails = False, io_cancel_begin = 0, io_cancel_commit = 2\<rparr>"

definition sample_conn :: conn where
  "sample_conn = \<lparr>cn_locked = False, cn_committed = \<lparr>tb_session_state = [], tb_closed_sessions = []\<rparr>, cn_txn = None\<rparr>"

theorem exclusive_atomic_witness:
  "let (r, c') = exclusive sample_io (\<lambda>db. Inr (''ok'', db\<lparr>tb_closed_sessions := []\<rparr>) :: nat + string \<times> sqlite_tables) sample_conn
   in \<not> cn_locked c' \<and> cn_txn c' = None"
proof -
  obtain r :: "nat store_error + string" and c' where e: "exclusive sample_io (\<lambda>db. Inr (''ok'', db\<lparr>tb_closed_sessions := []\<rparr>)) sample_conn = (r, c')"
    by (cases "exclusive sample_io (\<lambda>db. Inr (''ok'', db\<lparr>tb_closed_sessions := []\<rparr>) :: nat + string \<times> sqlite_tables) sample_conn")
  show ?thesis using exclusive_atomic [OF e] e by (simp add: sample_conn_def sample_io_def)
qed

text \<open>A failed COMMIT wedges the store. If COMMIT fails (as it does when the database is busy or the disk
  is full), the transaction stays open with the lock released, and every later critical section on
  the connection fails at BEGIN, whatever it does and although the database may be healthy again.\<close>

theorem failed_commit_wedges_store:
  assumes "\<not> cn_locked c" "cn_txn c = None" "\<not> io_busy io" "io_cancel_begin io = 0"
    and "io_commit_fails io" "body (cn_committed c) = Inr (x, db)"
  shows "exclusive io body c = (Inl Sqlite_error, c\<lparr>cn_txn := Some db\<rparr>)
    \<and> exclusive io' body' (c\<lparr>cn_txn := Some db\<rparr>) = (Inl Sqlite_error, c\<lparr>cn_txn := Some db\<rparr>)"
  using exclusive_commit_failure [of c io body] exclusive_open_txn [of "c\<lparr>cn_txn := Some db\<rparr>"] assms by simp

theorem failed_commit_wedges_store_witness:
  "let io = sample_io\<lparr>io_commit_fails := True\<rparr>; body = (\<lambda>db. Inr ((), db) :: unit + unit \<times> sqlite_tables);
       (r, c) = exclusive io body sample_conn
   in r = Inl Sqlite_error \<and> fst (exclusive sample_io body c) = Inl Sqlite_error"
  using failed_commit_wedges_store [of sample_conn "sample_io\<lparr>io_commit_fails := True\<rparr>"
      "\<lambda>db. Inr ((), db) :: unit + unit \<times> sqlite_tables" "()" "cn_committed sample_conn" sample_io
      "\<lambda>db. Inr ((), db) :: unit + unit \<times> sqlite_tables"]
  by (simp add: sample_conn_def sample_io_def Let_def)

end
