(* ===== verification/Encoding.thy ===== *)
theory Encoding
  imports Json
begin

text \<open>
  Bytes and their texts. A \<open>bytes\<close> value is a list of characters below 256, so
  an ASCII text and its encoding are the same list. The theory holds the parts
  of the standard library the gateway uses for digests and keys (\<open>bytes.hex\<close>,
  \<open>bytes.fromhex\<close>, \<open>base64.urlsafe_b64encode\<close>, \<open>base64.b64decode\<close>) and the
  credential decoder \<open>decode_trace_token\<close> of \<open>trace_gate.py\<close>, which accepts
  exactly the canonical unpadded base64url text of a byte string.
\<close>

type_synonym bytes = string

subsection \<open>Hexadecimal\<close>

definition hexlify :: "bytes \<Rightarrow> string" where
  "hexlify bs = concat (map (\<lambda>c. [hex_digit (of_char c div 16), hex_digit (of_char c mod 16)]) bs)"

definition hex_value :: "char \<Rightarrow> nat option" where
  "hex_value c =
     (let n = (of_char c :: nat) in
      if 48 \<le> n \<and> n \<le> 57 then Some (n - 48)
      else if 97 \<le> n \<and> n \<le> 102 then Some (n - 87)
      else if 65 \<le> n \<and> n \<le> 70 then Some (n - 55)
      else None)"

definition ascii_space :: "char \<Rightarrow> bool" where
  "ascii_space c \<longleftrightarrow> (of_char c :: nat) \<in> {9, 10, 11, 12, 13, 32}"

text \<open>\<open>bytes.fromhex\<close>: pairs of hex digits, white space allowed between them; \<open>None\<close> is
  the \<open>ValueError\<close>.\<close>

fun fromhex :: "string \<Rightarrow> bytes option" where
  "fromhex [] = Some []"
| "fromhex [a] = (if ascii_space a then Some [] else None)"
| "fromhex (a # b # r) =
     (if ascii_space a then fromhex (b # r)
      else case (hex_value a, hex_value b) of
        (Some h, Some l) \<Rightarrow> map_option (\<lambda>t. char_of (16 * h + l) # t) (fromhex r)
      | _ \<Rightarrow> None)"

subsection \<open>Base64\<close>

definition b64_char :: "nat \<Rightarrow> char" where
  "b64_char n =
     (if n < 26 then char_of (65 + n)
      else if n < 52 then char_of (71 + n)
      else if n < 62 then char_of (n - 4)
      else if n = 62 then CHR ''-'' else CHR ''_'')"

fun urlsafe_b64encode :: "bytes \<Rightarrow> string" where
  "urlsafe_b64encode [] = []"
| "urlsafe_b64encode [a] =
     [b64_char (of_char a div 4), b64_char (of_char a mod 4 * 16), CHR ''='', CHR ''='']"
| "urlsafe_b64encode [a, b] =
     [b64_char (of_char a div 4), b64_char (of_char a mod 4 * 16 + of_char b div 16),
      b64_char (of_char b mod 16 * 4), CHR ''='']"
| "urlsafe_b64encode (a # b # c # r) =
     [b64_char (of_char a div 4), b64_char (of_char a mod 4 * 16 + of_char b div 16),
      b64_char (of_char b mod 16 * 4 + of_char c div 64), b64_char (of_char c mod 64)]
     @ urlsafe_b64encode r"

definition rstrip_eq :: "string \<Rightarrow> string" where
  "rstrip_eq s = rev (dropWhile (\<lambda>c. c = CHR ''='') (rev s))"

definition b64url :: "bytes \<Rightarrow> string" where
  "b64url bs = rstrip_eq (urlsafe_b64encode bs)"

text \<open>\<open>base64.b64decode(s, altchars=b"-_", validate=True)\<close>: the alternative characters are
  translated to \<open>+\<close> and \<open>/\<close>, which are therefore accepted too; \<open>None\<close> is the
  \<open>binascii.Error\<close>.\<close>

definition b64_value :: "char \<Rightarrow> nat option" where
  "b64_value c =
     (let n = (of_char c :: nat) in
      if 65 \<le> n \<and> n \<le> 90 then Some (n - 65)
      else if 97 \<le> n \<and> n \<le> 122 then Some (n - 71)
      else if 48 \<le> n \<and> n \<le> 57 then Some (n + 4)
      else if n = 45 \<or> n = 43 then Some 62
      else if n = 95 \<or> n = 47 then Some 63
      else None)"

fun b64decode :: "string \<Rightarrow> bytes option" where
  "b64decode [] = Some []"
| "b64decode (w # x # y # z # r) =
     (case (b64_value w, b64_value x) of
        (Some v0, Some v1) \<Rightarrow>
          (if r = [] \<and> y = CHR ''='' \<and> z = CHR ''='' then Some [char_of (v0 * 4 + v1 div 16)]
           else case b64_value y of
             None \<Rightarrow> None
           | Some v2 \<Rightarrow>
               (if r = [] \<and> z = CHR ''='' then
                  Some [char_of (v0 * 4 + v1 div 16), char_of (v1 mod 16 * 16 + v2 div 4)]
                else case b64_value z of
                  None \<Rightarrow> None
                | Some v3 \<Rightarrow> map_option (\<lambda>t. char_of (v0 * 4 + v1 div 16)
                     # char_of (v1 mod 16 * 16 + v2 div 4) # char_of (v2 mod 4 * 64 + v3) # t)
                     (b64decode r)))
      | _ \<Rightarrow> None)"
| "b64decode _ = None"

subsection \<open>TRACE token credentials (\<open>trace_gate.py\<close>)\<close>

datatype credential_error = Credential_shape | Credential_encoding

definition MAX_ENCODED_TOKEN_CHARS :: nat where
  "MAX_ENCODED_TOKEN_CHARS = 90000"

text \<open>A JSON value that is not a string fails the \<open>isinstance\<close> test.\<close>

definition decode_trace_token :: "json \<Rightarrow> credential_error + bytes" where
  "decode_trace_token v =
     (case v of
        JStr s \<Rightarrow>
          (if MAX_ENCODED_TOKEN_CHARS < length s then Inl Credential_shape
           else case b64decode (s @ replicate (nat ((- int (length s)) mod 4)) (CHR ''='')) of
             None \<Rightarrow> Inl Credential_encoding
           | Some raw \<Rightarrow> if b64url raw \<noteq> s then Inl Credential_encoding else Inr raw)
      | _ \<Rightarrow> Inl Credential_shape)"

subsection \<open>Round trips\<close>

lemma hex_value_digit [simp]: "n < 16 \<Longrightarrow> hex_value (hex_digit n) = Some n"
  by (auto simp: hex_value_def hex_digit_def)

lemma hex_digit_not_space [simp]: "n < 16 \<Longrightarrow> \<not> ascii_space (hex_digit n)"
  by (auto simp: ascii_space_def hex_digit_def)

lemma length_hexlify [simp]: "length (hexlify bs) = 2 * length bs"
  by (induction bs) (auto simp: hexlify_def)

lemma hexlify_simps [simp]:
  "hexlify [] = []"
  "hexlify (c # bs) = hex_digit (of_char c div 16) # hex_digit (of_char c mod 16) # hexlify bs"
  by (simp_all add: hexlify_def)

lemma of_char_less: "(of_char c :: nat) < 256"
  by simp

lemma of_char_nibble [simp]: "(of_char c :: nat) div 16 < 16" "(of_char c :: nat) div 64 < 4"
  "(of_char c :: nat) div 4 < 64"
  using of_char_less [of c] by linarith+

lemma fromhex_hexlify [simp]: "fromhex (hexlify bs) = Some bs"
  by (induction bs) (simp_all)

lemma hexlify_inject [simp]: "hexlify a = hexlify b \<longleftrightarrow> a = b"
  by (metis fromhex_hexlify option.inject)

lemma b64_value_char [simp]: "n < 64 \<Longrightarrow> b64_value (b64_char n) = Some n"
  by (auto simp: b64_value_def b64_char_def Let_def)

lemma b64_char_not_eq [simp]: "n < 64 \<Longrightarrow> b64_char n \<noteq> CHR ''=''"
  by (auto simp: b64_char_def dest!: arg_cong [where f = "of_char :: char \<Rightarrow> nat"])

lemma sextet_bounds [simp]:
  "(of_char a :: nat) mod 4 * 16 < 64" "(of_char b :: nat) mod 16 * 4 < 64"
  "(of_char a :: nat) mod 4 * 16 + of_char b div 16 < 64"
  "(of_char b :: nat) mod 16 * 4 + of_char c div 64 < 64"
  using of_char_less [of b] of_char_less [of c] by linarith+

lemma octet_rebuild [simp]:
  "(of_char a :: nat) div 4 * 4 + (of_char a mod 4 * 16 + of_char b div 16) div 16 = of_char a"
  "(of_char a :: nat) div 4 * 4 + (of_char a mod 4 * 16) div 16 = of_char a"
  "((of_char a :: nat) mod 4 * 16 + of_char b div 16) mod 16 * 16 + (of_char b mod 16 * 4 + of_char c div 64) div 4
     = of_char b"
  "((of_char a :: nat) mod 4 * 16 + of_char b div 16) mod 16 * 16 + (of_char b mod 16 * 4) div 4
     = of_char b"
  "((of_char b :: nat) mod 16 * 4 + of_char c div 64) mod 4 * 64 + of_char c mod 64 = of_char c"
  by simp_all

lemma b64decode_encode [simp]: "b64decode (urlsafe_b64encode bs) = Some bs"
  by (induction bs rule: urlsafe_b64encode.induct) simp_all

lemma rstrip_eq_append: "x \<noteq> CHR ''='' \<Longrightarrow> rstrip_eq (s @ [x]) = s @ [x]"
  by (simp add: rstrip_eq_def)

lemma rstrip_eq_nonpad: "t \<noteq> [] \<Longrightarrow> last t \<noteq> CHR ''='' \<Longrightarrow> rstrip_eq (s @ t) = s @ t"
  by (metis append_assoc append_butlast_last_id rstrip_eq_append)

lemma rstrip_eq_prefix: "rstrip_eq s \<noteq> [] \<Longrightarrow> rstrip_eq (r @ s) = r @ rstrip_eq s"
  by (auto simp: rstrip_eq_def dropWhile_append dropWhile_eq_Nil_conv)

lemma b64url_simps [simp]:
  "b64url [] = []"
  "b64url [a] = [b64_char (of_char a div 4), b64_char (of_char a mod 4 * 16)]"
  "b64url [a, b] = [b64_char (of_char a div 4), b64_char (of_char a mod 4 * 16 + of_char b div 16),
     b64_char (of_char b mod 16 * 4)]"
  by (simp_all add: b64url_def rstrip_eq_def)

lemma rstrip_eq_last: "s = [] \<or> last (s) \<noteq> CHR ''='' \<Longrightarrow> rstrip_eq s = s"
  by (cases s rule: rev_cases) (auto simp: rstrip_eq_def)

lemma b64url_cons [simp]:
  "b64url (a # b # c # r) =
     [b64_char (of_char a div 4), b64_char (of_char a mod 4 * 16 + of_char b div 16),
      b64_char (of_char b mod 16 * 4 + of_char c div 64), b64_char (of_char c mod 64)] @ b64url r"
proof -
  have "rstrip_eq (q @ [x] @ t) = q @ [x] @ rstrip_eq t" if "x \<noteq> CHR ''=''" for q x t
    using that by (auto simp: rstrip_eq_def dropWhile_append dropWhile_eq_Nil_conv)
  from this [of "b64_char (of_char c mod 64)"
      "[b64_char (of_char a div 4), b64_char (of_char a mod 4 * 16 + of_char b div 16),
        b64_char (of_char b mod 16 * 4 + of_char c div 64)]" "urlsafe_b64encode r"]
  show ?thesis by (simp add: b64url_def)
qed

text \<open>The padding that \<open>decode_trace_token\<close> restores is the padding that \<open>rstrip\<close> removed.\<close>

lemma b64url_padding:
  "b64url bs @ replicate (nat ((- int (length (b64url bs))) mod 4)) (CHR ''='') = urlsafe_b64encode bs"
proof (induction bs rule: urlsafe_b64encode.induct)
  case (4 a b c r)
  have "(- 4 - int (length (b64url r))) mod 4 = (- int (length (b64url r))) mod 4"
    by presburger
  with 4 show ?case by simp
qed (simp_all add: numeral_2_eq_2)

lemma length_b64url: "length (b64url bs) \<le> 2 * length bs"
  by (induction bs rule: urlsafe_b64encode.induct) simp_all

lemma decode_trace_token_b64url:
  assumes "length (b64url raw) \<le> MAX_ENCODED_TOKEN_CHARS"
  shows "decode_trace_token (JStr (b64url raw)) = Inr raw"
  using assms by (simp add: decode_trace_token_def b64url_padding)

lemma decode_trace_token_canonical:
  "decode_trace_token v = Inr raw \<Longrightarrow> v = JStr (b64url raw) \<and> length (b64url raw) \<le> MAX_ENCODED_TOKEN_CHARS"
  by (auto simp: decode_trace_token_def split: json.splits if_splits option.splits)

text \<open>A function with 32-byte results, for the concrete runs of theorems about SHA-256.\<close>

definition pad32 :: "bytes \<Rightarrow> bytes" where
  "pad32 b = take 32 (b @ replicate 32 (CHR ''0''))"

lemma length_pad32 [simp]: "length (pad32 b) = 32"
  by (simp add: pad32_def)

subsection \<open>Properties\<close>

text \<open>An action credential has one encoding. \<open>decode_trace_token\<close> accepts a value exactly when
  it is the unpadded base64url text of the bytes it returns and no longer than the cap, so encoding
  and decoding are inverse and no second spelling of a token is accepted.\<close>

theorem decode_trace_token_iff:
  "decode_trace_token v = Inr raw \<longleftrightarrow> v = JStr (b64url raw) \<and> length (b64url raw) \<le> MAX_ENCODED_TOKEN_CHARS"
  using decode_trace_token_canonical decode_trace_token_b64url by blast

end
