(* ===== verification/Tee_Base.thy ===== *)
theory Tee_Base
  imports Encoding Datetime
begin

text \<open>
  The TEE abstraction (\<open>tee/base.py\<close>, \<open>tee/report_binding.py\<close>): attestation reports,
  the 64-byte nonces that commit the gateway key beside a salt, an audit chain
  root or the gateway measurement, the software-only provider, and the
  re-attestation that follows a policy reload. SHA-256 is an argument of the
  definitions that use it; a hardware provider is a function from the nonce to
  what its call ends in.
\<close>

datatype tee_error = Provider_not_allowed string

record attestation_report =
  provider :: string
  measurement :: string
  report_data :: string
  raw_evidence :: "bytes option"
  attestation_generated_at :: datetime
  attestation_validity_seconds :: int
  measurement_note :: "string option"
  quote_signature :: "bytes option"
  attestation_key_pem :: "bytes option"
  attestation_key_chain_pem :: "bytes option"

definition ALLOWED_PROVIDERS :: "string list" where
  "ALLOWED_PROVIDERS = [''sev-snp'', ''azure-cvm-sev-snp'', ''tdx'', ''tpm'', ''software-only'']"

text \<open>Constructing a report runs \<open>__post_init__\<close>.\<close>

definition new_attestation_report :: "attestation_report \<Rightarrow> tee_error + attestation_report" where
  "new_attestation_report r =
     (if provider r \<notin> set ALLOWED_PROVIDERS then Inl (Provider_not_allowed (provider r)) else Inr r)"

subsection \<open>Thumbprints and attestation nonces\<close>

definition jwk_preimage :: "bytes \<Rightarrow> bytes" where
  "jwk_preimage tee_public_key =
     dumps (JObj [(''crv'', JStr ''Ed25519''), (''kty'', JStr ''OKP''), (''x'', JStr (b64url tee_public_key))])"

definition jwk_thumbprint :: "(bytes \<Rightarrow> bytes) \<Rightarrow> bytes \<Rightarrow> bytes" where
  "jwk_thumbprint sha256 tee_public_key = sha256 (jwk_preimage tee_public_key)"

datatype nonce_error = Bad_length nat | Bad_hex

definition make_nonce :: "(bytes \<Rightarrow> bytes) \<Rightarrow> bytes \<Rightarrow> bytes \<Rightarrow> nonce_error + bytes" where
  "make_nonce sha256 tee_public_key salt =
     (if length salt \<noteq> 32 then Inl (Bad_length (length salt))
      else Inr (jwk_thumbprint sha256 tee_public_key @ salt))"

definition audit_root_commitment :: "(bytes \<Rightarrow> bytes) \<Rightarrow> string \<Rightarrow> nonce_error + bytes" where
  "audit_root_commitment sha256 chain_root_hex =
     (case fromhex chain_root_hex of None \<Rightarrow> Inl Bad_hex | Some b \<Rightarrow> Inr (sha256 b))"

definition make_audit_bound_nonce :: "(bytes \<Rightarrow> bytes) \<Rightarrow> bytes \<Rightarrow> string \<Rightarrow> nonce_error + bytes" where
  "make_audit_bound_nonce sha256 tee_public_key chain_root_hex =
     bind_result (audit_root_commitment sha256 chain_root_hex)
       (\<lambda>c. Inr (jwk_thumbprint sha256 tee_public_key @ c))"

definition make_measurement_bound_nonce :: "(bytes \<Rightarrow> bytes) \<Rightarrow> bytes \<Rightarrow> bytes \<Rightarrow> nonce_error + bytes" where
  "make_measurement_bound_nonce sha256 tee_public_key measurement_digest =
     (if length measurement_digest \<noteq> 32 then Inl (Bad_length (length measurement_digest))
      else Inr (jwk_thumbprint sha256 tee_public_key @ measurement_digest))"

subsection \<open>Providers\<close>

text \<open>How a call of \<open>get_attestation_report\<close> ends: a report, something that is not one, or an
  exception.\<close>

datatype provider_answer = Report attestation_report | Malformed | Provider_raises

definition software_only_report :: "datetime \<Rightarrow> bytes \<Rightarrow> attestation_report" where
  "software_only_report now nonce =
     \<lparr>provider = ''software-only'', measurement = ''DEVELOPMENT_ONLY_NOT_FOR_PRODUCTION'',
      report_data = hexlify nonce, raw_evidence = None, attestation_generated_at = now,
      attestation_validity_seconds = 86400,
      measurement_note = Some ''software-only mode: not hardware-backed'',
      quote_signature = None, attestation_key_pem = None, attestation_key_chain_pem = None\<rparr>"

definition SoftwareOnlyProvider :: "datetime \<Rightarrow> bytes \<Rightarrow> provider_answer" where
  "SoftwareOnlyProvider now nonce =
     (case new_attestation_report (software_only_report now nonce) of
        Inl _ \<Rightarrow> Provider_raises | Inr r \<Rightarrow> Report r)"

subsection \<open>Re-attestation after a policy reload\<close>

definition MEASUREMENT_BOUND_PROVIDERS :: "string list" where
  "MEASUREMENT_BOUND_PROVIDERS = [''sev-snp'', ''azure-cvm-sev-snp'', ''tdx'']"

definition binds_measurement_into_report_data :: "string \<Rightarrow> bool" where
  "binds_measurement_into_report_data provider_name \<longleftrightarrow> provider_name \<in> set MEASUREMENT_BOUND_PROVIDERS"

text \<open>The part of \<open>RuntimeContext\<close> the refresh reads and writes: the measured digest, if
  any, and the report in force.\<close>

record binding_ctx =
  gateway_measurement :: "bytes option"
  ctx_report :: attestation_report

text \<open>\<open>measured\<close> is what \<open>gateway_measurement(ctx.config)\<close> gives: a digest, or nothing when it
  raises \<open>MeasurementUnavailable\<close>. A digest of another length makes the nonce raise
  \<open>ValueError\<close>, which the function does not catch.\<close>

definition refresh_measurement_binding ::
  "(bytes \<Rightarrow> bytes) \<Rightarrow> string \<Rightarrow> (bytes \<Rightarrow> provider_answer) \<Rightarrow> bytes option \<Rightarrow> bytes \<Rightarrow> binding_ctx
   \<Rightarrow> nonce_error + bool \<times> binding_ctx" where
  "refresh_measurement_binding sha256 provider_name get_report measured public_key ctx =
     (if \<not> binds_measurement_into_report_data provider_name then Inr (False, ctx)
      else case measured of
        None \<Rightarrow> Inr (False, ctx)
      | Some digest \<Rightarrow>
          bind_result (make_measurement_bound_nonce sha256 public_key digest)
            (\<lambda>nonce. case get_report nonce of
                Report r \<Rightarrow> Inr (True, ctx\<lparr>gateway_measurement := Some digest, ctx_report := r\<rparr>)
              | _ \<Rightarrow> Inr (False, ctx)))"

subsection \<open>Facts\<close>

lemma SoftwareOnlyProvider_report [simp]:
  "SoftwareOnlyProvider now nonce = Report (software_only_report now nonce)"
  by (simp add: SoftwareOnlyProvider_def new_attestation_report_def software_only_report_def
      ALLOWED_PROVIDERS_def)

lemma make_nonce_ok:
  "make_nonce sha256 k salt = Inr n \<longleftrightarrow> length salt = 32 \<and> n = jwk_thumbprint sha256 k @ salt"
  by (auto simp: make_nonce_def)

lemma make_measurement_bound_nonce_ok:
  "make_measurement_bound_nonce sha256 k d = Inr n \<longleftrightarrow>
     length d = 32 \<and> n = jwk_thumbprint sha256 k @ d"
  by (auto simp: make_measurement_bound_nonce_def)

lemma audit_root_commitment_hex [simp]: "audit_root_commitment sha256 (hexlify b) = Inr (sha256 b)"
  by (simp add: audit_root_commitment_def)

lemma make_audit_bound_nonce_hex [simp]:
  "make_audit_bound_nonce sha256 k (hexlify b) = Inr (jwk_thumbprint sha256 k @ sha256 b)"
  by (simp add: make_audit_bound_nonce_def)

lemma jwk_preimage_inject: "jwk_preimage k = jwk_preimage k' \<longleftrightarrow> k = k'"
proof -
  let ?m = "\<lambda>k. JObj [(''crv'', JStr ''Ed25519''), (''kty'', JStr ''OKP''), (''x'', JStr (b64url k))]"
  have "dumps (?m k) = dumps (?m k') \<Longrightarrow> b64url k = b64url k'"
    by (subst (asm) dumps_inject) auto
  then have "dumps (?m k) = dumps (?m k') \<Longrightarrow> k = k'"
    by (metis b64decode_encode b64url_padding option.inject)
  then show ?thesis by (auto simp: jwk_preimage_def)
qed

lemma jwk_thumbprint_key:
  "jwk_thumbprint sha256 k = jwk_thumbprint sha256 k' \<Longrightarrow>
     k = k' \<or> collides sha256 (jwk_preimage k) (jwk_preimage k')"
  by (simp add: jwk_thumbprint_def collides_def jwk_preimage_inject)

subsection \<open>Properties\<close>

text \<open>The nonce of a per-session attestation report commits both the gateway key and the audit
  chain root. If two keys and two roots give one nonce, they are the same key and the same root, or
  SHA-256 collides on the two keys' JWK texts or on the two roots; and for a root that is a digest in hexadecimal the nonce exists and has 64
  bytes.\<close>

theorem audit_bound_nonce_commits:
  assumes "make_audit_bound_nonce sha256 k (hexlify r) = make_audit_bound_nonce sha256 k' (hexlify r')"
    and "\<And>b. length (sha256 b) = 32"
  shows "(k = k' \<or> collides sha256 (jwk_preimage k) (jwk_preimage k')) \<and> (r = r' \<or> collides sha256 r r')
    \<and> (\<exists>n. make_audit_bound_nonce sha256 k (hexlify r) = Inr n \<and> length n = 64)"
proof -
  have len: "length (jwk_thumbprint sha256 x) = 32" for x using assms(2) by (simp add: jwk_thumbprint_def)
  have "jwk_thumbprint sha256 k = jwk_thumbprint sha256 k' \<and> sha256 r = sha256 r'"
    using assms(1) len by simp
  then show ?thesis
    using jwk_thumbprint_key [of sha256 k k'] collides_intro [of sha256 r r'] len [of k] assms(2) [of r] by simp
qed

theorem audit_bound_nonce_commits_witness:
  "(\<exists>n. make_audit_bound_nonce pad32 ''key'' (hexlify ''root'') = Inr n \<and> length n = 64)"
  using audit_bound_nonce_commits [of pad32 "''key''" "''root''" "''key''" "''root''"] by simp

text \<open>Re-binding the measurement into the attestation report is all or nothing. When
  \<open>refresh_measurement_binding\<close> returns True, the context holds the new measurement and the report
  the provider gave for the nonce that commits the gateway key and that measurement; in every other
  case the context is unchanged.\<close>

theorem refresh_measurement_binding_atomic:
  assumes "refresh_measurement_binding sha256 p get_report measured key ctx = Inr (done, ctx')"
  shows "if done then \<exists>digest r. measured = Some digest \<and> length digest = 32
           \<and> binds_measurement_into_report_data p
           \<and> get_report (jwk_thumbprint sha256 key @ digest) = Report r
           \<and> ctx' = ctx\<lparr>gateway_measurement := Some digest, ctx_report := r\<rparr>
         else ctx' = ctx"
  using assms
  by (auto simp: refresh_measurement_binding_def bind_result_eq_Inr make_measurement_bound_nonce_ok
      split: if_splits option.splits provider_answer.splits)

theorem refresh_measurement_binding_atomic_witness:
  "let ctx = \<lparr>gateway_measurement = None, ctx_report = software_only_report sample_time []\<rparr>;
       digest = replicate 32 (CHR ''m'') in
   \<exists>ctx'. refresh_measurement_binding pad32 ''tdx'' (SoftwareOnlyProvider sample_time) (Some digest) ''key'' ctx
       = Inr (True, ctx') \<and> gateway_measurement ctx' = Some digest"
proof -
  let ?ctx = "\<lparr>gateway_measurement = None, ctx_report = software_only_report sample_time []\<rparr>"
  have "\<exists>ctx'. refresh_measurement_binding pad32 ''tdx'' (SoftwareOnlyProvider sample_time)
      (Some (replicate 32 (CHR ''m''))) ''key'' ?ctx = Inr (True, ctx')"
    by (simp add: refresh_measurement_binding_def binds_measurement_into_report_data_def
        MEASUREMENT_BOUND_PROVIDERS_def make_measurement_bound_nonce_def)
  then show ?thesis using refresh_measurement_binding_atomic [of pad32] unfolding Let_def by force
qed

end
