(* ===== verification/Hash_Chain.thy ===== *)
theory Hash_Chain
  imports Prelude
begin

text \<open>
  The interface of a hash-linked log, stated once for the audit chain and for
  the chain of signed claims: every item stores a digest, names the digest of
  its predecessor inside the hashed body, and the first names a fixed start
  value that is no digest. What clients get is that the last digest determines
  all bodies of a well-linked log, or exhibits two different bodies with one
  digest.
\<close>

locale hash_linked =
  fixes digest :: "'b \<Rightarrow> 'h"
    and body :: "'e \<Rightarrow> 'b"
    and prev_of :: "'e \<Rightarrow> 'h"
    and hash_of :: "'e \<Rightarrow> 'h"
    and item_ok :: "'e \<Rightarrow> bool"
    and links :: "'h option \<Rightarrow> 'e list \<Rightarrow> bool"
  assumes body_prev: "item_ok e \<Longrightarrow> item_ok f \<Longrightarrow> body e = body f \<Longrightarrow> prev_of e = prev_of f"
    and links_Nil: "links p []"
    and links_Cons: "links p (e # es) \<longleftrightarrow>
      hash_of e = digest (body e) \<and> (case p of None \<Rightarrow> True | Some h \<Rightarrow> prev_of e = h)
      \<and> links (Some (hash_of e)) es"
begin

lemma links_snoc:
  "links p (es @ [e]) \<longleftrightarrow>
     links p es \<and> hash_of e = digest (body e)
     \<and> (if es = [] then (case p of None \<Rightarrow> True | Some h \<Rightarrow> prev_of e = h)
        else prev_of e = hash_of (last es))"
  by (induction es arbitrary: p) (auto simp: links_Cons links_Nil)

lemma links_digest: "links p es \<Longrightarrow> e \<in> set es \<Longrightarrow> hash_of e = digest (body e)"
  by (induction es arbitrary: p) (auto simp: links_Cons)

lemma links_nth:
  "links p es \<Longrightarrow> Suc i < length es \<Longrightarrow> prev_of (es ! Suc i) = hash_of (es ! i)"
proof (induction es arbitrary: p i)
  case (Cons e es)
  then have tl: "links (Some (hash_of e)) es" unfolding links_Cons by blast
  show ?case
  proof (cases i)
    case 0
    with Cons.prems(2) tl show ?thesis by (cases es) (auto simp: links_Cons)
  next
    case (Suc j)
    with Cons.IH [OF tl, of j] Cons.prems(2) show ?thesis by simp
  qed
qed simp

text \<open>The tip determines the bodies, or two of them collide.\<close>

lemma tip_determines:
  assumes "links None es" "links None fs" "es \<noteq> []" "fs \<noteq> []"
    and "prev_of (hd es) = start" "prev_of (hd fs) = start"
    and "\<forall>e\<in>set es \<union> set fs. item_ok e"
    and "hash_of (last es) = hash_of (last fs)"
    and "\<And>e. e \<in> set es \<union> set fs \<Longrightarrow> digest (body e) \<noteq> start"
    and "\<And>e f. e \<in> set es \<Longrightarrow> f \<in> set fs \<Longrightarrow> digest (body e) = digest (body f) \<Longrightarrow> body e = body f"
  shows "map body es = map body fs"
  using assms
proof (induction es arbitrary: fs rule: rev_induct)
  case (snoc e es)
  then obtain gs f where fs: "fs = gs @ [f]" by (metis rev_exhaust)
  have be: "body e = body f"
    using snoc.prems(1,2,8) fs by (intro snoc.prems(10)) (simp_all add: links_snoc)
  then have pe: "prev_of e = prev_of f"
    using snoc.prems(7) fs by (intro body_prev) auto
  have he: "es \<noteq> [] \<Longrightarrow> prev_of e = digest (body (last es))"
    using snoc.prems(1) links_digest [of None es "last es"] by (simp add: links_snoc)
  have hf: "gs \<noteq> [] \<Longrightarrow> prev_of f = digest (body (last gs))"
    using snoc.prems(2) fs links_digest [of None gs "last gs"] by (simp add: links_snoc)
  show ?case
  proof (cases "es = [] \<or> gs = []")
    case True
    have "es \<noteq> [] \<Longrightarrow> prev_of e \<noteq> start" "gs \<noteq> [] \<Longrightarrow> prev_of f \<noteq> start"
      using snoc.prems(9) [of "last es"] snoc.prems(9) [of "last gs"] he hf fs by auto
    with True have "es = [] \<and> gs = []"
      using snoc.prems(5,6) fs pe by (metis append_Nil list.sel(1))
    with be fs show ?thesis by simp
  next
    case False
    have "map body es = map body gs"
    proof (rule snoc.IH)
      show "hash_of (last es) = hash_of (last gs)"
        using snoc.prems(1,2) False fs pe by (simp add: links_snoc)
    qed (use snoc.prems False fs in \<open>auto simp: links_snoc\<close>)
    with be fs show ?thesis by simp
  qed
qed simp

lemma tip_determines_or_restart:
  assumes "links None es" "links None fs" "es \<noteq> []" "fs \<noteq> []"
    and "prev_of (hd es) = start" "prev_of (hd fs) = start"
    and "\<forall>e\<in>set es \<union> set fs. item_ok e" "hash_of (last es) = hash_of (last fs)"
  shows "map body es = map body fs \<or> (\<exists>e\<in>set es. \<exists>f\<in>set fs. collides digest (body e) (body f))
    \<or> (\<exists>e\<in>set es \<union> set fs. digest (body e) = start)"
  using tip_determines [OF assms] by (auto simp: collides_def)

lemma tip_determines_or_collision:
  assumes "links None es" "links None fs" "es \<noteq> []" "fs \<noteq> []"
    and "prev_of (hd es) = start" "prev_of (hd fs) = start"
    and "\<forall>e\<in>set es \<union> set fs. item_ok e"
    and "hash_of (last es) = hash_of (last fs)" and "\<And>b. digest b \<noteq> start"
  shows "map body es = map body fs \<or> (\<exists>e\<in>set es. \<exists>f\<in>set fs. collides digest (body e) (body f))"
  using tip_determines_or_restart [OF assms(1-8)] assms(9) by blast

end

end
