(* ===== verification/Audit_Chain.thy ===== *)
theory Audit_Chain
  imports Tee_Base Hash_Chain
begin

text \<open>
  The append-only, hash-chained audit log (\<open>audit/chain.py\<close>) and its durable
  store (\<open>audit/store.py\<close>). An entry's hash is taken over the canonical JSON of
  all its other fields, so a chain that verifies is determined by its tip up to
  a collision of the hash. The clock and the identifier generator are inputs of
  \<open>append\<close>; the store is a table of rows whose primary key is the entry
  identifier, and appending a row that repeats one raises.
\<close>

datatype entry_type =
    Session_start | Session_end | Session_reset | Tool_call | Egress_denied | Attestation_refresh
  | Policy_load | Catalog_load | Fault | Suspicious_call_sequence | Attestation_stale
  | Catalog_drift | Tool_observed_unadmitted | Break_glass_used

fun entry_type_str :: "entry_type \<Rightarrow> string" where
  "entry_type_str Session_start = ''session_start''"
| "entry_type_str Session_end = ''session_end''"
| "entry_type_str Session_reset = ''session_reset''"
| "entry_type_str Tool_call = ''tool_call''"
| "entry_type_str Egress_denied = ''egress_denied''"
| "entry_type_str Attestation_refresh = ''attestation_refresh''"
| "entry_type_str Policy_load = ''policy_load''"
| "entry_type_str Catalog_load = ''catalog_load''"
| "entry_type_str Fault = ''fault''"
| "entry_type_str Suspicious_call_sequence = ''suspicious_call_sequence''"
| "entry_type_str Attestation_stale = ''attestation_stale''"
| "entry_type_str Catalog_drift = ''catalog_drift''"
| "entry_type_str Tool_observed_unadmitted = ''tool_observed_unadmitted''"
| "entry_type_str Break_glass_used = ''break_glass_used''"

datatype policy_decision =
    PD_allow | PD_deny | PD_redact | PD_advisory_deny | PD_step_up | PD_defer | PD_fault | PD_na

fun policy_decision_str :: "policy_decision \<Rightarrow> string" where
  "policy_decision_str PD_allow = ''allow''"
| "policy_decision_str PD_deny = ''deny''"
| "policy_decision_str PD_redact = ''redact''"
| "policy_decision_str PD_advisory_deny = ''advisory_deny''"
| "policy_decision_str PD_step_up = ''step_up''"
| "policy_decision_str PD_defer = ''defer''"
| "policy_decision_str PD_fault = ''fault''"
| "policy_decision_str PD_na = ''n/a''"

datatype inspection_result =
    IR_pass | IR_injection_detected | IR_schema_violation | IR_surplus_stripped | IR_size_exceeded | IR_na

fun inspection_result_str :: "inspection_result \<Rightarrow> string" where
  "inspection_result_str IR_pass = ''pass''"
| "inspection_result_str IR_injection_detected = ''injection_detected''"
| "inspection_result_str IR_schema_violation = ''schema_violation''"
| "inspection_result_str IR_surplus_stripped = ''surplus_stripped''"
| "inspection_result_str IR_size_exceeded = ''size_exceeded''"
| "inspection_result_str IR_na = ''n/a''"

text \<open>The caller-supplied fields of an entry: the keyword arguments of \<open>append\<close>.\<close>

record entry_args =
  ea_call_id :: "string option"
  ea_entry_type :: entry_type
  ea_tool_name :: "string option"
  ea_server_identity :: "string option"
  ea_policy_decision :: "policy_decision option"
  ea_policy_rule_matched :: "string option"
  ea_latency_us :: "int option"
  ea_request_payload_hash :: "string option"
  ea_response_payload_hash :: "string option"
  ea_response_inspection_result :: "inspection_result option"
  ea_session_sensitivity_before :: "string option"
  ea_session_sensitivity_after :: "string option"
  ea_detail :: "(string \<times> json) list option"
  ea_workflow_id :: "string option"
  ea_evidence_class :: string
  ea_external_execution_evidence :: "(string \<times> string) list option"
  ea_effective_data_class :: "string option"
  ea_execution_id :: "string option"

text \<open>The keyword defaults.\<close>

definition entry_defaults :: "entry_type \<Rightarrow> entry_args" where
  "entry_defaults t =
     \<lparr>ea_call_id = None, ea_entry_type = t, ea_tool_name = None, ea_server_identity = None,
      ea_policy_decision = None, ea_policy_rule_matched = None, ea_latency_us = None,
      ea_request_payload_hash = None, ea_response_payload_hash = None,
      ea_response_inspection_result = None, ea_session_sensitivity_before = None,
      ea_session_sensitivity_after = None, ea_detail = None, ea_workflow_id = None,
      ea_evidence_class = ''hash-only'', ea_external_execution_evidence = None,
      ea_effective_data_class = None, ea_execution_id = None\<rparr>"

record audit_entry = entry_args +
  ae_entry_id :: string
  ae_sequence_number :: nat
  ae_timestamp_utc :: string
  ae_session_id :: string
  ae_prev_entry_hash :: string
  ae_entry_hash :: string

subsection \<open>Canonical body and hash\<close>

definition opt_str :: "string option \<Rightarrow> json" where
  "opt_str v = (case v of None \<Rightarrow> JNull | Some s \<Rightarrow> JStr s)"

definition entry_fields :: "audit_entry \<Rightarrow> (string \<times> json) list" where
  "entry_fields e =
    [(''entry_id'', JStr (ae_entry_id e)),
     (''sequence_number'', JInt (int (ae_sequence_number e))),
     (''timestamp_utc'', JStr (ae_timestamp_utc e)),
     (''session_id'', JStr (ae_session_id e)),
     (''call_id'', opt_str (ea_call_id e)),
     (''entry_type'', JStr (entry_type_str (ea_entry_type e))),
     (''tool_name'', opt_str (ea_tool_name e)),
     (''server_identity'', opt_str (ea_server_identity e)),
     (''policy_decision'', opt_str (map_option policy_decision_str (ea_policy_decision e))),
     (''policy_rule_matched'', opt_str (ea_policy_rule_matched e)),
     (''latency_us'', (case ea_latency_us e of None \<Rightarrow> JNull | Some n \<Rightarrow> JInt n)),
     (''request_payload_hash'', opt_str (ea_request_payload_hash e)),
     (''response_payload_hash'', opt_str (ea_response_payload_hash e)),
     (''response_inspection_result'',
        opt_str (map_option inspection_result_str (ea_response_inspection_result e))),
     (''session_sensitivity_before'', opt_str (ea_session_sensitivity_before e)),
     (''session_sensitivity_after'', opt_str (ea_session_sensitivity_after e)),
     (''detail'', (case ea_detail e of None \<Rightarrow> JNull | Some d \<Rightarrow> JObj d)),
     (''workflow_id'', opt_str (ea_workflow_id e)),
     (''prev_entry_hash'', JStr (ae_prev_entry_hash e)),
     (''evidence_class'', JStr (ea_evidence_class e)),
     (''external_execution_evidence'',
        (case ea_external_execution_evidence e of None \<Rightarrow> JNull
         | Some d \<Rightarrow> JObj (map (\<lambda>(k, v). (k, JStr v)) d))),
     (''effective_data_class'', opt_str (ea_effective_data_class e)),
     (''execution_id'', opt_str (ea_execution_id e))]"

definition canonical_body :: "audit_entry \<Rightarrow> bytes" where
  "canonical_body e = dumps (JObj (entry_fields e))"

definition compute_hash :: "(bytes \<Rightarrow> bytes) \<Rightarrow> audit_entry \<Rightarrow> string" where
  "compute_hash sha256 e = hexlify (sha256 (canonical_body e))"

text \<open>\<open>asdict(entry)\<close>, with the hash: what the store and the exported bundle hold.\<close>

definition entry_asdict :: "audit_entry \<Rightarrow> json" where
  "entry_asdict e = JObj (entry_fields e @ [(''entry_hash'', JStr (ae_entry_hash e))])"

subsection \<open>The SQLite store\<close>

datatype audit_error = Bad_timestamp string | Integrity_error string | Anchor_mismatch | Index_error

record audit_row =
  row_sequence_number :: nat
  row_session_id :: string
  row_entry_id :: string
  row_entry_type :: entry_type
  row_entry_hash :: string
  row_prev_entry_hash :: string
  row_payload :: string

type_synonym audit_store = "audit_row list"

definition store_row :: "audit_entry \<Rightarrow> audit_row" where
  "store_row e =
     \<lparr>row_sequence_number = ae_sequence_number e, row_session_id = ae_session_id e,
      row_entry_id = ae_entry_id e, row_entry_type = ea_entry_type e,
      row_entry_hash = ae_entry_hash e, row_prev_entry_hash = ae_prev_entry_hash e,
      row_payload = dumps (entry_asdict e)\<rparr>"

definition store_append :: "audit_store \<Rightarrow> audit_entry \<Rightarrow> audit_error + audit_store" where
  "store_append st e =
     (if ae_entry_id e \<in> set (map row_entry_id st) then Inl (Integrity_error (ae_entry_id e))
      else Inr (st @ [store_row e]))"

definition find_orphaned_sessions :: "audit_store \<Rightarrow> string list" where
  "find_orphaned_sessions st =
     remdups (map row_session_id
       (filter (\<lambda>r. row_entry_type r = Session_start \<and>
                row_session_id r \<notin> row_session_id ` set (filter (\<lambda>q. row_entry_type q = Session_end) st)) st))"

subsection \<open>The chain\<close>

record audit_chain =
  ch_session_id :: string
  ch_entries :: "audit_entry list"
  ch_store :: "audit_store option"
  ch_sinks :: "string list"
  ch_tee_anchor :: "string option"
  ch_session_report :: "attestation_report option"

text \<open>What one call of \<open>append\<close> takes from its environment: \<open>uuid4()\<close> and \<open>datetime.now\<close>.\<close>

record tick =
  tk_uuid :: string
  tk_now :: datetime

definition clamp_now :: "audit_entry list \<Rightarrow> datetime \<Rightarrow> audit_error + datetime" where
  "clamp_now es now =
     (if es = [] then Inr now
      else case fromisoformat (ae_timestamp_utc (last es)) of
        None \<Rightarrow> Inl (Bad_timestamp (ae_timestamp_utc (last es)))
      | Some prev_ts \<Rightarrow> Inr (if dt_less now prev_ts then prev_ts else now))"

definition new_entry :: "(bytes \<Rightarrow> bytes) \<Rightarrow> string \<Rightarrow> audit_entry list \<Rightarrow> string \<Rightarrow> datetime \<Rightarrow> entry_args \<Rightarrow> audit_entry" where
  "new_entry sha256 sid es uuid now a =
     (let e = entry_args.extend a
          \<lparr>ae_entry_id = uuid, ae_sequence_number = length es, ae_timestamp_utc = isoformat now,
           ae_session_id = sid,
           ae_prev_entry_hash = (if es = [] then ''genesis'' else ae_entry_hash (last es)),
           ae_entry_hash = []\<rparr>
      in e\<lparr>ae_entry_hash := compute_hash sha256 e\<rparr>)"

definition chain_append :: "(bytes \<Rightarrow> bytes) \<Rightarrow> tick \<Rightarrow> audit_chain \<Rightarrow> entry_args \<Rightarrow> audit_error + audit_chain \<times> audit_entry" where
  "chain_append sha256 tk c a =
     bind_result (clamp_now (ch_entries c) (tk_now tk)) (\<lambda>now.
       let e = new_entry sha256 (ch_session_id c) (ch_entries c) (tk_uuid tk) now a in
       case ch_store c of
         None \<Rightarrow> Inr (c\<lparr>ch_entries := ch_entries c @ [e]\<rparr>, e)
       | Some st \<Rightarrow>
           bind_result (store_append st e) (\<lambda>st'.
             Inr (c\<lparr>ch_store := Some st', ch_entries := ch_entries c @ [e]\<rparr>, e)))"

text \<open>\<open>_notify_sinks\<close>: every sink sees the entry, whether or not an earlier one raised;
  the result is who raised. Nothing of the chain is an output.\<close>

definition notify_sinks :: "(string \<Rightarrow> audit_entry \<Rightarrow> bool) \<Rightarrow> audit_chain \<Rightarrow> audit_entry \<Rightarrow> (string \<times> bool) list" where
  "notify_sinks sink_raises c e = map (\<lambda>s. (s, sink_raises s e)) (ch_sinks c)"

definition session_start_args :: entry_args where
  "session_start_args = (entry_defaults Session_start)
     \<lparr>ea_policy_decision := Some PD_na, ea_response_inspection_result := Some IR_na,
      ea_session_sensitivity_after := Some ''public''\<rparr>"

text \<open>\<open>AuditChain.__init__\<close>.\<close>

definition new_chain :: "(bytes \<Rightarrow> bytes) \<Rightarrow> tick \<Rightarrow> string \<Rightarrow> audit_store option \<Rightarrow> string list \<Rightarrow> audit_error + audit_chain" where
  "new_chain sha256 tk sid st sinks =
     bind_result
       (chain_append sha256 tk
         \<lparr>ch_session_id = sid, ch_entries = [], ch_store = st, ch_sinks = sinks,
          ch_tee_anchor = None, ch_session_report = None\<rparr> session_start_args)
       (\<lambda>(c, _). Inr c)"

definition chain_root :: "audit_chain \<Rightarrow> audit_error + string" where
  "chain_root c = (case ch_entries c of [] \<Rightarrow> Inl Index_error | e # _ \<Rightarrow> Inr (ae_entry_hash e))"

definition chain_tip :: "audit_chain \<Rightarrow> audit_error + string" where
  "chain_tip c = (if ch_entries c = [] then Inl Index_error else Inr (ae_entry_hash (last (ch_entries c))))"

definition set_tee_anchor :: "audit_chain \<Rightarrow> string \<Rightarrow> audit_error + audit_chain" where
  "set_tee_anchor c anchor =
     bind_result (chain_root c) (\<lambda>root.
       if anchor \<noteq> root then Inl Anchor_mismatch else Inr (c\<lparr>ch_tee_anchor := Some anchor\<rparr>))"

definition set_session_report :: "audit_chain \<Rightarrow> attestation_report \<Rightarrow> audit_chain" where
  "set_session_report c r = c\<lparr>ch_session_report := Some r\<rparr>"

definition rotate_session_id :: "audit_chain \<Rightarrow> string \<Rightarrow> audit_chain" where
  "rotate_session_id c sid = c\<lparr>ch_session_id := sid\<rparr>"

definition add_sink :: "audit_chain \<Rightarrow> string \<Rightarrow> audit_chain" where
  "add_sink c s = c\<lparr>ch_sinks := ch_sinks c @ [s]\<rparr>"

text \<open>The loop of \<open>verify_chain\<close>; \<open>prev\<close> is the hash of the entry before, absent for the first.\<close>

fun verify_links :: "(bytes \<Rightarrow> bytes) \<Rightarrow> string option \<Rightarrow> audit_entry list \<Rightarrow> bool" where
  "verify_links sha256 prev [] = True"
| "verify_links sha256 prev (e # es) =
     (ae_entry_hash e = compute_hash sha256 e
      \<and> (case prev of None \<Rightarrow> True | Some h \<Rightarrow> ae_prev_entry_hash e = h)
      \<and> verify_links sha256 (Some (ae_entry_hash e)) es)"

definition verify_chain :: "(bytes \<Rightarrow> bytes) \<Rightarrow> audit_chain \<Rightarrow> bool" where
  "verify_chain sha256 c =
     (case ch_entries c of
        [] \<Rightarrow> True
      | e # es \<Rightarrow>
          ae_prev_entry_hash e = ''genesis'' \<and> verify_links sha256 None (e # es)
          \<and> (case ch_tee_anchor c of None \<Rightarrow> True | Some a \<Rightarrow> chain_root c = Inr a))"

subsection \<open>The canonical body determines the entry\<close>

fun json_atom :: "json \<Rightarrow> bool" where
  "json_atom (JStr s) = True"
| "json_atom (JInt i) = True"
| "json_atom (JFloat t) = float_text t"
| "json_atom _ = False"

text \<open>The types the code declares for the two dictionaries of an entry, and that keys of a
  dictionary are unique.\<close>

definition wf_entry :: "audit_entry \<Rightarrow> bool" where
  "wf_entry e \<longleftrightarrow>
     (case ea_detail e of None \<Rightarrow> True
      | Some d \<Rightarrow> distinct (map fst d) \<and> list_all (json_atom \<circ> snd) d)
     \<and> (case ea_external_execution_evidence e of None \<Rightarrow> True | Some d \<Rightarrow> distinct (map fst d))"

lemma json_atom_wf: "json_atom v \<Longrightarrow> wf_json v" and json_atom_norm: "json_atom v \<Longrightarrow> norm_json v = v"
  by (cases v; simp)+

lemma wf_opt_str [simp]: "wf_json (opt_str v)"
  by (cases v) (simp_all add: opt_str_def)

lemma norm_opt_str [simp]: "norm_json (opt_str v) = opt_str v"
  by (cases v) (simp_all add: opt_str_def)

lemma opt_str_inject [simp]: "opt_str v = opt_str w \<longleftrightarrow> v = w"
  by (cases v; cases w) (simp_all add: opt_str_def)

lemma entry_type_str_inject [simp]: "entry_type_str a = entry_type_str b \<longleftrightarrow> a = b"
  by (cases a; cases b) simp_all

lemma policy_decision_str_inject [simp]: "policy_decision_str a = policy_decision_str b \<longleftrightarrow> a = b"
  by (cases a; cases b) simp_all

lemma inspection_result_str_inject [simp]: "inspection_result_str a = inspection_result_str b \<longleftrightarrow> a = b"
  by (cases a; cases b) simp_all

lemma map_policy_decision_str_eq [simp]:
  "map_option policy_decision_str x = map_option policy_decision_str y \<longleftrightarrow> x = y"
  by (cases x; cases y) simp_all

lemma map_inspection_result_str_eq [simp]:
  "map_option inspection_result_str x = map_option inspection_result_str y \<longleftrightarrow> x = y"
  by (cases x; cases y) simp_all

lemma map_JStr_eq [simp]: "map_option JStr x = map_option JStr y \<longleftrightarrow> x = y"
  by (cases x; cases y) simp_all

lemma distinct_entry_fields [simp]: "distinct (map fst (entry_fields e))"
  by (simp add: entry_fields_def)

lemma wf_entry_fields: "wf_entry e \<Longrightarrow> wf_json (JObj (entry_fields e))"
  by (fastforce simp: entry_fields_def wf_entry_def list_all_iff split: option.splits
      intro: json_atom_wf)

lemma canonical_body_lookup:
  assumes "wf_entry e" "wf_entry f" "canonical_body e = canonical_body f"
  shows "map_option norm_json (map_of (entry_fields e) k) = map_option norm_json (map_of (entry_fields f) k)"
proof (rule norm_json_obj_eq_lookup)
  show "norm_json (JObj (entry_fields e)) = norm_json (JObj (entry_fields f))"
    using assms dumps_inject wf_entry_fields by (simp add: canonical_body_def)
qed simp_all

lemma dict_norm_eq:
  assumes "norm_json (JObj d) = norm_json (JObj d')" "distinct (map fst d)" "distinct (map fst d')"
    and "list_all (json_atom \<circ> snd) d" "list_all (json_atom \<circ> snd) d'"
  shows "map_of d = map_of d'"
proof (rule ext)
  fix k :: string
  have id: "map_option norm_json (map_of x k) = map_of x k" if "list_all (json_atom \<circ> snd) x" for x
    using that by (induction x) (auto simp: json_atom_norm)
  show "map_of d k = map_of d' k"
    using norm_json_obj_eq_lookup [OF assms(1-3), of k] id [OF assms(4)] id [OF assms(5)] by simp
qed

definition same_dict :: "(string \<times> 'v) list option \<Rightarrow> (string \<times> 'v) list option \<Rightarrow> bool" where
  "same_dict x y \<longleftrightarrow> map_option map_of x = map_option map_of y"

text \<open>Two entries that agree in everything but the stored hash, dictionaries compared as
  dictionaries.\<close>

definition entry_agrees :: "audit_entry \<Rightarrow> audit_entry \<Rightarrow> bool" where
  "entry_agrees e f \<longleftrightarrow>
     e\<lparr>ea_detail := None, ea_external_execution_evidence := None, ae_entry_hash := []\<rparr>
       = f\<lparr>ea_detail := None, ea_external_execution_evidence := None, ae_entry_hash := []\<rparr>
     \<and> same_dict (ea_detail e) (ea_detail f)
     \<and> same_dict (ea_external_execution_evidence e) (ea_external_execution_evidence f)"

lemma detail_eq:
  assumes "wf_entry e" "wf_entry f" "canonical_body e = canonical_body f"
  shows "same_dict (ea_detail e) (ea_detail f)"
proof -
  have eq: "norm_json (case ea_detail e of None \<Rightarrow> JNull | Some d \<Rightarrow> JObj d)
      = norm_json (case ea_detail f of None \<Rightarrow> JNull | Some d \<Rightarrow> JObj d)"
    using canonical_body_lookup [OF assms, of "''detail''"]
    by (simp add: entry_fields_def del: norm_json.simps)
  show ?thesis
  proof (cases "ea_detail e")
    case None
    with eq show ?thesis by (cases "ea_detail f") (simp_all add: same_dict_def)
  next
    case (Some d)
    with eq obtain d' where f: "ea_detail f = Some d'" by (cases "ea_detail f") simp_all
    have "map_of d = map_of d'"
      by (rule dict_norm_eq) (use eq Some f assms(1,2) in \<open>simp_all add: wf_entry_def\<close>)
    with Some f show ?thesis by (simp add: same_dict_def)
  qed
qed

lemma evidence_eq:
  assumes "wf_entry e" "wf_entry f" "canonical_body e = canonical_body f"
  shows "same_dict (ea_external_execution_evidence e) (ea_external_execution_evidence f)"
proof -
  have lift: "map_of d = map_of d'"
    if eq: "norm_json (JObj (map (\<lambda>(k, v). (k, JStr v)) d)) = norm_json (JObj (map (\<lambda>(k, v). (k, JStr v)) d'))"
      and ds: "distinct (map fst d)" "distinct (map fst d')" for d d' :: "(string \<times> string) list"
  proof (rule ext)
    fix k :: string
    have "map_of (map (\<lambda>(k, v). (k, JStr v)) d) = map_of (map (\<lambda>(k, v). (k, JStr v)) d')"
      using eq ds by (intro dict_norm_eq) (auto simp: list_all_iff comp_def case_prod_beta)
    then have "map_option JStr (map_of d k) = map_option JStr (map_of d' k)"
      by (simp add: map_of_map fun_eq_iff)
    then show "map_of d k = map_of d' k" by simp
  qed
  have eq: "norm_json (case ea_external_execution_evidence e of None \<Rightarrow> JNull
         | Some d \<Rightarrow> JObj (map (\<lambda>(k, v). (k, JStr v)) d))
      = norm_json (case ea_external_execution_evidence f of None \<Rightarrow> JNull
         | Some d \<Rightarrow> JObj (map (\<lambda>(k, v). (k, JStr v)) d))"
    using canonical_body_lookup [OF assms, of "''external_execution_evidence''"]
    by (simp add: entry_fields_def del: norm_json.simps)
  show ?thesis
  proof (cases "ea_external_execution_evidence e")
    case None
    with eq show ?thesis by (cases "ea_external_execution_evidence f") (simp_all add: same_dict_def)
  next
    case (Some d)
    with eq obtain d' where f: "ea_external_execution_evidence f = Some d'"
      by (cases "ea_external_execution_evidence f") simp_all
    have "map_of d = map_of d'"
      by (rule lift) (use eq Some f assms(1,2) in \<open>simp_all add: wf_entry_def\<close>)
    with Some f show ?thesis by (simp add: same_dict_def)
  qed
qed

lemma canonical_body_fields:
  assumes "wf_entry e" "wf_entry f" "canonical_body e = canonical_body f"
  shows "ae_entry_id e = ae_entry_id f"
    and "ae_sequence_number e = ae_sequence_number f"
    and "ae_timestamp_utc e = ae_timestamp_utc f"
    and "ae_session_id e = ae_session_id f"
    and "ea_call_id e = ea_call_id f"
    and "ea_entry_type e = ea_entry_type f"
    and "ea_tool_name e = ea_tool_name f"
    and "ea_server_identity e = ea_server_identity f"
    and "ea_policy_decision e = ea_policy_decision f"
    and "ea_policy_rule_matched e = ea_policy_rule_matched f"
    and "ea_latency_us e = ea_latency_us f"
    and "ea_request_payload_hash e = ea_request_payload_hash f"
    and "ea_response_payload_hash e = ea_response_payload_hash f"
    and "ea_response_inspection_result e = ea_response_inspection_result f"
    and "ea_session_sensitivity_before e = ea_session_sensitivity_before f"
    and "ea_session_sensitivity_after e = ea_session_sensitivity_after f"
    and "ea_workflow_id e = ea_workflow_id f"
    and "ae_prev_entry_hash e = ae_prev_entry_hash f"
    and "ea_evidence_class e = ea_evidence_class f"
    and "ea_effective_data_class e = ea_effective_data_class f"
    and "ea_execution_id e = ea_execution_id f"
proof -
  note key = canonical_body_lookup [OF assms]
  show "ae_entry_id e = ae_entry_id f"
    using key [of "''entry_id''"] by (simp add: entry_fields_def)
  show "ae_sequence_number e = ae_sequence_number f"
    using key [of "''sequence_number''"] by (simp add: entry_fields_def)
  show "ae_timestamp_utc e = ae_timestamp_utc f"
    using key [of "''timestamp_utc''"] by (simp add: entry_fields_def)
  show "ae_session_id e = ae_session_id f"
    using key [of "''session_id''"] by (simp add: entry_fields_def)
  show "ea_call_id e = ea_call_id f"
    using key [of "''call_id''"] by (simp add: entry_fields_def)
  show "ea_entry_type e = ea_entry_type f"
    using key [of "''entry_type''"] by (simp add: entry_fields_def)
  show "ea_tool_name e = ea_tool_name f"
    using key [of "''tool_name''"] by (simp add: entry_fields_def)
  show "ea_server_identity e = ea_server_identity f"
    using key [of "''server_identity''"] by (simp add: entry_fields_def)
  show "ea_policy_decision e = ea_policy_decision f"
    using key [of "''policy_decision''"] by (simp add: entry_fields_def)
  show "ea_policy_rule_matched e = ea_policy_rule_matched f"
    using key [of "''policy_rule_matched''"] by (simp add: entry_fields_def)
  show "ea_latency_us e = ea_latency_us f"
    using key [of "''latency_us''"] by (simp add: entry_fields_def split: option.splits)
  show "ea_request_payload_hash e = ea_request_payload_hash f"
    using key [of "''request_payload_hash''"] by (simp add: entry_fields_def)
  show "ea_response_payload_hash e = ea_response_payload_hash f"
    using key [of "''response_payload_hash''"] by (simp add: entry_fields_def)
  show "ea_response_inspection_result e = ea_response_inspection_result f"
    using key [of "''response_inspection_result''"] by (simp add: entry_fields_def)
  show "ea_session_sensitivity_before e = ea_session_sensitivity_before f"
    using key [of "''session_sensitivity_before''"] by (simp add: entry_fields_def)
  show "ea_session_sensitivity_after e = ea_session_sensitivity_after f"
    using key [of "''session_sensitivity_after''"] by (simp add: entry_fields_def)
  show "ea_workflow_id e = ea_workflow_id f"
    using key [of "''workflow_id''"] by (simp add: entry_fields_def)
  show "ae_prev_entry_hash e = ae_prev_entry_hash f"
    using key [of "''prev_entry_hash''"] by (simp add: entry_fields_def)
  show "ea_evidence_class e = ea_evidence_class f"
    using key [of "''evidence_class''"] by (simp add: entry_fields_def)
  show "ea_effective_data_class e = ea_effective_data_class f"
    using key [of "''effective_data_class''"] by (simp add: entry_fields_def)
  show "ea_execution_id e = ea_execution_id f"
    using key [of "''execution_id''"] by (simp add: entry_fields_def)
qed

lemma canonical_body_injective:
  assumes "wf_entry e" "wf_entry f" "canonical_body e = canonical_body f"
  shows "entry_agrees e f"
proof -
  have "e\<lparr>ea_detail := None, ea_external_execution_evidence := None, ae_entry_hash := []\<rparr>
       = f\<lparr>ea_detail := None, ea_external_execution_evidence := None, ae_entry_hash := []\<rparr>"
    by (rule audit_entry.equality) (simp_all add: canonical_body_fields [OF assms])
  then show ?thesis
    using detail_eq [OF assms] evidence_eq [OF assms] by (simp add: entry_agrees_def)
qed

subsection \<open>Tamper evidence\<close>

lemmas canonical_body_prev = canonical_body_fields(18)

interpretation audit_log: hash_linked "\<lambda>b. hexlify (sha256 b)" canonical_body ae_prev_entry_hash
    ae_entry_hash wf_entry "verify_links sha256" for sha256
proof unfold_locales
  show "ae_prev_entry_hash e = ae_prev_entry_hash f"
    if "wf_entry e" "wf_entry f" "canonical_body e = canonical_body f" for e f
    using that by (rule canonical_body_prev)
qed (simp_all add: compute_hash_def)

lemma verify_links_snoc:
  "verify_links sha256 p (es @ [e]) \<longleftrightarrow>
     verify_links sha256 p es \<and> ae_entry_hash e = compute_hash sha256 e
     \<and> (if es = [] then (case p of None \<Rightarrow> True | Some h \<Rightarrow> ae_prev_entry_hash e = h)
        else ae_prev_entry_hash e = ae_entry_hash (last es))"
  unfolding compute_hash_def by (rule audit_log.links_snoc)

lemma digest_not_genesis: "length h = 32 \<Longrightarrow> hexlify h \<noteq> ''genesis''"
  by (auto dest: arg_cong [where f = length])

lemma verify_chain_links:
  "verify_chain sha256 c \<Longrightarrow> ch_entries c \<noteq> [] \<Longrightarrow>
   verify_links sha256 None (ch_entries c) \<and> ae_prev_entry_hash (hd (ch_entries c)) = ''genesis''"
  by (auto simp: verify_chain_def split: list.splits)

lemma verify_chain_anchor:
  "verify_chain sha256 c \<Longrightarrow> ch_entries c \<noteq> [] \<Longrightarrow> ch_tee_anchor c = Some a \<Longrightarrow> chain_root c = Inr a"
  by (auto simp: verify_chain_def split: list.splits)

lemma map_body_agrees:
  "\<forall>e\<in>set es \<union> set fs. wf_entry e \<Longrightarrow> map canonical_body es = map canonical_body fs \<Longrightarrow>
   list_all2 entry_agrees es fs"
  by (auto simp: list_all2_conv_all_nth map_equality_iff intro!: canonical_body_injective)

lemma same_tip_same_entries:
  assumes "verify_chain sha256 c" "verify_chain sha256 d" "chain_tip c = Inr t" "chain_tip d = Inr t"
    and "\<forall>e\<in>set (ch_entries c) \<union> set (ch_entries d). wf_entry e"
    and "\<And>b. length (sha256 b) = 32"
  shows "list_all2 entry_agrees (ch_entries c) (ch_entries d)
    \<or> (\<exists>e\<in>set (ch_entries c). \<exists>f\<in>set (ch_entries d). collides sha256 (canonical_body e) (canonical_body f))"
proof -
  from assms(3,4) have ne: "ch_entries c \<noteq> []" "ch_entries d \<noteq> []"
    and tips: "ae_entry_hash (last (ch_entries c)) = ae_entry_hash (last (ch_entries d))"
    by (auto simp: chain_tip_def split: if_splits)
  have "map canonical_body (ch_entries c) = map canonical_body (ch_entries d)
      \<or> (\<exists>e\<in>set (ch_entries c). \<exists>f\<in>set (ch_entries d). collides (\<lambda>b. hexlify (sha256 b)) (canonical_body e) (canonical_body f))"
    by (rule audit_log.tip_determines_or_collision [where start = "''genesis''"])
       (use ne tips assms verify_chain_links digest_not_genesis [OF assms(6)] in auto)
  then show ?thesis
    using map_body_agrees [OF assms(5)] by (auto simp: collides_def)
qed

subsection \<open>The chain invariant and its preservation\<close>

definition timestamps_ok :: "audit_entry list \<Rightarrow> bool" where
  "timestamps_ok es \<longleftrightarrow>
     list_all (\<lambda>e. \<exists>t. wf_datetime t \<and> ae_timestamp_utc e = isoformat t) es
     \<and> sorted_wrt (\<lambda>e f. \<not> dt_less (the (fromisoformat (ae_timestamp_utc f)))
                              (the (fromisoformat (ae_timestamp_utc e)))) es"

definition persisted :: "audit_chain \<Rightarrow> bool" where
  "persisted c \<longleftrightarrow> (case ch_store c of None \<Rightarrow> True | Some st \<Rightarrow> \<forall>e\<in>set (ch_entries c). store_row e \<in> set st)"

definition chain_inv :: "(bytes \<Rightarrow> bytes) \<Rightarrow> audit_chain \<Rightarrow> bool" where
  "chain_inv sha256 c \<longleftrightarrow>
     ch_entries c \<noteq> [] \<and> verify_chain sha256 c
     \<and> ea_entry_type (hd (ch_entries c)) = Session_start
     \<and> map ae_sequence_number (ch_entries c) = [0..<length (ch_entries c)]
     \<and> timestamps_ok (ch_entries c) \<and> persisted c"

lemma compute_hash_ignores [simp]:
  "compute_hash sha256 (e\<lparr>ae_entry_hash := h\<rparr>) = compute_hash sha256 e"
  by (simp add: compute_hash_def canonical_body_def entry_fields_def)

lemma new_entry_hash [simp]:
  "ae_entry_hash (new_entry sha256 sid es u now a) = compute_hash sha256 (new_entry sha256 sid es u now a)"
  by (simp add: new_entry_def Let_def)

lemma new_entry_fields [simp]:
  "ae_prev_entry_hash (new_entry sha256 sid es u now a) = (if es = [] then ''genesis'' else ae_entry_hash (last es))"
  "ae_sequence_number (new_entry sha256 sid es u now a) = length es"
  "ae_timestamp_utc (new_entry sha256 sid es u now a) = isoformat now"
  "ae_session_id (new_entry sha256 sid es u now a) = sid"
  "ae_entry_id (new_entry sha256 sid es u now a) = u"
  "ea_entry_type (new_entry sha256 sid es u now a) = ea_entry_type a"
  "ea_call_id (new_entry sha256 sid es u now a) = ea_call_id a"
  "ea_policy_decision (new_entry sha256 sid es u now a) = ea_policy_decision a"
  "ea_tool_name (new_entry sha256 sid es u now a) = ea_tool_name a"
  "ea_detail (new_entry sha256 sid es u now a) = ea_detail a"
  "ea_effective_data_class (new_entry sha256 sid es u now a) = ea_effective_data_class a"
  by (simp_all add: new_entry_def Let_def entry_args.defs)

text \<open>What a successful append does, as one description.\<close>

lemma chain_append_cases:
  assumes "chain_append sha256 tk c a = Inr (c', e)"
  obtains now where
    "clamp_now (ch_entries c) (tk_now tk) = Inr now"
    "e = new_entry sha256 (ch_session_id c) (ch_entries c) (tk_uuid tk) now a"
    "ch_entries c' = ch_entries c @ [e]"
    "ch_session_id c' = ch_session_id c" "ch_tee_anchor c' = ch_tee_anchor c"
    "ch_session_report c' = ch_session_report c" "ch_sinks c' = ch_sinks c"
    "ch_store c' = (case ch_store c of None \<Rightarrow> None | Some st \<Rightarrow> Some (st @ [store_row e]))"
proof -
  from assms obtain now where now: "clamp_now (ch_entries c) (tk_now tk) = Inr now"
    by (auto simp: chain_append_def bind_result_eq_Inr)
  show thesis
  proof (rule that [OF now])
    show "e = new_entry sha256 (ch_session_id c) (ch_entries c) (tk_uuid tk) now a"
      "ch_entries c' = ch_entries c @ [e]"
      "ch_session_id c' = ch_session_id c" "ch_tee_anchor c' = ch_tee_anchor c"
      "ch_session_report c' = ch_session_report c" "ch_sinks c' = ch_sinks c"
      "ch_store c' = (case ch_store c of None \<Rightarrow> None | Some st \<Rightarrow> Some (st @ [store_row e]))"
      using assms now
      by (auto simp: chain_append_def bind_result_eq_Inr Let_def store_append_def
          split: option.splits if_splits)
  qed
qed

lemma chain_root_append: "ch_entries c \<noteq> [] \<Longrightarrow> ch_entries c' = ch_entries c @ es \<Longrightarrow> chain_root c' = chain_root c"
  by (auto simp: chain_root_def split: list.splits)

lemma verify_chain_append [cmcp_inv]:
  assumes "chain_append sha256 tk c a = Inr (c', e)" "verify_chain sha256 c"
    and "ch_entries c = [] \<Longrightarrow> ch_tee_anchor c = None"
  shows "verify_chain sha256 c'"
  using assms(1)
proof (rule chain_append_cases)
  fix now
  assume e: "e = new_entry sha256 (ch_session_id c) (ch_entries c) (tk_uuid tk) now a"
    and es: "ch_entries c' = ch_entries c @ [e]" and an: "ch_tee_anchor c' = ch_tee_anchor c"
  have h: "ae_entry_hash e = compute_hash sha256 e" using e by simp
  show ?thesis
  proof (cases "ch_entries c")
    case Nil
    with es an assms(3) h e show ?thesis by (simp add: verify_chain_def)
  next
    case (Cons x xs)
    then have "verify_links sha256 None (ch_entries c @ [e])"
      using verify_chain_links [OF assms(2)] h e unfolding verify_links_snoc
      by (metis list.discI new_entry_fields(1))
    moreover have "chain_root c' = chain_root c"
      using es Cons by (simp add: chain_root_append)
    ultimately show ?thesis
      using assms(2) Cons es an by (auto simp: verify_chain_def split: option.splits)
  qed
qed

lemma clamp_now_ok:
  assumes "clamp_now es t = Inr now" "timestamps_ok es" "wf_datetime t"
  shows "wf_datetime now"
    and "es \<noteq> [] \<Longrightarrow> \<not> dt_less now (the (fromisoformat (ae_timestamp_utc (last es))))"
proof -
  have "\<exists>p. wf_datetime p \<and> ae_timestamp_utc (last es) = isoformat p" if "es \<noteq> []"
    using assms(2) that by (auto simp: timestamps_ok_def list_all_iff)
  then show "wf_datetime now"
    and "es \<noteq> [] \<Longrightarrow> \<not> dt_less now (the (fromisoformat (ae_timestamp_utc (last es))))"
    using assms(1,3) by (auto simp: clamp_now_def fromisoformat_isoformat split: if_splits)
qed

lemma clamp_now_total: "timestamps_ok es \<Longrightarrow> \<exists>now. clamp_now es t = Inr now"
  by (cases "es = []")
     (auto simp: clamp_now_def timestamps_ok_def list_all_iff dest!: bspec [where x = "last es"]
           simp: fromisoformat_isoformat)

lemma timestamps_snoc:
  assumes "timestamps_ok es" "wf_datetime now" "ae_timestamp_utc e = isoformat now"
    and "es \<noteq> [] \<Longrightarrow> \<not> dt_less now (the (fromisoformat (ae_timestamp_utc (last es))))"
  shows "timestamps_ok (es @ [e])"
proof (cases es rule: rev_cases)
  case Nil
  with assms show ?thesis by (auto simp: timestamps_ok_def)
next
  case (snoc ys y)
  have y: "\<not> dt_less now (the (fromisoformat (ae_timestamp_utc y)))"
    using assms(4) snoc by simp
  have "\<not> dt_less (the (fromisoformat (ae_timestamp_utc y))) (the (fromisoformat (ae_timestamp_utc x)))"
    if "x \<in> set ys" for x
    using assms(1) snoc that by (auto simp: timestamps_ok_def sorted_wrt_append)
  then have "\<not> dt_less now (the (fromisoformat (ae_timestamp_utc x)))" if "x \<in> set ys" for x
    using dt_not_less_trans [OF _ y] that by blast
  with y assms(1-3) snoc show ?thesis
    by (auto simp: timestamps_ok_def sorted_wrt_append fromisoformat_isoformat)
qed

lemma chain_inv_append [cmcp_inv]:
  assumes "chain_append sha256 tk c a = Inr (c', e)" "chain_inv sha256 c" "wf_datetime (tk_now tk)"
  shows "chain_inv sha256 c'"
  using assms(1)
proof (rule chain_append_cases)
  fix now
  assume now: "clamp_now (ch_entries c) (tk_now tk) = Inr now"
    and e: "e = new_entry sha256 (ch_session_id c) (ch_entries c) (tk_uuid tk) now a"
    and es: "ch_entries c' = ch_entries c @ [e]"
    and st: "ch_store c' = (case ch_store c of None \<Rightarrow> None | Some st \<Rightarrow> Some (st @ [store_row e]))"
  have "verify_chain sha256 c'"
    using verify_chain_append [OF assms(1)] assms(2) by (auto simp: chain_inv_def)
  moreover have "timestamps_ok (ch_entries c')"
    unfolding es using assms(2) clamp_now_ok [OF now _ assms(3)] e
    by (intro timestamps_snoc) (auto simp: chain_inv_def)
  ultimately show ?thesis
    using assms(2) es e st by (auto simp: chain_inv_def persisted_def split: option.splits)
qed

lemma new_chain_inv [cmcp_inv]:
  assumes "new_chain sha256 tk sid st sinks = Inr c" "wf_datetime (tk_now tk)"
  shows "chain_inv sha256 c" "ch_session_id c = sid" "length (ch_entries c) = 1"
    "ch_tee_anchor c = None" "ch_session_report c = None"
proof -
  let ?c0 = "\<lparr>ch_session_id = sid, ch_entries = [], ch_store = st, ch_sinks = sinks,
      ch_tee_anchor = None, ch_session_report = None\<rparr>"
  from assms(1) obtain e where ap: "chain_append sha256 tk ?c0 session_start_args = Inr (c, e)"
    by (auto simp: new_chain_def bind_result_eq_Inr)
  have v: "verify_chain sha256 c"
    using verify_chain_append [OF ap] by (simp add: verify_chain_def)
  from ap show "ch_session_id c = sid" "length (ch_entries c) = 1" "ch_tee_anchor c = None"
    "ch_session_report c = None"
    by (auto elim!: chain_append_cases)
  from ap v assms(2) show "chain_inv sha256 c"
    by (auto elim!: chain_append_cases
        simp: chain_inv_def persisted_def session_start_args_def entry_defaults_def clamp_now_def
          timestamps_ok_def split: option.splits)
qed

lemma set_tee_anchor_ok:
  "set_tee_anchor c a = Inr c' \<longleftrightarrow> chain_root c = Inr a \<and> c' = c\<lparr>ch_tee_anchor := Some a\<rparr>"
  by (auto simp: set_tee_anchor_def bind_result_eq_Inr)

lemma chain_root_update [simp]:
  "chain_root (c\<lparr>ch_tee_anchor := a\<rparr>) = chain_root c"
  "chain_root (c\<lparr>ch_session_report := r\<rparr>) = chain_root c"
  "chain_root (c\<lparr>ch_session_id := s\<rparr>) = chain_root c"
  "chain_root (c\<lparr>ch_sinks := k\<rparr>) = chain_root c"
  by (simp_all add: chain_root_def)

lemma chain_inv_frame [cmcp_inv]:
  assumes "chain_inv sha256 c"
  shows "set_tee_anchor c a = Inr c' \<Longrightarrow> chain_inv sha256 c'"
    and "chain_inv sha256 (set_session_report c r)"
    and "chain_inv sha256 (rotate_session_id c sid)"
    and "chain_inv sha256 (add_sink c s)"
  using assms
  by (auto simp: set_tee_anchor_ok set_session_report_def rotate_session_id_def add_sink_def
      chain_inv_def verify_chain_def persisted_def split: list.splits option.splits)

subsection \<open>Reachable chains\<close>

text \<open>Every chain object the runtime can hold: constructed, then mutated by its methods in
  any order.\<close>

inductive chain_reachable :: "(bytes \<Rightarrow> bytes) \<Rightarrow> audit_chain \<Rightarrow> bool" for sha256 where
  init: "new_chain sha256 tk sid st sinks = Inr c \<Longrightarrow> wf_datetime (tk_now tk) \<Longrightarrow> chain_reachable sha256 c"
| append: "chain_reachable sha256 c \<Longrightarrow> wf_datetime (tk_now tk) \<Longrightarrow>
     chain_append sha256 tk c a = Inr (c', e) \<Longrightarrow> chain_reachable sha256 c'"
| anchor: "chain_reachable sha256 c \<Longrightarrow> set_tee_anchor c x = Inr c' \<Longrightarrow> chain_reachable sha256 c'"
| report: "chain_reachable sha256 c \<Longrightarrow> chain_reachable sha256 (set_session_report c r)"
| rotate: "chain_reachable sha256 c \<Longrightarrow> chain_reachable sha256 (rotate_session_id c sid)"
| sink: "chain_reachable sha256 c \<Longrightarrow> chain_reachable sha256 (add_sink c s)"

lemma chain_reachable_inv: "chain_reachable sha256 c \<Longrightarrow> chain_inv sha256 c"
  by (induction rule: chain_reachable.induct)
     (auto intro: new_chain_inv(1) chain_inv_append chain_inv_frame)

text \<open>A reachable chain never refuses an append except for a repeated entry identifier.\<close>

lemma chain_append_total:
  assumes "chain_inv sha256 c"
    and "\<And>st. ch_store c = Some st \<Longrightarrow> tk_uuid tk \<notin> set (map row_entry_id st)"
  shows "\<exists>c' e. chain_append sha256 tk c a = Inr (c', e)"
proof -
  from assms(1) obtain now where "clamp_now (ch_entries c) (tk_now tk) = Inr now"
    using clamp_now_total by (auto simp: chain_inv_def)
  with assms(2) show ?thesis
    by (auto simp: chain_append_def Let_def store_append_def split: option.splits)
qed

lemma find_orphaned_sessions_iff:
  "sid \<in> set (find_orphaned_sessions st) \<longleftrightarrow>
     (\<exists>r\<in>set st. row_entry_type r = Session_start \<and> row_session_id r = sid)
     \<and> \<not> (\<exists>r\<in>set st. row_entry_type r = Session_end \<and> row_session_id r = sid)"
  by (auto simp: find_orphaned_sessions_def image_iff) metis

subsection \<open>Properties\<close>

definition sample_tick :: "string \<Rightarrow> tick" where
  "sample_tick u = \<lparr>tk_uuid = u, tk_now = sample_time\<rparr>"

lemma wf_sample_time [simp]: "wf_datetime sample_time"
  by (simp add: wf_datetime_def sample_time_def)

lemma new_chain_total: "\<exists>c. new_chain sha256 tk sid None sinks = Inr c"
  by (simp add: new_chain_def chain_append_def clamp_now_def Let_def)

lemma new_chain_wf:
  "new_chain sha256 tk sid st sinks = Inr c \<Longrightarrow> e \<in> set (ch_entries c) \<Longrightarrow> wf_entry e"
  by (auto simp: new_chain_def bind_result_eq_Inr wf_entry_def session_start_args_def entry_defaults_def
      new_entry_def entry_args.defs Let_def elim!: chain_append_cases)



text \<open>C24: Every chain the runtime can hold, however its methods were called, passes its own
  integrity check, starts with a \<open>session_start\<close> entry, numbers its entries 0, 1, 2, ... without
  gaps, has timestamps that never go back, and has every entry in the audit store if it has one.\<close>

theorem reachable_chains_verify:
  assumes "chain_reachable sha256 c"
  shows "verify_chain sha256 c \<and> ch_entries c \<noteq> []
    \<and> ea_entry_type (hd (ch_entries c)) = Session_start
    \<and> map ae_sequence_number (ch_entries c) = [0..<length (ch_entries c)]
    \<and> timestamps_ok (ch_entries c) \<and> persisted c"
  using chain_reachable_inv [OF assms] by (simp add: chain_inv_def)

theorem reachable_chains_verify_witness:
  "\<exists>c. new_chain pad32 (sample_tick ''u'') ''s'' None [] = Inr c
     \<and> verify_chain pad32 (rotate_session_id c ''t'') \<and> map ae_sequence_number (ch_entries c) = [0]"
proof -
  obtain c where c: "new_chain pad32 (sample_tick ''u'') ''s'' None [] = Inr c"
    using new_chain_total by blast
  then have r: "chain_reachable pad32 c" by (rule chain_reachable.init) (simp add: sample_tick_def)
  have len: "length (ch_entries c) = 1" by (rule new_chain_inv(3) [OF c]) (simp add: sample_tick_def)
  from reachable_chains_verify [OF chain_reachable.rotate [OF r, of "''t''"]]
    reachable_chains_verify [OF r] c len show ?thesis by auto
qed

text \<open>The audit log is append-only and never silently loses an event. On a chain the runtime
  can hold, \<open>append\<close> succeeds for every argument unless the store already has a row with the new
  entry's identifier; it keeps all earlier entries, adds exactly one carrying the caller's values, and writes
  it to the store.\<close>

theorem append_total_and_append_only:
  assumes "chain_reachable sha256 c" "wf_datetime (tk_now tk)"
    and "\<And>st. ch_store c = Some st \<Longrightarrow> tk_uuid tk \<notin> set (map row_entry_id st)"
  shows "\<exists>c' e. chain_append sha256 tk c a = Inr (c', e) \<and> ch_entries c' = ch_entries c @ [e]
    \<and> entry_args.truncate e = a \<and> ae_entry_id e = tk_uuid tk \<and> ae_session_id e = ch_session_id c
    \<and> ch_store c' = map_option (\<lambda>st. st @ [store_row e]) (ch_store c)
    \<and> chain_reachable sha256 c' \<and> chain_root c' = chain_root c"
proof -
  have inv: "chain_inv sha256 c" by (rule chain_reachable_inv [OF assms(1)])
  obtain c' e where ap: "chain_append sha256 tk c a = Inr (c', e)"
    using chain_append_total [OF inv assms(3)] by blast
  have ne: "ch_entries c \<noteq> []" using inv by (simp add: chain_inv_def)
  have "entry_args.truncate (new_entry sha256 sid es u now a) = a" for sid es u now
    by (simp add: new_entry_def entry_args.defs Let_def)
  then have "ch_entries c' = ch_entries c @ [e] \<and> entry_args.truncate e = a \<and> ae_entry_id e = tk_uuid tk
      \<and> ae_session_id e = ch_session_id c \<and> ch_store c' = map_option (\<lambda>st. st @ [store_row e]) (ch_store c)"
    using ap by (elim chain_append_cases) (auto split: option.splits)
  with ap ne chain_reachable.append [OF assms(1,2) ap] show ?thesis
    using chain_root_append [OF ne] by blast
qed

theorem append_total_and_append_only_witness:
  "\<exists>c c' e. new_chain pad32 (sample_tick ''u'') ''s'' None [] = Inr c
     \<and> chain_append pad32 (sample_tick ''v'') c (entry_defaults Session_end) = Inr (c', e)
     \<and> ch_entries c' = ch_entries c @ [e]"
proof -
  obtain c where c: "new_chain pad32 (sample_tick ''u'') ''s'' None [] = Inr c"
    using new_chain_total by blast
  then have r: "chain_reachable pad32 c" by (rule chain_reachable.init) (simp add: sample_tick_def)
  have st: "ch_store c = None"
    using c by (auto simp: new_chain_def bind_result_eq_Inr elim!: chain_append_cases)
  have "\<exists>c' e. chain_append pad32 (sample_tick ''v'') c (entry_defaults Session_end) = Inr (c', e)
      \<and> ch_entries c' = ch_entries c @ [e]"
    using append_total_and_append_only [OF r, of "sample_tick ''v''" "entry_defaults Session_end"] st
    by (auto simp: sample_tick_def)
  with c show ?thesis by blast
qed

text \<open>The anchor detects a rebuilt log. Once a chain is anchored, putting any other well-linked
  list of entries in its place is rejected by \<open>verify_chain\<close>, unless the substitute's first entry agrees
  with the original's or SHA-256 collides on the two.\<close>

theorem anchor_detects_substitution:
  assumes "chain_reachable sha256 c" "set_tee_anchor c a = Inr c'"
    and "verify_chain sha256 (c'\<lparr>ch_entries := f # fs\<rparr>)" "wf_entry f" "wf_entry (hd (ch_entries c))"
  shows "entry_agrees (hd (ch_entries c)) f \<or> collides sha256 (canonical_body (hd (ch_entries c))) (canonical_body f)"
proof -
  have root: "chain_root c = Inr a" and c': "c' = c\<lparr>ch_tee_anchor := Some a\<rparr>"
    using assms(2) by (simp_all add: set_tee_anchor_ok)
  have f: "ae_entry_hash f = a" "ae_entry_hash f = compute_hash sha256 f"
    using assms(3) by (auto simp: verify_chain_def c' chain_root_def)
  have inv: "verify_chain sha256 c" "ch_entries c \<noteq> []"
    using chain_reachable_inv [OF assms(1)] by (simp_all add: chain_inv_def)
  then have "ae_entry_hash (hd (ch_entries c)) = compute_hash sha256 (hd (ch_entries c))"
    by (auto simp: verify_chain_def split: list.splits)
  moreover have "ae_entry_hash (hd (ch_entries c)) = a"
    using root inv(2) by (auto simp: chain_root_def split: list.splits)
  ultimately have "sha256 (canonical_body (hd (ch_entries c))) = sha256 (canonical_body f)"
    using f by (simp add: compute_hash_def)
  then show ?thesis
    using canonical_body_injective [OF assms(5,4)] by (auto simp: collides_def)
qed

theorem anchor_detects_substitution_witness:
  "\<exists>c e c'. new_chain pad32 (sample_tick ''u'') ''s'' None [] = Inr c \<and> ch_entries c = [e]
     \<and> set_tee_anchor c (ae_entry_hash e) = Inr c'
     \<and> entry_agrees e e"
proof -
  obtain c where c: "new_chain pad32 (sample_tick ''u'') ''s'' None [] = Inr c"
    using new_chain_total by blast
  then have r: "chain_reachable pad32 c" by (rule chain_reachable.init) (simp add: sample_tick_def)
  obtain e where e: "ch_entries c = [e]"
    using new_chain_inv(3) [OF c] by (auto simp: sample_tick_def length_Suc_conv)
  have wf: "wf_entry e" by (rule new_chain_wf [OF c]) (simp add: e)
  have a: "set_tee_anchor c (ae_entry_hash e) = Inr (c\<lparr>ch_tee_anchor := Some (ae_entry_hash e)\<rparr>)"
    by (simp add: set_tee_anchor_ok chain_root_def e)
  have "verify_chain pad32 c" using chain_reachable_inv [OF r] by (simp add: chain_inv_def)
  then have "verify_chain pad32 ((c\<lparr>ch_tee_anchor := Some (ae_entry_hash e)\<rparr>)\<lparr>ch_entries := [e]\<rparr>)"
    by (simp add: verify_chain_def e chain_root_def)
  with anchor_detects_substitution [OF r a, of e "[]"] wf e a c show ?thesis by auto
qed

text \<open>The startup scan for crashed sessions finds exactly the sessions that have a
  \<open>session_start\<close> row and no \<open>session_end\<close> row.\<close>

theorem find_orphaned_sessions_exact:
  "sid \<in> set (find_orphaned_sessions st) \<longleftrightarrow>
     (\<exists>r\<in>set st. row_entry_type r = Session_start \<and> row_session_id r = sid)
     \<and> \<not> (\<exists>r\<in>set st. row_entry_type r = Session_end \<and> row_session_id r = sid)"
  by (rule find_orphaned_sessions_iff)

end
