(* ===== verification/Policy_Decisions.thy ===== *)
theory Policy_Decisions
  imports Audit_Chain
begin

text \<open>
  The decision vocabulary (\<open>policy/decisions.py\<close>), the Cedar action a tool name
  maps to (\<open>policy/action_name.py\<close>) and the text functions of
  \<open>policy/annotations.py\<close>. Advice is the ordered dictionary of annotations of the
  forbid policies that matched.
\<close>

datatype decision = ALLOW | DENY | MODIFY | STEP_UP | DEFER

type_synonym advice = "(string \<times> string) list"

definition AARM_DECISION_ANNOTATION :: string where
  "AARM_DECISION_ANNOTATION = ''aarm_decision''"

definition ESCALATION_ADVICE_KEYS :: "string list" where
  "ESCALATION_ADVICE_KEYS = [''approver'', ''escalate'', ''escalation'', ''hitl'']"

text \<open>\<open>Decision(value)\<close>; \<open>None\<close> is the \<open>ValueError\<close>.\<close>

definition decision_of :: "string \<Rightarrow> decision option" where
  "decision_of v =
     (if v = ''allow'' then Some ALLOW else if v = ''deny'' then Some DENY
      else if v = ''modify'' then Some MODIFY else if v = ''step_up'' then Some STEP_UP
      else if v = ''defer'' then Some DEFER else None)"

fun decision_value :: "decision \<Rightarrow> string" where
  "decision_value ALLOW = ''allow''"
| "decision_value DENY = ''deny''"
| "decision_value MODIFY = ''modify''"
| "decision_value STEP_UP = ''step_up''"
| "decision_value DEFER = ''defer''"

definition decision_for_deny :: "advice \<Rightarrow> decision" where
  "decision_for_deny advice =
     (if advice = [] then DENY
      else let explicit = str_lower (str_strip
                 (case map_of advice AARM_DECISION_ANNOTATION of None \<Rightarrow> [] | Some v \<Rightarrow> v));
               declared = (if explicit = [] then None else decision_of explicit)
           in if declared \<in> {Some DENY, Some STEP_UP, Some DEFER} then the declared
              else if (\<exists>k\<in>set ESCALATION_ADVICE_KEYS. map_of advice k \<noteq> None) then STEP_UP
              else DENY)"

fun audit_value :: "decision \<Rightarrow> policy_decision" where
  "audit_value MODIFY = PD_redact"
| "audit_value ALLOW = PD_allow"
| "audit_value DENY = PD_deny"
| "audit_value STEP_UP = PD_step_up"
| "audit_value DEFER = PD_defer"

datatype claim_decision = CD_allow | CD_deny | CD_redact | CD_advisory_deny | CD_fault | CD_na

fun claim_decision_str :: "claim_decision \<Rightarrow> string" where
  "claim_decision_str CD_allow = ''allow''"
| "claim_decision_str CD_deny = ''deny''"
| "claim_decision_str CD_redact = ''redact''"
| "claim_decision_str CD_advisory_deny = ''advisory_deny''"
| "claim_decision_str CD_fault = ''fault''"
| "claim_decision_str CD_na = ''n/a''"

definition claim_value :: "string option \<Rightarrow> claim_decision" where
  "claim_value audit_decision =
     (case audit_decision of
        None \<Rightarrow> CD_na
      | Some d \<Rightarrow>
          if d = ''step_up'' \<or> d = ''defer'' then CD_deny
          else if d = ''allow'' then CD_allow
          else if d = ''deny'' then CD_deny
          else if d = ''redact'' then CD_redact
          else if d = ''advisory_deny'' then CD_advisory_deny
          else if d = ''fault'' then CD_fault
          else if d = ''n/a'' then CD_na
          else CD_deny)"

subsection \<open>Cedar action names\<close>

text \<open>\<open>str.capitalize\<close>, for names whose letters are ASCII.\<close>

fun capitalize :: "string \<Rightarrow> string" where
  "capitalize [] = []"
| "capitalize (c # s) = upper_ascii c # str_lower s"

definition cedar_action_name :: "string \<Rightarrow> string" where
  "cedar_action_name tool_name = concat (map capitalize (str_split (CHR ''_'') tool_name))"

subsection \<open>Annotation texts\<close>

text \<open>The scan of one line in \<open>_strip_line_comments\<close>: the part before the first \<open>//\<close> that is
  not inside a string literal.\<close>

fun cut_line :: "bool \<Rightarrow> bool \<Rightarrow> string \<Rightarrow> string" where
  "cut_line in_string escaped [] = []"
| "cut_line in_string escaped (ch # rest) =
     (if escaped then ch # cut_line in_string False rest
      else if ch = backslash \<and> in_string then ch # cut_line in_string True rest
      else if ch = dquote then ch # cut_line (\<not> in_string) False rest
      else if ch = CHR ''/'' \<and> \<not> in_string \<and> starts_with ''//'' (ch # rest) then []
      else ch # cut_line in_string False rest)"

definition line_break :: "char \<Rightarrow> bool" where
  "line_break c \<longleftrightarrow> (of_char c :: nat) \<in> {10, 11, 12, 13, 28, 29, 30, 133}"

text \<open>\<open>str.splitlines\<close>: a final line break does not open another line, and CR LF is one break.\<close>

fun splitlines :: "string \<Rightarrow> string list" where
  "splitlines [] = []"
| "splitlines (c # s) =
     (if of_char c = (13::nat) \<and> s \<noteq> [] \<and> of_char (hd s) = (10::nat) then [] # splitlines (tl s)
      else if line_break c then [] # splitlines s
      else case splitlines s of [] \<Rightarrow> [[c]] | l # ls \<Rightarrow> (c # l) # ls)"

definition strip_line_comments :: "string \<Rightarrow> string" where
  "strip_line_comments text = join [CHR 0x0A] (map (cut_line False False) (splitlines text))"

definition unescape_annotation :: "string \<Rightarrow> string" where
  "unescape_annotation v =
     str_replace [backslash, backslash] [backslash] (str_replace [backslash, dquote] [dquote] v)"

subsection \<open>Facts on decisions\<close>

lemma decision_of_value [simp]: "decision_of (decision_value d) = Some d"
  by (cases d) (simp_all add: decision_of_def)

lemma decision_for_deny_blocks: "decision_for_deny advice \<in> {DENY, STEP_UP, DEFER}"
  by (auto simp: decision_for_deny_def Let_def)

lemma decision_for_deny_explicit:
  assumes "map_of advice ''aarm_decision'' = Some v" "str_lower (str_strip v) = decision_value d"
    and "d \<in> {DENY, STEP_UP, DEFER}"
  shows "decision_for_deny advice = d"
proof -
  have "advice \<noteq> []" using assms(1) by auto
  moreover have "decision_value d \<noteq> []" by (cases d) simp_all
  ultimately show ?thesis
    using assms by (auto simp: decision_for_deny_def AARM_DECISION_ANNOTATION_def Let_def)
qed

lemma decision_for_deny_inferred:
  assumes "map_of advice ''aarm_decision'' = None"
  shows "decision_for_deny advice =
    (if \<exists>k\<in>set ESCALATION_ADVICE_KEYS. map_of advice k \<noteq> None then STEP_UP else DENY)"
  using assms by (auto simp: decision_for_deny_def AARM_DECISION_ANNOTATION_def Let_def)

lemma claim_value_allow: "claim_value d = CD_allow \<longleftrightarrow> d = Some ''allow''"
  by (auto simp: claim_value_def split: option.splits)

lemma claim_value_str:
  "claim_value (Some (claim_decision_str c)) = c"
  by (cases c) (simp_all add: claim_value_def)

lemma claim_value_audit:
  "claim_value (Some (policy_decision_str d)) =
     (case d of PD_allow \<Rightarrow> CD_allow | PD_redact \<Rightarrow> CD_redact | PD_advisory_deny \<Rightarrow> CD_advisory_deny
      | PD_fault \<Rightarrow> CD_fault | PD_na \<Rightarrow> CD_na | _ \<Rightarrow> CD_deny)"
  by (cases d) (simp_all add: claim_value_def)

lemma claim_of_deny: "claim_value (Some (policy_decision_str (audit_value (decision_for_deny a)))) = CD_deny"
  using decision_for_deny_blocks [of a] by (auto simp: claim_value_def)

subsection \<open>Facts on the annotation texts\<close>

lemma cut_line_prefix: "\<exists>rest. l = cut_line i e l @ rest"
  by (induction i e l rule: cut_line.induct) auto

lemma slash_before_cut:
  "starts_with ''//'' (c # cut_line i e rest) \<Longrightarrow> starts_with ''//'' (c # rest)"
  by (cases rest) (auto simp: starts_with_def split: if_splits)

lemma cut_line_idem: "cut_line i e (cut_line i e l) = cut_line i e l"
  by (induction i e l rule: cut_line.induct) (auto dest: slash_before_cut)

text \<open>Escaping as a Cedar string literal does it, undone by \<open>_unescape\<close>.\<close>

definition escape_annotation :: "string \<Rightarrow> string" where
  "escape_annotation v =
     concat (map (\<lambda>c. if c = dquote \<or> c = backslash then [backslash, c] else [c]) v)"

lemma replace_quotes:
  "str_replace [backslash, dquote] [dquote] (escape_annotation v)
     = concat (map (\<lambda>c. if c = backslash then [backslash, backslash] else [c]) v)"
proof (induction v)
  case (Cons c v)
  have bs: "str_replace [backslash, dquote] [dquote] (backslash # backslash # escape_annotation v)
      = backslash # backslash # str_replace [backslash, dquote] [dquote] (escape_annotation v)"
    by (cases v) (auto simp: str_replace.simps(2) [of _ _ backslash] starts_with_def escape_annotation_def)
  show ?case
    using Cons bs by (auto simp: escape_annotation_def str_replace.simps(2) starts_with_def)
qed (simp add: escape_annotation_def)

lemma replace_backslashes:
  "str_replace [backslash, backslash] [backslash]
     (concat (map (\<lambda>c. if c = backslash then [backslash, backslash] else [c]) v)) = v"
  by (induction v) (auto simp: str_replace.simps(2) starts_with_def)

lemma unescape_escape_annotation: "unescape_annotation (escape_annotation v) = v"
  by (simp add: unescape_annotation_def replace_quotes replace_backslashes)

subsection \<open>Properties\<close>

text \<open>A denial stays a denial. Whatever advice a forbid policy carries, the decision inferred
  for it is deny, step-up or defer and never allow or modify; the signed claim shows it as deny; and
  a claim shows allow only for an audit entry that says allow.\<close>

theorem denial_never_reads_as_allow:
  "decision_for_deny adv \<in> {DENY, STEP_UP, DEFER}
   \<and> claim_value (Some (policy_decision_str (audit_value (decision_for_deny adv)))) = CD_deny
   \<and> (claim_value d = CD_allow \<longleftrightarrow> d = Some ''allow'')"
  using decision_for_deny_blocks claim_of_deny claim_value_allow by blast

text \<open>The decision a policy author writes is the decision taken: an explicit
  \<open>aarm_decision\<close> annotation that names deny, step_up or defer, in any case and with any surrounding
  white space, is used; without one, an escalation annotation gives step-up and anything else deny.\<close>

theorem decision_for_deny_spec:
  "decision_for_deny adv =
     (case map_of adv ''aarm_decision'' of
        Some v \<Rightarrow>
          (case decision_of (str_lower (str_strip v)) of
             Some DENY \<Rightarrow> DENY | Some STEP_UP \<Rightarrow> STEP_UP | Some DEFER \<Rightarrow> DEFER
           | _ \<Rightarrow> (if list_ex (\<lambda>k. map_of adv k \<noteq> None) ESCALATION_ADVICE_KEYS then STEP_UP else DENY))
      | None \<Rightarrow> (if list_ex (\<lambda>k. map_of adv k \<noteq> None) ESCALATION_ADVICE_KEYS then STEP_UP else DENY))"
proof -
  have e: "decision_of [] = None" by (simp add: decision_of_def)
  show ?thesis
    by (auto simp: decision_for_deny_def AARM_DECISION_ANNOTATION_def Let_def list_ex_iff e
        split: option.splits decision.splits)
qed

text \<open>Reading an annotation value back undoes the escaping of quotes and backslashes in the
  policy text, for every value.\<close>

theorem annotation_roundtrip: "unescape_annotation (escape_annotation v) = v"
  by (rule unescape_escape_annotation)

text \<open>Stripping comments from a policy line only removes a suffix, and stripping again changes
  nothing.\<close>

theorem strip_comment_line: "(\<exists>rest. l = cut_line False False l @ rest) \<and> cut_line False False (cut_line False False l) = cut_line False False l"
  using cut_line_prefix cut_line_idem by blast

end
