(* ===== verification/Policy_Bundle.thy ===== *)
theory Policy_Bundle
  imports Catalog Complex_Main
begin

text \<open>
  Policy bundles (\<open>policy/bundle.py\<close>): loading with its checks in source order,
  the signing keys with their one-way revocation, and the policy store with hot
  reload. SHA-256, the RFC 8785 serialiser and Ed25519 verification are
  arguments, in one record. What reading the bundle directory gives is an input.
\<close>

subsection \<open>Inputs\<close>

datatype verify_outcome = Verified | Bad_signature | Key_value_error

record crypto =
  cy_sha256 :: "bytes \<Rightarrow> bytes"
  cy_jcs :: "json \<Rightarrow> bytes"
  cy_ed25519 :: "bytes \<Rightarrow> bytes \<Rightarrow> bytes \<Rightarrow> verify_outcome"

datatype 'a file_read = Absent | Unreadable | Content 'a

record bundle_dir =
  bd_is_dir :: bool
  bd_manifest :: "json file_read"
  bd_cedar_files :: "(string \<times> string option) list"
  bd_schema :: "string file_read"

datatype policy_error =
    Bundle_config_error string
  | Policy_hash_mismatch
  | Signature_invalid string
  | Signing_key_revoked
  | Revocation_invalid string
  | Attribute_error

subsection \<open>Text helpers\<close>

text \<open>\<open>int(s)\<close>: surrounding white space, a sign, digits with single underscores between them, and
  at most 4300 digits.\<close>

definition py_int :: "string \<Rightarrow> int option" where
  "py_int s =
     (let t = str_strip s;
          body = (if t \<noteq> [] \<and> (hd t = CHR ''-'' \<or> hd t = CHR ''+'') then tl t else t);
          groups = str_split (CHR ''_'') body;
          v = foldl (\<lambda>a c. a * 10 + (int (of_char c) - 48)) 0 (concat groups)
      in if list_all (\<lambda>g. g \<noteq> [] \<and> list_all is_digit g) groups \<and> length (concat groups) \<le> 4300
         then Some (if t \<noteq> [] \<and> hd t = CHR ''-'' then - v else v) else None)"

text \<open>\<open>binascii.a2b_base64\<close> without strict mode, on text already translated: characters outside the
  alphabet are skipped, and enough padding ends the input. \<open>q\<close> is the position in the group of
  four, \<open>left\<close> the bits carried over.\<close>

fun a2b_base64 :: "nat \<Rightarrow> nat \<Rightarrow> nat \<Rightarrow> string \<Rightarrow> bytes option" where
  "a2b_base64 q left pads [] = (if q = 0 then Some [] else None)"
| "a2b_base64 q left pads (c # s) =
     (if c = CHR ''='' then
        (if 2 \<le> q then (if 4 \<le> q + (pads + 1) then Some [] else a2b_base64 q left (pads + 1) s)
         else a2b_base64 q left pads s)
      else case b64_value c of
        None \<Rightarrow> a2b_base64 q left pads s
      | Some v \<Rightarrow>
          if q = 0 then a2b_base64 1 v 0 s
          else if q = 1 then map_option (Cons (char_of (left * 4 + v div 16))) (a2b_base64 2 (v mod 16) 0 s)
          else if q = 2 then map_option (Cons (char_of (left * 16 + v div 4))) (a2b_base64 3 (v mod 4) 0 s)
          else map_option (Cons (char_of (left * 64 + v))) (a2b_base64 0 0 0 s))"

text \<open>\<open>None\<close> is the \<open>binascii.Error\<close>, or the \<open>ValueError\<close> for text that is not ASCII.\<close>

definition b64url_decode :: "string \<Rightarrow> bytes option" where
  "b64url_decode value =
     (let padding = 4 - length value mod 4;
          padded = value @ (if padding \<noteq> 4 then replicate padding (CHR ''='') else [])
      in if list_ex (\<lambda>c. 128 \<le> (of_char c :: nat)) padded then None else a2b_base64 0 0 0 padded)"

subsection \<open>Keys and signatures\<close>

definition signing_pre_image :: "string \<Rightarrow> bytes" where
  "signing_pre_image bundle_hash = ''cmcp-policy-bundle-v1|'' @ bundle_hash"

definition revocation_pre_image :: "string \<Rightarrow> bytes" where
  "revocation_pre_image revoked_key_id = ''cmcp-policy-key-revocation-v1|'' @ revoked_key_id"

definition policy_key_id :: "crypto \<Rightarrow> bytes \<Rightarrow> string" where
  "policy_key_id cy public_key = ''sha256:'' @ hexlify (cy_sha256 cy public_key)"

definition verifies :: "crypto \<Rightarrow> bytes \<Rightarrow> bytes \<Rightarrow> bytes \<Rightarrow> bool" where
  "verifies cy public_key signature message \<longleftrightarrow> cy_ed25519 cy public_key signature message = Verified"

record signing_keys =
  sk_current :: "bytes option"
  sk_successor :: "bytes option"
  sk_revoked :: "bytes list"

definition new_signing_keys :: "bytes \<Rightarrow> bytes option \<Rightarrow> policy_error + signing_keys" where
  "new_signing_keys cur successor =
     (if successor = Some cur then Inl (Bundle_config_error ''successor must differ'')
      else Inr \<lparr>sk_current = Some cur, sk_successor = successor, sk_revoked = []\<rparr>)"

definition revoked_key_ids :: "crypto \<Rightarrow> signing_keys \<Rightarrow> string list" where
  "revoked_key_ids cy ks = map (policy_key_id cy) (sk_revoked ks)"

definition is_revoked :: "crypto \<Rightarrow> signing_keys \<Rightarrow> string option \<Rightarrow> bool" where
  "is_revoked cy ks key_id \<longleftrightarrow> (case key_id of None \<Rightarrow> False | Some k \<Rightarrow> k \<in> set (revoked_key_ids cy ks))"

text \<open>\<open>PolicySigningKeys.apply\<close>: the revoked key id if the statement changed the state, with the
  state after it.\<close>

definition apply_statement :: "crypto \<Rightarrow> signing_keys \<Rightarrow> json \<Rightarrow> policy_error + string option \<times> signing_keys" where
  "apply_statement cy ks statement =
     (if \<not> is_jobj statement then Inl (Revocation_invalid ''not a JSON object'')
      else case (jfield statement ''revoked_key_id'', jfield statement ''signature'') of
        (Some (JStr revoked_id), Some (JStr signature)) \<Rightarrow>
          (if signature = [] then Inl (Revocation_invalid ''needs string revoked_key_id and signature'')
           else if is_revoked cy ks (Some revoked_id) then Inr (None, ks)
           else case sk_current ks of
             None \<Rightarrow> Inl (Revocation_invalid ''only the current key can be revoked'')
           | Some cur \<Rightarrow>
               if revoked_id \<noteq> policy_key_id cy cur
               then Inl (Revocation_invalid ''only the current key can be revoked'')
               else case b64url_decode signature of
                 None \<Rightarrow> Inl (Revocation_invalid ''not valid base64url'')
               | Some sig \<Rightarrow>
                   (let message = revocation_pre_image revoked_id;
                        signers = (case sk_successor ks of None \<Rightarrow> [] | Some s \<Rightarrow> [s]) @ [cur]
                    in case find (\<lambda>k. verifies cy k sig message) signers of
                         None \<Rightarrow> Inl (Revocation_invalid ''verifies under neither key'')
                       | Some signer \<Rightarrow>
                           Inr (Some revoked_id,
                                \<lparr>sk_current = sk_successor ks, sk_successor = None,
                                 sk_revoked = sk_revoked ks @ [cur]\<rparr>)))
      | _ \<Rightarrow> Inl (Revocation_invalid ''needs string revoked_key_id and signature''))"

fun apply_statements :: "crypto \<Rightarrow> signing_keys \<Rightarrow> json list \<Rightarrow> string list \<times> signing_keys" where
  "apply_statements cy ks [] = ([], ks)"
| "apply_statements cy ks (s # ss) =
     (case apply_statement cy ks s of
        Inl _ \<Rightarrow> apply_statements cy ks ss
      | Inr (None, ks') \<Rightarrow> apply_statements cy ks' ss
      | Inr (Some r, ks') \<Rightarrow> (let (rs, ks'') = apply_statements cy ks' ss in (r # rs, ks'')))"

definition apply_file :: "crypto \<Rightarrow> string \<Rightarrow> json file_read \<Rightarrow> signing_keys \<Rightarrow> string list \<times> signing_keys" where
  "apply_file cy bundle_path file ks =
     (if bundle_path = [] then ([], ks)
      else case file of
        Content (JArr statements) \<Rightarrow> apply_statements cy ks statements
      | _ \<Rightarrow> ([], ks))"

definition parse_bundle_version :: "json \<Rightarrow> policy_error + int list" where
  "parse_bundle_version version =
     (case version of
        JStr v \<Rightarrow> (let parts = map py_int (str_split (CHR ''.'') v) in
                  if None \<in> set parts then Inl (Bundle_config_error ''version'') else Inr (map the parts))
      | _ \<Rightarrow> Inl Attribute_error)"

definition verify_bundle_signature ::
  "crypto \<Rightarrow> json \<Rightarrow> string \<Rightarrow> bytes \<Rightarrow> bytes list \<Rightarrow> policy_error + unit" where
  "verify_bundle_signature cy raw_manifest bundle_hash public_key revoked_keys =
     (case jfield raw_manifest ''signature'' of
        Some (JStr signature) \<Rightarrow>
          (if signature = [] then Inl (Signature_invalid ''no signature'')
           else case b64url_decode signature of
             None \<Rightarrow> Inl (Signature_invalid ''not valid base64url'')
           | Some sig \<Rightarrow>
               (case cy_ed25519 cy public_key sig (signing_pre_image bundle_hash) of
                  Verified \<Rightarrow> Inr ()
                | Bad_signature \<Rightarrow>
                    if list_ex (\<lambda>k. verifies cy k sig (signing_pre_image bundle_hash)) revoked_keys
                    then Inl Signing_key_revoked else Inl (Signature_invalid ''does not verify'')
                | Key_value_error \<Rightarrow> Inl (Signature_invalid ''could not be checked'')))
      | _ \<Rightarrow> Inl (Signature_invalid ''no signature''))"

subsection \<open>Bundles\<close>

record policy_manifest =
  pm_version :: json
  pm_authored_at :: json
  pm_author_identity :: json
  pm_commit_sha :: json
  pm_approval_chain :: json
  pm_agent_os_version :: "json option"
  pm_signature :: "json option"

record policy_bundle =
  pb_manifest :: policy_manifest
  pb_policy_files :: "(string \<times> string) list"
  pb_schema_content :: string
  pb_bundle_hash :: string
  pb_signing_key_id :: "string option"

definition manifest_items :: "json \<Rightarrow> (string \<times> json) list" where
  "manifest_items m = (case m of JObj kvs \<Rightarrow> kvs | _ \<Rightarrow> [])"

definition canonical_bundle_hash :: "crypto \<Rightarrow> json \<Rightarrow> (string \<times> string) list \<Rightarrow> string \<Rightarrow> string" where
  "canonical_bundle_hash cy manifest policy_files schema_content =
     hexlify (cy_sha256 cy (cy_jcs cy (JObj
       [(''manifest'', JObj (filter (\<lambda>kv. fst kv \<noteq> ''signature'') (manifest_items manifest))),
        (''policy_files'',
           JObj (map (\<lambda>(n, c). (n, JStr (hexlify (cy_sha256 cy c)))) (sort_key fst policy_files))),
        (''schema_hash'', JStr (hexlify (cy_sha256 cy schema_content)))])))"

definition load_manifest :: "json \<Rightarrow> policy_error + policy_manifest" where
  "load_manifest raw =
     (if \<not> is_jobj raw then Inl Attribute_error
      else case (jfield raw ''version'', jfield raw ''authored_at'', jfield raw ''author_identity'', jfield raw ''commit_sha'') of
        (Some v, Some a, Some i, Some c) \<Rightarrow>
          Inr \<lparr>pm_version = v, pm_authored_at = a, pm_author_identity = i, pm_commit_sha = c,
               pm_approval_chain = jget raw ''approval_chain'' (JArr []),
               pm_agent_os_version = non_null (jfield raw ''agent_os_version''),
               pm_signature = non_null (jfield raw ''signature'')\<rparr>
      | _ \<Rightarrow> Inl (Bundle_config_error ''missing required fields''))"

definition load_policy_bundle ::
  "crypto \<Rightarrow> bundle_dir \<Rightarrow> string option \<Rightarrow> bytes option \<Rightarrow> bytes list \<Rightarrow> policy_error + policy_bundle" where
  "load_policy_bundle cy d expected_hash signing_key revoked_keys =
     (if \<not> bd_is_dir d then Inl (Bundle_config_error ''not a directory'')
      else case bd_manifest d of
        Absent \<Rightarrow> Inl (Bundle_config_error ''missing manifest.json'')
      | Unreadable \<Rightarrow> Inl (Bundle_config_error ''cannot load manifest.json'')
      | Content raw \<Rightarrow>
     bind_result (load_manifest raw) (\<lambda>manifest.
     if bd_cedar_files d = [] then Inl (Bundle_config_error ''no .cedar files'')
     else if None \<in> snd ` set (bd_cedar_files d) then Inl (Bundle_config_error ''cannot read policy file'')
     else case bd_schema d of
        Content schema \<Rightarrow>
          (let policy_files = map (\<lambda>(n, c). (n, the c)) (bd_cedar_files d);
               computed = canonical_bundle_hash cy raw policy_files schema;
               bundle = \<lparr>pb_manifest = manifest, pb_policy_files = policy_files, pb_schema_content = schema,
                         pb_bundle_hash = ''sha256:'' @ computed,
                         pb_signing_key_id = map_option (policy_key_id cy) signing_key\<rparr>
           in if expected_hash \<noteq> None \<and> computed \<noteq> removeprefix ''sha256:'' (the expected_hash)
              then Inl Policy_hash_mismatch
              else case signing_key of
                None \<Rightarrow> Inr bundle
              | Some key \<Rightarrow>
                  bind_result (verify_bundle_signature cy raw (''sha256:'' @ computed) key revoked_keys) (\<lambda>_.
                  bind_result (parse_bundle_version (pm_version manifest)) (\<lambda>_. Inr bundle)))
      | _ \<Rightarrow> Inl (Bundle_config_error ''schema.cedarschema'')))"

subsection \<open>The store\<close>

record policy_store =
  ps_bundle :: policy_bundle
  ps_bundle_path :: string
  ps_reload_interval :: int
  ps_expected_hash :: "string option"
  ps_keys :: "signing_keys option"
  ps_last_reload_at :: rat

definition store_revoked_key_ids :: "crypto \<Rightarrow> policy_store \<Rightarrow> string list" where
  "store_revoked_key_ids cy st = (case ps_keys st of None \<Rightarrow> [] | Some ks \<Rightarrow> revoked_key_ids cy ks)"

definition require_trusted :: "crypto \<Rightarrow> policy_store \<Rightarrow> policy_error + unit" where
  "require_trusted cy st =
     (case ps_keys st of
        None \<Rightarrow> Inr ()
      | Some ks \<Rightarrow> if is_revoked cy ks (pb_signing_key_id (ps_bundle st)) then Inl Signing_key_revoked else Inr ())"

definition check_not_a_downgrade :: "policy_store \<Rightarrow> policy_bundle \<Rightarrow> policy_error + unit" where
  "check_not_a_downgrade st new_bundle =
     (if ps_keys st = None then Inr ()
      else bind_result (parse_bundle_version (pm_version (pb_manifest (ps_bundle st)))) (\<lambda>cur.
           bind_result (parse_bundle_version (pm_version (pb_manifest new_bundle))) (\<lambda>incoming.
             if incoming \<le> cur then Inl (Signature_invalid ''version did not increase'') else Inr ())))"

text \<open>The \<open>try\<close> block of \<open>reload_if_stale\<close>.\<close>

definition try_reload :: "crypto \<Rightarrow> bundle_dir \<Rightarrow> policy_store \<Rightarrow> policy_error + policy_store" where
  "try_reload cy d st =
     (if ps_keys st \<noteq> None \<and> sk_current (the (ps_keys st)) = None then Inl Signing_key_revoked
      else let signing_key = (case ps_keys st of None \<Rightarrow> None | Some ks \<Rightarrow> sk_current ks) in
        bind_result
          (load_policy_bundle cy d (if signing_key \<noteq> None then None else ps_expected_hash st) signing_key
             (case ps_keys st of None \<Rightarrow> [] | Some ks \<Rightarrow> sk_revoked ks)) (\<lambda>new_bundle.
          if pb_bundle_hash new_bundle \<noteq> pb_bundle_hash (ps_bundle st)
          then bind_result (check_not_a_downgrade st new_bundle) (\<lambda>_. Inr (st\<lparr>ps_bundle := new_bundle\<rparr>))
          else Inr st))"

text \<open>\<open>now\<close> and \<open>now'\<close> are the two clock readings; \<open>revocations\<close> and \<open>d\<close> what the bundle directory holds.\<close>

definition reload_if_stale ::
  "crypto \<Rightarrow> rat \<Rightarrow> rat \<Rightarrow> json file_read \<Rightarrow> bundle_dir \<Rightarrow> policy_store \<Rightarrow> bool \<times> policy_store" where
  "reload_if_stale cy now now' revocations d st =
     (if ps_reload_interval st \<le> 0 then (False, st)
      else if now - ps_last_reload_at st < of_int (ps_reload_interval st) then (False, st)
      else let st1 = st\<lparr>ps_last_reload_at := now'\<rparr>;
               st2 = (case ps_keys st1 of None \<Rightarrow> st1
                      | Some ks \<Rightarrow> st1\<lparr>ps_keys := Some (snd (apply_file cy (ps_bundle_path st1) revocations ks))\<rparr>)
           in case try_reload cy d st2 of Inl _ \<Rightarrow> (False, st2) | Inr st3 \<Rightarrow> (True, st3))"

subsection \<open>Revocation moves one way\<close>

text \<open>What an accepted statement does.\<close>

lemma apply_statement_changed:
  assumes "apply_statement cy ks s = Inr (Some r, ks')"
  obtains cur sig signer where
    "sk_current ks = Some cur" "r = policy_key_id cy cur"
    "signer = cur \<or> sk_successor ks = Some signer" "verifies cy signer sig (revocation_pre_image r)"
    "ks' = \<lparr>sk_current = sk_successor ks, sk_successor = None, sk_revoked = sk_revoked ks @ [cur]\<rparr>"
  using assms
  by (auto simp: apply_statement_def Let_def find_Some_iff split: if_splits option.splits json.splits)

lemma apply_statement_unchanged:
  "apply_statement cy ks s = Inr (None, ks') \<Longrightarrow>
     ks' = ks \<and> (\<exists>r. jfield s ''revoked_key_id'' = Some (JStr r) \<and> r \<in> set (revoked_key_ids cy ks))"
  by (auto simp: apply_statement_def Let_def is_revoked_def split: if_splits option.splits json.splits)

text \<open>One accepted statement, as a step; a file is a sequence of them.\<close>

inductive revoke_step :: "crypto \<Rightarrow> signing_keys \<Rightarrow> signing_keys \<Rightarrow> bool" for cy where
  revoke: "sk_current ks = Some cur \<Longrightarrow> (signer = cur \<or> sk_successor ks = Some signer) \<Longrightarrow>
     verifies cy signer sig (revocation_pre_image (policy_key_id cy cur)) \<Longrightarrow>
     revoke_step cy ks \<lparr>sk_current = sk_successor ks, sk_successor = None, sk_revoked = sk_revoked ks @ [cur]\<rparr>"

inductive_simps revoke_step_iff: "revoke_step cy ks ks'"

lemma apply_statements_steps: "(revoke_step cy)\<^sup>*\<^sup>* ks (snd (apply_statements cy ks ss))"
proof (induction ss arbitrary: ks)
  case (Cons s ss)
  show ?case
  proof (cases "apply_statement cy ks s")
    case (Inr r)
    obtain x ks1 where r: "r = (x, ks1)" by (cases r)
    show ?thesis
    proof (cases x)
      case None
      with Inr r have "ks1 = ks" using apply_statement_unchanged by blast
      with Cons.IH None Inr r show ?thesis by simp
    next
      case (Some k)
      have "revoke_step cy ks ks1"
        using Inr r Some by (auto elim!: apply_statement_changed intro: revoke_step.revoke)
      then have "(revoke_step cy)\<^sup>*\<^sup>* ks (snd (apply_statements cy ks1 ss))"
        using Cons.IH by (rule converse_rtranclp_into_rtranclp)
      with Inr r Some show ?thesis by (simp split: prod.splits) (metis snd_conv)
    qed
  qed (use Cons in simp)
qed simp

lemma apply_file_steps: "(revoke_step cy)\<^sup>*\<^sup>* ks (snd (apply_file cy path f ks))"
  using apply_statements_steps by (auto simp: apply_file_def split: file_read.splits json.splits)

definition key_list :: "signing_keys \<Rightarrow> bytes list" where
  "key_list ks = sk_revoked ks @ (case sk_current ks of None \<Rightarrow> [] | Some k \<Rightarrow> [k])
     @ (case sk_successor ks of None \<Rightarrow> [] | Some k \<Rightarrow> [k])"

definition keys_ok :: "signing_keys \<Rightarrow> bool" where
  "keys_ok ks \<longleftrightarrow> distinct (key_list ks) \<and> (sk_current ks = None \<longrightarrow> sk_successor ks = None)"

lemma new_signing_keys_ok: "new_signing_keys cur s = Inr ks \<Longrightarrow> keys_ok ks"
  by (auto simp: new_signing_keys_def keys_ok_def key_list_def split: if_splits option.splits)

lemma revoke_step_keys: "revoke_step cy ks ks' \<Longrightarrow> key_list ks' = key_list ks"
  by (auto simp: revoke_step_iff key_list_def split: option.splits)

lemma revoke_step_ok [cmcp_inv]: "revoke_step cy ks ks' \<Longrightarrow> keys_ok ks \<Longrightarrow> keys_ok ks'"
  using revoke_step_keys [of cy ks ks'] by (auto simp: keys_ok_def revoke_step_iff)

lemma revoke_steps:
  assumes "(revoke_step cy)\<^sup>*\<^sup>* ks ks'"
  shows "key_list ks' = key_list ks" "\<exists>more. sk_revoked ks' = sk_revoked ks @ more" "keys_ok ks \<Longrightarrow> keys_ok ks'"
  using assms
proof (induction rule: rtranclp_induct)
  case (step y z)
  { case 1 with step revoke_step_keys show ?case by metis }
  { case 2 with step show ?case by (fastforce simp: revoke_step_iff) }
  { case 3 with step revoke_step_ok show ?case by blast }
qed simp_all

lemma current_not_revoked: "keys_ok ks \<Longrightarrow> sk_current ks = Some k \<Longrightarrow> k \<notin> set (sk_revoked ks)"
  by (auto simp: keys_ok_def key_list_def)

subsection \<open>What a reload installs\<close>

lemma load_signed:
  assumes "load_policy_bundle cy d h (Some key) rvk = Inr b"
  shows "pb_signing_key_id b = Some (policy_key_id cy key)"
    and "\<exists>v. parse_bundle_version (pm_version (pb_manifest b)) = Inr v"
    and "\<exists>sig. verifies cy key sig (signing_pre_image (pb_bundle_hash b))"
  using assms
  by (auto simp: load_policy_bundle_def bind_result_eq_Inr Let_def verify_bundle_signature_def verifies_def
      split: if_splits file_read.splits option.splits json.splits verify_outcome.splits)

lemma load_pinned:
  assumes "load_policy_bundle cy d (Some h) key rvk = Inr b"
  shows "removeprefix ''sha256:'' h = removeprefix ''sha256:'' (pb_bundle_hash b)"
proof -
  obtain c where "pb_bundle_hash b = ''sha256:'' @ c" "c = removeprefix ''sha256:'' h"
    using assms
    by (auto simp: load_policy_bundle_def bind_result_eq_Inr Let_def
        split: if_splits file_read.splits option.splits)
  then show ?thesis using removeprefix_append [of "''sha256:''" c] by simp
qed

text \<open>The frame: a reload changes the bundle, the keys and the clock stamp only, and keeps the keys
  moving one way.\<close>

lemma try_reload_cases:
  assumes "try_reload cy d st = Inr st'"
  shows "st' = st \<or> (\<exists>b. st' = st\<lparr>ps_bundle := b\<rparr> \<and> pb_bundle_hash b \<noteq> pb_bundle_hash (ps_bundle st)
    \<and> (case ps_keys st of
         None \<Rightarrow> load_policy_bundle cy d (ps_expected_hash st) None [] = Inr b
       | Some ks \<Rightarrow> (\<exists>key cur new. sk_current ks = Some key
            \<and> load_policy_bundle cy d None (Some key) (sk_revoked ks) = Inr b
            \<and> parse_bundle_version (pm_version (pb_manifest (ps_bundle st))) = Inr cur
            \<and> parse_bundle_version (pm_version (pb_manifest b)) = Inr new \<and> cur < new)))"
  using assms
  by (auto simp: try_reload_def bind_result_eq_Inr Let_def check_not_a_downgrade_def not_le
      split: if_splits option.splits)

definition version_of :: "policy_bundle \<Rightarrow> int list" where
  "version_of b = (case parse_bundle_version (pm_version (pb_manifest b)) of Inr v \<Rightarrow> v | Inl _ \<Rightarrow> [])"

text \<open>A run of reload attempts, each with its clock readings and what the directory then held.\<close>

type_synonym reload_input = "rat \<times> rat \<times> json file_read \<times> bundle_dir"

definition reloads :: "crypto \<Rightarrow> reload_input list \<Rightarrow> policy_store \<Rightarrow> policy_store" where
  "reloads cy inputs st = foldl (\<lambda>st (now, now', f, d). snd (reload_if_stale cy now now' f d st)) st inputs"

lemma reload_keys:
  assumes "reload_if_stale cy now now' f d st = (b, st')"
  shows "(case ps_keys st of None \<Rightarrow> ps_keys st' = None
         | Some ks \<Rightarrow> \<exists>ks'. ps_keys st' = Some ks' \<and> (revoke_step cy)\<^sup>*\<^sup>* ks ks')"
proof -
  have t: "ps_keys s2 = ps_keys s1" if "try_reload cy d s1 = Inr s2" for s1 s2
    using try_reload_cases [OF that] by (auto split: option.splits)
  show ?thesis
    using assms apply_file_steps [of cy _ "ps_bundle_path st" f]
    by (auto simp: reload_if_stale_def Let_def dest!: t split: if_splits option.splits sum.splits)
qed

text \<open>With a key pinned, either the bundle stays or a newer one signed by the current key replaces
  it.\<close>

lemma reload_pinned:
  assumes "reload_if_stale cy now now' f d st = (b, st')" "ps_keys st = Some ks"
  obtains "ps_bundle st' = ps_bundle st"
  | key ks' cur new sig where "ps_keys st' = Some ks'" "sk_current ks' = Some key" "(revoke_step cy)\<^sup>*\<^sup>* ks ks'"
      "parse_bundle_version (pm_version (pb_manifest (ps_bundle st))) = Inr cur"
      "parse_bundle_version (pm_version (pb_manifest (ps_bundle st'))) = Inr new" "cur < new"
      "verifies cy key sig (signing_pre_image (pb_bundle_hash (ps_bundle st')))"
      "pb_signing_key_id (ps_bundle st') = Some (policy_key_id cy key)" "b"
proof (cases "ps_bundle st' = ps_bundle st")
  case False
  define ks' where "ks' = snd (apply_file cy (ps_bundle_path st) f ks)"
  let ?st2 = "st\<lparr>ps_last_reload_at := now', ps_keys := Some ks'\<rparr>"
  have t: "try_reload cy d ?st2 = Inr st'" and b
    using assms False
    by (auto simp: reload_if_stale_def Let_def ks'_def split: if_splits sum.splits)
  obtain key cur new where
    nb: "st' = ?st2\<lparr>ps_bundle := ps_bundle st'\<rparr>" "sk_current ks' = Some key"
      "load_policy_bundle cy d None (Some key) (sk_revoked ks') = Inr (ps_bundle st')"
      "parse_bundle_version (pm_version (pb_manifest (ps_bundle st))) = Inr cur"
      "parse_bundle_version (pm_version (pb_manifest (ps_bundle st'))) = Inr new" "cur < new"
    using try_reload_cases [OF t] False by auto
  obtain sig where "verifies cy key sig (signing_pre_image (pb_bundle_hash (ps_bundle st')))"
    using load_signed(3) [OF nb(3)] by blast
  moreover have "ps_keys st' = Some ks'" by (subst nb(1)) simp
  moreover have "(revoke_step cy)\<^sup>*\<^sup>* ks ks'" unfolding ks'_def by (rule apply_file_steps)
  ultimately show thesis
    using that(2) [of ks' key cur new sig] nb(2,4-6) load_signed(1) [OF nb(3)] \<open>b\<close> by blast
qed (rule that(1))

lemma reloads_Cons:
  "reloads cy ((now, now', f, d) # inputs) st = reloads cy inputs (snd (reload_if_stale cy now now' f d st))"
  by (simp add: reloads_def)

lemma reloads_Nil [simp]: "reloads cy [] st = st"
  by (simp add: reloads_def)

lemma reloads_keys:
  "ps_keys st = Some ks \<Longrightarrow> \<exists>ks'. ps_keys (reloads cy inputs st) = Some ks' \<and> (revoke_step cy)\<^sup>*\<^sup>* ks ks'"
proof (induction inputs arbitrary: st ks)
  case (Cons i inputs)
  obtain now now' f d where i: "i = (now, now', f, d)" by (cases i)
  obtain b st1 where r: "reload_if_stale cy now now' f d st = (b, st1)" by (cases "reload_if_stale cy now now' f d st")
  obtain ks1 where ks1: "ps_keys st1 = Some ks1" "(revoke_step cy)\<^sup>*\<^sup>* ks ks1"
    using reload_keys [OF r] Cons.prems by auto
  from Cons.IH [OF ks1(1)] ks1(2) show ?case by (auto simp: i reloads_Cons r intro: rtranclp_trans)
qed simp

lemma reloads_version:
  "ps_keys st = Some ks \<Longrightarrow>
     ps_bundle (reloads cy inputs st) = ps_bundle st
     \<or> version_of (ps_bundle st) < version_of (ps_bundle (reloads cy inputs st))"
proof (induction inputs arbitrary: st ks)
  case (Cons i inputs)
  obtain now now' f d where i: "i = (now, now', f, d)" by (cases i)
  obtain b st1 where r: "reload_if_stale cy now now' f d st = (b, st1)" by (cases "reload_if_stale cy now now' f d st")
  obtain ks1 where ks1: "ps_keys st1 = Some ks1"
    using reload_keys [OF r] Cons.prems by auto
  have "ps_bundle st1 = ps_bundle st \<or> version_of (ps_bundle st) < version_of (ps_bundle st1)"
    using r Cons.prems by (rule reload_pinned) (auto simp: version_of_def)
  with Cons.IH [OF ks1] show ?case by (auto simp: i reloads_Cons r)
qed simp

lemma no_key_no_step: "sk_current ks = None \<Longrightarrow> (revoke_step cy)\<^sup>*\<^sup>* ks ks' \<Longrightarrow> ks' = ks"
  by (metis converse_rtranclpE option.distinct(1) revoke_step_iff)

lemma reloads_no_key:
  "ps_keys st = Some ks \<Longrightarrow> sk_current ks = None \<Longrightarrow> ps_bundle (reloads cy inputs st) = ps_bundle st"
proof (induction inputs arbitrary: st)
  case (Cons i inputs)
  obtain now now' f d where i: "i = (now, now', f, d)" by (cases i)
  obtain b st1 where r: "reload_if_stale cy now now' f d st = (b, st1)" by (cases "reload_if_stale cy now now' f d st")
  have "ps_keys st1 = Some ks" using reload_keys [OF r] Cons.prems no_key_no_step by auto
  moreover have "ps_bundle st1 = ps_bundle st"
    using r Cons.prems(1)
  proof (rule reload_pinned)
    fix key ks'
    assume k: "sk_current ks' = Some key" "(revoke_step cy)\<^sup>*\<^sup>* ks ks'"
    have "ks' = ks" by (rule no_key_no_step [OF Cons.prems(2) k(2)])
    with k(1) Cons.prems(2) show ?thesis by simp
  qed
  ultimately show ?case using Cons by (simp add: i reloads_Cons r)
qed simp

subsection \<open>What the bundle hash covers\<close>

definition bundle_doc :: "crypto \<Rightarrow> json \<Rightarrow> (string \<times> string) list \<Rightarrow> string \<Rightarrow> json" where
  "bundle_doc cy m files schema = JObj
       [(''manifest'', JObj (filter (\<lambda>kv. fst kv \<noteq> ''signature'') (manifest_items m))),
        (''policy_files'', JObj (map (\<lambda>(n, c). (n, JStr (hexlify (cy_sha256 cy c)))) (sort_key fst files))),
        (''schema_hash'', JStr (hexlify (cy_sha256 cy schema)))]"

lemma canonical_bundle_hash_doc:
  "canonical_bundle_hash cy m files schema = hexlify (cy_sha256 cy (cy_jcs cy (bundle_doc cy m files schema)))"
  by (simp add: canonical_bundle_hash_def bundle_doc_def)

lemma load_hash:
  assumes "load_policy_bundle cy d h key rvk = Inr b" "bd_manifest d = Content m"
  shows "pb_bundle_hash b = ''sha256:'' @ canonical_bundle_hash cy m (pb_policy_files b) (pb_schema_content b)"
  using assms
  by (auto simp: load_policy_bundle_def bind_result_eq_Inr Let_def split: if_splits file_read.splits option.splits)

text \<open>The texts whose digests make up the bundle hash.\<close>

definition hashed_texts :: "crypto \<Rightarrow> json \<Rightarrow> policy_bundle \<Rightarrow> bytes set" where
  "hashed_texts cy m b =
     {cy_jcs cy (bundle_doc cy m (pb_policy_files b) (pb_schema_content b)), pb_schema_content b}
     \<union> snd ` set (pb_policy_files b)"

definition texts_collide :: "crypto \<Rightarrow> json \<Rightarrow> policy_bundle \<Rightarrow> json \<Rightarrow> policy_bundle \<Rightarrow> bool" where
  "texts_collide cy m b m' b' \<longleftrightarrow>
     (\<exists>x\<in>hashed_texts cy m b. \<exists>y\<in>hashed_texts cy m' b'. collides (cy_sha256 cy) x y)"

text \<open>The same policy: files, schema, and the manifest but for its signature, as documents.\<close>

definition same_policy :: "json \<Rightarrow> policy_bundle \<Rightarrow> json \<Rightarrow> policy_bundle \<Rightarrow> bool" where
  "same_policy m b m' b' \<longleftrightarrow>
     sort_key fst (pb_policy_files b) = sort_key fst (pb_policy_files b')
     \<and> pb_schema_content b = pb_schema_content b'
     \<and> norm_json (JObj (filter (\<lambda>kv. fst kv \<noteq> ''signature'') (manifest_items m)))
       = norm_json (JObj (filter (\<lambda>kv. fst kv \<noteq> ''signature'') (manifest_items m')))"

text \<open>The serialiser gives one text for two different documents.\<close>

definition jcs_conflates :: "crypto \<Rightarrow> json \<Rightarrow> json \<Rightarrow> bool" where
  "jcs_conflates cy x y \<longleftrightarrow> norm_json x \<noteq> norm_json y \<and> cy_jcs cy x = cy_jcs cy y"

lemma norm_string_dict:
  "sorted (map fst fs) \<Longrightarrow> norm_json (JObj (map (\<lambda>(n, c). (n, JStr (g c))) fs)) = JObj (map (\<lambda>(n, c). (n, JStr (g c))) fs)"
  by (simp add: comp_def case_prod_beta sort_key_id_if_sorted)

lemma string_dict_inject:
  assumes "\<And>x y. x \<in> snd ` set fs \<Longrightarrow> y \<in> snd ` set fs' \<Longrightarrow> g x = g y \<Longrightarrow> x = y"
    and "map (\<lambda>(n, c). (n, JStr (g c))) fs = map (\<lambda>(n, c). (n, JStr (g c))) fs'"
  shows "fs = fs'"
proof (rule nth_equalityI)
  show len: "length fs = length fs'" using assms(2) by (metis length_map)
  show "fs ! i = fs' ! i" if "i < length fs" for i
  proof -
    have eq: "fst (fs ! i) = fst (fs' ! i)" "g (snd (fs ! i)) = g (snd (fs' ! i))"
      using arg_cong [OF assms(2), of "\<lambda>l. l ! i"] that len by (simp_all add: case_prod_beta)
    have "snd (fs ! i) = snd (fs' ! i)"
      by (rule assms(1)) (use eq(2) that len in simp_all)
    with eq(1) show ?thesis by (simp add: prod_eq_iff)
  qed
qed

lemma bundle_doc_eq:
  assumes "norm_json (bundle_doc cy m (pb_policy_files b) (pb_schema_content b))
      = norm_json (bundle_doc cy m' (pb_policy_files b') (pb_schema_content b'))"
  shows "same_policy m b m' b' \<or> texts_collide cy m b m' b'"
proof (rule disjCI)
  assume "\<not> texts_collide cy m b m' b'"
  then have inj: "x = y" if "x \<in> hashed_texts cy m b" "y \<in> hashed_texts cy m' b'" "cy_sha256 cy x = cy_sha256 cy y" for x y
    using that by (auto simp: texts_collide_def collides_def)
  have files: "norm_json (JObj (map (\<lambda>(n, c). (n, JStr (hexlify (cy_sha256 cy c)))) (sort_key fst (pb_policy_files b))))
      = norm_json (JObj (map (\<lambda>(n, c). (n, JStr (hexlify (cy_sha256 cy c)))) (sort_key fst (pb_policy_files b'))))"
    and man: "norm_json (JObj (filter (\<lambda>kv. fst kv \<noteq> ''signature'') (manifest_items m)))
       = norm_json (JObj (filter (\<lambda>kv. fst kv \<noteq> ''signature'') (manifest_items m')))"
    and schema: "hexlify (cy_sha256 cy (pb_schema_content b)) = hexlify (cy_sha256 cy (pb_schema_content b'))"
    using norm_json_obj_eq_lookup [OF assms [unfolded bundle_doc_def], of "''policy_files''"]
      norm_json_obj_eq_lookup [OF assms [unfolded bundle_doc_def], of "''manifest''"]
      norm_json_obj_eq_lookup [OF assms [unfolded bundle_doc_def], of "''schema_hash''"]
    by (simp_all del: norm_json.simps(2))
  have "sort_key fst (pb_policy_files b) = sort_key fst (pb_policy_files b')"
  proof (rule string_dict_inject [where g = "\<lambda>c. hexlify (cy_sha256 cy c)"])
    show "x = y" if "x \<in> snd ` set (sort_key fst (pb_policy_files b))"
      "y \<in> snd ` set (sort_key fst (pb_policy_files b'))" "hexlify (cy_sha256 cy x) = hexlify (cy_sha256 cy y)" for x y
      by (rule inj) (use that in \<open>simp_all add: hashed_texts_def\<close>)
  qed (use files in \<open>simp add: norm_string_dict del: norm_json.simps(2)\<close>)
  moreover have "pb_schema_content b = pb_schema_content b'"
    by (rule inj) (use schema in \<open>simp_all add: hashed_texts_def\<close>)
  ultimately show "same_policy m b m' b'" using man by (simp add: same_policy_def)
qed

subsection \<open>Properties\<close>

text \<open>Policy signing keys only ever move one way. From a freshly pinned current key and optional
  successor, whatever revocation files the gateway reads, the list of revoked keys only grows at the
  end, the key in force is never a revoked one, and no key enters that was not pinned at startup, so
  at most two keys are ever revoked.\<close>

theorem revocation_one_way:
  assumes "new_signing_keys cur successor = Inr ks0"
    and "ks = foldl (\<lambda>ks f. snd (apply_file cy path f ks)) ks0 files"
    and "ks' = snd (apply_file cy path f ks)"
  shows "(\<exists>more. sk_revoked ks' = sk_revoked ks @ more)
    \<and> (\<forall>k. sk_current ks' = Some k \<longrightarrow> k \<notin> set (sk_revoked ks'))
    \<and> set (key_list ks') \<subseteq> {cur} \<union> set_option successor \<and> length (sk_revoked ks') \<le> 2"
proof -
  have "(revoke_step cy)\<^sup>*\<^sup>* ks0 (foldl (\<lambda>ks f. snd (apply_file cy path f ks)) ks0 fs)" for fs
    by (induction fs rule: rev_induct) (auto intro: rtranclp_trans apply_file_steps)
  then have s: "(revoke_step cy)\<^sup>*\<^sup>* ks0 ks" using assms(2) by simp
  have s': "(revoke_step cy)\<^sup>*\<^sup>* ks ks'" using assms(3) apply_file_steps by simp
  have k: "key_list ks' = key_list ks0" using revoke_steps(1) [OF s] revoke_steps(1) [OF s'] by simp
  have k0: "set (key_list ks0) \<subseteq> {cur} \<union> set_option successor" "length (key_list ks0) \<le> 2"
    using assms(1) by (auto simp: new_signing_keys_def key_list_def split: if_splits option.splits)
  have "keys_ok ks'"
    using revoke_steps(3) [OF s'] revoke_steps(3) [OF s] new_signing_keys_ok [OF assms(1)] by blast
  moreover have "length (sk_revoked ks') \<le> length (key_list ks')" by (simp add: key_list_def)
  ultimately show ?thesis using revoke_steps(2) [OF s'] current_not_revoked k k0 by auto
qed

theorem revocation_one_way_witness:
  "\<exists>ks0. new_signing_keys ''k1'' (Some ''k2'') = Inr ks0
     \<and> length (sk_revoked (snd (apply_file \<lparr>cy_sha256 = pad32, cy_jcs = dumps, cy_ed25519 = (\<lambda>_ _ _. Verified)\<rparr> ''p''
          (Content (JArr [])) ks0))) \<le> 2"
  using revocation_one_way [of "''k1''" "Some ''k2''" _ _ _ "''p''" "[]" _ "Content (JArr [])", OF _ refl refl]
  by (simp add: new_signing_keys_def)

text \<open>A revocation takes a signature. A statement that changes the trusted keys names the key
  currently in force and carries a signature over the revocation pre-image that verifies under that key or its
  pinned successor; the successor takes over; and applying the same statement again is a no-op.\<close>

theorem revocation_needs_signature:
  assumes "apply_statement cy ks s = Inr (Some r, ks')"
  shows "\<exists>cur signer sig. sk_current ks = Some cur \<and> r = policy_key_id cy cur
      \<and> (signer = cur \<or> sk_successor ks = Some signer) \<and> verifies cy signer sig (revocation_pre_image r)
      \<and> sk_current ks' = sk_successor ks \<and> sk_revoked ks' = sk_revoked ks @ [cur]
      \<and> apply_statement cy ks' s = Inr (None, ks')"
  using assms
proof (rule apply_statement_changed)
  fix cur sig signer
  assume c: "sk_current ks = Some cur" "r = policy_key_id cy cur" "signer = cur \<or> sk_successor ks = Some signer"
    "verifies cy signer sig (revocation_pre_image r)"
    and ks': "ks' = \<lparr>sk_current = sk_successor ks, sk_successor = None, sk_revoked = sk_revoked ks @ [cur]\<rparr>"
  obtain signature where f: "is_jobj s" "jfield s ''revoked_key_id'' = Some (JStr r)"
    "jfield s ''signature'' = Some (JStr signature)" "signature \<noteq> []"
    using assms by (auto simp: apply_statement_def Let_def split: if_splits option.splits json.splits)
  have "is_revoked cy ks' (Some r)" by (simp add: is_revoked_def revoked_key_ids_def ks' c(2))
  then have "apply_statement cy ks' s = Inr (None, ks')" using f by (simp add: apply_statement_def)
  with c ks' show ?thesis by auto
qed

definition sample_crypto :: crypto where
  "sample_crypto = \<lparr>cy_sha256 = pad32, cy_jcs = dumps, cy_ed25519 = (\<lambda>k s m. if s = k then Verified else Bad_signature)\<rparr>"

definition sample_statement :: json where
  "sample_statement = JObj [(''revoked_key_id'', JStr (policy_key_id sample_crypto ''key'')), (''signature'', JStr ''a2V5'')]"

lemma sample_signature: "b64url_decode ''a2V5'' = Some ''key''"
  by code_simp

theorem revocation_needs_signature_witness:
  "\<exists>r ks'. apply_statement sample_crypto \<lparr>sk_current = Some ''key'', sk_successor = None, sk_revoked = []\<rparr> sample_statement
       = Inr (Some r, ks') \<and> sk_revoked ks' = [''key'']"
proof -
  let ?ks = "\<lparr>sk_current = Some ''key'', sk_successor = None, sk_revoked = []\<rparr>"
  obtain r ks' where a: "apply_statement sample_crypto ?ks sample_statement = Inr (Some r, ks')"
    by (simp add: apply_statement_def sample_statement_def is_revoked_def revoked_key_ids_def sample_signature
        verifies_def) (simp add: sample_crypto_def)
  from revocation_needs_signature [OF a] a show ?thesis by auto
qed

text \<open>C20: A gateway with a pinned signing key cannot be rolled back. Through any sequence of reloads,
  with any directory contents, the bundle in force is the one it was or one with a strictly higher
  version; and when every pinned key is revoked it never changes again.\<close>

theorem policy_version_never_goes_back:
  assumes "ps_keys st = Some ks"
  shows "(ps_bundle (reloads cy inputs st) = ps_bundle st
      \<or> version_of (ps_bundle st) < version_of (ps_bundle (reloads cy inputs st)))
    \<and> (sk_current ks = None \<longrightarrow> ps_bundle (reloads cy inputs st) = ps_bundle st)"
  using reloads_version [OF assms] reloads_no_key [OF assms] by blast

text \<open>Only a trusted signature installs policy. When a reload changes the bundle of a gateway with
  pinned keys, the new bundle's signature verifies, over its own hash, under a pinned key that is not
  revoked at that moment; the store records that key; and the bundle may be evaluated, unless SHA-256
  collides on it and a revoked key.\<close>

theorem reload_installs_trusted_bundle:
  assumes "reload_if_stale cy now now' f d st = (b, st')" "ps_keys st = Some ks" "keys_ok ks"
    and "ps_bundle st' \<noteq> ps_bundle st"
  shows "\<exists>key ks' sig. ps_keys st' = Some ks' \<and> sk_current ks' = Some key \<and> key \<notin> set (sk_revoked ks')
    \<and> verifies cy key sig (signing_pre_image (pb_bundle_hash (ps_bundle st')))
    \<and> pb_signing_key_id (ps_bundle st') = Some (policy_key_id cy key) \<and> b
    \<and> (require_trusted cy st' = Inr () \<or> (\<exists>k\<in>set (sk_revoked ks'). collides (cy_sha256 cy) k key))"
  using assms(1,2)
proof (rule reload_pinned)
  fix key ks' cur new sig
  assume k: "ps_keys st' = Some ks'" "sk_current ks' = Some key" "(revoke_step cy)\<^sup>*\<^sup>* ks ks'"
    "verifies cy key sig (signing_pre_image (pb_bundle_hash (ps_bundle st')))"
    "pb_signing_key_id (ps_bundle st') = Some (policy_key_id cy key)" b
  have nr: "key \<notin> set (sk_revoked ks')" using revoke_steps(3) [OF k(3) assms(3)] k(2) current_not_revoked by blast
  have "require_trusted cy st' = Inr () \<or> (\<exists>k\<in>set (sk_revoked ks'). collides (cy_sha256 cy) k key)"
  proof (cases "policy_key_id cy key \<in> policy_key_id cy ` set (sk_revoked ks')")
    case True
    then obtain x where "x \<in> set (sk_revoked ks')" "cy_sha256 cy x = cy_sha256 cy key"
      by (auto simp: policy_key_id_def)
    with nr show ?thesis unfolding collides_def by metis
  qed (use k(1,5) in \<open>simp add: require_trusted_def is_revoked_def revoked_key_ids_def\<close>)
  with k nr show ?thesis by blast
qed (use assms(4) in simp)

definition sample_bundle_dir :: bundle_dir where
  "sample_bundle_dir = \<lparr>bd_is_dir = True,
     bd_manifest = Content (JObj [(''version'', JStr ''2''), (''authored_at'', JNull), (''author_identity'', JNull),
       (''commit_sha'', JNull), (''signature'', JStr ''a2V5'')]),
     bd_cedar_files = [(''a.cedar'', Some ''permit'')], bd_schema = Content []\<rparr>"

definition sample_store :: policy_store where
  "sample_store = \<lparr>ps_bundle = \<lparr>pb_manifest = \<lparr>pm_version = JStr ''1'', pm_authored_at = JNull, pm_author_identity = JNull,
       pm_commit_sha = JNull, pm_approval_chain = JNull, pm_agent_os_version = None, pm_signature = None\<rparr>,
       pb_policy_files = [], pb_schema_content = [], pb_bundle_hash = [], pb_signing_key_id = None\<rparr>,
     ps_bundle_path = ''p'', ps_reload_interval = 60, ps_expected_hash = None,
     ps_keys = Some \<lparr>sk_current = Some ''key'', sk_successor = None, sk_revoked = []\<rparr>, ps_last_reload_at = 0\<rparr>"

lemma sample_versions: "parse_bundle_version (JStr ''1'') = Inr [1]" "parse_bundle_version (JStr ''2'') = Inr [2]"
  by code_simp+

lemma sample_reload:
  "\<exists>st'. reload_if_stale sample_crypto 100 100 Absent sample_bundle_dir sample_store = (True, st')
     \<and> pb_bundle_hash (ps_bundle st') \<noteq> []
     \<and> ps_bundle (reloads sample_crypto [(100, 100, Absent, sample_bundle_dir)] sample_store) = ps_bundle st'"
proof -
  have v: "cy_ed25519 sample_crypto ''key'' ''key'' m = Verified" for m by (simp add: sample_crypto_def)
  show ?thesis
    by (simp add: reloads_def reload_if_stale_def Let_def apply_file_def try_reload_def load_policy_bundle_def sample_bundle_dir_def
        sample_store_def load_manifest_def verify_bundle_signature_def sample_signature v sample_versions
        check_not_a_downgrade_def)
qed

theorem policy_version_never_goes_back_witness:
  "version_of (ps_bundle sample_store)
     < version_of (ps_bundle (reloads sample_crypto [(100, 100, Absent, sample_bundle_dir)] sample_store))"
proof -
  have k: "ps_keys sample_store = Some \<lparr>sk_current = Some ''key'', sk_successor = None, sk_revoked = []\<rparr>"
    "pb_bundle_hash (ps_bundle sample_store) = []" by (simp_all add: sample_store_def)
  show ?thesis using policy_version_never_goes_back [OF k(1)] sample_reload k(2) by metis
qed

theorem reload_installs_trusted_bundle_witness:
  "\<exists>st' key. reload_if_stale sample_crypto 100 100 Absent sample_bundle_dir sample_store = (True, st')
     \<and> pb_signing_key_id (ps_bundle st') = Some (policy_key_id sample_crypto key)"
proof -
  obtain st' where r: "reload_if_stale sample_crypto 100 100 Absent sample_bundle_dir sample_store = (True, st')"
    "pb_bundle_hash (ps_bundle st') \<noteq> []" using sample_reload by blast
  have k: "ps_keys sample_store = Some \<lparr>sk_current = Some ''key'', sk_successor = None, sk_revoked = []\<rparr>"
    "keys_ok \<lparr>sk_current = Some ''key'', sk_successor = None, sk_revoked = []\<rparr>"
    "pb_bundle_hash (ps_bundle sample_store) = []"
    by (simp_all add: sample_store_def keys_ok_def key_list_def)
  from r(2) k(3) have "ps_bundle st' \<noteq> ps_bundle sample_store" by auto
  from reload_installs_trusted_bundle [OF r(1) k(1,2) this] r(1) show ?thesis by blast
qed

text \<open>The pinned hash decides what starts. A bundle that loads against a pinned hash has exactly that
  hash; and two bundles that load against one pinned hash have the same policy files, the same
  schema and, signature aside, the same manifest document, unless SHA-256 collides on two of the
  texts hashed or the RFC 8785 serialiser gave one text for the two bundle documents, which differ.\<close>

theorem pinned_bundle_hash:
  assumes "load_policy_bundle cy d (Some h) key rvk = Inr b" "load_policy_bundle cy d' (Some h) key' rvk' = Inr b'"
    and "bd_manifest d = Content m" "bd_manifest d' = Content m'"
  shows "removeprefix ''sha256:'' h = removeprefix ''sha256:'' (pb_bundle_hash b)
    \<and> (same_policy m b m' b' \<or> texts_collide cy m b m' b'
       \<or> jcs_conflates cy (bundle_doc cy m (pb_policy_files b) (pb_schema_content b))
            (bundle_doc cy m' (pb_policy_files b') (pb_schema_content b')))"
proof -
  have "cy_sha256 cy (cy_jcs cy (bundle_doc cy m (pb_policy_files b) (pb_schema_content b)))
      = cy_sha256 cy (cy_jcs cy (bundle_doc cy m' (pb_policy_files b') (pb_schema_content b')))"
    using load_pinned [OF assms(1)] load_pinned [OF assms(2)]
    unfolding load_hash [OF assms(1,3)] load_hash [OF assms(2,4)] removeprefix_append canonical_bundle_hash_doc by simp
  then have "texts_collide cy m b m' b'
      \<or> cy_jcs cy (bundle_doc cy m (pb_policy_files b) (pb_schema_content b))
        = cy_jcs cy (bundle_doc cy m' (pb_policy_files b') (pb_schema_content b'))"
    by (auto simp: texts_collide_def hashed_texts_def collides_def)
  then show ?thesis
    using load_pinned [OF assms(1)] bundle_doc_eq [of cy m b m' b'] unfolding jcs_conflates_def by blast
qed

theorem pinned_bundle_hash_witness:
  "\<exists>m b h. bd_manifest sample_bundle_dir = Content m
     \<and> load_policy_bundle sample_crypto sample_bundle_dir (Some h) None [] = Inr b
     \<and> removeprefix ''sha256:'' h = removeprefix ''sha256:'' (pb_bundle_hash b)"
proof -
  obtain m where m: "bd_manifest sample_bundle_dir = Content m" by (simp add: sample_bundle_dir_def)
  define h where "h = ''sha256:'' @ canonical_bundle_hash sample_crypto m [(''a.cedar'', ''permit'')] []"
  have h: "removeprefix ''sha256:'' h = canonical_bundle_hash sample_crypto m [(''a.cedar'', ''permit'')] []"
    unfolding h_def by (rule removeprefix_append)
  obtain b where b: "load_policy_bundle sample_crypto sample_bundle_dir (Some h) None [] = Inr b"
    using m by (simp add: load_policy_bundle_def sample_bundle_dir_def load_manifest_def h Let_def)
  from pinned_bundle_hash [OF b b m m] b m show ?thesis by blast
qed

end
