(* ===== verification/Policy_Eval.thy ===== *)
theory Policy_Eval
  imports Policy_Bundle
begin

text \<open>
  Policy evaluation: annotations read from the policy text
  (\<open>policy/annotations.py\<close>), the Cedar adapter (\<open>policy/cedar.py\<close>) and the
  evaluator with its enforcement modes, reloads and egress context
  (\<open>policy/evaluator.py\<close>). The Cedar engine \<open>cedarpy.is_authorized\<close> is an
  argument; times taken for logging are not modelled.
\<close>

subsection \<open>Annotations\<close>

definition ident_start :: "char \<Rightarrow> bool" where
  "ident_start c \<longleftrightarrow> (let n = (of_char c :: nat) in (65 \<le> n \<and> n \<le> 90) \<or> (97 \<le> n \<and> n \<le> 122) \<or> n = 95)"

definition ident_char :: "char \<Rightarrow> bool" where
  "ident_char c \<longleftrightarrow> ident_start c \<or> is_digit c"

text \<open>A string body up to its closing quote: the body and what follows the quote.\<close>

fun string_body :: "string \<Rightarrow> (string \<times> string) option" where
  "string_body [] = None"
| "string_body (c # s) =
     (if c = dquote then Some ([], s)
      else if c = backslash then
        (case s of
           [] \<Rightarrow> None
         | d # s' \<Rightarrow> if d = CHR 0x0A then None
                     else map_option (\<lambda>(b, r). (c # d # b, r)) (string_body s'))
      else map_option (\<lambda>(b, r). (c # b, r)) (string_body s))"

definition expect :: "char \<Rightarrow> string \<Rightarrow> string option" where
  "expect c s = (if s \<noteq> [] \<and> hd s = c then Some (tl s) else None)"

text \<open>\<open>_ANNOTATION_RE\<close> at the start of a text: key, raw value and the rest. No part of the pattern can
  match less than it does here and still be followed by the next part.\<close>

definition match_annotation :: "string \<Rightarrow> ((string \<times> string) \<times> string) option" where
  "match_annotation s =
     (case expect (CHR ''@'') s of
        None \<Rightarrow> None
      | Some s1 \<Rightarrow>
          if s1 = [] \<or> \<not> ident_start (hd s1) then None
          else case expect (CHR ''('') (dropWhile str_space (dropWhile ident_char s1)) of
            None \<Rightarrow> None
          | Some s2 \<Rightarrow>
              (case expect dquote (dropWhile str_space s2) of
                 None \<Rightarrow> None
               | Some s3 \<Rightarrow>
                   (case string_body s3 of
                      None \<Rightarrow> None
                    | Some (v, s4) \<Rightarrow>
                        (case expect (CHR '')'') (dropWhile str_space s4) of
                           None \<Rightarrow> None
                         | Some s5 \<Rightarrow> Some ((takeWhile ident_char s1, v), s5)))))"

lemma string_body_length: "string_body s = Some (b, r) \<Longrightarrow> length r < length s"
proof (induction s arbitrary: b r rule: string_body.induct)
  case (2 c s)
  then show ?case
    by (fastforce split: if_splits list.splits)
qed simp

lemma expect_length: "expect c s = Some r \<Longrightarrow> length r < length s"
  by (cases s) (auto simp: expect_def split: if_splits)

lemma match_annotation_length:
  assumes "match_annotation s = Some (kv, r)" shows "length r < length s"
proof -
  obtain s1 s2 s3 v s4 where m: "expect (CHR ''@'') s = Some s1"
    "expect (CHR ''('') (dropWhile str_space (dropWhile ident_char s1)) = Some s2"
    "expect dquote (dropWhile str_space s2) = Some s3" "string_body s3 = Some (v, s4)"
    "expect (CHR '')'') (dropWhile str_space s4) = Some r"
    using assms by (auto simp: match_annotation_def split: option.splits if_splits prod.splits)
  show ?thesis
    using m(1,2,3,5) [THEN expect_length] string_body_length [OF m(4)]
      length_dropWhile_le [of str_space "dropWhile ident_char s1"] length_dropWhile_le [of ident_char s1]
      length_dropWhile_le [of str_space s2] length_dropWhile_le [of str_space s4]
    by linarith
qed

text \<open>The annotations in front of a policy, with the rest.\<close>

function annotation_block :: "string \<Rightarrow> (string \<times> string) list \<times> string" where
  "annotation_block s =
     (case match_annotation s of
        None \<Rightarrow> ([], s)
      | Some (kv, r) \<Rightarrow> (let (kvs, rest) = annotation_block (dropWhile str_space r) in (kv # kvs, rest)))"
  by pat_completeness auto
termination
proof (relation "measure length")
  fix s x kv r
  assume "match_annotation s = Some x" "(kv, r) = x"
  then have "length r < length s" using match_annotation_length by blast
  then show "(dropWhile str_space r, s) \<in> measure length"
    using length_dropWhile_le [of str_space r] by simp
qed simp

declare annotation_block.simps [simp del]

text \<open>\<open>_POLICY_RE\<close> at the start of a text, given whether the character before is a word character: the
  annotations and the rest after the opening parenthesis.\<close>

definition match_policy :: "bool \<Rightarrow> string \<Rightarrow> ((string \<times> string) list \<times> string) option" where
  "match_policy after_word_char s =
     (let (kvs, r) = annotation_block s in
      if kvs = [] \<and> after_word_char then None
      else case find (\<lambda>w. starts_with w r) [''permit'', ''forbid''] of
        None \<Rightarrow> None
      | Some w \<Rightarrow> map_option (Pair kvs) (expect (CHR ''('') (dropWhile str_space (drop (length w) r))))"

lemma annotation_block_length: "length (snd (annotation_block s)) \<le> length s"
proof (induction s rule: annotation_block.induct)
  case (1 s)
  show ?case
  proof (cases "match_annotation s")
    case None
    then show ?thesis by (subst annotation_block.simps) simp
  next
    case (Some x)
    obtain kv r where x: "x = (kv, r)" by (cases x)
    obtain kvs rest where ab: "annotation_block (dropWhile str_space r) = (kvs, rest)"
      by (cases "annotation_block (dropWhile str_space r)")
    have "length rest \<le> length (dropWhile str_space r)"
      using 1 [OF Some x [symmetric]] ab by simp
    also have "\<dots> \<le> length s"
      using match_annotation_length [OF Some [unfolded x]] length_dropWhile_le [of str_space r] by simp
    finally show ?thesis by (subst annotation_block.simps) (simp add: Some x ab)
  qed
qed

lemma match_policy_length:
  assumes "match_policy b s = Some (kvs, r)" shows "length r < length s"
proof -
  obtain n kvs' r0 where m: "annotation_block s = (kvs', r0)"
    "expect (CHR ''('') (dropWhile str_space (drop n r0)) = Some r"
    using assms by (auto simp: match_policy_def Let_def split: prod.splits if_splits option.splits)
  show ?thesis
    using expect_length [OF m(2)] length_dropWhile_le [of str_space "drop n r0"]
      annotation_block_length [of s] m(1) by simp
qed

text \<open>\<open>_POLICY_RE.finditer\<close>.\<close>

function find_policies :: "bool \<Rightarrow> string \<Rightarrow> (string \<times> string) list list" where
  "find_policies after_word_char [] = []"
| "find_policies after_word_char (c # s) =
     (case match_policy after_word_char (c # s) of
        Some (kvs, r) \<Rightarrow> kvs # find_policies False r
      | None \<Rightarrow> find_policies (word_char c) s)"
  by pat_completeness auto
termination
proof (relation "measure (\<lambda>(_, s). length s)")
  fix b c s x kvs r
  assume "match_policy b (c # s) = Some x" "(kvs, r) = x"
  then have "length r < length (c # s)" using match_policy_length by blast
  then show "((False, r), b, c # s) \<in> measure (\<lambda>(_, s). length s)" by simp
qed auto

definition parse_policy_annotations :: "string \<Rightarrow> (string \<times> advice) list" where
  "parse_policy_annotations policy_text =
     concat (map (\<lambda>(i, kvs). if kvs = [] then [] else
         [(''policy'' @ nat_str i, dict_update [] (map (\<lambda>(k, v). (k, unescape_annotation v)) kvs))])
       (enumerate 0 (find_policies False (strip_line_comments policy_text))))"

subsection \<open>The Cedar adapter\<close>

type_synonym cedar_context = "(string \<times> json) list"

record cedar_request =
  rq_principal :: json
  rq_action :: string
  rq_resource :: json
  rq_context :: cedar_context

datatype cedar_outcome =
    Cedar_response bool "string list" "string list"
  | Cedar_raises string

record cedar_decision =
  cd_allowed :: bool
  cd_reason :: string
  cd_policy_ids :: "string list"
  cd_error :: "string option"

fun contains :: "string \<Rightarrow> string \<Rightarrow> bool" where
  "contains p [] = (p = [])"
| "contains p (c # s) = (starts_with p (c # s) \<or> contains p s)"

text \<open>\<open>str(v)\<close>: \<open>py_str\<close> is the text of a value that is not a string.\<close>

definition str_of :: "(json \<Rightarrow> string) \<Rightarrow> json \<Rightarrow> string" where
  "str_of py_str v = (case v of JStr s \<Rightarrow> s | _ \<Rightarrow> py_str v)"

definition entity :: "(json \<Rightarrow> string) \<Rightarrow> string \<Rightarrow> json \<Rightarrow> json" where
  "entity py_str kind v =
     (if contains ''::'' (str_of py_str v) then v
      else JStr (kind @ ''::'' @ [dquote] @ str_of py_str v @ [dquote]))"

definition ctx_get :: "cedar_context \<Rightarrow> string \<Rightarrow> json \<Rightarrow> json" where
  "ctx_get ctx k d = (case map_of ctx k of Some v \<Rightarrow> v | None \<Rightarrow> d)"

definition build_request :: "(json \<Rightarrow> string) \<Rightarrow> cedar_context \<Rightarrow> cedar_request" where
  "build_request py_str ctx =
     \<lparr>rq_principal = entity py_str ''Agent''
        (ctx_get ctx ''agent_id'' (JStr (''Agent::'' @ [dquote] @ ''anonymous'' @ [dquote]))),
      rq_action = ''Action::'' @ [dquote]
        @ cedar_action_name (str_of py_str (ctx_get ctx ''tool_name'' (JStr ''unknown''))) @ [dquote],
      rq_resource = entity py_str ''Resource''
        (ctx_get ctx ''resource'' (JStr (''Resource::'' @ [dquote] @ ''default'' @ [dquote]))),
      rq_context = filter (\<lambda>kv. fst kv \<notin> {''agent_id'', ''tool_name'', ''resource''}) ctx\<rparr>"

definition cedar_evaluate ::
  "(json \<Rightarrow> string) \<Rightarrow> (cedar_request \<Rightarrow> string \<Rightarrow> cedar_outcome) \<Rightarrow> string \<Rightarrow> cedar_context \<Rightarrow> cedar_decision" where
  "cedar_evaluate py_str is_authorized policy_content ctx =
     (case is_authorized (build_request py_str ctx) policy_content of
        Cedar_response al rs es \<Rightarrow>
          (let ok = al \<and> es = [];
               rs' = (if es \<noteq> [] \<and> al then [] else rs)
           in \<lparr>cd_allowed = ok,
               cd_reason = (if es \<noteq> [] then ''Cedar evaluation error: '' @ join ''; '' es
                            else ''Cedar (cedarpy): '' @ (if ok then ''allowed'' else ''denied'')),
               cd_policy_ids = rs',
               cd_error = (if join ''; '' es = [] then None else Some (join ''; '' es))\<rparr>)
      | Cedar_raises msg \<Rightarrow>
          \<lparr>cd_allowed = False, cd_reason = ''Cedar evaluation error: '' @ msg, cd_policy_ids = [],
           cd_error = Some msg\<rparr>)"

subsection \<open>The evaluator\<close>

datatype enforcement_mode = ENFORCING | ADVISORY | SILENT

datatype eval_error = Policy_deny string advice | Signing_revoked

record policy_result =
  pr_allowed :: bool
  pr_enforcement_mode :: enforcement_mode
  pr_rule_matched :: "string option"
  pr_advice :: advice
  pr_would_have_denied :: bool
  pr_decision :: decision

record evaluator =
  pe_mode :: enforcement_mode
  pe_store :: policy_store
  pe_sensitivity_order :: "int dict"
  pe_current_hash :: string
  pe_backend :: string
  pe_annotations :: "(string \<times> advice) list"

text \<open>The Cedar text of a bundle: the files in name order. Names are the keys of a dictionary, so
  sorting the pairs is sorting by name.\<close>

definition combined_policy :: "policy_bundle \<Rightarrow> string" where
  "combined_policy b = join [CHR 0x0A, CHR 0x0A] (map snd (sort_key fst (pb_policy_files b)))"

definition new_evaluator :: "policy_store \<Rightarrow> enforcement_mode \<Rightarrow> int dict option \<Rightarrow> evaluator" where
  "new_evaluator store mode vocabulary =
     \<lparr>pe_mode = mode, pe_store = store, pe_sensitivity_order = effective_sensitivity_order vocabulary,
      pe_current_hash = pb_bundle_hash (ps_bundle store),
      pe_backend = combined_policy (ps_bundle store),
      pe_annotations = parse_policy_annotations (combined_policy (ps_bundle store))\<rparr>"

text \<open>\<open>_maybe_reload\<close>; the flag says whether \<open>_notify_reload\<close> runs the re-attestation hook, whose
  failure is swallowed.\<close>

definition maybe_reload :: "crypto \<Rightarrow> reload_input \<Rightarrow> evaluator \<Rightarrow> bool \<times> evaluator" where
  "maybe_reload cy i ev =
     (let (now, now', f, d) = i;
          (reloaded, store) = reload_if_stale cy now now' f d (pe_store ev);
          ev1 = ev\<lparr>pe_store := store\<rparr>;
          bundle = ps_bundle store
      in (reloaded,
          if pb_bundle_hash bundle \<noteq> pe_current_hash ev1
          then ev1\<lparr>pe_backend := combined_policy bundle,
                   pe_annotations := parse_policy_annotations (combined_policy bundle),
                   pe_current_hash := pb_bundle_hash bundle\<rparr>
          else ev1))"

definition advice_for_deny :: "evaluator \<Rightarrow> string list \<Rightarrow> advice" where
  "advice_for_deny ev policy_ids =
     (if pe_annotations ev = [] then []
      else foldl (\<lambda>adv pid. dict_update adv (case map_of (pe_annotations ev) pid of Some a \<Rightarrow> a | None \<Rightarrow> []))
             [] policy_ids)"

definition deny_message :: "(json \<Rightarrow> string) \<Rightarrow> cedar_context \<Rightarrow> cedar_decision \<Rightarrow> string" where
  "deny_message py_str ctx r =
     ''Policy denied tool call: '' @ str_of py_str (ctx_get ctx ''tool_name'' (JStr ''?''))
     @ (if cd_error r \<noteq> None \<and> cd_error r \<noteq> Some [] then '' ('' @ cd_reason r @ '')'' else [])"

text \<open>The part of \<open>evaluate\<close> after the reload and the trust check.\<close>

definition apply_mode :: "(json \<Rightarrow> string) \<Rightarrow> evaluator \<Rightarrow> cedar_context \<Rightarrow> cedar_decision \<Rightarrow> eval_error + policy_result" where
  "apply_mode py_str ev ctx r =
     (let rule = (if cd_reason r = [] then None else Some (cd_reason r)) in
      if cd_allowed r then
        Inr \<lparr>pr_allowed = True, pr_enforcement_mode = pe_mode ev, pr_rule_matched = rule, pr_advice = [],
             pr_would_have_denied = False, pr_decision = ALLOW\<rparr>
      else let adv = advice_for_deny ev (cd_policy_ids r) in
        if pe_mode ev = ENFORCING then Inl (Policy_deny (deny_message py_str ctx r) adv)
        else Inr \<lparr>pr_allowed = True, pr_enforcement_mode = pe_mode ev, pr_rule_matched = rule, pr_advice = adv,
                  pr_would_have_denied = True, pr_decision = decision_for_deny adv\<rparr>)"

record engine =
  en_crypto :: crypto
  en_str :: "json \<Rightarrow> string"
  en_is_authorized :: "cedar_request \<Rightarrow> string \<Rightarrow> cedar_outcome"

definition evaluate_call :: "engine \<Rightarrow> reload_input \<Rightarrow> evaluator \<Rightarrow> cedar_context \<Rightarrow> (eval_error + policy_result) \<times> evaluator" where
  "evaluate_call en i ev ctx =
     (let ev1 = snd (maybe_reload (en_crypto en) i ev) in
      (case require_trusted (en_crypto en) (pe_store ev1) of
         Inl _ \<Rightarrow> Inl Signing_revoked
       | Inr _ \<Rightarrow> apply_mode (en_str en) ev1 ctx
           (cedar_evaluate (en_str en) (en_is_authorized en) (pe_backend ev1) ctx), ev1))"

definition EGRESS_CONTEXT_DEFAULTS :: cedar_context where
  "EGRESS_CONTEXT_DEFAULTS =
     [(''arguments'', JObj []), (''server_identity'', JStr []), (''compliance_domain'', JStr ''external''),
      (''baa_covered'', JBool False), (''destination_class'', JStr ''external''),
      (''attestation_platform'', JStr ''unknown'')]"

definition egress_context ::
  "evaluator \<Rightarrow> string \<Rightarrow> bytes \<Rightarrow> session_state \<Rightarrow> string option \<Rightarrow> cedar_context option \<Rightarrow> cedar_context" where
  "egress_context ev tool_name response session workflow_id call_context =
     (let ctx = dict_update EGRESS_CONTEXT_DEFAULTS (case call_context of None \<Rightarrow> [] | Some c \<Rightarrow> c);
          max_s = (case map_of ctx ''session_max_sensitivity'' of
                     Some (JStr declared) \<Rightarrow>
                       max_sensitivity declared (ss_max_sensitivity session) (pe_sensitivity_order ev)
                   | _ \<Rightarrow> ss_max_sensitivity session);
          ctx1 = dict_update ctx
            [(''tool_name'', JStr tool_name), (''resource'', JStr tool_name), (''egress'', JBool True),
             (''session_max_sensitivity'', JStr max_s),
             (''sensitivity_level'', JInt (rank (pe_sensitivity_order ev) max_s)),
             (''injection_events'', JInt (int (length (ss_injection_events session)))),
             (''reset_count'', JInt (int (ss_reset_count session))),
             (''response_size_bytes'', JInt (int (length response)))]
      in case workflow_id of None \<Rightarrow> ctx1 | Some w \<Rightarrow> upsert ctx1 ''workflow_id'' (JStr w))"

text \<open>\<open>authorize_egress\<close>: a reload, then \<open>evaluate\<close>, which reloads again.\<close>

definition authorize_egress ::
  "engine \<Rightarrow> reload_input \<Rightarrow> reload_input \<Rightarrow> evaluator \<Rightarrow> string \<Rightarrow> bytes \<Rightarrow> session_state \<Rightarrow> string option
   \<Rightarrow> cedar_context option \<Rightarrow> (eval_error + policy_result) \<times> evaluator" where
  "authorize_egress en i i' ev tool_name response session workflow_id call_context =
     (let ev1 = snd (maybe_reload (en_crypto en) i ev)
      in evaluate_call en i' ev1 (egress_context ev1 tool_name response session workflow_id call_context))"

subsection \<open>Facts\<close>

lemma cedar_allowed_iff:
  "cd_allowed (cedar_evaluate py_str auth pol ctx) \<longleftrightarrow>
     (\<exists>rs. auth (build_request py_str ctx) pol = Cedar_response True rs [])"
  by (auto simp: cedar_evaluate_def Let_def split: cedar_outcome.splits)

text \<open>The policy text evaluated is the one of the bundle in force.\<close>

definition evaluator_inv :: "evaluator \<Rightarrow> bool" where
  "evaluator_inv ev \<longleftrightarrow>
     pe_current_hash ev = pb_bundle_hash (ps_bundle (pe_store ev))
     \<and> pe_backend ev = combined_policy (ps_bundle (pe_store ev))
     \<and> pe_annotations ev = parse_policy_annotations (pe_backend ev)"

lemma new_evaluator_inv [cmcp_inv]: "evaluator_inv (new_evaluator store mode voc)"
  by (simp add: evaluator_inv_def new_evaluator_def)

lemma reload_same_hash:
  assumes "reload_if_stale cy now now' f d st = (b, st')" "pb_bundle_hash (ps_bundle st') = pb_bundle_hash (ps_bundle st)"
  shows "ps_bundle st' = ps_bundle st"
proof -
  have t: "ps_bundle s2 = ps_bundle s1" if "try_reload cy d s1 = Inr s2" "pb_bundle_hash (ps_bundle s2) = pb_bundle_hash (ps_bundle s1)" for s1 s2
    using try_reload_cases [OF that(1)] that(2) by auto
  show ?thesis
    using assms t
    by (force simp: reload_if_stale_def Let_def split: if_splits option.splits sum.splits)
qed

lemma maybe_reload_inv [cmcp_inv]:
  assumes "evaluator_inv ev" shows "evaluator_inv (snd (maybe_reload cy i ev))"
proof -
  obtain now now' f d where i: "i = (now, now', f, d)" by (cases i)
  obtain b st where r: "reload_if_stale cy now now' f d (pe_store ev) = (b, st)"
    by (cases "reload_if_stale cy now now' f d (pe_store ev)")
  show ?thesis
    using assms reload_same_hash [OF r] by (auto simp: maybe_reload_def i r Let_def evaluator_inv_def)
qed

lemma maybe_reload_frame [simp]:
  "pe_mode (snd (maybe_reload cy i ev)) = pe_mode ev"
  "pe_sensitivity_order (snd (maybe_reload cy i ev)) = pe_sensitivity_order ev"
  by (simp_all add: maybe_reload_def Let_def split: prod.splits)

lemma evaluate_call_inv [cmcp_inv]: "evaluator_inv ev \<Longrightarrow> evaluator_inv (snd (evaluate_call en i ev ctx))"
  by (simp add: evaluate_call_def Let_def maybe_reload_inv)

lemma evaluate_call_eq:
  assumes "evaluator_inv ev" "evaluate_call en i ev ctx = (res, ev')"
  shows "pe_mode ev' = pe_mode ev"
    and "res = (case require_trusted (en_crypto en) (pe_store ev') of Inl _ \<Rightarrow> Inl Signing_revoked
       | Inr _ \<Rightarrow> apply_mode (en_str en) ev' ctx
           (cedar_evaluate (en_str en) (en_is_authorized en) (combined_policy (ps_bundle (pe_store ev'))) ctx))"
proof -
  define ev1 where "ev1 = snd (maybe_reload (en_crypto en) i ev)"
  have ev': "ev' = ev1" using assms(2) by (simp add: evaluate_call_def Let_def ev1_def)
  then show "pe_mode ev' = pe_mode ev" by (simp add: ev1_def)
  have b: "combined_policy (ps_bundle (pe_store ev1)) = pe_backend ev1"
    using maybe_reload_inv [OF assms(1), of "en_crypto en" i] by (simp add: ev1_def evaluator_inv_def)
  show "res = (case require_trusted (en_crypto en) (pe_store ev') of Inl _ \<Rightarrow> Inl Signing_revoked
       | Inr _ \<Rightarrow> apply_mode (en_str en) ev' ctx
           (cedar_evaluate (en_str en) (en_is_authorized en) (combined_policy (ps_bundle (pe_store ev'))) ctx))"
    unfolding ev' b using assms(2) unfolding evaluate_call_def Let_def ev1_def [symmetric] prod.inject by blast
qed

lemma map_of_egress:
  assumes "call_context = None \<or> distinct (map fst (the call_context))"
  shows "map_of (egress_context ev tool response session wid call_context) k =
    (if k = ''workflow_id'' \<and> wid \<noteq> None then map_option JStr wid
     else if k = ''tool_name'' \<or> k = ''resource'' then Some (JStr tool)
     else if k = ''egress'' then Some (JBool True)
     else if k = ''session_max_sensitivity'' then
       Some (JStr (case Option.bind call_context (\<lambda>c. map_of c ''session_max_sensitivity'') of
            Some (JStr declared) \<Rightarrow> max_sensitivity declared (ss_max_sensitivity session) (pe_sensitivity_order ev)
          | _ \<Rightarrow> ss_max_sensitivity session))
     else if k = ''sensitivity_level'' then
       Some (JInt (rank (pe_sensitivity_order ev) (case Option.bind call_context (\<lambda>c. map_of c ''session_max_sensitivity'') of
            Some (JStr declared) \<Rightarrow> max_sensitivity declared (ss_max_sensitivity session) (pe_sensitivity_order ev)
          | _ \<Rightarrow> ss_max_sensitivity session)))
     else if k = ''injection_events'' then Some (JInt (int (length (ss_injection_events session))))
     else if k = ''reset_count'' then Some (JInt (int (ss_reset_count session)))
     else if k = ''response_size_bytes'' then Some (JInt (int (length response)))
     else case Option.bind call_context (\<lambda>c. map_of c k) of Some v \<Rightarrow> Some v | None \<Rightarrow> map_of EGRESS_CONTEXT_DEFAULTS k)"
proof -
  define c where "c = (case call_context of None \<Rightarrow> [] | Some c \<Rightarrow> c)"
  have d: "distinct (map fst c)" using assms by (auto simp: c_def split: option.splits)
  have c: "map_of c x = Option.bind call_context (\<lambda>c. map_of c x)" for x
    by (cases call_context) (simp_all add: c_def)
  have none: "map_of EGRESS_CONTEXT_DEFAULTS ''session_max_sensitivity'' = None"
    by (simp add: EGRESS_CONTEXT_DEFAULTS_def)
  have ctx: "map_of (dict_update EGRESS_CONTEXT_DEFAULTS c) x =
      (case Option.bind call_context (\<lambda>c. map_of c x) of Some v \<Rightarrow> Some v | None \<Rightarrow> map_of EGRESS_CONTEXT_DEFAULTS x)" for x
    using map_of_dict_update [OF d] by (simp add: map_add_def c split: option.splits)
  define m where "m = (case Option.bind call_context (\<lambda>c. map_of c ''session_max_sensitivity'') of
            Some (JStr declared) \<Rightarrow> max_sensitivity declared (ss_max_sensitivity session) (pe_sensitivity_order ev)
          | _ \<Rightarrow> ss_max_sensitivity session)"
  have meq: "(case map_of (dict_update EGRESS_CONTEXT_DEFAULTS c) ''session_max_sensitivity'' of
            Some (JStr declared) \<Rightarrow> max_sensitivity declared (ss_max_sensitivity session) (pe_sensitivity_order ev)
          | _ \<Rightarrow> ss_max_sensitivity session) = m"
    unfolding ctx m_def by (simp add: none split: option.splits)
  have e: "egress_context ev tool response session wid call_context =
     (let ctx1 = dict_update (dict_update EGRESS_CONTEXT_DEFAULTS c)
            [(''tool_name'', JStr tool), (''resource'', JStr tool), (''egress'', JBool True),
             (''session_max_sensitivity'', JStr m),
             (''sensitivity_level'', JInt (rank (pe_sensitivity_order ev) m)),
             (''injection_events'', JInt (int (length (ss_injection_events session)))),
             (''reset_count'', JInt (int (ss_reset_count session))),
             (''response_size_bytes'', JInt (int (length response)))]
      in case wid of None \<Rightarrow> ctx1 | Some w \<Rightarrow> upsert ctx1 ''workflow_id'' (JStr w))"
    by (simp only: egress_context_def c_def [symmetric] Let_def meq)
  show ?thesis
    unfolding e m_def [symmetric] Let_def
    by (cases wid) (auto simp: map_of_dict_update ctx map_add_def)
qed

subsection \<open>Properties\<close>

text \<open>C12: Enforcement fails closed. In enforcing mode \<open>evaluate\<close> lets a call through exactly when the
  policy in force is trusted and the Cedar engine, asked about the request built from the call's
  context under exactly the text of the bundle in force, answers Allow without reporting any error; an engine that
  raises, denies, or allows with errors never lets a call through. The decision is then allow.\<close>

theorem enforcing_fails_closed:
  assumes "evaluator_inv ev" "pe_mode ev = ENFORCING" "evaluate_call en i ev ctx = (res, ev')"
  shows "((\<exists>r. res = Inr r) \<longleftrightarrow>
      require_trusted (en_crypto en) (pe_store ev') = Inr ()
      \<and> (\<exists>rs. en_is_authorized en (build_request (en_str en) ctx) (combined_policy (ps_bundle (pe_store ev')))
            = Cedar_response True rs []))
    \<and> (\<forall>r. res = Inr r \<longrightarrow> pr_decision r = ALLOW \<and> \<not> pr_would_have_denied r)"
proof -
  have m: "pe_mode ev' = ENFORCING" using evaluate_call_eq(1) [OF assms(1,3)] assms(2) by simp
  show ?thesis
    unfolding evaluate_call_eq(2) [OF assms(1,3)] using m
    by (auto simp: apply_mode_def cedar_allowed_iff [symmetric] Let_def split: sum.splits)
qed

definition sample_engine :: engine where
  "sample_engine = \<lparr>en_crypto = sample_crypto, en_str = (\<lambda>_. []),
     en_is_authorized = (\<lambda>r p. if rq_action r = ''Action::'' @ [dquote] @ ''A'' @ [dquote]
        then Cedar_response True [''policy0''] [] else Cedar_response True [''policy0''] [''missing attribute''])\<rparr>"

theorem enforcing_fails_closed_witness:
  "let ev = new_evaluator sample_store ENFORCING None; i = (0, 0, Absent, sample_bundle_dir) in
   is_ok (fst (evaluate_call sample_engine i ev [(''tool_name'', JStr ''a'')]))
   \<and> \<not> is_ok (fst (evaluate_call sample_engine i ev [(''tool_name'', JStr ''b'')]))"
proof -
  let ?ev = "new_evaluator sample_store ENFORCING None" and ?i = "(0, 0, Absent, sample_bundle_dir)"
  have st: "require_trusted (en_crypto sample_engine) (pe_store (snd (evaluate_call sample_engine ?i ?ev ctx))) = Inr ()" for ctx
    by (simp add: evaluate_call_def maybe_reload_def reload_if_stale_def new_evaluator_def sample_store_def Let_def
        require_trusted_def is_revoked_def)
  have act: "rq_action (build_request (\<lambda>_. []) [(''tool_name'', JStr ''a'')]) = ''Action::'' @ [dquote] @ ''A'' @ [dquote]"
    "rq_action (build_request (\<lambda>_. []) [(''tool_name'', JStr ''b'')]) = ''Action::'' @ [dquote] @ ''B'' @ [dquote]"
    by (simp_all add: build_request_def ctx_get_def str_of_def sample_actions)
  have m: "pe_mode ?ev = ENFORCING" by (simp add: new_evaluator_def)
  have "is_ok (fst (evaluate_call sample_engine ?i ?ev [(''tool_name'', JStr ''a'')]))"
    "\<not> is_ok (fst (evaluate_call sample_engine ?i ?ev [(''tool_name'', JStr ''b'')]))"
    using enforcing_fails_closed [OF new_evaluator_inv m surjective_pairing, of sample_engine ?i "[(''tool_name'', JStr ''a'')]"]
      enforcing_fails_closed [OF new_evaluator_inv m surjective_pairing, of sample_engine ?i "[(''tool_name'', JStr ''b'')]"]
      st act by (auto simp: is_ok_iff sample_engine_def)
  then show ?thesis by (simp add: Let_def)
qed

text \<open>Advisory and silent modes never hide what policy decided. Outside enforcing mode a call
  evaluated under a trusted policy is let through, and the result says that policy would have denied
  exactly when the engine did not cleanly allow; the recorded decision is then deny, step-up or
  defer as the matched policies' annotations say, and allow otherwise.\<close>

theorem advisory_records_denial:
  assumes "evaluator_inv ev" "pe_mode ev \<noteq> ENFORCING" "evaluate_call en i ev ctx = (res, ev')"
    and "require_trusted (en_crypto en) (pe_store ev') = Inr ()"
  shows "\<exists>r. res = Inr r \<and> pr_allowed r
    \<and> (pr_would_have_denied r \<longleftrightarrow>
        (\<nexists>rs. en_is_authorized en (build_request (en_str en) ctx) (combined_policy (ps_bundle (pe_store ev')))
            = Cedar_response True rs []))
    \<and> (pr_would_have_denied r \<longrightarrow> pr_decision r = decision_for_deny (pr_advice r) \<and> pr_decision r \<noteq> ALLOW)
    \<and> (\<not> pr_would_have_denied r \<longrightarrow> pr_decision r = ALLOW)"
proof -
  have m: "pe_mode ev' \<noteq> ENFORCING" using evaluate_call_eq(1) [OF assms(1,3)] assms(2) by simp
  have "decision_for_deny a \<noteq> ALLOW" for a using decision_for_deny_blocks [of a] by auto
  then show ?thesis
    unfolding evaluate_call_eq(2) [OF assms(1,3)] using m
    by (auto simp: assms(4) apply_mode_def cedar_allowed_iff Let_def)
qed

theorem advisory_records_denial_witness:
  "let ev = new_evaluator sample_store ADVISORY None; i = (0, 0, Absent, sample_bundle_dir) in
   \<exists>r. fst (evaluate_call sample_engine i ev [(''tool_name'', JStr ''b'')]) = Inr r \<and> pr_allowed r \<and> pr_would_have_denied r"
proof -
  let ?ev = "new_evaluator sample_store ADVISORY None" and ?i = "(0, 0, Absent, sample_bundle_dir)"
  have st: "require_trusted (en_crypto sample_engine) (pe_store (snd (evaluate_call sample_engine ?i ?ev ctx))) = Inr ()" for ctx
    by (simp add: evaluate_call_def maybe_reload_def reload_if_stale_def new_evaluator_def sample_store_def Let_def
        require_trusted_def is_revoked_def)
  have act: "rq_action (build_request (\<lambda>_. []) [(''tool_name'', JStr ''b'')]) = ''Action::'' @ [dquote] @ ''B'' @ [dquote]"
    by (simp add: build_request_def ctx_get_def str_of_def sample_actions)
  have m: "pe_mode ?ev \<noteq> ENFORCING" by (simp add: new_evaluator_def)
  from advisory_records_denial [OF new_evaluator_inv m surjective_pairing st, of "[(''tool_name'', JStr ''b'')]"] act
  show ?thesis by (auto simp: Let_def sample_engine_def)
qed

text \<open>A policy signed by a revoked key refuses every call in every mode. When the bundle in force
  after the reload was signed by a key that is revoked, \<open>evaluate\<close> and \<open>authorize_egress\<close> answer
  with the revocation error whatever the mode, the engine and the call.\<close>

theorem revoked_policy_refuses:
  assumes "evaluate_call en i ev ctx = (res, ev')" "ps_keys (pe_store ev') = Some ks"
    and "is_revoked (en_crypto en) ks (pb_signing_key_id (ps_bundle (pe_store ev')))"
  shows "res = Inl Signing_revoked"
  using assms by (auto simp: evaluate_call_def Let_def require_trusted_def split: sum.splits)

definition revoked_store :: policy_store where
  "revoked_store = sample_store
     \<lparr>ps_bundle := (ps_bundle sample_store)\<lparr>pb_signing_key_id := Some (policy_key_id sample_crypto ''key'')\<rparr>,
      ps_keys := Some \<lparr>sk_current = None, sk_successor = None, sk_revoked = [''key'']\<rparr>\<rparr>"

theorem revoked_policy_refuses_witness:
  "fst (evaluate_call sample_engine (0, 0, Absent, sample_bundle_dir) (new_evaluator revoked_store SILENT None) []) = Inl Signing_revoked"
proof -
  let ?e = "evaluate_call sample_engine (0, 0, Absent, sample_bundle_dir) (new_evaluator revoked_store SILENT None) []"
  have s: "pe_store (snd ?e) = revoked_store"
    by (simp add: evaluate_call_def maybe_reload_def reload_if_stale_def new_evaluator_def revoked_store_def sample_store_def Let_def)
  have k: "ps_keys revoked_store = Some \<lparr>sk_current = None, sk_successor = None, sk_revoked = [''key'']\<rparr>"
    "is_revoked (en_crypto sample_engine) \<lparr>sk_current = None, sk_successor = None, sk_revoked = [''key'']\<rparr>
       (pb_signing_key_id (ps_bundle revoked_store))"
    by (simp_all add: revoked_store_def is_revoked_def revoked_key_ids_def sample_engine_def)
  show ?thesis
    using revoked_policy_refuses [OF surjective_pairing [of ?e], unfolded s, OF k] .
qed

text \<open>The egress decision is never taken on a lower sensitivity than the session holds. The
  context built for the egress evaluation carries, whatever the call context declares, a
  sensitivity at least as high as the session's and as the declared one, its rank as
  \<open>sensitivity_level\<close>, and every key the ingress context carries, with the conservative default where
  no call context is given.\<close>

theorem egress_never_lowers_sensitivity:
  assumes "call_context = None \<or> distinct (map fst (the call_context))"
    and "egress = egress_context ev tool response session wid call_context"
  shows "\<exists>m. map_of egress ''session_max_sensitivity'' = Some (JStr m)
      \<and> map_of egress ''sensitivity_level'' = Some (JInt (rank (pe_sensitivity_order ev) m))
      \<and> rank (pe_sensitivity_order ev) (ss_max_sensitivity session) \<le> rank (pe_sensitivity_order ev) m
      \<and> (\<forall>c declared. call_context = Some c \<and> map_of c ''session_max_sensitivity'' = Some (JStr declared)
           \<longrightarrow> rank (pe_sensitivity_order ev) declared \<le> rank (pe_sensitivity_order ev) m)
      \<and> set (map fst EGRESS_CONTEXT_DEFAULTS) \<union> (case call_context of None \<Rightarrow> {} | Some c \<Rightarrow> fst ` set c) \<subseteq> fst ` set egress"
proof -
  note e = map_of_egress [OF assms(1), of ev tool response session wid]
  define m where "m = (case Option.bind call_context (\<lambda>c. map_of c ''session_max_sensitivity'') of
            Some (JStr declared) \<Rightarrow> max_sensitivity declared (ss_max_sensitivity session) (pe_sensitivity_order ev)
          | _ \<Rightarrow> ss_max_sensitivity session)"
  have "map_of egress ''session_max_sensitivity'' = Some (JStr m)"
    "map_of egress ''sensitivity_level'' = Some (JInt (rank (pe_sensitivity_order ev) m))"
    unfolding assms(2) e m_def by simp_all
  moreover have "rank (pe_sensitivity_order ev) (ss_max_sensitivity session) \<le> rank (pe_sensitivity_order ev) m"
    unfolding m_def by (auto split: option.splits json.splits)
  moreover have "\<forall>c declared. call_context = Some c \<and> map_of c ''session_max_sensitivity'' = Some (JStr declared)
      \<longrightarrow> rank (pe_sensitivity_order ev) declared \<le> rank (pe_sensitivity_order ev) m"
    unfolding m_def by auto
  moreover have "k \<in> fst ` set egress" if "k \<in> set (map fst EGRESS_CONTEXT_DEFAULTS) \<union> (case call_context of None \<Rightarrow> {} | Some c \<Rightarrow> fst ` set c)" for k
  proof -
    have "map_of EGRESS_CONTEXT_DEFAULTS k \<noteq> None \<or> Option.bind call_context (\<lambda>c. map_of c k) \<noteq> None"
      using that by (fastforce simp: map_of_eq_None_iff split: option.splits)
    then have "map_of egress k \<noteq> None" unfolding assms(2) e by (auto split: option.splits)
    then show ?thesis by (simp add: map_of_eq_None_iff)
  qed
  ultimately show ?thesis by blast
qed

theorem egress_never_lowers_sensitivity_witness:
  "\<exists>m. map_of (egress_context (new_evaluator sample_store ENFORCING None) ''a'' ''r''
       ((new_session_state ''s'' SENSITIVITY_ORDER)\<lparr>ss_max_sensitivity := ''mnpi''\<rparr>) None
       (Some [(''session_max_sensitivity'', JStr ''public'')])) ''session_max_sensitivity'' = Some (JStr m)
     \<and> rank (effective_sensitivity_order None) ''mnpi'' \<le> rank (effective_sensitivity_order None) m"
  using egress_never_lowers_sensitivity [OF _ refl, of "Some [(''session_max_sensitivity'', JStr ''public'')]"
      "new_evaluator sample_store ENFORCING None" "''a''" "''r''"
      "(new_session_state ''s'' SENSITIVITY_ORDER)\<lparr>ss_max_sensitivity := ''mnpi''\<rparr>" None]
  by (auto simp: new_evaluator_def)

text \<open>The annotation reader can number policies differently from Cedar. On this text of two policies,
  where the first has a condition that compares with a string containing \<open>permit(\<close>, it gives the
  annotations of the second policy to \<open>policy2\<close> and none to \<open>policy1\<close>, the identifier Cedar uses for
  the second policy; the step-up that the author wrote is then lost and the denial is a plain deny.\<close>

theorem annotation_numbering_shift:
  "let q = [dquote];
       text = ''permit(principal, action, resource) when { context.note == '' @ q @ ''permit('' @ q @ '' }; ''
            @ ''@aarm_decision('' @ q @ ''step_up'' @ q @ '') forbid(principal, action, resource);''
   in parse_policy_annotations text = [(''policy2'', [(''aarm_decision'', ''step_up'')])]
      \<and> decision_for_deny (advice_for_deny
          ((new_evaluator sample_store ENFORCING None)\<lparr>pe_annotations := parse_policy_annotations text\<rparr>) [''policy1'']) = DENY"
proof -
  let ?text = "''permit(principal, action, resource) when { context.note == '' @ [dquote] @ ''permit('' @ [dquote] @ '' }; ''
            @ ''@aarm_decision('' @ [dquote] @ ''step_up'' @ [dquote] @ '') forbid(principal, action, resource);''"
  have p: "parse_policy_annotations ?text = [(''policy2'', [(''aarm_decision'', ''step_up'')])]" by code_simp
  show ?thesis unfolding Let_def p by (simp add: advice_for_deny_def dict_update_def decision_for_deny_def)
qed

end
