(* ===== verification/Approval.thy ===== *)
theory Approval
  imports Policy_Bundle
begin

text \<open>
  Detached approvals of catalog changes (\<open>catalog/approval.py\<close>): the RFC 8785
  text that is signed, the policy digest and the verification of a record. The
  JSON Schema validator is a predicate argument; a record whose fields do not
  have the shape the schema requires is a schema violation here. Code points are
  below 256, so UTF-16 order is the order of strings.
\<close>

datatype approval_error = Approval_error string | Approval_mismatch string

subsection \<open>Canonical text\<close>

definition jcs_escape :: "char \<Rightarrow> string" where
  "jcs_escape c =
     (let n = (of_char c :: nat) in
      if c = dquote \<or> c = backslash \<or> n < 32 then escape_char c
      else if n < 128 then [c]
      else [char_of (192 + n div 64), char_of (128 + n mod 64)])"

definition jcs_str :: "string \<Rightarrow> bytes" where
  "jcs_str s = dquote # concat (map jcs_escape s) @ [dquote]"

text \<open>\<open>_canonical_members\<close> raises on floats and on integers a double cannot hold exactly.\<close>

fun jcs_ok :: "json \<Rightarrow> bool" where
  "jcs_ok (JFloat t) = False"
| "jcs_ok (JInt i) = (\<bar>i\<bar> \<le> 2 ^ 53 - 1)"
| "jcs_ok (JArr xs) = list_all jcs_ok xs"
| "jcs_ok (JObj kvs) = list_all (\<lambda>(k, v). jcs_ok v) kvs"
| "jcs_ok v = True"

fun jcs_render :: "json \<Rightarrow> bytes" where
  "jcs_render JNull = ''null''"
| "jcs_render (JBool b) = (if b then ''true'' else ''false'')"
| "jcs_render (JInt i) = int_str i"
| "jcs_render (JFloat t) = t"
| "jcs_render (JStr s) = jcs_str s"
| "jcs_render (JArr xs) = ''['' @ join '','' (map jcs_render xs) @ '']''"
| "jcs_render (JObj kvs) = ''{'' @ join '','' (map (\<lambda>(k, v). jcs_str k @ '':'' @ jcs_render v) kvs) @ ''}''"

definition approval_canonical_json :: "json \<Rightarrow> approval_error + bytes" where
  "approval_canonical_json v =
     (if jcs_ok v then Inr (jcs_render (norm_json v)) else Inl (Approval_error ''not canonical JSON''))"

definition digest_json :: "(bytes \<Rightarrow> bytes) \<Rightarrow> json \<Rightarrow> approval_error + string" where
  "digest_json sha256 v =
     bind_result (approval_canonical_json v) (\<lambda>b. Inr (''sha256:'' @ hexlify (sha256 b)))"

definition without_key :: "string \<Rightarrow> json \<Rightarrow> json" where
  "without_key k v = JObj (filter (\<lambda>kv. fst kv \<noteq> k) (manifest_items v))"

definition compute_policy_hash :: "(bytes \<Rightarrow> bytes) \<Rightarrow> json \<Rightarrow> approval_error + string" where
  "compute_policy_hash sha256 policy = digest_json sha256 (without_key ''policy_hash'' policy)"

definition approval_input :: "json \<Rightarrow> json \<Rightarrow> approval_error + bytes" where
  "approval_input record_json approval_json =
     approval_canonical_json (JObj [(''record'', without_key ''approvals'' record_json),
                                    (''approval'', without_key ''signature'' approval_json)])"

text \<open>\<open>_decode\<close>, with the padding it computes.\<close>

definition decode_signature :: "string \<Rightarrow> approval_error + bytes" where
  "decode_signature value =
     (case b64url_decode value of
        None \<Rightarrow> Inl (Approval_error ''signature is not valid base64url'')
      | Some raw \<Rightarrow> if length raw \<noteq> 64 then Inl (Approval_error ''signature must decode to 64 bytes'') else Inr raw)"

definition require_digest :: "string \<Rightarrow> approval_error + string" where
  "require_digest value =
     (if length value \<noteq> 71 \<or> \<not> starts_with ''sha256:'' value then Inl (Approval_error ''must be a sha256 digest'')
      else if \<not> list_all (\<lambda>c. c \<in> set ''0123456789abcdef'') (drop 7 value)
      then Inl (Approval_error ''must be lowercase hexadecimal'') else Inr value)"

subsection \<open>Records\<close>

record reviewer =
  rv_principal_id :: string
  rv_issuer :: string
  rv_key :: bytes
  rv_role :: "string option"

record approval =
  ap_json :: json
  ap_principal_id :: string
  ap_issuer :: string
  ap_key_id :: string
  ap_role :: string
  ap_approved_at :: int
  ap_expires_at :: int
  ap_signature :: string

record change_record =
  cg_json :: json
  cg_catalog_id :: string
  cg_sequence :: int
  cg_previous_record_hash :: string
  cg_previous_catalog_hash :: string
  cg_new_catalog_hash :: string
  cg_policy :: json
  cg_policy_hash :: string
  cg_threshold :: int
  cg_distinct_principals :: bool
  cg_distinct_roles :: bool
  cg_approvals :: "approval list"

definition field_str :: "json \<Rightarrow> string \<Rightarrow> string option" where
  "field_str v k = (case jfield v k of Some (JStr s) \<Rightarrow> Some s | _ \<Rightarrow> None)"

definition field_int :: "json \<Rightarrow> string \<Rightarrow> int option" where
  "field_int v k = (case jfield v k of Some (JInt i) \<Rightarrow> Some i | _ \<Rightarrow> None)"

definition field_bool :: "json \<Rightarrow> string \<Rightarrow> bool option" where
  "field_bool v k = (case jfield v k of Some (JBool b) \<Rightarrow> Some b | _ \<Rightarrow> None)"

definition parse_approval :: "json \<Rightarrow> approval option" where
  "parse_approval v =
     (case (field_str v ''principal_id'', field_str v ''issuer'', field_str v ''key_id'', field_str v ''role'',
            field_int v ''approved_at'', field_int v ''expires_at'', field_str v ''signature'') of
        (Some p, Some i, Some k, Some r, Some a, Some e, Some s) \<Rightarrow>
          Some \<lparr>ap_json = v, ap_principal_id = p, ap_issuer = i, ap_key_id = k, ap_role = r, ap_approved_at = a,
                ap_expires_at = e, ap_signature = s\<rparr>
      | _ \<Rightarrow> None)"

definition parse_record :: "json \<Rightarrow> change_record option" where
  "parse_record v =
     (case (field_str v ''catalog_id'', field_int v ''sequence'', field_str v ''previous_record_hash'',
            field_str v ''previous_catalog_hash'', field_str v ''new_catalog_hash'', jfield v ''approval_policy'',
            jfield v ''approvals'') of
        (Some cid, Some sq, Some prh, Some pch, Some nch, Some pol, Some (JArr aps)) \<Rightarrow>
          (case (field_str pol ''policy_hash'', field_int pol ''threshold'', field_bool pol ''distinct_principals'',
                 field_bool pol ''distinct_roles'') of
             (Some ph, Some th, Some dp, Some dr) \<Rightarrow>
               if None \<in> set (map parse_approval aps) then None
               else Some \<lparr>cg_json = v, cg_catalog_id = cid, cg_sequence = sq, cg_previous_record_hash = prh,
                     cg_previous_catalog_hash = pch, cg_new_catalog_hash = nch, cg_policy = pol, cg_policy_hash = ph,
                     cg_threshold = th, cg_distinct_principals = dp, cg_distinct_roles = dr,
                     cg_approvals = map (the \<circ> parse_approval) aps\<rparr>
           | _ \<Rightarrow> None)
      | _ \<Rightarrow> None)"

subsection \<open>Verification\<close>

text \<open>What the verifier is configured with.\<close>

record expectations =
  ex_runtime_catalog_hash :: string
  ex_policy_hash :: string
  ex_catalog_id :: string
  ex_validity_instant :: "int option"
  ex_revoked_key_ids :: "string list"
  ex_sequence :: "int option"
  ex_previous_record_hash :: "string option"
  ex_previous_catalog_hash :: "string option"

type_synonym reviewers = "string \<Rightarrow> reviewer option"

text \<open>The checks of one approval up to the distinctness rules. \<open>Key_value_error\<close> cannot come from a key
  object that exists; it is refused like a bad signature.\<close>

definition check_approval ::
  "(bytes \<Rightarrow> bytes \<Rightarrow> bytes \<Rightarrow> verify_outcome) \<Rightarrow> reviewers \<Rightarrow> expectations \<Rightarrow> change_record \<Rightarrow> approval
     \<Rightarrow> approval_error + unit" where
  "check_approval ed25519 trusted ex rec a =
     (if ap_key_id a \<in> set (ex_revoked_key_ids ex) then Inl (Approval_mismatch ''reviewer key is revoked'')
      else case trusted (ap_key_id a) of
        None \<Rightarrow> Inl (Approval_mismatch ''reviewer key is not trusted'')
      | Some r \<Rightarrow>
          if ap_principal_id a \<noteq> rv_principal_id r \<or> ap_issuer a \<noteq> rv_issuer r
          then Inl (Approval_mismatch ''principal or issuer'')
          else if rv_role r \<noteq> None \<and> Some (ap_role a) \<noteq> rv_role r then Inl (Approval_mismatch ''role'')
          else if ap_expires_at a \<le> ap_approved_at a then Inl (Approval_error ''validity interval'')
          else let instant = (case ex_validity_instant ex of None \<Rightarrow> ap_approved_at a | Some t \<Rightarrow> t) in
            if instant < ap_approved_at a \<or> ap_expires_at a \<le> instant then Inl (Approval_mismatch ''not valid at the instant'')
            else bind_result (decode_signature (ap_signature a)) (\<lambda>sig.
                 bind_result (approval_input (cg_json rec) (ap_json a)) (\<lambda>msg.
                   if ed25519 (rv_key r) sig msg \<noteq> Verified then Inl (Approval_mismatch ''signature is invalid'')
                   else Inr ())))"

fun check_approvals ::
  "(bytes \<Rightarrow> bytes \<Rightarrow> bytes \<Rightarrow> verify_outcome) \<Rightarrow> reviewers \<Rightarrow> expectations \<Rightarrow> change_record
     \<Rightarrow> string list \<Rightarrow> string list \<Rightarrow> string list \<Rightarrow> nat \<Rightarrow> approval list \<Rightarrow> approval_error + nat" where
  "check_approvals ed25519 trusted ex rec principals roles keys_used n [] = Inr n"
| "check_approvals ed25519 trusted ex rec principals roles keys_used n (a # as) =
     bind_result (check_approval ed25519 trusted ex rec a) (\<lambda>_.
       if cg_distinct_principals rec \<and> ap_principal_id a \<in> set principals
       then Inl (Approval_mismatch ''repeats a principal'')
       else if cg_distinct_roles rec \<and> ap_role a \<in> set roles then Inl (Approval_mismatch ''repeats a role'')
       else if ap_key_id a \<in> set keys_used then Inl (Approval_mismatch ''reuses a reviewer key'')
       else check_approvals ed25519 trusted ex rec (ap_principal_id a # principals) (ap_role a # roles)
              (ap_key_id a # keys_used) (n + 1) as)"

definition verify_catalog_change ::
  "(bytes \<Rightarrow> bytes) \<Rightarrow> (bytes \<Rightarrow> bytes \<Rightarrow> bytes \<Rightarrow> verify_outcome) \<Rightarrow> (json \<Rightarrow> bool) \<Rightarrow> reviewers \<Rightarrow> expectations
     \<Rightarrow> json \<Rightarrow> approval_error + nat \<times> string" where
  "verify_catalog_change sha256 ed25519 schema_ok trusted ex record_json =
     (if \<not> schema_ok record_json then Inl (Approval_error ''schema violation'')
      else case parse_record record_json of
        None \<Rightarrow> Inl (Approval_error ''schema violation'')
      | Some rec \<Rightarrow>
          if cg_catalog_id rec \<noteq> ex_catalog_id ex then Inl (Approval_mismatch ''catalog'')
          else if ex_sequence ex \<noteq> None \<and> Some (cg_sequence rec) \<noteq> ex_sequence ex then Inl (Approval_mismatch ''sequence'')
          else if ex_previous_record_hash ex \<noteq> None \<and> Some (cg_previous_record_hash rec) \<noteq> ex_previous_record_hash ex
          then Inl (Approval_mismatch ''chain element'')
          else if ex_previous_catalog_hash ex \<noteq> None \<and> Some (cg_previous_catalog_hash rec) \<noteq> ex_previous_catalog_hash ex
          then Inl (Approval_mismatch ''previous_catalog_hash'')
          else if cg_new_catalog_hash rec \<noteq> ex_runtime_catalog_hash ex then Inl (Approval_mismatch ''new_catalog_hash'')
          else bind_result (compute_policy_hash sha256 (cg_policy rec)) (\<lambda>ph.
            if ph \<noteq> cg_policy_hash rec then Inl (Approval_error ''policy_hash does not cover the policy body'')
            else bind_result (require_digest (ex_policy_hash ex)) (\<lambda>expected.
              if cg_policy_hash rec \<noteq> expected then Inl (Approval_mismatch ''untrusted policy'')
              else if int (length (cg_approvals rec)) < cg_threshold rec then Inl (Approval_mismatch ''threshold'')
              else bind_result (check_approvals ed25519 trusted ex rec [] [] [] 0 (cg_approvals rec)) (\<lambda>valid.
                     Inr (valid, cg_new_catalog_hash rec)))))"

text \<open>\<open>sign_approval\<close>, with the signing operation as an argument.\<close>

definition sign_approval :: "(bytes \<Rightarrow> bytes) \<Rightarrow> json \<Rightarrow> json \<Rightarrow> approval_error + json" where
  "sign_approval sign record_json approval_json =
     bind_result (approval_input record_json approval_json) (\<lambda>msg.
       Inr (JObj (upsert (manifest_items approval_json) ''signature'' (JStr (b64url (sign msg))))))"

subsection \<open>What acceptance means\<close>

text \<open>An approval that counts: a trusted key that is not revoked, the reviewer it belongs to, a
  validity interval around the instant, and a signature over this record and this approval.\<close>

definition approval_counts ::
  "(bytes \<Rightarrow> bytes \<Rightarrow> bytes \<Rightarrow> verify_outcome) \<Rightarrow> reviewers \<Rightarrow> expectations \<Rightarrow> change_record \<Rightarrow> approval \<Rightarrow> bool" where
  "approval_counts ed25519 trusted ex rec a \<longleftrightarrow>
     ap_key_id a \<notin> set (ex_revoked_key_ids ex)
     \<and> (\<exists>r sig msg. trusted (ap_key_id a) = Some r \<and> ap_principal_id a = rv_principal_id r \<and> ap_issuer a = rv_issuer r
          \<and> (rv_role r = None \<or> rv_role r = Some (ap_role a))
          \<and> b64url_decode (ap_signature a) = Some sig \<and> length sig = 64
          \<and> approval_input (cg_json rec) (ap_json a) = Inr msg \<and> ed25519 (rv_key r) sig msg = Verified)
     \<and> ap_approved_at a < ap_expires_at a
     \<and> (case ex_validity_instant ex of None \<Rightarrow> True | Some t \<Rightarrow> ap_approved_at a \<le> t \<and> t < ap_expires_at a)"

lemma check_approval_iff:
  "check_approval ed25519 trusted ex rec a = Inr () \<longleftrightarrow> approval_counts ed25519 trusted ex rec a"
  by (auto simp: check_approval_def approval_counts_def decode_signature_def bind_result_eq_Inr Let_def
      split: option.splits if_splits)

lemma check_approvals_iff:
  "check_approvals ed25519 trusted ex rec ps rs ks n as = Inr m \<longleftrightarrow>
     m = n + length as \<and> list_all (approval_counts ed25519 trusted ex rec) as
     \<and> distinct (map ap_key_id as) \<and> set (map ap_key_id as) \<inter> set ks = {}
     \<and> (cg_distinct_principals rec \<longrightarrow> distinct (map ap_principal_id as) \<and> set (map ap_principal_id as) \<inter> set ps = {})
     \<and> (cg_distinct_roles rec \<longrightarrow> distinct (map ap_role as) \<and> set (map ap_role as) \<inter> set rs = {})"
proof (induction as arbitrary: ps rs ks n)
  case (Cons a as)
  have c: "(\<exists>u. check_approval ed25519 trusted ex rec a = Inr u) \<longleftrightarrow> approval_counts ed25519 trusted ex rec a"
    using check_approval_iff by (metis old.unit.exhaust)
  show ?case
    by (simp add: bind_result_eq_Inr Cons.IH c [symmetric]) (auto simp: image_iff)
qed auto

subsection \<open>Properties\<close>


end
