(* ===== verification/Sink_Policy.thy ===== *)
theory Sink_Policy
  imports Session_State
begin

text \<open>
  Operator-owned sensitivity ceilings (\<open>sink_policy.py\<close>). The order is a
  dictionary from label to rank.
\<close>

datatype sink_error = Sink_config_error string | Sink_denied string

record sink_policy =
  sp_tool_max_sensitivity :: "(string \<times> string) list"
  sp_response_max_sensitivity :: string

text \<open>\<open>__post_init__\<close>, for a mapping of strings; a value of another type fails the same checks.\<close>

definition new_sink_policy :: "(string \<times> string) list \<Rightarrow> string \<Rightarrow> sink_error + sink_policy" where
  "new_sink_policy tools response =
     (if list_ex (\<lambda>(k, v). k = [] \<or> v = []) tools then Inl (Sink_config_error ''nonempty strings'')
      else if response = [] then Inl (Sink_config_error ''response_max_sensitivity'')
      else Inr \<lparr>sp_tool_max_sensitivity = tools, sp_response_max_sensitivity = response\<rparr>)"

definition sink_validate :: "sink_policy \<Rightarrow> int dict \<Rightarrow> sink_error + unit" where
  "sink_validate p order =
     (if list_ex (\<lambda>label. order label = None) (map snd (sp_tool_max_sensitivity p) @ [sp_response_max_sensitivity p])
      then Inl (Sink_config_error ''unknown sensitivity ceiling'') else Inr ())"

definition sink_ceiling :: "sink_policy \<Rightarrow> string option \<Rightarrow> string option" where
  "sink_ceiling p tool =
     (case tool of None \<Rightarrow> Some (sp_response_max_sensitivity p) | Some t \<Rightarrow> map_of (sp_tool_max_sensitivity p) t)"

definition sink_require :: "sink_policy \<Rightarrow> string option \<Rightarrow> string list \<Rightarrow> int dict \<Rightarrow> sink_error + unit" where
  "sink_require p tool labels order =
     (let denied = Inl (Sink_denied (if tool = None then ''response'' else ''tool'')) in
      case sink_ceiling p tool of
        None \<Rightarrow> denied
      | Some ceiling \<Rightarrow>
          (case order ceiling of
             None \<Rightarrow> denied
           | Some c \<Rightarrow>
               if labels = [] \<or> list_ex (\<lambda>l. order l = None) labels \<or> list_ex (\<lambda>l. the (order l) > c) labels
               then denied else Inr ()))"

subsection \<open>Properties\<close>

text \<open>A sink admits data only under a known ceiling. \<open>require\<close> admits labels for a tool, or for the
  response, exactly when the operator set a ceiling for that sink, the ceiling is a known label, there is at
  least one label, and every label is known and ranks no higher than the ceiling; an unknown tool or
  label is denied.\<close>

theorem sink_require_iff:
  "sink_require p tool labels order = Inr () \<longleftrightarrow>
     (\<exists>ceiling c. sink_ceiling p tool = Some ceiling \<and> order ceiling = Some c \<and> labels \<noteq> []
        \<and> list_all (\<lambda>l. \<exists>r. order l = Some r \<and> r \<le> c) labels)"
  by (auto simp: sink_require_def Let_def list_ex_iff list_all_iff not_less split: option.splits)
    (metis not_le option.distinct(1) option.exhaust_sel option.sel)+

text \<open>What a sink admits stays under its ceiling when combined: folding the admitted labels with
  the session's maximum operation gives a label whose rank is at most the ceiling's.\<close>

theorem sink_join_below_ceiling:
  assumes "sink_require p tool (l # ls) order = Inr ()" "sink_ceiling p tool = Some ceiling"
  shows "rank order (foldl (\<lambda>a b. max_sensitivity a b order) l ls) \<le> rank order ceiling"
proof -
  have r: "rank order x \<le> rank order ceiling" if "x \<in> set (l # ls)" for x
    using assms that
    by (auto simp: sink_require_def Let_def list_ex_iff rank_def dict_get_def not_less split: option.splits if_splits)
  have "rank order (foldl (\<lambda>a b. max_sensitivity a b order) a xs) = foldl max (rank order a) (map (rank order) xs)" for a xs
    by (induction xs arbitrary: a) simp_all
  then show ?thesis using r by (auto simp: foldl_max_Max)
qed

theorem sink_join_below_ceiling_witness:
  "rank SENSITIVITY_ORDER (foldl (\<lambda>a b. max_sensitivity a b SENSITIVITY_ORDER) ''public'' [''pii'']) \<le> rank SENSITIVITY_ORDER ''mnpi''"
  by (rule sink_join_below_ceiling [of "\<lparr>sp_tool_max_sensitivity = [(''a'', ''mnpi'')], sp_response_max_sensitivity = ''public''\<rparr>" "Some ''a''"])
    (simp_all add: sink_require_def sink_ceiling_def SENSITIVITY_ORDER_def)

end
