(* ===== verification/Call_Log.thy ===== *)
theory Call_Log
  imports Catalog
begin

text \<open>
  The per-session call logs (\<open>session/call_log.py\<close>): \<open>CallLog\<close> with its queries on
  the sequence of calls, and \<open>SessionCallLog\<close> with the call graph summary of the
  TRACE Claim. The clock is an argument.
\<close>

subsection \<open>\<open>CallLog\<close>\<close>

record call_record =
  cr_tool_name :: string
  cr_called_at :: datetime
  cr_duration_ms :: string
  cr_allowed :: bool
  cr_sensitivity_raised :: bool
  cr_stage_results :: "(string \<times> string) list"

record call_log =
  cl_session_id :: string
  cl_records :: "call_record list"

definition call_log_record :: "call_log \<Rightarrow> call_record \<Rightarrow> call_log" where
  "call_log_record l call = l\<lparr>cl_records := cl_records l @ [call]\<rparr>"

text \<open>The Python slice \<open>xs[i:]\<close>: a negative start counts from the end.\<close>

definition slice_from :: "'a list \<Rightarrow> int \<Rightarrow> 'a list" where
  "slice_from xs i = drop (nat (if i < 0 then int (length xs) + i else i)) xs"

definition recent :: "call_log \<Rightarrow> int \<Rightarrow> call_record list" where
  "recent l n = slice_from (cl_records l) (- n)"

fun first_seen :: "string list \<Rightarrow> string list \<Rightarrow> call_record list \<Rightarrow> string list" where
  "first_seen seen out [] = out"
| "first_seen seen out (r # rs) =
     (if cr_tool_name r \<notin> set seen
      then first_seen (cr_tool_name r # seen) (out @ [cr_tool_name r]) rs
      else first_seen seen out rs)"

definition tools_called :: "call_log \<Rightarrow> string list" where
  "tools_called l = first_seen [] [] (cl_records l)"

definition adjacent_pairs :: "call_log \<Rightarrow> (string \<times> string) list" where
  "adjacent_pairs l = (let names = map cr_tool_name (cl_records l) in zip names (drop 1 names))"

text \<open>The loop of \<open>suspicious_sequence\<close>, from the record before, with its counter.\<close>

fun run_scan :: "int \<Rightarrow> int \<Rightarrow> string \<Rightarrow> call_record list \<Rightarrow> bool" where
  "run_scan threshold cnt prev [] = False"
| "run_scan threshold cnt prev (r # rs) =
     (if cr_tool_name r = prev
      then (if cnt + 1 > threshold then True else run_scan threshold (cnt + 1) (cr_tool_name r) rs)
      else run_scan threshold 1 (cr_tool_name r) rs)"

definition suspicious_sequence :: "call_log \<Rightarrow> int \<Rightarrow> bool" where
  "suspicious_sequence l threshold =
     (case cl_records l of [] \<Rightarrow> False | r # rs \<Rightarrow> run_scan threshold 1 (cr_tool_name r) rs)"

fun count_run :: "string \<Rightarrow> call_record list \<Rightarrow> nat" where
  "count_run tool_name [] = 0"
| "count_run tool_name (r # rs) = (if cr_tool_name r = tool_name then count_run tool_name rs + 1 else 0)"

definition consecutive_count :: "call_log \<Rightarrow> string \<Rightarrow> nat" where
  "consecutive_count l tool_name = count_run tool_name (rev (cl_records l))"

subsection \<open>\<open>SessionCallLog\<close>\<close>

record call_log_entry =
  le_call_id :: string
  le_sequence_number :: nat
  le_tool_name :: string
  le_server_identity :: "string option"
  le_compliance_domain :: string
  le_timestamp :: datetime
  le_policy_decision :: string
  le_response_sensitivity_tags :: "string list"

record session_call_log =
  sl_session_id :: string
  sl_entries :: "call_log_entry list"
  sl_high_sensitivity_domains :: "string \<Rightarrow> bool"

definition LEGACY_HIGH_SENSITIVITY_DOMAINS :: "string list" where
  "LEGACY_HIGH_SENSITIVITY_DOMAINS = [''phi'', ''pci'', ''restricted'']"

definition high_sensitivity_domains :: "bool dict option \<Rightarrow> string \<Rightarrow> bool" where
  "high_sensitivity_domains extra d \<longleftrightarrow>
     effective_compliance_domains extra d = Some True \<or> d \<in> set LEGACY_HIGH_SENSITIVITY_DOMAINS"

definition new_session_call_log :: "string \<Rightarrow> bool dict option \<Rightarrow> session_call_log" where
  "new_session_call_log session_id extra =
     \<lparr>sl_session_id = session_id, sl_entries = [], sl_high_sensitivity_domains = high_sensitivity_domains extra\<rparr>"

definition UNKNOWN_DOMAIN :: string where
  "UNKNOWN_DOMAIN = ''unknown''"

definition record_call ::
  "datetime \<Rightarrow> session_call_log \<Rightarrow> string \<Rightarrow> catalog_entry option \<Rightarrow> string \<Rightarrow> string list
     \<Rightarrow> call_log_entry \<times> session_call_log" where
  "record_call now l call_id ce decision tags =
     (let entry = \<lparr>le_call_id = call_id, le_sequence_number = length (sl_entries l),
            le_tool_name = (case ce of Some e \<Rightarrow> ce_tool_name e | None \<Rightarrow> ''unknown''),
            le_server_identity = (case ce of Some e \<Rightarrow> Some (sv_url (ce_server e)) | None \<Rightarrow> None),
            le_compliance_domain = (case ce of Some e \<Rightarrow> ce_compliance_domain e | None \<Rightarrow> UNKNOWN_DOMAIN),
            le_timestamp = now, le_policy_decision = decision, le_response_sensitivity_tags = tags\<rparr>
      in (entry, l\<lparr>sl_entries := sl_entries l @ [entry]\<rparr>))"

record cross_boundary_event =
  cb_from_domain :: string
  cb_to_domain :: string
  cb_call_id :: string
  cb_tool_name :: string
  cb_sequence_number :: nat

record call_graph_summary =
  cg_compliance_domains_touched :: "string list"
  cg_cross_boundary_events :: "cross_boundary_event list"
  cg_edges_represent :: string

definition ADJACENCY_NOTE :: string where
  "ADJACENCY_NOTE = ''Edges represent temporal adjacency (call order), not data provenance. ''
     @ ''A -> B means B was called immediately after A within this session.''"

definition boundary_event :: "call_log_entry \<Rightarrow> call_log_entry \<Rightarrow> cross_boundary_event" where
  "boundary_event prev cur =
     \<lparr>cb_from_domain = le_compliance_domain prev, cb_to_domain = le_compliance_domain cur,
      cb_call_id = le_call_id cur, cb_tool_name = le_tool_name cur,
      cb_sequence_number = le_sequence_number cur\<rparr>"

fun boundary_scan :: "(string \<Rightarrow> bool) \<Rightarrow> call_log_entry list \<Rightarrow> cross_boundary_event list" where
  "boundary_scan high (prev # cur # rest) =
     (if high (le_compliance_domain prev) \<and> le_compliance_domain cur \<noteq> le_compliance_domain prev
      then boundary_event prev cur # boundary_scan high (cur # rest)
      else boundary_scan high (cur # rest))"
| "boundary_scan high _ = []"

definition get_call_graph_summary :: "session_call_log \<Rightarrow> call_graph_summary" where
  "get_call_graph_summary l =
     \<lparr>cg_compliance_domains_touched = sorted_set (map le_compliance_domain (sl_entries l)),
      cg_cross_boundary_events = boundary_scan (sl_high_sensitivity_domains l) (sl_entries l),
      cg_edges_represent = ADJACENCY_NOTE\<rparr>"

subsection \<open>Queries on the sequence of calls\<close>

lemma first_seen_eq:
  "set seen = set out \<Longrightarrow> distinct out \<Longrightarrow>
     first_seen seen out rs = rev (remdups (rev (out @ map cr_tool_name rs)))"
proof (induction rs arbitrary: seen out)
  case Nil
  then show ?case by (simp add: distinct_remdups_id)
next
  case (Cons r rs)
  let ?t = "cr_tool_name r"
  show ?case
  proof (cases "?t \<in> set seen")
    case True
    have "rev (remdups (rev (out @ ?t # ns))) = rev (remdups (rev (out @ ns)))" for ns
      using True Cons.prems(1) by (induction ns rule: rev_induct) auto
    with True Cons show ?thesis by simp
  next
    case False
    with Cons.IH [of "?t # seen" "out @ [?t]"] Cons.prems show ?thesis by simp
  qed
qed

text \<open>A run of more than \<open>k\<close> equal names.\<close>

definition has_run :: "nat \<Rightarrow> string list \<Rightarrow> bool" where
  "has_run k names \<longleftrightarrow> (\<exists>pre t post. names = pre @ replicate (Suc k) t @ post)"

lemma has_run_Cons_other:
  assumes "x \<noteq> prev" "c \<le> k"
  shows "has_run k (replicate c prev @ x # xs) \<longleftrightarrow> has_run k (x # xs)"
proof
  assume "has_run k (replicate c prev @ x # xs)"
  then obtain pre t post where eq: "replicate c prev @ x # xs = pre @ replicate (Suc k) t @ post"
    by (auto simp: has_run_def)
  have "c \<le> length pre"
  proof (rule ccontr)
    assume "\<not> c \<le> length pre"
    then have lt: "length pre < c" by simp
    then have t: "t = prev" using arg_cong [OF eq, of "\<lambda>l. l ! length pre"]
      by (simp add: nth_append)
    have "c - length pre < Suc k" using assms(2) by simp
    then have "(pre @ replicate (Suc k) t @ post) ! c = t"
      using lt by (simp add: nth_append del: replicate_Suc)
    moreover have "(replicate c prev @ x # xs) ! c = x" by (simp add: nth_append)
    ultimately show False using eq t assms(1) by simp
  qed
  then have "x # xs = drop c pre @ replicate (Suc k) t @ post"
    using arg_cong [OF eq, of "drop c"] by simp
  then show "has_run k (x # xs)" unfolding has_run_def by blast
next
  assume "has_run k (x # xs)"
  then show "has_run k (replicate c prev @ x # xs)"
    unfolding has_run_def by (metis append.assoc)
qed

lemma has_run_long: "has_run k (replicate (Suc k) t @ names)"
  unfolding has_run_def by (rule exI [of _ "[]"]) (metis append_Nil)

lemma has_run_short: "length names \<le> k \<Longrightarrow> \<not> has_run k names"
  by (auto simp: has_run_def)

lemma run_scan_iff:
  assumes "1 \<le> c" "c \<le> k"
  shows "run_scan (int k) (int c) prev rs \<longleftrightarrow> has_run k (replicate c prev @ map cr_tool_name rs)"
  using assms
proof (induction rs arbitrary: c prev)
  case Nil
  then show ?case by (simp add: has_run_short)
next
  case (Cons r rs)
  let ?t = "cr_tool_name r"
  show ?case
  proof (cases "?t = prev")
    case True
    have rep: "replicate c prev @ ?t # map cr_tool_name rs = replicate (Suc c) prev @ map cr_tool_name rs"
      using True by (simp add: replicate_app_Cons_same)
    show ?thesis
    proof (cases "c = k")
      case True
      then have "has_run k (replicate c prev @ ?t # map cr_tool_name rs)"
        unfolding rep by (simp only: has_run_long)
      then show ?thesis using \<open>c = k\<close> \<open>?t = prev\<close> by simp
    next
      case False
      have "run_scan (int k) (int (Suc c)) prev rs \<longleftrightarrow> has_run k (replicate c prev @ ?t # map cr_tool_name rs)"
        unfolding rep using False Cons.prems by (intro Cons.IH) simp_all
      then show ?thesis using False Cons.prems True by (simp add: add.commute)
    qed
  next
    case False
    then show ?thesis
      using Cons.IH [of 1 ?t] Cons.prems has_run_Cons_other [OF False Cons.prems(2)] by simp
  qed
qed

lemma count_run_eq: "count_run t rs = length (takeWhile (\<lambda>r. cr_tool_name r = t) rs)"
  by (induction rs) auto

subsection \<open>Cross-boundary events\<close>

lemma boundary_scan_eq:
  "boundary_scan high es =
     map (\<lambda>i. boundary_event (es ! i) (es ! Suc i))
       (filter (\<lambda>i. high (le_compliance_domain (es ! i))
                   \<and> le_compliance_domain (es ! Suc i) \<noteq> le_compliance_domain (es ! i)) [0..<length es - 1])"
proof (induction high es rule: boundary_scan.induct)
  case (1 high prev cur rest)
  have "[0..<length (prev # cur # rest) - 1] = 0 # map Suc [0..<length (cur # rest) - 1]"
    by (simp add: upt_conv_Cons map_Suc_upt del: upt_Suc)
  with 1 show ?case by (simp add: filter_map comp_def del: upt_Suc)
qed simp_all

text \<open>Logs built by \<open>record_call\<close> from an empty one.\<close>

inductive call_log_reachable :: "bool dict option \<Rightarrow> session_call_log \<Rightarrow> bool" for extra where
  start: "call_log_reachable extra (new_session_call_log sid extra)"
| step: "call_log_reachable extra l \<Longrightarrow>
     call_log_reachable extra (snd (record_call now l call_id ce decision tags))"

lemma call_log_reachable_inv:
  "call_log_reachable extra l \<Longrightarrow>
     map le_sequence_number (sl_entries l) = [0..<length (sl_entries l)]
     \<and> sl_high_sensitivity_domains l = high_sensitivity_domains extra"
  by (induction rule: call_log_reachable.induct)
    (auto simp: new_session_call_log_def record_call_def Let_def)

subsection \<open>Properties\<close>

text \<open>\<open>suspicious_sequence\<close> reports exactly the logs in which some tool was called more than
  \<open>threshold\<close> times in a row; with a threshold of 0, where every call would count, it reports two
  calls in a row.\<close>

theorem suspicious_sequence_iff:
  "suspicious_sequence l (int k) \<longleftrightarrow> has_run (max 1 k) (map cr_tool_name (cl_records l))"
proof (cases "cl_records l")
  case Nil
  then show ?thesis by (simp add: suspicious_sequence_def has_run_short)
next
  case (Cons r rs)
  have zero: "run_scan 0 1 prev rs = run_scan 1 1 prev rs" for prev
    by (induction rs arbitrary: prev) auto
  have "suspicious_sequence l (int k) = run_scan (int (max 1 k)) (int 1) (cr_tool_name r) rs"
    using zero by (cases "k = 0") (simp_all add: suspicious_sequence_def Cons)
  also have "\<dots> = has_run (max 1 k) (replicate 1 (cr_tool_name r) @ map cr_tool_name rs)"
    by (rule run_scan_iff) simp_all
  finally show ?thesis by (simp add: Cons)
qed

text \<open>The other queries on the call log: the tools called are the names in the order of their
  first call, each once; \<open>consecutive_count\<close> is the length of the run of the tool at the end of the
  log; and \<open>recent\<close> gives the last \<open>n\<close> records, except that for \<open>n = 0\<close> it gives all of them.\<close>

theorem call_log_queries:
  "tools_called l = rev (remdups (rev (map cr_tool_name (cl_records l))))
   \<and> consecutive_count l t = length (takeWhile (\<lambda>r. cr_tool_name r = t) (rev (cl_records l)))
   \<and> recent l (int n) = (if n = 0 then cl_records l else drop (length (cl_records l) - n) (cl_records l))"
  by (auto simp: tools_called_def first_seen_eq consecutive_count_def count_run_eq recent_def slice_from_def
      nat_diff_distrib')

text \<open>In the call graph summary of a session, the call with sequence number \<open>i + 1\<close> has a
  cross-boundary event exactly when the call before it was in a regulated domain and it is itself in
  another domain; the event carries the two domains and the call's id, tool and number.\<close>

theorem cross_boundary_events_exact:
  assumes "call_log_reachable extra l" "Suc i < length (sl_entries l)"
  shows "(\<exists>ev\<in>set (cg_cross_boundary_events (get_call_graph_summary l)).
        ev = boundary_event (sl_entries l ! i) (sl_entries l ! Suc i) \<and> cb_sequence_number ev = Suc i)
     \<longleftrightarrow> high_sensitivity_domains extra (le_compliance_domain (sl_entries l ! i))
         \<and> le_compliance_domain (sl_entries l ! Suc i) \<noteq> le_compliance_domain (sl_entries l ! i)"
proof -
  have seq: "le_sequence_number (sl_entries l ! j) = j" if "j < length (sl_entries l)" for j
    using call_log_reachable_inv [OF assms(1)] that
    by (metis add.left_neutral length_map nth_map nth_upt)
  have high: "sl_high_sensitivity_domains l = high_sensitivity_domains extra"
    using call_log_reachable_inv [OF assms(1)] by simp
  have num: "cb_sequence_number (boundary_event (sl_entries l ! j) (sl_entries l ! Suc j)) = Suc j"
    if "j < length (sl_entries l) - 1" for j
    using seq [of "Suc j"] that by (simp add: boundary_event_def)
  have ev: "ev \<in> set (cg_cross_boundary_events (get_call_graph_summary l)) \<longleftrightarrow>
      (\<exists>j<length (sl_entries l) - 1. ev = boundary_event (sl_entries l ! j) (sl_entries l ! Suc j)
         \<and> high_sensitivity_domains extra (le_compliance_domain (sl_entries l ! j))
         \<and> le_compliance_domain (sl_entries l ! Suc j) \<noteq> le_compliance_domain (sl_entries l ! j))" for ev
    by (auto simp: get_call_graph_summary_def boundary_scan_eq high)
  have i: "i < length (sl_entries l) - 1" using assms(2) by simp
  show ?thesis unfolding Bex_def ev using num i by (metis nat.inject)
qed

definition sample_log :: session_call_log where
  "sample_log =
     (let now = sample_time;
          e = (\<lambda>d. Some (sample_entry ''Reads''\<lparr>ce_compliance_domain := d\<rparr>))
      in snd (record_call now (snd (record_call now (new_session_call_log ''s'' None) ''c0'' (e ''hipaa_phi'') ''allow'' []))
                ''c1'' (e ''public'') ''allow'' []))"

theorem cross_boundary_events_exact_witness:
  "map cb_from_domain (cg_cross_boundary_events (get_call_graph_summary sample_log)) = [''hipaa_phi'']
   \<and> (\<exists>ev\<in>set (cg_cross_boundary_events (get_call_graph_summary sample_log)). cb_sequence_number ev = 1)"
proof -
  have "call_log_reachable None sample_log"
    unfolding sample_log_def Let_def by (intro call_log_reachable.intros)
  moreover have "Suc 0 < length (sl_entries sample_log)" by code_simp
  moreover have "map cb_from_domain (cg_cross_boundary_events (get_call_graph_summary sample_log)) = [''hipaa_phi'']"
    by code_simp
  moreover have "high_sensitivity_domains None (le_compliance_domain (sl_entries sample_log ! 0))"
    "le_compliance_domain (sl_entries sample_log ! Suc 0) \<noteq> le_compliance_domain (sl_entries sample_log ! 0)"
    by code_simp+
  ultimately show ?thesis
    using cross_boundary_events_exact [of None sample_log 0] by auto
qed

end
