(* ===== verification/Trace_Claim.thy ===== *)
theory Trace_Claim
  imports Call_Log Policy_Bundle
begin

text \<open>
  The signed TRACE Claim (\<open>audit/trace_claim.py\<close>): the claim dictionary that
  \<open>generate_trace_claim\<close> builds, validates and signs. The dictionary is the JSON
  object \<open>model_dump(exclude_none=True)\<close> gives. The models of the
  \<open>agentrust_trace\<close> package are arguments: each takes its keyword arguments and
  gives the dumped model or nothing for a validation error. Signing is an
  argument.
\<close>

datatype claim_error =
    Provider_not_mapped string
  | Malformed_report_data
  | Unknown_enforcement_mode string
  | Validation_error string

record trace_models =
  tm_runtime_info :: "json \<Rightarrow> json option"
  tm_policy_info :: "json \<Rightarrow> json option"
  tm_confirmation_key :: "json \<Rightarrow> json option"

record signing_key =
  sg_public_bytes :: bytes
  sg_sign :: "bytes \<Rightarrow> bytes"

definition public_key_hex :: "signing_key \<Rightarrow> string" where
  "public_key_hex k = hexlify (sg_public_bytes k)"

definition PROVIDER_MAP :: "(string \<times> string) list" where
  "PROVIDER_MAP =
     [(''sev-snp'', ''amd-sev-snp''), (''azure-cvm-sev-snp'', ''azure-cvm-sev-snp''), (''tdx'', ''intel-tdx''),
      (''tpm'', ''tpm2''), (''software-only'', ''software-only'')]"

definition SW_ONLY_MEASUREMENT :: string where
  "SW_ONLY_MEASUREMENT = ''sha256:'' @ replicate 64 (CHR ''0'')"

definition ENFORCEMENT_MODE_MAP :: "(string \<times> string) list" where
  "ENFORCEMENT_MODE_MAP = [(''enforcing'', ''enforce''), (''advisory'', ''advisory''), (''silent'', ''silent'')]"

subsection \<open>Inputs\<close>

record call_summary =
  cy_tool_calls_total :: nat
  cy_tool_calls_allowed :: nat
  cy_tool_calls_denied :: nat
  cy_tool_calls_faulted :: nat
  cy_tools_invoked :: "string list"
  cy_session_max_sensitivity :: string
  cy_domains :: "string list"
  cy_events :: "cross_boundary_event list"
  cy_edges :: "string option"

record policy_bundle_info =
  pi_hash :: string
  pi_enforcement_mode :: string
  pi_policy_version :: json
  pi_signing_key_id :: "string option"
  pi_revoked_signing_key_ids :: "string list"

record report_info =
  ri_provider :: string
  ri_measurement :: string
  ri_report_data :: string
  ri_generated_at :: string
  ri_validity_seconds :: int
  ri_raw_evidence :: "string option"
  ri_quote_signature :: "string option"
  ri_cert_chain :: "string option"
  ri_ek_cert_chain :: "string option"

record agent_identity_info =
  ai_manifest_id :: string
  ai_agent_id :: string
  ai_authenticated_subject :: string
  ai_subject_source :: string
  ai_issuer :: string
  ai_issuer_key_id :: string
  ai_policy_bundle_hash :: string
  ai_tool_catalog_hash :: string
  ai_intent_hash :: "string option"
  ai_agent_key_thumbprint :: "string option"
  ai_enforcement_mode :: "string option"

record transcript_entry =
  te_tool_name :: string
  te_data_class :: string
  te_decision :: claim_decision

record call_log_summary =
  cls_total_calls :: nat
  cls_tools_called :: "string list"
  cls_suspicious :: nat

text \<open>\<open>ki_threshold\<close> is the text of the float.\<close>

record kill_switch_info =
  ki_window_seconds :: nat
  ki_threshold :: string
  ki_min_calls :: nat
  ki_trigger :: "string option"

record claim_input =
  ci_session_id :: string
  ci_report :: report_info
  ci_policy :: policy_bundle_info
  ci_catalog_hash :: string
  ci_drift_detected :: bool
  ci_call_summary :: call_summary
  ci_chain_root :: string
  ci_chain_tip :: string
  ci_chain_length :: nat
  ci_transcript :: "transcript_entry list"
  ci_attestation_stale :: bool
  ci_catalog_exceptions :: "catalog_exception_meta list"
  ci_call_log_summary :: "call_log_summary option"
  ci_agent_identity :: "agent_identity_info option"
  ci_sequence_number :: nat
  ci_prev_claim_hash :: "string option"
  ci_kill_switch_triggered :: bool
  ci_kill_switch :: "kill_switch_info option"
  ci_iat :: int
  ci_gateway_version :: string

subsection \<open>Building\<close>

text \<open>A field that \<open>exclude_none\<close> leaves out when it is \<open>None\<close>.\<close>

definition opt_field :: "string \<Rightarrow> json option \<Rightarrow> (string \<times> json) list" where
  "opt_field k v = (case v of None \<Rightarrow> [] | Some j \<Rightarrow> [(k, j)])"

definition strs :: "string list \<Rightarrow> json" where
  "strs xs = JArr (map JStr xs)"

definition has_digest_prefix :: "string \<Rightarrow> bool" where
  "has_digest_prefix s \<longleftrightarrow> starts_with ''sha256:'' s \<or> starts_with ''sha384:'' s"

definition hex_text :: "string \<Rightarrow> bool" where
  "hex_text s \<longleftrightarrow> list_all (\<lambda>c. c \<in> set ''0123456789abcdef'') s"

text \<open>The pattern of a SHA-256 or SHA-384 digest.\<close>

definition digest_pattern :: "string \<Rightarrow> bool" where
  "digest_pattern s \<longleftrightarrow>
     (starts_with ''sha256:'' s \<and> length s = 71 \<or> starts_with ''sha384:'' s \<and> length s = 103) \<and> hex_text (drop 7 s)"

definition sha256_pattern :: "string \<Rightarrow> bool" where
  "sha256_pattern s \<longleftrightarrow> starts_with ''sha256:'' s \<and> length s = 71 \<and> hex_text (drop 7 s)"

definition build_evidence :: "report_info \<Rightarrow> json option" where
  "build_evidence r =
     (if list_all (\<lambda>f. f = None \<or> f = Some []) [ri_raw_evidence r, ri_quote_signature r, ri_cert_chain r, ri_ek_cert_chain r]
      then None
      else Some (JObj (opt_field ''raw_evidence'' (map_option JStr (ri_raw_evidence r))
             @ opt_field ''quote_signature'' (map_option JStr (ri_quote_signature r))
             @ opt_field ''cert_chain'' (map_option JStr (ri_cert_chain r))
             @ opt_field ''ek_cert_chain'' (map_option JStr (ri_ek_cert_chain r)))))"

definition from_model :: "json option \<Rightarrow> string \<Rightarrow> claim_error + json" where
  "from_model m what = (case m of None \<Rightarrow> Inl (Validation_error what) | Some j \<Rightarrow> Inr j)"

definition build_runtime :: "trace_models \<Rightarrow> report_info \<Rightarrow> claim_error + json" where
  "build_runtime tm r =
     (case map_of PROVIDER_MAP (ri_provider r) of
        None \<Rightarrow> Inl (Provider_not_mapped (ri_provider r))
      | Some platform \<Rightarrow>
          if ri_provider r = ''software-only'' then
            from_model (tm_runtime_info tm (JObj [(''platform'', JStr platform), (''measurement'', JStr SW_ONLY_MEASUREMENT),
                (''firmware_version'', JStr ''software-only-dev-mode'')])) ''runtime''
          else let m = (if has_digest_prefix (ri_measurement r) then ri_measurement r else ''sha256:'' @ ri_measurement r) in
            case fromhex (ri_report_data r) of
              None \<Rightarrow> Inl Malformed_report_data
            | Some raw \<Rightarrow>
                from_model (tm_runtime_info tm (JObj [(''platform'', JStr platform), (''measurement'', JStr m),
                    (''nonce'', JStr (b64url raw))])) ''runtime'')"

definition build_policy :: "trace_models \<Rightarrow> policy_bundle_info \<Rightarrow> claim_error + json" where
  "build_policy tm b =
     (case map_of ENFORCEMENT_MODE_MAP (pi_enforcement_mode b) of
        None \<Rightarrow> Inl (Unknown_enforcement_mode (pi_enforcement_mode b))
      | Some mode \<Rightarrow>
          from_model (tm_policy_info tm (JObj [(''bundle_hash'', JStr (pi_hash b)), (''enforcement_mode'', JStr mode),
              (''version'', pi_policy_version b)])) ''policy'')"

definition build_policy_signing :: "policy_bundle_info \<Rightarrow> claim_error + json option" where
  "build_policy_signing b =
     (if pi_signing_key_id b = None \<and> pi_revoked_signing_key_ids b = [] then Inr None
      else if \<not> list_all sha256_pattern (pi_revoked_signing_key_ids b @ (case pi_signing_key_id b of None \<Rightarrow> [] | Some k \<Rightarrow> [k]))
      then Inl (Validation_error ''policy_signing'')
      else Inr (Some (JObj (opt_field ''key_id'' (map_option JStr (pi_signing_key_id b))
             @ [(''revoked_key_ids'', strs (pi_revoked_signing_key_ids b))]))))"

definition build_cnf :: "trace_models \<Rightarrow> signing_key \<Rightarrow> claim_error + json" where
  "build_cnf tm k =
     from_model (tm_confirmation_key tm (JObj [(''jwk'', JObj [(''kty'', JStr ''OKP''), (''crv'', JStr ''Ed25519''),
         (''x'', JStr (b64url (sg_public_bytes k))), (''kid'', JStr (''cmcp-'' @ take 8 (public_key_hex k)))])])) ''cnf''"

definition build_subject :: "signing_key \<Rightarrow> string" where
  "build_subject k = ''spiffe://cmcp.gateway/tee/'' @ take 16 (public_key_hex k)"

definition transcript_json :: "transcript_entry \<Rightarrow> json" where
  "transcript_json e = JObj [(''tool_name'', JStr (te_tool_name e)), (''data_class'', JStr (te_data_class e)),
     (''decision'', JStr (claim_decision_str (te_decision e)))]"

definition canonical_entries :: "transcript_entry list \<Rightarrow> bytes" where
  "canonical_entries es = dumps (JArr (map transcript_json es))"

definition transcript_entries_hash :: "(bytes \<Rightarrow> bytes) \<Rightarrow> transcript_entry list \<Rightarrow> string" where
  "transcript_entries_hash sha256 es = ''sha256:'' @ hexlify (sha256 (canonical_entries es))"

definition build_agent_identity :: "agent_identity_info \<Rightarrow> claim_error + json" where
  "build_agent_identity a =
     (if \<not> list_all (starts_with ''spiffe://'') [ai_agent_id a, ai_authenticated_subject a, ai_issuer a]
         \<or> ai_subject_source a \<notin> {''config'', ''svid'', ''manifest-dev''}
         \<or> \<not> pred_option sha256_pattern (ai_intent_hash a) \<or> \<not> pred_option sha256_pattern (ai_agent_key_thumbprint a)
      then Inl (Validation_error ''agent_identity'')
      else Inr (JObj
        ([(''manifest_id'', JStr (ai_manifest_id a)), (''agent_id'', JStr (ai_agent_id a)),
          (''authenticated_subject'', JStr (ai_authenticated_subject a)), (''subject_source'', JStr (ai_subject_source a)),
          (''issuer'', JStr (ai_issuer a)), (''issuer_key_id'', JStr (ai_issuer_key_id a)),
          (''policy_bundle_hash'', JStr (ai_policy_bundle_hash a)), (''tool_catalog_hash'', JStr (ai_tool_catalog_hash a))]
         @ opt_field ''intent_hash'' (map_option JStr (ai_intent_hash a))
         @ opt_field ''agent_key_thumbprint'' (map_option JStr (ai_agent_key_thumbprint a))
         @ opt_field ''enforcement_mode'' (map_option JStr (ai_enforcement_mode a)))))"

definition event_json :: "cross_boundary_event \<Rightarrow> json" where
  "event_json e = JObj [(''from_domain'', JStr (cb_from_domain e)), (''to_domain'', JStr (cb_to_domain e)),
     (''call_id'', JStr (cb_call_id e)), (''tool_name'', JStr (cb_tool_name e)),
     (''sequence_number'', JInt (int (cb_sequence_number e)))]"

definition call_summary_json :: "call_summary \<Rightarrow> json" where
  "call_summary_json c = JObj
     [(''tool_calls_total'', JInt (int (cy_tool_calls_total c))), (''tool_calls_allowed'', JInt (int (cy_tool_calls_allowed c))),
      (''tool_calls_denied'', JInt (int (cy_tool_calls_denied c))), (''tool_calls_faulted'', JInt (int (cy_tool_calls_faulted c))),
      (''tools_invoked'', strs (cy_tools_invoked c)), (''session_max_sensitivity'', JStr (cy_session_max_sensitivity c)),
      (''call_graph_summary'', JObj ([(''compliance_domains_touched'', strs (cy_domains c)),
          (''cross_boundary_events'', JArr (map event_json (cy_events c)))]
         @ opt_field ''edges_represent'' (map_option JStr (cy_edges c))))]"

definition exception_json :: "catalog_exception_meta \<Rightarrow> json" where
  "exception_json x = JObj [(''tool_name'', JStr (cx_tool_name x)), (''reason'', JStr (cx_reason x)),
     (''authorized_by'', JStr (cx_authorized_by x)), (''added_at'', JStr (cx_added_at x))]"

definition kill_switch_json :: "kill_switch_info \<Rightarrow> json" where
  "kill_switch_json k = JObj ([(''enabled'', JBool True), (''window_seconds'', JInt (int (ki_window_seconds k))),
     (''deny_rate_threshold'', JFloat (ki_threshold k)), (''min_calls'', JInt (int (ki_min_calls k)))]
     @ opt_field ''trigger'' (map_option JStr (ki_trigger k)))"

text \<open>\<open>GatewayTrace\<close>.\<close>

definition build_trace :: "trace_models \<Rightarrow> signing_key \<Rightarrow> claim_input \<Rightarrow> claim_error + json" where
  "build_trace tm k ci =
     (let h = (if has_digest_prefix (ci_chain_tip ci) then ci_chain_tip ci else ''sha256:'' @ ci_chain_tip ci) in
      bind_result (build_runtime tm (ci_report ci)) (\<lambda>rt.
      bind_result (build_policy tm (ci_policy ci)) (\<lambda>pol.
      if \<not> digest_pattern h then Inl (Validation_error ''tool_transcript'')
      else bind_result (build_cnf tm k) (\<lambda>cnf.
      if ci_iat ci < 1700000000 then Inl (Validation_error ''iat'')
      else Inr (JObj
        [(''eat_profile'', JStr ''tag:agentrust-io.com,2026:trace-v0.2''), (''iat'', JInt (ci_iat ci)),
         (''subject'', JStr (build_subject k)), (''runtime'', rt), (''policy'', pol),
         (''data_class'', JStr (cy_session_max_sensitivity (ci_call_summary ci))),
         (''tool_transcript'', JObj [(''hash'', JStr h),
            (''call_count'', JInt (int (cy_tool_calls_total (ci_call_summary ci)))),
            (''entries'', JArr (map transcript_json (ci_transcript ci)))]),
         (''cnf'', cnf)])))))"

definition call_log_json :: "call_log_summary \<Rightarrow> json" where
  "call_log_json c = JObj [(''total_calls'', JInt (int (cls_total_calls c))),
     (''tools_called'', strs (cls_tools_called c)), (''suspicious_sequences_detected'', JInt (int (cls_suspicious c)))]"

text \<open>\<open>GatewayAddenda\<close>.\<close>

definition gateway_fields :: "claim_input \<Rightarrow> json option \<Rightarrow> json option \<Rightarrow> (string \<times> json) list" where
  "gateway_fields ci aid ps =
       ([(''session_id'', JStr (ci_session_id ci)), (''gateway_version'', JStr (ci_gateway_version ci)),
         (''sequence_number'', JInt (int (ci_sequence_number ci)))]
        @ opt_field ''prev_claim_hash'' (map_option JStr (ci_prev_claim_hash ci))
        @ [(''audit_chain'', JObj [(''root'', JStr (ci_chain_root ci)), (''tip'', JStr (ci_chain_tip ci)),
             (''length'', JInt (int (ci_chain_length ci)))]),
           (''call_summary'', call_summary_json (ci_call_summary ci)),
           (''catalog'', JObj [(''hash'', JStr (ci_catalog_hash ci)), (''drift_detected'', JBool (ci_drift_detected ci))]),
           (''attestation_generated_at'', JStr (ri_generated_at (ci_report ci))),
           (''attestation_validity_seconds'', JInt (ri_validity_seconds (ci_report ci))),
           (''attestation_stale'', JBool (ci_attestation_stale ci)),
           (''catalog_exceptions'', JArr (map exception_json (ci_catalog_exceptions ci)))]
        @ opt_field ''call_log_summary'' (map_option call_log_json (ci_call_log_summary ci))
        @ opt_field ''agent_identity'' aid
        @ [(''kill_switch_triggered'', JBool (ci_kill_switch_triggered ci))]
        @ opt_field ''kill_switch'' (map_option kill_switch_json (ci_kill_switch ci))
        @ opt_field ''attestation_evidence'' (build_evidence (ci_report ci))
        @ opt_field ''policy_signing'' ps)"

definition build_gateway :: "claim_input \<Rightarrow> claim_error + json" where
  "build_gateway ci =
     bind_result (build_policy_signing (ci_policy ci)) (\<lambda>ps.
     bind_result (case ci_agent_identity ci of None \<Rightarrow> Inr None | Some a \<Rightarrow> bind_result (build_agent_identity a) (\<lambda>j. Inr (Some j))) (\<lambda>aid.
       Inr (JObj (gateway_fields ci aid ps))))"

definition claim_dict :: "json \<Rightarrow> json \<Rightarrow> string \<Rightarrow> (string \<times> json) list" where
  "claim_dict tr gw signature =
     [(''cmcp_version'', JStr ''1.0''), (''trace'', tr), (''gateway'', gw), (''signature'', JStr signature)]"

definition canonical_json :: "(string \<times> json) list \<Rightarrow> bytes" where
  "canonical_json d = dumps (JObj (filter (\<lambda>kv. fst kv \<noteq> ''signature'') d))"

text \<open>\<open>generate_trace_claim\<close> with \<open>do_sign\<close>: the dumped claim.\<close>

definition generate_trace_claim :: "trace_models \<Rightarrow> signing_key \<Rightarrow> claim_input \<Rightarrow> claim_error + (string \<times> json) list" where
  "generate_trace_claim tm k ci =
     bind_result (build_trace tm k ci) (\<lambda>tr.
     bind_result (build_gateway ci) (\<lambda>gw.
       Inr (claim_dict tr gw (b64url (sg_sign k (canonical_json (claim_dict tr gw []))))))) "

subsection \<open>The shape of a generated claim\<close>

lemma map_of_opt_field [simp]: "map_of (opt_field k v) x = (if x = k then v else None)"
  by (simp add: opt_field_def split: option.splits)

lemma fst_opt_field [simp]: "fst ` set (opt_field k v) = (if v = None then {} else {k})"
  by (cases v) (simp_all add: opt_field_def)

lemma distinct_opt_field [simp]: "distinct (map fst (opt_field k v))"
  by (simp add: opt_field_def split: option.splits)

lemma wf_opt_field [simp]: "list_all (\<lambda>(k, v). wf_json v) (opt_field k v) \<longleftrightarrow> pred_option wf_json v"
  by (simp add: opt_field_def split: option.splits)

lemma wf_strs [simp]: "wf_json (strs xs)"
  by (simp add: strs_def list_all_iff)

lemma wf_event [simp]: "wf_json (event_json e)"
  by (simp add: event_json_def)

lemma wf_exception [simp]: "wf_json (exception_json x)"
  by (simp add: exception_json_def)

lemma wf_transcript [simp]: "wf_json (transcript_json x)"
  by (simp add: transcript_json_def)

lemma wf_call_summary [simp]: "wf_json (call_summary_json c)"
  by (simp add: call_summary_json_def list.pred_map list.pred_True option.pred_map comp_def option.pred_True)

lemma wf_call_log [simp]: "wf_json (call_log_json c)"
  by (simp add: call_log_json_def)

lemma wf_kill_switch: "float_text (ki_threshold k) \<Longrightarrow> wf_json (kill_switch_json k)"
  by (simp add: kill_switch_json_def option.pred_map comp_def option.pred_True)

lemma wf_evidence: "pred_option wf_json (build_evidence r)"
  by (simp add: build_evidence_def option.pred_map comp_def option.pred_True)

lemma wf_policy_signing: "build_policy_signing b = Inr ps \<Longrightarrow> pred_option wf_json ps"
  by (auto simp: build_policy_signing_def option.pred_map comp_def option.pred_True split: if_splits)

lemma wf_agent_identity: "build_agent_identity a = Inr j \<Longrightarrow> wf_json j"
  by (auto simp: build_agent_identity_def option.pred_map comp_def option.pred_True split: if_splits)

text \<open>What is asked of the models: a dumped model is a JSON document.\<close>

definition models_ok :: "trace_models \<Rightarrow> bool" where
  "models_ok tm \<longleftrightarrow> (\<forall>args j. tm_runtime_info tm args = Some j \<or> tm_policy_info tm args = Some j
     \<or> tm_confirmation_key tm args = Some j \<longrightarrow> wf_json j)"

lemma from_model_ok: "from_model x what = Inr j \<longleftrightarrow> x = Some j"
  by (simp add: from_model_def split: option.splits)

lemma build_trace_wf:
  assumes "models_ok tm" "build_trace tm k ci = Inr tr"
  shows "wf_json tr"
proof -
  obtain rt pol cnf where parts: "build_runtime tm (ci_report ci) = Inr rt" "build_policy tm (ci_policy ci) = Inr pol"
    "build_cnf tm k = Inr cnf"
    using assms(2) by (auto simp: build_trace_def Let_def bind_result_eq_Inr split: if_splits)
  have rt: "\<exists>args. tm_runtime_info tm args = Some rt"
    using parts(1) by (auto simp: build_runtime_def from_model_ok Let_def split: option.splits if_splits)
  have pol: "\<exists>args. tm_policy_info tm args = Some pol"
    using parts(2) by (auto simp: build_policy_def from_model_ok split: option.splits)
  have cnf: "\<exists>args. tm_confirmation_key tm args = Some cnf"
    using parts(3) by (auto simp: build_cnf_def from_model_ok)
  have "wf_json rt" "wf_json pol" "wf_json cnf"
    using assms(1) rt pol cnf unfolding models_ok_def by blast+
  with assms(2) parts show ?thesis
    by (auto simp: build_trace_def Let_def list_all_iff split: if_splits)
qed

lemma build_gateway_ok:
  assumes "build_gateway ci = Inr gw" "pred_option (\<lambda>k. float_text (ki_threshold k)) (ci_kill_switch ci)"
  obtains g where "gw = JObj g" "wf_json gw" "distinct (map fst g)"
    "map_of g ''prev_claim_hash'' = map_option JStr (ci_prev_claim_hash ci)"
    "map_of g ''session_id'' = Some (JStr (ci_session_id ci))"
    "map_of g ''sequence_number'' = Some (JInt (int (ci_sequence_number ci)))"
    "map_of g ''audit_chain'' = Some (JObj [(''root'', JStr (ci_chain_root ci)), (''tip'', JStr (ci_chain_tip ci)),
       (''length'', JInt (int (ci_chain_length ci)))])"
    "map_of g ''call_summary'' = Some (call_summary_json (ci_call_summary ci))"
proof -
  obtain ps aid where p: "build_policy_signing (ci_policy ci) = Inr ps" and a: "pred_option wf_json aid"
    and gw: "gw = JObj (gateway_fields ci aid ps)"
    using assms(1)
    by (force simp: build_gateway_def bind_result_eq_Inr wf_agent_identity split: option.splits)
  show thesis
  proof (rule that [OF gw])
    have "pred_option wf_json (map_option kill_switch_json (ci_kill_switch ci))"
      using assms(2) by (cases "ci_kill_switch ci") (simp_all add: wf_kill_switch)
    then show "wf_json gw"
      using wf_policy_signing [OF p] a wf_evidence [of "ci_report ci"]
      by (simp add: gw gateway_fields_def list.pred_map list.pred_True option.pred_map comp_def option.pred_True)
  qed (simp_all add: gateway_fields_def map_add_def split: option.splits)
qed

text \<open>A claim as a document: unique keys, and a gateway part with unique keys.\<close>

definition claim_ok :: "(string \<times> json) list \<Rightarrow> bool" where
  "claim_ok c \<longleftrightarrow> wf_json (JObj c) \<and> distinct (map fst c)
     \<and> (\<exists>g. map_of c ''gateway'' = Some (JObj g) \<and> distinct (map fst g))"

lemma generate_trace_claim_ok:
  assumes "generate_trace_claim tm k ci = Inr c" "models_ok tm"
    and "pred_option (\<lambda>k. float_text (ki_threshold k)) (ci_kill_switch ci)"
  shows "claim_ok c"
proof -
  obtain tr gw s where p: "build_trace tm k ci = Inr tr" "build_gateway ci = Inr gw" "c = claim_dict tr gw s"
    using assms(1) by (auto simp: generate_trace_claim_def bind_result_eq_Inr)
  have "wf_json tr" by (rule build_trace_wf [OF assms(2) p(1)])
  moreover obtain g where "gw = JObj g" "wf_json gw" "distinct (map fst g)"
    using p(2) assms(3) by (rule build_gateway_ok)
  ultimately show ?thesis using p(3) by (simp add: claim_ok_def claim_dict_def)
qed

lemma canonical_json_signature [simp]: "canonical_json (c @ [(''signature'', j)]) = canonical_json c"
  by (simp add: canonical_json_def)

lemma canonical_json_claim_dict:
  "canonical_json (claim_dict tr gw s) = dumps (JObj [(''cmcp_version'', JStr ''1.0''), (''trace'', tr), (''gateway'', gw)])"
  by (simp add: canonical_json_def claim_dict_def)

lemma generate_trace_claim_signature:
  assumes "generate_trace_claim tm k ci = Inr c"
  shows "map_of c ''signature'' = Some (JStr (b64url (sg_sign k (canonical_json c))))"
  using assms
  by (auto simp: generate_trace_claim_def bind_result_eq_Inr canonical_json_claim_dict) (simp add: claim_dict_def)

lemma map_of_filter_other: "k \<noteq> x \<Longrightarrow> map_of (filter (\<lambda>kv. fst kv \<noteq> x) d) k = map_of d k"
  by (induction d) auto

lemma canonical_json_determines:
  assumes "canonical_json c = canonical_json d" "claim_ok c" "claim_ok d" "k \<noteq> ''signature''"
  shows "map_option norm_json (map_of c k) = map_option norm_json (map_of d k)"
proof -
  let ?f = "filter (\<lambda>kv. fst kv \<noteq> ''signature'')"
  have wf: "wf_json (JObj (?f x))" "distinct (map fst (?f x))" if "claim_ok x" for x
    using that by (auto simp: claim_ok_def list_all_iff distinct_map_filter)
  have "norm_json (JObj (?f c)) = norm_json (JObj (?f d))"
    using assms(1) dumps_inject wf(1) [OF assms(2)] wf(1) [OF assms(3)] by (simp add: canonical_json_def)
  from norm_json_obj_eq_lookup [OF this wf(2) [OF assms(2)] wf(2) [OF assms(3)], of k] assms(4)
  show ?thesis by (simp add: map_of_filter_other)
qed

subsection \<open>Properties\<close>

text \<open>The signature of a claim covers the whole claim. The claim that is returned carries the
  signature of its own canonical text, the one a verifier recomputes by leaving the signature out; and two
  generated claims with the same signed text are the same document, field for field, but for the
  signature.\<close>

theorem claim_signature_covers_claim:
  assumes "generate_trace_claim tm k ci = Inr c" "generate_trace_claim tm' k' ci' = Inr d"
    and "models_ok tm" "models_ok tm'"
    and "pred_option (\<lambda>k. float_text (ki_threshold k)) (ci_kill_switch ci)"
    and "pred_option (\<lambda>k. float_text (ki_threshold k)) (ci_kill_switch ci')"
  shows "map_of c ''signature'' = Some (JStr (b64url (sg_sign k (canonical_json c))))
    \<and> (canonical_json c = canonical_json d \<longleftrightarrow>
         (\<forall>x. x = ''signature'' \<or> map_option norm_json (map_of c x) = map_option norm_json (map_of d x)))"
proof -
  have ok: "claim_ok c" "claim_ok d"
    using generate_trace_claim_ok assms by blast+
  obtain tr gw s tr' gw' s' where cd: "c = claim_dict tr gw s" "d = claim_dict tr' gw' s'"
    using assms(1,2) by (auto simp: generate_trace_claim_def bind_result_eq_Inr)
  have "norm_json tr = norm_json tr' \<and> norm_json gw = norm_json gw'"
    if "\<forall>x. x = ''signature'' \<or> map_option norm_json (map_of c x) = map_option norm_json (map_of d x)"
    using that [rule_format, of "''trace''"] that [rule_format, of "''gateway''"] by (simp add: cd claim_dict_def)
  then have "canonical_json c = canonical_json d"
    if "\<forall>x. x = ''signature'' \<or> map_option norm_json (map_of c x) = map_option norm_json (map_of d x)"
    using that unfolding cd canonical_json_claim_dict by (simp add: dumps_def)
  then show ?thesis
    using generate_trace_claim_signature [OF assms(1)] canonical_json_determines [OF _ ok] by blast
qed

text \<open>Models that accept every document, a key, and the inputs of a small claim.\<close>

definition sample_models :: trace_models where
  "sample_models = (let m = (\<lambda>args. if wf_json args then Some args else None) in
     \<lparr>tm_runtime_info = m, tm_policy_info = m, tm_confirmation_key = m\<rparr>)"

definition sample_key :: signing_key where
  "sample_key = \<lparr>sg_public_bytes = ''key'', sg_sign = rev\<rparr>"

definition sample_report :: report_info where
  "sample_report = \<lparr>ri_provider = ''software-only'', ri_measurement = ''m'', ri_report_data = [],
     ri_generated_at = [], ri_validity_seconds = 60, ri_raw_evidence = None, ri_quote_signature = None,
     ri_cert_chain = None, ri_ek_cert_chain = None\<rparr>"

definition sample_claim_input :: "string \<Rightarrow> claim_input" where
  "sample_claim_input sid = \<lparr>ci_session_id = sid, ci_report = sample_report,
     ci_policy = \<lparr>pi_hash = ''h'', pi_enforcement_mode = ''enforcing'', pi_policy_version = JStr ''1'',
       pi_signing_key_id = None, pi_revoked_signing_key_ids = []\<rparr>,
     ci_catalog_hash = ''c'', ci_drift_detected = False,
     ci_call_summary = \<lparr>cy_tool_calls_total = 0, cy_tool_calls_allowed = 0, cy_tool_calls_denied = 0,
       cy_tool_calls_faulted = 0, cy_tools_invoked = [], cy_session_max_sensitivity = ''public'', cy_domains = [],
       cy_events = [], cy_edges = None\<rparr>,
     ci_chain_root = ''r'', ci_chain_tip = replicate 64 (CHR ''0''), ci_chain_length = 1, ci_transcript = [],
     ci_attestation_stale = False, ci_catalog_exceptions = [], ci_call_log_summary = None, ci_agent_identity = None,
     ci_sequence_number = 1, ci_prev_claim_hash = None, ci_kill_switch_triggered = False, ci_kill_switch = None,
     ci_iat = 1800000000, ci_gateway_version = ''1''\<rparr>"

lemma models_ok_sample [simp]: "models_ok sample_models"
  by (auto simp: models_ok_def sample_models_def Let_def split: if_splits)

lemma digest_pattern_sample: "digest_pattern (''sha256:'' @ replicate 64 (CHR ''0''))" "\<not> has_digest_prefix (replicate 64 (CHR ''0''))"
  by code_simp+

lemma generate_sample: "\<exists>c. generate_trace_claim sample_models sample_key (sample_claim_input sid) = Inr c"
  using digest_pattern_sample
  by (simp add: generate_trace_claim_def build_trace_def build_gateway_def build_runtime_def build_policy_def
      build_policy_signing_def build_cnf_def sample_claim_input_def sample_report_def sample_models_def from_model_def
      PROVIDER_MAP_def ENFORCEMENT_MODE_MAP_def Let_def)

theorem claim_signature_covers_claim_witness:
  "\<exists>c d. generate_trace_claim sample_models sample_key (sample_claim_input ''a'') = Inr c
     \<and> generate_trace_claim sample_models sample_key (sample_claim_input ''b'') = Inr d
     \<and> map_of c ''signature'' = Some (JStr (b64url (sg_sign sample_key (canonical_json c))))"
proof -
  obtain c d where c: "generate_trace_claim sample_models sample_key (sample_claim_input ''a'') = Inr c"
    and d: "generate_trace_claim sample_models sample_key (sample_claim_input ''b'') = Inr d"
    using generate_sample by blast
  have "ci_kill_switch (sample_claim_input s) = None" for s by (simp add: sample_claim_input_def)
  with claim_signature_covers_claim [OF c d] c d show ?thesis by simp
qed

end
