(* ===== verification/Float_Ratio.thy ===== *)
theory Float_Ratio
  imports Complex_Main
begin

text \<open>
  Python's true division \<open>a / b\<close> of two counts with \<open>a \<le> b\<close>: the IEEE binary64
  number nearest to the quotient, ties to even. The result is the rational
  number that the float is. \<open>binade a b\<close> is the \<open>k\<close> with
  \<open>2 ^ -k \<le> a / b < 2 ^ (1 - k)\<close>, so that the 53-bit significand is the quotient
  scaled by \<open>2 ^ (52 + k)\<close> and rounded. The counts are far below the range where
  the exponent underflows.
\<close>

function binade :: "nat \<Rightarrow> nat \<Rightarrow> nat" where
  "binade a b = (if a = 0 \<or> b \<le> a then 0 else Suc (binade (2 * a) b))"
  by pat_completeness auto
termination
  by (relation "measure (\<lambda>(a, b). b - a)") auto

declare binade.simps [simp del]

definition round_half_even :: "nat \<Rightarrow> nat \<Rightarrow> nat" where
  "round_half_even p q =
     (let d = p div q; r = p mod q in if 2 * r > q \<or> (2 * r = q \<and> odd d) then d + 1 else d)"

definition significand :: "nat \<Rightarrow> nat \<Rightarrow> nat" where
  "significand a b = round_half_even (a * 2 ^ (52 + binade a b)) b"

definition float_ratio :: "nat \<Rightarrow> nat \<Rightarrow> rat" where
  "float_ratio a b = (if a = 0 then 0 else of_nat (significand a b) / 2 ^ (52 + binade a b))"

lemma binade_lower: "0 < a \<Longrightarrow> b \<le> a * 2 ^ binade a b"
proof (induction a b rule: binade.induct)
  case (1 a b)
  then show ?case by (subst binade.simps) (auto simp: mult.assoc mult.left_commute)
qed

lemma binade_upper: "0 < a \<Longrightarrow> a < b \<Longrightarrow> a * 2 ^ binade a b < 2 * b"
proof (induction a b rule: binade.induct)
  case (1 a b)
  show ?case
  proof (cases "2 * a < b")
    case True
    with 1 show ?thesis by (subst binade.simps) (simp add: mult.left_commute)
  next
    case False
    then have "binade (2 * a) b = 0" by (subst binade.simps) simp
    with 1 show ?thesis by (subst binade.simps) simp
  qed
qed

lemma binade_unit: "b \<le> a \<Longrightarrow> binade a b = 0"
  by (subst binade.simps) simp

text \<open>A larger quotient is in the same binade or a higher one.\<close>

lemma binade_mono:
  assumes "0 < a" "a \<le> b" "0 < d" "c \<le> d" "a * d \<le> c * b"
  shows "binade c d \<le> binade a b"
proof (rule ccontr)
  assume less: "\<not> binade c d \<le> binade a b"
  have c: "0 < c" using assms by (cases c) auto
  have cd: "c < d"
  proof (rule ccontr)
    assume "\<not> c < d"
    then show False using less by (simp add: binade_unit)
  qed
  have "c * 2 ^ (Suc (binade a b)) \<le> c * 2 ^ binade c d"
    using less by (intro mult_left_mono power_increasing) auto
  also have "\<dots> < 2 * d" by (rule binade_upper [OF c cd])
  finally have "c * 2 ^ binade a b < d" by simp
  then have "c * b * 2 ^ binade a b < d * b" using assms(1,2) by (simp add: mult.assoc mult.left_commute)
  moreover have "d * b \<le> d * a * 2 ^ binade a b"
    using binade_lower [OF assms(1), of b] by (simp add: mult.assoc)
  moreover have "d * a * 2 ^ binade a b \<le> c * b * 2 ^ binade a b"
    using assms(5) by (simp add: mult.commute)
  ultimately show False by linarith
qed

lemma round_half_even_mono:
  assumes "0 < q" "0 < q'" "p * q' \<le> p' * q"
  shows "round_half_even p q \<le> round_half_even p' q'"
proof -
  have "p div q = (p * q') div (q * q')" using assms(2) by simp
  also have "\<dots> \<le> (p' * q) div (q * q')" by (rule div_le_mono [OF assms(3)])
  also have "\<dots> = p' div q'" using assms(1) by (simp add: mult.commute [of q])
  finally have le: "p div q \<le> p' div q'" .
  show ?thesis
  proof (cases "p div q = p' div q'")
    case False
    with le show ?thesis by (auto simp: round_half_even_def Let_def)
  next
    case True
    define d r r' where "d = p div q" and "r = p mod q" and "r' = p' mod q'"
    have p: "p = d * q + r" and p': "p' = d * q' + r'"
      by (simp_all add: d_def r_def r'_def) (simp add: True)
    have rr: "r * q' \<le> r' * q" using assms(3) by (simp add: p p' algebra_simps)
    have up: "q' \<le> 2 * r'" if "q \<le> 2 * r"
    proof -
      have "q * q' \<le> 2 * r * q'" using that by simp
      also have "\<dots> \<le> 2 * r' * q" using rr by simp
      finally show ?thesis using assms(1) by (simp add: mult.commute)
    qed
    have "q' < 2 * r'" if "q < 2 * r"
    proof -
      have "q * q' < 2 * r * q'" using that assms(2) by simp
      also have "\<dots> \<le> 2 * r' * q" using rr by simp
      finally show ?thesis using assms(1) by (simp add: mult.commute)
    qed
    with up show ?thesis
      unfolding round_half_even_def Let_def True [symmetric] d_def [symmetric] r_def [symmetric] r'_def [symmetric]
      by auto
  qed
qed

lemma round_half_even_exact: "0 < q \<Longrightarrow> round_half_even (m * q) q = m"
  by (simp add: round_half_even_def)

text \<open>The significand of a quotient has 53 bits.\<close>

lemma significand_bounds:
  assumes "0 < a" "a \<le> b"
  shows "2 ^ 52 \<le> significand a b" "significand a b \<le> 2 ^ 53"
proof -
  have b: "0 < b" using assms by simp
  have "round_half_even (2 ^ 52 * b) b \<le> significand a b"
    unfolding significand_def
    using binade_lower [OF assms(1), of b] b
    by (intro round_half_even_mono) (auto simp: power_add mult.left_commute mult.assoc)
  then show "2 ^ 52 \<le> significand a b" using round_half_even_exact [OF b] by simp
  have "a * 2 ^ binade a b \<le> 2 * b"
    using binade_upper [OF assms(1), of b] assms(2) binade_unit [of b a] by (cases "a = b") auto
  then have "significand a b \<le> round_half_even (2 ^ 53 * b) b"
    unfolding significand_def using b
    by (intro round_half_even_mono) (auto simp: power_add mult.left_commute mult.assoc)
  then show "significand a b \<le> 2 ^ 53" using round_half_even_exact [OF b] by simp
qed

text \<open>Rounding keeps the order of quotients.\<close>

lemma float_ratio_mono:
  assumes "a \<le> b" "0 < b" "c \<le> d" "0 < d" "a * d \<le> c * b"
  shows "float_ratio a b \<le> float_ratio c d"
proof (cases "a = 0")
  case True
  then show ?thesis by (simp add: float_ratio_def)
next
  case False
  then have a: "0 < a" by simp
  then have c: "0 < c" using assms by (cases c) auto
  let ?k = "binade a b" and ?k' = "binade c d"
  have k: "?k' \<le> ?k" by (rule binade_mono [OF a assms(1,4,3,5)])
  show ?thesis
  proof (cases "?k = ?k'")
    case True
    have "significand a b \<le> significand c d"
      unfolding significand_def True using assms
      by (intro round_half_even_mono) (auto simp: mult.assoc mult.left_commute mult.commute)
    then show ?thesis using a c True by (simp add: float_ratio_def divide_right_mono)
  next
    case False
    then have k': "Suc ?k' \<le> ?k" using k by simp
    have "float_ratio a b \<le> 2 ^ 53 / 2 ^ (52 + ?k)"
      using significand_bounds(2) [OF a assms(1)] a
      by (auto simp: float_ratio_def intro!: divide_right_mono)
    also have "\<dots> \<le> 2 ^ 53 / (2 ^ (52 + Suc ?k') :: rat)"
      using k' by (intro divide_left_mono power_increasing) auto
    also have "\<dots> = 2 ^ 52 / 2 ^ (52 + ?k')" by (simp add: power_add)
    also have "\<dots> \<le> float_ratio c d"
      using significand_bounds(1) [OF c assms(3)] c
      by (auto simp: float_ratio_def intro!: divide_right_mono)
    finally show ?thesis .
  qed
qed

lemma float_ratio_zero [simp]: "float_ratio 0 b = 0"
  by (simp add: float_ratio_def)

lemma float_ratio_one: "0 < b \<Longrightarrow> float_ratio b b = 1"
  by (simp add: float_ratio_def significand_def binade_unit mult.commute [of b] round_half_even_exact)

end
