(* ===== verification/Kill_Switch.thy ===== *)
theory Kill_Switch
  imports Float_Ratio Datetime
begin

text \<open>
  The kill switch (\<open>kill_switch.py\<close>): the durable block table, the rolling window
  of outcomes per agent identity and the deny-rate rule. Each reading of the
  monotonic clock is an argument, in seconds; the difference of a reading and
  the window is exact here. A \<open>None\<close> result of \<open>evaluate\<close> is the
  \<open>ZeroDivisionError\<close> of an empty window under a configuration with
  \<open>min_calls = 0\<close>, which the configuration loader rejects.
\<close>

record kill_switch_config =
  kc_enabled :: bool
  kc_window_seconds :: nat
  kc_deny_rate_threshold :: rat
  kc_min_calls :: nat

subsection \<open>The block table\<close>

record block_row =
  br_blocked_at :: string
  br_reason :: string

type_synonym block_table = "(string \<times> block_row) list"

definition store_block :: "datetime \<Rightarrow> block_table \<Rightarrow> string \<Rightarrow> string \<Rightarrow> block_table" where
  "store_block now rows agent_id reason =
     (if map_of rows agent_id \<noteq> None then rows
      else rows @ [(agent_id, \<lparr>br_blocked_at = isoformat now, br_reason = reason\<rparr>)])"

definition store_unblock :: "block_table \<Rightarrow> string \<Rightarrow> bool \<times> block_table" where
  "store_unblock rows agent_id =
     (map_of rows agent_id \<noteq> None, filter (\<lambda>r. fst r \<noteq> agent_id) rows)"

definition store_is_blocked :: "block_table \<Rightarrow> string \<Rightarrow> bool" where
  "store_is_blocked rows agent_id \<longleftrightarrow> map_of rows agent_id \<noteq> None"

definition store_blocked_at :: "block_table \<Rightarrow> string \<Rightarrow> string option" where
  "store_blocked_at rows agent_id = map_option br_blocked_at (map_of rows agent_id)"

subsection \<open>The evaluator\<close>

text \<open>\<open>ks_store\<close> is the database table when the gateway has one; \<open>ks_blocked\<close> the set held in
  memory otherwise.\<close>

record kill_switch =
  ks_config :: kill_switch_config
  ks_store :: "block_table option"
  ks_events :: "string \<Rightarrow> (rat \<times> bool) list"
  ks_blocked :: "string list"

definition new_kill_switch :: "kill_switch_config \<Rightarrow> block_table option \<Rightarrow> kill_switch" where
  "new_kill_switch cfg store = \<lparr>ks_config = cfg, ks_store = store, ks_events = (\<lambda>_. []), ks_blocked = []\<rparr>"

definition prune :: "rat \<Rightarrow> kill_switch \<Rightarrow> string \<Rightarrow> kill_switch" where
  "prune clk ks agent_id =
     (let cutoff = clk - of_nat (kc_window_seconds (ks_config ks))
      in ks\<lparr>ks_events := (ks_events ks)(agent_id := dropWhile (\<lambda>(t, _). t < cutoff) (ks_events ks agent_id))\<rparr>)"

text \<open>\<open>record_calls\<close> reads the clock for the events and again for the cut-off.\<close>

definition record_calls :: "rat \<Rightarrow> rat \<Rightarrow> kill_switch \<Rightarrow> string \<Rightarrow> nat \<Rightarrow> nat \<Rightarrow> kill_switch" where
  "record_calls now clk ks agent_id allowed denied =
     prune clk
       (ks\<lparr>ks_events := (ks_events ks)(agent_id :=
          ks_events ks agent_id @ replicate allowed (now, False) @ replicate denied (now, True))\<rparr>) agent_id"

definition ks_block :: "datetime \<Rightarrow> kill_switch \<Rightarrow> string \<Rightarrow> string \<Rightarrow> kill_switch" where
  "ks_block wall ks agent_id reason =
     (case ks_store ks of
        Some rows \<Rightarrow> ks\<lparr>ks_store := Some (store_block wall rows agent_id reason)\<rparr>
      | None \<Rightarrow> ks\<lparr>ks_blocked := List.insert agent_id (ks_blocked ks)\<rparr>)"

definition evaluate :: "rat \<Rightarrow> datetime \<Rightarrow> kill_switch \<Rightarrow> string \<Rightarrow> (bool \<times> kill_switch) option" where
  "evaluate clk wall ks agent_id =
     (if \<not> kc_enabled (ks_config ks) then Some (False, ks)
      else let ks1 = prune clk ks agent_id; q = ks_events ks1 agent_id; total = length q in
        if total < kc_min_calls (ks_config ks) then Some (False, ks1)
        else if total = 0 then None
        else let rate = float_ratio (count_if snd q) total in
          if rate \<ge> kc_deny_rate_threshold (ks_config ks)
          then Some (True, ks_block wall ks1 agent_id ''deny_rate_threshold'')
          else Some (False, ks1))"

definition ks_is_blocked :: "kill_switch \<Rightarrow> string \<Rightarrow> bool" where
  "ks_is_blocked ks agent_id =
     (case ks_store ks of Some rows \<Rightarrow> store_is_blocked rows agent_id | None \<Rightarrow> agent_id \<in> set (ks_blocked ks))"

definition ks_unblock :: "kill_switch \<Rightarrow> string \<Rightarrow> bool \<times> kill_switch" where
  "ks_unblock ks agent_id =
     (let ks1 = ks\<lparr>ks_events := (ks_events ks)(agent_id := [])\<rparr> in
      case ks_store ks1 of
        Some rows \<Rightarrow> (let (was, rows') = store_unblock rows agent_id in (was, ks1\<lparr>ks_store := Some rows'\<rparr>))
      | None \<Rightarrow> (agent_id \<in> set (ks_blocked ks1), ks1\<lparr>ks_blocked := removeAll agent_id (ks_blocked ks1)\<rparr>))"

subsection \<open>Blocks\<close>

lemma store_block_lookup:
  "store_is_blocked (store_block now rows a reason) b \<longleftrightarrow> b = a \<or> store_is_blocked rows b"
  by (auto simp: store_is_blocked_def store_block_def map_add_def split: option.splits)

lemma store_unblock_lookup:
  "store_is_blocked (snd (store_unblock rows a)) b \<longleftrightarrow> b \<noteq> a \<and> store_is_blocked rows b"
  by (simp add: store_is_blocked_def store_unblock_def map_of_filter_key)

lemma ks_is_blocked_prune [simp]: "ks_is_blocked (prune clk ks a) b = ks_is_blocked ks b"
  by (simp add: ks_is_blocked_def prune_def Let_def split: option.splits)

lemma ks_is_blocked_record [simp]: "ks_is_blocked (record_calls now clk ks a n m) b = ks_is_blocked ks b"
  by (simp add: record_calls_def) (simp add: ks_is_blocked_def split: option.splits)

lemma ks_is_blocked_block [simp]: "ks_is_blocked (ks_block wall ks a reason) b \<longleftrightarrow> b = a \<or> ks_is_blocked ks b"
  by (auto simp: ks_is_blocked_def ks_block_def store_block_lookup split: option.splits)

lemma ks_is_blocked_unblock:
  "ks_is_blocked (snd (ks_unblock ks a)) b \<longleftrightarrow> b \<noteq> a \<and> ks_is_blocked ks b"
  by (auto simp: ks_is_blocked_def ks_unblock_def store_unblock_lookup Let_def split: option.splits prod.splits)
    (metis snd_conv store_unblock_lookup)+

lemma ks_unblock_result: "fst (ks_unblock ks a) = ks_is_blocked ks a"
  by (simp add: ks_unblock_def ks_is_blocked_def store_unblock_def store_is_blocked_def Let_def split: option.splits)

lemma ks_config_frame [simp]:
  "ks_config (prune clk ks a) = ks_config ks"
  "ks_config (record_calls now clk ks a n m) = ks_config ks"
  "ks_config (ks_block wall ks a reason) = ks_config ks"
  by (simp_all add: prune_def record_calls_def ks_block_def Let_def split: option.splits)

lemma evaluate_blocked:
  "evaluate clk wall ks a = Some (tripped, ks') \<Longrightarrow>
     ks_is_blocked ks' b \<longleftrightarrow> ks_is_blocked ks b \<or> (tripped \<and> b = a)"
  by (auto simp: evaluate_def Let_def split: if_splits)

lemma evaluate_total:
  "0 < kc_min_calls (ks_config ks) \<Longrightarrow> \<exists>r. evaluate clk wall ks a = Some r"
  by (auto simp: evaluate_def Let_def)

subsection \<open>The window\<close>

text \<open>The queue of an identity is in time order and no event is later than the clock.\<close>

definition window_ok :: "rat \<Rightarrow> kill_switch \<Rightarrow> bool" where
  "window_ok clock ks \<longleftrightarrow> (\<forall>a. sorted (map fst (ks_events ks a)) \<and> (\<forall>e\<in>set (ks_events ks a). fst e \<le> clock))"

lemma window_ok_new [simp]: "window_ok clock (new_kill_switch cfg store)"
  by (simp add: window_ok_def new_kill_switch_def)

lemma window_ok_later: "window_ok c ks \<Longrightarrow> c \<le> c' \<Longrightarrow> window_ok c' ks"
  unfolding window_ok_def by force

lemma sorted_dropWhile_map: "sorted (map fst xs) \<Longrightarrow> sorted (map fst (dropWhile p xs))"
  by (metis dropWhile_eq_drop drop_map sorted_wrt_drop)

lemma window_ok_prune [cmcp_inv]: "window_ok c ks \<Longrightarrow> window_ok c (prune clk ks a)"
  by (auto simp: window_ok_def prune_def Let_def sorted_dropWhile_map dest: set_dropWhileD)

lemma window_ok_record [cmcp_inv]:
  assumes "window_ok c ks" "c \<le> now"
  shows "window_ok now (record_calls now clk ks a n m)"
  unfolding record_calls_def
proof (rule window_ok_prune)
  show "window_ok now (ks\<lparr>ks_events := (ks_events ks)(a := ks_events ks a @ replicate n (now, False) @ replicate m (now, True))\<rparr>)"
    using assms unfolding window_ok_def by (force simp: sorted_append)
qed

lemma window_ok_block [simp]: "window_ok c (ks_block wall ks a reason) = window_ok c ks"
  by (simp add: window_ok_def ks_block_def split: option.splits)

lemma window_ok_evaluate [cmcp_inv]:
  "window_ok c ks \<Longrightarrow> evaluate clk wall ks a = Some (t, ks') \<Longrightarrow> window_ok c ks'"
  by (auto simp: evaluate_def Let_def window_ok_prune split: if_splits)

text \<open>In time order, dropping from the front keeps exactly the events of the window.\<close>

lemma dropWhile_sorted_filter:
  "sorted (map fst q) \<Longrightarrow> dropWhile (\<lambda>(t, _). t < c) q = filter (\<lambda>(t, _). \<not> t < (c::rat)) q"
proof (induction q)
  case (Cons e q)
  show ?case
  proof (cases "fst e < c")
    case False
    have "filter (\<lambda>(t, _). \<not> t < c) q = q"
      using Cons.prems False by (auto simp: filter_id_conv)
    with False show ?thesis by (auto split: prod.splits)
  qed (use Cons in \<open>auto split: prod.splits\<close>)
qed simp

lemma prune_window:
  assumes "window_ok c ks"
  shows "ks_events (prune clk ks a) a =
    filter (\<lambda>(t, _). clk - of_nat (kc_window_seconds (ks_config ks)) \<le> t) (ks_events ks a)"
  using assms dropWhile_sorted_filter [of "ks_events ks a" "clk - of_nat (kc_window_seconds (ks_config ks))"]
  by (simp add: prune_def Let_def window_ok_def not_less)


text \<open>The steps of a gateway's kill switch that are not an operator lifting the block of \<open>a\<close>;
  a restart opens a new evaluator on the stored table.\<close>

inductive ks_step :: "string \<Rightarrow> kill_switch \<Rightarrow> kill_switch \<Rightarrow> bool" for a where
  recorded: "ks_step a ks (record_calls now clk ks b n m)"
| evaluated: "evaluate clk wall ks b = Some (t, ks') \<Longrightarrow> ks_step a ks ks'"
| blocked: "ks_step a ks (ks_block wall ks b reason)"
| unblocked: "b \<noteq> a \<Longrightarrow> ks_step a ks (snd (ks_unblock ks b))"
| restarted: "ks_store ks = Some rows \<Longrightarrow> ks_step a ks (new_kill_switch cfg (Some rows))"

lemma ks_step_blocked:
  "ks_step a ks ks' \<Longrightarrow> ks_is_blocked ks a \<Longrightarrow> ks_is_blocked ks' a"
proof (induction rule: ks_step.induct)
  case (evaluated clk wall ks b t ks')
  then show ?case using evaluate_blocked by blast
next
  case (restarted ks rows cfg)
  then show ?case by (simp add: ks_is_blocked_def new_kill_switch_def)
qed (simp_all add: ks_is_blocked_unblock)

lemma ks_steps_blocked: "(ks_step a)\<^sup>*\<^sup>* ks ks' \<Longrightarrow> ks_is_blocked ks a \<Longrightarrow> ks_is_blocked ks' a"
  by (induction rule: rtranclp_induct) (auto dest: ks_step_blocked)

lemma evaluate_eq:
  assumes "window_ok c ks" "kc_enabled (ks_config ks)" "0 < kc_min_calls (ks_config ks)"
    and q: "q = filter (\<lambda>(t, _). clk - of_nat (kc_window_seconds (ks_config ks)) \<le> t) (ks_events ks a)"
  shows "evaluate clk wall ks a =
    (if kc_min_calls (ks_config ks) \<le> length q
        \<and> kc_deny_rate_threshold (ks_config ks) \<le> float_ratio (count_if snd q) (length q)
     then Some (True, ks_block wall (prune clk ks a) a ''deny_rate_threshold'')
     else Some (False, prune clk ks a))"
proof -
  have "ks_events (prune clk ks a) a = q" using prune_window [OF assms(1)] q by simp
  then show ?thesis using assms(2,3) by (auto simp: evaluate_def Let_def)
qed

subsection \<open>Properties\<close>

text \<open>C30: The kill switch looks at exactly the calls inside the rolling window. With the switch
  enabled, \<open>evaluate\<close> returns (it never divides by zero, \<open>min_calls\<close> being positive), it says
  True exactly when the window holds at least \<open>min_calls\<close> calls and the rounded quotient of denied
  calls reaches the threshold, and an identity it says True for is blocked.\<close>

theorem evaluate_trips_iff:
  assumes "window_ok c ks" "kc_enabled (ks_config ks)" "0 < kc_min_calls (ks_config ks)"
    and "q = filter (\<lambda>(t, _). clk - of_nat (kc_window_seconds (ks_config ks)) \<le> t) (ks_events ks a)"
  shows "\<exists>tripped ks'. evaluate clk wall ks a = Some (tripped, ks')
    \<and> (tripped \<longleftrightarrow> kc_min_calls (ks_config ks) \<le> length q
         \<and> kc_deny_rate_threshold (ks_config ks) \<le> float_ratio (count_if snd q) (length q))
    \<and> (\<forall>b. ks_is_blocked ks' b \<longleftrightarrow> ks_is_blocked ks b \<or> tripped \<and> b = a)
    \<and> ks_events ks' a = q"
proof (cases "kc_min_calls (ks_config ks) \<le> length q
    \<and> kc_deny_rate_threshold (ks_config ks) \<le> float_ratio (count_if snd q) (length q)")
  case True
  have "ks_events (ks_block wall (prune clk ks a) a r) = ks_events (prune clk ks a)" for r
    by (simp add: ks_block_def split: option.splits)
  with True evaluate_eq [OF assms] prune_window [OF assms(1), of clk a] assms(4) show ?thesis by auto
next
  case False
  then show ?thesis
    using evaluate_eq [OF assms, of wall] prune_window [OF assms(1), of clk a] assms(4) by auto
qed

definition sample_config :: kill_switch_config where
  "sample_config = \<lparr>kc_enabled = True, kc_window_seconds = 300, kc_deny_rate_threshold = float_ratio 9 10,
     kc_min_calls = 10\<rparr>"

definition sample_switch :: kill_switch where
  "sample_switch = record_calls 7 7 (new_kill_switch sample_config (Some [])) ''agent'' 1 9"

lemma sample_switch_ok: "window_ok 7 sample_switch"
  unfolding sample_switch_def by (rule window_ok_record [of 7]) simp_all

lemma sample_switch_events:
  "ks_events sample_switch ''agent'' = (7, False) # replicate 9 (7, True)"
  "ks_config sample_switch = sample_config"
  by (simp_all add: sample_switch_def record_calls_def prune_def Let_def new_kill_switch_def)

lemma sample_window:
  "(7, False) # replicate 9 (7, True) =
     filter (\<lambda>(t, _). 100 - of_nat (kc_window_seconds (ks_config sample_switch)) \<le> t) (ks_events sample_switch ''agent'')"
  by (simp add: sample_switch_events sample_config_def)

lemma count_if_replicate [simp]: "count_if p (replicate n x) = (if p x then n else 0)"
  by (simp add: count_if_def)

theorem evaluate_trips_iff_witness:
  "\<exists>ks'. evaluate 100 sample_time sample_switch ''agent'' = Some (True, ks') \<and> ks_is_blocked ks' ''agent''"
proof -
  have c: "kc_enabled (ks_config sample_switch)" "0 < kc_min_calls (ks_config sample_switch)"
    by (simp_all add: sample_switch_events sample_config_def)
  show ?thesis
    using evaluate_trips_iff [OF sample_switch_ok c sample_window, of sample_time]
    by (auto simp: sample_switch_events sample_config_def)
qed

text \<open>Rounding never saves an identity. When the threshold is the double nearest to a configured
  fraction \<open>p/r\<close>, and the exact share of denied calls in a window of at least \<open>min_calls\<close> calls is
  \<open>p/r\<close> or more, then \<open>evaluate\<close> trips and blocks the identity.\<close>

theorem exact_deny_rate_trips:
  assumes "window_ok c ks" "kc_enabled (ks_config ks)" "0 < kc_min_calls (ks_config ks)"
    and "kc_deny_rate_threshold (ks_config ks) = float_ratio p r" "p \<le> r" "0 < r"
    and q: "q = filter (\<lambda>(t, _). clk - of_nat (kc_window_seconds (ks_config ks)) \<le> t) (ks_events ks a)"
    and "kc_min_calls (ks_config ks) \<le> length q" "p * length q \<le> count_if snd q * r"
  shows "\<exists>ks'. evaluate clk wall ks a = Some (True, ks') \<and> ks_is_blocked ks' a"
proof -
  have "float_ratio p r \<le> float_ratio (count_if snd q) (length q)"
    using assms by (intro float_ratio_mono) auto
  then show ?thesis using evaluate_eq [OF assms(1-3) q] assms(4,8) by simp
qed

theorem exact_deny_rate_trips_witness:
  "\<exists>ks'. evaluate 100 sample_time sample_switch ''agent'' = Some (True, ks') \<and> ks_is_blocked ks' ''agent''"
proof (rule exact_deny_rate_trips [OF sample_switch_ok _ _ _ _ _ sample_window])
  show "kc_deny_rate_threshold (ks_config sample_switch) = float_ratio 9 10" "(9::nat) \<le> 10" "(0::nat) < 10"
    by (simp_all add: sample_switch_events sample_config_def)
qed (simp_all add: sample_switch_events sample_config_def)

text \<open>A block lasts until an operator lifts it. With a durable store, no sequence of recorded
  calls, evaluations, other blocks, unblocking of other identities and restarts of the gateway
  unblocks an identity; lifting the block does, and reports that there was one.\<close>

theorem block_survives:
  assumes "ks_is_blocked ks a" "(ks_step a)\<^sup>*\<^sup>* ks ks'"
  shows "ks_is_blocked ks' a \<and> fst (ks_unblock ks' a) \<and> \<not> ks_is_blocked (snd (ks_unblock ks' a)) a"
  using ks_steps_blocked [OF assms(2,1)] by (simp add: ks_unblock_result ks_is_blocked_unblock)

theorem block_survives_witness:
  "let rows = store_block sample_time [] ''agent'' ''operator''
   in ks_is_blocked (record_calls 2 2 (new_kill_switch sample_config (Some rows)) ''agent'' 5 0) ''agent''"
proof -
  let ?rows = "store_block sample_time [] ''agent'' ''operator''"
  let ?ks = "ks_block sample_time (new_kill_switch sample_config (Some [])) ''agent'' ''operator''"
  have s: "ks_store ?ks = Some ?rows" by (simp add: ks_block_def new_kill_switch_def)
  have "(ks_step ''agent'')\<^sup>*\<^sup>* ?ks (record_calls 2 2 (new_kill_switch sample_config (Some ?rows)) ''agent'' 5 0)"
    by (rule rtranclp.rtrancl_into_rtrancl [OF r_into_rtranclp]) (rule ks_step.restarted [OF s], rule ks_step.recorded)
  then show ?thesis using block_survives [of ?ks "''agent''"] unfolding Let_def by (meson ks_is_blocked_block)
qed

end
