(* ===== verification/Session_Manager.thy ===== *)
theory Session_Manager
  imports Trace_Claim Kill_Switch Session_State
begin

text \<open>
  The session lifecycle (\<open>session/manager.py\<close>): opening a session and binding its
  chain root into an attestation report, closing it and issuing its signed
  claim, the kill switch calls between the two, and the exports. One gateway
  process has one manager, so the module's claim counter is a field of the
  manager here. An operation that raises may have changed state before it did:
  it gives its result beside the manager, the session state and the chain it
  leaves behind. Clock readings and fresh identifiers are arguments.
\<close>

subsection \<open>Context and state\<close>

datatype manager_error =
    Kill_switch_tripped string
  | Requires_blocked_identity
  | Session_close_incomplete string
  | Tee_fault string
  | Audit_failed audit_error
  | Claim_failed claim_error
  | Zero_division
  | Chain_broken string

text \<open>The parts of \<open>RuntimeContext\<close> the manager reads. \<open>rc_kill_switch\<close> is absent when the
  configuration has none; \<open>rc_threshold_text\<close> is the text of its float.\<close>

record agent_binding =
  ab_manifest_id :: string
  ab_agent_id :: string
  ab_authenticated_subject :: string
  ab_subject_source :: string
  ab_issuer :: string
  ab_issuer_key_id :: string
  ab_policy_bundle_hash :: string
  ab_tool_catalog_hash :: string
  ab_intent_hash :: "string option"
  ab_enforcement_mode :: "string option"

record runtime_context =
  rc_kill_switch :: "kill_switch_config option"
  rc_threshold_text :: string
  rc_enforcement_mode :: string
  rc_tee_provider :: "bytes \<Rightarrow> provider_answer"
  rc_attestation_report :: attestation_report
  rc_signing_key :: signing_key
  rc_policy_bundle :: policy_store
  rc_catalog :: tool_catalog
  rc_agent_manifest :: "agent_binding option"
  rc_gateway_version :: string
  rc_crypto :: crypto
  rc_models :: trace_models

type_synonym claim = "(string \<times> json) list"

record session_manager =
  sm_closed_claims :: "(string \<times> claim) list"
  sm_closing_sessions :: "string set"
  sm_last_claim_hash :: "string option"
  sm_kill_switch :: kill_switch
  sm_sensitivity_order :: "int dict"
  sm_audit_sinks :: "string list"
  sm_claim_sequence :: nat

definition DISABLED_KILL_SWITCH :: kill_switch_config where
  "DISABLED_KILL_SWITCH = \<lparr>kc_enabled = False, kc_window_seconds = 300, kc_deny_rate_threshold = float_ratio 9 10, kc_min_calls = 10\<rparr>"

definition new_session_manager ::
  "runtime_context \<Rightarrow> block_table option \<Rightarrow> int dict \<Rightarrow> string list \<Rightarrow> session_manager" where
  "new_session_manager ctx blocks vocabulary sinks =
     \<lparr>sm_closed_claims = [], sm_closing_sessions = {}, sm_last_claim_hash = None,
      sm_kill_switch = new_kill_switch (case rc_kill_switch ctx of None \<Rightarrow> DISABLED_KILL_SWITCH | Some c \<Rightarrow> c) blocks,
      sm_sensitivity_order = effective_sensitivity_order (Some vocabulary), sm_audit_sinks = sinks,
      sm_claim_sequence = 0\<rparr>"

subsection \<open>Opening\<close>

definition blocked_identity :: "runtime_context \<Rightarrow> session_manager \<Rightarrow> string option" where
  "blocked_identity ctx m =
     (case rc_agent_manifest ctx of
        None \<Rightarrow> None
      | Some b \<Rightarrow> if ks_is_blocked (sm_kill_switch m) (ab_agent_id b) then Some (ab_agent_id b) else None)"

text \<open>The attestation attempt of \<open>_open_session\<close>: every failure leaves the chain as it was.\<close>

definition bind_session_report :: "runtime_context \<Rightarrow> audit_chain \<Rightarrow> string \<Rightarrow> audit_chain" where
  "bind_session_report ctx chain rt =
     (case make_audit_bound_nonce (cy_sha256 (rc_crypto ctx)) (sg_public_bytes (rc_signing_key ctx)) rt of
        Inl _ \<Rightarrow> chain
      | Inr nonce \<Rightarrow>
          (case rc_tee_provider ctx nonce of Report r \<Rightarrow> set_session_report chain r | _ \<Rightarrow> chain))"

text \<open>\<open>store\<close> is what the audit store holds when the session opens.\<close>

definition open_session ::
  "runtime_context \<Rightarrow> session_manager \<Rightarrow> tick \<Rightarrow> string \<Rightarrow> audit_store option \<Rightarrow> manager_error + session_state \<times> audit_chain" where
  "open_session ctx m tk session_id store =
     (case new_chain (cy_sha256 (rc_crypto ctx)) tk session_id store (sm_audit_sinks m) of
        Inl e \<Rightarrow> Inl (Audit_failed e)
      | Inr chain \<Rightarrow>
          (case chain_root chain of
             Inl e \<Rightarrow> Inl (Audit_failed e)
           | Inr rt \<Rightarrow>
               (case set_tee_anchor (bind_session_report ctx chain rt) rt of
                  Inl e \<Rightarrow> Inl (Audit_failed e)
                | Inr chain' \<Rightarrow> Inr (new_session_state session_id (sm_sensitivity_order m), chain'))))"

definition create_session ::
  "runtime_context \<Rightarrow> session_manager \<Rightarrow> tick \<Rightarrow> string \<Rightarrow> audit_store option \<Rightarrow> manager_error + session_state \<times> audit_chain" where
  "create_session ctx m tk session_id store =
     (case blocked_identity ctx m of
        Some agent \<Rightarrow> Inl (Kill_switch_tripped agent)
      | None \<Rightarrow> open_session ctx m tk session_id store)"

definition open_blocked_session ::
  "runtime_context \<Rightarrow> session_manager \<Rightarrow> tick \<Rightarrow> tick \<Rightarrow> string \<Rightarrow> audit_store option
     \<Rightarrow> manager_error + session_state \<times> audit_chain" where
  "open_blocked_session ctx m tk tk' session_id store =
     (case blocked_identity ctx m of
        None \<Rightarrow> Inl Requires_blocked_identity
      | Some agent \<Rightarrow>
          bind_result (open_session ctx m tk session_id store) (\<lambda>(state, chain).
            case chain_append (cy_sha256 (rc_crypto ctx)) tk' chain
                   ((entry_defaults Break_glass_used)\<lparr>ea_detail := Some
                      [(''reason'', JStr ''kill_switch_block_active_at_start''), (''agent_id'', JStr agent)]\<rparr>) of
              Inl e \<Rightarrow> Inl (Audit_failed e)
            | Inr (chain', _) \<Rightarrow> Inr (state, chain')))"

subsection \<open>What a claim is built from\<close>

definition is_closing :: "session_manager \<Rightarrow> string \<Rightarrow> bool" where
  "is_closing m session_id \<longleftrightarrow> session_id \<in> sm_closing_sessions m"

definition already_closing_claim :: "session_manager \<Rightarrow> string \<Rightarrow> manager_error + claim option" where
  "already_closing_claim m session_id =
     (if session_id \<notin> sm_closing_sessions m then Inr None
      else case map_of (sm_closed_claims m) session_id of
        Some c \<Rightarrow> Inr (Some c)
      | None \<Rightarrow> Inl (Session_close_incomplete session_id))"

definition report_info_of :: "attestation_report \<Rightarrow> report_info" where
  "report_info_of r =
     \<lparr>ri_provider = provider r, ri_measurement = measurement r, ri_report_data = report_data r,
      ri_generated_at = isoformat (attestation_generated_at r), ri_validity_seconds = attestation_validity_seconds r,
      ri_raw_evidence = map_option b64url (raw_evidence r), ri_quote_signature = map_option b64url (quote_signature r),
      ri_cert_chain = map_option b64url (attestation_key_chain_pem r), ri_ek_cert_chain = None\<rparr>"

text \<open>The age in seconds exceeds the validity, compared in microseconds.\<close>

definition attestation_is_stale :: "datetime \<Rightarrow> attestation_report \<Rightarrow> bool" where
  "attestation_is_stale now r \<longleftrightarrow>
     attestation_validity_seconds r * 1000000 < dt_micros now - dt_micros (attestation_generated_at r)"

definition policy_info_of :: "runtime_context \<Rightarrow> policy_bundle_info" where
  "policy_info_of ctx =
     (let st = rc_policy_bundle ctx; b = ps_bundle st in
      \<lparr>pi_hash = pb_bundle_hash b, pi_enforcement_mode = rc_enforcement_mode ctx,
       pi_policy_version = pm_version (pb_manifest b), pi_signing_key_id = pb_signing_key_id b,
       pi_revoked_signing_key_ids = store_revoked_key_ids (rc_crypto ctx) st\<rparr>)"

definition tool_calls_of :: "audit_entry list \<Rightarrow> audit_entry list" where
  "tool_calls_of es = filter (\<lambda>e. ea_entry_type e = Tool_call) es"

definition counts_as_denied :: "audit_entry \<Rightarrow> bool" where
  "counts_as_denied e \<longleftrightarrow> ea_policy_decision e = Some PD_deny \<or> ea_policy_decision e = Some PD_advisory_deny"

definition tools_invoked_of :: "audit_entry list \<Rightarrow> string list" where
  "tools_invoked_of calls = sorted_set (List.map_filter ea_tool_name calls)"

definition transcript_of :: "tool_catalog \<Rightarrow> audit_entry list \<Rightarrow> transcript_entry list" where
  "transcript_of catalog calls =
     List.map_filter (\<lambda>e. case ea_tool_name e of
         None \<Rightarrow> None
       | Some n \<Rightarrow> Some \<lparr>te_tool_name = n,
             te_data_class = (case ea_effective_data_class e of
                 Some (c # cs) \<Rightarrow> c # cs
               | _ \<Rightarrow> (case map_of (tc_entries catalog) n of Some ce \<Rightarrow> ce_sensitivity_level ce | None \<Rightarrow> ''unknown'')),
             te_decision = claim_value (map_option policy_decision_str (ea_policy_decision e))\<rparr>) calls"

definition call_summary_of ::
  "tool_catalog \<Rightarrow> session_state \<Rightarrow> audit_entry list \<Rightarrow> session_call_log option \<Rightarrow> call_summary" where
  "call_summary_of catalog state calls slog =
     (let tools_invoked = tools_invoked_of calls;
          (domains, events, edges) =
            (case slog of
               Some l \<Rightarrow> (let cg = get_call_graph_summary l in
                 (cg_compliance_domains_touched cg, cg_cross_boundary_events cg, Some (cg_edges_represent cg)))
             | None \<Rightarrow>
                 (sorted_set (List.map_filter (\<lambda>n. map_option ce_compliance_domain (map_of (tc_entries catalog) n)) tools_invoked),
                  [], None))
      in \<lparr>cy_tool_calls_total = length calls,
          cy_tool_calls_allowed = count_if (\<lambda>e. ea_policy_decision e = Some PD_allow) calls,
          cy_tool_calls_denied = count_if counts_as_denied calls,
          cy_tool_calls_faulted = count_if (\<lambda>e. ea_policy_decision e = Some PD_fault) calls,
          cy_tools_invoked = tools_invoked, cy_session_max_sensitivity = ss_max_sensitivity state,
          cy_domains = domains, cy_events = events, cy_edges = edges\<rparr>)"

definition call_log_summary_of :: "session_state \<Rightarrow> call_log \<Rightarrow> call_log_summary" where
  "call_log_summary_of state l =
     \<lparr>cls_total_calls = length (cl_records l), cls_tools_called = tools_called l,
      cls_suspicious = ss_suspicious_sequences state\<rparr>"

definition agent_identity_of :: "agent_binding \<Rightarrow> agent_identity_info" where
  "agent_identity_of b =
     \<lparr>ai_manifest_id = ab_manifest_id b, ai_agent_id = ab_agent_id b,
      ai_authenticated_subject = ab_authenticated_subject b, ai_subject_source = ab_subject_source b,
      ai_issuer = ab_issuer b, ai_issuer_key_id = ab_issuer_key_id b,
      ai_policy_bundle_hash = ab_policy_bundle_hash b, ai_tool_catalog_hash = ab_tool_catalog_hash b,
      ai_intent_hash = ab_intent_hash b, ai_agent_key_thumbprint = None, ai_enforcement_mode = ab_enforcement_mode b\<rparr>"

definition kill_switch_state :: "runtime_context \<Rightarrow> session_state \<Rightarrow> kill_switch_info option" where
  "kill_switch_state ctx state =
     (case rc_kill_switch ctx of
        None \<Rightarrow> None
      | Some cfg \<Rightarrow>
          if \<not> kc_enabled cfg then None
          else Some \<lparr>ki_window_seconds = kc_window_seconds cfg, ki_threshold = rc_threshold_text ctx,
                 ki_min_calls = kc_min_calls cfg,
                 ki_trigger = (if \<not> ss_kill_switch_triggered state then None
                   else case ss_kill_switch_trigger state of
                     Some Deny_rate \<Rightarrow> Some ''deny_rate'' | Some Operator \<Rightarrow> Some ''operator'' | None \<Rightarrow> None)\<rparr>)"

subsection \<open>Kill switch accounting\<close>

text \<open>The readings one accounting step takes: the monotonic clock twice in \<open>record_calls\<close> and once in
  \<open>evaluate\<close>, the wall clock for the block, and the tick of the audit entry.\<close>

record ks_reading =
  kr_now :: rat
  kr_clk :: rat
  kr_clk2 :: rat
  kr_wall :: datetime
  kr_tick :: tick

definition window_of :: "runtime_context \<Rightarrow> nat" where
  "window_of ctx = (case rc_kill_switch ctx of Some cfg \<Rightarrow> kc_window_seconds cfg | None \<Rightarrow> 0)"

text \<open>Counting calls for the bound identity, then tripping: the shared part of \<open>observe_call\<close> and
  \<open>close_session\<close>. \<open>extra\<close> holds the further fields of the audit entry's detail.\<close>

definition count_and_trip ::
  "runtime_context \<Rightarrow> ks_reading \<Rightarrow> string \<Rightarrow> nat \<Rightarrow> nat \<Rightarrow> (string \<times> json) list
     \<Rightarrow> session_manager \<Rightarrow> session_state \<Rightarrow> audit_chain
     \<Rightarrow> (manager_error + bool) \<times> session_manager \<times> session_state \<times> audit_chain" where
  "count_and_trip ctx kr agent_id allowed denied extra m state chain =
     (let ks = record_calls (kr_now kr) (kr_clk kr) (sm_kill_switch m) agent_id allowed denied in
      case evaluate (kr_clk2 kr) (kr_wall kr) ks agent_id of
        None \<Rightarrow> (Inl Zero_division, m\<lparr>sm_kill_switch := prune (kr_clk2 kr) ks agent_id\<rparr>, state, chain)
      | Some (tripped, ks') \<Rightarrow>
          let m' = m\<lparr>sm_kill_switch := ks'\<rparr> in
          if \<not> tripped then (Inr False, m', state, chain)
          else let state' = state\<lparr>ss_kill_switch_triggered := True, ss_kill_switch_trigger := Some Deny_rate\<rparr> in
            case chain_append (cy_sha256 (rc_crypto ctx)) (kr_tick kr) chain
                   ((entry_defaults Break_glass_used)\<lparr>ea_detail := Some
                      ([(''reason'', JStr ''kill_switch_triggered''), (''agent_id'', JStr agent_id),
                        (''deny_rate_window_seconds'', JInt (int (window_of ctx)))] @ extra)\<rparr>) of
              Inl e \<Rightarrow> (Inl (Audit_failed e), m', state', chain)
            | Inr (chain', _) \<Rightarrow> (Inr True, m', state', chain'))"

definition observe_call ::
  "runtime_context \<Rightarrow> ks_reading \<Rightarrow> session_manager \<Rightarrow> session_state \<Rightarrow> audit_chain \<Rightarrow> string
     \<Rightarrow> (manager_error + bool) \<times> session_manager \<times> session_state \<times> audit_chain" where
  "observe_call ctx kr m state chain call_id =
     (case rc_agent_manifest ctx of
        None \<Rightarrow> (Inr False, m, state, chain)
      | Some b \<Rightarrow>
          if ss_kill_switch_triggered state then (Inr False, m, state, chain)
          else case find_last (\<lambda>e. ea_entry_type e = Tool_call \<and> ea_call_id e = Some call_id) (ch_entries chain) of
            None \<Rightarrow> (Inr False, m, state, chain)
          | Some e \<Rightarrow>
              if call_id \<in> ss_kill_switch_observed_calls state then (Inr False, m, state, chain)
              else count_and_trip ctx kr (ab_agent_id b)
                     (if ea_policy_decision e = Some PD_allow then 1 else 0) (if counts_as_denied e then 1 else 0)
                     [(''tripping_call_id'', JStr call_id)] m
                     (state\<lparr>ss_kill_switch_observed_calls := insert call_id (ss_kill_switch_observed_calls state)\<rparr>) chain)"

definition unobserved_calls :: "session_state \<Rightarrow> audit_entry list \<Rightarrow> audit_entry list" where
  "unobserved_calls state calls =
     filter (\<lambda>e. case ea_call_id e of None \<Rightarrow> True | Some i \<Rightarrow> i \<notin> ss_kill_switch_observed_calls state) calls"

definition close_kill_switch ::
  "runtime_context \<Rightarrow> ks_reading \<Rightarrow> session_manager \<Rightarrow> session_state \<Rightarrow> audit_chain
     \<Rightarrow> (manager_error + bool) \<times> session_manager \<times> session_state \<times> audit_chain" where
  "close_kill_switch ctx kr m state chain =
     (case rc_agent_manifest ctx of
        None \<Rightarrow> (Inr False, m, state, chain)
      | Some b \<Rightarrow>
          if ss_kill_switch_triggered state then (Inr False, m, state, chain)
          else let rest = unobserved_calls state (tool_calls_of (ch_entries chain)) in
            count_and_trip ctx kr (ab_agent_id b)
              (count_if (\<lambda>e. ea_policy_decision e = Some PD_allow) rest) (count_if counts_as_denied rest) [] m state chain)"

definition trip_identity ::
  "runtime_context \<Rightarrow> datetime \<Rightarrow> tick \<Rightarrow> string \<Rightarrow> string \<Rightarrow> string \<Rightarrow> session_manager \<Rightarrow> session_state \<Rightarrow> audit_chain
     \<Rightarrow> (manager_error + string option) \<times> session_manager \<times> session_state \<times> audit_chain" where
  "trip_identity ctx wall tk reason authorized_by credential m state chain =
     (case rc_agent_manifest ctx of
        None \<Rightarrow> (Inr None, m, state, chain)
      | Some b \<Rightarrow>
          let m' = m\<lparr>sm_kill_switch := ks_block wall (sm_kill_switch m) (ab_agent_id b) ''operator''\<rparr>;
              state' = state\<lparr>ss_kill_switch_triggered := True, ss_kill_switch_trigger := Some Operator\<rparr> in
          case chain_append (cy_sha256 (rc_crypto ctx)) tk chain
                 ((entry_defaults Break_glass_used)\<lparr>ea_detail := Some
                    [(''reason'', JStr ''kill_switch_operator_trip''), (''agent_id'', JStr (ab_agent_id b)),
                     (''operator_reason'', JStr reason), (''authorized_by'', JStr authorized_by),
                     (''credential_verified'', JStr credential)]\<rparr>) of
            Inl e \<Rightarrow> (Inl (Audit_failed e), m', state', chain)
          | Inr (chain', _) \<Rightarrow> (Inr (Some (ab_agent_id b)), m', state', chain'))"

definition unblock_identity :: "session_manager \<Rightarrow> string \<Rightarrow> bool \<times> session_manager" where
  "unblock_identity m agent_id =
     (let (was, ks) = ks_unblock (sm_kill_switch m) agent_id in (was, m\<lparr>sm_kill_switch := ks\<rparr>))"

subsection \<open>Closing\<close>

record close_reading =
  cl_end_tick :: tick
  cl_now :: datetime
  cl_ks :: ks_reading
  cl_iat :: int

text \<open>The claim's inputs. \<open>state0\<close> and \<open>entries\<close> are the session before the kill switch accounting, which
  the summaries are taken from; \<open>state\<close> and \<open>chain\<close> the session after it.\<close>

definition claim_input_of ::
  "runtime_context \<Rightarrow> close_reading \<Rightarrow> string \<Rightarrow> session_manager \<Rightarrow> attestation_report \<Rightarrow> session_state \<Rightarrow> audit_entry list
     \<Rightarrow> call_log option \<Rightarrow> session_call_log option \<Rightarrow> session_state \<Rightarrow> audit_chain \<Rightarrow> string \<Rightarrow> string \<Rightarrow> claim_input" where
  "claim_input_of ctx cr session_id m report state0 entries clog slog state chain rt tip =
     (let calls = tool_calls_of entries in
      \<lparr>ci_session_id = session_id, ci_report = report_info_of report, ci_policy = policy_info_of ctx,
       ci_catalog_hash = tc_catalog_hash (rc_catalog ctx),
       ci_drift_detected = (ss_catalog_drift state0 \<or> ss_upstream_drift_tools state0 \<noteq> []),
       ci_call_summary = call_summary_of (rc_catalog ctx) state0 calls slog,
       ci_chain_root = rt, ci_chain_tip = tip, ci_chain_length = length (ch_entries chain),
       ci_transcript = transcript_of (rc_catalog ctx) calls,
       ci_attestation_stale = attestation_is_stale (cl_now cr) report,
       ci_catalog_exceptions = tc_exceptions (rc_catalog ctx),
       ci_call_log_summary = map_option (call_log_summary_of state0) clog,
       ci_agent_identity = map_option agent_identity_of (rc_agent_manifest ctx),
       ci_sequence_number = sm_claim_sequence m, ci_prev_claim_hash = sm_last_claim_hash m,
       ci_kill_switch_triggered = ss_kill_switch_triggered state, ci_kill_switch = kill_switch_state ctx state,
       ci_iat = cl_iat cr, ci_gateway_version = rc_gateway_version ctx\<rparr>)"

definition claim_hash :: "(bytes \<Rightarrow> bytes) \<Rightarrow> claim \<Rightarrow> string" where
  "claim_hash sha256 c = ''sha256:'' @ hexlify (sha256 (dumps (JObj c)))"

text \<open>From the accounting to the stored claim.\<close>

definition issue_claim ::
  "runtime_context \<Rightarrow> close_reading \<Rightarrow> string \<Rightarrow> call_log option \<Rightarrow> session_call_log option \<Rightarrow> attestation_report
     \<Rightarrow> session_manager \<Rightarrow> session_state \<Rightarrow> audit_chain
     \<Rightarrow> (manager_error + claim) \<times> session_manager \<times> session_state \<times> audit_chain" where
  "issue_claim ctx cr session_id clog slog report m state chain =
     (case close_kill_switch ctx (cl_ks cr) m state chain of
        (Inl e, m1, state1, chain1) \<Rightarrow> (Inl e, m1, state1, chain1)
      | (Inr _, m1, state1, chain1) \<Rightarrow>
          let m2 = m1\<lparr>sm_claim_sequence := sm_claim_sequence m1 + 1\<rparr> in
          case (chain_root chain1, chain_tip chain1) of
            (Inr rt, Inr tip) \<Rightarrow>
              (case generate_trace_claim (rc_models ctx) (rc_signing_key ctx)
                      (claim_input_of ctx cr session_id m2 report state (ch_entries chain) clog slog state1 chain1 rt tip) of
                 Inl e \<Rightarrow> (Inl (Claim_failed e), m2, state1, chain1)
               | Inr c \<Rightarrow>
                   (Inr c, m2\<lparr>sm_last_claim_hash := Some (claim_hash (cy_sha256 (rc_crypto ctx)) c),
                              sm_closed_claims := upsert (sm_closed_claims m2) session_id c\<rparr>, state1, chain1))
          | _ \<Rightarrow> (Inl (Audit_failed Index_error), m2, state1, chain1))"

definition close_session ::
  "runtime_context \<Rightarrow> close_reading \<Rightarrow> session_manager \<Rightarrow> string \<Rightarrow> session_state \<Rightarrow> audit_chain
     \<Rightarrow> call_log option \<Rightarrow> session_call_log option
     \<Rightarrow> (manager_error + claim) \<times> session_manager \<times> session_state \<times> audit_chain" where
  "close_session ctx cr m session_id state chain clog slog =
     (case already_closing_claim m session_id of
        Inl e \<Rightarrow> (Inl e, m, state, chain)
      | Inr (Some c) \<Rightarrow> (Inr c, m, state, chain)
      | Inr None \<Rightarrow>
          let m1 = m\<lparr>sm_closing_sessions := insert session_id (sm_closing_sessions m)\<rparr> in
          case chain_append (cy_sha256 (rc_crypto ctx)) (cl_end_tick cr) chain
                 ((entry_defaults Session_end)\<lparr>ea_session_sensitivity_before := Some (ss_max_sensitivity state),
                    ea_session_sensitivity_after := Some (ss_max_sensitivity state)\<rparr>) of
            Inl e \<Rightarrow> (Inl (Audit_failed e), m1, state, chain)
          | Inr (chain1, _) \<Rightarrow>
              if ch_session_report chain1 = None \<and> provider (rc_attestation_report ctx) \<noteq> ''software-only''
              then (Inl (Tee_fault session_id), m1, state, chain1)
              else issue_claim ctx cr session_id clog slog
                     (case ch_session_report chain1 of Some r \<Rightarrow> r | None \<Rightarrow> rc_attestation_report ctx) m1 state chain1)"

subsection \<open>Receipts and exports\<close>

definition get_trace_claim :: "session_manager \<Rightarrow> string \<Rightarrow> claim option" where
  "get_trace_claim m session_id = map_of (sm_closed_claims m) session_id"

definition refusal_receipt :: "runtime_context \<Rightarrow> datetime \<Rightarrow> session_manager \<Rightarrow> string \<Rightarrow> string \<Rightarrow> (string \<times> json) list" where
  "refusal_receipt ctx now m agent_id session_id =
     (let body = [(''type'', JStr ''cmcp.kill-switch.refusal/v1''), (''agent_id'', JStr agent_id),
            (''session_id'', JStr session_id), (''refused_at'', JStr (isoformat now)),
            (''gateway_key'', JStr (b64url (sg_public_bytes (rc_signing_key ctx))))]
          @ (case map_of (sm_closed_claims m) session_id of
               None \<Rightarrow> []
             | Some c \<Rightarrow> [(''claim_digest'', JStr (''sha256:'' @ hexlify (cy_sha256 (rc_crypto ctx) (canonical_json c))))])
      in body @ [(''signature'', JStr (b64url (sg_sign (rc_signing_key ctx) (canonical_json body))))])"

definition get_audit_bundle :: "runtime_context \<Rightarrow> string \<Rightarrow> audit_chain \<Rightarrow> manager_error + (string \<times> json) list" where
  "get_audit_bundle ctx session_id chain =
     (if \<not> verify_chain (cy_sha256 (rc_crypto ctx)) chain then Inl (Chain_broken session_id)
      else let entries = JArr (map entry_asdict (ch_entries chain)) in
        Inr [(''session_id'', JStr session_id), (''entries'', entries),
             (''bundle_signature'',
                JStr (b64url (sg_sign (rc_signing_key ctx) (cy_sha256 (rc_crypto ctx) (dumps entries)))))])"

subsection \<open>What the operations change\<close>

text \<open>The manager after kill switch accounting: only the switch differs, and no block is lifted.\<close>

definition ks_grows :: "session_manager \<Rightarrow> session_manager \<Rightarrow> bool" where
  "ks_grows m m' \<longleftrightarrow> m' = m\<lparr>sm_kill_switch := sm_kill_switch m'\<rparr>
     \<and> (\<forall>b. ks_is_blocked (sm_kill_switch m) b \<longrightarrow> ks_is_blocked (sm_kill_switch m') b)"

lemma ks_grows_refl [simp]: "ks_grows m m"
  by (simp add: ks_grows_def)

lemma ks_grows_fields:
  assumes "ks_grows m m'"
  shows "sm_closed_claims m' = sm_closed_claims m" "sm_closing_sessions m' = sm_closing_sessions m"
    "sm_last_claim_hash m' = sm_last_claim_hash m" "sm_claim_sequence m' = sm_claim_sequence m"
  using assms unfolding ks_grows_def by (metis session_manager.ext_inject session_manager.surjective
      session_manager.update_convs(4))+

lemma entry_defaults_type [simp]: "ea_entry_type (entry_defaults t) = t"
  by (simp add: entry_defaults_def)

definition trip_args :: "runtime_context \<Rightarrow> string \<Rightarrow> (string \<times> json) list \<Rightarrow> entry_args" where
  "trip_args ctx agent_id extra = (entry_defaults Break_glass_used)\<lparr>ea_detail := Some
     ([(''reason'', JStr ''kill_switch_triggered''), (''agent_id'', JStr agent_id),
       (''deny_rate_window_seconds'', JInt (int (window_of ctx)))] @ extra)\<rparr>"

lemma count_and_trip_cases:
  assumes "count_and_trip ctx kr a n d extra m s c = (r, m', s', c')"
  obtains (raised) "r = Inl Zero_division" "ks_grows m m'" "s' = s" "c' = c"
  | (quiet) "r = Inr False" "ks_grows m m'" "s' = s" "c' = c"
  | (unlogged) e where "r = Inl (Audit_failed e)" "ks_grows m m'" "ks_is_blocked (sm_kill_switch m') a"
      "s' = s\<lparr>ss_kill_switch_triggered := True, ss_kill_switch_trigger := Some Deny_rate\<rparr>" "c' = c"
      "chain_append (cy_sha256 (rc_crypto ctx)) (kr_tick kr) c (trip_args ctx a extra) = Inl e"
  | (tripped) e where "r = Inr True" "ks_grows m m'" "ks_is_blocked (sm_kill_switch m') a"
      "s' = s\<lparr>ss_kill_switch_triggered := True, ss_kill_switch_trigger := Some Deny_rate\<rparr>"
      "chain_append (cy_sha256 (rc_crypto ctx)) (kr_tick kr) c (trip_args ctx a extra) = Inr (c', e)"
proof -
  let ?ks = "record_calls (kr_now kr) (kr_clk kr) (sm_kill_switch m) a n d"
  show thesis
  proof (cases "evaluate (kr_clk2 kr) (kr_wall kr) ?ks a")
    case None
    with assms show thesis
      by (intro raised) (auto simp: count_and_trip_def ks_grows_def Let_def)
  next
    case (Some p)
    obtain t ks' where p: "p = (t, ks')" by (cases p)
    have b: "ks_is_blocked ks' x \<longleftrightarrow> ks_is_blocked (sm_kill_switch m) x \<or> t \<and> x = a" for x
      using evaluate_blocked [OF Some [unfolded p]] by simp
    then have g: "ks_grows m (m\<lparr>sm_kill_switch := ks'\<rparr>)" by (simp add: ks_grows_def)
    have eq: "count_and_trip ctx kr a n d extra m s c =
      (if \<not> t then (Inr False, m\<lparr>sm_kill_switch := ks'\<rparr>, s, c)
       else let s1 = s\<lparr>ss_kill_switch_triggered := True, ss_kill_switch_trigger := Some Deny_rate\<rparr> in
         case chain_append (cy_sha256 (rc_crypto ctx)) (kr_tick kr) c (trip_args ctx a extra) of
           Inl e \<Rightarrow> (Inl (Audit_failed e), m\<lparr>sm_kill_switch := ks'\<rparr>, s1, c)
         | Inr (c', _) \<Rightarrow> (Inr True, m\<lparr>sm_kill_switch := ks'\<rparr>, s1, c'))"
      by (simp add: count_and_trip_def Some p Let_def trip_args_def)
    show thesis
    proof (cases t)
      case False
      with assms eq g show thesis by (intro quiet) auto
    next
      case t: True
      show thesis
      proof (cases "chain_append (cy_sha256 (rc_crypto ctx)) (kr_tick kr) c (trip_args ctx a extra)")
        case (Inl e)
        with assms eq g b t show thesis by (intro unlogged) (auto simp: Let_def)
      next
        case (Inr ce)
        with assms eq g b t show thesis by (cases ce) (auto simp: Let_def intro!: tripped)
      qed
    qed
  qed
qed

text \<open>\<open>observe_call\<close> and the accounting of a close, as the cases of one description.\<close>

lemma observe_call_cases:
  assumes "observe_call ctx kr m s c call_id = (r, m', s', c')"
  obtains (nothing) "r = Inr False" "m' = m" "s' = s" "c' = c"
  | (counted) b e where "rc_agent_manifest ctx = Some b" "\<not> ss_kill_switch_triggered s"
      "e \<in> set (ch_entries c)" "ea_entry_type e = Tool_call" "ea_call_id e = Some call_id"
      "call_id \<notin> ss_kill_switch_observed_calls s"
      "count_and_trip ctx kr (ab_agent_id b) (if ea_policy_decision e = Some PD_allow then 1 else 0)
         (if counts_as_denied e then 1 else 0) [(''tripping_call_id'', JStr call_id)] m
         (s\<lparr>ss_kill_switch_observed_calls := insert call_id (ss_kill_switch_observed_calls s)\<rparr>) c = (r, m', s', c')"
  using assms
  by (auto simp: observe_call_def split: option.splits if_splits dest: find_last_Some)

lemma close_kill_switch_cases:
  assumes "close_kill_switch ctx kr m s c = (r, m', s', c')"
  obtains (nothing) "r = Inr False" "m' = m" "s' = s" "c' = c"
  | (counted) b n d where "rc_agent_manifest ctx = Some b" "\<not> ss_kill_switch_triggered s"
      "count_and_trip ctx kr (ab_agent_id b) n d [] m s c = (r, m', s', c')"
  using assms by (auto simp: close_kill_switch_def Let_def split: option.splits if_splits)

lemma close_kill_switch_grows:
  "close_kill_switch ctx kr m s c = (r, m', s', c') \<Longrightarrow> ks_grows m m'"
  by (elim close_kill_switch_cases count_and_trip_cases) simp_all

lemma close_kill_switch_chain:
  assumes "close_kill_switch ctx kr m s c = (r, m', s', c')"
  shows "c' = c \<or> (\<exists>args e. chain_append (cy_sha256 (rc_crypto ctx)) (kr_tick kr) c args = Inr (c', e))"
  using assms by (elim close_kill_switch_cases count_and_trip_cases) auto

lemma observe_call_grows: "observe_call ctx kr m s c i = (r, m', s', c') \<Longrightarrow> ks_grows m m'"
  by (elim observe_call_cases count_and_trip_cases) simp_all

lemma trip_identity_grows: "trip_identity ctx wall tk why who cred m s c = (r, m', s', c') \<Longrightarrow> ks_grows m m'"
  by (auto simp: trip_identity_def ks_grows_def Let_def split: option.splits sum.splits)

lemma issue_claim_cases:
  assumes "issue_claim ctx cr sid clog slog report m s c = (r, m', s', c')"
  obtains (failed) e m1 n where "r = Inl e" "ks_grows m m1" "m' = m1\<lparr>sm_claim_sequence := n\<rparr>" "sm_claim_sequence m \<le> n"
  | (issued) claim m1 m2 t rt tip where "r = Inr claim"
      "close_kill_switch ctx (cl_ks cr) m s c = (Inr t, m1, s', c')"
      "chain_root c' = Inr rt" "chain_tip c' = Inr tip" "m2 = m1\<lparr>sm_claim_sequence := sm_claim_sequence m + 1\<rparr>"
      "generate_trace_claim (rc_models ctx) (rc_signing_key ctx)
         (claim_input_of ctx cr sid m2 report s (ch_entries c) clog slog s' c' rt tip) = Inr claim"
      "m' = m2\<lparr>sm_last_claim_hash := Some (claim_hash (cy_sha256 (rc_crypto ctx)) claim),
               sm_closed_claims := upsert (sm_closed_claims m2) sid claim\<rparr>"
proof -
  obtain r1 m1 s1 c1 where k: "close_kill_switch ctx (cl_ks cr) m s c = (r1, m1, s1, c1)"
    by (cases "close_kill_switch ctx (cl_ks cr) m s c")
  note grows = close_kill_switch_grows [OF k]
  note seq = ks_grows_fields(4) [OF grows]
  show thesis
  proof (cases r1)
    case (Inl e)
    with assms k have "r = Inl e" "m' = m1\<lparr>sm_claim_sequence := sm_claim_sequence m1\<rparr>"
      by (simp_all add: issue_claim_def)
    then show thesis using grows seq by (intro failed [of e m1 "sm_claim_sequence m"]) simp_all
  next
    case (Inr t)
    let ?m2 = "m1\<lparr>sm_claim_sequence := sm_claim_sequence m + 1\<rparr>"
    show thesis
    proof (cases r)
      case (Inl e)
      with assms k Inr seq have "m' = ?m2"
        by (auto simp: issue_claim_def Let_def split: sum.splits)
      with grows Inl show thesis by (intro failed [of e m1 "sm_claim_sequence m + 1"]) simp_all
    next
      case (Inr claim)
      with assms k \<open>r1 = Inr t\<close> obtain rt tip where rt: "chain_root c1 = Inr rt" "chain_tip c1 = Inr tip"
        by (auto simp: issue_claim_def Let_def split: sum.splits)
      with assms k \<open>r1 = Inr t\<close> seq Inr show thesis
        by (intro issued [of claim t m1 rt tip ?m2])
           (auto simp: issue_claim_def Let_def split: sum.splits)
    qed
  qed
qed

text \<open>The entry a close appends first.\<close>

definition end_args :: "session_state \<Rightarrow> entry_args" where
  "end_args state = (entry_defaults Session_end)\<lparr>ea_session_sensitivity_before := Some (ss_max_sensitivity state),
     ea_session_sensitivity_after := Some (ss_max_sensitivity state)\<rparr>"

text \<open>The manager after a close that raised: the session stays marked, nothing is stored.\<close>

definition close_failed :: "session_manager \<Rightarrow> string \<Rightarrow> session_manager \<Rightarrow> bool" where
  "close_failed m sid m' \<longleftrightarrow> sm_closing_sessions m' = insert sid (sm_closing_sessions m)
     \<and> sm_closed_claims m' = sm_closed_claims m \<and> sm_last_claim_hash m' = sm_last_claim_hash m
     \<and> sm_claim_sequence m \<le> sm_claim_sequence m'
     \<and> (\<forall>b. ks_is_blocked (sm_kill_switch m) b \<longrightarrow> ks_is_blocked (sm_kill_switch m') b)"

lemma close_session_cases:
  assumes "close_session ctx cr m sid s c clog slog = (r, m', s', c')"
  obtains (cached) claim where "sid \<in> sm_closing_sessions m" "map_of (sm_closed_claims m) sid = Some claim"
      "r = Inr claim" "m' = m" "s' = s" "c' = c"
  | (incomplete) "sid \<in> sm_closing_sessions m" "map_of (sm_closed_claims m) sid = None"
      "r = Inl (Session_close_incomplete sid)" "m' = m" "s' = s" "c' = c"
  | (failed) e where "sid \<notin> sm_closing_sessions m" "r = Inl e" "close_failed m sid m'"
  | (issued) claim e report c1 m0 m1 m2 t rt tip where "sid \<notin> sm_closing_sessions m" "r = Inr claim"
      "chain_append (cy_sha256 (rc_crypto ctx)) (cl_end_tick cr) c (end_args s) = Inr (c1, e)"
      "ch_session_report c1 = Some report \<or> ch_session_report c1 = None \<and> report = rc_attestation_report ctx
         \<and> provider report = ''software-only''"
      "m0 = m\<lparr>sm_closing_sessions := insert sid (sm_closing_sessions m)\<rparr>"
      "close_kill_switch ctx (cl_ks cr) m0 s c1 = (Inr t, m1, s', c')"
      "chain_root c' = Inr rt" "chain_tip c' = Inr tip" "m2 = m1\<lparr>sm_claim_sequence := sm_claim_sequence m + 1\<rparr>"
      "generate_trace_claim (rc_models ctx) (rc_signing_key ctx)
         (claim_input_of ctx cr sid m2 report s (ch_entries c1) clog slog s' c' rt tip) = Inr claim"
      "m' = m2\<lparr>sm_last_claim_hash := Some (claim_hash (cy_sha256 (rc_crypto ctx)) claim),
               sm_closed_claims := upsert (sm_closed_claims m2) sid claim\<rparr>"
proof (cases "sid \<in> sm_closing_sessions m")
  case True
  with assms show thesis
    by (cases "map_of (sm_closed_claims m) sid")
       (auto simp: close_session_def already_closing_claim_def intro: cached incomplete)
next
  case False
  let ?m0 = "m\<lparr>sm_closing_sessions := insert sid (sm_closing_sessions m)\<rparr>"
  let ?ap = "chain_append (cy_sha256 (rc_crypto ctx)) (cl_end_tick cr) c (end_args s)"
  have eq: "close_session ctx cr m sid s c clog slog =
    (case ?ap of Inl e \<Rightarrow> (Inl (Audit_failed e), ?m0, s, c)
     | Inr (c1, _) \<Rightarrow>
        if ch_session_report c1 = None \<and> provider (rc_attestation_report ctx) \<noteq> ''software-only''
        then (Inl (Tee_fault sid), ?m0, s, c1)
        else issue_claim ctx cr sid clog slog
          (case ch_session_report c1 of Some r \<Rightarrow> r | None \<Rightarrow> rc_attestation_report ctx) ?m0 s c1)"
    using False by (simp add: close_session_def already_closing_claim_def end_args_def Let_def)
  have m0: "close_failed m sid ?m0" by (simp add: close_failed_def)
  show thesis
  proof (cases ?ap)
    case (Inl e)
    with assms eq False m0 show thesis by (intro failed) auto
  next
    case (Inr ce)
    obtain c1 e where ce: "ce = (c1, e)" by (cases ce)
    let ?rep = "case ch_session_report c1 of Some r \<Rightarrow> r | None \<Rightarrow> rc_attestation_report ctx"
    show thesis
    proof (cases "ch_session_report c1 = None \<and> provider (rc_attestation_report ctx) \<noteq> ''software-only''")
      case True
      with assms eq Inr ce False m0 show thesis by (intro failed) auto
    next
      case bound: False
      then have "issue_claim ctx cr sid clog slog ?rep ?m0 s c1 = (r, m', s', c')"
        using assms eq Inr ce by (auto split: option.splits)
      then show thesis
      proof (cases rule: issue_claim_cases)
        case (failed e m1 n)
        have "close_failed m sid m'"
          using failed ks_grows_fields [OF failed(2)] by (auto simp: close_failed_def ks_grows_def)
        with failed False that(3) show thesis by blast
      next
        case (issued claim m1 m2 t rt tip)
        have rep: "ch_session_report c1 = Some ?rep \<or> ch_session_report c1 = None \<and> ?rep = rc_attestation_report ctx
            \<and> provider ?rep = ''software-only''"
          using bound by (auto split: option.splits)
        show thesis
          by (rule that(4) [OF False issued(1) Inr [unfolded ce] rep refl issued(2-4) _ issued(6-7)])
             (use issued(5) in simp)
      qed
    qed
  qed
qed

subsection \<open>The chain of claims\<close>

fun str_value :: "json option \<Rightarrow> string option" where
  "str_value (Some (JStr s)) = Some s"
| "str_value _ = None"

lemma str_value_norm: "map_option norm_json x = map_option norm_json y \<Longrightarrow> str_value x = str_value y"
proof -
  have "str_value (map_option norm_json z) = str_value z" for z
    by (cases z rule: str_value.cases) simp_all
  then show "map_option norm_json x = map_option norm_json y \<Longrightarrow> str_value x = str_value y" by metis
qed

definition claim_prev :: "claim \<Rightarrow> string option" where
  "claim_prev c =
     (case map_of c ''gateway'' of
        Some (JObj g) \<Rightarrow> str_value (map_of g ''prev_claim_hash'')
      | _ \<Rightarrow> None)"

text \<open>Each claim names the hash of the one before it.\<close>

fun claim_links :: "(bytes \<Rightarrow> bytes) \<Rightarrow> string option option \<Rightarrow> claim list \<Rightarrow> bool" where
  "claim_links sha256 p [] = True"
| "claim_links sha256 p (c # cs) =
     ((case p of None \<Rightarrow> True | Some h \<Rightarrow> claim_prev c = h) \<and> claim_links sha256 (Some (Some (claim_hash sha256 c))) cs)"

lemma claim_prev_body:
  assumes "claim_ok c" "claim_ok d" "dumps (JObj c) = dumps (JObj d)"
  shows "claim_prev c = claim_prev d"
proof -
  obtain g h where g: "map_of c ''gateway'' = Some (JObj g)" "distinct (map fst g)"
    and h: "map_of d ''gateway'' = Some (JObj h)" "distinct (map fst h)"
    using assms(1,2) by (auto simp: claim_ok_def)
  have "norm_json (JObj c) = norm_json (JObj d)"
    using assms dumps_inject by (simp add: claim_ok_def)
  from norm_json_obj_eq_lookup [OF this, of "''gateway''"] assms(1,2) g h
  have "norm_json (JObj g) = norm_json (JObj h)" by (simp add: claim_ok_def del: norm_json.simps)
  then have "str_value (map_of g ''prev_claim_hash'') = str_value (map_of h ''prev_claim_hash'')"
    by (intro str_value_norm norm_json_obj_eq_lookup g(2) h(2))
  then show ?thesis unfolding claim_prev_def g(1) h(1) by simp
qed

interpretation claim_log: hash_linked "\<lambda>b. Some (''sha256:'' @ hexlify (sha256 b))" "\<lambda>c. dumps (JObj c)" claim_prev
    "\<lambda>c. Some (claim_hash sha256 c)" claim_ok "claim_links sha256" for sha256
proof unfold_locales
  show "claim_prev c = claim_prev d" if "claim_ok c" "claim_ok d" "dumps (JObj c) = dumps (JObj d)" for c d
    using that by (rule claim_prev_body)
qed (simp_all add: claim_hash_def)

text \<open>What the configuration must satisfy for claims to be JSON documents.\<close>

definition ctx_ok :: "runtime_context \<Rightarrow> bool" where
  "ctx_ok ctx \<longleftrightarrow> models_ok (rc_models ctx) \<and> float_text (rc_threshold_text ctx)"

definition claims_of :: "session_manager \<Rightarrow> claim list" where
  "claims_of m = map snd (sm_closed_claims m)"

definition manager_inv :: "(bytes \<Rightarrow> bytes) \<Rightarrow> session_manager \<Rightarrow> bool" where
  "manager_inv sha256 m \<longleftrightarrow>
     fst ` set (sm_closed_claims m) \<subseteq> sm_closing_sessions m
     \<and> list_all claim_ok (claims_of m) \<and> claim_links sha256 None (claims_of m)
     \<and> (claims_of m = [] \<longrightarrow> sm_last_claim_hash m = None)
     \<and> (claims_of m \<noteq> [] \<longrightarrow> sm_last_claim_hash m = Some (claim_hash sha256 (last (claims_of m)))
          \<and> claim_prev (hd (claims_of m)) = None)"

lemma claim_input_kill_switch:
  "float_text (rc_threshold_text ctx) \<Longrightarrow>
     pred_option (\<lambda>k. float_text (ki_threshold k))
       (ci_kill_switch (claim_input_of ctx cr sid m rep s0 es clog slog s c rt tip))"
  by (simp add: claim_input_of_def kill_switch_state_def Let_def split: option.splits)

lemma generate_trace_claim_prev:
  assumes "generate_trace_claim tm k ci = Inr c" "pred_option (\<lambda>k. float_text (ki_threshold k)) (ci_kill_switch ci)"
  shows "claim_prev c = ci_prev_claim_hash ci"
proof -
  obtain tr gw s where p: "build_gateway ci = Inr gw" "c = claim_dict tr gw s"
    using assms(1) by (auto simp: generate_trace_claim_def bind_result_eq_Inr)
  from p(1) assms(2) obtain g where "gw = JObj g" "map_of g ''prev_claim_hash'' = map_option JStr (ci_prev_claim_hash ci)"
    by (rule build_gateway_ok)
  then show ?thesis
    by (cases "ci_prev_claim_hash ci") (simp_all add: claim_prev_def p(2) claim_dict_def)
qed

lemma manager_inv_new [cmcp_inv]: "manager_inv sha256 (new_session_manager ctx blocks voc sinks)"
  by (simp add: manager_inv_def new_session_manager_def claims_of_def)

lemma manager_inv_grows [cmcp_inv]: "manager_inv sha256 m \<Longrightarrow> ks_grows m m' \<Longrightarrow> manager_inv sha256 m'"
  by (simp add: manager_inv_def claims_of_def ks_grows_fields)

lemma manager_inv_close [cmcp_inv]:
  assumes "close_session ctx cr m sid s c clog slog = (r, m', s', c')" "ctx_ok ctx"
    and inv: "manager_inv (cy_sha256 (rc_crypto ctx)) m"
  shows "manager_inv (cy_sha256 (rc_crypto ctx)) m'"
  using assms(1)
proof (cases rule: close_session_cases)
  case (failed e)
  with inv show ?thesis by (auto simp: manager_inv_def close_failed_def claims_of_def)
next
  case (issued claim e report c1 m0 m1 m2 t rt tip)
  let ?h = "cy_sha256 (rc_crypto ctx)"
  note g = ks_grows_fields [OF close_kill_switch_grows [OF issued(6)]]
  have new: "sid \<notin> fst ` set (sm_closed_claims m)" using inv issued(1) by (auto simp: manager_inv_def)
  have cl: "claims_of m' = claims_of m @ [claim]" "sm_last_claim_hash m' = Some (claim_hash ?h claim)"
    "sm_closing_sessions m' = insert sid (sm_closing_sessions m)"
    "sm_closed_claims m' = sm_closed_claims m @ [(sid, claim)]"
    using issued(5,9,11) g new by (simp_all add: claims_of_def upsert_new)
  let ?ci = "claim_input_of ctx cr sid m2 report s (ch_entries c1) clog slog s' c' rt tip"
  have thr: "pred_option (\<lambda>k. float_text (ki_threshold k)) (ci_kill_switch ?ci)"
    using assms(2) claim_input_kill_switch by (simp add: ctx_ok_def)
  have ok: "claim_ok claim"
    using generate_trace_claim_ok [OF issued(10) _ thr] assms(2) by (simp add: ctx_ok_def)
  have prev: "claim_prev claim = sm_last_claim_hash m"
    using generate_trace_claim_prev [OF issued(10) thr] issued(5,9) g by (simp add: claim_input_of_def Let_def)
  show ?thesis
    using inv ok prev
    by (auto simp: manager_inv_def cl claim_log.links_snoc claim_hash_def hd_append)
qed (use inv in simp_all)

text \<open>The operations of a running gateway, except for lifting the block of \<open>kept\<close>.\<close>

inductive mgr_step :: "runtime_context \<Rightarrow> string option \<Rightarrow> session_manager \<Rightarrow> session_manager \<Rightarrow> bool" for ctx kept where
  closed: "close_session ctx cr m sid s c clog slog = (r, m', s', c') \<Longrightarrow> mgr_step ctx kept m m'"
| observed: "observe_call ctx kr m s c i = (r, m', s', c') \<Longrightarrow> mgr_step ctx kept m m'"
| tripped: "trip_identity ctx wall tk why who cred m s c = (r, m', s', c') \<Longrightarrow> mgr_step ctx kept m m'"
| unblocked: "Some a \<noteq> kept \<Longrightarrow> unblock_identity m a = (was, m') \<Longrightarrow> mgr_step ctx kept m m'"

lemma unblock_identity_fields:
  assumes "unblock_identity m a = (was, m')"
  shows "m' = m\<lparr>sm_kill_switch := snd (ks_unblock (sm_kill_switch m) a)\<rparr>" "was = ks_is_blocked (sm_kill_switch m) a"
  using assms ks_unblock_result [of "sm_kill_switch m" a]
  by (auto simp: unblock_identity_def split: prod.splits)

lemma mgr_step_inv:
  "mgr_step ctx kept m m' \<Longrightarrow> ctx_ok ctx \<Longrightarrow> manager_inv (cy_sha256 (rc_crypto ctx)) m
     \<Longrightarrow> manager_inv (cy_sha256 (rc_crypto ctx)) m'"
proof (induction rule: mgr_step.induct)
  case (unblocked a m was m')
  then show ?case
    using unblock_identity_fields(1) [OF unblocked(2)] by (simp add: manager_inv_def claims_of_def)
qed (auto intro: manager_inv_close manager_inv_grows observe_call_grows trip_identity_grows)

lemma mgr_steps_inv:
  "(mgr_step ctx kept)\<^sup>*\<^sup>* m m' \<Longrightarrow> ctx_ok ctx \<Longrightarrow> manager_inv (cy_sha256 (rc_crypto ctx)) m
     \<Longrightarrow> manager_inv (cy_sha256 (rc_crypto ctx)) m'"
  by (induction rule: rtranclp_induct) (auto intro: mgr_step_inv)

text \<open>A session that is closing stays closing, with the claim it has.\<close>

lemma close_session_keeps:
  assumes "close_session ctx cr m sid' s c clog slog = (r, m', s', c')" "sid \<in> sm_closing_sessions m"
  shows "sid \<in> sm_closing_sessions m' \<and> map_of (sm_closed_claims m') sid = map_of (sm_closed_claims m) sid"
  using assms(1)
proof (cases rule: close_session_cases)
  case (issued claim e report c1 m0 m1 m2 t rt tip)
  with assms(2) ks_grows_fields [OF close_kill_switch_grows [OF issued(6)]] show ?thesis by auto
qed (use assms(2) in \<open>auto simp: close_failed_def\<close>)

lemma mgr_step_keeps:
  "mgr_step ctx kept m m' \<Longrightarrow> sid \<in> sm_closing_sessions m \<Longrightarrow>
     sid \<in> sm_closing_sessions m' \<and> map_of (sm_closed_claims m') sid = map_of (sm_closed_claims m) sid"
proof (induction rule: mgr_step.induct)
  case (closed cr m sid s c clog slog r m' s' c')
  then show ?case by (rule close_session_keeps)
next
  case (unblocked a m was m')
  then show ?case using unblock_identity_fields(1) [OF unblocked(2)] by simp
qed (auto simp: ks_grows_fields dest: observe_call_grows trip_identity_grows)

lemma mgr_steps_keep:
  "(mgr_step ctx kept)\<^sup>*\<^sup>* m m' \<Longrightarrow> sid \<in> sm_closing_sessions m \<Longrightarrow>
     sid \<in> sm_closing_sessions m' \<and> map_of (sm_closed_claims m') sid = map_of (sm_closed_claims m) sid"
  by (induction rule: rtranclp_induct) (auto dest: mgr_step_keeps)

lemma close_session_result:
  assumes "close_session ctx cr m sid s c clog slog = (r, m', s', c')"
    and "fst ` set (sm_closed_claims m) \<subseteq> sm_closing_sessions m"
  shows "sid \<in> sm_closing_sessions m'
    \<and> map_of (sm_closed_claims m') sid = (case r of Inr claim \<Rightarrow> Some claim | Inl _ \<Rightarrow> None)"
  using assms(1)
proof (cases rule: close_session_cases)
  case (failed e)
  have "map_of (sm_closed_claims m) sid = None"
    using assms(2) failed(1) by (auto simp: map_of_eq_None_iff)
  with failed show ?thesis by (simp add: close_failed_def)
next
  case (issued claim e report c1 m0 m1 m2 t rt tip)
  with ks_grows_fields [OF close_kill_switch_grows [OF issued(6)]] show ?thesis by auto
qed simp_all

lemma mgr_step_blocked:
  "mgr_step ctx (Some a) m m' \<Longrightarrow> ks_is_blocked (sm_kill_switch m) a \<Longrightarrow> ks_is_blocked (sm_kill_switch m') a"
proof (induction rule: mgr_step.induct)
  case (closed cr m sid s c clog slog r m' s' c')
  from closed(1) show ?case
  proof (cases rule: close_session_cases)
    case (issued claim e report c1 m0 m1 m2 t rt tip)
    with closed(2) close_kill_switch_grows [OF issued(6)] show ?thesis by (simp add: ks_grows_def)
  qed (use closed(2) in \<open>simp_all add: close_failed_def\<close>)
next
  case (unblocked b m was m')
  then show ?case using unblock_identity_fields(1) [OF unblocked(2)] by (simp add: ks_is_blocked_unblock)
qed (auto simp: ks_grows_def dest: observe_call_grows trip_identity_grows)

lemma mgr_steps_blocked:
  "(mgr_step ctx (Some a))\<^sup>*\<^sup>* m m' \<Longrightarrow> ks_is_blocked (sm_kill_switch m) a \<Longrightarrow> ks_is_blocked (sm_kill_switch m') a"
  by (induction rule: rtranclp_induct) (auto dest: mgr_step_blocked)

subsection \<open>The report a session is bound to\<close>

definition chain_step :: "(bytes \<Rightarrow> bytes) \<Rightarrow> audit_chain \<Rightarrow> audit_chain \<Rightarrow> bool" where
  "chain_step sha256 c c' \<longleftrightarrow> (\<exists>tk a e. chain_append sha256 tk c a = Inr (c', e))"

lemma chain_step_keeps:
  assumes "chain_step sha256 c c'" "ch_entries c \<noteq> []"
  shows "ch_entries c' \<noteq> []" "ch_session_report c' = ch_session_report c" "chain_root c' = chain_root c"
proof -
  obtain tk a e where ap: "chain_append sha256 tk c a = Inr (c', e)" using assms(1) by (auto simp: chain_step_def)
  from ap have es: "ch_entries c' = ch_entries c @ [e]" "ch_session_report c' = ch_session_report c"
    by (rule chain_append_cases, simp)+
  then show "ch_entries c' \<noteq> []" "ch_session_report c' = ch_session_report c" by simp_all
  show "chain_root c' = chain_root c" by (rule chain_root_append [OF assms(2) es(1)])
qed

lemma chain_steps_keep:
  assumes "(chain_step sha256)\<^sup>*\<^sup>* c c'" "ch_entries c \<noteq> []"
  shows "ch_session_report c' = ch_session_report c \<and> chain_root c' = chain_root c \<and> ch_entries c' \<noteq> []"
  using assms by (induction rule: rtranclp_induct) (auto simp: chain_step_keeps)

lemma open_session_report:
  assumes "open_session ctx m tk sid st = Inr (s, c)"
  obtains d where "ch_entries c \<noteq> []" "chain_root c = Inr (hexlify d)" "ch_session_id c = sid" "s = new_session_state sid (sm_sensitivity_order m)"
    "ch_tee_anchor c = Some (hexlify d)"
    "\<And>r. ch_session_report c = Some r \<Longrightarrow>
       rc_tee_provider ctx (jwk_thumbprint (cy_sha256 (rc_crypto ctx)) (sg_public_bytes (rc_signing_key ctx))
         @ cy_sha256 (rc_crypto ctx) d) = Report r"
proof -
  let ?h = "cy_sha256 (rc_crypto ctx)"
  obtain c0 rt where c0: "new_chain ?h tk sid st (sm_audit_sinks m) = Inr c0" "chain_root c0 = Inr rt"
    "set_tee_anchor (bind_session_report ctx c0 rt) rt = Inr c" and s: "s = new_session_state sid (sm_sensitivity_order m)"
    using assms by (auto simp: open_session_def split: sum.splits)
  obtain e now where e: "ch_entries c0 = [e]" "ae_entry_hash e = hexlify (?h (canonical_body e))"
    "ch_session_report c0 = None" "ch_session_id c0 = sid"
    using c0(1) by (auto simp: new_chain_def bind_result_eq_Inr compute_hash_def elim!: chain_append_cases)
  have rt: "rt = hexlify (?h (canonical_body e))" using c0(2) e by (simp add: chain_root_def)
  have c: "c = (bind_session_report ctx c0 rt)\<lparr>ch_tee_anchor := Some rt\<rparr>"
    using c0(3) by (simp add: set_tee_anchor_ok)
  have b: "bind_session_report ctx c0 rt =
    (case rc_tee_provider ctx (jwk_thumbprint ?h (sg_public_bytes (rc_signing_key ctx)) @ ?h (?h (canonical_body e))) of
       Report r \<Rightarrow> set_session_report c0 r | _ \<Rightarrow> c0)"
    by (simp add: bind_session_report_def rt)
  have "ch_entries c = [e]" "ch_session_id c = sid" "ch_tee_anchor c = Some rt"
    "\<And>r. ch_session_report c = Some r \<Longrightarrow>
       rc_tee_provider ctx (jwk_thumbprint ?h (sg_public_bytes (rc_signing_key ctx)) @ ?h (?h (canonical_body e))) = Report r"
    using e by (simp_all add: c b set_session_report_def split: provider_answer.splits)
  then show thesis
    using e(2) s rt by (intro that [of "?h (canonical_body e)"]) (simp_all add: chain_root_def)
qed

subsection \<open>When a close issues a claim\<close>

text \<open>What the claim's parts ask of the context and of the report in force.\<close>

definition claims_possible :: "runtime_context \<Rightarrow> attestation_report \<Rightarrow> bool" where
  "claims_possible ctx r \<longleftrightarrow>
     (\<forall>args. wf_json args \<longrightarrow> tm_runtime_info (rc_models ctx) args \<noteq> None
        \<and> tm_policy_info (rc_models ctx) args \<noteq> None \<and> tm_confirmation_key (rc_models ctx) args \<noteq> None)
     \<and> map_of PROVIDER_MAP (provider r) \<noteq> None \<and> fromhex (report_data r) \<noteq> None
     \<and> map_of ENFORCEMENT_MODE_MAP (rc_enforcement_mode ctx) \<noteq> None
     \<and> wf_json (pi_policy_version (policy_info_of ctx)) \<and> is_ok (build_policy_signing (policy_info_of ctx))
     \<and> pred_option (\<lambda>b. is_ok (build_agent_identity (agent_identity_of b))) (rc_agent_manifest ctx)"

lemma from_model_total: "x \<noteq> None \<Longrightarrow> is_ok (from_model x what)"
  by (auto simp: from_model_def)

lemma build_parts_total:
  assumes "claims_possible ctx r"
  shows "is_ok (build_runtime (rc_models ctx) (report_info_of r))"
    and "is_ok (build_policy (rc_models ctx) (policy_info_of ctx))"
    and "is_ok (build_cnf (rc_models ctx) k)"
proof -
  have m: "is_ok (from_model (tm_runtime_info (rc_models ctx) args) w)" "is_ok (from_model (tm_policy_info (rc_models ctx) args) w)"
    "is_ok (from_model (tm_confirmation_key (rc_models ctx) args) w)" if "wf_json args" for args w
    using assms that by (simp_all add: claims_possible_def from_model_total)
  show "is_ok (build_runtime (rc_models ctx) (report_info_of r))"
    using assms m(1) by (auto simp: build_runtime_def report_info_of_def claims_possible_def Let_def)
  show "is_ok (build_policy (rc_models ctx) (policy_info_of ctx))"
    using assms m(2) by (auto simp: build_policy_def policy_info_of_def claims_possible_def Let_def)
  show "is_ok (build_cnf (rc_models ctx) k)"
    using m(3) by (simp add: build_cnf_def)
qed

lemma hex_digit_chars: "n < 16 \<Longrightarrow> hex_digit n \<in> set ''0123456789abcdef''"
proof -
  have "list_all (\<lambda>n. hex_digit n \<in> set ''0123456789abcdef'') [0..<16]" by code_simp
  then show "n < 16 \<Longrightarrow> hex_digit n \<in> set ''0123456789abcdef''" unfolding list_all_iff by simp
qed

lemma hexlify_chars: "c \<in> set (hexlify h) \<Longrightarrow> c \<in> set ''0123456789abcdef''"
proof (induction h)
  case (Cons a h)
  have "hex_digit (of_char a div 16) \<in> set ''0123456789abcdef''" "hex_digit (of_char a mod 16) \<in> set ''0123456789abcdef''"
    by (rule hex_digit_chars, simp)+
  moreover have "c = hex_digit (of_char a div 16) \<or> c = hex_digit (of_char a mod 16) \<or> c \<in> set (hexlify h)"
    using Cons.prems by (simp only: hexlify_simps list.set insert_iff)
  ultimately show ?case using Cons.IH by metis
qed simp

lemma hexlify_digest:
  assumes "length h = 32"
  shows "digest_pattern (''sha256:'' @ hexlify h)" "\<not> has_digest_prefix (hexlify h)"
proof -
  have "hex_text (hexlify h)" using hexlify_chars by (auto simp: hex_text_def list_all_iff)
  then show "digest_pattern (''sha256:'' @ hexlify h)"
    using assms by (simp add: digest_pattern_def starts_with_def)
  have "hd (hexlify h) \<noteq> CHR ''s''"
    using hexlify_chars [of "hd (hexlify h)" h] assms by (cases h) auto
  then show "\<not> has_digest_prefix (hexlify h)"
    by (cases "hexlify h") (auto simp: has_digest_prefix_def starts_with_def)
qed

lemma chain_inv_tip:
  assumes "chain_inv sha256 c"
  obtains rt d where "chain_root c = Inr rt" "chain_tip c = Inr (hexlify (sha256 d))"
proof -
  have ne: "ch_entries c \<noteq> []" and v: "verify_links sha256 None (ch_entries c)"
    using assms verify_chain_links by (auto simp: chain_inv_def)
  have "ae_entry_hash (last (ch_entries c)) = hexlify (sha256 (canonical_body (last (ch_entries c))))"
    by (rule audit_log.links_digest [OF v]) (simp add: ne)
  with ne show thesis
    by (intro that [of "ae_entry_hash (hd (ch_entries c))"]) (auto simp: chain_root_def chain_tip_def split: list.splits)
qed

lemma generate_total:
  assumes "claims_possible ctx report" "length (h::string) = 32" "1700000000 \<le> cl_iat cr"
  shows "is_ok (generate_trace_claim (rc_models ctx) k
    (claim_input_of ctx cr sid m report s0 es clog slog s c rt (hexlify h)))"
proof -
  let ?ci = "claim_input_of ctx cr sid m report s0 es clog slog s c rt (hexlify h)"
  have ci: "ci_report ?ci = report_info_of report" "ci_policy ?ci = policy_info_of ctx" "ci_chain_tip ?ci = hexlify h"
    "ci_iat ?ci = cl_iat cr" "ci_agent_identity ?ci = map_option agent_identity_of (rc_agent_manifest ctx)"
    by (simp_all add: claim_input_of_def Let_def)
  obtain j1 j2 j3 where "build_runtime (rc_models ctx) (report_info_of report) = Inr j1"
    "build_policy (rc_models ctx) (policy_info_of ctx) = Inr j2" "build_cnf (rc_models ctx) k = Inr j3"
    using build_parts_total [OF assms(1)] unfolding is_ok_iff by metis
  then have "is_ok (build_trace (rc_models ctx) k ?ci)"
    using assms(3) hexlify_digest [OF assms(2)] by (simp add: build_trace_def ci Let_def)
  moreover have "is_ok (build_gateway ?ci)"
    using assms(1) by (auto simp: build_gateway_def ci claims_possible_def is_ok_iff split: option.splits)
  ultimately show ?thesis by (auto simp: generate_trace_claim_def is_ok_iff)
qed

definition fresh_id :: "audit_chain \<Rightarrow> string \<Rightarrow> bool" where
  "fresh_id c u \<longleftrightarrow> (case ch_store c of None \<Rightarrow> True | Some st \<Rightarrow> u \<notin> set (map row_entry_id st))"

lemma append_fresh:
  assumes "chain_inv sha256 c" "fresh_id c (tk_uuid tk)" "wf_datetime (tk_now tk)"
  obtains c' e where "chain_append sha256 tk c a = Inr (c', e)" "chain_inv sha256 c'"
    "\<And>u. fresh_id c' u \<longleftrightarrow> fresh_id c u \<and> (ch_store c = None \<or> u \<noteq> tk_uuid tk)"
    "ch_session_report c' = ch_session_report c"
proof -
  obtain c' e where ap: "chain_append sha256 tk c a = Inr (c', e)"
    using chain_append_total [OF assms(1), of tk a] assms(2) by (metis fresh_id_def option.simps(5))
  from ap have "fresh_id c' u \<longleftrightarrow> fresh_id c u \<and> (ch_store c = None \<or> u \<noteq> tk_uuid tk)" for u
    by (rule chain_append_cases) (auto simp: fresh_id_def store_row_def split: option.splits)
  moreover from ap have "ch_session_report c' = ch_session_report c" by (rule chain_append_cases)
  ultimately show thesis using that [OF ap chain_inv_append [OF ap assms(1,3)]] by blast
qed

lemma close_kill_switch_total:
  assumes "chain_inv (cy_sha256 (rc_crypto ctx)) c" "fresh_id c (tk_uuid (kr_tick kr))" "wf_datetime (tk_now (kr_tick kr))"
    and "0 < kc_min_calls (ks_config (sm_kill_switch m))"
  obtains t m' s' c' where "close_kill_switch ctx kr m s c = (Inr t, m', s', c')"
    "chain_inv (cy_sha256 (rc_crypto ctx)) c'"
proof -
  obtain r m' s' c' where k: "close_kill_switch ctx kr m s c = (r, m', s', c')"
    by (cases "close_kill_switch ctx kr m s c")
  have ap: "chain_append (cy_sha256 (rc_crypto ctx)) (kr_tick kr) c a \<noteq> Inl e" for a e
  proof -
    obtain c1 e1 where "chain_append (cy_sha256 (rc_crypto ctx)) (kr_tick kr) c a = Inr (c1, e1)"
      by (rule append_fresh [OF assms(1-3)])
    then show ?thesis by simp
  qed
  have "is_ok r \<and> chain_inv (cy_sha256 (rc_crypto ctx)) c'"
    using k
  proof (cases rule: close_kill_switch_cases)
    case (counted b n d)
    have "\<exists>p. evaluate (kr_clk2 kr) (kr_wall kr) (record_calls (kr_now kr) (kr_clk kr) (sm_kill_switch m) (ab_agent_id b) n d)
        (ab_agent_id b) = Some p"
      by (rule evaluate_total) (simp add: assms(4))
    then have nz: "r \<noteq> Inl Zero_division"
      using counted(3) by (auto simp: count_and_trip_def Let_def split: if_splits sum.splits prod.splits)
    from counted(3) show ?thesis
    proof (cases rule: count_and_trip_cases)
      case (tripped e)
      with chain_inv_append [OF tripped(5) assms(1,3)] show ?thesis by simp
    qed (use nz ap assms(1) in simp_all)
  qed (use assms(1) in simp)
  with k that show thesis by (auto simp: is_ok_iff)
qed

text \<open>The report in force for a chain, if a claim may be issued on it.\<close>

definition report_in_force :: "runtime_context \<Rightarrow> audit_chain \<Rightarrow> attestation_report option" where
  "report_in_force ctx c =
     (case ch_session_report c of
        Some r \<Rightarrow> Some r
      | None \<Rightarrow> if provider (rc_attestation_report ctx) = ''software-only'' then Some (rc_attestation_report ctx) else None)"

lemma close_issues:
  assumes "chain_inv (cy_sha256 (rc_crypto ctx)) c" "sid \<notin> sm_closing_sessions m"
    and "report_in_force ctx c = Some report" "claims_possible ctx report"
    and "fresh_id c (tk_uuid (cl_end_tick cr))" "fresh_id c (tk_uuid (kr_tick (cl_ks cr)))"
    and "tk_uuid (cl_end_tick cr) \<noteq> tk_uuid (kr_tick (cl_ks cr))"
    and "wf_datetime (tk_now (cl_end_tick cr))" "wf_datetime (tk_now (kr_tick (cl_ks cr)))"
    and "0 < kc_min_calls (ks_config (sm_kill_switch m))" "1700000000 \<le> cl_iat cr"
    and "\<And>b. length (cy_sha256 (rc_crypto ctx) b) = 32"
  shows "\<exists>claim m' s' c'. close_session ctx cr m sid s c clog slog = (Inr claim, m', s', c')"
proof -
  let ?h = "cy_sha256 (rc_crypto ctx)"
  let ?m0 = "m\<lparr>sm_closing_sessions := insert sid (sm_closing_sessions m)\<rparr>"
  obtain c1 e where c1: "chain_append ?h (cl_end_tick cr) c (end_args s) = Inr (c1, e)" "chain_inv ?h c1"
    "\<And>u. fresh_id c1 u \<longleftrightarrow> fresh_id c u \<and> (ch_store c = None \<or> u \<noteq> tk_uuid (cl_end_tick cr))"
    "ch_session_report c1 = ch_session_report c"
    using append_fresh [OF assms(1,5,8)] by blast
  have fr: "fresh_id c1 (tk_uuid (kr_tick (cl_ks cr)))" unfolding c1(3) using assms(6,7) by simp
  obtain t m1 s1 c2 where k: "close_kill_switch ctx (cl_ks cr) ?m0 s c1 = (Inr t, m1, s1, c2)" "chain_inv ?h c2"
    by (rule close_kill_switch_total [OF c1(2) fr assms(9), of ?m0 s]) (simp add: assms(10))
  obtain rt d where tip: "chain_root c2 = Inr rt" "chain_tip c2 = Inr (hexlify (?h d))"
    using k(2) by (rule chain_inv_tip)
  have rep: "\<not> (ch_session_report c1 = None \<and> provider (rc_attestation_report ctx) \<noteq> ''software-only'')"
    "(case ch_session_report c1 of Some r \<Rightarrow> r | None \<Rightarrow> rc_attestation_report ctx) = report"
    using assms(3) c1(4) by (auto simp: report_in_force_def split: option.splits if_splits)
  obtain claim where "generate_trace_claim (rc_models ctx) (rc_signing_key ctx)
      (claim_input_of ctx cr sid (m1\<lparr>sm_claim_sequence := sm_claim_sequence m1 + 1\<rparr>) report s (ch_entries c1) clog slog
         s1 c2 rt (hexlify (?h d))) = Inr claim"
    using generate_total [OF assms(4,12,11)] unfolding is_ok_iff by blast
  then have "issue_claim ctx cr sid clog slog report ?m0 s c1 =
      (Inr claim, m1\<lparr>sm_claim_sequence := sm_claim_sequence m1 + 1,
         sm_last_claim_hash := Some (claim_hash ?h claim),
         sm_closed_claims := upsert (sm_closed_claims m1) sid claim\<rparr>, s1, c2)"
    by (simp add: issue_claim_def k(1) tip Let_def)
  then show ?thesis
    using assms(2) rep
    by (auto simp: close_session_def already_closing_claim_def c1(1) [unfolded end_args_def] Let_def)
qed

lemma open_session_total: "\<exists>s c. open_session ctx m tk sid None = Inr (s, c)"
proof -
  obtain c where c: "new_chain (cy_sha256 (rc_crypto ctx)) tk sid None (sm_audit_sinks m) = Inr c"
    using new_chain_total by blast
  then obtain rt where rt: "chain_root c = Inr rt"
    by (auto simp: new_chain_def bind_result_eq_Inr chain_root_def elim!: chain_append_cases)
  have "chain_root (bind_session_report ctx c rt) = Inr rt"
    using rt by (simp add: bind_session_report_def set_session_report_def split: sum.splits provider_answer.splits)
  then show ?thesis by (simp add: open_session_def c rt set_tee_anchor_def)
qed

lemma open_session_reachable:
  assumes "open_session ctx m tk sid st = Inr (s, c)" "wf_datetime (tk_now tk)"
  shows "chain_reachable (cy_sha256 (rc_crypto ctx)) c"
proof -
  let ?h = "cy_sha256 (rc_crypto ctx)"
  obtain c0 rt where c0: "new_chain ?h tk sid st (sm_audit_sinks m) = Inr c0"
    "set_tee_anchor (bind_session_report ctx c0 rt) rt = Inr c"
    using assms by (auto simp: open_session_def split: sum.splits)
  have "chain_reachable ?h (bind_session_report ctx c0 rt)"
    using chain_reachable.init [OF c0(1) assms(2)]
    by (auto simp: bind_session_report_def intro: chain_reachable.report split: sum.splits provider_answer.splits)
  then show ?thesis using c0(2) by (rule chain_reachable.anchor)
qed

end
