(* ===== verification/Session_Lifecycle.thy ===== *)
theory Session_Lifecycle
  imports Session_Manager
begin

text \<open>
  What the session lifecycle promises: a session is closed once, a hardware
  claim is bound to the log it reports, claims form a chain, the kill switch
  stops a tripped identity, and every call is counted once.
\<close>

subsection \<open>A concrete gateway\<close>

definition hw_report :: "bytes \<Rightarrow> attestation_report" where
  "hw_report nonce = (software_only_report sample_time nonce)\<lparr>provider := ''tdx'', measurement := ''aa''\<rparr>"

definition sample_binding :: agent_binding where
  "sample_binding = \<lparr>ab_manifest_id = ''m'', ab_agent_id = ''spiffe://a'', ab_authenticated_subject = ''spiffe://a'',
     ab_subject_source = ''config'', ab_issuer = ''spiffe://i'', ab_issuer_key_id = ''k'', ab_policy_bundle_hash = ''p'',
     ab_tool_catalog_hash = ''t'', ab_intent_hash = None, ab_enforcement_mode = None\<rparr>"

definition sample_ctx :: runtime_context where
  "sample_ctx = \<lparr>rc_kill_switch = Some sample_config, rc_threshold_text = ''0.9'', rc_enforcement_mode = ''enforcing'',
     rc_tee_provider = (\<lambda>nonce. Report (hw_report nonce)), rc_attestation_report = hw_report [],
     rc_signing_key = sample_key, rc_policy_bundle = sample_store,
     rc_catalog = \<lparr>tc_entries = [], tc_catalog_hash = ''h'', tc_exceptions = []\<rparr>,
     rc_agent_manifest = Some sample_binding, rc_gateway_version = ''1'', rc_crypto = sample_crypto,
     rc_models = sample_models\<rparr>"

definition sample_manager :: session_manager where
  "sample_manager = new_session_manager sample_ctx (Some []) Map.empty []"

definition sample_close :: close_reading where
  "sample_close = \<lparr>cl_end_tick = sample_tick ''u1'', cl_now = sample_time,
     cl_ks = \<lparr>kr_now = 0, kr_clk = 0, kr_clk2 = 0, kr_wall = sample_time, kr_tick = sample_tick ''u2''\<rparr>, cl_iat = 1800000000\<rparr>"

lemma sample_sha256: "cy_sha256 (rc_crypto sample_ctx) = pad32"
  by (simp add: sample_ctx_def sample_crypto_def)

lemma sample_float: "float_text ''0.9''"
  by code_simp

lemma sample_ctx_ok: "ctx_ok sample_ctx"
  by (simp add: ctx_ok_def sample_ctx_def sample_float)

lemma sample_claims_possible: "claims_possible sample_ctx (hw_report n)"
  by (simp add: claims_possible_def sample_ctx_def hw_report_def software_only_report_def sample_models_def
      PROVIDER_MAP_def ENFORCEMENT_MODE_MAP_def policy_info_of_def sample_store_def build_policy_signing_def
      store_revoked_key_ids_def revoked_key_ids_def sample_binding_def agent_identity_of_def build_agent_identity_def
      starts_with_def Let_def)

lemma sample_blocked: "blocked_identity sample_ctx sample_manager = None"
  by (simp add: blocked_identity_def sample_ctx_def sample_manager_def new_session_manager_def ks_is_blocked_def
      new_kill_switch_def store_is_blocked_def)

lemma sample_min_calls: "0 < kc_min_calls (ks_config (sm_kill_switch sample_manager))"
  by (simp add: sample_manager_def new_session_manager_def sample_ctx_def new_kill_switch_def sample_config_def)

lemma sample_session:
  obtains s c where "create_session sample_ctx sample_manager (sample_tick ''u0'') ''s'' None = Inr (s, c)"
    "open_session sample_ctx sample_manager (sample_tick ''u0'') ''s'' None = Inr (s, c)"
    "chain_reachable pad32 c" "\<exists>n. ch_session_report c = Some (hw_report n)" "ch_store c = None"
proof -
  obtain s c where o: "open_session sample_ctx sample_manager (sample_tick ''u0'') ''s'' None = Inr (s, c)"
    using open_session_total by blast
  have r: "chain_reachable pad32 c"
    using open_session_reachable [OF o] by (simp add: sample_tick_def sample_sha256)
  obtain c0 rt where c0: "new_chain pad32 (sample_tick ''u0'') ''s'' None (sm_audit_sinks sample_manager) = Inr c0"
    "chain_root c0 = Inr rt" "c = (bind_session_report sample_ctx c0 rt)\<lparr>ch_tee_anchor := Some rt\<rparr>"
    using o by (auto simp: open_session_def sample_sha256 set_tee_anchor_ok split: sum.splits)
  obtain e where e: "ch_entries c0 = [e]" "ae_entry_hash e = hexlify (pad32 (canonical_body e))" "ch_store c0 = None"
    using c0(1) by (auto simp: new_chain_def bind_result_eq_Inr compute_hash_def elim!: chain_append_cases)
  have rt: "rt = hexlify (pad32 (canonical_body e))" using c0(2) e by (simp add: chain_root_def)
  have "rc_tee_provider sample_ctx nonce = Report (hw_report nonce)" for nonce by (simp add: sample_ctx_def)
  then have "\<exists>n. ch_session_report c = Some (hw_report n)" "ch_store c = None"
    unfolding c0(3) bind_session_report_def rt by (auto simp: set_session_report_def e(3))
  with o r that sample_blocked show thesis by (simp add: create_session_def)
qed

lemma sample_closes:
  assumes "chain_reachable pad32 c" "ch_session_report c = Some (hw_report n)" "ch_store c = None"
  shows "\<exists>claim m' s' c'. close_session sample_ctx sample_close sample_manager ''s'' s c None None = (Inr claim, m', s', c')"
proof (rule close_issues)
  show "chain_inv (cy_sha256 (rc_crypto sample_ctx)) c" using chain_reachable_inv [OF assms(1)] by (simp add: sample_sha256)
  show "''s'' \<notin> sm_closing_sessions sample_manager" by (simp add: sample_manager_def new_session_manager_def)
  show "report_in_force sample_ctx c = Some (hw_report n)" by (simp add: report_in_force_def assms(2))
qed (simp_all add: assms(3) fresh_id_def sample_claims_possible sample_min_calls sample_sha256 sample_close_def sample_tick_def)

subsection \<open>Properties\<close>

text \<open>C23: A session is closed once. After a first \<open>close_session\<close>, and whatever the manager does
  afterwards, closing the same session again changes nothing, neither the manager nor the session nor its chain:
  it returns the very claim of the first close, or, if the first close raised, it is refused as incomplete.\<close>

theorem close_session_once:
  assumes "(mgr_step ctx kept)\<^sup>*\<^sup>* (new_session_manager ctx blocks voc sinks) m" "ctx_ok ctx"
    and "close_session ctx cr m sid s c clog slog = (r, m', s', c')"
    and "(mgr_step ctx kept)\<^sup>*\<^sup>* m' m2"
  shows "close_session ctx cr2 m2 sid s2 c2 clog2 slog2 =
    ((case r of Inr claim \<Rightarrow> Inr claim | Inl _ \<Rightarrow> Inl (Session_close_incomplete sid)), m2, s2, c2)"
proof -
  have "manager_inv (cy_sha256 (rc_crypto ctx)) m"
    using mgr_steps_inv [OF assms(1,2)] manager_inv_new by blast
  then have sub: "fst ` set (sm_closed_claims m) \<subseteq> sm_closing_sessions m" by (simp add: manager_inv_def)
  from close_session_result [OF assms(3) sub] mgr_steps_keep [OF assms(4), of sid]
  have "sid \<in> sm_closing_sessions m2"
    "map_of (sm_closed_claims m2) sid = (case r of Inr claim \<Rightarrow> Some claim | Inl _ \<Rightarrow> None)" by auto
  then show ?thesis by (cases r) (simp_all add: close_session_def already_closing_claim_def)
qed

theorem close_session_once_witness:
  "\<exists>s c claim m' s' c'. close_session sample_ctx sample_close sample_manager ''s'' s c None None = (Inr claim, m', s', c')
     \<and> close_session sample_ctx sample_close m' ''s'' s c None None = (Inr claim, m', s, c)"
proof -
  obtain c n where c: "chain_reachable pad32 c" "ch_session_report c = Some (hw_report n)" "ch_store c = None"
    by (rule sample_session) blast
  define s where "s = new_session_state ''s'' Map.empty"
  obtain claim m' s' c' where cl: "close_session sample_ctx sample_close sample_manager ''s'' s c None None = (Inr claim, m', s', c')"
    using sample_closes [OF c] by blast
  have "(mgr_step sample_ctx None)\<^sup>*\<^sup>* (new_session_manager sample_ctx (Some []) Map.empty []) sample_manager"
    by (simp add: sample_manager_def)
  from close_session_once [OF this sample_ctx_ok cl, of m' sample_close s c None None] cl show ?thesis
    by simp blast
qed

text \<open>C4: A hardware claim is bound to the log it reports. When a gateway on a hardware platform
  issues a claim for a session that was created and then only appended to, the report in the claim is what
  the provider returned for the nonce made of the gateway key's thumbprint and the hash of that session's
  chain root; the claim states that root, the tip of the final chain and its length.\<close>

theorem hardware_claim_is_bound:
  assumes "create_session ctx m0 tk sid st = Inr (s0, c0)" "(chain_step (cy_sha256 (rc_crypto ctx)))\<^sup>*\<^sup>* c0 c"
    and "close_session ctx cr m sid s c clog slog = (Inr claim, m', s', c')" "\<not> is_closing m sid"
    and "provider (rc_attestation_report ctx) \<noteq> ''software-only''" "ctx_ok ctx"
  shows "\<exists>d report tip g tr runtime.
     rc_tee_provider ctx (jwk_thumbprint (cy_sha256 (rc_crypto ctx)) (sg_public_bytes (rc_signing_key ctx))
         @ cy_sha256 (rc_crypto ctx) d) = Report report
     \<and> chain_root c0 = Inr (hexlify d) \<and> chain_root c' = Inr (hexlify d) \<and> chain_tip c' = Inr tip
     \<and> map_of claim ''gateway'' = Some (JObj g)
     \<and> map_of g ''audit_chain'' = Some (JObj [(''root'', JStr (hexlify d)), (''tip'', JStr tip),
          (''length'', JInt (int (length (ch_entries c'))))])
     \<and> map_of claim ''trace'' = Some (JObj tr) \<and> map_of tr ''runtime'' = Some runtime
     \<and> build_runtime (rc_models ctx) (report_info_of report) = Inr runtime"
proof -
  let ?h = "cy_sha256 (rc_crypto ctx)"
  have "open_session ctx m0 tk sid st = Inr (s0, c0)"
    using assms(1) by (simp add: create_session_def split: option.splits)
  then obtain d where d: "ch_entries c0 \<noteq> []" "chain_root c0 = Inr (hexlify d)"
    "\<And>r. ch_session_report c0 = Some r \<Longrightarrow>
       rc_tee_provider ctx (jwk_thumbprint ?h (sg_public_bytes (rc_signing_key ctx)) @ ?h d) = Report r"
    by (rule open_session_report) blast
  note c = chain_steps_keep [OF assms(2) d(1)]
  from assms(3) show ?thesis
  proof (cases rule: close_session_cases)
    case (issued claim' e report c1 m0 m1 m2 t rt tip)
    have st1: "chain_step ?h c c1" using issued(3) by (auto simp: chain_step_def)
    have st2: "(chain_step ?h)\<^sup>*\<^sup>* c1 c'"
      using close_kill_switch_chain [OF issued(6)] by (metis chain_step_def r_into_rtranclp rtranclp.rtrancl_refl)
    note k1 = chain_step_keeps [OF st1] and k2 = chain_steps_keep [OF st2]
    have rep: "ch_session_report c0 = Some report" and rt: "rt = hexlify d"
      using issued(4,7) assms(5) c k1 k2 d(2) by auto
    have cl: "claim' = claim" using issued(2) by simp
    let ?ci = "claim_input_of ctx cr sid m2 report s (ch_entries c1) clog slog s' c' rt tip"
    obtain tr gw sg where p: "build_trace (rc_models ctx) (rc_signing_key ctx) ?ci = Inr tr" "build_gateway ?ci = Inr gw"
      "claim = claim_dict tr gw sg"
      using issued(10) by (auto simp: cl generate_trace_claim_def bind_result_eq_Inr)
    have thr: "pred_option (\<lambda>k. float_text (ki_threshold k)) (ci_kill_switch ?ci)"
      using assms(6) claim_input_kill_switch by (simp add: ctx_ok_def)
    obtain g where g: "gw = JObj g"
      "map_of g ''audit_chain'' = Some (JObj [(''root'', JStr (ci_chain_root ?ci)), (''tip'', JStr (ci_chain_tip ?ci)),
         (''length'', JInt (int (ci_chain_length ?ci)))])"
      using p(2) thr by (rule build_gateway_ok)
    obtain trf runtime where tr: "tr = JObj trf" "map_of trf ''runtime'' = Some runtime"
      "build_runtime (rc_models ctx) (report_info_of report) = Inr runtime"
      using p(1) by (auto simp: build_trace_def Let_def bind_result_eq_Inr claim_input_of_def split: if_splits)
    have ci: "ci_chain_root ?ci = rt" "ci_chain_tip ?ci = tip" "ci_chain_length ?ci = length (ch_entries c')"
      by (simp_all add: claim_input_of_def Let_def)
    show ?thesis
      using d(2) d(3) [OF rep] issued(7,8) g(1) g(2) [unfolded ci] tr by (auto simp: p(3) claim_dict_def rt)
  qed (use assms(4) in \<open>simp_all add: is_closing_def\<close>)
qed

theorem hardware_claim_is_bound_witness:
  "\<exists>s c claim m' s' c' d report.
     create_session sample_ctx sample_manager (sample_tick ''u0'') ''s'' None = Inr (s, c)
     \<and> close_session sample_ctx sample_close sample_manager ''s'' s c None None = (Inr claim, m', s', c')
     \<and> rc_tee_provider sample_ctx (jwk_thumbprint pad32 ''key'' @ pad32 d) = Report report
     \<and> chain_root c' = Inr (hexlify d)"
proof -
  obtain s c n where c: "create_session sample_ctx sample_manager (sample_tick ''u0'') ''s'' None = Inr (s, c)"
    "chain_reachable pad32 c" "ch_session_report c = Some (hw_report n)" "ch_store c = None"
    by (rule sample_session) blast
  obtain claim m' s' c' where cl: "close_session sample_ctx sample_close sample_manager ''s'' s c None None = (Inr claim, m', s', c')"
    using sample_closes [OF c(2-4)] by blast
  have "\<not> is_closing sample_manager ''s''" by (simp add: is_closing_def sample_manager_def new_session_manager_def)
  moreover have "provider (rc_attestation_report sample_ctx) \<noteq> ''software-only''"
    by (simp add: sample_ctx_def hw_report_def)
  moreover have k: "sg_public_bytes (rc_signing_key sample_ctx) = ''key''" by (simp add: sample_ctx_def sample_key_def)
  ultimately show ?thesis
    using hardware_claim_is_bound [OF c(1) rtranclp.rtrancl_refl cl _ _ sample_ctx_ok] c(1) cl
    unfolding sample_sha256 k by blast
qed

text \<open>The last claim hash commits every claim. If two gateways with the same hash function have, after any
  operations, the same last claim hash, they have issued the same claims in the same order, as JSON documents, or
  the hash function collides on the texts of two of those claims; in particular no issued claim can be dropped,
  inserted or reordered unnoticed.\<close>

theorem last_claim_hash_commits:
  assumes "(mgr_step ctx k)\<^sup>*\<^sup>* (new_session_manager ctx b v w) m"
    and "(mgr_step ctx' k')\<^sup>*\<^sup>* (new_session_manager ctx' b' v' w') m'"
    and "ctx_ok ctx" "ctx_ok ctx'" "cy_sha256 (rc_crypto ctx') = cy_sha256 (rc_crypto ctx)"
    and "sm_last_claim_hash m = sm_last_claim_hash m'"
  shows "map (\<lambda>c. norm_json (JObj c)) (claims_of m) = map (\<lambda>c. norm_json (JObj c)) (claims_of m')
    \<or> (\<exists>c\<in>set (claims_of m). \<exists>d\<in>set (claims_of m').
         collides (cy_sha256 (rc_crypto ctx)) (dumps (JObj c)) (dumps (JObj d)))"
proof -
  let ?h = "cy_sha256 (rc_crypto ctx)"
  have inv: "manager_inv ?h m" "manager_inv ?h m'"
    using mgr_steps_inv [OF assms(1,3)] mgr_steps_inv [OF assms(2,4)] manager_inv_new assms(5) by auto
  show ?thesis
  proof (cases "claims_of m = [] \<or> claims_of m' = []")
    case True
    then have "claims_of m = [] \<and> claims_of m' = []" using inv assms(6) by (auto simp: manager_inv_def)
    then show ?thesis by simp
  next
    case False
    have ok: "\<forall>c\<in>set (claims_of m) \<union> set (claims_of m'). claim_ok c"
      using inv by (auto simp: manager_inv_def list_all_iff)
    have "map (\<lambda>c. dumps (JObj c)) (claims_of m) = map (\<lambda>c. dumps (JObj c)) (claims_of m')
      \<or> (\<exists>c\<in>set (claims_of m). \<exists>d\<in>set (claims_of m').
           collides (\<lambda>b. Some (''sha256:'' @ hexlify (?h b))) (dumps (JObj c)) (dumps (JObj d)))"
      by (rule claim_log.tip_determines_or_collision [where start = None])
         (use False inv ok assms(6) in \<open>auto simp: manager_inv_def\<close>)
    moreover have "norm_json (JObj c) = norm_json (JObj d)"
      if "dumps (JObj c) = dumps (JObj d)" "c \<in> set (claims_of m)" "d \<in> set (claims_of m')" for c d
      using that ok dumps_inject by (auto simp: claim_ok_def simp del: norm_json.simps wf_json.simps)
    ultimately show ?thesis
      by (auto simp: collides_def map_equality_iff simp del: norm_json.simps)
  qed
qed

text \<open>A tripped identity gets no further session. When a call trips the switch, or an operator trips it, the
  bound identity is blocked, the session is marked, the trip is on its chain, and until an operator lifts
  that block \<open>create_session\<close> refuses, whatever else the manager does.\<close>

theorem tripped_identity_gets_no_session:
  assumes "observe_call ctx kr m s c i = (Inr True, m', s', c')
      \<or> trip_identity ctx wall tk why who cred m s c = (Inr (Some a0), m', s', c')"
    and "rc_agent_manifest ctx = Some b" "a = ab_agent_id b" "(mgr_step ctx (Some a))\<^sup>*\<^sup>* m' m2"
  shows "create_session ctx m2 tk2 sid st = Inl (Kill_switch_tripped a)
    \<and> ss_kill_switch_triggered s'
    \<and> (\<exists>e. ch_entries c' = ch_entries c @ [e] \<and> ea_entry_type e = Break_glass_used)"
proof -
  have append: "\<exists>e. ch_entries c' = ch_entries c @ [e] \<and> ea_entry_type e = Break_glass_used"
    if "chain_append h tk c args = Inr (c', e)" "ea_entry_type args = Break_glass_used" for h tk args e
    using that(1) by (rule chain_append_cases) (use that(2) in auto)
  have args: "ea_entry_type (trip_args ctx x y) = Break_glass_used" for x y by (simp add: trip_args_def)
  have "ks_is_blocked (sm_kill_switch m') a \<and> ss_kill_switch_triggered s'
      \<and> (\<exists>e. ch_entries c' = ch_entries c @ [e] \<and> ea_entry_type e = Break_glass_used)"
    using assms(1)
  proof
    assume "observe_call ctx kr m s c i = (Inr True, m', s', c')"
    then show ?thesis
    proof (cases rule: observe_call_cases)
      case (counted b' e)
      from counted(7) show ?thesis
      proof (cases rule: count_and_trip_cases)
        case (tripped e')
        with append [OF tripped(5) args] counted(1) assms(2,3) show ?thesis by simp
      qed simp_all
    qed simp
  next
    assume "trip_identity ctx wall tk why who cred m s c = (Inr (Some a0), m', s', c')"
    then show ?thesis
      using assms(2,3)
      by (auto simp: trip_identity_def Let_def split: sum.splits elim!: chain_append_cases)
  qed
  moreover from this mgr_steps_blocked [OF assms(4)] have "ks_is_blocked (sm_kill_switch m2) a" by blast
  ultimately show ?thesis using assms(2,3) by (simp add: create_session_def blocked_identity_def)
qed

theorem last_claim_hash_commits_witness:
  "\<exists>m c. (mgr_step sample_ctx None)\<^sup>*\<^sup>* sample_manager m \<and> claims_of m = [c]
     \<and> (map (\<lambda>c. norm_json (JObj c)) (claims_of m) = map (\<lambda>c. norm_json (JObj c)) (claims_of m)
        \<or> (\<exists>c\<in>set (claims_of m). \<exists>d\<in>set (claims_of m). collides pad32 (dumps (JObj c)) (dumps (JObj d))))"
proof -
  obtain c n where c: "chain_reachable pad32 c" "ch_session_report c = Some (hw_report n)" "ch_store c = None"
    by (rule sample_session) blast
  obtain claim m' s' c' where cl: "close_session sample_ctx sample_close sample_manager ''s''
      (new_session_state ''s'' Map.empty) c None None = (Inr claim, m', s', c')"
    using sample_closes [OF c] by blast
  then have steps: "(mgr_step sample_ctx None)\<^sup>*\<^sup>* (new_session_manager sample_ctx (Some []) Map.empty []) m'"
    unfolding sample_manager_def by (intro r_into_rtranclp mgr_step.closed)
  have e: "sm_closed_claims sample_manager = []" by (simp add: sample_manager_def new_session_manager_def)
  have "claims_of m' = [claim]"
    using cl
  proof (cases rule: close_session_cases)
    case (issued claim' e' report c1 m0 m1 m2 t rt tip)
    with ks_grows_fields [OF close_kill_switch_grows [OF issued(6)]] e show ?thesis by (simp add: claims_of_def)
  qed (use e in simp_all)
  with last_claim_hash_commits [OF steps steps sample_ctx_ok sample_ctx_ok refl refl] steps show ?thesis
    unfolding sample_manager_def sample_sha256 by blast
qed

theorem tripped_identity_gets_no_session_witness:
  "\<exists>s c m' s' c'. trip_identity sample_ctx sample_time (sample_tick ''u1'') ''why'' ''who'' ''cred'' sample_manager s c
       = (Inr (Some ''spiffe://a''), m', s', c')
     \<and> create_session sample_ctx m' (sample_tick ''u2'') ''t'' None = Inl (Kill_switch_tripped ''spiffe://a'')"
proof -
  obtain c where c: "chain_reachable pad32 c" "ch_store c = None" by (rule sample_session) blast
  have b: "rc_agent_manifest sample_ctx = Some sample_binding" "ab_agent_id sample_binding = ''spiffe://a''"
    by (simp_all add: sample_ctx_def sample_binding_def)
  have "\<exists>c' e. chain_append pad32 (sample_tick ''u1'') c args = Inr (c', e)" for args
    by (rule chain_append_total [OF chain_reachable_inv [OF c(1)]]) (simp add: c(2))
  then have "\<exists>c' e. chain_append (cy_sha256 (rc_crypto sample_ctx)) (sample_tick ''u1'') c args = Inr (c', e)" for args
    by (simp add: sample_sha256)
  moreover have "\<exists>m' s' c'. trip_identity ctx wall tk why who cred m s c = (Inr (Some (ab_agent_id b)), m', s', c')"
    if "rc_agent_manifest ctx = Some b" "\<And>args. \<exists>c' e. chain_append (cy_sha256 (rc_crypto ctx)) tk c args = Inr (c', e)"
    for ctx wall tk why who cred m s b
    using that(1) that(2) [of "(entry_defaults Break_glass_used)\<lparr>ea_detail := Some
        [(''reason'', JStr ''kill_switch_operator_trip''), (''agent_id'', JStr (ab_agent_id b)),
         (''operator_reason'', JStr why), (''authorized_by'', JStr who), (''credential_verified'', JStr cred)]\<rparr>"]
    by (auto simp: trip_identity_def Let_def)
  ultimately obtain m' s' c' where t: "trip_identity sample_ctx sample_time (sample_tick ''u1'') ''why'' ''who'' ''cred'' sample_manager
      (new_session_state ''s'' Map.empty) c = (Inr (Some ''spiffe://a''), m', s', c')"
    using b by metis
  from tripped_identity_gets_no_session [OF disjI2 [OF t] b(1) refl rtranclp.rtrancl_refl, of "sample_tick ''u2''" "''t''" None]
    t show ?thesis unfolding b(2) by blast
qed



subsection \<open>The call summary\<close>

lemma map_filter_named:
  "list_all (\<lambda>e. ea_tool_name e \<noteq> None) calls \<Longrightarrow>
     transcript_of cat calls = map (\<lambda>e. the (case ea_tool_name e of None \<Rightarrow> None
       | Some n \<Rightarrow> Some \<lparr>te_tool_name = n,
             te_data_class = (case ea_effective_data_class e of
                 Some (c # cs) \<Rightarrow> c # cs
               | _ \<Rightarrow> (case map_of (tc_entries cat) n of Some ce \<Rightarrow> ce_sensitivity_level ce | None \<Rightarrow> ''unknown'')),
             te_decision = claim_value (map_option policy_decision_str (ea_policy_decision e))\<rparr>)) calls"
  by (induction calls) (auto simp: transcript_of_def List.map_filter_simps)

lemma transcript_decisions:
  assumes "list_all (\<lambda>e. ea_tool_name e \<noteq> None) calls"
  shows "map te_decision (transcript_of cat calls)
    = map (\<lambda>e. claim_value (map_option policy_decision_str (ea_policy_decision e))) calls"
  unfolding map_filter_named [OF assms] using assms by (auto simp: list_all_iff)

lemma claim_value_iff:
  "claim_value (map_option policy_decision_str d) = CD_allow \<longleftrightarrow> d = Some PD_allow"
  "claim_value (map_option policy_decision_str d) = CD_fault \<longleftrightarrow> d = Some PD_fault"
  "claim_value (map_option policy_decision_str d) = CD_advisory_deny \<longleftrightarrow> d = Some PD_advisory_deny"
  "claim_value (map_option policy_decision_str d) = CD_deny \<longleftrightarrow> d \<in> {Some PD_deny, Some PD_step_up, Some PD_defer}"
proof -
  have "(case d of None \<Rightarrow> CD_na | Some p \<Rightarrow> claim_value (Some (policy_decision_str p)))
      = claim_value (map_option policy_decision_str d)" by (cases d) (simp_all add: claim_value_def)
  moreover have "claim_value (Some (policy_decision_str p)) =
      (case p of PD_allow \<Rightarrow> CD_allow | PD_redact \<Rightarrow> CD_redact | PD_advisory_deny \<Rightarrow> CD_advisory_deny
       | PD_fault \<Rightarrow> CD_fault | PD_na \<Rightarrow> CD_na | _ \<Rightarrow> CD_deny)" for p
    by (cases p) (simp_all add: claim_value_def)
  ultimately show
    "claim_value (map_option policy_decision_str d) = CD_allow \<longleftrightarrow> d = Some PD_allow"
    "claim_value (map_option policy_decision_str d) = CD_fault \<longleftrightarrow> d = Some PD_fault"
    "claim_value (map_option policy_decision_str d) = CD_advisory_deny \<longleftrightarrow> d = Some PD_advisory_deny"
    "claim_value (map_option policy_decision_str d) = CD_deny \<longleftrightarrow> d \<in> {Some PD_deny, Some PD_step_up, Some PD_defer}"
    by (auto split: option.splits policy_decision.splits)
qed

lemma count_if_map: "count_if p (map f xs) = count_if (\<lambda>x. p (f x)) xs"
  by (induction xs) auto

text \<open>The counts of a claim against its transcript. When every call has a tool name, the transcript has
  one entry per call and shows as many allowed and as many faulted calls as the counts say; but a call
  that was refused by step-up or deferral is a denial in the transcript and in none of the counts, so the denied
  calls of the transcript are those counted plus these.\<close>

theorem claim_counts_and_transcript:
  assumes "list_all (\<lambda>e. ea_tool_name e \<noteq> None) calls"
    and "cs = call_summary_of cat state calls slog" "ts = transcript_of cat calls"
  shows "length ts = cy_tool_calls_total cs
    \<and> count_if (\<lambda>t. te_decision t = CD_allow) ts = cy_tool_calls_allowed cs
    \<and> count_if (\<lambda>t. te_decision t = CD_fault) ts = cy_tool_calls_faulted cs
    \<and> count_if (\<lambda>t. te_decision t = CD_deny \<or> te_decision t = CD_advisory_deny) ts
       = cy_tool_calls_denied cs
         + count_if (\<lambda>e. ea_policy_decision e = Some PD_step_up \<or> ea_policy_decision e = Some PD_defer) calls"
proof -
  have dec: "count_if (\<lambda>t. p (te_decision t)) ts
      = count_if (\<lambda>e. p (claim_value (map_option policy_decision_str (ea_policy_decision e)))) calls" for p
    using arg_cong [OF transcript_decisions [OF assms(1), of cat], of "count_if p"] assms(3) by (simp add: count_if_map)
  have len: "length ts = length calls"
    using arg_cong [OF transcript_decisions [OF assms(1), of cat], of length] assms(3) by simp
  have cs: "cy_tool_calls_total cs = length calls"
    "cy_tool_calls_allowed cs = count_if (\<lambda>e. ea_policy_decision e = Some PD_allow) calls"
    "cy_tool_calls_denied cs = count_if counts_as_denied calls"
    "cy_tool_calls_faulted cs = count_if (\<lambda>e. ea_policy_decision e = Some PD_fault) calls"
    by (simp_all add: assms(2) call_summary_of_def Let_def split: prod.splits)
  have sum: "count_if counts_as_denied calls
      + count_if (\<lambda>e. ea_policy_decision e = Some PD_step_up \<or> ea_policy_decision e = Some PD_defer) calls
    = count_if (\<lambda>e. counts_as_denied e \<or> ea_policy_decision e = Some PD_step_up \<or> ea_policy_decision e = Some PD_defer) calls"
    by (rule count_if_disjoint) (auto simp: counts_as_denied_def)
  have eq: "(counts_as_denied e \<or> ea_policy_decision e = Some PD_step_up \<or> ea_policy_decision e = Some PD_defer)
      \<longleftrightarrow> (claim_value (map_option policy_decision_str (ea_policy_decision e)) = CD_deny
           \<or> claim_value (map_option policy_decision_str (ea_policy_decision e)) = CD_advisory_deny)" for e
    by (auto simp: counts_as_denied_def claim_value_iff)
  show ?thesis
    unfolding cs len dec [of "\<lambda>d. d = CD_allow"] dec [of "\<lambda>d. d = CD_fault"]
      dec [of "\<lambda>d. d = CD_deny \<or> d = CD_advisory_deny"] sum eq
    by (simp add: claim_value_iff)
qed

theorem claim_counts_and_transcript_witness:
  "let e = new_entry pad32 ''s'' [] ''u'' sample_time
             ((entry_defaults Tool_call)\<lparr>ea_tool_name := Some ''t'', ea_policy_decision := Some PD_step_up\<rparr>);
       cat = rc_catalog sample_ctx; state = new_session_state ''s'' Map.empty in
   cy_tool_calls_denied (call_summary_of cat state [e] None) = 0
   \<and> count_if (\<lambda>t. te_decision t = CD_deny \<or> te_decision t = CD_advisory_deny) (transcript_of cat [e]) = 1"
proof -
  let ?e = "new_entry pad32 ''s'' [] ''u'' sample_time
             ((entry_defaults Tool_call)\<lparr>ea_tool_name := Some ''t'', ea_policy_decision := Some PD_step_up\<rparr>)"
  let ?state = "new_session_state ''s'' Map.empty"
  have d: "cy_tool_calls_denied (call_summary_of (rc_catalog sample_ctx) ?state [?e] None) = 0"
    by (simp add: call_summary_of_def counts_as_denied_def Let_def)
  have "list_all (\<lambda>e. ea_tool_name e \<noteq> None) [?e]" by simp
  from claim_counts_and_transcript [OF this refl refl, of "rc_catalog sample_ctx" ?state None] d
  show ?thesis unfolding Let_def by simp
qed

subsection \<open>Every call is counted once\<close>

text \<open>Readings inside one window that starts at \<open>t0\<close>: nothing leaves the window while they are taken.\<close>

definition reading_ok :: "rat \<Rightarrow> session_manager \<Rightarrow> ks_reading \<Rightarrow> bool" where
  "reading_ok t0 m kr \<longleftrightarrow> t0 \<le> kr_now kr
     \<and> kr_clk kr \<le> t0 + of_nat (kc_window_seconds (ks_config (sm_kill_switch m)))
     \<and> kr_clk2 kr \<le> t0 + of_nat (kc_window_seconds (ks_config (sm_kill_switch m)))"

definition events_from :: "rat \<Rightarrow> session_manager \<Rightarrow> string \<Rightarrow> bool" where
  "events_from t0 m a \<longleftrightarrow> (\<forall>e\<in>set (ks_events (sm_kill_switch m) a). t0 \<le> fst e)"

lemma prune_noop:
  "\<forall>e\<in>set (ks_events ks a). clk \<le> fst e + of_nat (kc_window_seconds (ks_config ks)) \<Longrightarrow> prune clk ks a = ks"
  by (simp add: prune_def Let_def) (cases "ks_events ks a"; force simp: fun_upd_idem)

text \<open>What accounting that does not trip adds to the window.\<close>

lemma count_and_trip_adds:
  assumes "count_and_trip ctx kr a n d extra m s c = (Inr False, m', s', c')"
    and "reading_ok t0 m kr" "events_from t0 m a"
  shows "ks_events (sm_kill_switch m') a
      = ks_events (sm_kill_switch m) a @ replicate n (kr_now kr, False) @ replicate d (kr_now kr, True)"
    and "ks_config (sm_kill_switch m') = ks_config (sm_kill_switch m)" "events_from t0 m' a"
proof -
  let ?ks = "sm_kill_switch m"
  let ?q = "ks_events ?ks a @ replicate n (kr_now kr, False) @ replicate d (kr_now kr, True)"
  let ?ks1 = "?ks\<lparr>ks_events := (ks_events ?ks)(a := ?q)\<rparr>"
  have t0: "t0 \<le> fst e" if "e \<in> set ?q" for e
    using assms(2,3) that by (auto simp: reading_ok_def events_from_def)
  have p: "prune clk ?ks1 a = ?ks1" if "clk \<le> t0 + of_nat (kc_window_seconds (ks_config ?ks))" for clk
  proof (rule prune_noop, rule ballI)
    fix e assume "e \<in> set (ks_events ?ks1 a)"
    then have "t0 \<le> fst e" by (intro t0) simp
    with that have "clk \<le> fst e + of_nat (kc_window_seconds (ks_config ?ks))" by linarith
    then show "clk \<le> fst e + of_nat (kc_window_seconds (ks_config ?ks1))" by simp
  qed
  have rec: "record_calls (kr_now kr) (kr_clk kr) ?ks a n d = ?ks1"
    using p [of "kr_clk kr"] assms(2) by (simp add: record_calls_def reading_ok_def)
  obtain ks' where ev: "evaluate (kr_clk2 kr) (kr_wall kr) ?ks1 a = Some (False, ks')" "m' = m\<lparr>sm_kill_switch := ks'\<rparr>"
    using assms(1) unfolding count_and_trip_def rec Let_def
    by (auto split: option.splits prod.splits if_splits sum.splits)
  have "ks' = ?ks1"
    using ev(1) p [of "kr_clk2 kr"] assms(2) by (auto simp: evaluate_def Let_def reading_ok_def split: if_splits)
  with ev(2) t0 show "ks_events (sm_kill_switch m') a = ?q" "ks_config (sm_kill_switch m') = ks_config ?ks"
    "events_from t0 m' a"
    by (auto simp: events_from_def)
qed

text \<open>One call observed as it completes, without tripping.\<close>

definition observe_step ::
  "runtime_context \<Rightarrow> rat \<Rightarrow> audit_chain \<Rightarrow> session_manager \<times> session_state \<Rightarrow> session_manager \<times> session_state \<Rightarrow> bool" where
  "observe_step ctx t0 c p q \<longleftrightarrow>
     (\<exists>kr i c'. reading_ok t0 (fst p) kr \<and> observe_call ctx kr (fst p) (snd p) c i = (Inr False, fst q, snd q, c'))"

definition is_observed :: "session_state \<Rightarrow> audit_entry \<Rightarrow> bool" where
  "is_observed s e \<longleftrightarrow> ea_call_id e \<in> Some ` ss_kill_switch_observed_calls s"

lemma count_if_insert:
  assumes "distinct (map f xs)" "e \<in> set xs" "f e \<notin> A"
  shows "count_if (\<lambda>x. P x \<and> f x \<in> insert (f e) A) xs = count_if (\<lambda>x. P x \<and> f x \<in> A) xs + (if P e then 1 else 0)"
  using assms
proof (induction xs)
  case (Cons x xs)
  show ?case
  proof (cases "x = e")
    case True
    have "count_if (\<lambda>x. P x \<and> f x \<in> insert (f e) A) xs = count_if (\<lambda>x. P x \<and> f x \<in> A) xs"
      unfolding count_if_def using Cons.prems True by (intro arg_cong [where f = length] filter_cong) (auto, metis image_eqI)
    with True Cons.prems show ?thesis by simp
  next
    case False
    with Cons.prems have "f x \<noteq> f e" "e \<in> set xs" by (auto simp: image_iff)
    with Cons False show ?thesis by simp
  qed
qed simp

text \<open>What the window of the identity holds of the calls observed so far.\<close>

definition counted_inv :: "rat \<Rightarrow> string \<Rightarrow> audit_entry list \<Rightarrow> nat \<Rightarrow> nat \<Rightarrow> session_manager \<times> session_state \<Rightarrow> bool" where
  "counted_inv t0 a calls n d p \<longleftrightarrow>
     events_from t0 (fst p) a \<and> \<not> ss_kill_switch_triggered (snd p)
     \<and> count_if (\<lambda>e. \<not> snd e) (ks_events (sm_kill_switch (fst p)) a)
         = n + count_if (\<lambda>e. ea_policy_decision e = Some PD_allow \<and> is_observed (snd p) e) calls
     \<and> count_if snd (ks_events (sm_kill_switch (fst p)) a) = d + count_if (\<lambda>e. counts_as_denied e \<and> is_observed (snd p) e) calls"

lemma counted_inv_step:
  assumes "observe_step ctx t0 c p q" "counted_inv t0 a calls n d p" "calls = tool_calls_of (ch_entries c)"
    and "distinct (map ea_call_id calls)" "rc_agent_manifest ctx = Some b" "a = ab_agent_id b"
  shows "counted_inv t0 a calls n d q"
proof -
  obtain kr i c' where ok: "reading_ok t0 (fst p) kr"
    and ob: "observe_call ctx kr (fst p) (snd p) c i = (Inr False, fst q, snd q, c')"
    using assms(1) by (auto simp: observe_step_def)
  from ob show ?thesis
  proof (cases rule: observe_call_cases)
    case nothing
    then have "q = p" by (simp add: prod_eq_iff)
    with assms(2) show ?thesis by simp
  next
    case (counted b' e)
    let ?s1 = "(snd p)\<lparr>ss_kill_switch_observed_calls := insert i (ss_kill_switch_observed_calls (snd p))\<rparr>"
    have ct: "count_and_trip ctx kr a (if ea_policy_decision e = Some PD_allow then 1 else 0)
        (if counts_as_denied e then 1 else 0) [(''tripping_call_id'', JStr i)] (fst p) ?s1 c = (Inr False, fst q, snd q, c')"
      using counted(1,7) assms(5,6) by simp
    have ev: "events_from t0 (fst p) a" using assms(2) by (simp add: counted_inv_def)
    note adds = count_and_trip_adds [OF ct ok ev]
    from ct have s1: "snd q = ?s1" by (cases rule: count_and_trip_cases) simp_all
    have e: "e \<in> set calls" "ea_call_id e = Some i" "ea_call_id e \<notin> Some ` ss_kill_switch_observed_calls (snd p)"
      using counted(3-6) assms(3) by (auto simp: tool_calls_of_def)
    have obs: "is_observed (snd q) x \<longleftrightarrow> ea_call_id x \<in> insert (ea_call_id e) (Some ` ss_kill_switch_observed_calls (snd p))" for x
      by (auto simp: is_observed_def s1 e(2))
    have cnt: "count_if (\<lambda>x. P x \<and> is_observed (snd q) x) calls
        = count_if (\<lambda>x. P x \<and> is_observed (snd p) x) calls + (if P e then 1 else 0)" for P
      unfolding obs unfolding is_observed_def by (rule count_if_insert [OF assms(4) e(1,3)])
    have nt: "\<not> ss_kill_switch_triggered (snd q)" using assms(2) by (simp add: s1 counted_inv_def)
    show ?thesis
      unfolding counted_inv_def cnt adds(1) using assms(2) adds(3) nt by (auto simp: counted_inv_def)
  qed
qed

text \<open>Every call is counted once. Within one window, observing the calls of a session as they complete,
  in any order and any number of times, and then closing it adds to the identity's window exactly one event for each
  allowed call and one for each denied call of the session's chain, so no call is counted twice and none is missed.\<close>

theorem each_call_counted_once:
  assumes "rc_agent_manifest ctx = Some b" "a = ab_agent_id b" "calls = tool_calls_of (ch_entries c)"
    and "distinct (map ea_call_id calls)" "list_all (\<lambda>e. ea_call_id e \<noteq> None) calls"
    and "\<not> ss_kill_switch_triggered s" "ss_kill_switch_observed_calls s = {}" "events_from t0 m a"
    and "(observe_step ctx t0 c)\<^sup>*\<^sup>* (m, s) (m1, s1)"
    and "reading_ok t0 m1 kr" "close_kill_switch ctx kr m1 s1 c = (Inr False, m2, s2, c2)"
  shows "count_if (\<lambda>e. \<not> snd e) (ks_events (sm_kill_switch m2) a)
       = count_if (\<lambda>e. \<not> snd e) (ks_events (sm_kill_switch m) a) + count_if (\<lambda>e. ea_policy_decision e = Some PD_allow) calls
    \<and> count_if snd (ks_events (sm_kill_switch m2) a)
       = count_if snd (ks_events (sm_kill_switch m) a) + count_if counts_as_denied calls"
proof -
  let ?n = "count_if (\<lambda>e. \<not> snd e) (ks_events (sm_kill_switch m) a)" and ?d = "count_if snd (ks_events (sm_kill_switch m) a)"
  have "counted_inv t0 a calls ?n ?d (m, s)"
    using assms(6-8) by (simp add: counted_inv_def is_observed_def count_if_def)
  with assms(9) have inv: "counted_inv t0 a calls ?n ?d (m1, s1)"
    by (induction rule: rtranclp_induct) (auto intro: counted_inv_step [OF _ _ assms(3,4,1,2)])
  let ?rest = "unobserved_calls s1 calls"
  have ct: "count_and_trip ctx kr a (count_if (\<lambda>e. ea_policy_decision e = Some PD_allow) ?rest) (count_if counts_as_denied ?rest)
      [] m1 s1 c = (Inr False, m2, s2, c2)"
    using assms(1-3,11) inv by (simp add: close_kill_switch_def counted_inv_def Let_def)
  have "events_from t0 m1 a" using inv by (simp add: counted_inv_def)
  note adds = count_and_trip_adds(1) [OF ct assms(10) this]
  have "count_if P ?rest = count_if (\<lambda>e. \<not> is_observed s1 e \<and> P e) calls" for P
    using assms(5) unfolding count_if_def unobserved_calls_def filter_filter
    by (intro arg_cong [where f = length] filter_cong) (auto simp: is_observed_def list_all_iff split: option.splits)
  moreover have "count_if (\<lambda>e. P e \<and> is_observed s1 e) calls + count_if (\<lambda>e. \<not> is_observed s1 e \<and> P e) calls = count_if P calls" for P
    by (induction calls) auto
  ultimately have "count_if (\<lambda>e. P e \<and> is_observed s1 e) calls + count_if P ?rest = count_if P calls" for P by simp
  from this [of "\<lambda>e. ea_policy_decision e = Some PD_allow"] this [of counts_as_denied] inv show ?thesis
    by (simp add: adds counted_inv_def)
qed

theorem each_call_counted_once_witness:
  "\<exists>c m2 s2 c2. close_kill_switch sample_ctx (cl_ks sample_close) sample_manager (new_session_state ''s'' Map.empty) c
       = (Inr False, m2, s2, c2)
     \<and> count_if snd (ks_events (sm_kill_switch m2) ''spiffe://a'') = count_if counts_as_denied (tool_calls_of (ch_entries c))"
proof -
  let ?args = "(entry_defaults Tool_call)\<lparr>ea_call_id := Some ''c1'', ea_policy_decision := Some PD_deny\<rparr>"
  let ?e = "new_entry pad32 ''s'' [] ''u'' sample_time ?args"
  let ?c = "\<lparr>ch_session_id = ''s'', ch_entries = [?e], ch_store = None, ch_sinks = [], ch_tee_anchor = None, ch_session_report = None\<rparr>"
  let ?s = "new_session_state ''s'' Map.empty" and ?kr = "cl_ks sample_close"
  have calls: "tool_calls_of (ch_entries ?c) = [?e]" by (simp add: tool_calls_of_def)
  have ks: "sm_kill_switch sample_manager = new_kill_switch sample_config (Some [])"
    by (simp add: sample_manager_def new_session_manager_def sample_ctx_def)
  have b: "rc_agent_manifest sample_ctx = Some sample_binding" "ab_agent_id sample_binding = ''spiffe://a''"
    by (simp_all add: sample_ctx_def sample_binding_def)
  have ok: "reading_ok 0 sample_manager ?kr" "events_from 0 sample_manager ''spiffe://a''"
    by (simp_all add: reading_ok_def events_from_def ks new_kill_switch_def sample_config_def sample_close_def)
  have "\<exists>m2 s2 c2. close_kill_switch sample_ctx ?kr sample_manager ?s ?c = (Inr False, m2, s2, c2)"
    by (simp add: close_kill_switch_def b new_session_state_def calls [simplified] unobserved_calls_def counts_as_denied_def count_and_trip_def ks
        record_calls_def prune_def evaluate_def new_kill_switch_def sample_config_def sample_close_def Let_def)
  then obtain m2 s2 c2 where k: "close_kill_switch sample_ctx ?kr sample_manager ?s ?c = (Inr False, m2, s2, c2)" by blast
  have ev: "ks_events (sm_kill_switch sample_manager) ''spiffe://a'' = []" by (simp add: ks new_kill_switch_def)
  from each_call_counted_once [OF b(1) b(2) [symmetric] calls [symmetric] _ _ _ _ ok(2) rtranclp.rtrancl_refl ok(1) k] k calls ev
  show ?thesis by (fastforce simp: new_session_state_def)
qed

end
