(* ===== verification/Provenance.thy ===== *)
theory Provenance
  imports Catalog
begin

text \<open>
  What the proxy learns about a server on first contact: the complete
  \<open>tools/list\<close> of \<open>mcp/discovery.py\<close>, the provenance verdict of
  \<open>provenance.py\<close>, and the two keys of \<open>mcp/proxy.py\<close> under which a server's
  process and its verdict are kept.

  The fetcher of one page, the file read and the two functions of the
  \<open>agentrust_trace\<close> package are arguments. \<open>collect_tools\<close> is shown equal to a
  declarative description of a complete, unambiguous listing; the provenance
  verdict is shown to say \<open>verified\<close> only after both external checks passed.
\<close>

section \<open>Discovery\<close>

definition MAX_DISCOVERY_PAGES :: nat where
  "MAX_DISCOVERY_PAGES = 1000"

datatype discovery_error =
    Invalid_envelope
  | Invalid_tools_page
  | Invalid_tool_name
  | Duplicate_tool_name
  | Invalid_cursor
  | Repeated_cursor
  | Page_limit_exceeded
  | Fetch_raised

type_synonym page_fetcher = "string \<Rightarrow> (string \<times> json) list \<Rightarrow> json option"

definition page_request_id :: "nat \<Rightarrow> string" where
  "page_request_id page = ''provenance-tools-list-'' @ nat_str page"

definition envelope_ok :: "string \<Rightarrow> json \<Rightarrow> bool" where
  "envelope_ok request_id body \<longleftrightarrow>
     is_jobj body \<and> jfield body ''jsonrpc'' = Some (JStr ''2.0'') \<and> jfield body ''id'' = Some (JStr request_id)
     \<and> jfield body ''error'' = None"

fun page_tools :: "json \<Rightarrow> json list option" where
  "page_tools body =
     (case jfield body ''result'' of
        Some (JObj r) \<Rightarrow> (case map_of r ''tools'' of Some (JArr ts) \<Rightarrow> Some ts | _ \<Rightarrow> None)
      | _ \<Rightarrow> None)"

definition next_cursor :: "json \<Rightarrow> json option" where
  "next_cursor body = (case jfield body ''result'' of Some (JObj r) \<Rightarrow> map_of r ''nextCursor'' | _ \<Rightarrow> None)"

fun tool_name_of :: "json \<Rightarrow> string option" where
  "tool_name_of tool =
     (case tool of
        JObj o' \<Rightarrow> (case map_of o' ''name'' of Some (JStr n) \<Rightarrow> if n = [] then None else Some n | _ \<Rightarrow> None)
      | _ \<Rightarrow> None)"

declare page_tools.simps [simp del] tool_name_of.simps [simp del]

text \<open>The inner loop: \<open>tools\<close> and \<open>names\<close> grow together.\<close>

fun collect_page :: "json list \<Rightarrow> string list \<Rightarrow> json list \<Rightarrow> discovery_error + json list \<times> string list" where
  "collect_page tools names [] = Inr (tools, names)"
| "collect_page tools names (t # ts) =
     (case tool_name_of t of
        None \<Rightarrow> Inl Invalid_tool_name
      | Some n \<Rightarrow>
          if n \<in> set names then Inl Duplicate_tool_name
          else collect_page (tools @ [t]) (names @ [n]) ts)"

definition cursor_params :: "string option \<Rightarrow> (string \<times> json) list" where
  "cursor_params c = (case c of None \<Rightarrow> [] | Some s \<Rightarrow> [(''cursor'', JStr s)])"

text \<open>The outer loop, with the number of pages left.\<close>

fun collect_pages ::
  "page_fetcher \<Rightarrow> nat \<Rightarrow> nat \<Rightarrow> json list \<Rightarrow> string list \<Rightarrow> string list \<Rightarrow> string option \<Rightarrow> discovery_error + json list" where
  "collect_pages fetch_page 0 page tools names cursors cur = Inl Page_limit_exceeded"
| "collect_pages fetch_page (Suc left) page tools names cursors cur =
     (case fetch_page (page_request_id page) (cursor_params cur) of
        None \<Rightarrow> Inl Fetch_raised
      | Some body \<Rightarrow>
          if \<not> envelope_ok (page_request_id page) body then Inl Invalid_envelope
          else case page_tools body of
            None \<Rightarrow> Inl Invalid_tools_page
          | Some ts \<Rightarrow>
              bind_result (collect_page tools names ts) (\<lambda>(tools', names').
                case next_cursor body of
                  None \<Rightarrow> Inr tools'
                | Some (JStr c) \<Rightarrow>
                    if c \<in> set cursors then Inl Repeated_cursor
                    else collect_pages fetch_page left (Suc page) tools' names' (cursors @ [c]) (Some c)
                | Some _ \<Rightarrow> Inl Invalid_cursor))"

definition collect_tools :: "page_fetcher \<Rightarrow> discovery_error + json list" where
  "collect_tools fetch_page = collect_pages fetch_page MAX_DISCOVERY_PAGES 0 [] [] [] None"

subsection \<open>A complete listing\<close>

text \<open>The answers \<open>bodies\<close> to consecutive requests from page \<open>p\<close> on, each well formed, each but the
  last naming the cursor the next was asked with.\<close>

fun answers :: "page_fetcher \<Rightarrow> nat \<Rightarrow> string option \<Rightarrow> json list \<Rightarrow> string list \<Rightarrow> bool" where
  "answers fetch_page p cur [] cs = False"
| "answers fetch_page p cur (b # bs) cs =
     (fetch_page (page_request_id p) (cursor_params cur) = Some b \<and> envelope_ok (page_request_id p) b
      \<and> page_tools b \<noteq> None
      \<and> (case cs of
           [] \<Rightarrow> next_cursor b = None \<and> bs = []
         | c # cs' \<Rightarrow> next_cursor b = Some (JStr c) \<and> answers fetch_page (Suc p) (Some c) bs cs'))"

definition listed_tools :: "json list \<Rightarrow> json list" where
  "listed_tools bodies = concat (map (\<lambda>b. the (page_tools b)) bodies)"

definition complete_listing :: "page_fetcher \<Rightarrow> json list \<Rightarrow> json list \<Rightarrow> bool" where
  "complete_listing fetch_page bodies tools \<longleftrightarrow>
     length bodies \<le> MAX_DISCOVERY_PAGES
     \<and> (\<exists>cursors. distinct cursors \<and> answers fetch_page 0 None bodies cursors)
     \<and> tools = listed_tools bodies
     \<and> list_all (\<lambda>t. tool_name_of t \<noteq> None) tools \<and> distinct (map tool_name_of tools)"

lemma collect_page_eq:
  "collect_page tools names ts = Inr (tools', names') \<longleftrightarrow>
     list_all (\<lambda>t. tool_name_of t \<noteq> None) ts
     \<and> distinct (map tool_name_of ts) \<and> (\<forall>t\<in>set ts. the (tool_name_of t) \<notin> set names)
     \<and> tools' = tools @ ts \<and> names' = names @ map (\<lambda>t. the (tool_name_of t)) ts"
proof (induction tools names ts rule: collect_page.induct)
  case (2 tools names t ts)
  show ?case
  proof (cases "tool_name_of t")
    case (Some n)
    have "(\<forall>u\<in>set ts. tool_name_of u \<noteq> None) \<Longrightarrow>
      (Some n \<notin> tool_name_of ` set ts) = (\<forall>u\<in>set ts. the (tool_name_of u) \<noteq> n)" by force
    with Some 2 show ?thesis by (auto simp: list_all_iff)
  qed simp
qed auto

lemma collect_pages_sound:
  assumes "collect_pages fetch_page left p tools names cursors cur = Inr r"
  shows "\<exists>bs cs. length bs \<le> left \<and> answers fetch_page p cur bs cs \<and> distinct cs \<and> set cs \<inter> set cursors = {}
    \<and> r = tools @ listed_tools bs \<and> list_all (\<lambda>t. tool_name_of t \<noteq> None) (listed_tools bs)
    \<and> distinct (map tool_name_of (listed_tools bs))
    \<and> (\<forall>t\<in>set (listed_tools bs). the (tool_name_of t) \<notin> set names)"
  using assms
proof (induction fetch_page left p tools names cursors cur arbitrary: r rule: collect_pages.induct)
  case (2 fetch_page left p tools names cursors cur)
  then obtain b ts tools' names' where b: "fetch_page (page_request_id p) (cursor_params cur) = Some b"
    "envelope_ok (page_request_id p) b" "page_tools b = Some ts" "collect_page tools names ts = Inr (tools', names')"
    by (auto simp: bind_result_eq_Inr split: option.splits if_splits)
  note page = b(4) [unfolded collect_page_eq]
  show ?case
  proof (cases "next_cursor b")
    case None
    then have "r = tools @ ts" using 2 b page by simp
    with b page None show ?thesis
      by (intro exI [of _ "[b]"] exI [of _ "[]"]) (simp add: listed_tools_def)
  next
    case (Some j)
    then obtain c where c: "next_cursor b = Some (JStr c)" "c \<notin> set cursors"
      "collect_pages fetch_page left (Suc p) tools' names' (cursors @ [c]) (Some c) = Inr r"
      using 2(2) b by (cases j) (auto split: if_splits)
    obtain bs cs where IH: "length bs \<le> left" "answers fetch_page (Suc p) (Some c) bs cs" "distinct cs"
      "set cs \<inter> set (cursors @ [c]) = {}" "r = tools' @ listed_tools bs"
      "list_all (\<lambda>t. tool_name_of t \<noteq> None) (listed_tools bs)" "distinct (map tool_name_of (listed_tools bs))"
      "\<forall>t\<in>set (listed_tools bs). the (tool_name_of t) \<notin> set names'"
      using 2(1) [OF b(1) _ b(3) c(1) refl c(2,3)] b(2) by blast
    have l: "listed_tools (b # bs) = ts @ listed_tools bs" using b(3) by (simp add: listed_tools_def)
    have "tool_name_of ` set ts \<inter> tool_name_of ` set (listed_tools bs) = {}"
    proof (rule ccontr)
      assume "\<not> ?thesis"
      then obtain t u where "t \<in> set ts" "u \<in> set (listed_tools bs)" "tool_name_of t = tool_name_of u" by auto
      with IH(8) page show False by (metis (mono_tags, lifting) UnCI image_eqI image_set set_append)
    qed
    moreover have "the (tool_name_of t) \<notin> set names" if "t \<in> set (listed_tools bs)" for t
      using IH(8) page that by simp
    ultimately show ?thesis
      using IH(1-7) b c page unfolding l
      by (intro exI [of _ "b # bs"] exI [of _ "c # cs"]) (auto simp: l)
  qed
qed simp

lemma collect_pages_complete:
  assumes "answers fetch_page p cur bs cs" "length bs \<le> left" "distinct cs" "set cs \<inter> set cursors = {}"
    and "list_all (\<lambda>t. tool_name_of t \<noteq> None) (listed_tools bs)" "distinct (map tool_name_of (listed_tools bs))"
    and "\<forall>t\<in>set (listed_tools bs). the (tool_name_of t) \<notin> set names"
  shows "collect_pages fetch_page left p tools names cursors cur = Inr (tools @ listed_tools bs)"
  using assms
proof (induction bs arbitrary: left p tools names cursors cur cs)
  case (Cons b bs)
  obtain l where left: "left = Suc l" using Cons.prems(2) by (cases left) auto
  obtain ts where ts: "page_tools b = Some ts" using Cons.prems(1) by auto
  have l: "listed_tools (b # bs) = ts @ listed_tools bs" using ts by (simp add: listed_tools_def)
  let ?names = "names @ map (\<lambda>t. the (tool_name_of t)) ts"
  have page: "collect_page tools names ts = Inr (tools @ ts, ?names)"
    using Cons.prems(5-7) unfolding l collect_page_eq by auto
  show ?case
  proof (cases cs)
    case Nil
    then show ?thesis using Cons.prems(1) ts page left by (simp add: listed_tools_def)
  next
    case (Cons c cs')
    have "the (tool_name_of t) \<notin> set ?names" if t: "t \<in> set (listed_tools bs)" for t
    proof
      assume "the (tool_name_of t) \<in> set ?names"
      then obtain u where u: "u \<in> set ts" "the (tool_name_of u) = the (tool_name_of t)"
        using Cons.prems(7) t unfolding l by auto
      then have "tool_name_of u = tool_name_of t"
        using Cons.prems(5) t unfolding l list_all_iff by (metis UnCI option.expand set_append)
      then show False using Cons.prems(6) t u(1) unfolding l by (force simp: image_iff)
    qed
    then have "collect_pages fetch_page l (Suc p) (tools @ ts) ?names (cursors @ [c]) (Some c) =
        Inr ((tools @ ts) @ listed_tools bs)"
      using Cons.prems Cons left unfolding l by (intro Cons.IH [of _ _ cs']) auto
    then show ?thesis using Cons.prems(1,4) Cons ts page left l by simp
  qed
qed simp

text \<open>Discovery returns exactly the complete listings. \<open>collect_tools\<close> succeeds with a tool list if and
  only if the server's answers, taken in order from the first page, are at most 1000 well-formed pages that end
  at one without a cursor, no cursor repeats, the list is the concatenation of the pages, and its tool names are
  non-empty and pairwise different. No partial listing is ever returned.\<close>

theorem collect_tools_iff:
  "collect_tools fetch_page = Inr tools \<longleftrightarrow> (\<exists>bodies. complete_listing fetch_page bodies tools)"
proof
  assume "collect_tools fetch_page = Inr tools"
  from collect_pages_sound [OF this [unfolded collect_tools_def]] show "\<exists>bodies. complete_listing fetch_page bodies tools"
    by (auto simp: complete_listing_def)
next
  assume "\<exists>bodies. complete_listing fetch_page bodies tools"
  then show "collect_tools fetch_page = Inr tools"
    using collect_pages_complete [of fetch_page 0 None _ _ MAX_DISCOVERY_PAGES "[]" "[]" "[]"]
    by (auto simp: complete_listing_def collect_tools_def)
qed


text \<open>Discovery asks for at most 1000 pages, whatever the server answers: a server that never stops
  handing out cursors ends in an error.\<close>

lemma collect_pages_asks:
  assumes "\<forall>i. p \<le> i \<and> i < p + left \<longrightarrow> fetch_page (page_request_id i) = fetch_page' (page_request_id i)"
  shows "collect_pages fetch_page left p tools names cursors cur = collect_pages fetch_page' left p tools names cursors cur"
  using assms
proof (induction left arbitrary: p tools names cursors cur)
  case (Suc left)
  have e: "fetch_page (page_request_id p) = fetch_page' (page_request_id p)" using Suc.prems by simp
  have IH: "collect_pages fetch_page left (Suc p) t n c d = collect_pages fetch_page' left (Suc p) t n c d" for t n c d
    using Suc.prems by (intro Suc.IH) simp
  show ?case unfolding collect_pages.simps e IH ..
qed simp

section \<open>Provenance\<close>

datatype provenance_outcome = VERIFIED | CATALOG_MISMATCH | INVALID | UNCHECKED | ABSENT

text \<open>\<open>kind\<close> and \<open>publisher\<close> are whatever the record holds; a missing member and a null one are \<open>JNull\<close>.\<close>

record provenance_result =
  pv_outcome :: provenance_outcome
  pv_kind :: json
  pv_publisher :: json
  pv_detail :: "string option"

definition KIND_ORDER :: "string list" where
  "KIND_ORDER = [''publisher-asserted'', ''observer-attested'', ''tee-attested'']"

definition outcome_value :: "provenance_outcome \<Rightarrow> string" where
  "outcome_value o' = (case o' of VERIFIED \<Rightarrow> ''verified'' | CATALOG_MISMATCH \<Rightarrow> ''catalog-mismatch''
     | INVALID \<Rightarrow> ''invalid'' | UNCHECKED \<Rightarrow> ''unchecked'' | ABSENT \<Rightarrow> ''absent'')"

datatype provenance_error = Value_error | Attribute_error | Slice_type_error

text \<open>\<open>tuple.index\<close>.\<close>

fun index_of :: "'a list \<Rightarrow> 'a \<Rightarrow> nat option" where
  "index_of [] x = None"
| "index_of (y # ys) x = (if x = y then Some 0 else map_option Suc (index_of ys x))"

definition provenance_ok :: "provenance_result \<Rightarrow> bool" where
  "provenance_ok r \<longleftrightarrow> pv_outcome r = VERIFIED \<or> pv_outcome r = ABSENT"

definition meets :: "provenance_result \<Rightarrow> string option \<Rightarrow> provenance_error + bool" where
  "meets r required_kind =
     (case required_kind of
        None \<Rightarrow> Inr True
      | Some req \<Rightarrow>
          if pv_outcome r \<noteq> VERIFIED \<or> pv_kind r = JNull then Inr False
          else case (case pv_kind r of JStr k \<Rightarrow> index_of KIND_ORDER k | _ \<Rightarrow> None) of
            None \<Rightarrow> Inl Value_error
          | Some i \<Rightarrow> (case index_of KIND_ORDER req of None \<Rightarrow> Inl Value_error | Some j \<Rightarrow> Inr (j \<le> i)))"

definition to_audit :: "provenance_result \<Rightarrow> provenance_error + (string \<times> json) list" where
  "to_audit r =
     (let block = [(''provenance'', JStr (outcome_value (pv_outcome r)))]
                  @ (if jtruthy (pv_kind r) then [(''provenance_kind'', pv_kind r)] else []);
          detail = (case pv_detail r of None \<Rightarrow> [] | Some d \<Rightarrow>
                      if d = [] then [] else [(''provenance_detail'', JStr (take 512 d))])
      in if \<not> jtruthy (pv_publisher r) then Inr (block @ detail)
         else case pv_publisher r of
           JStr s \<Rightarrow> Inr (block @ [(''provenance_publisher'', JStr (take 256 s))] @ detail)
         | JArr xs \<Rightarrow> Inr (block @ [(''provenance_publisher'', JArr (take 256 xs))] @ detail)
         | _ \<Rightarrow> Inl Slice_type_error)"

text \<open>\<open>verify_record\<close> and \<open>check_tool_catalog\<close> of the \<open>agentrust_trace\<close> package: the message they raise,
  if they raise.\<close>

record trace_library =
  tl_verify_record :: "json \<Rightarrow> json \<Rightarrow> string option"
  tl_check_tool_catalog :: "json \<Rightarrow> json list \<Rightarrow> string option"

datatype record_read = Record_unreadable string | Record_json json

definition check_server_provenance ::
  "trace_library option \<Rightarrow> (string \<Rightarrow> record_read) \<Rightarrow> string option \<Rightarrow> json option \<Rightarrow> json list option
     \<Rightarrow> provenance_error + provenance_result" where
  "check_server_provenance lib read_text record_path trusted_jwk advertised_tools =
     (if record_path = None \<or> record_path = Some [] then
        Inr \<lparr>pv_outcome = ABSENT, pv_kind = JNull, pv_publisher = JNull, pv_detail = None\<rparr>
      else case lib of
        None \<Rightarrow> Inr \<lparr>pv_outcome = UNCHECKED, pv_kind = JNull, pv_publisher = JNull,
                  pv_detail = Some ''agentrust-trace is not installed; provenance was not checked''\<rparr>
      | Some l \<Rightarrow>
        (case read_text (the record_path) of
          Record_unreadable msg \<Rightarrow> Inr \<lparr>pv_outcome = INVALID, pv_kind = JNull, pv_publisher = JNull,
                              pv_detail = Some (''could not read the record: '' @ msg)\<rparr>
        | Record_json rec \<Rightarrow>
          (case trusted_jwk of
            None \<Rightarrow> Inr \<lparr>pv_outcome = INVALID, pv_kind = JNull, pv_publisher = JNull,
                      pv_detail = Some (''no trusted publisher key is configured for this server, and the key in ''
                           @ ''the record cannot be used to check the record'')\<rparr>
          | Some jwk \<Rightarrow>
              if \<not> is_jobj rec then Inl Attribute_error
              else let kind = jget rec ''kind'' JNull; publisher = jget rec ''publisher'' JNull in
                case tl_verify_record l rec jwk of
                  Some msg \<Rightarrow> Inr \<lparr>pv_outcome = INVALID, pv_kind = kind, pv_publisher = publisher,
                                pv_detail = Some (take 500 msg)\<rparr>
                | None \<Rightarrow>
                    (case advertised_tools of
                      None \<Rightarrow> Inr \<lparr>pv_outcome = UNCHECKED, pv_kind = kind, pv_publisher = publisher,
                                pv_detail = Some (''the record verified but the server's tool list was unavailable, so the ''
                                   @ ''comparison that would catch a substituted server did not run'')\<rparr>
                    | Some tools \<Rightarrow>
                        (case tl_check_tool_catalog l rec tools of
                          Some msg \<Rightarrow> Inr \<lparr>pv_outcome = CATALOG_MISMATCH, pv_kind = kind, pv_publisher = publisher,
                                        pv_detail = Some (take 500 msg)\<rparr>
                        | None \<Rightarrow> Inr \<lparr>pv_outcome = VERIFIED, pv_kind = kind, pv_publisher = publisher,
                                    pv_detail = None\<rparr>)))))"

lemma check_server_provenance_verified:
  assumes "check_server_provenance lib read_text path trusted advertised = Inr r" "pv_outcome r = VERIFIED"
  obtains l p jwk rec tools where "path = Some p" "lib = Some l" "read_text p = Record_json rec" "trusted = Some jwk"
    "advertised = Some tools" "tl_verify_record l rec jwk = None" "tl_check_tool_catalog l rec tools = None"
    "pv_kind r = jget rec ''kind'' JNull"
  using assms
  by (auto simp: check_server_provenance_def Let_def split: if_splits option.splits record_read.splits)

lemma meets_Some:
  "meets r (Some req) = Inr True \<longleftrightarrow>
     pv_outcome r = VERIFIED
     \<and> (\<exists>k i j. pv_kind r = JStr k \<and> index_of KIND_ORDER k = Some i \<and> index_of KIND_ORDER req = Some j \<and> j \<le> i)"
  by (auto simp: meets_def split: option.splits json.splits)

text \<open>A provenance floor is met only by a checked record. If a deployment requires a kind and the result
  of checking a server meets it, then a record was configured and read, its signature verified under the
  publisher key the operator configured (never one from the record), the tools the server itself advertised
  matched it, and the record's kind ranks at least as high as the required one.\<close>

theorem provenance_floor_met:
  assumes "check_server_provenance lib read_text path trusted advertised = Inr r" "meets r (Some req) = Inr True"
  shows "\<exists>l p jwk rec tools k i j. path = Some p \<and> lib = Some l \<and> read_text p = Record_json rec \<and> trusted = Some jwk
    \<and> advertised = Some tools \<and> tl_verify_record l rec jwk = None \<and> tl_check_tool_catalog l rec tools = None
    \<and> jget rec ''kind'' JNull = JStr k \<and> index_of KIND_ORDER k = Some i \<and> index_of KIND_ORDER req = Some j \<and> j \<le> i"
proof -
  from assms(2) [unfolded meets_Some] obtain k i j where k: "pv_outcome r = VERIFIED" "pv_kind r = JStr k"
    "index_of KIND_ORDER k = Some i" "index_of KIND_ORDER req = Some j" "j \<le> i" by blast
  from assms(1) k(1) show ?thesis
    by (rule check_server_provenance_verified) (use k in metis)
qed

definition sample_library :: trace_library where
  "sample_library =
     \<lparr>tl_verify_record = (\<lambda>rec jwk. if jget rec ''signed_by'' JNull = jwk then None else Some ''signature''),
      tl_check_tool_catalog = (\<lambda>rec tools. if jget rec ''tools'' JNull = JArr tools then None else Some ''tools'')\<rparr>"

definition sample_record :: json where
  "sample_record = JObj [(''kind'', JStr ''tee-attested''), (''signed_by'', JStr ''k''), (''tools'', JArr [])]"

theorem provenance_floor_met_witness:
  "\<exists>r. check_server_provenance (Some sample_library) (\<lambda>_. Record_json sample_record) (Some ''p'') (Some (JStr ''k'')) (Some []) = Inr r
     \<and> meets r (Some ''observer-attested'') = Inr True
     \<and> tl_verify_record sample_library sample_record (JStr ''k'') = None"
proof -
  let ?r = "\<lparr>pv_outcome = VERIFIED, pv_kind = JStr ''tee-attested'', pv_publisher = JNull, pv_detail = None\<rparr>"
  have r: "check_server_provenance (Some sample_library) (\<lambda>_. Record_json sample_record) (Some ''p'') (Some (JStr ''k'')) (Some []) = Inr ?r"
    by (simp add: check_server_provenance_def sample_library_def sample_record_def jget_def)
  have m: "meets ?r (Some ''observer-attested'') = Inr True" by (simp add: meets_def KIND_ORDER_def)
  from provenance_floor_met [OF r m] r m show ?thesis by auto
qed

section \<open>The keys of a server\<close>

definition or_empty :: "string option \<Rightarrow> string" where
  "or_empty s = (case s of None \<Rightarrow> [] | Some t \<Rightarrow> t)"

definition server_execution_key :: "catalog_entry \<Rightarrow> string list" where
  "server_execution_key entry =
     (let server = ce_server entry in
      if is_stdio server then
        (let spawn = sv_spawn server in
         [''stdio'', (case spawn of None \<Rightarrow> [] | Some s \<Rightarrow> sp_command s)]
         @ (case spawn of None \<Rightarrow> [] | Some s \<Rightarrow> sp_args s)
         @ [''measure_target='' @ (case spawn of None \<Rightarrow> [] | Some s \<Rightarrow> or_empty (sp_measure_target s)),
            ''binary_digest='' @ (case spawn of None \<Rightarrow> [] | Some s \<Rightarrow> or_empty (sp_binary_digest s))])
      else [''network'', sv_transport server, sv_url server, sv_tls_fingerprint server,
            or_empty (sv_spiffe_id server), sv_rotation_mode server])"

definition server_provenance_key :: "catalog_entry \<Rightarrow> string list" where
  "server_provenance_key entry =
     (let server = ce_server entry in
      server_execution_key entry
      @ [''record='' @ or_empty (sv_provenance_record_path server),
         ''publisher_jwk='' @ (case sv_publisher_jwk server of None \<Rightarrow> [] | Some j \<Rightarrow> dumps j)])"


text \<open>One key, one upstream. Two catalog entries share the key a child process or a client is pooled under
  only if they agree on whether they spawn; two spawned ones then have the same command, arguments,
  measurement target and binary digest, and two network ones the same transport, address, certificate
  fingerprint, workload identity and rotation mode (an absent value and an empty one are the same).\<close>

theorem execution_key_identifies_upstream:
  assumes "server_execution_key a = server_execution_key b"
    and "is_stdio (ce_server a) \<Longrightarrow> sv_spawn (ce_server a) \<noteq> None" "is_stdio (ce_server b) \<Longrightarrow> sv_spawn (ce_server b) \<noteq> None"
  shows "is_stdio (ce_server a) = is_stdio (ce_server b)
    \<and> (is_stdio (ce_server a) \<longrightarrow>
         (let s = the (sv_spawn (ce_server a)); t = the (sv_spawn (ce_server b)) in
          sp_command s = sp_command t \<and> sp_args s = sp_args t
          \<and> or_empty (sp_measure_target s) = or_empty (sp_measure_target t)
          \<and> or_empty (sp_binary_digest s) = or_empty (sp_binary_digest t)))
    \<and> (\<not> is_stdio (ce_server a) \<longrightarrow>
         (let s = ce_server a; t = ce_server b in
          sv_transport s = sv_transport t \<and> sv_url s = sv_url t \<and> sv_tls_fingerprint s = sv_tls_fingerprint t
          \<and> or_empty (sv_spiffe_id s) = or_empty (sv_spiffe_id t) \<and> sv_rotation_mode s = sv_rotation_mode t))"
proof -
  have same: "is_stdio (ce_server a) = is_stdio (ce_server b)"
    using assms(1) by (auto simp: server_execution_key_def Let_def split: if_splits)
  show ?thesis
  proof (cases "is_stdio (ce_server a)")
    case True
    with same assms(2,3) obtain s t where st: "sv_spawn (ce_server a) = Some s" "sv_spawn (ce_server b) = Some t" by auto
    have "sp_command s # sp_args s @ [''measure_target='' @ or_empty (sp_measure_target s), ''binary_digest='' @ or_empty (sp_binary_digest s)]
        = sp_command t # sp_args t @ [''measure_target='' @ or_empty (sp_measure_target t), ''binary_digest='' @ or_empty (sp_binary_digest t)]"
      using assms(1) st True same by (simp add: server_execution_key_def)
    then show ?thesis using True same st by simp
  next
    case False
    then show ?thesis using assms(1) same by (simp add: server_execution_key_def Let_def)
  qed
qed

definition sample_stdio_entry :: "string \<Rightarrow> catalog_entry" where
  "sample_stdio_entry name = (sample_entry name)\<lparr>ce_server := (ce_server (sample_entry name))
     \<lparr>sv_transport := ''stdio'', sv_spawn := Some \<lparr>sp_command = ''srv'', sp_args = [''-q''], sp_binary_digest = None,
        sp_measure_target = Some ''srv''\<rparr>\<rparr>\<rparr>"

theorem execution_key_identifies_upstream_witness:
  "server_execution_key (sample_stdio_entry ''a'') = server_execution_key (sample_stdio_entry ''b'')
   \<and> sp_args (the (sv_spawn (ce_server (sample_stdio_entry ''a'')))) = sp_args (the (sv_spawn (ce_server (sample_stdio_entry ''b''))))"
proof -
  have k: "server_execution_key (sample_stdio_entry ''a'') = server_execution_key (sample_stdio_entry ''b'')"
    by (simp add: sample_stdio_entry_def server_execution_key_def is_stdio_def)
  have s: "is_stdio (ce_server (sample_stdio_entry n))" "sv_spawn (ce_server (sample_stdio_entry n)) \<noteq> None" for n
    by (simp_all add: sample_stdio_entry_def is_stdio_def)
  from execution_key_identifies_upstream [OF k] s k show ?thesis by (simp add: Let_def)
qed

end
