(* ===== verification/Http_Transport.thy ===== *)
theory Http_Transport
  imports Provenance
begin

text \<open>
  The gateway's side of an upstream HTTP exchange: reading a body under a size
  bound (\<open>mcp/bounded_http.py\<close>), the request, its mirrored headers and the
  answer of the streamable HTTP protocol (\<open>mcp/streamable_http.py\<close>), and the
  certificate pin with the choice of the client (\<open>mcp/tls_pinning.py\<close> and
  \<open>_client_for_upstream\<close> of \<open>mcp/proxy.py\<close>).

  Sockets and the HTTP client are outside: a response is its headers and the
  chunks its body arrives in, a handshake is the certificate it yields. The
  JSON decoder applied to a received body is an argument.
\<close>

section \<open>A bounded body\<close>

datatype http_error =
    Bad_encoding
  | Bad_content_length
  | Response_size_exceeded
  | Invalid_annotation string
  | Unsafe_integer
  | Value_mismatch string
  | Not_an_object
  | Id_mismatch
  | Bad_media_type string
  | Bad_event_json
  | No_final_response

text \<open>\<open>s.isascii() and s.isdecimal()\<close>.\<close>

definition is_decimal :: "string \<Rightarrow> bool" where
  "is_decimal s \<longleftrightarrow> s \<noteq> [] \<and> list_all is_digit s"

text \<open>The decimal texts are compared, the declared one without leading zeros.\<close>

definition declared_too_long :: "string \<Rightarrow> nat \<Rightarrow> bool" where
  "declared_too_long declared max_bytes =
     (let stripped = dropWhile (\<lambda>c. c = CHR ''0'') declared;
          len = (if stripped = [] then ''0'' else stripped);
          limit = nat_str max_bytes
      in length limit < length len \<or> (length len = length limit \<and> limit < len))"

fun read_chunks :: "nat \<Rightarrow> bytes \<Rightarrow> bytes list \<Rightarrow> http_error + bytes" where
  "read_chunks max_bytes content [] = Inr content"
| "read_chunks max_bytes content (chunk # chunks) =
     (if int max_bytes - int (length content) < int (length chunk) then Inl Response_size_exceeded
      else read_chunks max_bytes (content @ chunk) chunks)"

text \<open>\<open>headers\<close> is the case-insensitive lookup of the response.\<close>

definition read_bounded_response :: "string dict \<Rightarrow> bytes list \<Rightarrow> nat \<Rightarrow> http_error + bytes" where
  "read_bounded_response headers chunks max_bytes =
     (let encoding = str_lower (str_strip (dict_get headers ''content-encoding'' ''identity'')) in
      if encoding \<notin> {[], ''identity''} then Inl Bad_encoding
      else case headers ''content-length'' of
        None \<Rightarrow> read_chunks max_bytes [] chunks
      | Some declared \<Rightarrow>
          if \<not> is_decimal declared then Inl Bad_content_length
          else if declared_too_long declared max_bytes then Inl Response_size_exceeded
          else read_chunks max_bytes [] chunks)"

subsection \<open>Comparing decimal texts\<close>

definition digit_value :: "char \<Rightarrow> nat" where
  "digit_value c = of_char c - 48"

fun decimal_value :: "string \<Rightarrow> nat" where
  "decimal_value [] = 0"
| "decimal_value (c # s) = digit_value c * 10 ^ length s + decimal_value s"

lemma foldl_decimal: "foldl (\<lambda>a c. 10 * a + (of_char c - 48)) n s = n * 10 ^ length s + decimal_value s"
  by (induction s arbitrary: n) (simp_all add: algebra_simps digit_value_def)

lemma str_nat_decimal: "str_nat s = decimal_value s"
  by (simp add: foldl_decimal)

lemma digit_value_le: "is_digit c \<Longrightarrow> digit_value c \<le> 9"
  by (auto simp: is_digit_def digit_value_def)

lemma digit_value_less: "is_digit c \<Longrightarrow> is_digit d \<Longrightarrow> c < d \<longleftrightarrow> digit_value c < digit_value d"
  by (auto simp: is_digit_def digit_value_def less_char_def)

lemma digit_value_inject: "is_digit c \<Longrightarrow> is_digit d \<Longrightarrow> digit_value c = digit_value d \<longleftrightarrow> c = d"
  by (auto simp: is_digit_def digit_value_def dest: eq_diff_iff)

lemma decimal_value_bound: "list_all is_digit s \<Longrightarrow> decimal_value s < 10 ^ length s"
proof (induction s)
  case (Cons c s)
  then have "digit_value c * 10 ^ length s + decimal_value s < (digit_value c + 1) * 10 ^ length s" by simp
  also have "\<dots> \<le> 10 * 10 ^ length s" using Cons.prems digit_value_le [of c] by (intro mult_right_mono) auto
  finally show ?case by simp
qed simp

lemma decimal_value_zero_strip: "decimal_value (dropWhile (\<lambda>c. c = CHR ''0'') s) = decimal_value s"
  by (induction s) (auto simp: digit_value_def)

lemma decimal_compare_same_length:
  assumes "length s = length t" "list_all is_digit s" "list_all is_digit t"
  shows "s < t \<longleftrightarrow> decimal_value s < decimal_value t"
  using assms
proof (induction s t rule: list_induct2)
  case (Cons c s d t)
  note b = decimal_value_bound [of s] decimal_value_bound [of t]
  consider "c < d" | "c = d" | "d < c" by (metis neq_iff)
  then show ?case
  proof cases
    case 1
    then have "digit_value c + 1 \<le> digit_value d" using Cons.prems digit_value_less [of c d] by auto
    then have "(digit_value c + 1) * 10 ^ length s \<le> digit_value d * 10 ^ length s" by (intro mult_right_mono) auto
    then show ?thesis using 1 b Cons by (simp add: less_list_code)
  next
    case 2
    then show ?thesis using Cons by (simp add: less_list_code)
  next
    case 3
    then have "digit_value d + 1 \<le> digit_value c" using Cons.prems digit_value_less [of d c] by auto
    then have "(digit_value d + 1) * 10 ^ length s \<le> digit_value c * 10 ^ length s" by (intro mult_right_mono) auto
    moreover have "\<not> c < d" "c \<noteq> d" using 3 by auto
    ultimately show ?thesis using b Cons by (simp add: less_list_code)
  qed
qed simp

lemma decimal_value_lower: "c \<noteq> CHR ''0'' \<Longrightarrow> is_digit c \<Longrightarrow> 10 ^ length s \<le> decimal_value (c # s)"
proof -
  assume c: "c \<noteq> CHR ''0''" "is_digit c"
  then have "1 \<le> digit_value c"
    using digit_value_inject [of c "CHR ''0''"] by (auto simp: digit_value_def is_digit_def)
  then have "1 * 10 ^ length s \<le> digit_value c * 10 ^ length s" by (intro mult_right_mono) auto
  then show ?thesis by (simp add: trans_le_add1)
qed

lemma decimal_shorter:
  assumes "length t < length s" "list_all is_digit s" "list_all is_digit t" "hd s \<noteq> CHR ''0''"
  shows "decimal_value t < decimal_value s"
proof -
  obtain c r where s: "s = c # r" using assms(1) by (cases s) auto
  have "decimal_value t < 10 ^ length t" using decimal_value_bound assms(3) by blast
  also have "\<dots> \<le> 10 ^ length r" using assms(1) s by (intro power_increasing) auto
  also have "\<dots> \<le> decimal_value s" using decimal_value_lower [of c r] assms(2,4) s by simp
  finally show ?thesis .
qed

lemma decimal_compare:
  assumes "list_all is_digit s" "list_all is_digit t" "hd s \<noteq> CHR ''0''" "t = ''0'' \<or> hd t \<noteq> CHR ''0''" "s \<noteq> []"
  shows "length t < length s \<or> (length s = length t \<and> t < s) \<longleftrightarrow> decimal_value t < decimal_value s"
proof (cases "length s" "length t" rule: linorder_cases)
  case less
  then have "hd t \<noteq> CHR ''0''" using assms(4,5) by (cases s) auto
  with less show ?thesis using decimal_shorter [of s t] assms(1,2) by auto
next
  case equal
  then show ?thesis using decimal_compare_same_length [of t s] assms by auto
next
  case greater
  then show ?thesis using decimal_shorter [of t s] assms by auto
qed

lemma nat_str_canonical: "nat_str n = ''0'' \<or> hd (nat_str n) \<noteq> CHR ''0''"
proof (induction n rule: nat_str.induct)
  case (1 n)
  show ?case
  proof (cases "n < 10")
    case True
    then have "n \<in> {0,1,2,3,4,5,6,7,8,9}" by auto
    then show ?thesis by (auto simp: nat_str.simps [of n] digit_char_def char_of_def)
  next
    case False
    have "nat_str (n div 10) \<noteq> ''0''"
    proof
      assume "nat_str (n div 10) = ''0''"
      then have "str_nat (nat_str (n div 10)) = 0" by simp
      then show False using False unfolding str_nat_nat_str by simp
    qed
    then show ?thesis using 1 False by (simp add: nat_str.simps [of n] hd_append)
  qed
qed

text \<open>The size bound on a declared length is exact. For every decimal \<open>Content-Length\<close>, whatever its
  length and its leading zeros, comparing the two decimal texts, which never builds the integer, gives the same
  answer as comparing the numbers.\<close>

theorem declared_length_check_exact:
  assumes "is_decimal declared"
  shows "declared_too_long declared max_bytes \<longleftrightarrow> max_bytes < str_nat declared"
proof -
  let ?d = "dropWhile (\<lambda>c. c = CHR ''0'') declared" and ?l = "nat_str max_bytes"
  have l: "list_all is_digit ?l" using set_nat_str by (auto simp: list_all_iff)
  have v: "decimal_value ?l = max_bytes" using str_nat_nat_str str_nat_decimal by metis
  have d: "list_all is_digit ?d" using assms by (auto simp: is_decimal_def list_all_iff dest: set_dropWhileD)
  show ?thesis
  proof (cases "?d = []")
    case True
    then have "decimal_value declared = 0"
      using decimal_value_zero_strip [of declared] by (metis decimal_value.simps(1))
    moreover have "1 \<le> length ?l" by (simp add: Suc_le_eq)
    moreover have "\<not> (length ?l = 1 \<and> ?l < ''0'')"
      using decimal_compare_same_length [of ?l "''0''"] l v by (auto simp: is_digit_def digit_value_def)
    ultimately show ?thesis
      unfolding declared_too_long_def Let_def if_P [OF True] str_nat_decimal by auto
  next
    case False
    then have "hd ?d \<noteq> CHR ''0''" using hd_dropWhile by blast
    from decimal_compare [OF d l this nat_str_canonical False] show ?thesis
      unfolding declared_too_long_def Let_def if_not_P [OF False] v str_nat_decimal decimal_value_zero_strip .
  qed
qed

theorem declared_length_check_exact_witness:
  "is_decimal ''0012'' \<and> (declared_too_long ''0012'' 11 \<longleftrightarrow> 11 < str_nat ''0012'')"
proof -
  have "is_decimal ''0012''" by (simp add: is_decimal_def is_digit_def)
  then show ?thesis using declared_length_check_exact [of "''0012''" 11] by blast
qed

lemma read_chunks_iff:
  "length content \<le> max_bytes \<Longrightarrow> read_chunks max_bytes content chunks =
     (if length (content @ concat chunks) \<le> max_bytes then Inr (content @ concat chunks) else Inl Response_size_exceeded)"
  by (induction chunks arbitrary: content) auto

text \<open>What is read never exceeds the bound and is never cut. Reading succeeds exactly when the body is
  not compressed, a declared length is a decimal within the bound, and the bytes that arrive are within it;
  the result is then all of them, in order. The declared length is a reason to refuse, never a reason to
  accept.\<close>

theorem read_bounded_response_iff:
  "read_bounded_response headers chunks max_bytes = Inr content \<longleftrightarrow>
     str_lower (str_strip (dict_get headers ''content-encoding'' ''identity'')) \<in> {[], ''identity''}
     \<and> (\<forall>declared. headers ''content-length'' = Some declared \<longrightarrow>
          is_decimal declared \<and> str_nat declared \<le> max_bytes)
     \<and> content = concat chunks \<and> length (concat chunks) \<le> max_bytes"
proof -
  have "read_chunks max_bytes [] chunks = Inr content \<longleftrightarrow> content = concat chunks \<and> length (concat chunks) \<le> max_bytes"
    using read_chunks_iff [of "[]" max_bytes chunks] by auto
  then show ?thesis
    using declared_length_check_exact
    by (auto simp: read_bounded_response_def Let_def not_le simp del: str_nat.simps split: option.splits)
qed

theorem read_bounded_response_iff_witness:
  "read_bounded_response [''content-length'' \<mapsto> ''3''] [''a'', ''bc''] 3 = Inr ''abc''"
proof -
  have "str_lower (str_strip (dict_get [''content-length'' \<mapsto> ''3''] ''content-encoding'' ''identity'')) = ''identity''"
    by code_simp
  then show ?thesis
    by (subst read_bounded_response_iff) (auto simp: is_decimal_def is_digit_def)
qed


section \<open>Requests and their headers\<close>

text \<open>UTF-8 of the code points below 256, and base64 in the standard alphabet.\<close>

definition utf8_char :: "char \<Rightarrow> bytes" where
  "utf8_char c =
     (let n = (of_char c :: nat) in
      if n < 128 then [c] else [char_of (192 + n div 64), char_of (128 + n mod 64)])"

definition utf8_encode :: "string \<Rightarrow> bytes" where
  "utf8_encode s = concat (map utf8_char s)"

definition std_b64_char :: "char \<Rightarrow> char" where
  "std_b64_char c = (if c = CHR ''-'' then CHR ''+'' else if c = CHR ''_'' then CHR ''/'' else c)"

definition b64encode :: "bytes \<Rightarrow> string" where
  "b64encode bs = map std_b64_char (urlsafe_b64encode bs)"

definition ends_with :: "string \<Rightarrow> string \<Rightarrow> bool" where
  "ends_with q s \<longleftrightarrow> length q \<le> length s \<and> drop (length s - length q) s = q"

definition header_char :: "char \<Rightarrow> bool" where
  "header_char c \<longleftrightarrow> (of_char c :: nat) = 9 \<or> (32 \<le> (of_char c :: nat) \<and> (of_char c :: nat) \<le> 126)"

definition header_value :: "string \<Rightarrow> string" where
  "header_value v =
     (if v = str_strip v \<and> list_all header_char v \<and> \<not> (starts_with ''=?base64?'' v \<and> ends_with ''?='' v)
      then v else ''=?base64?'' @ b64encode (utf8_encode v) @ ''?='')"

definition PROTOCOL_VERSION :: string where
  "PROTOCOL_VERSION = ''2026-07-28''"

text \<open>\<open>version\<close> is the package's version string.\<close>

definition build_request ::
  "string \<Rightarrow> string \<Rightarrow> string \<Rightarrow> (string \<times> json) list \<Rightarrow> string option \<Rightarrow> json \<times> (string \<times> string) list" where
  "build_request version request_id method params name =
     (let body_params = upsert params ''_meta'' (JObj
            [(''io.modelcontextprotocol/protocolVersion'', JStr PROTOCOL_VERSION),
             (''io.modelcontextprotocol/clientInfo'', JObj [(''name'', JStr ''cmcp-runtime''), (''version'', JStr version)]),
             (''io.modelcontextprotocol/clientCapabilities'', JObj [])]);
          body = JObj [(''jsonrpc'', JStr ''2.0''), (''id'', JStr request_id), (''method'', JStr method),
                       (''params'', JObj body_params)];
          headers = [(''Accept'', ''application/json, text/event-stream''),
                     (''MCP-Protocol-Version'', PROTOCOL_VERSION), (''Mcp-Method'', method)]
      in (body, headers @ (case name of None \<Rightarrow> [] | Some n \<Rightarrow> [(''Mcp-Name'', header_value n)])))"

definition token_char :: "char \<Rightarrow> bool" where
  "token_char c \<longleftrightarrow> c \<in> set (''!#$%&*+.^_`|~-'' @ [CHR 0x27]) \<or> is_digit c
     \<or> (let n = (of_char c :: nat) in (65 \<le> n \<and> n \<le> 90) \<or> (97 \<le> n \<and> n \<le> 122))"

definition header_token :: "string \<Rightarrow> bool" where
  "header_token s \<longleftrightarrow> s \<noteq> [] \<and> list_all token_char s"

type_synonym header_state = "(string \<times> string) list \<times> string list"

text \<open>The text of one mirrored value, by the type the schema declares.\<close>

definition render_value :: "string \<Rightarrow> string \<Rightarrow> json \<Rightarrow> http_error + string" where
  "render_value property_name expected raw =
     (case raw of
        JBool b \<Rightarrow> (if expected = ''boolean'' then Inr (if b then ''true'' else ''false'') else Inl (Value_mismatch property_name))
      | JInt i \<Rightarrow> (if expected = ''integer''
                   then if \<bar>i\<bar> > 2 ^ 53 - 1 then Inl Unsafe_integer else Inr (int_str i)
                   else Inl (Value_mismatch property_name))
      | JStr s \<Rightarrow> (if expected = ''string'' then Inr s else Inl (Value_mismatch property_name))
      | _ \<Rightarrow> Inl (Value_mismatch property_name))"

definition annotation_ok :: "json \<Rightarrow> json option \<Rightarrow> string list \<Rightarrow> (string \<times> string) option" where
  "annotation_ok annotation ty seen =
     (case (annotation, ty) of
        (JStr a, Some (JStr t)) \<Rightarrow>
          if header_token a \<and> str_lower a \<notin> set seen \<and> t \<in> {''string'', ''integer'', ''boolean''} then Some (a, t) else None
      | _ \<Rightarrow> None)"

definition mirror_parameter ::
  "(string \<times> json) list \<Rightarrow> string \<Rightarrow> (string \<times> json) list \<Rightarrow> header_state \<Rightarrow> http_error + header_state" where
  "mirror_parameter inst property_name child st =
     (case st of (headers, seen) \<Rightarrow>
       (case non_null (map_of child ''x-mcp-header'') of
          None \<Rightarrow> Inr st
        | Some annotation \<Rightarrow>
            (case annotation_ok annotation (map_of child ''type'') seen of
               None \<Rightarrow> Inl (Invalid_annotation property_name)
             | Some (a, expected) \<Rightarrow>
                 (case non_null (map_of inst property_name) of
                    None \<Rightarrow> Inr (headers, str_lower a # seen)
                  | Some raw \<Rightarrow>
                      bind_result (render_value property_name expected raw) (\<lambda>rendered.
                        Inr (upsert headers (''Mcp-Param-'' @ a) (header_value rendered), str_lower a # seen))))))"

definition instance_of :: "json option \<Rightarrow> (string \<times> json) list" where
  "instance_of v = (case v of Some (JObj kvs) \<Rightarrow> kvs | _ \<Rightarrow> [])"

lemma size_map_of: "map_of kvs k = Some v \<Longrightarrow> size v < size_list (size_prod (\<lambda>_. 0) size) kvs"
  by (induction kvs) (auto split: if_splits)

function visit :: "(string \<times> json) list \<Rightarrow> (string \<times> json) list \<Rightarrow> header_state \<Rightarrow> http_error + header_state"
  and visit_properties :: "(string \<times> json) list \<Rightarrow> (string \<times> json) list \<Rightarrow> header_state \<Rightarrow> http_error + header_state" where
  "visit schema inst st =
     (case map_of schema ''properties'' of
        Some (JObj properties) \<Rightarrow> visit_properties properties inst st
      | _ \<Rightarrow> Inr st)"
| "visit_properties [] inst st = Inr st"
| "visit_properties ((property_name, child) # props) inst st =
     (case child of
        JObj c \<Rightarrow>
          bind_result (mirror_parameter inst property_name c st) (\<lambda>st1.
          bind_result (visit c (instance_of (map_of inst property_name)) st1) (\<lambda>st2.
            visit_properties props inst st2))
      | _ \<Rightarrow> visit_properties props inst st)"
  by pat_completeness auto
termination
  by (relation "measure (\<lambda>x. case x of
        Inl (schema, inst, st) \<Rightarrow> 2 * size_list (size_prod (\<lambda>_. 0) size) schema
      | Inr (props, inst, st) \<Rightarrow> 2 * size_list (size_prod (\<lambda>_. 0) size) props + 1)")
    (auto dest!: size_map_of)

declare visit.simps [simp del]

definition parameter_headers :: "(string \<times> json) list \<Rightarrow> (string \<times> json) list \<Rightarrow> http_error + (string \<times> string) list" where
  "parameter_headers input_schema arguments = bind_result (visit input_schema arguments ([], [])) (\<lambda>(headers, _). Inr headers)"

subsection \<open>Header values\<close>

lemma b64_value_std [simp]: "b64_value (std_b64_char c) = b64_value c"
  by (auto simp: std_b64_char_def b64_value_def)

lemma std_b64_char_eq_pad [simp]: "std_b64_char c = CHR ''='' \<longleftrightarrow> c = CHR ''=''"
  by (auto simp: std_b64_char_def)

lemma b64decode_std [simp]: "b64decode (map std_b64_char s) = b64decode s"
  by (induction s rule: b64decode.induct) (auto split: option.splits)

lemma b64decode_b64encode [simp]: "b64decode (b64encode bs) = Some bs"
  by (simp add: b64encode_def)

lemma b64encode_inject [simp]: "b64encode a = b64encode b \<longleftrightarrow> a = b"
  by (metis b64decode_b64encode option.inject)

lemma b64_char_header: "n < 64 \<Longrightarrow> header_char (std_b64_char (b64_char n))"
  by (auto simp: header_char_def std_b64_char_def b64_char_def)

lemma header_char_pad: "header_char (std_b64_char (CHR ''=''))"
  by (simp add: header_char_def std_b64_char_def)

lemma header_char_b64encode: "list_all header_char (b64encode bs)"
  unfolding b64encode_def
  by (induction bs rule: urlsafe_b64encode.induct) (simp_all add: b64_char_header header_char_pad)

lemma utf8_char_cases:
  "(of_char c < (128 :: nat) \<and> utf8_char c = [c])
   \<or> (128 \<le> (of_char c :: nat) \<and> (\<exists>a b. utf8_char c = [a, b] \<and> 192 \<le> (of_char a :: nat)
        \<and> (of_char c :: nat) = 64 * (of_char a - 192) + (of_char b - 128)))"
proof (cases "of_char c < (128 :: nat)")
  case False
  have "(192 + (of_char c :: nat) div 64) mod 256 = 192 + of_char c div 64" "(128 + (of_char c :: nat) mod 64) mod 256 = 128 + of_char c mod 64"
    using of_char_nibble(2) [of c] by (intro mod_less, linarith)+ 
  with False show ?thesis by (auto simp: utf8_char_def Let_def)
qed (simp add: utf8_char_def)

lemma utf8_char_prefix_free: "utf8_char c @ s = utf8_char d @ t \<Longrightarrow> c = d \<and> s = t"
  using utf8_char_cases [of c] utf8_char_cases [of d] by auto (metis of_char_eq_iff)

lemma utf8_char_nonempty [simp]: "utf8_char c \<noteq> []"
  using utf8_char_cases [of c] by auto

lemma utf8_encode_inject [simp]: "utf8_encode s = utf8_encode t \<longleftrightarrow> s = t"
proof
  show "utf8_encode s = utf8_encode t \<Longrightarrow> s = t"
  proof (induction s arbitrary: t)
    case Nil
    then show ?case by (cases t) (auto simp: utf8_encode_def)
  next
    case (Cons c s)
    then show ?case by (cases t) (auto simp: utf8_encode_def dest!: utf8_char_prefix_free)
  qed
qed simp

lemma sentinel_shape: "starts_with ''=?base64?'' (''=?base64?'' @ x @ ''?='') \<and> ends_with ''?='' (''=?base64?'' @ x @ ''?='')"
  by (simp add: starts_with_def ends_with_def)

lemma header_value_chars: "list_all header_char (header_value v)"
  using header_char_b64encode [of "utf8_encode v"] by (simp add: header_value_def header_char_def)

text \<open>Header values are safe and lossless. Whatever text a tool name or argument holds, the header value
  made from it has only tab and printable ASCII characters, so it cannot end the header or add one, and two
  different texts never give the same header value.\<close>

theorem header_value_safe_and_lossless:
  "list_all header_char (header_value v) \<and> (header_value v = header_value w \<longleftrightarrow> v = w)"
  using header_value_chars sentinel_shape [of "b64encode (utf8_encode v)"] sentinel_shape [of "b64encode (utf8_encode w)"]
  unfolding header_value_def by (auto split: if_splits)

text \<open>What the mirrored parameters keep: names are \<open>Mcp-Param-\<close> and a token, no two tokens differ only in
  case, values are safe.\<close>

definition headers_inv :: "header_state \<Rightarrow> bool" where
  "headers_inv st \<longleftrightarrow> (case st of (headers, seen) \<Rightarrow>
     list_all (\<lambda>(n, v). list_all header_char v
       \<and> (\<exists>a. n = ''Mcp-Param-'' @ a \<and> header_token a \<and> str_lower a \<in> set seen)) headers
     \<and> distinct (map (str_lower \<circ> fst) headers))"

lemma str_lower_append [simp]: "str_lower (s @ t) = str_lower s @ str_lower t"
  by (simp add: str_lower_def)

lemma mirror_parameter_inv [cmcp_inv]:
  assumes "mirror_parameter inst n child st = Inr st'" "headers_inv st"
  shows "headers_inv st'"
proof -
  obtain headers seen where st: "st = (headers, seen)" by (cases st)
  show ?thesis
  proof (cases "non_null (map_of child ''x-mcp-header'')")
    case None
    then show ?thesis using assms st by (simp add: mirror_parameter_def)
  next
    case (Some annotation)
    then obtain a ty where a: "annotation_ok annotation (map_of child ''type'') seen = Some (a, ty)"
      using assms(1) st by (auto simp: mirror_parameter_def split: option.splits)
    then have tok: "header_token a" "str_lower a \<notin> set seen"
      by (auto simp: annotation_ok_def split: json.splits option.splits if_splits)
    then have new: "str_lower (''Mcp-Param-'' @ a) \<notin> (str_lower \<circ> fst) ` set headers"
    proof -
      have "str_lower n \<noteq> str_lower (''Mcp-Param-'' @ a)" if nv: "(n, v) \<in> set headers" for n v
      proof -
        obtain b where "n = ''Mcp-Param-'' @ b" "str_lower b \<in> set seen"
          using assms(2) st nv by (auto simp: headers_inv_def list_all_iff)
        then show ?thesis using tok(2) str_lower_append same_append_eq by metis
      qed
      then show ?thesis by fastforce
    qed
    then have up: "upsert headers (''Mcp-Param-'' @ a) v = headers @ [(''Mcp-Param-'' @ a, v)]" for v
      by (intro upsert_new) force
    have kept: "headers_inv (headers, str_lower a # seen)"
      using assms(2) st unfolding headers_inv_def by (auto elim!: list.pred_mono_strong)
    then have "headers_inv (upsert headers (''Mcp-Param-'' @ a) (header_value r), str_lower a # seen)" for r
      unfolding up using tok(1) new header_value_chars [of r] unfolding headers_inv_def by auto
    with kept show ?thesis
      using assms(1) st Some a
      by (auto simp: mirror_parameter_def bind_result_eq_Inr split: option.splits)
  qed
qed

lemma visit_inv:
  "visit schema inst st = Inr st' \<Longrightarrow> headers_inv st \<Longrightarrow> headers_inv st'"
  "visit_properties props inst st = Inr st' \<Longrightarrow> headers_inv st \<Longrightarrow> headers_inv st'"
proof (induction schema inst st and props inst st arbitrary: st' and st' rule: visit_visit_properties.induct)
  case (3 property_name child props inst st)
  show ?case
  proof (cases child)
    case (JObj c)
    with "3.prems"(1) obtain st1 st2 where "mirror_parameter inst property_name c st = Inr st1"
      "visit c (instance_of (map_of inst property_name)) st1 = Inr st2" "visit_properties props inst st2 = Inr st'"
      by (auto simp: bind_result_eq_Inr)
    with 3 JObj show ?thesis by (blast dest: mirror_parameter_inv)
  qed (use 3 in simp_all)
qed (auto simp: visit.simps split: option.splits json.splits)

text \<open>Mirrored arguments cannot forge headers. For every approved input schema and all arguments, the
  headers the gateway adds are named \<open>Mcp-Param-\<close> and an HTTP token, no two names are equal up to case, and
  every value has only tab and printable ASCII characters.\<close>

theorem parameter_headers_safe:
  assumes "parameter_headers input_schema arguments = Inr headers"
  shows "(\<forall>(n, v) \<in> set headers. (\<exists>a. n = ''Mcp-Param-'' @ a \<and> header_token a) \<and> list_all header_char v)
    \<and> distinct (map (str_lower \<circ> fst) headers)"
proof -
  obtain seen where "visit input_schema arguments ([], []) = Inr (headers, seen)"
    using assms by (auto simp: parameter_headers_def bind_result_eq_Inr)
  from visit_inv(1) [OF this] have "headers_inv (headers, seen)" by (simp add: headers_inv_def)
  then show ?thesis by (auto simp: headers_inv_def list_all_iff)
qed


theorem parameter_headers_safe_witness:
  "\<exists>h. parameter_headers [(''properties'', JObj [(''q'', JObj [(''type'', JStr ''string''), (''x-mcp-header'', JStr ''Q'')])])]
       [(''q'', JStr ''a'')] = Inr h \<and> h = [(''Mcp-Param-Q'', ''a'')] \<and> distinct (map (str_lower \<circ> fst) h)"
proof -
  have "parameter_headers [(''properties'', JObj [(''q'', JObj [(''type'', JStr ''string''), (''x-mcp-header'', JStr ''Q'')])])]
       [(''q'', JStr ''a'')] = Inr [(''Mcp-Param-Q'', ''a'')]" by code_simp
  from this parameter_headers_safe [OF this] show ?thesis by blast
qed

section \<open>Answers\<close>

definition matches_response_id :: "json \<Rightarrow> string \<Rightarrow> bool" where
  "matches_response_id body request_id \<longleftrightarrow> jfield body ''id'' = Some (JStr request_id)"

text \<open>\<open>str.splitlines\<close> for the code points below 256.\<close>

definition is_line_break :: "char \<Rightarrow> bool" where
  "is_line_break c \<longleftrightarrow> (of_char c :: nat) \<in> {10, 11, 12, 13, 28, 29, 30, 133}"

function splitlines :: "string \<Rightarrow> string list" where
  "splitlines [] = []"
| "splitlines (c # s) =
     (if c = CHR 0x0D \<and> s \<noteq> [] \<and> hd s = CHR 0x0A then [] # splitlines (tl s)
      else if is_line_break c then [] # splitlines s
      else case splitlines s of [] \<Rightarrow> [[c]] | l # ls \<Rightarrow> (c # l) # ls)"
  by pat_completeness auto
termination by (relation "measure length") auto

fun parse_events :: "(string \<Rightarrow> json option) \<Rightarrow> string \<Rightarrow> string list \<Rightarrow> string list \<Rightarrow> http_error + json" where
  "parse_events loads request_id data_lines [] = Inl No_final_response"
| "parse_events loads request_id data_lines (line # lines) =
     (if line = [] then
        (if data_lines = [] then parse_events loads request_id [] lines
         else case loads (join [CHR 0x0A] data_lines) of
           None \<Rightarrow> Inl Bad_event_json
         | Some event \<Rightarrow>
             if is_jobj event \<and> matches_response_id event request_id
                \<and> (jfield event ''result'' \<noteq> None \<or> jfield event ''error'' \<noteq> None)
             then Inr event else parse_events loads request_id [] lines)
      else if starts_with '':'' line then parse_events loads request_id data_lines lines
      else if starts_with ''data:'' line then
        (let value = drop 5 line in
         parse_events loads request_id (data_lines @ [if starts_with '' '' value then drop 1 value else value]) lines)
      else parse_events loads request_id data_lines lines)"

text \<open>\<open>body_json\<close> is what \<open>response.json()\<close> gives, \<open>text\<close> what \<open>response.text\<close> gives.\<close>

definition parse_response ::
  "(string \<Rightarrow> json option) \<Rightarrow> string dict \<Rightarrow> json option \<Rightarrow> string \<Rightarrow> string \<Rightarrow> http_error + json" where
  "parse_response loads headers body_json text request_id =
     (let media_type = str_lower (str_strip (takeWhile (\<lambda>c. c \<noteq> CHR '';'') (dict_get headers ''content-type'' []))) in
      if media_type = ''application/json'' then
        (case body_json of
           None \<Rightarrow> Inl Bad_event_json
         | Some body \<Rightarrow>
             if \<not> is_jobj body then Inl Not_an_object
             else if \<not> matches_response_id body request_id then Inl Id_mismatch
             else Inr body)
      else if media_type \<noteq> ''text/event-stream'' then Inl (Bad_media_type media_type)
      else parse_events loads request_id [] (splitlines text @ [[]]))"

lemma parse_events_matches:
  "parse_events loads request_id data lines = Inr body \<Longrightarrow>
     is_jobj body \<and> matches_response_id body request_id \<and> (\<exists>d. loads d = Some body)"
  by (induction loads request_id data lines rule: parse_events.induct)
    (auto simp: Let_def split: if_splits option.splits)

text \<open>An answer belongs to its request. Whatever the upstream sends, as JSON or as an event stream, the
  body the gateway takes for the answer is an object whose \<open>id\<close> is the request's own string: a number, null or
  another id never matches.\<close>

theorem parse_response_correlated:
  assumes "parse_response loads headers body_json text request_id = Inr body"
  shows "is_jobj body \<and> jfield body ''id'' = Some (JStr request_id)"
  using assms parse_events_matches
  by (fastforce simp: parse_response_def matches_response_id_def Let_def split: if_splits option.splits)

theorem parse_response_correlated_witness:
  "\<exists>body. parse_response (\<lambda>_. None) [''content-type'' \<mapsto> ''application/json; q'']
     (Some (JObj [(''id'', JStr ''7'')])) [] ''7'' = Inr body \<and> jfield body ''id'' = Some (JStr ''7'')"
proof -
  have "parse_response (\<lambda>_. None) [''content-type'' \<mapsto> ''application/json; q''] (Some (JObj [(''id'', JStr ''7'')])) [] ''7''
      = Inr (JObj [(''id'', JStr ''7'')])" by code_simp
  from this parse_response_correlated [OF this] show ?thesis by blast
qed

section \<open>Certificate pins\<close>

definition PLACEHOLDER_FINGERPRINT :: string where
  "PLACEHOLDER_FINGERPRINT = ''SHA256:'' @ replicate 43 (CHR ''A'') @ ''=''"

definition b64_class :: "char \<Rightarrow> bool" where
  "b64_class c \<longleftrightarrow> (let n = (of_char c :: nat) in
     (65 \<le> n \<and> n \<le> 90) \<or> (97 \<le> n \<and> n \<le> 122) \<or> (48 \<le> n \<and> n \<le> 57)) \<or> c \<in> {CHR ''+'', CHR ''/'', CHR ''=''}"

text \<open>\<open>FINGERPRINT_PATTERN.match\<close>: \<open>$\<close> also matches before one final newline.\<close>

definition fingerprint_format :: "string \<Rightarrow> bool" where
  "fingerprint_format s \<longleftrightarrow>
     (let t = (if s \<noteq> [] \<and> last s = CHR 0x0A then butlast s else s); d = drop 7 t in
      starts_with ''SHA256:'' t \<and> 43 \<le> length d \<and> length d \<le> 44 \<and> list_all b64_class d)"

definition fingerprint_from_der :: "(bytes \<Rightarrow> bytes) \<Rightarrow> bytes \<Rightarrow> string" where
  "fingerprint_from_der sha256 der = ''SHA256:'' @ b64encode (sha256 der)"

definition fingerprints_equal :: "string \<Rightarrow> string \<Rightarrow> bool" where
  "fingerprints_equal a b \<longleftrightarrow> rstrip_eq a = rstrip_eq b"

datatype pin_result = Tls_stream | Tls_pin_mismatch string string

text \<open>After the handshake: the DER certificate of the peer, if it presented one.\<close>

definition start_tls :: "(bytes \<Rightarrow> bytes) \<Rightarrow> string \<Rightarrow> bytes option \<Rightarrow> pin_result" where
  "start_tls sha256 expected der =
     (if der = None \<or> der = Some [] then Tls_pin_mismatch expected ''<no peer certificate>''
      else let actual = fingerprint_from_der sha256 (the der) in
        if \<not> fingerprints_equal actual expected then Tls_pin_mismatch expected actual else Tls_stream)"

text \<open>The key a client is kept under; \<open>url_scheme\<close> is the scheme \<open>httpx.URL\<close> parses, in lower case.\<close>

datatype client_key = Unpinned "string list" | Pin string

datatype client_error = Malformed_fingerprint string

definition client_key_for :: "(string \<Rightarrow> string) \<Rightarrow> catalog_entry \<Rightarrow> client_error + client_key" where
  "client_key_for url_scheme entry =
     (let server_url = sv_url (ce_server entry); fingerprint = sv_tls_fingerprint (ce_server entry);
          identity = server_execution_key entry in
      if url_scheme server_url \<noteq> ''https'' then Inr (Unpinned identity)
      else if fingerprint = PLACEHOLDER_FINGERPRINT then Inr (Unpinned identity)
      else if \<not> fingerprint_format fingerprint then Inl (Malformed_fingerprint (take 64 fingerprint))
      else Inr (Pin fingerprint))"

lemma rstrip_eq_map_std: "rstrip_eq (map std_b64_char s) = map std_b64_char (rstrip_eq s)"
  by (simp add: rstrip_eq_def rev_map dropWhile_map comp_def)

lemma rstrip_fingerprint: "rstrip_eq (fingerprint_from_der sha256 der) = ''SHA256:'' @ map std_b64_char (b64url (sha256 der))"
proof -
  have e: "rstrip_eq (b64encode x) = map std_b64_char (b64url x)" for x
    by (simp add: b64encode_def rstrip_eq_map_std b64url_def)
  show ?thesis
  proof (cases "rstrip_eq (b64encode (sha256 der)) = []")
    case True
    then have "b64url (sha256 der) = []" using e by simp
    then have "sha256 der = []" by (cases "sha256 der" rule: urlsafe_b64encode.cases) auto
    then show ?thesis by (simp add: fingerprint_from_der_def b64encode_def rstrip_eq_def)
  next
    case False
    then show ?thesis unfolding fingerprint_from_der_def by (simp add: rstrip_eq_prefix e del: append.simps)
  qed
qed

lemma std_b64url_inject: "map std_b64_char (b64url a) = map std_b64_char (b64url b) \<Longrightarrow> a = b"
proof -
  assume e: "map std_b64_char (b64url a) = map std_b64_char (b64url b)"
  have p: "b64encode x = map std_b64_char (b64url x) @ replicate (nat ((- int (length (map std_b64_char (b64url x)))) mod 4)) (CHR ''='')" for x
    unfolding b64encode_def b64url_padding [symmetric, of x] by (simp add: std_b64_char_def)
  have "b64encode a = b64encode b" unfolding p e ..
  then show "a = b" by simp
qed

text \<open>C37: A pinned client talks only to the certificate of the catalog. If an entry's client is pinned, and the
  pin was recorded from a certificate, then a handshake that yields a stream presented that certificate, or one
  that collides with it under SHA-256; no certificate, or another one, never yields a stream.\<close>

theorem pin_admits_only_the_recorded_certificate:
  assumes "client_key_for url_scheme entry = Inr (Pin pin)"
    and "rstrip_eq pin = rstrip_eq (fingerprint_from_der sha256 recorded)"
    and "start_tls sha256 pin der = Tls_stream"
  shows "(der = Some recorded \<or> (\<exists>c. der = Some c \<and> collides sha256 c recorded))
    \<and> pin = sv_tls_fingerprint (ce_server entry)"
proof -
  have pin: "pin = sv_tls_fingerprint (ce_server entry)"
    using assms(1) by (auto simp: client_key_for_def Let_def split: if_splits)
  obtain c where c: "der = Some c" "fingerprints_equal (fingerprint_from_der sha256 c) pin"
    using assms(3) by (auto simp: start_tls_def Let_def split: if_splits)
  then have "''SHA256:'' @ map std_b64_char (b64url (sha256 c)) = ''SHA256:'' @ map std_b64_char (b64url (sha256 recorded))"
    using assms(2) unfolding fingerprints_equal_def rstrip_fingerprint by metis
  then have "sha256 c = sha256 recorded" using std_b64url_inject same_append_eq by metis
  then have "c = recorded \<or> collides sha256 c recorded" by (rule collides_intro)
  with c(1) pin show ?thesis by blast
qed

theorem pin_admits_only_the_recorded_certificate_witness:
  "let pin = fingerprint_from_der pad32 ''cert'';
       entry = (sample_entry [])\<lparr>ce_server := (ce_server (sample_entry []))\<lparr>sv_tls_fingerprint := pin\<rparr>\<rparr>
   in client_key_for (\<lambda>_. ''https'') entry = Inr (Pin pin) \<and> start_tls pad32 pin (Some ''cert'') = Tls_stream
      \<and> (Some ''cert'' = Some ''cert'' \<or> (\<exists>c. Some ''cert'' = Some c \<and> collides pad32 c ''cert''))"
proof -
  let ?pin = "fingerprint_from_der pad32 ''cert''"
  let ?entry = "(sample_entry [])\<lparr>ce_server := (ce_server (sample_entry []))\<lparr>sv_tls_fingerprint := ?pin\<rparr>\<rparr>"
  have f: "fingerprint_format ?pin" "?pin \<noteq> PLACEHOLDER_FINGERPRINT" by code_simp+
  then have k: "client_key_for (\<lambda>_. ''https'') ?entry = Inr (Pin ?pin)" by (simp add: client_key_for_def)
  have t: "start_tls pad32 ?pin (Some ''cert'') = Tls_stream" by (simp add: start_tls_def fingerprints_equal_def)
  from pin_admits_only_the_recorded_certificate [OF k refl t] k t show ?thesis unfolding Let_def by blast
qed

end
