(* ===== verification/Proxy_Lifecycle.thy ===== *)
theory Proxy_Lifecycle
  imports Http_Transport Complex_Main
begin

text \<open>
  Admission, draining and session transitions of the proxy (\<open>mcp/proxy.py\<close>:
  \<open>_enter_call\<close> to \<open>rebind_session\<close>, and \<open>aclose\<close>).

  The record holds the fields of \<open>CMCPProxy\<close> these methods touch. A coroutine
  is cut at its \<open>await\<close>s: each definition is what runs between two of them while
  the lifecycle condition is held. \<open>life_step\<close> interleaves the segments of calls,
  of the one coroutine that owns the transition lock (its place is the \<open>phase\<close>)
  and of shutdown, with every timeout, cancellation and cleanup failure as a
  possible step. Time itself is not modelled: a deadline may pass at any moment.
\<close>

section \<open>State\<close>

record proxy_life =
  pl_session_id :: string
  pl_active_calls :: int
  pl_active_call_tasks :: "nat list"
  pl_session_rotation_in_progress :: bool
  pl_session_rebound :: bool
  pl_close_committed :: bool
  pl_drain_incomplete :: bool
  pl_cleanup_incomplete :: bool
  pl_transition_drain_s :: rat
  pl_failed_terminal_call :: "string option"
  pl_shutting_down :: bool
  pl_shutdown_drained :: bool
  pl_halted_identity :: "string option"
  pl_stdio_servers :: "string list list"
  pl_http_clients :: "client_key list"
  pl_advertised :: "(string list \<times> json list option) list"
  pl_provenance :: "(string list \<times> provenance_result) list"
  pl_drift_checked :: "string list list"

datatype lifecycle_error =
    Upstream_unavailable
  | Terminal_lost string
  | Drain_stuck
  | Close_unadopted
  | Transition_timeout rat
  | Identity_halted string
  | Runtime_error string
  | Close_failed string
  | Cleanup_cancelled

definition SESSION_CLOSE_DRAIN_SECONDS :: rat where
  "SESSION_CLOSE_DRAIN_SECONDS = 30"

definition SESSION_CANCELLATION_GRACE_SECONDS :: rat where
  "SESSION_CANCELLATION_GRACE_SECONDS = 5"

definition new_proxy_life :: "string \<Rightarrow> proxy_life" where
  "new_proxy_life sid =
     \<lparr>pl_session_id = sid, pl_active_calls = 0, pl_active_call_tasks = [], pl_session_rotation_in_progress = False,
      pl_session_rebound = False, pl_close_committed = False, pl_drain_incomplete = False,
      pl_cleanup_incomplete = False, pl_transition_drain_s = SESSION_CLOSE_DRAIN_SECONDS,
      pl_failed_terminal_call = None, pl_shutting_down = False, pl_shutdown_drained = False,
      pl_halted_identity = None, pl_stdio_servers = [], pl_http_clients = [], pl_advertised = [],
      pl_provenance = [], pl_drift_checked = []\<rparr>"

section \<open>Admission\<close>

definition ensure_running :: "proxy_life \<Rightarrow> lifecycle_error + unit" where
  "ensure_running s = (if pl_shutting_down s then Inl Upstream_unavailable else Inr ())"

definition ensure_terminal_audit_complete :: "proxy_life \<Rightarrow> lifecycle_error + unit" where
  "ensure_terminal_audit_complete s =
     (case pl_failed_terminal_call s of Some c \<Rightarrow> Inl (Terminal_lost c) | None \<Rightarrow> Inr ())"

definition ensure_not_halted :: "proxy_life \<Rightarrow> lifecycle_error + unit" where
  "ensure_not_halted s = (case pl_halted_identity s of Some a \<Rightarrow> Inl (Identity_halted a) | None \<Rightarrow> Inr ())"

definition admission_wait_s :: "proxy_life \<Rightarrow> rat" where
  "admission_wait_s s = pl_transition_drain_s s + SESSION_CANCELLATION_GRACE_SECONDS"

definition stuck_transition :: "proxy_life \<Rightarrow> lifecycle_error" where
  "stuck_transition s =
     (if pl_drain_incomplete s then Drain_stuck
      else if pl_close_committed s then Close_unadopted
      else Transition_timeout (admission_wait_s s))"

datatype enter_result = Still_waiting | Refused lifecycle_error | Admitted proxy_life

text \<open>One look at the state by an entering call; \<open>timed_out\<close> when its wait for a transition has run out.\<close>

definition enter_call :: "nat \<Rightarrow> bool \<Rightarrow> proxy_life \<Rightarrow> enter_result" where
  "enter_call task timed_out s =
     (if pl_session_rotation_in_progress s \<and> timed_out then Refused (stuck_transition s)
      else if pl_session_rotation_in_progress s \<and> \<not> pl_shutting_down s \<and> pl_failed_terminal_call s = None
      then Still_waiting
      else case bind_result (ensure_running s) (\<lambda>_. bind_result (ensure_not_halted s) (\<lambda>_. ensure_terminal_audit_complete s)) of
        Inl e \<Rightarrow> Refused e
      | Inr _ \<Rightarrow> Admitted (s\<lparr>pl_active_calls := pl_active_calls s + 1,
                            pl_active_call_tasks := task # pl_active_call_tasks s\<rparr>))"

definition leave_call :: "nat \<Rightarrow> proxy_life \<Rightarrow> proxy_life" where
  "leave_call task s = s\<lparr>pl_active_calls := pl_active_calls s - 1,
                         pl_active_call_tasks := removeAll task (pl_active_call_tasks s)\<rparr>"

text \<open>The failure branch of \<open>_finalize_unexpected_call_failure\<close>: the first lost terminal is kept.\<close>

definition record_failed_terminal :: "string \<Rightarrow> proxy_life \<Rightarrow> proxy_life" where
  "record_failed_terminal call_id s =
     (if pl_failed_terminal_call s = None then s\<lparr>pl_failed_terminal_call := Some call_id\<rparr> else s)"

section \<open>Draining\<close>

definition seal_admission :: "rat \<Rightarrow> proxy_life \<Rightarrow> proxy_life" where
  "seal_admission drain_timeout s = s\<lparr>pl_session_rotation_in_progress := True, pl_transition_drain_s := drain_timeout\<rparr>"

text \<open>The exception handler of \<open>_seal_and_drain\<close>.\<close>

definition seal_failed :: "proxy_life \<Rightarrow> proxy_life" where
  "seal_failed s =
     (if \<not> pl_drain_incomplete s \<and> \<not> pl_cleanup_incomplete s \<and> pl_failed_terminal_call s = None
      then s\<lparr>pl_session_rotation_in_progress := False\<rparr> else s)"

text \<open>\<open>_drain_calls\<close>: the deadline passes; every call has left.\<close>

definition drain_deadline :: "proxy_life \<Rightarrow> proxy_life" where
  "drain_deadline s = s\<lparr>pl_drain_incomplete := True\<rparr>"

definition drain_done :: "proxy_life \<Rightarrow> proxy_life" where
  "drain_done s = s\<lparr>pl_drain_incomplete := False\<rparr>"

section \<open>Owned resources\<close>

definition reset_upstream_checks :: "proxy_life \<Rightarrow> proxy_life" where
  "reset_upstream_checks s = s\<lparr>pl_advertised := [], pl_provenance := [], pl_drift_checked := []\<rparr>"

text \<open>\<open>close_error\<close> is what closing each child raises; \<open>None\<close> for all of it when the gathering itself is
  cancelled. A client that fails to close is dropped and logged.\<close>

definition aclose :: "(string list \<Rightarrow> string option) option \<Rightarrow> proxy_life \<Rightarrow> lifecycle_error option \<times> proxy_life" where
  "aclose close_error s =
     (let s1 = reset_upstream_checks s in
      if pl_stdio_servers s1 = [] \<and> pl_http_clients s1 = [] then (None, s1\<lparr>pl_cleanup_incomplete := False\<rparr>)
      else case close_error of
        None \<Rightarrow> (Some Cleanup_cancelled, s1\<lparr>pl_cleanup_incomplete := True\<rparr>)
      | Some err \<Rightarrow>
          let failures = filter (\<lambda>k. err k \<noteq> None) (pl_stdio_servers s1);
              s2 = s1\<lparr>pl_stdio_servers := failures, pl_http_clients := []\<rparr> in
          (case failures of
             [] \<Rightarrow> (None, s2\<lparr>pl_cleanup_incomplete := False\<rparr>)
           | k # _ \<Rightarrow> (Some (Close_failed (the (err k))), s2\<lparr>pl_cleanup_incomplete := True\<rparr>)))"

definition stdio_for :: "string list \<Rightarrow> bool \<Rightarrow> proxy_life \<Rightarrow> lifecycle_error + proxy_life" where
  "stdio_for key spawned s =
     bind_result (ensure_running s) (\<lambda>_.
       if key \<in> set (pl_stdio_servers s) then Inr s
       else if \<not> spawned then Inl Upstream_unavailable
       else Inr (s\<lparr>pl_stdio_servers := pl_stdio_servers s @ [key]\<rparr>))"

definition client_for_upstream :: "client_error + client_key \<Rightarrow> proxy_life \<Rightarrow> lifecycle_error + proxy_life" where
  "client_for_upstream choice s =
     bind_result (ensure_running s) (\<lambda>_.
       case choice of
         Inl _ \<Rightarrow> Inl Upstream_unavailable
       | Inr key \<Rightarrow> Inr (if key \<in> set (pl_http_clients s) then s
                         else s\<lparr>pl_http_clients := pl_http_clients s @ [key]\<rparr>))"

section \<open>Transitions\<close>

datatype begin_result = Begin_error lifecycle_error | Stale_session | Recovered proxy_life | Must_drain

definition begin_session_rotation :: "string option \<Rightarrow> proxy_life \<Rightarrow> begin_result" where
  "begin_session_rotation expected s =
     (case ensure_running s of
        Inl e \<Rightarrow> Begin_error e
      | Inr _ \<Rightarrow>
          if expected \<noteq> None \<and> expected \<noteq> Some (pl_session_id s) then Stale_session
          else if pl_close_committed s then Recovered (s\<lparr>pl_session_rotation_in_progress := True\<rparr>)
          else Must_drain)"

definition rotation_enter :: "proxy_life \<Rightarrow> proxy_life" where
  "rotation_enter s = s\<lparr>pl_session_rebound := False\<rparr>"

definition rotation_exit :: "proxy_life \<Rightarrow> proxy_life" where
  "rotation_exit s =
     (if \<not> pl_shutting_down s \<and> \<not> pl_drain_incomplete s \<and> \<not> pl_cleanup_incomplete s
         \<and> pl_failed_terminal_call s = None \<and> (pl_session_rebound s \<or> \<not> pl_close_committed s)
      then s\<lparr>pl_session_rotation_in_progress := False\<rparr> else s)"

definition mark_close_committed :: "proxy_life \<Rightarrow> lifecycle_error + proxy_life" where
  "mark_close_committed s =
     (if \<not> pl_session_rotation_in_progress s
      then Inl (Runtime_error ''mark_close_committed requires an active session_rotation'')
      else Inr (s\<lparr>pl_close_committed := True\<rparr>))"

text \<open>\<open>exclude_session_transition\<close> up to its draining: an error, or whether the session is still the
  expected one. A cleared drain flag stays cleared when a later guard raises.\<close>

definition begin_reset :: "string option \<Rightarrow> proxy_life \<Rightarrow> (lifecycle_error + bool) \<times> proxy_life" where
  "begin_reset expected s =
     (if expected \<noteq> None \<and> expected \<noteq> Some (pl_session_id s) then (Inr False, s)
      else case bind_result (ensure_running s) (\<lambda>_. ensure_terminal_audit_complete s) of
        Inl e \<Rightarrow> (Inl e, s)
      | Inr _ \<Rightarrow>
          if pl_drain_incomplete s \<and> pl_active_calls s \<noteq> 0 then (Inl Drain_stuck, s)
          else let s1 = s\<lparr>pl_drain_incomplete := False\<rparr> in
            if pl_close_committed s1 then (Inl Close_unadopted, s1) else (Inr True, s1))"

definition reset_exit :: "proxy_life \<Rightarrow> proxy_life" where
  "reset_exit s =
     (if \<not> pl_shutting_down s \<and> \<not> pl_drain_incomplete s \<and> \<not> pl_cleanup_incomplete s
         \<and> pl_failed_terminal_call s = None
      then s\<lparr>pl_session_rotation_in_progress := False\<rparr> else s)"

definition transition_guard :: "string \<Rightarrow> proxy_life \<Rightarrow> lifecycle_error option" where
  "transition_guard name s =
     (if \<not> pl_session_rotation_in_progress s then Some (Runtime_error (name @ '' requires an active session_rotation''))
      else if pl_session_rebound s then Some (Runtime_error ''session has already been rebound'')
      else case ensure_terminal_audit_complete s of Inl e \<Rightarrow> Some e | Inr _ \<Rightarrow> None)"

definition halt_session ::
  "string \<Rightarrow> (string list \<Rightarrow> string option) option \<Rightarrow> proxy_life \<Rightarrow> lifecycle_error option \<times> proxy_life" where
  "halt_session agent_id close_error s =
     (case transition_guard ''halt_session'' s of
        Some e \<Rightarrow> (Some e, s)
      | None \<Rightarrow> (case aclose close_error s of
            (Some e, s1) \<Rightarrow> (Some e, s1)
          | (None, s1) \<Rightarrow> (None, s1\<lparr>pl_halted_identity := Some agent_id, pl_session_rebound := True,
                                 pl_close_committed := False\<rparr>)))"

definition rebind_session ::
  "string \<Rightarrow> (string list \<Rightarrow> string option) option \<Rightarrow> proxy_life \<Rightarrow> lifecycle_error option \<times> proxy_life" where
  "rebind_session session_id close_error s =
     (case transition_guard ''rebind_session'' s of
        Some e \<Rightarrow> (Some e, s)
      | None \<Rightarrow> (case aclose close_error s of
            (Some e, s1) \<Rightarrow> (Some e, s1)
          | (None, s1) \<Rightarrow> (None, s1\<lparr>pl_session_id := session_id, pl_session_rebound := True,
                                 pl_close_committed := False\<rparr>)))"

definition resume_session ::
  "string \<Rightarrow> (string list \<Rightarrow> string option) option \<Rightarrow> proxy_life \<Rightarrow> lifecycle_error option \<times> proxy_life" where
  "resume_session session_id close_error s =
     (case rebind_session session_id close_error s of
        (Some e, s1) \<Rightarrow> (Some e, s1)
      | (None, s1) \<Rightarrow> (None, s1\<lparr>pl_halted_identity := None\<rparr>))"

definition lift_halt :: "proxy_life \<Rightarrow> proxy_life" where
  "lift_halt s = s\<lparr>pl_halted_identity := None\<rparr>"

definition mark_halted :: "string \<Rightarrow> proxy_life \<Rightarrow> proxy_life" where
  "mark_halted agent_id s = s\<lparr>pl_halted_identity := Some agent_id\<rparr>"

text \<open>The segments of \<open>shutdown\<close>: before it waits for the transition lock, with the lock, and once drained.\<close>

definition shutdown_start :: "proxy_life \<Rightarrow> proxy_life" where
  "shutdown_start s = s\<lparr>pl_shutting_down := True\<rparr>"

definition shutdown_seal :: "proxy_life \<Rightarrow> proxy_life" where
  "shutdown_seal s = s\<lparr>pl_session_rotation_in_progress := True\<rparr>"

definition shutdown_mark_drained :: "proxy_life \<Rightarrow> proxy_life" where
  "shutdown_mark_drained s = s\<lparr>pl_shutdown_drained := True\<rparr>"

section \<open>Interleaving\<close>

datatype transition = Rotation | Reset | Shutdown

text \<open>Where the owner of the transition lock is: nobody owns it, waiting for calls to leave, waiting after
  they were cancelled, or in the body of its \<open>async with\<close>.\<close>

datatype phase = Idle | Draining transition | Grace transition | Body transition

type_synonym life_config = "phase \<times> proxy_life"

fun waits :: "phase \<Rightarrow> transition option" where
  "waits (Draining k) = Some k"
| "waits (Grace k) = Some k"
| "waits _ = None"

text \<open>What the owner does when the drain ends well, and when it ends in an exception.\<close>

definition after_drain :: "transition \<Rightarrow> proxy_life \<Rightarrow> life_config" where
  "after_drain k s =
     (let s1 = drain_done s in
      case k of
        Shutdown \<Rightarrow> (Body Shutdown, shutdown_mark_drained s1)
      | Rotation \<Rightarrow> (if is_ok (ensure_terminal_audit_complete s1) then (Body Rotation, rotation_enter s1) else (Idle, seal_failed s1))
      | Reset \<Rightarrow> (if is_ok (ensure_terminal_audit_complete s1) then (Body Reset, s1) else (Idle, seal_failed s1)))"

definition abort_drain :: "transition \<Rightarrow> proxy_life \<Rightarrow> life_config" where
  "abort_drain k s = (Idle, if k = Shutdown then s else seal_failed s)"

definition leave_body :: "transition \<Rightarrow> proxy_life \<Rightarrow> life_config" where
  "leave_body k s = (Idle, case k of Rotation \<Rightarrow> rotation_exit s | Reset \<Rightarrow> reset_exit s | Shutdown \<Rightarrow> s)"

inductive life_step :: "life_config \<Rightarrow> life_config \<Rightarrow> bool" where
  enter: "enter_call t timed_out s = Admitted s' \<Longrightarrow> t \<notin> set (pl_active_call_tasks s) \<Longrightarrow> life_step (p, s) (p, s')"
| leave: "t \<in> set (pl_active_call_tasks s) \<Longrightarrow> life_step (p, s) (p, leave_call t s)"
| lose: "pl_active_call_tasks s \<noteq> [] \<Longrightarrow> life_step (p, s) (p, record_failed_terminal c s)"
| spawn: "pl_active_call_tasks s \<noteq> [] \<Longrightarrow> stdio_for key ok s = Inr s' \<Longrightarrow> life_step (p, s) (p, s')"
| connect: "pl_active_call_tasks s \<noteq> [] \<Longrightarrow> client_for_upstream choice s = Inr s' \<Longrightarrow> life_step (p, s) (p, s')"
| mark_halt: "life_step (p, s) (p, mark_halted a s)"
| recover: "begin_session_rotation ex s = Recovered s' \<Longrightarrow> life_step (Idle, s) (Body Rotation, rotation_enter s')"
| rotate: "begin_session_rotation ex s = Must_drain \<Longrightarrow> life_step (Idle, s) (Draining Rotation, seal_admission d s)"
| reset: "begin_reset ex s = (Inr True, s') \<Longrightarrow> life_step (Idle, s) (Draining Reset, seal_admission d s')"
| reset_refused: "begin_reset ex s = (Inl e, s') \<Longrightarrow> life_step (Idle, s) (Idle, s')"
| shut: "life_step (p, s) (p, shutdown_start s)"
| shut_locked: "pl_shutting_down s \<Longrightarrow> life_step (Idle, s) (Draining Shutdown, shutdown_seal s)"
| deadline: "life_step (Draining k, s) (Grace k, drain_deadline s)"
| drained: "waits p = Some k \<Longrightarrow> pl_active_calls s = 0 \<Longrightarrow> life_step (p, s) (after_drain k s)"
| drain_fails: "waits p = Some k \<Longrightarrow> life_step (p, s) (abort_drain k s)"
| commit: "mark_close_committed s = Inr s' \<Longrightarrow> \<not> pl_session_rebound s \<Longrightarrow> life_step (Body Rotation, s) (Body Rotation, s')"
| halt: "halt_session a ce s = (r, s') \<Longrightarrow> life_step (Body Rotation, s) (Body Rotation, s')"
| rebind: "rebind_session sid ce s = (r, s') \<Longrightarrow> life_step (Body Rotation, s) (Body Rotation, s')"
| resume: "resume_session sid ce s = (r, s') \<Longrightarrow> life_step (Body Rotation, s) (Body Rotation, s')"
| lift: "life_step (Body Rotation, s) (Body Rotation, lift_halt s)"
| successor: "life_step (Body Reset, s) (Body Reset, s\<lparr>pl_session_id := sid\<rparr>)"
| cleanup: "k \<noteq> Rotation \<Longrightarrow> aclose ce s = (r, s') \<Longrightarrow> life_step (Body k, s) (Body k, s')"
| exit: "life_step (Body k, s) (leave_body k s)"
| exit_cancelled: "life_step (Body k, s) (Idle, s)"

abbreviation life_reachable :: "life_config \<Rightarrow> bool" where
  "life_reachable c \<equiv> \<exists>sid. life_step\<^sup>*\<^sup>* (Idle, new_proxy_life sid) c"

section \<open>What every reachable configuration keeps\<close>

text \<open>The fields a cleanup and the three adoptions leave alone.\<close>

definition same_admission :: "proxy_life \<Rightarrow> proxy_life \<Rightarrow> bool" where
  "same_admission s t \<longleftrightarrow>
     pl_active_calls t = pl_active_calls s \<and> pl_active_call_tasks t = pl_active_call_tasks s
     \<and> pl_session_rotation_in_progress t = pl_session_rotation_in_progress s
     \<and> pl_failed_terminal_call t = pl_failed_terminal_call s \<and> pl_shutting_down t = pl_shutting_down s
     \<and> pl_shutdown_drained t = pl_shutdown_drained s \<and> pl_drain_incomplete t = pl_drain_incomplete s"

lemma aclose_frame:
  "aclose ce s = (r, t) \<Longrightarrow> same_admission s t \<and> pl_close_committed t = pl_close_committed s
     \<and> pl_session_rebound t = pl_session_rebound s \<and> pl_halted_identity t = pl_halted_identity s
     \<and> pl_session_id t = pl_session_id s \<and> (pl_cleanup_incomplete t \<longleftrightarrow> r \<noteq> None)"
  by (auto simp: aclose_def reset_upstream_checks_def same_admission_def Let_def split: if_splits option.splits list.splits)

lemma adoption_frame:
  "halt_session a ce s = (r, t) \<Longrightarrow> same_admission s t
     \<and> (if r = None then \<not> pl_close_committed t else pl_close_committed t = pl_close_committed s
          \<and> pl_session_rebound t = pl_session_rebound s)"
  "rebind_session sid ce s = (r, t) \<Longrightarrow> same_admission s t
     \<and> (if r = None then \<not> pl_close_committed t else pl_close_committed t = pl_close_committed s
          \<and> pl_session_rebound t = pl_session_rebound s)"
  by (auto simp: halt_session_def rebind_session_def same_admission_def split: option.splits prod.splits dest!: aclose_frame)

lemma resume_frame:
  "resume_session sid ce s = (r, t) \<Longrightarrow> same_admission s t
     \<and> (if r = None then \<not> pl_close_committed t else pl_close_committed t = pl_close_committed s
          \<and> pl_session_rebound t = pl_session_rebound s)"
  by (auto simp: resume_session_def same_admission_def split: option.splits prod.splits if_splits dest!: adoption_frame(2))

definition life_inv :: "life_config \<Rightarrow> bool" where
  "life_inv c \<longleftrightarrow> (case c of (p, s) \<Rightarrow>
     pl_active_calls s = int (length (pl_active_call_tasks s)) \<and> distinct (pl_active_call_tasks s)
     \<and> (p \<noteq> Idle \<longrightarrow> pl_session_rotation_in_progress s)
     \<and> (pl_close_committed s \<longrightarrow> pl_session_rotation_in_progress s \<and> pl_active_call_tasks s = []
          \<and> pl_failed_terminal_call s = None)
     \<and> (\<forall>k. p = Body k \<longrightarrow> pl_active_call_tasks s = [] \<and> (k \<noteq> Shutdown \<longrightarrow> pl_failed_terminal_call s = None))
     \<and> (pl_close_committed s \<longrightarrow> waits p \<noteq> Some Rotation \<and> waits p \<noteq> Some Reset \<and> p \<noteq> Body Reset)
     \<and> (p = Body Rotation \<and> pl_session_rebound s \<longrightarrow> \<not> pl_close_committed s)
     \<and> (pl_shutdown_drained s \<longrightarrow> pl_shutting_down s \<and> pl_active_call_tasks s = [])
     \<and> (waits p = Some Shutdown \<or> p = Body Shutdown \<longrightarrow> pl_shutting_down s)
     \<and> (\<not> pl_shutting_down s \<and> (pl_close_committed s \<or> (\<exists>k. p = Body k)) \<longrightarrow> \<not> pl_drain_incomplete s))"

lemma life_inv_new: "life_inv (Idle, new_proxy_life sid)"
  by (simp add: life_inv_def new_proxy_life_def)

lemma enter_call_Admitted:
  "enter_call t timed_out s = Admitted s' \<longleftrightarrow>
     \<not> pl_session_rotation_in_progress s \<and> \<not> pl_shutting_down s \<and> pl_halted_identity s = None
     \<and> pl_failed_terminal_call s = None
     \<and> s' = s\<lparr>pl_active_calls := pl_active_calls s + 1, pl_active_call_tasks := t # pl_active_call_tasks s\<rparr>"
  by (auto simp: enter_call_def ensure_running_def ensure_not_halted_def ensure_terminal_audit_complete_def
      split: option.splits)

lemma length_removeAll_distinct: "distinct xs \<Longrightarrow> x \<in> set xs \<Longrightarrow> length (removeAll x xs) = length xs - 1"
  by (simp add: distinct_remove1_removeAll [symmetric] length_remove1)

lemmas life_defs = leave_call_def record_failed_terminal_def seal_admission_def seal_failed_def drain_deadline_def
  drain_done_def rotation_enter_def rotation_exit_def reset_exit_def lift_halt_def mark_halted_def shutdown_start_def
  shutdown_seal_def shutdown_mark_drained_def mark_close_committed_def

lemma life_inv_same_admission:
  assumes "life_inv (p, s)" "same_admission s t"
    and "pl_close_committed t \<longrightarrow> pl_close_committed s \<and> pl_session_rebound t = pl_session_rebound s"
  shows "life_inv (p, t)"
  using assms by (auto simp: life_inv_def same_admission_def)

lemma life_inv_step:
  assumes "life_step c d" "life_inv c"
  shows "life_inv d"
  using assms
proof (cases rule: life_step.cases)
  case (enter t timed_out s s' p)
  then show ?thesis using assms(2) by (auto simp: life_inv_def enter_call_Admitted)
next
  case (leave t s p)
  then have "length (pl_active_call_tasks s) \<noteq> 0" by auto
  then show ?thesis using leave assms(2) length_removeAll_distinct [of "pl_active_call_tasks s" t]
    by (auto simp: life_inv_def leave_call_def of_nat_diff Suc_le_eq distinct_removeAll)
next
  case (spawn s key ok s' p)
  then show ?thesis using assms(2)
    by (auto simp: life_inv_def stdio_for_def ensure_running_def split: if_splits)
next
  case (connect s choice s' p)
  then show ?thesis using assms(2)
    by (auto simp: life_inv_def client_for_upstream_def ensure_running_def split: if_splits sum.splits)
next
  case (halt a ce s r s')
  then show ?thesis using assms(2) adoption_frame(1) life_inv_same_admission by (metis (full_types))
next
  case (rebind sid ce s r s')
  then show ?thesis using assms(2) adoption_frame(2) life_inv_same_admission by (metis (full_types))
next
  case (resume sid ce s r s')
  then show ?thesis using assms(2) resume_frame life_inv_same_admission by (metis (full_types))
next
  case (cleanup k ce s r s')
  then show ?thesis using assms(2) aclose_frame life_inv_same_admission by metis
next
  case (drained p k s)
  then have "pl_active_call_tasks s = []" using assms(2) by (simp add: life_inv_def)
  with drained show ?thesis using assms(2)
    by (cases k) (auto simp: life_inv_def after_drain_def ensure_terminal_audit_complete_def life_defs Let_def split: option.splits)
next
  case (deadline k s)
  then show ?thesis using assms(2) by (cases k) (auto simp: life_inv_def drain_deadline_def)
next
  case (drain_fails p k s)
  then show ?thesis using assms(2) by (cases k) (auto simp: life_inv_def abort_drain_def seal_failed_def)
next
  case (exit k s)
  then show ?thesis using assms(2) by (cases k) (auto simp: life_inv_def leave_body_def life_defs)
next
  case (recover ex s s')
  then show ?thesis using assms(2)
    by (auto simp: life_inv_def begin_session_rotation_def rotation_enter_def split: sum.splits if_splits)
next
  case (rotate ex s d)
  then show ?thesis using assms(2)
    by (auto simp: life_inv_def begin_session_rotation_def seal_admission_def split: sum.splits if_splits)
next
  case (reset ex s s' d)
  then show ?thesis using assms(2)
    by (auto simp: life_inv_def begin_reset_def seal_admission_def Let_def split: sum.splits if_splits)
next
  case (reset_refused ex s e s')
  then show ?thesis using assms(2)
    by (auto simp: life_inv_def begin_reset_def Let_def split: sum.splits if_splits)
qed (use assms(2) in \<open>auto simp: life_inv_def life_defs split: if_splits\<close>)

lemma life_inv_steps: "life_step\<^sup>*\<^sup>* c d \<Longrightarrow> life_inv c \<Longrightarrow> life_inv d"
  by (induction rule: rtranclp_induct) (auto dest: life_inv_step)

lemma life_inv_reachable: "life_reachable c \<Longrightarrow> life_inv c"
  using life_inv_steps life_inv_new by blast

text \<open>Facts a step never undoes.\<close>

lemma life_step_monotone:
  assumes "life_step (p, s) (q, t)"
  shows "(pl_failed_terminal_call s = None \<or> pl_failed_terminal_call t = pl_failed_terminal_call s)
    \<and> (pl_shutting_down s \<longrightarrow> pl_shutting_down t \<and> set (pl_active_call_tasks t) \<subseteq> set (pl_active_call_tasks s))"
  using assms
proof (cases rule: life_step.cases)
  case (halt a ce r)
  from adoption_frame(1) [OF halt(3)] show ?thesis by (simp add: same_admission_def)
next
  case (rebind sid ce r)
  from adoption_frame(2) [OF rebind(3)] show ?thesis by (simp add: same_admission_def)
next
  case (resume sid ce r)
  from resume_frame [OF resume(3)] show ?thesis by (simp add: same_admission_def)
next
  case (cleanup k ce r)
  from aclose_frame [OF cleanup(4)] show ?thesis by (simp add: same_admission_def)
next
  case (drained k)
  then show ?thesis by (cases k) (auto simp: after_drain_def Let_def life_defs split: if_splits)
next
  case (exit k)
  then show ?thesis by (cases k) (auto simp: leave_body_def life_defs)
next
  case (recover ex s')
  then show ?thesis by (auto simp: begin_session_rotation_def life_defs split: sum.splits if_splits)
next
  case (reset ex s' d)
  then show ?thesis by (auto simp: begin_reset_def life_defs Let_def split: sum.splits if_splits)
next
  case (reset_refused ex e)
  then show ?thesis by (auto simp: begin_reset_def Let_def split: sum.splits if_splits)
next
  case (spawn key ok)
  then show ?thesis by (auto simp: stdio_for_def ensure_running_def split: if_splits)
next
  case (connect choice)
  then show ?thesis by (auto simp: client_for_upstream_def ensure_running_def split: if_splits sum.splits)
qed (auto simp: enter_call_Admitted abort_drain_def life_defs split: if_splits)

lemma life_steps_monotone:
  assumes "life_step\<^sup>*\<^sup>* (p, s) (q, t)"
  shows "(pl_failed_terminal_call s = None \<or> pl_failed_terminal_call t = pl_failed_terminal_call s)
    \<and> (pl_shutting_down s \<longrightarrow> pl_shutting_down t \<and> set (pl_active_call_tasks t) \<subseteq> set (pl_active_call_tasks s))"
  using assms
proof (induction "(q, t)" arbitrary: q t rule: rtranclp_induct)
  case (step d)
  obtain r u where d: "d = (r, u)" by (cases d)
  from step(3) [OF d] life_step_monotone [OF step(2) [unfolded d]] show ?case by auto
qed auto

section \<open>Properties\<close>

text \<open>C21: A session changes only when nothing runs in it. Whatever calls, timeouts, cancellations, failed
  cleanups, retries and shutdowns interleave, the body of a close or of a reset, where the claim is signed and
  the successor adopted, runs with no call in flight, with admission sealed against every entering call, and
  with no terminal audit entry lost.\<close>

theorem transition_body_runs_alone:
  assumes "life_reachable (Body k, s)"
  shows "pl_active_calls s = 0 \<and> pl_active_call_tasks s = [] \<and> pl_session_rotation_in_progress s
    \<and> (\<forall>t timed_out s'. enter_call t timed_out s \<noteq> Admitted s')
    \<and> (k \<noteq> Shutdown \<longrightarrow> pl_failed_terminal_call s = None)"
  using life_inv_reachable [OF assms] by (auto simp: life_inv_def enter_call_Admitted)

text \<open>A call is admitted only into a session that is open. In every reachable configuration a call is
  admitted exactly when no transition is in progress, the gateway is not shutting down, not halted by the kill
  switch and has lost no terminal entry; then no close of the session has been committed either, and nobody
  holds the transition lock.\<close>

theorem admission_iff_open:
  assumes "life_reachable (p, s)"
  shows "((\<exists>s'. enter_call t timed_out s = Admitted s') \<longleftrightarrow>
      \<not> pl_session_rotation_in_progress s \<and> \<not> pl_shutting_down s \<and> pl_halted_identity s = None
      \<and> pl_failed_terminal_call s = None)
    \<and> ((\<exists>s'. enter_call t timed_out s = Admitted s') \<longrightarrow> \<not> pl_close_committed s \<and> p = Idle)"
  using life_inv_reachable [OF assms] by (auto simp: life_inv_def enter_call_Admitted)

text \<open>A lost terminal entry is never signed over. Once a call's terminal entry failed to persist, no later
  interleaving admits a call or reaches the body of a close or reset, so no claim is issued that would omit the
  outcome; only shutdown can still proceed.\<close>

theorem lost_terminal_is_final:
  assumes "life_reachable (p, s)" "pl_failed_terminal_call s = Some c" "life_step\<^sup>*\<^sup>* (p, s) (q, u)"
  shows "pl_failed_terminal_call u = Some c \<and> q \<noteq> Body Rotation \<and> q \<noteq> Body Reset
    \<and> (\<forall>t timed_out u'. enter_call t timed_out u \<noteq> Admitted u')"
proof -
  have f: "pl_failed_terminal_call u = Some c" using life_steps_monotone [OF assms(3)] assms(2) by simp
  have "life_reachable (q, u)" using assms(1,3) by (meson rtranclp_trans)
  from life_inv_reachable [OF this] f show ?thesis by (auto simp: life_inv_def enter_call_Admitted)
qed

text \<open>Shutdown is permanent. From the moment shutdown starts, no interleaving admits another call: the
  calls in flight only become fewer, and the store writers are reported drained only when none is left.\<close>

theorem shutdown_admits_nothing:
  assumes "life_reachable (p, s)" "pl_shutting_down s" "life_step\<^sup>*\<^sup>* (p, s) (q, u)"
  shows "pl_shutting_down u \<and> set (pl_active_call_tasks u) \<subseteq> set (pl_active_call_tasks s)
    \<and> (\<forall>t timed_out u'. enter_call t timed_out u \<noteq> Admitted u')
    \<and> (pl_shutdown_drained u \<longrightarrow> pl_active_calls u = 0)"
proof -
  have k: "pl_shutting_down u \<and> set (pl_active_call_tasks u) \<subseteq> set (pl_active_call_tasks s)"
    using life_steps_monotone [OF assms(3)] assms(2) by simp
  have "life_reachable (q, u)" using assms(1,3) by (meson rtranclp_trans)
  from life_inv_reachable [OF this] k show ?thesis by (auto simp: life_inv_def enter_call_Admitted)
qed

text \<open>Every call in flight can leave, one after the other.\<close>

lemma leave_all:
  assumes "distinct (pl_active_call_tasks s)" "pl_active_calls s = int (length (pl_active_call_tasks s))"
  shows "life_step\<^sup>*\<^sup>* (p, s) (p, s\<lparr>pl_active_calls := 0, pl_active_call_tasks := []\<rparr>)"
  using assms
proof (induction "pl_active_call_tasks s" arbitrary: s)
  case Nil
  then have "s\<lparr>pl_active_calls := 0, pl_active_call_tasks := []\<rparr> = s" by simp
  then show ?case by simp
next
  case (Cons t ts)
  let ?u = "leave_call t s"
  have ts: "pl_active_call_tasks s = t # ts" using Cons(2) by simp
  then have u: "?u = s\<lparr>pl_active_calls := int (length ts), pl_active_call_tasks := ts\<rparr>"
    using Cons(3,4) by (simp add: leave_call_def)
  have "life_step (p, s) (p, ?u)" using ts by (intro life_step.leave) simp
  moreover have "life_step\<^sup>*\<^sup>* (p, ?u) (p, ?u\<lparr>pl_active_calls := 0, pl_active_call_tasks := []\<rparr>)"
    using Cons(3) ts u by (intro Cons.hyps(1)) auto
  moreover have "?u\<lparr>pl_active_calls := 0, pl_active_call_tasks := []\<rparr> = s\<lparr>pl_active_calls := 0, pl_active_call_tasks := []\<rparr>"
    unfolding u by simp
  ultimately show ?case by simp
qed

lemma resume_reopens:
  assumes "pl_session_rotation_in_progress s" "\<not> pl_session_rebound s" "pl_failed_terminal_call s = None"
    and "\<not> pl_shutting_down s" "\<not> pl_drain_incomplete s"
  shows "\<exists>u v. resume_session sid (Some (\<lambda>_. None)) s = (None, u) \<and> leave_body Rotation u = (Idle, v)
    \<and> (\<exists>v'. enter_call t False v = Admitted v') \<and> pl_session_id v = sid"
proof -
  obtain r w where w: "aclose (Some (\<lambda>_. None)) s = (r, w)" by fastforce
  then have "r = None" by (auto simp: aclose_def Let_def split: if_splits)
  with w have f: "aclose (Some (\<lambda>_. None)) s = (None, w)" "same_admission s w" "\<not> pl_cleanup_incomplete w"
    using aclose_frame [OF w] by auto
  let ?u = "w\<lparr>pl_session_id := sid, pl_session_rebound := True, pl_close_committed := False, pl_halted_identity := None\<rparr>"
  have r: "resume_session sid (Some (\<lambda>_. None)) s = (None, ?u)"
    using assms f(1) by (simp add: resume_session_def rebind_session_def transition_guard_def ensure_terminal_audit_complete_def)
  have "leave_body Rotation ?u = (Idle, ?u\<lparr>pl_session_rotation_in_progress := False\<rparr>)"
    using assms f by (simp add: leave_body_def rotation_exit_def same_admission_def)
  then show ?thesis using r assms f(2) by (auto simp: enter_call_Admitted same_admission_def)
qed

text \<open>A stuck transition can always be recovered. From every reachable configuration in which nobody holds
  the transition lock, the gateway is not shutting down and no terminal entry is lost, however many drains,
  cleanups and closes failed before, there is a way to a configuration that admits calls again, on a successor
  session: the calls leave, one rotation is taken and its cleanup succeeds.\<close>

theorem transition_recoverable:
  assumes "life_reachable (Idle, s)" "\<not> pl_shutting_down s" "pl_failed_terminal_call s = None"
  shows "\<exists>u u'. life_step\<^sup>*\<^sup>* (Idle, s) (Idle, u) \<and> pl_session_id u = sid \<and> enter_call t False u = Admitted u'"
proof -
  note inv = life_inv_reachable [OF assms(1)]
  have "\<exists>b. life_step\<^sup>*\<^sup>* (Idle, s) (Body Rotation, b) \<and> pl_session_rotation_in_progress b \<and> \<not> pl_session_rebound b
      \<and> pl_failed_terminal_call b = None \<and> \<not> pl_shutting_down b \<and> \<not> pl_drain_incomplete b"
  proof (cases "pl_close_committed s")
    case True
    let ?b = "rotation_enter (s\<lparr>pl_session_rotation_in_progress := True\<rparr>)"
    have "life_step (Idle, s) (Body Rotation, ?b)"
      using True assms(2) by (intro life_step.recover [of None]) (simp add: begin_session_rotation_def ensure_running_def)
    then show ?thesis using True inv assms by (intro exI [of _ ?b]) (auto simp: life_inv_def rotation_enter_def)
  next
    case False
    let ?l = "s\<lparr>pl_active_calls := 0, pl_active_call_tasks := []\<rparr>"
    let ?d = "seal_admission 30 ?l" and ?b = "rotation_enter (drain_done (seal_admission 30 ?l))"
    have "life_step\<^sup>*\<^sup>* (Idle, s) (Idle, ?l)" using inv by (intro leave_all) (auto simp: life_inv_def)
    also have "life_step (Idle, ?l) (Draining Rotation, ?d)"
      using False assms(2) by (intro life_step.rotate [of None]) (simp add: begin_session_rotation_def ensure_running_def)
    also have "life_step (Draining Rotation, ?d) (after_drain Rotation ?d)"
      by (intro life_step.drained) (simp_all add: seal_admission_def)
    also have "after_drain Rotation ?d = (Body Rotation, ?b)"
      using assms(3) by (simp add: after_drain_def ensure_terminal_audit_complete_def life_defs)
    finally show ?thesis using assms by (intro exI [of _ ?b]) (auto simp: life_defs)
  qed
  then obtain b where b: "life_step\<^sup>*\<^sup>* (Idle, s) (Body Rotation, b)" "pl_session_rotation_in_progress b" "\<not> pl_session_rebound b"
    "pl_failed_terminal_call b = None" "\<not> pl_shutting_down b" "\<not> pl_drain_incomplete b" by blast
  obtain u v v' where v: "resume_session sid (Some (\<lambda>_. None)) b = (None, u)" "leave_body Rotation u = (Idle, v)"
    "enter_call t False v = Admitted v'" "pl_session_id v = sid"
    using resume_reopens [OF b(2-6)] by blast
  have "life_step (Body Rotation, b) (Body Rotation, u)" using v(1) by (rule life_step.resume)
  moreover have "life_step (Body Rotation, u) (Idle, v)" using life_step.exit [of Rotation u] v(2) by simp
  ultimately have "life_step\<^sup>*\<^sup>* (Idle, s) (Idle, v)" using b(1) by (meson rtranclp.rtrancl_into_rtrancl)
  with v(3,4) show ?thesis by blast
qed

subsection \<open>Concrete runs\<close>

abbreviation start_life :: proxy_life where
  "start_life \<equiv> new_proxy_life ''s''"

lemma start_reachable: "life_reachable (Idle, start_life)"
  by blast

text \<open>A rotation on an idle gateway reaches its body.\<close>

definition body_life :: proxy_life where
  "body_life = start_life\<lparr>pl_session_rotation_in_progress := True, pl_transition_drain_s := 30\<rparr>"

lemma body_reachable: "life_step\<^sup>*\<^sup>* (Idle, start_life) (Body Rotation, body_life)"
proof -
  have "life_step\<^sup>*\<^sup>* (Idle, start_life) (Draining Rotation, seal_admission 30 start_life)"
    by (intro r_into_rtranclp life_step.rotate [of None]) (simp add: begin_session_rotation_def ensure_running_def new_proxy_life_def)
  also have "life_step (Draining Rotation, seal_admission 30 start_life) (after_drain Rotation (seal_admission 30 start_life))"
    by (intro life_step.drained) (simp_all add: seal_admission_def new_proxy_life_def)
  also have "after_drain Rotation (seal_admission 30 start_life) = (Body Rotation, body_life)"
    by (simp add: after_drain_def ensure_terminal_audit_complete_def life_defs new_proxy_life_def body_life_def)
  finally show ?thesis by simp
qed

theorem transition_body_runs_alone_witness:
  "life_reachable (Body Rotation, body_life) \<and> pl_active_calls body_life = 0
   \<and> (\<forall>t timed_out s'. enter_call t timed_out body_life \<noteq> Admitted s')"
proof -
  have r: "life_reachable (Body Rotation, body_life)" using body_reachable by blast
  from transition_body_runs_alone [OF r] r show ?thesis by blast
qed

theorem admission_iff_open_witness:
  "(\<exists>s'. enter_call 1 False start_life = Admitted s') \<and> \<not> pl_close_committed start_life"
proof -
  have "\<exists>s'. enter_call 1 False start_life = Admitted s'" by (simp add: enter_call_Admitted new_proxy_life_def)
  with admission_iff_open [OF start_reachable, of 1 False] show ?thesis by blast
qed

text \<open>A call enters and its terminal entry is lost.\<close>

definition lost_life :: proxy_life where
  "lost_life = start_life\<lparr>pl_active_calls := 1, pl_active_call_tasks := [7], pl_failed_terminal_call := Some ''c''\<rparr>"

lemma lost_reachable: "life_reachable (Idle, lost_life)"
proof -
  let ?a = "start_life\<lparr>pl_active_calls := 1, pl_active_call_tasks := [7]\<rparr>"
  have "life_step\<^sup>*\<^sup>* (Idle, start_life) (Idle, ?a)"
    by (intro r_into_rtranclp life_step.enter [of 7 False]) (simp_all add: enter_call_Admitted new_proxy_life_def)
  also have "life_step (Idle, ?a) (Idle, record_failed_terminal ''c'' ?a)" by (intro life_step.lose) simp
  also have "record_failed_terminal ''c'' ?a = lost_life"
    by (simp add: record_failed_terminal_def lost_life_def new_proxy_life_def)
  finally show ?thesis by blast
qed

theorem lost_terminal_is_final_witness:
  "life_reachable (Idle, lost_life) \<and> pl_failed_terminal_call lost_life = Some ''c''
   \<and> (\<forall>t timed_out u'. enter_call t timed_out lost_life \<noteq> Admitted u')"
proof -
  have "pl_failed_terminal_call lost_life = Some ''c''" by (simp add: lost_life_def)
  with lost_terminal_is_final [OF lost_reachable this rtranclp.rtrancl_refl] lost_reachable show ?thesis by blast
qed

theorem shutdown_admits_nothing_witness:
  "pl_shutting_down (shutdown_start start_life)
   \<and> (\<forall>t timed_out u'. enter_call t timed_out (shutdown_start start_life) \<noteq> Admitted u')"
proof -
  have r: "life_reachable (Idle, shutdown_start start_life)" by (meson life_step.shut r_into_rtranclp)
  have "pl_shutting_down (shutdown_start start_life)" by (simp add: shutdown_start_def)
  with shutdown_admits_nothing [OF r this rtranclp.rtrancl_refl] show ?thesis by blast
qed

theorem transition_recoverable_witness:
  "\<exists>u u'. life_step\<^sup>*\<^sup>* (Idle, start_life) (Idle, u) \<and> pl_session_id u = ''t'' \<and> enter_call 3 False u = Admitted u'"
  using transition_recoverable [OF start_reachable, of "''t''" 3] by (simp add: new_proxy_life_def)

end
