(* ===== verification/Gateway_Server.thy ===== *)
theory Gateway_Server
  imports Session_Lifecycle Proxy_Lifecycle
begin

text \<open>
  The operator and close endpoints of \<open>mcp/server.py\<close>: signing a session's claim
  and moving the gateway to a successor or to a halt (\<open>_commit_close\<close>), the
  operator trip, the unblock and the reset, and counting a finished call towards
  the kill switch. They compose the session manager with the proxy's lifecycle.

  The bodies run inside \<open>session_rotation\<close> (or \<open>exclude_session_transition\<close>), whose
  guarantees are in \<open>Proxy_Lifecycle\<close>. The server and the proxy share the session
  and chain objects, and a closed session's chain stays reachable for export: chains
  live in a store and are referred to by their place in it. Authentication and
  the parsing of request bodies are outside.
\<close>

section \<open>State\<close>

type_synonym chain_ref = nat

record gateway =
  gw_manager :: session_manager
  gw_life :: proxy_life
  gw_session :: session_state
  gw_chains :: "audit_chain list"
  gw_chain :: chain_ref
  gw_closed_chains :: "(string \<times> chain_ref) list"
  gw_closed_sessions :: "(string \<times> closed_session_record) list"
  gw_pending_close :: "(string \<times> claim \<times> (session_state \<times> chain_ref) option) option"
  gw_call_log :: "call_log option"
  gw_session_call_log :: "session_call_log option"

abbreviation chain_of :: "gateway \<Rightarrow> audit_chain" where
  "chain_of gw \<equiv> gw_chains gw ! gw_chain gw"

definition put_chain :: "audit_chain \<Rightarrow> gateway \<Rightarrow> gateway" where
  "put_chain c gw = gw\<lparr>gw_chains := (gw_chains gw)[gw_chain gw := c]\<rparr>"

datatype server_error =
    Manager_error manager_error
  | Lifecycle_error lifecycle_error
  | Close_pending string
  | Append_failed audit_error

text \<open>What one request reads from outside: the close, the successor's first tick, identifier and stored
  entries, and how closing the children ends.\<close>

record server_reading =
  sr_close :: close_reading
  sr_open_tick :: tick
  sr_new_id :: string
  sr_store :: "audit_store option"
  sr_close_error :: "(string list \<Rightarrow> string option) option"

definition new_call_log :: "string \<Rightarrow> call_log" where
  "new_call_log session_id = \<lparr>cl_session_id = session_id, cl_records = []\<rparr>"

section \<open>Closing\<close>

text \<open>\<open>_commit_close\<close> without a pending close: sign, mark the proxy, keep the chain for export, and prepare
  the successor unless the identity is blocked.\<close>

definition close_and_prepare ::
  "runtime_context \<Rightarrow> server_reading \<Rightarrow> string \<Rightarrow> gateway
     \<Rightarrow> (server_error + claim \<times> (session_state \<times> chain_ref) option) \<times> gateway" where
  "close_and_prepare ctx rd session_id gw =
     (case close_session ctx (sr_close rd) (gw_manager gw) session_id (gw_session gw) (chain_of gw)
             (gw_call_log gw) (gw_session_call_log gw) of
        (r, m, state, chain) \<Rightarrow>
          let gw1 = (put_chain chain gw)\<lparr>gw_manager := m, gw_session := state\<rparr> in
          (case (if is_closing m session_id then mark_close_committed (gw_life gw1) else Inr (gw_life gw1)) of
             Inl e \<Rightarrow> (Inl (Lifecycle_error e), gw1)
           | Inr life \<Rightarrow>
               let gw2 = gw1\<lparr>gw_life := life\<rparr> in
               (case r of
                  Inl e \<Rightarrow> (Inl (Manager_error e), gw2)
                | Inr claim \<Rightarrow>
                    let gw3 = gw2\<lparr>gw_closed_chains := upsert (gw_closed_chains gw2) session_id (gw_chain gw2)\<rparr> in
                    if blocked_identity ctx m = None then
                      (case create_session ctx m (sr_open_tick rd) (sr_new_id rd) (sr_store rd) of
                         Inl e \<Rightarrow> (Inl (Manager_error e), gw3)
                       | Inr (new_session, fresh) \<Rightarrow>
                           let next = Some (new_session, length (gw_chains gw3)) in
                           (Inr (claim, next),
                            gw3\<lparr>gw_chains := gw_chains gw3 @ [fresh],
                                gw_pending_close := Some (session_id, claim, next)\<rparr>))
                    else (Inr (claim, None), gw3\<lparr>gw_pending_close := Some (session_id, claim, None)\<rparr>))))"

text \<open>The second half: halt without a successor, or rebind to it. A failed cleanup keeps the pending close.\<close>

definition adopt_successor ::
  "runtime_context \<Rightarrow> server_reading \<Rightarrow> claim \<Rightarrow> (session_state \<times> chain_ref) option \<Rightarrow> gateway
     \<Rightarrow> (server_error + claim) \<times> gateway" where
  "adopt_successor ctx rd claim next gw =
     (case next of
        None \<Rightarrow>
          (case halt_session (case blocked_identity ctx (gw_manager gw) of Some a \<Rightarrow> a | None \<Rightarrow> ''unknown'')
                  (sr_close_error rd) (gw_life gw) of
             (Some e, life) \<Rightarrow> (Inl (Lifecycle_error e), gw\<lparr>gw_life := life\<rparr>)
           | (None, life) \<Rightarrow> (Inr claim, gw\<lparr>gw_life := life, gw_pending_close := None\<rparr>))
      | Some (new_session, fresh) \<Rightarrow>
          (case rebind_session (ss_session_id new_session) (sr_close_error rd) (gw_life gw) of
             (Some e, life) \<Rightarrow> (Inl (Lifecycle_error e), gw\<lparr>gw_life := life\<rparr>)
           | (None, life) \<Rightarrow>
               (Inr claim, gw\<lparr>gw_life := life, gw_pending_close := None, gw_session := new_session,
                  gw_chain := fresh, gw_call_log := Some (new_call_log (ss_session_id new_session)),
                  gw_session_call_log := Some (new_session_call_log (ss_session_id new_session) None)\<rparr>)))"

definition commit_close ::
  "runtime_context \<Rightarrow> server_reading \<Rightarrow> string \<Rightarrow> gateway \<Rightarrow> (server_error + claim) \<times> gateway" where
  "commit_close ctx rd session_id gw =
     (case gw_pending_close gw of
        Some (pending_id, claim, next) \<Rightarrow>
          if pending_id \<noteq> session_id then (Inl (Close_pending pending_id), gw)
          else adopt_successor ctx rd claim next gw
      | None \<Rightarrow>
          (case close_and_prepare ctx rd session_id gw of
             (Inl e, gw1) \<Rightarrow> (Inl e, gw1)
           | (Inr (claim, next), gw1) \<Rightarrow> adopt_successor ctx rd claim next gw1))"

datatype http_refusal = Kill_switch_conflict string | Not_found | Conflict | Not_enabled | No_agent_identity | Not_blocked

text \<open>The guards of \<open>POST /sessions/{id}/close\<close> before it takes the rotation.\<close>

definition session_close_guard :: "string \<Rightarrow> gateway \<Rightarrow> http_refusal option" where
  "session_close_guard session_id gw =
     (case pl_halted_identity (gw_life gw) of
        Some a \<Rightarrow>
          if map_of (gw_closed_chains gw) (ss_session_id (gw_session gw)) \<noteq> None then Some (Kill_switch_conflict a)
          else if session_id \<noteq> ss_session_id (gw_session gw) then Some Not_found else None
      | None \<Rightarrow> if session_id \<noteq> ss_session_id (gw_session gw) then Some Not_found else None)"

section \<open>The kill switch endpoints\<close>

text \<open>\<open>_observe_for_kill_switch\<close> up to the seal: the result says whether the session has to be sealed now.\<close>

definition observe_for_kill_switch ::
  "runtime_context \<Rightarrow> ks_reading \<Rightarrow> string \<Rightarrow> gateway \<Rightarrow> (server_error + string option) \<times> gateway" where
  "observe_for_kill_switch ctx kr call_id gw =
     (case observe_call ctx kr (gw_manager gw) (gw_session gw) (chain_of gw) call_id of
        (r, m, state, chain) \<Rightarrow>
          let gw1 = (put_chain chain gw)\<lparr>gw_manager := m, gw_session := state\<rparr> in
          (case r of
             Inl e \<Rightarrow> (Inl (Manager_error e), gw1)
           | Inr False \<Rightarrow> (Inr None, gw1)
           | Inr True \<Rightarrow>
               (Inr (Some (ss_session_id (gw_session gw))),
                (case blocked_identity ctx m of
                   None \<Rightarrow> gw1
                 | Some a \<Rightarrow> gw1\<lparr>gw_life := mark_halted a (gw_life gw1)\<rparr>))))"

text \<open>\<open>POST /kill-switch/trip\<close> inside its rotation.\<close>

definition kill_switch_trip ::
  "runtime_context \<Rightarrow> server_reading \<Rightarrow> datetime \<Rightarrow> tick \<Rightarrow> string \<Rightarrow> string \<Rightarrow> string \<Rightarrow> gateway
     \<Rightarrow> (server_error + http_refusal + string \<times> claim) \<times> gateway" where
  "kill_switch_trip ctx rd wall tk reason authorized_by credential gw =
     (case trip_identity ctx wall tk reason authorized_by credential (gw_manager gw) (gw_session gw) (chain_of gw) of
        (r, m, state, chain) \<Rightarrow>
          let gw1 = (put_chain chain gw)\<lparr>gw_manager := m, gw_session := state\<rparr> in
          (case r of
             Inl e \<Rightarrow> (Inl (Manager_error e), gw1)
           | Inr None \<Rightarrow> (Inr (Inl No_agent_identity), gw1)
           | Inr (Some agent_id) \<Rightarrow>
               (case commit_close ctx rd (ss_session_id (gw_session gw)) gw1 of
                  (Inl e, gw2) \<Rightarrow> (Inl e, gw2)
                | (Inr claim, gw2) \<Rightarrow> (Inr (Inr (agent_id, claim)), gw2))))"

text \<open>The entry an unblock records in the chain that is current when it ends.\<close>

definition record_unblock ::
  "runtime_context \<Rightarrow> tick \<Rightarrow> string \<Rightarrow> string \<Rightarrow> string \<Rightarrow> string \<Rightarrow> gateway \<Rightarrow> (server_error + http_refusal + string) \<times> gateway" where
  "record_unblock ctx tk agent_id reason authorized_by credential gw =
     (case chain_append (cy_sha256 (rc_crypto ctx)) tk (chain_of gw)
             ((entry_defaults Break_glass_used)\<lparr>ea_detail := Some
                [(''reason'', JStr ''kill_switch_unblocked''), (''agent_id'', JStr agent_id),
                 (''operator_reason'', JStr reason), (''authorized_by'', JStr authorized_by),
                 (''credential_verified'', JStr credential)]\<rparr>) of
        Inl e \<Rightarrow> (Inl (Append_failed e), gw)
      | Inr (chain, _) \<Rightarrow> (Inr (Inr (ss_session_id (gw_session gw))), put_chain chain gw))"

text \<open>\<open>POST /kill-switch/unblock\<close> inside its rotation.\<close>

definition kill_switch_unblock ::
  "runtime_context \<Rightarrow> server_reading \<Rightarrow> tick \<Rightarrow> string \<Rightarrow> string \<Rightarrow> string \<Rightarrow> string \<Rightarrow> gateway
     \<Rightarrow> (server_error + http_refusal + string) \<times> gateway" where
  "kill_switch_unblock ctx rd tk agent_id reason authorized_by credential gw =
     (let (was_blocked, m) = unblock_identity (gw_manager gw) agent_id;
          gw1 = gw\<lparr>gw_manager := m\<rparr>; halted = pl_halted_identity (gw_life gw) in
      if \<not> was_blocked \<and> halted \<noteq> Some agent_id then (Inr (Inl Not_blocked), gw1)
      else if halted \<noteq> None \<and> blocked_identity ctx m = None then
        (if map_of (gw_closed_chains gw1) (ss_session_id (gw_session gw1)) \<noteq> None then
           (case create_session ctx m (sr_open_tick rd) (sr_new_id rd) (sr_store rd) of
              Inl e \<Rightarrow> (Inl (Manager_error e), gw1)
            | Inr (new_session, fresh) \<Rightarrow>
                (case resume_session (ss_session_id new_session) (sr_close_error rd) (gw_life gw1) of
                   (Some e, life) \<Rightarrow> (Inl (Lifecycle_error e), gw1\<lparr>gw_life := life\<rparr>)
                 | (None, life) \<Rightarrow>
                     record_unblock ctx tk agent_id reason authorized_by credential
                       (gw1\<lparr>gw_life := life, gw_session := new_session, gw_chains := gw_chains gw1 @ [fresh],
                            gw_chain := length (gw_chains gw1),
                            gw_call_log := Some (new_call_log (ss_session_id new_session)),
                            gw_session_call_log := Some (new_session_call_log (ss_session_id new_session) None)\<rparr>)))
         else record_unblock ctx tk agent_id reason authorized_by credential (gw1\<lparr>gw_life := lift_halt (gw_life gw1)\<rparr>))
      else record_unblock ctx tk agent_id reason authorized_by credential gw1)"

section \<open>Reset\<close>

text \<open>\<open>POST /sessions/{id}/reset\<close> inside \<open>exclude_session_transition\<close>, with the identifiers re-checked. The
  session object is reset in place, so the proxy sees the successor's identifier.\<close>

definition session_reset ::
  "runtime_context \<Rightarrow> 's store_ops \<Rightarrow> (string list \<Rightarrow> string option) option \<Rightarrow> datetime \<Rightarrow> tick \<Rightarrow> string \<Rightarrow> string
     \<Rightarrow> string \<Rightarrow> 's option \<Rightarrow> gateway
     \<Rightarrow> (server_error + http_refusal + string \<times> string \<times> closed_session_record) \<times> gateway \<times> 's option" where
  "session_reset ctx ops close_error now tk uuid credential session_id store gw =
     (if session_id \<noteq> ss_session_id (gw_session gw) then (Inr (Inl Not_found), gw, store)
      else case aclose close_error (gw_life gw) of
        (Some e, life) \<Rightarrow> (Inl (Lifecycle_error e), gw\<lparr>gw_life := life\<rparr>, store)
      | (None, life) \<Rightarrow>
          (case apply_reset ops now uuid store (gw_session gw) ''operator reset via API'' credential of
             ((old_id, new_id, ended), state, store') \<Rightarrow>
               let gw1 = gw\<lparr>gw_life := life\<lparr>pl_session_id := ss_session_id state\<rparr>, gw_session := state,
                           gw_closed_sessions := upsert (gw_closed_sessions gw) (cr_session_id ended) ended\<rparr> in
               (case chain_append (cy_sha256 (rc_crypto ctx)) tk (chain_of gw1)
                       ((entry_defaults Session_reset)\<lparr>ea_policy_decision := Some PD_na,
                          ea_session_sensitivity_before := Some (cr_max_sensitivity ended),
                          ea_session_sensitivity_after := Some (ss_max_sensitivity state),
                          ea_detail := Some [(''closed_session_id'', JStr old_id), (''successor_session_id'', JStr new_id),
                            (''reset_count'', JInt (int (ss_reset_count state))), (''credential_verified'', JStr credential),
                            (''reason'', JStr ''operator reset via API'')]\<rparr>) of
                  Inl e \<Rightarrow> (Inl (Append_failed e), gw1, store')
                | Inr (chain, _) \<Rightarrow>
                    (Inr (Inr (old_id, new_id, ended)), put_chain (rotate_session_id chain new_id) gw1, store'))))"

section \<open>What a close leaves behind\<close>

definition in_rotation :: "proxy_life \<Rightarrow> bool" where
  "in_rotation life \<longleftrightarrow> pl_session_rotation_in_progress life \<and> \<not> pl_session_rebound life
     \<and> pl_failed_terminal_call life = None"

lemma close_session_closing:
  assumes "close_session ctx cr m sid s c clog slog = (Inr claim, m', s', c')"
  shows "is_closing m' sid"
  using assms
proof (cases rule: close_session_cases)
  case (issued claim' e report c1 m0 m1 m2 t rt tip)
  then show ?thesis
    using ks_grows_fields(2) [OF close_kill_switch_grows [OF issued(6)]] by (simp add: is_closing_def)
qed (auto simp: is_closing_def)

lemma close_session_stored:
  assumes "close_session ctx cr m sid s c clog slog = (Inr claim, m', s', c')"
  shows "map_of (sm_closed_claims m') sid = Some claim"
  using assms by (cases rule: close_session_cases) auto

lemma close_and_prepare_cases:
  assumes "close_and_prepare ctx rd sid gw = (Inr (claim, next), gw')" "gw_chain gw < length (gw_chains gw)"
  obtains m s c life where
    "close_session ctx (sr_close rd) (gw_manager gw) sid (gw_session gw) (chain_of gw) (gw_call_log gw) (gw_session_call_log gw)
       = (Inr claim, m, s, c)"
    "life = (gw_life gw)\<lparr>pl_close_committed := True\<rparr>" "gw_life gw' = life" "gw_manager gw' = m"
    "gw_pending_close gw' = Some (sid, claim, next)" "gw_chain gw' = gw_chain gw"
    "gw_closed_chains gw' = upsert (gw_closed_chains gw) sid (gw_chain gw)" "gw_chains gw' ! gw_chain gw = c"
    "gw_session gw' = s"
    "case next of None \<Rightarrow> blocked_identity ctx m \<noteq> None \<and> length (gw_chains gw') = length (gw_chains gw)
      | Some (ns, ref) \<Rightarrow> blocked_identity ctx m = None \<and> ref = length (gw_chains gw) \<and> length (gw_chains gw') = ref + 1
          \<and> create_session ctx m (sr_open_tick rd) (sr_new_id rd) (sr_store rd) = Inr (ns, gw_chains gw' ! ref)"
proof -
  obtain r m s c where cl: "close_session ctx (sr_close rd) (gw_manager gw) sid (gw_session gw) (chain_of gw)
      (gw_call_log gw) (gw_session_call_log gw) = (r, m, s, c)" by (metis prod_cases4)
  with assms(1) have r: "r = Inr claim"
    by (auto simp: close_and_prepare_def Let_def split: sum.splits if_splits)
  have closing: "is_closing m sid" using close_session_closing cl r by blast
  show thesis
  proof (cases "blocked_identity ctx m")
    case None
    with assms cl r closing that [of m s c "(gw_life gw)\<lparr>pl_close_committed := True\<rparr>"] show thesis
      by (auto simp: close_and_prepare_def mark_close_committed_def put_chain_def nth_append Let_def split: if_splits sum.splits)
  next
    case (Some a)
    with assms cl r closing that [of m s c "(gw_life gw)\<lparr>pl_close_committed := True\<rparr>"] show thesis
      by (auto simp: close_and_prepare_def mark_close_committed_def put_chain_def Let_def split: if_splits sum.splits)
  qed
qed

lemma adopt_successor_ok:
  assumes "adopt_successor ctx rd claim next gw = (Inr c, gw')"
  shows "c = claim \<and> gw_pending_close gw' = None \<and> gw_manager gw' = gw_manager gw \<and> gw_chains gw' = gw_chains gw
    \<and> gw_closed_chains gw' = gw_closed_chains gw
    \<and> (case next of
         None \<Rightarrow> pl_halted_identity (gw_life gw') =
             Some (case blocked_identity ctx (gw_manager gw) of Some a \<Rightarrow> a | None \<Rightarrow> ''unknown'')
           \<and> gw_session gw' = gw_session gw \<and> gw_chain gw' = gw_chain gw
       | Some (ns, ref) \<Rightarrow> gw_session gw' = ns \<and> gw_chain gw' = ref \<and> pl_session_id (gw_life gw') = ss_session_id ns
           \<and> pl_halted_identity (gw_life gw') = pl_halted_identity (gw_life gw))
    \<and> pl_session_rebound (gw_life gw') \<and> \<not> pl_close_committed (gw_life gw') \<and> \<not> pl_cleanup_incomplete (gw_life gw')
    \<and> same_admission (gw_life gw) (gw_life gw')"
proof -
  have h: "halt_session a ce s = (None, t) \<Longrightarrow> pl_halted_identity t = Some a \<and> pl_session_rebound t
      \<and> \<not> pl_close_committed t \<and> \<not> pl_cleanup_incomplete t \<and> same_admission s t" for a ce s t
    by (auto simp: halt_session_def same_admission_def split: option.splits prod.splits dest!: aclose_frame)
  have b: "rebind_session sid ce s = (None, t) \<Longrightarrow> pl_session_id t = sid \<and> pl_session_rebound t
      \<and> \<not> pl_close_committed t \<and> \<not> pl_cleanup_incomplete t \<and> pl_halted_identity t = pl_halted_identity s
      \<and> same_admission s t" for sid ce s t
    by (auto simp: rebind_session_def same_admission_def split: option.splits prod.splits dest!: aclose_frame)
  show ?thesis
    using assms by (cases "next") (auto simp: adopt_successor_def split: prod.splits option.splits dest!: h b)
qed

lemma committed_close:
  assumes "commit_close ctx rd sid gw = (Inr claim, gw')" "gw_pending_close gw = None"
    and "gw_chain gw < length (gw_chains gw)" "pl_halted_identity (gw_life gw) = None"
    and "pl_failed_terminal_call (gw_life gw) = None" "\<not> pl_shutting_down (gw_life gw)" "\<not> pl_drain_incomplete (gw_life gw)"
  shows "\<exists>s c. close_session ctx (sr_close rd) (gw_manager gw) sid (gw_session gw) (chain_of gw) (gw_call_log gw)
        (gw_session_call_log gw) = (Inr claim, gw_manager gw', s, c)
    \<and> map_of (sm_closed_claims (gw_manager gw')) sid = Some claim
    \<and> map_of (gw_closed_chains gw') sid = Some (gw_chain gw) \<and> gw_chains gw' ! gw_chain gw = c
    \<and> gw_pending_close gw' = None
    \<and> (case blocked_identity ctx (gw_manager gw') of
         Some a \<Rightarrow> pl_halted_identity (gw_life gw') = Some a \<and> gw_session gw' = s \<and> gw_chain gw' = gw_chain gw
           \<and> (\<forall>t timed_out. \<nexists>l. enter_call t timed_out (rotation_exit (gw_life gw')) = Admitted l)
       | None \<Rightarrow> create_session ctx (gw_manager gw') (sr_open_tick rd) (sr_new_id rd) (sr_store rd)
             = Inr (gw_session gw', chain_of gw') \<and> gw_chain gw' \<noteq> gw_chain gw
           \<and> pl_session_id (gw_life gw') = ss_session_id (gw_session gw')
           \<and> (\<forall>t timed_out. \<exists>l. enter_call t timed_out (rotation_exit (gw_life gw')) = Admitted l))"
proof -
  obtain nxt gw1 where p: "close_and_prepare ctx rd sid gw = (Inr (claim, nxt), gw1)"
    "adopt_successor ctx rd claim nxt gw1 = (Inr claim, gw')"
  proof -
    obtain r gw1 where cp: "close_and_prepare ctx rd sid gw = (r, gw1)" by fastforce
    with assms(1,2) obtain c nxt where r: "r = Inr (c, nxt)" "adopt_successor ctx rd c nxt gw1 = (Inr claim, gw')"
      by (cases r) (auto simp: commit_close_def)
    with adopt_successor_ok [OF r(2)] cp that show thesis by auto
  qed
  note a = adopt_successor_ok [OF p(2)]
  from p(1) assms(3) show ?thesis
  proof (rule close_and_prepare_cases)
    fix m s c life
    assume cl: "close_session ctx (sr_close rd) (gw_manager gw) sid (gw_session gw) (chain_of gw) (gw_call_log gw)
        (gw_session_call_log gw) = (Inr claim, m, s, c)"
      and life: "life = (gw_life gw)\<lparr>pl_close_committed := True\<rparr>" "gw_life gw1 = life"
      and f: "gw_manager gw1 = m" "gw_chain gw1 = gw_chain gw"
        "gw_closed_chains gw1 = upsert (gw_closed_chains gw) sid (gw_chain gw)" "gw_chains gw1 ! gw_chain gw = c"
        "gw_session gw1 = s"
      and nx: "case nxt of None \<Rightarrow> blocked_identity ctx m \<noteq> None \<and> length (gw_chains gw1) = length (gw_chains gw)
        | Some (ns, ref) \<Rightarrow> blocked_identity ctx m = None \<and> ref = length (gw_chains gw) \<and> length (gw_chains gw1) = ref + 1
          \<and> create_session ctx m (sr_open_tick rd) (sr_new_id rd) (sr_store rd) = Inr (ns, gw_chains gw1 ! ref)"
    have m: "gw_manager gw' = m" "map_of (sm_closed_claims m) sid = Some claim"
      using a f(1) close_session_stored [OF cl] by auto
    have open_iff: "(\<exists>l. enter_call t timed_out (rotation_exit (gw_life gw')) = Admitted l) \<longleftrightarrow> pl_halted_identity (gw_life gw') = None"
      for t timed_out
      using a assms(5-7) life by (auto simp: enter_call_Admitted rotation_exit_def same_admission_def)
    have base: "map_of (gw_closed_chains gw') sid = Some (gw_chain gw)" "gw_chains gw' ! gw_chain gw = c" "gw_pending_close gw' = None"
      using a f by auto
    show ?thesis
    proof (cases "nxt")
      case None
      then obtain b where "blocked_identity ctx m = Some b" using nx by auto
      with None a f m base open_iff cl show ?thesis by auto
    next
      case (Some q)
      obtain ns ref where q: "q = (ns, ref)" by (cases q)
      with Some nx have n: "blocked_identity ctx m = None" "ref = length (gw_chains gw)"
        "create_session ctx m (sr_open_tick rd) (sr_new_id rd) (sr_store rd) = Inr (ns, gw_chains gw1 ! ref)" by auto
      have g: "gw_session gw' = ns" "gw_chain gw' = ref" "pl_session_id (gw_life gw') = ss_session_id ns"
        "pl_halted_identity (gw_life gw') = None" "gw_chains gw' = gw_chains gw1"
        using a Some q life assms(4) by auto
      have "gw_chain gw' \<noteq> gw_chain gw" using g(2) n(2) assms(3) by simp
      then show ?thesis using n g m base open_iff cl by auto
    qed
  qed
qed

text \<open>A committed close ends in one signed claim, an exportable chain and either a successor or a halt. When
  closing a session succeeds, the claim returned is the one the manager stores for it; the chain kept for export
  is exactly the chain the claim was built from; no close stays pending; and either the identity is blocked, the
  old session stays in place and the proxy is halted for that identity, or the gateway serves the freshly created
  session on its own new chain. After the rotation is left, calls are admitted in the second case and in no
  circumstances in the first.\<close>

theorem committed_close_outcome:
  assumes "commit_close ctx rd sid gw = (Inr claim, gw')" "gw_pending_close gw = None"
    and "gw_chain gw < length (gw_chains gw)" "pl_halted_identity (gw_life gw) = None"
    and "pl_failed_terminal_call (gw_life gw) = None" "\<not> pl_shutting_down (gw_life gw)" "\<not> pl_drain_incomplete (gw_life gw)"
  shows "\<exists>s c. close_session ctx (sr_close rd) (gw_manager gw) sid (gw_session gw) (chain_of gw) (gw_call_log gw)
        (gw_session_call_log gw) = (Inr claim, gw_manager gw', s, c)
    \<and> map_of (sm_closed_claims (gw_manager gw')) sid = Some claim
    \<and> map_of (gw_closed_chains gw') sid = Some (gw_chain gw) \<and> gw_chains gw' ! gw_chain gw = c
    \<and> gw_pending_close gw' = None
    \<and> (case blocked_identity ctx (gw_manager gw') of
         Some a \<Rightarrow> pl_halted_identity (gw_life gw') = Some a \<and> gw_session gw' = s \<and> gw_chain gw' = gw_chain gw
           \<and> (\<forall>t timed_out. \<nexists>l. enter_call t timed_out (rotation_exit (gw_life gw')) = Admitted l)
       | None \<Rightarrow> create_session ctx (gw_manager gw') (sr_open_tick rd) (sr_new_id rd) (sr_store rd)
             = Inr (gw_session gw', chain_of gw') \<and> gw_chain gw' \<noteq> gw_chain gw
           \<and> pl_session_id (gw_life gw') = ss_session_id (gw_session gw')
           \<and> (\<forall>t timed_out. \<exists>l. enter_call t timed_out (rotation_exit (gw_life gw')) = Admitted l))"
  using assms by (rule committed_close)

text \<open>A retried close returns the first claim. While a close waits for its cleanup, every retry leaves the
  manager, the chains and the successor as they are, and ends either in the claim of the first attempt or, when
  the cleanup fails again, in an error with the close still pending: closing a session signs one claim, however
  often it is retried.\<close>

theorem retried_close_keeps_claim:
  assumes "gw_pending_close gw = Some (sid, claim, nxt)" "commit_close ctx rd sid gw = (r, gw')"
  shows "gw_manager gw' = gw_manager gw \<and> gw_chains gw' = gw_chains gw \<and> gw_closed_chains gw' = gw_closed_chains gw
    \<and> (r = Inr claim \<and> gw_pending_close gw' = None
       \<or> (\<exists>e. r = Inl (Lifecycle_error e)) \<and> gw_pending_close gw' = gw_pending_close gw)"
  using assms
  by (auto simp: commit_close_def adopt_successor_def split: option.splits prod.splits)

lemma close_session_keeps_blocks:
  assumes "close_session ctx cr m sid s c clog slog = (r, m', s', c')" "ks_is_blocked (sm_kill_switch m) a"
  shows "ks_is_blocked (sm_kill_switch m') a"
  using assms(1)
proof (cases rule: close_session_cases)
  case (issued claim e report c1 m0 m1 m2 t rt tip)
  have "ks_is_blocked (sm_kill_switch m1) a"
    using close_kill_switch_grows [OF issued(6)] assms(2) issued(5) by (simp add: ks_grows_def)
  with issued(9,11) show ?thesis by simp
qed (use assms(2) in \<open>auto simp: close_failed_def\<close>)

lemma trip_identity_ok:
  assumes "trip_identity ctx wall tk why who cred m s c = (Inr (Some a), m', s', c')"
  shows "\<exists>b. rc_agent_manifest ctx = Some b \<and> ab_agent_id b = a \<and> ks_is_blocked (sm_kill_switch m') a"
  using assms by (auto simp: trip_identity_def Let_def split: option.splits sum.splits)


section \<open>The unblock endpoint and closed chains\<close>

lemma record_unblock_ok:
  assumes "record_unblock ctx tk a why who cred gw = (Inr (Inr sid), gw')"
  shows "\<exists>c e. chain_append (cy_sha256 (rc_crypto ctx)) tk (chain_of gw)
      ((entry_defaults Break_glass_used)\<lparr>ea_detail := Some
         [(''reason'', JStr ''kill_switch_unblocked''), (''agent_id'', JStr a), (''operator_reason'', JStr why),
          (''authorized_by'', JStr who), (''credential_verified'', JStr cred)]\<rparr>) = Inr (c, e)
    \<and> gw' = put_chain c gw \<and> sid = ss_session_id (gw_session gw)"
  using assms by (auto simp: record_unblock_def split: sum.splits)

text \<open>A close that waits for its cleanup survives an unblock. If an unblock succeeds while the close of a
  session is still pending, and leaves the gateway on another session, the pending close is kept; closing the
  session the gateway now serves is then refused, whatever is read, and the refusal changes nothing, so the
  session cannot be closed and no claim can be issued for it.\<close>

theorem pending_close_survives_unblock:
  assumes "kill_switch_unblock ctx rd tk a why who cred gw = (Inr (Inr sid), gw')"
    and "gw_pending_close gw = Some (old, claim, nxt)" "sid \<noteq> old"
  shows "ss_session_id (gw_session gw') = sid \<and> gw_pending_close gw' = Some (old, claim, nxt)
    \<and> commit_close ctx rd' sid gw' = (Inl (Close_pending old), gw')"
proof -
  have "gw_pending_close gw' = Some (old, claim, nxt) \<and> ss_session_id (gw_session gw') = sid"
    using assms(1,2)
    by (auto simp: kill_switch_unblock_def Let_def put_chain_def split: prod.splits if_splits sum.splits option.splits
        dest!: record_unblock_ok)
  with assms(3) show ?thesis by (simp add: commit_close_def)
qed

text \<open>An unblock may write behind a signed claim. If the gateway is halted because its own identity is
  blocked, its session is closed and exported, and the operator lifts the block of another identity, the entry
  that records it is appended to the closed session's chain: the exported chain then has one entry more than the
  chain its claim was signed over.\<close>

theorem unblock_extends_closed_chain:
  assumes "kill_switch_unblock ctx rd tk a why who cred gw = (Inr (Inr sid), gw')"
    and "blocked_identity ctx (snd (unblock_identity (gw_manager gw) a)) \<noteq> None"
    and "map_of (gw_closed_chains gw) (ss_session_id (gw_session gw)) = Some (gw_chain gw)"
    and "gw_chain gw < length (gw_chains gw)"
  shows "sid = ss_session_id (gw_session gw) \<and> map_of (gw_closed_chains gw') sid = Some (gw_chain gw)
    \<and> (\<exists>e. ch_entries (gw_chains gw' ! gw_chain gw) = ch_entries (gw_chains gw ! gw_chain gw) @ [e])"
proof -
  obtain was m where u: "unblock_identity (gw_manager gw) a = (was, m)" by fastforce
  then have "record_unblock ctx tk a why who cred (gw\<lparr>gw_manager := m\<rparr>) = (Inr (Inr sid), gw')"
    using assms(1,2) by (auto simp: kill_switch_unblock_def Let_def split: if_splits)
  from record_unblock_ok [OF this] obtain c e args where
    "chain_append (cy_sha256 (rc_crypto ctx)) tk (chain_of gw) args = Inr (c, e)"
    and g: "gw' = put_chain c (gw\<lparr>gw_manager := m\<rparr>)" "sid = ss_session_id (gw_session gw)" by auto
  then have "ch_entries c = ch_entries (chain_of gw) @ [e]" by (elim chain_append_cases) simp
  with g assms(3,4) show ?thesis by (simp add: put_chain_def)
qed

section \<open>The reset endpoint\<close>

lemma aclose_releases:
  "aclose ce s = (None, t) \<Longrightarrow> pl_stdio_servers t = [] \<and> pl_http_clients t = [] \<and> pl_advertised t = []
     \<and> pl_provenance t = [] \<and> pl_drift_checked t = []"
  by (auto simp: aclose_def reset_upstream_checks_def Let_def split: if_splits option.splits list.splits)

lemma adopt_fields: "ss_session_id (adopt s v) = ss_session_id s" "ss_sensitivity_order (adopt s v) = ss_sensitivity_order s"
  "rank (ss_sensitivity_order s) (ss_max_sensitivity s) \<le> rank (ss_sensitivity_order s) (ss_max_sensitivity (adopt s v))"
  by (auto simp: adopt_def max_sensitivity_def Let_def split: option.splits)

lemma apply_reset_spec:
  assumes "apply_reset ops now uuid store s why who = ((old_id, new_id, ended), s', store')"
  shows "old_id = ss_session_id s \<and> new_id = uuid \<and> cr_session_id ended = old_id \<and> ss_session_id s' = uuid
    \<and> ss_max_sensitivity s' = ''public''
    \<and> rank (ss_sensitivity_order s) (ss_max_sensitivity s) \<le> rank (ss_sensitivity_order s) (cr_max_sensitivity ended)"
  using assms adopt_fields
  by (auto simp: apply_reset_def reset_session_def snapshot_for_close_def Let_def split: option.splits prod.splits)

lemma chain_append_fields:
  assumes "chain_append sha256 tk c a = Inr (c', e)"
  shows "ch_entries c' = ch_entries c @ [e]" "ae_session_id e = ch_session_id c" "ea_entry_type e = ea_entry_type a"
    "ea_session_sensitivity_before e = ea_session_sensitivity_before a" "ea_policy_decision e = ea_policy_decision a"
  using assms by (auto simp: new_entry_def entry_args.defs Let_def elim!: chain_append_cases)

text \<open>A reset is a recorded boundary. When the reset endpoint succeeds, the closed session is recorded with a
  sensitivity no lower than the one it had reached, the successor starts public under a fresh identifier that
  session, chain and proxy share, exactly one entry is appended, it is of type \<open>session_reset\<close> and carries the closed
  sensitivity, and nothing the closed session owned survives: no child process, no client, no cached
  listing or verdict.\<close>

theorem reset_is_a_boundary:
  assumes "session_reset ctx ops ce now tk uuid cred sid store gw = (Inr (Inr (old_id, new_id, ended)), gw', store')"
    and "gw_chain gw < length (gw_chains gw)"
  shows "old_id = sid \<and> sid = ss_session_id (gw_session gw) \<and> new_id = uuid
    \<and> map_of (gw_closed_sessions gw') sid = Some ended
    \<and> rank (ss_sensitivity_order (gw_session gw)) (ss_max_sensitivity (gw_session gw))
        \<le> rank (ss_sensitivity_order (gw_session gw)) (cr_max_sensitivity ended)
    \<and> ss_session_id (gw_session gw') = uuid \<and> ss_max_sensitivity (gw_session gw') = ''public''
    \<and> ch_session_id (chain_of gw') = uuid \<and> pl_session_id (gw_life gw') = uuid
    \<and> (\<exists>e. ch_entries (chain_of gw') = ch_entries (chain_of gw) @ [e] \<and> ea_entry_type e = Session_reset
         \<and> ea_session_sensitivity_before e = Some (cr_max_sensitivity ended) \<and> ae_session_id e = ch_session_id (chain_of gw))
    \<and> pl_stdio_servers (gw_life gw') = [] \<and> pl_http_clients (gw_life gw') = [] \<and> pl_advertised (gw_life gw') = []
    \<and> pl_provenance (gw_life gw') = [] \<and> pl_drift_checked (gw_life gw') = []"
proof -
  obtain r life where life: "aclose ce (gw_life gw) = (r, life)" by fastforce
  obtain o1 n1 e1 state st1 where ar: "apply_reset ops now uuid store (gw_session gw) ''operator reset via API'' cred = ((o1, n1, e1), state, st1)"
    by (metis prod_cases3)
  define args where "args = (entry_defaults Session_reset)\<lparr>ea_policy_decision := Some PD_na,
      ea_session_sensitivity_before := Some (cr_max_sensitivity e1), ea_session_sensitivity_after := Some (ss_max_sensitivity state),
      ea_detail := Some [(''closed_session_id'', JStr o1), (''successor_session_id'', JStr n1),
        (''reset_count'', JInt (int (ss_reset_count state))), (''credential_verified'', JStr cred),
        (''reason'', JStr ''operator reset via API'')]\<rparr>"
  have eq: "r = None" "sid = ss_session_id (gw_session gw)" "(o1, n1, e1) = (old_id, new_id, ended)"
    using assms(1) life ar by (auto simp: session_reset_def Let_def split: if_splits option.splits sum.splits prod.splits)
  obtain c e where c: "chain_append (cy_sha256 (rc_crypto ctx)) tk (chain_of gw) args = Inr (c, e)"
    "gw' = put_chain (rotate_session_id c n1) (gw\<lparr>gw_life := life\<lparr>pl_session_id := ss_session_id state\<rparr>, gw_session := state,
         gw_closed_sessions := upsert (gw_closed_sessions gw) (cr_session_id e1) e1\<rparr>)"
    using assms(1) life ar eq
    by (auto simp: session_reset_def args_def Let_def split: if_splits sum.splits prod.splits)
  have "ch_entries c = ch_entries (chain_of gw) @ [e]" "ea_entry_type e = Session_reset"
    "ea_session_sensitivity_before e = Some (cr_max_sensitivity e1)" "ae_session_id e = ch_session_id (chain_of gw)"
    using chain_append_fields [OF c(1)] by (simp_all add: args_def)
  moreover note apply_reset_spec [OF ar] aclose_releases [of ce "gw_life gw" life]
  ultimately show ?thesis
    using c(2) eq life assms(2) by (simp add: put_chain_def rotate_session_id_def)
qed

section \<open>Concrete gateways\<close>

definition sample_reading :: server_reading where
  "sample_reading = \<lparr>sr_close = sample_close, sr_open_tick = sample_tick ''u5'', sr_new_id = ''t'', sr_store = None,
     sr_close_error = Some (\<lambda>_. None)\<rparr>"

definition sample_gateway :: "audit_chain \<Rightarrow> session_manager \<Rightarrow> gateway" where
  "sample_gateway c m = \<lparr>gw_manager = m, gw_life = body_life, gw_session = new_session_state ''s'' Map.empty, gw_chains = [c],
     gw_chain = 0, gw_closed_chains = [], gw_closed_sessions = [], gw_pending_close = None, gw_call_log = None,
     gw_session_call_log = None\<rparr>"

lemma sample_cleanup: "\<exists>t. aclose (Some (\<lambda>_. None)) s = (None, t)"
  by (simp add: aclose_def Let_def)

lemma body_life_fields: "pl_halted_identity body_life = None" "pl_failed_terminal_call body_life = None"
  "\<not> pl_shutting_down body_life" "\<not> pl_drain_incomplete body_life" "pl_session_rotation_in_progress body_life"
  "\<not> pl_session_rebound body_life"
  by (simp_all add: body_life_def new_proxy_life_def)

lemma adopt_successor_total:
  assumes "in_rotation (gw_life gw)" "sr_close_error rd = Some (\<lambda>_. None)"
  shows "\<exists>gw'. adopt_successor ctx rd claim nxt gw = (Inr claim, gw')"
proof -
  obtain t where t: "aclose (Some (\<lambda>_. None)) (gw_life gw) = (None, t)" using sample_cleanup by blast
  have g: "transition_guard n (gw_life gw) = None" for n
    using assms(1) by (simp add: transition_guard_def in_rotation_def ensure_terminal_audit_complete_def)
  show ?thesis
    using t g assms(2) by (cases nxt) (auto simp: adopt_successor_def halt_session_def rebind_session_def split: prod.splits)
qed

lemma commit_close_total:
  assumes "close_session ctx (sr_close rd) (gw_manager gw) sid (gw_session gw) (chain_of gw) (gw_call_log gw)
      (gw_session_call_log gw) = (Inr claim, m, s, c)"
    and "gw_pending_close gw = None" "in_rotation (gw_life gw)" "sr_close_error rd = Some (\<lambda>_. None)" "sr_store rd = None"
  shows "\<exists>gw'. commit_close ctx rd sid gw = (Inr claim, gw')"
proof -
  have k: "is_closing m sid" using close_session_closing [OF assms(1)] .
  have "\<exists>nxt gw1. close_and_prepare ctx rd sid gw = (Inr (claim, nxt), gw1) \<and> in_rotation (gw_life gw1)"
  proof (cases "blocked_identity ctx m")
    case None
    obtain ns ch where "create_session ctx m (sr_open_tick rd) (sr_new_id rd) None = Inr (ns, ch)"
      using open_session_total None by (fastforce simp: create_session_def)
    with None k assms show ?thesis
      by (simp add: close_and_prepare_def mark_close_committed_def in_rotation_def put_chain_def Let_def)
  next
    case (Some a)
    with k assms show ?thesis
      by (simp add: close_and_prepare_def mark_close_committed_def in_rotation_def put_chain_def Let_def)
  qed
  then obtain nxt gw1 where "close_and_prepare ctx rd sid gw = (Inr (claim, nxt), gw1)" "in_rotation (gw_life gw1)" by blast
  then show ?thesis
    using adopt_successor_total [OF _ assms(4)] assms(2) by (fastforce simp: commit_close_def)
qed

theorem committed_close_outcome_witness:
  "\<exists>c claim gw'. commit_close sample_ctx sample_reading ''s'' (sample_gateway c sample_manager) = (Inr claim, gw')
     \<and> map_of (sm_closed_claims (gw_manager gw')) ''s'' = Some claim \<and> map_of (gw_closed_chains gw') ''s'' = Some 0"
proof -
  obtain c n where c: "chain_reachable pad32 c" "ch_session_report c = Some (hw_report n)" "ch_store c = None"
    by (rule sample_session) blast
  let ?gw = "sample_gateway c sample_manager"
  obtain claim m s c' where cl: "close_session sample_ctx (sr_close sample_reading) (gw_manager ?gw) ''s'' (gw_session ?gw) (chain_of ?gw)
      (gw_call_log ?gw) (gw_session_call_log ?gw) = (Inr claim, m, s, c')"
    using sample_closes [OF c, of "new_session_state ''s'' Map.empty"] by (auto simp: sample_gateway_def sample_reading_def)
  have g: "gw_pending_close ?gw = None" "gw_chain ?gw < length (gw_chains ?gw)" "gw_life ?gw = body_life"
    "in_rotation (gw_life ?gw)" "gw_chain ?gw = 0"
    by (simp_all add: sample_gateway_def in_rotation_def body_life_fields)
  obtain gw' where cc: "commit_close sample_ctx sample_reading ''s'' ?gw = (Inr claim, gw')"
    using commit_close_total [OF cl g(1,4)] by (auto simp: sample_reading_def)
  from committed_close_outcome [OF cc g(1,2)] body_life_fields cc show ?thesis unfolding g(3,5) by blast
qed

theorem retried_close_keeps_claim_witness:
  "\<exists>c gw'. let gw = (sample_gateway c sample_manager)\<lparr>gw_pending_close := Some (''s'', [(''gateway'', JNull)], None)\<rparr> in
     commit_close sample_ctx sample_reading ''s'' gw = (Inr [(''gateway'', JNull)], gw') \<and> gw_manager gw' = gw_manager gw"
proof -
  fix c
  let ?gw = "(sample_gateway c sample_manager)\<lparr>gw_pending_close := Some (''s'', [(''gateway'', JNull)], None)\<rparr>"
  have p: "gw_pending_close ?gw = Some (''s'', [(''gateway'', JNull)], None)" by simp
  have "in_rotation (gw_life ?gw)" by (simp add: sample_gateway_def in_rotation_def body_life_fields)
  then obtain gw' where "adopt_successor sample_ctx sample_reading [(''gateway'', JNull)] None ?gw = (Inr [(''gateway'', JNull)], gw')"
    using adopt_successor_total by (fastforce simp: sample_reading_def)
  then have cc: "commit_close sample_ctx sample_reading ''s'' ?gw = (Inr [(''gateway'', JNull)], gw')"
    by (simp add: commit_close_def)
  from retried_close_keeps_claim [OF p cc] cc
  have "let gw = ?gw in commit_close sample_ctx sample_reading ''s'' gw = (Inr [(''gateway'', JNull)], gw') \<and> gw_manager gw' = gw_manager gw"
    by (simp add: Let_def)
  then show ?thesis by blast
qed

text \<open>A manager in which the gateway's identity and another one are blocked.\<close>

definition blocked_manager :: session_manager where
  "blocked_manager = sample_manager\<lparr>sm_kill_switch :=
     ks_block sample_time (ks_block sample_time (sm_kill_switch sample_manager) ''spiffe://a'' ''operator'') ''spiffe://b'' ''operator''\<rparr>"

lemma sample_identity: "rc_agent_manifest sample_ctx = Some sample_binding" "ab_agent_id sample_binding = ''spiffe://a''"
  by (simp_all add: sample_ctx_def sample_binding_def)

lemma blocked_manager_blocks: "ks_is_blocked (sm_kill_switch blocked_manager) x \<longleftrightarrow> x = ''spiffe://a'' \<or> x = ''spiffe://b''"
proof -
  have "\<not> ks_is_blocked (sm_kill_switch sample_manager) x"
    by (simp add: sample_manager_def new_session_manager_def ks_is_blocked_def new_kill_switch_def store_is_blocked_def)
  then show ?thesis by (auto simp: blocked_manager_def)
qed

lemma unblock_blocked_manager:
  "unblock_identity blocked_manager a = (was, m) \<Longrightarrow> was = (a = ''spiffe://a'' \<or> a = ''spiffe://b'')
     \<and> blocked_identity sample_ctx m = (if a = ''spiffe://a'' then None else Some ''spiffe://a'')"
  using unblock_identity_fields [of blocked_manager a was m]
  by (auto simp: blocked_manager_blocks blocked_identity_def sample_identity ks_is_blocked_unblock)

lemma sample_append:
  assumes "chain_reachable pad32 c" "ch_store c = None"
  shows "\<exists>c' e. chain_append (cy_sha256 (rc_crypto sample_ctx)) tk c args = Inr (c', e)"
  using chain_append_total [OF chain_reachable_inv [OF assms(1)]] assms(2) by (simp add: sample_sha256)

theorem unblock_extends_closed_chain_witness:
  "\<exists>c gw' e. let gw = (sample_gateway c blocked_manager)\<lparr>gw_closed_chains := [(''s'', 0)]\<rparr> in
     kill_switch_unblock sample_ctx sample_reading (sample_tick ''u3'') ''spiffe://b'' ''why'' ''who'' ''cred'' gw = (Inr (Inr ''s''), gw')
     \<and> ch_entries (gw_chains gw' ! 0) = ch_entries c @ [e]"
proof -
  obtain c where c: "chain_reachable pad32 c" "ch_store c = None" by (rule sample_session) blast
  let ?gw = "(sample_gateway c blocked_manager)\<lparr>gw_closed_chains := [(''s'', 0)]\<rparr>"
  obtain was m where u: "unblock_identity blocked_manager ''spiffe://b'' = (was, m)" by fastforce
  note b = unblock_blocked_manager [OF u]
  have f: "gw_manager ?gw = blocked_manager" "gw_chains ?gw = [c]" "gw_chain ?gw = 0" "ss_session_id (gw_session ?gw) = ''s''"
    by (simp_all add: sample_gateway_def new_session_state_def)
  have "\<exists>gw'. record_unblock sample_ctx (sample_tick ''u3'') ''spiffe://b'' ''why'' ''who'' ''cred'' (?gw\<lparr>gw_manager := m\<rparr>)
      = (Inr (Inr ''s''), gw')"
    using sample_append [OF c, of "sample_tick ''u3''" "(entry_defaults Break_glass_used)\<lparr>ea_detail := Some
         [(''reason'', JStr ''kill_switch_unblocked''), (''agent_id'', JStr ''spiffe://b''), (''operator_reason'', JStr ''why''),
          (''authorized_by'', JStr ''who''), (''credential_verified'', JStr ''cred'')]\<rparr>"] f
    by (auto simp: record_unblock_def)
  then obtain gw' where r: "kill_switch_unblock sample_ctx sample_reading (sample_tick ''u3'') ''spiffe://b'' ''why'' ''who'' ''cred'' ?gw
      = (Inr (Inr ''s''), gw')"
    using u b f(1) by (auto simp: kill_switch_unblock_def Let_def)
  have "blocked_identity sample_ctx (snd (unblock_identity (gw_manager ?gw) ''spiffe://b'')) \<noteq> None" using u b f(1) by simp
  from unblock_extends_closed_chain [OF r this] f have "\<exists>e. ch_entries (gw_chains gw' ! 0) = ch_entries c @ [e]" by simp
  with r show ?thesis unfolding Let_def by blast
qed

theorem pending_close_survives_unblock_witness:
  "\<exists>c gw'. let gw = (sample_gateway c blocked_manager)\<lparr>gw_closed_chains := [(''s'', 0)],
         gw_pending_close := Some (''s'', [], None), gw_life := mark_halted ''spiffe://a'' body_life\<rparr> in
     kill_switch_unblock sample_ctx sample_reading (sample_tick ''u3'') ''spiffe://a'' ''why'' ''who'' ''cred'' gw = (Inr (Inr ''t''), gw')
     \<and> commit_close sample_ctx sample_reading ''t'' gw' = (Inl (Close_pending ''s''), gw')"
proof -
  fix c
  let ?gw = "(sample_gateway c blocked_manager)\<lparr>gw_closed_chains := [(''s'', 0)],
         gw_pending_close := Some (''s'', [], None), gw_life := mark_halted ''spiffe://a'' body_life\<rparr>"
  obtain was m where u: "unblock_identity blocked_manager ''spiffe://a'' = (was, m)" by fastforce
  note b = unblock_blocked_manager [OF u]
  obtain ns ch where o: "open_session sample_ctx m (sample_tick ''u5'') ''t'' None = Inr (ns, ch)" using open_session_total by blast
  then have cs: "create_session sample_ctx m (sample_tick ''u5'') ''t'' None = Inr (ns, ch)" using b by (simp add: create_session_def)
  have nid: "ss_session_id ns = ''t''"
    using o by (auto simp: open_session_def new_session_state_def split: sum.splits)
  have ch: "chain_reachable pad32 ch" using open_session_reachable [OF o] by (simp add: sample_tick_def sample_sha256)
  have st: "ch_store ch = None"
    using o by (auto simp: open_session_def new_chain_def bind_result_eq_Inr bind_session_report_def set_tee_anchor_ok set_session_report_def
        elim!: chain_append_cases split: sum.splits provider_answer.splits)
  obtain life where life: "resume_session ''t'' (Some (\<lambda>_. None)) (mark_halted ''spiffe://a'' body_life) = (None, life)"
    using resume_reopens [of "mark_halted ''spiffe://a'' body_life" "''t''"] body_life_fields by (auto simp: mark_halted_def)
  obtain ch' e where ap: "chain_append (cy_sha256 (rc_crypto sample_ctx)) (sample_tick ''u3'') ch ((entry_defaults Break_glass_used)\<lparr>ea_detail := Some
         [(''reason'', JStr ''kill_switch_unblocked''), (''agent_id'', JStr ''spiffe://a''), (''operator_reason'', JStr ''why''),
          (''authorized_by'', JStr ''who''), (''credential_verified'', JStr ''cred'')]\<rparr>) = Inr (ch', e)"
    using sample_append [OF ch st] by blast
  have f: "gw_manager ?gw = blocked_manager" "gw_chains ?gw = [c]" "ss_session_id (gw_session ?gw) = ''s''"
    by (simp_all add: sample_gateway_def new_session_state_def)
  have "\<exists>gw'. kill_switch_unblock sample_ctx sample_reading (sample_tick ''u3'') ''spiffe://a'' ''why'' ''who'' ''cred'' ?gw = (Inr (Inr ''t''), gw')"
    using u b cs life ap nid f
    by (simp add: kill_switch_unblock_def record_unblock_def sample_reading_def mark_halted_def)
  then obtain gw' where r: "kill_switch_unblock sample_ctx sample_reading (sample_tick ''u3'') ''spiffe://a'' ''why'' ''who'' ''cred'' ?gw = (Inr (Inr ''t''), gw')" ..
  from pending_close_survives_unblock [OF r, of "''s''" "[]" None sample_reading] r show ?thesis by (auto simp: Let_def)
qed


theorem reset_is_a_boundary_witness:
  "\<exists>c ended gw' st. session_reset sample_ctx InMemorySessionStateStore (Some (\<lambda>_. None)) sample_time (sample_tick ''u3'') ''n'' ''cred'' ''s'' None
       (sample_gateway c sample_manager) = (Inr (Inr (''s'', ''n'', ended)), gw', st)
     \<and> ss_session_id (gw_session gw') = ''n'' \<and> ch_session_id (chain_of gw') = ''n''"
proof -
  obtain c where c: "chain_reachable pad32 c" "ch_store c = None" by (rule sample_session) blast
  let ?gw = "sample_gateway c sample_manager"
  obtain life where life: "aclose (Some (\<lambda>_. None)) body_life = (None, life)" using sample_cleanup by blast
  have f: "gw_life ?gw = body_life" "gw_session ?gw = new_session_state ''s'' Map.empty" "gw_chains ?gw = [c]" "gw_chain ?gw = 0"
    by (simp_all add: sample_gateway_def)
  have "\<exists>ended gw' st. session_reset sample_ctx InMemorySessionStateStore (Some (\<lambda>_. None)) sample_time (sample_tick ''u3'') ''n'' ''cred'' ''s'' None ?gw
      = (Inr (Inr (''s'', ''n'', ended)), gw', st)"
    using life f sample_append [OF c, of "sample_tick ''u3''"]
    by (auto simp: session_reset_def apply_reset_def reset_session_def new_session_state_def Let_def split: sum.splits) (metis Inl_Inr_False)
  then obtain ended gw' st where r: "session_reset sample_ctx InMemorySessionStateStore (Some (\<lambda>_. None)) sample_time (sample_tick ''u3'') ''n'' ''cred'' ''s'' None ?gw
      = (Inr (Inr (''s'', ''n'', ended)), gw', st)" by blast
  from reset_is_a_boundary [OF r] f r show ?thesis by auto
qed

end
