(* ===== verification/Regex.thy ===== *)
theory Regex
  imports Catalog
begin

text \<open>
  The part of Python's \<open>re\<close> module the scanners use: \<open>search\<close>, whose answer is only
  whether some place of the text matches. \<open>ends\<close> computes every place a match
  can end at, \<open>search\<close> tries every start, and the inductive \<open>matches\<close> is the
  meaning both are proved against. A place is the character before it, which
  a word boundary looks at, and the text after it.
\<close>

datatype regex =
    Eps
  | Cls "char \<Rightarrow> bool"
  | Seq regex regex
  | Alt regex regex
  | Star regex
  | Word_boundary

type_synonym place = "char option \<times> string"

definition before_word :: "place \<Rightarrow> bool" where
  "before_word p = (case fst p of Some c \<Rightarrow> word_char c | None \<Rightarrow> False)"

definition after_word :: "place \<Rightarrow> bool" where
  "after_word p = (case snd p of c # _ \<Rightarrow> word_char c | [] \<Rightarrow> False)"

definition at_boundary :: "place \<Rightarrow> bool" where
  "at_boundary p \<longleftrightarrow> before_word p \<noteq> after_word p"

function (sequential) ends :: "regex \<Rightarrow> place \<Rightarrow> place list" where
  "ends Eps p = [p]"
| "ends (Cls f) p = (case snd p of [] \<Rightarrow> [] | c # s \<Rightarrow> if f c then [(Some c, s)] else [])"
| "ends (Seq a b) p = remdups (concat (map (ends b) (ends a p)))"
| "ends (Alt a b) p = remdups (ends a p @ ends b p)"
| "ends (Star a) p =
     remdups (p # concat (map (ends (Star a)) (filter (\<lambda>q. length (snd q) < length (snd p)) (ends a p))))"
| "ends Word_boundary p = (if at_boundary p then [p] else [])"
  by pat_completeness auto
termination
  by (relation "measures [\<lambda>(r, p). size r, \<lambda>(r, p). length (snd p)]") auto

declare ends.simps(5) [simp del]

fun places :: "place \<Rightarrow> place list" where
  "places (pr, []) = [(pr, [])]"
| "places (pr, c # s) = (pr, c # s) # places (Some c, s)"

definition search :: "regex \<Rightarrow> string \<Rightarrow> bool" where
  "search r s = list_ex (\<lambda>p. ends r p \<noteq> []) (places (None, s))"

section \<open>Ways to write a pattern\<close>

primrec repeat :: "nat \<Rightarrow> regex \<Rightarrow> regex" where
  "repeat 0 r = Eps"
| "repeat (Suc n) r = Seq r (repeat n r)"

definition Opt :: "regex \<Rightarrow> regex" where
  "Opt r = Alt r Eps"

definition at_least :: "nat \<Rightarrow> regex \<Rightarrow> regex" where
  "at_least n r = Seq (repeat n r) (Star r)"

fun seq :: "regex list \<Rightarrow> regex" where
  "seq [] = Eps"
| "seq (r # rs) = Seq r (seq rs)"

fun alts :: "regex list \<Rightarrow> regex" where
  "alts [] = Cls (\<lambda>_. False)"
| "alts (r # rs) = Alt r (alts rs)"

definition one_of :: "string \<Rightarrow> regex" where
  "one_of cs = Cls (\<lambda>c. c \<in> set cs)"

definition none_of :: "string \<Rightarrow> regex" where
  "none_of cs = Cls (\<lambda>c. c \<notin> set cs)"

definition lit :: "string \<Rightarrow> regex" where
  "lit s = seq (map (\<lambda>c. Cls (\<lambda>d. d = c)) s)"

text \<open>A literal under \<open>re.IGNORECASE\<close>, written in lower case.\<close>

definition lit_i :: "string \<Rightarrow> regex" where
  "lit_i s = seq (map (\<lambda>c. Cls (\<lambda>d. lower_char d = c)) s)"

definition word_i :: "string list \<Rightarrow> regex" where
  "word_i ws = alts (map lit_i ws)"

definition digit :: regex where "digit = Cls is_digit"

definition space :: regex where "space = Cls str_space"

definition any_but_newline :: regex where "any_but_newline = Cls (\<lambda>c. c \<noteq> CHR 0x0A)"

definition between :: "nat \<Rightarrow> nat \<Rightarrow> char \<Rightarrow> bool" where
  "between lo hi c \<longleftrightarrow> lo \<le> (of_char c :: nat) \<and> (of_char c :: nat) \<le> hi"

definition ascii_alnum :: "char \<Rightarrow> bool" where
  "ascii_alnum c \<longleftrightarrow> between 48 57 c \<or> between 65 90 c \<or> between 97 122 c"

section \<open>Meaning\<close>

inductive matches :: "regex \<Rightarrow> place \<Rightarrow> place \<Rightarrow> bool" where
  eps: "matches Eps p p"
| cls: "f c \<Longrightarrow> matches (Cls f) (pr, c # s) (Some c, s)"
| seq: "matches a p q \<Longrightarrow> matches b q r \<Longrightarrow> matches (Seq a b) p r"
| alt_left: "matches a p q \<Longrightarrow> matches (Alt a b) p q"
| alt_right: "matches b p q \<Longrightarrow> matches (Alt a b) p q"
| star_done: "matches (Star a) p p"
| star_more: "matches a p q \<Longrightarrow> matches (Star a) q r \<Longrightarrow> matches (Star a) p r"
| boundary: "at_boundary p \<Longrightarrow> matches Word_boundary p p"

inductive_simps matches_simps:
  "matches Eps p q" "matches (Cls f) p q" "matches (Seq a b) p q" "matches (Alt a b) p q" "matches Word_boundary p q"

text \<open>Where a match of \<open>w\<close> leaves the place.\<close>

definition advance :: "string \<Rightarrow> char option \<Rightarrow> char option" where
  "advance w pr = (if w = [] then pr else Some (last w))"

lemma matches_consumes: "matches r p q \<Longrightarrow> \<exists>w. snd p = w @ snd q \<and> fst q = advance w (fst p)"
proof (induction rule: matches.induct)
  case (seq a p q b r)
  then obtain v w where "snd p = v @ snd q" "fst q = advance v (fst p)" "snd q = w @ snd r" "fst r = advance w (fst q)"
    by auto
  then show ?case by (intro exI [of _ "v @ w"]) (simp add: advance_def)
next
  case (star_more a p q r)
  then obtain v w where "snd p = v @ snd q" "fst q = advance v (fst p)" "snd q = w @ snd r" "fst r = advance w (fst q)"
    by auto
  then show ?case by (intro exI [of _ "v @ w"]) (simp add: advance_def)
qed (auto simp: advance_def)

lemma matches_length: "matches r p q \<Longrightarrow> length (snd q) \<le> length (snd p)"
  using matches_consumes by fastforce

lemma matches_stuck: "matches r p q \<Longrightarrow> \<not> length (snd q) < length (snd p) \<Longrightarrow> q = p"
  using matches_consumes [of r p q] by (cases p; cases q) (auto simp: advance_def)

lemma star_progress:
  assumes "matches (Star a) p r"
  shows "r = p \<or> (\<exists>q. matches a p q \<and> length (snd q) < length (snd p) \<and> matches (Star a) q r)"
  using assms
proof (induction "Star a" p r rule: matches.induct)
  case (star_more p q r)
  then show ?case using matches_stuck by (cases "length (snd q) < length (snd p)") blast+
qed simp

lemma ends_star: "q \<in> set (ends (Star a) p) \<longleftrightarrow>
    q = p \<or> (\<exists>d\<in>set (ends a p). length (snd d) < length (snd p) \<and> q \<in> set (ends (Star a) d))"
  by (subst ends.simps(5)) (simp only: set_remdups set_simps set_concat set_map set_filter, blast)

lemma ends_iff: "q \<in> set (ends r p) \<longleftrightarrow> matches r p q"
proof (induction r p arbitrary: q rule: ends.induct)
  case (2 f p)
  then show ?case by (cases p) (auto simp: matches_simps split: list.splits)
next
  case (5 a p)
  have "q \<in> set (ends (Star a) d) \<longleftrightarrow> matches (Star a) d q" if "d \<in> set (ends a p)" "length (snd d) < length (snd p)" for d
    using "5.IH"(2) that by simp
  then have "q \<in> set (ends (Star a) p) \<longleftrightarrow>
      q = p \<or> (\<exists>d. matches a p d \<and> length (snd d) < length (snd p) \<and> matches (Star a) d q)"
    using ends_star [of q a p] "5.IH"(1) by blast
  also have "\<dots> \<longleftrightarrow> matches (Star a) p q" using star_progress [of a p q] by (blast intro: star_done star_more)
  finally show ?case .
qed (auto simp: matches_simps)

lemma places_iff: "q \<in> set (places p) \<longleftrightarrow> (\<exists>u. snd p = u @ snd q \<and> fst q = advance u (fst p))"
proof (induction p rule: places.induct)
  case (1 pr)
  then show ?case by (cases q) (auto simp: advance_def)
next
  case (2 pr c s)
  have "(\<exists>u. c # s = u @ snd q \<and> fst q = advance u pr) \<longleftrightarrow>
      q = (pr, c # s) \<or> (\<exists>u. s = u @ snd q \<and> fst q = advance u (Some c))" (is "?l \<longleftrightarrow> ?r")
  proof
    assume ?l
    then obtain u where u: "c # s = u @ snd q" "fst q = advance u pr" by blast
    then show ?r by (cases u; cases q) (auto simp: advance_def)
  next
    assume ?r
    then show ?l
    proof
      assume "q = (pr, c # s)"
      then show ?l by (intro exI [of _ "[]"]) (simp add: advance_def)
    next
      assume "\<exists>u. s = u @ snd q \<and> fst q = advance u (Some c)"
      then obtain u where "s = u @ snd q" "fst q = advance u (Some c)" by blast
      then show ?l by (intro exI [of _ "c # u"]) (simp add: advance_def)
    qed
  qed
  then show ?case using 2 by auto
qed

text \<open>\<open>search\<close> answers yes exactly when some part of the text matches the pattern where it stands.\<close>

theorem search_iff:
  "search r s \<longleftrightarrow> (\<exists>u v w. s = u @ v @ w \<and> matches r (advance u None, v @ w) (advance (u @ v) None, w))"
  (is "_ \<longleftrightarrow> ?r")
proof
  assume "search r s"
  then obtain p q where p: "p \<in> set (places (None, s))" and q: "matches r p q"
    by (auto simp: search_def list_ex_iff neq_Nil_conv ends_iff [symmetric]) (metis list.set_intros(1) surj_pair)
  obtain u where u: "s = u @ snd p" "fst p = advance u None" using p by (auto simp: places_iff)
  obtain v where v: "snd p = v @ snd q" "fst q = advance v (fst p)" using matches_consumes [OF q] by blast
  have "p = (advance u None, v @ snd q)" "q = (advance (u @ v) None, snd q)"
    using u v by (auto simp: advance_def prod_eq_iff)
  with q u v show ?r by metis
next
  assume ?r
  then obtain u v w where s: "s = u @ v @ w" and m: "matches r (advance u None, v @ w) (advance (u @ v) None, w)" by blast
  have "(advance u None, v @ w) \<in> set (places (None, s))" using s by (auto simp: places_iff)
  with m [folded ends_iff] show "search r s" by (force simp: search_def list_ex_iff)
qed

text \<open>A pattern without a word boundary does not look around: what it matches in a part of a text it
  matches in the whole text.\<close>

fun boundary_free :: "regex \<Rightarrow> bool" where
  "boundary_free (Seq a b) \<longleftrightarrow> boundary_free a \<and> boundary_free b"
| "boundary_free (Alt a b) \<longleftrightarrow> boundary_free a \<and> boundary_free b"
| "boundary_free (Star a) \<longleftrightarrow> boundary_free a"
| "boundary_free Word_boundary \<longleftrightarrow> False"
| "boundary_free _ \<longleftrightarrow> True"

lemma matches_anywhere:
  "matches r p q \<Longrightarrow> boundary_free r \<Longrightarrow> \<exists>w pr''. snd p = w @ snd q \<and> matches r (pr', w @ t) (pr'', t)"
proof (induction arbitrary: pr' t rule: matches.induct)
  case (seq a p q b r)
  then obtain w where w: "snd q = w @ snd r" by (metis boundary_free.simps(1))
  obtain v pr1 where v: "snd p = v @ snd q" "matches a (pr', v @ w @ t) (pr1, w @ t)"
    using seq.IH(1) [of pr' "w @ t"] seq.prems by auto
  obtain w' pr2 where w': "snd q = w' @ snd r" "matches b (pr1, w' @ t) (pr2, t)"
    using seq.IH(2) [of pr1 t] seq.prems by auto
  then have "w' = w" using w by simp
  then show ?case using v w' by (intro exI [of _ "v @ w"]) (auto intro: matches.seq)
next
  case (star_more a p q r)
  then obtain w where w: "snd q = w @ snd r" by blast
  obtain v pr1 where v: "snd p = v @ snd q" "matches a (pr', v @ w @ t) (pr1, w @ t)"
    using star_more.IH(1) [of pr' "w @ t"] star_more.prems by auto
  obtain w' pr2 where w': "snd q = w' @ snd r" "matches (Star a) (pr1, w' @ t) (pr2, t)"
    using star_more.IH(2) [of pr1 t] star_more.prems by auto
  then have "w' = w" using w by simp
  then show ?case using v w' by (intro exI [of _ "v @ w"]) (auto intro: matches.star_more)
next
  case (cls f c pr s)
  then show ?case by (intro exI [of _ "[c]"]) (auto intro: matches.cls)
next
  case (alt_left a p q b)
  then show ?case by (metis boundary_free.simps(2) matches.alt_left)
next
  case (alt_right b p q a)
  then show ?case by (metis boundary_free.simps(2) matches.alt_right)
qed (auto intro: matches.intros)

lemma search_part:
  assumes "search r v" "boundary_free r"
  shows "search r (u @ v @ w)"
proof -
  obtain a b c where v: "v = a @ b @ c" and m: "matches r (advance a None, b @ c) (advance (a @ b) None, c)"
    using assms(1) by (auto simp: search_iff)
  obtain b' pr where b': "b @ c = b' @ c" "matches r (advance (u @ a) None, b' @ c @ w) (pr, c @ w)"
    using matches_anywhere [OF m assms(2), of "advance (u @ a) None" "c @ w"] by auto
  have "pr = advance (u @ a @ b) None"
    using matches_consumes [OF b'(2)] b'(1) by (auto simp: advance_def split: if_splits)
  then have "u @ v @ w = (u @ a) @ b @ (c @ w) \<and>
      matches r (advance (u @ a) None, b @ c @ w) (advance ((u @ a) @ b) None, c @ w)"
    using b' v by simp
  then show ?thesis unfolding search_iff by blast
qed

lemma boundary_free_build [simp]:
  "boundary_free (seq rs) \<longleftrightarrow> list_all boundary_free rs"
  "boundary_free (alts rs) \<longleftrightarrow> list_all boundary_free rs"
  "boundary_free (repeat n r) \<longleftrightarrow> n = 0 \<or> boundary_free r"
  "boundary_free (at_least n r) \<longleftrightarrow> boundary_free r"
  "boundary_free (Opt r) \<longleftrightarrow> boundary_free r"
  "boundary_free (lit s)" "boundary_free (lit_i s)" "boundary_free (word_i ws)"
  "boundary_free (one_of s)" "boundary_free (none_of s)" "boundary_free space"
proof -
  show seqs: "boundary_free (seq rs) \<longleftrightarrow> list_all boundary_free rs" for rs by (induction rs) auto
  show alts: "boundary_free (alts rs) \<longleftrightarrow> list_all boundary_free rs" for rs by (induction rs) auto
  show rep: "boundary_free (repeat n r) \<longleftrightarrow> n = 0 \<or> boundary_free r" by (induction n) auto
  show "boundary_free (at_least n r) \<longleftrightarrow> boundary_free r" by (auto simp: at_least_def rep)
  show "boundary_free (Opt r) \<longleftrightarrow> boundary_free r" by (simp add: Opt_def)
  show "boundary_free (lit s)" "boundary_free (lit_i s)" for s
    by (simp_all add: lit_def lit_i_def seqs list_all_iff)
  then show "boundary_free (word_i ws)" by (simp add: word_i_def alts list_all_iff)
qed (simp_all add: one_of_def none_of_def space_def)

end
