(* ===== verification/Runtime_Gateway.thy ===== *)
theory Runtime_Gateway
  imports Regex
begin

text \<open>
  The runtime gateway controls (\<open>runtime_gateway.py\<close>): the allow list, the call
  budget, the dangerous-parameter patterns and the response scanner, with the
  patterns of the source written out as regular expressions. A custom scanner
  may raise; \<open>None\<close> is that.
\<close>

section \<open>Patterns\<close>

definition SSN :: regex where
  "SSN = seq [Word_boundary, repeat 3 digit, lit ''-'', repeat 2 digit, lit ''-'', repeat 4 digit, Word_boundary]"

definition DANGEROUS_ARGUMENT_PATTERNS :: "regex list" where
  "DANGEROUS_ARGUMENT_PATTERNS =
     [SSN,
      seq [Word_boundary, repeat 4 digit, Opt (one_of ''- ''), repeat 4 digit, Opt (one_of ''- ''), repeat 4 digit,
           Opt (one_of ''- ''), repeat 4 digit, Word_boundary],
      seq [lit '';'', Star space, word_i [''rm'', ''del'', ''format'', ''mkfs''], Word_boundary],
      seq [lit ''$('', Star any_but_newline, lit '')''],
      seq [lit ''`'', at_least 1 (none_of ''`''), lit ''`'']]"

definition INJECTION_PATTERNS :: "regex list" where
  "INJECTION_PATTERNS =
     [seq [lit ''<'', word_i [''important'', ''system'', ''instruction'', ''instructions'', ''hidden'', ''inject'', ''admin'',
             ''override'', ''prompt'', ''context'', ''role''], Word_boundary, Star (none_of ''>''), lit ''>''],
      seq [lit ''['', word_i [''system'', ''admin'', ''instruction'', ''instructions''], lit '']''],
      seq [lit_i ''ignore'', at_least 1 space, Opt (Seq (lit_i ''all'') (at_least 1 space)), lit_i ''previous'', at_least 1 space,
           word_i [''instruction'', ''instructions'', ''context'', ''rule'', ''rules'']],
      seq [word_i [''forget'', ''disregard'', ''override''], at_least 1 space, Opt (Seq (lit_i ''all'') (at_least 1 space)),
           word_i [''previous'', ''above'', ''prior'', ''earlier'']],
      seq [Word_boundary, lit_i ''execute'', at_least 1 space, lit_i ''this'', Word_boundary],
      seq [Word_boundary, lit_i ''you'', at_least 1 space, lit_i ''are'', at_least 1 space, lit_i ''now'', Word_boundary],
      seq [Word_boundary, lit_i ''new'', at_least 1 space, word_i [''role'', ''instruction'', ''directive'', ''persona''],
           Star space, lit '':''],
      seq [Word_boundary, lit_i ''from'', at_least 1 space, lit_i ''now'', at_least 1 space, lit_i ''on'', Word_boundary],
      seq [Word_boundary, lit_i ''do'', at_least 1 space, lit_i ''not'', at_least 1 space, word_i [''follow'', ''obey'', ''listen''],
           Word_boundary]]"

definition CREDENTIAL_PATTERNS :: "regex list" where
  "CREDENTIAL_PATTERNS =
     [seq [lit ''AKIA'', repeat 16 (Cls (\<lambda>c. between 48 57 c \<or> between 65 90 c))],
      seq [lit ''AIza'', repeat 35 (Cls (\<lambda>c. ascii_alnum c \<or> c \<in> {CHR ''-'', CHR ''_''}))],
      seq [lit ''gh'', one_of ''pousr'', lit ''_'', at_least 20 (Cls (\<lambda>c. ascii_alnum c \<or> c = CHR ''_''))],
      seq [lit ''sk-'', at_least 20 (Cls ascii_alnum)],
      seq [lit ''-----BEGIN '', Opt (alts [lit ''RSA '', lit ''EC '', lit ''OPENSSH '']), lit ''PRIVATE KEY-----'']]"

definition PII_PATTERNS :: "regex list" where
  "PII_PATTERNS =
     [SSN,
      seq [Word_boundary,
           Alt (Seq (lit ''4'') (repeat 3 digit)) (seq [lit ''5'', Cls (between 49 53), repeat 2 digit]),
           Opt (Cls (\<lambda>c. str_space c \<or> c = CHR ''-'')), repeat 4 digit, Opt (Cls (\<lambda>c. str_space c \<or> c = CHR ''-'')), repeat 4 digit,
           Opt (Cls (\<lambda>c. str_space c \<or> c = CHR ''-'')), repeat 4 digit, Word_boundary],
      seq [Word_boundary, at_least 1 (Cls (\<lambda>c. ascii_alnum c \<or> c \<in> set ''._%+-'')), lit ''@'',
           at_least 1 (Cls (\<lambda>c. ascii_alnum c \<or> c \<in> set ''.-'')), lit ''.'',
           at_least 2 (Cls (\<lambda>c. between 65 90 c \<or> between 97 122 c)), Word_boundary]]"

definition EXFILTRATION_PATTERN :: regex where
  "EXFILTRATION_PATTERN =
     alts [seq [lit_i ''api'', Opt (one_of ''_-''), lit_i ''key''], lit_i ''token'', lit_i ''secret'', lit_i ''payload'', lit_i ''data'',
           lit_i ''dump'', lit_i ''upload'', lit_i ''exfil'', lit_i ''webhook'', lit_i ''webhook.site'', lit_i ''requestbin'',
           lit_i ''pastebin'', lit_i ''ngrok'', lit_i ''transfer.sh'']"

section \<open>Response scanner\<close>

text \<open>\<open>_URL_PATTERN.finditer\<close>: the scheme without case, then the longest run of url characters.\<close>

definition url_char :: "char \<Rightarrow> bool" where
  "url_char c \<longleftrightarrow> \<not> str_space c \<and> c \<notin> set (''<>'' @ [CHR 0x27, dquote])"

definition url_at :: "string \<Rightarrow> string option" where
  "url_at s =
     (case find (\<lambda>p. str_lower (take (length p) s) = p) [''https://'', ''http://''] of
        None \<Rightarrow> None
      | Some p \<Rightarrow>
          let run = takeWhile url_char (drop (length p) s) in
          if run = [] then None else Some (take (length p) s @ run))"

lemma url_at_nonempty: "url_at s = Some u \<Longrightarrow> u \<noteq> []"
  by (auto simp: url_at_def Let_def split: option.splits if_splits)

function urls :: "string \<Rightarrow> string list" where
  "urls [] = []"
| "urls (c # s) = (case url_at (c # s) of Some u \<Rightarrow> u # urls (drop (length u) (c # s)) | None \<Rightarrow> urls s)"
  by pat_completeness auto
termination
proof (relation "measure length")
  fix c s u
  assume "url_at (c # s) = Some u"
  then have "u \<noteq> []" by (rule url_at_nonempty)
  then show "(drop (length u) (c # s), c # s) \<in> measure length" by (cases u) (auto simp: less_Suc_eq_le)
qed auto

type_synonym threat = "string \<times> string"

definition scan_response :: "string \<Rightarrow> threat list" where
  "scan_response content =
     (if content = [] then []
      else map (\<lambda>_. (''prompt_injection'', ''Instruction detected'')) (filter (\<lambda>p. search p content) INJECTION_PATTERNS)
        @ map (\<lambda>_. (''credential_leak'', ''Credential detected'')) (filter (\<lambda>p. search p content) CREDENTIAL_PATTERNS)
        @ map (\<lambda>_. (''pii_leak'', ''PII detected'')) (filter (\<lambda>p. search p content) PII_PATTERNS)
        @ map (\<lambda>_. (''data_exfiltration'', ''Exfiltration URL detected'')) (filter (search EXFILTRATION_PATTERN) (urls content)))"

definition MCPResponseScanner :: "string \<Rightarrow> threat list option" where
  "MCPResponseScanner content = Some (scan_response content)"

section \<open>Gateway\<close>

record governance_policy =
  gp_allowed_tools :: "string list"
  gp_max_tool_calls :: int

text \<open>The defaults of the dataclass, as the proxy builds it.\<close>

definition new_governance_policy :: "string list \<Rightarrow> governance_policy" where
  "new_governance_policy tools = \<lparr>gp_allowed_tools = tools, gp_max_tool_calls = 10\<rparr>"

record mcp_gateway =
  mg_policy :: governance_policy
  mg_counts :: "int dict"

definition new_mcp_gateway :: "governance_policy \<Rightarrow> mcp_gateway" where
  "new_mcp_gateway p = \<lparr>mg_policy = p, mg_counts = Map.empty\<rparr>"

text \<open>\<open>json.dumps\<close> with its default separators and the order of the dictionary.\<close>

fun dumps_spaced :: "json \<Rightarrow> string" where
  "dumps_spaced (JArr vs) = ''['' @ join '', '' (map dumps_spaced vs) @ '']''"
| "dumps_spaced (JObj kvs) = ''{'' @ join '', '' (map (\<lambda>(k, v). json_str k @ '': '' @ dumps_spaced v) kvs) @ ''}''"
| "dumps_spaced v = render v"

definition intercept_tool_call :: "string \<Rightarrow> string \<Rightarrow> (string \<times> json) list \<Rightarrow> mcp_gateway \<Rightarrow> (bool \<times> string) \<times> mcp_gateway" where
  "intercept_tool_call agent_id tool_name params g =
     (if tool_name \<notin> set (gp_allowed_tools (mg_policy g))
      then ((False, ''Tool '' @ [CHR 0x27] @ tool_name @ [CHR 0x27] @ '' is not on the allow list''), g)
      else if list_ex (\<lambda>p. search p (dumps_spaced (JObj params))) DANGEROUS_ARGUMENT_PATTERNS
      then ((False, ''Parameters matched a dangerous pattern''), g)
      else let count = dict_get (mg_counts g) agent_id 0 in
        if count \<ge> gp_max_tool_calls (mg_policy g)
        then ((False, ''Agent '' @ [CHR 0x27] @ agent_id @ [CHR 0x27] @ '' exceeded call budget''), g)
        else ((True, ''Allowed by policy''), g\<lparr>mg_counts := (mg_counts g)(agent_id \<mapsto> count + 1)\<rparr>))"

record response_decision =
  rd_allowed :: bool
  rd_reason :: string
  rd_content :: "string option"
  rd_threats :: "threat list"
  rd_action :: string

definition intercept_tool_response :: "(string \<Rightarrow> threat list option) \<Rightarrow> string \<Rightarrow> response_decision" where
  "intercept_tool_response scanner text =
     (case scanner text of
        None \<Rightarrow> \<lparr>rd_allowed = False, rd_reason = ''Response scanner error - blocked (fail closed)'', rd_content = None,
                 rd_threats = [], rd_action = ''error''\<rparr>
      | Some threats \<Rightarrow>
          if threats \<noteq> [] then
            \<lparr>rd_allowed = False,
             rd_reason = ''Response blocked - '' @ join '', '' (sorted_set (map fst threats)) @ '' detected'',
             rd_content = None, rd_threats = threats, rd_action = ''blocked''\<rparr>
          else \<lparr>rd_allowed = True, rd_reason = ''Response clean'', rd_content = Some text, rd_threats = [],
                rd_action = ''allowed''\<rparr>)"

section \<open>The call budget\<close>

type_synonym intercepted = "string \<times> string \<times> (string \<times> json) list"

fun intercept_calls :: "intercepted list \<Rightarrow> mcp_gateway \<Rightarrow> bool list \<times> mcp_gateway" where
  "intercept_calls [] g = ([], g)"
| "intercept_calls ((a, t, ps) # cs) g =
     (let ((ok, _), g1) = intercept_tool_call a t ps g; (oks, g2) = intercept_calls cs g1 in (ok # oks, g2))"

definition admitted_calls :: "string \<Rightarrow> intercepted list \<Rightarrow> mcp_gateway \<Rightarrow> nat" where
  "admitted_calls agent_id cs g = count_if (\<lambda>(c, ok). fst c = agent_id \<and> ok) (zip cs (fst (intercept_calls cs g)))"

definition dangerous :: "(string \<times> json) list \<Rightarrow> bool" where
  "dangerous params \<longleftrightarrow> list_ex (\<lambda>p. search p (dumps_spaced (JObj params))) DANGEROUS_ARGUMENT_PATTERNS"

definition budget_left :: "string \<Rightarrow> mcp_gateway \<Rightarrow> int" where
  "budget_left agent_id g = gp_max_tool_calls (mg_policy g) - dict_get (mg_counts g) agent_id 0"

lemma intercept_allowed_iff:
  "fst (fst (intercept_tool_call a t ps g)) \<longleftrightarrow>
     t \<in> set (gp_allowed_tools (mg_policy g)) \<and> \<not> dangerous ps \<and> 0 < budget_left a g"
  by (auto simp: intercept_tool_call_def dangerous_def budget_left_def Let_def)

lemma intercept_budget:
  "mg_policy (snd (intercept_tool_call a t ps g)) = mg_policy g"
  "budget_left b (snd (intercept_tool_call a t ps g)) =
     budget_left b g - (if b = a \<and> fst (fst (intercept_tool_call a t ps g)) then 1 else 0)"
  by (simp_all add: intercept_tool_call_def budget_left_def dict_get_def Let_def)

lemma admitted_calls_Cons:
  "admitted_calls agent_id ((a, t, ps) # cs) g =
     (if a = agent_id \<and> fst (fst (intercept_tool_call a t ps g)) then 1 else 0)
     + admitted_calls agent_id cs (snd (intercept_tool_call a t ps g))"
  by (simp add: admitted_calls_def Let_def split: prod.splits)

lemma admitted_calls_bound: "int (admitted_calls agent_id cs g) \<le> max 0 (budget_left agent_id g)"
proof (induction cs arbitrary: g)
  case (Cons c cs)
  obtain a t ps where c: "c = (a, t, ps)" by (cases c)
  let ?hit = "a = agent_id \<and> fst (fst (intercept_tool_call a t ps g))"
  have "int (admitted_calls agent_id cs (snd (intercept_tool_call a t ps g)))
      \<le> max 0 (budget_left agent_id g - (if ?hit then 1 else 0))"
    using Cons [of "snd (intercept_tool_call a t ps g)"] by (simp add: intercept_budget(2) eq_commute [of agent_id])
  moreover have "?hit \<Longrightarrow> 0 < budget_left agent_id g" using intercept_allowed_iff [of a t ps g] by blast
  ultimately show ?case unfolding c admitted_calls_Cons by (auto split: if_splits)
qed (simp add: admitted_calls_def)

text \<open>C39: Of the calls a gateway is asked to admit under one agent identifier, in any order and mixed with others, at
  most as many pass as its budget has left, and at most ten in all on the gateway the proxy builds. A call
  passes exactly when the tool is on the allow list, no dangerous pattern is found in its encoded parameters and
  the budget is not used up; a refused call costs nothing.\<close>

theorem call_budget_bounds_calls:
  "int (admitted_calls agent_id cs g) \<le> max 0 (budget_left agent_id g)
   \<and> admitted_calls agent_id cs (new_mcp_gateway (new_governance_policy tools)) \<le> 10
   \<and> (fst (fst (intercept_tool_call a t ps g)) \<longleftrightarrow>
        t \<in> set (gp_allowed_tools (mg_policy g)) \<and> \<not> dangerous ps \<and> 0 < budget_left a g)
   \<and> (fst (fst (intercept_tool_call a t ps g)) \<or> snd (intercept_tool_call a t ps g) = g)"
proof (intro conjI)
  show "admitted_calls agent_id cs (new_mcp_gateway (new_governance_policy tools)) \<le> 10"
    using admitted_calls_bound [of agent_id cs "new_mcp_gateway (new_governance_policy tools)"]
    by (simp add: budget_left_def new_mcp_gateway_def new_governance_policy_def dict_get_def)
  show "fst (fst (intercept_tool_call a t ps g)) \<or> snd (intercept_tool_call a t ps g) = g"
    by (auto simp: intercept_tool_call_def Let_def)
qed (rule admitted_calls_bound, rule intercept_allowed_iff)

section \<open>The scanner\<close>

lemma intercept_response_allowed_iff:
  "rd_allowed (intercept_tool_response scanner text) \<longleftrightarrow> scanner text = Some []"
  by (auto simp: intercept_tool_response_def split: option.splits)

lemma intercept_response_content:
  "rd_content (intercept_tool_response scanner text) = (if scanner text = Some [] then Some text else None)"
  by (auto simp: intercept_tool_response_def split: option.splits)

lemma intercept_response_threats:
  "rd_allowed (intercept_tool_response scanner text) \<Longrightarrow> rd_threats (intercept_tool_response scanner text) = []"
  by (auto simp: intercept_tool_response_def split: option.splits if_splits)

lemma credential_boundary_free: "p \<in> set CREDENTIAL_PATTERNS \<Longrightarrow> boundary_free p"
  by (auto simp: CREDENTIAL_PATTERNS_def)

text \<open>The response scanner fails closed and is exact: a response passes only unchanged and only if the scanner
  answered with no threat. A credential anywhere in a response, whatever surrounds it, blocks it.\<close>

theorem credential_anywhere_blocks:
  assumes "p \<in> set CREDENTIAL_PATTERNS" "search p v"
  shows "\<not> rd_allowed (intercept_tool_response MCPResponseScanner (u @ v @ w))
    \<and> rd_content (intercept_tool_response MCPResponseScanner (u @ v @ w)) = None
    \<and> (''credential_leak'', ''Credential detected'') \<in> set (rd_threats (intercept_tool_response MCPResponseScanner (u @ v @ w)))"
proof -
  let ?s = "u @ v @ w"
  have found: "search p ?s" using search_part [OF assms(2) credential_boundary_free [OF assms(1)]] .
  have "\<not> search p []" using assms(1) by (auto simp: CREDENTIAL_PATTERNS_def search_def lit_def)
  then have "?s \<noteq> []" using found by metis
  then have "(''credential_leak'', ''Credential detected'') \<in> set (scan_response ?s)"
    using found assms(1) by (auto simp: scan_response_def)
  then show ?thesis
    by (cases "scan_response ?s") (auto simp: intercept_tool_response_def MCPResponseScanner_def)
qed

theorem credential_anywhere_blocks_witness:
  "\<not> rd_allowed (intercept_tool_response MCPResponseScanner (''the key is '' @ ''sk-abcdefghij0123456789'' @ '' ok''))"
proof -
  have s: "search (CREDENTIAL_PATTERNS ! 3) ''sk-abcdefghij0123456789''" by code_simp
  have "CREDENTIAL_PATTERNS ! 3 \<in> set CREDENTIAL_PATTERNS" by (rule nth_mem) (simp add: CREDENTIAL_PATTERNS_def)
  from credential_anywhere_blocks [OF this s] show ?thesis by blast
qed

end
