(* ===== verification/Execution_Registry.thy ===== *)
theory Execution_Registry
  imports Datetime
begin

text \<open>
  The execution registry (\<open>execution/registry.py\<close>): the durable table of
  reserved execution identifiers and its operations, each one transaction
  behind \<open>BEGIN IMMEDIATE\<close>. \<open>fault\<close> says that some statement of the transaction
  or its \<open>COMMIT\<close> raises: the operation then rolls back and raises. Gateways
  that share the file are a sequence of operations on one table, and a restart
  is a \<open>Recover\<close> in it.
\<close>

section \<open>Table and operations\<close>

definition valid_execution_id :: "string \<Rightarrow> bool" where
  "valid_execution_id value \<longleftrightarrow>
     1 \<le> length value \<and> length value \<le> 200 \<and> (\<forall>c\<in>set value. 0x21 \<le> (of_char c :: nat) \<and> (of_char c :: nat) \<le> 0x7e)"

datatype disposition = Completed | Outcome_unknown

datatype execution_state = In_flight | Terminal disposition

record execution_row =
  ex_agent_identity :: string
  ex_execution_id :: string
  ex_action_binding :: string
  ex_state :: execution_state
  ex_call_id :: "string option"
  ex_terminal_audit_entry_hash :: "string option"
  ex_created_utc :: string
  ex_updated_utc :: string

type_synonym execution_key = "string \<times> string"

abbreviation key_of :: "execution_row \<Rightarrow> execution_key" where
  "key_of r \<equiv> (ex_agent_identity r, ex_execution_id r)"

datatype admission_status =
    ADMITTED | REPLAY_IN_FLIGHT | REPLAY_TERMINAL | REPLAY_OUTCOME_UNKNOWN | COLLISION_CHANGED_BINDING

definition admission_value :: "admission_status \<Rightarrow> string" where
  "admission_value st =
     (case st of ADMITTED \<Rightarrow> ''admitted'' | REPLAY_IN_FLIGHT \<Rightarrow> ''replay_in_flight'' | REPLAY_TERMINAL \<Rightarrow> ''replay_terminal''
      | REPLAY_OUTCOME_UNKNOWN \<Rightarrow> ''replay_outcome_unknown'' | COLLISION_CHANGED_BINDING \<Rightarrow> ''collision_changed_binding'')"

definition audit_rule :: "admission_status \<Rightarrow> string" where
  "audit_rule st = ''execution:'' @ admission_value st"

datatype registry_error = Database_error | Finalize_before_admit string

definition classify_existing :: "execution_state \<Rightarrow> string \<Rightarrow> string \<Rightarrow> admission_status" where
  "classify_existing state stored_binding presented_binding =
     (if stored_binding \<noteq> presented_binding then COLLISION_CHANGED_BINDING
      else case state of
        In_flight \<Rightarrow> REPLAY_IN_FLIGHT
      | Terminal Outcome_unknown \<Rightarrow> REPLAY_OUTCOME_UNKNOWN
      | Terminal Completed \<Rightarrow> REPLAY_TERMINAL)"

text \<open>\<open>SELECT ... WHERE agent_identity=? AND execution_id=?\<close>.\<close>

definition find_execution :: "execution_row list \<Rightarrow> execution_key \<Rightarrow> execution_row option" where
  "find_execution rows key = find (\<lambda>r. key_of r = key) rows"

definition recover :: "bool \<Rightarrow> datetime \<Rightarrow> execution_row list \<Rightarrow> (registry_error + nat) \<times> execution_row list" where
  "recover fault now rows =
     (if fault then (Inl Database_error, rows)
      else (Inr (count_if (\<lambda>r. ex_state r = In_flight) rows),
            map (\<lambda>r. if ex_state r = In_flight
                     then r\<lparr>ex_state := Terminal Outcome_unknown, ex_updated_utc := isoformat now\<rparr> else r) rows))"

definition admit ::
  "bool \<Rightarrow> datetime \<Rightarrow> execution_key \<Rightarrow> string \<Rightarrow> string \<Rightarrow> execution_row list
     \<Rightarrow> (registry_error + admission_status) \<times> execution_row list" where
  "admit fault now key action_binding call_id rows =
     (if fault then (Inl Database_error, rows)
      else case find_execution rows key of
        None \<Rightarrow>
          (Inr ADMITTED,
           rows @ [\<lparr>ex_agent_identity = fst key, ex_execution_id = snd key, ex_action_binding = action_binding,
                    ex_state = In_flight, ex_call_id = Some call_id, ex_terminal_audit_entry_hash = None,
                    ex_created_utc = isoformat now, ex_updated_utc = isoformat now\<rparr>])
      | Some r \<Rightarrow> (Inr (classify_existing (ex_state r) (ex_action_binding r) action_binding), rows))"

definition finalize ::
  "bool \<Rightarrow> datetime \<Rightarrow> execution_key \<Rightarrow> disposition \<Rightarrow> string \<Rightarrow> execution_row list
     \<Rightarrow> (registry_error + unit) \<times> execution_row list" where
  "finalize fault now key disp entry_hash rows =
     (if fault then (Inl Database_error, rows)
      else case find_execution rows key of
        None \<Rightarrow> (Inl (Finalize_before_admit (snd key)), rows)
      | Some r \<Rightarrow>
          if ex_state r \<noteq> In_flight then (Inr (), rows)
          else (Inr (),
                map (\<lambda>r. if key_of r = key
                         then r\<lparr>ex_state := Terminal disp, ex_terminal_audit_entry_hash := Some entry_hash,
                                ex_updated_utc := isoformat now\<rparr> else r) rows))"

section \<open>Runs\<close>

datatype registry_op =
    Recover bool datetime
  | Admit bool datetime execution_key string string
  | Finalize bool datetime execution_key disposition string

datatype registry_answer = Recovered_rows "registry_error + nat" | Answered "registry_error + admission_status" | Finalized "registry_error + unit"

fun run_op :: "registry_op \<Rightarrow> execution_row list \<Rightarrow> registry_answer \<times> execution_row list" where
  "run_op (Recover f now) rows = map_prod Recovered_rows id (recover f now rows)"
| "run_op (Admit f now k b c) rows = map_prod Answered id (admit f now k b c rows)"
| "run_op (Finalize f now k d h) rows = map_prod Finalized id (finalize f now k d h rows)"

fun run_ops :: "registry_op list \<Rightarrow> execution_row list \<Rightarrow> registry_answer list \<times> execution_row list" where
  "run_ops [] rows = ([], rows)"
| "run_ops (op # ops) rows =
     (case run_op op rows of (a, rows1) \<Rightarrow> (case run_ops ops rows1 of (as, rows2) \<Rightarrow> (a # as, rows2)))"

definition key_unique :: "execution_row list \<Rightarrow> bool" where
  "key_unique rows \<longleftrightarrow> distinct (map key_of rows)"

text \<open>How often a run admitted a key: the operations paired with their answers.\<close>

definition admissions :: "execution_key \<Rightarrow> registry_op list \<Rightarrow> registry_answer list \<Rightarrow> nat" where
  "admissions key ops as =
     count_if (\<lambda>(op, a). (\<exists>f now b c. op = Admit f now key b c) \<and> a = Answered (Inr ADMITTED)) (zip ops as)"

text \<open>What the table promises of a key: absent, or the binding it was reserved with and its state.\<close>

definition reservation :: "execution_row list \<Rightarrow> execution_key \<Rightarrow> (string \<times> execution_state) option" where
  "reservation rows key = map_option (\<lambda>r. (ex_action_binding r, ex_state r)) (find_execution rows key)"

text \<open>The reservation protocol itself, on the reservation of one key.\<close>

fun spec_op :: "execution_key \<Rightarrow> registry_op \<Rightarrow> (string \<times> execution_state) option \<Rightarrow> (string \<times> execution_state) option" where
  "spec_op key (Recover f now) r =
     (if f then r else map_option (\<lambda>(b, st). (b, if st = In_flight then Terminal Outcome_unknown else st)) r)"
| "spec_op key (Admit f now k b c) r = (if f \<or> k \<noteq> key \<or> r \<noteq> None then r else Some (b, In_flight))"
| "spec_op key (Finalize f now k d h) r =
     (if f \<or> k \<noteq> key then r else map_option (\<lambda>(b, st). (b, if st = In_flight then Terminal d else st)) r)"

lemma find_execution_Some: "find_execution rows key = Some r \<Longrightarrow> r \<in> set rows \<and> key_of r = key"
  by (auto simp: find_execution_def find_Some_iff)

lemma find_execution_None: "find_execution rows key = None \<longleftrightarrow> key \<notin> key_of ` set rows"
  by (auto simp: find_execution_def find_None_iff)

lemma find_execution_snoc:
  "find_execution (rows @ [r]) key =
     (case find_execution rows key of Some r' \<Rightarrow> Some r' | None \<Rightarrow> if key_of r = key then Some r else None)"
  by (induction rows) (auto simp: find_execution_def)

lemma find_execution_map:
  assumes "\<And>r. key_of (f r) = key_of r"
  shows "find_execution (map f rows) key = map_option f (find_execution rows key)"
  using assms by (induction rows) (auto simp: find_execution_def)

lemma key_unique_map: "(\<And>r. key_of (f r) = key_of r) \<Longrightarrow> key_unique (map f rows) = key_unique rows"
  by (simp add: key_unique_def comp_def)

lemma run_op_key_unique: "key_unique rows \<Longrightarrow> key_unique (snd (run_op op rows))"
proof (cases op)
  case (Admit f now k b c)
  assume "key_unique rows"
  then show ?thesis
    by (cases k) (auto simp: Admit admit_def key_unique_def find_execution_None image_iff split: option.splits)
qed (auto simp: recover_def finalize_def key_unique_map split: option.splits)

lemma run_ops_Cons:
  "snd (run_ops (op # ops) rows) = snd (run_ops ops (snd (run_op op rows)))"
  "fst (run_ops (op # ops) rows) = fst (run_op op rows) # fst (run_ops ops (snd (run_op op rows)))"
  by (simp_all split: prod.splits)

lemma run_ops_key_unique: "key_unique rows \<Longrightarrow> key_unique (snd (run_ops ops rows))"
proof (induction ops arbitrary: rows)
  case (Cons op ops)
  from Cons.IH [OF run_op_key_unique [OF Cons.prems]] show ?case by (simp only: run_ops_Cons)
qed simp

lemma run_op_refines: "reservation (snd (run_op op rows)) key = spec_op key op (reservation rows key)"
proof (cases op)
  case (Recover f now)
  then show ?thesis
    by (cases "find_execution rows key") (auto simp: recover_def reservation_def find_execution_map)
next
  case (Admit f now k b c)
  then show ?thesis
    by (cases "find_execution rows k"; cases "find_execution rows key"; cases k)
      (auto simp: admit_def reservation_def find_execution_snoc)
next
  case (Finalize f now k d h)
  show ?thesis
  proof (cases "find_execution rows k")
    case None
    then show ?thesis by (cases "k = key") (auto simp: Finalize finalize_def reservation_def)
  next
    case (Some r)
    note k = find_execution_Some [OF Some, THEN conjunct2]
    show ?thesis
    proof (cases "k = key")
      case True
      then show ?thesis using Some k by (auto simp: Finalize finalize_def reservation_def find_execution_map)
    next
      case False
      then show ?thesis
        using Some find_execution_Some [of rows key]
        by (cases "find_execution rows key") (auto simp: Finalize finalize_def reservation_def find_execution_map)
    qed
  qed
qed

lemma run_ops_refine: "reservation (snd (run_ops ops rows)) key = fold (spec_op key) ops (reservation rows key)"
proof (induction ops arbitrary: rows)
  case (Cons op ops)
  then show ?case by (simp only: run_ops_Cons run_op_refines) simp
qed simp

lemma admit_answer:
  "fst (run_op (Admit f now k b c) rows) =
     Answered (if f then Inl Database_error
       else case reservation rows k of None \<Rightarrow> Inr ADMITTED | Some (b', st) \<Rightarrow> Inr (classify_existing st b' b))"
  by (simp add: admit_def reservation_def split: option.splits)

lemma classify_not_admitted [simp]: "classify_existing st b b' \<noteq> ADMITTED"
  by (simp add: classify_existing_def split: execution_state.splits disposition.splits)

lemma spec_keeps: "r \<noteq> None \<Longrightarrow> spec_op key op r \<noteq> None"
  by (cases op) auto

lemma admissions_bound: "admissions key ops (fst (run_ops ops rows)) \<le> (if reservation rows key = None then 1 else 0)"
proof (induction ops arbitrary: rows)
  case (Cons op ops)
  let ?admits = "(\<exists>f now b c. op = Admit f now key b c) \<and> fst (run_op op rows) = Answered (Inr ADMITTED)"
  let ?rest = "admissions key ops (fst (run_ops ops (snd (run_op op rows))))"
  have all: "admissions key (op # ops) (fst (run_ops (op # ops) rows)) = (if ?admits then 1 else 0) + ?rest"
    by (simp add: admissions_def run_ops_Cons del: run_ops.simps)
  have rest: "?rest \<le> (if spec_op key op (reservation rows key) = None then 1 else 0)"
    using Cons [of "snd (run_op op rows)"] by (simp only: run_op_refines)
  show ?case
  proof (cases ?admits)
    case True
    then obtain f now b c where op: "op = Admit f now key b c" by blast
    have "reservation rows key = None \<and> \<not> f"
      using True unfolding op admit_answer by (auto split: option.splits if_splits)
    then show ?thesis using all rest True by (simp add: op)
  next
    case False
    then show ?thesis
      unfolding all using rest spec_keeps [of "reservation rows key" key op] by (auto split: if_splits)
  qed
qed (simp add: admissions_def)

text \<open>C29: In any sequence of operations on the shared table, by any number of gateways and across restarts, an
  execution identifier of one agent is admitted at most once, and never when the table already holds it.\<close>

theorem execution_admitted_at_most_once:
  "admissions key ops (fst (run_ops ops rows)) \<le> (if reservation rows key = None then 1 else 0)"
  by (rule admissions_bound)



text \<open>A terminal row is final: whatever operations follow, the row of its key, with its disposition and the audit
  entry it is pinned to, is the one that was there.\<close>

theorem terminal_row_is_final:
  assumes "key_unique rows" "find_execution rows key = Some r" "ex_state r = Terminal d"
  shows "find_execution (snd (run_ops ops rows)) key = Some r"
  using assms
proof (induction ops arbitrary: rows)
  case (Cons op ops)
  have "find_execution (snd (run_op op rows)) key = Some r"
  proof (cases op)
    case (Finalize f now k d' h)
    then show ?thesis
      using Cons.prems(2,3) find_execution_Some [OF Cons.prems(2)]
      by (cases "k = key") (auto simp: finalize_def find_execution_map split: option.splits)
  qed (use Cons.prems(2,3) in \<open>auto simp: recover_def admit_def find_execution_map find_execution_snoc split: option.splits\<close>)
  then show ?case
    using Cons.IH [OF run_op_key_unique [OF Cons.prems(1), of op] _ Cons.prems(3)] by (simp only: run_ops_Cons)
qed simp

theorem terminal_row_is_final_witness:
  "find_execution (snd (run_ops [Finalize False sample_time (''a'', ''x'') Completed ''h2'']
     (snd (run_ops [Admit False sample_time (''a'', ''x'') ''b'' ''c'', Recover False sample_time] [])))) (''a'', ''x'')
   = find_execution (snd (run_ops [Admit False sample_time (''a'', ''x'') ''b'' ''c'', Recover False sample_time] [])) (''a'', ''x'')"
proof -
  let ?rows = "snd (run_ops [Admit False sample_time (''a'', ''x'') ''b'' ''c'', Recover False sample_time] [])"
  obtain r where r: "find_execution ?rows (''a'', ''x'') = Some r" "ex_state r = Terminal Outcome_unknown"
    by (simp add: admit_def recover_def find_execution_def)
  have "key_unique ?rows" by (rule run_ops_key_unique) (simp add: key_unique_def)
  from terminal_row_is_final [OF this r] r(1) show ?thesis by (simp only:)
qed

text \<open>Recovery leaves nothing in flight and seals exactly what was.\<close>

lemma recover_seals:
  assumes "recover False now rows = (Inr n, rows')"
  shows "n = count_if (\<lambda>r. ex_state r = In_flight) rows" "\<forall>r\<in>set rows'. ex_state r \<noteq> In_flight"
  using assms by (auto simp: recover_def)

end
