(* ===== verification/Proxy_Call_State.thy ===== *)
theory Proxy_Call_State
  imports Runtime_Gateway Proxy_Lifecycle Policy_Eval Sink_Policy Call_Log Execution_Registry
begin

text \<open>
  What one tool call of the proxy works on (\<open>mcp/proxy.py\<close>): the objects it shares
  with other calls, its own finalization record, and what it takes from outside.
  A call is a sequence of steps that may stop with a result or an
  exception. At every \<open>await\<close> other tasks run: \<open>cv_interfere\<close> is what they do to the
  shared objects there, and the call may be cancelled there. \<open>th_sent\<close> is not a
  field of the code: it is what the call handed to a transport that accepted it.
\<close>

section \<open>Data\<close>

datatype effect_boundary = PRE_TRANSPORT | TRANSPORT_MAY_HAVE_STARTED | TRANSPORT_RESPONSE_RECEIVED | TERMINAL_DURABLE

definition effect_boundary_value :: "effect_boundary \<Rightarrow> string" where
  "effect_boundary_value b =
     (case b of PRE_TRANSPORT \<Rightarrow> ''pre_transport'' | TRANSPORT_MAY_HAVE_STARTED \<Rightarrow> ''transport_may_have_started''
      | TRANSPORT_RESPONSE_RECEIVED \<Rightarrow> ''transport_response_received'' | TERMINAL_DURABLE \<Rightarrow> ''terminal_durable'')"

definition effect_boundary_label :: "effect_boundary \<Rightarrow> string" where
  "effect_boundary_label b = (if b = PRE_TRANSPORT then ''not_reached'' else effect_boundary_value b)"

definition terminal_disposition :: "effect_boundary \<Rightarrow> string" where
  "terminal_disposition b = (if b = PRE_TRANSPORT then ''not_attempted'' else ''outcome_unknown'')"

record call_finalization =
  cf_failure_stage :: string
  cf_reset_count :: "nat option"
  cf_effect_boundary_state :: effect_boundary
  cf_request_payload_hash :: "string option"
  cf_response_payload_hash :: "string option"
  cf_server_identity :: "string option"
  cf_external_execution_evidence :: "(string \<times> string) list option"
  cf_terminal_entry_id :: "string option"
  cf_execution_id :: "string option"
  cf_trace_handle :: "string option"
  cf_trace_action :: "(string \<times> json) list option"

definition new_finalization :: call_finalization where
  "new_finalization =
     \<lparr>cf_failure_stage = ''call_entry'', cf_reset_count = None, cf_effect_boundary_state = PRE_TRANSPORT,
      cf_request_payload_hash = None, cf_response_payload_hash = None, cf_server_identity = None,
      cf_external_execution_evidence = None, cf_terminal_entry_id = None, cf_execution_id = None,
      cf_trace_handle = None, cf_trace_action = None\<rparr>"

record call_result =
  cs_call_id :: string
  cs_tool_name :: string
  cs_allowed :: bool
  cs_would_have_denied :: bool
  cs_response :: "string option"
  cs_deny_reason :: "string option"
  cs_latency_us :: int
  cs_audit_entry_hash :: string
  cs_advice :: "advice option"

record call_request =
  cq_call_id :: string
  cq_tool_name :: string
  cq_arguments :: "(string \<times> json) list"
  cq_workflow_id :: "string option"
  cq_declared_data_class :: "string option"
  cq_execution_id :: "string option"

datatype call_error =
    Policy_denied string advice
  | Upstream_failed string
  | Size_exceeded
  | Value_failure string
  | Cancelled
  | Audit_failure audit_error
  | Store_failure
  | Runtime_failure string
  | Other_failure string

definition exception_type :: "call_error \<Rightarrow> string" where
  "exception_type e =
     (case e of Policy_denied _ _ \<Rightarrow> ''PolicyDeny'' | Upstream_failed c \<Rightarrow> (if c = ''UPSTREAM_TOOL_ERROR'' then ''UpstreamToolError'' else ''UpstreamUnavailable'') | Size_exceeded \<Rightarrow> ''ResponseSizeExceeded''
      | Value_failure _ \<Rightarrow> ''ValueError'' | Cancelled \<Rightarrow> ''CancelledError'' | Audit_failure a \<Rightarrow> (case a of Integrity_error _ \<Rightarrow> ''IntegrityError'' | Index_error \<Rightarrow> ''IndexError'' | _ \<Rightarrow> ''ValueError'')
      | Store_failure \<Rightarrow> ''OperationalError'' | Runtime_failure _ \<Rightarrow> ''RuntimeError'' | Other_failure n \<Rightarrow> n)"

text \<open>The objects shared by the calls of one proxy.\<close>

record 's proxy_state =
  px_session :: session_state
  px_store :: "'s option"
  px_audit :: audit_chain
  px_policy :: evaluator
  px_catalog :: tool_catalog
  px_call_log :: call_log
  px_session_call_log :: session_call_log
  px_gateway :: mcp_gateway
  px_life :: proxy_life

text \<open>What a proxy is built with and never replaces.\<close>

record 's proxy_config =
  pc_sha256 :: "bytes \<Rightarrow> bytes"
  pc_engine :: engine
  pc_store_ops :: "'s store_ops"
  pc_catalog_hash :: string
  pc_attestation_generated_at :: "datetime option"
  pc_attestation_validity_seconds :: int
  pc_attestation_platform :: string
  pc_sink_policy :: "sink_policy option"
  pc_sink_order :: "int dict"
  pc_max_response_size_bytes :: nat
  pc_drift_fail_closed :: bool
  pc_required_provenance_kind :: "string option"
  pc_trace_gate :: bool
  pc_catalog_scanner :: "scanner option"

datatype transport_fault = Http_error | Deadline_passed | Interrupted

datatype http_answer =
    Pin_refused
  | No_response transport_fault
  | Broken_response transport_fault
  | Http_body "string dict" "bytes list"

text \<open>What one call reads from outside. The first argument of a component names the place of the call
  that reads it.\<close>

record 's call_env =
  cv_tick :: "string \<Rightarrow> nat \<Rightarrow> tick"
  cv_now :: "string \<Rightarrow> datetime"
  cv_duration_ms :: "string \<Rightarrow> string"
  cv_latency_us :: "string \<Rightarrow> int"
  cv_disk_fault :: "string \<Rightarrow> bool"
  cv_cancelled :: "string \<Rightarrow> bool"
  cv_interfere :: "string \<Rightarrow> 's proxy_state \<Rightarrow> 's proxy_state"
  cv_reload :: "string \<Rightarrow> reload_input"
  cv_policy_fault :: "string \<Rightarrow> string option"
  cv_freeze :: "(string \<times> json) list \<Rightarrow> string + (string \<times> json) list"
  cv_gate_begin :: "(string \<times> json) list \<Rightarrow> string \<Rightarrow> string + string"
  cv_gate_recheck :: "string \<Rightarrow> string \<Rightarrow> (string \<times> json) list \<Rightarrow> string \<Rightarrow> string option"
  cv_gate_receipt :: "string \<Rightarrow> string \<Rightarrow> bool \<Rightarrow> string option"
  cv_gate_refusal :: "(string \<times> json) list \<Rightarrow> string option"
  cv_fetch_page :: page_fetcher
  cv_stdio_spawned :: bool
  cv_stdio_tools :: "call_error + json list option"
  cv_stdio_answer :: "call_error + string"
  cv_http_answer :: http_answer
  cv_json_loads :: "string \<Rightarrow> json option"
  cv_body_json :: "bytes \<Rightarrow> json option"
  cv_body_text :: "bytes \<Rightarrow> string"
  cv_trace_library :: "trace_library option"
  cv_read_record :: "string \<Rightarrow> record_read"
  cv_url_scheme :: "string \<Rightarrow> string"
  cv_version :: string
  cv_evidence_class :: "string option"

record upstream_request =
  ur_server :: "string list"
  ur_call_id :: string
  ur_tool_name :: string
  ur_arguments :: "(string \<times> json) list"
  ur_headers :: "(string \<times> string) list"

record 's thread =
  th_fin :: call_finalization
  th_px :: "'s proxy_state"
  th_sent :: "upstream_request list"

section \<open>Steps of a call\<close>

datatype stop = Returned call_result | Raised call_error

type_synonym ('s, 'a) step = "'s thread \<Rightarrow> (stop + 'a) \<times> 's thread"

definition give :: "'a \<Rightarrow> ('s, 'a) step" where
  "give a th = (Inr a, th)"

definition halt :: "stop \<Rightarrow> ('s, 'a) step" where
  "halt r th = (Inl r, th)"

definition andThen :: "('s, 'a) step \<Rightarrow> ('a \<Rightarrow> ('s, 'b) step) \<Rightarrow> ('s, 'b) step" where
  "andThen m f th = (case m th of (Inl r, th1) \<Rightarrow> (Inl r, th1) | (Inr a, th1) \<Rightarrow> f a th1)"

definition look :: "('s proxy_state \<Rightarrow> 'a) \<Rightarrow> ('s, 'a) step" where
  "look f th = (Inr (f (th_px th)), th)"

definition look_fin :: "(call_finalization \<Rightarrow> 'a) \<Rightarrow> ('s, 'a) step" where
  "look_fin f th = (Inr (f (th_fin th)), th)"

definition set_px :: "('s proxy_state \<Rightarrow> 's proxy_state) \<Rightarrow> ('s, unit) step" where
  "set_px f th = (Inr (), th\<lparr>th_px := f (th_px th)\<rparr>)"

definition set_fin :: "(call_finalization \<Rightarrow> call_finalization) \<Rightarrow> ('s, unit) step" where
  "set_fin f th = (Inr (), th\<lparr>th_fin := f (th_fin th)\<rparr>)"

definition stage :: "string \<Rightarrow> ('s, unit) step" where
  "stage name = set_fin (\<lambda>f. f\<lparr>cf_failure_stage := name\<rparr>)"

definition suspend :: "'s call_env \<Rightarrow> string \<Rightarrow> ('s, unit) step" where
  "suspend env place th =
     (if cv_cancelled env place then Inl (Raised Cancelled) else Inr (),
      th\<lparr>th_px := cv_interfere env place (th_px th)\<rparr>)"

text \<open>\<open>except\<close>: \<open>handler\<close> answers an exception, or passes it on.\<close>

definition catch :: "('s, 'a) step \<Rightarrow> (call_error \<Rightarrow> ('s, 'a) step) \<Rightarrow> ('s, 'a) step" where
  "catch m handler th = (case m th of (Inl (Raised e), th1) \<Rightarrow> handler e th1 | other \<Rightarrow> other)"

definition lift_error :: "('e \<Rightarrow> call_error) \<Rightarrow> 'e + 'a \<Rightarrow> ('s, 'a) step" where
  "lift_error f r = (case r of Inl e \<Rightarrow> halt (Raised (f e)) | Inr a \<Rightarrow> give a)"

section \<open>Audit entries and logs\<close>

text \<open>\<open>self._audit.append\<close>; a durable store may fail.\<close>

definition audit_append :: "'s proxy_config \<Rightarrow> 's call_env \<Rightarrow> string \<Rightarrow> entry_args \<Rightarrow> ('s, audit_entry) step" where
  "audit_append cfg env place args th =
     (let c = px_audit (th_px th) in
      if ch_store c \<noteq> None \<and> cv_disk_fault env place then (Inl (Raised Store_failure), th)
      else case chain_append (pc_sha256 cfg) (cv_tick env place (length (ch_entries c))) c args of
        Inl e \<Rightarrow> (Inl (Raised (Audit_failure e)), th)
      | Inr (c', e) \<Rightarrow> (Inr e, th\<lparr>th_px := (th_px th)\<lparr>px_audit := c'\<rparr>\<rparr>))"

text \<open>The sensitivity columns most entries of the proxy carry.\<close>

definition at_sensitivity :: "string \<Rightarrow> string \<Rightarrow> entry_args \<Rightarrow> entry_args" where
  "at_sensitivity sb sa a = a\<lparr>ea_session_sensitivity_before := Some sb, ea_session_sensitivity_after := Some sa\<rparr>"

definition append_call_terminal :: "'s proxy_config \<Rightarrow> 's call_env \<Rightarrow> string \<Rightarrow> entry_args \<Rightarrow> ('s, unit) step" where
  "append_call_terminal cfg env place args =
     andThen (look_fin id) (\<lambda>fin.
       if cf_terminal_entry_id fin \<noteq> None
       then halt (Raised (Runtime_failure ''terminal audit entry already persisted for this invocation''))
       else andThen
         (case (if pc_trace_gate cfg then cf_trace_handle fin else None) of
            None \<Rightarrow> give ()
          | Some handle \<Rightarrow>
              (case cv_gate_receipt env place handle (ea_policy_decision args = Some PD_allow) of
                 Some msg \<Rightarrow> halt (Raised (Value_failure msg)) | None \<Rightarrow> give ()))
         (\<lambda>_. andThen (audit_append cfg env place (args\<lparr>ea_execution_id := cf_execution_id fin\<rparr>)) (\<lambda>e.
            set_fin (\<lambda>f. f\<lparr>cf_terminal_entry_id := Some (ae_entry_id e),
                          cf_effect_boundary_state := TERMINAL_DURABLE\<rparr>))))"

definition proxy_record_call ::
  "'s proxy_config \<Rightarrow> 's call_env \<Rightarrow> string \<Rightarrow> call_request \<Rightarrow> datetime \<Rightarrow> bool \<Rightarrow> string \<Rightarrow> (string \<times> string) list
     \<Rightarrow> catalog_entry option \<Rightarrow> string \<Rightarrow> string list \<Rightarrow> ('s, unit) step" where
  "proxy_record_call cfg env place rq called_at allowed sensitivity_before stage_results ce decision tags =
     andThen (set_px (\<lambda>px. px
         \<lparr>px_call_log := call_log_record (px_call_log px)
            \<lparr>cr_tool_name = cq_tool_name rq, cr_called_at = called_at, cr_duration_ms = cv_duration_ms env place,
             cr_allowed = allowed, cr_sensitivity_raised = (ss_max_sensitivity (px_session px) \<noteq> sensitivity_before),
             cr_stage_results = stage_results\<rparr>,
          px_session_call_log := snd (record_call (cv_now env place) (px_session_call_log px) (cq_call_id rq) ce decision tags)\<rparr>))
       (\<lambda>_. andThen (look id) (\<lambda>px.
          if suspicious_sequence (px_call_log px) 3 then
            andThen (audit_append cfg env (place @ '' suspicious'')
                (at_sensitivity (ss_max_sensitivity (px_session px)) (ss_max_sensitivity (px_session px))
                  ((entry_defaults Suspicious_call_sequence)\<lparr>ea_tool_name := Some (cq_tool_name rq),
                     ea_detail := Some [(''repeated_tool'', JStr (cq_tool_name rq)),
                       (''consecutive_calls'', JInt (int (consecutive_count (px_call_log px) (cq_tool_name rq))))]\<rparr>)))
              (\<lambda>_. set_px (\<lambda>px. px\<lparr>px_session := (px_session px)\<lparr>ss_suspicious_sequences := ss_suspicious_sequences (px_session px) + 1\<rparr>\<rparr>))
          else give ()))"

text \<open>The tip of the chain, as a result carries it; a chain always has its first entry.\<close>

definition tip_of :: "'s proxy_state \<Rightarrow> string" where
  "tip_of px = (case chain_tip (px_audit px) of Inr h \<Rightarrow> h | Inl _ \<Rightarrow> [])"

definition refusal :: "'s call_env \<Rightarrow> string \<Rightarrow> call_request \<Rightarrow> bool \<Rightarrow> string \<Rightarrow> advice option \<Rightarrow> 's proxy_state \<Rightarrow> call_result" where
  "refusal env place rq whd reason adv px =
     \<lparr>cs_call_id = cq_call_id rq, cs_tool_name = cq_tool_name rq, cs_allowed = False, cs_would_have_denied = whd,
      cs_response = None, cs_deny_reason = Some reason, cs_latency_us = cv_latency_us env place,
      cs_audit_entry_hash = tip_of px, cs_advice = adv\<rparr>"

text \<open>How most refusals of the pipeline end: a terminal entry, a line in the call logs, the result.\<close>

definition refuse ::
  "'s proxy_config \<Rightarrow> 's call_env \<Rightarrow> string \<Rightarrow> call_request \<Rightarrow> datetime \<Rightarrow> string \<Rightarrow> entry_args \<Rightarrow> (string \<times> string) list
     \<Rightarrow> catalog_entry option \<Rightarrow> policy_decision \<Rightarrow> bool \<Rightarrow> string \<Rightarrow> advice option \<Rightarrow> ('s, 'a) step" where
  "refuse cfg env place rq called_at sensitivity_before args stage_results ce decision whd reason adv =
     andThen (append_call_terminal cfg env place args) (\<lambda>_.
     andThen (proxy_record_call cfg env place rq called_at False sensitivity_before stage_results ce
                (policy_decision_str decision) []) (\<lambda>_.
     andThen (look (refusal env place rq whd reason adv)) (\<lambda>r. halt (Returned r))))"

section \<open>Small operations\<close>

text \<open>\<open>str\<close> of a float whose JSON text is given.\<close>

definition float_str :: "string \<Rightarrow> string" where
  "float_str t = (if t = ''NaN'' then ''nan'' else if t = ''Infinity'' then ''inf'' else if t = ''-Infinity'' then ''-inf'' else t)"

fun cedar_safe :: "json \<Rightarrow> json" where
  "cedar_safe (JFloat t) = JStr (float_str t)"
| "cedar_safe (JObj kvs) = JObj (map (\<lambda>(k, v). (k, cedar_safe v)) (filter (\<lambda>kv. snd kv \<noteq> JNull) kvs))"
| "cedar_safe (JArr vs) = JArr (map cedar_safe (filter (\<lambda>v. v \<noteq> JNull) vs))"
| "cedar_safe JNull = JStr ''None''"
| "cedar_safe v = v"

definition EXTERNAL_EVIDENCE_FIELDS :: "string list" where
  "EXTERNAL_EVIDENCE_FIELDS =
     [''evidence_hash'', ''evidence_type'', ''issuer'', ''issuer_key_id'', ''linked_call_id'', ''signature'']"

definition extract_external_execution_evidence :: "(string \<Rightarrow> json option) \<Rightarrow> string \<Rightarrow> (string \<times> string) list option" where
  "extract_external_execution_evidence loads response_text =
     (case loads response_text of
        Some (JObj kvs) \<Rightarrow>
          (case map_of kvs ''external_execution_evidence'' of
             Some (JObj receipt) \<Rightarrow>
               if set (map fst receipt) = set EXTERNAL_EVIDENCE_FIELDS
                  \<and> list_all (\<lambda>f. case map_of receipt f of Some (JStr _) \<Rightarrow> True | _ \<Rightarrow> False) EXTERNAL_EVIDENCE_FIELDS
               then Some (map (\<lambda>f. (f, case map_of receipt f of Some (JStr s) \<Rightarrow> s | _ \<Rightarrow> [])) EXTERNAL_EVIDENCE_FIELDS)
               else None
           | _ \<Rightarrow> None)
      | _ \<Rightarrow> None)"

definition build_cedar_context ::
  "'s proxy_config \<Rightarrow> 's proxy_state \<Rightarrow> string \<Rightarrow> (string \<times> json) list \<Rightarrow> string option \<Rightarrow> string option \<Rightarrow> cedar_context" where
  "build_cedar_context cfg px tool_name arguments workflow_id call_data_class =
     (let s = px_session px; entry = catalog_lookup (px_catalog px) tool_name;
          effective = (case entry of
              None \<Rightarrow> ss_max_sensitivity s
            | Some e \<Rightarrow> max_sensitivity (ss_max_sensitivity s)
                (case call_data_class of Some d \<Rightarrow> if d = [] then ce_sensitivity_level e else d | None \<Rightarrow> ce_sensitivity_level e)
                (ss_sensitivity_order s))
      in [(''tool_name'', JStr tool_name), (''resource'', JStr tool_name), (''arguments'', cedar_safe (JObj arguments)),
          (''server_identity'', JStr (case entry of Some e \<Rightarrow> sv_url (ce_server e) | None \<Rightarrow> [])),
          (''compliance_domain'', JStr (case entry of Some e \<Rightarrow> ce_compliance_domain e | None \<Rightarrow> ''external'')),
          (''baa_covered'', JBool (case entry of Some e \<Rightarrow> \<not> ce_requires_baa e | None \<Rightarrow> False)),
          (''destination_class'', JStr ''external''), (''session_max_sensitivity'', JStr effective),
          (''attestation_platform'', JStr (pc_attestation_platform cfg)), (''egress'', JBool False),
          (''sensitivity_level'', JInt (rank (ss_sensitivity_order s) effective)),
          (''injection_events'', JInt (int (length (ss_injection_events s)))),
          (''reset_count'', JInt (int (ss_reset_count s))), (''response_size_bytes'', JInt 0)]
         @ (case workflow_id of Some w \<Rightarrow> [(''workflow_id'', JStr w)] | None \<Rightarrow> []))"

end
