(* ===== verification/Proxy_Upstream.thy ===== *)
theory Proxy_Upstream
  imports Proxy_Call_State
begin

text \<open>
  How a call of the proxy reaches its upstream server (\<open>mcp/proxy.py\<close>): the shared
  acquisition of the advertised tools, the drift and provenance checks on
  first contact, the TRACE gate and the transport. The caches are replaced only
  in the body of a session transition, which no admitted call overlaps
  (\<open>Proxy_Lifecycle\<close>), so the retry of \<open>_advertised_tools\<close> after a replacement does
  not arise here.
\<close>

section \<open>First contact\<close>

definition unavailable :: call_error where
  "unavailable = Upstream_failed ''UPSTREAM_UNAVAILABLE''"

definition use_stdio :: "'s call_env \<Rightarrow> catalog_entry \<Rightarrow> ('s, unit) step" where
  "use_stdio env entry =
     andThen (suspend env ''stdio_start'') (\<lambda>_. andThen (look px_life) (\<lambda>life.
       case stdio_for (server_execution_key entry) (sv_spawn (ce_server entry) \<noteq> None \<and> cv_stdio_spawned env) life of
         Inl _ \<Rightarrow> halt (Raised unavailable)
       | Inr life' \<Rightarrow> set_px (\<lambda>px. px\<lparr>px_life := life'\<rparr>)))"

definition discover_tools :: "'s call_env \<Rightarrow> catalog_entry \<Rightarrow> ('s, json list option) step" where
  "discover_tools env entry =
     (if is_stdio (ce_server entry) then
        andThen (use_stdio env entry) (\<lambda>_. andThen (suspend env ''stdio_list'') (\<lambda>_. lift_error id (cv_stdio_tools env)))
      else andThen (look px_life) (\<lambda>life.
        case client_for_upstream (client_key_for (cv_url_scheme env) entry) life of
          Inl _ \<Rightarrow> give None
        | Inr life' \<Rightarrow>
            andThen (set_px (\<lambda>px. px\<lparr>px_life := life'\<rparr>)) (\<lambda>_. andThen (suspend env ''discovery'') (\<lambda>_.
              give (case collect_tools (cv_fetch_page env) of Inr tools \<Rightarrow> Some tools | Inl _ \<Rightarrow> None)))))"

definition advertised_tools :: "'s call_env \<Rightarrow> catalog_entry \<Rightarrow> ('s, json list option) step" where
  "advertised_tools env entry =
     (let key = server_provenance_key entry in
      andThen (suspend env ''discovery_lock'') (\<lambda>_. andThen (look (\<lambda>px. map_of (pl_advertised (px_life px)) key)) (\<lambda>cached.
        case cached of
          Some advertised \<Rightarrow> give advertised
        | None \<Rightarrow> andThen (discover_tools env entry) (\<lambda>advertised.
            andThen (set_px (\<lambda>px. px\<lparr>px_life := (px_life px)\<lparr>pl_advertised := (key, advertised) # pl_advertised (px_life px)\<rparr>\<rparr>))
              (\<lambda>_. give advertised)))))"

definition NAME_OBSERVATION_CAP :: nat where "NAME_OBSERVATION_CAP = 64"

definition TOOL_NAME_RECORD_MAX_LENGTH :: nat where "TOOL_NAME_RECORD_MAX_LENGTH = 256"

text \<open>\<open>by_name\<close>: of two advertised tools with one name the later counts.\<close>

definition advertised_name :: "json \<Rightarrow> string option" where
  "advertised_name t = (case t of JObj _ \<Rightarrow> (case jfield t ''name'' of Some (JStr n) \<Rightarrow> Some n | _ \<Rightarrow> None) | _ \<Rightarrow> None)"

definition by_name :: "json list \<Rightarrow> (string \<times> json) list" where
  "by_name advertised = rev (map (\<lambda>t. (the (advertised_name t), t)) (filter (\<lambda>t. advertised_name t \<noteq> None) advertised))"

definition admitted_here :: "string list \<Rightarrow> tool_catalog \<Rightarrow> (string \<times> catalog_entry) list" where
  "admitted_here key c = filter (\<lambda>te. server_provenance_key (snd te) = key) (tc_entries c)"

definition drifted_tools :: "'s proxy_config \<Rightarrow> string list \<Rightarrow> tool_catalog \<Rightarrow> json list \<Rightarrow> (string \<times> string) list" where
  "drifted_tools cfg key c advertised =
     concat (map (\<lambda>(name, e).
         case map_of (by_name advertised) name of
           None \<Rightarrow> [(name, ''withdrawn'')]
         | Some offered \<Rightarrow>
             if advertised_definition_digest (pc_sha256 cfg) (en_str (pc_engine cfg)) offered
                \<noteq> approved_definition_digest (pc_sha256 cfg) (ce_approved_definition e)
             then [(name, ''definition_changed'')] else [])
       (admitted_here key c))"

definition observation_context :: "string list \<Rightarrow> tool_catalog \<Rightarrow> (string \<times> json) list" where
  "observation_context key c =
     [(''source'', JStr ''upstream''), (''measured_catalog_hash'', JStr (tc_catalog_hash c)),
      (''admission_basis'', JStr ''active_catalog_entries''),
      (''active_admitted_count'', JInt (int (length (admitted_here key c)))),
      (''active_exception_count'', JInt (int (count_if (\<lambda>te. ce_catalog_exception (snd te)) (admitted_here key c))))]"

definition unadmitted_names :: "string list \<Rightarrow> tool_catalog \<Rightarrow> json list \<Rightarrow> string list" where
  "unadmitted_names key c advertised =
     sorted_set (filter (\<lambda>n. n \<notin> set (map fst (admitted_here key c))) (map fst (by_name advertised)))"

definition observed_detail :: "'s proxy_config \<Rightarrow> string \<Rightarrow> (string \<times> json) list" where
  "observed_detail cfg name =
     (let truncated = TOOL_NAME_RECORD_MAX_LENGTH < length name in
      [(''status'', JStr ''observed_unadmitted''), (''recorded_name_truncated'', JBool truncated)]
      @ (if truncated then [(''tool_name_original_length'', JInt (int (length name))),
                            (''tool_name_sha256'', JStr (hexlify (pc_sha256 cfg (utf8_encode name))))] else []))"

text \<open>Appending a list of entries, each at the sensitivity of the session at that moment.\<close>

fun append_all :: "'s proxy_config \<Rightarrow> 's call_env \<Rightarrow> string \<Rightarrow> entry_args list \<Rightarrow> ('s, unit) step" where
  "append_all cfg env place [] = give ()"
| "append_all cfg env place (a # as) =
     andThen (look (ss_max_sensitivity \<circ> px_session)) (\<lambda>s.
     andThen (audit_append cfg env place (at_sensitivity s s a)) (\<lambda>_. append_all cfg env place as))"

definition observe_unadmitted :: "'s proxy_config \<Rightarrow> 's call_env \<Rightarrow> catalog_entry \<Rightarrow> tool_catalog \<Rightarrow> json list \<Rightarrow> ('s, unit) step" where
  "observe_unadmitted cfg env entry c advertised =
     (let key = server_provenance_key entry; names = unadmitted_names key c advertised;
          omitted = int (length names) - int NAME_OBSERVATION_CAP;
          observed = (\<lambda>name detail. (entry_defaults Tool_observed_unadmitted)
            \<lparr>ea_tool_name := name, ea_server_identity := Some (sv_url (ce_server entry)),
             ea_detail := Some (observation_context key c @ detail)\<rparr>)
      in append_all cfg env ''observed_unadmitted''
           (map (\<lambda>n. observed (Some (take TOOL_NAME_RECORD_MAX_LENGTH n)) (observed_detail cfg n)) (take NAME_OBSERVATION_CAP names)
            @ (if 0 < omitted then [observed None [(''status'', JStr ''observed_unadmitted_summary''),
                                                   (''omitted_name_count'', JInt omitted)]] else [])))"

definition classify_drift :: "'s proxy_config \<Rightarrow> tool_catalog \<Rightarrow> json list \<Rightarrow> string \<Rightarrow> string \<Rightarrow> string" where
  "classify_drift cfg c advertised name kind =
     (case (pc_catalog_scanner cfg, map_of (by_name advertised) name, catalog_lookup c name) of
        (Some scanner, Some offered, Some e) \<Rightarrow>
          let r = check_drift (pc_sha256 cfg) scanner name (server_label (ce_server e)) offered in
          if dr_available r \<and> dr_threats r \<noteq> []
          then join '';'' (map (\<lambda>t. case map_of t ''threat_type'' of Some x \<Rightarrow> x | None \<Rightarrow> ''?'') (dr_threats r)) else kind
      | _ \<Rightarrow> kind)"

fun report_drift :: "'s proxy_config \<Rightarrow> 's call_env \<Rightarrow> tool_catalog \<Rightarrow> json list \<Rightarrow> (string \<times> string) list \<Rightarrow> ('s, unit) step" where
  "report_drift cfg env c advertised [] = give ()"
| "report_drift cfg env c advertised ((name, kind) # others) =
     andThen (set_px (\<lambda>px. if name \<in> set (ss_upstream_drift_tools (px_session px)) then px
         else px\<lparr>px_session := (px_session px)\<lparr>ss_upstream_drift_tools := ss_upstream_drift_tools (px_session px) @ [name]\<rparr>\<rparr>)) (\<lambda>_.
     andThen (append_all cfg env (''drift '' @ name) [(entry_defaults Catalog_drift)\<lparr>ea_tool_name := Some name,
         ea_detail := Some [(''kind'', JStr kind), (''classification'', JStr (classify_drift cfg c advertised name kind)),
                            (''source'', JStr ''upstream'')]\<rparr>]) (\<lambda>_.
     report_drift cfg env c advertised others))"

definition mark_drift_checked :: "string list \<Rightarrow> ('s, bool) step" where
  "mark_drift_checked key =
     andThen (set_px (\<lambda>px. px\<lparr>px_life := (px_life px)\<lparr>pl_drift_checked := key # pl_drift_checked (px_life px)\<rparr>\<rparr>))
       (\<lambda>_. look (ss_catalog_drift \<circ> px_session))"

definition check_upstream_drift :: "'s proxy_config \<Rightarrow> 's call_env \<Rightarrow> catalog_entry \<Rightarrow> ('s, bool) step" where
  "check_upstream_drift cfg env entry =
     (let key = server_provenance_key entry; seen = (\<lambda>px. key \<in> set (pl_drift_checked (px_life px))) in
      andThen (look seen) (\<lambda>already. if already then look (ss_catalog_drift \<circ> px_session)
      else andThen (advertised_tools env entry) (\<lambda>advertised. andThen (look seen) (\<lambda>already.
        if already then look (ss_catalog_drift \<circ> px_session)
        else case advertised of
          None \<Rightarrow> mark_drift_checked key
        | Some tools \<Rightarrow>
            andThen (look px_catalog) (\<lambda>c.
            andThen (observe_unadmitted cfg env entry c tools) (\<lambda>_.
              let drifted = drifted_tools cfg key c tools in
              if drifted = [] then mark_drift_checked key
              else andThen (report_drift cfg env c tools drifted) (\<lambda>_.
                andThen (set_px (\<lambda>px. if pc_drift_fail_closed cfg
                    then px\<lparr>px_session := (px_session px)\<lparr>ss_catalog_drift := True\<rparr>\<rparr> else px)) (\<lambda>_.
                mark_drift_checked key))))))))"

definition provenance_failure :: "provenance_error \<Rightarrow> call_error" where
  "provenance_failure e =
     (case e of provenance_error.Value_error \<Rightarrow> Value_failure ''provenance''
      | provenance_error.Attribute_error \<Rightarrow> Other_failure ''AttributeError''
      | provenance_error.Slice_type_error \<Rightarrow> Other_failure ''TypeError'')"

definition check_provenance :: "'s call_env \<Rightarrow> catalog_entry \<Rightarrow> ('s, provenance_result) step" where
  "check_provenance env entry =
     (let key = server_provenance_key entry; path = sv_provenance_record_path (ce_server entry) in
      andThen (look (\<lambda>px. map_of (pl_provenance (px_life px)) key)) (\<lambda>cached.
        case cached of
          Some r \<Rightarrow> give r
        | None \<Rightarrow>
            andThen (if path \<noteq> None \<and> path \<noteq> Some [] then advertised_tools env entry else give None) (\<lambda>advertised.
            andThen (lift_error provenance_failure
                (check_server_provenance (cv_trace_library env) (cv_read_record env) path (sv_publisher_jwk (ce_server entry)) advertised))
              (\<lambda>r. andThen (set_px (\<lambda>px. px\<lparr>px_life := (px_life px)\<lparr>pl_provenance := (key, r) # pl_provenance (px_life px)\<rparr>\<rparr>))
                (\<lambda>_. give r)))))"

section \<open>The TRACE gate\<close>

definition opt_json :: "string option \<Rightarrow> json" where
  "opt_json v = (case v of Some s \<Rightarrow> JStr s | None \<Rightarrow> JNull)"

definition trace_action :: "'s proxy_state \<Rightarrow> call_request \<Rightarrow> (string \<times> json) list" where
  "trace_action px rq =
     (let entry = catalog_lookup (px_catalog px) (cq_tool_name rq) in
      [(''domain'', JStr ''cmcp:protected-action:experimental-v1''), (''session_id'', JStr (ss_session_id (px_session px))),
       (''call_id'', JStr (cq_call_id rq)), (''protocol'', JStr ''mcp''), (''operation'', JStr ''tools/call''),
       (''tool_name'', JStr (cq_tool_name rq)),
       (''server_identity'', JArr (case entry of Some e \<Rightarrow> map JStr (server_execution_key e) | None \<Rightarrow> [])),
       (''definition_hash'', (case entry of Some e \<Rightarrow> JStr (ce_definition_hash e) | None \<Rightarrow> JNull)),
       (''arguments'', JObj (cq_arguments rq)), (''workflow_id'', opt_json (cq_workflow_id rq)),
       (''declared_data_class'', opt_json (cq_declared_data_class rq))])"

definition policy_digest :: "'s proxy_state \<Rightarrow> string" where
  "policy_digest px = pb_bundle_hash (ps_bundle (pe_store (px_policy px)))"

text \<open>Three refusals of the gate in a row, each a \<open>ValueError\<close>.\<close>

definition gate_checks :: "(string option) list \<Rightarrow> ('s, unit) step" where
  "gate_checks refusals = (if list_ex (\<lambda>r. r \<noteq> None) refusals then halt (Raised unavailable) else give ())"

definition trace_before_transport :: "'s proxy_config \<Rightarrow> 's call_env \<Rightarrow> catalog_entry \<Rightarrow> call_request \<Rightarrow> ('s, unit) step" where
  "trace_before_transport cfg env entry rq =
     (if \<not> pc_trace_gate cfg then give ()
      else andThen (look_fin id) (\<lambda>fin. andThen (look id) (\<lambda>px.
        case (cf_trace_handle fin, cf_trace_action fin) of
          (Some handle, Some base) \<Rightarrow>
            (let action = dict_update base
                   [(''server_identity'', JArr (map JStr (server_execution_key entry))),
                    (''definition_hash'', JStr (ce_definition_hash entry)), (''tool_name'', JStr (cq_tool_name rq)),
                    (''arguments'', JObj (cq_arguments rq)), (''session_id'', JStr (ss_session_id (px_session px)))];
                 digest = policy_digest px
             in gate_checks [cv_gate_recheck env ''before_transport'' handle action digest,
                             cv_gate_receipt env ''before_transport'' handle True,
                             cv_gate_recheck env ''before_send'' handle action digest])
        | _ \<Rightarrow> halt (Raised unavailable))))"

section \<open>Transport\<close>

definition hand_over :: "upstream_request \<Rightarrow> ('s, unit) step" where
  "hand_over r th = (Inr (), th\<lparr>th_sent := th_sent th @ [r]\<rparr>)"

definition starting :: "string \<Rightarrow> ('s, unit) step" where
  "starting name = set_fin (\<lambda>f. f\<lparr>cf_failure_stage := name, cf_effect_boundary_state := TRANSPORT_MAY_HAVE_STARTED\<rparr>)"

definition fault_of :: "transport_fault \<Rightarrow> call_error" where
  "fault_of f = (if f = Interrupted then Cancelled else unavailable)"

definition http_failure :: "http_error \<Rightarrow> call_error" where
  "http_failure e = (if e = Response_size_exceeded then Size_exceeded else unavailable)"

text \<open>The exchange itself: \<open>client.stream\<close>, the bounded read and the parse.\<close>

definition http_exchange :: "'s proxy_config \<Rightarrow> 's call_env \<Rightarrow> upstream_request \<Rightarrow> ('s, json) step" where
  "http_exchange cfg env r =
     (case cv_http_answer env of
        Pin_refused \<Rightarrow>
          andThen (suspend env ''transport'') (\<lambda>_.
          andThen (set_fin (\<lambda>f. f\<lparr>cf_failure_stage := ''tls_pin_verification_pre_send'', cf_effect_boundary_state := PRE_TRANSPORT\<rparr>))
            (\<lambda>_. halt (Raised unavailable)))
      | No_response f \<Rightarrow>
          andThen (hand_over r) (\<lambda>_. andThen (suspend env ''transport'') (\<lambda>_. halt (Raised (fault_of f))))
      | Broken_response f \<Rightarrow>
          andThen (hand_over r) (\<lambda>_. andThen (suspend env ''transport'') (\<lambda>_.
          andThen (set_fin (\<lambda>f. f\<lparr>cf_effect_boundary_state := TRANSPORT_RESPONSE_RECEIVED, cf_failure_stage := ''http_response_read''\<rparr>))
            (\<lambda>_. halt (Raised (fault_of f)))))
      | Http_body headers chunks \<Rightarrow>
          andThen (hand_over r) (\<lambda>_. andThen (suspend env ''transport'') (\<lambda>_.
          andThen (set_fin (\<lambda>f. f\<lparr>cf_effect_boundary_state := TRANSPORT_RESPONSE_RECEIVED, cf_failure_stage := ''http_response_read''\<rparr>)) (\<lambda>_.
          andThen (lift_error http_failure (read_bounded_response headers chunks (pc_max_response_size_bytes cfg))) (\<lambda>body.
          andThen (stage ''http_response_parse'') (\<lambda>_.
          lift_error http_failure
            (parse_response (cv_json_loads env) headers (cv_body_json env body) (cv_body_text env body) (ur_call_id r))))))))"

text \<open>The text of a result: the joined text contents, or the result itself.\<close>

definition content_items :: "json \<Rightarrow> json list option" where
  "content_items content = (case content of JArr cs \<Rightarrow> Some cs | JStr _ \<Rightarrow> Some [] | JObj _ \<Rightarrow> Some [] | _ \<Rightarrow> None)"

definition result_text :: "json \<Rightarrow> call_error + string" where
  "result_text body =
     (let result = jget body ''result'' (JObj []);
          content = (if is_jobj result then jget result ''content'' (JArr []) else JArr []) in
      case content_items content of
        None \<Rightarrow> Inl (Other_failure ''TypeError'')
      | Some items \<Rightarrow>
          let texts = map (\<lambda>c. jget c ''text'' (JStr []))
                        (filter (\<lambda>c. is_jobj c \<and> jfield c ''type'' = Some (JStr ''text'')) items) in
          if texts = [] then Inr (dumps_spaced result)
          else if list_all (\<lambda>t. case t of JStr _ \<Rightarrow> True | _ \<Rightarrow> False) texts
          then Inr (join [CHR 0x0A] (map (\<lambda>t. case t of JStr s \<Rightarrow> s | _ \<Rightarrow> []) texts))
          else Inl (Other_failure ''TypeError''))"

definition forward_stdio :: "'s proxy_config \<Rightarrow> 's call_env \<Rightarrow> catalog_entry \<Rightarrow> call_request \<Rightarrow> ('s, string) step" where
  "forward_stdio cfg env entry rq =
     andThen (use_stdio env entry) (\<lambda>_.
     andThen (trace_before_transport cfg env entry rq) (\<lambda>_.
     andThen (starting ''stdio_server_call'') (\<lambda>_.
     andThen (hand_over \<lparr>ur_server = server_execution_key entry, ur_call_id = cq_call_id rq, ur_tool_name = cq_tool_name rq,
                         ur_arguments = cq_arguments rq, ur_headers = []\<rparr>) (\<lambda>_.
     andThen (suspend env ''transport'') (\<lambda>_. lift_error id (cv_stdio_answer env))))))"

definition forward_http :: "'s proxy_config \<Rightarrow> 's call_env \<Rightarrow> catalog_entry \<Rightarrow> call_request \<Rightarrow> ('s, string) step" where
  "forward_http cfg env entry rq =
     andThen (look px_life) (\<lambda>life.
       case client_for_upstream (client_key_for (cv_url_scheme env) entry) life of
         Inl _ \<Rightarrow> halt (Raised unavailable)
       | Inr life' \<Rightarrow>
           andThen (set_px (\<lambda>px. px\<lparr>px_life := life'\<rparr>)) (\<lambda>_.
             (let (_, headers) = Http_Transport.build_request (cv_version env) (cq_call_id rq) ''tools/call''
                    [(''name'', JStr (cq_tool_name rq)), (''arguments'', JObj (cq_arguments rq))] (Some (cq_tool_name rq)) in
              andThen (case ad_input_schema (ce_approved_definition entry) of
                  JObj schema \<Rightarrow> lift_error (\<lambda>_. Value_failure ''x-mcp-header'') (parameter_headers schema (cq_arguments rq))
                | _ \<Rightarrow> halt (Raised (Other_failure ''AttributeError''))) (\<lambda>mirrored.
              andThen (trace_before_transport cfg env entry rq) (\<lambda>_.
              andThen (starting ''http_transport'') (\<lambda>_.
              andThen (http_exchange cfg env
                  \<lparr>ur_server = server_execution_key entry, ur_call_id = cq_call_id rq, ur_tool_name = cq_tool_name rq,
                   ur_arguments = cq_arguments rq,
                   ur_headers = dict_update headers (mirrored @ [(''Accept-Encoding'', ''identity'')])\<rparr>) (\<lambda>body.
              if jfield body ''error'' \<noteq> None then halt (Raised (Upstream_failed ''UPSTREAM_TOOL_ERROR''))
              else lift_error id (result_text body))))))))"

definition forward_to_upstream :: "'s proxy_config \<Rightarrow> 's call_env \<Rightarrow> catalog_entry \<Rightarrow> call_request \<Rightarrow> ('s, string) step" where
  "forward_to_upstream cfg env entry rq =
     andThen (check_provenance env entry) (\<lambda>provenance.
     andThen (lift_error provenance_failure (meets provenance (pc_required_provenance_kind cfg))) (\<lambda>ok.
       if \<not> ok then halt (Raised unavailable)
       else if is_stdio (ce_server entry) then forward_stdio cfg env entry rq
       else forward_http cfg env entry rq))"

end
