(* ===== verification/Proxy_Call.thy ===== *)
theory Proxy_Call
  imports Proxy_Upstream
begin

text \<open>
  One tool call through the enforcement pipeline (\<open>call_tool\<close> and \<open>_call_tool_impl\<close>
  of \<open>mcp/proxy.py\<close>), in the order of the code: execution correlation, health,
  catalog, sinks, drift, policy, gateway, TRACE, upstream, size, scan, session
  update, egress and the terminal entry. Every refusal and every
  exception of the code is a way for a step to stop.
\<close>

section \<open>Before the call leaves\<close>

definition call_args :: "call_request \<Rightarrow> entry_type \<Rightarrow> entry_args" where
  "call_args rq t = (entry_defaults t)\<lparr>ea_call_id := Some (cq_call_id rq), ea_tool_name := Some (cq_tool_name rq)\<rparr>"

text \<open>What the pipeline fixes at its start.\<close>

record call_facts =
  ct_called_at :: datetime
  ct_sensitivity_before :: string
  ct_request_payload_hash :: string

text \<open>The columns of a terminal entry that a refusal before or after the upstream carries.\<close>

definition refusal_args :: "call_request \<Rightarrow> call_facts \<Rightarrow> 's proxy_state \<Rightarrow> catalog_entry option \<Rightarrow> policy_decision \<Rightarrow> string \<Rightarrow> entry_args" where
  "refusal_args rq ct px ce decision rule =
     at_sensitivity (ct_sensitivity_before ct) (ss_max_sensitivity (px_session px))
       ((call_args rq Tool_call)\<lparr>ea_server_identity := map_option (sv_url \<circ> ce_server) ce, ea_policy_decision := Some decision,
          ea_policy_rule_matched := Some rule, ea_request_payload_hash := Some (ct_request_payload_hash ct),
          ea_workflow_id := cq_workflow_id rq\<rparr>)"

definition refuse_execution ::
  "'s proxy_config \<Rightarrow> 's call_env \<Rightarrow> call_request \<Rightarrow> call_facts \<Rightarrow> catalog_entry option \<Rightarrow> string \<Rightarrow> string \<Rightarrow> ('s, 'a) step" where
  "refuse_execution cfg env rq ct ce rule deny_reason =
     andThen (look id) (\<lambda>px.
       refuse cfg env ''execution'' rq (ct_called_at ct) (ct_sensitivity_before ct) (refusal_args rq ct px ce PD_deny rule)
         [(''execution'', ''deny'')] ce PD_deny False deny_reason None)"

definition check_execution_available :: "'s proxy_config \<Rightarrow> 's call_env \<Rightarrow> call_request \<Rightarrow> call_facts \<Rightarrow> ('s, unit) step" where
  "check_execution_available cfg env rq ct =
     (case cq_execution_id rq of
        None \<Rightarrow> give ()
      | Some execution_id \<Rightarrow>
          if \<not> valid_execution_id execution_id
          then refuse_execution cfg env rq ct None ''execution:invalid_execution_id'' ''execution_invalid_execution_id''
          else andThen (set_fin (\<lambda>f. f\<lparr>cf_execution_id := Some execution_id\<rparr>)) (\<lambda>_.
            refuse_execution cfg env rq ct None ''execution:unavailable'' ''execution_correlation_unavailable''))"

definition attestation_expired :: "'s proxy_config \<Rightarrow> datetime \<Rightarrow> bool" where
  "attestation_expired cfg now =
     (case pc_attestation_generated_at cfg of
        None \<Rightarrow> False
      | Some g \<Rightarrow> pc_attestation_validity_seconds cfg * 1000000 < dt_micros now - dt_micros g)"

definition check_health :: "'s proxy_config \<Rightarrow> 's call_env \<Rightarrow> ('s, string option) step" where
  "check_health cfg env =
     andThen (look id) (\<lambda>px.
     andThen (if \<not> ss_attestation_stale (px_session px) \<and> attestation_expired cfg (cv_now env ''health'') then
         andThen (set_px (\<lambda>px. px\<lparr>px_session := (px_session px)\<lparr>ss_attestation_stale := True\<rparr>\<rparr>)) (\<lambda>_.
         append_all cfg env ''attestation_stale'' [entry_defaults Attestation_stale])
       else give ()) (\<lambda>_. andThen (look id) (\<lambda>px.
     if ss_attestation_stale (px_session px) then give (Some ''attestation_stale'')
     else andThen (if \<not> ss_catalog_drift (px_session px) \<and> tc_catalog_hash (px_catalog px) \<noteq> pc_catalog_hash cfg then
         andThen (set_px (\<lambda>px. px\<lparr>px_session := (px_session px)\<lparr>ss_catalog_drift := True\<rparr>\<rparr>)) (\<lambda>_.
         append_all cfg env ''catalog_drift'' [entry_defaults Catalog_drift])
       else give ()) (\<lambda>_. look (\<lambda>px. if ss_catalog_drift (px_session px) then Some ''catalog_drift'' else None)))))"

definition sink_check :: "'s proxy_config \<Rightarrow> 's proxy_state \<Rightarrow> call_request \<Rightarrow> call_facts \<Rightarrow> catalog_entry \<Rightarrow> string option \<Rightarrow> string option" where
  "sink_check cfg px rq ct entry tool =
     (case pc_sink_policy cfg of
        None \<Rightarrow> None
      | Some p \<Rightarrow>
          (case sink_require p tool ([ct_sensitivity_before ct, ss_max_sensitivity (px_session px), ce_sensitivity_level entry]
                  @ (case cq_declared_data_class rq of Some d \<Rightarrow> [d] | None \<Rightarrow> [])) (pc_sink_order cfg) of
             Inr _ \<Rightarrow> None
           | Inl _ \<Rightarrow> Some (''sink_policy:'' @ (if tool = None then ''response'' else ''tool'') @ ''_denied'')))"

definition catalog_miss :: "'s proxy_config \<Rightarrow> 's call_env \<Rightarrow> call_request \<Rightarrow> call_facts \<Rightarrow> ('s, 'a) step" where
  "catalog_miss cfg env rq ct =
     andThen (look id) (\<lambda>px. refuse cfg env ''catalog'' rq (ct_called_at ct) (ct_sensitivity_before ct)
       (refusal_args rq ct px None PD_deny ''catalog_miss'') [(''catalog'', ''deny'')] None PD_deny False
       (''Tool '' @ [CHR 0x27] @ cq_tool_name rq @ [CHR 0x27] @ '' not in attested catalog'') None)"

definition sink_admission :: "'s proxy_config \<Rightarrow> 's call_env \<Rightarrow> call_request \<Rightarrow> call_facts \<Rightarrow> catalog_entry \<Rightarrow> ('s, unit) step" where
  "sink_admission cfg env rq ct entry =
     (if pc_sink_policy cfg = None then give ()
      else andThen (stage ''sink_admission'') (\<lambda>_. andThen (look id) (\<lambda>px.
        case sink_check cfg px rq ct entry (Some (cq_tool_name rq)) of
          None \<Rightarrow> give ()
        | Some msg \<Rightarrow> refuse cfg env ''sink'' rq (ct_called_at ct) (ct_sensitivity_before ct)
            (refusal_args rq ct px (Some entry) PD_deny msg) [(''sink_policy'', ''deny'')] (Some entry) PD_deny False msg None)))"

definition drift_gate :: "'s proxy_config \<Rightarrow> 's call_env \<Rightarrow> call_request \<Rightarrow> call_facts \<Rightarrow> catalog_entry \<Rightarrow> ('s, unit) step" where
  "drift_gate cfg env rq ct entry =
     andThen (stage ''upstream_drift_check'') (\<lambda>_. andThen (check_upstream_drift cfg env entry) (\<lambda>drift.
       if \<not> drift then give ()
       else andThen (proxy_record_call cfg env ''drift'' rq (ct_called_at ct) False (ct_sensitivity_before ct)
              [(''catalog'', ''deny'')] (Some entry) ''deny'' []) (\<lambda>_.
            andThen (look (refusal env ''drift'' rq False ''catalog_drift'' None)) (\<lambda>r. halt (Returned r)))))"

definition effective_data_class :: "'s proxy_state \<Rightarrow> call_request \<Rightarrow> catalog_entry \<Rightarrow> string option" where
  "effective_data_class px rq entry =
     map_option (\<lambda>d. max_sensitivity (ce_sensitivity_level entry) d (ss_sensitivity_order (px_session px))) (cq_declared_data_class rq)"

definition break_glass_notice :: "'s proxy_config \<Rightarrow> 's call_env \<Rightarrow> call_request \<Rightarrow> call_facts \<Rightarrow> catalog_entry \<Rightarrow> ('s, unit) step" where
  "break_glass_notice cfg env rq ct entry =
     (if \<not> ce_catalog_exception entry then give ()
      else andThen (look id) (\<lambda>px.
        andThen (audit_append cfg env ''break_glass''
            (at_sensitivity (ct_sensitivity_before ct) (ss_max_sensitivity (px_session px))
              ((call_args rq Break_glass_used)\<lparr>ea_server_identity := Some (sv_url (ce_server entry)),
                 ea_policy_decision := Some PD_allow, ea_workflow_id := cq_workflow_id rq\<rparr>))) (\<lambda>_. give ())))"

text \<open>\<open>_finalize_unexpected_call_failure\<close>; it raises the exception itself when the entry cannot be written.\<close>

definition fault_args :: "call_request \<Rightarrow> call_finalization \<Rightarrow> 's proxy_state \<Rightarrow> call_error \<Rightarrow> entry_args" where
  "fault_args rq fin px e =
     at_sensitivity (ss_max_sensitivity (px_session px)) (ss_max_sensitivity (px_session px))
       ((call_args rq Fault)\<lparr>ea_server_identity := cf_server_identity fin, ea_policy_decision := Some PD_fault,
          ea_policy_rule_matched := Some (''unexpected:'' @ exception_type e),
          ea_request_payload_hash := cf_request_payload_hash fin, ea_response_payload_hash := cf_response_payload_hash fin,
          ea_detail := Some [(''exception_type'', JStr (exception_type e)), (''failure_stage'', JStr (cf_failure_stage fin)),
            (''effect_boundary'', JStr (effect_boundary_label (cf_effect_boundary_state fin))),
            (''effect_boundary_state'', JStr (effect_boundary_value (cf_effect_boundary_state fin))),
            (''terminal_disposition'', JStr (terminal_disposition (cf_effect_boundary_state fin))),
            (''external_execution_evidence_state'',
             JStr (if cf_external_execution_evidence fin \<noteq> None then ''bound'' else ''unavailable_or_unbound''))],
          ea_workflow_id := cq_workflow_id rq, ea_external_execution_evidence := cf_external_execution_evidence fin\<rparr>)"

definition finalize_unexpected_call_failure :: "'s proxy_config \<Rightarrow> 's call_env \<Rightarrow> string \<Rightarrow> call_request \<Rightarrow> call_error \<Rightarrow> ('s, unit) step" where
  "finalize_unexpected_call_failure cfg env place rq e =
     andThen (look_fin id) (\<lambda>fin.
       if cf_terminal_entry_id fin \<noteq> None then give ()
       else andThen (look id) (\<lambda>px.
         catch (append_call_terminal cfg env place (fault_args rq fin px e)) (\<lambda>_.
           andThen (set_px (\<lambda>px. px\<lparr>px_life := record_failed_terminal (cq_call_id rq) (px_life px)\<rparr>)) (\<lambda>_.
           halt (Raised e)))))"

definition REVOKED_MESSAGE :: string where
  "REVOKED_MESSAGE = ''the policy in force is signed by a revoked policy signing key; refusing until a bundle signed by a trusted key is installed''"

text \<open>The \<open>try\<close> of the policy step: the sink ceiling again, then the evaluator.\<close>

definition policy_decision_step ::
  "'s proxy_config \<Rightarrow> 's call_env \<Rightarrow> call_request \<Rightarrow> call_facts \<Rightarrow> catalog_entry \<Rightarrow> cedar_context \<Rightarrow> ('s, policy_result) step" where
  "policy_decision_step cfg env rq ct entry ctx =
     andThen (look id) (\<lambda>px.
       case sink_check cfg px rq ct entry (Some (cq_tool_name rq)) of
         Some msg \<Rightarrow> halt (Raised (Policy_denied msg []))
       | None \<Rightarrow>
           (case cv_policy_fault env ''ingress'' of
              Some name \<Rightarrow> halt (Raised (Other_failure name))
            | None \<Rightarrow>
                (case evaluate_call (pc_engine cfg) (cv_reload env ''ingress'') (px_policy px) ctx of
                   (r, ev) \<Rightarrow> andThen (set_px (\<lambda>px. px\<lparr>px_policy := ev\<rparr>)) (\<lambda>_.
                     case r of
                       Inr d \<Rightarrow> give d
                     | Inl (Policy_deny msg adv) \<Rightarrow> halt (Raised (Policy_denied msg adv))
                     | Inl Signing_revoked \<Rightarrow> halt (Raised (Policy_denied REVOKED_MESSAGE []))))))"

definition or_none :: "advice \<Rightarrow> advice option" where
  "or_none adv = (if adv = [] then None else Some adv)"

definition policy_gate ::
  "'s proxy_config \<Rightarrow> 's call_env \<Rightarrow> call_request \<Rightarrow> call_facts \<Rightarrow> catalog_entry \<Rightarrow> string option \<Rightarrow> ('s, policy_result) step" where
  "policy_gate cfg env rq ct entry edc =
     andThen (stage ''policy_evaluation'') (\<lambda>_. andThen (look id) (\<lambda>px.
       catch (policy_decision_step cfg env rq ct entry (build_cedar_context cfg px (cq_tool_name rq) (cq_arguments rq) (cq_workflow_id rq) edc))
         (\<lambda>e. case e of
            Policy_denied msg adv \<Rightarrow>
              (let denied_as = audit_value (decision_for_deny adv) in
               andThen (look id) (\<lambda>px.
                 refuse cfg env ''policy'' rq (ct_called_at ct) (ct_sensitivity_before ct)
                   (refusal_args rq ct px (Some entry) denied_as msg) [(''policy'', policy_decision_str denied_as)]
                   (Some entry) denied_as False msg (or_none adv)))
          | _ \<Rightarrow> andThen (finalize_unexpected_call_failure cfg env ''cedar_fault'' rq e) (\<lambda>_. halt (Raised e)))))"

definition gateway_gate ::
  "'s proxy_config \<Rightarrow> 's call_env \<Rightarrow> call_request \<Rightarrow> call_facts \<Rightarrow> catalog_entry \<Rightarrow> bool \<Rightarrow> ('s, unit) step" where
  "gateway_gate cfg env rq ct entry whd =
     andThen (stage ''ingress_gateway'') (\<lambda>_. andThen (look id) (\<lambda>px.
       case intercept_tool_call (ss_session_id (px_session px)) (cq_tool_name rq) (cq_arguments rq) (px_gateway px) of
         ((ok, reason), g) \<Rightarrow>
           andThen (set_px (\<lambda>px. px\<lparr>px_gateway := g\<rparr>)) (\<lambda>_.
             if ok then give ()
             else andThen (look id) (\<lambda>px.
               refuse cfg env ''gateway'' rq (ct_called_at ct) (ct_sensitivity_before ct)
                 (refusal_args rq ct px (Some entry) PD_deny (''agt_gateway:'' @ take 200 reason)) [(''agt_gateway'', ''deny'')]
                 (Some entry) PD_deny whd reason None))))"

definition trace_gate_check :: "'s proxy_config \<Rightarrow> 's call_env \<Rightarrow> call_request \<Rightarrow> ('s, unit) step" where
  "trace_gate_check cfg env rq =
     (if \<not> pc_trace_gate cfg then give ()
      else andThen (look_fin cf_trace_handle) (\<lambda>handle. andThen (look id) (\<lambda>px.
        case cv_gate_recheck env ''before_forward'' (or_empty handle) (trace_action px rq) (policy_digest px) of
          None \<Rightarrow> give ()
        | Some msg \<Rightarrow>
            andThen (append_call_terminal cfg env ''trace_stale''
                ((call_args rq Tool_call)\<lparr>ea_policy_decision := Some PD_deny, ea_policy_rule_matched := Some ''trace:stale''\<rparr>)) (\<lambda>_.
            andThen (look (\<lambda>px. (refusal env ''trace_stale'' rq False msg None px)\<lparr>cs_latency_us := 0\<rparr>)) (\<lambda>r. halt (Returned r))))))"

text \<open>What the gates hand on.\<close>

record admitted =
  am_facts :: call_facts
  am_entry :: catalog_entry
  am_effective_data_class :: "string option"
  am_decision :: policy_result

definition request_facts :: "'s proxy_config \<Rightarrow> 's call_env \<Rightarrow> call_request \<Rightarrow> ('s, call_facts) step" where
  "request_facts cfg env rq =
     andThen (stage ''request_serialization'') (\<lambda>_. andThen (look (ss_max_sensitivity \<circ> px_session)) (\<lambda>sb.
       let h = ''sha256:'' @ hexlify (pc_sha256 cfg (dumps (JObj (cq_arguments rq)))) in
       andThen (set_fin (\<lambda>f. f\<lparr>cf_request_payload_hash := Some h\<rparr>)) (\<lambda>_.
       give \<lparr>ct_called_at = cv_now env ''call'', ct_sensitivity_before = sb, ct_request_payload_hash = h\<rparr>)))"

definition health_gate :: "'s proxy_config \<Rightarrow> 's call_env \<Rightarrow> call_request \<Rightarrow> ('s, unit) step" where
  "health_gate cfg env rq =
     andThen (stage ''health_check'') (\<lambda>_. andThen (check_health cfg env) (\<lambda>reason.
       case reason of
         None \<Rightarrow> give ()
       | Some why \<Rightarrow> andThen (look (refusal env ''health'' rq False why None)) (\<lambda>r. halt (Returned r))))"

definition catalog_gate :: "'s proxy_config \<Rightarrow> 's call_env \<Rightarrow> call_request \<Rightarrow> call_facts \<Rightarrow> ('s, catalog_entry) step" where
  "catalog_gate cfg env rq ct =
     andThen (stage ''catalog_lookup'') (\<lambda>_. andThen (look (\<lambda>px. catalog_lookup (px_catalog px) (cq_tool_name rq))) (\<lambda>found.
       case found of
         None \<Rightarrow> catalog_miss cfg env rq ct
       | Some entry \<Rightarrow> andThen (set_fin (\<lambda>f. f\<lparr>cf_server_identity := Some (sv_url (ce_server entry))\<rparr>)) (\<lambda>_. give entry)))"

definition admit_call :: "'s proxy_config \<Rightarrow> 's call_env \<Rightarrow> call_request \<Rightarrow> ('s, admitted) step" where
  "admit_call cfg env rq =
     andThen (request_facts cfg env rq) (\<lambda>ct.
     andThen (stage ''execution_admission'') (\<lambda>_.
     andThen (check_execution_available cfg env rq ct) (\<lambda>_.
     andThen (health_gate cfg env rq) (\<lambda>_.
     andThen (catalog_gate cfg env rq ct) (\<lambda>entry.
     andThen (sink_admission cfg env rq ct entry) (\<lambda>_.
     andThen (drift_gate cfg env rq ct entry) (\<lambda>_.
     andThen (look (\<lambda>px. effective_data_class px rq entry)) (\<lambda>edc.
     andThen (break_glass_notice cfg env rq ct entry) (\<lambda>_.
     andThen (policy_gate cfg env rq ct entry edc) (\<lambda>d.
     andThen (gateway_gate cfg env rq ct entry (pr_would_have_denied d)) (\<lambda>_.
     andThen (trace_gate_check cfg env rq) (\<lambda>_.
     give \<lparr>am_facts = ct, am_entry = entry, am_effective_data_class = edc, am_decision = d\<rparr>))))))))))))"

section \<open>Upstream\<close>

definition upstream_fault_args :: "call_request \<Rightarrow> call_facts \<Rightarrow> call_finalization \<Rightarrow> 's proxy_state \<Rightarrow> catalog_entry \<Rightarrow> string \<Rightarrow> entry_args" where
  "upstream_fault_args rq ct fin px entry code =
     at_sensitivity (ct_sensitivity_before ct) (ss_max_sensitivity (px_session px))
       ((call_args rq Fault)\<lparr>ea_server_identity := Some (sv_url (ce_server entry)), ea_policy_decision := Some PD_fault,
          ea_policy_rule_matched := Some (''upstream:'' @ code), ea_request_payload_hash := Some (ct_request_payload_hash ct),
          ea_detail := Some [(''error_code'', JStr code), (''failure_stage'', JStr (cf_failure_stage fin)),
            (''effect_boundary'', JStr (effect_boundary_label (cf_effect_boundary_state fin))),
            (''effect_boundary_state'', JStr (effect_boundary_value (cf_effect_boundary_state fin))),
            (''terminal_disposition'', JStr (terminal_disposition (cf_effect_boundary_state fin))),
            (''external_execution_evidence_state'', JStr ''unavailable_or_unbound'')]\<rparr>)"

text \<open>The response text, or \<open>None\<close> when its body was over the limit.\<close>

definition invoke_upstream :: "'s proxy_config \<Rightarrow> 's call_env \<Rightarrow> call_request \<Rightarrow> admitted \<Rightarrow> ('s, string option) step" where
  "invoke_upstream cfg env rq am =
     (let ct = am_facts am; entry = am_entry am; whd = pr_would_have_denied (am_decision am) in
      andThen (stage ''upstream_invocation'') (\<lambda>_.
        catch (andThen (forward_to_upstream cfg env entry rq) (\<lambda>text.
            andThen (set_fin (\<lambda>f. f\<lparr>cf_effect_boundary_state := TRANSPORT_RESPONSE_RECEIVED\<rparr>)) (\<lambda>_. give (Some text))))
          (\<lambda>e. case e of
             Size_exceeded \<Rightarrow> give None
           | Upstream_failed code \<Rightarrow>
               andThen (look_fin id) (\<lambda>fin. andThen (look id) (\<lambda>px.
                 refuse cfg env ''upstream'' rq (ct_called_at ct) (ct_sensitivity_before ct)
                   (upstream_fault_args rq ct fin px entry code) [(''upstream'', ''fault'')] (Some entry) PD_fault whd
                   (''upstream_error:'' @ code) None))
           | _ \<Rightarrow> halt (Raised e))))"

section \<open>The response\<close>

definition size_refusal :: "'s proxy_config \<Rightarrow> 's call_env \<Rightarrow> call_request \<Rightarrow> admitted \<Rightarrow> ('s, 'a) step" where
  "size_refusal cfg env rq am =
     (let ct = am_facts am; entry = am_entry am in
      andThen (look_fin cf_effect_boundary_state) (\<lambda>b. andThen (look id) (\<lambda>px.
        refuse cfg env ''size'' rq (ct_called_at ct) (ct_sensitivity_before ct)
          ((refusal_args rq ct px (Some entry) PD_deny ''response_size_exceeded'')
             \<lparr>ea_response_inspection_result := Some IR_size_exceeded,
              ea_detail := Some [(''error_code'', JStr ''RESPONSE_SIZE_EXCEEDED''),
                (''effect_boundary_state'', JStr (effect_boundary_value b)),
                (''terminal_disposition'', JStr (terminal_disposition b)),
                (''external_execution_evidence_state'', JStr ''unavailable_or_unbound'')]\<rparr>)
          [(''inspection'', ''size_exceeded'')] (Some entry) PD_deny (pr_would_have_denied (am_decision am))
          ''response_size_exceeded'' None)))"

definition size_gate :: "'s proxy_config \<Rightarrow> 's call_env \<Rightarrow> call_request \<Rightarrow> admitted \<Rightarrow> string option \<Rightarrow> ('s, string) step" where
  "size_gate cfg env rq am response =
     andThen (stage ''response_size_check'') (\<lambda>_.
       case response of
         Some text \<Rightarrow> if length (utf8_encode text) \<le> pc_max_response_size_bytes cfg then give text else size_refusal cfg env rq am
       | None \<Rightarrow> size_refusal cfg env rq am)"

definition response_tags :: "call_request \<Rightarrow> catalog_entry \<Rightarrow> string list" where
  "response_tags rq entry = ce_sensitivity_level entry # (case cq_declared_data_class rq of Some d \<Rightarrow> [d] | None \<Rightarrow> [])"

text \<open>\<open>await self._session.apply_inspection(...)\<close>.\<close>

definition update_session ::
  "'s proxy_config \<Rightarrow> 's call_env \<Rightarrow> string \<Rightarrow> call_request \<Rightarrow> catalog_entry \<Rightarrow> bool \<Rightarrow> bool \<Rightarrow> ('s, bool) step" where
  "update_session cfg env place rq entry injection ok =
     andThen (suspend env place) (\<lambda>_. andThen (look_fin cf_reset_count) (\<lambda>count. andThen (look id) (\<lambda>px.
       case apply_inspection (pc_store_ops cfg) (cv_now env place) (px_store px) (px_session px) (cq_call_id rq)
              (response_tags rq entry) injection ok count of
         (applied, s, store) \<Rightarrow>
           andThen (set_px (\<lambda>px. px\<lparr>px_session := s, px_store := store\<rparr>)) (\<lambda>_. give applied))))"

definition threat_categories :: "threat list \<Rightarrow> string" where
  "threat_categories threats = join '','' (sorted_set (map fst threats))"

text \<open>The scan: a blocked response still raises the session's sensitivity.\<close>

definition scan_gate :: "'s proxy_config \<Rightarrow> 's call_env \<Rightarrow> call_request \<Rightarrow> admitted \<Rightarrow> string \<Rightarrow> ('s, response_decision) step" where
  "scan_gate cfg env rq am text =
     (let ct = am_facts am; entry = am_entry am; scan = intercept_tool_response MCPResponseScanner text in
      andThen (stage ''response_scan'') (\<lambda>_.
        if rd_allowed scan then give scan
        else andThen (update_session cfg env ''blocked_inspection'' rq entry (rd_threats scan \<noteq> []) False) (\<lambda>_.
          andThen (look id) (\<lambda>px.
            refuse cfg env ''scan'' rq (ct_called_at ct) (ct_sensitivity_before ct)
              ((refusal_args rq ct px (Some entry) PD_deny (''response_scan:'' @ take 200 (threat_categories (rd_threats scan))))
                 \<lparr>ea_response_inspection_result := Some IR_injection_detected, ea_effective_data_class := am_effective_data_class am\<rparr>)
              [(''response_scan'', ''deny'')] (Some entry) PD_deny (pr_would_have_denied (am_decision am))
              ''response_blocked_by_scanner'' None))))"

definition response_hash :: "'s proxy_config \<Rightarrow> string \<Rightarrow> string" where
  "response_hash cfg response = ''sha256:'' @ hexlify (pc_sha256 cfg (utf8_encode response))"

definition bind_response :: "'s proxy_config \<Rightarrow> 's call_env \<Rightarrow> string \<Rightarrow> ('s, unit) step" where
  "bind_response cfg env response =
     andThen (stage ''response_binding'') (\<lambda>_.
     andThen (set_fin (\<lambda>f. f\<lparr>cf_response_payload_hash := Some (response_hash cfg response)\<rparr>)) (\<lambda>_.
     andThen (stage ''external_evidence_extraction'') (\<lambda>_.
     set_fin (\<lambda>f. f\<lparr>cf_external_execution_evidence := extract_external_execution_evidence (cv_json_loads env) response\<rparr>))))"

definition egress_decision_step :: "'s proxy_config \<Rightarrow> 's call_env \<Rightarrow> call_request \<Rightarrow> admitted \<Rightarrow> string \<Rightarrow> ('s, policy_result) step" where
  "egress_decision_step cfg env rq am response =
     andThen (look id) (\<lambda>px.
       case sink_check cfg px rq (am_facts am) (am_entry am) None of
         Some msg \<Rightarrow> halt (Raised (Policy_denied msg []))
       | None \<Rightarrow>
           (case cv_policy_fault env ''egress'' of
              Some name \<Rightarrow> halt (Raised (Other_failure name))
            | None \<Rightarrow>
                (case authorize_egress (pc_engine cfg) (cv_reload env ''egress'') (cv_reload env ''egress_evaluate'') (px_policy px)
                        (cq_tool_name rq) (utf8_encode response) (px_session px) (cq_workflow_id rq)
                        (Some (build_cedar_context cfg px (cq_tool_name rq) (cq_arguments rq) (cq_workflow_id rq)
                           (am_effective_data_class am))) of
                   (r, ev) \<Rightarrow> andThen (set_px (\<lambda>px. px\<lparr>px_policy := ev\<rparr>)) (\<lambda>_.
                     case r of
                       Inr d \<Rightarrow> give d
                     | Inl (Policy_deny msg adv) \<Rightarrow> halt (Raised (Policy_denied msg adv))
                     | Inl Signing_revoked \<Rightarrow> halt (Raised (Policy_denied REVOKED_MESSAGE []))))))"

definition egress_gate :: "'s proxy_config \<Rightarrow> 's call_env \<Rightarrow> call_request \<Rightarrow> admitted \<Rightarrow> string \<Rightarrow> ('s, policy_result) step" where
  "egress_gate cfg env rq am response =
     (let ct = am_facts am in
      andThen (stage ''egress_policy'') (\<lambda>_.
        catch (egress_decision_step cfg env rq am response)
          (\<lambda>e. case e of
             Policy_denied msg adv \<Rightarrow>
               andThen (look id) (\<lambda>px.
               andThen (append_call_terminal cfg env ''egress''
                   (at_sensitivity (ct_sensitivity_before ct) (ss_max_sensitivity (px_session px))
                     ((call_args rq Egress_denied)\<lparr>ea_server_identity := Some (sv_url (ce_server (am_entry am))),
                        ea_policy_decision := Some PD_deny, ea_policy_rule_matched := Some msg,
                        ea_request_payload_hash := Some (ct_request_payload_hash ct)\<rparr>))) (\<lambda>_.
               andThen (look (refusal env ''egress'' rq False msg (or_none adv))) (\<lambda>r. halt (Returned r))))
           | _ \<Rightarrow> halt (Raised e))))"

definition evidence_class_of :: "'s call_env \<Rightarrow> 's proxy_state \<Rightarrow> catalog_entry \<Rightarrow> string" where
  "evidence_class_of env px entry =
     (let sv = ce_server entry in
      if is_stdio sv then
        (if server_execution_key entry \<in> set (pl_stdio_servers (px_life px))
         then (case cv_evidence_class env of Some c \<Rightarrow> if c = [] then ''hash-only'' else c | None \<Rightarrow> ''hash-only'') else ''hash-only'')
      else if starts_with ''https://'' (sv_url sv) \<and> sv_tls_fingerprint sv \<noteq> [] \<and> sv_tls_fingerprint sv \<noteq> PLACEHOLDER_FINGERPRINT
      then ''tls-pinned'' else ''hash-only'')"

definition injection_detail :: "threat list \<Rightarrow> (string \<times> json) list option" where
  "injection_detail threats =
     (if threats = [] then None
      else Some [(''injection_scanner'', JStr ''agt_response_scanner''),
                 (''matched_pattern'', JStr (take 256 (threat_categories threats)))])"

text \<open>The terminal entry of a call that went through.\<close>

definition success_args ::
  "'s proxy_config \<Rightarrow> 's call_env \<Rightarrow> call_request \<Rightarrow> admitted \<Rightarrow> bool \<Rightarrow> threat list \<Rightarrow> call_finalization \<Rightarrow> 's proxy_state \<Rightarrow> entry_args" where
  "success_args cfg env rq am whd threats fin px =
     (let ct = am_facts am; entry = am_entry am in
      at_sensitivity (ct_sensitivity_before ct) (ss_max_sensitivity (px_session px))
        ((call_args rq Tool_call)\<lparr>ea_server_identity := Some (sv_url (ce_server entry)),
           ea_policy_decision := Some (if whd then PD_advisory_deny else PD_allow),
           ea_policy_rule_matched := pr_rule_matched (am_decision am), ea_latency_us := Some (cv_latency_us env ''terminal''),
           ea_request_payload_hash := Some (ct_request_payload_hash ct), ea_response_payload_hash := cf_response_payload_hash fin,
           ea_evidence_class := evidence_class_of env px entry, ea_workflow_id := cq_workflow_id rq,
           ea_detail := injection_detail threats, ea_external_execution_evidence := cf_external_execution_evidence fin,
           ea_effective_data_class := am_effective_data_class am\<rparr>))"

definition complete_call ::
  "'s proxy_config \<Rightarrow> 's call_env \<Rightarrow> call_request \<Rightarrow> admitted \<Rightarrow> response_decision \<Rightarrow> policy_result \<Rightarrow> string \<Rightarrow> ('s, 'a) step" where
  "complete_call cfg env rq am scan egress response =
     (let ct = am_facts am; entry = am_entry am;
          whd = (pr_would_have_denied (am_decision am) \<or> pr_would_have_denied egress);
          adv = dict_update (pr_advice (am_decision am)) (pr_advice egress);
          decision = policy_decision_str (if whd then PD_advisory_deny else PD_allow) in
      andThen (stage ''terminal_persistence'') (\<lambda>_.
      andThen (look_fin id) (\<lambda>fin. andThen (look id) (\<lambda>px.
      andThen (append_call_terminal cfg env ''terminal'' (success_args cfg env rq am whd (rd_threats scan) fin px)) (\<lambda>_.
      andThen (stage ''post_terminal_bookkeeping'') (\<lambda>_.
      andThen (proxy_record_call cfg env ''terminal'' rq (ct_called_at ct) True (ct_sensitivity_before ct) [(''policy'', decision)]
                 (Some entry) decision (response_tags rq entry)) (\<lambda>_.
      andThen (look (\<lambda>px. \<lparr>cs_call_id = cq_call_id rq, cs_tool_name = cq_tool_name rq, cs_allowed = True,
                 cs_would_have_denied = whd, cs_response = Some response, cs_deny_reason = None,
                 cs_latency_us = cv_latency_us env ''terminal'', cs_audit_entry_hash = tip_of px, cs_advice = or_none adv\<rparr>)) (\<lambda>r.
      halt (Returned r)))))))))"

definition answer_call :: "'s proxy_config \<Rightarrow> 's call_env \<Rightarrow> call_request \<Rightarrow> admitted \<Rightarrow> string option \<Rightarrow> ('s, unit) step" where
  "answer_call cfg env rq am received =
     andThen (size_gate cfg env rq am received) (\<lambda>text.
     andThen (scan_gate cfg env rq am text) (\<lambda>scan.
       let response = (case rd_content scan of Some c \<Rightarrow> c | None \<Rightarrow> text) in
     andThen (bind_response cfg env response) (\<lambda>_.
     andThen (stage ''session_update'') (\<lambda>_.
     andThen (update_session cfg env ''inspection'' rq (am_entry am) (rd_threats scan \<noteq> []) True) (\<lambda>_.
     andThen (egress_gate cfg env rq am response) (\<lambda>egress.
     complete_call cfg env rq am scan egress response))))))"

definition call_tool_impl :: "'s proxy_config \<Rightarrow> 's call_env \<Rightarrow> call_request \<Rightarrow> ('s, unit) step" where
  "call_tool_impl cfg env rq =
     andThen (admit_call cfg env rq) (\<lambda>am. andThen (invoke_upstream cfg env rq am) (\<lambda>received. answer_call cfg env rq am received))"

section \<open>The whole call\<close>

definition trace_begin :: "'s proxy_config \<Rightarrow> 's call_env \<Rightarrow> call_request \<Rightarrow> ('s, call_request) step" where
  "trace_begin cfg env rq =
     (if \<not> pc_trace_gate cfg then give rq
      else andThen (lift_error Value_failure (cv_freeze env (cq_arguments rq))) (\<lambda>frozen.
        let rq' = rq\<lparr>cq_arguments := frozen\<rparr> in
        andThen (look id) (\<lambda>px. let action = trace_action px rq' in
        andThen (set_fin (\<lambda>f. f\<lparr>cf_trace_action := Some action\<rparr>)) (\<lambda>_.
          case cv_gate_begin env action (policy_digest px) of
            Inr handle \<Rightarrow> andThen (set_fin (\<lambda>f. f\<lparr>cf_trace_handle := Some handle\<rparr>)) (\<lambda>_. give rq')
          | Inl msg \<Rightarrow>
              (case cv_gate_refusal env action of
                 Some e \<Rightarrow> halt (Raised (Value_failure e))
               | None \<Rightarrow>
                   andThen (append_call_terminal cfg env ''trace_refused''
                     ((call_args rq Tool_call)\<lparr>ea_policy_decision := Some PD_deny, ea_policy_rule_matched := Some ''trace:refused''\<rparr>)) (\<lambda>_.
                   andThen (look (\<lambda>px. (refusal env ''trace_refused'' rq False msg None px)\<lparr>cs_latency_us := 0\<rparr>)) (\<lambda>r.
                   halt (Returned r))))))))"

definition hydrate_session :: "'s proxy_config \<Rightarrow> 's call_env \<Rightarrow> ('s, unit) step" where
  "hydrate_session cfg env =
     andThen (suspend env ''hydrate'') (\<lambda>_.
     andThen (set_px (\<lambda>px. case hydrate (pc_store_ops cfg) (px_store px) (px_session px) of
         (_, s, store) \<Rightarrow> px\<lparr>px_session := s, px_store := store\<rparr>)) (\<lambda>_.
     andThen (look (ss_reset_count \<circ> px_session)) (\<lambda>n. set_fin (\<lambda>f. f\<lparr>cf_reset_count := Some n\<rparr>))))"

text \<open>The body of \<open>call_tool\<close> between admission and leaving.\<close>

definition run_call :: "'s proxy_config \<Rightarrow> 's call_env \<Rightarrow> call_request \<Rightarrow> ('s, unit) step" where
  "run_call cfg env rq =
     catch (andThen (hydrate_session cfg env) (\<lambda>_. andThen (trace_begin cfg env rq) (call_tool_impl cfg env)))
       (\<lambda>e. andThen (finalize_unexpected_call_failure cfg env ''unexpected'' rq e) (\<lambda>_. halt (Raised e)))"

datatype call_outcome = Waiting | Not_admitted lifecycle_error | Finished stop

definition new_thread :: "'s proxy_state \<Rightarrow> 's thread" where
  "new_thread px = \<lparr>th_fin = new_finalization, th_px = px, th_sent = []\<rparr>"

definition call_tool :: "'s proxy_config \<Rightarrow> 's call_env \<Rightarrow> nat \<Rightarrow> bool \<Rightarrow> call_request \<Rightarrow> 's proxy_state \<Rightarrow> call_outcome \<times> 's thread" where
  "call_tool cfg env task timed_out rq px =
     (let px0 = cv_interfere env ''enter'' px in
      case enter_call task timed_out (px_life px0) of
        Still_waiting \<Rightarrow> (Waiting, new_thread px0)
      | Refused e \<Rightarrow> (Not_admitted e, new_thread px0)
      | Admitted life \<Rightarrow>
          (case run_call cfg env rq (new_thread (px0\<lparr>px_life := life\<rparr>)) of
             (r, th) \<Rightarrow>
               (case r of Inl s \<Rightarrow> Finished s | Inr _ \<Rightarrow> Waiting,
                th\<lparr>th_px := (th_px th)\<lparr>px_life := leave_call task (px_life (th_px th))\<rparr>\<rparr>)))"

end
