(* ===== verification/Call_Logic.thy ===== *)
theory Call_Logic
  imports Proxy_Call
begin

text \<open>
  How the steps of a call are reasoned about. A relation between the threads
  before and after a step composes along a call; the locales say which
  primitive changes a relation has to allow, and prove once, for every such relation,
  that the stages of the call respect it. \<open>px_grows\<close> is what every step may
  do to the shared objects, and all that a call relies on from others.
\<close>

section \<open>Judgements\<close>

definition always :: "('s thread \<Rightarrow> 's thread \<Rightarrow> bool) \<Rightarrow> ('s, 'a) step \<Rightarrow> bool" where
  "always R m \<longleftrightarrow> (\<forall>th. R th (snd (m th)))"

definition on_ok :: "('s thread \<Rightarrow> 's thread \<Rightarrow> bool) \<Rightarrow> ('s, 'a) step \<Rightarrow> bool" where
  "on_ok R m \<longleftrightarrow> (\<forall>th a th'. m th = (Inr a, th') \<longrightarrow> R th th')"

definition stops :: "('s, 'a) step \<Rightarrow> bool" where
  "stops m \<longleftrightarrow> (\<forall>th a th'. m th \<noteq> (Inr a, th'))"

definition on_return :: "(call_result \<Rightarrow> 's thread \<Rightarrow> bool) \<Rightarrow> ('s, 'a) step \<Rightarrow> bool" where
  "on_return Q m \<longleftrightarrow> (\<forall>th r th'. m th = (Inl (Returned r), th') \<longrightarrow> Q r th')"

definition gives :: "('a \<Rightarrow> bool) \<Rightarrow> ('s, 'a) step \<Rightarrow> bool" where
  "gives P m \<longleftrightarrow> (\<forall>th a th'. m th = (Inr a, th') \<longrightarrow> P a)"

lemma andThen_Inr: "andThen m f th = (Inr b, th2) \<longleftrightarrow> (\<exists>a th1. m th = (Inr a, th1) \<and> f a th1 = (Inr b, th2))"
  by (auto simp: andThen_def split: prod.splits sum.splits)

lemma andThen_Inl:
  "andThen m f th = (Inl r, th2) \<longleftrightarrow> m th = (Inl r, th2) \<or> (\<exists>a th1. m th = (Inr a, th1) \<and> f a th1 = (Inl r, th2))"
  by (auto simp: andThen_def split: prod.splits sum.splits)

lemma catch_Inr:
  "catch m h th = (Inr a, th2) \<longleftrightarrow> m th = (Inr a, th2) \<or> (\<exists>e th1. m th = (Inl (Raised e), th1) \<and> h e th1 = (Inr a, th2))"
  by (auto simp: catch_def split: prod.splits sum.splits stop.splits)

lemma catch_Returned:
  "catch m h th = (Inl (Returned r), th2) \<longleftrightarrow>
     m th = (Inl (Returned r), th2) \<or> (\<exists>e th1. m th = (Inl (Raised e), th1) \<and> h e th1 = (Inl (Returned r), th2))"
  by (auto simp: catch_def split: prod.splits sum.splits stop.splits)

lemma catch_Raised:
  "catch m h th = (Inl (Raised x), th2) \<longleftrightarrow> (\<exists>e th1. m th = (Inl (Raised e), th1) \<and> h e th1 = (Inl (Raised x), th2))"
  by (auto simp: catch_def split: prod.splits sum.splits stop.splits)

lemmas step_eqs = give_def halt_def look_def look_fin_def set_px_def set_fin_def stage_def

lemma stopsI [simp]:
  "stops (halt r)" "(\<And>a. stops (f a)) \<Longrightarrow> stops (andThen m f)"
  by (auto simp: stops_def halt_def andThen_Inr)

lemma stops_refuse [simp]: "stops (refuse cfg env place rq called sb args sr ce d whd reason adv)"
  by (simp add: refuse_def)

lemma gives_rules:
  "P a \<Longrightarrow> gives P (give a)" "gives P (halt r)" "(\<And>a. gives P (f a)) \<Longrightarrow> gives P (andThen m f)"
  by (auto simp: gives_def give_def halt_def andThen_Inr)

lemma on_return_rules:
  "on_return Q (give a)" "on_return Q (look g)" "on_return Q (look_fin h)" "on_return Q (set_px k)" "on_return Q (set_fin l)"
  "on_return Q (stage name)" "on_return Q (suspend env place)" "on_return Q (lift_error err res)" "on_return Q (halt (Raised e))"
  "on_return Q (audit_append cfg env place args)" "on_return Q (hand_over req)"
  by (auto simp: on_return_def step_eqs suspend_def lift_error_def audit_append_def hand_over_def Let_def
      split: sum.splits prod.splits if_splits)

lemma on_return_andThen: "on_return Q m \<Longrightarrow> (\<And>a. on_return Q (f a)) \<Longrightarrow> on_return Q (andThen m f)"
  by (fastforce simp: on_return_def andThen_Inl)

lemma on_return_catch: "on_return Q m \<Longrightarrow> (\<And>e. on_return Q (h e)) \<Longrightarrow> on_return Q (catch m h)"
  by (fastforce simp: on_return_def catch_Returned)

section \<open>Terminal entries\<close>

definition terminal_args :: "string \<Rightarrow> 'a entry_args_scheme \<Rightarrow> bool" where
  "terminal_args call_id a \<longleftrightarrow> ea_call_id a = Some call_id \<and> ea_entry_type a \<in> {Tool_call, Egress_denied, Fault}"

lemma terminal_args_update [simp]:
  "terminal_args c (a\<lparr>ea_policy_decision := d\<rparr>) = terminal_args c a"
  "terminal_args c (a\<lparr>ea_policy_rule_matched := r\<rparr>) = terminal_args c a"
  "terminal_args c (a\<lparr>ea_response_inspection_result := i\<rparr>) = terminal_args c a"
  "terminal_args c (a\<lparr>ea_effective_data_class := o'\<rparr>) = terminal_args c a"
  "terminal_args c (a\<lparr>ea_detail := l\<rparr>) = terminal_args c a"
  "terminal_args c (a\<lparr>ea_tool_name := o'\<rparr>) = terminal_args c a"
  "terminal_args c (a\<lparr>ea_workflow_id := o'\<rparr>) = terminal_args c a"
  "terminal_args c (a\<lparr>ea_server_identity := o'\<rparr>) = terminal_args c a"
  "terminal_args c (a\<lparr>ea_request_payload_hash := o'\<rparr>) = terminal_args c a"
  "terminal_args c (at_sensitivity x y b) = terminal_args c b"
  by (simp_all add: terminal_args_def at_sensitivity_def)

lemma call_args_terminal:
  "terminal_args cid (call_args rq t) \<longleftrightarrow> cq_call_id rq = cid \<and> t \<in> {Tool_call, Egress_denied, Fault}"
  "terminal_args cid (refusal_args rq ct px ce d rule) \<longleftrightarrow> cq_call_id rq = cid"
  "terminal_args cid (fault_args rq fin px e) \<longleftrightarrow> cq_call_id rq = cid"
  "terminal_args cid (upstream_fault_args rq ct fin px entry code) \<longleftrightarrow> cq_call_id rq = cid"
  "terminal_args cid (success_args cfg env rq am whd ts fin px) \<longleftrightarrow> cq_call_id rq = cid"
  by (auto simp: terminal_args_def call_args_def entry_defaults_def refusal_args_def fault_args_def upstream_fault_args_def
      success_args_def at_sensitivity_def Let_def)

lemma not_terminal [simp]: "\<not> terminal_args c (entry_defaults t)"
  by (simp add: terminal_args_def entry_defaults_def)

section \<open>What a step may do to the shared objects\<close>

definition px_evolves :: "'s proxy_state \<Rightarrow> 's proxy_state \<Rightarrow> bool" where
  "px_evolves px px' \<longleftrightarrow>
     (\<exists>es. ch_entries (px_audit px') = ch_entries (px_audit px) @ es)
     \<and> ss_session_id (px_session px') = ss_session_id (px_session px)
     \<and> ss_sensitivity_order (px_session px') = ss_sensitivity_order (px_session px)
     \<and> ss_reset_count (px_session px) \<le> ss_reset_count (px_session px')
     \<and> (ss_reset_count (px_session px') = ss_reset_count (px_session px) \<longrightarrow>
          rank (ss_sensitivity_order (px_session px)) (ss_max_sensitivity (px_session px))
            \<le> rank (ss_sensitivity_order (px_session px)) (ss_max_sensitivity (px_session px')))
     \<and> pe_mode (px_policy px') = pe_mode (px_policy px)
     \<and> mg_policy (px_gateway px') = mg_policy (px_gateway px)
     \<and> (pl_failed_terminal_call (px_life px) \<noteq> None \<longrightarrow> pl_failed_terminal_call (px_life px') \<noteq> None)"

lemma px_evolves_refl: "px_evolves px px"
  by (auto simp: px_evolves_def)

lemma px_evolves_trans: "px_evolves a b \<Longrightarrow> px_evolves b c \<Longrightarrow> px_evolves a c"
  by (auto simp: px_evolves_def)

text \<open>All of that, and no terminal entry of the call \<open>cid\<close>.\<close>

definition px_grows :: "string \<Rightarrow> 's proxy_state \<Rightarrow> 's proxy_state \<Rightarrow> bool" where
  "px_grows cid px px' \<longleftrightarrow> px_evolves px px'
     \<and> (\<forall>e\<in>set (drop (length (ch_entries (px_audit px))) (ch_entries (px_audit px'))). \<not> terminal_args cid e)"

lemma px_grows_refl: "px_grows cid px px"
  by (simp add: px_grows_def px_evolves_refl)

lemma px_growsD:
  assumes "px_grows cid px px'"
  shows "px_evolves px px'"
    and "filter (terminal_args cid) (drop (length (ch_entries (px_audit px))) (ch_entries (px_audit px'))) = []"
  using assms by (simp_all add: px_grows_def filter_empty_conv)

lemmas px_grows_unfold = px_grows_def px_evolves_def

text \<open>Changes that leave alone what \<open>px_evolves\<close> speaks of.\<close>

definition same_core :: "'s proxy_state \<Rightarrow> 's proxy_state \<Rightarrow> bool" where
  "same_core px px' \<longleftrightarrow>
     px_audit px' = px_audit px \<and> ss_session_id (px_session px') = ss_session_id (px_session px)
     \<and> ss_sensitivity_order (px_session px') = ss_sensitivity_order (px_session px)
     \<and> ss_max_sensitivity (px_session px') = ss_max_sensitivity (px_session px)
     \<and> ss_reset_count (px_session px') = ss_reset_count (px_session px)
     \<and> pe_mode (px_policy px') = pe_mode (px_policy px) \<and> mg_policy (px_gateway px') = mg_policy (px_gateway px)
     \<and> (pl_failed_terminal_call (px_life px) \<noteq> None \<longrightarrow> pl_failed_terminal_call (px_life px') \<noteq> None)"

lemma same_core_grows: "same_core px px' \<Longrightarrow> px_grows cid px px'"
  by (auto simp: same_core_def px_grows_unfold)

lemma apply_inspection_core:
  assumes "apply_inspection ops now store s c ts ij al frc = (b, s', store')"
  shows "ss_session_id s' = ss_session_id s" "ss_sensitivity_order s' = ss_sensitivity_order s"
    "rank (ss_sensitivity_order s) (ss_max_sensitivity s) \<le> rank (ss_sensitivity_order s) (ss_max_sensitivity s')"
    "ss_reset_count s \<le> ss_reset_count s'"
    "\<lbrakk>b; t \<in> set ts\<rbrakk> \<Longrightarrow> rank (ss_sensitivity_order s) t \<le> rank (ss_sensitivity_order s) (ss_max_sensitivity s')"
    "\<not> b \<Longrightarrow> \<exists>n. frc = Some n \<and> n \<noteq> ss_reset_count s'"
proof -
  obtain s1 where s1: "s1 = s \<or> (\<exists>v. s1 = adopt s v)"
    and u: "update_from_inspection now s1 c ts ij al frc = (b, s')"
    using assms by (cases store) (auto simp: apply_inspection_def Let_def split: prod.splits)
  have f: "ss_sensitivity_order s1 = ss_sensitivity_order s" "ss_session_id s1 = ss_session_id s"
    "rank (ss_sensitivity_order s) (ss_max_sensitivity s) \<le> rank (ss_sensitivity_order s) (ss_max_sensitivity s1)"
    "ss_reset_count s \<le> ss_reset_count s1"
    using s1 by (metis adopt_None adopt_frame(1) order_refl adopt_frame(2) adopt_rank(1) max.cobounded1 not_None_eq adopt_rank(2))+
  have m: "m \<le> foldl max m ns \<and> (\<forall>n\<in>set ns. n \<le> foldl max m ns)" for m :: int and ns
    by (induction ns arbitrary: m) (auto, (meson max.cobounded1 order_trans max.cobounded2)+)
  note fr = update_from_inspection_frame [OF u]
  show "ss_session_id s' = ss_session_id s" "ss_sensitivity_order s' = ss_sensitivity_order s" "ss_reset_count s \<le> ss_reset_count s'"
    using f fr by simp_all
  show "rank (ss_sensitivity_order s) (ss_max_sensitivity s) \<le> rank (ss_sensitivity_order s) (ss_max_sensitivity s')"
    using u f m update_from_inspection_rank [of now s1 c ts ij al frc s'] update_from_inspection_dropped [of now s1 c ts ij al frc s']
    by (cases b) (auto intro: order_trans)
  show "rank (ss_sensitivity_order s) t \<le> rank (ss_sensitivity_order s) (ss_max_sensitivity s')" if b "t \<in> set ts"
    using u f m that update_from_inspection_rank [of now s1 c ts ij al frc s'] by auto
  show "\<exists>n. frc = Some n \<and> n \<noteq> ss_reset_count s'" if "\<not> b"
    using u that update_from_inspection_dropped [of now s1 c ts ij al frc s'] by auto
qed

lemma hydrate_core:
  assumes "hydrate ops store s = (b, s', store')"
  shows "ss_session_id s' = ss_session_id s" "ss_sensitivity_order s' = ss_sensitivity_order s"
    "rank (ss_sensitivity_order s) (ss_max_sensitivity s) \<le> rank (ss_sensitivity_order s) (ss_max_sensitivity s')"
    "ss_reset_count s \<le> ss_reset_count s'"
  using assms by (auto simp: hydrate_def split: option.splits)

lemma evaluate_call_mode: "evaluate_call en i ev ctx = (r, ev') \<Longrightarrow> pe_mode ev' = pe_mode ev"
  by (auto simp: evaluate_call_def maybe_reload_def Let_def split: prod.splits)

lemma authorize_egress_mode: "authorize_egress en i i' ev t resp s w cc = (r, ev') \<Longrightarrow> pe_mode ev' = pe_mode ev"
  by (auto simp: authorize_egress_def maybe_reload_def Let_def dest!: evaluate_call_mode split: prod.splits)

lemma life_failed_kept:
  "stdio_for k b life = Inr life' \<Longrightarrow> pl_failed_terminal_call life' = pl_failed_terminal_call life"
  "client_for_upstream ck life = Inr life' \<Longrightarrow> pl_failed_terminal_call life' = pl_failed_terminal_call life"
  by (auto simp: stdio_for_def client_for_upstream_def bind_result_eq_Inr split: if_splits sum.splits)

text \<open>The changes the stages make to the shared objects.\<close>

lemma grows_life:
  "pl_failed_terminal_call life' = pl_failed_terminal_call (px_life px) \<Longrightarrow> px_grows cid px (px\<lparr>px_life := life'\<rparr>)"
  by (auto simp: px_grows_unfold)

lemma grows_stdio: "stdio_for k b (px_life px) = Inr life' \<Longrightarrow> px_grows cid px (px\<lparr>px_life := life'\<rparr>)"
  by (rule grows_life) (rule life_failed_kept)

lemma grows_client: "client_for_upstream ck (px_life px) = Inr life' \<Longrightarrow> px_grows cid px (px\<lparr>px_life := life'\<rparr>)"
  by (rule grows_life) (rule life_failed_kept)

lemma grows_policy: "pe_mode ev = pe_mode (px_policy px) \<Longrightarrow> px_grows cid px (px\<lparr>px_policy := ev\<rparr>)"
  by (auto simp: px_grows_unfold)

lemma grows_session:
  "\<lbrakk>ss_session_id s = ss_session_id (px_session px); ss_sensitivity_order s = ss_sensitivity_order (px_session px);
    rank (ss_sensitivity_order (px_session px)) (ss_max_sensitivity (px_session px))
      \<le> rank (ss_sensitivity_order (px_session px)) (ss_max_sensitivity s);
    ss_reset_count (px_session px) \<le> ss_reset_count s\<rbrakk> \<Longrightarrow> px_grows cid px (px\<lparr>px_session := s, px_store := store\<rparr>)"
  by (auto simp: px_grows_unfold)

lemma grows_inspection:
  "apply_inspection ops now st (px_session px) c ts ij al frc = (b, s, store) \<Longrightarrow>
     px_grows cid px (px\<lparr>px_session := s, px_store := store\<rparr>)"
  by (rule grows_session) (auto dest: apply_inspection_core)

lemma grows_hydrate:
  "hydrate ops st (px_session px) = (b, s, store) \<Longrightarrow> px_grows cid px (px\<lparr>px_session := s, px_store := store\<rparr>)"
  by (rule grows_session) (auto dest: hydrate_core)

lemma grows_gateway:
  "intercept_tool_call a t ps (px_gateway px) = (r, g) \<Longrightarrow> px_grows cid px (px\<lparr>px_gateway := g\<rparr>)"
  using intercept_budget(1) [of a t ps "px_gateway px"] by (auto simp: px_grows_unfold)

section \<open>Relations that compose\<close>

locale call_relation =
  fixes R :: "'s thread \<Rightarrow> 's thread \<Rightarrow> bool"
  assumes R_refl: "R th th"
    and R_trans: "R a b \<Longrightarrow> R b c \<Longrightarrow> R a c"
begin

lemma always_simps:
  "always R (give a)" "always R (halt r)" "always R (look g)" "always R (look_fin h)" "always R (lift_error err res)"
  using R_refl by (auto simp: always_def step_eqs lift_error_def split: sum.splits)

lemma always_andThen: "always R m \<Longrightarrow> (\<And>a. always R (f a)) \<Longrightarrow> always R (andThen m f)"
  unfolding always_def andThen_def by (auto split: prod.splits sum.splits) (metis R_trans snd_conv)+

lemma always_andThen_value:
  "always R m \<Longrightarrow> (\<And>th a th'. m th = (Inr a, th') \<Longrightarrow> always R (f a)) \<Longrightarrow> always R (andThen m f)"
  unfolding always_def andThen_def by (auto split: prod.splits sum.splits) (metis R_trans snd_conv)+

lemma always_catch: "always R m \<Longrightarrow> (\<And>e. always R (h e)) \<Longrightarrow> always R (catch m h)"
  unfolding always_def catch_def by (auto split: prod.splits sum.splits stop.splits) (metis R_trans snd_conv)+

lemma always_on_ok: "always R m \<Longrightarrow> on_ok R m"
  by (auto simp: always_def on_ok_def) (metis snd_conv)

lemma on_ok_andThen: "on_ok R m \<Longrightarrow> (\<And>a. on_ok R (f a)) \<Longrightarrow> on_ok R (andThen m f)"
  by (auto simp: on_ok_def andThen_Inr) (metis R_trans)

lemma on_ok_stops: "stops m \<Longrightarrow> on_ok R m"
  by (auto simp: on_ok_def stops_def)

lemma on_ok_catch: "always R m \<Longrightarrow> (\<And>e. on_ok R (h e)) \<Longrightarrow> on_ok R (catch m h)"
  by (auto simp: on_ok_def catch_Inr always_def) (metis R_trans snd_conv)+

lemma always_trans: "always R m \<Longrightarrow> m th = (r, th') \<Longrightarrow> R th th'"
  by (auto simp: always_def) (metis snd_conv)

end

text \<open>Relations that allow any growth of the shared objects and any change of the finalization record but its
  terminal; \<open>env\<close> interferes only by growth.\<close>

locale quiet = call_relation R for R :: "'s thread \<Rightarrow> 's thread \<Rightarrow> bool" +
  fixes env :: "'s call_env" and call_id :: string
  assumes grow: "px_grows call_id (th_px th) px' \<Longrightarrow> R th (th\<lparr>th_px := px'\<rparr>)"
    and note_fact: "cf_terminal_entry_id f = cf_terminal_entry_id (th_fin th) \<Longrightarrow> R th (th\<lparr>th_fin := f\<rparr>)"
    and interference: "px_grows call_id px (cv_interfere env place px)"
begin

lemma always_set_px: "(\<And>px. px_grows call_id px (f px)) \<Longrightarrow> always R (set_px f)"
  by (simp add: always_def set_px_def grow)

lemma always_core: "(\<And>px. same_core px (f px)) \<Longrightarrow> always R (set_px f)"
  by (rule always_set_px) (simp add: same_core_grows)

lemma always_set_fin: "(\<And>f. cf_terminal_entry_id (g f) = cf_terminal_entry_id f) \<Longrightarrow> always R (set_fin g)"
  by (simp add: always_def set_fin_def note_fact)

lemma always_stage: "always R (stage name)"
  unfolding stage_def by (rule always_set_fin) simp

lemma always_suspend: "always R (suspend env place)"
  by (simp add: always_def suspend_def grow interference)

lemma always_audit_append:
  assumes "\<not> terminal_args call_id args"
  shows "always R (audit_append cfg env place args)"
proof -
  have "R th (th\<lparr>th_px := (th_px th)\<lparr>px_audit := c\<rparr>\<rparr>)"
    if "ch_entries c = ch_entries (px_audit (th_px th)) @ [e]" "\<not> terminal_args call_id e" for th c and e :: audit_entry
    by (rule grow) (use that in \<open>auto simp: px_grows_unfold\<close>)
  then show ?thesis
    using R_refl assms
    by (auto simp: always_def audit_append_def Let_def terminal_args_def split: sum.splits prod.splits elim!: chain_append_cases)
qed

lemmas rules = always_simps always_andThen always_stage always_suspend always_audit_append

lemma always_append_all: "\<forall>a\<in>set as. \<not> terminal_args call_id a \<Longrightarrow> always R (append_all cfg env place as)"
  by (induction as) (auto intro!: rules)

lemma always_proxy_record_call: "always R (proxy_record_call cfg env place rq called al sb sr ce d tags)"
  unfolding proxy_record_call_def
  by (auto intro!: rules always_core simp: same_core_def)

text \<open>A step taken on the very objects that were just looked at.\<close>

definition at_px :: "'s proxy_state \<Rightarrow> ('s, 'a) step \<Rightarrow> bool" where
  "at_px px m \<longleftrightarrow> (\<forall>th. th_px th = px \<longrightarrow> R th (snd (m th)))"

lemma always_look: "(\<And>px. at_px px (f (g px))) \<Longrightarrow> always R (andThen (look g) f)"
  by (simp add: always_def at_px_def andThen_def look_def)

lemma at_px_set: "px_grows call_id px (k px) \<Longrightarrow> at_px px (set_px k)"
  by (simp add: at_px_def set_px_def grow)

lemma at_px_andThen: "at_px px m \<Longrightarrow> (\<And>a. always R (f a)) \<Longrightarrow> at_px px (andThen m f)"
  unfolding at_px_def always_def andThen_def by (auto split: prod.splits sum.splits) (metis R_trans snd_conv)+

lemma at_px_always: "always R m \<Longrightarrow> at_px px m"
  by (simp add: at_px_def always_def)

lemmas at_px_simps = always_simps [THEN at_px_always]

subsection \<open>Upstream\<close>

lemma always_use_stdio: "always R (use_stdio env entry)"
  unfolding use_stdio_def
  by (auto intro!: always_andThen always_suspend always_look at_px_simps at_px_set split: sum.split intro: grows_stdio)

lemma always_discover_tools: "always R (discover_tools env entry)"
proof -
  have "at_px px (case client_for_upstream ck (px_life px) of Inl _ \<Rightarrow> give None
      | Inr life' \<Rightarrow> andThen (set_px (\<lambda>px. px\<lparr>px_life := life'\<rparr>)) (\<lambda>_. andThen (suspend env place) (\<lambda>_. give x)))"
    for px ck place and x :: "json list option"
    by (auto intro!: at_px_andThen at_px_set at_px_simps rules split: sum.split intro: grows_client)
  then show ?thesis
    unfolding discover_tools_def by (auto intro!: rules always_look always_use_stdio)
qed

lemma always_advertised_tools: "always R (advertised_tools env entry)"
  unfolding advertised_tools_def Let_def
  by (auto intro!: rules always_core always_discover_tools simp: same_core_def split: option.split)

lemma always_observe_unadmitted: "always R (observe_unadmitted cfg env entry c tools)"
  by (simp add: observe_unadmitted_def Let_def always_append_all)

lemma always_report_drift: "always R (report_drift cfg env c tools ds)"
proof (induction ds)
  case (Cons d ds)
  then show ?case
    by (cases d) (auto intro!: rules always_core simp: same_core_def)
qed (simp add: always_simps)

lemma always_mark_drift_checked: "always R (mark_drift_checked key)"
  unfolding mark_drift_checked_def by (auto intro!: rules always_core simp: same_core_def)

lemma always_check_upstream_drift: "always R (check_upstream_drift cfg env entry)"
  unfolding check_upstream_drift_def Let_def
  by (auto intro!: rules always_core always_advertised_tools always_observe_unadmitted always_report_drift
      always_mark_drift_checked simp: same_core_def split: option.split)

lemma always_check_provenance: "always R (check_provenance env entry)"
  unfolding check_provenance_def Let_def
  by (auto intro!: rules always_core always_advertised_tools simp: same_core_def split: option.split)

lemma always_trace_before_transport: "always R (trace_before_transport cfg env entry rq)"
  unfolding trace_before_transport_def Let_def gate_checks_def
  by (auto intro!: rules split: option.split)

subsection \<open>Checks of the pipeline\<close>

lemma always_check_health: "always R (check_health cfg env)"
  unfolding check_health_def by (auto intro!: rules always_core always_append_all simp: same_core_def)

lemma always_request_facts: "always R (request_facts cfg env rq)"
  unfolding request_facts_def Let_def by (auto intro!: rules always_set_fin)

lemma always_break_glass_notice: "always R (break_glass_notice cfg env rq ct entry)"
  unfolding break_glass_notice_def by (auto intro!: rules simp: call_args_terminal)

lemma at_px_policy:
  "pe_mode ev = pe_mode (px_policy px) \<Longrightarrow> (\<And>a. always R (f a)) \<Longrightarrow> at_px px (andThen (set_px (\<lambda>px. px\<lparr>px_policy := ev\<rparr>)) f)"
  by (auto intro!: at_px_andThen at_px_set grows_policy)

lemma always_policy_decision_step: "always R (policy_decision_step cfg env rq ct entry ctx)"
  unfolding policy_decision_step_def
  by (auto intro!: always_look at_px_simps at_px_policy always_simps split: option.split prod.split sum.split eval_error.split
      dest: evaluate_call_mode)

lemma always_egress_decision_step: "always R (egress_decision_step cfg env rq am response)"
  unfolding egress_decision_step_def
  by (auto intro!: always_look at_px_simps at_px_policy always_simps split: option.split prod.split sum.split eval_error.split
      dest: authorize_egress_mode)

lemma always_update_session: "always R (update_session cfg env place rq entry ij al)"
  unfolding update_session_def
  by (auto intro!: always_andThen [where m = "suspend env place"] always_andThen [where m = "look_fin cf_reset_count"]
      always_suspend always_simps always_look at_px_andThen at_px_set split: prod.split intro: grows_inspection)

lemma always_bind_response: "always R (bind_response cfg env response)"
  unfolding bind_response_def by (auto intro!: rules always_set_fin)

lemma always_hydrate_session: "always R (hydrate_session cfg env)"
  unfolding hydrate_session_def
  by (auto intro!: rules always_set_fin always_set_px split: prod.split intro: grows_hydrate)

subsection \<open>Gates passed\<close>

text \<open>A gate that lets the call through has written no terminal entry.\<close>

lemma ok_stopping:
  "on_ok R (halt r)" "on_ok R (refuse cfg env' place rq called sb args sr ce d whd reason adv)"
  "(\<And>a. stops (f a)) \<Longrightarrow> on_ok R (andThen (append_call_terminal cfg env' place args) f)"
  "(\<And>a. stops (f a)) \<Longrightarrow> on_ok R (andThen (finalize_unexpected_call_failure cfg env' place rq e) f)"
  by (simp_all add: on_ok_stops)

lemmas ok_rules = rules [THEN always_on_ok] on_ok_andThen ok_stopping always_on_ok [OF always_set_fin]

lemma ok_gateway_gate: "on_ok R (gateway_gate cfg env rq ct entry whd)"
proof -
  have "on_ok R (andThen (look id) (\<lambda>px.
       case intercept_tool_call (ss_session_id (px_session px)) t ps (px_gateway px) of ((ok, reason), g) \<Rightarrow>
         andThen (set_px (\<lambda>px. px\<lparr>px_gateway := g\<rparr>)) (\<lambda>_. if ok then give () else f reason)))"
    if "\<And>reason. stops (f reason)" for t ps and f :: "string \<Rightarrow> ('s, unit) step"
    using that grow [OF grows_gateway]
    by (fastforce simp: on_ok_def andThen_Inr look_def set_px_def give_def stops_def split: prod.splits if_splits)
  then show ?thesis
    unfolding gateway_gate_def by (auto intro!: on_ok_andThen [where m = "stage name" for name] always_on_ok [OF always_stage])
qed

lemma ok_check_execution_available: "on_ok R (check_execution_available cfg env rq ct)"
  by (simp add: check_execution_available_def refuse_execution_def ok_rules split: option.split)

lemma ok_health_gate: "on_ok R (health_gate cfg env rq)"
  by (simp add: health_gate_def ok_rules always_on_ok [OF always_check_health] split: option.split)

lemma ok_catalog_gate: "on_ok R (catalog_gate cfg env rq ct)"
  by (simp add: catalog_gate_def catalog_miss_def ok_rules split: option.split)

lemma ok_sink_admission: "on_ok R (sink_admission cfg env rq ct entry)"
  by (simp add: sink_admission_def ok_rules split: option.split)

lemma ok_drift_gate: "on_ok R (drift_gate cfg env rq ct entry)"
  by (simp add: drift_gate_def ok_rules always_on_ok [OF always_check_upstream_drift] always_on_ok [OF always_proxy_record_call])

lemma ok_policy_gate: "on_ok R (policy_gate cfg env rq ct entry edc)"
  by (simp add: policy_gate_def Let_def ok_rules on_ok_catch always_policy_decision_step split: call_error.split)

lemma ok_trace_gate_check: "on_ok R (trace_gate_check cfg env rq)"
  by (simp add: trace_gate_check_def ok_rules split: option.split)

lemma ok_admit_call: "on_ok R (admit_call cfg env rq)"
  by (simp add: admit_call_def ok_check_execution_available ok_health_gate ok_catalog_gate ok_sink_admission ok_drift_gate
      ok_policy_gate ok_gateway_gate ok_trace_gate_check always_on_ok [OF always_request_facts]
      always_on_ok [OF always_break_glass_notice] ok_rules)

lemma ok_size_gate: "on_ok R (size_gate cfg env rq am received)"
  by (simp add: size_gate_def size_refusal_def Let_def ok_rules split: option.split)

lemma ok_scan_gate: "on_ok R (scan_gate cfg env rq am text)"
  by (simp add: scan_gate_def Let_def ok_rules always_on_ok [OF always_update_session])

lemma ok_egress_gate: "on_ok R (egress_gate cfg env rq am response)"
  by (simp add: egress_gate_def Let_def ok_rules on_ok_catch always_egress_decision_step split: call_error.split)

lemma ok_trace_begin: "on_ok R (trace_begin cfg env rq)"
  by (simp add: trace_begin_def Let_def ok_rules split: option.split sum.split)

end

section \<open>Ending a call\<close>

locale ending = quiet R env call_id
  for R :: "'s thread \<Rightarrow> 's thread \<Rightarrow> bool" and env :: "'s call_env" and call_id :: string +
  assumes conclude:
    "\<lbrakk>cf_terminal_entry_id (th_fin th) = None; terminal_args call_id e;
      px_evolves (th_px th) px'; ch_entries (px_audit px') = ch_entries (px_audit (th_px th)) @ [e];
      cf_terminal_entry_id f = Some (ae_entry_id e)\<rbrakk> \<Longrightarrow> R th (th\<lparr>th_px := px', th_fin := f\<rparr>)"
begin

lemma always_append_call_terminal:
  assumes "terminal_args call_id args"
  shows "always R (append_call_terminal cfg env place args)"
proof -
  let ?persist = "\<lambda>fin. andThen (audit_append cfg env place (args\<lparr>ea_execution_id := cf_execution_id fin\<rparr>)) (\<lambda>e.
      set_fin (\<lambda>f. f\<lparr>cf_terminal_entry_id := Some (ae_entry_id e), cf_effect_boundary_state := TERMINAL_DURABLE\<rparr>))"
  have persist: "R th (snd (?persist (th_fin th) th))" if none: "cf_terminal_entry_id (th_fin th) = None" for th
  proof (cases "audit_append cfg env place (args\<lparr>ea_execution_id := cf_execution_id (th_fin th)\<rparr>) th")
    case (Pair r th1)
    show ?thesis
    proof (cases r)
      case (Inl x)
      then have "th1 = th"
        using Pair by (auto simp: audit_append_def Let_def split: if_splits sum.splits prod.splits)
      then show ?thesis using Pair Inl R_refl by (simp add: andThen_def)
    next
      case (Inr e)
      then obtain c where c: "th1 = th\<lparr>th_px := (th_px th)\<lparr>px_audit := c\<rparr>\<rparr>"
        "ch_entries c = ch_entries (px_audit (th_px th)) @ [e]" "terminal_args call_id e"
        using Pair assms
        by (auto simp: audit_append_def Let_def terminal_args_def split: if_splits sum.splits prod.splits elim!: chain_append_cases)
      then have "R th (th\<lparr>th_px := th_px th1, th_fin := (th_fin th)\<lparr>cf_terminal_entry_id := Some (ae_entry_id e),
          cf_effect_boundary_state := TERMINAL_DURABLE\<rparr>\<rparr>)"
        by (intro conclude [OF none]) (auto simp: px_grows_unfold)
      then show ?thesis using Pair Inr c(1) by (simp add: andThen_def set_fin_def)
    qed
  qed
  show ?thesis
    unfolding append_call_terminal_def always_def
    using persist R_refl by (simp add: andThen_def look_fin_def halt_def give_def split: option.split)
qed

lemma always_finalize_unexpected: "cq_call_id rq = call_id \<Longrightarrow> always R (finalize_unexpected_call_failure cfg env place rq e)"
  unfolding finalize_unexpected_call_failure_def
  by (auto intro!: rules always_catch always_append_call_terminal always_set_px
      simp: call_args_terminal px_grows_unfold record_failed_terminal_def)

lemma always_refuse: "terminal_args call_id args \<Longrightarrow> always R (refuse cfg env place rq called sb args sr ce d whd reason adv)"
  unfolding refuse_def by (auto intro!: rules always_append_call_terminal always_proxy_record_call)

lemmas end_rules = rules always_refuse always_append_call_terminal always_set_fin always_finalize_unexpected call_args_terminal

lemma always_gateway_gate:
  assumes "cq_call_id rq = call_id"
  shows "always R (gateway_gate cfg env rq ct entry whd)"
proof -
  have at_gateway: "at_px px (case intercept_tool_call a t ps (px_gateway px) of ((ok, reason), g) \<Rightarrow>
      andThen (set_px (\<lambda>px. px\<lparr>px_gateway := g\<rparr>)) (\<lambda>_. if ok then give () else f reason))"
    if "\<And>reason. always R (f reason)" for a t ps px and f :: "string \<Rightarrow> ('s, unit) step"
    using that by (auto intro!: at_px_andThen at_px_set always_simps split: prod.split intro: grows_gateway)
  show ?thesis
    using assms unfolding gateway_gate_def
    by (auto intro!: always_andThen [where m = "stage name" for name] always_stage always_look at_gateway
        at_px_always [OF always_refuse] simp: end_rules)
qed

lemma always_gates:
  assumes "cq_call_id rq = call_id"
  shows "always R (check_execution_available cfg env rq ct)" "always R (health_gate cfg env rq)"
    "always R (catalog_gate cfg env rq ct)" "always R (sink_admission cfg env rq ct entry)"
    "always R (drift_gate cfg env rq ct entry)" "always R (policy_gate cfg env rq ct entry edc)"
    "always R (trace_gate_check cfg env rq)"
  using assms
  by (simp_all add: check_execution_available_def refuse_execution_def health_gate_def catalog_gate_def catalog_miss_def
      sink_admission_def drift_gate_def policy_gate_def trace_gate_check_def Let_def end_rules always_check_health
      always_check_upstream_drift always_proxy_record_call always_policy_decision_step always_catch split: option.split call_error.split)

lemma always_admit_call: "cq_call_id rq = call_id \<Longrightarrow> always R (admit_call cfg env rq)"
  by (simp add: admit_call_def always_gates always_gateway_gate always_request_facts always_break_glass_notice rules)

lemma always_size_scan:
  assumes "cq_call_id rq = call_id"
  shows "always R (size_gate cfg env rq am received)" "always R (scan_gate cfg env rq am text)"
  using assms
  by (simp_all add: size_gate_def size_refusal_def scan_gate_def Let_def end_rules always_update_session split: option.split)

lemma always_egress_complete:
  assumes "cq_call_id rq = call_id"
  shows "always R (egress_gate cfg env rq am response)" "always R (complete_call cfg env rq am scan eg response)"
  using assms
  by (simp_all add: egress_gate_def complete_call_def Let_def end_rules always_catch always_egress_decision_step
      always_proxy_record_call split: call_error.split)

lemma always_answer_call: "cq_call_id rq = call_id \<Longrightarrow> always R (answer_call cfg env rq am received)"
  by (simp add: answer_call_def Let_def always_size_scan always_egress_complete always_bind_response always_update_session rules)

lemma always_trace_begin: "cq_call_id rq = call_id \<Longrightarrow> always R (trace_begin cfg env rq)"
  by (simp add: trace_begin_def Let_def end_rules split: option.split sum.split)

end

section \<open>Sending\<close>

locale sending = quiet R env call_id
  for R :: "'s thread \<Rightarrow> 's thread \<Rightarrow> bool" and env :: "'s call_env" and call_id :: string +
  assumes send: "R th (th\<lparr>th_sent := reqs\<rparr>)"
begin

lemma always_hand_over: "always R (hand_over r)"
  by (simp add: always_def hand_over_def send)

lemma always_http_exchange: "always R (http_exchange cfg env r)"
  by (simp add: http_exchange_def rules always_set_fin always_hand_over split: http_answer.split)

lemma always_forward_stdio: "always R (forward_stdio cfg env entry rq)"
  by (simp add: forward_stdio_def starting_def rules always_set_fin always_hand_over always_use_stdio always_trace_before_transport)

lemma always_forward_http: "always R (forward_http cfg env entry rq)"
proof -
  have at_client: "at_px px (case client_for_upstream ck (px_life px) of Inl _ \<Rightarrow> halt (Raised unavailable)
      | Inr life' \<Rightarrow> andThen (set_px (\<lambda>px. px\<lparr>px_life := life'\<rparr>)) f)"
    if "\<And>a. always R (f a)" for px ck and f :: "unit \<Rightarrow> ('s, string) step"
    using that by (auto intro!: at_px_andThen at_px_set at_px_simps split: sum.split intro: grows_client)
  show ?thesis
    unfolding forward_http_def
    by (auto intro!: always_look at_client simp: rules Let_def starting_def always_set_fin always_http_exchange always_trace_before_transport
        split: prod.split json.split)
qed

lemma always_forward_to_upstream: "always R (forward_to_upstream cfg env entry rq)"
  by (simp add: forward_to_upstream_def rules always_check_provenance always_forward_stdio always_forward_http)

end

lemma trace_begin_request:
  "trace_begin cfg env rq th = (Inr rq', th') \<Longrightarrow> rq' = rq\<lparr>cq_arguments := cq_arguments rq'\<rparr>"
proof -
  have "gives (\<lambda>rq'. rq' = rq\<lparr>cq_arguments := cq_arguments rq'\<rparr>) (trace_begin cfg env rq)"
    by (simp add: trace_begin_def Let_def gives_rules split: sum.split option.split)
  then show "trace_begin cfg env rq th = (Inr rq', th') \<Longrightarrow> rq' = rq\<lparr>cq_arguments := cq_arguments rq'\<rparr>"
    unfolding gives_def by blast
qed

locale whole = ending R env call_id + sending R env call_id
  for R :: "'s thread \<Rightarrow> 's thread \<Rightarrow> bool" and env :: "'s call_env" and call_id :: string
begin

lemma always_invoke_upstream: "cq_call_id rq = call_id \<Longrightarrow> always R (invoke_upstream cfg env rq am)"
  by (simp add: invoke_upstream_def Let_def end_rules always_catch always_forward_to_upstream split: call_error.split)

lemma always_call_tool_impl: "cq_call_id rq = call_id \<Longrightarrow> always R (call_tool_impl cfg env rq)"
  by (simp add: call_tool_impl_def always_andThen always_admit_call always_invoke_upstream always_answer_call)

lemma always_run_call:
  assumes "cq_call_id rq = call_id"
  shows "always R (run_call cfg env rq)"
  unfolding run_call_def
  by (intro always_catch always_andThen always_andThen_value [OF always_trace_begin] always_hydrate_session always_call_tool_impl
      always_finalize_unexpected always_simps) (use assms in \<open>auto dest: arg_cong [where f = cq_call_id, OF trace_begin_request]\<close>)

end

end
