(* ===== verification/Call_Sample.thy ===== *)
theory Call_Sample
  imports Proxy_Call
begin

text \<open>
  A concrete proxy and call, run through the pipeline by the simplifier: one stdio tool \<open>a\<close> of
  sensitivity \<open>confidential\<close>, a policy engine that permits, an upstream that
  answers, and no other task. Hashing and serialization stay symbolic.
\<close>

section \<open>A sample call\<close>

definition sample_call_config :: "unit proxy_config" where
  "sample_call_config = \<lparr>pc_sha256 = (\<lambda>_. ''h''), pc_engine = sample_engine\<lparr>en_is_authorized := (\<lambda>_ _. Cedar_response True [''policy0''] [])\<rparr>,
     pc_store_ops = \<lparr>so_load = (\<lambda>_ _. None), so_save = (\<lambda>s _ _. s), so_record_closed = (\<lambda>s _ _. s), so_is_shared = False\<rparr>,
     pc_catalog_hash = [], pc_attestation_generated_at = None, pc_attestation_validity_seconds = 0,
     pc_attestation_platform = ''tdx'', pc_sink_policy = None, pc_sink_order = SENSITIVITY_ORDER, pc_max_response_size_bytes = 100,
     pc_drift_fail_closed = True, pc_required_provenance_kind = None, pc_trace_gate = False, pc_catalog_scanner = None\<rparr>"

definition sample_call_env :: "string \<Rightarrow> unit call_env" where
  "sample_call_env answer = \<lparr>cv_tick = (\<lambda>_ _. sample_tick ''u''), cv_now = (\<lambda>_. sample_time), cv_duration_ms = (\<lambda>_. ''1.0''),
     cv_latency_us = (\<lambda>_. 1), cv_disk_fault = (\<lambda>_. False), cv_cancelled = (\<lambda>_. False), cv_interfere = (\<lambda>_ px. px),
     cv_reload = (\<lambda>_. (0, 0, Absent, sample_bundle_dir)), cv_policy_fault = (\<lambda>_. None), cv_freeze = Inr,
     cv_gate_begin = (\<lambda>_ _. Inl []), cv_gate_recheck = (\<lambda>_ _ _ _. None), cv_gate_receipt = (\<lambda>_ _ _. None),
     cv_gate_refusal = (\<lambda>_. None), cv_fetch_page = (\<lambda>_ _. None), cv_stdio_spawned = True, cv_stdio_tools = Inr None,
     cv_stdio_answer = Inr answer, cv_http_answer = Pin_refused, cv_json_loads = (\<lambda>_. None), cv_body_json = (\<lambda>_. None),
     cv_body_text = (\<lambda>_. []), cv_trace_library = None, cv_read_record = Record_unreadable, cv_url_scheme = (\<lambda>_. []),
     cv_version = ''1'', cv_evidence_class = None\<rparr>"

definition sample_call_px :: "string list \<Rightarrow> unit proxy_state" where
  "sample_call_px allowed = \<lparr>px_session = new_session_state ''s'' SENSITIVITY_ORDER, px_store = None,
     px_audit = \<lparr>ch_session_id = ''s'', ch_entries = [], ch_store = None, ch_sinks = [], ch_tee_anchor = None, ch_session_report = None\<rparr>,
     px_policy = new_evaluator sample_store ENFORCING None,
     px_catalog = \<lparr>tc_entries = [(''a'', (sample_stdio_entry ''a'')\<lparr>ce_sensitivity_level := ''confidential''\<rparr>)], tc_catalog_hash = [], tc_exceptions = []\<rparr>,
     px_call_log = \<lparr>cl_session_id = ''s'', cl_records = []\<rparr>, px_session_call_log = new_session_call_log ''s'' None,
     px_gateway = new_mcp_gateway (new_governance_policy allowed), px_life = new_proxy_life ''s''\<rparr>"

definition sample_request :: "string \<Rightarrow> call_request" where
  "sample_request tool = \<lparr>cq_call_id = ''c'', cq_tool_name = tool, cq_arguments = [], cq_workflow_id = None,
     cq_declared_data_class = None, cq_execution_id = None\<rparr>"

definition sample_call :: "string list \<Rightarrow> string \<Rightarrow> string \<Rightarrow> call_outcome \<times> unit thread" where
  "sample_call allowed tool answer =
     call_tool sample_call_config (sample_call_env answer) 1 False (sample_request tool) (sample_call_px allowed)"

text \<open>What the parts of the run evaluate to.\<close>

lemma sample_config_simps:
  "pc_catalog_hash sample_call_config = []" "pc_attestation_generated_at sample_call_config = None"
  "pc_sink_policy sample_call_config = None" "pc_max_response_size_bytes sample_call_config = 100"
  "pc_required_provenance_kind sample_call_config = None" "pc_trace_gate sample_call_config = False"
  by (simp_all add: sample_call_config_def)

lemma sample_env_simps:
  "cv_tick (sample_call_env a) p n = sample_tick ''u''" "cv_now (sample_call_env a) p = sample_time"
  "cv_disk_fault (sample_call_env a) p = False" "cv_cancelled (sample_call_env a) p = False"
  "cv_interfere (sample_call_env a) p px = px" "cv_reload (sample_call_env a) p = (0, 0, Absent, sample_bundle_dir)"
  "cv_policy_fault (sample_call_env a) p = None" "cv_stdio_spawned (sample_call_env a)"
  "cv_stdio_tools (sample_call_env a) = Inr None" "cv_stdio_answer (sample_call_env a) = Inr a"
  "cv_read_record (sample_call_env a) = Record_unreadable"
  by (simp_all add: sample_call_env_def)

lemma sample_session_simps:
  "ss_session_id (new_session_state s ord) = s" "ss_attestation_stale (new_session_state s ord) = False"
  "ss_catalog_drift (new_session_state s ord) = False" "ss_reset_count (new_session_state s ord) = 0"
  by (simp_all add: new_session_state_def)

abbreviation sample_evaluator :: evaluator where
  "sample_evaluator \<equiv> new_evaluator sample_store ENFORCING None"

abbreviation sample_permit :: policy_result where
  "sample_permit \<equiv> \<lparr>pr_allowed = True, pr_enforcement_mode = ENFORCING, pr_rule_matched = Some ''Cedar (cedarpy): allowed'',
     pr_advice = [], pr_would_have_denied = False, pr_decision = ALLOW\<rparr>"

lemma sample_no_reload: "maybe_reload cy (0, 0, Absent, sample_bundle_dir) sample_evaluator = (False, sample_evaluator)"
  by (simp add: maybe_reload_def reload_if_stale_def new_evaluator_def sample_store_def Let_def)

lemma sample_trusted: "require_trusted cy (pe_store sample_evaluator) = Inr ()" "pe_mode sample_evaluator = ENFORCING"
  by (simp_all add: require_trusted_def new_evaluator_def sample_store_def is_revoked_def)

lemma sample_evaluate:
  "evaluate_call (pc_engine sample_call_config) (0, 0, Absent, sample_bundle_dir) sample_evaluator ctx = (Inr sample_permit, sample_evaluator)"
  by (simp add: evaluate_call_def sample_no_reload Let_def sample_call_config_def sample_trusted apply_mode_def cedar_evaluate_def)

lemma sample_egress:
  "authorize_egress (pc_engine sample_call_config) (0, 0, Absent, sample_bundle_dir) (0, 0, Absent, sample_bundle_dir)
     sample_evaluator t r s w cc = (Inr sample_permit, sample_evaluator)"
  by (simp add: authorize_egress_def sample_no_reload Let_def sample_evaluate)

lemma sample_scan: "MCPResponseScanner ''ok'' = Some []"
  by code_simp

lemma sample_args: "\<not> list_ex (\<lambda>p. search p (dumps_spaced (JObj []))) DANGEROUS_ARGUMENT_PATTERNS"
  by code_simp

lemma sample_utf8: "length (utf8_encode ''ok'') = 2"
  by code_simp

lemma sample_gateway:
  "intercept_tool_call ''s'' ''a'' [] (new_mcp_gateway (new_governance_policy [''a''])) =
     ((True, ''Allowed by policy''), (new_mcp_gateway (new_governance_policy [''a'']))\<lparr>mg_counts := [''s'' \<mapsto> 1]\<rparr>)"
  using sample_args by (simp add: intercept_tool_call_def new_mcp_gateway_def new_governance_policy_def dict_get_def)

lemma sample_suspicious: "suspicious_sequence \<lparr>cl_session_id = s, cl_records = [r]\<rparr> 3 = False"
  by (simp add: suspicious_sequence_def)

definition sample_session_after :: session_state where
  "sample_session_after =
     fst (snd (apply_inspection (pc_store_ops sample_call_config) sample_time None (new_session_state ''s'' SENSITIVITY_ORDER)
       ''c'' [''confidential''] False True (Some 0)))"

lemma sample_inspection:
  "apply_inspection (pc_store_ops sample_call_config) sample_time None (new_session_state ''s'' SENSITIVITY_ORDER)
     ''c'' [''confidential''] False True (Some 0) = (True, sample_session_after, None)"
  by (simp add: sample_session_after_def apply_inspection_def update_from_inspection_def new_session_state_def Let_def)

lemmas sample_simps = sample_config_simps sample_env_simps sample_session_simps sample_evaluate sample_egress sample_scan sample_utf8
  sample_gateway sample_suspicious sample_inspection
  sample_call_def sample_call_px_def sample_request_def sample_stdio_entry_def sample_entry_def

lemmas pipeline_defs =
  Let_def andThen_def suspend_def set_px_def look_def look_fin_def set_fin_def catch_def halt_def give_def stage_def lift_error_def
  call_tool_def enter_call_def new_proxy_life_def ensure_running_def ensure_not_halted_def ensure_terminal_audit_complete_def
  new_thread_def new_finalization_def run_call_def hydrate_session_def hydrate_def trace_begin_def call_tool_impl_def admit_call_def
  request_facts_def check_execution_available_def health_gate_def check_health_def attestation_expired_def catalog_gate_def
  catalog_lookup_def catalog_miss_def sink_admission_def sink_check_def drift_gate_def check_upstream_drift_def advertised_tools_def
  discover_tools_def use_stdio_def is_stdio_def stdio_for_def mark_drift_checked_def break_glass_notice_def policy_gate_def
  policy_decision_step_def gateway_gate_def trace_gate_check_def invoke_upstream_def forward_to_upstream_def check_provenance_def
  check_server_provenance_def meets_def forward_stdio_def trace_before_transport_def starting_def hand_over_def answer_call_def
  size_gate_def scan_gate_def intercept_tool_response_def bind_response_def update_session_def response_tags_def egress_gate_def
  egress_decision_step_def complete_call_def append_call_terminal_def audit_append_def chain_append_def clamp_now_def
  proxy_record_call_def call_log_record_def

lemma sample_call_run:
  "\<exists>r th. sample_call [''a''] ''a'' ''ok'' = (Finished (Returned r), th) \<and> cs_allowed r \<and> cs_response r = Some ''ok''
     \<and> length (th_sent th) = 1"
  by (simp add: sample_simps pipeline_defs)

end
