(* ===== verification/Call_Properties.thy ===== *)
theory Call_Properties
  imports Call_Logic Call_Sample
begin

text \<open>
  What a tool call guarantees (\<open>mcp/proxy.py\<close>), whatever other tasks do at its
  awaits as long as they only let the shared objects grow (\<open>rely\<close>), as every call
  itself does: what must have happened before anything is sent, that the call
  leaves one terminal entry, what that entry says, and what the session
  learns from the response.
\<close>

section \<open>Interference\<close>

text \<open>Other tasks let the shared objects evolve, and write no terminal entry under this call's identifier (\<open>server.py\<close>
  draws it with \<open>uuid4\<close>).\<close>

definition rely :: "string \<Rightarrow> 's call_env \<Rightarrow> bool" where
  "rely call_id env \<longleftrightarrow> (\<forall>place px. px_grows call_id px (cv_interfere env place px))"

text \<open>An environment made to comply; it is the identity on those that do.\<close>

definition tame :: "string \<Rightarrow> 's call_env \<Rightarrow> 's call_env" where
  "tame call_id env = env\<lparr>cv_interfere := (\<lambda>place px.
     if px_grows call_id px (cv_interfere env place px) then cv_interfere env place px else px)\<rparr>"

lemma tame_id: "rely call_id env \<Longrightarrow> tame call_id env = env"
  by (simp add: tame_def rely_def)

lemma tame_interference: "px_grows call_id px (cv_interfere (tame call_id env) place px)"
  by (simp add: tame_def px_grows_refl)

section \<open>Relations along a call\<close>

abbreviation terminal_id :: "'s thread \<Rightarrow> string option" where
  "terminal_id th \<equiv> cf_terminal_entry_id (th_fin th)"

abbreviation entries_of :: "'s thread \<Rightarrow> audit_entry list" where
  "entries_of th \<equiv> ch_entries (px_audit (th_px th))"

text \<open>The terminal entries of the call among the new ones are those its finalization record knows of.\<close>

definition keeps_record :: "string \<Rightarrow> 's thread \<Rightarrow> 's thread \<Rightarrow> bool" where
  "keeps_record call_id th th' \<longleftrightarrow>
     px_evolves (th_px th) (th_px th')
     \<and> (terminal_id th \<noteq> None \<longrightarrow> terminal_id th' = terminal_id th)
     \<and> map (Some \<circ> ae_entry_id) (filter (terminal_args call_id) (drop (length (entries_of th)) (entries_of th')))
         = (if terminal_id th = None \<and> terminal_id th' \<noteq> None then [terminal_id th'] else [])"

definition same_sent :: "'s thread \<Rightarrow> 's thread \<Rightarrow> bool" where
  "same_sent th th' \<longleftrightarrow> th_sent th' = th_sent th"

definition same_terminal :: "'s thread \<Rightarrow> 's thread \<Rightarrow> bool" where
  "same_terminal th th' \<longleftrightarrow> terminal_id th' = terminal_id th"

definition evolves :: "'s thread \<Rightarrow> 's thread \<Rightarrow> bool" where
  "evolves th th' \<longleftrightarrow> px_evolves (th_px th) (th_px th')"

lemma keeps_record_trans:
  assumes ab: "keeps_record call_id a b" and bc: "keeps_record call_id b c"
  shows "keeps_record call_id a c"
proof -
  obtain es fs where es: "entries_of b = entries_of a @ es" and fs: "entries_of c = (entries_of a @ es) @ fs"
    using ab bc by (auto simp: keeps_record_def px_evolves_def)
  show ?thesis
    using ab bc es fs px_evolves_trans [of "th_px a" "th_px b" "th_px c"] by (auto simp: keeps_record_def)
qed

interpretation kr: whole "keeps_record call_id" "tame call_id env" call_id for env :: "'s call_env" and call_id
proof
  fix a b c :: "'s thread"
  show "keeps_record call_id a c" if "keeps_record call_id a b" "keeps_record call_id b c"
    using that by (rule keeps_record_trans)
qed (auto simp: keeps_record_def px_evolves_refl px_growsD tame_interference)

interpretation snt: ending same_sent "tame call_id env" call_id for env :: "'s call_env" and call_id
  by unfold_locales (auto simp: same_sent_def tame_interference)

interpretation tm: sending same_terminal "tame call_id env" call_id for env :: "'s call_env" and call_id
  by unfold_locales (auto simp: same_terminal_def tame_interference)

interpretation evo: whole evolves "tame call_id env" call_id for env :: "'s call_env" and call_id
  by unfold_locales (auto simp: evolves_def px_evolves_refl px_growsD tame_interference intro: px_evolves_trans)

section \<open>Steps that never return a result\<close>

lemma returns_append_all: "on_return Q (append_all cfg env place as)"
  by (induction as) (simp_all add: on_return_rules on_return_andThen)

lemma returns_report_drift: "on_return Q (report_drift cfg env c tools ds)"
proof (induction ds)
  case (Cons d ds)
  then show ?case by (cases d) (simp add: on_return_rules on_return_andThen)
qed (simp add: on_return_rules)

lemma returns_small:
  "on_return Q (append_call_terminal cfg env place args)"
  "on_return Q (proxy_record_call cfg env place rq called al sb sr ce d tags)"
  "on_return Q (request_facts cfg env rq)" "on_return Q (check_health cfg env)"
  "on_return Q (break_glass_notice cfg env rq ct entry)" "on_return Q (bind_response cfg env response)"
  "on_return Q (hydrate_session cfg env)" "on_return Q (mark_drift_checked key)"
  "on_return Q (observe_unadmitted cfg env entry c tools)" "on_return Q (use_stdio env entry)"
  "on_return Q (trace_before_transport cfg env entry rq)"
  by (simp_all add: append_call_terminal_def proxy_record_call_def request_facts_def check_health_def break_glass_notice_def
      bind_response_def hydrate_session_def mark_drift_checked_def observe_unadmitted_def use_stdio_def trace_before_transport_def
      gate_checks_def Let_def on_return_rules on_return_andThen returns_append_all split: option.split sum.split prod.split)

lemma returns_decisions:
  "on_return Q (policy_decision_step cfg env rq ct entry ctx)" "on_return Q (egress_decision_step cfg env rq am response)"
  "on_return Q (update_session cfg env place rq entry ij al)"
  by (simp_all add: policy_decision_step_def egress_decision_step_def update_session_def on_return_rules on_return_andThen
      split: option.split prod.split sum.split eval_error.split)

lemma returns_finalize: "on_return Q (finalize_unexpected_call_failure cfg env place rq e)"
  by (simp add: finalize_unexpected_call_failure_def on_return_rules on_return_andThen on_return_catch returns_small)

lemma returns_discover: "on_return Q (discover_tools env entry)"
  by (simp add: discover_tools_def on_return_rules on_return_andThen returns_small split: sum.split)

lemma returns_advertised: "on_return Q (advertised_tools env entry)"
  by (simp add: advertised_tools_def Let_def on_return_rules on_return_andThen returns_discover split: option.split)

lemma returns_drift_provenance: "on_return Q (check_upstream_drift cfg env entry)" "on_return Q (check_provenance env entry)"
  by (simp_all add: check_upstream_drift_def check_provenance_def Let_def on_return_rules on_return_andThen returns_advertised returns_small
      returns_report_drift split: option.split)

lemma returns_forward: "on_return Q (forward_to_upstream cfg env entry rq)"
proof -
  have "on_return Q (http_exchange cfg env r)" for Q :: "call_result \<Rightarrow> 'a thread \<Rightarrow> bool" and r
    by (simp add: http_exchange_def on_return_rules on_return_andThen split: http_answer.split)
  then show ?thesis
    by (simp add: forward_to_upstream_def forward_stdio_def forward_http_def starting_def Let_def on_return_rules on_return_andThen
        returns_drift_provenance returns_small split: sum.split prod.split json.split)
qed

lemmas returns = on_return_rules on_return_andThen on_return_catch returns_small returns_decisions returns_finalize
  returns_drift_provenance returns_forward

section \<open>A result comes after the terminal entry\<close>

definition concluded :: "call_result \<Rightarrow> 's thread \<Rightarrow> bool" where
  "concluded r th \<longleftrightarrow> terminal_id th \<noteq> None"

lemma append_call_terminal_concludes:
  "append_call_terminal cfg env place args th = (Inr a, th') \<Longrightarrow> terminal_id th' \<noteq> None"
  by (auto simp: append_call_terminal_def andThen_Inr set_fin_def halt_def look_fin_def give_def split: if_splits option.splits)

lemma concluded_after:
  assumes "\<And>a. always same_terminal (f a)"
  shows "on_return concluded (andThen (append_call_terminal cfg env place args) f)"
proof -
  have "terminal_id th2 \<noteq> None"
    if "append_call_terminal cfg env place args th = (Inr a, th1)" "f a th1 = (Inl r, th2)" for th a th1 r th2
  proof -
    have "same_terminal th1 th2" using assms that(2) unfolding always_def by (metis snd_conv)
    then show ?thesis using append_call_terminal_concludes [OF that(1)] by (simp add: same_terminal_def)
  qed
  then show ?thesis using returns_small(1) [of concluded] by (fastforce simp: on_return_def andThen_Inl concluded_def)
qed

lemma concluded_refuse: "on_return concluded (refuse cfg (tame call_id env) place rq called sb args sr ce d whd reason adv)"
  unfolding refuse_def by (intro concluded_after tm.rules tm.always_proxy_record_call)

lemmas concluded_rules = concluded_refuse concluded_after tm.rules tm.always_proxy_record_call

lemma concluded_gates:
  "on_return concluded (check_execution_available cfg (tame call_id env) rq ct)" "on_return concluded (catalog_gate cfg (tame call_id env) rq ct)"
  "on_return concluded (sink_admission cfg (tame call_id env) rq ct entry)" "on_return concluded (policy_gate cfg (tame call_id env) rq ct entry edc)"
  "on_return concluded (gateway_gate cfg (tame call_id env) rq ct entry whd)" "on_return concluded (trace_gate_check cfg (tame call_id env) rq)"
  "on_return concluded (invoke_upstream cfg (tame call_id env) rq am)" "on_return concluded (size_gate cfg (tame call_id env) rq am received)"
  "on_return concluded (scan_gate cfg (tame call_id env) rq am text)" "on_return concluded (egress_gate cfg (tame call_id env) rq am response)"
  "on_return concluded (complete_call cfg (tame call_id env) rq am scan eg response)" "on_return concluded (trace_begin cfg (tame call_id env) rq)"
  by (simp_all add: check_execution_available_def refuse_execution_def catalog_gate_def catalog_miss_def sink_admission_def
      policy_gate_def gateway_gate_def trace_gate_check_def invoke_upstream_def size_gate_def size_refusal_def scan_gate_def
      egress_gate_def complete_call_def trace_begin_def Let_def concluded_rules returns
      split: option.split call_error.split prod.split sum.split)

text \<open>The health and drift refusals answer without a terminal entry.\<close>

definition silent_refusal :: "call_result \<Rightarrow> bool" where
  "silent_refusal r \<longleftrightarrow> \<not> cs_allowed r \<and> cs_response r = None
     \<and> cs_deny_reason r \<in> {Some ''attestation_stale'', Some ''catalog_drift''}"

lemma check_health_reason:
  "check_health cfg env th = (Inr r, th') \<Longrightarrow> r = None \<or> r = Some ''attestation_stale'' \<or> r = Some ''catalog_drift''"
  by (auto simp: check_health_def andThen_Inr step_eqs split: if_splits)

lemma silent_gates:
  "on_return (\<lambda>r th. silent_refusal r) (health_gate cfg env rq)"
  "on_return (\<lambda>r th. silent_refusal r) (drift_gate cfg env rq ct entry)"
proof -
  have stop: "on_return (\<lambda>r th. silent_refusal r) (andThen (look (refusal env place rq False why None)) (\<lambda>r. halt (Returned r)))"
    if "why = ''attestation_stale'' \<or> why = ''catalog_drift''" for place why
    using that by (auto simp: on_return_def andThen_Inl step_eqs refusal_def silent_refusal_def)
  show "on_return (\<lambda>r th. silent_refusal r) (drift_gate cfg env rq ct entry)"
    by (simp add: drift_gate_def returns stop)
  have "on_return (\<lambda>r th. silent_refusal r) (andThen (check_health cfg env) (\<lambda>reason. case reason of None \<Rightarrow> give ()
       | Some why \<Rightarrow> andThen (look (refusal env ''health'' rq False why None)) (\<lambda>r. halt (Returned r))))"
    using returns_small(4) [of "\<lambda>r th. silent_refusal r" cfg env] stop
    by (fastforce simp: on_return_def andThen_Inl step_eqs refusal_def silent_refusal_def dest!: check_health_reason)
  then show "on_return (\<lambda>r th. silent_refusal r) (health_gate cfg env rq)"
    by (simp add: health_gate_def returns)
qed

definition answered :: "call_result \<Rightarrow> 's thread \<Rightarrow> bool" where
  "answered r th \<longleftrightarrow> concluded r th \<or> silent_refusal r"

lemma answeredI:
  "on_return concluded m \<Longrightarrow> on_return answered m" "on_return (\<lambda>r th. silent_refusal r) m \<Longrightarrow> on_return answered m"
  by (auto simp: on_return_def answered_def)

lemma admit_call_returns: "on_return answered (admit_call cfg (tame call_id env) rq)"
  by (simp add: admit_call_def returns concluded_gates [THEN answeredI(1)] silent_gates [THEN answeredI(2)])

lemma answer_call_returns: "on_return concluded (answer_call cfg (tame call_id env) rq am received)"
  by (simp add: answer_call_def Let_def returns concluded_gates)

lemma stops_call_tool_impl [simp]: "stops (call_tool_impl cfg env rq)"
  by (simp add: call_tool_impl_def answer_call_def complete_call_def Let_def)

lemma stops_run_call: "run_call cfg env rq th \<noteq> (Inr u, th')"
proof -
  have "stops (catch m h)" if "stops m" "\<And>e. stops (h e)" for m :: "('a, unit) step" and h
    using that by (auto simp: stops_def catch_Inr)
  then have "stops (run_call cfg env rq)"
    unfolding run_call_def by simp
  then show ?thesis by (simp add: stops_def)
qed

section \<open>The terminal entry\<close>

lemma finalize_marks:
  assumes "finalize_unexpected_call_failure cfg env place rq e th = (r, th')"
  shows "terminal_id th' \<noteq> None \<or> (r = Inl (Raised e) \<and> pl_failed_terminal_call (px_life (th_px th')) \<noteq> None)"
proof -
  have "\<lbrakk>catch (append_call_terminal cfg env place a) (\<lambda>_. andThen (set_px k) (\<lambda>_. halt (Raised e))) th = (r, th');
      \<And>px. pl_failed_terminal_call (px_life (k px)) \<noteq> None\<rbrakk> \<Longrightarrow>
      terminal_id th' \<noteq> None \<or> (r = Inl (Raised e) \<and> pl_failed_terminal_call (px_life (th_px th')) \<noteq> None)" for a k
    using append_call_terminal_concludes [of cfg env place a th] returns_small(1) [of "\<lambda>r th. False" cfg env place a]
    by (auto simp: catch_def andThen_def set_px_def halt_def on_return_def split: prod.splits sum.splits stop.splits)
  then show ?thesis
    using assms
    by (auto simp: finalize_unexpected_call_failure_def andThen_def step_eqs record_failed_terminal_def split: if_splits)
qed

lemma call_tool_impl_returns:
  assumes "call_tool_impl cfg (tame call_id env) rq th = (Inl (Returned r), th')" "cq_call_id rq = call_id"
  shows "terminal_id th' \<noteq> None \<or> (silent_refusal r \<and> th_sent th' = th_sent th)"
proof -
  consider "admit_call cfg (tame call_id env) rq th = (Inl (Returned r), th')"
    | am th1 where "invoke_upstream cfg (tame call_id env) rq am th1 = (Inl (Returned r), th')"
    | am received th1 where "answer_call cfg (tame call_id env) rq am received th1 = (Inl (Returned r), th')"
    using assms(1) by (auto simp: call_tool_impl_def andThen_Inl)
  then show ?thesis
  proof cases
    case 1
    then show ?thesis
      using admit_call_returns [of cfg call_id env rq] snt.always_trans [OF snt.always_admit_call [OF assms(2)] 1]
      by (auto simp: on_return_def answered_def concluded_def same_sent_def)
  next
    case 2
    then show ?thesis using concluded_gates(7) [of cfg call_id env rq am] by (auto simp: on_return_def concluded_def)
  next
    case 3
    then show ?thesis using answer_call_returns [of cfg call_id env rq am] by (auto simp: on_return_def concluded_def)
  qed
qed

lemma run_call_ends:
  assumes run: "run_call cfg (tame call_id env) rq th = (Inl s, th')" and cid: "cq_call_id rq = call_id"
  shows "terminal_id th' \<noteq> None
     \<or> (\<exists>e. s = Raised e \<and> pl_failed_terminal_call (px_life (th_px th')) \<noteq> None)
     \<or> (\<exists>r. s = Returned r \<and> silent_refusal r \<and> th_sent th' = th_sent th)"
proof -
  let ?body = "andThen (hydrate_session cfg (tame call_id env)) (\<lambda>_. andThen (trace_begin cfg (tame call_id env) rq)
      (call_tool_impl cfg (tame call_id env)))"
  consider (fault) e th1 where "finalize_unexpected_call_failure cfg (tame call_id env) ''unexpected'' rq e th1 = (Inl s, th')"
    | (raised) e th1 where "finalize_unexpected_call_failure cfg (tame call_id env) ''unexpected'' rq e th1 = (Inr (), th')" "s = Raised e"
    | (result) r where "?body th = (Inl (Returned r), th')" "s = Returned r"
    using run by (auto simp: run_call_def catch_def andThen_def halt_def split: prod.splits sum.splits stop.splits)
  then show ?thesis
  proof cases
    case result
    then consider th1 where "hydrate_session cfg (tame call_id env) th = (Inl (Returned r), th1)"
      | th1 where "trace_begin cfg (tame call_id env) rq th1 = (Inl (Returned r), th')"
      | th1 th2 rq' where "hydrate_session cfg (tame call_id env) th = (Inr (), th1)"
          "trace_begin cfg (tame call_id env) rq th1 = (Inr rq', th2)"
          "call_tool_impl cfg (tame call_id env) rq' th2 = (Inl (Returned r), th')"
      by (auto simp: andThen_Inl)
    then show ?thesis
    proof cases
      case 1
      then show ?thesis using returns_small(7) [of "\<lambda>r th. False" cfg "tame call_id env"] by (auto simp: on_return_def)
    next
      case 2
      then show ?thesis using concluded_gates(12) [of cfg call_id env rq] by (auto simp: on_return_def concluded_def)
    next
      case 3
      then have "same_sent th th1" "same_sent th1 th2" "cq_call_id rq' = call_id"
        using cid snt.always_trans [OF snt.always_hydrate_session 3(1)]
          snt.always_trans [OF snt.always_trace_begin 3(2)] arg_cong [where f = cq_call_id, OF trace_begin_request [OF 3(2)]] by auto
      then show ?thesis using call_tool_impl_returns [OF 3(3)] result(2) by (auto simp: same_sent_def)
    qed
  qed (use finalize_marks in fastforce)+
qed

lemma call_tool_run:
  assumes "call_tool cfg env task timed_out rq px = (Finished s, th)"
  obtains life th1 where "enter_call task timed_out (px_life (cv_interfere env ''enter'' px)) = Admitted life"
    "run_call cfg env rq (new_thread ((cv_interfere env ''enter'' px)\<lparr>px_life := life\<rparr>)) = (Inl s, th1)"
    "th = th1\<lparr>th_px := (th_px th1)\<lparr>px_life := leave_call task (px_life (th_px th1))\<rparr>\<rparr>"
  using assms stops_run_call
  by (auto simp: call_tool_def Let_def split: enter_result.splits prod.splits sum.splits)

lemma new_thread_simps [simp]:
  "th_px (new_thread px) = px" "th_sent (new_thread px) = []" "terminal_id (new_thread px) = None"
  by (simp_all add: new_thread_def new_finalization_def)

lemma leave_call_failed [simp]: "pl_failed_terminal_call (leave_call t l) = pl_failed_terminal_call l"
  by (simp add: leave_call_def)


lemma sample_rely [simp]: "rely c (sample_call_env answer)"
  by (simp add: rely_def sample_call_env_def px_grows_refl)


section \<open>What comes before the transport\<close>

text \<open>A step that may hand over one request of a kind.\<close>

definition sends :: "(upstream_request \<Rightarrow> bool) \<Rightarrow> ('s, 'a) step \<Rightarrow> bool" where
  "sends P m \<longleftrightarrow> (\<forall>th. th_sent (snd (m th)) = th_sent th \<or> (\<exists>q. th_sent (snd (m th)) = th_sent th @ [q] \<and> P q))"

lemma snd_andThen: "snd (andThen m f th) = (case fst (m th) of Inl _ \<Rightarrow> snd (m th) | Inr a \<Rightarrow> snd (f a (snd (m th))))"
  by (simp add: andThen_def split: prod.split sum.split)

lemma sends_quiet: "always same_sent m \<Longrightarrow> sends P m"
  by (simp add: always_def sends_def same_sent_def)

lemma sends_andThen: "always same_sent m \<Longrightarrow> (\<And>a. sends P (f a)) \<Longrightarrow> sends P (andThen m f)"
  by (simp add: always_def sends_def same_sent_def snd_andThen split: sum.split) metis

lemma sends_hand_over: "P q \<Longrightarrow> (\<And>a. always same_sent (f a)) \<Longrightarrow> sends P (andThen (hand_over q) f)"
  by (simp add: always_def sends_def same_sent_def snd_andThen hand_over_def)

lemma sends_before: "sends P m \<Longrightarrow> (\<And>a. always same_sent (f a)) \<Longrightarrow> sends P (andThen m f)"
  by (simp add: always_def sends_def same_sent_def snd_andThen split: sum.split)

definition request_of :: "catalog_entry \<Rightarrow> call_request \<Rightarrow> upstream_request \<Rightarrow> bool" where
  "request_of entry rq q \<longleftrightarrow> ur_server q = server_execution_key entry \<and> ur_call_id q = cq_call_id rq
     \<and> ur_tool_name q = cq_tool_name rq \<and> ur_arguments q = cq_arguments rq"

lemma sends_forward_stdio: "sends (request_of entry rq) (forward_stdio cfg (tame call_id env) entry rq)"
  unfolding forward_stdio_def
  by (intro sends_andThen sends_hand_over snt.always_use_stdio snt.always_trace_before_transport snt.rules)
    (simp_all add: request_of_def starting_def snt.always_set_fin)

lemma sends_http_exchange: "P q \<Longrightarrow> sends P (http_exchange cfg (tame call_id env) q)"
  unfolding http_exchange_def
  by (cases "cv_http_answer (tame call_id env)")
    (simp_all add: sends_hand_over sends_quiet snt.rules snt.always_set_fin)

lemma sends_forward_http: "sends (request_of entry rq) (forward_http cfg (tame call_id env) entry rq)"
proof -
  have set_life: "always same_sent (set_px (\<lambda>px. px\<lparr>px_life := l\<rparr>))" for l
    by (simp add: always_def set_px_def same_sent_def)
  have halted: "sends P (halt r)" for P and r :: stop
    by (simp add: sends_quiet snt.always_simps)
  show ?thesis
    unfolding forward_http_def Let_def starting_def case_prod_beta
    by (intro sends_andThen [OF snt.always_simps(3)])
      (auto intro!: halted sends_andThen snt.always_simps set_life sends_before [OF sends_http_exchange] snt.always_set_fin
        snt.always_trace_before_transport simp: request_of_def split: sum.split json.split)
qed

lemma forward_sends:
  assumes "forward_to_upstream cfg (tame call_id env) entry rq th = (r, th')" "th_sent th' \<noteq> th_sent th"
  obtains prov q where "meets prov (pc_required_provenance_kind cfg) = Inr True" "th_sent th' = th_sent th @ [q]" "request_of entry rq q"
proof -
  let ?send = "if is_stdio (ce_server entry) then forward_stdio cfg (tame call_id env) entry rq
      else forward_http cfg (tame call_id env) entry rq"
  have s: "sends (request_of entry rq) ?send"
    by (simp add: sends_forward_stdio sends_forward_http)
  obtain x th1 where cp: "check_provenance (tame call_id env) entry th = (x, th1)" by fastforce
  have "th_sent th1 = th_sent th"
    using snt.always_trans [OF snt.always_check_provenance cp] by (simp add: same_sent_def)
  with assms cp obtain prov where "x = Inr prov" "meets prov (pc_required_provenance_kind cfg) = Inr True" "?send th1 = (r, th')"
    by (auto simp: forward_to_upstream_def andThen_def lift_error_def halt_def give_def split: sum.splits if_splits)
  with s \<open>th_sent th1 = th_sent th\<close> assms(2) show ?thesis
    unfolding sends_def by (metis snd_conv that)
qed

text \<open>What each gate has seen when it lets the call through.\<close>

lemma refuse_not_ok [simp]: "refuse cfg env place rq called sb args sr ce d whd reason adv th = (Inr a, th') \<longleftrightarrow> False"
  using stops_refuse unfolding stops_def by fast

lemma catch_stops: "(\<And>e. stops (h e)) \<Longrightarrow> catch m h th = (Inr a, th') \<longleftrightarrow> m th = (Inr a, th')"
  by (auto simp: catch_Inr stops_def)

lemma audit_append_frame:
  "audit_append cfg env place args th = (Inr e, th') \<Longrightarrow>
     px_session (th_px th') = px_session (th_px th) \<and> px_catalog (th_px th') = px_catalog (th_px th)"
  by (auto simp: audit_append_def Let_def split: if_splits sum.splits prod.splits)

lemma check_execution_passed: "check_execution_available cfg env rq ct th = (Inr u, th') \<Longrightarrow> cq_execution_id rq = None \<and> th' = th"
  by (auto simp: check_execution_available_def refuse_execution_def andThen_Inr look_def give_def set_fin_def
      split: option.splits if_splits)

lemma health_passed:
  assumes "health_gate cfg env rq th = (Inr u, th')"
  shows "\<not> ss_attestation_stale (px_session (th_px th')) \<and> \<not> ss_catalog_drift (px_session (th_px th'))
    \<and> tc_catalog_hash (px_catalog (th_px th')) = pc_catalog_hash cfg \<and> \<not> attestation_expired cfg (cv_now env ''health'')"
proof -
  obtain th1 where "check_health cfg env th1 = (Inr None, th')"
    using assms by (auto simp: health_gate_def andThen_Inr stage_def set_fin_def give_def halt_def look_def split: option.splits)
  then show ?thesis
    by (auto simp: check_health_def andThen_Inr look_def give_def set_px_def dest!: audit_append_frame split: if_splits)
qed

lemma catalog_passed:
  "catalog_gate cfg env rq ct th = (Inr entry, th') \<Longrightarrow>
     catalog_lookup (px_catalog (th_px th)) (cq_tool_name rq) = Some entry \<and> th_px th' = th_px th"
  by (auto simp: catalog_gate_def catalog_miss_def andThen_Inr step_eqs split: option.splits)

lemma sink_passed:
  "sink_admission cfg env rq ct entry th = (Inr u, th') \<Longrightarrow>
     sink_check cfg (th_px th) rq ct entry (Some (cq_tool_name rq)) = None \<and> th_px th' = th_px th"
  by (cases "pc_sink_policy cfg")
    (auto simp: sink_admission_def andThen_Inr step_eqs sink_check_def split: if_splits sum.splits)

lemma policy_passed:
  assumes "policy_gate cfg env rq ct entry edc th = (Inr d, th')"
  shows "fst (evaluate_call (pc_engine cfg) (cv_reload env ''ingress'') (px_policy (th_px th))
     (build_cedar_context cfg (th_px th) (cq_tool_name rq) (cq_arguments rq) (cq_workflow_id rq) edc)) = Inr d"
proof -
  let ?ctx = "build_cedar_context cfg (th_px th) (cq_tool_name rq) (cq_arguments rq) (cq_workflow_id rq) edc"
  have "policy_decision_step cfg env rq ct entry ?ctx (th\<lparr>th_fin := (th_fin th)\<lparr>cf_failure_stage := ''policy_evaluation''\<rparr>\<rparr>) = (Inr d, th')"
    using assms by (simp add: policy_gate_def andThen_Inr step_eqs catch_stops Let_def split: call_error.split)
  then show ?thesis
    by (auto simp: policy_decision_step_def andThen_Inr step_eqs split: option.splits prod.splits sum.splits eval_error.splits)
qed

lemma gateway_passed:
  "gateway_gate cfg env rq ct entry whd th = (Inr u, th') \<Longrightarrow>
     fst (fst (intercept_tool_call (ss_session_id (px_session (th_px th))) (cq_tool_name rq) (cq_arguments rq) (px_gateway (th_px th))))"
  by (auto simp: gateway_gate_def andThen_Inr step_eqs split: prod.splits if_splits)

lemma trace_passed:
  "trace_gate_check cfg env rq th = (Inr u, th') \<Longrightarrow> pc_trace_gate cfg \<Longrightarrow>
     cv_gate_recheck env ''before_forward'' (or_empty (cf_trace_handle (th_fin th))) (trace_action (th_px th) rq) (policy_digest (th_px th)) = None"
  by (auto simp: trace_gate_check_def andThen_Inr step_eqs split: option.splits)

text \<open>The states of the shared objects at which the gates of an admitted call looked.\<close>

lemma admit_passed:
  assumes "admit_call cfg (tame call_id env) rq th = (Inr am, th')" "cq_call_id rq = call_id"
  obtains p q g where
    "px_evolves (th_px th) p" "px_evolves p q" "px_evolves q g" "px_evolves g (th_px th')"
    "cq_execution_id rq = None" "\<not> ss_attestation_stale (px_session p)" "\<not> ss_catalog_drift (px_session p)"
    "tc_catalog_hash (px_catalog p) = pc_catalog_hash cfg"
    "catalog_lookup (px_catalog p) (cq_tool_name rq) = Some (am_entry am)"
    "sink_check cfg p rq (am_facts am) (am_entry am) (Some (cq_tool_name rq)) = None"
    "fst (evaluate_call (pc_engine cfg) (cv_reload env ''ingress'') (px_policy q)
       (build_cedar_context cfg q (cq_tool_name rq) (cq_arguments rq) (cq_workflow_id rq) (am_effective_data_class am))) = Inr (am_decision am)"
    "fst (fst (intercept_tool_call (ss_session_id (px_session g)) (cq_tool_name rq) (cq_arguments rq) (px_gateway g)))"
proof -
  note gates = evo.always_gates [OF assms(2), THEN evo.always_trans]
  have evol: "px_evolves (th_px a) (th_px b)" if "evolves a b" for a b :: "'a thread" using that by (simp add: evolves_def)
  have reload: "cv_reload (tame call_id env) = cv_reload env" by (simp add: tame_def)
  obtain t1 t2 t3 t4 t5 t6 t7 t8 t9 t10 where st:
    "request_facts cfg (tame call_id env) rq th = (Inr (am_facts am), t1)"
    "stage ''execution_admission'' t1 = (Inr (), t2)"
    "check_execution_available cfg (tame call_id env) rq (am_facts am) t2 = (Inr (), t3)"
    "health_gate cfg (tame call_id env) rq t3 = (Inr (), t4)"
    "catalog_gate cfg (tame call_id env) rq (am_facts am) t4 = (Inr (am_entry am), t5)"
    "sink_admission cfg (tame call_id env) rq (am_facts am) (am_entry am) t5 = (Inr (), t6)"
    "drift_gate cfg (tame call_id env) rq (am_facts am) (am_entry am) t6 = (Inr (), t7)"
    "break_glass_notice cfg (tame call_id env) rq (am_facts am) (am_entry am) t7 = (Inr (), t8)"
    "policy_gate cfg (tame call_id env) rq (am_facts am) (am_entry am) (am_effective_data_class am) t8 = (Inr (am_decision am), t9)"
    "gateway_gate cfg (tame call_id env) rq (am_facts am) (am_entry am) (pr_would_have_denied (am_decision am)) t9 = (Inr (), t10)"
    "trace_gate_check cfg (tame call_id env) rq t10 = (Inr (), th')"
    using assms(1) by (auto simp: admit_call_def andThen_Inr look_def give_def)
  have e1: "px_evolves (th_px th) (th_px t4)"
    using evo.always_trans [OF evo.always_request_facts st(1)] evo.always_trans [OF evo.always_stage st(2)]
      gates(1) [OF st(3)] gates(2) [OF st(4)] by (auto simp: evolves_def intro: px_evolves_trans)
  have e2: "px_evolves (th_px t4) (th_px t8)"
    using gates(3) [OF st(5)] gates(4) [OF st(6)] gates(5) [OF st(7)] evo.always_trans [OF evo.always_break_glass_notice st(8)]
    by (auto simp: evolves_def intro: px_evolves_trans)
  have e3: "px_evolves (th_px t8) (th_px t9)" "px_evolves (th_px t9) (th_px th')"
    using gates(6) [OF st(9)] evo.always_trans [OF evo.always_gateway_gate [OF assms(2)] st(10)] gates(7) [OF st(11)]
    by (auto simp: evolves_def intro: px_evolves_trans)
  show ?thesis
    using that [OF e1 e2 e3] check_execution_passed [OF st(3)] health_passed [OF st(4)] catalog_passed [OF st(5)]
      sink_passed [OF st(6)] policy_passed [OF st(9)] gateway_passed [OF st(10)] by (simp add: reload)
qed

lemma invoke_sends:
  assumes "invoke_upstream cfg (tame call_id env) rq am th = (r, th')" "cq_call_id rq = call_id" "th_sent th' \<noteq> th_sent th"
  obtains prov q where "meets prov (pc_required_provenance_kind cfg) = Inr True" "th_sent th' = th_sent th @ [q]"
    "request_of (am_entry am) rq q"
proof -
  let ?fwd = "forward_to_upstream cfg (tame call_id env) (am_entry am) rq"
  define th0 where "th0 = th\<lparr>th_fin := (th_fin th)\<lparr>cf_failure_stage := ''upstream_invocation''\<rparr>\<rparr>"
  obtain x th1 where f: "?fwd th0 = (x, th1)" by fastforce
  have after: "always same_sent (refuse cfg (tame call_id env) place rq called sb (upstream_fault_args rq ct fin px entry code) sr ce d whd reason adv)"
    for place called sb ct fin px entry code sr ce d whd reason adv
    by (simp add: snt.always_refuse call_args_terminal assms(2))
  have "th_sent th' = th_sent th1"
    using assms(1) f snt.always_trans [OF after]
    by (auto simp: invoke_upstream_def Let_def andThen_def catch_def step_eqs th0_def same_sent_def
        split: sum.splits stop.splits call_error.splits)
  moreover have "th_sent th0 = th_sent th" by (simp add: th0_def)
  ultimately show ?thesis
    using assms(3) by (metis that forward_sends [OF f])
qed

text \<open>The part of a call before its exception handler.\<close>

abbreviation call_body :: "'s proxy_config \<Rightarrow> 's call_env \<Rightarrow> call_request \<Rightarrow> ('s, unit) step" where
  "call_body cfg env rq \<equiv> andThen (hydrate_session cfg env) (\<lambda>_. andThen (trace_begin cfg env rq) (call_tool_impl cfg env))"

lemma run_call_body:
  assumes "run_call cfg (tame call_id env) rq th = (r, th')" "cq_call_id rq = call_id"
  obtains x tb where "call_body cfg (tame call_id env) rq th = (x, tb)" "th_sent th' = th_sent tb"
proof -
  obtain x tb where b: "call_body cfg (tame call_id env) rq th = (x, tb)" by fastforce
  have "same_sent tb th'"
  proof (cases "\<exists>e. x = Inl (Raised e)")
    case True
    then obtain e where "andThen (finalize_unexpected_call_failure cfg (tame call_id env) ''unexpected'' rq e) (\<lambda>_. halt (Raised e)) tb = (r, th')"
      using assms(1) b by (auto simp: run_call_def catch_def)
    then show ?thesis
      by (rule snt.always_trans [OF snt.always_andThen [OF snt.always_finalize_unexpected [OF assms(2)] snt.always_simps(2)]])
  next
    case False
    then have "th' = tb" using assms(1) b by (auto simp: run_call_def catch_def split: sum.splits stop.splits)
    then show ?thesis by (simp add: same_sent_def)
  qed
  then show ?thesis using that b by (simp add: same_sent_def)
qed

lemma call_body_sends:
  assumes body: "call_body cfg (tame call_id env) rq th = (x, tb)" and cid: "cq_call_id rq = call_id"
    and quiet: "th_sent th = []" and sent: "th_sent tb \<noteq> []"
  obtains t2 rq' am t3 r t4 prov q where
    "evolves th t2" "rq' = rq\<lparr>cq_arguments := cq_arguments rq'\<rparr>" "\<not> pc_trace_gate cfg \<longrightarrow> rq' = rq" "cq_call_id rq' = call_id"
    "admit_call cfg (tame call_id env) rq' t2 = (Inr am, t3)" "invoke_upstream cfg (tame call_id env) rq' am t3 = (r, t4)"
    "meets prov (pc_required_provenance_kind cfg) = Inr True" "th_sent tb = [q]" "request_of (am_entry am) rq' q"
proof -
  let ?env = "tame call_id env"
  obtain h t1 where h: "hydrate_session cfg ?env th = (h, t1)" by fastforce
  have s1: "th_sent t1 = []" using snt.always_trans [OF snt.always_hydrate_session h] quiet by (simp add: same_sent_def)
  with body h sent have "h = Inr ()" by (cases h) (auto simp: andThen_def)
  obtain b t2 where tb: "trace_begin cfg ?env rq t1 = (b, t2)" by fastforce
  have s2: "th_sent t2 = []" using snt.always_trans [OF snt.always_trace_begin [OF cid] tb] s1 by (simp add: same_sent_def)
  with body h tb sent \<open>h = Inr ()\<close> obtain rq' where rq': "b = Inr rq'" "call_tool_impl cfg ?env rq' t2 = (x, tb)"
    by (cases b) (auto simp: andThen_def)
  note same = trace_begin_request [OF tb [unfolded rq'(1)]]
  have cid': "cq_call_id rq' = call_id" using arg_cong [where f = cq_call_id, OF same] cid by simp
  obtain a t3 where adm: "admit_call cfg ?env rq' t2 = (a, t3)" by fastforce
  have s3: "th_sent t3 = []" using snt.always_trans [OF snt.always_admit_call [OF cid'] adm] s2 by (simp add: same_sent_def)
  with rq'(2) adm sent obtain am where am: "a = Inr am" by (cases a) (auto simp: call_tool_impl_def andThen_def)
  obtain r t4 where inv: "invoke_upstream cfg ?env rq' am t3 = (r, t4)" by fastforce
  have s4: "th_sent tb = th_sent t4"
    using rq'(2) adm am inv snt.always_trans [OF snt.always_answer_call [OF cid']]
    by (auto simp: call_tool_impl_def andThen_def same_sent_def split: sum.splits)
  obtain prov q where q: "meets prov (pc_required_provenance_kind cfg) = Inr True" "th_sent t4 = [q]" "request_of (am_entry am) rq' q"
    by (rule invoke_sends [OF inv cid']) (use sent s3 s4 in auto)
  have e: "evolves th t2"
    using evo.always_trans [OF evo.always_hydrate_session h] evo.always_trans [OF evo.always_trace_begin [OF cid] tb] by (rule evo.R_trans)
  have "\<not> pc_trace_gate cfg \<longrightarrow> rq' = rq" using tb rq'(1) by (auto simp: trace_begin_def give_def)
  then show ?thesis
    using that [OF e same _ cid' adm [unfolded am] inv q(1) _ q(3)] s4 q(2) by simp
qed

lemma sent_passed:
  assumes "rely (cq_call_id rq) env" "call_tool cfg env task timed_out rq px = (out, th)" "th_sent th \<noteq> []"
  obtains rq' and am :: admitted and prov p q g request where
    "th_sent th = [request]"
    "request_of (am_entry am) rq' request"
    "rq' = rq\<lparr>cq_arguments := cq_arguments rq'\<rparr>"
    "(\<not> pc_trace_gate cfg \<longrightarrow> rq' = rq)"
    "px_evolves px p"
    "px_evolves p q"
    "px_evolves q g"
    "cq_execution_id rq = None"
    "\<not> ss_attestation_stale (px_session p)"
    "\<not> ss_catalog_drift (px_session p)"
    "tc_catalog_hash (px_catalog p) = pc_catalog_hash cfg"
    "catalog_lookup (px_catalog p) (cq_tool_name rq) = Some (am_entry am)"
    "sink_check cfg p rq' (am_facts am) (am_entry am) (Some (cq_tool_name rq)) = None"
    "fst (evaluate_call (pc_engine cfg) (cv_reload env ''ingress'') (px_policy q) (build_cedar_context cfg q (cq_tool_name rq) (cq_arguments rq') (cq_workflow_id rq) (am_effective_data_class am))) = Inr (am_decision am)"
    "fst (fst (intercept_tool_call (ss_session_id (px_session g)) (cq_tool_name rq) (cq_arguments rq') (px_gateway g)))"
    "meets prov (pc_required_provenance_kind cfg) = Inr True"
proof -
  let ?px0 = "cv_interfere env ''enter'' px" and ?env = "tame (cq_call_id rq) env"
  obtain life r t where e: "enter_call task timed_out (px_life ?px0) = Admitted life"
    and t: "run_call cfg ?env rq (new_thread (?px0\<lparr>px_life := life\<rparr>)) = (r, t)" "th_sent th = th_sent t"
    using assms by (auto simp: call_tool_def Let_def tame_id split: enter_result.splits prod.splits)
  have px0: "px_evolves px (?px0\<lparr>px_life := life\<rparr>)"
    using assms(1) e by (auto simp: rely_def px_grows_unfold enter_call_def split: if_splits sum.splits)
  obtain x tb where b: "call_body cfg ?env rq (new_thread (?px0\<lparr>px_life := life\<rparr>)) = (x, tb)" "th_sent t = th_sent tb"
    by (rule run_call_body [OF t(1) refl])
  obtain t2 rq' am t3 r4 t4 prov request where c: "evolves (new_thread (?px0\<lparr>px_life := life\<rparr>)) t2" "rq' = rq\<lparr>cq_arguments := cq_arguments rq'\<rparr>"
    "\<not> pc_trace_gate cfg \<longrightarrow> rq' = rq" "cq_call_id rq' = cq_call_id rq" "admit_call cfg ?env rq' t2 = (Inr am, t3)"
    "meets prov (pc_required_provenance_kind cfg) = Inr True" "th_sent tb = [request]" "request_of (am_entry am) rq' request"
    by (rule call_body_sends [OF b(1) refl]) (use assms(3) t(2) b(2) in auto)
  have f: "cq_tool_name rq' = cq_tool_name rq" "cq_execution_id rq' = cq_execution_id rq" "cq_workflow_id rq' = cq_workflow_id rq"
    by (subst c(2), simp)+
  obtain p q g where "px_evolves (th_px t2) p" and pqg: "px_evolves p q" "px_evolves q g" and passed:
    "cq_execution_id rq = None" "\<not> ss_attestation_stale (px_session p)" "\<not> ss_catalog_drift (px_session p)"
    "tc_catalog_hash (px_catalog p) = pc_catalog_hash cfg" "catalog_lookup (px_catalog p) (cq_tool_name rq) = Some (am_entry am)"
    "sink_check cfg p rq' (am_facts am) (am_entry am) (Some (cq_tool_name rq)) = None"
    "fst (evaluate_call (pc_engine cfg) (cv_reload env ''ingress'') (px_policy q)
       (build_cedar_context cfg q (cq_tool_name rq) (cq_arguments rq') (cq_workflow_id rq) (am_effective_data_class am))) = Inr (am_decision am)"
    "fst (fst (intercept_tool_call (ss_session_id (px_session g)) (cq_tool_name rq) (cq_arguments rq') (px_gateway g)))"
    by (rule admit_passed [OF c(5,4)]) (simp add: f)
  moreover have "px_evolves px (th_px t2)" using px0 c(1) by (auto simp: evolves_def intro: px_evolves_trans)
  ultimately have p: "px_evolves px p" by (blast intro: px_evolves_trans)
  have "th_sent th = [request]" using t(2) b(2) c(7) by simp
  then show ?thesis using c(8,2,3) p pqg passed c(6) by (rule that)
qed



text \<open>The allow list of the runtime gateway is the catalog at construction. A tool that is not on it, as one added by
  \<open>add_exception\<close> afterwards, is in the catalog, but no call of it ever reaches an upstream.\<close>

theorem break_glass_tool_never_forwarded:
  assumes "rely (cq_call_id rq) env" "cq_tool_name rq \<notin> set (gp_allowed_tools (mg_policy (px_gateway px)))"
  shows "th_sent (snd (call_tool cfg env task timed_out rq px)) = []"
proof (rule ccontr)
  assume sent: "\<not> ?thesis"
  obtain p q g args where "px_evolves px p" "px_evolves p q" "px_evolves q g"
    and ok: "fst (fst (intercept_tool_call (ss_session_id (px_session g)) (cq_tool_name rq) args (px_gateway g)))"
    by (rule sent_passed [OF assms(1) prod.collapse [symmetric] sent])
  then have "mg_policy (px_gateway g) = mg_policy (px_gateway px)" by (simp add: px_evolves_def)
  with ok assms(2) show False by (simp add: intercept_tool_call_def)
qed

theorem break_glass_tool_never_forwarded_witness:
  "catalog_lookup (px_catalog (sample_call_px [])) ''a'' \<noteq> None \<and> th_sent (snd (sample_call [] ''a'' ''ok'')) = []"
  using break_glass_tool_never_forwarded [OF sample_rely, of "sample_request ''a''" "sample_call_px []" sample_call_config "''ok''" 1 False]
  by (simp add: sample_call_def sample_call_px_def sample_request_def new_mcp_gateway_def new_governance_policy_def catalog_lookup_def)

end
