(* ===== verification/Call_Response.thy ===== *)
theory Call_Response
  imports Call_Properties
begin

text \<open>
  What a tool call does with the response (\<open>mcp/proxy.py\<close>): what the terminal
  entry of an allowed result says, and that a response that was read raises the
  sensitivity of the session whatever becomes of it.
\<close>

section \<open>Results that are not allowed\<close>

abbreviation denied :: "call_result \<Rightarrow> 's thread \<Rightarrow> bool" where
  "denied r th \<equiv> \<not> cs_allowed r"

lemma denied_look:
  "on_return denied (andThen (look (refusal env place rq whd reason adv)) (\<lambda>r. halt (Returned r)))"
  "on_return denied (andThen (look (\<lambda>px. (refusal env place rq whd reason adv px)\<lparr>cs_latency_us := n\<rparr>)) (\<lambda>r. halt (Returned r)))"
  by (auto simp: on_return_def andThen_Inl step_eqs refusal_def)

lemma denied_refuse: "on_return denied (refuse cfg env place rq called sb args sr ce d whd reason adv)"
  by (simp add: refuse_def returns denied_look)

lemma denied_gates:
  "on_return denied (check_execution_available cfg env rq ct)" "on_return denied (catalog_gate cfg env rq ct)"
  "on_return denied (sink_admission cfg env rq ct entry)" "on_return denied (policy_gate cfg env rq ct entry edc)"
  "on_return denied (gateway_gate cfg env rq ct entry whd)" "on_return denied (trace_gate_check cfg env rq)"
  "on_return denied (invoke_upstream cfg env rq am)" "on_return denied (size_gate cfg env rq am received)"
  "on_return denied (scan_gate cfg env rq am text)" "on_return denied (egress_gate cfg env rq am response)"
  "on_return denied (trace_begin cfg env rq)" "on_return denied (health_gate cfg env rq)" "on_return denied (drift_gate cfg env rq ct entry)"
  by (simp_all add: check_execution_available_def refuse_execution_def catalog_gate_def catalog_miss_def sink_admission_def
      policy_gate_def gateway_gate_def trace_gate_check_def invoke_upstream_def size_gate_def size_refusal_def scan_gate_def
      egress_gate_def trace_begin_def health_gate_def drift_gate_def Let_def denied_refuse denied_look returns
      split: option.split call_error.split prod.split sum.split)

lemma denied_admit_call: "on_return denied (admit_call cfg env rq)"
  by (simp add: admit_call_def denied_gates returns)

lemma never_returns: "on_return (\<lambda>_ _. False) m \<Longrightarrow> m th \<noteq> (Inl (Returned r), th')"
  by (simp add: on_return_def)

section \<open>The terminal entry of an allowed result\<close>

lemma new_entry_args: "entry_args.truncate (new_entry sha256 sid es uuid now a) = a"
  by (simp add: new_entry_def entry_args.truncate_def entry_args.extend_def Let_def)

lemma append_call_terminal_entry:
  assumes "append_call_terminal cfg env place args th = (Inr u, th')"
  obtains e where "entries_of th' = entries_of th @ [e]" "entry_args.truncate e = args\<lparr>ea_execution_id := cf_execution_id (th_fin th)\<rparr>"
  using assms
  by (auto simp: append_call_terminal_def andThen_Inr audit_append_def Let_def step_eqs new_entry_args
      split: if_splits option.splits sum.splits prod.splits elim!: chain_append_cases)

lemma complete_call_entry:
  assumes "complete_call cfg (tame call_id env) rq am scan eg response th = (Inl (Returned r), th')"
  obtains e es where "entries_of th' = entries_of th @ e # es" "ea_entry_type e = Tool_call" "ea_call_id e = Some (cq_call_id rq)"
    "ea_policy_decision e = Some (if cs_would_have_denied r then PD_advisory_deny else PD_allow)"
    "ea_response_payload_hash e = cf_response_payload_hash (th_fin th)" "cs_response r = Some response"
    "cs_would_have_denied r \<longleftrightarrow> pr_would_have_denied (am_decision am) \<or> pr_would_have_denied eg"
proof -
  let ?whd = "pr_would_have_denied (am_decision am) \<or> pr_would_have_denied eg"
  let ?args = "success_args cfg (tame call_id env) rq am ?whd (rd_threats scan)
      ((th_fin th)\<lparr>cf_failure_stage := ''terminal_persistence''\<rparr>) (th_px th)"
  note no = returns_small(1,2) [THEN never_returns]
  obtain t1 called l d where a: "append_call_terminal cfg (tame call_id env) ''terminal'' ?args
        (th\<lparr>th_fin := (th_fin th)\<lparr>cf_failure_stage := ''terminal_persistence''\<rparr>\<rparr>) = (Inr (), t1)"
    and b: "proxy_record_call cfg (tame call_id env) ''terminal'' rq called True (ct_sensitivity_before (am_facts am)) l
        (Some (am_entry am)) d (response_tags rq (am_entry am)) (t1\<lparr>th_fin := (th_fin t1)\<lparr>cf_failure_stage := ''post_terminal_bookkeeping''\<rparr>\<rparr>) = (Inr (), th')"
    and r: "cs_response r = Some response" "cs_would_have_denied r \<longleftrightarrow> ?whd"
    using assms unfolding complete_call_def by (auto simp: andThen_Inl Let_def step_eqs no)
  obtain e where e: "entries_of t1 = entries_of th @ [e]" "entry_args.truncate e = ?args\<lparr>ea_execution_id := cf_execution_id (th_fin th)\<rparr>"
    by (rule append_call_terminal_entry [OF a]) simp
  have f: "ea_entry_type e = ea_entry_type (entry_args.truncate e)" "ea_call_id e = ea_call_id (entry_args.truncate e)"
    "ea_policy_decision e = ea_policy_decision (entry_args.truncate e)"
    "ea_response_payload_hash e = ea_response_payload_hash (entry_args.truncate e)" by (simp_all add: entry_args.truncate_def)
  obtain es where "entries_of th' = entries_of t1 @ es"
    using evo.always_trans [OF evo.always_proxy_record_call b] by (auto simp: evolves_def px_evolves_def)
  with e r show ?thesis
    by (intro that [of e es]) (simp_all add: f success_args_def call_args_def entry_defaults_def at_sensitivity_def Let_def)
qed

lemma update_session_fin: "update_session cfg env place rq entry ij al th = (x, th') \<Longrightarrow> th_fin th' = th_fin th"
  by (auto simp: update_session_def andThen_def suspend_def look_def look_fin_def set_px_def give_def split: if_splits prod.splits)

lemma bind_response_fin:
  "bind_response cfg env response th = (x, th') \<Longrightarrow>
     cf_response_payload_hash (th_fin th') = Some (response_hash cfg response) \<and> cf_reset_count (th_fin th') = cf_reset_count (th_fin th)"
  by (auto simp: bind_response_def andThen_def step_eqs)

lemma egress_passed_fin:
  assumes "egress_gate cfg env rq am response th = (Inr eg, th')"
  shows "cf_response_payload_hash (th_fin th') = cf_response_payload_hash (th_fin th)"
proof -
  have "egress_decision_step cfg env rq am response (th\<lparr>th_fin := (th_fin th)\<lparr>cf_failure_stage := ''egress_policy''\<rparr>\<rparr>) = (Inr eg, th')"
    using assms by (simp add: egress_gate_def andThen_Inr step_eqs catch_stops Let_def split: call_error.split)
  then show ?thesis
    by (auto simp: egress_decision_step_def andThen_Inr step_eqs split: option.splits prod.splits sum.splits eval_error.splits)
qed

lemma size_passed:
  "size_gate cfg env rq am received th = (Inr text, th') \<Longrightarrow>
     received = Some text \<and> length (utf8_encode text) \<le> pc_max_response_size_bytes cfg
     \<and> th' = th\<lparr>th_fin := (th_fin th)\<lparr>cf_failure_stage := ''response_size_check''\<rparr>\<rparr>"
  by (auto simp: size_gate_def size_refusal_def andThen_Inr step_eqs Let_def split: option.splits if_splits)

lemma scan_passed:
  "scan_gate cfg env rq am text th = (Inr scan, th') \<Longrightarrow>
     scan = intercept_tool_response MCPResponseScanner text \<and> rd_allowed scan \<and> rd_content scan = Some text
     \<and> th' = th\<lparr>th_fin := (th_fin th)\<lparr>cf_failure_stage := ''response_scan''\<rparr>\<rparr>"
  by (auto simp: scan_gate_def andThen_Inr step_eqs Let_def intercept_tool_response_def split: option.splits if_splits)

lemma denied_step: "on_return denied m \<Longrightarrow> cs_allowed r \<Longrightarrow> m th \<noteq> (Inl (Returned r), th')"
  by (auto simp: on_return_def)

text \<open>An answer that is allowed went through every step.\<close>

lemma answer_allowed:
  assumes "answer_call cfg (tame call_id env) rq am received th = (Inl (Returned r), th')" "cs_allowed r" "cq_call_id rq = call_id"
  obtains body scan eg t where
    "received = Some body" "length (utf8_encode body) \<le> pc_max_response_size_bytes cfg"
    "rd_allowed (intercept_tool_response MCPResponseScanner body)"
    "evolves th t" "cf_response_payload_hash (th_fin t) = Some (response_hash cfg body)"
    "complete_call cfg (tame call_id env) rq am scan eg body t = (Inl (Returned r) :: stop + unit, th')"
proof -
  let ?env = "tame call_id env"
  note no = returns_small(6) [THEN never_returns] returns_decisions(3) [THEN never_returns]
    on_return_rules(6) [THEN never_returns] denied_gates [THEN denied_step, OF assms(2)]
  obtain body t1 scan t2 t3 t4 b t5 eg t6 resp where st:
    "size_gate cfg ?env rq am received th = (Inr body, t1)" "scan_gate cfg ?env rq am body t1 = (Inr scan, t2)"
    "bind_response cfg ?env resp t2 = (Inr (), t3)" "stage ''session_update'' t3 = (Inr (), t4)"
    "update_session cfg ?env ''inspection'' rq (am_entry am) (rd_threats scan \<noteq> []) True t4 = (Inr b, t5)"
    "egress_gate cfg ?env rq am resp t5 = (Inr eg, t6)" "complete_call cfg ?env rq am scan eg resp t6 = (Inl (Returned r) :: stop + unit, th')"
    and choice: "resp = (case rd_content scan of Some c \<Rightarrow> c | None \<Rightarrow> body)"
    using assms(1) by (simp add: answer_call_def andThen_Inl Let_def no) blast
  have resp: "resp = body" using scan_passed [OF st(2)] unfolding choice by (elim conjE) simp
  have "evolves t1 t2" "evolves th t1" "evolves t2 t3" "evolves t3 t4" "evolves t4 t5" "evolves t5 t6"
    using evo.always_size_scan(1) [OF assms(3), THEN evo.always_trans, OF st(1)] evo.always_size_scan(2) [OF assms(3), THEN evo.always_trans, OF st(2)]
      evo.always_bind_response [THEN evo.always_trans, OF st(3)] evo.always_stage [THEN evo.always_trans, OF st(4)]
      evo.always_update_session [THEN evo.always_trans, OF st(5)] evo.always_egress_complete(1) [OF assms(3), THEN evo.always_trans, OF st(6)]
    by simp_all
  then have "evolves th t6" by (meson evo.R_trans)
  moreover have "cf_response_payload_hash (th_fin t6) = Some (response_hash cfg body)"
    using bind_response_fin [OF st(3)] st(4) update_session_fin [OF st(5)] egress_passed_fin [OF st(6)]
    by (auto simp: stage_def set_fin_def resp)
  ultimately show ?thesis
    using size_passed [OF st(1)] scan_passed [OF st(2)] st(7) [unfolded resp] by (intro that [of body t6 scan eg]) auto
qed

text \<open>C28: An allowed result is on the record. The call has appended a tool-call entry under its identifier that carries the hash of
  exactly the response returned and the decision of the result, the response is within the size limit, and the scanner passed it.\<close>

theorem allowed_result_is_audited:
  assumes "rely (cq_call_id rq) env" "call_tool cfg env task timed_out rq px = (Finished (Returned r), th)" "cs_allowed r"
  shows "\<exists>es e body. ch_entries (px_audit (th_px th)) = ch_entries (px_audit px) @ es \<and> e \<in> set es
    \<and> ea_call_id e = Some (cq_call_id rq) \<and> ea_entry_type e = Tool_call
    \<and> cs_response r = Some body \<and> ea_response_payload_hash e = Some (response_hash cfg body)
    \<and> ea_policy_decision e = Some (if cs_would_have_denied r then PD_advisory_deny else PD_allow)
    \<and> length (utf8_encode body) \<le> pc_max_response_size_bytes cfg
    \<and> rd_allowed (intercept_tool_response MCPResponseScanner body)"
proof -
  let ?env = "tame (cq_call_id rq) env" and ?px0 = "cv_interfere env ''enter'' px"
  note no = returns_small(7) [THEN never_returns] returns_finalize [THEN never_returns] denied_gates [THEN denied_step, OF assms(3)]
    denied_admit_call [THEN denied_step, OF assms(3)]
  obtain life t where e: "enter_call task timed_out (px_life ?px0) = Admitted life"
    and run: "run_call cfg ?env rq (new_thread (?px0\<lparr>px_life := life\<rparr>)) = (Inl (Returned r), t)"
    and th: "th = t\<lparr>th_px := (th_px t)\<lparr>px_life := leave_call task (px_life (th_px t))\<rparr>\<rparr>"
    using call_tool_run [OF assms(2)] assms(1) by (metis tame_id)
  obtain t1 rq' t2 am t3 received t4 where st: "hydrate_session cfg ?env (new_thread (?px0\<lparr>px_life := life\<rparr>)) = (Inr (), t1)"
    "trace_begin cfg ?env rq t1 = (Inr rq', t2)" "admit_call cfg ?env rq' t2 = (Inr am, t3)"
    "invoke_upstream cfg ?env rq' am t3 = (Inr received, t4)" "answer_call cfg ?env rq' am received t4 = (Inl (Returned r), t)"
    using run by (auto simp: run_call_def catch_Returned andThen_Inl andThen_Inr call_tool_impl_def halt_def no)
  have cid: "cq_call_id rq' = cq_call_id rq" using arg_cong [where f = cq_call_id, OF trace_begin_request [OF st(2)]] by simp
  obtain body scan eg t5 where a: "received = Some body" "length (utf8_encode body) \<le> pc_max_response_size_bytes cfg"
    "rd_allowed (intercept_tool_response MCPResponseScanner body)"
    "evolves t4 t5" "cf_response_payload_hash (th_fin t5) = Some (response_hash cfg body)"
    "complete_call cfg ?env rq' am scan eg body t5 = (Inl (Returned r) :: stop + unit, t)"
    by (rule answer_allowed [OF st(5) assms(3) cid])
  obtain e es where c: "entries_of t = entries_of t5 @ e # es" "ea_entry_type e = Tool_call" "ea_call_id e = Some (cq_call_id rq)"
    "ea_policy_decision e = Some (if cs_would_have_denied r then PD_advisory_deny else PD_allow)"
    "ea_response_payload_hash e = Some (response_hash cfg body)" "cs_response r = Some body"
    by (rule complete_call_entry [OF a(6)]) (simp add: cid a(5))
  have "evolves (new_thread (?px0\<lparr>px_life := life\<rparr>)) t5"
    using evo.always_hydrate_session [THEN evo.always_trans, OF st(1)] evo.always_trace_begin [OF refl, THEN evo.always_trans, OF st(2)]
      evo.always_admit_call [OF cid, THEN evo.always_trans, OF st(3)] evo.always_invoke_upstream [OF cid, THEN evo.always_trans, OF st(4)] a(4)
    by (meson evo.R_trans)
  moreover have "px_evolves px ?px0" using assms(1) by (simp add: rely_def px_grows_def)
  ultimately obtain es0 where "entries_of t5 = ch_entries (px_audit px) @ es0" by (auto simp: evolves_def px_evolves_def)
  with c a(2,3) th show ?thesis by (intro exI [of _ "es0 @ e # es"] exI [of _ e] exI [of _ body]) simp
qed

theorem allowed_result_is_audited_witness:
  "\<exists>r th e. sample_call [''a''] ''a'' ''ok'' = (Finished (Returned r), th) \<and> e \<in> set (ch_entries (px_audit (th_px th)))
     \<and> ea_response_payload_hash e = Some (response_hash sample_call_config ''ok'')"
proof -
  obtain r th where run: "sample_call [''a''] ''a'' ''ok'' = (Finished (Returned r), th)" "cs_allowed r" "cs_response r = Some ''ok''"
    using sample_call_run by blast
  show ?thesis
    using allowed_result_is_audited [OF sample_rely run(1) [unfolded sample_call_def] run(2)] run(1,3) by auto
qed

section \<open>The sensitivity of the session\<close>

lemma update_session_raises:
  assumes "update_session cfg (tame call_id env) place rq entry ij al th = (Inr b, th')"
    "cf_reset_count (th_fin th) = Some (ss_reset_count (px_session (th_px th')))" "t \<in> set (response_tags rq entry)"
  shows "rank (ss_sensitivity_order (px_session (th_px th))) t
    \<le> rank (ss_sensitivity_order (px_session (th_px th))) (ss_max_sensitivity (px_session (th_px th')))"
proof -
  let ?px = "cv_interfere (tame call_id env) place (th_px th)"
  obtain s store where a: "apply_inspection (pc_store_ops cfg) (cv_now (tame call_id env) place) (px_store ?px) (px_session ?px)
      (cq_call_id rq) (response_tags rq entry) ij al (cf_reset_count (th_fin th)) = (b, s, store)" and s: "px_session (th_px th') = s"
    using assms(1) by (auto simp: update_session_def andThen_Inr suspend_def step_eqs split: if_splits prod.splits)
  have o: "ss_sensitivity_order (px_session ?px) = ss_sensitivity_order (px_session (th_px th))"
    using tame_interference [of call_id "th_px th" env place] by (simp add: px_grows_unfold)
  show ?thesis
    using apply_inspection_core(5,6) [OF a] assms(2,3) o s by auto
qed

lemma answer_updates_session:
  assumes "answer_call cfg (tame call_id env) rq am (Some body) th = (Inl (Returned r), th')" "cq_call_id rq = call_id"
    "length (utf8_encode body) \<le> pc_max_response_size_bytes cfg"
  obtains place ij al t b t' where "evolves th t" "cf_reset_count (th_fin t) = cf_reset_count (th_fin th)"
    "update_session cfg (tame call_id env) place rq (am_entry am) ij al t = (Inr b, t')" "evolves t' th'"
proof -
  let ?env = "tame call_id env" and ?scan = "intercept_tool_response MCPResponseScanner body"
  let ?t0 = "th\<lparr>th_fin := (th_fin th)\<lparr>cf_failure_stage := ''response_scan''\<rparr>\<rparr>"
  note no = returns_small(6) [THEN never_returns] returns_decisions(3) [THEN never_returns]
  have e0: "evolves th ?t0" by (simp add: evolves_def px_evolves_refl)
  show ?thesis
  proof (cases "rd_allowed ?scan")
    case True
    then have "rd_content ?scan = Some body" by (auto simp: intercept_tool_response_def split: option.splits if_splits)
    with True assms(1,3) obtain t1 b t2 where st: "bind_response cfg ?env body ?t0 = (Inr (), t1)"
      "update_session cfg ?env ''inspection'' rq (am_entry am) (rd_threats ?scan \<noteq> []) True
         (t1\<lparr>th_fin := (th_fin t1)\<lparr>cf_failure_stage := ''session_update''\<rparr>\<rparr>) = (Inr b, t2)"
      and rest: "andThen (egress_gate cfg ?env rq am body) (\<lambda>eg. complete_call cfg ?env rq am ?scan eg body) t2 = (Inl (Returned r) :: stop + unit, th')"
      by (auto simp: answer_call_def size_gate_def scan_gate_def andThen_def step_eqs Let_def no split: prod.splits sum.splits)
    have "always evolves (andThen (egress_gate cfg ?env rq am body) (\<lambda>eg. complete_call cfg ?env rq am ?scan eg body :: ('a, unit) step))"
      by (intro evo.always_andThen evo.always_egress_complete assms(2))
    then have "evolves t2 th'" using rest by (rule evo.always_trans)
    moreover have "evolves th (t1\<lparr>th_fin := (th_fin t1)\<lparr>cf_failure_stage := ''session_update''\<rparr>\<rparr>)"
      using evo.always_bind_response [THEN evo.always_trans, OF st(1)] by (simp add: evolves_def)
    ultimately show ?thesis
      using that st(2) bind_response_fin [OF st(1)] by simp
  next
    case False
    then obtain b t2 where st: "update_session cfg ?env ''blocked_inspection'' rq (am_entry am) (rd_threats ?scan \<noteq> []) False ?t0 = (Inr b, t2)"
      and rest: "evolves t2 th'"
      using assms
      by (auto simp: answer_call_def size_gate_def scan_gate_def andThen_def step_eqs Let_def no call_args_terminal
          split: prod.splits sum.splits dest!: evo.always_refuse [THEN evo.always_trans, rotated])
    then show ?thesis using that [OF e0 _ st rest] by simp
  qed
qed

text \<open>A response that was read within the size limit raises the session's sensitivity to at least the level of the tool and the
  declared class, whether the response is returned, blocked by the scanner or denied egress, unless the session was reset since the
  call read its generation.\<close>

theorem response_raises_sensitivity:
  assumes "rely (cq_call_id rq) env" "answer_call cfg env rq am (Some body) th = (Inl (Returned r), th')"
    "length (utf8_encode body) \<le> pc_max_response_size_bytes cfg"
    "cf_reset_count (th_fin th) = Some n" "ss_reset_count (px_session (th_px th)) = n" "ss_reset_count (px_session (th_px th')) = n"
    "t \<in> set (response_tags rq (am_entry am))"
  shows "rank (ss_sensitivity_order (px_session (th_px th))) t
    \<le> rank (ss_sensitivity_order (px_session (th_px th))) (ss_max_sensitivity (px_session (th_px th')))"
proof -
  have run: "answer_call cfg (tame (cq_call_id rq) env) rq am (Some body) th = (Inl (Returned r), th')"
    using assms(1,2) by (simp add: tame_id)
  obtain place ij al a b a' where st: "evolves th a" "cf_reset_count (th_fin a) = cf_reset_count (th_fin th)"
    "update_session cfg (tame (cq_call_id rq) env) place rq (am_entry am) ij al a = (Inr b, a')" "evolves a' th'"
    by (rule answer_updates_session [OF run refl assms(3)])
  have "evolves a a'" by (rule evo.always_trans [OF evo.always_update_session st(3)])
  with st(1,4) have ev: "px_evolves (th_px th) (th_px a)" "px_evolves (th_px a) (th_px a')" "px_evolves (th_px a') (th_px th')"
    by (simp_all add: evolves_def)
  have n: "ss_reset_count (px_session (th_px a')) = n"
    using ev assms(5,6) unfolding px_evolves_def by linarith
  have o: "ss_sensitivity_order (px_session (th_px a)) = ss_sensitivity_order (px_session (th_px th))"
    "ss_sensitivity_order (px_session (th_px a')) = ss_sensitivity_order (px_session (th_px th))"
    using ev(1,2) by (simp_all add: px_evolves_def)
  have "rank (ss_sensitivity_order (px_session (th_px th))) t
      \<le> rank (ss_sensitivity_order (px_session (th_px th))) (ss_max_sensitivity (px_session (th_px a')))"
    using update_session_raises [OF st(3)] st(2) assms(4,7) n o by simp
  also have "\<dots> \<le> rank (ss_sensitivity_order (px_session (th_px th))) (ss_max_sensitivity (px_session (th_px th')))"
    using ev(3) n assms(6) o(2) by (simp add: px_evolves_def)
  finally show ?thesis .
qed

text \<open>The sample proxy after its gates and a response the scanner blocks.\<close>

definition sample_admitted :: admitted where
  "sample_admitted = \<lparr>am_facts = \<lparr>ct_called_at = sample_time, ct_sensitivity_before = ''public'', ct_request_payload_hash = []\<rparr>,
     am_entry = (sample_stdio_entry ''a'')\<lparr>ce_sensitivity_level := ''confidential''\<rparr>, am_effective_data_class = None,
     am_decision = sample_permit\<rparr>"

definition sample_thread :: "unit thread" where
  "sample_thread = (new_thread (sample_call_px [''a'']))\<lparr>th_fin := new_finalization\<lparr>cf_reset_count := Some 0\<rparr>\<rparr>"

definition sample_secret :: string where
  "sample_secret = ''sk-abcdefghij0123456789''"

definition sample_blocked_session :: session_state where
  "sample_blocked_session =
     fst (snd (apply_inspection (pc_store_ops sample_call_config) sample_time None (new_session_state ''s'' SENSITIVITY_ORDER)
       ''c'' [''confidential''] True False (Some 0)))"

lemma sample_blocked_update:
  "apply_inspection (pc_store_ops sample_call_config) sample_time None (new_session_state ''s'' SENSITIVITY_ORDER)
     ''c'' [''confidential''] True False (Some 0) = (True, sample_blocked_session, None)"
  "ss_reset_count sample_blocked_session = 0"
  by (simp_all add: sample_blocked_session_def apply_inspection_def update_from_inspection_def new_session_state_def Let_def
      raise_by_tag_def)

lemma sample_secret_scan: "scan_response sample_secret \<noteq> []" "length (utf8_encode sample_secret) \<le> 100"
proof -
  have "search (CREDENTIAL_PATTERNS ! 3) sample_secret" "3 < length CREDENTIAL_PATTERNS" by code_simp+
  then have "filter (\<lambda>p. search p sample_secret) CREDENTIAL_PATTERNS \<noteq> []" by (auto simp: filter_empty_conv)
  then show "scan_response sample_secret \<noteq> []" by (auto simp: scan_response_def sample_secret_def)
  show "length (utf8_encode sample_secret) \<le> 100" by code_simp
qed

lemma sample_answer_run:
  "\<exists>r th'. answer_call sample_call_config (sample_call_env []) (sample_request ''a'') sample_admitted (Some sample_secret) sample_thread
       = (Inl (Returned r), th') \<and> ss_reset_count (px_session (th_px th')) = 0 \<and> \<not> cs_allowed r"
  using sample_secret_scan
  by (simp add: sample_simps pipeline_defs sample_admitted_def sample_thread_def MCPResponseScanner_def sample_blocked_update refuse_def refusal_def)

theorem response_raises_sensitivity_witness:
  "\<exists>r th'. answer_call sample_call_config (sample_call_env []) (sample_request ''a'') sample_admitted (Some sample_secret) sample_thread
       = (Inl (Returned r), th') \<and> \<not> cs_allowed r
     \<and> rank SENSITIVITY_ORDER ''confidential'' \<le> rank SENSITIVITY_ORDER (ss_max_sensitivity (px_session (th_px th')))"
proof -
  obtain r th' where run: "answer_call sample_call_config (sample_call_env []) (sample_request ''a'') sample_admitted (Some sample_secret)
      sample_thread = (Inl (Returned r), th')" "ss_reset_count (px_session (th_px th')) = 0" "\<not> cs_allowed r"
    using sample_answer_run by blast
  have "rank (ss_sensitivity_order (px_session (th_px sample_thread))) ''confidential''
      \<le> rank (ss_sensitivity_order (px_session (th_px sample_thread))) (ss_max_sensitivity (px_session (th_px th')))"
    by (rule response_raises_sensitivity [OF sample_rely run(1), of 0])
      (use run sample_secret_scan in \<open>simp_all add: sample_thread_def sample_call_px_def sample_session_simps sample_config_simps
        response_tags_def sample_admitted_def sample_request_def\<close>)
  then have "rank SENSITIVITY_ORDER ''confidential'' \<le> rank SENSITIVITY_ORDER (ss_max_sensitivity (px_session (th_px th')))"
    by (simp add: sample_thread_def sample_call_px_def new_session_state_def)
  with run show ?thesis by blast
qed

end
