(* ===== verification/Verify_Base.thy ===== *)
theory Verify_Base
  imports Trace_Claim
begin

text \<open>
  What the verifier package (\<open>cmcp_verify\<close>) uses of Python on untrusted JSON:
  the exceptions a lookup can raise, \<open>dict.get\<close>, truth values, equality of
  JSON values, and the lenient base64 reading of keys, nonces and signatures,
  with the facts that read back what the gateway writes.
\<close>

type_synonym jdict = "(string \<times> json) list"

datatype py_exc = Py_key | Py_value | Py_type | Py_attribute | Py_struct

subsection \<open>Lookups in JSON values\<close>

text \<open>\<open>d.get(k)\<close> and \<open>d.get(k, v)\<close> on a dictionary.\<close>

definition dget_or :: "(string \<times> json) list \<Rightarrow> string \<Rightarrow> json \<Rightarrow> json" where
  "dget_or d k v = (case map_of d k of Some x \<Rightarrow> x | None \<Rightarrow> v)"

abbreviation dget :: "(string \<times> json) list \<Rightarrow> string \<Rightarrow> json" where
  "dget d k \<equiv> dget_or d k JNull"

lemma dget_or_simps [simp]:
  "map_of d k = Some x \<Longrightarrow> dget_or d k v = x" "map_of d k = None \<Longrightarrow> dget_or d k v = v"
  by (simp_all add: dget_or_def)

lemma dget_eq_JStr [simp]: "dget d k = JStr s \<longleftrightarrow> map_of d k = Some (JStr s)"
  by (auto simp: dget_or_def split: option.splits)

lemma dget_eq_JObj [simp]: "dget d k = JObj s \<longleftrightarrow> map_of d k = Some (JObj s)"
  by (auto simp: dget_or_def split: option.splits)

text \<open>\<open>v.get(k, default)\<close> on any JSON value, and \<open>v[k]\<close>.\<close>

fun py_get :: "json \<Rightarrow> string \<Rightarrow> json \<Rightarrow> py_exc + json" where
  "py_get (JObj d) k v = Inr (dget_or d k v)"
| "py_get _ k v = Inl Py_attribute"

fun py_item :: "json \<Rightarrow> string \<Rightarrow> py_exc + json" where
  "py_item (JObj d) k = (case map_of d k of Some x \<Rightarrow> Inr x | None \<Rightarrow> Inl Py_key)"
| "py_item _ k = Inl Py_type"

text \<open>\<open>v.get(k1, {}).get(k2, {}) ... .get(kn, default)\<close>.\<close>

fun py_path :: "json \<Rightarrow> string list \<Rightarrow> json \<Rightarrow> py_exc + json" where
  "py_path j [] v = Inr j"
| "py_path j [k] v = py_get j k v"
| "py_path j (k # ks) v = bind_result (py_get j k (JObj [])) (\<lambda>x. py_path x ks v)"

fun str_of :: "json \<Rightarrow> string" where
  "str_of (JStr s) = s"
| "str_of _ = []"

definition truthy :: "json \<Rightarrow> bool" where
  "truthy j = (case j of JNull \<Rightarrow> False | JBool b \<Rightarrow> b | JInt i \<Rightarrow> i \<noteq> 0
     | JFloat t \<Rightarrow> t \<noteq> ''0.0'' \<and> t \<noteq> ''-0.0'' | JStr s \<Rightarrow> s \<noteq> [] | JArr xs \<Rightarrow> xs \<noteq> [] | JObj d \<Rightarrow> d \<noteq> [])"

text \<open>\<open>a == b\<close> on JSON values: a Boolean is the number 0 or 1, a float with an integral value below
  \<open>10\<^sup>16\<close> (whose text ends in \<open>.0\<close>) is that integer, and a dictionary has no order.\<close>

definition float_value :: "string \<Rightarrow> json" where
  "float_value t =
     (if 2 < length t \<and> drop (length t - 2) t = ''.0'' then
        (case py_int (take (length t - 2) t) of Some i \<Rightarrow> JInt i | None \<Rightarrow> JFloat t)
      else JFloat t)"

fun py_norm :: "json \<Rightarrow> json" where
  "py_norm (JBool b) = JInt (if b then 1 else 0)"
| "py_norm (JFloat t) = float_value t"
| "py_norm (JArr xs) = JArr (map py_norm xs)"
| "py_norm (JObj kvs) = JObj (sort_key fst (map (\<lambda>(k, v). (k, py_norm v)) kvs))"
| "py_norm v = v"

definition py_eq :: "json \<Rightarrow> json \<Rightarrow> bool" where
  "py_eq a b \<longleftrightarrow> py_norm a = py_norm b"

lemma float_value_not_JStr [simp]: "float_value t \<noteq> JStr s" "JStr s \<noteq> float_value t"
  by (simp_all add: float_value_def split: option.splits)

lemma py_norm_JStr [simp]: "py_norm j = JStr s \<longleftrightarrow> j = JStr s" "JStr s = py_norm j \<longleftrightarrow> j = JStr s"
  by (cases j; auto)+

lemma py_eq_JStr [simp]: "py_eq j (JStr s) \<longleftrightarrow> j = JStr s" "py_eq (JStr s) j \<longleftrightarrow> j = JStr s"
  by (simp_all add: py_eq_def)

lemma py_eq_refl [simp]: "py_eq j j"
  by (simp add: py_eq_def)

subsection \<open>Base64 that skips foreign characters\<close>

text \<open>\<open>base64.b64decode(s)\<close> with the standard alphabet, to which a hyphen and an underscore do not
  belong; \<open>None\<close> is the \<open>ValueError\<close> for text that is not ASCII or ends inside a group.\<close>

definition std_b64decode :: "string \<Rightarrow> bytes option" where
  "std_b64decode s =
     (if list_ex (\<lambda>c. 128 \<le> (of_char c :: nat)) s then None
      else a2b_base64 0 0 0 (filter (\<lambda>c. c \<noteq> CHR ''-'' \<and> c \<noteq> CHR ''_'') s))"

text \<open>The padded text of a value the gateway writes is read back.\<close>

lemma a2b_base64_encode: "a2b_base64 0 0 0 (urlsafe_b64encode bs) = Some bs"
  by (induction bs rule: urlsafe_b64encode.induct) simp_all

lemma b64_char_ascii: "n < 64 \<Longrightarrow> (of_char (b64_char n) :: nat) < 128"
  by (auto simp: b64_char_def)

lemma urlsafe_b64encode_ascii: "c \<in> set (urlsafe_b64encode bs) \<Longrightarrow> (of_char c :: nat) < 128"
  by (induction bs rule: urlsafe_b64encode.induct) (auto simp: b64_char_ascii)

lemma b64url_pad4: "b64url bs @ replicate ((4 - length (b64url bs) mod 4) mod 4) (CHR ''='') = urlsafe_b64encode bs"
proof -
  have "nat ((- int n) mod 4) = (4 - n mod 4) mod 4" for n
  proof -
    have "(- int n) mod 4 = (if n mod 4 = 0 then 0 else 4 - int (n mod 4))"
      unfolding zmod_zminus1_eq_if of_nat_mod by (metis of_nat_eq_0_iff of_nat_mod of_nat_numeral)
    moreover have "n mod 4 < 4" by simp
    ultimately show ?thesis by (auto simp: nat_diff_distrib)
  qed
  then show ?thesis using b64url_padding [of bs] by simp
qed

lemma b64url_decode_b64url [simp]: "b64url_decode (b64url bs) = Some bs"
proof -
  let ?n = "4 - length (b64url bs) mod 4"
  have "b64url bs @ (if ?n \<noteq> 4 then replicate ?n (CHR ''='') else []) = urlsafe_b64encode bs"
  proof (cases "?n = 4")
    case True
    then show ?thesis using b64url_pad4 [of bs] by simp
  next
    case False
    then have "?n mod 4 = ?n" by simp
    then show ?thesis using b64url_pad4 [of bs] False by simp
  qed
  then show ?thesis
    unfolding b64url_decode_def Let_def
    using urlsafe_b64encode_ascii a2b_base64_encode by (force simp: list_ex_iff)
qed

lemma b64url_Nil_iff [simp]: "b64url bs = [] \<longleftrightarrow> bs = []"
  by (metis b64url_decode_b64url b64url_simps(1) option.inject)

lemma b64url_pad2: "length bs mod 3 = 1 \<Longrightarrow> b64url bs @ ''=='' = urlsafe_b64encode bs"
proof (induction bs rule: urlsafe_b64encode.induct)
  case (4 a b c r)
  have "length (a # b # c # r) = length r + 3" by simp
  with "4.prems" have "length r mod 3 = 1" by (metis mod_add_self2)
  with 4 show ?case by simp
qed simp_all

lemma length_urlsafe_b64encode: "length (urlsafe_b64encode bs) = 4 * ((length bs + 2) div 3)"
proof (induction bs rule: urlsafe_b64encode.induct)
  case (4 a b c r)
  have "length (a # b # c # r) + 2 = (length r + 2) + 3" by simp
  then have "(length (a # b # c # r) + 2) div 3 = Suc ((length r + 2) div 3)" by (metis Suc_eq_plus1 div_add_self2 zero_neq_numeral)
  with 4 show ?case by (simp only: urlsafe_b64encode.simps) simp
qed simp_all

end
