(* ===== verification/Verify_Bundle.thy ===== *)
theory Verify_Bundle
  imports Verify_Base Session_Manager
begin

text \<open>
  The verification of an exported audit bundle (\<open>verify_audit_bundle\<close> of
  \<open>cmcp_verify/verify.py\<close>): the shape of the untrusted documents, the hash and
  link of every entry, the recorded session boundaries, the external execution
  receipts, and the cross-check with the signed claim. A failure text is a
  constructor of \<open>bundle_failure\<close>, with the index or name the text carries.
\<close>

datatype evidence_reason =
    Not_an_object | Wrong_call | Bad_issuer_key_id | Bad_evidence_hash | Unsupported_type | No_trusted_key
  | Receipt_signature_invalid | Receipt_unverifiable

datatype bundle_failure =
    Bad_shape "string list" "nat option"
  | No_entries
  | Hash_mismatch nat
  | Link_broken nat
  | First_session_invalid
  | Session_changes nat
  | Reset_unnamed nat
  | Evidence_failed nat evidence_reason
  | Tool_name_not_string nat
  | Transcript_hash_missing
  | Transcript_not_tip
  | Call_count_mismatch
  | Summary_mismatch string
  | Claim_session_mismatch
  | Root_mismatch
  | Tip_mismatch
  | Length_mismatch
  | Bundle_signature_missing
  | No_confirmation_key
  | Bundle_signature_invalid
  | Bundle_signature_unchecked

record audit_bundle_result =
  br_verified :: bool
  br_entry_count :: nat
  br_failures :: "bundle_failure list"

subsection \<open>Entries\<close>

definition shape_failure :: "string list \<Rightarrow> nat option \<Rightarrow> nat \<Rightarrow> audit_bundle_result" where
  "shape_failure path idx n = \<lparr>br_verified = False, br_entry_count = n, br_failures = [Bad_shape path idx]\<rparr>"

text \<open>The hash recomputed over everything but the stored hash.\<close>

definition bundle_body :: "jdict \<Rightarrow> bytes" where
  "bundle_body e = dumps (JObj (filter (\<lambda>kv. fst kv \<noteq> ''entry_hash'') e))"

definition recomputed :: "(bytes \<Rightarrow> bytes) \<Rightarrow> jdict \<Rightarrow> string" where
  "recomputed sha256 e = hexlify (sha256 (bundle_body e))"

fun check_links :: "(bytes \<Rightarrow> bytes) \<Rightarrow> nat \<Rightarrow> json \<Rightarrow> jdict list \<Rightarrow> bundle_failure list" where
  "check_links sha256 i prev [] = []"
| "check_links sha256 i prev (e # es) =
     (if dget e ''entry_hash'' = JStr (recomputed sha256 e) then [] else [Hash_mismatch i])
     @ (if py_eq (dget e ''prev_entry_hash'') prev then [] else [Link_broken i])
     @ check_links sha256 (Suc i) (dget_or e ''entry_hash'' (JStr [])) es"

text \<open>\<open>_check_session_epochs\<close>: the failure, or the session the log ends in.\<close>

definition reset_names :: "jdict \<Rightarrow> string \<Rightarrow> string option" where
  "reset_names e cur =
     (case dget e ''detail'' of
        JObj d \<Rightarrow> if dget d ''closed_session_id'' \<noteq> JStr cur then None
          else (case dget d ''successor_session_id'' of JStr (c # s) \<Rightarrow> Some (c # s) | _ \<Rightarrow> None)
      | _ \<Rightarrow> None)"

fun epochs_from :: "nat \<Rightarrow> string \<Rightarrow> jdict list \<Rightarrow> bundle_failure + string" where
  "epochs_from i cur [] = Inr cur"
| "epochs_from i cur (e # es) =
     (if dget e ''session_id'' \<noteq> JStr cur then Inl (Session_changes i)
      else if dget e ''entry_type'' \<noteq> JStr ''session_reset'' then epochs_from (Suc i) cur es
      else case reset_names e cur of
        None \<Rightarrow> Inl (Reset_unnamed i)
      | Some successor \<Rightarrow> epochs_from (Suc i) successor es)"

definition check_session_epochs :: "jdict list \<Rightarrow> bundle_failure + string" where
  "check_session_epochs entries =
     (case dget (hd entries) ''session_id'' of
        JStr (c # s) \<Rightarrow> epochs_from 0 (c # s) entries
      | _ \<Rightarrow> Inl First_session_invalid)"

subsection \<open>External execution receipts\<close>

text \<open>The patterns \<open>^...$\<close>: a dollar sign also matches before a final line feed.\<close>

definition strip_newline :: "string \<Rightarrow> string" where
  "strip_newline s = (if s \<noteq> [] \<and> last s = CHR 0x0A then butlast s else s)"

definition issuer_key_id_ok :: "string \<Rightarrow> bool" where
  "issuer_key_id_ok s \<longleftrightarrow> length (strip_newline s) = 64 \<and> hex_text (strip_newline s)"

definition evidence_hash_ok :: "string \<Rightarrow> bool" where
  "evidence_hash_ok s \<longleftrightarrow> (let t = strip_newline s in has_digest_prefix t \<and> 7 < length t \<and> hex_text (drop 7 t))"

definition EXTERNAL_EVIDENCE_TYPES :: "string list" where
  "EXTERNAL_EVIDENCE_TYPES =
     [''controller-execution-receipt/v1'', ''tee-signed-receipt'', ''controller-jwt'', ''opaque-receipt'']"

text \<open>From the trusted key to the outcome of the receipt's signature.\<close>

definition receipt_signature :: "crypto \<Rightarrow> string \<Rightarrow> bytes \<Rightarrow> jdict \<Rightarrow> evidence_reason option" where
  "receipt_signature cy key_id pub_bytes ev =
     (if length pub_bytes \<noteq> 32 \<or> hexlify (cy_sha256 cy pub_bytes) \<noteq> key_id then Some Receipt_unverifiable
      else case dget_or ev ''signature'' (JStr []) of
        JStr sig_b64 \<Rightarrow>
          (case b64url_decode sig_b64 of
             None \<Rightarrow> Some Receipt_unverifiable
           | Some sig \<Rightarrow>
               (case cy_ed25519 cy pub_bytes sig (dumps (JObj (filter (\<lambda>kv. fst kv \<noteq> ''signature'') ev))) of
                  Verified \<Rightarrow> None
                | Bad_signature \<Rightarrow> Some Receipt_signature_invalid
                | Key_value_error \<Rightarrow> Some Receipt_unverifiable))
      | _ \<Rightarrow> Some Receipt_unverifiable)"

definition receipt_failure :: "crypto \<Rightarrow> bytes dict \<Rightarrow> jdict \<Rightarrow> evidence_reason option" where
  "receipt_failure cy keys e =
     (let ev = dget e ''external_execution_evidence'' in
      if \<not> truthy ev then None
      else case ev of
        JObj d \<Rightarrow>
          if \<not> py_eq (dget d ''linked_call_id'') (dget e ''call_id'') then Some Wrong_call
          else (case dget_or d ''issuer_key_id'' (JStr []) of
             JStr key_id \<Rightarrow>
               if \<not> issuer_key_id_ok key_id then Some Bad_issuer_key_id
               else (case dget_or d ''evidence_hash'' (JStr []) of
                  JStr eh \<Rightarrow>
                    if \<not> evidence_hash_ok eh then Some Bad_evidence_hash
                    else (case dget_or d ''evidence_type'' (JStr []) of
                       JStr ty \<Rightarrow>
                         if ty \<notin> set EXTERNAL_EVIDENCE_TYPES then Some Unsupported_type
                         else (case keys key_id of
                            Some (c # pub) \<Rightarrow> receipt_signature cy key_id (c # pub) d
                          | _ \<Rightarrow> Some No_trusted_key)
                     | _ \<Rightarrow> Some Unsupported_type)
                | _ \<Rightarrow> Some Bad_evidence_hash)
           | _ \<Rightarrow> Some Bad_issuer_key_id)
      | _ \<Rightarrow> Some Not_an_object)"

definition receipt_failures :: "crypto \<Rightarrow> bytes dict option \<Rightarrow> jdict list \<Rightarrow> bundle_failure list" where
  "receipt_failures cy keys entries =
     (case keys of
        None \<Rightarrow> []
      | Some ks \<Rightarrow> List.map_filter (\<lambda>(i, e). map_option (Evidence_failed i) (receipt_failure cy ks e)) (enumerate 0 entries))"

subsection \<open>The cross-check with the claim\<close>

definition claim_paths :: "string list list" where
  "claim_paths = [[''gateway''], [''gateway'', ''audit_chain''], [''gateway'', ''call_summary''], [''trace''],
     [''trace'', ''tool_transcript''], [''trace'', ''cnf''], [''trace'', ''cnf'', ''jwk'']]"

text \<open>The first prefix of a path that leads to something other than an object.\<close>

fun walk_path :: "jdict \<Rightarrow> string list \<Rightarrow> string list \<Rightarrow> string list option" where
  "walk_path obj walked [] = None"
| "walk_path obj walked (name # rest) =
     (case map_of obj name of
        None \<Rightarrow> None
      | Some (JObj d) \<Rightarrow> walk_path d (walked @ [name]) rest
      | Some _ \<Rightarrow> Some (walked @ [name]))"

definition claim_shape_failure :: "jdict \<Rightarrow> string list option" where
  "claim_shape_failure claim =
     (case List.map_filter (walk_path claim []) claim_paths of [] \<Rightarrow> None | p # _ \<Rightarrow> Some p)"

text \<open>\<open>d.get(k, {})\<close> where the shape check has excluded every value but an object.\<close>

definition sub_dict :: "jdict \<Rightarrow> string \<Rightarrow> jdict" where
  "sub_dict d k = (case map_of d k of Some (JObj x) \<Rightarrow> x | _ \<Rightarrow> [])"

definition bundle_tool_calls :: "jdict list \<Rightarrow> jdict list" where
  "bundle_tool_calls entries = filter (\<lambda>e. dget e ''entry_type'' = JStr ''tool_call'') entries"

definition tool_name_failures :: "jdict list \<Rightarrow> bundle_failure list" where
  "tool_name_failures entries =
     List.map_filter (\<lambda>(i, e).
       if dget e ''entry_type'' = JStr ''tool_call'' \<and> (case dget e ''tool_name'' of JNull \<Rightarrow> False | JStr _ \<Rightarrow> False | _ \<Rightarrow> True)
       then Some (Tool_name_not_string i) else None) (enumerate 0 entries)"

definition transcript_failures :: "jdict \<Rightarrow> jdict \<Rightarrow> jdict list \<Rightarrow> bundle_failure list" where
  "transcript_failures transcript chain calls =
     (case (dget transcript ''hash'', dget chain ''tip'') of
        (JStr h, JStr tip) \<Rightarrow>
          (if h = (if has_digest_prefix tip then tip else ''sha256:'' @ tip) then [] else [Transcript_not_tip])
      | (JStr h, _) \<Rightarrow> []
      | _ \<Rightarrow> if calls \<noteq> [] then [Transcript_hash_missing] else [])"

definition decision_in :: "string list \<Rightarrow> jdict \<Rightarrow> bool" where
  "decision_in ds e \<longleftrightarrow> (\<exists>d\<in>set ds. dget e ''policy_decision'' = JStr d)"

definition expected_call_summary :: "jdict list \<Rightarrow> jdict" where
  "expected_call_summary calls =
     [(''tool_calls_total'', JInt (int (length calls))),
      (''tool_calls_allowed'', JInt (int (count_if (decision_in [''allow'']) calls))),
      (''tool_calls_denied'', JInt (int (count_if (decision_in [''deny'', ''advisory_deny'']) calls))),
      (''tool_calls_faulted'', JInt (int (count_if (decision_in [''fault'']) calls))),
      (''tools_invoked'', strs (sorted_set (List.map_filter
          (\<lambda>e. case dget e ''tool_name'' of JStr n \<Rightarrow> Some n | _ \<Rightarrow> None) calls)))]"

text \<open>An expected integer is matched by an integer only; the expected list of strings by the same list.\<close>

definition summary_failures :: "jdict \<Rightarrow> jdict list \<Rightarrow> bundle_failure list" where
  "summary_failures call_summary calls =
     List.map_filter (\<lambda>(name, expected). if dget call_summary name = expected then None else Some (Summary_mismatch name))
       (expected_call_summary calls)"

definition signature_failures :: "crypto \<Rightarrow> json \<Rightarrow> json \<Rightarrow> json list \<Rightarrow> bundle_failure list" where
  "signature_failures cy sig_b64 x_b64 entries =
     (if \<not> truthy sig_b64 then [Bundle_signature_missing]
      else if \<not> truthy x_b64 then [No_confirmation_key]
      else case (x_b64, sig_b64) of
        (JStr x, JStr s) \<Rightarrow>
          (case (b64url_decode x, b64url_decode s) of
             (Some pub, Some sig) \<Rightarrow>
               (case cy_ed25519 cy pub sig (cy_sha256 cy (dumps (JArr entries))) of
                  Verified \<Rightarrow> []
                | Bad_signature \<Rightarrow> [Bundle_signature_invalid]
                | Key_value_error \<Rightarrow> [Bundle_signature_unchecked])
           | _ \<Rightarrow> [Bundle_signature_unchecked])
      | _ \<Rightarrow> [Bundle_signature_unchecked])"

definition claim_failures :: "crypto \<Rightarrow> jdict \<Rightarrow> jdict \<Rightarrow> (bundle_failure + string) \<Rightarrow> jdict list \<Rightarrow> bundle_failure list" where
  "claim_failures cy bundle claim final entries =
     (let gateway = sub_dict claim ''gateway''; trace = sub_dict claim ''trace'';
          chain = sub_dict gateway ''audit_chain''; transcript = sub_dict trace ''tool_transcript'';
          calls = bundle_tool_calls entries in
      tool_name_failures entries
      @ transcript_failures transcript chain calls
      @ (if dget transcript ''call_count'' = JInt (int (length calls)) then [] else [Call_count_mismatch])
      @ summary_failures (sub_dict gateway ''call_summary'') calls
      @ (case final of
           Inr sid \<Rightarrow> if dget gateway ''session_id'' = JStr sid then [] else [Claim_session_mismatch]
         | Inl _ \<Rightarrow> [])
      @ (if py_eq (dget chain ''root'') (dget (hd entries) ''entry_hash'') then [] else [Root_mismatch])
      @ (if py_eq (dget chain ''tip'') (dget (last entries) ''entry_hash'') then [] else [Tip_mismatch])
      @ (if py_eq (dget chain ''length'') (JInt (int (length entries))) then [] else [Length_mismatch])
      @ signature_failures cy (dget_or bundle ''bundle_signature'' (JStr []))
          (dget_or (sub_dict (sub_dict trace ''cnf'') ''jwk'') ''x'' (JStr [])) (map JObj entries))"

subsection \<open>The whole check\<close>

text \<open>The objects of the entry list, or the index of the first that is none.\<close>

fun objects_from :: "nat \<Rightarrow> json list \<Rightarrow> nat + jdict list" where
  "objects_from i [] = Inr []"
| "objects_from i (j # js) =
     (case j of JObj d \<Rightarrow> bind_result (objects_from (Suc i) js) (\<lambda>ds. Inr (d # ds)) | _ \<Rightarrow> Inl i)"

definition entry_failures :: "crypto \<Rightarrow> bytes dict option \<Rightarrow> jdict list \<Rightarrow> bundle_failure list" where
  "entry_failures cy keys entries =
     check_links (cy_sha256 cy) 0 (JStr ''genesis'') entries
     @ (case check_session_epochs entries of Inl f \<Rightarrow> [f] | Inr _ \<Rightarrow> [])
     @ receipt_failures cy keys entries"

definition bundle_result :: "nat \<Rightarrow> bundle_failure list \<Rightarrow> audit_bundle_result" where
  "bundle_result n fs = \<lparr>br_verified = (fs = []), br_entry_count = n, br_failures = fs\<rparr>"

definition verify_audit_bundle :: "crypto \<Rightarrow> json \<Rightarrow> json option \<Rightarrow> bytes dict option \<Rightarrow> audit_bundle_result" where
  "verify_audit_bundle cy bundle_json claim_json keys =
     (case bundle_json of
        JObj bundle \<Rightarrow>
          (case dget_or bundle ''entries'' (JArr []) of
             JArr js \<Rightarrow>
               (case objects_from 0 js of
                  Inl i \<Rightarrow> shape_failure [''bundle'', ''entries''] (Some i) (length js)
                | Inr entries \<Rightarrow>
                    (case claim_json of
                       None \<Rightarrow>
                         if entries = [] then bundle_result 0 [No_entries]
                         else bundle_result (length entries) (entry_failures cy keys entries)
                     | Some (JObj claim) \<Rightarrow>
                         (case claim_shape_failure claim of
                            Some p \<Rightarrow> shape_failure (''claim'' # p) None (length entries)
                          | None \<Rightarrow>
                              if entries = [] then bundle_result 0 [No_entries]
                              else bundle_result (length entries)
                                (entry_failures cy keys entries
                                 @ claim_failures cy bundle claim (check_session_epochs entries) entries))
                     | Some _ \<Rightarrow> shape_failure [''claim''] None (length entries)))
           | _ \<Rightarrow> shape_failure [''bundle'', ''entries''] None 0)
      | _ \<Rightarrow> shape_failure [''bundle''] None 0)"

subsection \<open>What a verified bundle is\<close>

definition stored_hash :: "jdict \<Rightarrow> string" where
  "stored_hash e = str_of (dget e ''entry_hash'')"

definition stored_prev :: "jdict \<Rightarrow> string" where
  "stored_prev e = str_of (dget e ''prev_entry_hash'')"

fun doc_links :: "(bytes \<Rightarrow> bytes) \<Rightarrow> string option \<Rightarrow> jdict list \<Rightarrow> bool" where
  "doc_links sha256 p [] = True"
| "doc_links sha256 p (e # es) \<longleftrightarrow>
     stored_hash e = recomputed sha256 e \<and> (case p of None \<Rightarrow> True | Some h \<Rightarrow> stored_prev e = h)
     \<and> doc_links sha256 (Some (stored_hash e)) es"

text \<open>A parsed JSON object: every key once, and only values \<open>json.loads\<close> gives.\<close>

definition doc_ok :: "jdict \<Rightarrow> bool" where
  "doc_ok e \<longleftrightarrow> distinct (map fst e) \<and> wf_json (JObj e)"

lemma body_lookup:
  assumes "doc_ok e" "doc_ok f" "bundle_body e = bundle_body f"
  shows "norm_json (JObj (filter (\<lambda>kv. fst kv \<noteq> ''entry_hash'') e)) = norm_json (JObj (filter (\<lambda>kv. fst kv \<noteq> ''entry_hash'') f))"
  using assms dumps_inject by (auto simp: bundle_body_def doc_ok_def list_all_iff)

lemma body_prev_eq:
  assumes "doc_ok e" "doc_ok f" "bundle_body e = bundle_body f"
  shows "stored_prev e = stored_prev f"
proof -
  have "map_option norm_json (map_of (filter (\<lambda>kv. fst kv \<noteq> ''entry_hash'') e) ''prev_entry_hash'')
      = map_option norm_json (map_of (filter (\<lambda>kv. fst kv \<noteq> ''entry_hash'') f) ''prev_entry_hash'')"
    by (rule norm_json_obj_eq_lookup [OF body_lookup [OF assms]])
       (use assms(1,2) in \<open>simp_all add: doc_ok_def distinct_map_filter\<close>)
  then have eq: "map_option norm_json (map_of e ''prev_entry_hash'') = map_option norm_json (map_of f ''prev_entry_hash'')"
    by (simp add: map_of_filter_key)
  have "str_of (norm_json j) = str_of j" for j by (cases j) simp_all
  then have val: "str_of (dget d k) = (case map_option norm_json (map_of d k) of None \<Rightarrow> [] | Some j \<Rightarrow> str_of j)" for d k
    by (simp add: dget_or_def split: option.splits)
  show ?thesis unfolding stored_prev_def val eq ..
qed

interpretation doc_log: hash_linked "\<lambda>b. hexlify (sha256 b)" bundle_body stored_prev stored_hash doc_ok
    "doc_links sha256" for sha256
proof unfold_locales
  show "stored_prev e = stored_prev f" if "doc_ok e" "doc_ok f" "bundle_body e = bundle_body f" for e f
    using that by (rule body_prev_eq)
qed (simp_all add: recomputed_def)

lemma check_links_ok:
  "check_links sha256 i (JStr p) es = [] \<longleftrightarrow>
     doc_links sha256 (Some p) es \<and> (\<forall>e\<in>set es. \<exists>h q. map_of e ''entry_hash'' = Some (JStr h) \<and> map_of e ''prev_entry_hash'' = Some (JStr q))"
proof (induction es arbitrary: i p)
  case (Cons e es)
  show ?case
  proof (cases "map_of e ''entry_hash'' = Some (JStr (recomputed sha256 e))")
    case True
    with Cons show ?thesis by (auto simp: stored_hash_def stored_prev_def)
  qed (auto simp: stored_hash_def)
qed simp

lemma objects_from_ok: "objects_from i js = Inr es \<longleftrightarrow> js = map JObj es"
  by (induction js arbitrary: i es) (auto simp: bind_result_eq_Inr split: json.splits)

text \<open>What acceptance means, with or without a claim.\<close>

lemma verified_bundle_cases:
  assumes "br_verified (verify_audit_bundle cy bundle_json claim_json keys)"
  obtains b entries where "bundle_json = JObj b" "map_of b ''entries'' = Some (JArr (map JObj entries))" "entries \<noteq> []"
    "entry_failures cy keys entries = []"
    "\<And>j. claim_json = Some j \<Longrightarrow> \<exists>claim. j = JObj claim \<and> claim_shape_failure claim = None
       \<and> claim_failures cy b claim (check_session_epochs entries) entries = []"
    "br_entry_count (verify_audit_bundle cy bundle_json claim_json keys) = length entries"
proof -
  from assms obtain b where b: "bundle_json = JObj b"
    by (auto simp: verify_audit_bundle_def shape_failure_def split: json.splits)
  from assms b obtain js where js: "dget_or b ''entries'' (JArr []) = JArr js"
    by (auto simp: verify_audit_bundle_def shape_failure_def split: json.splits)
  from assms b js obtain es where es: "objects_from 0 js = Inr es"
    by (auto simp: verify_audit_bundle_def shape_failure_def split: sum.splits)
  note parts = assms [unfolded verify_audit_bundle_def b, simplified js es json.case sum.case]
  have ne: "es \<noteq> []"
    using parts by (auto simp: shape_failure_def bundle_result_def split: option.splits json.splits if_splits)
  have ent: "map_of b ''entries'' = Some (JArr (map JObj es))"
    using js es ne by (auto simp: objects_from_ok dget_or_def split: option.splits)
  show thesis
    by (rule that [OF b ent ne])
       (use parts ne js es b in \<open>auto simp: verify_audit_bundle_def shape_failure_def bundle_result_def split: option.splits json.splits\<close>)
qed

lemma entry_failures_ok:
  assumes "entry_failures cy keys entries = []"
  shows "doc_links (cy_sha256 cy) (Some ''genesis'') entries"
    "\<forall>e\<in>set entries. \<exists>h q. map_of e ''entry_hash'' = Some (JStr h) \<and> map_of e ''prev_entry_hash'' = Some (JStr q)"
    "\<exists>sid. check_session_epochs entries = Inr sid"
    "receipt_failures cy keys entries = []"
proof -
  have *: "check_links (cy_sha256 cy) 0 (JStr ''genesis'') entries = []"
    "(case check_session_epochs entries of Inl f \<Rightarrow> [f] | Inr _ \<Rightarrow> []) = []" "receipt_failures cy keys entries = []"
    using assms by (simp_all add: entry_failures_def)
  show "doc_links (cy_sha256 cy) (Some ''genesis'') entries"
    "\<forall>e\<in>set entries. \<exists>h q. map_of e ''entry_hash'' = Some (JStr h) \<and> map_of e ''prev_entry_hash'' = Some (JStr q)"
    "receipt_failures cy keys entries = []" "\<exists>sid. check_session_epochs entries = Inr sid"
    using *(1) [unfolded check_links_ok] *(2,3) by (auto split: sum.splits)
qed

lemma doc_links_start:
  "doc_links sha256 (Some p) es \<Longrightarrow> es \<noteq> [] \<Longrightarrow> doc_links sha256 None es \<and> stored_prev (hd es) = p"
  by (cases es) auto

text \<open>Two accepted logs with one tip are the same documents, or two of their bodies collide.\<close>

lemma same_tip_same_docs:
  assumes "doc_links sha256 (Some ''genesis'') es" "doc_links sha256 (Some ''genesis'') fs" "es \<noteq> []" "fs \<noteq> []"
    and "\<forall>e\<in>set es \<union> set fs. doc_ok e" "stored_hash (last es) = stored_hash (last fs)"
    and "\<And>b. length (sha256 b) = 32"
  shows "map bundle_body es = map bundle_body fs
    \<or> (\<exists>e\<in>set es. \<exists>f\<in>set fs. collides sha256 (bundle_body e) (bundle_body f))"
proof -
  have "map bundle_body es = map bundle_body fs
      \<or> (\<exists>e\<in>set es. \<exists>f\<in>set fs. collides (\<lambda>b. hexlify (sha256 b)) (bundle_body e) (bundle_body f))"
    by (rule doc_log.tip_determines_or_collision [where start = "''genesis''"])
       (use assms doc_links_start digest_not_genesis [OF assms(7)] in auto)
  then show ?thesis by (auto simp: collides_def)
qed

end
