(* ===== verification/Verify_Export.thy ===== *)
theory Verify_Export
  imports Verify_Bundle Session_Lifecycle
begin

text \<open>
  The gateway and the verifier composed: what \<open>SessionManager\<close> exports for a
  session it closed is accepted by \<open>verify_audit_bundle\<close>, and whatever that
  function accepts against the claim of a session is the log the gateway
  recorded for it.
\<close>

subsection \<open>Entries as documents\<close>

definition entry_doc :: "audit_entry \<Rightarrow> jdict" where
  "entry_doc e = entry_fields e @ [(''entry_hash'', JStr (ae_entry_hash e))]"

lemma entry_asdict_doc: "entry_asdict e = JObj (entry_doc e)"
  by (simp add: entry_asdict_def entry_doc_def)

lemma entry_doc_fields [simp]:
  "map_of (entry_doc e) ''entry_hash'' = Some (JStr (ae_entry_hash e))"
  "map_of (entry_doc e) ''prev_entry_hash'' = Some (JStr (ae_prev_entry_hash e))"
  "map_of (entry_doc e) ''session_id'' = Some (JStr (ae_session_id e))"
  "map_of (entry_doc e) ''entry_type'' = Some (JStr (entry_type_str (ea_entry_type e)))"
  "map_of (entry_doc e) ''tool_name'' = Some (opt_str (ea_tool_name e))"
  "map_of (entry_doc e) ''policy_decision'' = Some (opt_str (map_option policy_decision_str (ea_policy_decision e)))"
  "map_of (entry_doc e) ''detail'' = Some (case ea_detail e of None \<Rightarrow> JNull | Some d \<Rightarrow> JObj d)"
  by (simp_all add: entry_doc_def entry_fields_def)

lemma body_entry_doc [simp]: "bundle_body (entry_doc e) = canonical_body e"
  by (simp add: bundle_body_def entry_doc_def canonical_body_def entry_fields_def)

lemma stored_entry_doc [simp]:
  "stored_hash (entry_doc e) = ae_entry_hash e" "stored_prev (entry_doc e) = ae_prev_entry_hash e"
  by (simp_all add: stored_hash_def stored_prev_def)

lemma doc_ok_entry: "wf_entry e \<Longrightarrow> doc_ok (entry_doc e)"
  using wf_entry_fields [of e] by (auto simp: doc_ok_def entry_doc_def) (auto simp: entry_fields_def)

lemma doc_links_entries: "doc_links sha256 p (map entry_doc es) \<longleftrightarrow> verify_links sha256 p es"
  by (induction es arbitrary: p) (simp_all add: recomputed_def compute_hash_def split: option.split)

lemma check_links_entries:
  "verify_links sha256 None es \<Longrightarrow> es \<noteq> [] \<Longrightarrow> ae_prev_entry_hash (hd es) = p \<Longrightarrow>
   check_links sha256 i (JStr p) (map entry_doc es) = []"
  unfolding check_links_ok doc_links_entries by (cases es) auto

lemma tool_calls_docs: "bundle_tool_calls (map entry_doc es) = map entry_doc (tool_calls_of es)"
proof -
  have "entry_type_str t = ''tool_call'' \<longleftrightarrow> t = Tool_call" for t by (cases t) simp_all
  then show ?thesis by (simp add: bundle_tool_calls_def tool_calls_of_def filter_map comp_def)
qed

lemma decision_docs:
  "decision_in [''allow''] (entry_doc e) \<longleftrightarrow> ea_policy_decision e = Some PD_allow"
  "decision_in [''deny'', ''advisory_deny''] (entry_doc e) \<longleftrightarrow> counts_as_denied e"
  "decision_in [''fault''] (entry_doc e) \<longleftrightarrow> ea_policy_decision e = Some PD_fault"
proof -
  have "policy_decision_str d = policy_decision_str d' \<longleftrightarrow> d = d'" for d d' by simp
  then have "(opt_str (map_option policy_decision_str x) = JStr (policy_decision_str d)) \<longleftrightarrow> x = Some d" for x d
    by (cases x) (simp_all add: opt_str_def)
  note this [of _ PD_allow] this [of _ PD_deny] this [of _ PD_advisory_deny] this [of _ PD_fault]
  then show "decision_in [''allow''] (entry_doc e) \<longleftrightarrow> ea_policy_decision e = Some PD_allow"
    "decision_in [''deny'', ''advisory_deny''] (entry_doc e) \<longleftrightarrow> counts_as_denied e"
    "decision_in [''fault''] (entry_doc e) \<longleftrightarrow> ea_policy_decision e = Some PD_fault"
    by (simp_all add: decision_in_def counts_as_denied_def)
qed

lemma tool_names_docs:
  "List.map_filter (\<lambda>e. case dget e ''tool_name'' of JStr n \<Rightarrow> Some n | _ \<Rightarrow> None) (map entry_doc es)
   = List.map_filter ea_tool_name es"
  by (induction es) (auto simp: opt_str_def map_filter_simps split: option.splits)

lemma tool_name_failures_docs: "tool_name_failures (map entry_doc es) = []"
proof -
  have "List.map_filter (\<lambda>(i, e). if dget e ''entry_type'' = JStr ''tool_call''
      \<and> (case dget e ''tool_name'' of JNull \<Rightarrow> False | JStr _ \<Rightarrow> False | _ \<Rightarrow> True)
      then Some (Tool_name_not_string i) else None) (enumerate n (map entry_doc es)) = []" for n
    by (induction es arbitrary: n) (auto simp: opt_str_def map_filter_simps split: option.splits)
  then show ?thesis by (simp add: tool_name_failures_def)
qed

lemma count_if_docs: "count_if p (map entry_doc es) = count_if (\<lambda>e. p (entry_doc e)) es"
  by (induction es) simp_all

text \<open>The counts the verifier derives from an exported log are the ones the manager puts in the claim.\<close>

lemma summary_failures_docs:
  assumes "cy_tool_calls_total cs = length calls"
    and "cy_tool_calls_allowed cs = count_if (\<lambda>e. ea_policy_decision e = Some PD_allow) calls"
    and "cy_tool_calls_denied cs = count_if counts_as_denied calls"
    and "cy_tool_calls_faulted cs = count_if (\<lambda>e. ea_policy_decision e = Some PD_fault) calls"
    and "cy_tools_invoked cs = tools_invoked_of calls" "call_summary_json cs = JObj d"
  shows "summary_failures d (map entry_doc calls) = []"
  using assms
  by (auto simp: summary_failures_def expected_call_summary_def count_if_docs decision_docs tool_names_docs
      tools_invoked_of_def call_summary_json_def map_filter_simps)

subsection \<open>Session boundaries\<close>

lemma epochs_append:
  "epochs_from i cur (es @ fs) = bind_result (epochs_from i cur es) (\<lambda>cur'. epochs_from (i + length es) cur' fs)"
  by (induction es arbitrary: i cur) (auto split: option.splits)

text \<open>The chains a gateway builds: a session is opened, entries are appended, and a reset appends the
  entry that names the closed session and its successor before the identifier is rotated.\<close>

inductive session_log :: "(bytes \<Rightarrow> bytes) \<Rightarrow> audit_chain \<Rightarrow> bool" for sha256 where
  start: "new_chain sha256 tk sid st sinks = Inr c \<Longrightarrow> wf_datetime (tk_now tk) \<Longrightarrow> sid \<noteq> [] \<Longrightarrow> session_log sha256 c"
| append: "session_log sha256 c \<Longrightarrow> wf_datetime (tk_now tk) \<Longrightarrow> ea_entry_type a \<noteq> Session_reset \<Longrightarrow>
     chain_append sha256 tk c a = Inr (c', e) \<Longrightarrow> session_log sha256 c'"
| reset: "session_log sha256 c \<Longrightarrow> wf_datetime (tk_now tk) \<Longrightarrow> ea_entry_type a = Session_reset \<Longrightarrow> ea_detail a = Some d \<Longrightarrow>
     map_of d ''closed_session_id'' = Some (JStr (ch_session_id c)) \<Longrightarrow> map_of d ''successor_session_id'' = Some (JStr n) \<Longrightarrow>
     n \<noteq> [] \<Longrightarrow> chain_append sha256 tk c a = Inr (c', e) \<Longrightarrow> session_log sha256 (rotate_session_id c' n)"
| anchor: "session_log sha256 c \<Longrightarrow> set_tee_anchor c x = Inr c' \<Longrightarrow> session_log sha256 c'"
| report: "session_log sha256 c \<Longrightarrow> session_log sha256 (set_session_report c r)"
| sink: "session_log sha256 c \<Longrightarrow> session_log sha256 (add_sink c s)"

lemma session_log_reachable: "session_log sha256 c \<Longrightarrow> chain_reachable sha256 c"
  by (induction rule: session_log.induct) (blast intro: chain_reachable.intros)+

definition epochs_ok :: "audit_chain \<Rightarrow> bool" where
  "epochs_ok c \<longleftrightarrow> ch_entries c \<noteq> [] \<and> check_session_epochs (map entry_doc (ch_entries c)) = Inr (ch_session_id c)"

lemma check_epochs_hd:
  "es \<noteq> [] \<Longrightarrow> check_session_epochs (map entry_doc es) =
     (if ae_session_id (hd es) = [] then Inl First_session_invalid else epochs_from 0 (ae_session_id (hd es)) (map entry_doc es))"
  by (cases es) (auto simp: check_session_epochs_def split: list.splits)

lemma check_epochs_snoc:
  assumes "es \<noteq> []"
  shows "check_session_epochs (map entry_doc (es @ [e])) =
    bind_result (check_session_epochs (map entry_doc es)) (\<lambda>cur. epochs_from (length es) cur [entry_doc e])"
proof -
  have hd: "hd (es @ [e]) = hd es" using assms by simp
  show ?thesis
    using assms check_epochs_hd [of "es @ [e]"] check_epochs_hd [of es] unfolding hd
    by (simp add: epochs_append del: epochs_from.simps)
qed

lemma entry_type_str_eq:
  "entry_type_str t = ''session_reset'' \<longleftrightarrow> t = Session_reset"
  by (cases t) simp_all

lemma epochs_ok_append:
  assumes "epochs_ok c" "chain_append sha256 tk c a = Inr (c', e)" "ea_entry_type a \<noteq> Session_reset"
  shows "epochs_ok c'"
proof -
  obtain now where n: "e = new_entry sha256 (ch_session_id c) (ch_entries c) (tk_uuid tk) now a"
    "ch_entries c' = ch_entries c @ [e]" "ch_session_id c' = ch_session_id c"
    using assms(2) by (rule chain_append_cases)
  have e: "ae_session_id e = ch_session_id c" "ea_entry_type e \<noteq> Session_reset"
    unfolding n(1) using assms(3) by simp_all
  show ?thesis
    using assms(1) n(3) e unfolding epochs_ok_def n(2) by (simp add: check_epochs_snoc entry_type_str_eq del: map_append)
qed

lemma epochs_ok_reset:
  assumes "epochs_ok c" "chain_append sha256 tk c a = Inr (c', e)" "ea_entry_type a = Session_reset" "ea_detail a = Some d"
    and "map_of d ''closed_session_id'' = Some (JStr (ch_session_id c))" "map_of d ''successor_session_id'' = Some (JStr n)"
    and "n \<noteq> []"
  shows "epochs_ok (rotate_session_id c' n)"
proof -
  obtain now where n: "e = new_entry sha256 (ch_session_id c) (ch_entries c) (tk_uuid tk) now a"
    "ch_entries c' = ch_entries c @ [e]" "ch_session_id c' = ch_session_id c"
    using assms(2) by (rule chain_append_cases)
  have e: "ae_session_id e = ch_session_id c" "ea_entry_type e = Session_reset" "ea_detail e = Some d"
    unfolding n(1) using assms(3,4) by simp_all
  have "reset_names (entry_doc e) (ch_session_id c) = Some n"
    using assms(5-7) by (cases n) (simp_all add: reset_names_def e)
  then show ?thesis
    using assms(1) e unfolding epochs_ok_def
    by (simp add: rotate_session_id_def n(2) check_epochs_snoc entry_type_str_eq del: map_append)
qed

lemma epochs_ok_start:
  assumes "new_chain sha256 tk sid st sinks = Inr c" "sid \<noteq> []"
  shows "epochs_ok c"
proof -
  obtain e where e: "ch_entries c = [e]" "ch_session_id c = sid" "ae_session_id e = sid" "ea_entry_type e = Session_start"
    using assms(1) by (auto simp: new_chain_def bind_result_eq_Inr session_start_args_def entry_defaults_def elim!: chain_append_cases)
  show ?thesis unfolding epochs_ok_def e(1) using e(2-4) assms(2) by (cases sid) (simp_all add: check_session_epochs_def)
qed

lemma session_log_epochs: "session_log sha256 c \<Longrightarrow> epochs_ok c"
proof (induction rule: session_log.induct)
  case start
  show ?case by (rule epochs_ok_start [OF start(1,3)])
next
  case append
  show ?case by (rule epochs_ok_append [OF append.IH append.hyps(4,3)])
next
  case reset
  show ?case by (rule epochs_ok_reset [OF reset.IH reset.hyps(8,3-7)])
qed (auto simp: set_tee_anchor_ok set_session_report_def add_sink_def epochs_ok_def)

subsection \<open>What a closed session leaves\<close>

lemma close_kill_switch_log:
  assumes "close_kill_switch ctx kr m s c = (r, m', s', c')" "session_log (cy_sha256 (rc_crypto ctx)) c" "wf_datetime (tk_now (kr_tick kr))"
  shows "session_log (cy_sha256 (rc_crypto ctx)) c' \<and> tool_calls_of (ch_entries c') = tool_calls_of (ch_entries c)
    \<and> ch_session_id c' = ch_session_id c"
proof -
  have "session_log (cy_sha256 (rc_crypto ctx)) c1 \<and> tool_calls_of (ch_entries c1) = tool_calls_of (ch_entries c)
    \<and> ch_session_id c1 = ch_session_id c"
    if "chain_append (cy_sha256 (rc_crypto ctx)) (kr_tick kr) c (trip_args ctx a x) = Inr (c1, e)" for c1 e a x
    using that session_log.append [OF assms(2,3) _ that]
    by (auto simp: trip_args_def tool_calls_of_def elim!: chain_append_cases)
  then show ?thesis
    using assms(1,2) by (elim close_kill_switch_cases count_and_trip_cases) auto
qed

text \<open>What is asked of the models of \<open>agentrust_trace\<close>: a dumped model keeps the fields it was given.\<close>

definition models_echo :: "trace_models \<Rightarrow> bool" where
  "models_echo tm \<longleftrightarrow> (\<forall>a j. tm_runtime_info tm (JObj a) = Some j \<or> tm_policy_info tm (JObj a) = Some j
     \<or> tm_confirmation_key tm (JObj a) = Some j \<longrightarrow>
     (\<exists>d. j = JObj d \<and> (\<forall>k v. map_of a k = Some v \<longrightarrow> map_of d k = Some v)))"

text \<open>What is asked of Ed25519: a signature of the gateway key is not empty and verifies.\<close>

definition key_signs :: "runtime_context \<Rightarrow> bool" where
  "key_signs ctx \<longleftrightarrow> sg_public_bytes (rc_signing_key ctx) \<noteq> [] \<and>
     (\<forall>m. sg_sign (rc_signing_key ctx) m \<noteq> [] \<and>
        cy_ed25519 (rc_crypto ctx) (sg_public_bytes (rc_signing_key ctx)) (sg_sign (rc_signing_key ctx) m) m = Verified)"

definition claim_sections :: "claim_input \<Rightarrow> signing_key \<Rightarrow> jdict \<Rightarrow> jdict \<Rightarrow> jdict \<Rightarrow> bool" where
  "claim_sections ci k claim gw tr \<longleftrightarrow>
     map_of claim ''gateway'' = Some (JObj gw) \<and> map_of claim ''trace'' = Some (JObj tr)
     \<and> map_of gw ''session_id'' = Some (JStr (ci_session_id ci))
     \<and> map_of gw ''audit_chain'' = Some (JObj [(''root'', JStr (ci_chain_root ci)), (''tip'', JStr (ci_chain_tip ci)),
          (''length'', JInt (int (ci_chain_length ci)))])
     \<and> map_of gw ''call_summary'' = Some (call_summary_json (ci_call_summary ci))
     \<and> map_of tr ''tool_transcript'' = Some (JObj [
          (''hash'', JStr (if has_digest_prefix (ci_chain_tip ci) then ci_chain_tip ci else ''sha256:'' @ ci_chain_tip ci)),
          (''call_count'', JInt (int (cy_tool_calls_total (ci_call_summary ci)))),
          (''entries'', JArr (map transcript_json (ci_transcript ci)))])
     \<and> (\<exists>cnf jwk. map_of tr ''cnf'' = Some (JObj cnf) \<and> map_of cnf ''jwk'' = Some (JObj jwk)
          \<and> map_of jwk ''x'' = Some (JStr (b64url (sg_public_bytes k))))"

lemma generated_sections:
  assumes "generate_trace_claim tm k ci = Inr claim" "models_echo tm"
    and "pred_option (\<lambda>k. float_text (ki_threshold k)) (ci_kill_switch ci)"
  shows "\<exists>gw tr. claim_sections ci k claim gw tr"
proof -
  obtain tr gw sg where p: "build_trace tm k ci = Inr tr" "build_gateway ci = Inr gw" "claim = claim_dict tr gw sg"
    using assms(1) by (auto simp: generate_trace_claim_def bind_result_eq_Inr)
  obtain g where g: "gw = JObj g" "map_of g ''session_id'' = Some (JStr (ci_session_id ci))"
    "map_of g ''audit_chain'' = Some (JObj [(''root'', JStr (ci_chain_root ci)), (''tip'', JStr (ci_chain_tip ci)),
       (''length'', JInt (int (ci_chain_length ci)))])"
    "map_of g ''call_summary'' = Some (call_summary_json (ci_call_summary ci))"
    using p(2) assms(3) by (rule build_gateway_ok)
  obtain t cnf where t: "tr = JObj t" "map_of t ''cnf'' = Some cnf" "build_cnf tm k = Inr cnf"
    "map_of t ''tool_transcript'' = Some (JObj [
          (''hash'', JStr (if has_digest_prefix (ci_chain_tip ci) then ci_chain_tip ci else ''sha256:'' @ ci_chain_tip ci)),
          (''call_count'', JInt (int (cy_tool_calls_total (ci_call_summary ci)))),
          (''entries'', JArr (map transcript_json (ci_transcript ci)))])"
    using p(1) by (auto simp: build_trace_def Let_def bind_result_eq_Inr split: if_splits)
  obtain c where c: "cnf = JObj c" "map_of c ''jwk'' = Some (JObj [(''kty'', JStr ''OKP''), (''crv'', JStr ''Ed25519''),
      (''x'', JStr (b64url (sg_public_bytes k))), (''kid'', JStr (''cmcp-'' @ take 8 (public_key_hex k)))])"
    using t(3) assms(2) unfolding build_cnf_def from_model_ok models_echo_def by fastforce
  show ?thesis
    unfolding claim_sections_def using p(3) g t(1,2,4) c by (auto simp: claim_dict_def)
qed

lemma sections_shape:
  assumes "claim_sections ci k claim gw tr"
  shows "claim_shape_failure claim = None" "sub_dict claim ''gateway'' = gw" "sub_dict claim ''trace'' = tr"
proof -
  obtain cs where cs: "call_summary_json (ci_call_summary ci) = JObj cs" by (simp add: call_summary_json_def)
  show "claim_shape_failure claim = None"
    using assms cs by (auto simp: claim_sections_def claim_shape_failure_def claim_paths_def map_filter_simps)
  show "sub_dict claim ''gateway'' = gw" "sub_dict claim ''trace'' = tr"
    using assms by (simp_all add: claim_sections_def sub_dict_def)
qed

text \<open>What is asked of a close: an open session, the clock readings in range, and the third parties above.\<close>

definition close_ready :: "runtime_context \<Rightarrow> close_reading \<Rightarrow> session_manager \<Rightarrow> audit_chain \<Rightarrow> bool" where
  "close_ready ctx cr m c \<longleftrightarrow> session_log (cy_sha256 (rc_crypto ctx)) c \<and> \<not> is_closing m (ch_session_id c)
     \<and> wf_datetime (tk_now (cl_end_tick cr)) \<and> wf_datetime (tk_now (kr_tick (cl_ks cr)))
     \<and> ctx_ok ctx \<and> models_echo (rc_models ctx)"

lemma closed_session_parts:
  assumes "close_session ctx cr m (ch_session_id c) s c clog slog = (Inr claim, m', s', c')" "close_ready ctx cr m c"
  obtains ci gw tr where "claim_sections ci (rc_signing_key ctx) claim gw tr" "session_log (cy_sha256 (rc_crypto ctx)) c'"
    "ci_session_id ci = ch_session_id c'" "chain_root c' = Inr (ci_chain_root ci)" "chain_tip c' = Inr (ci_chain_tip ci)"
    "ci_chain_length ci = length (ch_entries c')"
    "ci_call_summary ci = call_summary_of (rc_catalog ctx) s (tool_calls_of (ch_entries c')) slog"
    "ch_session_id c' = ch_session_id c"
proof -
  let ?h = "cy_sha256 (rc_crypto ctx)"
  note ready = assms(2) [unfolded close_ready_def]
  from assms(1) show thesis
  proof (cases rule: close_session_cases)
    case (issued claim' e report c1 m0 m1 m2 t rt tip)
    let ?ci = "claim_input_of ctx cr (ch_session_id c) m2 report s (ch_entries c1) clog slog s' c' rt tip"
    have l1: "session_log ?h c1"
      by (rule session_log.append [OF _ _ _ issued(3)]) (use ready in \<open>simp_all add: end_args_def\<close>)
    have e1: "ch_session_id c1 = ch_session_id c" using issued(3) by (rule chain_append_cases)
    note l2 = close_kill_switch_log [OF issued(6) l1]
    have ks: "pred_option (\<lambda>k. float_text (ki_threshold k)) (ci_kill_switch ?ci)"
      using ready claim_input_kill_switch by (simp add: ctx_ok_def)
    obtain gw tr where "claim_sections ?ci (rc_signing_key ctx) claim gw tr"
      using generated_sections [OF issued(10) _ ks] issued(2) ready by auto
    then show thesis
      by (rule that) (use l2 ready e1 issued(7,8) in \<open>simp_all add: claim_input_of_def Let_def\<close>)
  qed (use ready in \<open>simp_all add: is_closing_def\<close>)
qed

lemma claim_failures_honest:
  assumes sec: "claim_sections ci k claim gw tr" and ne: "es \<noteq> []"
    and root: "ci_chain_root ci = ae_entry_hash (hd es)" and tip: "ci_chain_tip ci = ae_entry_hash (last es)"
    and len: "ci_chain_length ci = length es" and sid: "ci_session_id ci = sid"
    and sum: "ci_call_summary ci = call_summary_of cat s (tool_calls_of es) slog"
    and sig: "map_of b ''bundle_signature'' = Some (JStr (b64url sg))" "sg \<noteq> []" "sg_public_bytes k \<noteq> []"
    "cy_ed25519 cy (sg_public_bytes k) sg (cy_sha256 cy (dumps (JArr (map entry_asdict es)))) = Verified"
  shows "claim_failures cy b claim (Inr sid) (map entry_doc es) = []"
proof -
  note shape = sections_shape [OF sec]
  obtain cs where cs: "call_summary_json (ci_call_summary ci) = JObj cs" by (simp add: call_summary_json_def)
  obtain cnf jwk where cnf: "map_of tr ''cnf'' = Some (JObj cnf)" "map_of cnf ''jwk'' = Some (JObj jwk)"
    "map_of jwk ''x'' = Some (JStr (b64url (sg_public_bytes k)))"
    using sec by (auto simp: claim_sections_def)
  have calls: "cy_tool_calls_total (ci_call_summary ci) = length (tool_calls_of es)"
    by (simp add: sum call_summary_of_def Let_def split: prod.split)
  have sf: "summary_failures cs (map entry_doc (tool_calls_of es)) = []"
    by (rule summary_failures_docs [OF _ _ _ _ _ cs]) (simp_all add: sum call_summary_of_def Let_def split: prod.split)
  have subs: "sub_dict gw ''audit_chain'' = [(''root'', JStr (ci_chain_root ci)), (''tip'', JStr (ci_chain_tip ci)),
      (''length'', JInt (int (ci_chain_length ci)))]"
    "sub_dict gw ''call_summary'' = cs" "map_of gw ''session_id'' = Some (JStr sid)"
    "sub_dict (sub_dict tr ''cnf'') ''jwk'' = jwk"
    "sub_dict tr ''tool_transcript'' = [
       (''hash'', JStr (if has_digest_prefix (ci_chain_tip ci) then ci_chain_tip ci else ''sha256:'' @ ci_chain_tip ci)),
       (''call_count'', JInt (int (cy_tool_calls_total (ci_call_summary ci)))),
       (''entries'', JArr (map transcript_json (ci_transcript ci)))]"
    using sec cs cnf sid by (simp_all add: claim_sections_def sub_dict_def)
  have ss: "signature_failures cy (dget_or b ''bundle_signature'' (JStr [])) (dget_or jwk ''x'' (JStr [])) (map JObj (map entry_doc es)) = []"
    using sig cnf(3) unfolding map_map comp_def entry_asdict_doc [symmetric]
    by (simp add: signature_failures_def truthy_def)
  show ?thesis
    using ne root tip len
    by (simp only: claim_failures_def Let_def shape subs sf ss tool_calls_docs)
       (simp add: tool_name_failures_docs transcript_failures_def calls subs(3) hd_map last_map)
qed

lemma closed_export_accepted:
  assumes "close_session ctx cr m (ch_session_id c) s c clog slog = (Inr claim, m', s', c')"
    and "close_ready ctx cr m c" "key_signs ctx"
  shows "\<exists>bundle. get_audit_bundle ctx (ch_session_id c) c' = Inr bundle
    \<and> map_of bundle ''entries'' = Some (JArr (map JObj (map entry_doc (ch_entries c'))))
    \<and> verify_audit_bundle (rc_crypto ctx) (JObj bundle) (Some (JObj claim)) None
      = \<lparr>br_verified = True, br_entry_count = length (ch_entries c'), br_failures = []\<rparr>"
proof -
  let ?h = "cy_sha256 (rc_crypto ctx)"
  obtain ci gw tr where p: "claim_sections ci (rc_signing_key ctx) claim gw tr" "session_log ?h c'"
    "ci_session_id ci = ch_session_id c'" "chain_root c' = Inr (ci_chain_root ci)" "chain_tip c' = Inr (ci_chain_tip ci)"
    "ci_chain_length ci = length (ch_entries c')"
    "ci_call_summary ci = call_summary_of (rc_catalog ctx) s (tool_calls_of (ch_entries c')) slog"
    using assms(1,2) by (rule closed_session_parts)
  have ep: "ch_entries c' \<noteq> []" "check_session_epochs (map entry_doc (ch_entries c')) = Inr (ch_session_id c')"
    using session_log_epochs [OF p(2)] by (simp_all add: epochs_ok_def)
  have vc: "verify_chain ?h c'"
    using chain_reachable_inv [OF session_log_reachable [OF p(2)]] by (simp add: chain_inv_def)
  note links = verify_chain_links [OF vc ep(1)]
  define sg where "sg = sg_sign (rc_signing_key ctx) (?h (dumps (JArr (map entry_asdict (ch_entries c')))))"
  define b where "b = [(''session_id'', JStr (ch_session_id c)), (''entries'', JArr (map entry_asdict (ch_entries c'))),
    (''bundle_signature'', JStr (b64url sg))]"
  have "get_audit_bundle ctx (ch_session_id c) c' = Inr b"
    using vc by (simp add: get_audit_bundle_def b_def sg_def Let_def)
  moreover have cf: "claim_failures (rc_crypto ctx) b claim (Inr (ch_session_id c')) (map entry_doc (ch_entries c')) = []"
    by (rule claim_failures_honest [where sg = sg, OF p(1) ep(1) _ _ p(6) p(3) p(7)])
       (use p(4,5) ep(1) assms(3) in \<open>auto simp: chain_root_def chain_tip_def b_def sg_def key_signs_def split: list.splits if_splits\<close>)
  have ef: "entry_failures (rc_crypto ctx) None (map entry_doc (ch_entries c')) = []"
    using check_links_entries [OF _ ep(1)] links by (simp add: entry_failures_def ep(2) receipt_failures_def)
  have ob: "objects_from 0 (map entry_asdict (ch_entries c')) = Inr (map entry_doc (ch_entries c'))"
    unfolding objects_from_ok by (simp add: entry_asdict_doc)
  have "verify_audit_bundle (rc_crypto ctx) (JObj b) (Some (JObj claim)) None
      = \<lparr>br_verified = True, br_entry_count = length (ch_entries c'), br_failures = []\<rparr>"
    using ep ef cf ob sections_shape(1) [OF p(1)]
    by (simp add: verify_audit_bundle_def b_def bundle_result_def)
  moreover have "map_of b ''entries'' = Some (JArr (map JObj (map entry_doc (ch_entries c'))))"
    by (simp add: b_def entry_asdict_doc)
  ultimately show ?thesis by blast
qed

text \<open>C14: The verifier accepts what the gateway exports. For a session opened, appended to and possibly reset,
  the audit bundle exported after a close verifies against the claim that close issued: every entry hash, every
  link, the recorded session boundaries, the counts, the root, tip and length of the chain and the bundle signature.\<close>

theorem exported_bundle_verifies:
  assumes "close_session ctx cr m (ch_session_id c) s c clog slog = (Inr claim, m', s', c')"
    and "close_ready ctx cr m c" "key_signs ctx"
  shows "\<exists>bundle. get_audit_bundle ctx (ch_session_id c) c' = Inr bundle
    \<and> verify_audit_bundle (rc_crypto ctx) (JObj bundle) (Some (JObj claim)) None
      = \<lparr>br_verified = True, br_entry_count = length (ch_entries c'), br_failures = []\<rparr>"
  using closed_export_accepted [OF assms] by blast

text \<open>Two documents with the same fields; a nested object has no order.\<close>

definition same_doc :: "jdict \<Rightarrow> jdict \<Rightarrow> bool" where
  "same_doc d e \<longleftrightarrow> (\<forall>k. map_option norm_json (map_of d k) = map_option norm_json (map_of e k))"

lemma same_doc_entry:
  assumes "doc_ok d" "wf_entry e" "bundle_body d = canonical_body e"
    and "map_of d ''entry_hash'' = Some (JStr h)" "h = recomputed sha256 d" "ae_entry_hash e = compute_hash sha256 e"
  shows "same_doc d (entry_doc e)"
  unfolding same_doc_def
proof
  fix k
  have "bundle_body d = bundle_body (entry_doc e)" using assms(3) by simp
  note body = norm_json_obj_eq_lookup [OF body_lookup [OF assms(1) doc_ok_entry [OF assms(2)] this], of k]
  show "map_option norm_json (map_of d k) = map_option norm_json (map_of (entry_doc e) k)"
  proof (cases "k = ''entry_hash''")
    case True
    with assms(3-6) show ?thesis by (simp add: recomputed_def compute_hash_def)
  next
    case False
    with body assms(1) doc_ok_entry [OF assms(2)] show ?thesis
      by (simp add: map_of_filter_key doc_ok_def distinct_map_filter)
  qed
qed


subsection \<open>A concrete export\<close>

definition export_key :: signing_key where
  "export_key = \<lparr>sg_public_bytes = ''key'', sg_sign = (\<lambda>m. CHR ''s'' # m)\<rparr>"

definition export_ctx :: runtime_context where
  "export_ctx = sample_ctx\<lparr>rc_signing_key := export_key, rc_crypto := sample_crypto
     \<lparr>cy_ed25519 := (\<lambda>k sg m. if sg = CHR ''s'' # m then Verified else Bad_signature)\<rparr>\<rparr>"

lemma export_sha256 [simp]: "cy_sha256 (rc_crypto export_ctx) = pad32"
  by (simp add: export_ctx_def sample_crypto_def)

lemma export_signs: "key_signs export_ctx"
  by (simp add: key_signs_def export_ctx_def export_key_def)

lemma export_models: "models_echo (rc_models export_ctx)"
  by (auto simp: models_echo_def export_ctx_def sample_ctx_def sample_models_def Let_def split: if_splits)

lemma export_claims_possible: "claims_possible export_ctx (hw_report n)"
  using sample_claims_possible [of n]
  by (simp add: claims_possible_def export_ctx_def sample_ctx_def sample_models_def policy_info_of_def build_policy_signing_def
      store_revoked_key_ids_def revoked_key_ids_def sample_store_def)

lemma wf_end_entry [simp]: "wf_entry (new_entry h sid es u now (end_args s))"
  by (simp add: wf_entry_def end_args_def new_entry_def entry_defaults_def entry_args.defs Let_def)

lemma wf_trip_entry [simp]: "wf_entry (new_entry h sid es u now (trip_args ctx a []))"
  by (simp add: wf_entry_def trip_args_def new_entry_def entry_defaults_def entry_args.defs Let_def)

lemma close_wf:
  assumes "close_session ctx cr m sid s c clog slog = (Inr claim, m', s', c')" "\<not> is_closing m sid" "list_all wf_entry (ch_entries c)"
  shows "list_all wf_entry (ch_entries c')"
  using assms(1)
proof (cases rule: close_session_cases)
  case (issued claim' e report c1 m0 m1 m2 t rt tip)
  have "list_all wf_entry (ch_entries c1)"
    using issued(3) assms(3) by (auto elim!: chain_append_cases)
  with issued(6) show ?thesis
    by (elim close_kill_switch_cases count_and_trip_cases) (auto elim!: chain_append_cases)
qed (use assms(2) in \<open>simp_all add: is_closing_def\<close>)

lemma export_closed:
  obtains c claim m' s' c' where "close_ready export_ctx sample_close sample_manager c"
    "close_session export_ctx sample_close sample_manager (ch_session_id c) s c None None = (Inr claim, m', s', c')"
    "list_all wf_entry (ch_entries c')"
proof -
  obtain c0 where c0: "new_chain pad32 (sample_tick ''u0'') ''s'' None [] = Inr c0" using new_chain_total by blast
  define c where "c = set_session_report c0 (hw_report [])"
  have log: "session_log pad32 c"
    unfolding c_def by (intro session_log.report session_log.start [OF c0]) (simp_all add: sample_tick_def)
  have sid: "ch_session_id c = ''s''" "ch_store c = None" "list_all wf_entry (ch_entries c)"
    using c0 new_chain_wf [OF c0] by (auto simp: c_def set_session_report_def new_chain_def bind_result_eq_Inr list_all_iff elim!: chain_append_cases)
  have ready: "close_ready export_ctx sample_close sample_manager c"
    using log export_models sample_ctx_ok
    by (simp add: close_ready_def sid is_closing_def sample_manager_def new_session_manager_def sample_close_def
        sample_tick_def ctx_ok_def export_ctx_def sample_crypto_def)
  obtain claim m' s' c' where cl: "close_session export_ctx sample_close sample_manager ''s'' s c None None = (Inr claim, m', s', c')"
  proof -
    have "\<exists>claim m' s' c'. close_session export_ctx sample_close sample_manager ''s'' s c None None = (Inr claim, m', s', c')"
    proof (rule close_issues)
      show "chain_inv (cy_sha256 (rc_crypto export_ctx)) c"
        using chain_reachable_inv [OF session_log_reachable [OF log]] by simp
      show "''s'' \<notin> sm_closing_sessions sample_manager" by (simp add: sample_manager_def new_session_manager_def)
      show "report_in_force export_ctx c = Some (hw_report [])" by (simp add: report_in_force_def c_def set_session_report_def)
    qed (simp_all add: sid(2) fresh_id_def export_claims_possible sample_min_calls sample_close_def sample_tick_def)
    then show thesis using that by blast
  qed
  have "list_all wf_entry (ch_entries c')"
    by (rule close_wf [OF cl _ sid(3)]) (simp add: is_closing_def sample_manager_def new_session_manager_def)
  with ready cl sid that [of c claim m' s' c'] show thesis by simp
qed

theorem exported_bundle_verifies_witness:
  "\<exists>c s claim m' s' c' bundle.
     close_session export_ctx sample_close sample_manager (ch_session_id c) s c None None = (Inr claim, m', s', c')
     \<and> get_audit_bundle export_ctx (ch_session_id c) c' = Inr bundle
     \<and> br_verified (verify_audit_bundle (rc_crypto export_ctx) (JObj bundle) (Some (JObj claim)) None)"
proof -
  obtain c s claim m' s' c' where c: "close_ready export_ctx sample_close sample_manager c"
    "close_session export_ctx sample_close sample_manager (ch_session_id c) s c None None = (Inr claim, m', s', c')"
    by (rule export_closed) blast
  show ?thesis using exported_bundle_verifies [OF c(2,1) export_signs] c(2) by force
qed


end
