(* ===== verification/Verify_Platform.thy ===== *)
theory Verify_Platform
  imports Verify_Base
begin

text \<open>
  The platform verifiers (\<open>sev_snp.py\<close>, \<open>tdx.py\<close>, \<open>tpm.py\<close>, \<open>azure_cvm.py\<close>,
  \<open>platform_policy.py\<close> of \<open>cmcp_verify\<close>). The parsers and chain checks of
  \<open>agent_manifest\<close> and the primitives of \<open>cryptography\<close> are the fields of one
  record; where such a call can raise, its result is an option. The texts of
  \<open>details\<close> are diagnostics no decision reads, and are left out.
\<close>

subsection \<open>What the third-party code gives\<close>

type_synonym cert = bytes

record snp_report =
  sr_version :: int
  sr_measurement :: bytes
  sr_report_data :: bytes
  sr_signature_algo :: int
  sr_platform_info :: nat

record tpm_quote =
  tq_qualifying_data :: bytes
  tq_pcr_digest :: bytes

record tpmt_signature =
  ts_sig_alg :: nat
  ts_hash_alg :: nat
  ts_signature :: bytes

record tdx_signature =
  td_signed_body :: bytes
  td_quote_signature :: bytes
  td_attestation_key :: bytes
  td_qe_report :: bytes
  td_qe_report_signature :: bytes
  td_qe_auth_data :: bytes
  td_pck_chain_pem :: bytes

datatype key_kind = RSA_key | EC_key | Other_key
datatype sig_scheme = PKCS1v15 | PSS | ECDSA

record platform_env =
  pe_sha256 :: "bytes \<Rightarrow> bytes"
  pe_sha384 :: "bytes \<Rightarrow> bytes"
  pe_loads :: "bytes \<Rightarrow> json option"
  pe_parse_snp_report :: "bytes \<Rightarrow> snp_report option"
  pe_verify_snp_signature :: "snp_report \<Rightarrow> cert \<Rightarrow> bool option"
  pe_ec_curve :: "cert \<Rightarrow> string option"
  pe_load_snp_cert_chain :: "bytes \<Rightarrow> (cert \<times> cert \<times> cert) option"
  pe_load_certs :: "bytes \<Rightarrow> cert list option"
  pe_verify_cert_chain :: "cert list \<Rightarrow> cert list \<Rightarrow> bool"
  pe_appraise :: "nat \<Rightarrow> string list \<Rightarrow> string list \<Rightarrow> bool \<Rightarrow> bool"
  pe_parse_tpm_quote :: "bytes \<Rightarrow> tpm_quote option"
  pe_parse_tpmt_signature :: "bytes \<Rightarrow> tpmt_signature option"
  pe_load_public_key :: "bytes \<Rightarrow> (key_kind \<times> bytes) option"
  pe_key_verify :: "bytes \<Rightarrow> sig_scheme \<Rightarrow> nat \<Rightarrow> bytes \<Rightarrow> bytes \<Rightarrow> bool"
  pe_leaf_public_key_pem :: "cert \<Rightarrow> bytes option"
  pe_has_eku :: "cert \<Rightarrow> string \<Rightarrow> bool"
  pe_basic_ca :: "cert \<Rightarrow> bool option option"
  pe_parse_tdx_quote_signature :: "bytes \<Rightarrow> tdx_signature option"
  pe_p256_point :: "bytes \<Rightarrow> bool"
  pe_p256_verify :: "bytes \<Rightarrow> nat \<Rightarrow> nat \<Rightarrow> bytes \<Rightarrow> bool"
  pe_cert_p256_verify :: "cert \<Rightarrow> nat \<Rightarrow> nat \<Rightarrow> bytes \<Rightarrow> bool"
  pe_load_cert :: "bytes \<Rightarrow> cert option"
  pe_dcap_reachable :: bool
  pe_rsa_of :: "nat \<Rightarrow> nat \<Rightarrow> bytes option"
  pe_verify_tpm_quote :: "bytes \<Rightarrow> tpmt_signature \<Rightarrow> bytes \<Rightarrow> bytes \<Rightarrow> bytes option \<Rightarrow> bytes option \<Rightarrow> bool option"

text \<open>The result shape every platform verifier has.\<close>

record platform_result =
  pr_verified :: bool
  pr_verified_fields :: "string list"
  pr_unverified_fields :: "string list"
  pr_failure_reason :: "string option"

definition pr_start :: platform_result where
  "pr_start = \<lparr>pr_verified = True, pr_verified_fields = [], pr_unverified_fields = [], pr_failure_reason = None\<rparr>"

definition pr_fail :: "string \<Rightarrow> string list \<Rightarrow> platform_result \<Rightarrow> platform_result" where
  "pr_fail reason fs r = r\<lparr>pr_verified := False, pr_failure_reason := Some reason,
     pr_unverified_fields := pr_unverified_fields r @ fs\<rparr>"

definition pr_credit :: "string list \<Rightarrow> platform_result \<Rightarrow> platform_result" where
  "pr_credit fs r = r\<lparr>pr_verified_fields := pr_verified_fields r @ fs\<rparr>"

definition pr_debit :: "string list \<Rightarrow> platform_result \<Rightarrow> platform_result" where
  "pr_debit fs r = r\<lparr>pr_unverified_fields := pr_unverified_fields r @ fs\<rparr>"

text \<open>\<open>s.ljust(64, b"\x00")\<close> on bytes, and the 64 bytes a hex report_data denotes.\<close>

definition pad64 :: "bytes \<Rightarrow> bytes" where
  "pad64 b = b @ replicate (64 - length b) (CHR 0x00)"

definition slice :: "nat \<Rightarrow> nat \<Rightarrow> bytes \<Rightarrow> bytes" where
  "slice off n b = take n (drop off b)"

fun be_nat :: "bytes \<Rightarrow> nat" where
  "be_nat b = foldl (\<lambda>a c. a * 256 + of_char c) 0 b"

fun le_nat :: "bytes \<Rightarrow> nat" where
  "le_nat [] = 0"
| "le_nat (c # b) = of_char c + 256 * le_nat b"

subsection \<open>SNP platform policy\<close>

record snp_platform_policy =
  sp_require :: "string list"
  sp_forbid :: "string list"
  sp_reject_unrecognized_bits :: bool

text \<open>\<open>__post_init__\<close>; \<open>known\<close> are the names of \<open>PLATFORM_INFO_BITS\<close>.\<close>

definition new_snp_platform_policy :: "string list \<Rightarrow> snp_platform_policy \<Rightarrow> snp_platform_policy option" where
  "new_snp_platform_policy known p =
     (if \<not> set (sp_require p) \<union> set (sp_forbid p) \<subseteq> set known then None
      else if set (sp_require p) \<inter> set (sp_forbid p) \<noteq> {} then None
      else Some p)"

definition policy_appraise :: "platform_env \<Rightarrow> snp_platform_policy \<Rightarrow> nat \<Rightarrow> bool" where
  "policy_appraise pe p info = pe_appraise pe info (sp_require p) (sp_forbid p) (sp_reject_unrecognized_bits p)"

subsection \<open>AMD SEV-SNP\<close>

definition SNP_REPORT_LEN :: nat where "SNP_REPORT_LEN = 1184"
definition SNP_SIG_OFFSET :: nat where "SNP_SIG_OFFSET = 672"
definition SNP_SIG_COMPONENT_LEN :: nat where "SNP_SIG_COMPONENT_LEN = 72"
definition SIG_ALGO_ECDSA_P384_SHA384 :: int where "SIG_ALGO_ECDSA_P384_SHA384 = 1"

definition verify_snp_report_signature :: "platform_env \<Rightarrow> bytes \<Rightarrow> cert \<Rightarrow> bool" where
  "verify_snp_report_signature pe raw_report vcek_cert =
     (if length raw_report < SNP_SIG_OFFSET + 2 * SNP_SIG_COMPONENT_LEN then False
      else case pe_parse_snp_report pe raw_report of
        None \<Rightarrow> False
      | Some report \<Rightarrow>
          if sr_signature_algo report \<noteq> SIG_ALGO_ECDSA_P384_SHA384 then False
          else if pe_ec_curve pe vcek_cert \<noteq> Some ''secp384r1'' then False
          else (case pe_verify_snp_signature pe report vcek_cert of None \<Rightarrow> False | Some ok \<Rightarrow> ok))"

definition verify_vcek_chain :: "platform_env \<Rightarrow> cert \<Rightarrow> cert \<Rightarrow> cert \<Rightarrow> cert \<Rightarrow> bool" where
  "verify_vcek_chain pe vcek ask ark trusted_ark = pe_verify_cert_chain pe [vcek, ask, ark] [trusted_ark]"

text \<open>The tail both SNP verifiers share: the chain and the signature, then the platform policy.\<close>

definition snp_platform_state :: "platform_env \<Rightarrow> snp_platform_policy option \<Rightarrow> snp_report \<Rightarrow> platform_result \<Rightarrow> platform_result" where
  "snp_platform_state pe platform_policy report r =
     (case platform_policy of
        None \<Rightarrow> r
      | Some p \<Rightarrow>
          if policy_appraise pe p (sr_platform_info report) then pr_credit [''platform_state''] r
          else pr_fail ''platform_policy_failed'' [''platform_state''] r)"

definition snp_chain_steps ::
  "platform_env \<Rightarrow> bytes \<Rightarrow> snp_report \<Rightarrow> bytes option \<Rightarrow> bytes option \<Rightarrow> snp_platform_policy option \<Rightarrow> platform_result
     \<Rightarrow> platform_result" where
  "snp_chain_steps pe raw report cert_chain_pem trusted_ark_pem platform_policy r =
     (case (cert_chain_pem, trusted_ark_pem) of
        (Some chain_pem, Some ark_pem) \<Rightarrow>
          (case (pe_load_snp_cert_chain pe chain_pem, pe_load_certs pe ark_pem) of
             (Some (vcek, ask, ark), Some (trusted_ark # _)) \<Rightarrow>
               if \<not> verify_vcek_chain pe vcek ask ark trusted_ark then pr_fail ''vcek_chain_invalid'' [''vcek_cert_chain''] r
               else if \<not> verify_snp_report_signature pe raw vcek then pr_fail ''report_signature_invalid'' [''report_signature''] r
               else snp_platform_state pe platform_policy report (pr_credit [''vcek_cert_chain'', ''report_signature''] r)
           | _ \<Rightarrow> pr_fail ''cert_chain_malformed'' [''vcek_cert_chain''] r)
      | _ \<Rightarrow>
          (case platform_policy of
             None \<Rightarrow> pr_debit [''vcek_cert_chain''] r
           | Some _ \<Rightarrow> pr_fail ''platform_policy_requires_authenticated_evidence'' [''platform_state'']
                        (pr_debit [''vcek_cert_chain''] r)))"

definition sha384_text :: "platform_env \<Rightarrow> bytes \<Rightarrow> string" where
  "sha384_text pe m = ''sha384:'' @ hexlify (pe_sha384 pe m)"

text \<open>A report_data text that is not hex raises inside the \<open>try\<close>.\<close>

definition verify_sev_snp_measurement ::
  "platform_env \<Rightarrow> string \<Rightarrow> bytes option \<Rightarrow> string option \<Rightarrow> bytes option \<Rightarrow> bytes option \<Rightarrow> snp_platform_policy option
     \<Rightarrow> platform_result" where
  "verify_sev_snp_measurement pe measured evidence report_data_hex cert_chain_pem trusted_ark_pem platform_policy =
     (let r = pr_start; parse_error = pr_fail ''raw_evidence_parse_error'' [''vcek_cert_chain''] r in
      if \<not> starts_with ''sha384:'' measured \<or> length (drop 7 measured) \<noteq> 96
      then pr_fail ''invalid_measurement_format'' [''vcek_cert_chain''] r
      else case evidence of
        None \<Rightarrow> pr_fail ''no_raw_evidence'' [''measurement'', ''vcek_cert_chain''] r
      | Some raw \<Rightarrow>
          if length raw < SNP_REPORT_LEN then parse_error
          else case pe_parse_snp_report pe raw of
            None \<Rightarrow> parse_error
          | Some report \<Rightarrow>
              if sr_version report < 2 then pr_fail ''invalid_snp_report_version'' [''vcek_cert_chain''] r
              else if sha384_text pe (sr_measurement report) \<noteq> measured
              then pr_fail ''measurement_mismatch'' [''vcek_cert_chain''] r
              else let r1 = pr_credit [''measurement''] r in
                case report_data_hex of
                  None \<Rightarrow> snp_chain_steps pe raw report cert_chain_pem trusted_ark_pem platform_policy r1
                | Some hex \<Rightarrow>
                    (case fromhex (take 128 hex) of
                       None \<Rightarrow> pr_fail ''raw_evidence_parse_error'' [''vcek_cert_chain''] r1
                     | Some expected_rd \<Rightarrow>
                         if sr_report_data report \<noteq> pad64 expected_rd
                         then pr_fail ''report_data_mismatch'' [''vcek_cert_chain''] r1
                         else snp_chain_steps pe raw report cert_chain_pem trusted_ark_pem platform_policy
                                (pr_credit [''report_data''] r1)))"

subsection \<open>Intel TDX\<close>

definition TDREPORT_SIZE :: nat where "TDREPORT_SIZE = 1024"
definition REPORT_DATA_OFFSET :: nat where "REPORT_DATA_OFFSET = 0x80"
definition REPORT_DATA_SIZE :: nat where "REPORT_DATA_SIZE = 64"
definition MRTD_OFFSET :: nat where "MRTD_OFFSET = 0x210"
definition MRTD_SIZE :: nat where "MRTD_SIZE = 48"

text \<open>The fields of the \<open>TdReport\<close> structure, by the offsets its layout gives.\<close>

definition td_report_data :: "bytes \<Rightarrow> bytes" where
  "td_report_data report = slice REPORT_DATA_OFFSET REPORT_DATA_SIZE report"

definition td_mrtd :: "bytes \<Rightarrow> bytes" where
  "td_mrtd report = slice MRTD_OFFSET MRTD_SIZE report"

definition SIGNED_REGION_LEN :: nat where "SIGNED_REGION_LEN = 632"

record parsed_quote =
  pq_report_data :: bytes
  pq_sig :: tdx_signature

datatype quote_error = Quote_too_short | Unsupported_key_type nat | Quote_malformed

definition parse_td_quote :: "platform_env \<Rightarrow> bytes \<Rightarrow> quote_error + parsed_quote" where
  "parse_td_quote pe quote =
     (if length quote < SIGNED_REGION_LEN + 4 then Inl Quote_too_short
      else let att_key_type = le_nat (slice 2 2 quote) in
        if att_key_type \<noteq> 2 then Inl (Unsupported_key_type att_key_type)
        else case pe_parse_tdx_quote_signature pe quote of
          None \<Rightarrow> Inl Quote_malformed
        | Some sig \<Rightarrow>
            Inr \<lparr>pq_report_data = slice 520 64 (take (SIGNED_REGION_LEN - 48) (drop 48 quote)), pq_sig = sig\<rparr>)"

text \<open>\<open>_verify_p256\<close>, over the key's check of a signature \<open>(r, s)\<close>: a signature of another length raises
  inside the \<open>try\<close>.\<close>

definition verify_p256 :: "(nat \<Rightarrow> nat \<Rightarrow> bytes \<Rightarrow> bool) \<Rightarrow> bytes \<Rightarrow> bytes \<Rightarrow> bool" where
  "verify_p256 key_verify sig64 data \<longleftrightarrow>
     length sig64 = 64 \<and> key_verify (be_nat (take 32 sig64)) (be_nat (drop 32 sig64)) data"

definition tdx_fail :: "string \<Rightarrow> platform_result" where
  "tdx_fail reason = pr_fail reason [''dcap_quote_signature'', ''tcb_status''] pr_start"

text \<open>The quote's own signature chain: the attestation key over the quote, the QE report over that key, the
  PCK leaf over the QE report, and the PCK chain to the pinned root. \<open>Some reason\<close> is the first check that
  fails.\<close>

definition tdx_quote_failure :: "platform_env \<Rightarrow> tdx_signature \<Rightarrow> bytes \<Rightarrow> string option" where
  "tdx_quote_failure pe sig trusted_intel_root_pem =
     (if length (td_attestation_key sig) \<noteq> 64 \<or> \<not> pe_p256_point pe (td_attestation_key sig)
      then Some ''attestation_key_invalid''
      else if \<not> verify_p256 (pe_p256_verify pe (td_attestation_key sig)) (td_quote_signature sig) (td_signed_body sig)
      then Some ''quote_signature_invalid''
      else if take 32 (slice 320 64 (td_qe_report sig)) \<noteq> pe_sha256 pe (td_attestation_key sig @ td_qe_auth_data sig)
      then Some ''attestation_key_not_bound_to_qe''
      else case pe_load_certs pe (td_pck_chain_pem sig) of
        None \<Rightarrow> Some ''pck_chain_parse_error''
      | Some [] \<Rightarrow> Some ''pck_chain_empty''
      | Some (leaf # certs) \<Rightarrow>
          if pe_ec_curve pe leaf = None
             \<or> \<not> verify_p256 (pe_cert_p256_verify pe leaf) (td_qe_report_signature sig) (td_qe_report sig)
          then Some ''qe_report_signature_invalid''
          else case pe_load_cert pe trusted_intel_root_pem of
            None \<Rightarrow> Some ''intel_root_parse_error''
          | Some ca \<Rightarrow>
              if \<not> pe_verify_cert_chain pe (leaf # certs @ [ca]) [ca] then Some ''pck_chain_invalid'' else None)"

text \<open>An expected report_data that is not hex raises.\<close>

definition verify_tdx_quote :: "platform_env \<Rightarrow> bytes \<Rightarrow> bytes \<Rightarrow> string option \<Rightarrow> py_exc + platform_result" where
  "verify_tdx_quote pe quote trusted_intel_root_pem expected_report_data_hex =
     (case parse_td_quote pe quote of
        Inl _ \<Rightarrow> Inr (tdx_fail ''quote_parse_error'')
      | Inr pq \<Rightarrow>
          (case tdx_quote_failure pe (pq_sig pq) trusted_intel_root_pem of
             Some reason \<Rightarrow> Inr (tdx_fail reason)
           | None \<Rightarrow>
               let r = pr_credit [''dcap_quote_signature'', ''pck_chain''] pr_start in
               (case expected_report_data_hex of
                  None \<Rightarrow> Inr (pr_debit [''tcb_status''] r)
                | Some hex \<Rightarrow>
                    (case fromhex (take 128 hex) of
                       None \<Rightarrow> Inl Py_value
                     | Some e \<Rightarrow>
                         Inr (if pq_report_data pq = pad64 e then pr_debit [''tcb_status''] (pr_credit [''report_data''] r)
                              else pr_fail ''report_data_mismatch'' [] r)))))"

definition tdx_quote_steps ::
  "platform_env \<Rightarrow> string option \<Rightarrow> bytes option \<Rightarrow> bytes option \<Rightarrow> platform_result \<Rightarrow> py_exc + platform_result" where
  "tdx_quote_steps pe report_data_hex raw_quote trusted_intel_root_pem r =
     (case (raw_quote, trusted_intel_root_pem) of
        (Some quote, Some ca) \<Rightarrow>
          bind_result (verify_tdx_quote pe quote ca report_data_hex) (\<lambda>q.
            let r1 = pr_debit (pr_unverified_fields q) (pr_credit (pr_verified_fields q) r) in
            Inr (if pr_verified q then r1 else r1\<lparr>pr_verified := False, pr_failure_reason := pr_failure_reason q\<rparr>))
      | _ \<Rightarrow> Inr (if pe_dcap_reachable pe then pr_debit [''dcap_quote_signature''] r
                  else pr_debit [''dcap_quote_signature'', ''tcb_status''] r))"

definition verify_tdx_measurement ::
  "platform_env \<Rightarrow> string \<Rightarrow> bytes option \<Rightarrow> string option \<Rightarrow> bytes option \<Rightarrow> bytes option \<Rightarrow> py_exc + platform_result" where
  "verify_tdx_measurement pe measured evidence report_data_hex raw_quote trusted_intel_root_pem =
     (let r = pr_start; dcap = [''dcap_quote_signature'', ''tcb_status''] in
      if \<not> starts_with ''sha384:'' measured \<or> length (drop 7 measured) \<noteq> 96
      then Inr (pr_fail ''invalid_measurement_format'' dcap r)
      else case evidence of
        None \<Rightarrow> Inr (pr_fail ''no_raw_evidence'' (''measurement'' # dcap) r)
      | Some raw \<Rightarrow>
          if length raw < TDREPORT_SIZE then Inr (pr_fail ''raw_evidence_parse_error'' dcap r)
          else if sha384_text pe (td_mrtd raw) \<noteq> measured then Inr (pr_fail ''measurement_mismatch'' dcap r)
          else let r1 = pr_credit [''measurement''] r in
            case report_data_hex of
              None \<Rightarrow> tdx_quote_steps pe None raw_quote trusted_intel_root_pem r1
            | Some hex \<Rightarrow>
                (case fromhex (take (2 * REPORT_DATA_SIZE) hex) of
                   None \<Rightarrow> Inr (pr_fail ''raw_evidence_parse_error'' dcap r1)
                 | Some expected_rd \<Rightarrow>
                     if td_report_data raw \<noteq> pad64 expected_rd then Inr (pr_fail ''report_data_mismatch'' dcap r1)
                     else tdx_quote_steps pe (Some hex) raw_quote trusted_intel_root_pem (pr_credit [''report_data''] r1)))"

subsection \<open>TPM 2.0\<close>

definition valid_measurement :: "string \<Rightarrow> bool" where
  "valid_measurement m \<longleftrightarrow> starts_with ''sha256:'' m \<and> length (drop 7 m) = 64 \<and> fromhex (drop 7 m) \<noteq> None"

record attest_check =
  ac_pcr_digest_verified :: bool
  ac_qualifying_data_verified :: bool

definition parse_tpm2b_attest :: "platform_env \<Rightarrow> bytes \<Rightarrow> bytes option \<Rightarrow> bytes \<Rightarrow> attest_check option" where
  "parse_tpm2b_attest pe data expected_qualifying_data expected_pcr_digest =
     (case pe_parse_tpm_quote pe data of
        None \<Rightarrow> None
      | Some q \<Rightarrow>
          Some \<lparr>ac_pcr_digest_verified = (tq_pcr_digest q = expected_pcr_digest),
            ac_qualifying_data_verified = (expected_qualifying_data = Some (tq_qualifying_data q))\<rparr>)"

definition verify_tpm_measurement :: "platform_env \<Rightarrow> string \<Rightarrow> bytes option \<Rightarrow> bytes option \<Rightarrow> platform_result" where
  "verify_tpm_measurement pe measured evidence expected_qualifying_data =
     (if \<not> valid_measurement measured then pr_fail ''invalid_measurement_format'' [''ek_cert_chain''] pr_start
      else let r = pr_credit [''measurement_format''] pr_start in
        case evidence of
          None \<Rightarrow> pr_fail ''no_raw_evidence'' [''pcr_digest'', ''qualifying_data'', ''ek_cert_chain''] r
        | Some raw \<Rightarrow>
            let r1 = (case parse_tpm2b_attest pe raw expected_qualifying_data (the (fromhex (drop 7 measured))) of
                None \<Rightarrow> pr_debit [''pcr_format'', ''qualifying_data''] r
              | Some ac \<Rightarrow>
                  (if ac_qualifying_data_verified ac then pr_credit [''qualifying_data''] else pr_debit [''qualifying_data''])
                  ((if ac_pcr_digest_verified ac then pr_credit [''pcr_digest''] else pr_debit [''pcr_digest''])
                   (pr_credit [''pcr_format''] r)));
                r2 = pr_debit [''ek_cert_chain''] r1;
                ok = list_all (\<lambda>f. f \<in> set (pr_verified_fields r2))
                       [''measurement_format'', ''pcr_format'', ''qualifying_data'', ''pcr_digest''] in
            if ok then r2 else r2\<lparr>pr_verified := False, pr_failure_reason := Some ''tpm_evidence_check_failed''\<rparr>)"

definition ALG_RSASSA :: nat where "ALG_RSASSA = 0x14"
definition ALG_RSAPSS :: nat where "ALG_RSAPSS = 0x16"
definition HASH_ALGS :: "nat list" where "HASH_ALGS = [0x04, 0x0B, 0x0C, 0x0D]"

definition verify_quote_signature :: "platform_env \<Rightarrow> bytes \<Rightarrow> bytes \<Rightarrow> bytes \<Rightarrow> bool" where
  "verify_quote_signature pe attest signature_blob ak_public_pem =
     (case pe_parse_tpmt_signature pe signature_blob of
        None \<Rightarrow> False
      | Some sig \<Rightarrow>
          if ts_hash_alg sig \<notin> set HASH_ALGS then False
          else (case pe_load_public_key pe ak_public_pem of
             None \<Rightarrow> False
           | Some (kind, key) \<Rightarrow>
               if ts_sig_alg sig = ALG_RSASSA then
                 kind = RSA_key \<and> pe_key_verify pe key PKCS1v15 (ts_hash_alg sig) (ts_signature sig) attest
               else if ts_sig_alg sig = ALG_RSAPSS then
                 kind = RSA_key \<and> pe_key_verify pe key PSS (ts_hash_alg sig) (ts_signature sig) attest
               else kind = EC_key \<and> pe_key_verify pe key ECDSA (ts_hash_alg sig) (ts_signature sig) attest))"

definition TCG_EK_CERTIFICATE :: string where "TCG_EK_CERTIFICATE = ''2.23.133.8.1''"

text \<open>No basicConstraints extension: not a CA. An unreadable one: a CA.\<close>

definition is_ca :: "platform_env \<Rightarrow> cert \<Rightarrow> bool" where
  "is_ca pe c = (case pe_basic_ca pe c of None \<Rightarrow> True | Some None \<Rightarrow> False | Some (Some b) \<Rightarrow> b)"

definition is_endorsement_key_cert :: "platform_env \<Rightarrow> cert \<Rightarrow> bool" where
  "is_endorsement_key_cert pe c \<longleftrightarrow> pe_has_eku pe c TCG_EK_CERTIFICATE \<and> \<not> is_ca pe c"

text \<open>The established links, or nothing when a check fails.\<close>

definition verify_ak_ek_chain :: "platform_env \<Rightarrow> bytes \<Rightarrow> bytes \<Rightarrow> bytes option \<Rightarrow> string list option" where
  "verify_ak_ek_chain pe ak_chain_pem trusted_ca_pem ek_chain_pem =
     (case (pe_load_certs pe ak_chain_pem, pe_load_certs pe trusted_ca_pem) of
        (Some (ak # chain), Some (ca # roots)) \<Rightarrow>
          if \<not> pe_verify_cert_chain pe (ak # chain) (ca # roots) then None
          else (case ek_chain_pem of
             None \<Rightarrow> Some [''ak_cert_chain'']
           | Some ek_pem \<Rightarrow>
               (case pe_load_certs pe ek_pem of
                  Some (ek # ek_chain) \<Rightarrow>
                    if is_endorsement_key_cert pe ek \<and> pe_verify_cert_chain pe (ek # ek_chain) (ca # roots)
                    then Some [''ak_cert_chain'', ''ek_cert_chain''] else None
                | _ \<Rightarrow> None))
      | _ \<Rightarrow> None)"

definition leaf_public_key_pem :: "platform_env \<Rightarrow> bytes \<Rightarrow> bytes" where
  "leaf_public_key_pem pe chain_pem =
     (case pe_load_certs pe chain_pem of
        Some (leaf # _) \<Rightarrow> (case pe_leaf_public_key_pem pe leaf of Some pem \<Rightarrow> pem | None \<Rightarrow> [])
      | _ \<Rightarrow> [])"

definition verify_tpm_quote_chained ::
  "platform_env \<Rightarrow> bytes \<Rightarrow> bytes \<Rightarrow> bytes \<Rightarrow> bytes \<Rightarrow> bytes option \<Rightarrow> bytes option \<Rightarrow> bool" where
  "verify_tpm_quote_chained pe attest signature_blob ak_chain_pem trusted_roots_pem expected_qualifying_data expected_pcr_digest =
     (case pe_parse_tpmt_signature pe signature_blob of
        None \<Rightarrow> False
      | Some parsed \<Rightarrow>
          (case pe_verify_tpm_quote pe attest parsed ak_chain_pem trusted_roots_pem expected_qualifying_data expected_pcr_digest of
             None \<Rightarrow> False | Some ok \<Rightarrow> ok))"

subsection \<open>Azure confidential VM\<close>

definition TPM_GENERATED_VALUE :: nat where "TPM_GENERATED_VALUE = 0xFF544347"

text \<open>\<open>struct.unpack_from\<close> of a big-endian unsigned value, which raises past the end.\<close>

definition unpack_be :: "nat \<Rightarrow> bytes \<Rightarrow> nat \<Rightarrow> nat option" where
  "unpack_be n b off = (if length b < off + n then None else Some (be_nat (slice off n b)))"

definition attest_body :: "bytes \<Rightarrow> bytes option" where
  "attest_body quote_msg =
     (case unpack_be 4 quote_msg 0 of
        None \<Rightarrow> None
      | Some magic \<Rightarrow>
          if magic = TPM_GENERATED_VALUE then Some quote_msg
          else if unpack_be 4 quote_msg 2 = Some TPM_GENERATED_VALUE
          then map_option (\<lambda>size. slice 2 size quote_msg) (unpack_be 2 quote_msg 0)
          else None)"

definition extract_extra_data :: "bytes \<Rightarrow> bytes option" where
  "extract_extra_data quote_msg =
     Option.bind (attest_body quote_msg) (\<lambda>attest.
     Option.bind (unpack_be 2 attest 6) (\<lambda>qs_size.
     Option.bind (unpack_be 2 attest (8 + qs_size)) (\<lambda>ed_size.
       Some (slice (10 + qs_size) ed_size attest))))"

definition AZURE_HASH_ALGS :: "nat list" where "AZURE_HASH_ALGS = [0x04, 0x0B, 0x0C]"

text \<open>A signature structure too short for its three header fields raises; the digest is looked up before the
  size is read.\<close>

definition azure_quote_signature :: "platform_env \<Rightarrow> bytes \<Rightarrow> bytes \<Rightarrow> bytes \<Rightarrow> py_exc + bool" where
  "azure_quote_signature pe quote_msg quote_sig ak =
     (case (unpack_be 2 quote_sig 0, unpack_be 2 quote_sig 2) of
        (Some sig_alg, Some hash_alg) \<Rightarrow>
          if hash_alg \<notin> set AZURE_HASH_ALGS then Inr False
          else (case unpack_be 2 quote_sig 4 of
             None \<Rightarrow> Inl Py_struct
           | Some sig_size \<Rightarrow>
               let signature = slice 6 sig_size quote_sig in
               Inr (if sig_alg = ALG_RSASSA then pe_key_verify pe ak PKCS1v15 hash_alg signature quote_msg
                    else if sig_alg = ALG_RSAPSS then pe_key_verify pe ak PSS hash_alg signature quote_msg
                    else False))
      | _ \<Rightarrow> Inl Py_struct)"

definition b64u_nat :: "json \<Rightarrow> nat option" where
  "b64u_nat v = (case v of JStr s \<Rightarrow> map_option be_nat (b64url_decode s) | _ \<Rightarrow> None)"

text \<open>The first key named \<open>HCLAkPub\<close>; an item before it that is no object raises.\<close>

fun find_hcl_key :: "json list \<Rightarrow> jdict option" where
  "find_hcl_key [] = None"
| "find_hcl_key (k # ks) =
     (case k of JObj d \<Rightarrow> if dget d ''kid'' = JStr ''HCLAkPub'' then Some d else find_hcl_key ks | _ \<Rightarrow> None)"

definition ak_from_runtime_data :: "platform_env \<Rightarrow> bytes \<Rightarrow> bytes option" where
  "ak_from_runtime_data pe runtime_data =
     (case pe_loads pe runtime_data of
        Some (JObj d) \<Rightarrow>
          (case dget_or d ''keys'' (JArr []) of
             JArr keys \<Rightarrow>
               Option.bind (find_hcl_key keys) (\<lambda>ak.
               Option.bind (Option.bind (map_of ak ''e'') b64u_nat) (\<lambda>e.
               Option.bind (Option.bind (map_of ak ''n'') b64u_nat) (\<lambda>n. pe_rsa_of pe e n)))
           | _ \<Rightarrow> None)
      | _ \<Rightarrow> None)"

record azure_envelope =
  az_snp :: bytes
  az_runtime :: bytes
  az_quote_msg :: bytes
  az_quote_sig :: bytes
  az_ak_pub_pem :: bytes
  az_chain_pem :: bytes

definition b64_field :: "jdict \<Rightarrow> string \<Rightarrow> bytes option" where
  "b64_field d k = (case map_of d k of Some (JStr s) \<Rightarrow> std_b64decode s | _ \<Rightarrow> None)"

definition parse_envelope :: "platform_env \<Rightarrow> bytes \<Rightarrow> azure_envelope option" where
  "parse_envelope pe raw =
     (case pe_loads pe raw of
        Some (JObj d) \<Rightarrow>
          (case (b64_field d ''snp_report'', b64_field d ''runtime_data'', b64_field d ''quote_msg'', b64_field d ''quote_sig'',
                 map_of d ''ak_pub_pem'', (case dget_or d ''vcek_chain_pem'' (JStr []) of JStr s \<Rightarrow> std_b64decode s | _ \<Rightarrow> None)) of
             (Some snp, Some rt, Some qm, Some qs, Some (JStr pem), Some chain) \<Rightarrow>
               Some \<lparr>az_snp = snp, az_runtime = rt, az_quote_msg = qm, az_quote_sig = qs, az_ak_pub_pem = pem, az_chain_pem = chain\<rparr>
           | _ \<Rightarrow> None)
      | _ \<Rightarrow> None)"

definition SNP_REPORT_DATA_OFFSET :: nat where "SNP_REPORT_DATA_OFFSET = 0x50"

text \<open>The steps before the SNP chain: \<open>Inl\<close> a failed result.\<close>

definition azure_bindings :: "platform_env \<Rightarrow> string \<Rightarrow> azure_envelope \<Rightarrow> (platform_result + snp_report \<times> bytes)" where
  "azure_bindings pe measured env =
     (let rd = SNP_REPORT_DATA_OFFSET; r = pr_start in
      if length (az_snp env) < rd + 64 then Inl (pr_fail ''raw_evidence_parse_error'' [] r)
      else case pe_parse_snp_report pe (az_snp env) of
        None \<Rightarrow> Inl (pr_fail ''raw_evidence_parse_error'' [] r)
      | Some report \<Rightarrow>
          if sha384_text pe (sr_measurement report) \<noteq> measured then Inl (pr_fail ''measurement_mismatch'' [] r)
          else let r1 = pr_credit [''measurement''] r in
            if slice rd 32 (az_snp env) \<noteq> pe_sha256 pe (az_runtime env)
            then Inl (pr_fail ''runtime_data_binding_mismatch'' [] r1)
            else let r2 = pr_credit [''runtime_data_binding''] r1 in
              (case (pe_load_public_key pe (az_ak_pub_pem env), ak_from_runtime_data pe (az_runtime env)) of
                 (Some (RSA_key, k), Some ak) \<Rightarrow>
                   if k \<noteq> ak then Inl (pr_fail ''ak_mismatch'' [] r2) else Inr (report, ak)
               | _ \<Rightarrow> Inl (pr_fail ''ak_parse_error'' [] r2)))"

definition verify_azure_cvm_measurement ::
  "platform_env \<Rightarrow> string \<Rightarrow> bytes option \<Rightarrow> string option \<Rightarrow> bytes option \<Rightarrow> snp_platform_policy option
     \<Rightarrow> py_exc + platform_result" where
  "verify_azure_cvm_measurement pe measured evidence report_data_hex trusted_ark_pem platform_policy =
     (case evidence of
        None \<Rightarrow> Inr (pr_fail ''no_raw_evidence'' [''vcek_cert_chain''] pr_start)
      | Some raw \<Rightarrow>
          (case parse_envelope pe raw of
             None \<Rightarrow> Inr (pr_fail ''evidence_parse_error'' [] pr_start)
           | Some env \<Rightarrow>
               (case azure_bindings pe measured env of
                  Inl failed \<Rightarrow> Inr failed
                | Inr (report, ak) \<Rightarrow>
                    let r = pr_credit [''measurement'', ''runtime_data_binding'', ''ak_binding''] pr_start;
                        chain = (if az_chain_pem env = [] then None else Some (az_chain_pem env)) in
                    bind_result (azure_quote_signature pe (az_quote_msg env) (az_quote_sig env) ak) (\<lambda>ok.
                      if \<not> ok then Inr (pr_fail ''quote_signature_invalid'' [] r)
                      else case report_data_hex of
                        None \<Rightarrow> Inr (snp_chain_steps pe (az_snp env) report chain trusted_ark_pem platform_policy r)
                      | Some hex \<Rightarrow>
                          (case extract_extra_data (az_quote_msg env) of
                             None \<Rightarrow> Inr (pr_fail ''quote_parse_error'' [] r)
                           | Some extra \<Rightarrow>
                               (case fromhex hex of
                                  None \<Rightarrow> Inl Py_value
                                | Some nonce \<Rightarrow>
                                    if extra \<noteq> pe_sha256 pe nonce then Inr (pr_fail ''quote_nonce_mismatch'' [] r)
                                    else Inr (snp_chain_steps pe (az_snp env) report chain trusted_ark_pem platform_policy
                                                (pr_credit [''quote_nonce_binding''] r))))))))"

end
