(* ===== verification/Verify_Claim.thy ===== *)
theory Verify_Claim
  imports Verify_Platform Session_Manager
begin

text \<open>
  The offline verification of a TRACE claim (\<open>verify_trace_claim\<close> and its
  checks, \<open>cmcp_verify/verify.py\<close>). The checks read untrusted JSON, so a lookup
  that raises is an outcome of the model. The pydantic models of the claim and
  the agent manifest check are arguments. The texts of \<open>details\<close> are left out:
  no decision reads them.
\<close>

subsection \<open>Results\<close>

datatype verification_status = VERIFIED | UNVERIFIED | PARTIALLY_VERIFIED

datatype verification_error =
    UNSUPPORTED_PROVIDER | SIGNATURE_INVALID | PUBLIC_KEY_NOT_BOUND | POLICY_HASH_MISMATCH | CATALOG_HASH_MISMATCH
  | ATTESTATION_STALE | CHAIN_BROKEN | CHAIN_ROOT_NOT_BOUND | MEASUREMENT_NOT_BOUND | CLAIM_MALFORMED
  | HARDWARE_ATTESTATION_FAILED | AGENT_MANIFEST_MISMATCH | AGENT_KEY_THUMBPRINT_UNBOUND_SUBJECT

record approved_hashes =
  ah_policy_bundle_hash :: string
  ah_tool_catalog_hash :: string

record verification_result =
  vr_status :: verification_status
  vr_verified_fields :: "string list"
  vr_unverified_fields :: "string list"
  vr_failure_reason :: "verification_error option"
  vr_attestation_age_seconds :: int
  vr_is_attestation_fresh :: bool
  vr_malformed_field :: "string option"

subsection \<open>Signature and key binding\<close>

datatype signature_check = Signature_ok | Key_unparsable | Signature_empty | Signature_undecodable | Signature_mismatch

text \<open>\<open>from_public_bytes\<close> rejects a key exactly when checking a signature with it ends in the key's error.\<close>

definition key_rejected :: "crypto \<Rightarrow> bytes \<Rightarrow> bool" where
  "key_rejected cy pub \<longleftrightarrow> cy_ed25519 cy pub [] [] = Key_value_error"

definition verify_claim_signature :: "crypto \<Rightarrow> jdict \<Rightarrow> py_exc + signature_check" where
  "verify_claim_signature cy claim =
     (case bind_result (py_item (JObj claim) ''trace'') (\<lambda>t. bind_result (py_item t ''cnf'') (\<lambda>c.
            bind_result (py_item c ''jwk'') (\<lambda>j. py_item j ''x''))) of
        Inl e \<Rightarrow> if e = Py_key \<or> e = Py_value then Inr Key_unparsable else Inl e
      | Inr (JStr x) \<Rightarrow>
          (case b64url_decode x of
             None \<Rightarrow> Inr Key_unparsable
           | Some pub \<Rightarrow>
               if key_rejected cy pub then Inr Key_unparsable
               else let sig_b64 = dget_or claim ''signature'' (JStr []) in
                 if \<not> truthy sig_b64 then Inr Signature_empty
                 else (case sig_b64 of
                    JStr s \<Rightarrow>
                      (case b64url_decode s of
                         None \<Rightarrow> Inr Signature_undecodable
                       | Some sig \<Rightarrow>
                           Inr (if cy_ed25519 cy pub sig (canonical_json claim) = Verified then Signature_ok else Signature_mismatch))
                  | _ \<Rightarrow> Inr Signature_undecodable))
      | Inr _ \<Rightarrow> Inl Py_type)"

definition jwk_x_to_hex :: "json \<Rightarrow> string option" where
  "jwk_x_to_hex x = (case x of JStr s \<Rightarrow> map_option hexlify (b64url_decode s) | _ \<Rightarrow> None)"

definition jwk_thumbprint_sha256 :: "(bytes \<Rightarrow> bytes) \<Rightarrow> json \<Rightarrow> bytes" where
  "jwk_thumbprint_sha256 sha256 x_b64url =
     sha256 (dumps (JObj [(''crv'', JStr ''Ed25519''), (''kty'', JStr ''OKP''), (''x'', x_b64url)]))"

datatype bind_failure =
    Key_missing | Key_undecodable | Nonce_absent | Nonce_undecodable | Nonce_too_short nat | Fingerprint_mismatch
  | Root_empty | Root_not_hex | Root_not_committed | Digest_length nat | Measurement_not_committed

datatype binding = Bound | Unbound bind_failure | Not_applicable

definition claim_x :: "jdict \<Rightarrow> py_exc + json" where
  "claim_x claim = py_path (JObj claim) [''trace'', ''cnf'', ''jwk'', ''x''] (JStr [])"

definition claim_nonce :: "jdict \<Rightarrow> py_exc + json" where
  "claim_nonce claim = py_path (JObj claim) [''trace'', ''runtime'', ''nonce''] (JStr [])"

definition text_bytes :: "json \<Rightarrow> bytes option" where
  "text_bytes j = (case j of JStr s \<Rightarrow> b64url_decode s | _ \<Rightarrow> None)"

definition verify_key_binding :: "(bytes \<Rightarrow> bytes) \<Rightarrow> jdict \<Rightarrow> bool \<Rightarrow> py_exc + binding" where
  "verify_key_binding sha256 claim is_sw_only =
     (if is_sw_only then Inr Not_applicable
      else bind_result (claim_x claim) (\<lambda>x.
        if \<not> truthy x then Inr (Unbound Key_missing)
        else if text_bytes x = None then Inr (Unbound Key_undecodable)
        else bind_result (claim_nonce claim) (\<lambda>nonce.
          if \<not> truthy nonce then Inr (Unbound Nonce_absent)
          else case text_bytes nonce of
            None \<Rightarrow> Inr (Unbound Nonce_undecodable)
          | Some nonce_bytes \<Rightarrow>
              if length nonce_bytes < 32 then Inr (Unbound (Nonce_too_short (length nonce_bytes)))
              else if take 32 nonce_bytes \<noteq> jwk_thumbprint_sha256 sha256 x then Inr (Unbound Fingerprint_mismatch)
              else Inr Bound)))"

subsection \<open>Report data commitments\<close>

text \<open>The 32 bytes at \<open>[32:64]\<close> go to the comparison; a nonce that does not carry them is tolerated in
  software-only mode.\<close>

definition committed_half :: "jdict \<Rightarrow> bool \<Rightarrow> (bytes \<Rightarrow> binding) \<Rightarrow> py_exc + binding" where
  "committed_half claim is_sw_only compare =
     bind_result (claim_nonce claim) (\<lambda>nonce. Inr (
       if \<not> truthy nonce then (if is_sw_only then Not_applicable else Unbound Nonce_absent)
       else case text_bytes nonce of
         None \<Rightarrow> Unbound Nonce_undecodable
       | Some nonce_bytes \<Rightarrow>
           if length nonce_bytes < 64 then (if is_sw_only then Not_applicable else Unbound (Nonce_too_short (length nonce_bytes)))
           else compare (take 32 (drop 32 nonce_bytes))))"

definition check_audit_chain_binding :: "(bytes \<Rightarrow> bytes) \<Rightarrow> jdict \<Rightarrow> bool \<Rightarrow> py_exc + binding" where
  "check_audit_chain_binding sha256 claim is_sw_only =
     bind_result (py_path (JObj claim) [''gateway'', ''audit_chain'', ''root''] (JStr [])) (\<lambda>rt.
       if \<not> truthy rt then Inr (Unbound Root_empty)
       else case rt of
         JStr s \<Rightarrow>
           (case fromhex (removeprefix ''sha384:'' (removeprefix ''sha256:'' s)) of
              None \<Rightarrow> Inr (Unbound Root_not_hex)
            | Some root_bytes \<Rightarrow>
                committed_half claim is_sw_only (\<lambda>actual.
                  if actual \<noteq> sha256 root_bytes then Unbound Root_not_committed
                  else if is_sw_only then Not_applicable else Bound))
       | _ \<Rightarrow> Inl Py_attribute)"

definition check_measurement_binding :: "jdict \<Rightarrow> bytes \<Rightarrow> bool \<Rightarrow> py_exc + binding" where
  "check_measurement_binding claim expected is_sw_only =
     (if length expected \<noteq> 32 then Inr (Unbound (Digest_length (length expected)))
      else committed_half claim is_sw_only (\<lambda>actual.
        if actual \<noteq> expected then Unbound Measurement_not_committed
        else if is_sw_only then Not_applicable else Bound))"

datatype measurement_arg = Digest_bytes bytes | Digest_text string

definition coerce_measurement_digest :: "measurement_arg \<Rightarrow> bytes option" where
  "coerce_measurement_digest v =
     (case v of Digest_bytes b \<Rightarrow> Some b | Digest_text s \<Rightarrow> fromhex (removeprefix ''sha256:'' s))"

subsection \<open>Freshness\<close>

text \<open>\<open>datetime.fromisoformat\<close> on \<open>YYYY-MM-DD?HH:MM:SS[.digits][Z|+hh:mm|-hh:mm]\<close>, with the field ranges it
  enforces; the other layouts it knows are read as errors. An aware time is its microseconds in UTC.\<close>

datatype iso_time = Not_iso | Naive | Aware int

definition valid_fields :: "datetime \<Rightarrow> bool" where
  "valid_fields t \<longleftrightarrow> 1 \<le> dt_year t \<and> 1 \<le> dt_month t \<and> dt_month t \<le> 12 \<and> 1 \<le> dt_day t
     \<and> dt_day t \<le> month_lengths (dt_year t) ! (dt_month t - 1) \<and> dt_hour t < 24 \<and> dt_minute t < 60 \<and> dt_second t < 60"

definition iso_fields :: "string \<Rightarrow> nat \<Rightarrow> datetime option" where
  "iso_fields s us =
     (if length s = 19 \<and> s ! 4 = CHR ''-'' \<and> s ! 7 = CHR ''-'' \<and> s ! 13 = CHR '':'' \<and> s ! 16 = CHR '':'' then
        (case (read_digits (take 4 s), read_digits (slice 5 2 s), read_digits (slice 8 2 s),
               read_digits (slice 11 2 s), read_digits (slice 14 2 s), read_digits (slice 17 2 s)) of
           (Some y, Some mo, Some d, Some h, Some mi, Some sec) \<Rightarrow>
             (let t = \<lparr>dt_year = y, dt_month = mo, dt_day = d, dt_hour = h, dt_minute = mi, dt_second = sec, dt_microsecond = us\<rparr> in
              if valid_fields t then Some t else None)
         | _ \<Rightarrow> None)
      else None)"

definition iso_offset :: "string \<Rightarrow> int option option" where
  "iso_offset s =
     (if s = [] then Some None
      else if s = ''Z'' then Some (Some 0)
      else if length s = 6 \<and> (hd s = CHR ''+'' \<or> hd s = CHR ''-'') \<and> s ! 3 = CHR '':'' then
        (case (read_digits (slice 1 2 s), read_digits (slice 4 2 s)) of
           (Some h, Some m) \<Rightarrow>
             if h < 24 \<and> m < 60 then Some (Some ((if hd s = CHR ''-'' then -1 else 1) * int (h * 60 + m) * 60000000)) else None
         | _ \<Rightarrow> None)
      else None)"

definition read_iso :: "string \<Rightarrow> iso_time" where
  "read_iso s =
     (let rest = drop 19 s; frac = (rest \<noteq> [] \<and> (hd rest = CHR ''.'' \<or> hd rest = CHR '',''));
          ds = (if frac then takeWhile is_digit (tl rest) else []);
          tz = (if frac then drop (length ds) (tl rest) else rest) in
      if frac \<and> ds = [] then Not_iso
      else case (iso_fields (take 19 s) (str_nat (take 6 (ds @ ''000000''))), iso_offset tz) of
        (Some t, Some None) \<Rightarrow> Naive
      | (Some t, Some (Some off)) \<Rightarrow> Aware (dt_micros t - off)
      | _ \<Rightarrow> Not_iso)"

text \<open>\<open>int(td.total_seconds())\<close> truncates.\<close>

definition whole_seconds :: "int \<Rightarrow> int" where
  "whole_seconds us = (if 0 \<le> us then us div 1000000 else - ((- us) div 1000000))"

definition check_attestation_freshness :: "datetime \<Rightarrow> jdict \<Rightarrow> int \<Rightarrow> py_exc + int \<times> bool" where
  "check_attestation_freshness now claim max_age_seconds =
     (case bind_result (py_item (JObj claim) ''gateway'') (\<lambda>g. py_item g ''attestation_generated_at'') of
        Inl e \<Rightarrow> if e = Py_key \<or> e = Py_value then Inr (-1, False) else Inl e
      | Inr (JStr s) \<Rightarrow>
          (case read_iso s of
             Not_iso \<Rightarrow> Inr (-1, False)
           | Naive \<Rightarrow> Inl Py_type
           | Aware t \<Rightarrow> let age = whole_seconds (dt_micros now - t) in Inr (age, age \<le> max_age_seconds))
      | Inr _ \<Rightarrow> Inl Py_type)"

subsection \<open>The audit chain summary\<close>

text \<open>\<open>length < 1\<close>; a float's text decides, since it is the shortest one that reads back.\<close>

definition float_lt_one :: "string \<Rightarrow> bool" where
  "float_lt_one t \<longleftrightarrow> t \<noteq> [] \<and> (hd t = CHR ''-'' \<or> starts_with ''0.'' t
     \<or> starts_with ''e-'' (dropWhile (\<lambda>c. c \<noteq> CHR ''e'') t))"

definition less_than_one :: "json \<Rightarrow> py_exc + bool" where
  "less_than_one j = (case j of JInt i \<Rightarrow> Inr (i < 1) | JBool b \<Rightarrow> Inr (\<not> b) | JFloat t \<Rightarrow> Inr (float_lt_one t) | _ \<Rightarrow> Inl Py_type)"

definition check_audit_chain :: "jdict \<Rightarrow> py_exc + bool" where
  "check_audit_chain claim =
     bind_result (py_path (JObj claim) [''gateway'', ''audit_chain''] (JObj [])) (\<lambda>chain.
     bind_result (py_get chain ''root'' (JStr [])) (\<lambda>rt.
     bind_result (py_get chain ''tip'' (JStr [])) (\<lambda>tip.
     bind_result (py_get chain ''length'' (JInt 0)) (\<lambda>len.
       if \<not> truthy rt \<or> \<not> truthy tip then Inr False
       else bind_result (less_than_one len) (\<lambda>short. Inr (\<not> short))))))"

subsection \<open>Platform, evidence and schema\<close>

definition SW_ONLY_FIRMWARE :: string where "SW_ONLY_FIRMWARE = ''software-only-dev-mode''"

definition KNOWN_PLATFORMS :: "string list" where
  "KNOWN_PLATFORMS = [''amd-sev-snp'', ''azure-cvm-sev-snp'', ''intel-tdx'', ''tpm2'', ''nvidia-h100'', ''nvidia-blackwell'',
     ''aws-nitro'', ''arm-cca'', ''google-confidential-space'', ''software-only'']"

definition is_software_only :: "jdict \<Rightarrow> bool" where
  "is_software_only runtime \<longleftrightarrow> dget runtime ''platform'' = JStr ''software-only''
     \<or> dget runtime ''platform'' = JStr ''tpm2'' \<and> dget runtime ''firmware_version'' = JStr SW_ONLY_FIRMWARE"

text \<open>A value that is not a text raises at \<open>value + "="\<close>. With a hyphen or an underscore the URL alphabet is
  used; without one both alphabets read the same.\<close>

definition decode_evidence :: "json \<Rightarrow> py_exc + bytes option" where
  "decode_evidence v =
     (if \<not> truthy v then Inr None
      else case v of JStr s \<Rightarrow> Inr (b64url_decode s) | _ \<Rightarrow> Inl Py_type)"

definition py_or :: "json \<Rightarrow> json \<Rightarrow> json" where
  "py_or a b = (if truthy a then a else b)"

definition evidence_field :: "jdict \<Rightarrow> jdict \<Rightarrow> string \<Rightarrow> py_exc + bytes option" where
  "evidence_field claim runtime name =
     bind_result (py_path (JObj claim) [''gateway'', ''attestation_evidence''] JNull) (\<lambda>ev.
     bind_result (py_get (py_or ev (JObj [])) name JNull) (\<lambda>v. decode_evidence (py_or v (dget runtime name))))"

text \<open>\<open>re.fullmatch(r"[A-Za-z0-9_-]{86}", nonce)\<close>, and the canonical spelling of exactly 64 bytes.\<close>

definition b64url_alphabet :: "char \<Rightarrow> bool" where
  "b64url_alphabet c \<longleftrightarrow> (let n = (of_char c :: nat) in
     65 \<le> n \<and> n \<le> 90 \<or> 97 \<le> n \<and> n \<le> 122 \<or> 48 \<le> n \<and> n \<le> 57 \<or> c = CHR ''-'' \<or> c = CHR ''_'')"

definition platform_report_data :: "json \<Rightarrow> string option" where
  "platform_report_data nonce =
     (case nonce of
        JStr s \<Rightarrow>
          if length s = 86 \<and> list_all b64url_alphabet s then
            (case b64decode (s @ ''=='') of
               Some raw \<Rightarrow> if length raw = 64 \<and> b64url raw = s then Some (hexlify raw) else None
             | None \<Rightarrow> None)
          else None
      | _ \<Rightarrow> None)"

text \<open>A pydantic error is its type and location; the path reported is that of the first error that is not a
  missing field and has a location, or else of the first that has one.\<close>

type_synonym schema_error = "string \<times> string list"

definition validation_error_path :: "schema_error list \<Rightarrow> string" where
  "validation_error_path errors =
     (case filter (\<lambda>(ty, loc). ty \<noteq> ''missing'' \<and> loc \<noteq> []) errors @ filter (\<lambda>(ty, loc). loc \<noteq> []) errors of
        (ty, loc) # _ \<Rightarrow> join ''.'' loc
      | [] \<Rightarrow> ''claim'')"

subsection \<open>The verdict under construction\<close>

record vstate =
  vs_verified :: "string list"
  vs_unverified :: "string list"
  vs_failure :: "verification_error option"

definition credit :: "string list \<Rightarrow> vstate \<Rightarrow> vstate" where
  "credit fs st = st\<lparr>vs_verified := vs_verified st @ fs\<rparr>"

definition debit :: "string list \<Rightarrow> vstate \<Rightarrow> vstate" where
  "debit fs st = st\<lparr>vs_unverified := vs_unverified st @ fs\<rparr>"

text \<open>\<open>failure = failure or e\<close>.\<close>

definition blame :: "verification_error \<Rightarrow> vstate \<Rightarrow> vstate" where
  "blame e st = st\<lparr>vs_failure := (case vs_failure st of None \<Rightarrow> Some e | Some e' \<Rightarrow> Some e')\<rparr>"

definition settle :: "bool \<Rightarrow> string \<Rightarrow> verification_error \<Rightarrow> vstate \<Rightarrow> vstate" where
  "settle ok f e st = (if ok then credit [f] st else blame e (debit [f] st))"

definition settle_binding :: "binding \<Rightarrow> string \<Rightarrow> verification_error \<Rightarrow> vstate \<Rightarrow> vstate" where
  "settle_binding b f e st = (case b of Bound \<Rightarrow> credit [f] st | Unbound _ \<Rightarrow> blame e (debit [f] st) | Not_applicable \<Rightarrow> st)"

record verify_options =
  vo_max_attestation_age_seconds :: int
  vo_trusted_public_key_hex :: "string option"
  vo_agent_manifest_given :: bool
  vo_manifest_keys_given :: bool
  vo_manifest_binding :: "jdict \<Rightarrow> json \<Rightarrow> json \<Rightarrow> agent_binding option"
  vo_trusted_ark_pem :: "bytes option"
  vo_trusted_intel_root_pem :: "bytes option"
  vo_trusted_tpm_ca_pem :: "bytes option"
  vo_expected_gateway_measurement :: "measurement_arg option"
  vo_snp_platform_policy :: "snp_platform_policy option"
  vo_expected_launch_measurements :: "string list option"

subsection \<open>Steps 2 to 5\<close>

definition step_signature :: "crypto \<Rightarrow> jdict \<Rightarrow> vstate \<Rightarrow> py_exc + vstate" where
  "step_signature cy claim st =
     bind_result (verify_claim_signature cy claim) (\<lambda>c. Inr (settle (c = Signature_ok) ''signature'' SIGNATURE_INVALID st))"

text \<open>A key that is not bound outranks the failures before it.\<close>

definition step_key_binding :: "crypto \<Rightarrow> jdict \<Rightarrow> bool \<Rightarrow> vstate \<Rightarrow> py_exc + vstate" where
  "step_key_binding cy claim is_sw_only st =
     bind_result (verify_key_binding (cy_sha256 cy) claim is_sw_only) (\<lambda>b.
       Inr (case b of
          Bound \<Rightarrow> credit [''public_key_binding''] st
        | Unbound _ \<Rightarrow> (debit [''public_key_binding''] st)\<lparr>vs_failure := Some PUBLIC_KEY_NOT_BOUND\<rparr>
        | Not_applicable \<Rightarrow> st))"

definition step_trusted_key :: "verify_options \<Rightarrow> jdict \<Rightarrow> vstate \<Rightarrow> py_exc + vstate" where
  "step_trusted_key opts claim st =
     bind_result (claim_x claim) (\<lambda>x.
       case vo_trusted_public_key_hex opts of
         Some (c # s) \<Rightarrow>
           (let actual = (if truthy x then jwk_x_to_hex x else None);
                normalized = removeprefix ''0x'' (str_lower (c # s)) in
            Inr (settle (actual = Some normalized) ''trusted_public_key'' PUBLIC_KEY_NOT_BOUND st))
       | _ \<Rightarrow> Inr st)"

text \<open>\<open>v.removeprefix("sha256:")\<close>.\<close>

definition bare_hash :: "json \<Rightarrow> py_exc + string" where
  "bare_hash v = (case v of JStr s \<Rightarrow> Inr (removeprefix ''sha256:'' s) | _ \<Rightarrow> Inl Py_attribute)"

definition claimed_policy :: "jdict \<Rightarrow> py_exc + json" where
  "claimed_policy claim = py_path (JObj claim) [''trace'', ''policy'', ''bundle_hash''] (JStr [])"

definition claimed_catalog :: "jdict \<Rightarrow> py_exc + json" where
  "claimed_catalog claim = py_path (JObj claim) [''gateway'', ''catalog'', ''hash''] (JStr [])"

definition step_hash :: "py_exc + json \<Rightarrow> string \<Rightarrow> string \<Rightarrow> verification_error \<Rightarrow> vstate \<Rightarrow> py_exc + vstate" where
  "step_hash claimed approved f e st =
     bind_result claimed (\<lambda>j. bind_result (bare_hash j) (\<lambda>actual.
       Inr (settle (actual = removeprefix ''sha256:'' approved) f e st)))"

definition identity_fields :: "agent_binding \<Rightarrow> jdict" where
  "identity_fields b =
     [(''manifest_id'', JStr (ab_manifest_id b)), (''agent_id'', JStr (ab_agent_id b)),
      (''authenticated_subject'', JStr (ab_authenticated_subject b)), (''subject_source'', JStr (ab_subject_source b)),
      (''issuer'', JStr (ab_issuer b)), (''issuer_key_id'', JStr (ab_issuer_key_id b)),
      (''policy_bundle_hash'', JStr (ab_policy_bundle_hash b)), (''tool_catalog_hash'', JStr (ab_tool_catalog_hash b)),
      (''intent_hash'', opt_str (ab_intent_hash b)), (''enforcement_mode'', opt_str (ab_enforcement_mode b))]"

definition manifest_matches :: "verify_options \<Rightarrow> json \<Rightarrow> json \<Rightarrow> json \<Rightarrow> bool" where
  "manifest_matches opts agent_identity policy catalog =
     (case agent_identity of
        JObj d \<Rightarrow>
          vo_manifest_keys_given opts
          \<and> dget d ''enforcement_mode'' \<in> {JNull, JStr ''enforcing'', JStr ''advisory'', JStr ''silent''}
          \<and> (case vo_manifest_binding opts d policy catalog of
               None \<Rightarrow> False
             | Some b \<Rightarrow> list_all (\<lambda>(k, expected). dget d k = expected) (identity_fields b))
      | _ \<Rightarrow> False)"

definition agent_identity :: "jdict \<Rightarrow> py_exc + json" where
  "agent_identity claim = py_path (JObj claim) [''gateway'', ''agent_identity''] JNull"

definition step_manifest :: "verify_options \<Rightarrow> jdict \<Rightarrow> vstate \<Rightarrow> py_exc + vstate" where
  "step_manifest opts claim st =
     (if \<not> vo_agent_manifest_given opts then Inr st
      else bind_result (agent_identity claim) (\<lambda>ai.
           bind_result (claimed_policy claim) (\<lambda>policy. bind_result (claimed_catalog claim) (\<lambda>catalog.
             Inr (settle (manifest_matches opts ai policy catalog) ''agent_manifest.binding'' AGENT_MANIFEST_MISMATCH st)))))"

definition step_thumbprint :: "jdict \<Rightarrow> vstate \<Rightarrow> py_exc + vstate" where
  "step_thumbprint claim st =
     bind_result (agent_identity claim) (\<lambda>ai.
       case ai of
         JObj d \<Rightarrow>
           if truthy (dget d ''agent_key_thumbprint'')
           then Inr (settle (dget d ''subject_source'' = JStr ''svid'') ''agent_identity.agent_key_thumbprint''
                       AGENT_KEY_THUMBPRINT_UNBOUND_SUBJECT st)
           else Inr st
       | _ \<Rightarrow> Inr st)"

subsection \<open>Step 7\<close>

definition step_chain :: "crypto \<Rightarrow> jdict \<Rightarrow> bool \<Rightarrow> vstate \<Rightarrow> py_exc + vstate" where
  "step_chain cy claim is_sw_only st =
     bind_result (check_audit_chain claim) (\<lambda>chain_ok.
       if \<not> chain_ok then Inr (settle False ''audit_chain'' CHAIN_BROKEN st)
       else bind_result (check_audit_chain_binding (cy_sha256 cy) claim is_sw_only) (\<lambda>b.
         Inr (settle_binding b ''audit_chain_binding'' CHAIN_ROOT_NOT_BOUND (credit [''audit_chain''] st))))"

definition step_measurement :: "verify_options \<Rightarrow> jdict \<Rightarrow> bool \<Rightarrow> vstate \<Rightarrow> py_exc + vstate" where
  "step_measurement opts claim is_sw_only st =
     (case vo_expected_gateway_measurement opts of
        None \<Rightarrow> Inr st
      | Some v \<Rightarrow>
          (case coerce_measurement_digest v of
             None \<Rightarrow> Inr (settle False ''measurement_binding'' MEASUREMENT_NOT_BOUND st)
           | Some digest \<Rightarrow>
               bind_result (check_measurement_binding claim digest is_sw_only) (\<lambda>b.
                 Inr (settle_binding b ''measurement_binding'' MEASUREMENT_NOT_BOUND st))))"

subsection \<open>Step 8: the platform\<close>

text \<open>What a platform verifier's result does; \<open>rooted\<close> says that its signature chain was checked.\<close>

definition platform_outcome :: "platform_result \<Rightarrow> bool \<Rightarrow> vstate \<Rightarrow> vstate" where
  "platform_outcome r rooted st =
     (if pr_verified r \<and> rooted then credit (''hardware_attestation'' # pr_verified_fields r) st
      else if pr_verified r then debit [''hardware_attestation''] (credit (pr_verified_fields r) st)
      else blame HARDWARE_ATTESTATION_FAILED (debit [''hardware_attestation''] st))"

definition tpm_chain :: "platform_env \<Rightarrow> bytes option \<Rightarrow> bytes option \<Rightarrow> bytes option \<Rightarrow> bytes option \<Rightarrow> bytes option
    \<Rightarrow> vstate \<Rightarrow> bool \<times> string list \<times> vstate" where
  "tpm_chain pe raw quote_sig ak_chain ek_chain ca st =
     (case (raw, quote_sig, ak_chain, ca) of
        (Some raw_bytes, Some sig, Some chain, Some ca_pem) \<Rightarrow>
          (case verify_ak_ek_chain pe chain ca_pem ek_chain of
             None \<Rightarrow> (False, [], blame HARDWARE_ATTESTATION_FAILED (debit [''tpm_quote_signature'', ''ak_cert_chain''] st))
           | Some established \<Rightarrow>
               if verify_quote_signature pe raw_bytes sig (leaf_public_key_pem pe chain)
               then (True, established, credit (''tpm_quote_signature'' # established) st)
               else (False, [], blame HARDWARE_ATTESTATION_FAILED (debit [''tpm_quote_signature''] st)))
      | _ \<Rightarrow> (False, [], debit [''ak_cert_chain''] st))"

definition measured_text :: "jdict \<Rightarrow> py_exc + string" where
  "measured_text runtime = (case dget_or runtime ''measurement'' (JStr []) of JStr s \<Rightarrow> Inr s | _ \<Rightarrow> Inl Py_attribute)"

definition step_tpm :: "platform_env \<Rightarrow> crypto \<Rightarrow> verify_options \<Rightarrow> jdict \<Rightarrow> jdict \<Rightarrow> vstate \<Rightarrow> py_exc + vstate" where
  "step_tpm pe cy opts claim runtime st =
     bind_result (evidence_field claim runtime ''raw_evidence'') (\<lambda>raw.
     bind_result (py_path (JObj claim) [''trace'', ''cnf'', ''jwk'', ''x''] JNull) (\<lambda>x.
     bind_result (measured_text runtime) (\<lambda>m.
     bind_result (evidence_field claim runtime ''quote_signature'') (\<lambda>qs.
     bind_result (evidence_field claim runtime ''cert_chain'') (\<lambda>ak.
     bind_result (evidence_field claim runtime ''ek_cert_chain'') (\<lambda>ek.
       let r = verify_tpm_measurement pe m raw (if truthy x then Some (jwk_thumbprint_sha256 (cy_sha256 cy) x) else None);
           (chain_ok, links, st1) = tpm_chain pe raw qs ak ek (vo_trusted_tpm_ca_pem opts) st in
       Inr (debit (filter (\<lambda>f. f \<notin> set links) (pr_unverified_fields r)) (platform_outcome r chain_ok st1))))))))"

text \<open>The Azure comparison of measurements raises for no value.\<close>

definition step_azure :: "platform_env \<Rightarrow> verify_options \<Rightarrow> string \<Rightarrow> jdict \<Rightarrow> jdict \<Rightarrow> vstate \<Rightarrow> py_exc + vstate" where
  "step_azure pe opts report_data_hex claim runtime st =
     bind_result (evidence_field claim runtime ''raw_evidence'') (\<lambda>raw.
     bind_result (verify_azure_cvm_measurement pe (str_of (dget_or runtime ''measurement'' (JStr []))) raw (Some report_data_hex)
                    (vo_trusted_ark_pem opts) (vo_snp_platform_policy opts)) (\<lambda>r.
       Inr (debit (pr_unverified_fields r) (platform_outcome r (''vcek_cert_chain'' \<notin> set (pr_unverified_fields r)) st))))"

definition step_snp :: "platform_env \<Rightarrow> verify_options \<Rightarrow> string \<Rightarrow> jdict \<Rightarrow> jdict \<Rightarrow> vstate \<Rightarrow> py_exc + vstate" where
  "step_snp pe opts report_data_hex claim runtime st =
     bind_result (evidence_field claim runtime ''raw_evidence'') (\<lambda>raw.
     bind_result (evidence_field claim runtime ''cert_chain'') (\<lambda>chain.
     bind_result (measured_text runtime) (\<lambda>m.
       let r = verify_sev_snp_measurement pe m raw (Some report_data_hex) chain (vo_trusted_ark_pem opts) (vo_snp_platform_policy opts) in
       Inr (debit (pr_unverified_fields r) (platform_outcome r (''vcek_cert_chain'' \<notin> set (pr_unverified_fields r)) st)))))"

definition raw_quote :: "jdict \<Rightarrow> py_exc + bytes option" where
  "raw_quote runtime =
     (let q = dget runtime ''raw_quote'' in
      if \<not> truthy q then Inr None
      else case q of
        JStr s \<Rightarrow> (case std_b64decode s of None \<Rightarrow> Inl Py_value | Some b \<Rightarrow> Inr (Some b))
      | _ \<Rightarrow> Inl Py_type)"

definition step_tdx :: "platform_env \<Rightarrow> verify_options \<Rightarrow> string \<Rightarrow> jdict \<Rightarrow> jdict \<Rightarrow> vstate \<Rightarrow> py_exc + vstate" where
  "step_tdx pe opts report_data_hex claim runtime st =
     bind_result (evidence_field claim runtime ''raw_evidence'') (\<lambda>raw.
     bind_result (raw_quote runtime) (\<lambda>q.
     bind_result (measured_text runtime) (\<lambda>m.
     bind_result (verify_tdx_measurement pe m raw (Some report_data_hex) q (vo_trusted_intel_root_pem opts)) (\<lambda>r.
       Inr (debit (pr_unverified_fields r)
              (platform_outcome r (''dcap_quote_signature'' \<notin> set (pr_unverified_fields r)) st))))))"

definition step_platform :: "platform_env \<Rightarrow> crypto \<Rightarrow> verify_options \<Rightarrow> jdict \<Rightarrow> jdict \<Rightarrow> vstate \<Rightarrow> py_exc + vstate" where
  "step_platform pe cy opts claim runtime st =
     (let platform = dget_or runtime ''platform'' (JStr []) in
      if is_software_only runtime then Inr (debit [''hardware_attestation''] st)
      else case (platform, platform_report_data (dget runtime ''nonce'')) of
        (JStr p, rd) \<Rightarrow>
          if p = ''tpm2'' then step_tpm pe cy opts claim runtime st
          else if p \<in> {''azure-cvm-sev-snp'', ''amd-sev-snp'', ''intel-tdx''} then
            (case rd of
               None \<Rightarrow> Inr (settle False ''hardware_attestation'' HARDWARE_ATTESTATION_FAILED st)
             | Some hex \<Rightarrow>
                 if p = ''azure-cvm-sev-snp'' then step_azure pe opts hex claim runtime st
                 else if p = ''amd-sev-snp'' then step_snp pe opts hex claim runtime st
                 else step_tdx pe opts hex claim runtime st)
          else Inr (settle False ''hardware_attestation'' UNSUPPORTED_PROVIDER st)
      | (JArr _, _) \<Rightarrow> Inl Py_type
      | (JObj _, _) \<Rightarrow> Inl Py_type
      | _ \<Rightarrow> Inr (settle False ''hardware_attestation'' UNSUPPORTED_PROVIDER st))"

subsection \<open>The launch pin, the platform floor and the verdict\<close>

definition step_launch :: "verify_options \<Rightarrow> jdict \<Rightarrow> vstate \<Rightarrow> vstate" where
  "step_launch opts runtime st =
     (if ''hardware_attestation'' \<notin> set (vs_verified st) then st
      else case vo_expected_launch_measurements opts of
        None \<Rightarrow> debit [''launch_measurement''] st
      | Some ms \<Rightarrow>
          settle (\<exists>m\<in>set ms. dget runtime ''measurement'' = JStr m) ''launch_measurement'' HARDWARE_ATTESTATION_FAILED st)"

definition step_floor :: "verify_options \<Rightarrow> vstate \<Rightarrow> vstate" where
  "step_floor opts st =
     (if vo_snp_platform_policy opts = None \<or> ''platform_state'' \<in> set (vs_verified st) then st
      else let st1 = blame HARDWARE_ATTESTATION_FAILED st in
        if ''platform_state'' \<in> set (vs_unverified st) then st1 else debit [''platform_state''] st1)"

definition final_status :: "vstate \<Rightarrow> verification_status" where
  "final_status st =
     (case vs_failure st of
        None \<Rightarrow>
          if ''hardware_attestation'' \<in> set (vs_unverified st) \<or> ''launch_measurement'' \<in> set (vs_unverified st)
          then PARTIALLY_VERIFIED else VERIFIED
      | Some _ \<Rightarrow> if vs_verified st \<noteq> [] then PARTIALLY_VERIFIED else UNVERIFIED)"

definition malformed_result :: "schema_error list \<Rightarrow> verification_result" where
  "malformed_result errors =
     \<lparr>vr_status = UNVERIFIED, vr_verified_fields = [], vr_unverified_fields = [''schema''], vr_failure_reason = Some CLAIM_MALFORMED,
      vr_attestation_age_seconds = -1, vr_is_attestation_fresh = False, vr_malformed_field = Some (validation_error_path errors)\<rparr>"

definition claim_runtime :: "jdict \<Rightarrow> py_exc + jdict" where
  "claim_runtime claim =
     bind_result (py_path (JObj claim) [''trace'', ''runtime''] (JObj [])) (\<lambda>j.
       case j of JObj d \<Rightarrow> Inr d | _ \<Rightarrow> Inl Py_attribute)"

definition verify_trace_claim ::
  "platform_env \<Rightarrow> crypto \<Rightarrow> (jdict \<Rightarrow> schema_error list option) \<Rightarrow> datetime \<Rightarrow> verify_options \<Rightarrow> approved_hashes \<Rightarrow> jdict
     \<Rightarrow> py_exc + verification_result" where
  "verify_trace_claim pe cy validate now opts approved claim =
     (case validate claim of
        Some errors \<Rightarrow> Inr (malformed_result errors)
      | None \<Rightarrow>
          bind_result (step_signature cy claim \<lparr>vs_verified = [''schema''], vs_unverified = [], vs_failure = None\<rparr>) (\<lambda>st.
          bind_result (claim_runtime claim) (\<lambda>runtime.
          let sw = is_software_only runtime in
          bind_result (step_key_binding cy claim sw st) (\<lambda>st.
          bind_result (step_trusted_key opts claim st) (\<lambda>st.
          bind_result (step_hash (claimed_policy claim) (ah_policy_bundle_hash approved) ''policy_bundle.hash'' POLICY_HASH_MISMATCH st) (\<lambda>st.
          bind_result (step_hash (claimed_catalog claim) (ah_tool_catalog_hash approved) ''tool_catalog.hash'' CATALOG_HASH_MISMATCH st) (\<lambda>st.
          bind_result (step_manifest opts claim st) (\<lambda>st.
          bind_result (step_thumbprint claim st) (\<lambda>st.
          bind_result (check_attestation_freshness now claim (vo_max_attestation_age_seconds opts)) (\<lambda>(age, is_fresh).
          let st = settle is_fresh ''attestation_freshness'' ATTESTATION_STALE st in
          bind_result (step_chain cy claim sw st) (\<lambda>st.
          bind_result (step_measurement opts claim sw st) (\<lambda>st.
          bind_result (step_platform pe cy opts claim runtime st) (\<lambda>st.
            let st = step_floor opts (step_launch opts runtime st) in
            Inr \<lparr>vr_status = final_status st, vr_verified_fields = vs_verified st, vr_unverified_fields = vs_unverified st,
                 vr_failure_reason = vs_failure st, vr_attestation_age_seconds = age, vr_is_attestation_fresh = is_fresh,
                 vr_malformed_field = None\<rparr>)))))))))))))"

end
