(* ===== verification/Verify_Verdict.thy ===== *)
theory Verify_Verdict
  imports Verify_Claim Session_Lifecycle
begin

text \<open>
  What a verdict of \<open>verify_trace_claim\<close> means: which checks a \<open>VERIFIED\<close>
  claim has passed, down to the platform's signature chain, when a claim is
  \<open>UNVERIFIED\<close>, and that a claim of the gateway passes the bindings.
\<close>

subsection \<open>A verdict without a failure\<close>

definition clean :: "vstate \<Rightarrow> bool" where
  "clean st \<longleftrightarrow> vs_failure st = None"

lemma clean_simps [simp]:
  "clean (credit fs st) \<longleftrightarrow> clean st" "clean (debit fs st) \<longleftrightarrow> clean st" "\<not> clean (blame e st)"
  by (simp_all add: clean_def credit_def debit_def blame_def split: option.splits)

lemma field_simps_vs [simp]:
  "vs_verified (credit fs st) = vs_verified st @ fs" "vs_unverified (credit fs st) = vs_unverified st"
  "vs_verified (debit fs st) = vs_verified st" "vs_unverified (debit fs st) = vs_unverified st @ fs"
  "vs_verified (blame e st) = vs_verified st" "vs_unverified (blame e st) = vs_unverified st"
  by (simp_all add: credit_def debit_def blame_def)

lemma clean_settle [simp]: "clean (settle ok f e st) \<longleftrightarrow> ok \<and> clean st"
  by (simp add: settle_def)

lemma clean_settle_binding [simp]: "clean (settle_binding b f e st) \<longleftrightarrow> (b = Bound \<or> b = Not_applicable) \<and> clean st"
  by (simp add: settle_binding_def split: binding.splits)

lemma settle_fields [simp]:
  "vs_verified (settle ok f e st) = vs_verified st @ (if ok then [f] else [])"
  "vs_unverified (settle ok f e st) = vs_unverified st @ (if ok then [] else [f])"
  by (simp_all add: settle_def)

lemma step_signature_clean:
  "step_signature cy claim st = Inr st' \<Longrightarrow> clean st' \<Longrightarrow> clean st \<and> verify_claim_signature cy claim = Inr Signature_ok"
  by (auto simp: step_signature_def bind_result_eq_Inr)

lemma step_key_binding_clean:
  "step_key_binding cy claim sw st = Inr st' \<Longrightarrow> clean st' \<Longrightarrow>
     clean st \<and> (verify_key_binding (cy_sha256 cy) claim sw = Inr Bound \<or> verify_key_binding (cy_sha256 cy) claim sw = Inr Not_applicable)"
  by (cases "verify_key_binding (cy_sha256 cy) claim sw"; cases "projr (verify_key_binding (cy_sha256 cy) claim sw)")
     (auto simp: step_key_binding_def clean_def credit_def debit_def)

lemma step_trusted_key_clean:
  "step_trusted_key opts claim st = Inr st' \<Longrightarrow> clean st' \<Longrightarrow> clean st \<and>
     (\<forall>k. vo_trusted_public_key_hex opts = Some k \<and> k \<noteq> [] \<longrightarrow>
        (\<exists>x. claim_x claim = Inr x \<and> jwk_x_to_hex x = Some (removeprefix ''0x'' (str_lower k))))"
  by (cases "claim_x claim"; cases "vo_trusted_public_key_hex opts"; cases "the (vo_trusted_public_key_hex opts)")
     (auto simp: step_trusted_key_def Let_def split: if_splits)

lemma step_hash_clean:
  "step_hash claimed approved f e st = Inr st' \<Longrightarrow> clean st' \<Longrightarrow>
     clean st \<and> (\<exists>s. claimed = Inr (JStr s) \<and> removeprefix ''sha256:'' s = removeprefix ''sha256:'' approved)"
  by (cases claimed; cases "projr claimed") (auto simp: step_hash_def bare_hash_def)

lemma step_manifest_clean: "step_manifest opts claim st = Inr st' \<Longrightarrow> clean st' \<Longrightarrow> clean st"
  by (auto simp: step_manifest_def bind_result_eq_Inr split: if_splits)

lemma step_thumbprint_clean: "step_thumbprint claim st = Inr st' \<Longrightarrow> clean st' \<Longrightarrow> clean st"
  by (cases "agent_identity claim"; cases "projr (agent_identity claim)") (auto simp: step_thumbprint_def split: if_splits)

lemma step_chain_clean:
  "step_chain cy claim sw st = Inr st' \<Longrightarrow> clean st' \<Longrightarrow>
     clean st \<and> check_audit_chain claim = Inr True
     \<and> (check_audit_chain_binding (cy_sha256 cy) claim sw = Inr Bound \<or> check_audit_chain_binding (cy_sha256 cy) claim sw = Inr Not_applicable)"
  by (auto simp: step_chain_def bind_result_eq_Inr split: if_splits)

lemma step_measurement_clean:
  "step_measurement opts claim sw st = Inr st' \<Longrightarrow> clean st' \<Longrightarrow> clean st \<and>
     (\<forall>v. vo_expected_gateway_measurement opts = Some v \<longrightarrow> (\<exists>d. coerce_measurement_digest v = Some d
        \<and> (check_measurement_binding claim d sw = Inr Bound \<or> check_measurement_binding claim d sw = Inr Not_applicable)))"
  by (auto simp: step_measurement_def bind_result_eq_Inr split: option.splits)

subsection \<open>Rooted hardware evidence\<close>

text \<open>A report signed by a VCEK that chains to the pinned AMD root.\<close>

definition snp_rooted :: "platform_env \<Rightarrow> bytes \<Rightarrow> bytes option \<Rightarrow> bytes option \<Rightarrow> bool" where
  "snp_rooted pe raw chain_pem ark_pem \<longleftrightarrow>
     (\<exists>c a vcek ask ark trusted rest. chain_pem = Some c \<and> ark_pem = Some a
        \<and> pe_load_snp_cert_chain pe c = Some (vcek, ask, ark) \<and> pe_load_certs pe a = Some (trusted # rest)
        \<and> pe_verify_cert_chain pe [vcek, ask, ark] [trusted] \<and> verify_snp_report_signature pe raw vcek)"

lemma pr_simps [simp]:
  "pr_verified (pr_credit fs r) = pr_verified r" "pr_verified (pr_debit fs r) = pr_verified r"
  "\<not> pr_verified (pr_fail e fs r)" "pr_verified pr_start"
  "pr_unverified_fields (pr_credit fs r) = pr_unverified_fields r"
  "pr_unverified_fields (pr_debit fs r) = pr_unverified_fields r @ fs"
  "pr_verified_fields (pr_credit fs r) = pr_verified_fields r @ fs"
  "pr_verified_fields (pr_debit fs r) = pr_verified_fields r"
  "pr_unverified_fields pr_start = []" "pr_verified_fields pr_start = []"
  by (simp_all add: pr_credit_def pr_debit_def pr_fail_def pr_start_def)

lemma snp_chain_steps_rooted:
  assumes "pr_verified (snp_chain_steps pe raw report chain ark pol r)"
    and "''vcek_cert_chain'' \<notin> set (pr_unverified_fields (snp_chain_steps pe raw report chain ark pol r))"
  shows "snp_rooted pe raw chain ark \<and> (\<forall>p. pol = Some p \<longrightarrow> policy_appraise pe p (sr_platform_info report))"
  using assms
  by (auto simp: snp_chain_steps_def snp_rooted_def snp_platform_state_def verify_vcek_chain_def
      split: option.splits list.splits if_splits)

lemma snp_verified:
  assumes "pr_verified r" "''vcek_cert_chain'' \<notin> set (pr_unverified_fields r)"
    and "r = verify_sev_snp_measurement pe m raw_opt (Some hex) chain ark pol"
  shows "\<exists>raw report rd. raw_opt = Some raw \<and> pe_parse_snp_report pe raw = Some report
    \<and> m = sha384_text pe (sr_measurement report) \<and> fromhex (take 128 hex) = Some rd \<and> sr_report_data report = pad64 rd
    \<and> snp_rooted pe raw chain ark \<and> (\<forall>p. pol = Some p \<longrightarrow> policy_appraise pe p (sr_platform_info report))"
  using assms snp_chain_steps_rooted
  by (auto simp: verify_sev_snp_measurement_def Let_def split: option.splits if_splits)

lemma azure_verified:
  assumes "verify_azure_cvm_measurement pe m raw_opt (Some hex) ark pol = Inr r"
    and "pr_verified r" "''vcek_cert_chain'' \<notin> set (pr_unverified_fields r)"
  shows "\<exists>raw env report key nonce. raw_opt = Some raw \<and> parse_envelope pe raw = Some env
    \<and> pe_parse_snp_report pe (az_snp env) = Some report \<and> m = sha384_text pe (sr_measurement report)
    \<and> slice SNP_REPORT_DATA_OFFSET 32 (az_snp env) = pe_sha256 pe (az_runtime env)
    \<and> ak_from_runtime_data pe (az_runtime env) = Some key
    \<and> azure_quote_signature pe (az_quote_msg env) (az_quote_sig env) key = Inr True
    \<and> fromhex hex = Some nonce \<and> extract_extra_data (az_quote_msg env) = Some (pe_sha256 pe nonce)
    \<and> snp_rooted pe (az_snp env) (Some (az_chain_pem env)) ark"
proof -
  from assms(1,2) obtain raw env where re: "raw_opt = Some raw" "parse_envelope pe raw = Some env"
    by (auto simp: verify_azure_cvm_measurement_def split: option.splits)
  from assms(1,2) re obtain report key where b: "azure_bindings pe m env = Inr (report, key)"
    by (auto simp: verify_azure_cvm_measurement_def azure_bindings_def Let_def
        split: option.splits if_splits prod.splits key_kind.splits sum.splits)
  have bs: "pe_parse_snp_report pe (az_snp env) = Some report" "m = sha384_text pe (sr_measurement report)"
    "slice SNP_REPORT_DATA_OFFSET 32 (az_snp env) = pe_sha256 pe (az_runtime env)"
    "ak_from_runtime_data pe (az_runtime env) = Some key"
    using b by (auto simp: azure_bindings_def Let_def split: option.splits if_splits prod.splits key_kind.splits)
  let ?chain = "if az_chain_pem env = [] then None else Some (az_chain_pem env)"
  from assms re b obtain nonce r0 where s: "azure_quote_signature pe (az_quote_msg env) (az_quote_sig env) key = Inr True"
    "fromhex hex = Some nonce" "extract_extra_data (az_quote_msg env) = Some (pe_sha256 pe nonce)"
    "r = snp_chain_steps pe (az_snp env) report ?chain ark pol r0"
    by (auto simp: verify_azure_cvm_measurement_def Let_def bind_result_eq_Inr split: option.splits if_splits)
  have "snp_rooted pe (az_snp env) ?chain ark"
    using snp_chain_steps_rooted assms(2,3) unfolding s(4) by blast
  then have "snp_rooted pe (az_snp env) (Some (az_chain_pem env)) ark"
    by (auto simp: snp_rooted_def split: if_splits)
  with re bs s(1-3) show ?thesis by blast
qed

text \<open>A quote whose signature chain reaches the pinned Intel root.\<close>

definition tdx_rooted :: "platform_env \<Rightarrow> bytes option \<Rightarrow> bytes option \<Rightarrow> bytes \<Rightarrow> bool" where
  "tdx_rooted pe quote root_pem rd \<longleftrightarrow>
     (\<exists>q p pq. quote = Some q \<and> root_pem = Some p \<and> parse_td_quote pe q = Inr pq
        \<and> tdx_quote_failure pe (pq_sig pq) p = None \<and> pq_report_data pq = pad64 rd)"

lemma tdx_verified:
  assumes "verify_tdx_measurement pe m raw_opt (Some hex) q root_pem = Inr r"
    and "pr_verified r" "''dcap_quote_signature'' \<notin> set (pr_unverified_fields r)"
  shows "\<exists>raw rd. raw_opt = Some raw \<and> m = sha384_text pe (td_mrtd raw) \<and> fromhex (take 128 hex) = Some rd
    \<and> td_report_data raw = pad64 rd \<and> tdx_rooted pe q root_pem rd"
proof -
  from assms(1,2) obtain raw rd r0 where p: "raw_opt = Some raw" "m = sha384_text pe (td_mrtd raw)"
    "fromhex (take 128 hex) = Some rd" "td_report_data raw = pad64 rd"
    "tdx_quote_steps pe (Some hex) q root_pem r0 = Inr r"
    by (auto simp: verify_tdx_measurement_def Let_def REPORT_DATA_SIZE_def split: option.splits if_splits)
  have "tdx_rooted pe q root_pem rd"
  proof (cases "q = None \<or> root_pem = None")
    case True
    with p(5) assms(3) show ?thesis by (auto simp: tdx_quote_steps_def split: option.splits if_splits)
  next
    case False
    then obtain qq rr where qr: "q = Some qq" "root_pem = Some rr" by auto
    with p(5) obtain v where v: "verify_tdx_quote pe qq rr (Some hex) = Inr v"
      "r = (let r1 = pr_debit (pr_unverified_fields v) (pr_credit (pr_verified_fields v) r0) in
            if pr_verified v then r1 else r1\<lparr>pr_verified := False, pr_failure_reason := pr_failure_reason v\<rparr>)"
      by (auto simp: tdx_quote_steps_def bind_result_eq_Inr Let_def)
    have "pr_verified v" using v(2) assms(2) by (auto simp: Let_def split: if_splits)
    with v(1) p(3) show ?thesis
      by (auto simp: verify_tdx_quote_def tdx_rooted_def qr tdx_fail_def Let_def split: sum.splits option.splits if_splits)
  qed
  with p show ?thesis by blast
qed

lemma tpm_verified:
  assumes "pr_verified (verify_tpm_measurement pe m raw_opt qd)"
  shows "\<exists>raw q. raw_opt = Some raw \<and> pe_parse_tpm_quote pe raw = Some q \<and> fromhex (drop 7 m) = Some (tq_pcr_digest q)
    \<and> qd = Some (tq_qualifying_data q)"
  using assms
  by (auto simp: verify_tpm_measurement_def valid_measurement_def parse_tpm2b_attest_def Let_def
      split: option.splits if_splits)

lemma tpm_chain_ok:
  assumes "tpm_chain pe raw qs ak ek ca st = (True, links, st')"
  shows "\<exists>r s c p. raw = Some r \<and> qs = Some s \<and> ak = Some c \<and> ca = Some p
    \<and> verify_ak_ek_chain pe c p ek = Some links \<and> verify_quote_signature pe r s (leaf_public_key_pem pe c)"
  using assms by (auto simp: tpm_chain_def split: option.splits if_splits)

lemma tpm_chain_clean: "tpm_chain pe raw qs ak ek ca st = (ok, links, st') \<Longrightarrow> clean st' \<Longrightarrow> clean st"
  by (auto simp: tpm_chain_def split: option.splits if_splits)

lemma tpm_chain_hw:
  "tpm_chain pe raw qs ak ek ca st = (ok, links, st') \<Longrightarrow>
   ''hardware_attestation'' \<in> set (vs_unverified st') \<longleftrightarrow> ''hardware_attestation'' \<in> set (vs_unverified st)"
  by (auto simp: tpm_chain_def split: option.splits if_splits)

text \<open>What the evidence of each platform must establish. In every case the signed data commit the claim's nonce or
  key and the claim's measurement, except that for TDX the measurement is read from the report beside the quote.\<close>

definition snp_evidence :: "platform_env \<Rightarrow> verify_options \<Rightarrow> jdict \<Rightarrow> jdict \<Rightarrow> string \<Rightarrow> bool" where
  "snp_evidence pe opts claim runtime m \<longleftrightarrow>
     (\<exists>hex raw chain report rd. platform_report_data (dget runtime ''nonce'') = Some hex
        \<and> evidence_field claim runtime ''raw_evidence'' = Inr (Some raw) \<and> evidence_field claim runtime ''cert_chain'' = Inr chain
        \<and> pe_parse_snp_report pe raw = Some report \<and> m = sha384_text pe (sr_measurement report)
        \<and> fromhex (take 128 hex) = Some rd \<and> sr_report_data report = pad64 rd
        \<and> snp_rooted pe raw chain (vo_trusted_ark_pem opts))"

definition azure_evidence :: "platform_env \<Rightarrow> verify_options \<Rightarrow> jdict \<Rightarrow> jdict \<Rightarrow> string \<Rightarrow> bool" where
  "azure_evidence pe opts claim runtime m \<longleftrightarrow>
     (\<exists>hex raw env report key nonce. platform_report_data (dget runtime ''nonce'') = Some hex
        \<and> evidence_field claim runtime ''raw_evidence'' = Inr (Some raw) \<and> parse_envelope pe raw = Some env
        \<and> pe_parse_snp_report pe (az_snp env) = Some report \<and> m = sha384_text pe (sr_measurement report)
        \<and> slice SNP_REPORT_DATA_OFFSET 32 (az_snp env) = pe_sha256 pe (az_runtime env)
        \<and> ak_from_runtime_data pe (az_runtime env) = Some key
        \<and> azure_quote_signature pe (az_quote_msg env) (az_quote_sig env) key = Inr True
        \<and> fromhex hex = Some nonce \<and> extract_extra_data (az_quote_msg env) = Some (pe_sha256 pe nonce)
        \<and> snp_rooted pe (az_snp env) (Some (az_chain_pem env)) (vo_trusted_ark_pem opts))"

definition tdx_evidence :: "platform_env \<Rightarrow> verify_options \<Rightarrow> jdict \<Rightarrow> jdict \<Rightarrow> string \<Rightarrow> bool" where
  "tdx_evidence pe opts claim runtime m \<longleftrightarrow>
     (\<exists>hex raw quote rd. platform_report_data (dget runtime ''nonce'') = Some hex
        \<and> evidence_field claim runtime ''raw_evidence'' = Inr (Some raw) \<and> raw_quote runtime = Inr quote
        \<and> m = sha384_text pe (td_mrtd raw) \<and> fromhex (take 128 hex) = Some rd \<and> td_report_data raw = pad64 rd
        \<and> tdx_rooted pe quote (vo_trusted_intel_root_pem opts) rd)"

definition tpm_evidence :: "platform_env \<Rightarrow> crypto \<Rightarrow> verify_options \<Rightarrow> jdict \<Rightarrow> jdict \<Rightarrow> string \<Rightarrow> bool" where
  "tpm_evidence pe cy opts claim runtime m \<longleftrightarrow>
     (\<exists>raw q x sig chain ek ca links. evidence_field claim runtime ''raw_evidence'' = Inr (Some raw)
        \<and> pe_parse_tpm_quote pe raw = Some q \<and> fromhex (drop 7 m) = Some (tq_pcr_digest q)
        \<and> py_path (JObj claim) [''trace'', ''cnf'', ''jwk'', ''x''] JNull = Inr x
        \<and> tq_qualifying_data q = jwk_thumbprint_sha256 (cy_sha256 cy) x
        \<and> evidence_field claim runtime ''quote_signature'' = Inr (Some sig)
        \<and> evidence_field claim runtime ''cert_chain'' = Inr (Some chain)
        \<and> evidence_field claim runtime ''ek_cert_chain'' = Inr ek \<and> vo_trusted_tpm_ca_pem opts = Some ca
        \<and> verify_ak_ek_chain pe chain ca ek = Some links \<and> verify_quote_signature pe raw sig (leaf_public_key_pem pe chain))"

definition platform_evidence :: "platform_env \<Rightarrow> crypto \<Rightarrow> verify_options \<Rightarrow> jdict \<Rightarrow> jdict \<Rightarrow> bool" where
  "platform_evidence pe cy opts claim runtime \<longleftrightarrow>
     (\<exists>p. dget runtime ''platform'' = JStr p \<and>
       (let m = str_of (dget runtime ''measurement'') in
        p = ''amd-sev-snp'' \<and> snp_evidence pe opts claim runtime m
        \<or> p = ''azure-cvm-sev-snp'' \<and> azure_evidence pe opts claim runtime m
        \<or> p = ''intel-tdx'' \<and> tdx_evidence pe opts claim runtime m
        \<or> p = ''tpm2'' \<and> tpm_evidence pe cy opts claim runtime m))"

lemma platform_outcome_hw:
  "''hardware_attestation'' \<notin> set (vs_unverified (platform_outcome r rooted st)) \<Longrightarrow>
   pr_verified r \<and> rooted \<and> ''hardware_attestation'' \<notin> set (vs_unverified st)
   \<and> ''hardware_attestation'' \<in> set (vs_verified (platform_outcome r rooted st))"
  by (auto simp: platform_outcome_def split: if_splits)

lemma platform_outcome_clean: "clean (platform_outcome r rooted st) \<Longrightarrow> clean st"
  by (auto simp: platform_outcome_def split: if_splits)

lemma measured_text_ok: "measured_text runtime = Inr m \<Longrightarrow> m = str_of (dget runtime ''measurement'')"
  by (cases "map_of runtime ''measurement''"; cases "the (map_of runtime ''measurement'')") (auto simp: measured_text_def)

lemma str_of_default: "str_of (dget_or d k (JStr [])) = str_of (dget d k)"
  by (cases "map_of d k") simp_all

abbreviation rooted_in :: "vstate \<Rightarrow> bool" where
  "rooted_in st \<equiv> ''hardware_attestation'' \<notin> set (vs_unverified st)"

lemma step_snp_rooted:
  assumes "step_snp pe opts hex claim runtime st = Inr st'" "platform_report_data (dget runtime ''nonce'') = Some hex"
  shows "clean st' \<longrightarrow> clean st"
    and "rooted_in st' \<longrightarrow> snp_evidence pe opts claim runtime (str_of (dget runtime ''measurement''))
      \<and> ''hardware_attestation'' \<in> set (vs_verified st')"
proof -
  from assms(1) obtain raw chain m where e: "evidence_field claim runtime ''raw_evidence'' = Inr raw"
    "evidence_field claim runtime ''cert_chain'' = Inr chain" "measured_text runtime = Inr m"
    by (auto simp: step_snp_def bind_result_eq_Inr)
  define r where "r = verify_sev_snp_measurement pe m raw (Some hex) chain (vo_trusted_ark_pem opts) (vo_snp_platform_policy opts)"
  have st': "st' = debit (pr_unverified_fields r) (platform_outcome r (''vcek_cert_chain'' \<notin> set (pr_unverified_fields r)) st)"
    using assms(1) e by (simp add: step_snp_def r_def Let_def)
  show "clean st' \<longrightarrow> clean st" unfolding st' using platform_outcome_clean by auto
  show "rooted_in st' \<longrightarrow> snp_evidence pe opts claim runtime (str_of (dget runtime ''measurement''))
      \<and> ''hardware_attestation'' \<in> set (vs_verified st')"
  proof
    assume "rooted_in st'"
    then have *: "pr_verified r" "''vcek_cert_chain'' \<notin> set (pr_unverified_fields r)" "''hardware_attestation'' \<in> set (vs_verified st')"
      using platform_outcome_hw unfolding st' by auto
    from snp_verified [OF *(1,2) r_def] e assms(2) *(3) measured_text_ok [OF e(3)]
    show "snp_evidence pe opts claim runtime (str_of (dget runtime ''measurement'')) \<and> ''hardware_attestation'' \<in> set (vs_verified st')"
      by (auto simp: snp_evidence_def)
  qed
qed

lemma step_azure_rooted:
  assumes "step_azure pe opts hex claim runtime st = Inr st'" "platform_report_data (dget runtime ''nonce'') = Some hex"
  shows "clean st' \<longrightarrow> clean st"
    and "rooted_in st' \<longrightarrow> azure_evidence pe opts claim runtime (str_of (dget runtime ''measurement''))
      \<and> ''hardware_attestation'' \<in> set (vs_verified st')"
proof -
  from assms(1) obtain raw r where e: "evidence_field claim runtime ''raw_evidence'' = Inr raw"
    "verify_azure_cvm_measurement pe (str_of (dget runtime ''measurement'')) raw (Some hex) (vo_trusted_ark_pem opts)
       (vo_snp_platform_policy opts) = Inr r"
    "st' = debit (pr_unverified_fields r) (platform_outcome r (''vcek_cert_chain'' \<notin> set (pr_unverified_fields r)) st)"
    by (auto simp: step_azure_def bind_result_eq_Inr str_of_default)
  show "clean st' \<longrightarrow> clean st" unfolding e(3) using platform_outcome_clean by auto
  show "rooted_in st' \<longrightarrow> azure_evidence pe opts claim runtime (str_of (dget runtime ''measurement''))
      \<and> ''hardware_attestation'' \<in> set (vs_verified st')"
  proof
    assume "rooted_in st'"
    then have *: "pr_verified r" "''vcek_cert_chain'' \<notin> set (pr_unverified_fields r)" "''hardware_attestation'' \<in> set (vs_verified st')"
      using platform_outcome_hw unfolding e(3) by auto
    from azure_verified [OF e(2) *(1,2)] e(1) assms(2) *(3)
    show "azure_evidence pe opts claim runtime (str_of (dget runtime ''measurement'')) \<and> ''hardware_attestation'' \<in> set (vs_verified st')"
      unfolding azure_evidence_def by blast
  qed
qed

lemma step_tdx_rooted:
  assumes "step_tdx pe opts hex claim runtime st = Inr st'" "platform_report_data (dget runtime ''nonce'') = Some hex"
  shows "clean st' \<longrightarrow> clean st"
    and "rooted_in st' \<longrightarrow> tdx_evidence pe opts claim runtime (str_of (dget runtime ''measurement''))
      \<and> ''hardware_attestation'' \<in> set (vs_verified st')"
proof -
  from assms(1) obtain raw q m r where e: "evidence_field claim runtime ''raw_evidence'' = Inr raw" "raw_quote runtime = Inr q"
    "measured_text runtime = Inr m" "verify_tdx_measurement pe m raw (Some hex) q (vo_trusted_intel_root_pem opts) = Inr r"
    "st' = debit (pr_unverified_fields r) (platform_outcome r (''dcap_quote_signature'' \<notin> set (pr_unverified_fields r)) st)"
    by (auto simp: step_tdx_def bind_result_eq_Inr)
  show "clean st' \<longrightarrow> clean st" unfolding e(5) using platform_outcome_clean by auto
  show "rooted_in st' \<longrightarrow> tdx_evidence pe opts claim runtime (str_of (dget runtime ''measurement''))
      \<and> ''hardware_attestation'' \<in> set (vs_verified st')"
  proof
    assume "rooted_in st'"
    then have *: "pr_verified r" "''dcap_quote_signature'' \<notin> set (pr_unverified_fields r)" "''hardware_attestation'' \<in> set (vs_verified st')"
      using platform_outcome_hw unfolding e(5) by auto
    from tdx_verified [OF e(4) *(1,2)] e(1,2) assms(2) *(3) measured_text_ok [OF e(3)]
    show "tdx_evidence pe opts claim runtime (str_of (dget runtime ''measurement'')) \<and> ''hardware_attestation'' \<in> set (vs_verified st')"
      by (auto simp: tdx_evidence_def)
  qed
qed

lemma step_tpm_rooted:
  assumes "step_tpm pe cy opts claim runtime st = Inr st'"
  shows "clean st' \<longrightarrow> clean st"
    and "rooted_in st' \<longrightarrow> tpm_evidence pe cy opts claim runtime (str_of (dget runtime ''measurement''))
      \<and> ''hardware_attestation'' \<in> set (vs_verified st')"
proof -
  from assms obtain raw x m qs ak ek where e: "evidence_field claim runtime ''raw_evidence'' = Inr raw"
    "py_path (JObj claim) [''trace'', ''cnf'', ''jwk'', ''x''] JNull = Inr x" "measured_text runtime = Inr m"
    "evidence_field claim runtime ''quote_signature'' = Inr qs" "evidence_field claim runtime ''cert_chain'' = Inr ak"
    "evidence_field claim runtime ''ek_cert_chain'' = Inr ek"
    by (auto simp: step_tpm_def bind_result_eq_Inr simp del: py_path.simps)
  define r where "r = verify_tpm_measurement pe m raw (if truthy x then Some (jwk_thumbprint_sha256 (cy_sha256 cy) x) else None)"
  obtain ok links st1 where c: "tpm_chain pe raw qs ak ek (vo_trusted_tpm_ca_pem opts) st = (ok, links, st1)" by (metis prod_cases3)
  have st': "st' = debit (filter (\<lambda>f. f \<notin> set links) (pr_unverified_fields r)) (platform_outcome r ok st1)"
    using assms e c by (simp add: step_tpm_def r_def Let_def del: py_path.simps)
  show "clean st' \<longrightarrow> clean st" unfolding st' using platform_outcome_clean tpm_chain_clean [OF c] by auto
  show "rooted_in st' \<longrightarrow> tpm_evidence pe cy opts claim runtime (str_of (dget runtime ''measurement''))
      \<and> ''hardware_attestation'' \<in> set (vs_verified st')"
  proof
    assume "rooted_in st'"
    then have *: "pr_verified r" "ok" "''hardware_attestation'' \<in> set (vs_verified st')"
      using platform_outcome_hw unfolding st' by auto
    from tpm_verified [OF *(1) [unfolded r_def]] tpm_chain_ok c *(2) e *(3) measured_text_ok [OF e(3)]
    show "tpm_evidence pe cy opts claim runtime (str_of (dget runtime ''measurement'')) \<and> ''hardware_attestation'' \<in> set (vs_verified st')"
      unfolding tpm_evidence_def by (fastforce split: if_splits simp del: py_path.simps)
  qed
qed

lemma step_platform_rooted:
  assumes "step_platform pe cy opts claim runtime st = Inr st'"
  shows "clean st' \<longrightarrow> clean st"
    and "rooted_in st' \<longrightarrow> \<not> is_software_only runtime \<and> platform_evidence pe cy opts claim runtime
      \<and> ''hardware_attestation'' \<in> set (vs_verified st')"
proof -
  let ?p = "dget_or runtime ''platform'' (JStr [])"
  have both: "(clean st' \<longrightarrow> clean st) \<and> (rooted_in st' \<longrightarrow> \<not> is_software_only runtime
      \<and> platform_evidence pe cy opts claim runtime \<and> ''hardware_attestation'' \<in> set (vs_verified st'))"
  proof (cases "is_software_only runtime \<or> (\<forall>s. ?p \<noteq> JStr s)")
    case True
    with assms show ?thesis by (cases ?p) (auto simp: step_platform_def Let_def split: if_splits)
  next
    case False
    then obtain p where p: "?p = JStr p" "\<not> is_software_only runtime" by auto
    have dp: "p \<noteq> [] \<Longrightarrow> dget runtime ''platform'' = JStr p"
      using p(1) by (cases "map_of runtime ''platform''") auto
    have pe: "platform_evidence pe cy opts claim runtime" if "p \<noteq> []"
      "p = ''amd-sev-snp'' \<and> snp_evidence pe opts claim runtime (str_of (dget runtime ''measurement''))
        \<or> p = ''azure-cvm-sev-snp'' \<and> azure_evidence pe opts claim runtime (str_of (dget runtime ''measurement''))
        \<or> p = ''intel-tdx'' \<and> tdx_evidence pe opts claim runtime (str_of (dget runtime ''measurement''))
        \<or> p = ''tpm2'' \<and> tpm_evidence pe cy opts claim runtime (str_of (dget runtime ''measurement''))"
      unfolding platform_evidence_def Let_def using dp [OF that(1)] that(2) by blast
    consider (tpm) "p = ''tpm2''" | (azure) "p = ''azure-cvm-sev-snp''" | (snp) "p = ''amd-sev-snp''" | (tdx) "p = ''intel-tdx''"
      | (other) "p \<notin> {''tpm2'', ''azure-cvm-sev-snp'', ''amd-sev-snp'', ''intel-tdx''}" by blast
    then show ?thesis
    proof cases
      case tpm
      with assms p have "step_tpm pe cy opts claim runtime st = Inr st'" by (simp add: step_platform_def)
      from step_tpm_rooted [OF this] p(2) pe tpm show ?thesis by simp
    next
      case azure
      with assms p show ?thesis
        using step_azure_rooted [of pe opts _ claim runtime st st'] pe
        by (auto simp: step_platform_def split: option.splits)
    next
      case snp
      with assms p show ?thesis
        using step_snp_rooted [of pe opts _ claim runtime st st'] pe
        by (auto simp: step_platform_def split: option.splits)
    next
      case tdx
      with assms p show ?thesis
        using step_tdx_rooted [of pe opts _ claim runtime st st'] pe
        by (auto simp: step_platform_def split: option.splits)
    next
      case other
      with assms p show ?thesis by (auto simp: step_platform_def split: option.splits)
    qed
  qed
  then show "clean st' \<longrightarrow> clean st"
    "rooted_in st' \<longrightarrow> \<not> is_software_only runtime \<and> platform_evidence pe cy opts claim runtime
      \<and> ''hardware_attestation'' \<in> set (vs_verified st')" by blast+
qed

subsection \<open>The whole run\<close>

lemma verdict_cases:
  assumes "verify_trace_claim pe cy validate now opts approved claim = Inr r"
  obtains (malformed) errors where "validate claim = Some errors" "r = malformed_result errors"
  | (checked) runtime st1 st2 st3 st4 st5 st6 st7 age fresh st8 st9 st10 stf where "validate claim = None"
      "step_signature cy claim \<lparr>vs_verified = [''schema''], vs_unverified = [], vs_failure = None\<rparr> = Inr st1"
      "claim_runtime claim = Inr runtime" "step_key_binding cy claim (is_software_only runtime) st1 = Inr st2"
      "step_trusted_key opts claim st2 = Inr st3"
      "step_hash (claimed_policy claim) (ah_policy_bundle_hash approved) ''policy_bundle.hash'' POLICY_HASH_MISMATCH st3 = Inr st4"
      "step_hash (claimed_catalog claim) (ah_tool_catalog_hash approved) ''tool_catalog.hash'' CATALOG_HASH_MISMATCH st4 = Inr st5"
      "step_manifest opts claim st5 = Inr st6" "step_thumbprint claim st6 = Inr st7"
      "check_attestation_freshness now claim (vo_max_attestation_age_seconds opts) = Inr (age, fresh)"
      "step_chain cy claim (is_software_only runtime) (settle fresh ''attestation_freshness'' ATTESTATION_STALE st7) = Inr st8"
      "step_measurement opts claim (is_software_only runtime) st8 = Inr st9"
      "step_platform pe cy opts claim runtime st9 = Inr st10" "stf = step_floor opts (step_launch opts runtime st10)"
      "r = \<lparr>vr_status = final_status stf, vr_verified_fields = vs_verified stf, vr_unverified_fields = vs_unverified stf,
         vr_failure_reason = vs_failure stf, vr_attestation_age_seconds = age, vr_is_attestation_fresh = fresh,
         vr_malformed_field = None\<rparr>"
proof (cases "validate claim")
  case (Some errors)
  with assms malformed show thesis by (simp add: verify_trace_claim_def)
next
  case None
  with assms show thesis
    by (clarsimp simp: verify_trace_claim_def Let_def bind_result_eq_Inr) (rule checked, assumption+, rule refl, simp)
qed

lemma step_launch_clean: "clean (step_launch opts runtime st) \<Longrightarrow> clean st"
  by (auto simp: step_launch_def split: option.splits if_splits)

lemma step_floor_clean: "clean (step_floor opts st) \<Longrightarrow> clean st"
  by (auto simp: step_floor_def Let_def split: if_splits)

lemma step_floor_fields:
  "set (vs_unverified st) \<subseteq> set (vs_unverified (step_floor opts st))" "vs_verified (step_floor opts st) = vs_verified st"
  by (auto simp: step_floor_def Let_def)

lemma step_launch_fields: "set (vs_unverified st) \<subseteq> set (vs_unverified (step_launch opts runtime st))"
  by (auto simp: step_launch_def split: option.splits)

lemma step_launch_pinned:
  assumes "clean (step_launch opts runtime st)" "''launch_measurement'' \<notin> set (vs_unverified (step_launch opts runtime st))"
    and "''hardware_attestation'' \<in> set (vs_verified st)"
  shows "\<exists>ms m. vo_expected_launch_measurements opts = Some ms \<and> m \<in> set ms \<and> dget runtime ''measurement'' = JStr m"
  using assms by (auto simp: step_launch_def split: option.splits)

lemma text_bytes_ok: "text_bytes j = Some b \<longleftrightarrow> (\<exists>s. j = JStr s \<and> b64url_decode s = Some b)"
  by (cases j) (simp_all add: text_bytes_def)

lemma key_bound:
  assumes "verify_key_binding sha256 claim False = Inr b"
  shows "b \<noteq> Not_applicable"
    and "b = Bound \<Longrightarrow> \<exists>x n nb. claim_x claim = Inr (JStr x) \<and> claim_nonce claim = Inr (JStr n) \<and> b64url_decode n = Some nb
       \<and> 32 \<le> length nb \<and> take 32 nb = jwk_thumbprint_sha256 sha256 (JStr x)"
  using assms
  by (auto simp: verify_key_binding_def bind_result_eq_Inr text_bytes_ok split: if_splits option.splits)

lemma if_bound [simp]: "(if c then Unbound e else Bound) = Bound \<longleftrightarrow> \<not> c" "(if c then Unbound e else Bound) \<noteq> Not_applicable"
  by simp_all

lemma committed_half_bound:
  assumes "committed_half claim False f = Inr b" "\<And>x. f x \<noteq> Not_applicable"
  shows "b \<noteq> Not_applicable"
    and "b = Bound \<Longrightarrow> \<exists>n nb. claim_nonce claim = Inr (JStr n) \<and> b64url_decode n = Some nb \<and> 64 \<le> length nb
       \<and> f (take 32 (drop 32 nb)) = Bound"
  using assms
  by (auto simp: committed_half_def bind_result_eq_Inr text_bytes_ok split: if_splits option.splits)

lemma chain_bound:
  assumes "check_audit_chain_binding sha256 claim False = Inr b"
  shows "b \<noteq> Not_applicable"
    and "b = Bound \<Longrightarrow> \<exists>rt rb n nb. py_path (JObj claim) [''gateway'', ''audit_chain'', ''root''] (JStr []) = Inr (JStr rt)
       \<and> fromhex (removeprefix ''sha384:'' (removeprefix ''sha256:'' rt)) = Some rb
       \<and> claim_nonce claim = Inr (JStr n) \<and> b64url_decode n = Some nb \<and> 64 \<le> length nb \<and> take 32 (drop 32 nb) = sha256 rb"
proof -
  from assms obtain j where j: "py_path (JObj claim) [''gateway'', ''audit_chain'', ''root''] (JStr []) = Inr j"
    by (auto simp: check_audit_chain_binding_def bind_result_eq_Inr simp del: py_path.simps)
  have "b \<noteq> Not_applicable \<and> (b = Bound \<longrightarrow> (\<exists>rt rb n nb. j = JStr rt
      \<and> fromhex (removeprefix ''sha384:'' (removeprefix ''sha256:'' rt)) = Some rb
      \<and> claim_nonce claim = Inr (JStr n) \<and> b64url_decode n = Some nb \<and> 64 \<le> length nb \<and> take 32 (drop 32 nb) = sha256 rb))"
  proof (cases j)
    case (JStr rt)
    show ?thesis
    proof (cases "truthy j \<and> fromhex (removeprefix ''sha384:'' (removeprefix ''sha256:'' rt)) \<noteq> None")
      case True
      then obtain rb where rb: "fromhex (removeprefix ''sha384:'' (removeprefix ''sha256:'' rt)) = Some rb" "truthy j" by auto
      with assms j JStr have "committed_half claim False (\<lambda>actual. if actual \<noteq> sha256 rb then Unbound Root_not_committed else Bound) = Inr b"
        by (simp add: check_audit_chain_binding_def del: py_path.simps cong: if_cong)
      from committed_half_bound [OF this] rb JStr show ?thesis by auto
    qed (use assms j JStr in \<open>auto simp: check_audit_chain_binding_def simp del: py_path.simps split: if_splits\<close>)
  qed (use assms j in \<open>auto simp: check_audit_chain_binding_def simp del: py_path.simps split: if_splits\<close>)
  with j show "b \<noteq> Not_applicable" "b = Bound \<Longrightarrow> \<exists>rt rb n nb. py_path (JObj claim) [''gateway'', ''audit_chain'', ''root''] (JStr []) = Inr (JStr rt)
       \<and> fromhex (removeprefix ''sha384:'' (removeprefix ''sha256:'' rt)) = Some rb
       \<and> claim_nonce claim = Inr (JStr n) \<and> b64url_decode n = Some nb \<and> 64 \<le> length nb \<and> take 32 (drop 32 nb) = sha256 rb"
    by (auto simp del: py_path.simps)
qed

lemma measurement_bound:
  assumes "check_measurement_binding claim d False = Inr b"
  shows "b \<noteq> Not_applicable"
    and "b = Bound \<Longrightarrow> length d = 32 \<and> (\<exists>n nb. claim_nonce claim = Inr (JStr n) \<and> b64url_decode n = Some nb
       \<and> 64 \<le> length nb \<and> take 32 (drop 32 nb) = d)"
proof -
  let ?f = "\<lambda>actual. if actual \<noteq> d then Unbound Measurement_not_committed else Bound"
  have "length d \<noteq> 32 \<and> b = Unbound (Digest_length (length d)) \<or> length d = 32 \<and> committed_half claim False ?f = Inr b"
    using assms by (simp add: check_measurement_binding_def cong: if_cong split: if_splits)
  with committed_half_bound [of claim ?f b]
  show "b \<noteq> Not_applicable"
    "b = Bound \<Longrightarrow> length d = 32 \<and> (\<exists>n nb. claim_nonce claim = Inr (JStr n) \<and> b64url_decode n = Some nb
       \<and> 64 \<le> length nb \<and> take 32 (drop 32 nb) = d)"
    by auto
qed

text \<open>No step takes a verified field back.\<close>

definition kept :: "vstate \<Rightarrow> vstate \<Rightarrow> bool" where
  "kept st st' \<longleftrightarrow> set (vs_verified st) \<subseteq> set (vs_verified st')"

lemma kept_simps [simp]:
  "kept st st" "kept st st' \<Longrightarrow> kept st (credit fs st')" "kept st (debit fs st') \<longleftrightarrow> kept st st'"
  "kept st (blame e st') \<longleftrightarrow> kept st st'" "kept st st' \<Longrightarrow> kept st (settle ok f e st')" 
  "kept st st' \<Longrightarrow> kept st (settle_binding b f e st')" "kept st st' \<Longrightarrow> kept st (platform_outcome r rooted st')"
  by (auto simp: kept_def settle_binding_def platform_outcome_def split: binding.splits)

lemma kept_tpm_chain: "tpm_chain pe raw qs ak ek ca st = (ok, links, st') \<Longrightarrow> kept st st'"
  by (auto simp: tpm_chain_def split: option.splits if_splits)

lemma steps_keep:
  "step_signature cy claim st = Inr st' \<Longrightarrow> kept st st'"
  "step_key_binding cy claim sw st = Inr st' \<Longrightarrow> kept st st'"
  "step_trusted_key opts claim st = Inr st' \<Longrightarrow> kept st st'"
  "step_hash claimed approved f e st = Inr st' \<Longrightarrow> kept st st'"
  "step_manifest opts claim st = Inr st' \<Longrightarrow> kept st st'"
  "step_thumbprint claim st = Inr st' \<Longrightarrow> kept st st'"
  "step_chain cy claim sw st = Inr st' \<Longrightarrow> kept st st'"
  "step_measurement opts claim sw st = Inr st' \<Longrightarrow> kept st st'"
proof -
  show "step_signature cy claim st = Inr st' \<Longrightarrow> kept st st'" by (auto simp: step_signature_def bind_result_eq_Inr)
  show "step_key_binding cy claim sw st = Inr st' \<Longrightarrow> kept st st'"
    by (cases "verify_key_binding (cy_sha256 cy) claim sw"; cases "projr (verify_key_binding (cy_sha256 cy) claim sw)")
       (auto simp: step_key_binding_def kept_def)
  show "step_trusted_key opts claim st = Inr st' \<Longrightarrow> kept st st'"
    by (cases "claim_x claim"; cases "vo_trusted_public_key_hex opts"; cases "the (vo_trusted_public_key_hex opts)")
       (auto simp: step_trusted_key_def Let_def)
  show "step_hash claimed approved f e st = Inr st' \<Longrightarrow> kept st st'" by (auto simp: step_hash_def bind_result_eq_Inr)
  show "step_manifest opts claim st = Inr st' \<Longrightarrow> kept st st'"
    by (auto simp: step_manifest_def bind_result_eq_Inr split: if_splits)
  show "step_thumbprint claim st = Inr st' \<Longrightarrow> kept st st'"
    by (cases "agent_identity claim"; cases "projr (agent_identity claim)") (auto simp: step_thumbprint_def split: if_splits)
  show "step_chain cy claim sw st = Inr st' \<Longrightarrow> kept st st'" by (auto simp: step_chain_def bind_result_eq_Inr split: if_splits)
  show "step_measurement opts claim sw st = Inr st' \<Longrightarrow> kept st st'"
    by (auto simp: step_measurement_def bind_result_eq_Inr split: option.splits)
qed

lemma step_platform_keeps:
  assumes "step_platform pe cy opts claim runtime st = Inr st'"
  shows "kept st st'"
proof -
  have "kept st st'" if t: "step_tpm pe cy opts claim runtime st = Inr st'"
  proof -
    obtain raw qs ak ek r where e: "st' = (case tpm_chain pe raw qs ak ek (vo_trusted_tpm_ca_pem opts) st of (chain_ok, links, st1) \<Rightarrow>
        debit (filter (\<lambda>f. f \<notin> set links) (pr_unverified_fields r)) (platform_outcome r chain_ok st1))"
      using t unfolding step_tpm_def bind_result_eq_Inr Let_def case_prod_beta sum.inject by metis
    obtain ok links st1 where "tpm_chain pe raw qs ak ek (vo_trusted_tpm_ca_pem opts) st = (ok, links, st1)" by (metis prod_cases3)
    with e kept_tpm_chain [OF this] show ?thesis by simp
  qed
  moreover have "kept st st'" if "step_azure pe opts h claim runtime st = Inr st'" for h
    using that by (auto simp: step_azure_def bind_result_eq_Inr)
  moreover have "kept st st'" if "step_snp pe opts h claim runtime st = Inr st'" for h
    using that by (auto simp: step_snp_def bind_result_eq_Inr Let_def)
  moreover have "kept st st'" if "step_tdx pe opts h claim runtime st = Inr st'" for h
    using that by (auto simp: step_tdx_def bind_result_eq_Inr)
  ultimately show ?thesis
    using assms by (cases "dget_or runtime ''platform'' (JStr [])")
      (auto simp: step_platform_def Let_def split: option.splits if_splits)
qed

lemma step_launch_keeps: "kept st (step_launch opts runtime st)"
  by (simp add: step_launch_def split: option.split)

text \<open>The report data in the claim commit its key and its audit chain root.\<close>

definition report_commits :: "(bytes \<Rightarrow> bytes) \<Rightarrow> jdict \<Rightarrow> bool" where
  "report_commits sha256 claim \<longleftrightarrow>
     (\<exists>x rt rb n nb. claim_x claim = Inr (JStr x) \<and> claim_nonce claim = Inr (JStr n) \<and> b64url_decode n = Some nb
        \<and> py_path (JObj claim) [''gateway'', ''audit_chain'', ''root''] (JStr []) = Inr (JStr rt)
        \<and> fromhex (removeprefix ''sha384:'' (removeprefix ''sha256:'' rt)) = Some rb
        \<and> take 64 nb = jwk_thumbprint_sha256 sha256 (JStr x) @ sha256 rb)"

lemma commits_halves:
  assumes "verify_key_binding sha256 claim False = Inr Bound" "check_audit_chain_binding sha256 claim False = Inr Bound"
  shows "report_commits sha256 claim"
proof -
  obtain x n nb where k: "claim_x claim = Inr (JStr x)" "claim_nonce claim = Inr (JStr n)" "b64url_decode n = Some nb"
    "take 32 nb = jwk_thumbprint_sha256 sha256 (JStr x)"
    using key_bound(2) [OF assms(1) refl] by blast
  obtain rt rb where c: "py_path (JObj claim) [''gateway'', ''audit_chain'', ''root''] (JStr []) = Inr (JStr rt)"
    "fromhex (removeprefix ''sha384:'' (removeprefix ''sha256:'' rt)) = Some rb" "take 32 (drop 32 nb) = sha256 rb"
    using chain_bound(2) [OF assms(2) refl] k(2,3) by auto
  have "take 64 nb = take 32 nb @ take 32 (drop 32 nb)" using take_add [of 32 32 nb] by simp
  with k c show ?thesis unfolding report_commits_def by auto
qed

lemma verified_run:
  assumes "verify_trace_claim pe cy validate now opts approved claim = Inr r" "vr_status r = VERIFIED"
  obtains runtime where "validate claim = None" "claim_runtime claim = Inr runtime" "\<not> is_software_only runtime"
    "verify_claim_signature cy claim = Inr Signature_ok" "verify_key_binding (cy_sha256 cy) claim False = Inr Bound"
    "check_audit_chain_binding (cy_sha256 cy) claim False = Inr Bound" "platform_evidence pe cy opts claim runtime"
    "\<exists>s. claimed_policy claim = Inr (JStr s) \<and> removeprefix ''sha256:'' s = removeprefix ''sha256:'' (ah_policy_bundle_hash approved)"
    "\<exists>s. claimed_catalog claim = Inr (JStr s) \<and> removeprefix ''sha256:'' s = removeprefix ''sha256:'' (ah_tool_catalog_hash approved)"
    "vr_is_attestation_fresh r"
    "\<exists>ms m. vo_expected_launch_measurements opts = Some ms \<and> m \<in> set ms \<and> dget runtime ''measurement'' = JStr m"
    "\<And>v. vo_expected_gateway_measurement opts = Some v \<Longrightarrow>
       \<exists>d. coerce_measurement_digest v = Some d \<and> check_measurement_binding claim d False = Inr Bound"
  using assms(1)
proof (cases rule: verdict_cases)
  case malformed
  with assms(2) show thesis by (simp add: malformed_result_def)
next
  case (checked runtime st1 st2 st3 st4 st5 st6 st7 age fresh st8 st9 st10 stf)
  let ?sl = "step_launch opts runtime st10"
  have fin: "clean stf" "rooted_in stf" "''launch_measurement'' \<notin> set (vs_unverified stf)"
    using assms(2) unfolding checked(15) by (auto simp: final_status_def clean_def split: option.splits if_splits)
  have cl: "clean ?sl" using fin(1) step_floor_clean unfolding checked(14) by blast
  have sub: "set (vs_unverified ?sl) \<subseteq> set (vs_unverified stf)" unfolding checked(14) by (rule step_floor_fields(1))
  have c10: "clean st10" "rooted_in st10" using cl step_launch_clean step_launch_fields [of st10 opts runtime] sub fin(2) by auto
  have pl: "clean st9" "\<not> is_software_only runtime" "platform_evidence pe cy opts claim runtime"
    "''hardware_attestation'' \<in> set (vs_verified st10)"
    using step_platform_rooted [OF checked(13)] c10 by auto
  have pin: "\<exists>ms m. vo_expected_launch_measurements opts = Some ms \<and> m \<in> set ms \<and> dget runtime ''measurement'' = JStr m"
    using step_launch_pinned [OF cl _ pl(4)] fin(3) sub by blast
  have sw: "is_software_only runtime = False" using pl(2) by simp
  note m = step_measurement_clean [OF checked(12) pl(1), unfolded sw]
  note ch = step_chain_clean [OF checked(11) conjunct1 [OF m], unfolded sw clean_settle]
  have c7: "clean st7" "fresh" using ch by auto
  note t = step_thumbprint_clean [OF checked(9) c7(1)]
  note mf = step_manifest_clean [OF checked(8) t]
  note ca = step_hash_clean [OF checked(7) mf]
  note po = step_hash_clean [OF checked(6) conjunct1 [OF ca]]
  note tk = step_trusted_key_clean [OF checked(5) conjunct1 [OF po]]
  note kb = step_key_binding_clean [OF checked(4) conjunct1 [OF tk], unfolded sw]
  note sg = step_signature_clean [OF checked(2) conjunct1 [OF kb]]
  have "verify_key_binding (cy_sha256 cy) claim False = Inr Bound" using kb key_bound(1) by blast
  moreover have "check_audit_chain_binding (cy_sha256 cy) claim False = Inr Bound" using ch chain_bound(1) by blast
  moreover have "\<exists>d. coerce_measurement_digest v = Some d \<and> check_measurement_binding claim d False = Inr Bound"
    if "vo_expected_gateway_measurement opts = Some v" for v
    using m that measurement_bound(1) by blast
  ultimately show thesis
    using that [of runtime] checked(1,3,15) pl pin sg po ca c7(2) by simp
qed


text \<open>Requiring the gateway measurement contradicts the audit chain binding. Both are compared with bytes 32 to 64
  of the report data, so a claim verified with an expected gateway measurement has a measurement equal to the hash of
  its audit chain root: a verifier that pins the measurement of an approved build can never see its claims verified.\<close>

theorem measurement_pin_forces_root:
  assumes "verify_trace_claim pe cy validate now opts approved claim = Inr r" "vr_status r = VERIFIED"
    and "vo_expected_gateway_measurement opts = Some v"
  shows "\<exists>d rt rb. coerce_measurement_digest v = Some d
    \<and> py_path (JObj claim) [''gateway'', ''audit_chain'', ''root''] (JStr []) = Inr (JStr rt)
    \<and> fromhex (removeprefix ''sha384:'' (removeprefix ''sha256:'' rt)) = Some rb \<and> d = cy_sha256 cy rb"
  using assms(1,2)
proof (rule verified_run)
  assume c: "check_audit_chain_binding (cy_sha256 cy) claim False = Inr Bound"
    and m: "\<And>v. vo_expected_gateway_measurement opts = Some v \<Longrightarrow>
      \<exists>d. coerce_measurement_digest v = Some d \<and> check_measurement_binding claim d False = Inr Bound"
  obtain d where d: "coerce_measurement_digest v = Some d" "check_measurement_binding claim d False = Inr Bound"
    using m [OF assms(3)] by blast
  show ?thesis
    using chain_bound(2) [OF c refl] measurement_bound(2) [OF d(2) refl] d(1) by auto
qed

text \<open>Only a malformed claim is \<open>UNVERIFIED\<close>. A claim that passes the schema is at least
  \<open>PARTIALLY_VERIFIED\<close>, whatever else fails, its signature included, since passing the schema is itself a verified
  field.\<close>

theorem unverified_iff_malformed:
  assumes "verify_trace_claim pe cy validate now opts approved claim = Inr r"
  shows "vr_status r = UNVERIFIED \<longleftrightarrow> validate claim \<noteq> None"
  using assms
proof (cases rule: verdict_cases)
  case malformed
  then show ?thesis by (simp add: malformed_result_def)
next
  case (checked runtime st1 st2 st3 st4 st5 st6 st7 age fresh st8 st9 st10 stf)
  note k = steps_keep(1) [OF checked(2)] steps_keep(2) [OF checked(4)] steps_keep(3) [OF checked(5)]
    steps_keep(4) [OF checked(6)] steps_keep(4) [OF checked(7)] steps_keep(5) [OF checked(8)] steps_keep(6) [OF checked(9)]
    steps_keep(7) [OF checked(11)] steps_keep(8) [OF checked(12)] step_platform_keeps [OF checked(13)]
    step_launch_keeps [of st10 opts runtime]
  have "''schema'' \<in> set (vs_verified stf)"
    using k unfolding checked(14) kept_def step_floor_fields(2) by (auto simp: subset_iff)
  then show ?thesis using checked(1) unfolding checked(15) by (auto simp: final_status_def split: option.splits)
qed

subsection \<open>A concrete verification\<close>

lemma b64_char_alphabet: "n < 64 \<Longrightarrow> b64url_alphabet (b64_char n)"
  by (auto simp: b64_char_def b64url_alphabet_def Let_def)

lemma b64url_alphabet_text: "list_all b64url_alphabet (b64url bs)"
  by (induction bs rule: urlsafe_b64encode.induct) (simp_all add: b64_char_alphabet)

lemma platform_report_data_b64url:
  assumes "length nb = 64"
  shows "platform_report_data (JStr (b64url nb)) = Some (hexlify nb)"
proof -
  have pad: "b64url nb @ ''=='' = urlsafe_b64encode nb" by (rule b64url_pad2) (simp add: assms)
  have "length (b64url nb @ ''=='') = 88" unfolding pad using length_urlsafe_b64encode [of nb] assms by simp
  then have "length (b64url nb) = 86" by simp
  moreover have "b64decode (b64url nb @ ''=='') = Some nb" unfolding pad by simp
  ultimately show ?thesis by (simp add: platform_report_data_def b64url_alphabet_text assms)
qed

definition demo_nonce :: bytes where
  "demo_nonce = pad32 (dumps (JObj [(''crv'', JStr ''Ed25519''), (''kty'', JStr ''OKP''), (''x'', JStr ''a2V5'')])) @ pad32 [CHR 0xAB]"

definition demo_measurement :: string where
  "demo_measurement = ''sha384:'' @ hexlify (replicate 48 (CHR ''h''))"

definition demo_report :: snp_report where
  "demo_report = \<lparr>sr_version = 2, sr_measurement = ''m'', sr_report_data = demo_nonce, sr_signature_algo = 1, sr_platform_info = 0\<rparr>"

definition demo_env :: platform_env where
  "demo_env = \<lparr>pe_sha256 = pad32, pe_sha384 = (\<lambda>_. replicate 48 (CHR ''h'')), pe_loads = (\<lambda>_. None),
     pe_parse_snp_report = (\<lambda>_. Some demo_report), pe_verify_snp_signature = (\<lambda>_ _. Some True),
     pe_ec_curve = (\<lambda>_. Some ''secp384r1''), pe_load_snp_cert_chain = (\<lambda>_. Some (''v'', ''s'', ''a'')),
     pe_load_certs = (\<lambda>_. Some [''a'']), pe_verify_cert_chain = (\<lambda>c r. last c = hd r), pe_appraise = (\<lambda>_ _ _ _. True),
     pe_parse_tpm_quote = (\<lambda>_. None), pe_parse_tpmt_signature = (\<lambda>_. None), pe_load_public_key = (\<lambda>_. None),
     pe_key_verify = (\<lambda>_ _ _ _ _. False), pe_leaf_public_key_pem = (\<lambda>_. None), pe_has_eku = (\<lambda>_ _. False),
     pe_basic_ca = (\<lambda>_. None), pe_parse_tdx_quote_signature = (\<lambda>_. None), pe_p256_point = (\<lambda>_. False),
     pe_p256_verify = (\<lambda>_ _ _ _. False), pe_cert_p256_verify = (\<lambda>_ _ _ _. False), pe_load_cert = (\<lambda>_. None),
     pe_dcap_reachable = False, pe_rsa_of = (\<lambda>_ _. None), pe_verify_tpm_quote = (\<lambda>_ _ _ _ _ _. None)\<rparr>"

definition demo_runtime :: jdict where
  "demo_runtime = [(''platform'', JStr ''amd-sev-snp''), (''measurement'', JStr demo_measurement), (''nonce'', JStr (b64url demo_nonce))]"

definition demo_claim :: jdict where
  "demo_claim =
     [(''trace'', JObj [(''runtime'', JObj demo_runtime), (''cnf'', JObj [(''jwk'', JObj [(''x'', JStr ''a2V5'')])]),
        (''policy'', JObj [(''bundle_hash'', JStr ''sha256:p'')])]),
      (''gateway'', JObj [(''audit_chain'', JObj [(''root'', JStr ''ab''), (''tip'', JStr ''ab''), (''length'', JInt 1)]),
        (''catalog'', JObj [(''hash'', JStr ''c'')]), (''attestation_generated_at'', JStr ''2026-01-01T00:00:00+00:00''),
        (''attestation_evidence'', JObj [(''raw_evidence'', JStr (b64url (replicate 1184 (CHR ''r'')))),
           (''cert_chain'', JStr ''a2V5'')])]),
      (''signature'', JStr ''a2V5'')]"

definition demo_opts :: verify_options where
  "demo_opts = \<lparr>vo_max_attestation_age_seconds = 60, vo_trusted_public_key_hex = None, vo_agent_manifest_given = False,
     vo_manifest_keys_given = False, vo_manifest_binding = (\<lambda>_ _ _. None), vo_trusted_ark_pem = Some ''ark'',
     vo_trusted_intel_root_pem = None, vo_trusted_tpm_ca_pem = None,
     vo_expected_gateway_measurement = Some (Digest_bytes (pad32 [CHR 0xAB])), vo_snp_platform_policy = None,
     vo_expected_launch_measurements = Some [demo_measurement]\<rparr>"

definition demo_hashes :: approved_hashes where
  "demo_hashes = \<lparr>ah_policy_bundle_hash = ''p'', ah_tool_catalog_hash = ''sha256:c''\<rparr>"

lemma demo_lengths [simp]: "length demo_nonce = 64" "length (hexlify (replicate 48 (CHR ''h''))) = 96"
  by (simp_all add: demo_nonce_def)

lemma demo_nonempty [simp]: "demo_nonce \<noteq> []"
  by (metis demo_lengths(1) list.size(3) zero_neq_numeral)

lemma demo_signature: "verify_claim_signature sample_crypto demo_claim = Inr Signature_ok"
  by (simp add: verify_claim_signature_def demo_claim_def sample_crypto_def key_rejected_def sample_signature truthy_def Let_def)

lemma demo_paths:
  "claim_x demo_claim = Inr (JStr ''a2V5'')" "claim_nonce demo_claim = Inr (JStr (b64url demo_nonce))"
  "py_path (JObj demo_claim) [''gateway'', ''audit_chain'', ''root''] (JStr []) = Inr (JStr ''ab'')"
  "claimed_policy demo_claim = Inr (JStr ''sha256:p'')" "claimed_catalog demo_claim = Inr (JStr ''c'')"
  "agent_identity demo_claim = Inr JNull" "claim_runtime demo_claim = Inr demo_runtime"
  "check_audit_chain demo_claim = Inr True"
  by (simp_all add: claim_x_def claim_nonce_def demo_claim_def demo_runtime_def claimed_policy_def claimed_catalog_def
      agent_identity_def claim_runtime_def check_audit_chain_def truthy_def less_than_one_def)

lemma demo_sw: "is_software_only demo_runtime = False"
  by (simp add: is_software_only_def demo_runtime_def)

lemma demo_fresh: "check_attestation_freshness sample_time demo_claim 60 = Inr (0, True)"
proof -
  have "read_iso ''2026-01-01T00:00:00+00:00'' = Aware (dt_micros sample_time)" by code_simp
  then show ?thesis by (simp add: check_attestation_freshness_def demo_claim_def whole_seconds_def)
qed

lemma demo_evidence:
  "evidence_field demo_claim demo_runtime ''raw_evidence'' = Inr (Some (replicate 1184 (CHR ''r'')))"
  "evidence_field demo_claim demo_runtime ''cert_chain'' = Inr (Some ''key'')"
  by (simp_all add: evidence_field_def demo_claim_def py_or_def truthy_def decode_evidence_def sample_signature)

lemma demo_key: "verify_key_binding pad32 demo_claim False = Inr Bound"
proof -
  have "take 32 demo_nonce = jwk_thumbprint_sha256 pad32 (JStr ''a2V5'')" by (simp add: demo_nonce_def jwk_thumbprint_sha256_def)
  then show ?thesis by (simp add: verify_key_binding_def demo_paths text_bytes_def sample_signature truthy_def)
qed

lemma demo_root: "check_audit_chain_binding pad32 demo_claim False = Inr Bound"
proof -
  have "fromhex (removeprefix ''sha384:'' (removeprefix ''sha256:'' ''ab'')) = Some [CHR 0xAB]" by code_simp
  moreover have "drop 32 demo_nonce = pad32 [CHR 0xAB]" by (simp add: demo_nonce_def)
  ultimately show ?thesis
    by (simp add: check_audit_chain_binding_def demo_paths truthy_def committed_half_def text_bytes_def del: py_path.simps)
qed

lemma demo_bound: "check_measurement_binding demo_claim (pad32 [CHR 0xAB]) False = Inr Bound"
proof -
  have "drop 32 demo_nonce = pad32 [CHR 0xAB]" by (simp add: demo_nonce_def)
  then show ?thesis by (simp add: check_measurement_binding_def demo_paths truthy_def committed_half_def text_bytes_def)
qed

lemma demo_snp:
  "verify_sev_snp_measurement demo_env demo_measurement (Some (replicate 1184 (CHR ''r''))) (Some (hexlify demo_nonce)) (Some ''key'')
     (Some ''ark'') None
   = \<lparr>pr_verified = True, pr_verified_fields = [''measurement'', ''report_data'', ''vcek_cert_chain'', ''report_signature''],
      pr_unverified_fields = [], pr_failure_reason = None\<rparr>"
proof -
  have "starts_with ''sha384:'' demo_measurement" "length (drop 7 demo_measurement) = 96"
    "sha384_text demo_env (sr_measurement demo_report) = demo_measurement"
    by (simp_all add: demo_measurement_def starts_with_def sha384_text_def demo_env_def)
  moreover have "pad64 demo_nonce = demo_nonce" by (simp add: pad64_def)
  moreover have "take 128 (hexlify demo_nonce) = hexlify demo_nonce" by simp
  ultimately show ?thesis
    by (simp add: verify_sev_snp_measurement_def Let_def demo_env_def demo_report_def snp_chain_steps_def verify_vcek_chain_def
        verify_snp_report_signature_def snp_platform_state_def SNP_REPORT_LEN_def SNP_SIG_OFFSET_def SNP_SIG_COMPONENT_LEN_def
        SIG_ALGO_ECDSA_P384_SHA384_def pr_start_def pr_credit_def)
qed

lemma demo_platform:
  "step_platform demo_env sample_crypto demo_opts demo_claim demo_runtime st =
     Inr (debit [] (credit [''hardware_attestation'', ''measurement'', ''report_data'', ''vcek_cert_chain'', ''report_signature''] st))"
proof -
  have f: "dget_or demo_runtime ''platform'' (JStr []) = JStr ''amd-sev-snp''" "dget demo_runtime ''nonce'' = JStr (b64url demo_nonce)"
    "measured_text demo_runtime = Inr demo_measurement"
    by (simp_all add: demo_runtime_def measured_text_def)
  show ?thesis
    by (simp add: step_platform_def f demo_sw platform_report_data_b64url step_snp_def demo_evidence demo_opts_def demo_snp
        platform_outcome_def)
qed

lemma demo_steps:
  "step_signature sample_crypto demo_claim st = Inr (credit [''signature''] st)"
  "step_key_binding sample_crypto demo_claim False st = Inr (credit [''public_key_binding''] st)"
  "step_trusted_key demo_opts demo_claim st = Inr st"
  "step_hash (claimed_policy demo_claim) (ah_policy_bundle_hash demo_hashes) f e st = Inr (credit [f] st)"
  "step_hash (claimed_catalog demo_claim) (ah_tool_catalog_hash demo_hashes) f e st = Inr (credit [f] st)"
  "step_manifest demo_opts demo_claim st = Inr st" "step_thumbprint demo_claim st = Inr st"
  "step_chain sample_crypto demo_claim False st = Inr (credit [''audit_chain_binding''] (credit [''audit_chain''] st))"
  "step_measurement demo_opts demo_claim False st = Inr (credit [''measurement_binding''] st)"
proof -
  have sha: "cy_sha256 sample_crypto = pad32" by (simp add: sample_crypto_def)
  show "step_signature sample_crypto demo_claim st = Inr (credit [''signature''] st)"
    by (simp add: step_signature_def demo_signature settle_def)
  show "step_key_binding sample_crypto demo_claim False st = Inr (credit [''public_key_binding''] st)"
    by (simp add: step_key_binding_def sha demo_key)
  show "step_trusted_key demo_opts demo_claim st = Inr st" by (simp add: step_trusted_key_def demo_paths demo_opts_def)
  show "step_hash (claimed_policy demo_claim) (ah_policy_bundle_hash demo_hashes) f e st = Inr (credit [f] st)"
    "step_hash (claimed_catalog demo_claim) (ah_tool_catalog_hash demo_hashes) f e st = Inr (credit [f] st)"
    by (simp_all add: step_hash_def demo_paths bare_hash_def removeprefix_def starts_with_def demo_hashes_def settle_def)
  show "step_manifest demo_opts demo_claim st = Inr st" "step_thumbprint demo_claim st = Inr st"
    by (simp_all add: step_manifest_def step_thumbprint_def demo_opts_def demo_paths)
  show "step_chain sample_crypto demo_claim False st = Inr (credit [''audit_chain_binding''] (credit [''audit_chain''] st))"
    by (simp add: step_chain_def sha demo_paths demo_root settle_binding_def)
  show "step_measurement demo_opts demo_claim False st = Inr (credit [''measurement_binding''] st)"
    by (simp add: step_measurement_def demo_opts_def coerce_measurement_digest_def demo_bound settle_binding_def)
qed

lemma demo_launch:
  "''hardware_attestation'' \<in> set (vs_verified st) \<Longrightarrow> step_floor demo_opts (step_launch demo_opts demo_runtime st) = credit [''launch_measurement''] st"
  by (simp add: step_floor_def step_launch_def demo_opts_def demo_runtime_def settle_def)

lemma demo_verified:
  "\<exists>r. verify_trace_claim demo_env sample_crypto (\<lambda>_. None) sample_time demo_opts demo_hashes demo_claim = Inr r \<and> vr_status r = VERIFIED"
proof -
  have age: "vo_max_attestation_age_seconds demo_opts = 60" by (simp add: demo_opts_def)
  show ?thesis
    by (simp add: verify_trace_claim_def demo_steps demo_paths(7) demo_sw age demo_fresh demo_platform demo_launch)
       (simp add: final_status_def credit_def debit_def settle_def)
qed


theorem measurement_pin_forces_root_witness:
  "\<exists>r d rb. verify_trace_claim demo_env sample_crypto (\<lambda>_. None) sample_time demo_opts demo_hashes demo_claim = Inr r
     \<and> vr_status r = VERIFIED \<and> coerce_measurement_digest (Digest_bytes (pad32 [CHR 0xAB])) = Some d \<and> d = cy_sha256 sample_crypto rb"
proof -
  have "vo_expected_gateway_measurement demo_opts = Some (Digest_bytes (pad32 [CHR 0xAB]))" by (simp add: demo_opts_def)
  with demo_verified measurement_pin_forces_root
      [of demo_env sample_crypto "\<lambda>_. None" sample_time demo_opts demo_hashes demo_claim _ "Digest_bytes (pad32 [CHR 0xAB])"]
  show ?thesis by blast
qed

theorem unverified_iff_malformed_witness:
  "\<exists>r. verify_trace_claim demo_env sample_crypto (\<lambda>_. None) sample_time demo_opts demo_hashes demo_claim = Inr r
     \<and> vr_status r \<noteq> UNVERIFIED"
  using demo_verified unverified_iff_malformed [of demo_env sample_crypto "\<lambda>_. None" sample_time demo_opts demo_hashes demo_claim]
  by blast

end
