(* ===== verification/Event_Log.thy ===== *)
theory Event_Log
  imports Verify_Platform Hash_Chain "HOL-Library.While_Combinator"
begin

text \<open>
  The TCG event log of \<open>cmcp_verify/tcg_event_log.py\<close>: the parser of the
  crypto-agile format, the replay of its measurements into PCR values and the
  comparison with what a TPM reports. The offset into the log is kept as the
  bytes from it on. The loop over the events is a \<^const>\<open>while_option\<close>, whose
  result \<open>None\<close> would be a parser that does not return. Results: it always
  returns, what it returns is well typed, what a writer of the format writes
  is read back, and a log that verifies is the log of what the TPM measured.
\<close>

subsection \<open>Constants and data\<close>

definition EV_NO_ACTION :: nat where "EV_NO_ACTION = 3"

text \<open>\<open>_HASHES\<close> and \<open>_ALG_NAMES\<close>: the name of an algorithm and the size of its digests.\<close>

definition HASHES :: "nat \<Rightarrow> (string \<times> nat) option" where
  "HASHES alg =
     (if alg = 0x04 then Some (''sha1'', 20) else if alg = 0x0B then Some (''sha256'', 32)
      else if alg = 0x0C then Some (''sha384'', 48) else if alg = 0x0D then Some (''sha512'', 64) else None)"

definition SPEC_ID_SIGNATURE :: bytes where
  "SPEC_ID_SIGNATURE = ''Spec ID Event03'' @ [CHR 0x00]"

datatype event_log_error =
    Log_too_short | Header_truncated | Unexpected_header nat nat | No_spec_id | Spec_id_no_count
  | No_algorithms | Spec_id_truncated | Event_no_count | Event_no_algorithm | Undeclared_algorithm nat
  | Digest_truncated | Event_no_size | Event_truncated | Unsupported_algorithm nat | No_digest nat

record event_log_entry =
  el_pcr_index :: nat
  el_event_type :: nat
  el_digests :: "nat \<Rightarrow> bytes option"
  el_event_data :: bytes

definition extends :: "event_log_entry \<Rightarrow> bool" where
  "extends e \<longleftrightarrow> el_event_type e \<noteq> EV_NO_ACTION"

record replay_result =
  rr_algorithm :: string
  rr_computed :: "nat \<Rightarrow> bytes option"
  rr_matched :: "nat list"
  rr_mismatched :: "nat list"
  rr_absent_from_log :: "nat list"

definition rr_verified :: "replay_result \<Rightarrow> bool" where
  "rr_verified r \<longleftrightarrow> rr_mismatched r = [] \<and> rr_absent_from_log r = []"

definition starting_value :: "nat \<Rightarrow> nat \<Rightarrow> bytes" where
  "starting_value pcr_index digest_size =
     replicate digest_size (if 17 \<le> pcr_index \<and> pcr_index < 23 then CHR 0xFF else CHR 0x00)"

subsection \<open>The parser\<close>

abbreviation u16 :: "bytes \<Rightarrow> nat" where "u16 b \<equiv> le_nat (take 2 b)"
abbreviation u32 :: "bytes \<Rightarrow> nat" where "u32 b \<equiv> le_nat (take 4 b)"

fun parse_algorithms :: "nat \<Rightarrow> bytes \<Rightarrow> (nat \<Rightarrow> nat option) \<Rightarrow> event_log_error + (nat \<Rightarrow> nat option)" where
  "parse_algorithms 0 rest sizes = Inr sizes"
| "parse_algorithms (Suc n) rest sizes =
     (if length rest < 4 then Inl Spec_id_truncated
      else parse_algorithms n (drop 4 rest) (sizes(u16 rest \<mapsto> u16 (drop 2 rest))))"

definition parse_spec_id :: "bytes \<Rightarrow> event_log_error + (nat \<Rightarrow> nat option)" where
  "parse_spec_id event_data =
     (if \<not> starts_with SPEC_ID_SIGNATURE event_data then Inl No_spec_id
      else let rest = drop 24 event_data in
        if length rest < 4 then Inl Spec_id_no_count
        else if u32 rest = 0 then Inl No_algorithms
        else parse_algorithms (u32 rest) (drop 4 rest) Map.empty)"

fun parse_digests :: "(nat \<Rightarrow> nat option) \<Rightarrow> nat \<Rightarrow> bytes \<Rightarrow> (nat \<Rightarrow> bytes option)
  \<Rightarrow> event_log_error + (bytes \<times> (nat \<Rightarrow> bytes option))" where
  "parse_digests sizes 0 rest digests = Inr (rest, digests)"
| "parse_digests sizes (Suc n) rest digests =
     (if length rest < 2 then Inl Event_no_algorithm
      else case sizes (u16 rest) of
        None \<Rightarrow> Inl (Undeclared_algorithm (u16 rest))
      | Some sz \<Rightarrow>
          if length (drop 2 rest) < sz then Inl Digest_truncated
          else parse_digests sizes n (drop (2 + sz) rest) (digests(u16 rest \<mapsto> take sz (drop 2 rest))))"

text \<open>One turn of the loop: the entry at the front and the bytes behind it.\<close>

definition parse_event :: "(nat \<Rightarrow> nat option) \<Rightarrow> bytes \<Rightarrow> event_log_error + (bytes \<times> event_log_entry)" where
  "parse_event sizes rest =
     (if length rest < 12 then Inl Event_no_count
      else bind_result (parse_digests sizes (u32 (drop 8 rest)) (drop 12 rest) Map.empty) (\<lambda>(r, digests).
        if length r < 4 then Inl Event_no_size
        else if length (drop 4 r) < u32 r then Inl Event_truncated
        else Inr (drop (4 + u32 r) r,
          \<lparr>el_pcr_index = u32 rest, el_event_type = u32 (drop 4 rest), el_digests = digests,
           el_event_data = take (u32 r) (drop 4 r)\<rparr>)))"

type_synonym loop_state = "event_log_error + (bytes \<times> event_log_entry list)"

definition loop_runs :: "loop_state \<Rightarrow> bool" where
  "loop_runs st = (case st of Inl _ \<Rightarrow> False | Inr (rest, _) \<Rightarrow> rest \<noteq> [])"

definition loop_body :: "(nat \<Rightarrow> nat option) \<Rightarrow> loop_state \<Rightarrow> loop_state" where
  "loop_body sizes st =
     bind_result st (\<lambda>(rest, entries). bind_result (parse_event sizes rest) (\<lambda>(r, e). Inr (r, entries @ [e])))"

definition parse_events :: "(nat \<Rightarrow> nat option) \<Rightarrow> bytes \<Rightarrow> (event_log_error + event_log_entry list) option" where
  "parse_events sizes rest =
     map_option (\<lambda>st. bind_result st (\<lambda>(_, entries). Inr entries))
       (while_option loop_runs (loop_body sizes) (Inr (rest, [])))"

definition parse_header :: "bytes \<Rightarrow> event_log_error + (bytes \<times> (nat \<Rightarrow> nat option))" where
  "parse_header data =
     (if length data < 32 then Inl Log_too_short
      else let event_size = u32 (drop 28 data); rest = drop 32 data in
        if length rest < event_size then Inl Header_truncated
        else if u32 data \<noteq> 0 \<or> u32 (drop 4 data) \<noteq> EV_NO_ACTION
        then Inl (Unexpected_header (u32 data) (u32 (drop 4 data)))
        else bind_result (parse_spec_id (take event_size rest)) (\<lambda>sizes. Inr (drop event_size rest, sizes)))"

definition parse_event_log :: "bytes \<Rightarrow> (event_log_error + (event_log_entry list \<times> (nat \<Rightarrow> nat option))) option" where
  "parse_event_log data =
     (case parse_header data of
        Inl e \<Rightarrow> Some (Inl e)
      | Inr (rest, sizes) \<Rightarrow>
          map_option (\<lambda>r. bind_result r (\<lambda>entries. Inr (entries, sizes))) (parse_events sizes rest))"

subsection \<open>Replay\<close>

text \<open>The hash functions of the standard library are an argument, by algorithm identifier.\<close>

type_synonym hashers = "nat \<Rightarrow> bytes \<Rightarrow> bytes"

fun replay_entries :: "(bytes \<Rightarrow> bytes) \<Rightarrow> nat \<Rightarrow> nat \<Rightarrow> (nat \<Rightarrow> bytes option) \<Rightarrow> event_log_entry list
  \<Rightarrow> event_log_error + (nat \<Rightarrow> bytes option)" where
  "replay_entries hasher algorithm sz pcrs [] = Inr pcrs"
| "replay_entries hasher algorithm sz pcrs (e # es) =
     (if \<not> extends e then replay_entries hasher algorithm sz pcrs es
      else case el_digests e algorithm of
        None \<Rightarrow> Inl (No_digest (el_pcr_index e))
      | Some d \<Rightarrow>
          let i = el_pcr_index e; current = (case pcrs i of None \<Rightarrow> starting_value i sz | Some v \<Rightarrow> v)
          in replay_entries hasher algorithm sz (pcrs(i \<mapsto> hasher (current @ d))) es)"

definition replay_pcrs :: "hashers \<Rightarrow> event_log_entry list \<Rightarrow> nat \<Rightarrow> event_log_error + (nat \<Rightarrow> bytes option)" where
  "replay_pcrs hs entries algorithm =
     (case HASHES algorithm of
        None \<Rightarrow> Inl (Unsupported_algorithm algorithm)
      | Some (_, sz) \<Rightarrow> replay_entries (hs algorithm) algorithm sz Map.empty entries)"

text \<open>\<open>reported_pcrs\<close> is a dictionary, given as its items. An algorithm with no name has been refused by the
  replay.\<close>

definition compare_pcrs :: "string \<Rightarrow> (nat \<Rightarrow> bytes option) \<Rightarrow> (nat \<times> bytes) list \<Rightarrow> replay_result" where
  "compare_pcrs name computed reported =
     (let items = sort_key fst reported
      in \<lparr>rr_algorithm = name, rr_computed = computed,
          rr_matched = map fst (filter (\<lambda>(i, v). computed i = Some v) items),
          rr_mismatched = map fst (filter (\<lambda>(i, v). computed i \<noteq> None \<and> computed i \<noteq> Some v) items),
          rr_absent_from_log = map fst (filter (\<lambda>(i, v). computed i = None) items)\<rparr>)"

definition verify_event_log :: "hashers \<Rightarrow> bytes \<Rightarrow> (nat \<times> bytes) list \<Rightarrow> nat \<Rightarrow> (event_log_error + replay_result) option" where
  "verify_event_log hs data reported algorithm =
     map_option (\<lambda>parsed. bind_result parsed (\<lambda>(entries, _).
         bind_result (replay_pcrs hs entries algorithm) (\<lambda>computed.
           Inr (compare_pcrs (case HASHES algorithm of Some (n, _) \<Rightarrow> n | None \<Rightarrow> []) computed reported))))
       (parse_event_log data)"

subsection \<open>The loop returns\<close>

lemma le_nat_bound: "le_nat b < 256 ^ length b"
proof (induction b)
  case (Cons c b)
  have step: "a + 256 * m < 256 * x" if "a < 256" "m < x" for a m x :: nat using that by simp
  have "of_char c + 256 * le_nat b < 256 * 256 ^ length b"
    by (rule step) (rule of_char_less, rule Cons)
  then show ?case by simp
qed simp

lemma u32_bound [simp]: "u32 b < 4294967296" and u16_bound [simp]: "u16 b < 65536"
proof -
  have "le_nat (take n b) < 256 ^ n" for n
    by (rule order.strict_trans2 [OF le_nat_bound]) (simp add: power_increasing)
  from this [of 4] this [of 2] show "u32 b < 4294967296" "u16 b < 65536" by simp_all
qed

lemma parse_digests_consumes: "parse_digests sizes n rest ds = Inr (r, ds') \<Longrightarrow> length r \<le> length rest"
  by (induction sizes n rest ds rule: parse_digests.induct) (auto split: if_splits option.splits)

lemma parse_event_consumes: "parse_event sizes rest = Inr (r, e) \<Longrightarrow> length r + 16 \<le> length rest"
  by (auto simp: parse_event_def bind_result_eq_Inr split: if_splits dest!: parse_digests_consumes)

text \<open>The events one after the other, as a recursion on the bytes that remain.\<close>

function read_events :: "(nat \<Rightarrow> nat option) \<Rightarrow> bytes \<Rightarrow> event_log_error + event_log_entry list" where
  "read_events sizes rest =
     (if rest = [] then Inr []
      else case parse_event sizes rest of
        Inl x \<Rightarrow> Inl x
      | Inr (r, e) \<Rightarrow> bind_result (read_events sizes r) (\<lambda>es. Inr (e # es)))"
  by auto
termination by (relation "measure (\<lambda>(_, rest). length rest)") (auto dest: parse_event_consumes)

declare read_events.simps [simp del]

lemma events_loop:
  "while_option loop_runs (loop_body sizes) (Inr (rest, acc)) =
     Some (case read_events sizes rest of Inl x \<Rightarrow> Inl x | Inr es \<Rightarrow> Inr ([], acc @ es))"
proof (induction sizes rest arbitrary: acc rule: read_events.induct)
  case (1 sizes rest)
  have stop: "while_option loop_runs (loop_body sizes) (Inl x) = Some (Inl x)" for x
    by (subst while_option_unfold) (simp add: loop_runs_def)
  show ?case
  proof (cases "rest = []")
    case True
    then show ?thesis by (subst while_option_unfold) (simp add: loop_runs_def read_events.simps)
  next
    case False
    show ?thesis
    proof (cases "parse_event sizes rest")
      case (Inl x)
      with False show ?thesis
        by (subst while_option_unfold) (simp add: loop_runs_def loop_body_def read_events.simps stop)
    next
      case (Inr p)
      obtain r e where p: "p = (r, e)" by (cases p)
      have "while_option loop_runs (loop_body sizes) (Inr (rest, acc)) =
          while_option loop_runs (loop_body sizes) (Inr (r, acc @ [e]))"
        using False Inr p by (subst while_option_unfold) (simp add: loop_runs_def loop_body_def)
      also have "\<dots> = Some (case read_events sizes r of Inl x \<Rightarrow> Inl x | Inr es \<Rightarrow> Inr ([], (acc @ [e]) @ es))"
        using 1 [OF False Inr p [symmetric]] .
      finally show ?thesis
        using False Inr p by (cases "read_events sizes r") (simp_all add: read_events.simps [of sizes rest])
    qed
  qed
qed

lemma parse_events_eq: "parse_events sizes rest = Some (read_events sizes rest)"
  by (cases "read_events sizes rest") (simp_all add: parse_events_def events_loop)

lemma parse_event_log_eq:
  "parse_event_log data =
     Some (bind_result (parse_header data) (\<lambda>(rest, sizes).
       bind_result (read_events sizes rest) (\<lambda>entries. Inr (entries, sizes))))"
  by (cases "parse_header data") (auto simp: parse_event_log_def parse_events_eq split: prod.splits)

lemma read_events_length: "read_events sizes rest = Inr es \<Longrightarrow> 16 * length es \<le> length rest"
proof (induction sizes rest arbitrary: es rule: read_events.induct)
  case (1 sizes rest)
  show ?case
  proof (cases "rest = []")
    case True
    with 1 show ?thesis by (simp add: read_events.simps)
  next
    case False
    then obtain r e es' where p: "parse_event sizes rest = Inr (r, e)" "read_events sizes r = Inr es'" "es = e # es'"
      using "1.prems" by (auto simp: read_events.simps [of sizes rest] bind_result_eq_Inr split: sum.splits)
    show ?thesis using "1.IH" [OF False p(1) refl p(2)] parse_event_consumes [OF p(1)] p(3) by simp
  qed
qed

text \<open>C35: The parser returns on every input, a hostile one included: the loop over the events ends, and an accepted
  log has at most one event for every sixteen bytes behind its 32-byte header, whatever the counts in it say.\<close>

theorem parse_event_log_returns:
  "\<exists>r. parse_event_log data = Some r
     \<and> (case r of Inl _ \<Rightarrow> True | Inr (entries, _) \<Rightarrow> 32 + 16 * length entries \<le> length data)"
  by (auto simp: parse_event_log_eq parse_header_def Let_def bind_result_def split: sum.splits if_splits
      dest!: read_events_length)

subsection \<open>What the parser returns\<close>

definition typed_entry :: "(nat \<Rightarrow> nat option) \<Rightarrow> event_log_entry \<Rightarrow> bool" where
  "typed_entry sizes e \<longleftrightarrow>
     el_pcr_index e < 2 ^ 32 \<and> el_event_type e < 2 ^ 32 \<and> length (el_event_data e) < 2 ^ 32
     \<and> (\<forall>alg d. el_digests e alg = Some d \<longrightarrow> sizes alg = Some (length d))"

lemma parse_digests_typed:
  assumes "parse_digests sizes n rest ds = Inr (r, ds')"
    and "\<And>alg d. ds alg = Some d \<Longrightarrow> sizes alg = Some (length d)"
  shows "ds' alg = Some d \<Longrightarrow> sizes alg = Some (length d)"
  using assms
  by (induction sizes n rest ds rule: parse_digests.induct) (fastforce split: if_splits option.splits)+

lemma parse_event_typed: "parse_event sizes rest = Inr (r, e) \<Longrightarrow> typed_entry sizes e"
proof -
  assume "parse_event sizes rest = Inr (r, e)"
  then obtain r' ds where d: "parse_digests sizes (u32 (drop 8 rest)) (drop 12 rest) Map.empty = Inr (r', ds)"
    and e: "e = \<lparr>el_pcr_index = u32 rest, el_event_type = u32 (drop 4 rest), el_digests = ds,
              el_event_data = take (u32 r') (drop 4 r')\<rparr>"
    by (auto simp: parse_event_def bind_result_eq_Inr split: if_splits)
  have "length (take (u32 r') (drop 4 r')) < 4294967296"
    by (rule order.strict_trans1 [OF _ u32_bound [of r']]) simp
  with parse_digests_typed [OF d] e show ?thesis by (auto simp: typed_entry_def simp del: length_take)
qed

lemma read_events_typed: "read_events sizes rest = Inr es \<Longrightarrow> list_all (typed_entry sizes) es"
proof (induction sizes rest arbitrary: es rule: read_events.induct)
  case (1 sizes rest)
  show ?case
  proof (cases "rest = []")
    case True
    with 1 show ?thesis by (simp add: read_events.simps)
  next
    case False
    then obtain r e es' where p: "parse_event sizes rest = Inr (r, e)" "read_events sizes r = Inr es'" "es = e # es'"
      using "1.prems" by (auto simp: read_events.simps [of sizes rest] bind_result_eq_Inr split: sum.splits)
    show ?thesis using "1.IH" [OF False p(1) refl p(2)] parse_event_typed [OF p(1)] p(3) by simp
  qed
qed

lemma parsed_cases:
  assumes "parse_event_log data = Some (Inr (entries, sizes))"
  obtains rest where "parse_header data = Inr (rest, sizes)" "read_events sizes rest = Inr entries"
  using assms by (auto simp: parse_event_log_eq bind_result_eq_Inr)

lemma parse_algorithms_typed:
  assumes "parse_algorithms n rest sizes = Inr sizes'" "\<forall>alg sz. sizes alg = Some sz \<longrightarrow> alg < 65536 \<and> sz < 65536"
  shows "\<forall>alg sz. sizes' alg = Some sz \<longrightarrow> alg < 65536 \<and> sz < 65536"
  using assms
proof (induction n rest sizes rule: parse_algorithms.induct)
  case (2 n rest sizes)
  have "\<forall>alg sz. (sizes(u16 rest \<mapsto> u16 (drop 2 rest))) alg = Some sz \<longrightarrow> alg < 65536 \<and> sz < 65536"
    using "2.prems"(2) by simp
  moreover have "\<not> length rest < 4" "parse_algorithms n (drop 4 rest) (sizes(u16 rest \<mapsto> u16 (drop 2 rest))) = Inr sizes'"
    using "2.prems"(1) by (simp_all split: if_splits)
  ultimately show ?case by (rule "2.IH" [rotated 2])
qed simp

text \<open>C36: What the parser accepts is typed by the log's own header: algorithm identifiers and digest sizes are 16-bit
  numbers, every event has 32-bit PCR index, event type and data size, and each digest it carries is of an algorithm the header
  declares and has exactly the size declared for it.\<close>

theorem parsed_log_is_typed:
  assumes "parse_event_log data = Some (Inr (entries, sizes))"
  shows "list_all (typed_entry sizes) entries \<and> (\<forall>alg sz. sizes alg = Some sz \<longrightarrow> alg < 2 ^ 16 \<and> sz < 2 ^ 16)"
proof -
  from assms obtain rest where r: "parse_header data = Inr (rest, sizes)" "read_events sizes rest = Inr entries"
    by (rule parsed_cases)
  from r(1) obtain n s where "parse_algorithms n s Map.empty = Inr sizes"
    by (auto simp: parse_header_def parse_spec_id_def Let_def bind_result_eq_Inr split: if_splits)
  with read_events_typed [OF r(2)] parse_algorithms_typed [of n s Map.empty sizes] show ?thesis by auto
qed

subsection \<open>Writing a log\<close>

text \<open>The format, as a writer of logs sees it. An event is its PCR, type, digests in the order they are written, and
  data; a repeated algorithm counts with its last digest.\<close>

fun le_bytes :: "nat \<Rightarrow> nat \<Rightarrow> bytes" where
  "le_bytes 0 x = []"
| "le_bytes (Suc n) x = char_of (x mod 256) # le_bytes n (x div 256)"

type_synonym raw_event = "nat \<times> nat \<times> (nat \<times> bytes) list \<times> bytes"

definition write_digests :: "(nat \<times> bytes) list \<Rightarrow> bytes" where
  "write_digests ds = concat (map (\<lambda>(alg, d). le_bytes 2 alg @ d) ds)"

definition write_event :: "raw_event \<Rightarrow> bytes" where
  "write_event = (\<lambda>(pcr, ty, ds, data).
     le_bytes 4 pcr @ le_bytes 4 ty @ le_bytes 4 (length ds) @ write_digests ds @ le_bytes 4 (length data) @ data)"

definition write_spec_id :: "bytes \<Rightarrow> (nat \<times> nat) list \<Rightarrow> bytes" where
  "write_spec_id meta algs =
     SPEC_ID_SIGNATURE @ meta @ le_bytes 4 (length algs) @ concat (map (\<lambda>(alg, sz). le_bytes 2 alg @ le_bytes 2 sz) algs)"

definition write_log :: "bytes \<Rightarrow> bytes \<Rightarrow> (nat \<times> nat) list \<Rightarrow> raw_event list \<Rightarrow> bytes" where
  "write_log sha1 meta algs evs =
     le_bytes 4 0 @ le_bytes 4 EV_NO_ACTION @ sha1 @ le_bytes 4 (length (write_spec_id meta algs)) @ write_spec_id meta algs
     @ concat (map write_event evs)"

definition entry_of :: "raw_event \<Rightarrow> event_log_entry" where
  "entry_of = (\<lambda>(pcr, ty, ds, data).
     \<lparr>el_pcr_index = pcr, el_event_type = ty, el_digests = map_of (rev ds), el_event_data = data\<rparr>)"

definition writable_event :: "(nat \<Rightarrow> nat option) \<Rightarrow> raw_event \<Rightarrow> bool" where
  "writable_event sizes = (\<lambda>(pcr, ty, ds, data).
     pcr < 2 ^ 32 \<and> ty < 2 ^ 32 \<and> length ds < 2 ^ 32 \<and> length data < 2 ^ 32
     \<and> list_all (\<lambda>(alg, d). alg < 2 ^ 16 \<and> sizes alg = Some (length d)) ds)"

lemma length_le_bytes [simp]: "length (le_bytes n x) = n"
  by (induction n arbitrary: x) simp_all

lemma le_nat_le_bytes: "x < 256 ^ n \<Longrightarrow> le_nat (le_bytes n x) = x"
proof (induction n arbitrary: x)
  case (Suc n)
  then have "x div 256 < 256 ^ n" by (simp add: less_mult_imp_div_less mult.commute)
  with Suc.IH show ?case by simp
qed simp

lemma le_nat_le_bytes_fixed [simp]:
  "x < 4294967296 \<Longrightarrow> le_nat (le_bytes 4 x) = x" "x < 65536 \<Longrightarrow> le_nat (le_bytes 2 x) = x"
  using le_nat_le_bytes [of x 4] le_nat_le_bytes [of x 2] by simp_all

lemma le_bytes_Nil [simp]: "le_bytes n x = [] \<longleftrightarrow> n = 0"
  by (cases n) simp_all

lemma parse_digests_write:
  assumes "list_all (\<lambda>(alg, d). alg < 2 ^ 16 \<and> sizes alg = Some (length d)) ds"
  shows "parse_digests sizes (length ds) (write_digests ds @ b) m = Inr (b, m ++ map_of (rev ds))"
  using assms
proof (induction ds arbitrary: m)
  case (Cons p ds)
  obtain alg d where p: "p = (alg, d)" by (cases p)
  have "parse_digests sizes (length (p # ds)) (write_digests (p # ds) @ b) m =
      parse_digests sizes (length ds) (write_digests ds @ b) (m(alg \<mapsto> d))"
    using Cons.prems p by (simp add: write_digests_def)
  also have "\<dots> = Inr (b, m(alg \<mapsto> d) ++ map_of (rev ds))" using Cons by simp
  finally show ?case by (simp add: p map_add_def fun_eq_iff split: option.splits)
qed (simp add: write_digests_def)

lemma parse_event_write:
  assumes "writable_event sizes ev"
  shows "parse_event sizes (write_event ev @ b) = Inr (b, entry_of ev)"
proof -
  obtain pcr ty ds data where ev: "ev = (pcr, ty, ds, data)" by (cases ev)
  have "parse_digests sizes (length ds) (write_digests ds @ le_bytes 4 (length data) @ data @ b) Map.empty =
      Inr (le_bytes 4 (length data) @ data @ b, map_of (rev ds))"
    using assms ev by (simp add: writable_event_def parse_digests_write)
  moreover have "pcr < 2 ^ 32" "ty < 2 ^ 32" "length ds < 2 ^ 32" "length data < 2 ^ 32"
    using assms ev by (simp_all add: writable_event_def)
  ultimately show ?thesis
    by (simp add: parse_event_def write_event_def entry_of_def ev del: parse_digests.simps)
qed

lemma read_events_write:
  "list_all (writable_event sizes) evs \<Longrightarrow> read_events sizes (concat (map write_event evs)) = Inr (map entry_of evs)"
proof (induction evs)
  case (Cons ev evs)
  have "write_event ev @ concat (map write_event evs) \<noteq> []" by (auto simp: write_event_def split: prod.splits)
  with Cons show ?case by (simp add: read_events.simps [of sizes "write_event ev @ _"] parse_event_write)
qed (simp add: read_events.simps)

lemma parse_algorithms_write:
  "list_all (\<lambda>(alg, sz). alg < 2 ^ 16 \<and> sz < 2 ^ 16) algs \<Longrightarrow>
   parse_algorithms (length algs) (concat (map (\<lambda>(alg, sz). le_bytes 2 alg @ le_bytes 2 sz) algs)) m =
     Inr (m ++ map_of (rev algs))"
proof (induction algs arbitrary: m)
  case (Cons p algs)
  then show ?case by (cases p) (simp add: map_add_def fun_eq_iff split: option.splits)
qed simp

lemma parse_written:
  assumes "length sha1 = 20" "length meta = 8" "algs \<noteq> []" "length (write_spec_id meta algs) < 2 ^ 32"
    and "list_all (\<lambda>(alg, sz). alg < 2 ^ 16 \<and> sz < 2 ^ 16) algs"
    and "list_all (writable_event (map_of (rev algs))) evs"
  shows "parse_event_log (write_log sha1 meta algs evs) = Some (Inr (map entry_of evs, map_of (rev algs)))"
proof -
  let ?evs = "concat (map write_event evs)"
  have len: "length (write_spec_id meta algs) = 28 + 4 * length algs"
    using assms(2) by (induction algs) (auto simp: write_spec_id_def SPEC_ID_SIGNATURE_def)
  have "length algs < 2 ^ 32" using assms(4) len by simp
  then have spec: "parse_spec_id (write_spec_id meta algs) = Inr (map_of (rev algs))"
    using assms(2,3,5) by (simp add: parse_spec_id_def write_spec_id_def SPEC_ID_SIGNATURE_def starts_with_def Let_def
        parse_algorithms_write)
  have "parse_header (write_log sha1 meta algs evs) = Inr (?evs, map_of (rev algs))"
    using assms(1,4) spec by (simp add: parse_header_def write_log_def EV_NO_ACTION_def)
  with assms(6) show ?thesis by (simp add: parse_event_log_eq read_events_write)
qed

text \<open>A written log is read back. Whatever log a writer of the format produces, with any declared algorithms, any
  events whose digests have the declared sizes and any header bytes, the parser returns exactly its events, in order, and
  its algorithm table.\<close>

theorem parse_write_log:
  assumes "length sha1 = 20" "length meta = 8" "algs \<noteq> []" "length (write_spec_id meta algs) < 2 ^ 32"
    and "list_all (\<lambda>(alg, sz). alg < 2 ^ 16 \<and> sz < 2 ^ 16) algs"
    and "list_all (writable_event (map_of (rev algs))) evs"
  shows "parse_event_log (write_log sha1 meta algs evs) = Some (Inr (map entry_of evs, map_of (rev algs)))"
  using assms by (rule parse_written)

subsection \<open>What a verified log is\<close>

text \<open>What a TPM does to a PCR, and the inputs it hashes on the way.\<close>

definition tpm_extend :: "(bytes \<Rightarrow> bytes) \<Rightarrow> bytes \<Rightarrow> bytes list \<Rightarrow> bytes" where
  "tpm_extend h v ds = foldl (\<lambda>v d. h (v @ d)) v ds"

fun extend_items :: "(bytes \<Rightarrow> bytes) \<Rightarrow> bytes \<Rightarrow> bytes list \<Rightarrow> (bytes \<times> bytes) list" where
  "extend_items h v [] = []"
| "extend_items h v (d # ds) = (v, d) # extend_items h (h (v @ d)) ds"

abbreviation extend_input :: "bytes \<times> bytes \<Rightarrow> bytes" where
  "extend_input p \<equiv> fst p @ snd p"

fun extend_links :: "(bytes \<Rightarrow> bytes) \<Rightarrow> bytes option \<Rightarrow> (bytes \<times> bytes) list \<Rightarrow> bool" where
  "extend_links h p [] = True"
| "extend_links h p (e # es) \<longleftrightarrow>
     (case p of None \<Rightarrow> True | Some v \<Rightarrow> fst e = v) \<and> extend_links h (Some (h (extend_input e))) es"

interpretation pcr_log: hash_linked h extend_input fst "\<lambda>e. h (extend_input e)" "\<lambda>e. length (fst e) = n" "extend_links h" for h n
  by unfold_locales auto

lemma extend_items_facts:
  "extend_links h (Some v) (extend_items h v ds)"
  "ds \<noteq> [] \<Longrightarrow> h (extend_input (last (extend_items h v ds))) = tpm_extend h v ds"
  "length v = n \<Longrightarrow> (\<And>x. length (h x) = n) \<Longrightarrow> e \<in> set (extend_items h v ds) \<Longrightarrow> length (fst e) = n"
proof -
  show "extend_links h (Some v) (extend_items h v ds)" by (induction ds arbitrary: v) simp_all
  show "h (extend_input (last (extend_items h v ds))) = tpm_extend h v ds" if "ds \<noteq> []"
    using that
  proof (induction ds arbitrary: v)
    case (Cons d ds)
    then show ?case by (cases ds) (simp_all add: tpm_extend_def)
  qed simp
  show "length (fst e) = n" if "length v = n" "\<And>x. length (h x) = n" "e \<in> set (extend_items h v ds)"
    using that(1,3) by (induction ds arbitrary: v) (use that(2) in \<open>auto simp del: length_append\<close>)
qed

lemma extend_items_Nil [simp]: "extend_items h v ds = [] \<longleftrightarrow> ds = []"
  by (cases ds) simp_all

lemma extend_items_inject:
  assumes "length v = n" "\<And>x. length (h x) = n"
    and "map extend_input (extend_items h v ds) = map extend_input (extend_items h v ds')"
  shows "ds = ds'"
  using assms(1,3)
proof (induction ds arbitrary: v ds')
  case (Cons d ds)
  then obtain d' ds'' where d: "ds' = d' # ds''" by (cases ds') auto
  then show ?case using Cons assms(2) by auto
qed (metis extend_items_Nil list.map_disc_iff)

lemma tpm_extend_determines:
  assumes "length v = n" "\<And>x. length (h x) = n" "ds \<noteq> []" "ds' \<noteq> []" "tpm_extend h v ds = tpm_extend h v ds'"
  shows "ds = ds'
    \<or> (\<exists>e\<in>set (extend_items h v ds). \<exists>f\<in>set (extend_items h v ds'). collides h (extend_input e) (extend_input f))
    \<or> (\<exists>e\<in>set (extend_items h v ds) \<union> set (extend_items h v ds'). h (extend_input e) = v)"
proof -
  have none: "extend_links h None es" if "extend_links h (Some w) es" for w es using that by (cases es) auto
  have hd: "fst (hd (extend_items h v xs)) = v" if "xs \<noteq> []" for xs using that by (cases xs) simp_all
  have "map extend_input (extend_items h v ds) = map extend_input (extend_items h v ds')
    \<or> (\<exists>e\<in>set (extend_items h v ds). \<exists>f\<in>set (extend_items h v ds'). collides h (extend_input e) (extend_input f))
    \<or> (\<exists>e\<in>set (extend_items h v ds) \<union> set (extend_items h v ds'). h (extend_input e) = v)"
  proof (rule pcr_log.tip_determines_or_restart [where n = n])
    show "extend_links h None (extend_items h v ds)" "extend_links h None (extend_items h v ds')"
      by (rule none, rule extend_items_facts(1))+
    show "fst (hd (extend_items h v ds)) = v" "fst (hd (extend_items h v ds')) = v"
      using assms(3,4) by (simp_all add: hd)
    show "\<forall>e\<in>set (extend_items h v ds) \<union> set (extend_items h v ds'). length (fst e) = n"
      using extend_items_facts(3) [where h = h, OF assms(1) assms(2)] by blast
    show "h (extend_input (last (extend_items h v ds))) = h (extend_input (last (extend_items h v ds')))"
      using assms(3-5) by (simp add: extend_items_facts(2))
  qed (use assms(3,4) in simp_all)
  then show ?thesis using extend_items_inject [where h = h, OF assms(1) assms(2)] by blast
qed

text \<open>The digests a log records for one PCR, and what the replay makes of them.\<close>

definition logged :: "nat \<Rightarrow> nat \<Rightarrow> event_log_entry list \<Rightarrow> bytes list" where
  "logged algorithm i es = List.map_filter (\<lambda>e. if extends e \<and> el_pcr_index e = i then el_digests e algorithm else None) es"

lemma replay_entries_eq:
  assumes "replay_entries h algorithm n pcrs es = Inr pcrs'"
  shows "pcrs' i = (if logged algorithm i es = [] then pcrs i
    else Some (tpm_extend h (case pcrs i of None \<Rightarrow> starting_value i n | Some v \<Rightarrow> v) (logged algorithm i es)))"
  using assms
proof (induction es arbitrary: pcrs)
  case (Cons e es)
  show ?case
  proof (cases "extends e")
    case False
    with Cons show ?thesis by (simp add: logged_def)
  next
    case True
    then obtain d where d: "el_digests e algorithm = Some d" using Cons.prems by (auto split: option.splits)
    show ?thesis using Cons.prems True d
      by (simp add: Let_def Cons.IH [OF _] logged_def tpm_extend_def split: option.splits)
  qed
qed (simp add: logged_def)

lemma replay_eq:
  assumes "replay_pcrs hs es algorithm = Inr computed" "HASHES algorithm = Some (name, n)"
  shows "computed i = (if logged algorithm i es = [] then None
    else Some (tpm_extend (hs algorithm) (starting_value i n) (logged algorithm i es)))"
  using assms replay_entries_eq [of "hs algorithm" algorithm n Map.empty es computed i] by (simp add: replay_pcrs_def)

text \<open>C27: A log that verifies is the log of what was measured. If the TPM's PCR holds what extending it by the digests
  \<open>ds\<close> leaves, and a log verifies against the reported PCRs, then the digests the log records for that PCR are \<open>ds\<close>, in
  order and complete, or two of the inputs hashed on the two ways collide, or one of them hashes to the PCR's value
  at reset.\<close>

theorem verified_log_is_measured:
  assumes "verify_event_log hs data reported algorithm = Some (Inr r)" "rr_verified r" "HASHES algorithm = Some (name, n)"
    and "\<And>x. length (hs algorithm x) = n"
    and "(i, tpm_extend (hs algorithm) (starting_value i n) ds) \<in> set reported" "ds \<noteq> []"
  shows "\<exists>entries sizes. parse_event_log data = Some (Inr (entries, sizes))
    \<and> (let h = hs algorithm; v = starting_value i n; log_ds = logged algorithm i entries
       in log_ds = ds
         \<or> (\<exists>e\<in>set (extend_items h v log_ds). \<exists>f\<in>set (extend_items h v ds). collides h (extend_input e) (extend_input f))
         \<or> (\<exists>e\<in>set (extend_items h v log_ds) \<union> set (extend_items h v ds). h (extend_input e) = v))"
proof -
  obtain entries sizes computed where p: "parse_event_log data = Some (Inr (entries, sizes))"
    and c: "replay_pcrs hs entries algorithm = Inr computed" and r: "r = compare_pcrs name computed reported"
    using assms(1,3) by (auto simp: verify_event_log_def bind_result_eq_Inr)
  have "computed i = Some (tpm_extend (hs algorithm) (starting_value i n) ds)"
    using assms(2,5) r by (force simp: rr_verified_def compare_pcrs_def Let_def filter_empty_conv)
  then have "logged algorithm i entries \<noteq> []"
    "tpm_extend (hs algorithm) (starting_value i n) (logged algorithm i entries) = tpm_extend (hs algorithm) (starting_value i n) ds"
    using replay_eq [OF c assms(3), of i] by (simp_all split: if_splits)
  from tpm_extend_determines [OF _ assms(4) this(1) assms(6) this(2)] p show ?thesis
    by (auto simp: Let_def starting_value_def)
qed

subsection \<open>A concrete log\<close>

definition demo_hash :: "bytes \<Rightarrow> bytes" where
  "demo_hash x = pad32 (rev x)"

definition demo_digest :: bytes where
  "demo_digest = replicate 32 (CHR ''m'')"

definition demo_algs :: "(nat \<times> nat) list" where
  "demo_algs = [(0x0B, 32)]"

definition demo_events :: "raw_event list" where
  "demo_events = [(0, 8, [(0x0B, demo_digest)], ''firmware''), (4, EV_NO_ACTION, [(0x0B, demo_digest)], [])]"

definition demo_log :: bytes where
  "demo_log = write_log (replicate 20 (CHR 0x00)) (replicate 8 (CHR 0x00)) demo_algs demo_events"

lemma demo_writable:
  "length (write_spec_id (replicate 8 (CHR 0x00)) demo_algs) < 2 ^ 32"
  "list_all (\<lambda>(alg, sz). alg < 2 ^ 16 \<and> sz < 2 ^ 16) demo_algs"
  "list_all (writable_event (map_of (rev demo_algs))) demo_events"
  by (simp_all add: demo_algs_def demo_events_def demo_digest_def write_spec_id_def SPEC_ID_SIGNATURE_def writable_event_def
      EV_NO_ACTION_def)

lemma demo_parsed: "parse_event_log demo_log = Some (Inr (map entry_of demo_events, map_of (rev demo_algs)))"
  unfolding demo_log_def by (rule parse_written) (rule demo_writable | simp add: demo_algs_def)+

lemma demo_verifies:
  "\<exists>r. verify_event_log (\<lambda>_. demo_hash) demo_log [(0, tpm_extend demo_hash (starting_value 0 32) [demo_digest])] 0x0B = Some (Inr r)
     \<and> rr_verified r"
  by (simp add: verify_event_log_def demo_parsed demo_events_def entry_of_def replay_pcrs_def HASHES_def extends_def
      EV_NO_ACTION_def Let_def compare_pcrs_def rr_verified_def tpm_extend_def)

theorem parsed_log_is_typed_witness:
  "parse_event_log demo_log = Some (Inr (map entry_of demo_events, map_of (rev demo_algs)))
    \<and> list_all (typed_entry (map_of (rev demo_algs))) (map entry_of demo_events)"
  using parsed_log_is_typed [OF demo_parsed] demo_parsed by simp

theorem parse_write_log_witness:
  "demo_algs \<noteq> [] \<and> parse_event_log (write_log (replicate 20 (CHR 0x00)) (replicate 8 (CHR 0x00)) demo_algs demo_events)
    = Some (Inr (map entry_of demo_events, map_of (rev demo_algs)))"
proof
  show "demo_algs \<noteq> []" by (simp add: demo_algs_def)
  then show "parse_event_log (write_log (replicate 20 (CHR 0x00)) (replicate 8 (CHR 0x00)) demo_algs demo_events)
      = Some (Inr (map entry_of demo_events, map_of (rev demo_algs)))"
    by (intro parse_write_log demo_writable) simp_all
qed

theorem verified_log_is_measured_witness:
  "\<exists>entries sizes. parse_event_log demo_log = Some (Inr (entries, sizes))
    \<and> (let v = starting_value 0 32; log_ds = logged 0x0B 0 entries; ds = [demo_digest]
       in log_ds = ds
         \<or> (\<exists>e\<in>set (extend_items demo_hash v log_ds). \<exists>f\<in>set (extend_items demo_hash v ds).
              collides demo_hash (extend_input e) (extend_input f))
         \<or> (\<exists>e\<in>set (extend_items demo_hash v log_ds) \<union> set (extend_items demo_hash v ds). demo_hash (extend_input e) = v))"
proof -
  obtain r where r: "verify_event_log (\<lambda>_. demo_hash) demo_log [(0, tpm_extend demo_hash (starting_value 0 32) [demo_digest])] 0x0B
      = Some (Inr r)" "rr_verified r"
    using demo_verifies by blast
  show ?thesis
    using verified_log_is_measured [OF r, of "''sha256''" 32 0 "[demo_digest]"]
    by (simp add: HASHES_def demo_hash_def Let_def)
qed

end
