(* ===== verification/Verify_Refusal.thy ===== *)
theory Verify_Refusal
  imports Verify_Claim Verify_Export
begin

text \<open>
  The check of a kill switch refusal receipt, \<open>cmcp_verify/kill_switch.py\<close>,
  composed with the session manager that issues receipts: a receipt issued
  after the tripped session's claim is accepted against that claim, and a
  receipt is accepted against one claim only.
\<close>

datatype refusal_error =
    Wrong_receipt_type | Claim_signature signature_check | Foreign_key | Receipt_undecodable | Receipt_signature_invalid
  | Receipt_unsigned | Other_session | Kill_switch_not_recorded | Receipt_unbound | Claim_digest_mismatch | Other_agent
  | Not_objects

record kill_switch_refusal_result =
  kr_valid :: bool
  kr_agent_id :: json
  kr_session_id :: json
  kr_refused_at :: json
  kr_errors :: "refusal_error list"

definition REFUSAL_RECEIPT_TYPE :: string where
  "REFUSAL_RECEIPT_TYPE = ''cmcp.kill-switch.refusal/v1''"

text \<open>\<open>claim["trace"]["cnf"]["jwk"]["x"]\<close>, or \<open>None\<close> when a step is missing or not a dictionary.\<close>

definition claim_key :: "jdict \<Rightarrow> json" where
  "claim_key claim =
     (case bind_result (py_item (JObj claim) ''trace'') (\<lambda>t. bind_result (py_item t ''cnf'') (\<lambda>c.
            bind_result (py_item c ''jwk'') (\<lambda>j. py_item j ''x''))) of
        Inl _ \<Rightarrow> JNull
      | Inr x \<Rightarrow> x)"

definition receipt_signature_errors :: "crypto \<Rightarrow> jdict \<Rightarrow> refusal_error list" where
  "receipt_signature_errors cy receipt =
     (case (dget receipt ''gateway_key'', dget receipt ''signature'') of
        (JStr k, JStr s) \<Rightarrow>
          (case (b64url_decode k, b64url_decode s) of
             (Some pub, Some sig) \<Rightarrow>
               if key_rejected cy pub then [Receipt_undecodable]
               else if cy_ed25519 cy pub sig (canonical_json receipt) = Verified then []
               else [Receipt_signature_invalid]
           | _ \<Rightarrow> [Receipt_undecodable])
      | _ \<Rightarrow> [Receipt_unsigned])"

definition digest_errors :: "crypto \<Rightarrow> jdict \<Rightarrow> jdict \<Rightarrow> refusal_error list" where
  "digest_errors cy receipt claim =
     (case dget receipt ''claim_digest'' of
        JStr d \<Rightarrow>
          if d = ''sha256:'' @ hexlify (cy_sha256 cy (canonical_json claim)) then [] else [Claim_digest_mismatch]
      | _ \<Rightarrow> [Receipt_unbound])"

definition refusal_errors :: "crypto \<Rightarrow> jdict \<Rightarrow> jdict \<Rightarrow> signature_check \<Rightarrow> refusal_error list" where
  "refusal_errors cy receipt claim sig =
     (let gateway = (case dget claim ''gateway'' of JObj g \<Rightarrow> g | _ \<Rightarrow> []) in
        (if dget receipt ''type'' = JStr REFUSAL_RECEIPT_TYPE then [] else [Wrong_receipt_type])
      @ (if sig = Signature_ok then [] else [Claim_signature sig])
      @ (case dget receipt ''gateway_key'' of JStr k \<Rightarrow> if claim_key claim = JStr k then [] else [Foreign_key] | _ \<Rightarrow> [Foreign_key])
      @ receipt_signature_errors cy receipt
      @ (if py_eq (dget receipt ''session_id'') (dget gateway ''session_id'') then [] else [Other_session])
      @ (if dget gateway ''kill_switch_triggered'' = JBool True then [] else [Kill_switch_not_recorded])
      @ digest_errors cy receipt claim
      @ (case dget gateway ''agent_identity'' of
           JObj identity \<Rightarrow> if py_eq (dget receipt ''agent_id'') (dget identity ''agent_id'') then [] else [Other_agent]
         | _ \<Rightarrow> []))"

text \<open>An exception is one of \<open>_verify_signature\<close>, which the check does not catch.\<close>

definition verify_kill_switch_refusal :: "crypto \<Rightarrow> json \<Rightarrow> json \<Rightarrow> py_exc + kill_switch_refusal_result" where
  "verify_kill_switch_refusal cy receipt claim =
     (case (receipt, claim) of
        (JObj r, JObj c) \<Rightarrow>
          bind_result (verify_claim_signature cy c) (\<lambda>sig.
            let errors = refusal_errors cy r c sig in
            Inr \<lparr>kr_valid = (errors = []), kr_agent_id = dget r ''agent_id'', kr_session_id = dget r ''session_id'',
                 kr_refused_at = dget r ''refused_at'', kr_errors = errors\<rparr>)
      | _ \<Rightarrow> Inr \<lparr>kr_valid = False, kr_agent_id = JNull, kr_session_id = JNull, kr_refused_at = JNull, kr_errors = [Not_objects]\<rparr>)"

subsection \<open>One receipt, one claim\<close>

definition refusal_accepted :: "crypto \<Rightarrow> jdict \<Rightarrow> jdict \<Rightarrow> bool" where
  "refusal_accepted cy receipt claim \<longleftrightarrow>
     (\<exists>r. verify_kill_switch_refusal cy (JObj receipt) (JObj claim) = Inr r \<and> kr_valid r)"

lemma refusal_errors_signature: "refusal_errors cy receipt claim sig = [] \<Longrightarrow> sig = Signature_ok"
  by (simp add: refusal_errors_def Let_def split: if_splits)

lemma refusal_accepted_iff:
  "refusal_accepted cy receipt claim \<longleftrightarrow>
     verify_claim_signature cy claim = Inr Signature_ok \<and> refusal_errors cy receipt claim Signature_ok = []"
  by (cases "verify_claim_signature cy claim")
    (auto simp: refusal_accepted_def verify_kill_switch_refusal_def Let_def dest: refusal_errors_signature)

lemma digest_errors_Nil:
  "digest_errors cy receipt claim = [] \<longleftrightarrow>
     map_of receipt ''claim_digest'' = Some (JStr (''sha256:'' @ hexlify (cy_sha256 cy (canonical_json claim))))"
  by (auto simp: digest_errors_def dget_or_def split: json.splits option.splits)

lemma refusal_binds_one_claim:
  assumes "refusal_accepted cy receipt c" "refusal_accepted cy receipt d"
  shows "canonical_json c = canonical_json d \<or> collides (cy_sha256 cy) (canonical_json c) (canonical_json d)"
proof -
  have "digest_errors cy receipt c = []" "digest_errors cy receipt d = []"
    using assms by (simp_all add: refusal_accepted_iff refusal_errors_def Let_def)
  then have "cy_sha256 cy (canonical_json c) = cy_sha256 cy (canonical_json d)" by (simp add: digest_errors_Nil)
  then show ?thesis by (auto simp: collides_def)
qed

subsection \<open>Receipts of the gateway\<close>

lemma generated_gateway:
  assumes "generate_trace_claim tm k ci = Inr claim"
  obtains gw where "map_of claim ''gateway'' = Some (JObj gw)"
    "map_of gw ''session_id'' = Some (JStr (ci_session_id ci))"
    "map_of gw ''kill_switch_triggered'' = Some (JBool (ci_kill_switch_triggered ci))"
    "\<And>a. ci_agent_identity ci = Some a \<Longrightarrow>
       \<exists>d. map_of gw ''agent_identity'' = Some (JObj d) \<and> map_of d ''agent_id'' = Some (JStr (ai_agent_id a))"
proof -
  obtain tr aid ps sg where g: "claim = claim_dict tr (JObj (gateway_fields ci aid ps)) sg"
    and a: "(case ci_agent_identity ci of None \<Rightarrow> Inr None | Some a \<Rightarrow> bind_result (build_agent_identity a) (\<lambda>j. Inr (Some j)))
      = (Inr aid :: claim_error + json option)"
    using assms by (auto simp: generate_trace_claim_def build_gateway_def bind_result_eq_Inr)
  have "\<exists>d. aid = Some (JObj d) \<and> map_of d ''agent_id'' = Some (JStr (ai_agent_id x))" if "ci_agent_identity ci = Some x" for x
    using a that by (auto simp: bind_result_eq_Inr build_agent_identity_def split: if_splits)
  then show thesis
    by (intro that [of "gateway_fields ci aid ps"]) (auto simp: g claim_dict_def gateway_fields_def map_add_def)
qed

lemma gateway_claim_signature:
  assumes "generate_trace_claim tm k ci = Inr claim" "claim_sections ci k claim gw tr"
    and "\<not> key_rejected cy (sg_public_bytes k)" "\<And>m. sg_sign k m \<noteq> [] \<and> cy_ed25519 cy (sg_public_bytes k) (sg_sign k m) m = Verified"
  shows "verify_claim_signature cy claim = Inr Signature_ok" "claim_key claim = JStr (b64url (sg_public_bytes k))"
proof -
  have nz: "b64url b \<noteq> []" if "b \<noteq> []" for b using that by (metis b64url_decode_b64url b64url_simps(1) option.inject)
  show "verify_claim_signature cy claim = Inr Signature_ok" "claim_key claim = JStr (b64url (sg_public_bytes k))"
    using assms(2) generate_trace_claim_signature [OF assms(1)] assms(3,4) nz
    by (auto simp: verify_claim_signature_def claim_key_def claim_sections_def Let_def truthy_def)
qed

lemma receipt_errors:
  assumes "key_signs ctx" "\<not> key_rejected (rc_crypto ctx) (sg_public_bytes (rc_signing_key ctx))"
    and "get_trace_claim m sid = Some claim" "map_of claim ''gateway'' = Some (JObj gw)" "map_of gw ''session_id'' = Some (JStr sid)"
    and "map_of gw ''kill_switch_triggered'' = Some (JBool trig)" "claim_key claim = JStr (b64url (sg_public_bytes (rc_signing_key ctx)))"
    and "map_of gw ''agent_identity'' = Some (JObj d)" "map_of d ''agent_id'' = Some (JStr a)"
  shows "refusal_errors (rc_crypto ctx) (refusal_receipt ctx now m a sid) claim Signature_ok = [] \<longleftrightarrow> trig"
proof -
  let ?r = "refusal_receipt ctx now m a sid"
  define body where "body = filter (\<lambda>kv. fst kv \<noteq> ''signature'') ?r"
  have sig: "map_of ?r ''signature'' = Some (JStr (b64url (sg_sign (rc_signing_key ctx) (canonical_json ?r))))"
    by (simp add: refusal_receipt_def Let_def canonical_json_def split: option.split)
  have "map_of ?r ''type'' = Some (JStr REFUSAL_RECEIPT_TYPE)" "map_of ?r ''agent_id'' = Some (JStr a)"
    "map_of ?r ''session_id'' = Some (JStr sid)" "map_of ?r ''gateway_key'' = Some (JStr (b64url (sg_public_bytes (rc_signing_key ctx))))"
    "map_of ?r ''claim_digest'' = Some (JStr (''sha256:'' @ hexlify (cy_sha256 (rc_crypto ctx) (canonical_json claim))))"
    using assms(3) by (simp_all add: refusal_receipt_def Let_def get_trace_claim_def REFUSAL_RECEIPT_TYPE_def)
  moreover from this sig have "receipt_signature_errors (rc_crypto ctx) ?r = []" "digest_errors (rc_crypto ctx) ?r claim = []"
    using assms(1,2) by (simp_all add: receipt_signature_errors_def key_signs_def digest_errors_Nil)
  ultimately show ?thesis
    using assms(4-9) by (simp add: refusal_errors_def Let_def)
qed

text \<open>C34: A kill switch receipt stands or falls with the session it names. Once a session of a bound identity is closed, a
  receipt the gateway issues for that identity and session is accepted against the session's claim exactly when the
  switch stopped that session; and no claim with other contents is accepted with the same receipt, unless SHA-256
  collides on the two.\<close>

theorem refusal_receipt_exact:
  assumes "close_session ctx cr m (ch_session_id c) s c clog slog = (Inr claim, m', s', c')" "close_ready ctx cr m c"
    and "key_signs ctx" "\<not> key_rejected (rc_crypto ctx) (sg_public_bytes (rc_signing_key ctx))" "rc_agent_manifest ctx = Some b"
    and "get_trace_claim m'' (ch_session_id c) = Some claim"
    and "receipt = refusal_receipt ctx now m'' (ab_agent_id b) (ch_session_id c)"
  shows "(refusal_accepted (rc_crypto ctx) receipt claim \<longleftrightarrow> ss_kill_switch_triggered s')
    \<and> (\<forall>d. refusal_accepted (rc_crypto ctx) receipt claim \<longrightarrow> refusal_accepted (rc_crypto ctx) receipt d \<longrightarrow>
      canonical_json claim = canonical_json d \<or> collides (cy_sha256 (rc_crypto ctx)) (canonical_json claim) (canonical_json d))"
proof (intro conjI)
  show "refusal_accepted (rc_crypto ctx) receipt claim \<longleftrightarrow> ss_kill_switch_triggered s'"
    using assms(1)
  proof (cases rule: close_session_cases)
    case (issued claim' e report c1 m0 m1 m2 t rt tip)
    let ?ci = "claim_input_of ctx cr (ch_session_id c) m2 report s (ch_entries c1) clog slog s' c' rt tip"
    have gen: "generate_trace_claim (rc_models ctx) (rc_signing_key ctx) ?ci = Inr claim" using issued(2,10) by simp
    have ks: "pred_option (\<lambda>k. float_text (ki_threshold k)) (ci_kill_switch ?ci)"
      using assms(2) claim_input_kill_switch by (simp add: ctx_ok_def close_ready_def)
    obtain gw0 tr where "claim_sections ?ci (rc_signing_key ctx) claim gw0 tr"
      using generated_sections [OF gen _ ks] assms(2) by (auto simp: close_ready_def)
    from gateway_claim_signature [OF gen this assms(4)]
    have k: "verify_claim_signature (rc_crypto ctx) claim = Inr Signature_ok"
      "claim_key claim = JStr (b64url (sg_public_bytes (rc_signing_key ctx)))"
      using assms(3) by (simp_all add: key_signs_def)
    have ci: "ci_session_id ?ci = ch_session_id c" "ci_kill_switch_triggered ?ci = ss_kill_switch_triggered s'"
      "ci_agent_identity ?ci = Some (agent_identity_of b)"
      using assms(5) by (simp_all add: claim_input_of_def Let_def)
    obtain gw d where "map_of claim ''gateway'' = Some (JObj gw)" "map_of gw ''session_id'' = Some (JStr (ch_session_id c))"
      "map_of gw ''kill_switch_triggered'' = Some (JBool (ss_kill_switch_triggered s'))"
      "map_of gw ''agent_identity'' = Some (JObj d)" "map_of d ''agent_id'' = Some (JStr (ab_agent_id b))"
      using gen by (rule generated_gateway) (use ci in \<open>auto simp: agent_identity_of_def\<close>)
    with receipt_errors [OF assms(3,4,6) this(1,2,3) k(2) this(4,5)] k(1) assms(7) show ?thesis
      by (simp add: refusal_accepted_iff)
  qed (use assms(2) in \<open>simp_all add: close_ready_def is_closing_def\<close>)
qed (use refusal_binds_one_claim in blast)

lemma close_keeps_triggered:
  assumes "close_session ctx cr m sid s c clog slog = (r, m', s', c')" "ss_kill_switch_triggered s"
  shows "r = Inr claim \<Longrightarrow> ss_kill_switch_triggered s'"
  using assms(1)
proof (cases rule: close_session_cases)
  case (issued claim' e report c1 m0 m1 m2 t rt tip)
  from issued(6) assms(2) show ?thesis
    by (elim close_kill_switch_cases count_and_trip_cases) auto
qed (use assms(2) in simp_all)

theorem refusal_receipt_exact_witness:
  "\<exists>c s claim m' s' c'.
     close_session export_ctx sample_close sample_manager (ch_session_id c) s c None None = (Inr claim, m', s', c')
     \<and> refusal_accepted (rc_crypto export_ctx)
         (refusal_receipt export_ctx sample_time m' (ab_agent_id sample_binding) (ch_session_id c)) claim"
proof -
  define s where "s = (new_session_state ''s'' Map.empty)\<lparr>ss_kill_switch_triggered := True\<rparr>"
  obtain c claim m' s' c' where c: "close_ready export_ctx sample_close sample_manager c"
    "close_session export_ctx sample_close sample_manager (ch_session_id c) s c None None = (Inr claim, m', s', c')"
    by (rule export_closed) blast
  have trig: "ss_kill_switch_triggered s'" by (rule close_keeps_triggered [OF c(2) _ refl]) (simp add: s_def)
  have stored: "get_trace_claim m' (ch_session_id c) = Some claim"
    using c(2)
  proof (cases rule: close_session_cases)
    case (issued claim' e report c1 m0 m1 m2 t rt tip)
    then show ?thesis by (simp add: get_trace_claim_def)
  qed (simp_all add: get_trace_claim_def)
  have key: "\<not> key_rejected (rc_crypto export_ctx) (sg_public_bytes (rc_signing_key export_ctx))"
    "rc_agent_manifest export_ctx = Some sample_binding"
    by (simp_all add: key_rejected_def export_ctx_def sample_ctx_def)
  show ?thesis
    using refusal_receipt_exact [OF c(2,1) export_signs key stored refl] trig c(2) by blast
qed

end
