(* ===== verification/Nv_Certify.thy ===== *)
theory Nv_Certify
  imports Verify_Platform
begin

text \<open>
  The appraisal of a gateway measurement that a TPM certified:
  \<open>cmcp_verify/nv_policy.py\<close> (the public template of the measurement index, its
  Name and the verifier's policy) and \<open>cmcp_verify/nv_certify.py\<close> (the envelope
  with two certifications and its check). The TPM wire formats and X.509 belong
  to other packages: \<open>nv_env\<close> extends the functions of \<open>platform_env\<close>.
\<close>

subsection \<open>The measurement index\<close>

text \<open>\<open>n.to_bytes(k, "big")\<close> and \<open>struct.pack(">H")\<close>, \<open>(">I")\<close> for a number in range.\<close>

fun be_bytes :: "nat \<Rightarrow> nat \<Rightarrow> bytes" where
  "be_bytes 0 x = []"
| "be_bytes (Suc k) x = be_bytes k (x div 256) @ [char_of (x mod 256)]"

definition DEFAULT_MEASUREMENT_NV_INDEX :: nat where "DEFAULT_MEASUREMENT_NV_INDEX = 0x01500432"
definition MEASUREMENT_NV_NAME_ALG :: nat where "MEASUREMENT_NV_NAME_ALG = 0x000B"
definition MEASUREMENT_NV_SIZE :: nat where "MEASUREMENT_NV_SIZE = 32"

text \<open>\<open>OWNERWRITE\<close>, \<open>TPM_NT_EXTEND\<close>, \<open>OWNERREAD\<close>, \<open>AUTHREAD\<close>, \<open>NO_DA\<close>: the bits are disjoint, so their union is the sum.\<close>

definition MEASUREMENT_NV_BASE_ATTRIBUTES :: nat where
  "MEASUREMENT_NV_BASE_ATTRIBUTES = 0x00000002 + 0x00000040 + 0x00020000 + 0x00040000 + 0x02000000"

definition MEASUREMENT_NV_WRITTEN_ATTRIBUTES :: nat where
  "MEASUREMENT_NV_WRITTEN_ATTRIBUTES = MEASUREMENT_NV_BASE_ATTRIBUTES + 0x20000000"

text \<open>\<open>None\<close> is the \<open>ValueError\<close> for a number that is no NV handle.\<close>

definition measurement_nv_public_bytes :: "nat \<Rightarrow> bool \<Rightarrow> bytes option" where
  "measurement_nv_public_bytes index written =
     (if \<not> (0x01000000 \<le> index \<and> index \<le> 0x01FFFFFF) then None
      else Some (be_bytes 4 index @ be_bytes 2 MEASUREMENT_NV_NAME_ALG
        @ be_bytes 4 (if written then MEASUREMENT_NV_WRITTEN_ATTRIBUTES else MEASUREMENT_NV_BASE_ATTRIBUTES)
        @ be_bytes 2 0 @ be_bytes 2 MEASUREMENT_NV_SIZE))"

definition measurement_nv_name :: "(bytes \<Rightarrow> bytes) \<Rightarrow> nat \<Rightarrow> bool \<Rightarrow> bytes option" where
  "measurement_nv_name sha256 index written =
     map_option (\<lambda>public. be_bytes 2 MEASUREMENT_NV_NAME_ALG @ sha256 public) (measurement_nv_public_bytes index written)"

record nv_policy =
  np_expected_index_name :: bytes
  np_expected_offset :: int
  np_expected_size :: int
  np_expected_gateway_digest :: bytes

definition nv_policy_validate :: "nv_policy \<Rightarrow> bool" where
  "nv_policy_validate p \<longleftrightarrow>
     length (np_expected_index_name p) = 34 \<and> take 2 (np_expected_index_name p) = be_bytes 2 MEASUREMENT_NV_NAME_ALG
     \<and> np_expected_offset p = 0 \<and> np_expected_size p = int MEASUREMENT_NV_SIZE
     \<and> length (np_expected_gateway_digest p) = 32"

definition for_measurement_index :: "(bytes \<Rightarrow> bytes) \<Rightarrow> bytes \<Rightarrow> nat \<Rightarrow> nv_policy option" where
  "for_measurement_index sha256 expected_gateway_digest index =
     (case measurement_nv_name sha256 index True of
        None \<Rightarrow> None
      | Some name \<Rightarrow>
          let p = \<lparr>np_expected_index_name = name, np_expected_offset = 0, np_expected_size = int MEASUREMENT_NV_SIZE,
                   np_expected_gateway_digest = expected_gateway_digest\<rparr>
          in if nv_policy_validate p then Some p else None)"

subsection \<open>The certify pair\<close>

definition PHASE_PRE :: bytes where "PHASE_PRE = ''pre''"
definition PHASE_POST :: bytes where "PHASE_POST = ''post''"
definition QUALIFYING_PREFIX :: bytes where "QUALIFYING_PREFIX = ''cmcp-nv-certify-v1''"
definition ENVELOPE_VERSION :: int where "ENVELOPE_VERSION = 1"

definition certify_qualifying_data :: "(bytes \<Rightarrow> bytes) \<Rightarrow> bytes \<Rightarrow> bytes \<Rightarrow> bytes" where
  "certify_qualifying_data sha256 nonce phase =
     sha256 (QUALIFYING_PREFIX @ be_bytes 4 (length nonce) @ nonce @ be_bytes 4 (length phase) @ phase)"

record nv_certify_info =
  nc_qualifying_data :: bytes
  nc_index_name :: bytes
  nc_offset :: int
  nc_nv_contents :: bytes
  nc_raw :: bytes

record nv_env = platform_env +
  ne_parse_nv_certify :: "bytes \<Rightarrow> nv_certify_info option"
  ne_cert_key :: "cert \<Rightarrow> key_kind \<times> bytes"

text \<open>\<open>base64.b64encode\<close>.\<close>

definition std_b64encode :: "bytes \<Rightarrow> string" where
  "std_b64encode bs = map (\<lambda>c. if c = CHR ''-'' then CHR ''+'' else if c = CHR ''_'' then CHR ''/'' else c) (urlsafe_b64encode bs)"

definition build_envelope :: "bytes \<Rightarrow> bytes \<Rightarrow> bytes \<Rightarrow> bytes \<Rightarrow> bytes \<Rightarrow> (string \<times> string) list \<Rightarrow> json" where
  "build_envelope pre_attest pre_signature post_attest post_signature gateway_digest components =
     JObj [(''v'', JInt ENVELOPE_VERSION), (''pre_attest'', JStr (std_b64encode pre_attest)),
       (''pre_signature'', JStr (std_b64encode pre_signature)), (''post_attest'', JStr (std_b64encode post_attest)),
       (''post_signature'', JStr (std_b64encode post_signature)), (''gateway_digest'', JStr (hexlify gateway_digest)),
       (''components'', JObj (map (\<lambda>(k, v). (k, JStr v)) components))]"

text \<open>\<open>int(v) == 1\<close>; \<open>None\<close> when \<open>int\<close> raises. A float in exponent form is far from 1 or truncates to 0.\<close>

definition version_ok :: "json \<Rightarrow> bool option" where
  "version_ok j =
     (case j of
        JInt i \<Rightarrow> Some (i = ENVELOPE_VERSION)
      | JBool b \<Rightarrow> Some b
      | JStr s \<Rightarrow> map_option (\<lambda>i. i = ENVELOPE_VERSION) (py_int s)
      | JFloat t \<Rightarrow>
          if t \<in> {''NaN'', ''Infinity'', ''-Infinity''} then None
          else Some (CHR ''e'' \<notin> set t \<and> py_int (takeWhile (\<lambda>c. c \<noteq> CHR ''.'') t) = Some ENVELOPE_VERSION)
      | _ \<Rightarrow> None)"

datatype nv_failure =
    Missing_nv_policy | Invalid_nv_policy | Invalid_expected_nonce | Invalid_legacy_digest | Digest_parameter_mismatch
  | Malformed_envelope | Unsupported_envelope_version | Malformed_nv_certify | Ak_chain_invalid | No_ak_chain | No_trusted_roots
  | Signature_invalid string | Malformed_signature | Pre_binding_mismatch | Post_binding_mismatch
  | Nv_index_name_mismatch string | Nv_offset_mismatch string | Nv_extent_size_mismatch string
  | Gateway_digest_mismatch | Extend_relation_broken

record nv_certify_result =
  nr_verified :: bool
  nr_failure_reason :: "nv_failure option"
  nr_verified_fields :: "string list"

record nv_envelope =
  nv_pre_attest :: bytes
  nv_pre_signature :: bytes
  nv_post_attest :: bytes
  nv_post_signature :: bytes
  nv_claimed_digest :: bytes

definition nv_read_envelope :: "nv_env \<Rightarrow> bytes \<Rightarrow> nv_failure + nv_envelope" where
  "nv_read_envelope ne envelope =
     (case pe_loads ne envelope of
        Some (JObj d) \<Rightarrow>
          (case version_ok (dget_or d ''v'' (JInt 0)) of
             None \<Rightarrow> Inl Malformed_envelope
           | Some False \<Rightarrow> Inl Unsupported_envelope_version
           | Some True \<Rightarrow>
               (case (b64_field d ''pre_attest'', b64_field d ''pre_signature'', b64_field d ''post_attest'',
                      b64_field d ''post_signature'',
                      (case map_of d ''gateway_digest'' of Some (JStr s) \<Rightarrow> fromhex s | _ \<Rightarrow> None)) of
                  (Some a, Some s, Some a', Some s', Some g) \<Rightarrow>
                    Inr \<lparr>nv_pre_attest = a, nv_pre_signature = s, nv_post_attest = a', nv_post_signature = s', nv_claimed_digest = g\<rparr>
                | _ \<Rightarrow> Inl Malformed_envelope))
      | _ \<Rightarrow> Inl Malformed_envelope)"

text \<open>\<open>_verify_signature\<close>, whether it returns.\<close>

definition nv_verify_signature :: "nv_env \<Rightarrow> key_kind \<times> bytes \<Rightarrow> tpmt_signature \<Rightarrow> bytes \<Rightarrow> bool" where
  "nv_verify_signature ne ak sig message =
     (if ts_hash_alg sig \<notin> set HASH_ALGS then False
      else if ts_sig_alg sig = ALG_RSASSA then
        fst ak = RSA_key \<and> pe_key_verify ne (snd ak) PKCS1v15 (ts_hash_alg sig) (ts_signature sig) message
      else if ts_sig_alg sig = ALG_RSAPSS then
        fst ak = RSA_key \<and> pe_key_verify ne (snd ak) PSS (ts_hash_alg sig) (ts_signature sig) message
      else if ts_sig_alg sig = 0x18 then
        fst ak = EC_key \<and> pe_key_verify ne (snd ak) ECDSA (ts_hash_alg sig) (ts_signature sig) message
      else False)"

definition nv_check_signature :: "nv_env \<Rightarrow> key_kind \<times> bytes \<Rightarrow> string \<Rightarrow> nv_certify_info \<Rightarrow> bytes \<Rightarrow> nv_failure option" where
  "nv_check_signature ne ak label info sig =
     (case pe_parse_tpmt_signature ne sig of
        None \<Rightarrow> Some Malformed_signature
      | Some parsed \<Rightarrow> if nv_verify_signature ne ak parsed (nc_raw info) then None else Some (Signature_invalid label))"

definition nv_ak_chain :: "nv_env \<Rightarrow> bytes \<Rightarrow> bytes \<Rightarrow> nv_failure + (key_kind \<times> bytes)" where
  "nv_ak_chain ne ak_chain_pem trusted_roots_pem =
     (case (pe_load_certs ne ak_chain_pem, pe_load_certs ne trusted_roots_pem) of
        (Some chain, Some roots) \<Rightarrow>
          if chain = [] then Inl No_ak_chain
          else if roots = [] then Inl No_trusted_roots
          else if pe_verify_cert_chain ne chain roots then Inr (ne_cert_key ne (hd chain)) else Inl Ak_chain_invalid
      | _ \<Rightarrow> Inl Ak_chain_invalid)"

definition nv_check_range :: "nv_policy \<Rightarrow> string \<Rightarrow> nv_certify_info \<Rightarrow> nv_failure option" where
  "nv_check_range p label info =
     (if nc_index_name info \<noteq> np_expected_index_name p then Some (Nv_index_name_mismatch label)
      else if nc_offset info \<noteq> np_expected_offset p then Some (Nv_offset_mismatch label)
      else if int (length (nc_nv_contents info)) \<noteq> np_expected_size p then Some (Nv_extent_size_mismatch label)
      else None)"

definition nv_fail :: "string list \<Rightarrow> nv_failure \<Rightarrow> nv_certify_result" where
  "nv_fail sofar reason = \<lparr>nr_verified = False, nr_failure_reason = Some reason, nr_verified_fields = sofar\<rparr>"

text \<open>Steps 0 to 2: the verifier's inputs, the envelope, the two certifications.\<close>

definition nv_inputs :: "nv_policy option \<Rightarrow> bytes \<Rightarrow> bytes option \<Rightarrow> nv_failure + nv_policy" where
  "nv_inputs policy expected_nonce legacy =
     (case policy of
        None \<Rightarrow> Inl Missing_nv_policy
      | Some p \<Rightarrow>
          if \<not> nv_policy_validate p then Inl Invalid_nv_policy
          else if length expected_nonce \<noteq> 32 \<and> length expected_nonce \<noteq> 64 then Inl Invalid_expected_nonce
          else (case legacy of
             None \<Rightarrow> Inr p
           | Some d \<Rightarrow>
               if length d \<noteq> 32 then Inl Invalid_legacy_digest
               else if d \<noteq> np_expected_gateway_digest p then Inl Digest_parameter_mismatch
               else Inr p))"

definition nv_certified_pair :: "nv_env \<Rightarrow> nv_envelope \<Rightarrow> (nv_certify_info \<times> nv_certify_info) option" where
  "nv_certified_pair ne env =
     (case (ne_parse_nv_certify ne (nv_pre_attest env), ne_parse_nv_certify ne (nv_post_attest env)) of
        (Some pre, Some post) \<Rightarrow> Some (pre, post)
      | _ \<Rightarrow> None)"

text \<open>Steps 5 to 8 on certifications whose signatures are good: the failure, with the fields verified before it.\<close>

definition nv_appraise :: "nv_env \<Rightarrow> nv_policy \<Rightarrow> bytes \<Rightarrow> bytes \<Rightarrow> nv_certify_info \<Rightarrow> nv_certify_info \<Rightarrow> (string list \<times> nv_failure) option" where
  "nv_appraise ne p expected_nonce claimed pre post =
     (let sha256 = pe_sha256 ne; signed = [''policy'', ''envelope'', ''structure'', ''ak_chain'', ''signatures''] in
      if nc_qualifying_data pre \<noteq> certify_qualifying_data sha256 expected_nonce PHASE_PRE then Some (signed, Pre_binding_mismatch)
      else if nc_qualifying_data post \<noteq> certify_qualifying_data sha256 expected_nonce PHASE_POST then Some (signed, Post_binding_mismatch)
      else case nv_check_range p ''pre'' pre of
        Some f \<Rightarrow> Some (signed @ [''transcript_binding''], f)
      | None \<Rightarrow>
          (case nv_check_range p ''post'' post of
             Some f \<Rightarrow> Some (signed @ [''transcript_binding''], f)
           | None \<Rightarrow>
               if claimed \<noteq> np_expected_gateway_digest p
               then Some (signed @ [''transcript_binding'', ''nv_policy''], Gateway_digest_mismatch)
               else if nc_nv_contents post \<noteq> sha256 (nc_nv_contents pre @ np_expected_gateway_digest p)
               then Some (signed @ [''transcript_binding'', ''nv_policy''], Extend_relation_broken)
               else None))"

definition verify_gateway_measurement ::
  "nv_env \<Rightarrow> bytes \<Rightarrow> bytes \<Rightarrow> bytes \<Rightarrow> bytes \<Rightarrow> nv_policy option \<Rightarrow> bytes option \<Rightarrow> nv_certify_result" where
  "verify_gateway_measurement ne envelope ak_chain_pem trusted_roots_pem expected_nonce policy legacy =
     (case nv_inputs policy expected_nonce legacy of
        Inl f \<Rightarrow> nv_fail [] f
      | Inr p \<Rightarrow>
          (case nv_read_envelope ne envelope of
             Inl f \<Rightarrow> nv_fail [''policy''] f
           | Inr env \<Rightarrow>
               (case nv_certified_pair ne env of
                  None \<Rightarrow> nv_fail [''policy'', ''envelope''] Malformed_nv_certify
                | Some (pre, post) \<Rightarrow>
                    (case nv_ak_chain ne ak_chain_pem trusted_roots_pem of
                       Inl f \<Rightarrow> nv_fail [''policy'', ''envelope'', ''structure''] f
                     | Inr ak \<Rightarrow>
                         (case nv_check_signature ne ak ''pre'' pre (nv_pre_signature env) of
                            Some f \<Rightarrow> nv_fail [''policy'', ''envelope'', ''structure'', ''ak_chain''] f
                          | None \<Rightarrow>
                              (case nv_check_signature ne ak ''post'' post (nv_post_signature env) of
                                 Some f \<Rightarrow> nv_fail [''policy'', ''envelope'', ''structure'', ''ak_chain''] f
                               | None \<Rightarrow>
                                   (case nv_appraise ne p expected_nonce (nv_claimed_digest env) pre post of
                                      Some (sofar, f) \<Rightarrow> nv_fail sofar f
                                    | None \<Rightarrow>
                                        \<lparr>nr_verified = True, nr_failure_reason = None,
                                         nr_verified_fields = [''policy'', ''envelope'', ''structure'', ''ak_chain'', ''signatures'',
                                           ''transcript_binding'', ''nv_policy'', ''extend_relation'']\<rparr>)))))))"

subsection \<open>Encodings\<close>

lemma length_be_bytes [simp]: "length (be_bytes k x) = k"
  by (induction k arbitrary: x) simp_all

lemma be_bytes_inject: "x < 256 ^ k \<Longrightarrow> y < 256 ^ k \<Longrightarrow> be_bytes k x = be_bytes k y \<longleftrightarrow> x = y"
proof (induction k arbitrary: x y)
  case (Suc k)
  then have "x div 256 < 256 ^ k" "y div 256 < 256 ^ k" by (simp_all add: less_mult_imp_div_less mult.commute)
  with Suc.IH have "be_bytes k (x div 256) = be_bytes k (y div 256) \<longleftrightarrow> x div 256 = y div 256" by simp
  moreover have "(char_of (x mod 256) :: char) = char_of (y mod 256) \<longleftrightarrow> x mod 256 = y mod 256"
    by (simp add: char_of_eq_iff take_bit_eq_mod)
  ultimately show ?case by simp (metis div_mult_mod_eq)
qed simp

lemma std_b64decode_encode [simp]: "std_b64decode (std_b64encode bs) = Some bs"
proof -
  let ?tr = "\<lambda>c. if c = CHR ''-'' then CHR ''+'' else if c = CHR ''_'' then CHR ''/'' else c"
  have tr: "b64_value (?tr c) = b64_value c" "?tr c = CHR ''='' \<longleftrightarrow> c = CHR ''=''" for c by (simp_all add: b64_value_def)
  have a2b: "a2b_base64 q l p (map ?tr s) = a2b_base64 q l p s" for q l p s
    by (induction s arbitrary: q l p) (simp_all only: list.map a2b_base64.simps tr)
  have "\<not> list_ex (\<lambda>c. 128 \<le> (of_char c :: nat)) (std_b64encode bs)"
    using urlsafe_b64encode_ascii [of _ bs] by (force simp: std_b64encode_def list_ex_iff)
  moreover have "filter (\<lambda>c. c \<noteq> CHR ''-'' \<and> c \<noteq> CHR ''_'') (std_b64encode bs) = std_b64encode bs"
    by (auto simp: std_b64encode_def filter_id_conv)
  ultimately show ?thesis by (simp add: std_b64decode_def std_b64encode_def a2b a2b_base64_encode)
qed

text \<open>The public area determines the handle and the written state.\<close>

lemma measurement_nv_public_inject:
  assumes "measurement_nv_public_bytes i w = Some b" "measurement_nv_public_bytes j v = Some b"
  shows "i = j \<and> w = v"
proof -
  have b: "i < 256 ^ 4" "j < 256 ^ 4" using assms by (auto simp: measurement_nv_public_bytes_def split: if_splits)
  have "be_bytes 4 i = be_bytes 4 j"
    "be_bytes 4 (if w then MEASUREMENT_NV_WRITTEN_ATTRIBUTES else MEASUREMENT_NV_BASE_ATTRIBUTES)
     = be_bytes 4 (if v then MEASUREMENT_NV_WRITTEN_ATTRIBUTES else MEASUREMENT_NV_BASE_ATTRIBUTES)"
    using assms by (auto simp: measurement_nv_public_bytes_def split: if_splits)
  with b show ?thesis
    by (auto simp: be_bytes_inject MEASUREMENT_NV_WRITTEN_ATTRIBUTES_def MEASUREMENT_NV_BASE_ATTRIBUTES_def split: if_splits)
qed

subsection \<open>What an accepted envelope proves\<close>

lemma verified_measurement:
  assumes "nr_verified (verify_gateway_measurement ne envelope ak_pem roots_pem nonce policy legacy)"
  obtains p env pre post leaf chain roots s s' where "policy = Some p" "nv_policy_validate p"
    "nv_read_envelope ne envelope = Inr env"
    "ne_parse_nv_certify ne (nv_pre_attest env) = Some pre" "ne_parse_nv_certify ne (nv_post_attest env) = Some post"
    "pe_load_certs ne ak_pem = Some (leaf # chain)" "pe_load_certs ne roots_pem = Some roots"
    "pe_verify_cert_chain ne (leaf # chain) roots"
    "nv_verify_signature ne (ne_cert_key ne leaf) s (nc_raw pre)" "nv_verify_signature ne (ne_cert_key ne leaf) s' (nc_raw post)"
    "nc_qualifying_data pre = certify_qualifying_data (pe_sha256 ne) nonce PHASE_PRE"
    "nc_qualifying_data post = certify_qualifying_data (pe_sha256 ne) nonce PHASE_POST"
    "nv_check_range p ''pre'' pre = None" "nv_check_range p ''post'' post = None"
    "nv_claimed_digest env = np_expected_gateway_digest p"
    "nc_nv_contents post = pe_sha256 ne (nc_nv_contents pre @ np_expected_gateway_digest p)"
proof -
  from assms obtain p env pre post ak where i: "nv_inputs policy nonce legacy = Inr p"
    and e: "nv_read_envelope ne envelope = Inr env" "nv_certified_pair ne env = Some (pre, post)"
    and k: "nv_ak_chain ne ak_pem roots_pem = Inr ak"
    and s: "nv_check_signature ne ak ''pre'' pre (nv_pre_signature env) = None" "nv_check_signature ne ak ''post'' post (nv_post_signature env) = None"
    and a: "nv_appraise ne p nonce (nv_claimed_digest env) pre post = None"
    by (auto simp: verify_gateway_measurement_def nv_fail_def split: sum.splits option.splits)
  from i have 1: "policy = Some p" "nv_policy_validate p" by (auto simp: nv_inputs_def split: option.splits if_splits)
  from e(2) have 2: "ne_parse_nv_certify ne (nv_pre_attest env) = Some pre" "ne_parse_nv_certify ne (nv_post_attest env) = Some post"
    by (auto simp: nv_certified_pair_def split: option.splits)
  from k obtain leaf chain roots where 3: "pe_load_certs ne ak_pem = Some (leaf # chain)" "pe_load_certs ne roots_pem = Some roots"
    "pe_verify_cert_chain ne (leaf # chain) roots" "ak = ne_cert_key ne leaf"
    by (auto simp: nv_ak_chain_def neq_Nil_conv split: option.splits if_splits)
  from s 3(4) obtain sp sq where 4: "nv_verify_signature ne (ne_cert_key ne leaf) sp (nc_raw pre)"
    "nv_verify_signature ne (ne_cert_key ne leaf) sq (nc_raw post)"
    by (auto simp: nv_check_signature_def split: option.splits if_splits)
  from a have 5: "nc_qualifying_data pre = certify_qualifying_data (pe_sha256 ne) nonce PHASE_PRE"
    "nc_qualifying_data post = certify_qualifying_data (pe_sha256 ne) nonce PHASE_POST"
    "nv_check_range p ''pre'' pre = None" "nv_check_range p ''post'' post = None"
    "nv_claimed_digest env = np_expected_gateway_digest p"
    "nc_nv_contents post = pe_sha256 ne (nc_nv_contents pre @ np_expected_gateway_digest p)"
    by (auto simp: nv_appraise_def Let_def split: option.splits if_splits)
  show thesis by (rule that [OF 1 e(1) 2 3(1-3) 4 5])
qed

text \<open>What a TPM signs when it certifies an NV index: the challenge, the public area through the Name, the contents.\<close>

record nv_certification =
  ns_challenge :: bytes
  ns_public :: bytes
  ns_contents :: bytes

definition certifies :: "(bytes \<Rightarrow> bytes) \<Rightarrow> nv_certification \<Rightarrow> nv_certify_info \<Rightarrow> bool" where
  "certifies sha256 st info \<longleftrightarrow> nc_qualifying_data info = ns_challenge st
     \<and> nc_index_name info = be_bytes 2 MEASUREMENT_NV_NAME_ALG @ sha256 (ns_public st) \<and> nc_nv_contents info = ns_contents st"

end
