(* ===== verification/Measurement.thy ===== *)
theory Measurement
  imports Nv_Certify
begin

text \<open>
  The gateway measurement of \<open>tee/measurement.py\<close>: the digests over installed
  code, policy files and configuration, and the collector that extends their
  digest into a TPM NV index between two certifications. Installed
  distributions, file contents and the rows of a \<open>RECORD\<close> are inputs; the TPM
  is a record of operations on a state of its own.
\<close>

subsection \<open>Code\<close>

datatype file_bytes = File_missing | File_unreadable string | File_bytes bytes

text \<open>An installed distribution: its metadata, the rows \<open>csv.reader\<close> gives for its \<open>RECORD\<close> (or none when it is absent,
  unreadable or empty), and what its files hold.\<close>

record distribution =
  di_name :: "string option"
  di_version :: string
  di_record :: "string list list option"
  di_file :: "string \<Rightarrow> file_bytes"

datatype measurement_error =
    No_record "string list" | Altered_files "string list" | No_distributions | Not_three_components
  | Index_not_read_back | Index_profile_mismatch | Index_unreadable | Index_truncated | Define_failed | Extend_failed
  | Certify_failed bytes | Not_chained | Not_nv_handle

definition dist_name :: "distribution \<Rightarrow> string" where
  "dist_name d = (case di_name d of Some n \<Rightarrow> if n = [] then ''unknown'' else n | None \<Rightarrow> ''unknown'')"

text \<open>\<open>sorted(key=(name.lower(), version))\<close>: a stable sort by version, then by name.\<close>

definition sort_dists :: "distribution list \<Rightarrow> distribution list" where
  "sort_dists ds = sort_key (\<lambda>d. str_lower (case di_name d of Some n \<Rightarrow> n | None \<Rightarrow> [])) (sort_key di_version ds)"

definition record_hashes :: "distribution \<Rightarrow> (string \<times> string) list option" where
  "record_hashes d =
     (case di_record d of
        None \<Rightarrow> None
      | Some rows \<Rightarrow>
          let hashes = foldl (\<lambda>m row. case row of
                [] \<Rightarrow> m
              | path # cols \<Rightarrow> upsert m path (case cols of h # _ \<Rightarrow> if h = [] then ''<none>'' else h | [] \<Rightarrow> ''<none>'')) [] rows
          in if hashes = [] then None else Some hashes)"

definition RECORD_HASH_ALGORITHMS :: "string list" where
  "RECORD_HASH_ALGORITHMS = [''sha256'', ''sha384'', ''sha512'']"

definition MISSING_FILE :: string where "MISSING_FILE = ''<missing>''"

text \<open>\<open>recorded.partition("=")\<close>: what is before and after the first equals sign.\<close>

definition partition_eq :: "string \<Rightarrow> string \<times> string" where
  "partition_eq s = (takeWhile (\<lambda>c. c \<noteq> CHR ''='') s, drop 1 (dropWhile (\<lambda>c. c \<noteq> CHR ''='') s))"

text \<open>One file: whether it is altered, and the hash the digest reports for it.\<close>

datatype file_check = Unchanged | Gone | Altered string

definition check_installed_file :: "(string \<Rightarrow> bytes \<Rightarrow> bytes) \<Rightarrow> distribution \<Rightarrow> string \<times> string \<Rightarrow> file_check" where
  "check_installed_file hashers d = (\<lambda>(path, recorded).
     if recorded = ''<none>'' then Unchanged
     else let (algorithm, expected) = partition_eq recorded; place = dist_name d @ '':'' @ path in
       if algorithm \<notin> set RECORD_HASH_ALGORITHMS \<or> expected = [] then Altered (place @ '' (unsupported RECORD hash)'')
       else case di_file d path of
         File_missing \<Rightarrow> Gone
       | File_unreadable e \<Rightarrow> Altered (place @ '' (unreadable: '' @ e @ '')'')
       | File_bytes b \<Rightarrow> if b64url (hashers algorithm b) = expected then Unchanged else Altered place)"

definition check_installed_bytes :: "(string \<Rightarrow> bytes \<Rightarrow> bytes) \<Rightarrow> distribution \<Rightarrow> (string \<times> string) list \<Rightarrow> string list \<times> (string \<times> string) list" where
  "check_installed_bytes hashers d hashes =
     (List.map_filter (\<lambda>kv. case check_installed_file hashers d kv of Altered p \<Rightarrow> Some p | _ \<Rightarrow> None) hashes,
      map (\<lambda>kv. if check_installed_file hashers d kv = Gone then (fst kv, MISSING_FILE) else kv) hashes)"

definition dist_doc :: "distribution \<Rightarrow> (string \<times> string) list \<Rightarrow> json" where
  "dist_doc d hashes = JObj [(''name'', JStr (dist_name d)), (''version'', JStr (di_version d)),
     (''files'', JObj (map (\<lambda>(k, v). (k, JStr v)) hashes))]"

definition newline :: char where "newline = CHR 0x0A"

definition code_docs :: "(string \<Rightarrow> bytes \<Rightarrow> bytes) \<Rightarrow> distribution list \<Rightarrow> json list" where
  "code_docs hashers dists =
     List.map_filter (\<lambda>d. map_option (\<lambda>hs. dist_doc d (snd (check_installed_bytes hashers d hs))) (record_hashes d)) (sort_dists dists)"

definition sha256_hex :: "(bytes \<Rightarrow> bytes) \<Rightarrow> bytes \<Rightarrow> string" where
  "sha256_hex sha256 b = hexlify (sha256 b)"

definition code_digest :: "(bytes \<Rightarrow> bytes) \<Rightarrow> (string \<Rightarrow> bytes \<Rightarrow> bytes) \<Rightarrow> distribution list \<Rightarrow> measurement_error + string" where
  "code_digest sha256 hashers dists =
     (let sorted = sort_dists dists;
          missing = map (\<lambda>d. dist_name d @ '' '' @ di_version d) (filter (\<lambda>d. record_hashes d = None) sorted);
          altered = concat (List.map_filter (\<lambda>d. map_option (\<lambda>hs. fst (check_installed_bytes hashers d hs)) (record_hashes d)) sorted);
          entries = code_docs hashers dists
      in if missing \<noteq> [] then Inl (No_record missing)
         else if altered \<noteq> [] then Inl (Altered_files altered)
         else if entries = [] then Inl No_distributions
         else Inr (sha256_hex sha256 (join [newline] (map dumps entries))))"

subsection \<open>Policy and configuration\<close>

text \<open>The files of a bundle by relative path, in the order they were read.\<close>

definition policy_digest_of_files :: "(bytes \<Rightarrow> bytes) \<Rightarrow> (string \<times> bytes) list \<Rightarrow> string" where
  "policy_digest_of_files sha256 files =
     sha256_hex sha256 (join [newline]
       (map (\<lambda>(path, content). dumps (JObj [(''path'', JStr path), (''sha256'', JStr (sha256_hex sha256 content))])) files))"

text \<open>A configuration value: a dataclass, a mapping, a list or tuple, a JSON scalar, an enumeration with a value of its own,
  or anything else by its text.\<close>

datatype config_value =
    Cfg_dataclass "(string \<times> config_value) list" | Cfg_mapping "(string \<times> config_value) list" | Cfg_list "config_value list"
  | Cfg_scalar json | Cfg_enum json | Cfg_other string

definition CONFIG_SECRET_KEYS :: "string list" where
  "CONFIG_SECRET_KEYS = [''bearer_token'', ''operator_token'']"

fun config_payload :: "nat \<Rightarrow> config_value \<Rightarrow> json" where
  "config_payload depth (Cfg_dataclass fs) = (if 8 < depth then JStr ''<max-depth>''
     else JObj (filter (\<lambda>kv. fst kv \<notin> set CONFIG_SECRET_KEYS) (sort_key fst (map (\<lambda>(k, v). (k, config_payload (Suc depth) v)) fs))))"
| "config_payload depth (Cfg_mapping kvs) = (if 8 < depth then JStr ''<max-depth>''
     else JObj (filter (\<lambda>kv. fst kv \<notin> set CONFIG_SECRET_KEYS) (sort_key fst (map (\<lambda>(k, v). (k, config_payload (Suc depth) v)) kvs))))"
| "config_payload depth (Cfg_list vs) = (if 8 < depth then JStr ''<max-depth>'' else JArr (map (config_payload (Suc depth)) vs))"
| "config_payload depth (Cfg_scalar j) = (if 8 < depth then JStr ''<max-depth>'' else j)"
| "config_payload depth (Cfg_enum j) = (if 8 < depth then JStr ''<max-depth>'' else j)"
| "config_payload depth (Cfg_other s) = (if 8 < depth then JStr ''<max-depth>'' else JStr s)"

definition config_digest :: "(bytes \<Rightarrow> bytes) \<Rightarrow> config_value \<Rightarrow> string" where
  "config_digest sha256 config = sha256_hex sha256 (dumps (config_payload 0 config))"

subsection \<open>The measurement\<close>

record gateway_measurement =
  gm_digest :: bytes
  gm_components :: "(string \<times> string) list"

definition DIGEST_PREFIX :: bytes where "DIGEST_PREFIX = ''cmcp-gateway-measurement-v1''"

definition measurement_from_components :: "(bytes \<Rightarrow> bytes) \<Rightarrow> (string \<times> string) list \<Rightarrow> measurement_error + gateway_measurement" where
  "measurement_from_components sha256 components =
     (if set (map fst components) \<noteq> {''code'', ''policy'', ''config''} then Inl Not_three_components
      else Inr \<lparr>gm_digest = sha256 (DIGEST_PREFIX @ ''|'' @ dumps (JObj (map (\<lambda>(k, v). (k, JStr v)) components))),
                gm_components = components\<rparr>)"

definition gateway_measurement_of ::
  "(bytes \<Rightarrow> bytes) \<Rightarrow> (string \<Rightarrow> bytes \<Rightarrow> bytes) \<Rightarrow> distribution list \<Rightarrow> (string \<times> bytes) list \<Rightarrow> config_value \<Rightarrow> measurement_error + gateway_measurement" where
  "gateway_measurement_of sha256 hashers dists files config =
     bind_result (code_digest sha256 hashers dists) (\<lambda>code.
       measurement_from_components sha256
         [(''code'', code), (''policy'', policy_digest_of_files sha256 files), (''config'', config_digest sha256 config)])"

subsection \<open>The collector\<close>

record nv_public_area =
  na_index :: nat
  na_name_alg :: nat
  na_attributes :: nat
  na_auth_policy :: bytes
  na_data_size :: nat

datatype nv_read = Nv_value bytes | Nv_uninitialized | Nv_read_error

text \<open>The operations of \<open>tpm2-pytss\<close> the collector calls, on a TPM of state \<open>'t\<close>; \<open>None\<close> is an exception. Certifying names the
  signing key first.\<close>

record 't tpm_ops =
  tp_from_public :: "'t \<Rightarrow> nat \<Rightarrow> nat option"
  tp_define_space :: "'t \<Rightarrow> nv_public_area \<Rightarrow> 't option"
  tp_read_public :: "'t \<Rightarrow> nat \<Rightarrow> (nv_public_area \<times> bytes) option"
  tp_read :: "'t \<Rightarrow> nat \<Rightarrow> nv_read"
  tp_extend :: "'t \<Rightarrow> nat \<Rightarrow> bytes \<Rightarrow> 't option"
  tp_certify :: "'t \<Rightarrow> nat \<Rightarrow> nat \<Rightarrow> bytes \<Rightarrow> (bytes \<times> bytes) option"

definition nv_template :: "nat \<Rightarrow> bool \<Rightarrow> nv_public_area" where
  "nv_template index written =
     \<lparr>na_index = index, na_name_alg = MEASUREMENT_NV_NAME_ALG,
      na_attributes = (if written then MEASUREMENT_NV_WRITTEN_ATTRIBUTES else MEASUREMENT_NV_BASE_ATTRIBUTES),
      na_auth_policy = [], na_data_size = MEASUREMENT_NV_SIZE\<rparr>"

definition INDEX_SEED :: "(bytes \<Rightarrow> bytes) \<Rightarrow> bytes" where
  "INDEX_SEED sha256 = sha256 ''cmcp-nv-index-initialised-v1''"

definition define_extend_index :: "'t tpm_ops \<Rightarrow> nat \<Rightarrow> 't \<Rightarrow> measurement_error + 't" where
  "define_extend_index ops index t =
     (case tp_define_space ops t (nv_template index False) of None \<Rightarrow> Inl Define_failed | Some t' \<Rightarrow> Inr t')"

definition validate_measurement_nv_public :: "'t tpm_ops \<Rightarrow> (bytes \<Rightarrow> bytes) \<Rightarrow> nat \<Rightarrow> nat \<Rightarrow> bool \<Rightarrow> 't \<Rightarrow> measurement_error + unit" where
  "validate_measurement_nv_public ops sha256 handle index written t =
     (case measurement_nv_name sha256 index written of
        None \<Rightarrow> Inl Not_nv_handle
      | Some expected_name \<Rightarrow>
          (case tp_read_public ops t handle of
             None \<Rightarrow> Inl Index_unreadable
           | Some (public, name) \<Rightarrow>
               if public = nv_template index written \<and> name = expected_name then Inr () else Inl Index_profile_mismatch))"

definition read_extend_index :: "'t tpm_ops \<Rightarrow> nat \<Rightarrow> 't \<Rightarrow> measurement_error + bytes" where
  "read_extend_index ops handle t =
     (case tp_read ops t handle of
        Nv_uninitialized \<Rightarrow> Inr (replicate MEASUREMENT_NV_SIZE (CHR 0x00))
      | Nv_read_error \<Rightarrow> Inl Index_unreadable
      | Nv_value v \<Rightarrow> if length v \<noteq> MEASUREMENT_NV_SIZE then Inl Index_truncated else Inr v)"

definition nv_extend :: "'t tpm_ops \<Rightarrow> nat \<Rightarrow> bytes \<Rightarrow> 't \<Rightarrow> measurement_error + 't" where
  "nv_extend ops handle digest t = (case tp_extend ops t handle digest of None \<Rightarrow> Inl Extend_failed | Some t' \<Rightarrow> Inr t')"

definition certify_nv :: "'t tpm_ops \<Rightarrow> nat \<Rightarrow> nat \<Rightarrow> bytes \<Rightarrow> bytes \<Rightarrow> 't \<Rightarrow> measurement_error + (bytes \<times> bytes)" where
  "certify_nv ops sign_handle handle qualifying_data phase t =
     (case tp_certify ops t sign_handle handle qualifying_data of None \<Rightarrow> Inl (Certify_failed phase) | Some r \<Rightarrow> Inr r)"

text \<open>A step that may change the TPM before it raises: the result beside the TPM it leaves.\<close>

definition on_tpm :: "('e + 't) \<Rightarrow> 't \<Rightarrow> ('t \<Rightarrow> ('e + 'a) \<times> 't) \<Rightarrow> ('e + 'a) \<times> 't" where
  "on_tpm r t k = (case r of Inl e \<Rightarrow> (Inl e, t) | Inr t' \<Rightarrow> k t')"

definition from_tpm :: "('e + 'b) \<Rightarrow> 't \<Rightarrow> ('b \<Rightarrow> ('e + 'a) \<times> 't) \<Rightarrow> ('e + 'a) \<times> 't" where
  "from_tpm r t k = (case r of Inl e \<Rightarrow> (Inl e, t) | Inr b \<Rightarrow> k b)"

text \<open>The first lines of both collectors: the handle of a validated index, and whether this call defined it.\<close>

definition prepare_index :: "'t tpm_ops \<Rightarrow> (bytes \<Rightarrow> bytes) \<Rightarrow> nat \<Rightarrow> 't \<Rightarrow> (measurement_error + (nat \<times> bool)) \<times> 't" where
  "prepare_index ops sha256 index t =
     (case tp_from_public ops t index of
        Some handle \<Rightarrow> from_tpm (validate_measurement_nv_public ops sha256 handle index True t) t (\<lambda>_. (Inr (handle, False), t))
      | None \<Rightarrow>
          on_tpm (define_extend_index ops index t) t (\<lambda>t1.
            case tp_from_public ops t1 index of
              None \<Rightarrow> (Inl Index_not_read_back, t1)
            | Some handle \<Rightarrow> from_tpm (validate_measurement_nv_public ops sha256 handle index False t1) t1 (\<lambda>_. (Inr (handle, True), t1))))"

record extend_result =
  er_index :: nat
  er_before :: bytes
  er_after :: bytes
  er_provisioned :: bool

definition chains_from :: "(bytes \<Rightarrow> bytes) \<Rightarrow> extend_result \<Rightarrow> bytes \<Rightarrow> bool" where
  "chains_from sha256 r digest \<longleftrightarrow> er_after r = sha256 (er_before r @ digest)"

definition extend_gateway_measurement ::
  "'t tpm_ops \<Rightarrow> (bytes \<Rightarrow> bytes) \<Rightarrow> gateway_measurement \<Rightarrow> nat \<Rightarrow> 't \<Rightarrow> (measurement_error + extend_result) \<times> 't" where
  "extend_gateway_measurement ops sha256 m index t =
     (case prepare_index ops sha256 index t of
        (Inl e, t1) \<Rightarrow> (Inl e, t1)
      | (Inr (handle, provisioned), t1) \<Rightarrow>
          from_tpm (read_extend_index ops handle t1) t1 (\<lambda>before_value.
          on_tpm (nv_extend ops handle (gm_digest m) t1) t1 (\<lambda>t2.
          from_tpm (validate_measurement_nv_public ops sha256 handle index True t2) t2 (\<lambda>_.
          from_tpm (read_extend_index ops handle t2) t2 (\<lambda>after_value.
            let r = \<lparr>er_index = index, er_before = before_value, er_after = after_value, er_provisioned = provisioned\<rparr>
            in (if chains_from sha256 r (gm_digest m) then Inr r else Inl Not_chained, t2))))))"

record certified_extend =
  ce_extend :: extend_result
  ce_pre_attest :: bytes
  ce_pre_signature :: bytes
  ce_post_attest :: bytes
  ce_post_signature :: bytes

definition certify_and_extend_gateway_measurement ::
  "'t tpm_ops \<Rightarrow> (bytes \<Rightarrow> bytes) \<Rightarrow> gateway_measurement \<Rightarrow> nat \<Rightarrow> bytes \<Rightarrow> nat \<Rightarrow> 't \<Rightarrow> (measurement_error + certified_extend) \<times> 't" where
  "certify_and_extend_gateway_measurement ops sha256 m sign_handle nonce index t =
     (case prepare_index ops sha256 index t of
        (Inl e, t1) \<Rightarrow> (Inl e, t1)
      | (Inr (handle, provisioned), t1) \<Rightarrow>
          on_tpm (if provisioned then nv_extend ops handle (INDEX_SEED sha256) t1 else Inr t1) t1 (\<lambda>t2.
          from_tpm (if provisioned then validate_measurement_nv_public ops sha256 handle index True t2 else Inr ()) t2 (\<lambda>_.
          from_tpm (certify_nv ops sign_handle handle (certify_qualifying_data sha256 nonce PHASE_PRE) ''pre'' t2) t2 (\<lambda>(pre_attest, pre_sig).
          from_tpm (read_extend_index ops handle t2) t2 (\<lambda>before_value.
          on_tpm (nv_extend ops handle (gm_digest m) t2) t2 (\<lambda>t3.
          from_tpm (validate_measurement_nv_public ops sha256 handle index True t3) t3 (\<lambda>_.
          from_tpm (read_extend_index ops handle t3) t3 (\<lambda>after_value.
          from_tpm (certify_nv ops sign_handle handle (certify_qualifying_data sha256 nonce PHASE_POST) ''post'' t3) t3 (\<lambda>(post_attest, post_sig).
            let r = \<lparr>er_index = index, er_before = before_value, er_after = after_value, er_provisioned = provisioned\<rparr>
            in (if chains_from sha256 r (gm_digest m)
                then Inr \<lparr>ce_extend = r, ce_pre_attest = pre_attest, ce_pre_signature = pre_sig, ce_post_attest = post_attest,
                          ce_post_signature = post_sig\<rparr>
                else Inl Not_chained, t3))))))))))"

subsection \<open>What the measurement commits to\<close>

lemma join_lines_inject:
  assumes "join [c] xs = join [c] ys" "\<forall>x\<in>set xs \<union> set ys. c \<notin> set x \<and> x \<noteq> []"
  shows "xs = ys"
proof -
  have word: "str_split c (x @ c # r) = x # str_split c r" "str_split c x = [x]" if "c \<notin> set x" for x r
    using that by (induction x) (auto split: list.splits)
  have split: "str_split c (join [c] zs) = zs" if "zs \<noteq> []" "\<forall>x\<in>set zs. c \<notin> set x" for zs
    using that by (induction "[c]" zs rule: join.induct) (simp_all add: word)
  have nil: "join [c] zs = [] \<longleftrightarrow> zs = []" if "\<forall>x\<in>set zs. x \<noteq> []" for zs
    using that by (induction "[c]" zs rule: join.induct) auto
  show ?thesis
  proof (cases "xs = [] \<or> ys = []")
    case True
    then show ?thesis using nil [of xs] nil [of ys] assms by auto
  next
    case False
    then show ?thesis using split [of xs] split [of ys] assms by force
  qed
qed

text \<open>A document with no float has no line break in its canonical text.\<close>

fun float_free :: "json \<Rightarrow> bool" where
  "float_free (JFloat t) = False"
| "float_free (JArr xs) = list_all float_free xs"
| "float_free (JObj kvs) = list_all (\<lambda>(k, v). float_free v) kvs"
| "float_free v = True"

lemma newline_neq [simp]:
  "newline \<noteq> CHR ''['' \<and> newline \<noteq> CHR '']'' \<and> newline \<noteq> CHR ''{'' \<and> newline \<noteq> CHR ''}'' \<and> newline \<noteq> CHR '','' \<and> newline \<noteq> CHR '':''
   \<and> newline \<noteq> dquote \<and> newline \<noteq> backslash \<and> newline \<notin> set ''nulltruefalserb0''"
  by (simp add: newline_def)

lemma newline_not_hex: "n < 16 \<Longrightarrow> hex_digit n \<noteq> newline"
proof
  assume "n < 16" "hex_digit n = newline"
  then have "(of_char (hex_digit n) :: nat) = 10" by (simp add: newline_def)
  with \<open>n < 16\<close> show False by (simp add: hex_digit_def split: if_splits)
qed

lemma newline_not_escaped: "newline \<notin> set (escape_char c)" "newline \<notin> set (json_str s)"
proof -
  show e: "newline \<notin> set (escape_char c)" for c
    using newline_neq newline_not_hex [of "of_char c div 16"] newline_not_hex [of "of_char c mod 16"]
    by (auto simp: escape_char_def Let_def simp: newline_def)
  then show "newline \<notin> set (json_str s)" using newline_neq by (auto simp: json_str_def)
qed

lemma newline_not_joined: "newline \<in> set (join '','' xs) \<Longrightarrow> \<exists>x\<in>set xs. newline \<in> set x"
  by (induction "'',''" xs rule: join.induct) (use newline_neq in auto)

lemma newline_not_rendered: "float_free v \<Longrightarrow> newline \<notin> set (render v)"
proof (induction v rule: render.induct)
  case (3 i)
  then show ?case using int_str_chars [of newline i] by (auto simp: newline_def num_char_def is_digit_def)
next
  case (6 xs)
  then show ?case using newline_neq by (auto simp: list_all_iff dest!: newline_not_joined)
next
  case (7 kvs)
  then show ?case using newline_neq newline_not_escaped by (fastforce simp: list_all_iff dest!: newline_not_joined)
qed (use newline_neq newline_not_escaped in auto)

lemma float_free_norm: "float_free v \<Longrightarrow> float_free (norm_json v)" and float_free_wf: "float_free v \<Longrightarrow> wf_json v"
  by (induction v rule: norm_json.induct) (fastforce simp: list_all_iff)+

lemma dumps_line: "float_free v \<Longrightarrow> newline \<notin> set (dumps v) \<and> dumps v \<noteq> []"
  using newline_not_rendered [OF float_free_norm] hd_render [OF wf_norm_json [OF float_free_wf]] by (simp add: dumps_def)

text \<open>Listings of documents, one to a line, determine the documents.\<close>

lemma listing_inject:
  assumes "join [newline] (map dumps xs) = join [newline] (map dumps ys)" "list_all float_free xs" "list_all float_free ys"
  shows "map norm_json xs = map norm_json ys"
proof -
  have "map dumps xs = map dumps ys"
    using assms(1) by (rule join_lines_inject) (use assms(2,3) dumps_line in \<open>auto simp: list_all_iff\<close>)
  then have "length xs = length ys" "\<And>i. i < length xs \<Longrightarrow> dumps (xs ! i) = dumps (ys ! i)"
    by (auto simp: list_eq_iff_nth_eq)
  then show ?thesis
    using assms(2,3) by (auto simp: list_all_length dumps_inject float_free_wf intro!: nth_equalityI)
qed

lemma code_docs_float_free: "list_all float_free (code_docs hashers ds)"
  by (auto simp: code_docs_def dist_doc_def list_all_iff map_filter_def)

definition policy_docs :: "(bytes \<Rightarrow> bytes) \<Rightarrow> (string \<times> bytes) list \<Rightarrow> json list" where
  "policy_docs sha256 files =
     map (\<lambda>(path, content). JObj [(''path'', JStr path), (''sha256'', JStr (sha256_hex sha256 content))]) files"

lemma policy_docs_float_free: "list_all float_free (policy_docs sha256 files)"
  by (auto simp: policy_docs_def list_all_iff)

lemma policy_digest_docs: "policy_digest_of_files sha256 files = sha256_hex sha256 (join [newline] (map dumps (policy_docs sha256 files)))"
  unfolding policy_digest_of_files_def policy_docs_def map_map
  by (intro arg_cong [where f = "\<lambda>l. sha256_hex sha256 (join [newline] l)"] map_cong) auto

lemma policy_docs_inject:
  assumes "map norm_json (policy_docs sha256 files) = map norm_json (policy_docs sha256 files')"
  shows "files = files' \<or> (\<exists>x\<in>snd ` set files. \<exists>y\<in>snd ` set files'. collides sha256 x y)"
  using assms
proof (induction files arbitrary: files')
  case (Cons f files)
  then obtain g files'' where f: "files' = g # files''"
    "fst f = fst g" "sha256 (snd f) = sha256 (snd g)"
    "map norm_json (policy_docs sha256 files) = map norm_json (policy_docs sha256 files'')"
    by (cases files') (auto simp: policy_docs_def case_prod_beta sha256_hex_def)
  then show ?case using Cons.IH [OF f(4)] by (cases "snd f = snd g") (auto simp: collides_def prod_eq_iff)
qed (simp add: policy_docs_def)

text \<open>Every string a measurement hashes.\<close>

definition measurement_inputs ::
  "(bytes \<Rightarrow> bytes) \<Rightarrow> (string \<Rightarrow> bytes \<Rightarrow> bytes) \<Rightarrow> distribution list \<Rightarrow> (string \<times> bytes) list \<Rightarrow> config_value \<Rightarrow> bytes set" where
  "measurement_inputs sha256 hashers dists files config =
     (let code = join [newline] (map dumps (code_docs hashers dists));
          policy = join [newline] (map dumps (policy_docs sha256 files)); cfg = dumps (config_payload 0 config)
      in insert (DIGEST_PREFIX @ ''|'' @ dumps (JObj [(''code'', JStr (sha256_hex sha256 code)), (''policy'', JStr (sha256_hex sha256 policy)),
           (''config'', JStr (sha256_hex sha256 cfg))])) ({code, policy, cfg} \<union> snd ` set files))"

text \<open>A recorded file that is present is measured by its bytes.\<close>

definition bytes_checked :: "(string \<Rightarrow> bytes \<Rightarrow> bytes) \<Rightarrow> distribution list \<Rightarrow> bool" where
  "bytes_checked hashers dists \<longleftrightarrow>
     (\<forall>d\<in>set dists. \<exists>hs. record_hashes d = Some hs \<and>
        (\<forall>(path, recorded)\<in>set hs. \<forall>b. recorded \<noteq> ''<none>'' \<longrightarrow> di_file d path = File_bytes b \<longrightarrow>
           fst (partition_eq recorded) \<in> set RECORD_HASH_ALGORITHMS
           \<and> b64url (hashers (fst (partition_eq recorded)) b) = snd (partition_eq recorded)))"

lemma set_sort_dists [simp]: "set (sort_dists ds) = set ds"
  by (simp add: sort_dists_def)

lemma code_digest_bytes:
  assumes "code_digest sha256 hashers ds = Inr h"
  shows "bytes_checked hashers ds"
  unfolding bytes_checked_def
proof (intro ballI)
  fix d assume d: "d \<in> set ds"
  then obtain hs where hs: "record_hashes d = Some hs"
    using assms by (cases "record_hashes d") (auto simp: code_digest_def Let_def filter_empty_conv split: if_splits)
  have "concat (List.map_filter (\<lambda>d. map_option (\<lambda>hs. fst (check_installed_bytes hashers d hs)) (record_hashes d)) (sort_dists ds)) = []"
    using assms by (auto simp: code_digest_def Let_def split: if_splits)
  with d hs have none: "fst (check_installed_bytes hashers d hs) = []"
    by (force simp: map_filter_def)
  have fine: "check_installed_file hashers d kv = Unchanged \<or> check_installed_file hashers d kv = Gone" if "kv \<in> set hs" for kv
    using none that by (cases "check_installed_file hashers d kv")
      (force simp: check_installed_bytes_def map_filter_def filter_empty_conv)+
  have "fst (partition_eq recorded) \<in> set RECORD_HASH_ALGORITHMS \<and> b64url (hashers (fst (partition_eq recorded)) b) = snd (partition_eq recorded)"
    if "(path, recorded) \<in> set hs" "recorded \<noteq> ''<none>''" "di_file d path = File_bytes b" for path recorded b
    using fine [OF that(1)] that(2,3) by (cases "partition_eq recorded") (auto simp: check_installed_file_def Let_def split: if_splits)
  with hs show "\<exists>hs. record_hashes d = Some hs \<and>
        (\<forall>(path, recorded)\<in>set hs. \<forall>b. recorded \<noteq> ''<none>'' \<longrightarrow> di_file d path = File_bytes b \<longrightarrow>
           fst (partition_eq recorded) \<in> set RECORD_HASH_ALGORITHMS
           \<and> b64url (hashers (fst (partition_eq recorded)) b) = snd (partition_eq recorded))"
    by blast
qed

lemma measurement_parts:
  assumes "gateway_measurement_of sha256 hashers ds files cfg = Inr m"
  shows "gm_digest m = sha256 (DIGEST_PREFIX @ ''|'' @ dumps (JObj [
      (''code'', JStr (sha256_hex sha256 (join [newline] (map dumps (code_docs hashers ds))))),
      (''policy'', JStr (sha256_hex sha256 (join [newline] (map dumps (policy_docs sha256 files))))),
      (''config'', JStr (sha256_hex sha256 (dumps (config_payload 0 cfg))))]))" "bytes_checked hashers ds"
proof -
  from assms obtain c where c: "code_digest sha256 hashers ds = Inr c"
    "measurement_from_components sha256 [(''code'', c), (''policy'', policy_digest_of_files sha256 files), (''config'', config_digest sha256 cfg)] = Inr m"
    by (auto simp: gateway_measurement_of_def bind_result_eq_Inr)
  from c(1) have "c = sha256_hex sha256 (join [newline] (map dumps (code_docs hashers ds)))"
    by (auto simp: code_digest_def Let_def split: if_splits)
  with c(2) show "gm_digest m = sha256 (DIGEST_PREFIX @ ''|'' @ dumps (JObj [
      (''code'', JStr (sha256_hex sha256 (join [newline] (map dumps (code_docs hashers ds))))),
      (''policy'', JStr (sha256_hex sha256 (join [newline] (map dumps (policy_docs sha256 files))))),
      (''config'', JStr (sha256_hex sha256 (dumps (config_payload 0 cfg))))]))"
    by (auto simp: measurement_from_components_def policy_digest_docs config_digest_def split: if_splits)
  show "bytes_checked hashers ds" using c(1) by (rule code_digest_bytes)
qed

text \<open>The gateway measurement commits to what runs. Two gateways with one measurement digest have the same policy files
  by path and content, the same configuration but for its secrets, and the same installed distributions by name, version
  and file hashes, and on both every installed file with a recorded hash was read and found to have it; or SHA-256 collides
  on two of the strings the two measurements hash.\<close>

theorem measurement_commits:
  assumes "gateway_measurement_of sha256 hashers ds files cfg = Inr m" "gateway_measurement_of sha256 hashers ds' files' cfg' = Inr m'"
    and "gm_digest m = gm_digest m'" "wf_json (config_payload 0 cfg)" "wf_json (config_payload 0 cfg')"
  shows "bytes_checked hashers ds \<and> bytes_checked hashers ds' \<and>
    (files = files' \<and> norm_json (config_payload 0 cfg) = norm_json (config_payload 0 cfg')
       \<and> map norm_json (code_docs hashers ds) = map norm_json (code_docs hashers ds')
     \<or> (\<exists>x\<in>measurement_inputs sha256 hashers ds files cfg. \<exists>y\<in>measurement_inputs sha256 hashers ds' files' cfg'. collides sha256 x y))"
proof (intro conjI)
  let ?I = "measurement_inputs sha256 hashers ds files cfg" and ?I' = "measurement_inputs sha256 hashers ds' files' cfg'"
  let ?code = "join [newline] (map dumps (code_docs hashers ds))" and ?code' = "join [newline] (map dumps (code_docs hashers ds'))"
  let ?pol = "join [newline] (map dumps (policy_docs sha256 files))" and ?pol' = "join [newline] (map dumps (policy_docs sha256 files'))"
  let ?cfg = "dumps (config_payload 0 cfg)" and ?cfg' = "dumps (config_payload 0 cfg')"
  define doc where "doc = (\<lambda>c p g. JObj [(''code'', JStr (sha256_hex sha256 c)), (''policy'', JStr (sha256_hex sha256 p)),
     (''config'', JStr (sha256_hex sha256 g))])"
  note m = measurement_parts [OF assms(1)] measurement_parts [OF assms(2)]
  show "bytes_checked hashers ds" "bytes_checked hashers ds'" using m(2,4) .
  have eq: "x = y" if "sha256 x = sha256 y" "x \<in> ?I"
    "y \<in> ?I'"
    "\<not> (\<exists>x\<in>?I. \<exists>y\<in>?I'. collides sha256 x y)" for x y
    using that by (auto simp: collides_def)
  have inp: "DIGEST_PREFIX @ ''|'' @ dumps (doc ?code ?pol ?cfg) \<in> ?I"
    "DIGEST_PREFIX @ ''|'' @ dumps (doc ?code' ?pol' ?cfg') \<in> ?I'"
    "{?code, ?pol, ?cfg} \<union> snd ` set files \<subseteq> ?I"
    "{?code', ?pol', ?cfg'} \<union> snd ` set files' \<subseteq> ?I'"
    by (auto simp: measurement_inputs_def Let_def doc_def)
  show "files = files' \<and> norm_json (config_payload 0 cfg) = norm_json (config_payload 0 cfg')
       \<and> map norm_json (code_docs hashers ds) = map norm_json (code_docs hashers ds')
     \<or> (\<exists>x\<in>?I. \<exists>y\<in>?I'. collides sha256 x y)"
  proof (rule disjCI)
    assume nc: "\<not> (\<exists>x\<in>?I. \<exists>y\<in>?I'. collides sha256 x y)"
    have "dumps (doc ?code ?pol ?cfg) = dumps (doc ?code' ?pol' ?cfg')"
      using eq [OF _ inp(1,2) nc] m(1,3) assms(3) by (simp add: doc_def)
    then have "norm_json (doc ?code ?pol ?cfg) = norm_json (doc ?code' ?pol' ?cfg')"
      by (subst (asm) dumps_inject) (simp_all add: doc_def)
    then have "sha256 ?code = sha256 ?code'" "sha256 ?pol = sha256 ?pol'" "sha256 ?cfg = sha256 ?cfg'"
      by (simp_all add: doc_def sha256_hex_def)
    then have same: "?code = ?code'" "?pol = ?pol'" "?cfg = ?cfg'" using eq [OF _ _ _ nc] inp(3,4) by auto
    have "files = files'"
      using policy_docs_inject [OF listing_inject [OF same(2) policy_docs_float_free policy_docs_float_free]] nc inp(3,4) by blast
    with same listing_inject [OF same(1) code_docs_float_free code_docs_float_free] assms(4,5)
    show "files = files' \<and> norm_json (config_payload 0 cfg) = norm_json (config_payload 0 cfg')
       \<and> map norm_json (code_docs hashers ds) = map norm_json (code_docs hashers ds')"
      by (simp add: dumps_inject)
  qed
qed

subsection \<open>What the collector produces is accepted\<close>

text \<open>What is asked of a TPM, by what its measurement index holds: \<open>slot t\<close> is \<open>None\<close> when the index is not defined, and holds
  \<open>None\<close> until it is first written. Extending hashes the old value, zero before the first write, with the data; reading and
  certifying give the value; the certification is signed by the attestation key.\<close>

definition tpm_contract :: "'t tpm_ops \<Rightarrow> nv_env \<Rightarrow> nat \<Rightarrow> nat \<Rightarrow> nat \<Rightarrow> cert \<Rightarrow> ('t \<Rightarrow> bytes option option) \<Rightarrow> bool" where
  "tpm_contract ops ne index handle sign_handle leaf slot \<longleftrightarrow>
     (\<forall>t. tp_from_public ops t index = (if slot t = None then None else Some handle)
        \<and> (slot t = None \<longrightarrow> (\<exists>t'. tp_define_space ops t (nv_template index False) = Some t' \<and> slot t' = Some None))
        \<and> (\<forall>c. slot t = Some c \<longrightarrow>
             (\<forall>name. measurement_nv_name (pe_sha256 ne) index (c \<noteq> None) = Some name \<longrightarrow>
                tp_read_public ops t handle = Some (nv_template index (c \<noteq> None), name))
             \<and> tp_read ops t handle = (case c of None \<Rightarrow> Nv_uninitialized | Some v \<Rightarrow> Nv_value v)
             \<and> (\<forall>d. \<exists>t'. tp_extend ops t handle d = Some t'
                  \<and> slot t' = Some (Some (pe_sha256 ne ((case c of None \<Rightarrow> replicate 32 (CHR 0x00) | Some v \<Rightarrow> v) @ d))))
             \<and> (\<forall>v q name. c = Some v \<longrightarrow> measurement_nv_name (pe_sha256 ne) index True = Some name \<longrightarrow>
                  (\<exists>att sig raw s. tp_certify ops t sign_handle handle q = Some (att, sig)
                     \<and> ne_parse_nv_certify ne att = Some \<lparr>nc_qualifying_data = q, nc_index_name = name, nc_offset = 0, nc_nv_contents = v, nc_raw = raw\<rparr>
                     \<and> pe_parse_tpmt_signature ne sig = Some s \<and> nv_verify_signature ne (ne_cert_key ne leaf) s raw))))"

lemma contract_parts:
  assumes "tpm_contract ops ne index handle sign_handle leaf slot"
  shows "slot t = None \<Longrightarrow> tp_from_public ops t index = None"
    "slot t = Some c \<Longrightarrow> tp_from_public ops t index = Some handle"
    "slot t = None \<Longrightarrow> \<exists>t'. tp_define_space ops t (nv_template index False) = Some t' \<and> slot t' = Some None"
    "slot t = Some c \<Longrightarrow> measurement_nv_name (pe_sha256 ne) index (c \<noteq> None) = Some name \<Longrightarrow>
       tp_read_public ops t handle = Some (nv_template index (c \<noteq> None), name)"
    "slot t = Some None \<Longrightarrow> tp_read ops t handle = Nv_uninitialized" "slot t = Some (Some v) \<Longrightarrow> tp_read ops t handle = Nv_value v"
    "slot t = Some None \<Longrightarrow> \<exists>t'. tp_extend ops t handle d = Some t' \<and> slot t' = Some (Some (pe_sha256 ne (replicate 32 (CHR 0x00) @ d)))"
    "slot t = Some (Some v) \<Longrightarrow> \<exists>t'. tp_extend ops t handle d = Some t' \<and> slot t' = Some (Some (pe_sha256 ne (v @ d)))"
    "slot t = Some (Some v) \<Longrightarrow> measurement_nv_name (pe_sha256 ne) index True = Some name \<Longrightarrow>
       \<exists>att sig raw s. tp_certify ops t sign_handle handle q = Some (att, sig)
         \<and> ne_parse_nv_certify ne att = Some \<lparr>nc_qualifying_data = q, nc_index_name = name, nc_offset = 0, nc_nv_contents = v, nc_raw = raw\<rparr>
         \<and> pe_parse_tpmt_signature ne sig = Some s \<and> nv_verify_signature ne (ne_cert_key ne leaf) s raw"
  using assms [unfolded tpm_contract_def, rule_format, of t] by auto

definition nv_index_ok :: "nat \<Rightarrow> bool" where
  "nv_index_ok index \<longleftrightarrow> 0x01000000 \<le> index \<and> index \<le> 0x01FFFFFF"

lemma nv_name_ok: "nv_index_ok index \<Longrightarrow> \<exists>name. measurement_nv_name sha256 index w = Some name"
  by (simp add: nv_index_ok_def measurement_nv_name_def measurement_nv_public_bytes_def)

lemma validate_written:
  assumes "tpm_contract ops ne index handle sign_handle leaf slot" "nv_index_ok index" "slot t = Some c"
  shows "validate_measurement_nv_public ops (pe_sha256 ne) handle index w t = (if w = (c \<noteq> None) then Inr () else Inl Index_profile_mismatch)"
proof -
  obtain n n' where n: "measurement_nv_name (pe_sha256 ne) index (c \<noteq> None) = Some n" "measurement_nv_name (pe_sha256 ne) index w = Some n'"
    using nv_name_ok [OF assms(2)] by blast
  have diff: "nv_template index (c \<noteq> None) \<noteq> nv_template index w" if "w \<noteq> (c \<noteq> None)"
    using that by (auto simp: nv_template_def MEASUREMENT_NV_WRITTEN_ATTRIBUTES_def)
  note read = contract_parts(4) [OF assms(1,3) n(1)]
  show ?thesis
  proof (cases "w = (c \<noteq> None)")
    case True
    with n have "n = n'" by simp
    with True n(2) read show ?thesis by (simp add: validate_measurement_nv_public_def del: not_None_eq)
  next
    case False
    with n(2) read diff show ?thesis by (simp add: validate_measurement_nv_public_def del: not_None_eq)
  qed
qed

lemma prepare_outcome:
  assumes "tpm_contract ops ne index handle sign_handle leaf slot" "nv_index_ok index"
  shows "slot t = None \<Longrightarrow> \<exists>t'. prepare_index ops (pe_sha256 ne) index t = (Inr (handle, True), t') \<and> slot t' = Some None"
    "slot t = Some (Some v) \<Longrightarrow> prepare_index ops (pe_sha256 ne) index t = (Inr (handle, False), t)"
    "slot t = Some None \<Longrightarrow> prepare_index ops (pe_sha256 ne) index t = (Inl Index_profile_mismatch, t)"
proof -
  note contract = contract_parts [OF assms(1)] and val = validate_written [OF assms]
  show "\<exists>t'. prepare_index ops (pe_sha256 ne) index t = (Inr (handle, True), t') \<and> slot t' = Some None" if none: "slot t = None"
  proof -
    obtain t' where t': "tp_define_space ops t (nv_template index False) = Some t'" "slot t' = Some None"
      using contract(3) [OF none] by blast
    then show ?thesis
      using contract(1) [OF none] contract(2) [OF t'(2)] val [OF t'(2)]
      by (simp add: prepare_index_def on_tpm_def from_tpm_def define_extend_index_def)
  qed
  show "prepare_index ops (pe_sha256 ne) index t = (Inr (handle, False), t)" if "slot t = Some (Some v)"
    using contract(2) [OF that] val [OF that] by (simp add: prepare_index_def from_tpm_def)
  show "prepare_index ops (pe_sha256 ne) index t = (Inl Index_profile_mismatch, t)" if "slot t = Some None"
    using contract(2) [OF that] val [OF that] by (simp add: prepare_index_def from_tpm_def)
qed

text \<open>From a written index: the bracketed extend.\<close>

lemma certified_extend_runs:
  assumes c: "tpm_contract ops ne index handle sign_handle leaf slot" and i: "nv_index_ok index"
    and len: "\<And>x. length (pe_sha256 ne x) = 32"
    and start: "slot t = None \<or> (\<exists>v. slot t = Some (Some v) \<and> length v = 32)" and digest: "length (gm_digest m) = 32"
  obtains t' ce v name raw raw' s s' where
    "certify_and_extend_gateway_measurement ops (pe_sha256 ne) m sign_handle nonce index t = (Inr ce, t')"
    "length v = 32" "measurement_nv_name (pe_sha256 ne) index True = Some name"
    "ne_parse_nv_certify ne (ce_pre_attest ce) = Some \<lparr>nc_qualifying_data = certify_qualifying_data (pe_sha256 ne) nonce PHASE_PRE,
       nc_index_name = name, nc_offset = 0, nc_nv_contents = v, nc_raw = raw\<rparr>"
    "ne_parse_nv_certify ne (ce_post_attest ce) = Some \<lparr>nc_qualifying_data = certify_qualifying_data (pe_sha256 ne) nonce PHASE_POST,
       nc_index_name = name, nc_offset = 0, nc_nv_contents = pe_sha256 ne (v @ gm_digest m), nc_raw = raw'\<rparr>"
    "pe_parse_tpmt_signature ne (ce_pre_signature ce) = Some s" "nv_verify_signature ne (ne_cert_key ne leaf) s raw"
    "pe_parse_tpmt_signature ne (ce_post_signature ce) = Some s'" "nv_verify_signature ne (ne_cert_key ne leaf) s' raw'"
proof -
  note contract = contract_parts [OF c] and val = validate_written [OF c i]
  have "\<exists>prov t1 t2 v. prepare_index ops (pe_sha256 ne) index t = (Inr (handle, prov), t1) \<and> slot t2 = Some (Some v) \<and> length v = 32
    \<and> (if prov then nv_extend ops handle (INDEX_SEED (pe_sha256 ne)) t1 else Inr t1) = Inr t2"
  proof (cases "slot t")
    case None
    then obtain t1 where t1: "prepare_index ops (pe_sha256 ne) index t = (Inr (handle, True), t1)" "slot t1 = Some None"
      using prepare_outcome(1) [OF c i] by blast
    then obtain t2 where "tp_extend ops t1 handle (INDEX_SEED (pe_sha256 ne)) = Some t2"
      "slot t2 = Some (Some (pe_sha256 ne (replicate 32 (CHR 0x00) @ INDEX_SEED (pe_sha256 ne))))"
      using contract(7) [OF t1(2)] by blast
    with t1 len show ?thesis by (auto simp: nv_extend_def)
  next
    case (Some x)
    with start prepare_outcome(2) [OF c i] show ?thesis by fastforce
  qed
  then obtain prov t1 t2 v where prep: "prepare_index ops (pe_sha256 ne) index t = (Inr (handle, prov), t1)"
    "slot t2 = Some (Some v)" "length v = 32" "(if prov then nv_extend ops handle (INDEX_SEED (pe_sha256 ne)) t1 else Inr t1) = Inr t2" by blast
  obtain name where name: "measurement_nv_name (pe_sha256 ne) index True = Some name" using nv_name_ok [OF i] by blast
  obtain t3 where "tp_extend ops t2 handle (gm_digest m) = Some t3" and s3: "slot t3 = Some (Some (pe_sha256 ne (v @ gm_digest m)))"
    using contract(8) [OF prep(2)] by blast
  then have t3: "nv_extend ops handle (gm_digest m) t2 = Inr t3" "slot t3 = Some (Some (pe_sha256 ne (v @ gm_digest m)))"
    by (simp_all add: nv_extend_def)
  obtain att sig raw s where pre: "tp_certify ops t2 sign_handle handle (certify_qualifying_data (pe_sha256 ne) nonce PHASE_PRE) = Some (att, sig)"
    "ne_parse_nv_certify ne att = Some \<lparr>nc_qualifying_data = certify_qualifying_data (pe_sha256 ne) nonce PHASE_PRE,
       nc_index_name = name, nc_offset = 0, nc_nv_contents = v, nc_raw = raw\<rparr>"
    "pe_parse_tpmt_signature ne sig = Some s" "nv_verify_signature ne (ne_cert_key ne leaf) s raw"
    using contract(9) [OF prep(2) name] by blast
  obtain att' sig' raw' s' where post: "tp_certify ops t3 sign_handle handle (certify_qualifying_data (pe_sha256 ne) nonce PHASE_POST) = Some (att', sig')"
    "ne_parse_nv_certify ne att' = Some \<lparr>nc_qualifying_data = certify_qualifying_data (pe_sha256 ne) nonce PHASE_POST,
       nc_index_name = name, nc_offset = 0, nc_nv_contents = pe_sha256 ne (v @ gm_digest m), nc_raw = raw'\<rparr>"
    "pe_parse_tpmt_signature ne sig' = Some s'" "nv_verify_signature ne (ne_cert_key ne leaf) s' raw'"
    using contract(9) [OF t3(2) name] by blast
  have rd: "read_extend_index ops handle t2 = Inr v" "read_extend_index ops handle t3 = Inr (pe_sha256 ne (v @ gm_digest m))"
    using contract(6) [OF prep(2)] contract(6) [OF t3(2)] prep(3) len by (simp_all add: read_extend_index_def MEASUREMENT_NV_SIZE_def)
  let ?ce = "\<lparr>ce_extend = \<lparr>er_index = index, er_before = v, er_after = pe_sha256 ne (v @ gm_digest m), er_provisioned = prov\<rparr>,
    ce_pre_attest = att, ce_pre_signature = sig, ce_post_attest = att', ce_post_signature = sig'\<rparr>"
  have run: "certify_and_extend_gateway_measurement ops (pe_sha256 ne) m sign_handle nonce index t = (Inr ?ce, t3)"
    using prep t3(1) pre(1) post(1) rd val [OF prep(2)] val [OF t3(2)]
    by (simp add: certify_and_extend_gateway_measurement_def on_tpm_def from_tpm_def certify_nv_def chains_from_def Let_def)
  show thesis by (rule that [OF run prep(3) name, of raw raw' s s']) (use pre(2-4) post(2-4) in simp_all)
qed

text \<open>The envelope as \<open>json.loads\<close> gives it back, its keys in the order they were written.\<close>

lemma read_envelope_back:
  assumes "pe_loads ne b = Some (norm_json (build_envelope pa ps qa qs dg comps))"
  shows "nv_read_envelope ne b
    = Inr \<lparr>nv_pre_attest = pa, nv_pre_signature = ps, nv_post_attest = qa, nv_post_signature = qs, nv_claimed_digest = dg\<rparr>"
proof -
  obtain d where d: "norm_json (build_envelope pa ps qa qs dg comps) = JObj d" by (simp add: build_envelope_def)
  have "map_of d k = map_option norm_json (map_of [(''v'', JInt ENVELOPE_VERSION), (''pre_attest'', JStr (std_b64encode pa)),
       (''pre_signature'', JStr (std_b64encode ps)), (''post_attest'', JStr (std_b64encode qa)),
       (''post_signature'', JStr (std_b64encode qs)), (''gateway_digest'', JStr (hexlify dg)),
       (''components'', JObj (map (\<lambda>(k, v). (k, JStr v)) comps))] k)" for k
    using d unfolding build_envelope_def norm_json.simps
    by (subst norm_json_obj_lookup [symmetric]) simp_all
  then show ?thesis
    using assms d by (simp add: nv_read_envelope_def dget_or_def version_ok_def b64_field_def)
qed

text \<open>An envelope of two signed certifications, of the index of the policy and with its extend between them, is verified.\<close>

definition measurement_certify_info :: "(bytes \<Rightarrow> bytes) \<Rightarrow> bytes \<Rightarrow> bytes \<Rightarrow> bytes \<Rightarrow> bytes \<Rightarrow> bytes \<Rightarrow> nv_certify_info" where
  "measurement_certify_info sha256 nonce phase name v raw = \<lparr>nc_qualifying_data = certify_qualifying_data sha256 nonce phase,
     nc_index_name = name, nc_offset = 0, nc_nv_contents = v, nc_raw = raw\<rparr>"

lemma signed_envelope_verified:
  assumes "pe_loads ne b = Some (norm_json (build_envelope pa ps qa qs digest comps))"
    and "measurement_nv_name (pe_sha256 ne) index True = Some name" "\<And>x. length (pe_sha256 ne x) = 32" "length v = 32" "length digest = 32"
    and "length nonce = 32 \<or> length nonce = 64"
    and "pe_load_certs ne ak_pem = Some (leaf # chain)" "pe_load_certs ne roots_pem = Some roots" "roots \<noteq> []"
    and "pe_verify_cert_chain ne (leaf # chain) roots"
    and "ne_parse_nv_certify ne pa = Some (measurement_certify_info (pe_sha256 ne) nonce PHASE_PRE name v raw)"
    and "ne_parse_nv_certify ne qa = Some (measurement_certify_info (pe_sha256 ne) nonce PHASE_POST name (pe_sha256 ne (v @ digest)) raw')"
    and "pe_parse_tpmt_signature ne ps = Some s" "nv_verify_signature ne (ne_cert_key ne leaf) s raw"
    and "pe_parse_tpmt_signature ne qs = Some s'" "nv_verify_signature ne (ne_cert_key ne leaf) s' raw'"
  shows "\<exists>p. for_measurement_index (pe_sha256 ne) digest index = Some p
    \<and> nr_verified (verify_gateway_measurement ne b ak_pem roots_pem nonce (Some p) None)"
proof (intro exI conjI)
  let ?p = "\<lparr>np_expected_index_name = name, np_expected_offset = 0, np_expected_size = int MEASUREMENT_NV_SIZE, np_expected_gateway_digest = digest\<rparr>"
  have ok: "nv_policy_validate ?p"
    using assms(2,3,5) by (auto simp: nv_policy_validate_def measurement_nv_name_def)
  then show "for_measurement_index (pe_sha256 ne) digest index = Some ?p"
    using assms(2) by (simp add: for_measurement_index_def)
  have inputs: "nv_inputs (Some ?p) nonce None = Inr ?p" using ok assms(6) by (auto simp: nv_inputs_def)
  have chain: "nv_ak_chain ne ak_pem roots_pem = Inr (ne_cert_key ne leaf)"
    using assms(7-10) by (simp add: nv_ak_chain_def)
  have "nv_appraise ne ?p nonce digest (measurement_certify_info (pe_sha256 ne) nonce PHASE_PRE name v raw)
      (measurement_certify_info (pe_sha256 ne) nonce PHASE_POST name (pe_sha256 ne (v @ digest)) raw') = None"
    using assms(3,4) by (simp add: nv_appraise_def nv_check_range_def MEASUREMENT_NV_SIZE_def measurement_certify_info_def)
  with inputs chain assms(11-16)
  show "nr_verified (verify_gateway_measurement ne b ak_pem roots_pem nonce (Some ?p) None)"
    by (simp add: verify_gateway_measurement_def read_envelope_back [OF assms(1)] nv_certified_pair_def nv_check_signature_def
        measurement_certify_info_def)
qed

text \<open>C26: What the collector produces is accepted. On a TPM that behaves as its specification says, with the index not
  defined yet or written before, certifying and extending the gateway measurement succeeds, and the envelope built from it,
  read back as it was written, is verified for the same nonce, a chain to a trusted root, and the policy of that index and
  digest.\<close>

theorem certified_extend_accepted:
  assumes "tpm_contract ops ne index handle sign_handle leaf slot" "nv_index_ok index" "\<And>x. length (pe_sha256 ne x) = 32"
    and "slot t = None \<or> (\<exists>v. slot t = Some (Some v) \<and> length v = 32)" "length (gm_digest m) = 32"
    and "length nonce = 32 \<or> length nonce = 64"
    and "pe_load_certs ne ak_pem = Some (leaf # chain)" "pe_load_certs ne roots_pem = Some roots" "roots \<noteq> []"
    and "pe_verify_cert_chain ne (leaf # chain) roots"
  shows "\<exists>ce t' p. certify_and_extend_gateway_measurement ops (pe_sha256 ne) m sign_handle nonce index t = (Inr ce, t')
    \<and> for_measurement_index (pe_sha256 ne) (gm_digest m) index = Some p
    \<and> (\<forall>b. pe_loads ne b = Some (norm_json (build_envelope (ce_pre_attest ce) (ce_pre_signature ce) (ce_post_attest ce)
          (ce_post_signature ce) (gm_digest m) (gm_components m)))
        \<longrightarrow> nr_verified (verify_gateway_measurement ne b ak_pem roots_pem nonce (Some p) None))"
  using assms(1-5)
proof (rule certified_extend_runs)
  fix t' ce v name raw raw' s s'
  assume run: "certify_and_extend_gateway_measurement ops (pe_sha256 ne) m sign_handle nonce index t = (Inr ce, t')"
    and facts: "length v = 32" "measurement_nv_name (pe_sha256 ne) index True = Some name"
      "pe_parse_tpmt_signature ne (ce_pre_signature ce) = Some s" "nv_verify_signature ne (ne_cert_key ne leaf) s raw"
      "pe_parse_tpmt_signature ne (ce_post_signature ce) = Some s'" "nv_verify_signature ne (ne_cert_key ne leaf) s' raw'"
    and "ne_parse_nv_certify ne (ce_pre_attest ce) = Some \<lparr>nc_qualifying_data = certify_qualifying_data (pe_sha256 ne) nonce PHASE_PRE,
       nc_index_name = name, nc_offset = 0, nc_nv_contents = v, nc_raw = raw\<rparr>"
      "ne_parse_nv_certify ne (ce_post_attest ce) = Some \<lparr>nc_qualifying_data = certify_qualifying_data (pe_sha256 ne) nonce PHASE_POST,
       nc_index_name = name, nc_offset = 0, nc_nv_contents = pe_sha256 ne (v @ gm_digest m), nc_raw = raw'\<rparr>"
  then have parse: "ne_parse_nv_certify ne (ce_pre_attest ce) = Some (measurement_certify_info (pe_sha256 ne) nonce PHASE_PRE name v raw)"
    "ne_parse_nv_certify ne (ce_post_attest ce)
       = Some (measurement_certify_info (pe_sha256 ne) nonce PHASE_POST name (pe_sha256 ne (v @ gm_digest m)) raw')"
    by (simp_all add: measurement_certify_info_def)
  obtain p where p: "for_measurement_index (pe_sha256 ne) (gm_digest m) index = Some p"
    using facts(2) assms(3,5) by (auto simp: for_measurement_index_def nv_policy_validate_def measurement_nv_name_def)
  have "nr_verified (verify_gateway_measurement ne b ak_pem roots_pem nonce (Some p) None)"
    if "pe_loads ne b = Some (norm_json (build_envelope (ce_pre_attest ce) (ce_pre_signature ce) (ce_post_attest ce)
          (ce_post_signature ce) (gm_digest m) (gm_components m)))" for b
    using signed_envelope_verified [OF that facts(2) assms(3) facts(1) assms(5-10) parse facts(3-6)] p by auto
  with run p show ?thesis by blast
qed

text \<open>An index that was defined and never written stays unusable. If the gateway stops between defining the measurement
  index and its first extend, every later start finds an index without the written attribute and refuses to measure, on both
  paths, without changing the TPM.\<close>

theorem unwritten_index_is_stuck:
  assumes "tpm_contract ops ne index handle sign_handle leaf slot" "nv_index_ok index" "slot t = Some None"
  shows "certify_and_extend_gateway_measurement ops (pe_sha256 ne) m sign_handle nonce index t = (Inl Index_profile_mismatch, t)
    \<and> extend_gateway_measurement ops (pe_sha256 ne) m index t = (Inl Index_profile_mismatch, t)"
  using prepare_outcome(3) [OF assms]
  by (simp add: certify_and_extend_gateway_measurement_def extend_gateway_measurement_def)

subsection \<open>A concrete TPM\<close>

text \<open>The state of this TPM is what its one index holds; a certification is the text of its challenge and value.\<close>

abbreviation demo_index :: nat where "demo_index \<equiv> DEFAULT_MEASUREMENT_NV_INDEX"

definition demo_name :: "bool \<Rightarrow> bytes" where
  "demo_name w = (case measurement_nv_name pad32 demo_index w of Some n \<Rightarrow> n | None \<Rightarrow> [])"

definition demo_tpm :: "bytes option option tpm_ops" where
  "demo_tpm = \<lparr>tp_from_public = (\<lambda>t i. if t = None then None else Some 7), tp_define_space = (\<lambda>t a. Some (Some None)),
     tp_read_public = (\<lambda>t h. map_option (\<lambda>c. (nv_template demo_index (c \<noteq> None), demo_name (c \<noteq> None))) t),
     tp_read = (\<lambda>t h. case t of Some (Some v) \<Rightarrow> Nv_value v | _ \<Rightarrow> Nv_uninitialized),
     tp_extend = (\<lambda>t h d. map_option (\<lambda>c. Some (Some (pad32 ((case c of None \<Rightarrow> replicate 32 (CHR 0x00) | Some v \<Rightarrow> v) @ d)))) t),
     tp_certify = (\<lambda>t s h q. case t of Some (Some v) \<Rightarrow> Some (hexlify q @ '':'' @ hexlify v, ''sig'') | _ \<Rightarrow> None)\<rparr>"

definition demo_gm :: gateway_measurement where
  "demo_gm = \<lparr>gm_digest = replicate 32 (CHR ''g''), gm_components = []\<rparr>"

definition demo_nonce32 :: bytes where "demo_nonce32 = replicate 32 (CHR ''n'')"

definition demo_before :: bytes where "demo_before = pad32 (replicate 32 (CHR 0x00) @ INDEX_SEED pad32)"

definition demo_attest :: "bytes \<Rightarrow> bytes \<Rightarrow> bytes" where
  "demo_attest phase v = hexlify (certify_qualifying_data pad32 demo_nonce32 phase) @ '':'' @ hexlify v"

definition demo_nv_env :: nv_env where
  "demo_nv_env = \<lparr>pe_sha256 = pad32, pe_sha384 = (\<lambda>_. []),
     pe_loads = (\<lambda>_. Some (norm_json (build_envelope (demo_attest PHASE_PRE demo_before) ''sig''
       (demo_attest PHASE_POST (pad32 (demo_before @ gm_digest demo_gm))) ''sig'' (gm_digest demo_gm) (gm_components demo_gm)))),
     pe_parse_snp_report = (\<lambda>_. None), pe_verify_snp_signature = (\<lambda>_ _. None), pe_ec_curve = (\<lambda>_. None),
     pe_load_snp_cert_chain = (\<lambda>_. None), pe_load_certs = (\<lambda>b. Some [b]), pe_verify_cert_chain = (\<lambda>c r. True),
     pe_appraise = (\<lambda>_ _ _ _. False), pe_parse_tpm_quote = (\<lambda>_. None),
     pe_parse_tpmt_signature = (\<lambda>b. Some \<lparr>ts_sig_alg = ALG_RSASSA, ts_hash_alg = 0x0B, ts_signature = b\<rparr>),
     pe_load_public_key = (\<lambda>_. None), pe_key_verify = (\<lambda>k s h sig m. sig = ''sig''), pe_leaf_public_key_pem = (\<lambda>_. None),
     pe_has_eku = (\<lambda>_ _. False), pe_basic_ca = (\<lambda>_. None), pe_parse_tdx_quote_signature = (\<lambda>_. None), pe_p256_point = (\<lambda>_. False),
     pe_p256_verify = (\<lambda>_ _ _ _. False), pe_cert_p256_verify = (\<lambda>_ _ _ _. False), pe_load_cert = (\<lambda>_. None), pe_dcap_reachable = False,
     pe_rsa_of = (\<lambda>_ _. None), pe_verify_tpm_quote = (\<lambda>_ _ _ _ _ _. None),
     ne_parse_nv_certify = (\<lambda>att. case (fromhex (takeWhile (\<lambda>c. c \<noteq> CHR '':'') att), fromhex (drop 1 (dropWhile (\<lambda>c. c \<noteq> CHR '':'') att))) of
        (Some q, Some v) \<Rightarrow> Some \<lparr>nc_qualifying_data = q, nc_index_name = demo_name True, nc_offset = 0, nc_nv_contents = v, nc_raw = att\<rparr>
      | _ \<Rightarrow> None),
     ne_cert_key = (\<lambda>_. (RSA_key, []))\<rparr>"

lemma hexlify_no_colon: "CHR '':'' \<notin> set (hexlify b)"
proof -
  have d: "hex_digit n \<noteq> CHR '':''" if "n < 16" for n
  proof
    assume "hex_digit n = CHR '':''"
    then have "(of_char (hex_digit n) :: nat) = 58" by simp
    with that show False by (simp add: hex_digit_def split: if_splits)
  qed
  show ?thesis
  proof (induction b)
    case (Cons a b)
    then show ?case
      using d [of "of_char a div 16"] d [of "of_char a mod 16"] of_char_nibble [of a] by (auto dest: sym)
  qed simp
qed

lemma demo_text_parts:
  "takeWhile (\<lambda>c. c \<noteq> CHR '':'') (hexlify q @ CHR '':'' # hexlify v) = hexlify q"
  "dropWhile (\<lambda>c. c \<noteq> CHR '':'') (hexlify q @ CHR '':'' # hexlify v) = CHR '':'' # hexlify v"
  using hexlify_no_colon [of q] by (induction "hexlify q") (auto simp: takeWhile_append dropWhile_append)

lemma demo_contract: "tpm_contract demo_tpm demo_nv_env demo_index 7 1 leaf (\<lambda>t. t)"
  unfolding tpm_contract_def
  by (auto simp: demo_tpm_def demo_nv_env_def demo_name_def demo_text_parts nv_verify_signature_def HASH_ALGS_def split: option.splits)

theorem certified_extend_accepted_witness:
  "\<exists>ce t' p. certify_and_extend_gateway_measurement demo_tpm pad32 demo_gm 1 demo_nonce32 demo_index None = (Inr ce, t')
    \<and> for_measurement_index pad32 (gm_digest demo_gm) demo_index = Some p
    \<and> (pe_loads demo_nv_env ''e'' = Some (norm_json (build_envelope (ce_pre_attest ce) (ce_pre_signature ce) (ce_post_attest ce)
          (ce_post_signature ce) (gm_digest demo_gm) (gm_components demo_gm)))
        \<longrightarrow> nr_verified (verify_gateway_measurement demo_nv_env ''e'' ''ak'' ''root'' demo_nonce32 (Some p) None))"
  using certified_extend_accepted [OF demo_contract [of "''ak''"], of None demo_gm demo_nonce32 "''ak''" "[]" "''root''" "[''root'']"]
  by (auto simp: demo_nv_env_def nv_index_ok_def DEFAULT_MEASUREMENT_NV_INDEX_def demo_gm_def demo_nonce32_def)

theorem unwritten_index_is_stuck_witness:
  "certify_and_extend_gateway_measurement demo_tpm pad32 demo_gm 1 demo_nonce32 demo_index (Some None) = (Inl Index_profile_mismatch, Some None)
    \<and> extend_gateway_measurement demo_tpm pad32 demo_gm demo_index (Some None) = (Inl Index_profile_mismatch, Some None)"
  using unwritten_index_is_stuck [OF demo_contract, of "Some None" demo_gm demo_nonce32]
  by (simp add: demo_nv_env_def nv_index_ok_def DEFAULT_MEASUREMENT_NV_INDEX_def)

definition demo_dist :: distribution where
  "demo_dist = \<lparr>di_name = Some ''gw'', di_version = ''1'', di_record = Some [[''a.py'', ''sha256='' @ b64url ''x'', ''1''], [''RECORD'']],
     di_file = (\<lambda>p. if p = ''a.py'' then File_bytes ''x'' else File_missing)\<rparr>"

definition demo_cfg :: "string \<Rightarrow> config_value" where
  "demo_cfg token = Cfg_dataclass [(''mode'', Cfg_enum (JStr ''enforcing'')), (''auth'', Cfg_mapping [(''bearer_token'', Cfg_scalar (JStr token))])]"

lemma demo_measured:
  "gateway_measurement_of pad32 (\<lambda>_ b. b) [demo_dist] [(''p.cedar'', ''permit;'')] (demo_cfg k)
     = gateway_measurement_of pad32 (\<lambda>_ b. b) [demo_dist] [(''p.cedar'', ''permit;'')] (demo_cfg [])"
  "\<exists>m. gateway_measurement_of pad32 (\<lambda>_ b. b) [demo_dist] [(''p.cedar'', ''permit;'')] (demo_cfg []) = Inr m"
  "wf_json (config_payload 0 (demo_cfg k))"
proof -
  have c: "config_payload 0 (demo_cfg k) = JObj [(''auth'', JObj []), (''mode'', JStr ''enforcing'')]" for k
    by (simp add: demo_cfg_def CONFIG_SECRET_KEYS_def)
  then show "gateway_measurement_of pad32 (\<lambda>_ b. b) [demo_dist] [(''p.cedar'', ''permit;'')] (demo_cfg k)
     = gateway_measurement_of pad32 (\<lambda>_ b. b) [demo_dist] [(''p.cedar'', ''permit;'')] (demo_cfg [])"
    by (simp add: gateway_measurement_of_def config_digest_def)
  show "wf_json (config_payload 0 (demo_cfg k))" using c by simp
  have r: "record_hashes demo_dist = Some [(''a.py'', ''sha256='' @ b64url ''x''), (''RECORD'', ''<none>'')]"
    by (simp add: record_hashes_def demo_dist_def)
  have "check_installed_bytes (\<lambda>_ b. b) demo_dist [(''a.py'', ''sha256='' @ b64url ''x''), (''RECORD'', ''<none>'')]
      = ([], [(''a.py'', ''sha256='' @ b64url ''x''), (''RECORD'', ''<none>'')])"
    by code_simp
  with r show "\<exists>m. gateway_measurement_of pad32 (\<lambda>_ b. b) [demo_dist] [(''p.cedar'', ''permit;'')] (demo_cfg []) = Inr m"
    by (simp add: gateway_measurement_of_def code_digest_def code_docs_def sort_dists_def measurement_from_components_def
        List.map_filter_def Let_def)
qed

theorem measurement_commits_witness:
  "\<exists>m. gateway_measurement_of pad32 (\<lambda>_ b. b) [demo_dist] [(''p.cedar'', ''permit;'')] (demo_cfg ''k1'') = Inr m
     \<and> gateway_measurement_of pad32 (\<lambda>_ b. b) [demo_dist] [(''p.cedar'', ''permit;'')] (demo_cfg ''k2'') = Inr m
     \<and> bytes_checked (\<lambda>_ b. b) [demo_dist]"
proof -
  obtain m where m: "gateway_measurement_of pad32 (\<lambda>_ b. b) [demo_dist] [(''p.cedar'', ''permit;'')] (demo_cfg k) = Inr m" for k
    using demo_measured(1,2) by metis
  then show ?thesis using measurement_commits [OF m m, of "''k1''" "''k2''"] demo_measured(3) by blast
qed

subsection \<open>What an accepted measurement shows\<close>


text \<open>A verifier whose key signed two texts only: the certifications before and after.\<close>

definition demo_after :: bytes where "demo_after = pad32 (demo_before @ gm_digest demo_gm)"

definition demo_signed :: nv_env where
  "demo_signed = demo_nv_env\<lparr>pe_key_verify := (\<lambda>k s h sig m. m \<in> {demo_attest PHASE_PRE demo_before, demo_attest PHASE_POST demo_after})\<rparr>"

definition demo_template :: bytes where
  "demo_template = (case measurement_nv_public_bytes demo_index True of Some b \<Rightarrow> b | None \<Rightarrow> [])"

definition demo_certified :: "bytes \<Rightarrow> bytes \<Rightarrow> nv_certification" where
  "demo_certified phase v = \<lparr>ns_challenge = certify_qualifying_data pad32 demo_nonce32 phase, ns_public = demo_template, ns_contents = v\<rparr>"

lemma demo_attest_parsed:
  "ne_parse_nv_certify demo_signed (demo_attest phase v)
     = Some (measurement_certify_info pad32 demo_nonce32 phase (demo_name True) v (demo_attest phase v))"
  by (simp add: demo_signed_def demo_nv_env_def demo_attest_def demo_text_parts measurement_certify_info_def)

lemma demo_certifies:
  assumes "ne_parse_nv_certify demo_signed att = Some info" "nv_verify_signature demo_signed key sig (nc_raw info)"
  shows "\<exists>st\<in>{demo_certified PHASE_PRE demo_before, demo_certified PHASE_POST demo_after}. certifies pad32 st info"
proof -
  have name: "demo_name True = be_bytes 2 MEASUREMENT_NV_NAME_ALG @ pad32 demo_template"
    by (simp add: demo_name_def demo_template_def measurement_nv_name_def measurement_nv_public_bytes_def DEFAULT_MEASUREMENT_NV_INDEX_def)
  have "nc_raw info = att"
    using assms(1) by (auto simp: demo_signed_def demo_nv_env_def split: option.splits)
  then have "att \<in> {demo_attest PHASE_PRE demo_before, demo_attest PHASE_POST demo_after}"
    using assms(2) by (auto simp: nv_verify_signature_def demo_signed_def Let_def split: option.splits if_splits prod.splits)
  then show ?thesis
    using assms(1) demo_attest_parsed by (auto simp: certifies_def demo_certified_def measurement_certify_info_def name)
qed

lemma demo_signed_verified:
  "\<exists>p. for_measurement_index pad32 (gm_digest demo_gm) demo_index = Some p
     \<and> nr_verified (verify_gateway_measurement demo_signed ''e'' ''ak'' ''root'' demo_nonce32 (Some p) None)"
proof -
  have env [simp]: "pe_sha256 demo_signed = pad32" "pe_load_certs demo_signed = (\<lambda>b. Some [b])" "pe_verify_cert_chain demo_signed = (\<lambda>c r. True)"
    "pe_parse_tpmt_signature demo_signed = (\<lambda>b. Some \<lparr>ts_sig_alg = ALG_RSASSA, ts_hash_alg = 0x0B, ts_signature = b\<rparr>)"
    "pe_loads demo_signed ''e'' = Some (norm_json (build_envelope (demo_attest PHASE_PRE demo_before) ''sig''
       (demo_attest PHASE_POST demo_after) ''sig'' (gm_digest demo_gm) (gm_components demo_gm)))"
    by (simp_all add: demo_signed_def demo_nv_env_def demo_after_def)
  have name: "measurement_nv_name pad32 demo_index True = Some (demo_name True)"
    by (simp add: demo_name_def measurement_nv_name_def measurement_nv_public_bytes_def DEFAULT_MEASUREMENT_NV_INDEX_def)
  have sig: "nv_verify_signature demo_signed (ne_cert_key demo_signed k) \<lparr>ts_sig_alg = ALG_RSASSA, ts_hash_alg = 0x0B, ts_signature = b\<rparr> m"
    if "m \<in> {demo_attest PHASE_PRE demo_before, demo_attest PHASE_POST demo_after}" for k b m
    using that by (auto simp: nv_verify_signature_def demo_signed_def demo_nv_env_def HASH_ALGS_def)
  show ?thesis
    by (rule signed_envelope_verified [where ne = demo_signed and name = "demo_name True" and v = demo_before and roots = "[''root'']", simplified])
      (auto simp: name sig demo_attest_parsed demo_before_def demo_after_def demo_gm_def demo_nonce32_def)
qed


end
