(* ===== verification/Disclosure.thy ===== *)
theory Disclosure
  imports Policy_Bundle
begin

text \<open>
  The exact-output disclosure gate (\<open>disclosure.py\<close>): requests, approvals, the
  durable replay store and \<open>DisclosureGate.release\<close>. The method is cut where it
  reads the clock, uses the store or calls the recipient, so that releases of
  several gates and processes that share one store can be interleaved; the
  method itself is the composition of its pieces. Each store operation is one
  transaction; \<open>fault\<close> says that some statement of it raises, which leaves the
  tables as they were.
\<close>

section \<open>Requests, authorities, recipients, approvals\<close>

datatype release_disposition = Unchanged_release | Authorized_disclosure | Unavailable | Denied_release

datatype delivery = Not_attempted | Unknown_delivery | Acknowledged

definition DISCLOSURE_DOMAIN :: bytes where
  "DISCLOSURE_DOMAIN = ''cmcp/exact-output-disclosure/v1'' @ [CHR 0x00]"

definition names_ok :: "string list \<Rightarrow> bool" where
  "names_ok values \<longleftrightarrow> list_all (\<lambda>v. v \<noteq> [] \<and> length v \<le> 256) values"

record release_request =
  rq_payload :: bytes
  rq_workload :: string
  rq_source_scope :: string
  rq_labels :: "string list"
  rq_recipient :: string
  rq_purpose :: string
  rq_policy_version :: string
  rq_request_id :: string

datatype disclosure_error =
    Bounded_identifiers_required | Label_tuple_required | Request_identifier_required | Boundary_required
  | Validity_interval_required | Signature_required | Sensitivity_ranks_required | Persistent_database_required

definition is_lower_hex :: "char \<Rightarrow> bool" where
  "is_lower_hex c \<longleftrightarrow> c \<in> set ''0123456789abcdef''"

definition new_release_request :: "release_request \<Rightarrow> disclosure_error + release_request" where
  "new_release_request r =
     (if \<not> names_ok [rq_workload r, rq_source_scope r, rq_recipient r, rq_purpose r, rq_policy_version r]
      then Inl Bounded_identifiers_required
      else if rq_labels r = [] then Inl Label_tuple_required
      else if \<not> names_ok (rq_labels r) then Inl Bounded_identifiers_required
      else if length (rq_request_id r) \<noteq> 64 \<or> \<not> list_all is_lower_hex (rq_request_id r) then Inl Request_identifier_required
      else Inr r)"

record release_authority =
  au_key :: bytes
  au_source_scopes :: "string list"
  au_recipients :: "string list"
  au_purposes :: "string list"

definition new_release_authority :: "release_authority \<Rightarrow> disclosure_error + release_authority" where
  "new_release_authority a =
     (if names_ok (au_source_scopes a) \<and> names_ok (au_recipients a) \<and> names_ok (au_purposes a)
      then Inr a else Inl Bounded_identifiers_required)"

record release_recipient =
  rp_ceiling :: string
  rp_boundary :: string

definition new_release_recipient :: "release_recipient \<Rightarrow> disclosure_error + release_recipient" where
  "new_release_recipient r =
     (if \<not> names_ok [rp_ceiling r] then Inl Bounded_identifiers_required
      else if rp_boundary r \<notin> {''accepted'', ''external'', ''unknown''} then Inl Boundary_required
      else Inr r)"

record disclosure_approval =
  ap_principal :: string
  ap_not_before :: int
  ap_expires_at :: int
  ap_signature :: bytes

definition new_disclosure_approval :: "disclosure_approval \<Rightarrow> disclosure_error + disclosure_approval" where
  "new_disclosure_approval a =
     (if \<not> names_ok [ap_principal a] then Inl Bounded_identifiers_required
      else if \<not> (0 \<le> ap_not_before a \<and> ap_not_before a < ap_expires_at a \<and> ap_expires_at a \<le> 2 ^ 53 - 1)
      then Inl Validity_interval_required
      else if length (ap_signature a) \<noteq> 64 then Inl Signature_required
      else Inr a)"

definition approval_document :: "(bytes \<Rightarrow> bytes) \<Rightarrow> release_request \<Rightarrow> string \<Rightarrow> int \<Rightarrow> int \<Rightarrow> json" where
  "approval_document sha256 r owner not_before expires_at = JObj
     [(''principal'', JStr owner), (''not_before'', JInt not_before), (''expires_at'', JInt expires_at),
      (''request_id'', JStr (rq_request_id r)), (''workload'', JStr (rq_workload r)),
      (''source_scope'', JStr (rq_source_scope r)), (''labels'', JArr (map JStr (rq_labels r))),
      (''recipient'', JStr (rq_recipient r)), (''purpose'', JStr (rq_purpose r)),
      (''policy_version'', JStr (rq_policy_version r)),
      (''output_sha256'', JStr (hexlify (sha256 (rq_payload r))))]"

definition approval_input :: "crypto \<Rightarrow> release_request \<Rightarrow> string \<Rightarrow> int \<Rightarrow> int \<Rightarrow> bytes" where
  "approval_input cy r owner not_before expires_at =
     DISCLOSURE_DOMAIN @ cy_jcs cy (approval_document (cy_sha256 cy) r owner not_before expires_at)"

text \<open>\<open>sign\<close> is the private key of the approving owner.\<close>

definition approve_exact_output ::
  "crypto \<Rightarrow> (bytes \<Rightarrow> bytes) \<Rightarrow> release_request \<Rightarrow> string \<Rightarrow> int \<Rightarrow> int \<Rightarrow> disclosure_error + disclosure_approval" where
  "approve_exact_output cy sign r owner not_before expires_at =
     new_disclosure_approval \<lparr>ap_principal = owner, ap_not_before = not_before, ap_expires_at = expires_at,
       ap_signature = sign (approval_input cy r owner not_before expires_at)\<rparr>"

section \<open>The replay store\<close>

record release_observation =
  ob_disposition :: release_disposition
  ob_reason :: string
  ob_delivery :: delivery
  ob_event_id :: string

text \<open>The rows of \<open>disclosure_attempts\<close> and of \<open>disclosure_audit\<close>, both with a primary key, in the order of their rowid.\<close>

record replay_store =
  rs_attempts :: "string list"
  rs_audit :: "release_observation list"

abbreviation audit_ids :: "replay_store \<Rightarrow> string list" where
  "audit_ids st \<equiv> map ob_event_id (rs_audit st)"

text \<open>\<open>None\<close> is a database that does not exist yet.\<close>

definition open_replay_store :: "string \<Rightarrow> replay_store option \<Rightarrow> disclosure_error + replay_store" where
  "open_replay_store path database =
     (if path = '':memory:'' then Inl Persistent_database_required
      else Inr (case database of Some st \<Rightarrow> st | None \<Rightarrow> \<lparr>rs_attempts = [], rs_audit = []\<rparr>))"

text \<open>The left part of a result is a \<open>sqlite3.Error\<close> that leaves the operation.\<close>

definition consume :: "bool \<Rightarrow> string \<Rightarrow> replay_store \<Rightarrow> (unit + bool) \<times> replay_store" where
  "consume fault request_id st =
     (if fault then (Inl (), st)
      else if request_id \<in> set (rs_attempts st) then (Inr False, st)
      else (Inr True, st\<lparr>rs_attempts := rs_attempts st @ [request_id]\<rparr>))"

definition record_attempt :: "bool \<Rightarrow> release_observation \<Rightarrow> replay_store \<Rightarrow> (unit + unit) \<times> replay_store" where
  "record_attempt fault observation st =
     (if fault \<or> ob_event_id observation \<in> set (audit_ids st) then (Inl (), st)
      else (Inr (), st\<lparr>rs_audit := rs_audit st @ [observation]\<rparr>))"

definition update_row :: "bool \<Rightarrow> string \<Rightarrow> (release_observation \<Rightarrow> release_observation) \<Rightarrow> replay_store \<Rightarrow> (unit + unit) \<times> replay_store" where
  "update_row fault event_id f st =
     (if fault \<or> event_id \<notin> set (audit_ids st) then (Inl (), st)
      else (Inr (), st\<lparr>rs_audit := map (\<lambda>ob. if ob_event_id ob = event_id then f ob else ob) (rs_audit st)\<rparr>))"

definition update_audit_delivery :: "bool \<Rightarrow> string \<Rightarrow> string \<Rightarrow> delivery \<Rightarrow> replay_store \<Rightarrow> (unit + unit) \<times> replay_store" where
  "update_audit_delivery fault event_id reason d =
     update_row fault event_id (\<lambda>ob. ob\<lparr>ob_reason := reason, ob_delivery := d\<rparr>)"

definition acknowledge :: "bool \<Rightarrow> string \<Rightarrow> replay_store \<Rightarrow> (unit + unit) \<times> replay_store" where
  "acknowledge fault event_id = update_audit_delivery fault event_id ''adapter_acknowledged'' Acknowledged"

definition mark_not_attempted :: "bool \<Rightarrow> string \<Rightarrow> release_disposition \<Rightarrow> string \<Rightarrow> replay_store \<Rightarrow> (unit + unit) \<times> replay_store" where
  "mark_not_attempted fault event_id d reason =
     update_row fault event_id (\<lambda>ob. ob\<lparr>ob_disposition := d, ob_reason := reason, ob_delivery := Not_attempted\<rparr>)"

definition audit_observations :: "replay_store \<Rightarrow> release_observation list" where
  "audit_observations st = rs_audit st"

section \<open>The gate\<close>

record disclosure_gate =
  dg_version :: string
  dg_scopes :: "string list"
  dg_order :: "(string \<times> int) list"
  dg_recipients :: "(string \<times> release_recipient) list"
  dg_authorities :: "(string \<times> release_authority) list"

definition new_disclosure_gate :: "disclosure_gate \<Rightarrow> disclosure_error + disclosure_gate" where
  "new_disclosure_gate g =
     (if \<not> names_ok (dg_version g # dg_scopes g @ map fst (dg_order g) @ map fst (dg_recipients g) @ map fst (dg_authorities g))
      then Inl Bounded_identifiers_required
      else if dg_order g = [] \<or> list_ex (\<lambda>(_, v). v < 0) (dg_order g) then Inl Sensitivity_ranks_required
      else Inr g)"

text \<open>A reading of the clock; \<open>Clock_fails\<close> is a clock that raises or gives no integer.\<close>

datatype clock = Clock_fails | Clock_at int

abbreviation refused :: "release_disposition \<Rightarrow> string \<Rightarrow> string \<Rightarrow> release_observation" where
  "refused d reason event_id \<equiv> \<lparr>ob_disposition = d, ob_reason = reason, ob_delivery = Not_attempted, ob_event_id = event_id\<rparr>"

definition validity :: "clock \<Rightarrow> string \<Rightarrow> disclosure_approval \<Rightarrow> release_observation option" where
  "validity now fresh a =
     (case now of
        Clock_fails \<Rightarrow> Some (refused Unavailable ''clock'' fresh)
      | Clock_at t \<Rightarrow>
          if t < 0 then Some (refused Unavailable ''clock'' fresh)
          else if \<not> (ap_not_before a \<le> t \<and> t < ap_expires_at a) then Some (refused Denied_release ''approval_expired_or_early'' fresh)
          else None)"

definition within_ceiling :: "disclosure_gate \<Rightarrow> release_request \<Rightarrow> release_recipient \<Rightarrow> bool" where
  "within_ceiling g r recipient \<longleftrightarrow> rp_boundary recipient = ''accepted''
     \<and> list_all (\<lambda>label. the (map_of (dg_order g) label) \<le> the (map_of (dg_order g) (rp_ceiling recipient))) (rq_labels r)"

text \<open>What a call of \<open>release\<close> reads from outside at one of its pieces: the clock, whether the transaction fails, whether the
  recipient raises, and fresh event identifiers, for an observation that is returned and for the recorded attempt.\<close>

record release_input =
  in_now :: clock
  in_fault :: bool
  in_raises :: bool
  in_fresh :: string
  in_attempt_id :: string

text \<open>Where a release stands between its pieces; the observation is the attempt it recorded.\<close>

datatype release_pc =
    Start_release
  | Checked release_disposition bool
  | Reserved release_disposition bool
  | Recorded release_disposition bool release_observation
  | Cleared release_disposition release_observation
  | Delivered release_disposition release_observation
  | Returned release_observation

record release_job =
  jb_gate :: disclosure_gate
  jb_request :: release_request
  jb_approval :: "disclosure_approval option"

definition check_approval :: "crypto \<Rightarrow> disclosure_gate \<Rightarrow> release_request \<Rightarrow> disclosure_approval option \<Rightarrow> release_input \<Rightarrow> release_observation option" where
  "check_approval cy g r approval i =
     (case approval of
        None \<Rightarrow> Some (refused Unavailable ''release_authority'' (in_fresh i))
      | Some a \<Rightarrow>
          (case map_of (dg_authorities g) (ap_principal a) of
             None \<Rightarrow> Some (refused Unavailable ''release_authority'' (in_fresh i))
           | Some authority \<Rightarrow>
               if rq_source_scope r \<notin> set (au_source_scopes authority) \<or> rq_recipient r \<notin> set (au_recipients authority)
                  \<or> rq_purpose r \<notin> set (au_purposes authority)
               then Some (refused Denied_release ''authority_scope'' (in_fresh i))
               else if cy_ed25519 cy (au_key authority) (ap_signature a)
                    (approval_input cy r (ap_principal a) (ap_not_before a) (ap_expires_at a)) \<noteq> Verified
               then Some (refused Denied_release ''approval_binding'' (in_fresh i))
               else validity (in_now i) (in_fresh i) a))"

text \<open>Up to the reservation of the request identifier.\<close>

definition check_release :: "crypto \<Rightarrow> release_job \<Rightarrow> release_input \<Rightarrow> release_pc" where
  "check_release cy j i =
     (let g = jb_gate j; r = jb_request j in
      if rq_policy_version r \<noteq> dg_version g then Returned (refused Denied_release ''policy_mismatch'' (in_fresh i))
      else case map_of (dg_recipients g) (rq_recipient r) of
        None \<Rightarrow> Returned (refused Unavailable ''recipient_boundary'' (in_fresh i))
      | Some recipient \<Rightarrow>
          if rp_boundary recipient = ''unknown'' then Returned (refused Unavailable ''recipient_boundary'' (in_fresh i))
          else if rq_source_scope r \<notin> set (dg_scopes g) then Returned (refused Unavailable ''source_scope'' (in_fresh i))
          else if map_of (dg_order g) (rp_ceiling recipient) = None \<or> list_ex (\<lambda>label. map_of (dg_order g) label = None) (rq_labels r)
          then Returned (refused Unavailable ''classification'' (in_fresh i))
          else if within_ceiling g r recipient then Checked Unchanged_release True
          else (case check_approval cy g r (jb_approval j) i of
                  Some ob \<Rightarrow> Returned ob
                | None \<Rightarrow> Checked Authorized_disclosure False))"

text \<open>The validity of the approval is read again, unless the release stays within the ceiling.\<close>

definition recheck :: "release_job \<Rightarrow> bool \<Rightarrow> release_input \<Rightarrow> release_observation option" where
  "recheck j inside i = (if inside then None else Option.bind (jb_approval j) (validity (in_now i) (in_fresh i)))"

definition reserve_release :: "release_job \<Rightarrow> release_disposition \<Rightarrow> bool \<Rightarrow> release_input \<Rightarrow> replay_store \<Rightarrow> release_pc \<times> replay_store" where
  "reserve_release j d inside i st =
     (case consume (in_fault i) (rq_request_id (jb_request j)) st of
        (Inl _, st') \<Rightarrow> (Returned (refused Unavailable ''replay_storage'' (in_fresh i)), st')
      | (Inr False, st') \<Rightarrow> (Returned (refused Denied_release ''replay'' (in_fresh i)), st')
      | (Inr True, st') \<Rightarrow>
          (case recheck j inside i of Some ob \<Rightarrow> (Returned ob, st') | None \<Rightarrow> (Reserved d inside, st')))"

definition record_release :: "release_disposition \<Rightarrow> bool \<Rightarrow> release_input \<Rightarrow> replay_store \<Rightarrow> release_pc \<times> replay_store" where
  "record_release d inside i st =
     (let attempt = \<lparr>ob_disposition = d, ob_reason = ''delivery_attempted'', ob_delivery = Unknown_delivery, ob_event_id = in_attempt_id i\<rparr> in
      case record_attempt (in_fault i) attempt st of
        (Inl _, st') \<Rightarrow> (Returned (refused Unavailable ''audit_storage'' (in_fresh i)), st')
      | (Inr _, st') \<Rightarrow> (Recorded d inside attempt, st'))"

definition clear_release :: "release_job \<Rightarrow> release_disposition \<Rightarrow> bool \<Rightarrow> release_observation \<Rightarrow> release_input \<Rightarrow> replay_store \<Rightarrow> release_pc \<times> replay_store" where
  "clear_release j d inside attempt i st =
     (case recheck j inside i of
        None \<Rightarrow> (Cleared d attempt, st)
      | Some v \<Rightarrow>
          (case mark_not_attempted (in_fault i) (ob_event_id attempt) (ob_disposition v) (ob_reason v) st of
             (Inl _, st') \<Rightarrow> (Returned (v\<lparr>ob_delivery := Unknown_delivery, ob_event_id := ob_event_id attempt\<rparr>), st')
           | (Inr _, st') \<Rightarrow> (Returned (v\<lparr>ob_delivery := Not_attempted, ob_event_id := ob_event_id attempt\<rparr>), st')))"

text \<open>The recipient is called with the payload, and may raise after it has taken it.\<close>

definition unacknowledged :: "release_disposition \<Rightarrow> release_observation \<Rightarrow> release_observation" where
  "unacknowledged d attempt =
     \<lparr>ob_disposition = d, ob_reason = ''delivery_unknown'', ob_delivery = Unknown_delivery, ob_event_id = ob_event_id attempt\<rparr>"

definition deliver_release :: "release_disposition \<Rightarrow> release_observation \<Rightarrow> release_input \<Rightarrow> release_pc" where
  "deliver_release d attempt i = (if in_raises i then Returned (unacknowledged d attempt) else Delivered d attempt)"

definition acknowledge_release :: "release_disposition \<Rightarrow> release_observation \<Rightarrow> release_input \<Rightarrow> replay_store \<Rightarrow> release_pc \<times> replay_store" where
  "acknowledge_release d attempt i st =
     (case acknowledge (in_fault i) (ob_event_id attempt) st of
        (Inl _, st') \<Rightarrow> (Returned (unacknowledged d attempt), st')
      | (Inr _, st') \<Rightarrow> (Returned \<lparr>ob_disposition = d, ob_reason = ''adapter_acknowledged'', ob_delivery = Acknowledged,
                            ob_event_id = ob_event_id attempt\<rparr>, st'))"

text \<open>One piece of a release: where it goes, the store it leaves, and whether it called the recipient.\<close>

fun release_piece :: "crypto \<Rightarrow> release_job \<Rightarrow> release_input \<Rightarrow> release_pc \<Rightarrow> replay_store \<Rightarrow> (release_pc \<times> replay_store) \<times> bool" where
  "release_piece cy j i Start_release st = ((check_release cy j i, st), False)"
| "release_piece cy j i (Checked d inside) st = (reserve_release j d inside i st, False)"
| "release_piece cy j i (Reserved d inside) st = (record_release d inside i st, False)"
| "release_piece cy j i (Recorded d inside attempt) st = (clear_release j d inside attempt i st, False)"
| "release_piece cy j i (Cleared d attempt) st = ((deliver_release d attempt i, st), True)"
| "release_piece cy j i (Delivered d attempt) st = (acknowledge_release d attempt i st, False)"
| "release_piece cy j i (Returned ob) st = ((Returned ob, st), False)"

text \<open>\<open>DisclosureGate.release\<close>: its pieces one after the other, each with what it reads. The result is the observation,
  the store, and the payloads handed to the recipient.\<close>

fun release_from :: "crypto \<Rightarrow> release_job \<Rightarrow> release_input list \<Rightarrow> release_pc \<Rightarrow> replay_store \<Rightarrow> release_pc \<times> replay_store \<times> bytes list" where
  "release_from cy j [] pc st = (pc, st, [])"
| "release_from cy j (i # inputs) pc st =
     (let ((pc', st'), sent) = release_piece cy j i pc st; (pc'', st'', out) = release_from cy j inputs pc' st'
      in (pc'', st'', (if sent then rq_payload (jb_request j) # out else out)))"

definition release :: "crypto \<Rightarrow> release_job \<Rightarrow> (nat \<Rightarrow> release_input) \<Rightarrow> replay_store \<Rightarrow> release_pc \<times> replay_store \<times> bytes list" where
  "release cy j inp = release_from cy j [inp 0, inp 1, inp 2, inp 3, inp 4, inp 5] Start_release"

section \<open>Releases that share a store\<close>

text \<open>Any number of releases, each its own gate, request and approval; what has been handed to a recipient, by which release,
  under which recorded event, and whether the recipient raised.\<close>

record release_world =
  rw_store :: replay_store
  rw_pc :: "nat \<Rightarrow> release_pc"
  rw_sent :: "(nat \<times> string \<times> bool) list"

fun attempt_of :: "release_pc \<Rightarrow> release_observation option" where
  "attempt_of (Recorded d inside attempt) = Some attempt"
| "attempt_of (Cleared d attempt) = Some attempt"
| "attempt_of (Delivered d attempt) = Some attempt"
| "attempt_of _ = None"

definition world_step :: "crypto \<Rightarrow> (nat \<Rightarrow> release_job) \<Rightarrow> nat \<Rightarrow> release_input \<Rightarrow> release_world \<Rightarrow> release_world" where
  "world_step cy jobs n i w =
     (let ((pc', st'), sent) = release_piece cy (jobs n) i (rw_pc w n) (rw_store w)
      in \<lparr>rw_store = st', rw_pc = (rw_pc w)(n := pc'),
          rw_sent = rw_sent w @ (case attempt_of (rw_pc w n) of
             Some a \<Rightarrow> if sent then [(n, ob_event_id a, in_raises i)] else [] | None \<Rightarrow> [])\<rparr>)"

inductive releases :: "crypto \<Rightarrow> (nat \<Rightarrow> release_job) \<Rightarrow> replay_store \<Rightarrow> release_world \<Rightarrow> bool" for cy jobs st where
  start: "releases cy jobs st \<lparr>rw_store = st, rw_pc = (\<lambda>_. Start_release), rw_sent = []\<rparr>"
| step: "releases cy jobs st w \<Longrightarrow> releases cy jobs st (world_step cy jobs n i w)"

lemmas piece_defs = check_release_def reserve_release_def record_release_def clear_release_def deliver_release_def
  acknowledge_release_def consume_def record_attempt_def mark_not_attempted_def acknowledge_def update_audit_delivery_def
  update_row_def

text \<open>A release holds its request identifier from its reservation until it returns.\<close>

fun has_reserved :: "release_pc \<Rightarrow> bool" where
  "has_reserved (Reserved _ _) = True"
| "has_reserved (Recorded _ _ _) = True"
| "has_reserved (Cleared _ _) = True"
| "has_reserved (Delivered _ _) = True"
| "has_reserved _ = False"

fun after_sending :: "release_pc \<Rightarrow> bool" where
  "after_sending (Delivered _ _) = True"
| "after_sending (Returned _) = True"
| "after_sending _ = False"

abbreviation request_of :: "(nat \<Rightarrow> release_job) \<Rightarrow> nat \<Rightarrow> string" where
  "request_of jobs n \<equiv> rq_request_id (jb_request (jobs n))"

definition holds_request :: "release_world \<Rightarrow> nat \<Rightarrow> bool" where
  "holds_request w n \<longleftrightarrow> n \<in> fst ` set (rw_sent w) \<or> has_reserved (rw_pc w n)"

lemma check_release_goes:
  "\<not> has_reserved (check_release cy j i)" "attempt_of (check_release cy j i) = None" "check_release cy j i \<noteq> Start_release"
  by (auto simp: check_release_def Let_def split: option.split)

text \<open>What a step does to the reservations, and to what was sent.\<close>

lemma step_reserves:
  assumes w': "w' = world_step cy jobs n i w"
  shows "set (rs_attempts (rw_store w)) \<subseteq> set (rs_attempts (rw_store w'))"
    and "holds_request w' m \<Longrightarrow> holds_request w m \<or> m = n \<and> request_of jobs n \<notin> set (rs_attempts (rw_store w))
       \<and> request_of jobs n \<in> set (rs_attempts (rw_store w'))"
  unfolding w'
  by (cases "rw_pc w n"; auto simp: world_step_def holds_request_def check_release_goes piece_defs Let_def
      split: option.splits if_splits)+

lemma step_sends:
  assumes w': "w' = world_step cy jobs n i w"
  shows "rw_sent w' = rw_sent w \<or> (\<exists>d a. rw_pc w n = Cleared d a \<and> rw_sent w' = rw_sent w @ [(n, ob_event_id a, in_raises i)])"
    and "after_sending (rw_pc w n) \<or> rw_sent w' \<noteq> rw_sent w \<Longrightarrow> after_sending (rw_pc w' n)"
    and "m \<noteq> n \<Longrightarrow> rw_pc w' m = rw_pc w m"
  unfolding w'
  by (cases "rw_pc w n"; auto simp: world_step_def piece_defs Let_def split: option.splits if_splits)+

definition request_inv :: "(nat \<Rightarrow> release_job) \<Rightarrow> replay_store \<Rightarrow> release_world \<Rightarrow> bool" where
  "request_inv jobs st w \<longleftrightarrow>
     set (rs_attempts st) \<subseteq> set (rs_attempts (rw_store w))
     \<and> (\<forall>n. holds_request w n \<longrightarrow> request_of jobs n \<in> set (rs_attempts (rw_store w)) - set (rs_attempts st))
     \<and> (\<forall>n m. holds_request w n \<longrightarrow> holds_request w m \<longrightarrow> request_of jobs n = request_of jobs m \<longrightarrow> n = m)
     \<and> distinct (map fst (rw_sent w))
     \<and> (\<forall>n\<in>fst ` set (rw_sent w). after_sending (rw_pc w n))"

lemma request_inv_step:
  assumes "request_inv jobs st w"
  shows "request_inv jobs st (world_step cy jobs n i w)"
proof -
  let ?w = "world_step cy jobs n i w"
  note inv = assms [unfolded request_inv_def]
  note res = step_reserves [where w = w and cy = cy and jobs = jobs and n = n and i = i, OF refl]
    and snt = step_sends [where w = w and cy = cy and jobs = jobs and n = n and i = i, OF refl]
  have "set (rs_attempts st) \<subseteq> set (rs_attempts (rw_store ?w))" using inv res(1) by blast
  moreover have "request_of jobs m \<in> set (rs_attempts (rw_store ?w)) - set (rs_attempts st)" if "holds_request ?w m" for m
    using res(2) [OF that] res(1) inv by blast
  moreover have "m = k" if "holds_request ?w m" "holds_request ?w k" "request_of jobs m = request_of jobs k" for m k
    using res(2) [OF that(1)] res(2) [OF that(2)] inv that(3) by (metis Diff_iff)
  moreover have "n \<notin> fst ` set (rw_sent w)" if "rw_pc w n = Cleared d a" for d a
    using inv that by force
  then have "distinct (map fst (rw_sent ?w))" using inv snt(1) by auto
  moreover have "after_sending (rw_pc ?w m)" if "m \<in> fst ` set (rw_sent ?w)" for m
  proof (cases "m = n")
    case True
    then show ?thesis using snt(1,2) inv that by (metis)
  next
    case False
    then have "m \<in> fst ` set (rw_sent w)" using snt(1) that by auto
    then show ?thesis using snt(3) [OF False] inv by auto
  qed
  ultimately show ?thesis unfolding request_inv_def by blast
qed

lemma releases_request_inv: "releases cy jobs st w \<Longrightarrow> request_inv jobs st w"
  by (induction rule: releases.induct) (simp add: request_inv_def holds_request_def, rule request_inv_step)

text \<open>C5: A request is released at most once. However the releases of any number of gates that share a replay store
  interleave, stop or fail, no two calls of a recipient are for requests with one identifier, and none is for an
  identifier the store had before.\<close>

theorem request_released_at_most_once:
  assumes "releases cy jobs st w"
  shows "distinct (map (\<lambda>s. request_of jobs (fst s)) (rw_sent w))
    \<and> (\<forall>(n, _)\<in>set (rw_sent w). request_of jobs n \<notin> set (rs_attempts st) \<and> request_of jobs n \<in> set (rs_attempts (rw_store w)))"
proof -
  note inv = releases_request_inv [OF assms, unfolded request_inv_def]
  have held: "holds_request w n" if "(n, x) \<in> set (rw_sent w)" for n x using that by (force simp: holds_request_def)
  have "inj_on (request_of jobs) (fst ` set (rw_sent w))"
    using inv held by (intro inj_onI) (metis imageE prod.collapse)
  then have "distinct (map (request_of jobs) (map fst (rw_sent w)))" using inv by (subst distinct_map) simp
  then show ?thesis using inv held by (auto simp: comp_def case_prod_beta)
qed

subsection \<open>The audit rows tell the truth\<close>

text \<open>The kinds of step, by what they do to the audit table.\<close>

definition set_delivery :: "string \<Rightarrow> delivery \<Rightarrow> release_observation list \<Rightarrow> release_observation list \<Rightarrow> bool" where
  "set_delivery e d rows rows' \<longleftrightarrow> (\<exists>f. rows' = map (\<lambda>ob. if ob_event_id ob = e then f ob else ob) rows
     \<and> (\<forall>ob. ob_event_id (f ob) = ob_event_id ob \<and> ob_delivery (f ob) = d))"

lemma set_deliveryD:
  assumes "set_delivery e d rows rows'"
  shows "map ob_event_id rows' = map ob_event_id rows"
    and "row' \<in> set rows' \<Longrightarrow> (if ob_event_id row' = e then ob_delivery row' = d else row' \<in> set rows)"
proof -
  obtain f where f: "rows' = map (\<lambda>ob. if ob_event_id ob = e then f ob else ob) rows"
    "ob_event_id (f ob) = ob_event_id ob" "ob_delivery (f ob) = d" for ob
    using assms unfolding set_delivery_def by blast
  show "map ob_event_id rows' = map ob_event_id rows" unfolding f(1) by (simp add: f(2))
  show "row' \<in> set rows' \<Longrightarrow> (if ob_event_id row' = e then ob_delivery row' = d else row' \<in> set rows)"
    unfolding f(1) by (auto simp: f(2,3))
qed

lemma step_kinds:
  assumes "w' = world_step cy jobs n i w"
  obtains (quiet) "rs_audit (rw_store w') = rs_audit (rw_store w)" "rw_sent w' = rw_sent w"
      "attempt_of (rw_pc w' n) = None \<or> (\<exists>d b a. rw_pc w n = Recorded d b a \<and> rw_pc w' n = Cleared d a)"
  | (recorded) d b a where "\<not> after_sending (rw_pc w n)" "rw_pc w' n = Recorded d b a" "ob_delivery a = Unknown_delivery"
      "ob_event_id a \<notin> set (audit_ids (rw_store w))" "rs_audit (rw_store w') = rs_audit (rw_store w) @ [a]" "rw_sent w' = rw_sent w"
  | (cancelled) d b a where "rw_pc w n = Recorded d b a" "attempt_of (rw_pc w' n) = None" "rw_sent w' = rw_sent w"
      "set_delivery (ob_event_id a) Not_attempted (rs_audit (rw_store w)) (rs_audit (rw_store w'))"
  | (sent) d a where "rw_pc w n = Cleared d a" "rs_audit (rw_store w') = rs_audit (rw_store w)"
      "rw_sent w' = rw_sent w @ [(n, ob_event_id a, in_raises i)]"
      "attempt_of (rw_pc w' n) = None \<or> \<not> in_raises i \<and> rw_pc w' n = Delivered d a"
  | (acked) d a where "rw_pc w n = Delivered d a" "attempt_of (rw_pc w' n) = None" "rw_sent w' = rw_sent w"
      "set_delivery (ob_event_id a) Acknowledged (rs_audit (rw_store w)) (rs_audit (rw_store w'))"
proof (cases "rw_pc w n")
  case Start_release
  then show thesis using assms check_release_goes(2) by (intro quiet) (simp_all add: world_step_def)
next
  case (Checked d b)
  then show thesis using assms by (intro quiet) (auto simp: world_step_def piece_defs split: option.splits)
next
  case (Reserved d b)
  show thesis
  proof (cases "in_fault i \<or> in_attempt_id i \<in> set (audit_ids (rw_store w))")
    case True
    then show thesis using assms Reserved by (intro quiet) (auto simp: world_step_def piece_defs Let_def)
  next
    case False
    then show thesis using assms Reserved by (intro recorded) (auto simp: world_step_def piece_defs Let_def)
  qed
next
  case (Recorded d b a)
  show thesis
  proof (cases "recheck (jobs n) b i = None \<or> in_fault i \<or> ob_event_id a \<notin> set (audit_ids (rw_store w))")
    case True
    then show thesis using assms Recorded by (intro quiet) (auto simp: world_step_def piece_defs Let_def split: option.splits)
  next
    case False
    then show thesis using assms Recorded by (intro cancelled) (auto simp: world_step_def piece_defs set_delivery_def Let_def)
  qed
next
  case (Cleared d a)
  then show thesis using assms by (intro sent) (auto simp: world_step_def piece_defs)
next
  case (Delivered d a)
  show thesis
  proof (cases "in_fault i \<or> ob_event_id a \<notin> set (audit_ids (rw_store w))")
    case True
    then show thesis using assms Delivered by (intro quiet) (auto simp: world_step_def piece_defs Let_def)
  next
    case False
    then show thesis using assms Delivered by (intro acked) (auto simp: world_step_def piece_defs set_delivery_def Let_def)
  qed
next
  case (Returned ob)
  then show thesis using assms by (intro quiet) (simp_all add: world_step_def)
qed

definition claims_event :: "release_world \<Rightarrow> nat \<Rightarrow> string \<Rightarrow> bool" where
  "claims_event w n e \<longleftrightarrow> (\<exists>a. attempt_of (rw_pc w n) = Some a \<and> ob_event_id a = e) \<or> (\<exists>r. (n, e, r) \<in> set (rw_sent w))"

lemma step_claims:
  assumes "w' = world_step cy jobs n i w"
  shows "set (audit_ids (rw_store w)) \<subseteq> set (audit_ids (rw_store w'))"
    and "claims_event w' m e \<Longrightarrow> claims_event w m e \<or> m = n \<and> e \<notin> set (audit_ids (rw_store w)) \<and> e \<in> set (audit_ids (rw_store w'))"
proof -
  have other: "m \<noteq> n \<Longrightarrow> rw_pc w' m = rw_pc w m" for m using step_sends(3) [OF assms] .
  from assms have "set (audit_ids (rw_store w)) \<subseteq> set (audit_ids (rw_store w')) \<and>
     (claims_event w' m e \<longrightarrow> claims_event w m e \<or> m = n \<and> e \<notin> set (audit_ids (rw_store w)) \<and> e \<in> set (audit_ids (rw_store w')))"
  proof (cases rule: step_kinds)
    case (cancelled d b a)
    then show ?thesis using other [of m] by (cases "m = n") (auto simp: claims_event_def set_deliveryD(1))
  next
    case (acked d a)
    then show ?thesis using other [of m] by (cases "m = n") (auto simp: claims_event_def set_deliveryD(1))
  qed (use other [of m] in \<open>cases "m = n"; auto simp: claims_event_def\<close>)+
  then show "set (audit_ids (rw_store w)) \<subseteq> set (audit_ids (rw_store w'))"
    and "claims_event w' m e \<Longrightarrow> claims_event w m e \<or> m = n \<and> e \<notin> set (audit_ids (rw_store w)) \<and> e \<in> set (audit_ids (rw_store w'))"
    by blast+
qed

text \<open>Every event of these releases is recorded in a row of its own, which the store did not have before.\<close>

definition events_inv :: "replay_store \<Rightarrow> release_world \<Rightarrow> bool" where
  "events_inv st w \<longleftrightarrow>
     set (audit_ids st) \<subseteq> set (audit_ids (rw_store w))
     \<and> (\<forall>n e. claims_event w n e \<longrightarrow> e \<in> set (audit_ids (rw_store w)) - set (audit_ids st))
     \<and> (\<forall>n m e. claims_event w n e \<longrightarrow> claims_event w m e \<longrightarrow> n = m)"

lemma events_inv_step:
  assumes "events_inv st w"
  shows "events_inv st (world_step cy jobs n i w)"
proof -
  note inv = assms [unfolded events_inv_def]
  note cl = step_claims [where w = w and cy = cy and jobs = jobs and n = n and i = i, OF refl]
  have "set (audit_ids st) \<subseteq> set (audit_ids (rw_store (world_step cy jobs n i w)))" using inv cl(1) by blast
  moreover have "e \<in> set (audit_ids (rw_store (world_step cy jobs n i w))) - set (audit_ids st)"
    if "claims_event (world_step cy jobs n i w) m e" for m e
    using cl(2) [OF that] cl(1) inv by blast
  moreover have "m = k" if "claims_event (world_step cy jobs n i w) m e" "claims_event (world_step cy jobs n i w) k e" for m k e
    using cl(2) [OF that(1)] cl(2) [OF that(2)] inv by (metis Diff_iff)
  ultimately show ?thesis unfolding events_inv_def by blast
qed

text \<open>What a row of these releases says about its delivery.\<close>

fun row_true :: "release_world \<Rightarrow> release_observation \<Rightarrow> bool" where
  "row_true w row = (case ob_delivery row of
     Not_attempted \<Rightarrow> \<forall>n r. (n, ob_event_id row, r) \<notin> set (rw_sent w)
   | Acknowledged \<Rightarrow> \<exists>n. (n, ob_event_id row, False) \<in> set (rw_sent w)
   | Unknown_delivery \<Rightarrow> True)"

definition audit_inv :: "replay_store \<Rightarrow> release_world \<Rightarrow> bool" where
  "audit_inv st w \<longleftrightarrow>
     (\<forall>row\<in>set (rs_audit (rw_store w)). ob_event_id row \<notin> set (audit_ids st) \<longrightarrow> row_true w row)
     \<and> (\<forall>n d a. rw_pc w n = Delivered d a \<longrightarrow> (n, ob_event_id a, False) \<in> set (rw_sent w))
     \<and> (\<forall>n a. attempt_of (rw_pc w n) = Some a \<longrightarrow> \<not> after_sending (rw_pc w n) \<longrightarrow>
          (\<forall>row\<in>set (rs_audit (rw_store w)). ob_event_id row = ob_event_id a \<longrightarrow> ob_delivery row = Unknown_delivery))"

lemma audit_inv_step:
  assumes "audit_inv st w" "request_inv jobs st w" "events_inv st w"
  shows "audit_inv st (world_step cy jobs n i w)"
proof -
  define w' where w': "w' = world_step cy jobs n i w"
  have other: "m \<noteq> n \<Longrightarrow> rw_pc w' m = rw_pc w m" for m using step_sends(3) [OF w'] .
  have unsent: "(n, e, r) \<notin> set (rw_sent w)" if "\<not> after_sending (rw_pc w n)" for e r
    using assms(2) that by (force simp: request_inv_def)
  have own: "m = n" if "(m, ob_event_id a, r) \<in> set (rw_sent w) \<or> attempt_of (rw_pc w m) = Some b \<and> ob_event_id b = ob_event_id a"
    "attempt_of (rw_pc w n) = Some a" for m a b r
    using assms(3) that unfolding events_inv_def claims_event_def by blast
  have new: "ob_event_id a \<noteq> ob_event_id b" if "attempt_of (rw_pc w m) = Some b" "ob_event_id a \<notin> set (audit_ids (rw_store w))" for m a b
    using assms(3) that unfolding events_inv_def claims_event_def by fastforce
  have new_sent: "(m, ob_event_id a, r) \<notin> set (rw_sent w)" if "ob_event_id a \<notin> set (audit_ids (rw_store w))" for m a r
    using assms(3) that unfolding events_inv_def claims_event_def by fastforce
  have rows: "ob_event_id row \<notin> set (audit_ids st) \<Longrightarrow> row_true w row" if "row \<in> set (rs_audit (rw_store w))" for row
    using assms(1) that unfolding audit_inv_def by blast
  have dlv: "rw_pc w m = Delivered d a \<Longrightarrow> (m, ob_event_id a, False) \<in> set (rw_sent w)" for m d a
    using assms(1) unfolding audit_inv_def by blast
  have unk: "attempt_of (rw_pc w m) = Some a \<Longrightarrow> \<not> after_sending (rw_pc w m) \<Longrightarrow> row \<in> set (rs_audit (rw_store w)) \<Longrightarrow>
      ob_event_id row = ob_event_id a \<Longrightarrow> ob_delivery row = Unknown_delivery" for m a row
    using assms(1) unfolding audit_inv_def by blast
  from w' have "audit_inv st w'"
  proof (cases rule: step_kinds)
    case quiet
    have pcs: "rw_pc w' m = rw_pc w m \<or> attempt_of (rw_pc w' m) = None \<or> (\<exists>d b a. rw_pc w m = Recorded d b a \<and> rw_pc w' m = Cleared d a)" for m
      using quiet(3) other by (cases "m = n") auto
    show ?thesis unfolding audit_inv_def
    proof (intro conjI allI ballI impI)
      show "row_true w' row" if "row \<in> set (rs_audit (rw_store w'))" "ob_event_id row \<notin> set (audit_ids st)" for row
        using rows [of row] that quiet(1,2) by (simp split: delivery.splits)
      show "(m, ob_event_id a, False) \<in> set (rw_sent w')" if "rw_pc w' m = Delivered d a" for m d a
        using pcs [of m] that dlv [of m d a] quiet(2) by auto
      show "ob_delivery row = Unknown_delivery" if "attempt_of (rw_pc w' m) = Some a" "\<not> after_sending (rw_pc w' m)"
        "row \<in> set (rs_audit (rw_store w'))" "ob_event_id row = ob_event_id a" for m a row
        using pcs [of m] that unk [of m a row] quiet(1) by auto
    qed
  next
    case (recorded d b a)
    have fresh: "ob_event_id row \<noteq> ob_event_id a" if "row \<in> set (rs_audit (rw_store w))" for row
      using recorded(4) that by (auto simp: image_iff)
    show ?thesis unfolding audit_inv_def
    proof (intro conjI allI ballI impI)
      show "row_true w' row" if "row \<in> set (rs_audit (rw_store w'))" "ob_event_id row \<notin> set (audit_ids st)" for row
        using rows [of row] that recorded by (auto split: delivery.splits)
      show "(m, ob_event_id a, False) \<in> set (rw_sent w')" if "rw_pc w' m = Delivered d a" for m d a
        using other [of m] that dlv [of m d a] recorded(2,6) by (cases "m = n") auto
      show "ob_delivery row = Unknown_delivery" if "attempt_of (rw_pc w' m) = Some c" "\<not> after_sending (rw_pc w' m)"
        "row \<in> set (rs_audit (rw_store w'))" "ob_event_id row = ob_event_id c" for m c row
        using other [of m] that unk [of m c row] recorded new [of m c a] fresh [of row] by (cases "m = n") auto
    qed
  next
    case (cancelled d b a)
    note upd = set_deliveryD(2) [OF cancelled(4)]
    show ?thesis unfolding audit_inv_def
    proof (intro conjI allI ballI impI)
      show "row_true w' row" if "row \<in> set (rs_audit (rw_store w'))" "ob_event_id row \<notin> set (audit_ids st)" for row
        using rows [of row] that upd [of row] cancelled(1,3) own [of _ a] unsent by (fastforce split: delivery.splits if_splits)
      show "(m, ob_event_id a, False) \<in> set (rw_sent w')" if "rw_pc w' m = Delivered d a" for m d a
        using other [of m] that dlv [of m d a] cancelled(2,3) by (cases "m = n") auto
      show "ob_delivery row = Unknown_delivery" if "attempt_of (rw_pc w' m) = Some c" "\<not> after_sending (rw_pc w' m)"
        "row \<in> set (rs_audit (rw_store w'))" "ob_event_id row = ob_event_id c" for m c row
        using other [of m] that unk [of m c row] cancelled(1,2) own [of m a _ c] upd [of row] by (cases "m = n") (auto split: if_splits)
    qed
  next
    case (sent d a)
    show ?thesis unfolding audit_inv_def
    proof (intro conjI allI ballI impI)
      show "row_true w' row" if "row \<in> set (rs_audit (rw_store w'))" "ob_event_id row \<notin> set (audit_ids st)" for row
        using rows [of row] that unk [of n a row] sent by (auto split: delivery.splits)
      show "(m, ob_event_id c, False) \<in> set (rw_sent w')" if "rw_pc w' m = Delivered e c" for m e c
        using other [of m] that dlv [of m e c] sent by (cases "m = n") auto
      show "ob_delivery row = Unknown_delivery" if "attempt_of (rw_pc w' m) = Some c" "\<not> after_sending (rw_pc w' m)"
        "row \<in> set (rs_audit (rw_store w'))" "ob_event_id row = ob_event_id c" for m c row
        using other [of m] that unk [of m c row] sent by (cases "m = n") auto
    qed
  next
    case (acked d a)
    note upd = set_deliveryD(2) [OF acked(4)]
    show ?thesis unfolding audit_inv_def
    proof (intro conjI allI ballI impI)
      show "row_true w' row" if "row \<in> set (rs_audit (rw_store w'))" "ob_event_id row \<notin> set (audit_ids st)" for row
        using rows [of row] that upd [of row] acked(1,3) dlv [of n d a] by (auto split: delivery.splits if_splits)
      show "(m, ob_event_id a, False) \<in> set (rw_sent w')" if "rw_pc w' m = Delivered d a" for m d a
        using other [of m] that dlv [of m d a] acked(2,3) by (cases "m = n") auto
      show "ob_delivery row = Unknown_delivery" if "attempt_of (rw_pc w' m) = Some c" "\<not> after_sending (rw_pc w' m)"
        "row \<in> set (rs_audit (rw_store w'))" "ob_event_id row = ob_event_id c" for m c row
        using other [of m] that unk [of m c row] acked(1,2) own [of m a _ c] upd [of row] by (cases "m = n") (auto split: if_splits)
    qed
  qed
  then show ?thesis by (simp add: w')
qed

lemma releases_audit_inv: "releases cy jobs st w \<Longrightarrow> audit_inv st w \<and> events_inv st w"
proof (induction rule: releases.induct)
  case start
  then show ?case by (auto simp: audit_inv_def events_inv_def claims_event_def)
next
  case (step w n i)
  then show ?case using audit_inv_step events_inv_step releases_request_inv by blast
qed

text \<open>C18: The durable record of a disclosure is true however releases interleave, stop or fail. Every call of a recipient has a
  row of its own in the audit table, recorded before it; a row that says the release was not attempted belongs to no call, and a
  row that says it was acknowledged belongs to a call from which the recipient returned.\<close>

theorem disclosure_audit_is_true:
  assumes "releases cy jobs st w"
  shows "(\<forall>(n, e, r)\<in>set (rw_sent w). e \<in> set (audit_ids (rw_store w)) - set (audit_ids st))
    \<and> (\<forall>row\<in>set (audit_observations (rw_store w)). ob_event_id row \<notin> set (audit_ids st) \<longrightarrow>
         (ob_delivery row = Not_attempted \<longrightarrow> (\<forall>n r. (n, ob_event_id row, r) \<notin> set (rw_sent w)))
         \<and> (ob_delivery row = Acknowledged \<longrightarrow> (\<exists>n. (n, ob_event_id row, False) \<in> set (rw_sent w))))"
proof (intro conjI ballI impI)
  have inv: "audit_inv st w" "events_inv st w" using releases_audit_inv [OF assms] by auto
  show "case x of (n, e, r) \<Rightarrow> e \<in> set (audit_ids (rw_store w)) - set (audit_ids st)" if "x \<in> set (rw_sent w)" for x
    using inv(2) that unfolding events_inv_def claims_event_def by (cases x) blast
  fix row assume "row \<in> set (audit_observations (rw_store w))" "ob_event_id row \<notin> set (audit_ids st)"
  then have "row_true w row" using inv(1) by (auto simp: audit_inv_def audit_observations_def)
  then show "ob_delivery row = Not_attempted \<Longrightarrow> \<forall>n r. (n, ob_event_id row, r) \<notin> set (rw_sent w)"
    "ob_delivery row = Acknowledged \<Longrightarrow> \<exists>n. (n, ob_event_id row, False) \<in> set (rw_sent w)" by simp_all
qed

section \<open>What a release requires\<close>

text \<open>The pieces of one release, run without interruption, always return.\<close>

fun pieces_left :: "release_pc \<Rightarrow> nat" where
  "pieces_left Start_release = 6"
| "pieces_left (Checked _ _) = 5"
| "pieces_left (Reserved _ _) = 4"
| "pieces_left (Recorded _ _ _) = 3"
| "pieces_left (Cleared _ _) = 2"
| "pieces_left (Delivered _ _) = 1"
| "pieces_left (Returned _) = 0"

lemma piece_advances: "pieces_left (fst (fst (release_piece cy j i pc st))) \<le> pieces_left pc - 1"
  by (cases pc) (auto simp: piece_defs Let_def split: option.splits)

lemma release_from_returns: "pieces_left pc \<le> length inputs \<Longrightarrow> \<exists>ob. fst (release_from cy j inputs pc st) = Returned ob"
proof (induction inputs arbitrary: pc st)
  case Nil
  then show ?case by (cases pc) auto
next
  case (Cons i inputs)
  have "pieces_left (fst (fst (release_piece cy j i pc st))) \<le> length inputs"
    using piece_advances [of cy j i pc st] Cons.prems by simp
  from Cons.IH [OF this, of "snd (fst (release_piece cy j i pc st))"] show ?case
    by (auto simp: Let_def split: prod.splits)
qed

lemma release_returns: "\<exists>ob. fst (release cy j inp st) = Returned ob"
  unfolding release_def by (rule release_from_returns) simp

text \<open>An approval that lets a request leave its ceiling at a time.\<close>

definition approved_at :: "crypto \<Rightarrow> disclosure_gate \<Rightarrow> release_request \<Rightarrow> disclosure_approval \<Rightarrow> int \<Rightarrow> bool" where
  "approved_at cy g r a t \<longleftrightarrow>
     (\<exists>authority. map_of (dg_authorities g) (ap_principal a) = Some authority
        \<and> rq_source_scope r \<in> set (au_source_scopes authority) \<and> rq_recipient r \<in> set (au_recipients authority)
        \<and> rq_purpose r \<in> set (au_purposes authority)
        \<and> cy_ed25519 cy (au_key authority) (ap_signature a)
            (approval_input cy r (ap_principal a) (ap_not_before a) (ap_expires_at a)) = Verified)
     \<and> ap_not_before a \<le> t \<and> t < ap_expires_at a"

definition release_permitted :: "crypto \<Rightarrow> release_job \<Rightarrow> clock \<Rightarrow> bool" where
  "release_permitted cy j now \<longleftrightarrow>
     (let g = jb_gate j; r = jb_request j in
      rq_policy_version r = dg_version g \<and> rq_source_scope r \<in> set (dg_scopes g)
      \<and> (\<exists>recipient. map_of (dg_recipients g) (rq_recipient r) = Some recipient \<and> rp_boundary recipient \<noteq> ''unknown''
           \<and> map_of (dg_order g) (rp_ceiling recipient) \<noteq> None
           \<and> (\<forall>label\<in>set (rq_labels r). map_of (dg_order g) label \<noteq> None)
           \<and> (within_ceiling g r recipient \<or> (\<exists>a t. jb_approval j = Some a \<and> now = Clock_at t \<and> approved_at cy g r a t))))"

lemma validity_None: "validity now fresh a = None \<Longrightarrow> \<exists>t. now = Clock_at t \<and> ap_not_before a \<le> t \<and> t < ap_expires_at a"
  by (auto simp: validity_def split: clock.splits if_splits)

lemma checked_permits:
  assumes "check_release cy j i = Checked d inside" "recheck j inside i' = None"
  shows "release_permitted cy j (in_now i')"
proof -
  let ?g = "jb_gate j" and ?r = "jb_request j"
  from assms(1) obtain recipient where rec: "map_of (dg_recipients ?g) (rq_recipient ?r) = Some recipient"
      "rp_boundary recipient \<noteq> ''unknown''" "rq_policy_version ?r = dg_version ?g" "rq_source_scope ?r \<in> set (dg_scopes ?g)"
      "map_of (dg_order ?g) (rp_ceiling recipient) \<noteq> None" "\<forall>label\<in>set (rq_labels ?r). map_of (dg_order ?g) label \<noteq> None"
    and inside: "inside = within_ceiling ?g ?r recipient" "\<not> inside \<Longrightarrow> check_approval cy ?g ?r (jb_approval j) i = None"
    by (auto simp: check_release_def Let_def list_ex_iff split: option.splits if_splits)
  have "\<exists>a t. jb_approval j = Some a \<and> in_now i' = Clock_at t \<and> approved_at cy ?g ?r a t" if "\<not> inside"
  proof -
    from inside(2) [OF that] obtain a where a: "jb_approval j = Some a" by (auto simp: check_approval_def split: option.splits)
    with assms(2) that have "validity (in_now i') (in_fresh i') a = None" by (simp add: recheck_def)
    then obtain t where "in_now i' = Clock_at t" "ap_not_before a \<le> t" "t < ap_expires_at a" using validity_None by blast
    moreover have "approved_at cy ?g ?r a t" using calculation inside(2) [OF that] a
      by (auto simp: check_approval_def approved_at_def split: option.splits if_splits)
    ultimately show ?thesis using a by blast
  qed
  with rec inside(1) show ?thesis unfolding release_permitted_def Let_def by blast
qed

text \<open>A release that called its recipient was cleared by a reading of the clock.\<close>

lemma release_sends:
  assumes "release cy j inp st = (pc, st', out)"
  shows "out = [] \<or> out = [rq_payload (jb_request j)] \<and> release_permitted cy j (in_now (inp 3))"
proof (cases "check_release cy j (inp 0)")
  case (Checked d b)
  then show ?thesis
    using assms checked_permits [OF Checked, of "inp 3"]
    by (auto simp: release_def piece_defs Let_def split: option.splits if_splits)
qed (use assms check_release_goes [of cy j "inp 0"] in \<open>auto simp: release_def\<close>)

text \<open>The canonical text of an approval determines every field it names and the digest of the payload.\<close>

definition same_release :: "release_request \<Rightarrow> release_request \<Rightarrow> bool" where
  "same_release r r' \<longleftrightarrow> r\<lparr>rq_payload := []\<rparr> = r'\<lparr>rq_payload := []\<rparr>"

lemma approval_document_inject:
  assumes "norm_json (approval_document sha256 r p nb ea) = norm_json (approval_document sha256 r' p' nb' ea')"
  shows "p = p' \<and> nb = nb' \<and> ea = ea' \<and> same_release r r' \<and> sha256 (rq_payload r) = sha256 (rq_payload r')"
  using assms by (simp add: approval_document_def same_release_def inj_map_eq_map inj_def)


text \<open>An approved request is delivered. With an approval made by a registered authority for a request within its scopes, on a
  store that has neither the request nor the event, and with no fault, a release hands over the payload, returns the
  acknowledgement, and leaves it in the audit table.\<close>

theorem approved_release_is_delivered:
  assumes "approve_exact_output cy sign (jb_request j) owner nb ea = Inr a" "jb_approval j = Some a"
    and "cy_ed25519 cy (au_key authority) (sign (approval_input cy (jb_request j) owner nb ea))
          (approval_input cy (jb_request j) owner nb ea) = Verified"
    and "map_of (dg_authorities (jb_gate j)) owner = Some authority"
    and "rq_source_scope (jb_request j) \<in> set (au_source_scopes authority)" "rq_recipient (jb_request j) \<in> set (au_recipients authority)"
      "rq_purpose (jb_request j) \<in> set (au_purposes authority)"
    and "rq_policy_version (jb_request j) = dg_version (jb_gate j)" "rq_source_scope (jb_request j) \<in> set (dg_scopes (jb_gate j))"
    and "map_of (dg_recipients (jb_gate j)) (rq_recipient (jb_request j)) = Some recipient" "rp_boundary recipient \<noteq> ''unknown''"
    and "map_of (dg_order (jb_gate j)) (rp_ceiling recipient) \<noteq> None"
      "\<forall>label\<in>set (rq_labels (jb_request j)). map_of (dg_order (jb_gate j)) label \<noteq> None"
    and "\<And>k. \<exists>t. in_now (inp k) = Clock_at t \<and> nb \<le> t \<and> t < ea" "\<And>k. \<not> in_fault (inp k)" "\<And>k. \<not> in_raises (inp k)"
    and "rq_request_id (jb_request j) \<notin> set (rs_attempts st)" "in_attempt_id (inp 2) \<notin> set (audit_ids st)"
  shows "\<exists>ob st'. release cy j inp st = (Returned ob, st', [rq_payload (jb_request j)])
    \<and> ob_delivery ob = Acknowledged \<and> ob_event_id ob = in_attempt_id (inp 2) \<and> last (audit_observations st') = ob"
proof -
  have a: "ap_principal a = owner" "ap_not_before a = nb" "ap_expires_at a = ea" "0 \<le> nb"
    "ap_signature a = sign (approval_input cy (jb_request j) owner nb ea)"
    using assms(1) by (auto simp: approve_exact_output_def new_disclosure_approval_def split: if_splits)
  have v: "validity (in_now (inp k)) f a = None" for k f
    using assms(14) [of k] a by (auto simp: validity_def)
  then have rc: "recheck j b (inp k) = None" for b k using assms(2) by (simp add: recheck_def)
  have "check_approval cy (jb_gate j) (jb_request j) (jb_approval j) (inp 0) = None"
    using assms(2-7) a v by (simp add: check_approval_def)
  then obtain d b where c: "check_release cy j (inp 0) = Checked d b"
    using assms(8-13) by (cases "within_ceiling (jb_gate j) (jb_request j) recipient") (auto simp: check_release_def list_ex_iff Let_def)
  then show ?thesis
    using assms(15-18) rc by (simp add: release_def piece_defs audit_observations_def Let_def image_iff)
qed

subsection \<open>Concrete releases\<close>

definition demo_request :: "string \<Rightarrow> release_request" where
  "demo_request label = \<lparr>rq_payload = ''report'', rq_workload = ''w'', rq_source_scope = ''s'', rq_labels = [label], rq_recipient = ''bob'',
     rq_purpose = ''audit'', rq_policy_version = ''v1'', rq_request_id = replicate 64 (CHR ''a'')\<rparr>"

definition demo_gate :: disclosure_gate where
  "demo_gate = \<lparr>dg_version = ''v1'', dg_scopes = [''s''], dg_order = [(''low'', 0), (''high'', 2)],
     dg_recipients = [(''bob'', \<lparr>rp_ceiling = ''low'', rp_boundary = ''accepted''\<rparr>)],
     dg_authorities = [(''eve'', \<lparr>au_key = ''k'', au_source_scopes = [''s''], au_recipients = [''bob''], au_purposes = [''audit'']\<rparr>)]\<rparr>"

definition demo_hashing :: crypto where
  "demo_hashing = \<lparr>cy_sha256 = pad32, cy_jcs = dumps, cy_ed25519 = (\<lambda>_ _ _. Bad_signature)\<rparr>"

text \<open>One approval was ever made, for the high label, valid from 5 to 9.\<close>

definition demo_cy :: crypto where
  "demo_cy = demo_hashing\<lparr>cy_ed25519 := (\<lambda>_ _ m. if m = approval_input demo_hashing (demo_request ''high'') ''eve'' 5 9 then Verified else Bad_signature)\<rparr>"

definition demo_sign :: "bytes \<Rightarrow> bytes" where "demo_sign m = replicate 64 (CHR ''x'')"

definition demo_job :: "string \<Rightarrow> release_job" where
  "demo_job label = \<lparr>jb_gate = demo_gate, jb_request = demo_request label,
     jb_approval = Some \<lparr>ap_principal = ''eve'', ap_not_before = 5, ap_expires_at = 9, ap_signature = demo_sign []\<rparr>\<rparr>"

definition demo_input :: "bool \<Rightarrow> nat \<Rightarrow> release_input" where
  "demo_input raises k = \<lparr>in_now = Clock_at 7, in_fault = False, in_raises = raises, in_fresh = ''f'', in_attempt_id = ''e''\<rparr>"

abbreviation demo_store :: replay_store where "demo_store \<equiv> \<lparr>rs_attempts = [], rs_audit = []\<rparr>"

lemma demo_cy_simps [simp]:
  "approval_input demo_cy r p nb ea = approval_input demo_hashing r p nb ea" "cy_jcs demo_cy = dumps"
  "cy_ed25519 demo_cy k sig m = Verified \<longleftrightarrow> m = approval_input demo_hashing (demo_request ''high'') ''eve'' 5 9"
  by (simp_all add: approval_input_def demo_cy_def demo_hashing_def)

lemma demo_job_simps [simp]:
  "jb_gate (demo_job l) = demo_gate" "jb_request (demo_job l) = demo_request l"
  "jb_approval (demo_job l) = Some \<lparr>ap_principal = ''eve'', ap_not_before = 5, ap_expires_at = 9, ap_signature = demo_sign []\<rparr>"
  by (simp_all add: demo_job_def)

lemma demo_request_simps [simp]:
  "rq_payload (demo_request l) = ''report''" "rq_source_scope (demo_request l) = ''s''" "rq_labels (demo_request l) = [l]"
  "rq_recipient (demo_request l) = ''bob''" "rq_purpose (demo_request l) = ''audit''" "rq_policy_version (demo_request l) = ''v1''"
  "rq_request_id (demo_request l) = replicate 64 (CHR ''a'')"
  by (simp_all add: demo_request_def)

theorem approved_release_is_delivered_witness:
  "\<exists>ob st'. release demo_cy (demo_job ''high'') (demo_input False) demo_store = (Returned ob, st', [''report''])
    \<and> ob_delivery ob = Acknowledged \<and> ob_event_id ob = ''e'' \<and> last (audit_observations st') = ob"
  using approved_release_is_delivered [of demo_cy demo_sign "demo_job ''high''" "''eve''" 5 9
      "\<lparr>ap_principal = ''eve'', ap_not_before = 5, ap_expires_at = 9, ap_signature = demo_sign []\<rparr>"
      "\<lparr>au_key = ''k'', au_source_scopes = [''s''], au_recipients = [''bob''], au_purposes = [''audit'']\<rparr>"
      "\<lparr>rp_ceiling = ''low'', rp_boundary = ''accepted''\<rparr>" "demo_input False" demo_store]
  by (simp add: demo_gate_def demo_input_def demo_sign_def approve_exact_output_def new_disclosure_approval_def names_ok_def)

lemma demo_released:
  "\<exists>ob st'. release demo_cy (demo_job ''high'') (demo_input True) demo_store = (Returned ob, st', [''report''])"
  by (simp add: release_def piece_defs demo_gate_def demo_input_def recheck_def check_approval_def
      within_ceiling_def validity_def demo_sign_def Let_def)


text \<open>Two releases of one request: the first one to reserve it is the only one to send it.\<close>

definition demo_schedule :: "nat list" where "demo_schedule = [0, 1, 1, 0, 0, 1, 1, 1, 1]"

definition demo_world :: release_world where
  "demo_world = fold (\<lambda>n. world_step demo_cy (\<lambda>_. demo_job ''low'') n (demo_input False n)) demo_schedule
     \<lparr>rw_store = demo_store, rw_pc = (\<lambda>_. Start_release), rw_sent = []\<rparr>"

lemma demo_world_reached: "releases demo_cy (\<lambda>_. demo_job ''low'') demo_store demo_world"
  unfolding demo_world_def demo_schedule_def by (simp add: releases.intros)

lemma demo_world_state: "rw_sent demo_world = [(1, ''e'', False)] \<and> map ob_delivery (rs_audit (rw_store demo_world)) = [Acknowledged]"
  unfolding demo_world_def demo_schedule_def
  by (simp add: world_step_def piece_defs demo_gate_def demo_input_def recheck_def within_ceiling_def Let_def)

theorem request_released_at_most_once_witness:
  "releases demo_cy (\<lambda>_. demo_job ''low'') demo_store demo_world \<and> rw_sent demo_world = [(1, ''e'', False)]
   \<and> replicate 64 (CHR ''a'') \<in> set (rs_attempts (rw_store demo_world))"
  using request_released_at_most_once [OF demo_world_reached] demo_world_reached demo_world_state
  by simp

theorem disclosure_audit_is_true_witness:
  "releases demo_cy (\<lambda>_. demo_job ''low'') demo_store demo_world \<and> ''e'' \<in> set (audit_ids (rw_store demo_world))"
  using disclosure_audit_is_true [OF demo_world_reached] demo_world_reached demo_world_state by simp

end
