(* ===== verification/Manifest_Catalog.thy ===== *)
theory Manifest_Catalog
  imports Catalog Verify_Base
begin

text \<open>
  The projection of the served catalog onto an Agent Manifest's tool list
  (\<open>manifest_catalog.py\<close>). The Merkle root and the tool model of the
  \<open>agent_manifest\<close> package are the argument \<open>merkle\<close>, which has no value when that
  package raises a \<open>ValueError\<close>; the RFC 8785 serialiser is the argument \<open>jcs\<close>.
\<close>

section \<open>The projection\<close>

datatype manifest_error =
    Cannot_read_manifest | Manifest_not_object | Bare_cose_manifest | Not_a_cose_envelope | Cose_payload_not_object
  | Anchor_unreadable | Anchor_shape | Anchor_entry_not_object | Not_base64url | Repeated_key_id string | Issuers_not_spiffe
  | Revocations_too_large | Revocations_unreadable | Revocation_not_json nat | Revocation_not_object nat
  | Revocation_without_id nat | Revocation_invalid nat
  | Invalid_ed25519_key | Key_id_mismatch
  | Signature_failed | Policy_hash_mismatch | Catalog_hash_mismatch | Enforcement_mode_mismatch | Issuer_not_authorized
  | Manifest_revoked | Manifest_expired | Signature_block_missing | Signature_unverifiable string | Version_unsupported
  | Verification_incomplete | Sdk_failed string
  | Experimental_needs_catalog | Listing_needs_catalog | Not_canonicalizable | Payload_differs | Sealed_catalog_not_bound
  | Not_a_hash string | Time_missing string | Time_not_rfc3339 string | Time_without_zone string
  | Manifest_id_missing | Agent_id_not_spiffe | Issuer_not_spiffe | Artifacts_missing | Artifacts_incomplete
  | No_issuer_policy | Subject_source_unsupported | Dev_source_outside_dev | Subject_not_spiffe | Subject_mismatch
  | Catalog_name_mismatch | Out_of_profile string | Join_failed
  | Not_config_error py_exc

definition PROJECTION_VERSION :: string where "PROJECTION_VERSION = ''experimental-v1''"

definition manifest_digest :: "(bytes \<Rightarrow> bytes) \<Rightarrow> bytes \<Rightarrow> string" where
  "manifest_digest sha256 raw = ''sha256:'' @ hexlify (sha256 raw)"

definition schema_document :: "approved_definition \<Rightarrow> json" where
  "schema_document d = JObj [(''input_schema'', ad_input_schema d),
     (''output_schema'', case ad_output_schema d of None \<Rightarrow> JNull | Some s \<Rightarrow> s)]"

definition components :: "(bytes \<Rightarrow> bytes) \<Rightarrow> (json \<Rightarrow> bytes option) \<Rightarrow> catalog_entry \<Rightarrow> manifest_error + string \<times> string" where
  "components sha256 jcs entry =
     (let d = ce_approved_definition entry in
      case (jcs (schema_document d), jcs (JStr (ad_description d))) of
        (Some s, Some t) \<Rightarrow> Inr (manifest_digest sha256 s, manifest_digest sha256 t)
      | _ \<Rightarrow> Inl (Not_config_error Py_value))"

definition has_spiffe :: "catalog_entry \<Rightarrow> bool" where
  "has_spiffe e \<longleftrightarrow> (case sv_spiffe_id (ce_server e) of Some s \<Rightarrow> starts_with ''spiffe://'' s | None \<Rightarrow> False)"

fun require_profile :: "(string \<times> catalog_entry) list \<Rightarrow> manifest_error + unit" where
  "require_profile [] = Inr ()"
| "require_profile ((name, entry) # entries) =
     (if name \<noteq> ce_tool_name entry then Inl Catalog_name_mismatch
      else if \<not> has_spiffe entry then Inl (Out_of_profile name)
      else require_profile entries)"

definition endpoint :: "catalog_entry \<Rightarrow> string" where
  "endpoint e = (case sv_spiffe_id (ce_server e) of Some s \<Rightarrow> s | None \<Rightarrow> [])"

record tool_binding =
  tb_tool_id :: string
  tb_tool_name :: string
  tb_endpoint_id :: string
  tb_schema_hash :: string
  tb_description_hash :: string

definition tool_document :: "tool_binding \<Rightarrow> json" where
  "tool_document t = JObj [(''tool_id'', JStr (tb_tool_id t)), (''tool_name'', JStr (tb_tool_name t)),
     (''endpoint_id'', JStr (tb_endpoint_id t)), (''schema_hash'', JStr (tb_schema_hash t)),
     (''description_hash'', JStr (tb_description_hash t)), (''version'', JStr PROJECTION_VERSION)]"

definition bind_tool :: "(bytes \<Rightarrow> bytes) \<Rightarrow> (json \<Rightarrow> bytes option) \<Rightarrow> string \<Rightarrow> catalog_entry \<Rightarrow> manifest_error + tool_binding" where
  "bind_tool sha256 jcs tool_id entry =
     bind_result (components sha256 jcs entry) (\<lambda>(schema_hash, description_hash).
       Inr \<lparr>tb_tool_id = tool_id, tb_tool_name = ce_tool_name entry, tb_endpoint_id = endpoint entry,
            tb_schema_hash = schema_hash, tb_description_hash = description_hash\<rparr>)"

fun bind_tools :: "(bytes \<Rightarrow> bytes) \<Rightarrow> (json \<Rightarrow> bytes option) \<Rightarrow> (catalog_entry \<Rightarrow> string) \<Rightarrow> catalog_entry list \<Rightarrow> manifest_error + tool_binding list" where
  "bind_tools sha256 jcs tool_id [] = Inr []"
| "bind_tools sha256 jcs tool_id (e # es) =
     bind_result (bind_tool sha256 jcs (tool_id e) e) (\<lambda>t. bind_result (bind_tools sha256 jcs tool_id es) (\<lambda>ts. Inr (t # ts)))"

record catalog_binding =
  cb_catalog_hash :: string
  cb_tools :: "tool_binding list"

text \<open>Both loops read the entries in the order of their names, which are the keys of the catalog once the profile holds.\<close>

definition served_entries :: "tool_catalog \<Rightarrow> catalog_entry list" where
  "served_entries c = map snd (sort_key fst (tc_entries c))"

definition manifest_catalog_binding ::
  "(bytes \<Rightarrow> bytes) \<Rightarrow> (json \<Rightarrow> bytes option) \<Rightarrow> (json list \<Rightarrow> string option) \<Rightarrow> tool_catalog \<Rightarrow> manifest_error + catalog_binding" where
  "manifest_catalog_binding sha256 jcs merkle c =
     bind_result (require_profile (tc_entries c)) (\<lambda>_.
     bind_result (bind_tools sha256 jcs ce_tool_name (served_entries c)) (\<lambda>tools.
       case merkle (map tool_document tools) of
         None \<Rightarrow> Inl (Not_config_error Py_value)
       | Some h \<Rightarrow> Inr \<lparr>cb_catalog_hash = h, cb_tools = tools\<rparr>))"

text \<open>A listed tool, as far as the join reads it.\<close>

definition joinable_tool :: "json \<Rightarrow> (string \<times> string \<times> string) option" where
  "joinable_tool t =
     (case t of
        JObj d \<Rightarrow> (case (dget d ''tool_id'', dget d ''tool_name'', dget d ''endpoint_id'') of
                    (JStr i, JStr n, JStr p) \<Rightarrow> Some (i, n, p) | _ \<Rightarrow> None)
      | _ \<Rightarrow> None)"

definition joinable_tools :: "json \<Rightarrow> (string \<times> string \<times> string) list option" where
  "joinable_tools listed =
     (case listed of
        JArr ts \<Rightarrow> if list_all (\<lambda>t. joinable_tool t \<noteq> None) ts then Some (List.map_filter joinable_tool ts) else None
      | _ \<Rightarrow> None)"

definition project_listed_tools ::
  "(bytes \<Rightarrow> bytes) \<Rightarrow> (json \<Rightarrow> bytes option) \<Rightarrow> (json list \<Rightarrow> string option) \<Rightarrow> tool_catalog \<Rightarrow> json \<Rightarrow> manifest_error + catalog_binding" where
  "project_listed_tools sha256 jcs merkle c listed =
     bind_result (require_profile (tc_entries c)) (\<lambda>_.
       case joinable_tools listed of
         None \<Rightarrow> Inl Join_failed
       | Some rows \<Rightarrow>
           if \<not> distinct (map fst rows) \<or> \<not> distinct (map snd rows) then Inl Join_failed
           else if set (map snd rows) \<noteq> (\<lambda>e. (ce_tool_name e, endpoint e)) ` set (map snd (tc_entries c)) then Inl Join_failed
           else bind_result (bind_tools sha256 jcs (\<lambda>e. the (map_of (map (\<lambda>(i, k). (k, i)) rows) (ce_tool_name e, endpoint e))) (served_entries c)) (\<lambda>tools.
             case merkle (map tool_document tools) of
               None \<Rightarrow> Inl Join_failed
             | Some h \<Rightarrow> Inr \<lparr>cb_catalog_hash = h, cb_tools = tools\<rparr>))"

section \<open>What a projection says\<close>

lemma require_profile_ok: "require_profile es = Inr u \<longleftrightarrow> (\<forall>(n, e)\<in>set es. n = ce_tool_name e \<and> has_spiffe e)"
  by (induction es) (auto split: if_splits)

lemma bind_tools_ok:
  "bind_tools sha256 jcs f es = Inr ts \<longleftrightarrow> list_all2 (\<lambda>e t. bind_tool sha256 jcs (f e) e = Inr t) es ts"
  by (induction es arbitrary: ts) (auto simp: bind_result_eq_Inr list_all2_Cons1)

lemma bind_tool_ok:
  "bind_tool sha256 jcs i e = Inr t \<longleftrightarrow> (\<exists>s d. jcs (schema_document (ce_approved_definition e)) = Some s
     \<and> jcs (JStr (ad_description (ce_approved_definition e))) = Some d
     \<and> t = \<lparr>tb_tool_id = i, tb_tool_name = ce_tool_name e, tb_endpoint_id = endpoint e,
            tb_schema_hash = manifest_digest sha256 s, tb_description_hash = manifest_digest sha256 d\<rparr>)"
  by (auto simp: bind_tool_def components_def Let_def bind_result_eq_Inr split: option.splits)

lemma joinable_tool_document [simp]: "joinable_tool (tool_document t) = Some (tb_tool_id t, tb_tool_name t, tb_endpoint_id t)"
  by (simp add: joinable_tool_def tool_document_def dget_or_def)

lemma joinable_tools_documents [simp]:
  "joinable_tools (JArr (map tool_document ts)) = Some (map (\<lambda>t. (tb_tool_id t, tb_tool_name t, tb_endpoint_id t)) ts)"
  by (simp add: joinable_tools_def list_all_iff List.map_filter_def comp_def)

lemma served_names:
  assumes "distinct (map fst (tc_entries c))" "require_profile (tc_entries c) = Inr u"
  shows "distinct (map ce_tool_name (served_entries c))" "set (served_entries c) = snd ` set (tc_entries c)"
proof -
  have "map ce_tool_name (served_entries c) = map fst (sort_key fst (tc_entries c))"
    using assms(2) by (auto simp: served_entries_def require_profile_ok)
  then show "distinct (map ce_tool_name (served_entries c))"
    using assms(1) by (simp add: distinct_map)
  show "set (served_entries c) = snd ` set (tc_entries c)" by (simp add: served_entries_def)
qed

text \<open>The rows of a list that joins, by the entry each belongs to.\<close>

lemma joined_row:
  assumes "distinct (map snd rows)" "set (map snd rows) = (\<lambda>e. (ce_tool_name e, endpoint e)) ` set es" "e \<in> set es"
  shows "(the (map_of (map (\<lambda>(i, k). (k, i)) rows) (ce_tool_name e, endpoint e)), ce_tool_name e, endpoint e) \<in> set rows"
proof -
  have "(ce_tool_name e, endpoint e) \<in> set (map snd rows)" using assms(2,3) by blast
  then obtain i where i: "(i, ce_tool_name e, endpoint e) \<in> set rows" by force
  have "map_of (map (\<lambda>(i, k). (k, i)) rows) (ce_tool_name e, endpoint e) = Some i"
    using i assms(1) by (intro map_of_is_SomeI) (force simp: comp_def case_prod_beta)+
  then show ?thesis using i by simp
qed

text \<open>What an issuer copies into a manifest is what the gateway projects. The binding of a served catalog, listed as a
  manifest lists it and joined with the same catalog, gives the same tools and the same root.\<close>

theorem projection_reads_back_binding:
  assumes "manifest_catalog_binding sha256 jcs merkle c = Inr b" "distinct (map fst (tc_entries c))"
  shows "project_listed_tools sha256 jcs merkle c (JArr (map tool_document (cb_tools b))) = Inr b"
proof -
  from assms(1) obtain tools h where p: "require_profile (tc_entries c) = Inr ()"
      "bind_tools sha256 jcs ce_tool_name (served_entries c) = Inr tools" "merkle (map tool_document tools) = Some h"
    and b: "b = \<lparr>cb_catalog_hash = h, cb_tools = tools\<rparr>"
    by (auto simp: manifest_catalog_binding_def bind_result_eq_Inr split: option.splits)
  have all: "list_all2 (\<lambda>e t. tb_tool_id t = ce_tool_name e \<and> tb_tool_name t = ce_tool_name e \<and> tb_endpoint_id t = endpoint e) (served_entries c) tools"
    using p(2) by (auto simp: bind_tools_ok bind_tool_ok elim!: list_all2_mono)
  let ?rows = "map (\<lambda>t. (tb_tool_id t, tb_tool_name t, tb_endpoint_id t)) tools"
  have rows: "?rows = map (\<lambda>e. (ce_tool_name e, ce_tool_name e, endpoint e)) (served_entries c)"
    using all by (induction rule: list_all2_induct) auto
  note names = served_names [OF assms(2) p(1)]
  have dist: "distinct (map fst ?rows)" "distinct (map snd ?rows)"
    unfolding rows using names(1) by (auto simp: comp_def distinct_map intro: inj_onI dest: inj_onD)
  have set_rows: "set (map snd ?rows) = (\<lambda>e. (ce_tool_name e, endpoint e)) ` set (map snd (tc_entries c))"
    unfolding rows using names(2) by (auto simp: image_image)
  have "the (map_of (map (\<lambda>(i, k). (k, i)) ?rows) (ce_tool_name e, endpoint e)) = ce_tool_name e" if "e \<in> set (served_entries c)" for e
    using joined_row [OF dist(2) set_rows, of e] that names(2) unfolding rows by auto
  then have "bind_tools sha256 jcs (\<lambda>e. the (map_of (map (\<lambda>(i, k). (k, i)) ?rows) (ce_tool_name e, endpoint e))) (served_entries c) = Inr tools"
    using p(2) unfolding bind_tools_ok by (auto elim!: list.rel_mono_strong)
  then show ?thesis
    using p(1,3) dist set_rows by (simp add: project_listed_tools_def b)
qed

definition demo_served :: catalog_entry where
  "demo_served = (sample_entry ''Reads'')\<lparr>ce_server := (ce_server (sample_entry ''Reads''))\<lparr>sv_spiffe_id := Some ''spiffe://t/s''\<rparr>\<rparr>"

definition demo_catalog :: tool_catalog where
  "demo_catalog = \<lparr>tc_entries = [(''a'', demo_served)], tc_catalog_hash = ''sealed'', tc_exceptions = []\<rparr>"

lemma demo_binding:
  "\<exists>b. manifest_catalog_binding pad32 (\<lambda>v. Some (dumps v)) (\<lambda>_. Some ''root'') demo_catalog = Inr b"
  by (simp add: manifest_catalog_binding_def demo_catalog_def served_entries_def demo_served_def sample_entry_def has_spiffe_def
      starts_with_def bind_tool_def components_def Let_def)

theorem projection_reads_back_binding_witness:
  "\<exists>b. manifest_catalog_binding pad32 (\<lambda>v. Some (dumps v)) (\<lambda>_. Some ''root'') demo_catalog = Inr b
     \<and> project_listed_tools pad32 (\<lambda>v. Some (dumps v)) (\<lambda>_. Some ''root'') demo_catalog (JArr (map tool_document (cb_tools b))) = Inr b"
proof -
  obtain b where b: "manifest_catalog_binding pad32 (\<lambda>v. Some (dumps v)) (\<lambda>_. Some ''root'') demo_catalog = Inr b"
    using demo_binding by blast
  show ?thesis using b projection_reads_back_binding [OF b] by (simp add: demo_catalog_def)
qed

end
