(* ===== verification/Agent_Manifest.thy ===== *)
theory Agent_Manifest
  imports Manifest_Catalog Verify_Claim Http_Transport Policy_Eval
begin

text \<open>
  Binding an Agent Manifest to the running gateway (\<open>agent_manifest.py\<close>): loading
  the document, the trust anchor and the revocation list, the scoped appraisal
  by the \<open>agent_manifest\<close> package and the checks cMCP adds to it. The package is
  the record \<open>manifest_sdk\<close> of what its functions answer.
\<close>

section \<open>The \<open>agent_manifest\<close> package\<close>

datatype overall_result =
    SDK_valid | SDK_revoked | SDK_expired | SDK_signature_missing | SDK_unverifiable | SDK_incompatible_version
  | SDK_incomplete | SDK_other string

record sdk_result =
  sr_result :: overall_result
  sr_signature_verified :: bool
  sr_policy_bundle_match :: bool
  sr_tool_manifest_match :: bool
  sr_mismatch_fields :: "string list"
  sr_warnings :: "string list"

record revocation_record =
  rv_manifest_id :: string
  rv_revoked_at :: json
  rv_reason :: json
  rv_revoked_by :: json

record verification_context =
  vc_policy_bundle_hash :: "string option"
  vc_tool_catalog_hash :: "string option"
  vc_enforcement_mode :: "string option"
  vc_trusted_keys :: "(string \<times> string) list"
  vc_trusted_key_issuers :: "(string \<times> string list) list option"

datatype manifest_artifact = Envelope bytes | Document jdict

datatype cose_decoding = Cose_payload json | Cose_value_error | Cose_other_error

record manifest_sdk =
  sd_loads :: "bytes \<Rightarrow> json option"
  sd_cose_version :: string
  sd_decode_cose :: "bytes \<Rightarrow> cose_decoding"
  sd_verify_manifest :: "manifest_artifact \<Rightarrow> verification_context \<Rightarrow> revocation_record list \<Rightarrow> sdk_result"
  sd_verify_cose :: "bytes \<Rightarrow> (string \<times> string) list \<Rightarrow> (json \<times> (string \<times> bool) list) option"
  sd_intent_hash :: "jdict \<Rightarrow> string option"
  sd_record_valid :: "revocation_record \<Rightarrow> bool"
  sd_merkle :: "json list \<Rightarrow> string option"
  sd_jcs :: "json \<Rightarrow> bytes option"
  sd_sha256 :: "bytes \<Rightarrow> bytes"

section \<open>Loading\<close>

definition EVIDENCE_REQUIREMENTS_PROFILE :: string where
  "EVIDENCE_REQUIREMENTS_PROFILE = ''evidence-requirements-experimental-v1''"

definition SUBJECT_SOURCES :: "string list" where
  "SUBJECT_SOURCES = [''config'', ''svid'', ''manifest-dev'']"

definition enforcement_mode_for_manifest :: "enforcement_mode \<Rightarrow> string" where
  "enforcement_mode_for_manifest m = (case m of ENFORCING \<Rightarrow> ''enforce'' | ADVISORY \<Rightarrow> ''advisory'' | SILENT \<Rightarrow> ''audit-only'')"

definition enforcement_mode_value :: "enforcement_mode \<Rightarrow> string" where
  "enforcement_mode_value m = (case m of ENFORCING \<Rightarrow> ''enforcing'' | ADVISORY \<Rightarrow> ''advisory'' | SILENT \<Rightarrow> ''silent'')"

text \<open>\<open>re.match\<close> with a pattern that ends in \<open>$\<close> also accepts the text followed by a line feed.\<close>

definition without_newline :: "string \<Rightarrow> string" where
  "without_newline s = (if s \<noteq> [] \<and> last s = CHR 0x0A then butlast s else s)"

definition ascii_alnum :: "char \<Rightarrow> bool" where
  "ascii_alnum c \<longleftrightarrow> (let n = (of_char c :: nat) in 48 \<le> n \<and> n \<le> 57 \<or> 65 \<le> n \<and> n \<le> 90 \<or> 97 \<le> n \<and> n \<le> 122)"

definition b64url_chars :: "string \<Rightarrow> bool" where
  "b64url_chars s \<longleftrightarrow> list_all (\<lambda>c. ascii_alnum c \<or> c = CHR ''-'' \<or> c = CHR ''_'') (without_newline s)"

definition manifest_b64url_decode :: "string \<Rightarrow> manifest_error + bytes" where
  "manifest_b64url_decode value =
     (if \<not> b64url_chars value then Inl Not_base64url
      else case b64url_decode value of None \<Rightarrow> Inl (Not_config_error Py_value) | Some b \<Rightarrow> Inr b)"

definition manifest_key_id :: "(bytes \<Rightarrow> bytes) \<Rightarrow> bytes \<Rightarrow> string" where
  "manifest_key_id sha256 public_key = hexlify (sha256 public_key)"

record loaded_manifest =
  lm_manifest :: jdict
  lm_envelope :: "bytes option"

definition decode_cose_envelope :: "manifest_sdk \<Rightarrow> bytes \<Rightarrow> manifest_error + jdict" where
  "decode_cose_envelope sdk raw =
     (case sd_decode_cose sdk raw of
        Cose_payload (JObj d) \<Rightarrow> Inr d
      | Cose_payload _ \<Rightarrow> Inl Cose_payload_not_object
      | _ \<Rightarrow> Inl Not_a_cose_envelope)"

text \<open>\<open>None\<close> is a file that cannot be read.\<close>

definition load_agent_manifest_document :: "manifest_sdk \<Rightarrow> bytes option \<Rightarrow> manifest_error + loaded_manifest" where
  "load_agent_manifest_document sdk file =
     (case file of
        None \<Rightarrow> Inl Cannot_read_manifest
      | Some raw \<Rightarrow>
          (case sd_loads sdk raw of
             None \<Rightarrow> bind_result (decode_cose_envelope sdk raw) (\<lambda>d. Inr \<lparr>lm_manifest = d, lm_envelope = Some raw\<rparr>)
           | Some (JObj d) \<Rightarrow>
               if dget d ''version'' = JStr (sd_cose_version sdk) \<and> map_of d ''signature'' = None then Inl Bare_cose_manifest
               else Inr \<lparr>lm_manifest = d, lm_envelope = None\<rparr>
           | Some _ \<Rightarrow> Inl Manifest_not_object))"

text \<open>A well-formed SPIFFE ID. A character above 127 takes two bytes in UTF-8.\<close>

definition utf8_length :: "string \<Rightarrow> nat" where
  "utf8_length s = length s + length (filter (\<lambda>c. 128 \<le> (of_char c :: nat)) s)"

definition trust_domain_char :: "char \<Rightarrow> bool" where
  "trust_domain_char c \<longleftrightarrow> (let n = (of_char c :: nat) in 48 \<le> n \<and> n \<le> 57 \<or> 97 \<le> n \<and> n \<le> 122 \<or> c \<in> set ''._-'')"

definition path_segment :: "string \<Rightarrow> bool" where
  "path_segment s \<longleftrightarrow> s \<noteq> [] \<and> list_all (\<lambda>c. ascii_alnum c \<or> c \<in> set ''._-'') s \<and> s \<noteq> ''.'' \<and> s \<noteq> ''..''"

definition is_spiffe_id :: "json \<Rightarrow> bool" where
  "is_spiffe_id v =
     (case v of
        JStr s \<Rightarrow>
          starts_with ''spiffe://'' s \<and> utf8_length s \<le> 2048 \<and>
          (let rest = drop 9 s; domain = takeWhile (\<lambda>c. c \<noteq> CHR ''/'') rest in
           domain \<noteq> [] \<and> length domain \<le> 255 \<and> list_all trust_domain_char domain \<and>
           (length domain < length rest \<longrightarrow> list_all path_segment (str_split (CHR ''/'') (drop (Suc (length domain)) rest))))
      | _ \<Rightarrow> False)"

text \<open>\<open>str(v)\<close> on a JSON value: a string itself, and anything else as \<open>repr\<close> writes it.\<close>

definition repr_char :: "char \<Rightarrow> char \<Rightarrow> string" where
  "repr_char q c = (let n = (of_char c :: nat) in
     if c = q \<or> c = backslash then [backslash, c]
     else if n = 10 then [backslash, CHR ''n''] else if n = 13 then [backslash, CHR ''r''] else if n = 9 then [backslash, CHR ''t'']
     else if n < 32 \<or> 127 \<le> n \<and> n \<le> 160 \<or> n = 173 then [backslash, CHR ''x'', hex_digit (n div 16), hex_digit (n mod 16)]
     else [c])"

definition repr_str :: "string \<Rightarrow> string" where
  "repr_str s = (let q = (if CHR 0x27 \<in> set s \<and> dquote \<notin> set s then dquote else CHR 0x27)
                 in q # concat (map (repr_char q) s) @ [q])"

fun py_repr :: "json \<Rightarrow> string" where
  "py_repr JNull = ''None''"
| "py_repr (JBool b) = (if b then ''True'' else ''False'')"
| "py_repr (JInt i) = int_str i"
| "py_repr (JFloat t) = t"
| "py_repr (JStr s) = repr_str s"
| "py_repr (JArr xs) = ''['' @ join '', '' (map py_repr xs) @ '']''"
| "py_repr (JObj kvs) = ''{'' @ join '', '' (map (\<lambda>(k, v). repr_str k @ '': '' @ py_repr v) kvs) @ ''}''"

definition py_str :: "json \<Rightarrow> string" where
  "py_str v = (case v of JStr s \<Rightarrow> s | _ \<Rightarrow> py_repr v)"

section \<open>Trust anchor and revocations\<close>

type_synonym anchors = "(string \<times> bytes) list"
type_synonym issuer_policy = "(string \<times> string list) list"

fun load_anchor_entries :: "(bytes \<Rightarrow> bytes) \<Rightarrow> json list \<Rightarrow> anchors \<Rightarrow> issuer_policy option \<Rightarrow> manifest_error + anchors \<times> issuer_policy option" where
  "load_anchor_entries sha256 [] anchors policy = Inr (anchors, policy)"
| "load_anchor_entries sha256 (item # items) anchors policy =
     (case item of
        JObj d \<Rightarrow>
          bind_result (manifest_b64url_decode (py_str (dget_or d ''public_key_base64url'' (JStr [])))) (\<lambda>public_key.
            let key_id = (if truthy (dget d ''key_id'') then py_str (dget d ''key_id'') else manifest_key_id sha256 public_key) in
            if key_id \<in> fst ` set anchors then Inl (Repeated_key_id key_id)
            else (case map_of d ''issuers'' of
                    None \<Rightarrow> load_anchor_entries sha256 items (anchors @ [(key_id, public_key)]) policy
                  | Some (JArr vs) \<Rightarrow>
                      if \<not> list_all is_spiffe_id vs then Inl Issuers_not_spiffe
                      else load_anchor_entries sha256 items (anchors @ [(key_id, public_key)])
                             (Some ((case policy of None \<Rightarrow> [] | Some p \<Rightarrow> p) @ [(key_id, map Verify_Base.str_of vs)]))
                  | Some _ \<Rightarrow> Inl Issuers_not_spiffe))
      | _ \<Rightarrow> Inl Anchor_entry_not_object)"

text \<open>The file as \<open>json.load\<close> reads it, or \<open>None\<close> when that fails.\<close>

definition load_agent_manifest_trust_policy :: "(bytes \<Rightarrow> bytes) \<Rightarrow> json option \<Rightarrow> manifest_error + anchors \<times> issuer_policy option" where
  "load_agent_manifest_trust_policy sha256 file =
     (case file of
        None \<Rightarrow> Inl Anchor_unreadable
      | Some (JObj d) \<Rightarrow>
          if map_of d ''public_key_base64url'' \<noteq> None then load_anchor_entries sha256 [JObj d] [] None
          else (case dget d ''keys'' of JArr items \<Rightarrow> load_anchor_entries sha256 items [] None | _ \<Rightarrow> Inl Anchor_shape)
      | Some _ \<Rightarrow> Inl Anchor_shape)"

definition MAX_REVOCATION_LIST_BYTES :: nat where "MAX_REVOCATION_LIST_BYTES = 50 * 1024 * 1024"

fun load_revocation_lines :: "manifest_sdk \<Rightarrow> nat \<Rightarrow> string list \<Rightarrow> revocation_record list \<Rightarrow> manifest_error + revocation_record list" where
  "load_revocation_lines sdk n [] store = Inr store"
| "load_revocation_lines sdk n (line # lines) store =
     (if str_strip line = [] then load_revocation_lines sdk (Suc n) lines store
      else case sd_loads sdk line of
        None \<Rightarrow> Inl (Revocation_not_json n)
      | Some (JObj d) \<Rightarrow>
          (case dget d ''manifest_id'' of
             JStr i \<Rightarrow>
               if i = [] then Inl (Revocation_without_id n)
               else let r = \<lparr>rv_manifest_id = i, rv_revoked_at = dget d ''revoked_at'', rv_reason = dget d ''reason'', rv_revoked_by = dget d ''revoked_by''\<rparr>
                    in if sd_record_valid sdk r then load_revocation_lines sdk (Suc n) lines (store @ [r]) else Inl (Revocation_invalid n)
           | _ \<Rightarrow> Inl (Revocation_without_id n))
      | Some _ \<Rightarrow> Inl (Revocation_not_object n))"

text \<open>The size of the file and its text, when both can be had.\<close>

definition load_agent_manifest_revocations :: "manifest_sdk \<Rightarrow> (nat \<times> string option) option \<Rightarrow> manifest_error + revocation_record list" where
  "load_agent_manifest_revocations sdk file =
     (case file of
        None \<Rightarrow> Inl Revocations_unreadable
      | Some (bytes, contents) \<Rightarrow>
          if MAX_REVOCATION_LIST_BYTES < bytes then Inl Revocations_too_large
          else (case contents of
                  None \<Rightarrow> Inl Revocations_unreadable
                | Some t \<Rightarrow> load_revocation_lines sdk 1 (splitlines t) []))"

fun trusted_keys_for_sdk :: "(bytes \<Rightarrow> bytes) \<Rightarrow> anchors \<Rightarrow> manifest_error + (string \<times> string) list" where
  "trusted_keys_for_sdk sha256 [] = Inr []"
| "trusted_keys_for_sdk sha256 ((key_id, public_key) # keys) =
     (if length public_key \<noteq> 32 then Inl Invalid_ed25519_key
      else if manifest_key_id sha256 public_key \<noteq> key_id then Inl Key_id_mismatch
      else bind_result (trusted_keys_for_sdk sha256 keys) (\<lambda>ks. Inr ((key_id, b64url public_key) # ks)))"

section \<open>Appraisal\<close>

definition overall_value :: "overall_result \<Rightarrow> string" where
  "overall_value r = (case r of SDK_other s \<Rightarrow> s | _ \<Rightarrow> [])"

definition raise_for_sdk_result :: "sdk_result \<Rightarrow> bool \<Rightarrow> manifest_error + unit" where
  "raise_for_sdk_result r require_runtime_artifacts =
     (if sr_result r = SDK_valid then
        (if \<not> sr_signature_verified r then Inl Signature_failed
         else if require_runtime_artifacts \<and> \<not> sr_policy_bundle_match r then Inl Policy_hash_mismatch
         else if require_runtime_artifacts \<and> \<not> sr_tool_manifest_match r then Inl Catalog_hash_mismatch
         else Inr ())
      else let fs = set (sr_mismatch_fields r) in
        if ''policy_bundle.enforcement_mode'' \<in> fs then Inl Enforcement_mode_mismatch
        else if ''policy_bundle'' \<in> fs then Inl Policy_hash_mismatch
        else if ''tool_manifest'' \<in> fs \<or> ''tool_manifest.catalog_hash'' \<in> fs then Inl Catalog_hash_mismatch
        else if ''signature.issuer'' \<in> fs then Inl Issuer_not_authorized
        else if ''signature'' \<in> fs then Inl Signature_failed
        else Inl (case sr_result r of
            SDK_revoked \<Rightarrow> Manifest_revoked | SDK_expired \<Rightarrow> Manifest_expired | SDK_signature_missing \<Rightarrow> Signature_block_missing
          | SDK_unverifiable \<Rightarrow> Signature_unverifiable (join ''; '' (sr_warnings r))
          | SDK_incompatible_version \<Rightarrow> Version_unsupported | SDK_incomplete \<Rightarrow> Verification_incomplete
          | other \<Rightarrow> Sdk_failed (overall_value other)))"

definition tool_manifest :: "jdict \<Rightarrow> json" where
  "tool_manifest m = (case dget m ''artifacts'' of JObj a \<Rightarrow> dget a ''tool_manifest'' | _ \<Rightarrow> JNull)"

definition lists_tools :: "jdict \<Rightarrow> bool" where
  "lists_tools m = (case tool_manifest m of JObj t \<Rightarrow> map_of t ''tools'' \<noteq> None | _ \<Rightarrow> False)"

definition require_same_payload :: "manifest_sdk \<Rightarrow> json \<Rightarrow> jdict \<Rightarrow> manifest_error + unit" where
  "require_same_payload sdk signed m =
     (case (sd_jcs sdk signed, sd_jcs sdk (JObj m)) of
        (Some a, Some b) \<Rightarrow> if a = b then Inr () else Inl Payload_differs
      | _ \<Rightarrow> Inl Not_canonicalizable)"

definition authenticated_envelope_key_id :: "manifest_sdk \<Rightarrow> jdict \<Rightarrow> bytes \<Rightarrow> (string \<times> string) list \<Rightarrow> manifest_error + string option" where
  "authenticated_envelope_key_id sdk m envelope sdk_keys =
     (case sd_verify_cose sdk envelope sdk_keys of
        None \<Rightarrow> Inl Signature_failed
      | Some (signed, signatures) \<Rightarrow>
          bind_result (require_same_payload sdk signed m) (\<lambda>_.
            Inr (case signatures of [(key_id, True)] \<Rightarrow> Some key_id | _ \<Rightarrow> None)))"

text \<open>The leaves of a tool list, in the order of their identifiers. A list that was joined has distinct identifiers, all of
  them strings, so the other members never decide the order.\<close>

type_synonym leaf = "json \<times> json \<times> json"

definition leaf_of :: "jdict \<Rightarrow> leaf" where
  "leaf_of d = (dget d ''tool_id'', dget d ''schema_hash'', dget d ''description_hash'')"

definition leaf_key :: "leaf \<Rightarrow> string" where
  "leaf_key l = (case fst l of JStr s \<Rightarrow> s | _ \<Rightarrow> [])"

definition leaves :: "json \<Rightarrow> leaf list option" where
  "leaves tools =
     (case tools of
        JArr ts \<Rightarrow> if list_all (\<lambda>t. case t of JObj _ \<Rightarrow> True | _ \<Rightarrow> False) ts
                   then Some (sort_key leaf_key (List.map_filter (\<lambda>t. case t of JObj d \<Rightarrow> Some (leaf_of d) | _ \<Rightarrow> None) ts)) else None
      | _ \<Rightarrow> None)"

definition require_listed_tools_match :: "jdict \<Rightarrow> catalog_binding \<Rightarrow> manifest_error + unit" where
  "require_listed_tools_match m projection =
     (case tool_manifest m of
        JObj t \<Rightarrow>
          (case leaves (dget t ''tools'') of
             None \<Rightarrow> Inl Catalog_hash_mismatch
           | Some declared \<Rightarrow>
               if Some declared \<noteq> leaves (JArr (map tool_document (cb_tools projection)))
                  \<or> dget t ''catalog_hash'' \<noteq> JStr (cb_catalog_hash projection)
               then Inl Catalog_hash_mismatch else Inr ())
      | _ \<Rightarrow> Inl (Not_config_error Py_key))"

definition is_sealed_declaration :: "json \<Rightarrow> bool" where
  "is_sealed_declaration c =
     (case c of
        JObj d \<Rightarrow> dget d ''component_type'' = JStr ''tool-catalog'' \<and> dget d ''required'' = JBool True
                  \<and> dget d ''artifact_ref'' = JStr ''artifacts.tool_manifest''
      | _ \<Rightarrow> False)"

definition require_sealed_catalog_requirement :: "jdict \<Rightarrow> string option \<Rightarrow> manifest_error + unit" where
  "require_sealed_catalog_requirement m sealed =
     (let components = (case dget m ''evidence_requirements'' of
              JObj r \<Rightarrow> (case dget r ''components'' of JArr cs \<Rightarrow> cs | _ \<Rightarrow> []) | _ \<Rightarrow> []);
          declarations = filter is_sealed_declaration components in
      if declarations = [] \<or> list_ex (\<lambda>c. case c of JObj d \<Rightarrow> dget d ''expected_observed_digest'' \<noteq> opt_str sealed | _ \<Rightarrow> True) declarations
      then Inl Sealed_catalog_not_bound else Inr ())"

record appraisal =
  aa_policy_bundle_hash :: "string option"
  aa_tool_catalog_hash :: "string option"
  aa_enforcement_mode :: "enforcement_mode option"
  aa_require_runtime_artifacts :: bool
  aa_envelope :: "bytes option"
  aa_revocations :: "revocation_record list option"
  aa_runtime_catalog :: "tool_catalog option"
  aa_trusted_key_issuers :: "issuer_policy option"

definition is_experimental :: "jdict \<Rightarrow> appraisal \<Rightarrow> bool" where
  "is_experimental m a \<longleftrightarrow> aa_require_runtime_artifacts a \<and> dget m ''profile'' = JStr EVIDENCE_REQUIREMENTS_PROFILE"

definition binds_listed_tools :: "jdict \<Rightarrow> appraisal \<Rightarrow> bool" where
  "binds_listed_tools m a \<longleftrightarrow> aa_require_runtime_artifacts a \<and> (is_experimental m a \<or> lists_tools m)"

text \<open>The catalog this runtime serves, when the manifest binds a tool list, and its projection.\<close>

definition listing_catalog :: "jdict \<Rightarrow> appraisal \<Rightarrow> manifest_error + tool_catalog option" where
  "listing_catalog m a =
     (if \<not> binds_listed_tools m a then Inr None
      else case aa_runtime_catalog a of
        Some c \<Rightarrow> if Some (tc_catalog_hash c) = aa_tool_catalog_hash a then Inr (Some c)
                  else Inl (if is_experimental m a then Experimental_needs_catalog else Listing_needs_catalog)
      | None \<Rightarrow> Inl (if is_experimental m a then Experimental_needs_catalog else Listing_needs_catalog))"

definition envelope_payload :: "manifest_sdk \<Rightarrow> jdict \<Rightarrow> bytes option \<Rightarrow> manifest_error + unit" where
  "envelope_payload sdk m envelope =
     (case envelope of
        None \<Rightarrow> Inr ()
      | Some raw \<Rightarrow>
          (case sd_decode_cose sdk raw of
             Cose_payload signed \<Rightarrow> require_same_payload sdk signed m
           | Cose_value_error \<Rightarrow> Inr ()
           | Cose_other_error \<Rightarrow> Inl (Not_config_error Py_type)))"

definition listed_projection :: "manifest_sdk \<Rightarrow> jdict \<Rightarrow> tool_catalog option \<Rightarrow> manifest_error + catalog_binding option" where
  "listed_projection sdk m catalog =
     (case catalog of
        None \<Rightarrow> Inr None
      | Some c \<Rightarrow>
          bind_result (project_listed_tools (sd_sha256 sdk) (sd_jcs sdk) (sd_merkle sdk) c
              (case tool_manifest m of JObj t \<Rightarrow> dget t ''tools'' | _ \<Rightarrow> JNull)) (\<lambda>p. Inr (Some p)))"

definition appraisal_context :: "appraisal \<Rightarrow> catalog_binding option \<Rightarrow> (string \<times> string) list \<Rightarrow> verification_context" where
  "appraisal_context a projection sdk_keys =
     \<lparr>vc_policy_bundle_hash = aa_policy_bundle_hash a,
      vc_tool_catalog_hash = (case projection of Some p \<Rightarrow> Some (cb_catalog_hash p) | None \<Rightarrow> aa_tool_catalog_hash a),
      vc_enforcement_mode = map_option enforcement_mode_for_manifest (aa_enforcement_mode a),
      vc_trusted_keys = sdk_keys, vc_trusted_key_issuers = aa_trusted_key_issuers a\<rparr>"

definition verify_with_sdk :: "manifest_sdk \<Rightarrow> jdict \<Rightarrow> anchors \<Rightarrow> appraisal \<Rightarrow> manifest_error + string option" where
  "verify_with_sdk sdk m trusted_keys a =
     bind_result (listing_catalog m a) (\<lambda>catalog.
     bind_result (envelope_payload sdk m (aa_envelope a)) (\<lambda>_.
     bind_result (listed_projection sdk m catalog) (\<lambda>projection.
     bind_result (trusted_keys_for_sdk (sd_sha256 sdk) trusted_keys) (\<lambda>sdk_keys.
     bind_result (raise_for_sdk_result
         (sd_verify_manifest sdk (case aa_envelope a of Some raw \<Rightarrow> Envelope raw | None \<Rightarrow> Document m)
            (appraisal_context a projection sdk_keys) (case aa_revocations a of Some rs \<Rightarrow> rs | None \<Rightarrow> []))
         (aa_require_runtime_artifacts a)) (\<lambda>_.
     bind_result (case aa_envelope a of
         Some raw \<Rightarrow> authenticated_envelope_key_id sdk m raw sdk_keys | None \<Rightarrow> Inr None) (\<lambda>key_id.
     bind_result (case projection of Some p \<Rightarrow> require_listed_tools_match m p | None \<Rightarrow> Inr ()) (\<lambda>_.
     bind_result (if is_experimental m a then require_sealed_catalog_requirement m (aa_tool_catalog_hash a) else Inr ()) (\<lambda>_.
     Inr key_id))))))))"

definition verify_agent_manifest_signature :: "manifest_sdk \<Rightarrow> jdict \<Rightarrow> anchors \<Rightarrow> bytes option \<Rightarrow> manifest_error + unit" where
  "verify_agent_manifest_signature sdk m trusted_keys envelope =
     bind_result (verify_with_sdk sdk m trusted_keys
       \<lparr>aa_policy_bundle_hash = None, aa_tool_catalog_hash = None, aa_enforcement_mode = None, aa_require_runtime_artifacts = False,
        aa_envelope = envelope, aa_revocations = None, aa_runtime_catalog = None, aa_trusted_key_issuers = None\<rparr>) (\<lambda>_. Inr ())"

section \<open>Binding\<close>

definition is_prefixed_hash :: "string \<Rightarrow> bool" where
  "is_prefixed_hash s \<longleftrightarrow> (let t = without_newline s; lower_hex = list_all (\<lambda>c. c \<in> set ''0123456789abcdef'') in
     starts_with ''sha256:'' t \<and> length t = 71 \<and> lower_hex (drop 7 t) \<or> starts_with ''sha384:'' t \<and> length t = 103 \<and> lower_hex (drop 7 t))"

definition require_hash :: "json \<Rightarrow> string \<Rightarrow> manifest_error + string" where
  "require_hash v f = (case v of JStr s \<Rightarrow> if is_prefixed_hash s then Inr s else Inl (Not_a_hash f) | _ \<Rightarrow> Inl (Not_a_hash f))"

text \<open>An aware time is its microseconds in UTC.\<close>

definition parse_manifest_time :: "json \<Rightarrow> string \<Rightarrow> manifest_error + int" where
  "parse_manifest_time v f =
     (case v of
        JStr s \<Rightarrow>
          if s = [] then Inl (Time_missing f)
          else (case read_iso (str_replace ''Z'' ''+00:00'' s) of
                  Not_iso \<Rightarrow> Inl (Time_not_rfc3339 f) | Naive \<Rightarrow> Inl (Time_without_zone f) | Aware us \<Rightarrow> Inr us)
      | _ \<Rightarrow> Inl (Time_missing f))"

record binding_fields =
  bf_manifest_id :: string
  bf_agent_id :: string
  bf_issuer :: string
  bf_key_id :: string
  bf_policy_hash :: string
  bf_catalog_hash :: string

definition spiffe_text :: "json \<Rightarrow> manifest_error \<Rightarrow> manifest_error + string" where
  "spiffe_text v e = (case v of JStr s \<Rightarrow> if starts_with ''spiffe://'' s then Inr s else Inl e | _ \<Rightarrow> Inl e)"

definition manifest_binding_fields :: "jdict \<Rightarrow> manifest_error + binding_fields" where
  "manifest_binding_fields m =
     bind_result (case dget m ''manifest_id'' of JStr s \<Rightarrow> if s = [] then Inl Manifest_id_missing else Inr s | _ \<Rightarrow> Inl Manifest_id_missing) (\<lambda>manifest_id.
     bind_result (spiffe_text (dget m ''agent_id'') Agent_id_not_spiffe) (\<lambda>agent_id.
     bind_result (spiffe_text (dget m ''issuer'') Issuer_not_spiffe) (\<lambda>issuer.
     bind_result (case dget m ''artifacts'' of JObj a \<Rightarrow> Inr a | _ \<Rightarrow> Inl Artifacts_missing) (\<lambda>artifacts.
     bind_result (case (dget artifacts ''policy_bundle'', dget artifacts ''tool_manifest'') of (JObj p, JObj t) \<Rightarrow> Inr (p, t)
                  | _ \<Rightarrow> Inl Artifacts_incomplete) (\<lambda>(policy, tools).
     bind_result (require_hash (dget policy ''hash'') ''artifacts.policy_bundle.hash'') (\<lambda>policy_hash.
     bind_result (require_hash (dget tools ''catalog_hash'') ''artifacts.tool_manifest.catalog_hash'') (\<lambda>catalog_hash.
       Inr \<lparr>bf_manifest_id = manifest_id, bf_agent_id = agent_id, bf_issuer = issuer,
            bf_key_id = (case dget m ''signature'' of JObj s \<Rightarrow> if truthy (dget s ''key_id'') then py_str (dget s ''key_id'') else [] | _ \<Rightarrow> []),
            bf_policy_hash = policy_hash, bf_catalog_hash = catalog_hash\<rparr>)))))))"

record binding_request =
  br_authenticated_subject :: "string option"
  br_policy_bundle_hash :: string
  br_tool_catalog_hash :: string
  br_enforcement_mode :: "enforcement_mode option"
  br_authenticated_subject_source :: "string option"
  br_allow_dev_subject_from_manifest :: bool
  br_now :: int
  br_envelope :: "bytes option"
  br_revocations :: "revocation_record list option"
  br_runtime_catalog :: "tool_catalog option"
  br_trusted_key_issuers :: "issuer_policy option"

definition binding_appraisal :: "binding_request \<Rightarrow> appraisal" where
  "binding_appraisal q =
     \<lparr>aa_policy_bundle_hash = Some (br_policy_bundle_hash q), aa_tool_catalog_hash = Some (br_tool_catalog_hash q),
      aa_enforcement_mode = br_enforcement_mode q, aa_require_runtime_artifacts = True, aa_envelope = br_envelope q,
      aa_revocations = br_revocations q, aa_runtime_catalog = br_runtime_catalog q, aa_trusted_key_issuers = br_trusted_key_issuers q\<rparr>"

definition bind_subject :: "binding_request \<Rightarrow> string \<Rightarrow> manifest_error + string \<times> string" where
  "bind_subject q agent_id =
     (let dev = (br_authenticated_subject q = None \<and> br_allow_dev_subject_from_manifest q);
          subject = (if dev then Some agent_id else br_authenticated_subject q);
          source = (if dev then ''manifest-dev'' else case br_authenticated_subject_source q of Some s \<Rightarrow> s | None \<Rightarrow> ''config'') in
      if source \<notin> set SUBJECT_SOURCES then Inl Subject_source_unsupported
      else if source = ''manifest-dev'' \<and> \<not> br_allow_dev_subject_from_manifest q then Inl Dev_source_outside_dev
      else case subject of
        None \<Rightarrow> Inl Subject_not_spiffe
      | Some s \<Rightarrow> if \<not> starts_with ''spiffe://'' s then Inl Subject_not_spiffe
                  else if s \<noteq> agent_id then Inl Subject_mismatch
                  else Inr (s, source))"

definition verify_agent_manifest_binding :: "manifest_sdk \<Rightarrow> jdict \<Rightarrow> anchors \<Rightarrow> binding_request \<Rightarrow> manifest_error + agent_binding" where
  "verify_agent_manifest_binding sdk m trusted_keys q =
     (if br_trusted_key_issuers q = None then Inl No_issuer_policy
      else
       bind_result (manifest_binding_fields m) (\<lambda>f.
       bind_result (parse_manifest_time (dget m ''issued_at'') ''issued_at'') (\<lambda>_.
       bind_result (parse_manifest_time (dget m ''expires_at'') ''expires_at'') (\<lambda>expires_at.
       if expires_at \<le> br_now q then Inl Manifest_expired
       else
        bind_result (verify_with_sdk sdk m trusted_keys (binding_appraisal q)) (\<lambda>authenticated_key_id.
        bind_result (bind_subject q (bf_agent_id f)) (\<lambda>(subject, source).
          Inr \<lparr>ab_manifest_id = bf_manifest_id f, ab_agent_id = bf_agent_id f, ab_authenticated_subject = subject, ab_subject_source = source,
               ab_issuer = bf_issuer f, ab_issuer_key_id = (case authenticated_key_id of Some k \<Rightarrow> k | None \<Rightarrow> bf_key_id f),
               ab_policy_bundle_hash = bf_policy_hash f,
               ab_tool_catalog_hash = (if dget m ''profile'' = JStr EVIDENCE_REQUIREMENTS_PROFILE then br_tool_catalog_hash q else bf_catalog_hash f),
               ab_intent_hash = sd_intent_hash sdk m,
               ab_enforcement_mode = map_option enforcement_mode_value (br_enforcement_mode q)\<rparr>))))))"

section \<open>What a binding establishes\<close>

lemma binding_fields_ok:
  assumes "manifest_binding_fields m = Inr f"
  shows "map_of m ''manifest_id'' = Some (JStr (bf_manifest_id f))"
  using assms by (auto simp: manifest_binding_fields_def bind_result_eq_Inr case_prod_beta split: json.splits if_splits)

lemma result_ok: "raise_for_sdk_result r req = Inr u \<longleftrightarrow>
    sr_result r = SDK_valid \<and> sr_signature_verified r \<and> (req \<longrightarrow> sr_policy_bundle_match r \<and> sr_tool_manifest_match r)"
  by (auto simp: raise_for_sdk_result_def Let_def)

lemma trusted_keys_ok:
  "trusted_keys_for_sdk sha256 keys = Inr ks \<Longrightarrow>
     ks = map (\<lambda>(i, k). (i, b64url k)) keys \<and> (\<forall>(i, k)\<in>set keys. length k = 32 \<and> i = hexlify (sha256 k))"
  by (induction keys arbitrary: ks)
    (auto simp: bind_result_eq_Inr manifest_key_id_def split: if_splits, (drule (1) bspec, simp)+)

lemma verify_with_sdk_ok:
  assumes "verify_with_sdk sdk m keys a = Inr key_id"
  obtains catalog projection ks where "listing_catalog m a = Inr catalog" "envelope_payload sdk m (aa_envelope a) = Inr ()"
    "listed_projection sdk m catalog = Inr projection" "trusted_keys_for_sdk (sd_sha256 sdk) keys = Inr ks"
    "raise_for_sdk_result (sd_verify_manifest sdk (case aa_envelope a of Some raw \<Rightarrow> Envelope raw | None \<Rightarrow> Document m)
       (appraisal_context a projection ks) (case aa_revocations a of Some rs \<Rightarrow> rs | None \<Rightarrow> [])) (aa_require_runtime_artifacts a) = Inr ()"
    "\<And>raw. aa_envelope a = Some raw \<Longrightarrow> authenticated_envelope_key_id sdk m raw ks = Inr key_id"
    "\<And>p. projection = Some p \<Longrightarrow> require_listed_tools_match m p = Inr ()"
proof -
  from assms obtain catalog projection ks where *: "listing_catalog m a = Inr catalog" "envelope_payload sdk m (aa_envelope a) = Inr ()"
    "listed_projection sdk m catalog = Inr projection" "trusted_keys_for_sdk (sd_sha256 sdk) keys = Inr ks"
    "raise_for_sdk_result (sd_verify_manifest sdk (case aa_envelope a of Some raw \<Rightarrow> Envelope raw | None \<Rightarrow> Document m)
       (appraisal_context a projection ks) (case aa_revocations a of Some rs \<Rightarrow> rs | None \<Rightarrow> [])) (aa_require_runtime_artifacts a) = Inr ()"
    and k: "(case aa_envelope a of Some raw \<Rightarrow> authenticated_envelope_key_id sdk m raw ks | None \<Rightarrow> Inr None) = Inr key_id"
    and p: "(case projection of Some p \<Rightarrow> require_listed_tools_match m p | None \<Rightarrow> Inr ()) = Inr ()"
    unfolding verify_with_sdk_def bind_result_eq_Inr by (metis (lifting) old.unit.exhaust)
  show thesis by (rule that [OF *]) (use k p in auto)
qed

lemma binding_ok:
  assumes "verify_agent_manifest_binding sdk m keys q = Inr b"
  obtains f us expires key_id where "br_trusted_key_issuers q \<noteq> None" "manifest_binding_fields m = Inr f"
    "parse_manifest_time (dget m ''expires_at'') ''expires_at'' = Inr expires" "br_now q < expires"
    "verify_with_sdk sdk m keys (binding_appraisal q) = Inr key_id"
    "bind_subject q (bf_agent_id f) = Inr (ab_authenticated_subject b, ab_subject_source b)"
    "ab_agent_id b = bf_agent_id f" "ab_manifest_id b = bf_manifest_id f" "ab_issuer b = bf_issuer f"
  using assms unfolding verify_agent_manifest_binding_def
  by (auto simp: bind_result_eq_Inr not_le split: if_splits prod.splits)

lemma bind_subject_ok:
  assumes "bind_subject q agent_id = Inr (s, source)"
  shows "s = agent_id" "br_authenticated_subject q = Some agent_id \<or> br_allow_dev_subject_from_manifest q \<and> source = ''manifest-dev''"
    "source = ''manifest-dev'' \<Longrightarrow> br_allow_dev_subject_from_manifest q"
  using assms by (auto simp: bind_subject_def Let_def split: if_splits option.splits)

lemma envelope_key_ok:
  assumes "authenticated_envelope_key_id sdk m raw ks = Inr key_id"
  shows "\<exists>signed sigs t. sd_verify_cose sdk raw ks = Some (signed, sigs) \<and> sd_jcs sdk signed = Some t \<and> sd_jcs sdk (JObj m) = Some t"
  using assms by (auto simp: authenticated_envelope_key_id_def require_same_payload_def bind_result_eq_Inr split: option.splits if_splits)

lemma manifest_was_appraised:
  assumes "verify_agent_manifest_binding sdk m keys q = Inr b"
  shows "\<exists>ctx. sr_result (sd_verify_manifest sdk (case br_envelope q of Some raw \<Rightarrow> Envelope raw | None \<Rightarrow> Document m) ctx
            (case br_revocations q of Some rs \<Rightarrow> rs | None \<Rightarrow> [])) = SDK_valid
    \<and> (\<forall>raw. br_envelope q = Some raw \<longrightarrow> (\<exists>signed sigs ks t. sd_verify_cose sdk raw ks = Some (signed, sigs)
         \<and> sd_jcs sdk signed = Some t \<and> sd_jcs sdk (JObj m) = Some t))"
proof -
  obtain key_id where v: "verify_with_sdk sdk m keys (binding_appraisal q) = Inr key_id" using assms by (rule binding_ok)
  have app: "aa_envelope (binding_appraisal q) = br_envelope q" "aa_revocations (binding_appraisal q) = br_revocations q"
    by (simp_all add: binding_appraisal_def)
  show ?thesis
    using v by (rule verify_with_sdk_ok) (auto simp: app result_ok split: option.splits, (drule envelope_key_ok, blast)+)
qed


subsection \<open>A listed manifest pins the tools\<close>

lemma project_ok:
  assumes "project_listed_tools sha256 jcs merkle c listed = Inr p"
  obtains rows where "joinable_tools listed = Some rows" "distinct (map fst rows)" "distinct (map snd rows)"
    "set (map snd rows) = (\<lambda>e. (ce_tool_name e, endpoint e)) ` snd ` set (tc_entries c)"
    "\<And>n e. (n, e) \<in> set (tc_entries c) \<Longrightarrow> n = ce_tool_name e"
    "\<And>e. e \<in> snd ` set (tc_entries c) \<Longrightarrow> \<exists>t\<in>set (cb_tools p). \<exists>i. (i, ce_tool_name e, endpoint e) \<in> set rows \<and> bind_tool sha256 jcs i e = Inr t"
    "\<And>t. t \<in> set (cb_tools p) \<Longrightarrow> \<exists>e\<in>snd ` set (tc_entries c). \<exists>i. (i, ce_tool_name e, endpoint e) \<in> set rows \<and> bind_tool sha256 jcs i e = Inr t"
proof -
  from assms obtain rows tools h where prof: "require_profile (tc_entries c) = Inr ()" and rows: "joinable_tools listed = Some rows"
    "distinct (map fst rows)" "distinct (map snd rows)"
    "set (map snd rows) = (\<lambda>e. (ce_tool_name e, endpoint e)) ` set (map snd (tc_entries c))"
    and tools: "bind_tools sha256 jcs (\<lambda>e. the (map_of (map (\<lambda>(i, k). (k, i)) rows) (ce_tool_name e, endpoint e))) (served_entries c) = Inr tools"
    and p: "p = \<lparr>cb_catalog_hash = h, cb_tools = tools\<rparr>"
    by (auto simp: project_listed_tools_def bind_result_eq_Inr split: option.splits if_splits)
  have served: "set (served_entries c) = set (map snd (tc_entries c))" by (simp add: served_entries_def)
  let ?id = "\<lambda>e. the (map_of (map (\<lambda>(i, k). (k, i)) rows) (ce_tool_name e, endpoint e))"
  note all = tools [unfolded bind_tools_ok, unfolded list_all2_conv_all_nth]
  have row: "(?id e, ce_tool_name e, endpoint e) \<in> set rows" if "e \<in> set (map snd (tc_entries c))" for e
    by (rule joined_row [OF rows(3,4) that])
  show thesis
  proof (rule that [OF rows(1-3)])
    show "set (map snd rows) = (\<lambda>e. (ce_tool_name e, endpoint e)) ` snd ` set (tc_entries c)" using rows(4) by simp
    show "n = ce_tool_name e" if "(n, e) \<in> set (tc_entries c)" for n e using prof that by (auto simp: require_profile_ok)
    show "\<exists>t\<in>set (cb_tools p). \<exists>i. (i, ce_tool_name e, endpoint e) \<in> set rows \<and> bind_tool sha256 jcs i e = Inr t"
      if "e \<in> snd ` set (tc_entries c)" for e
    proof -
      from that served have "e \<in> set (served_entries c)" by simp
      then obtain k where k: "k < length (served_entries c)" "served_entries c ! k = e" by (auto simp: in_set_conv_nth)
      with all p have "tools ! k \<in> set (cb_tools p)" "bind_tool sha256 jcs (?id e) e = Inr (tools ! k)" by auto
      with row [of e] that show ?thesis by auto
    qed
    show "\<exists>e\<in>snd ` set (tc_entries c). \<exists>i. (i, ce_tool_name e, endpoint e) \<in> set rows \<and> bind_tool sha256 jcs i e = Inr t"
      if "t \<in> set (cb_tools p)" for t
    proof -
      from that p obtain k where k: "k < length tools" "tools ! k = t" by (auto simp: in_set_conv_nth)
      with all have "served_entries c ! k \<in> set (served_entries c)" "bind_tool sha256 jcs (?id (served_entries c ! k)) (served_entries c ! k) = Inr t"
        by auto
      moreover from this(1) have mem: "served_entries c ! k \<in> snd ` set (tc_entries c)" using served by simp
      ultimately show ?thesis using row [of "served_entries c ! k"] by (intro bexI [OF _ mem]) auto
    qed
  qed
qed

lemma projection_leaves:
  "leaves (JArr (map tool_document ts)) = Some (sort_key leaf_key (map (\<lambda>t. (JStr (tb_tool_id t), JStr (tb_schema_hash t), JStr (tb_description_hash t))) ts))"
  by (simp add: leaves_def list_all_iff tool_document_def leaf_of_def dget_or_def List.map_filter_def comp_def)

text \<open>The projection of a catalog that a listing manifest bound.\<close>

lemma bound_projection:
  assumes "verify_agent_manifest_binding sdk m keys q = Inr b" "lists_tools m" "br_runtime_catalog q = Some c"
  obtains p where "project_listed_tools (sd_sha256 sdk) (sd_jcs sdk) (sd_merkle sdk) c (case tool_manifest m of JObj t \<Rightarrow> dget t ''tools'' | _ \<Rightarrow> JNull) = Inr p"
    "require_listed_tools_match m p = Inr ()"
  using assms(1)
proof (rule binding_ok)
  fix f expires key_id
  assume v: "verify_with_sdk sdk m keys (binding_appraisal q) = Inr key_id"
  then obtain catalog projection ks where c: "listing_catalog m (binding_appraisal q) = Inr catalog"
    and p: "listed_projection sdk m catalog = Inr projection"
    and r: "\<And>p. projection = Some p \<Longrightarrow> require_listed_tools_match m p = Inr ()"
    using verify_with_sdk_ok [OF v] by metis
  from c assms(2,3) have "catalog = Some c"
    by (auto simp: listing_catalog_def binds_listed_tools_def binding_appraisal_def split: if_splits option.splits)
  with p r show thesis by (auto simp: listed_projection_def bind_result_eq_Inr intro: that)
qed

text \<open>The two texts of a tool that are hashed.\<close>

definition canonical_texts :: "manifest_sdk \<Rightarrow> catalog_entry \<Rightarrow> bytes set" where
  "canonical_texts sdk e = {t. sd_jcs sdk (schema_document (ce_approved_definition e)) = Some t
     \<or> sd_jcs sdk (JStr (ad_description (ce_approved_definition e))) = Some t}"


subsection \<open>Trust anchors and revocations\<close>

text \<open>The keys and issuer policy of a trust anchor.\<close>

definition anchors_typed :: "anchors \<Rightarrow> issuer_policy option \<Rightarrow> bool" where
  "anchors_typed anchors policy \<longleftrightarrow> distinct (map fst anchors)
     \<and> (\<forall>p. policy = Some p \<longrightarrow> distinct (map fst p) \<and> fst ` set p \<subseteq> fst ` set anchors
          \<and> (\<forall>x\<in>set p. \<forall>i\<in>set (snd x). is_spiffe_id (JStr i)))"

lemma anchors_typed_snoc:
  assumes "anchors_typed anchors policy" "k \<notin> fst ` set anchors" "\<forall>i\<in>set issuers. is_spiffe_id (JStr i)"
  shows "anchors_typed (anchors @ [(k, pk)]) (Some ((case policy of None \<Rightarrow> [] | Some p \<Rightarrow> p) @ [(k, issuers)]))"
proof (cases policy)
  case None
  then show ?thesis using assms by (auto simp: anchors_typed_def)
next
  case (Some p)
  with assms(1) have p: "distinct (map fst p)" "fst ` set p \<subseteq> fst ` set anchors" "\<forall>x\<in>set p. \<forall>i\<in>set (snd x). is_spiffe_id (JStr i)"
    "distinct (map fst anchors)" by (simp_all add: anchors_typed_def)
  from p(2) assms(2) have "k \<notin> fst ` set p" by blast
  with p assms(2,3) Some show ?thesis unfolding anchors_typed_def by auto
qed

lemma load_anchor_entries_typed:
  assumes "load_anchor_entries sha256 items anchors policy = Inr (anchors', policy')" "anchors_typed anchors policy"
  shows "anchors_typed anchors' policy'"
  using assms
proof (induction items arbitrary: anchors policy)
  case (Cons item items)
  then obtain d where d: "item = JObj d" by (cases item) auto
  with Cons.prems(1) obtain pk where pk: "manifest_b64url_decode (py_str (dget_or d ''public_key_base64url'' (JStr []))) = Inr pk"
    by (auto simp: bind_result_eq_Inr)
  let ?k = "if truthy (dget d ''key_id'') then py_str (dget d ''key_id'') else manifest_key_id sha256 pk"
  have new: "?k \<notin> fst ` set anchors" using Cons.prems(1) d pk by (auto simp: Let_def split: if_splits)
  show ?case
  proof (cases "map_of d ''issuers''")
    case None
    then have "load_anchor_entries sha256 items (anchors @ [(?k, pk)]) policy = Inr (anchors', policy')"
      using Cons.prems(1) d pk new by (simp add: Let_def)
    moreover have "anchors_typed (anchors @ [(?k, pk)]) policy" using Cons.prems(2) new by (auto simp: anchors_typed_def)
    ultimately show ?thesis by (rule Cons.IH)
  next
    case (Some v)
    then obtain vs where vs: "v = JArr vs" "list_all is_spiffe_id vs"
      and l: "load_anchor_entries sha256 items (anchors @ [(?k, pk)])
        (Some ((case policy of None \<Rightarrow> [] | Some p \<Rightarrow> p) @ [(?k, map Verify_Base.str_of vs)])) = Inr (anchors', policy')"
      using Cons.prems(1) d pk new by (auto simp: Let_def split: json.splits if_splits)
    have "is_spiffe_id (JStr (Verify_Base.str_of v))" if "v \<in> set vs" for v
      using vs(2) that by (cases v) (auto simp: list_all_iff is_spiffe_id_def)
    then have "anchors_typed (anchors @ [(?k, pk)]) (Some ((case policy of None \<Rightarrow> [] | Some p \<Rightarrow> p) @ [(?k, map Verify_Base.str_of vs)]))"
      by (intro anchors_typed_snoc [OF Cons.prems(2) new]) auto
    from Cons.IH [OF l this] show ?thesis .
  qed
qed simp

text \<open>A trust anchor that loads is well formed: its key identifiers are distinct, the issuer policy names only keys of the file,
  each once, and every issuer in it is a SPIFFE ID.\<close>

theorem loaded_trust_policy_is_typed:
  assumes "load_agent_manifest_trust_policy sha256 file = Inr (anchors, policy)"
  shows "anchors_typed anchors policy"
proof -
  have "\<exists>items. load_anchor_entries sha256 items [] None = Inr (anchors, policy)"
    using assms unfolding load_agent_manifest_trust_policy_def by (auto simp del: load_anchor_entries.simps split: option.splits json.splits if_splits)
  then obtain items where "load_anchor_entries sha256 items [] None = Inr (anchors, policy)" by blast
  then show ?thesis by (rule load_anchor_entries_typed) (simp add: anchors_typed_def)
qed

text \<open>The loader keeps a record for every line that is not blank, or refuses the list.\<close>

lemma load_revocation_lines_complete:
  assumes "load_revocation_lines sdk n lines store = Inr rs"
  shows "set store \<subseteq> set rs"
    and "line \<in> set lines \<Longrightarrow> str_strip line \<noteq> [] \<Longrightarrow>
      \<exists>d i. sd_loads sdk line = Some (JObj d) \<and> map_of d ''manifest_id'' = Some (JStr i) \<and> i \<noteq> [] \<and> i \<in> rv_manifest_id ` set rs"
proof -
  have "set store \<subseteq> set rs \<and> (\<forall>line\<in>set lines. str_strip line \<noteq> [] \<longrightarrow>
      (\<exists>d i. sd_loads sdk line = Some (JObj d) \<and> map_of d ''manifest_id'' = Some (JStr i) \<and> i \<noteq> [] \<and> i \<in> rv_manifest_id ` set rs))"
    using assms
  proof (induction lines arbitrary: n store)
    case (Cons line lines)
    show ?case
    proof (cases "str_strip line = []")
      case True
      then show ?thesis using Cons.IH [of "Suc n" store] Cons.prems by simp
    next
      case False
      with Cons.prems obtain d i where l: "sd_loads sdk line = Some (JObj d)" "map_of d ''manifest_id'' = Some (JStr i)" "i \<noteq> []"
        by (auto simp: Let_def split: option.splits json.splits if_splits)
      let ?r = "\<lparr>rv_manifest_id = i, rv_revoked_at = dget d ''revoked_at'', rv_reason = dget d ''reason'', rv_revoked_by = dget d ''revoked_by''\<rparr>"
      have "load_revocation_lines sdk (Suc n) lines (store @ [?r]) = Inr rs"
        using Cons.prems False l by (auto simp: Let_def split: if_splits)
      from Cons.IH [OF this] l show ?thesis by force
    qed
  qed simp
  then show "set store \<subseteq> set rs" "line \<in> set lines \<Longrightarrow> str_strip line \<noteq> [] \<Longrightarrow>
      \<exists>d i. sd_loads sdk line = Some (JObj d) \<and> map_of d ''manifest_id'' = Some (JStr i) \<and> i \<noteq> [] \<and> i \<in> rv_manifest_id ` set rs"
    by blast+
qed

text \<open>The manifest an artifact carries, for the verifier.\<close>

definition artifact_manifest :: "manifest_sdk \<Rightarrow> manifest_artifact \<Rightarrow> jdict \<Rightarrow> bool" where
  "artifact_manifest sdk art m \<longleftrightarrow> (case art of Document d \<Rightarrow> d = m | Envelope raw \<Rightarrow> \<exists>ks sigs. sd_verify_cose sdk raw ks = Some (JObj m, sigs))"


section \<open>The offline cross-check\<close>

text \<open>How \<open>verify_trace_claim\<close> calls the binding on the identity a claim carries: without the catalog, the envelope or a
  revocation list. A subject or source that is no string fails as an empty one does.\<close>

definition claimed_mode :: "json \<Rightarrow> enforcement_mode option option" where
  "claimed_mode v = (if v = JNull then Some None else if v = JStr ''enforcing'' then Some (Some ENFORCING)
     else if v = JStr ''advisory'' then Some (Some ADVISORY) else if v = JStr ''silent'' then Some (Some SILENT) else None)"

definition claimed_text :: "json \<Rightarrow> string option" where
  "claimed_text v = (case v of JNull \<Rightarrow> None | JStr s \<Rightarrow> Some s | _ \<Rightarrow> Some [])"

definition offline_request :: "issuer_policy option \<Rightarrow> int \<Rightarrow> jdict \<Rightarrow> string \<Rightarrow> string \<Rightarrow> enforcement_mode option \<Rightarrow> binding_request" where
  "offline_request issuers now d policy catalog mode =
     \<lparr>br_authenticated_subject = claimed_text (dget d ''authenticated_subject''), br_policy_bundle_hash = policy,
      br_tool_catalog_hash = catalog, br_enforcement_mode = mode,
      br_authenticated_subject_source = claimed_text (dget d ''subject_source''),
      br_allow_dev_subject_from_manifest = (dget d ''subject_source'' = JStr ''manifest-dev''), br_now = now, br_envelope = None,
      br_revocations = None, br_runtime_catalog = None, br_trusted_key_issuers = issuers\<rparr>"

definition offline_binding :: "manifest_sdk \<Rightarrow> jdict \<Rightarrow> anchors \<Rightarrow> issuer_policy option \<Rightarrow> int \<Rightarrow> jdict \<Rightarrow> json \<Rightarrow> json \<Rightarrow> agent_binding option" where
  "offline_binding sdk m keys issuers now d policy catalog =
     (case (claimed_mode (dget d ''enforcement_mode''), policy, catalog) of
        (Some mode, JStr p, JStr c) \<Rightarrow>
          (case verify_agent_manifest_binding sdk m keys (offline_request issuers now d p c mode) of Inr b \<Rightarrow> Some b | Inl _ \<Rightarrow> None)
      | _ \<Rightarrow> None)"

lemma claimed_mode_value [simp]: "claimed_mode (opt_str (map_option enforcement_mode_value m)) = Some m"
  by (cases m) (auto simp: claimed_mode_def opt_str_def enforcement_mode_value_def split: enforcement_mode.splits)

lemma offline_subject:
  assumes "bind_subject q agent_id = Inr (s, source)"
    and "dget d ''authenticated_subject'' = JStr s" "dget d ''subject_source'' = JStr source"
  shows "bind_subject (offline_request issuers now d p c mode) agent_id = Inr (s, source)"
  using assms by (auto simp: bind_subject_def offline_request_def claimed_text_def Let_def split: if_splits option.splits)

text \<open>C15: The identity a gateway bound is confirmed offline. If a gateway bound a manifest that lists no tools, has no experimental
  profile and came without an envelope, and no revocation list was set, then the cross-check of a claim that carries the fields of
  the binding and the hashes of that gateway succeeds, with the same keys and issuers, at any time before the manifest expires.\<close>

theorem bound_identity_confirmed_offline:
  assumes "verify_agent_manifest_binding sdk m keys q = Inr b"
    and "\<not> lists_tools m" "dget m ''profile'' \<noteq> JStr EVIDENCE_REQUIREMENTS_PROFILE" "br_envelope q = None" "br_revocations q = None"
    and "parse_manifest_time (dget m ''expires_at'') ''expires_at'' = Inr expires" "now < expires"
    and "vo_manifest_keys_given opts"
    and "vo_manifest_binding opts = offline_binding sdk m keys (br_trusted_key_issuers q) now"
  shows "manifest_matches opts (JObj (identity_fields b)) (JStr (br_policy_bundle_hash q)) (JStr (br_tool_catalog_hash q))"
proof -
  let ?d = "identity_fields b"
  let ?q = "offline_request (br_trusted_key_issuers q) now ?d (br_policy_bundle_hash q) (br_tool_catalog_hash q) (br_enforcement_mode q)"
  have mode: "dget ?d ''enforcement_mode'' = opt_str (map_option enforcement_mode_value (br_enforcement_mode q))"
    using assms(1) unfolding verify_agent_manifest_binding_def
    by (auto simp: identity_fields_def dget_or_def bind_result_eq_Inr split: if_splits prod.splits)
  have d: "dget ?d ''authenticated_subject'' = JStr (ab_authenticated_subject b)" "dget ?d ''subject_source'' = JStr (ab_subject_source b)"
    by (simp_all add: identity_fields_def dget_or_def)
  have ctx: "appraisal_context (binding_appraisal ?q) None ks = appraisal_context (binding_appraisal q) None ks" for ks
    by (simp add: appraisal_context_def binding_appraisal_def offline_request_def)
  have lc: "listing_catalog m (binding_appraisal q') = Inr None" "\<not> is_experimental m (binding_appraisal q')" for q'
    using assms(2,3) by (auto simp: listing_catalog_def binds_listed_tools_def is_experimental_def)
  have sdk: "verify_with_sdk sdk m keys (binding_appraisal ?q) = verify_with_sdk sdk m keys (binding_appraisal q)"
    using assms(4,5) by (simp add: verify_with_sdk_def lc envelope_payload_def listed_projection_def ctx)
      (simp add: binding_appraisal_def offline_request_def)
  have "verify_agent_manifest_binding sdk m keys ?q = Inr b"
  proof -
    from assms(1) obtain f t ex k s where parts: "br_trusted_key_issuers q \<noteq> None" "manifest_binding_fields m = Inr f"
        "parse_manifest_time (dget m ''issued_at'') ''issued_at'' = Inr t" "verify_with_sdk sdk m keys (binding_appraisal q) = Inr k"
        "bind_subject q (bf_agent_id f) = Inr s"
      and b: "b = \<lparr>ab_manifest_id = bf_manifest_id f, ab_agent_id = bf_agent_id f, ab_authenticated_subject = fst s, ab_subject_source = snd s,
               ab_issuer = bf_issuer f, ab_issuer_key_id = (case k of Some k \<Rightarrow> k | None \<Rightarrow> bf_key_id f),
               ab_policy_bundle_hash = bf_policy_hash f,
               ab_tool_catalog_hash = bf_catalog_hash f, ab_intent_hash = sd_intent_hash sdk m,
               ab_enforcement_mode = map_option enforcement_mode_value (br_enforcement_mode q)\<rparr>"
      using assms(3) by (auto simp: verify_agent_manifest_binding_def bind_result_eq_Inr case_prod_beta split: if_splits)
    have "bind_subject ?q (bf_agent_id f) = Inr s"
      using offline_subject [of q "bf_agent_id f" "fst s" "snd s"] parts(5) d b by simp
    then show ?thesis
      using parts sdk assms(3,6,7) unfolding verify_agent_manifest_binding_def
      by (simp add: b case_prod_beta not_le) (simp add: offline_request_def)
  qed
  moreover have "dget ?d ''enforcement_mode'' \<in> {JNull, JStr ''enforcing'', JStr ''advisory'', JStr ''silent''}"
    unfolding mode by (cases "br_enforcement_mode q") (auto simp: opt_str_def enforcement_mode_value_def split: enforcement_mode.splits)
  ultimately show ?thesis
    using assms(8,9) mode by (simp add: manifest_matches_def offline_binding_def) (simp add: identity_fields_def dget_or_def)
qed

text \<open>C40: The identity of a gateway that bound a manifest with a tool list is never confirmed offline: whatever binding, policy and
  catalog the claim carries, the cross-check of that manifest fails.\<close>

theorem listing_manifest_unconfirmed_offline:
  assumes "verify_agent_manifest_binding sdk m keys q = Inr b" "lists_tools m"
    and "vo_manifest_binding opts = offline_binding sdk m keys' issuers now"
  shows "\<not> manifest_matches opts identity policy catalog"
proof -
  have listing: "listing_catalog m (binding_appraisal (offline_request issuers now d p c mode)) = Inl Listing_needs_catalog
      \<or> listing_catalog m (binding_appraisal (offline_request issuers now d p c mode)) = Inl Experimental_needs_catalog" for d p c mode
    using assms(2) by (auto simp: listing_catalog_def binds_listed_tools_def binding_appraisal_def offline_request_def)
  have sdk: "verify_with_sdk sdk m keys' (binding_appraisal (offline_request issuers now d p c mode)) \<noteq> Inr k" for d p c mode k
  proof
    assume "verify_with_sdk sdk m keys' (binding_appraisal (offline_request issuers now d p c mode)) = Inr k"
    then obtain catalog where "listing_catalog m (binding_appraisal (offline_request issuers now d p c mode)) = Inr catalog"
      by (rule verify_with_sdk_ok)
    then show False using listing [of d p c mode] by auto
  qed
  have none: "verify_agent_manifest_binding sdk m keys' (offline_request issuers now d p c mode) \<noteq> Inr b" for d p c mode b
  proof
    assume "verify_agent_manifest_binding sdk m keys' (offline_request issuers now d p c mode) = Inr b"
    then show False by (rule binding_ok) (use sdk in blast)
  qed
  have "offline_binding sdk m keys' issuers now d policy catalog = None" for d
    using none unfolding offline_binding_def by (simp split: option.split json.split sum.split)
  then show ?thesis using assms(3) by (auto simp: manifest_matches_def split: json.splits)
qed

section \<open>A concrete manifest\<close>

abbreviation demo_digest :: string where "demo_digest \<equiv> ''sha256:'' @ replicate 64 (CHR ''0'')"

definition demo_tool :: tool_binding where
  "demo_tool = \<lparr>tb_tool_id = ''t1'', tb_tool_name = ''a'', tb_endpoint_id = ''spiffe://t/s'',
     tb_schema_hash = manifest_digest pad32 (dumps (schema_document (ce_approved_definition demo_served))),
     tb_description_hash = manifest_digest pad32 (dumps (JStr ''Reads''))\<rparr>"

definition demo_manifest :: "jdict \<Rightarrow> jdict" where
  "demo_manifest tools =
     [(''manifest_id'', JStr ''m1''), (''agent_id'', JStr ''spiffe://t/a''), (''issuer'', JStr ''spiffe://t/i''),
      (''issued_at'', JStr ''2026-01-01T00:00:00Z''), (''expires_at'', JStr ''2027-01-01T00:00:00Z''),
      (''artifacts'', JObj [(''policy_bundle'', JObj [(''hash'', JStr demo_digest)]),
         (''tool_manifest'', JObj ((''catalog_hash'', JStr demo_digest) # tools))])]"

text \<open>A verifier that accepts every document whose identifier is not in the store.\<close>

definition demo_sdk :: manifest_sdk where
  "demo_sdk = \<lparr>sd_loads = (\<lambda>s. if s = ''r'' then Some (JObj [(''manifest_id'', JStr ''m0'')]) else None), sd_cose_version = ''0.2'',
     sd_decode_cose = (\<lambda>_. Cose_value_error),
     sd_verify_manifest = (\<lambda>art ctx store. \<lparr>sr_result = (case art of Envelope _ \<Rightarrow> SDK_unverifiable
         | Document d \<Rightarrow> if list_ex (\<lambda>r. map_of d ''manifest_id'' = Some (JStr (rv_manifest_id r))) store then SDK_revoked else SDK_valid),
       sr_signature_verified = True, sr_policy_bundle_match = True, sr_tool_manifest_match = True, sr_mismatch_fields = [], sr_warnings = []\<rparr>),
     sd_verify_cose = (\<lambda>_ _. None), sd_intent_hash = (\<lambda>_. None), sd_record_valid = (\<lambda>_. True), sd_merkle = (\<lambda>_. Some demo_digest),
     sd_jcs = (\<lambda>v. if wf_json v then Some (dumps v) else None), sd_sha256 = pad32\<rparr>"

definition demo_binding_request :: binding_request where
  "demo_binding_request = \<lparr>br_authenticated_subject = Some ''spiffe://t/a'', br_policy_bundle_hash = demo_digest, br_tool_catalog_hash = ''sealed'',
     br_enforcement_mode = Some ENFORCING, br_authenticated_subject_source = None, br_allow_dev_subject_from_manifest = False, br_now = 0,
     br_envelope = None, br_revocations = None, br_runtime_catalog = Some demo_catalog, br_trusted_key_issuers = Some []\<rparr>"

definition demo_expires :: int where
  "demo_expires = (case parse_manifest_time (JStr ''2027-01-01T00:00:00Z'') ''expires_at'' of Inr t \<Rightarrow> t | Inl _ \<Rightarrow> 0)"

lemma demo_times:
  "parse_manifest_time (JStr ''2027-01-01T00:00:00Z'') ''expires_at'' = Inr demo_expires" "0 < demo_expires"
  "\<exists>t. parse_manifest_time (JStr ''2026-01-01T00:00:00Z'') ''issued_at'' = Inr t"
proof -
  have "is_ok (parse_manifest_time (JStr ''2026-01-01T00:00:00Z'') ''issued_at'')" by code_simp
  then show "\<exists>t. parse_manifest_time (JStr ''2026-01-01T00:00:00Z'') ''issued_at'' = Inr t" by (simp add: is_ok_iff)
  show "parse_manifest_time (JStr ''2027-01-01T00:00:00Z'') ''expires_at'' = Inr demo_expires" "0 < demo_expires" by code_simp+
qed

lemma demo_fields:
  "manifest_binding_fields (demo_manifest tools) = Inr \<lparr>bf_manifest_id = ''m1'', bf_agent_id = ''spiffe://t/a'', bf_issuer = ''spiffe://t/i'',
     bf_key_id = [], bf_policy_hash = demo_digest, bf_catalog_hash = demo_digest\<rparr>"
  by (simp add: manifest_binding_fields_def spiffe_text_def demo_manifest_def dget_or_def require_hash_def is_prefixed_hash_def without_newline_def
      starts_with_def Let_def list_all_iff)

lemma demo_project:
  "project_listed_tools pad32 (sd_jcs demo_sdk) (sd_merkle demo_sdk) demo_catalog (JArr [tool_document demo_tool])
     = Inr \<lparr>cb_catalog_hash = demo_digest, cb_tools = [demo_tool]\<rparr>"
proof -
  have j: "joinable_tools (JArr [tool_document demo_tool]) = Some [(''t1'', ''a'', ''spiffe://t/s'')]"
    using joinable_tools_documents [of "[demo_tool]"] by (simp add: demo_tool_def)
  have e: "ce_tool_name demo_served = ''a''" "endpoint demo_served = ''spiffe://t/s''" "has_spiffe demo_served"
    "ce_approved_definition demo_served = \<lparr>ad_description = ''Reads'', ad_input_schema = JObj [], ad_output_schema = None\<rparr>"
    by (simp_all add: demo_served_def sample_entry_def endpoint_def has_spiffe_def starts_with_def)
  have s: "served_entries demo_catalog = [demo_served]" "tc_entries demo_catalog = [(''a'', demo_served)]"
    by (simp_all add: served_entries_def demo_catalog_def)
  show ?thesis
    by (simp add: project_listed_tools_def j s e bind_tool_def components_def schema_document_def Let_def)
      (simp add: demo_sdk_def demo_tool_def e schema_document_def)
qed

abbreviation demo_listing :: jdict where "demo_listing \<equiv> demo_manifest [(''tools'', JArr [tool_document demo_tool])]"

lemma demo_tool_manifest: "tool_manifest (demo_manifest tools) = JObj ((''catalog_hash'', JStr demo_digest) # tools)"
  by (simp add: tool_manifest_def demo_manifest_def dget_or_def)

lemma demo_manifest_simps:
  "dget (demo_manifest tools) ''issued_at'' = JStr ''2026-01-01T00:00:00Z''" "dget (demo_manifest tools) ''expires_at'' = JStr ''2027-01-01T00:00:00Z''"
  "dget (demo_manifest tools) ''profile'' = JNull" "map_of (demo_manifest tools) ''manifest_id'' = Some (JStr ''m1'')"
  "distinct (map fst (demo_manifest tools))"
  by (simp_all add: demo_manifest_def dget_or_def)

definition demo_bound :: agent_binding where
  "demo_bound = \<lparr>ab_manifest_id = ''m1'', ab_agent_id = ''spiffe://t/a'', ab_authenticated_subject = ''spiffe://t/a'', ab_subject_source = ''config'',
     ab_issuer = ''spiffe://t/i'', ab_issuer_key_id = [], ab_policy_bundle_hash = demo_digest, ab_tool_catalog_hash = demo_digest,
     ab_intent_hash = None, ab_enforcement_mode = Some ''enforcing''\<rparr>"

lemma demo_binds:
  assumes "verify_with_sdk demo_sdk (demo_manifest tools) [] (binding_appraisal (demo_binding_request\<lparr>br_revocations := rs\<rparr>)) = Inr None"
  shows "verify_agent_manifest_binding demo_sdk (demo_manifest tools) [] (demo_binding_request\<lparr>br_revocations := rs\<rparr>) = Inr demo_bound"
proof -
  have s: "bind_subject (demo_binding_request\<lparr>br_revocations := rs\<rparr>) ''spiffe://t/a'' = Inr (''spiffe://t/a'', ''config'')"
    by (simp add: bind_subject_def demo_binding_request_def SUBJECT_SOURCES_def starts_with_def)
  show ?thesis
    using demo_times(2,3) assms
    by (auto simp: verify_agent_manifest_binding_def demo_fields demo_manifest_simps demo_times(1) s)
      (auto simp: demo_bound_def demo_binding_request_def demo_sdk_def enforcement_mode_value_def)
qed

lemma demo_listing_bound: "verify_agent_manifest_binding demo_sdk demo_listing [] demo_binding_request = Inr demo_bound" "lists_tools demo_listing"
proof -
  have q: "demo_binding_request = demo_binding_request\<lparr>br_revocations := None\<rparr>" by (simp add: demo_binding_request_def)
  have "require_listed_tools_match demo_listing \<lparr>cb_catalog_hash = demo_digest, cb_tools = [demo_tool]\<rparr> = Inr ()"
    using projection_leaves [of "[demo_tool]"] by (simp add: require_listed_tools_match_def demo_tool_manifest dget_or_def)
  then have "verify_with_sdk demo_sdk demo_listing [] (binding_appraisal demo_binding_request) = Inr None"
    using demo_project
    by (simp add: verify_with_sdk_def listing_catalog_def binds_listed_tools_def is_experimental_def lists_tools_def demo_tool_manifest
        demo_manifest_simps binding_appraisal_def demo_binding_request_def listed_projection_def envelope_payload_def)
      (simp add: demo_catalog_def demo_sdk_def raise_for_sdk_result_def dget_or_def)
  then show "verify_agent_manifest_binding demo_sdk demo_listing [] demo_binding_request = Inr demo_bound"
    using demo_binds [of _ None] q by simp
  show "lists_tools demo_listing" by (simp add: lists_tools_def demo_tool_manifest)
qed

lemma demo_plain_bound:
  assumes "rs = None \<or> rs = Some [r] \<and> rv_manifest_id r \<noteq> ''m1''"
  shows "verify_agent_manifest_binding demo_sdk (demo_manifest []) [] (demo_binding_request\<lparr>br_revocations := rs\<rparr>) = Inr demo_bound"
proof (rule demo_binds)
  show "verify_with_sdk demo_sdk (demo_manifest []) [] (binding_appraisal (demo_binding_request\<lparr>br_revocations := rs\<rparr>)) = Inr None"
    using assms
    by (auto simp: verify_with_sdk_def listing_catalog_def binds_listed_tools_def is_experimental_def lists_tools_def demo_tool_manifest
        demo_manifest_simps binding_appraisal_def demo_binding_request_def listed_projection_def envelope_payload_def demo_sdk_def raise_for_sdk_result_def)
qed

lemma demo_jcs: "sd_jcs demo_sdk x = Some t \<Longrightarrow> sd_jcs demo_sdk y = Some t \<Longrightarrow> norm_json x = norm_json y"
  by (auto simp: demo_sdk_def dumps_inject split: if_splits)



theorem loaded_trust_policy_is_typed_witness:
  "\<exists>anchors policy. load_agent_manifest_trust_policy pad32
       (Some (JObj [(''public_key_base64url'', JStr ''AAAA''), (''issuers'', JArr [JStr ''spiffe://t/i''])])) = Inr (anchors, policy)
     \<and> anchors_typed anchors policy"
proof -
  let ?f = "Some (JObj [(''public_key_base64url'', JStr ''AAAA''), (''issuers'', JArr [JStr ''spiffe://t/i''])])"
  have "is_ok (load_agent_manifest_trust_policy pad32 ?f)" by code_simp
  then obtain anchors policy where "load_agent_manifest_trust_policy pad32 ?f = Inr (anchors, policy)" by (auto simp: is_ok_iff)
  with loaded_trust_policy_is_typed [OF this] show ?thesis by blast
qed


definition demo_options :: "jdict \<Rightarrow> verify_options" where
  "demo_options m = \<lparr>vo_max_attestation_age_seconds = 0, vo_trusted_public_key_hex = None, vo_agent_manifest_given = True, vo_manifest_keys_given = True,
     vo_manifest_binding = offline_binding demo_sdk m [] (Some []) 0, vo_trusted_ark_pem = None, vo_trusted_intel_root_pem = None,
     vo_trusted_tpm_ca_pem = None, vo_expected_gateway_measurement = None, vo_snp_platform_policy = None,
     vo_expected_launch_measurements = None\<rparr>"

theorem bound_identity_confirmed_offline_witness:
  "manifest_matches (demo_options (demo_manifest [])) (JObj (identity_fields demo_bound)) (JStr demo_digest) (JStr ''sealed'')"
proof -
  have b: "verify_agent_manifest_binding demo_sdk (demo_manifest []) [] demo_binding_request = Inr demo_bound"
    using demo_plain_bound [of None undefined] by (simp add: demo_binding_request_def)
  show ?thesis
    using bound_identity_confirmed_offline [OF b, where now = 0 and opts = "demo_options (demo_manifest [])"]
      demo_times(1,2)
    by (simp add: demo_binding_request_def demo_manifest_simps lists_tools_def demo_tool_manifest demo_options_def)
qed

theorem listing_manifest_unconfirmed_offline_witness:
  "verify_agent_manifest_binding demo_sdk demo_listing [] demo_binding_request = Inr demo_bound
   \<and> \<not> manifest_matches (demo_options demo_listing) (JObj (identity_fields demo_bound)) (JStr demo_digest) (JStr ''sealed'')"
  using listing_manifest_unconfirmed_offline [OF demo_listing_bound, of "demo_options demo_listing"] demo_listing_bound(1)
  by (simp add: demo_options_def)

end
