(* ===== verification/Inspection.thy ===== *)
theory Inspection
  imports Regex Session_State Verify_Base
begin

text \<open>
  The response inspection pipeline (\<open>inspection/pipeline.py\<close>) with the pattern set
  of \<open>patterns_v1.json\<close>: size, schema, classification, injection. All four stages
  run on every response. \<open>inspection_io\<close> has what the stages call outside this
  file: the JSON reader and writer, UTF-8, \<open>jsonschema\<close>, SHA-256, and the
  excerpt of the text around a match, which only the reason quotes.
\<close>

section \<open>Patterns\<close>

definition ANY_TEXT :: regex where "ANY_TEXT = Star (Cls (\<lambda>_. True))"

definition ascii_letter :: "char \<Rightarrow> bool" where "ascii_letter c \<longleftrightarrow> between 65 90 c \<or> between 97 122 c"

definition PATTERNS_VERSION :: string where "PATTERNS_VERSION = ''1.0.0''"

definition DEFAULT_INJECTION_PATTERNS :: "(regex \<times> string) list" where
  "DEFAULT_INJECTION_PATTERNS =
     [(seq [lit ''<system>'', ANY_TEXT, lit ''</system>''], ''xml-system-tag''),
      (seq [lit ''<instructions>'', ANY_TEXT, lit ''</instructions>''], ''xml-instructions-tag''),
      (seq [lit ''<context>'', ANY_TEXT, lit ''</context>''], ''xml-context-tag''),
      (seq [lit_i ''ignore '', word_i [''previous'', ''all'', ''above''], lit_i '' instructions''], ''ignore-instructions''),
      (seq [lit_i ''disregard '', word_i [''your'', ''the''], lit '' '', word_i [''previous'', ''system'', ''initial''], lit '' '',
            word_i [''prompt'', ''instructions'', ''context'']], ''disregard-instructions''),
      (seq [word_i [''you are now'', ''from now on you are'', ''act as''], lit '' '', Cls ascii_letter, at_least 1 (Cls ascii_letter)], ''persona-hijack''),
      (seq [word_i [''exfiltrate'', ''send'', ''forward'', ''transmit''], lit '' '', word_i [''the'', ''all'', ''this'', ''user'', ''customer''], lit '' '',
            word_i [''data'', ''information'', ''context'', ''message'']], ''exfiltrate''),
      (lit ''SYSTEM OVERRIDE'', ''system-override''),
      (lit ''---BEGIN SYSTEM---'', ''begin-system-marker''),
      (seq [lit ''[INST]'', ANY_TEXT, lit ''[/INST]''], ''llama-instruction-markers'')]"

fun up_to :: "nat \<Rightarrow> regex \<Rightarrow> regex" where
  "up_to 0 r = Eps"
| "up_to (Suc n) r = Opt (Seq r (up_to n r))"

definition span :: "nat \<Rightarrow> nat \<Rightarrow> regex \<Rightarrow> regex" where
  "span lo hi r = Seq (repeat lo r) (up_to (hi - lo) r)"

definition SEPARATOR :: regex where "SEPARATOR = Opt (Cls (\<lambda>c. str_space c \<or> c = CHR ''-''))"

definition CONTENT_PATTERNS :: "(regex \<times> string) list" where
  "CONTENT_PATTERNS =
     [(seq [Word_boundary, repeat 3 digit, lit ''-'', repeat 2 digit, lit ''-'', repeat 4 digit, Word_boundary], ''pii''),
      (seq [Word_boundary, lit ''4'', repeat 3 digit, SEPARATOR, repeat 4 digit, SEPARATOR, repeat 4 digit, SEPARATOR, repeat 4 digit, Word_boundary], ''pii''),
      (seq [Word_boundary, lit ''5'', Cls (between 49 53), repeat 2 digit, SEPARATOR, repeat 4 digit, SEPARATOR, repeat 4 digit, SEPARATOR, repeat 4 digit,
            Word_boundary], ''pii''),
      (seq [Word_boundary, at_least 1 (Cls (\<lambda>c. ascii_alnum c \<or> c \<in> set ''._%+-'')), lit ''@'', at_least 1 (Cls (\<lambda>c. ascii_alnum c \<or> c \<in> set ''.-'')), lit ''.'',
            at_least 2 (Cls ascii_letter), Word_boundary], ''pii''),
      (seq [Word_boundary, Opt (Seq (lit ''+1'') SEPARATOR), Opt (lit ''(''), repeat 3 digit, Opt (lit '')''), SEPARATOR, repeat 3 digit, SEPARATOR, repeat 4 digit,
            Word_boundary], ''pii''),
      (seq [Word_boundary, word_i [''dob'', ''date of birth'', ''birthdate''], at_least 1 (Cls (\<lambda>c. c = CHR '':'' \<or> str_space c)), span 1 2 digit, one_of ''/-'',
            span 1 2 digit, one_of ''/-'', span 2 4 digit, Word_boundary], ''pii''),
      (seq [Word_boundary, alts [lit_i ''patient'', lit_i ''mrn'', seq [lit_i ''member'', Star space, lit_i ''id'']], at_least 1 (Cls (\<lambda>c. c = CHR '':'' \<or> str_space c)),
            span 4 20 (Cls (\<lambda>c. ascii_alnum c \<or> c = CHR ''-'')), Word_boundary], ''hipaa_phi''),
      (seq [Word_boundary, alts [lit_i ''diagnosis'', seq [lit_i ''icd'', Opt (one_of ''- ''), at_least 1 digit], seq [lit_i ''cpt'', Opt (one_of ''- ''), at_least 1 digit]],
            Word_boundary], ''hipaa_phi'')]"

section \<open>Stages\<close>

datatype schema_check = Conforms | Violates string | Bad_schema

text \<open>What leaves the pipeline unhandled: an exception of Python's own, or \<open>jsonschema.SchemaError\<close> for a schema that is none.\<close>

datatype inspection_exc = Raised py_exc | Schema_error

definition raising :: "py_exc + 'a \<Rightarrow> inspection_exc + 'a" where
  "raising r = (case r of Inl e \<Rightarrow> Inl (Raised e) | Inr x \<Rightarrow> Inr x)"

lemma raising_eq_Inr [simp]: "raising r = Inr x \<longleftrightarrow> r = Inr x"
  by (auto simp: raising_def split: sum.splits)

record inspection_io =
  io_loads :: "bytes \<Rightarrow> json option"
  io_loads_text :: "string \<Rightarrow> json option"
  io_compact :: "json \<Rightarrow> bytes"
  io_decode :: "bytes \<Rightarrow> string option"
  io_decode_replace :: "bytes \<Rightarrow> string"
  io_validate :: "json \<Rightarrow> json \<Rightarrow> schema_check"
  io_sha256 :: "bytes \<Rightarrow> bytes"
  io_excerpt :: "regex \<Rightarrow> string \<Rightarrow> string"

record stage_result =
  sg_decision :: string
  sg_reason :: "string option"
  sg_stripped_fields :: "string list option"
  sg_injection_pattern :: "string option"
  sg_injection_scanner :: "string option"

definition stage :: "string \<Rightarrow> stage_result" where
  "stage decision = \<lparr>sg_decision = decision, sg_reason = None, sg_stripped_fields = None, sg_injection_pattern = None, sg_injection_scanner = None\<rparr>"

definition stage1_size_check :: "bytes \<Rightarrow> int \<Rightarrow> stage_result" where
  "stage1_size_check response max_bytes =
     (if max_bytes < int (length response)
      then (stage ''deny'')\<lparr>sg_reason := Some (''response size '' @ nat_str (length response) @ '' exceeds limit '' @ int_str max_bytes)\<rparr>
      else stage ''allow'')"

text \<open>The fields of the payload that the schema does not name.\<close>

definition surplus_fields :: "json \<Rightarrow> jdict \<Rightarrow> string list" where
  "surplus_fields payload schema =
     (case (payload, dget schema ''properties'') of
        (JObj d, JObj properties) \<Rightarrow> filter (\<lambda>k. k \<notin> fst ` set properties) (map fst d)
      | _ \<Rightarrow> [])"

definition redact :: "string list \<Rightarrow> json \<Rightarrow> json" where
  "redact surplus payload = (case payload of JObj d \<Rightarrow> JObj (filter (\<lambda>(k, v). k \<notin> set surplus) d) | v \<Rightarrow> v)"

definition REDACTED :: string where "REDACTED = ''surplus fields redacted''"

definition stage2_schema_validation :: "inspection_io \<Rightarrow> bytes \<Rightarrow> catalog_entry \<Rightarrow> inspection_exc + stage_result \<times> bytes" where
  "stage2_schema_validation io response entry =
     (case ad_output_schema (ce_approved_definition entry) of
        None \<Rightarrow> Inr (stage ''skip'', response)
      | Some schema \<Rightarrow>
          (case io_loads io response of
             None \<Rightarrow> Inr ((stage ''allow'')\<lparr>sg_reason := Some ''non-JSON response; schema check skipped''\<rparr>, response)
           | Some payload \<Rightarrow>
               (case schema of
                  JObj s \<Rightarrow>
                    let surplus = surplus_fields payload s in
                    if surplus = [] then
                      (case io_validate io payload schema of
                         Conforms \<Rightarrow> Inr (stage ''allow'', response)
                       | Violates message \<Rightarrow> Inr ((stage ''deny'')\<lparr>sg_reason := Some (''RESPONSE_SCHEMA_VIOLATION: '' @ message)\<rparr>, response)
                       | Bad_schema \<Rightarrow> Inl Schema_error)
                    else Inr (case ce_schema_validation_mode entry of
                        Mode_strict \<Rightarrow> ((stage ''deny'')\<lparr>sg_reason := Some ''RESPONSE_SCHEMA_VIOLATION_STRICT'', sg_stripped_fields := Some surplus\<rparr>, response)
                      | Mode_log \<Rightarrow> ((stage ''allow'')\<lparr>sg_reason := Some ''surplus fields logged'', sg_stripped_fields := Some surplus\<rparr>, response)
                      | Mode_redact \<Rightarrow> ((stage ''allow'')\<lparr>sg_reason := Some REDACTED, sg_stripped_fields := Some surplus\<rparr>,
                                         io_compact io (redact surplus payload)))
                | _ \<Rightarrow>
                    (case payload of
                       JObj _ \<Rightarrow> Inl (Raised Py_attribute)
                     | _ \<Rightarrow> (case io_validate io payload schema of
                               Conforms \<Rightarrow> Inr (stage ''allow'', response)
                             | Violates message \<Rightarrow> Inr ((stage ''deny'')\<lparr>sg_reason := Some (''RESPONSE_SCHEMA_VIOLATION: '' @ message)\<rparr>, response)
                             | Bad_schema \<Rightarrow> Inl Schema_error)))))"

fun stage4_injection_detection :: "inspection_io \<Rightarrow> string \<Rightarrow> (regex \<times> string) list \<Rightarrow> stage_result" where
  "stage4_injection_detection io response_text [] = stage ''allow''"
| "stage4_injection_detection io response_text ((pattern, name) # patterns) =
     (if search pattern response_text
      then (stage ''deny'')\<lparr>sg_reason := Some (''injection pattern '' @ [CHR 0x27] @ name @ [CHR 0x27] @ '' matched near '' @ io_excerpt io pattern response_text),
             sg_injection_pattern := Some name, sg_injection_scanner := Some ''regex''\<rparr>
      else stage4_injection_detection io response_text patterns)"

text \<open>A tag is a JSON value: an \<open>x-sensitivity\<close> list may hold anything.\<close>

definition add_tag :: "json list \<Rightarrow> json \<Rightarrow> json list" where
  "add_tag tags t = (if list_ex (\<lambda>u. py_eq u t) tags then tags else tags @ [t])"

fun extract_tags :: "jdict \<Rightarrow> jdict \<Rightarrow> json list \<Rightarrow> inspection_exc + json list" where
  "extract_tags response [] tags = Inr tags"
| "extract_tags response ((field_name, field_schema) # properties) tags =
     bind_result (raising (py_get field_schema ''x-sensitivity'' JNull)) (\<lambda>sensitivity.
       extract_tags response properties
         (if truthy sensitivity \<and> field_name \<in> fst ` set response
          then (case sensitivity of JStr s \<Rightarrow> add_tag tags sensitivity | JArr ts \<Rightarrow> foldl add_tag tags ts | _ \<Rightarrow> tags)
          else tags))"

definition extract_schema_sensitivity_tags :: "jdict \<Rightarrow> json option \<Rightarrow> inspection_exc + json list" where
  "extract_schema_sensitivity_tags response output_schema =
     (case output_schema of
        None \<Rightarrow> Inr []
      | Some schema \<Rightarrow>
          bind_result (raising (py_get schema ''properties'' (JObj []))) (\<lambda>properties.
            case properties of JObj ps \<Rightarrow> extract_tags response ps [] | _ \<Rightarrow> Inl (Raised Py_attribute)))"

fun content_tags :: "string \<Rightarrow> (regex \<times> string) list \<Rightarrow> json list \<Rightarrow> json list" where
  "content_tags response_text [] tags = tags"
| "content_tags response_text ((pattern, tag) # patterns) tags =
     (if 4 \<le> length tags then tags
      else content_tags response_text patterns (if search pattern response_text then add_tag tags (JStr tag) else tags))"

definition classify_sensitivity :: "inspection_io \<Rightarrow> catalog_entry \<Rightarrow> string \<Rightarrow> inspection_exc + json list" where
  "classify_sensitivity io entry response_text =
     (let level = ce_sensitivity_level entry; tags = (if level \<noteq> [] \<and> level \<noteq> ''public'' then [JStr level] else []) in
      if response_text = [] then Inr tags
      else bind_result (case io_loads_text io response_text of
               Some (JObj d) \<Rightarrow> extract_schema_sensitivity_tags d (ad_output_schema (ce_approved_definition entry))
             | _ \<Rightarrow> Inr []) (\<lambda>schema_tags.
           Inr (content_tags response_text CONTENT_PATTERNS (foldl add_tag tags schema_tags))))"

definition classification_stage_run :: "inspection_io \<Rightarrow> (json \<Rightarrow> string) \<Rightarrow> jdict \<Rightarrow> catalog_entry \<Rightarrow> inspection_exc + json list" where
  "classification_stage_run io to_text response entry = classify_sensitivity io entry (to_text (JObj response))"

section \<open>The pipeline\<close>

record inspection_pipeline =
  ip_max_bytes :: int
  ip_injection_patterns :: "(regex \<times> string) list"
  ip_injection_threshold :: "string option"

definition INJECTION_THRESHOLDS :: "(string \<times> string) list" where
  "INJECTION_THRESHOLDS = [(''strict'', ''0.3''), (''balanced'', ''0.5''), (''permissive'', ''0.7'')]"

definition new_inspection_pipeline :: "int \<Rightarrow> (regex \<times> string) list \<Rightarrow> string \<Rightarrow> inspection_pipeline" where
  "new_inspection_pipeline max_bytes patterns sensitivity =
     \<lparr>ip_max_bytes = max_bytes, ip_injection_patterns = patterns, ip_injection_threshold = map_of INJECTION_THRESHOLDS sensitivity\<rparr>"

definition active_patterns :: "inspection_pipeline \<Rightarrow> (regex \<times> string) list" where
  "active_patterns p = (if ip_injection_patterns p = [] then DEFAULT_INJECTION_PATTERNS else ip_injection_patterns p)"

record inspection_result =
  ir_call_id :: string
  ir_final_decision :: string
  ir_deny_reason :: "string option"
  ir_sensitivity_tags :: "json list"
  ir_stripped_fields :: "string list option"
  ir_injection_pattern_matched :: "string option"
  ir_stage_results :: "(string \<times> string) list"
  ir_response_payload_hash :: string
  ir_modified_response :: "bytes option"
  ir_injection_scanner :: "string option"
  ir_injection_threshold :: "string option"
  ir_patterns_version :: string

text \<open>What the session makes of a tag: a string has a rank, a list or an object has no hash, and anything else is a label without a
  rank, which raises nothing.\<close>

fun session_tags :: "json list \<Rightarrow> inspection_exc + string list" where
  "session_tags [] = Inr []"
| "session_tags (t # ts) =
     (case t of
        JStr s \<Rightarrow> bind_result (session_tags ts) (\<lambda>r. Inr (s # r))
      | JArr _ \<Rightarrow> Inl (Raised Py_type)
      | JObj _ \<Rightarrow> Inl (Raised Py_type)
      | _ \<Rightarrow> session_tags ts)"

definition hand_over :: "datetime \<Rightarrow> string \<Rightarrow> json list \<Rightarrow> bool \<Rightarrow> bool \<Rightarrow> session_state option \<Rightarrow> inspection_exc + session_state option" where
  "hand_over now call_id tags injection_detected response_allowed session =
     (case session of
        None \<Rightarrow> Inr None
      | Some s \<Rightarrow> bind_result (session_tags tags) (\<lambda>ts.
          Inr (Some (snd (update_from_inspection now s call_id ts injection_detected response_allowed None)))))"

text \<open>\<open>dict.fromkeys\<close>: the first of each reason, in order.\<close>

definition distinct_reasons :: "string list \<Rightarrow> string list" where
  "distinct_reasons rs = foldl (\<lambda>acc r. if r \<in> set acc then acc else acc @ [r]) [] rs"

definition stage_reason :: "stage_result \<Rightarrow> string \<Rightarrow> string list" where
  "stage_reason r otherwise =
     (if sg_decision r = ''deny'' then [case sg_reason r of Some m \<Rightarrow> if m = [] then otherwise else m | None \<Rightarrow> otherwise] else [])"

definition pipeline_run ::
  "inspection_io \<Rightarrow> inspection_pipeline \<Rightarrow> datetime \<Rightarrow> string \<Rightarrow> catalog_entry \<Rightarrow> bytes \<Rightarrow> session_state option
   \<Rightarrow> inspection_exc + inspection_result \<times> session_state option" where
  "pipeline_run io p now call_id entry response session =
     (let s1 = stage1_size_check response (ip_max_bytes p); r1 = stage_reason s1 ''size exceeded'' in
      bind_result (stage2_schema_validation io response entry) (\<lambda>(s2, body).
      let r2 = stage_reason s2 ''schema violation'';
          stripped = (case sg_stripped_fields s2 of Some fs \<Rightarrow> if fs = [] then None else Some fs | None \<Rightarrow> None);
          modified = (if sg_decision s2 = ''allow'' \<and> stripped \<noteq> None \<and> sg_reason s2 = Some REDACTED then Some body else None) in
      bind_result (classify_sensitivity io entry (io_decode_replace io body)) (\<lambda>tags.
      let result = \<lparr>ir_call_id = call_id, ir_final_decision = ''deny'', ir_deny_reason = None, ir_sensitivity_tags = tags, ir_stripped_fields = stripped,
            ir_injection_pattern_matched = None,
            ir_stage_results = [(''size'', sg_decision s1), (''schema'', sg_decision s2), (''classification'', ''allow'')],
            ir_response_payload_hash = ''sha256:'' @ hexlify (io_sha256 io response), ir_modified_response = None, ir_injection_scanner = None,
            ir_injection_threshold = ip_injection_threshold p, ir_patterns_version = PATTERNS_VERSION\<rparr> in
      case io_decode io body of
        None \<Rightarrow>
          bind_result (hand_over now call_id tags True False session) (\<lambda>session'.
            Inr (result\<lparr>ir_deny_reason := Some (join ''; '' (distinct_reasons (r1 @ r2 @ [''INJECT-005: non-UTF-8 response rejected before injection scan'']))),
                   ir_injection_pattern_matched := Some ''non-utf8-response'',
                   ir_stage_results := ir_stage_results result @ [(''injection'', ''deny'')], ir_injection_scanner := Some ''utf8_guard''\<rparr>, session'))
      | Some response_text \<Rightarrow>
          let s4 = stage4_injection_detection io response_text (active_patterns p);
              reasons = distinct_reasons (r1 @ r2 @ stage_reason s4 ''injection detected'') in
          bind_result (hand_over now call_id tags (sg_decision s4 = ''deny'') (reasons = []) session) (\<lambda>session'.
            Inr (result\<lparr>ir_final_decision := (if reasons = [] then ''allow'' else ''deny''),
                   ir_deny_reason := (if reasons = [] then None else Some (join ''; '' reasons)),
                   ir_injection_pattern_matched := sg_injection_pattern s4,
                   ir_stage_results := ir_stage_results result @ [(''injection'', sg_decision s4)],
                   ir_modified_response := modified, ir_injection_scanner := sg_injection_scanner s4\<rparr>, session')))))"

section \<open>What the pipeline decides\<close>

lemma set_distinct_reasons [simp]: "set (distinct_reasons rs) = set rs"
proof -
  have "set (foldl (\<lambda>acc r. if r \<in> set acc then acc else acc @ [r]) acc rs) = set acc \<union> set rs" for acc
    by (induction rs arbitrary: acc) auto
  then show ?thesis by (simp add: distinct_reasons_def)
qed

lemma distinct_reasons_empty [simp]: "distinct_reasons rs = [] \<longleftrightarrow> rs = []"
  by (metis set_distinct_reasons set_empty)

lemma stage_reason_empty [simp]: "stage_reason r m = [] \<longleftrightarrow> sg_decision r \<noteq> ''deny''"
  by (simp add: stage_reason_def)

lemma stage_simps [simp]: "sg_decision (stage d) = d" "sg_reason (stage d) = None" "sg_stripped_fields (stage d) = None"
  "sg_injection_pattern (stage d) = None" "sg_injection_scanner (stage d) = None"
  by (simp_all add: stage_def)

lemma size_denied: "sg_decision (stage1_size_check response m) = ''deny'' \<longleftrightarrow> m < int (length response)"
  by (simp add: stage1_size_check_def)

lemma injection_denied: "sg_decision (stage4_injection_detection io t ps) = ''deny'' \<longleftrightarrow> (\<exists>(p, n)\<in>set ps. search p t)"
  by (induction ps rule: stage4_injection_detection.induct [of _ io t]) auto

lemma stage4_decision: "sg_decision (stage4_injection_detection io t ps) = ''deny'' \<or> sg_decision (stage4_injection_detection io t ps) = ''allow''"
  by (induction ps rule: stage4_injection_detection.induct [of _ io t]) auto

lemma pipeline_stages:
  assumes "pipeline_run io p now call_id entry response session = Inr (r, session')"
  obtains s2 body tags where "stage2_schema_validation io response entry = Inr (s2, body)"
    "classify_sensitivity io entry (io_decode_replace io body) = Inr tags" "ir_sensitivity_tags r = tags"
    "hand_over now call_id tags (case io_decode io body of None \<Rightarrow> True | Some t \<Rightarrow> \<exists>(q, n)\<in>set (active_patterns p). search q t)
       (ir_final_decision r = ''allow'') session = Inr session'"
    "ir_final_decision r = (if ip_max_bytes p < int (length response) \<or> sg_decision s2 = ''deny''
        \<or> (case io_decode io body of None \<Rightarrow> True | Some t \<Rightarrow> \<exists>(q, n)\<in>set (active_patterns p). search q t) then ''deny'' else ''allow'')"
    "ir_deny_reason r = None \<longleftrightarrow> ir_final_decision r = ''allow''"
    "\<And>b. ir_modified_response r = Some b \<Longrightarrow> b = body \<and> sg_reason s2 = Some REDACTED \<and> sg_stripped_fields s2 \<noteq> None"
    "ir_response_payload_hash r = ''sha256:'' @ hexlify (io_sha256 io response)"
proof -
  from assms obtain s2 body tags where 2: "stage2_schema_validation io response entry = Inr (s2, body)"
    and 3: "classify_sensitivity io entry (io_decode_replace io body) = Inr tags"
    unfolding pipeline_run_def Let_def by (auto simp: bind_result_eq_Inr)
  show thesis
  proof (cases "io_decode io body")
    case None
    with assms 2 3 show thesis
      by (intro that [OF 2 3]) (auto simp: pipeline_run_def Let_def bind_result_eq_Inr)
  next
    case (Some t)
    let ?s1 = "stage1_size_check response (ip_max_bytes p)" and ?s4 = "stage4_injection_detection io t (active_patterns p)"
    let ?reasons = "distinct_reasons (stage_reason ?s1 ''size exceeded'' @ stage_reason s2 ''schema violation'' @ stage_reason ?s4 ''injection detected'')"
    have empty: "?reasons = [] \<longleftrightarrow> \<not> (ip_max_bytes p < int (length response) \<or> sg_decision s2 = ''deny'' \<or> (\<exists>(q, n)\<in>set (active_patterns p). search q t))"
      by (simp add: size_denied injection_denied)
    have r: "hand_over now call_id tags (sg_decision ?s4 = ''deny'') (?reasons = []) session = Inr session'"
      "ir_final_decision r = (if ?reasons = [] then ''allow'' else ''deny'')" "ir_deny_reason r = (if ?reasons = [] then None else Some (join ''; '' ?reasons))"
      "ir_sensitivity_tags r = tags" "ir_response_payload_hash r = ''sha256:'' @ hexlify (io_sha256 io response)"
      "ir_modified_response r = (if sg_decision s2 = ''allow'' \<and> (case sg_stripped_fields s2 of Some fs \<Rightarrow> if fs = [] then None else Some fs | None \<Rightarrow> None) \<noteq> None
         \<and> sg_reason s2 = Some REDACTED then Some body else None)"
      using assms 2 3 Some unfolding pipeline_run_def Let_def by (auto simp only: bind_result_simps prod.case option.case bind_result_eq_Inr sum.inject prod.inject) simp_all
    have fin: "(ir_final_decision r = ''allow'') = (?reasons = [])" using r(2) by simp
    show thesis
    proof (rule that [OF 2 3 r(4)])
      show "hand_over now call_id tags (case io_decode io body of None \<Rightarrow> True | Some t \<Rightarrow> \<exists>(q, n)\<in>set (active_patterns p). search q t)
          (ir_final_decision r = ''allow'') session = Inr session'"
        unfolding fin Some option.case using r(1) unfolding injection_denied .
      show "ir_final_decision r = (if ip_max_bytes p < int (length response) \<or> sg_decision s2 = ''deny''
          \<or> (case io_decode io body of None \<Rightarrow> True | Some t \<Rightarrow> \<exists>(q, n)\<in>set (active_patterns p). search q t) then ''deny'' else ''allow'')"
        unfolding r(2) empty Some option.case by simp
      show "ir_deny_reason r = None \<longleftrightarrow> ir_final_decision r = ''allow''" unfolding fin r(3) by simp
      show "b = body \<and> sg_reason s2 = Some REDACTED \<and> sg_stripped_fields s2 \<noteq> None" if "ir_modified_response r = Some b" for b
        using that unfolding r(6) by (auto split: if_splits option.splits)
    qed (rule r(5))
  qed
qed

text \<open>A response is denied exactly when some stage refuses it: it is larger than the limit, its schema stage denies it, what is left of
  it is not UTF-8, or the text of it matches one of the active injection patterns. Nothing else denies, and every denial has a reason.\<close>

theorem inspection_denies_iff:
  assumes "pipeline_run io p now call_id entry response session = Inr (r, session')"
    and "stage2_schema_validation io response entry = Inr (s2, body)"
  shows "(ir_final_decision r = ''deny'' \<longleftrightarrow> ip_max_bytes p < int (length response) \<or> sg_decision s2 = ''deny''
        \<or> io_decode io body = None \<or> (\<exists>t. io_decode io body = Some t \<and> (\<exists>(q, n)\<in>set (active_patterns p). search q t)))
    \<and> (ir_final_decision r = ''deny'' \<or> ir_final_decision r = ''allow'') \<and> (ir_deny_reason r \<noteq> None \<longleftrightarrow> ir_final_decision r = ''deny'')"
  using assms(1)
proof (rule pipeline_stages)
  fix s2' body' tags
  assume "stage2_schema_validation io response entry = Inr (s2', body')"
    and d: "ir_final_decision r = (if ip_max_bytes p < int (length response) \<or> sg_decision s2' = ''deny''
        \<or> (case io_decode io body' of None \<Rightarrow> True | Some t \<Rightarrow> \<exists>(q, n)\<in>set (active_patterns p). search q t) then ''deny'' else ''allow'')"
    and n: "ir_deny_reason r = None \<longleftrightarrow> ir_final_decision r = ''allow''"
  with assms(2) have "s2' = s2" "body' = body" by simp_all
  with d n show ?thesis by (auto split: option.splits)
qed

text \<open>A response the pipeline rewrote names no field the schema does not.\<close>

lemma redacted_response:
  assumes "pipeline_run io p now call_id entry response session = Inr (r, session')" "ir_modified_response r = Some b"
    and "\<And>j. io_loads io (io_compact io j) = Some j"
  shows "\<exists>s properties d. ad_output_schema (ce_approved_definition entry) = Some (JObj s) \<and> dget s ''properties'' = JObj properties
    \<and> io_loads io response = Some (JObj d) \<and> io_loads io b = Some (JObj (filter (\<lambda>(k, v). k \<in> fst ` set properties) d))"
  using assms(1)
proof (rule pipeline_stages)
  fix s2 body tags
  assume 2: "stage2_schema_validation io response entry = Inr (s2, body)"
    and "\<And>b. ir_modified_response r = Some b \<Longrightarrow> b = body \<and> sg_reason s2 = Some REDACTED \<and> sg_stripped_fields s2 \<noteq> None"
  with assms(2) have b: "b = body" "sg_reason s2 = Some REDACTED" "sg_stripped_fields s2 \<noteq> None" by auto
  from 2 b obtain s payload where s: "ad_output_schema (ce_approved_definition entry) = Some (JObj s)" "io_loads io response = Some payload"
      "surplus_fields payload s \<noteq> []" "body = io_compact io (redact (surplus_fields payload s) payload)"
    unfolding stage2_schema_validation_def
    by (auto simp: Let_def REDACTED_def split: option.splits json.splits schema_check.splits validation_mode.splits if_splits)
  from s(3) obtain d properties where d: "payload = JObj d" "dget s ''properties'' = JObj properties"
    by (auto simp: surplus_fields_def split: json.splits)
  have "redact (surplus_fields payload s) payload = JObj (filter (\<lambda>(k, v). k \<in> fst ` set properties) d)"
    using d by (force simp: redact_def surplus_fields_def intro!: filter_cong)
  with s b(1) d assms(3) show ?thesis by auto
qed

text \<open>A response that the schema forbids is let through when it carries one more field. Once a payload has a field outside the schema, and
  unless the entry is strict, the schema stage allows it whatever the validator would say of the rest; the same payload without the extra
  fields is denied when the validator refuses it.\<close>

theorem surplus_field_skips_validation:
  assumes "ad_output_schema (ce_approved_definition entry) = Some (JObj s)" "dget s ''properties'' = JObj properties"
    and "io_loads io response = Some (JObj d)" "k \<in> fst ` set d" "k \<notin> fst ` set properties"
    and "ce_schema_validation_mode entry \<noteq> Mode_strict"
    and "io_loads io cleaned = Some (JObj (filter (\<lambda>(k, v). k \<in> fst ` set properties) d))"
    and "io_validate io (JObj (filter (\<lambda>(k, v). k \<in> fst ` set properties) d)) (JObj s) = Violates message"
  shows "(\<exists>s2 body. stage2_schema_validation io response entry = Inr (s2, body) \<and> sg_decision s2 = ''allow'')
    \<and> (\<exists>s2 body. stage2_schema_validation io cleaned entry = Inr (s2, body) \<and> sg_decision s2 = ''deny'')"
proof -
  have more: "surplus_fields (JObj d) s \<noteq> []"
    using assms(2,4,5) by (auto simp: surplus_fields_def filter_empty_conv)
  have none: "surplus_fields (JObj (filter (\<lambda>(k, v). k \<in> fst ` set properties) d)) s = []"
    using assms(2) by (auto simp: surplus_fields_def filter_empty_conv)
  show ?thesis
    using assms(1,3,6-8) more none
    by (cases "ce_schema_validation_mode entry") (simp_all add: stage2_schema_validation_def Let_def)
qed

section \<open>What the session learns\<close>

lemma add_tag_mono: "set tags \<subseteq> set (add_tag tags t)"
  by (auto simp: add_tag_def)

lemma foldl_add_tag_mono: "set tags \<subseteq> set (foldl add_tag tags ts)"
  by (induction ts arbitrary: tags) (use add_tag_mono in fastforce)+

lemma content_tags_mono: "set tags \<subseteq> set (content_tags t ps tags)"
  by (induction ps arbitrary: tags) (use add_tag_mono in fastforce)+

lemma classified_level:
  assumes "classify_sensitivity io entry t = Inr tags" "ce_sensitivity_level entry \<noteq> []" "ce_sensitivity_level entry \<noteq> ''public''"
  shows "JStr (ce_sensitivity_level entry) \<in> set tags"
  using assms foldl_add_tag_mono content_tags_mono
  by (fastforce simp: classify_sensitivity_def Let_def bind_result_eq_Inr split: if_splits)

lemma session_tags_strings: "session_tags ts = Inr ss \<Longrightarrow> JStr s \<in> set ts \<Longrightarrow> s \<in> set ss"
  by (induction ts arbitrary: ss) (auto simp: bind_result_eq_Inr split: json.splits)

lemma update_raises:
  "rank (ss_sensitivity_order s) (ss_max_sensitivity (snd (update_from_inspection now s c ts ij al None)))
     = Max (insert (rank (ss_sensitivity_order s) (ss_max_sensitivity s)) (rank (ss_sensitivity_order s) ` set ts))"
  "ss_injection_events (snd (update_from_inspection now s c ts ij al None))
     = ss_injection_events s @ (if ij then [\<lparr>ie_call_id = c, ie_timestamp = isoformat now\<rparr>] else [])"
  by (simp_all add: update_from_inspection_def Let_def raise_tags_rank foldl_max_Max)

text \<open>A denied response still counts. Whatever the pipeline decides, the session it hands over to ends at a rank no lower than before, than
  the level of the catalog entry, and than every tag it found, and it has one more injection event exactly when the response was not UTF-8
  or matched a pattern.\<close>

theorem denied_response_still_raises:
  assumes "pipeline_run io p now call_id entry response (Some s) = Inr (r, session')"
    and "ce_sensitivity_level entry \<noteq> []" "ce_sensitivity_level entry \<noteq> ''public''"
    and "stage2_schema_validation io response entry = Inr (s2, body)"
  shows "\<exists>s'. session' = Some s'
    \<and> rank (ss_sensitivity_order s) (ss_max_sensitivity s) \<le> rank (ss_sensitivity_order s) (ss_max_sensitivity s')
    \<and> rank (ss_sensitivity_order s) (ce_sensitivity_level entry) \<le> rank (ss_sensitivity_order s) (ss_max_sensitivity s')
    \<and> (\<forall>t. JStr t \<in> set (ir_sensitivity_tags r) \<longrightarrow> rank (ss_sensitivity_order s) t \<le> rank (ss_sensitivity_order s) (ss_max_sensitivity s'))
    \<and> ss_injection_events s' = ss_injection_events s @
        (if io_decode io body = None \<or> (\<exists>t. io_decode io body = Some t \<and> (\<exists>(q, n)\<in>set (active_patterns p). search q t))
         then [\<lparr>ie_call_id = call_id, ie_timestamp = isoformat now\<rparr>] else [])"
  using assms(1)
proof (rule pipeline_stages)
  fix s2' body' tags
  let ?inj = "case io_decode io body' of None \<Rightarrow> True | Some t \<Rightarrow> \<exists>(q, n)\<in>set (active_patterns p). search q t"
  assume "stage2_schema_validation io response entry = Inr (s2', body')"
    and 3: "classify_sensitivity io entry (io_decode_replace io body') = Inr tags" "ir_sensitivity_tags r = tags"
    and h: "hand_over now call_id tags ?inj (ir_final_decision r = ''allow'') (Some s) = Inr session'"
  with assms(4) have b: "body' = body" by simp
  from h obtain ts where ts: "session_tags tags = Inr ts"
    and s': "session' = Some (snd (update_from_inspection now s call_id ts ?inj (ir_final_decision r = ''allow'') None))"
    by (auto simp: hand_over_def bind_result_eq_Inr)
  let ?s' = "snd (update_from_inspection now s call_id ts ?inj (ir_final_decision r = ''allow'') None)"
  have raise: "rank (ss_sensitivity_order s) (ss_max_sensitivity ?s')
      = Max (insert (rank (ss_sensitivity_order s) (ss_max_sensitivity s)) (rank (ss_sensitivity_order s) ` set ts))"
    "ss_injection_events ?s' = ss_injection_events s @ (if ?inj then [\<lparr>ie_call_id = call_id, ie_timestamp = isoformat now\<rparr>] else [])"
    by (rule update_raises)+
  have le: "rank (ss_sensitivity_order s) t \<le> rank (ss_sensitivity_order s) (ss_max_sensitivity ?s')" if "JStr t \<in> set tags" for t
    unfolding raise using session_tags_strings [OF ts that] by simp
  show ?thesis
    using s' le 3 raise b classified_level [OF 3(1) assms(2,3)] by (auto split: option.splits)
qed

section \<open>A tool that answers with one field too many\<close>

definition demo_answer :: jdict where "demo_answer = [(''id'', JInt 1), (''note'', JStr ''x'')]"

definition demo_inspection_io :: inspection_io where
  "demo_inspection_io =
     \<lparr>io_loads = (\<lambda>b. if b = ''1'' then Some (JObj demo_answer) else if b = ''2'' then Some (JObj [(''id'', JInt 1)]) else None),
      io_loads_text = (\<lambda>_. None), io_compact = (\<lambda>_. ''2''), io_decode = (\<lambda>b. if b = ''3'' then None else Some ''SYSTEM''),
      io_decode_replace = (\<lambda>_. ''ab''), io_validate = (\<lambda>_ _. Violates ''id''), io_sha256 = id, io_excerpt = (\<lambda>_ _. [])\<rparr>"

definition demo_inspected :: "json option \<Rightarrow> catalog_entry" where
  "demo_inspected schema = (sample_entry ''Reads'')\<lparr>ce_sensitivity_level := ''pii'',
     ce_approved_definition := \<lparr>ad_description = ''Reads'', ad_input_schema = JObj [], ad_output_schema = schema\<rparr>\<rparr>"

definition demo_schema :: jdict where "demo_schema = [(''properties'', JObj [(''id'', JObj [])])]"

definition demo_inspection_run :: "bytes \<Rightarrow> session_state option \<Rightarrow> inspection_exc + inspection_result \<times> session_state option" where
  "demo_inspection_run b s =
     pipeline_run demo_inspection_io (new_inspection_pipeline 10 [(lit ''SYSTEM'', ''marker'')] ''strict'') sample_time ''c''
       (demo_inspected None) b s"

theorem surplus_field_skips_validation_witness:
  "(\<exists>s2 body. stage2_schema_validation demo_inspection_io ''1'' (demo_inspected (Some (JObj demo_schema))) = Inr (s2, body) \<and> sg_decision s2 = ''allow'')
   \<and> (\<exists>s2 body. stage2_schema_validation demo_inspection_io ''2'' (demo_inspected (Some (JObj demo_schema))) = Inr (s2, body) \<and> sg_decision s2 = ''deny'')"
  by (rule surplus_field_skips_validation [of _ demo_schema "[(''id'', JObj [])]" _ _ demo_answer "''note''" _ "''id''"])
    (simp_all add: demo_inspected_def demo_schema_def demo_answer_def demo_inspection_io_def sample_entry_def)

theorem inspection_denies_iff_witness:
  "\<exists>r s'. demo_inspection_run ''3'' None = Inr (r, s') \<and> ir_final_decision r = ''deny''"
proof -
  have "case demo_inspection_run ''3'' None of Inr _ \<Rightarrow> True | Inl _ \<Rightarrow> False" by code_simp
  then obtain r s' where r: "demo_inspection_run ''3'' None = Inr (r, s')" by (auto split: sum.splits)
  have "stage2_schema_validation demo_inspection_io ''3'' (demo_inspected None) = Inr (stage ''skip'', ''3'')"
    by (simp add: stage2_schema_validation_def demo_inspected_def)
  from inspection_denies_iff [OF r [unfolded demo_inspection_run_def] this] r show ?thesis by (simp add: demo_inspection_io_def)
qed

theorem denied_response_still_raises_witness:
  "\<exists>r s'. demo_inspection_run ''5'' (Some (new_session_state ''s'' [''public'' \<mapsto> 0, ''pii'' \<mapsto> 2])) = Inr (r, Some s')
     \<and> ir_final_decision r = ''deny'' \<and> 2 \<le> rank [''public'' \<mapsto> 0, ''pii'' \<mapsto> 2] (ss_max_sensitivity s') \<and> length (ss_injection_events s') = 1"
proof -
  let ?s = "new_session_state ''s'' [''public'' \<mapsto> 0, ''pii'' \<mapsto> 2]"
  have "case demo_inspection_run ''5'' (Some ?s) of Inr (r, _) \<Rightarrow> ir_final_decision r = ''deny'' | Inl _ \<Rightarrow> False" by code_simp
  then obtain r s' where r: "demo_inspection_run ''5'' (Some ?s) = Inr (r, s')" "ir_final_decision r = ''deny''" by (auto split: sum.splits)
  have 2: "stage2_schema_validation demo_inspection_io ''5'' (demo_inspected None) = Inr (stage ''skip'', ''5'')"
    by (simp add: stage2_schema_validation_def demo_inspected_def)
  have 3: "search (lit ''SYSTEM'') ''SYSTEM''" by code_simp
  show ?thesis
    using denied_response_still_raises [OF r(1) [unfolded demo_inspection_run_def] _ _ 2] r 3
    by (auto simp: demo_inspected_def demo_inspection_io_def active_patterns_def new_inspection_pipeline_def new_session_state_def rank_def)
qed

end
