(* ===== verification/Sealed_Key.thy ===== *)
theory Sealed_Key
  imports Measurement Policy_Bundle
begin

text \<open>
  The signing key sealed to the gateway measurement (\<open>tee/seal.py\<close>): the gate
  index and its policy, the store of sealed blobs, sealing and unsealing on a
  TPM, and the operations of a gateway start, of \<open>cmcp key reseal\<close> and \<open>cmcp key
  rotate\<close>, and of a policy reload. The calls of \<open>tpm2-pytss\<close> are the functions of
  \<open>seal_ops\<close> on a TPM of state \<open>'t\<close>; each answers or raises and may change the TPM
  in both cases. The store file is the JSON value its text denotes.
\<close>

section \<open>The gate and its policy\<close>

definition DEFAULT_GATE_NV_INDEX :: nat where "DEFAULT_GATE_NV_INDEX = 0x01500433"
definition STORE_VERSION :: int where "STORE_VERSION = 1"
definition MAX_BLOBS :: nat where "MAX_BLOBS = 2"
definition SEED_SIZE :: nat where "SEED_SIZE = 32"
definition GATE_SIZE :: nat where "GATE_SIZE = 32"
definition GATE_NAME_ALG :: nat where "GATE_NAME_ALG = 0x000B"

definition GATE_SENTINEL :: "(bytes \<Rightarrow> bytes) \<Rightarrow> bytes" where
  "GATE_SENTINEL sha256 = sha256 ''cmcp-seal-gate-closed-v1''"

text \<open>\<open>OWNERWRITE\<close>, \<open>OWNERREAD\<close>, \<open>AUTHREAD\<close>, \<open>NO_DA\<close>, and \<open>WRITTEN\<close>: disjoint bits.\<close>

definition GATE_BASE_ATTRIBUTES :: nat where
  "GATE_BASE_ATTRIBUTES = 0x00000002 + 0x00020000 + 0x00040000 + 0x02000000"

definition GATE_WRITTEN_ATTRIBUTES :: nat where
  "GATE_WRITTEN_ATTRIBUTES = GATE_BASE_ATTRIBUTES + 0x20000000"

definition TPM_CC_POLICY_NV :: nat where "TPM_CC_POLICY_NV = 0x00000149"
definition TPM_EO_EQ :: nat where "TPM_EO_EQ = 0x0000"
definition TPM_RC_POLICY :: int where "TPM_RC_POLICY = 0x126"
definition TPM_RC_POLICY_FAIL :: int where "TPM_RC_POLICY_FAIL = 0x09D"
definition TPM_RC_HANDLE :: int where "TPM_RC_HANDLE = 0x08B"
definition TPM_RC_LOAD_INTEGRITY :: int where "TPM_RC_LOAD_INTEGRITY = 0x1DF"

text \<open>What \<open>tpm2-pytss\<close> attaches to its exceptions, where it does.\<close>

record tpm_exception =
  tx_rc :: "int option"
  tx_error :: "int option"

datatype seal_error =
    Sealed_key_unavailable | Sealed_key_digest_mismatch | Sealed_key_tpm_changed | Sealed_key_missing
  | Sealed_key_public_key_mismatch | Sealed_key_locked | Seal_value_error | Tpm_raised tpm_exception

text \<open>\<open>None\<close> is the \<open>ValueError\<close> for a number that is no NV handle.\<close>

definition gate_nv_public_bytes :: "nat \<Rightarrow> bool \<Rightarrow> bytes option" where
  "gate_nv_public_bytes index written =
     (if \<not> (0x01000000 \<le> index \<and> index \<le> 0x01FFFFFF) then None
      else Some (be_bytes 4 index @ be_bytes 2 GATE_NAME_ALG
        @ be_bytes 4 (if written then GATE_WRITTEN_ATTRIBUTES else GATE_BASE_ATTRIBUTES) @ be_bytes 2 0 @ be_bytes 2 GATE_SIZE))"

definition gate_nv_name :: "(bytes \<Rightarrow> bytes) \<Rightarrow> nat \<Rightarrow> bool \<Rightarrow> bytes option" where
  "gate_nv_name sha256 index written =
     map_option (\<lambda>public. be_bytes 2 GATE_NAME_ALG @ sha256 public) (gate_nv_public_bytes index written)"

text \<open>What \<open>TPM2_PolicyNV\<close> does to a policy.\<close>

definition policy_args :: "bytes \<Rightarrow> bytes" where
  "policy_args digest = digest @ be_bytes 2 0 @ be_bytes 2 TPM_EO_EQ"

definition policy_text :: "(bytes \<Rightarrow> bytes) \<Rightarrow> bytes \<Rightarrow> bytes \<Rightarrow> bytes \<Rightarrow> bytes" where
  "policy_text sha256 policy digest name = policy @ be_bytes 4 TPM_CC_POLICY_NV @ sha256 (policy_args digest) @ name"

definition policy_nv_digest :: "(bytes \<Rightarrow> bytes) \<Rightarrow> bytes \<Rightarrow> nat \<Rightarrow> bytes option" where
  "policy_nv_digest sha256 digest index =
     (if length digest \<noteq> GATE_SIZE then None
      else map_option (\<lambda>name. sha256 (policy_text sha256 (replicate 32 (CHR 0x00)) digest name)) (gate_nv_name sha256 index True))"

definition ed25519_public_key :: "(bytes \<Rightarrow> bytes) \<Rightarrow> bytes \<Rightarrow> seal_error + bytes" where
  "ed25519_public_key public_of seed = (if length seed = 32 then Inr (public_of seed) else Inl Seal_value_error)"

section \<open>The store\<close>

record sealed_blob =
  sb_digest :: bytes
  sb_private :: bytes
  sb_public :: bytes

record store_contents =
  sc_gate_index :: int
  sc_public_key :: bytes
  sc_blobs :: "sealed_blob list"

definition blob_for :: "store_contents \<Rightarrow> bytes \<Rightarrow> sealed_blob option" where
  "blob_for c digest = find (\<lambda>b. sb_digest b = digest) (sc_blobs c)"

definition last_n :: "nat \<Rightarrow> 'a list \<Rightarrow> 'a list" where
  "last_n n xs = drop (length xs - n) xs"

definition with_blob :: "store_contents \<Rightarrow> sealed_blob \<Rightarrow> store_contents" where
  "with_blob c b = c\<lparr>sc_blobs := last_n MAX_BLOBS (filter (\<lambda>x. sb_digest x \<noteq> sb_digest b) (sc_blobs c) @ [b])\<rparr>"

datatype store_file = No_file | Unreadable_file | Not_json_file | File_json json

record sealed_dir =
  sd_file :: store_file
  sd_lock :: "nat option"

text \<open>\<open>int(s, 16)\<close>: a sign, a prefix, and digits that single underscores may separate; white space around them is dropped.\<close>

fun read_hex :: "bool \<Rightarrow> nat \<Rightarrow> string \<Rightarrow> nat option" where
  "read_hex after_digit acc [] = (if after_digit then Some acc else None)"
| "read_hex after_digit acc (c # r) =
     (if c = CHR ''_'' then (if after_digit then read_hex False acc r else None)
      else case hex_value c of None \<Rightarrow> None | Some d \<Rightarrow> read_hex True (16 * acc + d) r)"

definition int16 :: "string \<Rightarrow> int option" where
  "int16 text =
     (let s = str_strip text;
          negative = starts_with ''-'' s;
          u = (if negative \<or> starts_with ''+'' s then drop 1 s else s);
          v = (if starts_with ''0x'' u \<or> starts_with ''0X'' u then (if starts_with ''_'' (drop 2 u) then drop 3 u else drop 2 u) else u)
      in map_option (\<lambda>n. if negative then - int n else int n) (read_hex False 0 v))"

definition hex_field :: "jdict \<Rightarrow> string \<Rightarrow> bytes option" where
  "hex_field d k = (case map_of d k of Some (JStr s) \<Rightarrow> fromhex s | _ \<Rightarrow> None)"

definition read_blob :: "json \<Rightarrow> sealed_blob option" where
  "read_blob j =
     (case j of
        JObj d \<Rightarrow> (case (hex_field d ''digest'', hex_field d ''private'', hex_field d ''public'') of
                    (Some g, Some p, Some q) \<Rightarrow> Some \<lparr>sb_digest = g, sb_private = p, sb_public = q\<rparr> | _ \<Rightarrow> None)
      | _ \<Rightarrow> None)"

definition read_contents :: "json \<Rightarrow> store_contents option" where
  "read_contents j =
     (case j of
        JObj d \<Rightarrow>
          (case (map_of d ''version'', map_of d ''gate_index'', hex_field d ''public_key'', map_of d ''blobs'') of
             (Some v, Some (JStr i), Some key, Some (JArr bs)) \<Rightarrow>
               if \<not> py_eq v (JInt STORE_VERSION) then None
               else (case (int16 i, those (map read_blob bs)) of
                       (Some index, Some blobs) \<Rightarrow> Some \<lparr>sc_gate_index = index, sc_public_key = key, sc_blobs = blobs\<rparr>
                     | _ \<Rightarrow> None)
           | _ \<Rightarrow> None)
      | _ \<Rightarrow> None)"

text \<open>A store that is malformed or has no usable key is one error: a blob list that is not a list has no usable entries either.\<close>

definition store_read :: "store_file \<Rightarrow> seal_error + store_contents option" where
  "store_read f =
     (case f of
        No_file \<Rightarrow> Inr None
      | File_json j \<Rightarrow>
          (case read_contents j of
             None \<Rightarrow> Inl Sealed_key_unavailable
           | Some c \<Rightarrow> if length (sc_public_key c) \<noteq> 32 \<or> sc_blobs c = [] then Inl Sealed_key_unavailable else Inr (Some c))
      | _ \<Rightarrow> Inl Sealed_key_unavailable)"

text \<open>The index of a store is an NV handle, which has eight hexadecimal digits.\<close>

definition store_payload :: "store_contents \<Rightarrow> json" where
  "store_payload c = JObj
     [(''version'', JInt STORE_VERSION), (''gate_index'', JStr (''0x'' @ hexlify (be_bytes 4 (nat (sc_gate_index c))))),
      (''public_key'', JStr (hexlify (sc_public_key c))),
      (''blobs'', JArr (map (\<lambda>b. JObj [(''digest'', JStr (hexlify (sb_digest b))), (''private'', JStr (hexlify (sb_private b))),
         (''public'', JStr (hexlify (sb_public b)))]) (sc_blobs c)))]"

text \<open>An \<open>OSError\<close> before the rename leaves the old file; one from the directory's \<open>fsync\<close> comes after it.\<close>

datatype write_outcome = Write_done | Write_fails | Sync_fails

definition store_write :: "write_outcome \<Rightarrow> store_contents \<Rightarrow> sealed_dir \<Rightarrow> (seal_error + unit) \<times> sealed_dir" where
  "store_write w c d =
     (case w of
        Write_done \<Rightarrow> (Inr (), d\<lparr>sd_file := File_json (store_payload c)\<rparr>)
      | Write_fails \<Rightarrow> (Inl Sealed_key_unavailable, d)
      | Sync_fails \<Rightarrow> (Inl Sealed_key_unavailable, d\<lparr>sd_file := File_json (store_payload c)\<rparr>))"

text \<open>The lock belongs to the open file; \<open>handle\<close> is a fresh one.\<close>

definition acquire :: "bool \<Rightarrow> bool \<Rightarrow> nat \<Rightarrow> sealed_dir \<Rightarrow> (seal_error + nat) \<times> sealed_dir" where
  "acquire windows fault handle d =
     (if windows \<or> fault then (Inl Sealed_key_unavailable, d)
      else if sd_lock d \<noteq> None then (Inl Sealed_key_locked, d)
      else (Inr handle, d\<lparr>sd_lock := Some handle\<rparr>))"

definition release_lock :: "nat option \<Rightarrow> sealed_dir \<Rightarrow> nat option \<times> sealed_dir" where
  "release_lock lock d = (None, if lock \<noteq> None \<and> sd_lock d = lock then d\<lparr>sd_lock := None\<rparr> else d)"

section \<open>Programs on a TPM\<close>

type_synonym ('t, 'e, 'a) on_tpm = "'t \<Rightarrow> ('e + 'a) \<times> 't"

definition tpm_return :: "'a \<Rightarrow> ('t, 'e, 'a) on_tpm" where "tpm_return x t = (Inr x, t)"

definition tpm_raise :: "'e \<Rightarrow> ('t, 'e, 'a) on_tpm" where "tpm_raise e t = (Inl e, t)"

definition tpm_bind :: "('t, 'e, 'a) on_tpm \<Rightarrow> ('a \<Rightarrow> ('t, 'e, 'b) on_tpm) \<Rightarrow> ('t, 'e, 'b) on_tpm" where
  "tpm_bind m f t = (case m t of (Inl e, t') \<Rightarrow> (Inl e, t') | (Inr x, t') \<Rightarrow> f x t')"

text \<open>\<open>except Exception\<close>, and \<open>finally\<close>: an exception of the cleanup replaces what came before.\<close>

definition tpm_catch :: "('t, 'x, 'a) on_tpm \<Rightarrow> ('x \<Rightarrow> 'e) \<Rightarrow> ('t, 'e, 'a) on_tpm" where
  "tpm_catch m h t = (case m t of (Inl x, t') \<Rightarrow> (Inl (h x), t') | (Inr a, t') \<Rightarrow> (Inr a, t'))"

definition tpm_finally :: "('t, 'e, 'a) on_tpm \<Rightarrow> ('t, 'e, unit) on_tpm \<Rightarrow> ('t, 'e, 'a) on_tpm" where
  "tpm_finally m cleanup t = (case m t of (r, t') \<Rightarrow> (case cleanup t' of (Inl e, t'') \<Rightarrow> (Inl e, t'') | (Inr _, t'') \<Rightarrow> (r, t'')))"

datatype session_type = Hmac_session | Policy_session

record 't seal_ops =
  so_from_public :: "nat \<Rightarrow> ('t, tpm_exception, nat) on_tpm"
  so_read_public :: "nat \<Rightarrow> ('t, tpm_exception, bytes) on_tpm"
  so_define_space :: "nv_public_area \<Rightarrow> ('t, tpm_exception, nat) on_tpm"
  so_nv_write :: "nat \<Rightarrow> bytes \<Rightarrow> ('t, tpm_exception, unit) on_tpm"
  so_create_primary :: "('t, tpm_exception, nat) on_tpm"
  so_start_session :: "nat \<Rightarrow> session_type \<Rightarrow> ('t, tpm_exception, nat) on_tpm"
  so_set_attributes :: "nat \<Rightarrow> ('t, tpm_exception, unit) on_tpm"
  so_create :: "nat \<Rightarrow> nat \<Rightarrow> bytes \<Rightarrow> bytes \<Rightarrow> ('t, tpm_exception, bytes \<times> bytes) on_tpm"
  so_load :: "nat \<Rightarrow> bytes \<Rightarrow> bytes \<Rightarrow> ('t, tpm_exception, nat) on_tpm"
  so_policy_nv :: "nat \<Rightarrow> nat \<Rightarrow> bytes \<Rightarrow> ('t, tpm_exception, unit) on_tpm"
  so_unseal :: "nat \<Rightarrow> nat \<Rightarrow> ('t, tpm_exception, bytes) on_tpm"
  so_flush :: "nat \<Rightarrow> ('t, tpm_exception, unit) on_tpm"
  so_private_ok :: "bytes \<Rightarrow> bool"
  so_auth_policy :: "bytes \<Rightarrow> bytes option"

text \<open>\<open>so_create parent session seed policy\<close> seals; \<open>so_private_ok\<close> says that a marshalled private part can be read, and
  \<open>so_auth_policy\<close> reads the policy out of a marshalled public part.\<close>

definition storage_parent :: "'t seal_ops \<Rightarrow> ('t, seal_error, nat) on_tpm" where
  "storage_parent ops = tpm_catch (so_create_primary ops) (\<lambda>_. Sealed_key_unavailable)"

definition salted_session :: "'t seal_ops \<Rightarrow> nat \<Rightarrow> session_type \<Rightarrow> ('t, seal_error, nat) on_tpm" where
  "salted_session ops parent kind =
     tpm_catch (tpm_bind (so_start_session ops parent kind) (\<lambda>session.
       tpm_bind (so_set_attributes ops session) (\<lambda>_. tpm_return session))) (\<lambda>_. Sealed_key_unavailable)"

definition is_policy_refusal :: "tpm_exception \<Rightarrow> bool" where
  "is_policy_refusal x \<longleftrightarrow> tx_error x = Some TPM_RC_POLICY \<or> tx_error x = Some TPM_RC_POLICY_FAIL"

definition gate_handle :: "'t seal_ops \<Rightarrow> nat \<Rightarrow> ('t, seal_error, nat option) on_tpm" where
  "gate_handle ops index t =
     (case so_from_public ops index t of
        (Inr h, t') \<Rightarrow> (Inr (Some h), t')
      | (Inl x, t') \<Rightarrow> (if tx_error x = Some TPM_RC_HANDLE then Inr None else Inl Sealed_key_unavailable, t'))"

definition gate_name :: "'t seal_ops \<Rightarrow> nat \<Rightarrow> ('t, seal_error, bytes) on_tpm" where
  "gate_name ops handle = tpm_catch (so_read_public ops handle) (\<lambda>_. Sealed_key_unavailable)"

definition check_gate :: "(bytes \<Rightarrow> bytes) \<Rightarrow> 't seal_ops \<Rightarrow> nat \<Rightarrow> nat \<Rightarrow> ('t, seal_error, unit) on_tpm" where
  "check_gate sha256 ops handle index =
     tpm_bind (gate_name ops handle) (\<lambda>name.
       case gate_nv_name sha256 index True of
         None \<Rightarrow> tpm_raise Seal_value_error
       | Some expected \<Rightarrow> if name = expected then tpm_return () else tpm_raise Sealed_key_unavailable)"

definition gate_template :: "nat \<Rightarrow> nv_public_area" where
  "gate_template index = \<lparr>na_index = index, na_name_alg = GATE_NAME_ALG, na_attributes = GATE_BASE_ATTRIBUTES, na_auth_policy = [],
     na_data_size = GATE_SIZE\<rparr>"

definition define_gate :: "'t seal_ops \<Rightarrow> nat \<Rightarrow> ('t, seal_error, nat) on_tpm" where
  "define_gate ops index = tpm_catch (so_define_space ops (gate_template index)) (\<lambda>_. Sealed_key_unavailable)"

definition write_gate :: "'t seal_ops \<Rightarrow> nat \<Rightarrow> bytes \<Rightarrow> ('t, seal_error, unit) on_tpm" where
  "write_gate ops gate v = tpm_catch (so_nv_write ops gate v) (\<lambda>_. Sealed_key_unavailable)"

definition flush :: "'t seal_ops \<Rightarrow> nat \<Rightarrow> ('t, seal_error, unit) on_tpm" where
  "flush ops h = tpm_catch (so_flush ops h) Tpm_raised"

definition seal :: "(bytes \<Rightarrow> bytes) \<Rightarrow> 't seal_ops \<Rightarrow> bytes \<Rightarrow> bytes \<Rightarrow> nat \<Rightarrow> ('t, seal_error, sealed_blob) on_tpm" where
  "seal sha256 ops seed digest index =
     (case policy_nv_digest sha256 digest index of
        None \<Rightarrow> tpm_raise Seal_value_error
      | Some policy \<Rightarrow>
          tpm_bind (storage_parent ops) (\<lambda>parent.
          tpm_bind (tpm_finally
              (tpm_bind (salted_session ops parent Hmac_session) (\<lambda>session.
                 tpm_finally (tpm_catch (so_create ops parent session seed policy) (\<lambda>_. Sealed_key_unavailable)) (flush ops session)))
              (flush ops parent)) (\<lambda>(private, public).
            tpm_return \<lparr>sb_digest = digest, sb_private = private, sb_public = public\<rparr>)))"

definition unseal_error :: "tpm_exception \<Rightarrow> seal_error" where
  "unseal_error x = (if is_policy_refusal x then Sealed_key_digest_mismatch else Sealed_key_unavailable)"

definition load_error :: "tpm_exception \<Rightarrow> seal_error" where
  "load_error x = (if tx_rc x = Some TPM_RC_LOAD_INTEGRITY then Sealed_key_tpm_changed else Sealed_key_unavailable)"

definition unseal :: "'t seal_ops \<Rightarrow> sealed_blob \<Rightarrow> nat \<Rightarrow> ('t, seal_error, bytes) on_tpm" where
  "unseal ops blob gate =
     (if \<not> so_private_ok ops (sb_private blob) \<or> so_auth_policy ops (sb_public blob) = None then tpm_raise Sealed_key_unavailable
      else
        tpm_bind (storage_parent ops) (\<lambda>parent.
        tpm_bind (tpm_finally
            (tpm_bind (tpm_catch (so_load ops parent (sb_private blob) (sb_public blob)) load_error) (\<lambda>obj.
               tpm_finally
                 (tpm_bind (salted_session ops parent Policy_session) (\<lambda>session.
                    tpm_finally
                      (tpm_catch (tpm_bind (so_policy_nv ops gate session (sb_digest blob)) (\<lambda>_. so_unseal ops obj session)) unseal_error)
                      (flush ops session)))
                 (flush ops obj)))
            (flush ops parent)) (\<lambda>secret.
          if length secret \<noteq> SEED_SIZE then tpm_raise Sealed_key_unavailable else tpm_return secret)))"

definition open_gate_and_unseal :: "(bytes \<Rightarrow> bytes) \<Rightarrow> 't seal_ops \<Rightarrow> sealed_blob \<Rightarrow> nat \<Rightarrow> ('t, seal_error, bytes) on_tpm" where
  "open_gate_and_unseal sha256 ops blob gate =
     tpm_bind (write_gate ops gate (sb_digest blob)) (\<lambda>_.
       tpm_finally (unseal ops blob gate) (write_gate ops gate (GATE_SENTINEL sha256)))"

section \<open>The operations\<close>

text \<open>SHA-256, the public half of an Ed25519 seed, and the TPM.\<close>

record 't seal_env =
  se_sha256 :: "bytes \<Rightarrow> bytes"
  se_public_of :: "bytes \<Rightarrow> bytes"
  se_ops :: "'t seal_ops"

record opened_key =
  ok_seed :: bytes
  ok_public_key :: bytes
  ok_provisioned :: bool

definition stored_public_key :: "store_file \<Rightarrow> seal_error + bytes option" where
  "stored_public_key f = bind_result (store_read f) (\<lambda>c. Inr (map_option sc_public_key c))"

definition check_blob_policy :: "'t seal_env \<Rightarrow> sealed_blob \<Rightarrow> nat \<Rightarrow> seal_error + unit" where
  "check_blob_policy env blob index =
     (case so_auth_policy (se_ops env) (sb_public blob) of
        None \<Rightarrow> Inl Sealed_key_unavailable
      | Some policy \<Rightarrow>
          (case policy_nv_digest (se_sha256 env) (sb_digest blob) index of
             None \<Rightarrow> Inl Seal_value_error
           | Some expected \<Rightarrow> if policy \<noteq> expected then Inl Sealed_key_digest_mismatch else Inr ()))"

definition check_store_gate :: "store_contents \<Rightarrow> nat \<Rightarrow> seal_error + unit" where
  "check_store_gate c index = (if sc_gate_index c \<noteq> int index then Inl Sealed_key_unavailable else Inr ())"

text \<open>A step that touches no TPM.\<close>

definition no_tpm :: "'e + 'a \<Rightarrow> ('t, 'e, 'a) on_tpm" where "no_tpm r t = (r, t)"

text \<open>A blob whose label and policy agree is unsealed, and the secret has to be the one of the stored public key.\<close>

definition unseal_stored :: "'t seal_env \<Rightarrow> store_contents \<Rightarrow> sealed_blob \<Rightarrow> nat \<Rightarrow> nat \<Rightarrow> ('t, seal_error, bytes) on_tpm" where
  "unseal_stored env c blob gate index =
     tpm_bind (no_tpm (check_blob_policy env blob index)) (\<lambda>_.
     tpm_bind (open_gate_and_unseal (se_sha256 env) (se_ops env) blob gate) (\<lambda>seed.
     tpm_bind (no_tpm (ed25519_public_key (se_public_of env) seed)) (\<lambda>public_key.
       if public_key \<noteq> sc_public_key c then tpm_raise Sealed_key_public_key_mismatch else tpm_return seed)))"

definition open_stored :: "'t seal_env \<Rightarrow> nat \<Rightarrow> bytes \<Rightarrow> store_contents \<Rightarrow> nat \<Rightarrow> ('t, seal_error, opened_key) on_tpm" where
  "open_stored env index digest c gate =
     tpm_bind (no_tpm (check_store_gate c index)) (\<lambda>_.
     tpm_bind (check_gate (se_sha256 env) (se_ops env) gate index) (\<lambda>_.
       case blob_for c digest of
         None \<Rightarrow> tpm_raise Sealed_key_digest_mismatch
       | Some blob \<Rightarrow>
           tpm_bind (unseal_stored env c blob gate index) (\<lambda>seed.
             tpm_return \<lparr>ok_seed = seed, ok_public_key = sc_public_key c, ok_provisioned = False\<rparr>)))"

definition provision_key :: "'t seal_env \<Rightarrow> nat \<Rightarrow> bytes \<Rightarrow> bytes \<Rightarrow> ('t, seal_error, store_contents) on_tpm" where
  "provision_key env index digest seed =
     tpm_bind (define_gate (se_ops env) index) (\<lambda>gate.
     tpm_bind (write_gate (se_ops env) gate (GATE_SENTINEL (se_sha256 env))) (\<lambda>_.
     tpm_bind (check_gate (se_sha256 env) (se_ops env) gate index) (\<lambda>_.
     tpm_bind (no_tpm (ed25519_public_key (se_public_of env) seed)) (\<lambda>public_key.
     tpm_bind (seal (se_sha256 env) (se_ops env) seed digest index) (\<lambda>first.
       tpm_return \<lparr>sc_gate_index = int index, sc_public_key = public_key, sc_blobs = [first]\<rparr>)))))"

text \<open>What a program on the TPM produced is written to the store; \<open>f\<close> gives the result of the operation.\<close>

definition save_store ::
  "write_outcome \<Rightarrow> (store_contents \<Rightarrow> 'a) \<Rightarrow> (seal_error + store_contents) \<times> 't \<Rightarrow> sealed_dir \<Rightarrow> (seal_error + 'a) \<times> 't \<times> sealed_dir" where
  "save_store w f outcome d =
     (case outcome of
        (Inl e, t) \<Rightarrow> (Inl e, t, d)
      | (Inr c, t) \<Rightarrow> (case store_write w c d of (Inl e, d') \<Rightarrow> (Inl e, t, d') | (Inr _, d') \<Rightarrow> (Inr (f c), t, d')))"

definition open_sealed_key ::
  "'t seal_env \<Rightarrow> nat \<Rightarrow> bytes \<Rightarrow> bytes option \<Rightarrow> bytes \<Rightarrow> write_outcome \<Rightarrow> 't \<Rightarrow> sealed_dir \<Rightarrow> (seal_error + opened_key) \<times> 't \<times> sealed_dir" where
  "open_sealed_key env index digest seed_if_new urandom w t d =
     (case store_read (sd_file d) of
        Inl e \<Rightarrow> (Inl e, t, d)
      | Inr contents \<Rightarrow>
          (case gate_handle (se_ops env) index t of
             (Inl e, t1) \<Rightarrow> (Inl e, t1, d)
           | (Inr gate, t1) \<Rightarrow>
               (case (contents, gate) of
                  (None, None) \<Rightarrow>
                    let seed = (case seed_if_new of Some s \<Rightarrow> s | None \<Rightarrow> urandom) in
                    if length seed \<noteq> SEED_SIZE then (Inl Seal_value_error, t1, d)
                    else save_store w (\<lambda>c. \<lparr>ok_seed = seed, ok_public_key = sc_public_key c, ok_provisioned = True\<rparr>)
                           (provision_key env index digest seed t1) d
                | (None, Some _) \<Rightarrow> (Inl Sealed_key_missing, t1, d)
                | (Some _, None) \<Rightarrow> (Inl Sealed_key_tpm_changed, t1, d)
                | (Some c, Some g) \<Rightarrow> (case open_stored env index digest c g t1 of (r, t2) \<Rightarrow> (r, t2, d)))))"

definition reseal_held_key ::
  "'t seal_env \<Rightarrow> nat \<Rightarrow> bytes \<Rightarrow> bytes \<Rightarrow> write_outcome \<Rightarrow> 't \<Rightarrow> sealed_dir \<Rightarrow> (seal_error + unit) \<times> 't \<times> sealed_dir" where
  "reseal_held_key env index seed digest w t d =
     (case store_read (sd_file d) of
        Inl e \<Rightarrow> (Inl e, t, d)
      | Inr None \<Rightarrow> (Inl Sealed_key_missing, t, d)
      | Inr (Some c) \<Rightarrow>
          save_store w (\<lambda>_. ())
            (tpm_bind (no_tpm (check_store_gate c index)) (\<lambda>_.
             tpm_bind (no_tpm (ed25519_public_key (se_public_of env) seed)) (\<lambda>public_key.
               if public_key \<noteq> sc_public_key c then tpm_raise Sealed_key_public_key_mismatch
               else tpm_bind (seal (se_sha256 env) (se_ops env) seed digest index) (\<lambda>blob. tpm_return (with_blob c blob)))) t) d)"

definition reseal_stored_key ::
  "'t seal_env \<Rightarrow> nat \<Rightarrow> bytes \<Rightarrow> write_outcome \<Rightarrow> 't \<Rightarrow> sealed_dir \<Rightarrow> (seal_error + bytes) \<times> 't \<times> sealed_dir" where
  "reseal_stored_key env index to_digest w t d =
     (case store_read (sd_file d) of
        Inl e \<Rightarrow> (Inl e, t, d)
      | Inr None \<Rightarrow> (Inl Sealed_key_missing, t, d)
      | Inr (Some c) \<Rightarrow>
          save_store w sc_public_key
            (tpm_bind (no_tpm (check_store_gate c index)) (\<lambda>_.
             tpm_bind (gate_handle (se_ops env) index) (\<lambda>handle.
               case handle of
                 None \<Rightarrow> tpm_raise Sealed_key_tpm_changed
               | Some gate \<Rightarrow>
                   tpm_bind (check_gate (se_sha256 env) (se_ops env) gate index) (\<lambda>_.
                   tpm_bind (unseal_stored env c (last (sc_blobs c)) gate index) (\<lambda>seed.
                   tpm_bind (seal (se_sha256 env) (se_ops env) seed to_digest index) (\<lambda>blob. tpm_return (with_blob c blob)))))) t) d)"

text \<open>A gate that is defined and was never written is finished first.\<close>

definition rotation_gate :: "'t seal_env \<Rightarrow> nat \<Rightarrow> ('t, seal_error, nat) on_tpm" where
  "rotation_gate env index =
     tpm_bind (gate_handle (se_ops env) index) (\<lambda>handle.
       case handle of
         None \<Rightarrow>
           tpm_bind (define_gate (se_ops env) index) (\<lambda>gate.
           tpm_bind (write_gate (se_ops env) gate (GATE_SENTINEL (se_sha256 env))) (\<lambda>_. tpm_return gate))
       | Some gate \<Rightarrow>
           tpm_bind (gate_name (se_ops env) gate) (\<lambda>name.
             case gate_nv_name (se_sha256 env) index False of
               None \<Rightarrow> tpm_raise Seal_value_error
             | Some unwritten \<Rightarrow>
                 if name = unwritten
                 then tpm_bind (write_gate (se_ops env) gate (GATE_SENTINEL (se_sha256 env))) (\<lambda>_. tpm_return gate)
                 else tpm_return gate))"

definition rotate_sealed_key ::
  "'t seal_env \<Rightarrow> nat \<Rightarrow> bytes \<Rightarrow> bytes \<Rightarrow> write_outcome \<Rightarrow> 't \<Rightarrow> sealed_dir \<Rightarrow> (seal_error + bytes) \<times> 't \<times> sealed_dir" where
  "rotate_sealed_key env index digest urandom w t d =
     save_store w sc_public_key
       (tpm_bind (rotation_gate env index) (\<lambda>gate.
        tpm_bind (check_gate (se_sha256 env) (se_ops env) gate index) (\<lambda>_.
        tpm_bind (no_tpm (ed25519_public_key (se_public_of env) urandom)) (\<lambda>public_key.
        tpm_bind (seal (se_sha256 env) (se_ops env) urandom digest index) (\<lambda>blob.
          tpm_return \<lparr>sc_gate_index = int index, sc_public_key = public_key, sc_blobs = [blob]\<rparr>)))) t) d"

section \<open>The running gateway\<close>

record held_key =
  hk_public_key :: bytes
  hk_provisioned :: bool
  hk_gate_index :: nat
  hk_sealed_digest :: bytes
  hk_lock :: "nat option"
  hk_seed :: bytes

definition hold_key :: "nat \<Rightarrow> opened_key \<Rightarrow> bytes \<Rightarrow> nat \<Rightarrow> held_key" where
  "hold_key lock k digest index =
     \<lparr>hk_public_key = ok_public_key k, hk_provisioned = ok_provisioned k, hk_gate_index = index, hk_sealed_digest = digest,
      hk_lock = Some lock, hk_seed = ok_seed k\<rparr>"

definition held_reseal :: "'t seal_env \<Rightarrow> bytes \<Rightarrow> write_outcome \<Rightarrow> held_key \<Rightarrow> 't \<Rightarrow> sealed_dir \<Rightarrow> (seal_error + bool) \<times> held_key \<times> 't \<times> sealed_dir" where
  "held_reseal env digest w h t d =
     (if digest = hk_sealed_digest h then (Inr False, h, t, d)
      else case reseal_held_key env (hk_gate_index h) (hk_seed h) digest w t d of
        (Inl e, t', d') \<Rightarrow> (Inl e, h, t', d')
      | (Inr _, t', d') \<Rightarrow> (Inr True, h\<lparr>hk_sealed_digest := digest\<rparr>, t', d'))"

definition release_held :: "held_key \<Rightarrow> sealed_dir \<Rightarrow> held_key \<times> sealed_dir" where
  "release_held h d = (case release_lock (hk_lock h) d of (l, d') \<Rightarrow> (h\<lparr>hk_lock := l\<rparr>, d'))"

text \<open>The canonical hash of a bundle read into memory. \<open>read_text\<close> decodes as \<open>Path.read_text\<close> does and \<open>loads\<close> reads JSON.\<close>

definition is_cedar_file :: "string \<Rightarrow> bool" where
  "is_cedar_file path = (let name = last (str_split (CHR ''/'') path) in drop (length name - 6) name = ''.cedar'')"

definition bundle_hash_of_files ::
  "crypto \<Rightarrow> (bytes \<Rightarrow> string option) \<Rightarrow> (string \<Rightarrow> json option) \<Rightarrow> (string \<times> bytes) list \<Rightarrow> string option" where
  "bundle_hash_of_files cy read_text loads files =
     (let cedar = filter (\<lambda>(path, _). is_cedar_file path) files in
      case (Option.bind (Option.bind (map_of files ''manifest.json'') read_text) loads,
            Option.bind (map_of files ''schema.cedarschema'') read_text,
            those (map (\<lambda>(path, content). map_option (Pair path) (read_text content)) cedar)) of
        (Some manifest, Some schema, Some policy_files) \<Rightarrow>
          if policy_files = [] \<or> \<not> is_jobj manifest then None
          else Some (''sha256:'' @ canonical_bundle_hash cy manifest policy_files schema)
      | _ \<Rightarrow> None)"

text \<open>\<open>None\<close> as \<open>files\<close> is a bundle that cannot be read, \<open>tpm_opens\<close> says that the TPM can be opened, and \<open>accepted\<close> is the hash of the
  bundle the reload verified.\<close>

definition reloaded_digest :: "'t seal_env \<Rightarrow> gateway_measurement \<Rightarrow> (string \<times> bytes) list \<Rightarrow> bytes option" where
  "reloaded_digest env measured files =
     (case (map_of (gm_components measured) ''code'', map_of (gm_components measured) ''config'') of
        (Some code, Some config) \<Rightarrow>
          (case measurement_from_components (se_sha256 env)
                  [(''code'', code), (''policy'', policy_digest_of_files (se_sha256 env) files), (''config'', config)] of
             Inr m \<Rightarrow> Some (gm_digest m) | Inl _ \<Rightarrow> None)
      | _ \<Rightarrow> None)"

definition reseal_after_reload ::
  "'t seal_env \<Rightarrow> ((string \<times> bytes) list \<Rightarrow> string option) \<Rightarrow> (string \<times> bytes) list option \<Rightarrow> string \<Rightarrow> bool \<Rightarrow> write_outcome
   \<Rightarrow> gateway_measurement option \<Rightarrow> held_key option \<Rightarrow> 't \<Rightarrow> sealed_dir \<Rightarrow> bool \<times> held_key option \<times> 't \<times> sealed_dir" where
  "reseal_after_reload env bundle_hash files accepted tpm_opens w measured held t d =
     (case (held, measured, files) of
        (Some h, Some m, Some fs) \<Rightarrow>
          if bundle_hash fs \<noteq> Some accepted then (False, held, t, d)
          else (case reloaded_digest env m fs of
             None \<Rightarrow> (False, held, t, d)
           | Some digest \<Rightarrow>
               if digest = hk_sealed_digest h \<or> \<not> tpm_opens then (False, held, t, d)
               else (case held_reseal env digest w h t d of
                  (Inl _, h', t', d') \<Rightarrow> (False, Some h', t', d')
                | (Inr _, h', t', d') \<Rightarrow> (True, Some h', t', d')))
      | _ \<Rightarrow> (False, held, t, d))"

end
