(* ===== verification/Seal_Guarantees.thy ===== *)
theory Seal_Guarantees
  imports Sealed_Key
begin

text \<open>
  What the sealed signing key is worth: a start mints a key only on a TPM
  without a gate and without a store, the gate is closed again after every
  operation, a gateway obtains the key only under a digest it was sealed to,
  and the key survives restarts and an upgrade. \<open>seal_contract\<close> and
  \<open>seal_works\<close> say what is asked of a TPM.
\<close>

section \<open>Store round trip\<close>

lemma hex_digit_word [simp]: "n < 16 \<Longrightarrow> hex_digit n \<noteq> CHR ''_''" "n < 16 \<Longrightarrow> \<not> str_space (hex_digit n)"
proof -
  assume n: "n < 16"
  then have "(of_char (hex_digit n) :: nat) = (if n < 10 then 48 + n else 87 + n)" by (simp add: hex_digit_def)
  then show "hex_digit n \<noteq> CHR ''_''" "\<not> str_space (hex_digit n)"
    using n by (auto simp: str_space_def Let_def split: if_splits)
qed

lemma read_hex_hexlify: "bs \<noteq> [] \<or> ok \<Longrightarrow> read_hex ok acc (hexlify bs) = Some (foldl (\<lambda>a b. 256 * a + of_char b) acc bs)"
proof (induction bs arbitrary: ok acc)
  case (Cons b bs)
  have "(of_char b :: nat) div 16 < 16" using of_char_less [of b] by simp
  moreover have "16 * (16 * acc + of_char b div 16) + of_char b mod 16 = 256 * acc + (of_char b :: nat)" by simp
  ultimately show ?case by (simp add: Cons.IH add.commute)
qed simp

lemma foldl_be_bytes: "x < 256 ^ k \<Longrightarrow> foldl (\<lambda>a b. 256 * a + of_char b) acc (be_bytes k x) = 256 ^ k * acc + (x :: nat)"
proof (induction k arbitrary: x acc)
  case (Suc k)
  then have "x div 256 < 256 ^ k" by (simp add: less_mult_imp_div_less mult.commute)
  with Suc.IH [of "x div 256" acc] show ?case by (simp add: algebra_simps)
qed simp

lemma hexlify_last: "bs \<noteq> [] \<Longrightarrow> \<exists>n<16. last (hexlify bs) = hex_digit n"
proof (induction bs)
  case (Cons b bs)
  then show ?case by (cases "bs = []") (auto intro: exI [of _ "of_char b mod 16"])
qed simp

lemma strip_prefixed: "bs \<noteq> [] \<Longrightarrow> str_strip (''0x'' @ hexlify bs) = ''0x'' @ hexlify bs"
proof -
  assume bs: "bs \<noteq> []"
  then obtain n where n: "n < 16" "last (hexlify bs) = hex_digit n" using hexlify_last by blast
  from bs have "hexlify bs \<noteq> []" by (cases bs) auto
  then obtain ys where ys: "hexlify bs = ys @ [hex_digit n]" using n(2) by (metis append_butlast_last_id)
  show ?thesis using n(1) unfolding ys by (simp add: str_strip_def str_space_def Let_def) (simp add: hex_digit_def)
qed

lemma int16_handle: "x < 256 ^ 4 \<Longrightarrow> int16 (''0x'' @ hexlify (be_bytes 4 x)) = Some (int x)"
proof -
  assume x: "x < 256 ^ 4"
  have ne: "be_bytes 4 x \<noteq> []" using length_be_bytes [of 4 x] by fastforce
  have "\<not> starts_with ''_'' (hexlify (be_bytes 4 x))"
  proof (cases "be_bytes 4 x")
    case (Cons b bs)
    have "(of_char b :: nat) div 16 < 16" using of_char_less [of b] by simp
    then have "hex_digit (of_char b div 16) \<noteq> CHR ''_''" by (rule hex_digit_word)
    then show ?thesis by (simp add: Cons starts_with_def)
  qed (use ne in simp)
  then show ?thesis
    using strip_prefixed [OF ne] read_hex_hexlify [of "be_bytes 4 x" False 0] foldl_be_bytes [OF x, of 0] ne
    by (simp add: int16_def starts_with_def)
qed

definition handle_range :: "nat \<Rightarrow> bool" where
  "handle_range index \<longleftrightarrow> 0x01000000 \<le> index \<and> index \<le> 0x01FFFFFF"

text \<open>A store reads back as it was written.\<close>

lemma store_round_trip:
  assumes "sc_gate_index c = int index" "handle_range index" "length (sc_public_key c) = 32" "sc_blobs c \<noteq> []"
  shows "store_read (File_json (store_payload c)) = Inr (Some c)"
proof -
  have "index < 256 ^ 4" using assms(2) by (simp add: handle_range_def)
  then have i: "int16 (''0x'' @ hexlify (be_bytes 4 index)) = Some (int index)" by (rule int16_handle)
  have "read_blob (JObj [(''digest'', JStr (hexlify (sb_digest b))), (''private'', JStr (hexlify (sb_private b))),
         (''public'', JStr (hexlify (sb_public b)))]) = Some b" for b
    by (simp add: read_blob_def hex_field_def)
  then have "those (map read_blob (map (\<lambda>b. JObj [(''digest'', JStr (hexlify (sb_digest b))), (''private'', JStr (hexlify (sb_private b))),
         (''public'', JStr (hexlify (sb_public b)))]) bs)) = Some bs" for bs
    by (induction bs) simp_all
  then show ?thesis
    using i assms by (simp add: store_read_def read_contents_def store_payload_def hex_field_def STORE_VERSION_def)
qed

section \<open>What is asked of a TPM\<close>

text \<open>The parts of its state that matter: the Name and contents of the gate index, the policy and secret of every blob it
  made, the policy and secret of its loaded objects, and the policy of its sessions.\<close>

record 't seal_view =
  sv_gate :: "'t \<Rightarrow> (bytes \<times> bytes option) option"
  sv_sealed :: "'t \<Rightarrow> bytes \<times> bytes \<Rightarrow> (bytes \<times> bytes) option"
  sv_loaded :: "'t \<Rightarrow> nat \<Rightarrow> (bytes \<times> bytes) option"
  sv_session :: "'t \<Rightarrow> nat \<Rightarrow> bytes option"

definition keeps :: "('t \<Rightarrow> 'x) \<Rightarrow> ('t, 'e, 'a) on_tpm \<Rightarrow> bool" where
  "keeps f m \<longleftrightarrow> (\<forall>t. f (snd (m t)) = f t)"

text \<open>Answers are right and only the command that is meant to changes a part: defining and writing change the gate, creating
  adds one blob, a blob loads only where it was made, and a secret is given out only in a session that has satisfied its
  policy. A command that raises may have had its effect. The integrity of a blob covers its public part.\<close>

definition seal_frame :: "'t seal_ops \<Rightarrow> nat \<Rightarrow> nat \<Rightarrow> ('t \<Rightarrow> 'x) \<Rightarrow> bool" where
  "seal_frame ops index gate f \<longleftrightarrow>
     keeps f (so_from_public ops index) \<and> keeps f (so_read_public ops gate) \<and> keeps f (so_create_primary ops)
     \<and> (\<forall>p k. keeps f (so_start_session ops p k)) \<and> (\<forall>s. keeps f (so_set_attributes ops s)) \<and> (\<forall>p a b. keeps f (so_load ops p a b))
     \<and> (\<forall>s x. keeps f (so_policy_nv ops gate s x)) \<and> (\<forall>b s. keeps f (so_unseal ops b s)) \<and> (\<forall>h. keeps f (so_flush ops h))"

definition seal_contract :: "'t seal_ops \<Rightarrow> 't seal_view \<Rightarrow> nat \<Rightarrow> nat \<Rightarrow> bool" where
  "seal_contract ops v index gate \<longleftrightarrow>
     seal_frame ops index gate (sv_gate v) \<and> seal_frame ops index gate (sv_sealed v)
   \<and> (\<forall>p s x y. keeps (sv_gate v) (so_create ops p s x y))
   \<and> keeps (sv_sealed v) (so_define_space ops (gate_template index)) \<and> (\<forall>x. keeps (sv_sealed v) (so_nv_write ops gate x))
   \<and> (\<forall>p k. keeps (sv_loaded v) (so_start_session ops p k)) \<and> (\<forall>s. keeps (sv_loaded v) (so_set_attributes ops s))
   \<and> (\<forall>s x. keeps (sv_loaded v) (so_policy_nv ops gate s x))
   \<and> (\<forall>t h t'. so_from_public ops index t = (Inr h, t') \<longrightarrow> h = gate)
   \<and> (\<forall>t x t'. so_from_public ops index t = (Inl x, t') \<longrightarrow> tx_error x = Some TPM_RC_HANDLE \<longrightarrow> sv_gate v t = None)
   \<and> (\<forall>t r t'. so_define_space ops (gate_template index) t = (r, t') \<longrightarrow>
        (\<forall>h. r = Inr h \<longrightarrow> h = gate) \<and> (sv_gate v t' = sv_gate v t \<or> (\<exists>n. sv_gate v t' = Some (n, None))))
   \<and> (\<forall>x t t'. so_nv_write ops gate x t = (Inr (), t') \<longrightarrow> (\<exists>n. sv_gate v t' = Some (n, Some x)))
   \<and> (\<forall>p s seed policy t r t'. so_create ops p s seed policy t = (r, t') \<longrightarrow>
        (\<forall>b q. sv_sealed v t' b = Some q \<longrightarrow> sv_sealed v t b = Some q \<or> q = (policy, seed))
        \<and> (\<forall>b. r = Inr b \<longrightarrow> sv_sealed v t' b = Some (policy, seed)))
   \<and> (\<forall>p a b t h t'. so_load ops p a b t = (Inr h, t') \<longrightarrow> sv_loaded v t' h = sv_sealed v t (a, b) \<and> sv_sealed v t (a, b) \<noteq> None)
   \<and> (\<forall>b s t x t'. so_unseal ops b s t = (Inr x, t') \<longrightarrow> (\<exists>p. sv_loaded v t b = Some (p, x) \<and> sv_session v t s = Some p))
   \<and> (\<forall>t a b p x. sv_sealed v t (a, b) = Some (p, x) \<longrightarrow> so_auth_policy ops b = Some p)"

section \<open>Reasoning about programs on a TPM\<close>

lemma tpm_Inr:
  "tpm_bind m f t = (Inr y, t') \<longleftrightarrow> (\<exists>x t1. m t = (Inr x, t1) \<and> f x t1 = (Inr y, t'))"
  "tpm_catch m h t = (Inr a, t') \<longleftrightarrow> m t = (Inr a, t')"
  "tpm_finally m c t = (Inr a, t') \<longleftrightarrow> (\<exists>t1 u. m t = (Inr a, t1) \<and> c t1 = (Inr u, t'))"
  "tpm_return x t = (Inr y, t') \<longleftrightarrow> x = y \<and> t' = t" "tpm_raise e t \<noteq> (Inr y, t')" "no_tpm r t = (Inr y, t') \<longleftrightarrow> r = Inr y \<and> t' = t"
  by (auto simp: tpm_bind_def tpm_catch_def tpm_finally_def tpm_return_def tpm_raise_def no_tpm_def split: sum.splits prod.splits)

named_theorems keeps_rules \<open>programs that keep a part of the TPM\<close>

lemma keeps_basic [keeps_rules]: "keeps f (tpm_return x)" "keeps f (tpm_raise e)" "keeps f (no_tpm r)"
  by (simp_all add: keeps_def tpm_return_def tpm_raise_def no_tpm_def)

text \<open>A result that a program can give.\<close>

definition yields :: "('t, 'e, 'a) on_tpm \<Rightarrow> 'a \<Rightarrow> bool" where
  "yields m x \<longleftrightarrow> (\<exists>t t'. m t = (Inr x, t'))"

lemma yieldsI: "m t = (Inr x, t') \<Longrightarrow> yields m x"
  by (auto simp: yields_def)

lemma keeps_compose [keeps_rules]:
  "keeps f m \<Longrightarrow> (\<And>x. yields m x \<Longrightarrow> keeps f (g x)) \<Longrightarrow> keeps f (tpm_bind m g)" "keeps f m' \<Longrightarrow> keeps f (tpm_catch m' h)"
  "keeps f m \<Longrightarrow> keeps f c \<Longrightarrow> keeps f (tpm_finally m c)"
proof -
  show "keeps f (tpm_bind m g)" if "keeps f m" "\<And>x. yields m x \<Longrightarrow> keeps f (g x)"
    using that unfolding keeps_def tpm_bind_def yields_def by (auto split: prod.splits sum.splits) (metis snd_conv)+
  show "keeps f (tpm_catch m' h)" if "keeps f m'"
    using that unfolding keeps_def tpm_catch_def by (auto split: prod.splits sum.splits) (metis snd_conv)+
  show "keeps f (tpm_finally m c)" if "keeps f m" "keeps f c"
    using that unfolding keeps_def tpm_finally_def by (auto split: prod.splits sum.splits) (metis snd_conv)+
qed

lemma keepsD: "keeps f m \<Longrightarrow> m t = (r, t') \<Longrightarrow> f t' = f t"
  by (metis keeps_def snd_conv)

lemma keeps_frame [keeps_rules]:
  assumes "seal_frame ops index gate f"
  shows "keeps f (storage_parent ops)" "keeps f (salted_session ops p k)" "keeps f (gate_handle ops index)"
    "keeps f (gate_name ops gate)" "keeps f (check_gate sha256 ops gate index)" "keeps f (flush ops h)"
proof -
  note ops = assms [unfolded seal_frame_def]
  show "keeps f (storage_parent ops)" unfolding storage_parent_def by (intro keeps_rules) (use ops in blast)
  show "keeps f (salted_session ops p k)" unfolding salted_session_def by (intro keeps_rules) (use ops in blast)+
  show n: "keeps f (gate_name ops gate)" unfolding gate_name_def by (intro keeps_rules) (use ops in blast)
  then show "keeps f (check_gate sha256 ops gate index)"
    unfolding check_gate_def by (intro keeps_rules) (auto intro: keeps_rules split: option.splits)
  show "keeps f (flush ops h)" unfolding flush_def by (intro keeps_rules) (use ops in blast)
  have "keeps f (so_from_public ops index)" using ops by blast
  then show "keeps f (gate_handle ops index)"
    unfolding keeps_def gate_handle_def by (auto split: prod.splits sum.splits) (metis snd_conv)+
qed

lemma keeps_unseal [keeps_rules]:
  assumes "seal_frame ops index gate f"
  shows "keeps f (unseal ops blob gate)"
proof -
  have "keeps f (so_load ops p a b)" "keeps f (so_policy_nv ops gate s x)" "keeps f (so_unseal ops h s)" for p a b s x h
    using assms by (auto simp: seal_frame_def)
  then show ?thesis
    unfolding unseal_def by (auto intro!: keeps_rules keeps_frame [OF assms])
qed

text \<open>What is sealed after a program was sealed before or satisfies \<open>P\<close>.\<close>

definition adds :: "'t seal_view \<Rightarrow> (bytes \<times> bytes \<Rightarrow> bool) \<Rightarrow> ('t, 'e, 'a) on_tpm \<Rightarrow> bool" where
  "adds v P m \<longleftrightarrow> (\<forall>t b q. sv_sealed v (snd (m t)) b = Some q \<longrightarrow> sv_sealed v t b = Some q \<or> P q)"

named_theorems adds_rules \<open>programs that seal nothing else\<close>

lemma adds_keeps: "keeps (sv_sealed v) m \<Longrightarrow> adds v P m"
  by (simp add: adds_def keeps_def)

lemma adds_basic [adds_rules]: "adds v P (tpm_return x)" "adds v P (tpm_raise e)" "adds v P (no_tpm r)"
  by (intro adds_keeps keeps_rules)+

lemma adds_compose [adds_rules]:
  "adds v P m \<Longrightarrow> (\<And>x. yields m x \<Longrightarrow> adds v P (g x)) \<Longrightarrow> adds v P (tpm_bind m g)" "adds v P m' \<Longrightarrow> adds v P (tpm_catch m' h)"
  "adds v P m \<Longrightarrow> adds v P c \<Longrightarrow> adds v P (tpm_finally m c)"
proof -
  show "adds v P (tpm_bind m g)" if "adds v P m" "\<And>x. yields m x \<Longrightarrow> adds v P (g x)"
    using that unfolding adds_def tpm_bind_def yields_def by (auto split: prod.splits sum.splits) (metis snd_conv)+
  show "adds v P (tpm_catch m' h)" if "adds v P m'"
    using that unfolding adds_def tpm_catch_def by (force split: prod.splits sum.splits)
  show "adds v P (tpm_finally m c)" if "adds v P m" "adds v P c"
    using that unfolding adds_def tpm_finally_def by (auto split: prod.splits sum.splits) (metis snd_conv)+
qed

lemma addsD: "adds v P m \<Longrightarrow> m t = (r, t') \<Longrightarrow> sv_sealed v t' b = Some q \<Longrightarrow> sv_sealed v t b = Some q \<or> P q"
  by (metis adds_def snd_conv)

lemma contract_frames:
  assumes "seal_contract ops v index gate"
  shows "seal_frame ops index gate (sv_gate v)" "seal_frame ops index gate (sv_sealed v)" "keeps (sv_gate v) (so_create ops p s x y)"
    "keeps (sv_sealed v) (define_gate ops index)" "keeps (sv_sealed v) (write_gate ops gate x)"
  using assms by (auto simp: seal_contract_def define_gate_def write_gate_def intro!: keeps_rules)

lemma contract_loaded:
  assumes "seal_contract ops v index gate"
  shows "keeps (sv_loaded v) (so_start_session ops p k)" "keeps (sv_loaded v) (so_set_attributes ops s)" "keeps (sv_loaded v) (so_policy_nv ops gate s x)"
    "so_load ops p a b t = (Inr h, t') \<Longrightarrow> sv_loaded v t' h = sv_sealed v t (a, b)"
    "so_unseal ops h s t = (Inr secret, t') \<Longrightarrow> \<exists>p. sv_loaded v t h = Some (p, secret) \<and> sv_session v t s = Some p"
    "sv_sealed v t (a, b) = Some (q, secret) \<Longrightarrow> so_auth_policy ops b = Some q"
  using assms unfolding seal_contract_def by (simp_all, blast+)

lemma contract_gate:
  assumes "seal_contract ops v index gate"
  shows "so_from_public ops index t = (Inr h, t') \<Longrightarrow> h = gate"
    "so_from_public ops index t = (Inl x, t') \<Longrightarrow> tx_error x = Some TPM_RC_HANDLE \<Longrightarrow> sv_gate v t = None"
    "so_define_space ops (gate_template index) t = (Inr h, t') \<Longrightarrow> h = gate"
    "so_define_space ops (gate_template index) t = (r, t') \<Longrightarrow> sv_gate v t' = sv_gate v t \<or> (\<exists>n. sv_gate v t' = Some (n, None))"
    "so_nv_write ops gate y t = (Inr (), t') \<Longrightarrow> \<exists>n. sv_gate v t' = Some (n, Some y)"
  using assms unfolding seal_contract_def by - (fast | metis)+

lemma contract_create:
  assumes "seal_contract ops v index gate" "so_create ops p s seed policy t = (r, t')"
  shows "sv_sealed v t' b = Some q \<Longrightarrow> sv_sealed v t b = Some q \<or> q = (policy, seed)"
    "r = Inr b \<Longrightarrow> sv_sealed v t' b = Some (policy, seed)"
proof -
  have "\<forall>p s seed policy t r t'. so_create ops p s seed policy t = (r, t') \<longrightarrow>
      (\<forall>b q. sv_sealed v t' b = Some q \<longrightarrow> sv_sealed v t b = Some q \<or> q = (policy, seed))
      \<and> (\<forall>b. r = Inr b \<longrightarrow> sv_sealed v t' b = Some (policy, seed))"
    using assms(1) unfolding seal_contract_def by (elim conjE) assumption
  then show "sv_sealed v t' b = Some q \<Longrightarrow> sv_sealed v t b = Some q \<or> q = (policy, seed)" "r = Inr b \<Longrightarrow> sv_sealed v t' b = Some (policy, seed)"
    using assms(2) by blast+
qed

lemma seal_effect:
  assumes "seal_contract ops v index gate"
  shows "keeps (sv_gate v) (seal sha256 ops seed digest index)"
    and "adds v (\<lambda>q. policy_nv_digest sha256 digest index = Some (fst q) \<and> snd q = seed) (seal sha256 ops seed digest index)"
proof -
  note frames = contract_frames [OF assms]
  show "keeps (sv_gate v) (seal sha256 ops seed digest index)"
    unfolding seal_def
    by (auto intro!: keeps_rules keeps_frame [OF frames(1)] frames(3) split: option.splits prod.splits)
  have create: "adds v (\<lambda>q. policy = fst q \<and> snd q = seed) (so_create ops p s seed policy)" for p s policy
    unfolding adds_def
  proof (intro allI impI)
    fix t b q
    assume "sv_sealed v (snd (so_create ops p s seed policy t)) b = Some q"
    then show "sv_sealed v t b = Some q \<or> policy = fst q \<and> snd q = seed"
      using contract_create(1) [OF assms prod.collapse [symmetric], of p s seed policy t b q] by auto
  qed
  have quiet: "adds v P (storage_parent ops)" "adds v P (salted_session ops p k)" "adds v P (flush ops h)" for P p k h
    using keeps_frame [OF frames(2)] by (auto intro: adds_keeps)
  show "adds v (\<lambda>q. policy_nv_digest sha256 digest index = Some (fst q) \<and> snd q = seed) (seal sha256 ops seed digest index)"
    unfolding seal_def
    by (auto intro!: adds_rules quiet create split: option.splits prod.splits)
qed

lemma unseal_result:
  assumes "seal_contract ops v index gate" "unseal ops blob gate t = (Inr x, t')"
  shows "\<exists>p. sv_sealed v t (sb_private blob, sb_public blob) = Some (p, x) \<and> so_auth_policy ops (sb_public blob) = Some p \<and> length x = 32"
proof -
  from assms(2) obtain parent obj session t1 t2 t3 t4 t5 where
    l: "length x = 32" and "storage_parent ops t = (Inr parent, t1)" "so_load ops parent (sb_private blob) (sb_public blob) t1 = (Inr obj, t2)"
    "salted_session ops parent Policy_session t2 = (Inr session, t3)" "so_policy_nv ops gate session (sb_digest blob) t3 = (Inr (), t4)"
    "so_unseal ops obj session t4 = (Inr x, t5)"
    unfolding unseal_def by (fastforce simp: tpm_Inr SEED_SIZE_def split: if_splits)
  moreover note frames = contract_frames [OF assms(1)]
  have "keeps (sv_loaded v) (salted_session ops parent Policy_session)"
    unfolding salted_session_def by (intro keeps_rules contract_loaded [OF assms(1)])
  moreover have "keeps (sv_loaded v) (so_policy_nv ops gate session (sb_digest blob))"
    by (rule contract_loaded(3) [OF assms(1)])
  ultimately have "sv_loaded v t4 obj = sv_loaded v t2 obj" "sv_sealed v t1 = sv_sealed v t"
    using keepsD keepsD [OF keeps_frame(1) [OF frames(2)]] by metis+
  moreover have "sv_loaded v t2 obj = sv_sealed v t1 (sb_private blob, sb_public blob)" "\<exists>p. sv_loaded v t4 obj = Some (p, x)"
    using contract_loaded(4,5) [OF assms(1)] \<open>so_load ops parent _ _ t1 = _\<close> \<open>so_unseal ops obj session t4 = _\<close> by blast+
  ultimately show ?thesis using contract_loaded(6) [OF assms(1)] l by metis
qed

section \<open>The gate is closed again\<close>

definition gate_open :: "'t seal_env \<Rightarrow> 't seal_view \<Rightarrow> 't \<Rightarrow> bool" where
  "gate_open env v t \<longleftrightarrow> (\<exists>n x. sv_gate v t = Some (n, Some x) \<and> x \<noteq> GATE_SENTINEL (se_sha256 env))"

definition closes :: "'t seal_env \<Rightarrow> 't seal_view \<Rightarrow> ('t, seal_error, 'a) on_tpm \<Rightarrow> bool" where
  "closes env v m \<longleftrightarrow> (\<forall>t r t'. m t = (r, t') \<longrightarrow> \<not> gate_open env v t \<longrightarrow> gate_open env v t' \<longrightarrow> r = Inl Sealed_key_unavailable)"

named_theorems closes_rules \<open>programs that leave the gate closed\<close>

lemma closes_keeps [closes_rules]: "keeps (sv_gate v) m \<Longrightarrow> closes env v m"
  unfolding closes_def gate_open_def by (metis keepsD)

lemma closes_bind [closes_rules]: "closes env v m \<Longrightarrow> (\<And>x. yields m x \<Longrightarrow> closes env v (g x)) \<Longrightarrow> closes env v (tpm_bind m g)"
  unfolding closes_def tpm_bind_def yields_def by (auto split: prod.splits sum.splits) (metis sum.distinct(1))+

lemma write_sentinel:
  assumes "seal_contract (se_ops env) v index gate" "write_gate (se_ops env) gate (GATE_SENTINEL (se_sha256 env)) t = (r, t')"
    "gate_open env v t'"
  shows "r = Inl Sealed_key_unavailable"
  using assms contract_gate(5) [OF assms(1)]
  by (cases "so_nv_write (se_ops env) gate (GATE_SENTINEL (se_sha256 env)) t")
    (fastforce simp: write_gate_def tpm_catch_def gate_open_def split: sum.splits)

lemma closes_gate [closes_rules]:
  assumes "seal_contract (se_ops env) v index gate"
  shows "closes env v (define_gate (se_ops env) index)" "closes env v (write_gate (se_ops env) gate (GATE_SENTINEL (se_sha256 env)))"
    "closes env v (open_gate_and_unseal (se_sha256 env) (se_ops env) blob gate)"
proof -
  show "closes env v (write_gate (se_ops env) gate (GATE_SENTINEL (se_sha256 env)))"
    unfolding closes_def using write_sentinel [OF assms] by blast
  have "\<not> gate_open env v t'" if "so_define_space (se_ops env) (gate_template index) t = (r, t')" "\<not> gate_open env v t" for t r t'
    using contract_gate(4) [OF assms that(1)] that(2) by (auto simp: gate_open_def)
  then show "closes env v (define_gate (se_ops env) index)"
    unfolding closes_def define_gate_def tpm_catch_def by (auto split: prod.splits sum.splits)
  show "closes env v (open_gate_and_unseal (se_sha256 env) (se_ops env) blob gate)"
    unfolding closes_def
  proof (intro allI impI)
    fix t r t'
    assume run: "open_gate_and_unseal (se_sha256 env) (se_ops env) blob gate t = (r, t')" and opened: "gate_open env v t'"
    show "r = Inl Sealed_key_unavailable"
    proof (cases "write_gate (se_ops env) gate (sb_digest blob) t")
      case (Pair w t1)
      show ?thesis
      proof (cases w)
        case (Inl e)
        with Pair run show ?thesis
          by (auto simp: open_gate_and_unseal_def tpm_bind_def write_gate_def tpm_catch_def split: prod.splits sum.splits)
      next
        case (Inr u)
        obtain r2 t2 where 2: "unseal (se_ops env) blob gate t1 = (r2, t2)" by fastforce
        obtain r3 t3 where 3: "write_gate (se_ops env) gate (GATE_SENTINEL (se_sha256 env)) t2 = (r3, t3)" by fastforce
        from run Pair Inr 2 3 have "t' = t3" "r3 = Inl e \<Longrightarrow> r = Inl e" for e
          by (auto simp: open_gate_and_unseal_def tpm_bind_def tpm_finally_def split: sum.splits)
        with write_sentinel [OF assms 3] opened show ?thesis by blast
      qed
    qed
  qed
qed

lemma yields_gate:
  assumes "seal_contract ops v index gate"
  shows "yields (define_gate ops index) h \<Longrightarrow> h = gate" "yields (gate_handle ops index) (Some h) \<Longrightarrow> h = gate"
    "gate_handle ops index t = (Inr None, t') \<Longrightarrow> sv_gate v t = None"
proof -
  show "h = gate" if "yields (define_gate ops index) h"
    using that contract_gate(3) [OF assms] by (auto simp: yields_def define_gate_def tpm_Inr)
  show "h = gate" if "yields (gate_handle ops index) (Some h)"
  proof -
    from that obtain t t' where y: "gate_handle ops index t = (Inr (Some h), t')" by (auto simp: yields_def)
    obtain r t1 where r: "so_from_public ops index t = (r, t1)" by fastforce
    with y have "so_from_public ops index t = (Inr h, t')" by (cases r) (auto simp: gate_handle_def split: if_splits)
    then show ?thesis by (rule contract_gate(1) [OF assms])
  qed
  show "sv_gate v t = None" if "gate_handle ops index t = (Inr None, t')"
  proof -
    from that obtain x where "so_from_public ops index t = (Inl x, t')" "tx_error x = Some TPM_RC_HANDLE"
      by (auto simp: gate_handle_def split: prod.splits sum.splits if_splits)
    then show ?thesis by (rule contract_gate(2) [OF assms])
  qed
qed

section \<open>Every operation\<close>

datatype seal_command =
    Start_gateway bytes "bytes option" bytes
  | Reseal_held bytes bytes
  | Reseal_stored bytes
  | Rotate_key bytes bytes

definition no_result :: "('e + 'a) \<times> 's \<Rightarrow> ('e + unit) \<times> 's" where
  "no_result r = (bind_result (fst r) (\<lambda>_. Inr ()), snd r)"

fun run_command :: "'t seal_env \<Rightarrow> nat \<Rightarrow> write_outcome \<Rightarrow> seal_command \<Rightarrow> 't \<Rightarrow> sealed_dir \<Rightarrow> (seal_error + unit) \<times> 't \<times> sealed_dir" where
  "run_command env index w (Start_gateway digest seed urandom) t d = no_result (open_sealed_key env index digest seed urandom w t d)"
| "run_command env index w (Reseal_held seed digest) t d = reseal_held_key env index seed digest w t d"
| "run_command env index w (Reseal_stored digest) t d = no_result (reseal_stored_key env index digest w t d)"
| "run_command env index w (Rotate_key digest urandom) t d = no_result (rotate_sealed_key env index digest urandom w t d)"

text \<open>What an operation does to the TPM: the program it runs, and an error of that program is an error of the operation.\<close>

definition runs_as :: "(seal_error + 'a) \<times> 't \<times> sealed_dir \<Rightarrow> ('t, seal_error, 'b) on_tpm \<Rightarrow> 't \<Rightarrow> bool" where
  "runs_as outcome m t \<longleftrightarrow> (\<exists>r0. m t = (r0, fst (snd outcome)) \<and> (\<forall>e. r0 = Inl e \<longrightarrow> fst outcome = Inl e))"

lemma runs_as_save: "runs_as (save_store w f (m t) d) m t"
  by (auto simp: runs_as_def save_store_def split: prod.splits sum.splits)

lemma runs_as_raise: "runs_as (Inl e, t, d) (tpm_raise e) t"
  by (simp add: runs_as_def tpm_raise_def)

lemma runs_as_no_result: "runs_as r m t \<Longrightarrow> runs_as (no_result r) m t"
  by (force simp: runs_as_def no_result_def)

definition new_seed :: "bytes option \<Rightarrow> bytes \<Rightarrow> bytes" where
  "new_seed seed urandom = (case seed of Some s \<Rightarrow> s | None \<Rightarrow> urandom)"

definition ignore :: "('t, 'e, 'a) on_tpm \<Rightarrow> ('t, 'e, unit) on_tpm" where
  "ignore m = tpm_bind m (\<lambda>_. tpm_return ())"

lemma runs_as_ignore: "runs_as r m t \<Longrightarrow> runs_as r (ignore m) t"
  by (auto simp: runs_as_def ignore_def tpm_bind_def tpm_return_def split: sum.splits)

definition held_program :: "'t seal_env \<Rightarrow> nat \<Rightarrow> store_contents \<Rightarrow> bytes \<Rightarrow> bytes \<Rightarrow> ('t, seal_error, store_contents) on_tpm" where
  "held_program env index c seed digest =
     tpm_bind (no_tpm (check_store_gate c index)) (\<lambda>_.
     tpm_bind (no_tpm (ed25519_public_key (se_public_of env) seed)) (\<lambda>public_key.
       if public_key \<noteq> sc_public_key c then tpm_raise Sealed_key_public_key_mismatch
       else tpm_bind (seal (se_sha256 env) (se_ops env) seed digest index) (\<lambda>blob. tpm_return (with_blob c blob))))"

definition stored_program :: "'t seal_env \<Rightarrow> nat \<Rightarrow> store_contents \<Rightarrow> bytes \<Rightarrow> ('t, seal_error, store_contents) on_tpm" where
  "stored_program env index c digest =
     tpm_bind (no_tpm (check_store_gate c index)) (\<lambda>_.
     tpm_bind (gate_handle (se_ops env) index) (\<lambda>handle.
       case handle of
         None \<Rightarrow> tpm_raise Sealed_key_tpm_changed
       | Some gate \<Rightarrow>
           tpm_bind (check_gate (se_sha256 env) (se_ops env) gate index) (\<lambda>_.
           tpm_bind (unseal_stored env c (last (sc_blobs c)) gate index) (\<lambda>seed.
           tpm_bind (seal (se_sha256 env) (se_ops env) seed digest index) (\<lambda>blob. tpm_return (with_blob c blob))))))"

definition rotate_program :: "'t seal_env \<Rightarrow> nat \<Rightarrow> bytes \<Rightarrow> bytes \<Rightarrow> ('t, seal_error, store_contents) on_tpm" where
  "rotate_program env index digest urandom =
     tpm_bind (rotation_gate env index) (\<lambda>gate.
     tpm_bind (check_gate (se_sha256 env) (se_ops env) gate index) (\<lambda>_.
     tpm_bind (no_tpm (ed25519_public_key (se_public_of env) urandom)) (\<lambda>public_key.
     tpm_bind (seal (se_sha256 env) (se_ops env) urandom digest index) (\<lambda>blob.
       tpm_return \<lparr>sc_gate_index = int index, sc_public_key = public_key, sc_blobs = [blob]\<rparr>))))"

definition start_program :: "'t seal_env \<Rightarrow> nat \<Rightarrow> bytes \<Rightarrow> bytes \<Rightarrow> store_contents option \<Rightarrow> ('t, seal_error, unit) on_tpm" where
  "start_program env index digest seed contents =
     tpm_bind (gate_handle (se_ops env) index) (\<lambda>gate.
       case (contents, gate) of
         (None, None) \<Rightarrow> if length seed \<noteq> SEED_SIZE then tpm_raise Seal_value_error else ignore (provision_key env index digest seed)
       | (None, Some _) \<Rightarrow> tpm_raise Sealed_key_missing
       | (Some _, None) \<Rightarrow> tpm_raise Sealed_key_tpm_changed
       | (Some c, Some g) \<Rightarrow> ignore (open_stored env index digest c g))"

fun command_program :: "'t seal_env \<Rightarrow> nat \<Rightarrow> seal_error + store_contents option \<Rightarrow> seal_command \<Rightarrow> ('t, seal_error, unit) on_tpm" where
  "command_program env index file_read (Rotate_key digest urandom) = ignore (rotate_program env index digest urandom)"
| "command_program env index (Inl e) command = tpm_raise e"
| "command_program env index (Inr contents) (Start_gateway digest seed urandom) = start_program env index digest (new_seed seed urandom) contents"
| "command_program env index (Inr None) command = tpm_raise Sealed_key_missing"
| "command_program env index (Inr (Some c)) (Reseal_held seed digest) = ignore (held_program env index c seed digest)"
| "command_program env index (Inr (Some c)) (Reseal_stored digest) = ignore (stored_program env index c digest)"

lemma start_runs_as:
  assumes "store_read (sd_file d) = Inr contents"
  shows "runs_as (open_sealed_key env index digest seed urandom w t d) (start_program env index digest (new_seed seed urandom) contents) t"
proof -
  obtain g t1 where g: "gate_handle (se_ops env) index t = (g, t1)" by fastforce
  obtain r2 t2 where 2: "provision_key env index digest (new_seed seed urandom) t1 = (r2, t2)" by fastforce
  show ?thesis
    using assms g 2
    by (cases g; cases contents)
      (auto simp: open_sealed_key_def start_program_def ignore_def runs_as_def tpm_bind_def tpm_raise_def tpm_return_def save_store_def
        new_seed_def Let_def store_write_def split: option.splits sum.splits prod.splits write_outcome.splits)
qed

lemma command_runs_as: "runs_as (run_command env index w command t d) (command_program env index (store_read (sd_file d)) command) t"
proof (cases command)
  case (Start_gateway digest seed urandom)
  show ?thesis
  proof (cases "store_read (sd_file d)")
    case (Inl e)
    then show ?thesis by (auto simp: Start_gateway open_sealed_key_def intro!: runs_as_no_result runs_as_raise)
  next
    case (Inr contents)
    then show ?thesis unfolding Start_gateway by (simp add: runs_as_no_result start_runs_as)
  qed
next
  case (Reseal_held seed digest)
  show ?thesis
  proof (cases "store_read (sd_file d)")
    case (Inr contents)
    then show ?thesis
      by (cases contents) (use Reseal_held in
        \<open>auto simp: reseal_held_key_def held_program_def [symmetric] intro: runs_as_raise runs_as_ignore runs_as_save\<close>)
  qed (simp add: Reseal_held reseal_held_key_def runs_as_raise)
next
  case (Reseal_stored digest)
  show ?thesis
  proof (cases "store_read (sd_file d)")
    case (Inr contents)
    then show ?thesis
      by (cases contents) (use Reseal_stored in
        \<open>auto simp: reseal_stored_key_def stored_program_def [symmetric] intro: runs_as_no_result runs_as_raise runs_as_ignore runs_as_save\<close>)
  qed (simp add: Reseal_stored reseal_stored_key_def runs_as_raise runs_as_no_result)
next
  case (Rotate_key digest urandom)
  then show ?thesis
    by (auto simp: rotate_sealed_key_def rotate_program_def [symmetric] intro!: runs_as_no_result runs_as_ignore runs_as_save)
qed

lemma closes_ignore: "closes env v m \<Longrightarrow> closes env v (ignore m)"
  unfolding ignore_def by (rule closes_bind) (auto intro: closes_keeps keeps_basic)

lemma closes_runs_as:
  assumes "runs_as (r, t', d') m t" "closes env v m" "\<not> gate_open env v t" "gate_open env v t'"
  shows "r = Inl Sealed_key_unavailable"
  using assms unfolding runs_as_def closes_def by fastforce

lemma closes_parts [closes_rules]:
  assumes "seal_contract (se_ops env) v index gate"
  shows "closes env v (unseal_stored env c blob gate index)" "closes env v (open_stored env index digest c gate)"
    "closes env v (provision_key env index digest seed)" "closes env v (rotation_gate env index)"
    "closes env v (seal (se_sha256 env) (se_ops env) seed digest index)" "closes env v (check_gate (se_sha256 env) (se_ops env) gate index)"
    "closes env v (gate_handle (se_ops env) index)"
proof -
  note frame = contract_frames(1) [OF assms]
  note rules = closes_gate [OF assms] closes_keeps [OF keeps_frame(3) [OF frame]] closes_keeps [OF keeps_frame(4) [OF frame]]
    closes_keeps [OF keeps_frame(5) [OF frame]] closes_keeps [OF seal_effect(1) [OF assms]] closes_keeps [OF keeps_basic(1)]
    closes_keeps [OF keeps_basic(2)] closes_keeps [OF keeps_basic(3)]
  show u: "closes env v (unseal_stored env c blob gate index)" for c blob
    unfolding unseal_stored_def by (auto intro!: closes_bind rules split: if_splits)
  show "closes env v (open_stored env index digest c gate)"
    unfolding open_stored_def by (auto intro!: closes_bind rules u split: option.splits)
  show "closes env v (provision_key env index digest seed)"
    unfolding provision_key_def by (intro closes_bind rules) (auto dest!: yields_gate(1) [OF assms] intro!: rules)
  show "closes env v (rotation_gate env index)"
    unfolding rotation_gate_def
    by (intro closes_bind rules) (auto dest!: yields_gate [OF assms] intro!: closes_bind rules split: option.splits)
qed (use contract_frames(1) [OF assms] in \<open>auto intro: closes_keeps keeps_frame seal_effect(1) [OF assms]\<close>)

lemma yields_rotation:
  assumes "seal_contract (se_ops env) v index gate"
  shows "yields (rotation_gate env index) h \<Longrightarrow> h = gate"
  by (auto simp: yields_def rotation_gate_def tpm_Inr split: option.splits if_splits dest!: yieldsI dest: yields_gate [OF assms])

lemma closes_command:
  assumes "seal_contract (se_ops env) v index gate"
  shows "closes env v (command_program env index file_read command)"
proof -
  note rules = closes_parts [OF assms] closes_keeps [OF keeps_basic(1)] closes_keeps [OF keeps_basic(2)] closes_keeps [OF keeps_basic(3)]
  have "closes env v (held_program env index c seed digest)" for c seed digest
    unfolding held_program_def by (auto intro!: closes_bind rules)
  moreover have "closes env v (stored_program env index c digest)" for c digest
    unfolding stored_program_def by (auto dest!: yields_gate(2) [OF assms] intro!: closes_bind rules split: option.splits)
  moreover have "closes env v (rotate_program env index digest urandom)" for digest urandom
    unfolding rotate_program_def by (auto dest!: yields_rotation [OF assms] intro!: closes_bind rules)
  moreover have "closes env v (start_program env index digest seed contents)" for digest seed contents
    unfolding start_program_def
    by (auto dest!: yields_gate(2) [OF assms] intro!: closes_bind rules closes_ignore split: option.splits)
  ultimately show ?thesis
    by (cases "(env, index, file_read, command)" rule: command_program.cases) (auto intro: closes_ignore rules)
qed

text \<open>C9: The gate is closed again. An operation on the sealed key that starts with the gate closed, or not defined, ends with it closed,
  whatever the TPM raised on the way: if the gate still holds a digest afterwards, the operation reported
  \<open>SEALED_KEY_UNAVAILABLE\<close> and nothing else.\<close>

theorem gate_closed_after_command:
  assumes "seal_contract (se_ops env) v index gate" "run_command env index w command t d = (r, t', d')"
    and "\<not> gate_open env v t"
  shows "\<not> gate_open env v t' \<or> r = Inl Sealed_key_unavailable"
proof -
  have "runs_as (r, t', d') (command_program env index (store_read (sd_file d)) command) t"
    using command_runs_as [of env index w command t d] assms(2) by simp
  from closes_runs_as [OF this closes_command [OF assms(1)] assms(3)] show ?thesis by blast
qed

section \<open>A key is sealed only to an approved digest\<close>

text \<open>The digests an operation approves, each for one public key. Starting approves its own digest where it mints the key.\<close>

fun approvals :: "'t seal_env \<Rightarrow> 't seal_view \<Rightarrow> seal_command \<Rightarrow> 't \<Rightarrow> sealed_dir \<Rightarrow> (bytes \<times> bytes) set" where
  "approvals env v (Start_gateway digest seed urandom) t d =
     (if sd_file d = No_file \<and> sv_gate v t = None then {(digest, se_public_of env (new_seed seed urandom))} else {})"
| "approvals env v (Reseal_held seed digest) t d = {(digest, se_public_of env seed)}"
| "approvals env v (Reseal_stored digest) t d =
     (case store_read (sd_file d) of Inr (Some c) \<Rightarrow> {(digest, sc_public_key c)} | _ \<Rightarrow> {})"
| "approvals env v (Rotate_key digest urandom) t d = {(digest, se_public_of env urandom)}"

text \<open>A blob that was made for one of the approved pairs.\<close>

definition approved_blob :: "'t seal_env \<Rightarrow> nat \<Rightarrow> (bytes \<times> bytes) set \<Rightarrow> bytes \<times> bytes \<Rightarrow> bool" where
  "approved_blob env index A q \<longleftrightarrow>
     (\<exists>digest. (digest, se_public_of env (snd q)) \<in> A \<and> policy_nv_digest (se_sha256 env) digest index = Some (fst q))"

lemma adds_mono: "adds v P m \<Longrightarrow> (\<And>q. P q \<Longrightarrow> Q q) \<Longrightarrow> adds v Q m"
  unfolding adds_def by blast

lemma adds_seal:
  assumes "seal_contract (se_ops env) v index gate" "(digest, se_public_of env seed) \<in> A"
  shows "adds v (approved_blob env index A) (seal (se_sha256 env) (se_ops env) seed digest index)"
  using seal_effect(2) [OF assms(1)] by (rule adds_mono) (use assms(2) in \<open>auto simp: approved_blob_def\<close>)

lemma unseal_stored_key: "yields (unseal_stored env c blob gate index) seed \<Longrightarrow> se_public_of env seed = sc_public_key c"
  by (auto simp: yields_def unseal_stored_def tpm_Inr ed25519_public_key_def split: if_splits)

lemma adds_quiet:
  assumes "seal_contract (se_ops env) v index gate"
  shows "adds v P (gate_handle (se_ops env) index)" "adds v P (gate_name (se_ops env) gate)"
    "adds v P (check_gate (se_sha256 env) (se_ops env) gate index)" "adds v P (define_gate (se_ops env) index)"
    "adds v P (write_gate (se_ops env) gate x)" "adds v P (unseal_stored env c blob gate index)" "adds v P (open_stored env index digest c gate)"
proof -
  note frame = contract_frames(2) [OF assms]
  note quiet = keeps_frame [OF frame] keeps_unseal [OF frame] contract_frames(4,5) [OF assms]
  show "adds v P (gate_handle (se_ops env) index)" "adds v P (gate_name (se_ops env) gate)" "adds v P (define_gate (se_ops env) index)"
    "adds v P (write_gate (se_ops env) gate x)"
    by (intro adds_keeps quiet)+
  show c: "adds v P (check_gate (se_sha256 env) (se_ops env) gate index)" by (intro adds_keeps quiet)
  have "keeps (sv_sealed v) (open_gate_and_unseal (se_sha256 env) (se_ops env) blob gate)" for blob
    unfolding open_gate_and_unseal_def by (intro keeps_rules quiet)
  then show u: "adds v P (unseal_stored env c blob gate index)" for blob
    unfolding unseal_stored_def by (intro adds_compose(1) adds_basic adds_keeps) (auto intro: keeps_basic)
  show "adds v P (open_stored env index digest c gate)"
    unfolding open_stored_def by (auto intro!: adds_rules c u split: option.splits)
qed

lemma adds_ignore: "adds v P m \<Longrightarrow> adds v P (ignore m)"
  unfolding ignore_def by (rule adds_compose(1)) (auto intro: adds_basic)

lemma adds_programs:
  assumes "seal_contract (se_ops env) v index gate"
  shows "(digest, se_public_of env seed) \<in> A \<Longrightarrow> adds v (approved_blob env index A) (held_program env index c seed digest)"
    "(digest, sc_public_key c) \<in> A \<Longrightarrow> adds v (approved_blob env index A) (stored_program env index c digest)"
    "(digest, se_public_of env seed) \<in> A \<Longrightarrow> adds v (approved_blob env index A) (rotate_program env index digest seed)"
    "(digest, se_public_of env seed) \<in> A \<Longrightarrow> adds v (approved_blob env index A) (provision_key env index digest seed)"
proof -
  note quiet = adds_quiet [OF assms] and sealing = adds_seal [OF assms]
  show "adds v (approved_blob env index A) (held_program env index c seed digest)" if "(digest, se_public_of env seed) \<in> A"
    unfolding held_program_def by (auto intro!: adds_rules sealing [OF that])
  show "adds v (approved_blob env index A) (stored_program env index c digest)" if "(digest, sc_public_key c) \<in> A"
    unfolding stored_program_def
    using that by (auto intro!: adds_rules quiet sealing dest!: yields_gate(2) [OF assms] unseal_stored_key split: option.splits)
  have rotation: "adds v P (rotation_gate env index)" for P
    unfolding rotation_gate_def
    by (auto intro!: adds_rules quiet dest!: yields_gate [OF assms] split: option.splits)
  show "adds v (approved_blob env index A) (rotate_program env index digest seed)" if "(digest, se_public_of env seed) \<in> A"
    unfolding rotate_program_def
    by (auto intro!: adds_rules quiet rotation sealing [OF that] dest!: yields_rotation [OF assms])
  show "adds v (approved_blob env index A) (provision_key env index digest seed)" if "(digest, se_public_of env seed) \<in> A"
    unfolding provision_key_def
    by (auto intro!: adds_rules quiet sealing [OF that] dest!: yields_gate(1) [OF assms])
qed

lemma store_read_None [simp]: "store_read f = Inr None \<longleftrightarrow> f = No_file"
  by (auto simp: store_read_def split: store_file.splits option.splits)

lemma store_read_No_file [simp]: "store_read No_file = Inr None"
  by simp

lemma start_adds:
  assumes "seal_contract (se_ops env) v index gate" "store_read (sd_file d) = Inr contents"
    and "start_program env index digest (new_seed seed urandom) contents t = (r, t')" "sv_sealed v t' b = Some q"
  shows "sv_sealed v t b = Some q \<or> approved_blob env index (approvals env v (Start_gateway digest seed urandom) t d) q"
proof -
  let ?A = "approvals env v (Start_gateway digest seed urandom) t d"
  obtain g t1 where g: "gate_handle (se_ops env) index t = (g, t1)" by fastforce
  have t1: "sv_sealed v t1 = sv_sealed v t" using keepsD [OF keeps_frame(3) [OF contract_frames(2) [OF assms(1)]] g] .
  show ?thesis
  proof (cases "\<exists>e. g = Inl e")
    case True
    then show ?thesis using assms(3,4) g t1 by (auto simp: start_program_def tpm_bind_def)
  next
    case False
    then obtain h where h: "g = Inr h" by (cases g) auto
    let ?m = "case (contents, h) of
         (None, None) \<Rightarrow> if length (new_seed seed urandom) \<noteq> SEED_SIZE then tpm_raise Seal_value_error
                          else ignore (provision_key env index digest (new_seed seed urandom))
       | (None, Some _) \<Rightarrow> tpm_raise Sealed_key_missing
       | (Some _, None) \<Rightarrow> tpm_raise Sealed_key_tpm_changed
       | (Some c, Some g) \<Rightarrow> ignore (open_stored env index digest c g)"
    have run: "?m t1 = (r, t')" using assms(3) g h by (simp add: start_program_def tpm_bind_def)
    have fresh: "contents = None \<Longrightarrow> h = None \<Longrightarrow> (digest, se_public_of env (new_seed seed urandom)) \<in> ?A"
      using assms(2) g h yields_gate(3) [OF assms(1)] by auto
    have "adds v (approved_blob env index ?A) ?m"
      using fresh yields_gate(2) [OF assms(1), of "the h"] yieldsI [of "gate_handle (se_ops env) index" t h t1] g h
      by (auto intro!: adds_basic adds_ignore adds_programs(4) [OF assms(1)] adds_quiet(7) [OF assms(1)] split: option.splits)
    from addsD [OF this run assms(4)] t1 show ?thesis by simp
  qed
qed

lemma adds_command:
  assumes "seal_contract (se_ops env) v index gate" "run_command env index w command t d = (r, t', d')"
    and "sv_sealed v t' b = Some q"
  shows "sv_sealed v t b = Some q \<or> approved_blob env index (approvals env v command t d) q"
proof -
  obtain r0 where run: "command_program env index (store_read (sd_file d)) command t = (r0, t')"
    using command_runs_as [of env index w command t d] assms(2) by (auto simp: runs_as_def)
  show ?thesis
  proof (cases "\<exists>contents digest seed urandom. store_read (sd_file d) = Inr contents \<and> command = Start_gateway digest seed urandom")
    case True
    then show ?thesis using start_adds [OF assms(1)] run assms(3) by fastforce
  next
    case False
    have "adds v (approved_blob env index (approvals env v command t d)) (command_program env index (store_read (sd_file d)) command)"
      using False
      by (cases "(env, index, store_read (sd_file d), command)" rule: command_program.cases)
        (auto intro!: adds_basic adds_ignore adds_programs [OF assms(1)] simp del: store_read_None dest: sym)
    from addsD [OF this run assms(3)] show ?thesis .
  qed
qed

text \<open>Operations on one TPM, with the digests they approved. In between anyone may replace the store, and other users of the TPM may do
  anything but make a blob.\<close>

inductive seal_world :: "'t seal_env \<Rightarrow> 't seal_view \<Rightarrow> nat \<Rightarrow> (bytes \<times> bytes) set \<Rightarrow> 't \<Rightarrow> sealed_dir \<Rightarrow> bool" for env v index where
  new_tpm: "sv_sealed v t = (\<lambda>_. None) \<Longrightarrow> seal_world env v index {} t d"
| command: "seal_world env v index A t d \<Longrightarrow> run_command env index w c t d = (r, t', d')
    \<Longrightarrow> seal_world env v index (A \<union> approvals env v c t d) t' d'"
| others: "seal_world env v index A t d \<Longrightarrow> sv_sealed v t' = sv_sealed v t \<Longrightarrow> seal_world env v index A t' d'"

lemma approved_blob_mono: "approved_blob env index A q \<Longrightarrow> A \<subseteq> B \<Longrightarrow> approved_blob env index B q"
  by (auto simp: approved_blob_def)

lemma sealed_are_approved:
  assumes "seal_world env v index A t d" "seal_contract (se_ops env) v index gate" "sv_sealed v t b = Some q"
  shows "approved_blob env index A q"
  using assms
proof (induction arbitrary: b q rule: seal_world.induct)
  case (command A t d w c r t' d')
  then show ?case using adds_command [OF command.prems(1) command.hyps(2) command.prems(2)] command.IH [OF command.prems(1)]
    by (metis approved_blob_mono Un_upper1 Un_upper2)
qed auto

lemma opened_blob:
  assumes "seal_contract (se_ops env) v index gate" "open_stored env index digest c gate t = (Inr k, t')"
  shows "\<exists>b policy. b \<in> set (sc_blobs c) \<and> sb_digest b = digest \<and> policy_nv_digest (se_sha256 env) digest index = Some policy
    \<and> sv_sealed v t (sb_private b, sb_public b) = Some (policy, ok_seed k) \<and> ok_public_key k = se_public_of env (ok_seed k)
    \<and> ok_public_key k = sc_public_key c \<and> \<not> ok_provisioned k \<and> length (ok_seed k) = 32"
proof -
  note frame = contract_frames(2) [OF assms(1)]
  from assms(2) obtain blob t1 t2 t3 where blob: "blob_for c digest = Some blob" "check_blob_policy env blob index = Inr ()"
    and g: "check_gate (se_sha256 env) (se_ops env) gate index t = (Inr (), t1)" "write_gate (se_ops env) gate (sb_digest blob) t1 = (Inr (), t2)"
      "unseal (se_ops env) blob gate t2 = (Inr (ok_seed k), t3)"
    and key: "se_public_of env (ok_seed k) = sc_public_key c" "ok_public_key k = sc_public_key c" "\<not> ok_provisioned k"
    by (auto simp: open_stored_def unseal_stored_def open_gate_and_unseal_def tpm_Inr ed25519_public_key_def split: option.splits if_splits)
  have "sv_sealed v t1 = sv_sealed v t" "sv_sealed v t2 = sv_sealed v t1"
    using keepsD [OF keeps_frame(5) [OF frame] g(1)] keepsD [OF contract_frames(5) [OF assms(1)] g(2)] .
  moreover have "blob \<in> set (sc_blobs c)" "sb_digest blob = digest" using blob(1) by (auto simp: blob_for_def find_Some_iff)
  moreover have "\<exists>policy. so_auth_policy (se_ops env) (sb_public blob) = Some policy \<and> policy_nv_digest (se_sha256 env) (sb_digest blob) index = Some policy"
    using blob(2) by (auto simp: check_blob_policy_def split: option.splits if_splits)
  ultimately show ?thesis using unseal_result [OF assms(1) g(3)] key by fastforce
qed

lemma open_cases:
  assumes "open_sealed_key env index digest seed urandom w t d = (r, t', d')"
  obtains (unread) e where "store_read (sd_file d) = Inl e" "r = Inl e" "t' = t" "d' = d"
  | (no_answer) e where "r = Inl e" "d' = d" "gate_handle (se_ops env) index t = (Inl e, t')"
  | (fresh) t1 where "sd_file d = No_file" "gate_handle (se_ops env) index t = (Inr None, t1)"
  | (missing) h where "sd_file d = No_file" "gate_handle (se_ops env) index t = (Inr (Some h), t')" "r = Inl Sealed_key_missing" "d' = d"
  | (changed) c where "store_read (sd_file d) = Inr (Some c)" "gate_handle (se_ops env) index t = (Inr None, t')" "r = Inl Sealed_key_tpm_changed" "d' = d"
  | (both) c h t1 where "store_read (sd_file d) = Inr (Some c)" "gate_handle (se_ops env) index t = (Inr (Some h), t1)"
      "open_stored env index digest c h t1 = (r, t')" "d' = d"
proof (cases "store_read (sd_file d)")
  case (Inr contents)
  obtain g t1 where g: "gate_handle (se_ops env) index t = (g, t1)" by fastforce
  show ?thesis
  proof (cases g)
    case (Inl e)
    then show ?thesis using assms Inr g by (intro no_answer) (simp_all add: open_sealed_key_def)
  next
    case (Inr gate)
    note gate = g [unfolded Inr] and read = \<open>store_read (sd_file d) = Inr contents\<close>
    show ?thesis
    proof (cases contents; cases gate)
      assume "contents = None" "gate = None"
      with gate read show thesis by (intro fresh) simp_all
    next
      fix h assume "contents = None" "gate = Some h"
      with gate read assms show thesis by (intro missing) (simp_all add: open_sealed_key_def)
    next
      fix c assume "contents = Some c" "gate = None"
      with gate read assms show thesis by (intro changed) (simp_all add: open_sealed_key_def)
    next
      fix c h assume "contents = Some c" "gate = Some h"
      with gate read assms show thesis by (intro both) (simp_all add: open_sealed_key_def split: prod.splits)
    qed
  qed
next
  case (Inl e)
  then show ?thesis using assms by (intro unread) (auto simp: open_sealed_key_def)
qed


text \<open>C11: A key is minted only where there is none. A start that provisions found neither a store nor a gate, and a start that finds
  either leaves the store and every sealed blob as they were: it returns the stored key, unsealed, or one of the errors.\<close>

theorem start_mints_only_when_fresh:
  assumes "seal_contract (se_ops env) v index gate" "open_sealed_key env index digest seed urandom w t d = (r, t', d')"
  shows "(sd_file d = No_file \<and> sv_gate v t = None) \<or>
    (d' = d \<and> sv_sealed v t' = sv_sealed v t \<and>
     (case r of Inl _ \<Rightarrow> True
      | Inr k \<Rightarrow> \<not> ok_provisioned k \<and> ok_public_key k = se_public_of env (ok_seed k)
          \<and> stored_public_key (sd_file d) = Inr (Some (ok_public_key k))))"
proof -
  note frame = contract_frames(2) [OF assms(1)]
  have quiet: "gate_handle (se_ops env) index t = (g, t1) \<Longrightarrow> sv_sealed v t1 = sv_sealed v t" for g t1
    using keepsD [OF keeps_frame(3) [OF frame]] .
  from assms(2) show ?thesis
  proof (cases rule: open_cases)
    case (fresh t1)
    then show ?thesis using yields_gate(3) [OF assms(1)] by blast
  next
    case (both c h t1)
    have h: "h = gate" using yields_gate(2) [OF assms(1)] both(2) by (auto simp: yields_def)
    have "keeps (sv_sealed v) (open_stored env index digest c gate)"
      using frame contract_frames(5) [OF assms(1)]
      unfolding open_stored_def unseal_stored_def open_gate_and_unseal_def
      by (auto intro!: keeps_rules split: option.splits)
    from keepsD [OF this] both(3) h quiet [OF both(2)] have "sv_sealed v t' = sv_sealed v t" by metis
    moreover have "\<not> ok_provisioned k \<and> ok_public_key k = se_public_of env (ok_seed k) \<and> ok_public_key k = sc_public_key c" if "r = Inr k" for k
      using opened_blob [OF assms(1)] both(3) h that by blast
    ultimately show ?thesis using both(1,4) by (auto simp: stored_public_key_def split: sum.splits)
  qed (use quiet in auto)
qed

section \<open>The key survives restarts\<close>

text \<open>A TPM that answers: every command succeeds where the specification lets it, a new blob is told apart from those before, and
  \<open>TPM2_PolicyNV\<close> extends the policy of its session.\<close>

definition seal_works :: "(bytes \<Rightarrow> bytes) \<Rightarrow> 't seal_ops \<Rightarrow> 't seal_view \<Rightarrow> nat \<Rightarrow> nat \<Rightarrow> bool" where
  "seal_works sha256 ops v index gate \<longleftrightarrow>
     (\<forall>t. sv_gate v t = None \<longrightarrow> (\<exists>x t'. so_from_public ops index t = (Inl x, t') \<and> tx_error x = Some TPM_RC_HANDLE))
   \<and> (\<forall>t. sv_gate v t \<noteq> None \<longrightarrow> (\<exists>t'. so_from_public ops index t = (Inr gate, t')))
   \<and> (\<forall>t n c. sv_gate v t = Some (n, c) \<longrightarrow> (\<exists>t'. so_read_public ops gate t = (Inr n, t')))
   \<and> (\<forall>t n. sv_gate v t = None \<longrightarrow> gate_nv_name sha256 index False = Some n \<longrightarrow>
        (\<exists>t'. so_define_space ops (gate_template index) t = (Inr gate, t') \<and> sv_gate v t' = Some (n, None)))
   \<and> (\<forall>t n c x w n'. sv_gate v t = Some (n, c) \<longrightarrow> gate_nv_name sha256 index w = Some n \<longrightarrow> gate_nv_name sha256 index True = Some n' \<longrightarrow>
        (\<exists>t'. so_nv_write ops gate x t = (Inr (), t') \<and> sv_gate v t' = Some (n', Some x)))
   \<and> (\<forall>t. \<exists>p t'. so_create_primary ops t = (Inr p, t'))
   \<and> (\<forall>t p k. \<exists>s t'. so_start_session ops p k t = (Inr s, t') \<and> (k = Policy_session \<longrightarrow> sv_session v t' s = Some (replicate 32 (CHR 0x00))))
   \<and> (\<forall>t s. \<exists>t'. so_set_attributes ops s t = (Inr (), t') \<and> sv_session v t' = sv_session v t)
   \<and> (\<forall>t p s x y. \<exists>b t'. so_create ops p s x y t = (Inr b, t') \<and> sv_sealed v t' = (sv_sealed v t)(b \<mapsto> (y, x)) \<and> sv_sealed v t b = None)
   \<and> (\<forall>t p a b. sv_sealed v t (a, b) \<noteq> None \<longrightarrow> so_private_ok ops a \<and> (\<exists>h t'. so_load ops p a b t = (Inr h, t')))
   \<and> (\<forall>t s x n q. sv_gate v t = Some (n, Some x) \<longrightarrow> sv_session v t s = Some q \<longrightarrow>
        (\<exists>t'. so_policy_nv ops gate s x t = (Inr (), t') \<and> sv_session v t' s = Some (sha256 (policy_text sha256 q x n))))
   \<and> (\<forall>t h s p x. sv_loaded v t h = Some (p, x) \<longrightarrow> sv_session v t s = Some p \<longrightarrow> (\<exists>t'. so_unseal ops h s t = (Inr x, t')))
   \<and> (\<forall>t h. \<exists>t'. so_flush ops h t = (Inr (), t'))"

lemma works_parts:
  assumes "seal_works sha256 ops v index gate"
  shows "\<forall>t. \<exists>p t'. so_create_primary ops t = (Inr p, t')"
    "\<forall>t p k. \<exists>s t'. so_start_session ops p k t = (Inr s, t') \<and> (k = Policy_session \<longrightarrow> sv_session v t' s = Some (replicate 32 (CHR 0x00)))"
    "\<forall>t s. \<exists>t'. so_set_attributes ops s t = (Inr (), t') \<and> sv_session v t' = sv_session v t"
    "\<forall>t p s x y. \<exists>b t'. so_create ops p s x y t = (Inr b, t') \<and> sv_sealed v t' = (sv_sealed v t)(b \<mapsto> (y, x)) \<and> sv_sealed v t b = None"
    "\<forall>t p a b. sv_sealed v t (a, b) \<noteq> None \<longrightarrow> so_private_ok ops a \<and> (\<exists>h t'. so_load ops p a b t = (Inr h, t'))"
    "\<forall>t s x n q. sv_gate v t = Some (n, Some x) \<longrightarrow> sv_session v t s = Some q \<longrightarrow>
        (\<exists>t'. so_policy_nv ops gate s x t = (Inr (), t') \<and> sv_session v t' s = Some (sha256 (policy_text sha256 q x n)))"
    "\<forall>t h s p x. sv_loaded v t h = Some (p, x) \<longrightarrow> sv_session v t s = Some p \<longrightarrow> (\<exists>t'. so_unseal ops h s t = (Inr x, t'))"
    "\<forall>t h. \<exists>t'. so_flush ops h t = (Inr (), t')"
  using assms unfolding seal_works_def by - (elim conjE, assumption)+

lemma works_gate_parts:
  assumes "seal_works sha256 ops v index gate"
  shows "\<forall>t. sv_gate v t = None \<longrightarrow> (\<exists>x t'. so_from_public ops index t = (Inl x, t') \<and> tx_error x = Some TPM_RC_HANDLE)"
    "\<forall>t. sv_gate v t \<noteq> None \<longrightarrow> (\<exists>t'. so_from_public ops index t = (Inr gate, t'))"
    "\<forall>t n c. sv_gate v t = Some (n, c) \<longrightarrow> (\<exists>t'. so_read_public ops gate t = (Inr n, t'))"
    "\<forall>t n. sv_gate v t = None \<longrightarrow> gate_nv_name sha256 index False = Some n \<longrightarrow>
        (\<exists>t'. so_define_space ops (gate_template index) t = (Inr gate, t') \<and> sv_gate v t' = Some (n, None))"
    "\<forall>t n c x w n'. sv_gate v t = Some (n, c) \<longrightarrow> gate_nv_name sha256 index w = Some n \<longrightarrow> gate_nv_name sha256 index True = Some n' \<longrightarrow>
        (\<exists>t'. so_nv_write ops gate x t = (Inr (), t') \<and> sv_gate v t' = Some (n', Some x))"
  using assms unfolding seal_works_def by - (elim conjE, assumption)+

lemma works_gate:
  assumes "seal_works sha256 ops v index gate"
  shows "sv_gate v t = None \<Longrightarrow> \<exists>t'. gate_handle ops index t = (Inr None, t')"
    "sv_gate v t \<noteq> None \<Longrightarrow> \<exists>t'. gate_handle ops index t = (Inr (Some gate), t')"
    "sv_gate v t = Some (n, c) \<Longrightarrow> gate_nv_name sha256 index True = Some n \<Longrightarrow> \<exists>t'. check_gate sha256 ops gate index t = (Inr (), t')"
    "sv_gate v t = None \<Longrightarrow> gate_nv_name sha256 index False = Some n \<Longrightarrow> \<exists>t'. define_gate ops index t = (Inr gate, t') \<and> sv_gate v t' = Some (n, None)"
    "sv_gate v t = Some (m, c) \<Longrightarrow> gate_nv_name sha256 index w = Some m \<Longrightarrow> gate_nv_name sha256 index True = Some n \<Longrightarrow>
       \<exists>t'. write_gate ops gate x t = (Inr (), t') \<and> sv_gate v t' = Some (n, Some x)"
proof -
  note works = works_gate_parts [OF assms]
  show "\<exists>t'. gate_handle ops index t = (Inr None, t')" if g: "sv_gate v t = None"
  proof -
    obtain x t' where "so_from_public ops index t = (Inl x, t')" "tx_error x = Some TPM_RC_HANDLE" using works(1) g by blast
    then show ?thesis by (simp add: gate_handle_def)
  qed
  show "\<exists>t'. gate_handle ops index t = (Inr (Some gate), t')" if g: "sv_gate v t \<noteq> None"
  proof -
    obtain t' where "so_from_public ops index t = (Inr gate, t')" using works(2) g by blast
    then show ?thesis by (simp add: gate_handle_def)
  qed
  show "\<exists>t'. check_gate sha256 ops gate index t = (Inr (), t')" if g: "sv_gate v t = Some (n, c)" "gate_nv_name sha256 index True = Some n"
  proof -
    obtain t' where "so_read_public ops gate t = (Inr n, t')" using works(3) g(1) by blast
    with g(2) show ?thesis by (auto simp: check_gate_def gate_name_def tpm_bind_def tpm_catch_def tpm_return_def)
  qed
  show "\<exists>t'. define_gate ops index t = (Inr gate, t') \<and> sv_gate v t' = Some (n, None)" if g: "sv_gate v t = None" "gate_nv_name sha256 index False = Some n"
  proof -
    obtain t' where "so_define_space ops (gate_template index) t = (Inr gate, t')" "sv_gate v t' = Some (n, None)" using works(4) g by blast
    then show ?thesis by (auto simp: define_gate_def tpm_catch_def)
  qed
  show "\<exists>t'. write_gate ops gate x t = (Inr (), t') \<and> sv_gate v t' = Some (n, Some x)"
    if g: "sv_gate v t = Some (m, c)" "gate_nv_name sha256 index w = Some m" "gate_nv_name sha256 index True = Some n"
  proof -
    obtain t' where "so_nv_write ops gate x t = (Inr (), t')" "sv_gate v t' = Some (n, Some x)" using works(5) g by blast
    then show ?thesis by (auto simp: write_gate_def tpm_catch_def)
  qed
qed

lemma works_session:
  assumes "seal_works sha256 ops v index gate"
  shows "\<exists>p t'. storage_parent ops t = (Inr p, t')" "\<exists>t'. flush ops h t = (Inr (), t')"
    "\<exists>s t'. salted_session ops p k t = (Inr s, t') \<and> (k = Policy_session \<longrightarrow> sv_session v t' s = Some (replicate 32 (CHR 0x00)))"
proof -
  note works = works_parts [OF assms]
  obtain q t' where "so_create_primary ops t = (Inr q, t')" using works(1) by blast
  then show "\<exists>p t'. storage_parent ops t = (Inr p, t')" by (auto simp: storage_parent_def tpm_catch_def)
  obtain t' where "so_flush ops h t = (Inr (), t')" using works(8) by blast
  then show "\<exists>t'. flush ops h t = (Inr (), t')" by (auto simp: flush_def tpm_catch_def)
  obtain s t1 where s: "so_start_session ops p k t = (Inr s, t1)" "k = Policy_session \<longrightarrow> sv_session v t1 s = Some (replicate 32 (CHR 0x00))"
    using works(2) by blast
  obtain t2 where "so_set_attributes ops s t1 = (Inr (), t2)" "sv_session v t2 = sv_session v t1" using works(3) by blast
  with s show "\<exists>s t'. salted_session ops p k t = (Inr s, t') \<and> (k = Policy_session \<longrightarrow> sv_session v t' s = Some (replicate 32 (CHR 0x00)))"
    by (auto simp: salted_session_def tpm_bind_def tpm_catch_def tpm_return_def)
qed

lemma works_seal:
  assumes "seal_contract ops v index gate" "seal_works sha256 ops v index gate" "policy_nv_digest sha256 digest index = Some policy"
  shows "\<exists>b t'. seal sha256 ops seed digest index t = (Inr b, t') \<and> sb_digest b = digest \<and> sv_gate v t' = sv_gate v t
    \<and> sv_sealed v t' = (sv_sealed v t)((sb_private b, sb_public b) \<mapsto> (policy, seed)) \<and> sv_sealed v t (sb_private b, sb_public b) = None"
proof -
  note frame = contract_frames(2) [OF assms(1)]
  obtain p t1 where 1: "storage_parent ops t = (Inr p, t1)" using works_session(1) [OF assms(2)] by blast
  obtain s t2 where 2: "salted_session ops p Hmac_session t1 = (Inr s, t2)" using works_session(3) [OF assms(2)] by blast
  obtain b t3 where 3: "so_create ops p s seed policy t2 = (Inr b, t3)" "sv_sealed v t3 = (sv_sealed v t2)(b \<mapsto> (policy, seed))" "sv_sealed v t2 b = None"
    using works_parts(4) [OF assms(2)] by blast
  obtain t4 where 4: "flush ops s t3 = (Inr (), t4)" using works_session(2) [OF assms(2)] by blast
  obtain t5 where 5: "flush ops p t4 = (Inr (), t5)" using works_session(2) [OF assms(2)] by blast
  have "sv_sealed v t1 = sv_sealed v t" "sv_sealed v t2 = sv_sealed v t1" "sv_sealed v t4 = sv_sealed v t3" "sv_sealed v t5 = sv_sealed v t4"
    using keepsD [OF keeps_frame(1) [OF frame] 1] keepsD [OF keeps_frame(2) [OF frame] 2] keepsD [OF keeps_frame(6) [OF frame] 4]
      keepsD [OF keeps_frame(6) [OF frame] 5] .
  moreover have run: "seal sha256 ops seed digest index t = (Inr \<lparr>sb_digest = digest, sb_private = fst b, sb_public = snd b\<rparr>, t5)"
    using 1 2 3 4 5 assms(3) by (simp add: seal_def tpm_bind_def tpm_finally_def tpm_catch_def tpm_return_def split: prod.splits)
  ultimately show ?thesis using 3 keepsD [OF seal_effect(1) [OF assms(1)] run] by simp
qed

lemma works_unseal:
  assumes "seal_contract ops v index gate" "seal_works sha256 ops v index gate"
    and "gate_nv_name sha256 index True = Some name" "sv_gate v t = Some (name, Some (sb_digest blob))"
    and "policy_nv_digest sha256 (sb_digest blob) index = Some policy"
    and "sv_sealed v t (sb_private blob, sb_public blob) = Some (policy, seed)" "length seed = 32"
  shows "\<exists>t'. unseal ops blob gate t = (Inr seed, t')"
proof -
  note frames = contract_frames(1,2) [OF assms(1)] and works = works_parts [OF assms(2)]
  obtain p t1 where 1: "storage_parent ops t = (Inr p, t1)" using works_session(1) [OF assms(2)] by blast
  have v1: "sv_sealed v t1 = sv_sealed v t" "sv_gate v t1 = sv_gate v t"
    using keepsD [OF keeps_frame(1) [OF frames(2)] 1] keepsD [OF keeps_frame(1) [OF frames(1)] 1] .
  have ok: "so_private_ok ops (sb_private blob)" "so_auth_policy ops (sb_public blob) = Some policy"
    using works(5) assms(6) contract_loaded(6) [OF assms(1,6)] by blast+
  obtain h t2 where 2: "so_load ops p (sb_private blob) (sb_public blob) t1 = (Inr h, t2)" using works(5) assms(6) v1(1) by (metis option.distinct(1))
  have v2: "sv_loaded v t2 h = Some (policy, seed)" "sv_gate v t2 = sv_gate v t1"
    using contract_loaded(4) [OF assms(1) 2] assms(6) v1 keepsD [of "sv_gate v" "so_load ops p (sb_private blob) (sb_public blob)", OF _ 2] frames(1)
    by (auto simp: seal_frame_def)
  obtain s t3 where 3: "salted_session ops p Policy_session t2 = (Inr s, t3)" "sv_session v t3 s = Some (replicate 32 (CHR 0x00))"
    using works_session(3) [OF assms(2)] by blast
  have "keeps (sv_loaded v) (salted_session ops p Policy_session)" "keeps (sv_gate v) (salted_session ops p Policy_session)"
    unfolding salted_session_def using frames(1) by (auto simp: seal_frame_def intro!: keeps_rules contract_loaded [OF assms(1)])
  then have v3: "sv_loaded v t3 h = Some (policy, seed)" "sv_gate v t3 = Some (name, Some (sb_digest blob))"
    using keepsD [of "sv_loaded v" "salted_session ops p Policy_session", OF _ 3(1)] keepsD [of "sv_gate v" "salted_session ops p Policy_session", OF _ 3(1)]
      v2 v1 assms(4) by simp_all
  obtain t4 where 4: "so_policy_nv ops gate s (sb_digest blob) t3 = (Inr (), t4)"
      "sv_session v t4 s = Some (sha256 (policy_text sha256 (replicate 32 (CHR 0x00)) (sb_digest blob) name))"
    using works(6) v3(2) 3(2) by blast
  have p: "policy = sha256 (policy_text sha256 (replicate 32 (CHR 0x00)) (sb_digest blob) name)"
    using assms(3,5) by (auto simp: policy_nv_digest_def split: if_splits)
  have "sv_loaded v t4 h = Some (policy, seed)" using keepsD [OF contract_loaded(3) [OF assms(1)] 4(1)] v3(1) by simp
  then obtain t5 where 5: "so_unseal ops h s t4 = (Inr seed, t5)" using works(7) 4(2) p by blast
  obtain t6 where 6: "flush ops s t5 = (Inr (), t6)" using works_session(2) [OF assms(2)] by blast
  obtain t7 where 7: "flush ops h t6 = (Inr (), t7)" using works_session(2) [OF assms(2)] by blast
  obtain t8 where 8: "flush ops p t7 = (Inr (), t8)" using works_session(2) [OF assms(2)] by blast
  show ?thesis
    using 1 2 3(1) 4(1) 5 6 7 8 ok assms(7)
    by (simp add: unseal_def tpm_bind_def tpm_finally_def tpm_catch_def tpm_return_def SEED_SIZE_def)
qed

text \<open>The key is \<open>seed\<close> and the store has a blob for each of \<open>digests\<close>.\<close>

definition key_at :: "'t seal_env \<Rightarrow> 't seal_view \<Rightarrow> nat \<Rightarrow> 't \<Rightarrow> sealed_dir \<Rightarrow> bytes \<Rightarrow> bytes list \<Rightarrow> bool" where
  "key_at env v index t d seed digests \<longleftrightarrow>
     (\<exists>c name x. store_read (sd_file d) = Inr (Some c) \<and> sc_gate_index c = int index \<and> sc_public_key c = se_public_of env seed
        \<and> map sb_digest (sc_blobs c) = digests \<and> gate_nv_name (se_sha256 env) index True = Some name
        \<and> sv_gate v t = Some (name, Some x) \<and> length seed = 32
        \<and> (\<forall>b\<in>set (sc_blobs c). \<exists>policy. policy_nv_digest (se_sha256 env) (sb_digest b) index = Some policy
             \<and> sv_sealed v t (sb_private b, sb_public b) = Some (policy, seed)))"

lemma works_unseal_stored:
  assumes "seal_contract (se_ops env) v index gate" "seal_works (se_sha256 env) (se_ops env) v index gate"
    and "gate_nv_name (se_sha256 env) index True = Some name" "sv_gate v t = Some (name, Some x)"
    and "policy_nv_digest (se_sha256 env) (sb_digest b) index = Some policy"
    and "sv_sealed v t (sb_private b, sb_public b) = Some (policy, seed)" "length seed = 32" "sc_public_key c = se_public_of env seed"
  shows "\<exists>t'. unseal_stored env c b gate index t = (Inr seed, t') \<and> sv_gate v t' = Some (name, Some (GATE_SENTINEL (se_sha256 env)))
    \<and> sv_sealed v t' = sv_sealed v t"
proof -
  note frame = contract_frames [OF assms(1)]
  obtain t1 where 1: "write_gate (se_ops env) gate (sb_digest b) t = (Inr (), t1)" "sv_gate v t1 = Some (name, Some (sb_digest b))"
    using works_gate(5) [OF assms(2,4,3,3)] by blast
  have s1: "sv_sealed v t1 = sv_sealed v t" using keepsD [OF frame(5) 1(1)] .
  obtain t2 where 2: "unseal (se_ops env) b gate t1 = (Inr seed, t2)"
    using works_unseal [OF assms(1,2,3) 1(2) assms(5)] s1 assms(6,7) by auto
  have g2: "sv_gate v t2 = sv_gate v t1" "sv_sealed v t2 = sv_sealed v t1"
    using keepsD [OF keeps_unseal [OF frame(1)] 2] keepsD [OF keeps_unseal [OF frame(2)] 2] .
  obtain t3 where 3: "write_gate (se_ops env) gate (GATE_SENTINEL (se_sha256 env)) t2 = (Inr (), t3)"
      "sv_gate v t3 = Some (name, Some (GATE_SENTINEL (se_sha256 env)))"
    using works_gate(5) [OF assms(2) _ assms(3) assms(3)] g2(1) 1(2) by metis
  have "check_blob_policy env b index = Inr ()"
    using contract_loaded(6) [OF assms(1,6)] assms(5) by (simp add: check_blob_policy_def)
  with 1 2 3 s1 g2 keepsD [OF frame(5) 3(1)] assms(7,8) show ?thesis
    by (simp add: unseal_stored_def open_gate_and_unseal_def tpm_bind_def tpm_finally_def no_tpm_def tpm_return_def ed25519_public_key_def)
qed

lemma start_at:
  assumes "seal_contract (se_ops env) v index gate" "seal_works (se_sha256 env) (se_ops env) v index gate"
    and "key_at env v index t d seed digests" "digest \<in> set digests"
  shows "\<exists>t'. open_sealed_key env index digest s u w t d
      = (Inr \<lparr>ok_seed = seed, ok_public_key = se_public_of env seed, ok_provisioned = False\<rparr>, t', d) \<and> key_at env v index t' d seed digests"
proof -
  note frame = contract_frames [OF assms(1)]
  from assms(3) obtain c name x where c: "store_read (sd_file d) = Inr (Some c)" "sc_gate_index c = int index" "sc_public_key c = se_public_of env seed"
      "map sb_digest (sc_blobs c) = digests" "gate_nv_name (se_sha256 env) index True = Some name" "sv_gate v t = Some (name, Some x)" "length seed = 32"
    and blobs: "\<forall>b\<in>set (sc_blobs c). \<exists>policy. policy_nv_digest (se_sha256 env) (sb_digest b) index = Some policy
             \<and> sv_sealed v t (sb_private b, sb_public b) = Some (policy, seed)"
    unfolding key_at_def by blast
  have "blob_for c digest \<noteq> None" using assms(4) c(4) by (auto simp: blob_for_def find_None_iff)
  then obtain b where b: "blob_for c digest = Some b" by blast
  then have b': "b \<in> set (sc_blobs c)" "sb_digest b = digest" by (auto simp: blob_for_def find_Some_iff)
  obtain t1 where 1: "gate_handle (se_ops env) index t = (Inr (Some gate), t1)" using works_gate(2) [OF assms(2)] c(6) by blast
  have v1: "sv_gate v t1 = sv_gate v t" "sv_sealed v t1 = sv_sealed v t"
    using keepsD [OF keeps_frame(3) [OF frame(1)] 1] keepsD [OF keeps_frame(3) [OF frame(2)] 1] .
  obtain t2 where 2: "check_gate (se_sha256 env) (se_ops env) gate index t1 = (Inr (), t2)"
    using works_gate(3) [OF assms(2) _ c(5)] v1(1) c(6) by metis
  have v2: "sv_gate v t2 = Some (name, Some x)" "sv_sealed v t2 = sv_sealed v t"
    using keepsD [OF keeps_frame(5) [OF frame(1)] 2] keepsD [OF keeps_frame(5) [OF frame(2)] 2] v1 c(6) by simp_all
  obtain policy where p: "policy_nv_digest (se_sha256 env) (sb_digest b) index = Some policy"
      "sv_sealed v t2 (sb_private b, sb_public b) = Some (policy, seed)"
    using blobs b'(1) v2(2) by auto
  obtain t3 where 3: "unseal_stored env c b gate index t2 = (Inr seed, t3)" "sv_gate v t3 = Some (name, Some (GATE_SENTINEL (se_sha256 env)))"
      "sv_sealed v t3 = sv_sealed v t2"
    using works_unseal_stored [OF assms(1,2) c(5) v2(1) p c(7,3)] by blast
  have "open_stored env index digest c gate t1 = (Inr \<lparr>ok_seed = seed, ok_public_key = se_public_of env seed, ok_provisioned = False\<rparr>, t3)"
    using 2 3(1) b c(2,3) by (simp add: open_stored_def tpm_bind_def no_tpm_def tpm_return_def check_store_gate_def)
  moreover have "key_at env v index t3 d seed digests"
    unfolding key_at_def using c 3(2,3) v2(2) blobs by auto
  ultimately show ?thesis using 1 c(1) by (simp add: open_sealed_key_def)
qed

lemma range_names: "handle_range index \<Longrightarrow> \<exists>n. gate_nv_name sha256 index w = Some n"
  by (simp add: handle_range_def gate_nv_name_def gate_nv_public_bytes_def)

lemma policy_defined: "handle_range index \<Longrightarrow> length digest = 32 \<Longrightarrow> \<exists>p. policy_nv_digest sha256 digest index = Some p"
  using range_names [of index sha256 True] by (auto simp: policy_nv_digest_def GATE_SIZE_def)

lemma provision_at:
  assumes "seal_contract (se_ops env) v index gate" "seal_works (se_sha256 env) (se_ops env) v index gate"
    and "handle_range index" "length digest = 32" "length seed = 32" "length (se_public_of env seed) = 32"
    and "sv_gate v t = None" "sd_file d = No_file"
  shows "\<exists>t' d'. open_sealed_key env index digest (Some seed) u Write_done t d
      = (Inr \<lparr>ok_seed = seed, ok_public_key = se_public_of env seed, ok_provisioned = True\<rparr>, t', d') \<and> key_at env v index t' d' seed [digest]"
proof -
  note frame = contract_frames [OF assms(1)]
  obtain name unwritten policy where n: "gate_nv_name (se_sha256 env) index True = Some name" "gate_nv_name (se_sha256 env) index False = Some unwritten"
      "policy_nv_digest (se_sha256 env) digest index = Some policy"
    using range_names [OF assms(3)] policy_defined [OF assms(3,4)] by metis
  obtain t1 where 1: "gate_handle (se_ops env) index t = (Inr None, t1)" using works_gate(1) [OF assms(2,7)] by blast
  have g1: "sv_gate v t1 = None" using keepsD [OF keeps_frame(3) [OF frame(1)] 1] assms(7) by simp
  obtain t2 where 2: "define_gate (se_ops env) index t1 = (Inr gate, t2)" "sv_gate v t2 = Some (unwritten, None)"
    using works_gate(4) [OF assms(2) g1 n(2)] by blast
  obtain t3 where 3: "write_gate (se_ops env) gate (GATE_SENTINEL (se_sha256 env)) t2 = (Inr (), t3)"
      "sv_gate v t3 = Some (name, Some (GATE_SENTINEL (se_sha256 env)))"
    using works_gate(5) [OF assms(2) 2(2) n(2,1)] by blast
  obtain t4 where 4: "check_gate (se_sha256 env) (se_ops env) gate index t3 = (Inr (), t4)"
    using works_gate(3) [OF assms(2) 3(2) n(1)] by blast
  have g4: "sv_gate v t4 = sv_gate v t3" using keepsD [OF keeps_frame(5) [OF frame(1)] 4] .
  obtain b t5 where 5: "seal (se_sha256 env) (se_ops env) seed digest index t4 = (Inr b, t5)" "sb_digest b = digest" "sv_gate v t5 = sv_gate v t4"
      "sv_sealed v t5 = (sv_sealed v t4)((sb_private b, sb_public b) \<mapsto> (policy, seed))"
    using works_seal [OF assms(1,2) n(3)] by blast
  let ?c = "\<lparr>sc_gate_index = int index, sc_public_key = se_public_of env seed, sc_blobs = [b]\<rparr>"
  have "provision_key env index digest seed t1 = (Inr ?c, t5)"
    using 2 3 4 5 assms(5) by (simp add: provision_key_def tpm_bind_def no_tpm_def tpm_return_def ed25519_public_key_def)
  moreover have "store_read (File_json (store_payload ?c)) = Inr (Some ?c)"
    by (rule store_round_trip [of _ index]) (use assms in simp_all)
  then have "key_at env v index t5 (d\<lparr>sd_file := File_json (store_payload ?c)\<rparr>) seed [digest]"
    unfolding key_at_def using 5 g4 3(2) n assms(5) by auto
  ultimately show ?thesis
    using 1 assms(5,8) by (simp add: open_sealed_key_def save_store_def store_write_def SEED_SIZE_def)
qed

lemma reseal_at:
  assumes "seal_contract (se_ops env) v index gate" "seal_works (se_sha256 env) (se_ops env) v index gate"
    and "handle_range index" "length digest = 32" "key_at env v index t d seed digests"
  shows "\<exists>t' d'. reseal_stored_key env index digest Write_done t d = (Inr (se_public_of env seed), t', d')
    \<and> key_at env v index t' d' seed (last_n MAX_BLOBS (filter (\<lambda>g. g \<noteq> digest) digests @ [digest]))"
proof -
  note frame = contract_frames [OF assms(1)]
  obtain policy' where pol: "policy_nv_digest (se_sha256 env) digest index = Some policy'" using policy_defined [OF assms(3,4)] by blast
  from assms(5) obtain c name x where c: "store_read (sd_file d) = Inr (Some c)" "sc_gate_index c = int index" "sc_public_key c = se_public_of env seed"
      "map sb_digest (sc_blobs c) = digests" "gate_nv_name (se_sha256 env) index True = Some name" "sv_gate v t = Some (name, Some x)" "length seed = 32"
    and blobs: "\<forall>b\<in>set (sc_blobs c). \<exists>policy. policy_nv_digest (se_sha256 env) (sb_digest b) index = Some policy
             \<and> sv_sealed v t (sb_private b, sb_public b) = Some (policy, seed)"
    unfolding key_at_def by blast
  have ne: "sc_blobs c \<noteq> []" "length (sc_public_key c) = 32" using c(1) by (auto simp: store_read_def split: store_file.splits option.splits if_splits)
  obtain t1 where 1: "gate_handle (se_ops env) index t = (Inr (Some gate), t1)" using works_gate(2) [OF assms(2)] c(6) by blast
  have v1: "sv_gate v t1 = sv_gate v t" "sv_sealed v t1 = sv_sealed v t"
    using keepsD [OF keeps_frame(3) [OF frame(1)] 1] keepsD [OF keeps_frame(3) [OF frame(2)] 1] .
  obtain t2 where 2: "check_gate (se_sha256 env) (se_ops env) gate index t1 = (Inr (), t2)"
    using works_gate(3) [OF assms(2) _ c(5)] v1(1) c(6) by metis
  have v2: "sv_gate v t2 = Some (name, Some x)" "sv_sealed v t2 = sv_sealed v t"
    using keepsD [OF keeps_frame(5) [OF frame(1)] 2] keepsD [OF keeps_frame(5) [OF frame(2)] 2] v1 c(6) by simp_all
  obtain policy where p: "policy_nv_digest (se_sha256 env) (sb_digest (last (sc_blobs c))) index = Some policy"
      "sv_sealed v t2 (sb_private (last (sc_blobs c)), sb_public (last (sc_blobs c))) = Some (policy, seed)"
    using blobs ne(1) v2(2) by (metis last_in_set)
  obtain t3 where 3: "unseal_stored env c (last (sc_blobs c)) gate index t2 = (Inr seed, t3)"
      "sv_gate v t3 = Some (name, Some (GATE_SENTINEL (se_sha256 env)))" "sv_sealed v t3 = sv_sealed v t2"
    using works_unseal_stored [OF assms(1,2) c(5) v2(1) p c(7,3)] by blast
  obtain b t4 where 4: "seal (se_sha256 env) (se_ops env) seed digest index t3 = (Inr b, t4)" "sb_digest b = digest" "sv_gate v t4 = sv_gate v t3"
      "sv_sealed v t4 = (sv_sealed v t3)((sb_private b, sb_public b) \<mapsto> (policy', seed))" "sv_sealed v t3 (sb_private b, sb_public b) = None"
    using works_seal [OF assms(1,2) pol] by blast
  let ?c = "with_blob c b"
  have c': "sc_gate_index ?c = int index" "sc_public_key ?c = se_public_of env seed"
      "map sb_digest (sc_blobs ?c) = last_n MAX_BLOBS (filter (\<lambda>g. g \<noteq> digest) digests @ [digest])"
      "set (sc_blobs ?c) \<subseteq> insert b (set (sc_blobs c))" "sc_blobs ?c \<noteq> []"
    using c 4(2) by (auto simp: with_blob_def last_n_def MAX_BLOBS_def drop_map filter_map comp_def dest: in_set_dropD)
  have "store_read (File_json (store_payload ?c)) = Inr (Some ?c)"
    by (rule store_round_trip [of _ index]) (use assms(3) c' ne(2) c(3) in simp_all)
  moreover have "\<exists>policy. policy_nv_digest (se_sha256 env) (sb_digest a) index = Some policy \<and> sv_sealed v t4 (sb_private a, sb_public a) = Some (policy, seed)"
    if "a \<in> set (sc_blobs ?c)" for a
  proof (cases "a = b")
    case False
    with that c'(4) have "a \<in> set (sc_blobs c)" by blast
    with blobs 4(4,5) 3(3) v2(2) show ?thesis by fastforce
  qed (use 4(2,4) pol in auto)
  ultimately have "key_at env v index t4 (d\<lparr>sd_file := File_json (store_payload ?c)\<rparr>) seed (last_n MAX_BLOBS (filter (\<lambda>g. g \<noteq> digest) digests @ [digest]))"
    unfolding key_at_def using c' c(5,7) 3(2) 4(3) by auto
  moreover have "reseal_stored_key env index digest Write_done t d = (Inr (se_public_of env seed), t4, d\<lparr>sd_file := File_json (store_payload ?c)\<rparr>)"
    using 1 2 3(1) 4(1) c(1,2) c'(2) by (simp add: reseal_stored_key_def save_store_def store_write_def tpm_bind_def no_tpm_def tpm_return_def check_store_gate_def)
  ultimately show ?thesis by blast
qed

text \<open>C10: The key survives restarts and an upgrade. On a TPM that works, a first start mints the key it was given; a restart under the same digest
  unseals the same key; after resealing to the digest of a new build, the new build and the old one both unseal that key, so that a
  rollback still starts.\<close>

theorem sealed_key_survives_upgrade:
  assumes "seal_contract (se_ops env) v index gate" "seal_works (se_sha256 env) (se_ops env) v index gate"
    and "handle_range index" "length digest = 32" "length digest' = 32" "digest \<noteq> digest'" "length seed = 32" "length (se_public_of env seed) = 32"
    and "sv_gate v t = None" "sd_file d = No_file"
  shows "\<exists>t1 d1 t2 t3 d3. open_sealed_key env index digest (Some seed) u Write_done t d
      = (Inr \<lparr>ok_seed = seed, ok_public_key = se_public_of env seed, ok_provisioned = True\<rparr>, t1, d1)
    \<and> open_sealed_key env index digest s u' w t1 d1 = (Inr \<lparr>ok_seed = seed, ok_public_key = se_public_of env seed, ok_provisioned = False\<rparr>, t2, d1)
    \<and> reseal_stored_key env index digest' Write_done t2 d1 = (Inr (se_public_of env seed), t3, d3)
    \<and> (\<forall>g\<in>{digest, digest'}. \<exists>t4. open_sealed_key env index g s u' w t3 d3
         = (Inr \<lparr>ok_seed = seed, ok_public_key = se_public_of env seed, ok_provisioned = False\<rparr>, t4, d3))"
proof -
  obtain t1 d1 where 1: "open_sealed_key env index digest (Some seed) u Write_done t d
      = (Inr \<lparr>ok_seed = seed, ok_public_key = se_public_of env seed, ok_provisioned = True\<rparr>, t1, d1)" "key_at env v index t1 d1 seed [digest]"
    using provision_at [OF assms(1-4,7-10)] by blast
  obtain t2 where 2: "open_sealed_key env index digest s u' w t1 d1 = (Inr \<lparr>ok_seed = seed, ok_public_key = se_public_of env seed, ok_provisioned = False\<rparr>, t2, d1)"
      "key_at env v index t2 d1 seed [digest]"
    using start_at [OF assms(1,2) 1(2)] by fastforce
  obtain t3 d3 where 3: "reseal_stored_key env index digest' Write_done t2 d1 = (Inr (se_public_of env seed), t3, d3)"
      "key_at env v index t3 d3 seed [digest, digest']"
    using reseal_at [OF assms(1-3,5) 2(2)] assms(6) by (auto simp: last_n_def MAX_BLOBS_def)
  have "\<exists>t4. open_sealed_key env index g s u' w t3 d3 = (Inr \<lparr>ok_seed = seed, ok_public_key = se_public_of env seed, ok_provisioned = False\<rparr>, t4, d3)"
    if "g \<in> {digest, digest'}" for g
    using start_at [OF assms(1,2) 3(2)] that by fastforce
  with 1(1) 2(1) 3(1) show ?thesis by blast
qed

section \<open>A concrete TPM\<close>

text \<open>Its blobs are numbered: the private part is as long as the number and the public part is the policy.\<close>

record demo_tpm_state =
  dt_gate :: "(bytes \<times> bytes option) option"
  dt_sealed :: "(bytes \<times> bytes) list"
  dt_loaded :: "nat \<Rightarrow> (bytes \<times> bytes) option"
  dt_session :: "nat \<Rightarrow> bytes option"

definition demo_gate_name :: "bool \<Rightarrow> bytes" where
  "demo_gate_name w = (case gate_nv_name pad32 DEFAULT_GATE_NV_INDEX w of Some n \<Rightarrow> n | None \<Rightarrow> [])"

definition demo_find :: "demo_tpm_state \<Rightarrow> bytes \<times> bytes \<Rightarrow> (bytes \<times> bytes) option" where
  "demo_find t b = (let n = length (fst b) in
     if n < length (dt_sealed t) \<and> fst b = replicate n (CHR ''a'') \<and> fst (dt_sealed t ! n) = snd b then Some (dt_sealed t ! n) else None)"

definition demo_tpm_error :: "int \<Rightarrow> tpm_exception" where "demo_tpm_error e = \<lparr>tx_rc = None, tx_error = Some e\<rparr>"

definition demo_seal_ops :: "demo_tpm_state seal_ops" where
  "demo_seal_ops =
     \<lparr>so_from_public = (\<lambda>i t. (if dt_gate t = None then Inl (demo_tpm_error TPM_RC_HANDLE) else Inr 7, t)),
      so_read_public = (\<lambda>h t. (case dt_gate t of Some (n, _) \<Rightarrow> Inr n | None \<Rightarrow> Inl (demo_tpm_error 0), t)),
      so_define_space = (\<lambda>a t. (Inr 7, t\<lparr>dt_gate := Some (demo_gate_name False, None)\<rparr>)),
      so_nv_write = (\<lambda>h x t. if dt_gate t = None then (Inl (demo_tpm_error 0), t)
                             else (Inr (), t\<lparr>dt_gate := Some (demo_gate_name True, Some x)\<rparr>)),
      so_create_primary = (\<lambda>t. (Inr 1, t)),
      so_start_session = (\<lambda>p k t. (Inr 2, t\<lparr>dt_session := (dt_session t)(2 := Some (replicate 32 (CHR 0x00)))\<rparr>)),
      so_set_attributes = (\<lambda>s t. (Inr (), t)),
      so_create = (\<lambda>p s x y t. (Inr (replicate (length (dt_sealed t)) (CHR ''a''), y), t\<lparr>dt_sealed := dt_sealed t @ [(y, x)]\<rparr>)),
      so_load = (\<lambda>p a b t. case demo_find t (a, b) of None \<Rightarrow> (Inl (demo_tpm_error 0), t)
                           | Some q \<Rightarrow> (Inr 3, t\<lparr>dt_loaded := (dt_loaded t)(3 := Some q)\<rparr>)),
      so_policy_nv = (\<lambda>h s x t. case (dt_gate t, dt_session t s) of
          (Some (n, Some y), Some q) \<Rightarrow>
            if y = x then (Inr (), t\<lparr>dt_session := (dt_session t)(s := Some (pad32 (policy_text pad32 q x n)))\<rparr>)
            else (Inl (demo_tpm_error TPM_RC_POLICY), t)
        | _ \<Rightarrow> (Inl (demo_tpm_error 0), t)),
      so_unseal = (\<lambda>h s t. case (dt_loaded t h, dt_session t s) of
          (Some (p, x), Some q) \<Rightarrow> (if p = q then Inr x else Inl (demo_tpm_error TPM_RC_POLICY_FAIL), t)
        | _ \<Rightarrow> (Inl (demo_tpm_error 0), t)),
      so_flush = (\<lambda>h t. (Inr (), t)), so_private_ok = (\<lambda>_. True), so_auth_policy = Some\<rparr>"

definition demo_seal_view :: "demo_tpm_state seal_view" where
  "demo_seal_view = \<lparr>sv_gate = dt_gate, sv_sealed = demo_find, sv_loaded = dt_loaded, sv_session = dt_session\<rparr>"

definition demo_seal_env :: "demo_tpm_state seal_env" where
  "demo_seal_env = \<lparr>se_sha256 = pad32, se_public_of = id, se_ops = demo_seal_ops\<rparr>"

lemma demo_find_frame [simp]:
  "demo_find (t\<lparr>dt_gate := x\<rparr>) = demo_find t" "demo_find (t\<lparr>dt_loaded := y\<rparr>) = demo_find t" "demo_find (t\<lparr>dt_session := z\<rparr>) = demo_find t"
  by (simp_all add: fun_eq_iff demo_find_def Let_def)

lemma demo_find_policy: "demo_find t (a, b) = Some (p, x) \<Longrightarrow> p = b"
  by (auto simp: demo_find_def Let_def split: if_splits)

lemma demo_find_create:
  "demo_find (t\<lparr>dt_sealed := dt_sealed t @ [(y, x)]\<rparr>) = (demo_find t)((replicate (length (dt_sealed t)) (CHR ''a''), y) \<mapsto> (y, x))"
  "demo_find t (replicate (length (dt_sealed t)) (CHR ''a''), y) = None"
proof -
  show "demo_find t (replicate (length (dt_sealed t)) (CHR ''a''), y) = None" by (simp add: demo_find_def Let_def)
  show "demo_find (t\<lparr>dt_sealed := dt_sealed t @ [(y, x)]\<rparr>) = (demo_find t)((replicate (length (dt_sealed t)) (CHR ''a''), y) \<mapsto> (y, x))"
    by (rule ext) (auto simp: demo_find_def Let_def nth_append less_Suc_eq split: if_splits)
qed

lemma demo_seal_contract: "seal_contract demo_seal_ops demo_seal_view DEFAULT_GATE_NV_INDEX 7"
  unfolding seal_contract_def seal_frame_def keeps_def
  by (auto simp: demo_seal_ops_def demo_seal_view_def demo_find_create demo_tpm_error_def TPM_RC_HANDLE_def
      split: option.splits if_splits prod.splits dest: demo_find_policy)

lemma demo_range: "handle_range DEFAULT_GATE_NV_INDEX"
  by (simp add: handle_range_def DEFAULT_GATE_NV_INDEX_def)

lemma demo_seal_works: "seal_works pad32 demo_seal_ops demo_seal_view DEFAULT_GATE_NV_INDEX 7"
proof -
  have "gate_nv_name pad32 DEFAULT_GATE_NV_INDEX w = Some n \<Longrightarrow> demo_gate_name w = n" for w n
    by (simp add: demo_gate_name_def)
  then show ?thesis
    unfolding seal_works_def
    by (auto simp: demo_seal_ops_def demo_seal_view_def demo_find_create demo_tpm_error_def)
qed

abbreviation demo_bytes :: "char \<Rightarrow> bytes" where "demo_bytes c \<equiv> replicate 32 c"

definition demo_new_tpm :: demo_tpm_state where
  "demo_new_tpm = \<lparr>dt_gate = None, dt_sealed = [], dt_loaded = (\<lambda>_. None), dt_session = (\<lambda>_. None)\<rparr>"

definition demo_empty_dir :: sealed_dir where "demo_empty_dir = \<lparr>sd_file = No_file, sd_lock = None\<rparr>"

lemma demo_env [simp]: "se_sha256 demo_seal_env = pad32" "se_public_of demo_seal_env = id" "se_ops demo_seal_env = demo_seal_ops"
  by (simp_all add: demo_seal_env_def)

theorem sealed_key_survives_upgrade_witness:
  "\<exists>t1 d1 t2 t3 d3. open_sealed_key demo_seal_env DEFAULT_GATE_NV_INDEX (demo_bytes CHR ''d'') (Some (demo_bytes CHR ''s'')) [] Write_done demo_new_tpm demo_empty_dir
      = (Inr \<lparr>ok_seed = demo_bytes CHR ''s'', ok_public_key = demo_bytes CHR ''s'', ok_provisioned = True\<rparr>, t1, d1)
    \<and> reseal_stored_key demo_seal_env DEFAULT_GATE_NV_INDEX (demo_bytes CHR ''e'') Write_done t2 d1 = (Inr (demo_bytes CHR ''s''), t3, d3)
    \<and> (\<exists>t4. open_sealed_key demo_seal_env DEFAULT_GATE_NV_INDEX (demo_bytes CHR ''d'') None [] Write_done t3 d3
         = (Inr \<lparr>ok_seed = demo_bytes CHR ''s'', ok_public_key = demo_bytes CHR ''s'', ok_provisioned = False\<rparr>, t4, d3))"
proof -
  have "demo_bytes CHR ''d'' \<noteq> demo_bytes CHR ''e''" by (simp add: numeral_eq_Suc)
  from sealed_key_survives_upgrade [of "demo_seal_env" demo_seal_view DEFAULT_GATE_NV_INDEX 7 "demo_bytes CHR ''d''" "demo_bytes CHR ''e''"
      "demo_bytes CHR ''s''" demo_new_tpm demo_empty_dir "[]" None "[]" Write_done, OF _ _ demo_range _ _ this]
  show ?thesis
    using demo_seal_contract demo_seal_works by (simp add: demo_new_tpm_def demo_seal_view_def demo_empty_dir_def) blast
qed

definition demo_sealed_tpm :: demo_tpm_state where
  "demo_sealed_tpm = demo_new_tpm\<lparr>dt_gate := Some (demo_gate_name True, Some (GATE_SENTINEL pad32)), dt_sealed := [([], demo_bytes CHR ''s'')]\<rparr>"

theorem gate_closed_after_command_witness:
  "\<exists>t' d'. run_command demo_seal_env DEFAULT_GATE_NV_INDEX Write_done (Start_gateway (demo_bytes CHR ''d'') (Some (demo_bytes CHR ''s'')) [])
       demo_new_tpm demo_empty_dir = (Inr (), t', d') \<and> \<not> gate_open demo_seal_env demo_seal_view t'"
proof -
  let ?env = "demo_seal_env" and ?i = DEFAULT_GATE_NV_INDEX and ?d = "demo_bytes CHR ''d''" and ?s = "demo_bytes CHR ''s''"
  have c: "seal_contract (se_ops ?env) demo_seal_view ?i 7" "seal_works (se_sha256 ?env) (se_ops ?env) demo_seal_view ?i 7"
    using demo_seal_contract demo_seal_works by simp_all
  obtain k t1 d1 where "open_sealed_key ?env ?i ?d (Some ?s) [] Write_done demo_new_tpm demo_empty_dir = (Inr k, t1, d1)"
    using provision_at [OF c demo_range, of ?d ?s demo_new_tpm demo_empty_dir "[]"]
    by (auto simp: demo_new_tpm_def demo_seal_view_def demo_empty_dir_def)
  then have run: "run_command ?env ?i Write_done (Start_gateway ?d (Some ?s) []) demo_new_tpm demo_empty_dir = (Inr (), t1, d1)"
    by (simp add: no_result_def)
  have "\<not> gate_open ?env demo_seal_view demo_new_tpm" by (simp add: gate_open_def demo_seal_view_def demo_new_tpm_def)
  from gate_closed_after_command [OF c(1) run this] run show ?thesis by blast
qed

theorem start_mints_only_when_fresh_witness:
  "\<exists>t'. open_sealed_key demo_seal_env DEFAULT_GATE_NV_INDEX (demo_bytes CHR ''d'') None (demo_bytes CHR ''s'') Write_done demo_sealed_tpm demo_empty_dir
     = (Inl Sealed_key_missing, t', demo_empty_dir) \<and> demo_find t' = demo_find demo_sealed_tpm"
proof -
  obtain r t' d' where run: "open_sealed_key demo_seal_env DEFAULT_GATE_NV_INDEX (demo_bytes CHR ''d'') None (demo_bytes CHR ''s'') Write_done
      demo_sealed_tpm demo_empty_dir = (r, t', d')" by (metis prod.exhaust)
  have "r = Inl Sealed_key_missing"
    using run by (auto simp: open_sealed_key_def demo_empty_dir_def gate_handle_def demo_seal_ops_def demo_sealed_tpm_def)
  with start_mints_only_when_fresh [OF _ run, of demo_seal_view 7] run demo_seal_contract show ?thesis
    by (auto simp: demo_seal_view_def demo_sealed_tpm_def)
qed


end
