(* ===== verification/Spec2Isabelle.thy ===== *)
theory Spec2Isabelle
  imports Sqlite_Session Policy_Eval Approval Sink_Policy Gateway_Server Call_Response
    Verify_Export Verify_Verdict Event_Log Verify_Refusal Measurement Disclosure Agent_Manifest
    Inspection Seal_Guarantees
begin

text \<open>
  A verification library for the cMCP gateway, a policy-enforcing proxy for the
  Model Context Protocol that runs in a trusted execution environment and
  leaves a signed, attested record of what it did. Paths below are under
  \<open>src/src/cmcp_runtime\<close> unless they start with \<open>cmcp_verify\<close>.

  \<^bold>\<open>How the parts interact.\<close> The session manager opens a session: a
  sensitivity state and an audit chain, whose root it commits into an
  attestation report. Each tool call is looked up in the catalog, judged by the
  policy evaluator against the policy bundle in force, forwarded, inspected
  and appended to the chain, and its outcome is counted by the kill
  switch. Closing the session turns the chain into a signed claim that names the claim before it.

  \<^bold>\<open>Conventions.\<close> Python strings and bytes are \<^typ>\<open>string\<close> (characters below 256). A
  dictionary is a map, or an association list where its order is observed.
  An exception is the left part of a sum; an operation that changes objects before it
  raises gives its result beside the objects it leaves. Clock readings, fresh identifiers
  and the contents of files are arguments. Code that is not in the repository is an
  argument too: SHA-256, Ed25519, the RFC 8785 serialiser, the Cedar engine, the JSON
  schema validator, the \<open>agentrust_trace\<close> models and the hardware report providers. Results on
  digests say which two inputs would have to collide; that some inputs do holds of every
  hash.

  \<^bold>\<open>Theories.\<close>
  \<^item> \<open>Prelude\<close>: results, dictionaries, counting, text operations, collisions.
  \<^item> \<open>Json\<close>: values and \<open>json.dumps(sort_keys, separators, ensure_ascii)\<close>; the canonical text
    determines the document up to the order of keys.
  \<^item> \<open>Encoding\<close>: hexadecimal and base64url, and \<open>decode_trace_token\<close> of \<open>trace_gate.py\<close>.
  \<^item> \<open>Datetime\<close>: UTC time stamps, \<open>isoformat\<close> and back, elapsed time.
  \<^item> \<open>Tee_Base\<close>: \<open>tee/base.py\<close> and \<open>tee/report_binding.py\<close>; what a nonce commits.
  \<^item> \<open>Hash_Chain\<close>: the locale \<open>hash_linked\<close>, interpreted on the audit chain and on the chain of claims;
    the last digest determines the log.
  \<^item> \<open>Audit_Chain\<close>: \<open>audit/chain.py\<close> and \<open>audit/store.py\<close>; the chain invariant over every reachable
    chain, append-only growth, the anchor.
  \<^item> \<open>Session_State\<close>, \<open>Sqlite_Session\<close>: \<open>session/state.py\<close> and \<open>session/store.py\<close>; the sensitivity ratchet on one
    instance and across instances that share a store, over a locale for the store protocol; the
    transaction discipline of \<open>exclusive\<close>.
  \<^item> \<open>Policy_Decisions\<close>, \<open>Policy_Bundle\<close>, \<open>Policy_Eval\<close>: the \<open>policy\<close> package; key revocation, hot reload,
    evaluation and egress.
  \<^item> \<open>Catalog\<close>, \<open>Approval\<close>: the \<open>catalog\<close> package.
  \<^item> \<open>Call_Log\<close>, \<open>Float_Ratio\<close>, \<open>Kill_Switch\<close>, \<open>Sink_Policy\<close>: \<open>session/call_log.py\<close>, \<open>kill_switch.py\<close> with the
    rounding of its quotient, \<open>sink_policy.py\<close>.
  \<^item> \<open>Trace_Claim\<close>: \<open>audit/trace_claim.py\<close>; what the signature covers.
  \<^item> \<open>Session_Manager\<close>, \<open>Session_Lifecycle\<close>: \<open>session/manager.py\<close> and its properties: closing once,
    bound hardware claims, the chain of claims, blocked identities, call accounting.
  \<^item> \<open>Provenance\<close>: \<open>mcp/discovery.py\<close> and \<open>provenance.py\<close>; a listing is complete or refused, and what a
    verified record is worth.
  \<^item> \<open>Http_Transport\<close>: \<open>mcp/bounded_http.py\<close>, \<open>mcp/streamable_http.py\<close>, \<open>mcp/tls_pinning.py\<close>; bounded bodies, header
    safety, correlated responses, pinned certificates.
  \<^item> \<open>Proxy_Lifecycle\<close>: admission, draining and session transitions of \<open>mcp/proxy.py\<close>. Its coroutines are
    cut at their awaits and \<open>life_step\<close> interleaves the pieces; a session body runs alone.
  \<^item> \<open>Execution_Registry\<close>: \<open>execution/registry.py\<close>; an execution is admitted at most once, over a refinement of
    the protocol of one reservation.
  \<^item> \<open>Regex\<close>, \<open>Runtime_Gateway\<close>: \<open>runtime_gateway.py\<close>; its patterns are regular expressions with a matcher that is
    proved equal to the inductive definition of a match.
  \<^item> \<open>Proxy_Call_State\<close>, \<open>Proxy_Upstream\<close>, \<open>Proxy_Call\<close>: one tool call of \<open>mcp/proxy.py\<close>, from admission to the terminal entry.
    A call is composed of steps that continue, return or raise; at every await a
    parameter says what other tasks do to the shared objects.
  \<^item> \<open>Call_Logic\<close>: how calls are reasoned about. Locales name the changes a relation between the states before and after
    has to allow, and carry it through every stage. \<open>Call_Properties\<close>, \<open>Call_Response\<close>: what must precede a request to
    an upstream, the one terminal entry, the record of a result, the sensitivity a response leaves; \<open>Call_Sample\<close> is a
    concrete call. They rely on others only letting the shared objects evolve (\<open>rely\<close>), as each call itself is shown to do.
  \<^item> \<open>Gateway_Server\<close>: the close, kill switch and reset endpoints of \<open>mcp/server.py\<close> over the session
    manager and the proxy lifecycle.
  \<^item> \<open>Verify_Base\<close>: Python's dictionary access, truth and equality on JSON values, for the verifier.
  \<^item> \<open>Verify_Bundle\<close>, \<open>Verify_Export\<close>: \<open>verify_audit_bundle\<close> of \<open>cmcp_verify/verify.py\<close>, and its composition with the runtime:
    what the gateway exports is accepted, and what is accepted with a claim is the log that was recorded.
  \<^item> \<open>Verify_Platform\<close>: \<open>cmcp_verify/sev_snp.py\<close>, \<open>tdx.py\<close>, \<open>tpm.py\<close>, \<open>azure_cvm.py\<close>, \<open>platform_policy.py\<close>. Certificates, signatures and the report
    parsers of other packages are the functions of \<open>platform_env\<close>.
  \<^item> \<open>Verify_Claim\<close>, \<open>Verify_Verdict\<close>: \<open>verify_trace_claim\<close> of \<open>cmcp_verify/verify.py\<close> as a sequence of steps over the lists of verified and
    unverified fields, and what each verdict establishes.
  \<^item> \<open>Event_Log\<close>: \<open>cmcp_verify/tcg_event_log.py\<close>; its parser loop ends on every input, reads back what was written, and a log
    that replays to the reported registers is the log that was extended.
  \<^item> \<open>Verify_Refusal\<close>: \<open>cmcp_verify/kill_switch.py\<close>; what a refusal receipt with no error agrees with.
  \<^item> \<open>Nv_Certify\<close>: \<open>cmcp_verify/nv_policy.py\<close> and \<open>nv_certify.py\<close>, the appraisal of a certified measurement index.
  \<^item> \<open>Measurement\<close>: \<open>tee/measurement.py\<close>; the digest of code, policy and configuration commits to them, and what the collector
    certifies on a TPM is what the appraisal accepts. A TPM is a record of operations with a contract.
  \<^item> \<open>Disclosure\<close>: \<open>disclosure.py\<close>, the gate that releases one exact output to a recipient above its ceiling. A release is cut at
    its store operations, clock readings and delivery; over every interleaving of releases that share a store, a request is
    delivered at most once and the audit rows are true.
  \<^item> \<open>Manifest_Catalog\<close>, \<open>Agent_Manifest\<close>: \<open>manifest_catalog.py\<close> and \<open>agent_manifest.py\<close>; loading, appraisal and binding of a signed Agent Manifest, and
    the confirmation of the bound identity by \<open>cmcp_verify/verify.py\<close>. The \<open>agent_manifest\<close> package is a record of functions.
  \<^item> \<open>Inspection\<close>: \<open>inspection/pipeline.py\<close> and its pattern file; what denies a response, what is redacted, what the session learns.

  \<^item> \<open>Sealed_Key\<close>, \<open>Seal_Guarantees\<close>: \<open>tee/seal.py\<close>, the signing key sealed to the gateway measurement, and \<open>bundle_hash_of_files\<close> of
    \<open>policy/bundle.py\<close> that a reload seals to. The TPM is a record of operations with a contract (\<open>seal_contract\<close>, and \<open>seal_works\<close> for one that
    does not fail); over every history of operations a key is returned only under a digest it was approved for, the gate is
    closed again after each, and the key outlives an upgrade.

  \<^bold>\<open>Bounds.\<close> No definition uses fuel: a loop is a structural recursion on the list it
  reads, or \<open>while_option\<close> with a proof that it returns (the event log). Characters above 255 are not represented.

  \<^bold>\<open>Not modelled.\<close> The stdio pipes and the HTTP framing of \<open>mcp\<close>, startup and configuration, the
  hardware providers of \<open>tee\<close>, telemetry, and of the verifier package the vendor roots and the
  embodied action check.
\<close>

end
